(* ===== verification/CokePrelude.thy ===== *)
theory CokePrelude
  imports Main "HOL-Library.AList" "HOL-Library.List_Lexorder" "HOL-Library.Char_ord"
begin

text \<open>
  What every component of the development shares: Python values, Python exceptions as a
  datatype, computations that read and write a state and may raise (a raise keeps the state
  reached so far, as in Python), dictionaries as association lists in insertion order, and the
  string operations the code applies to ASCII text.
\<close>

section \<open>Python values and exceptions\<close>

text \<open>
  \<open>pyval\<close> is a value of type \<open>Any\<close>: what the code stores in payloads and facts, and what it
  accepts for a duration or a recurrence rule. \<open>PyTime\<close> is a \<open>datetime.time\<close>, as its
  microseconds since midnight (modulo a day); \<open>PyObj\<close> is any object the code does not inspect further.
\<close>

datatype pyval =
    PyNone
  | PyBool bool
  | PyInt int
  | PyStr string
  | PyTime int
  | PyList "pyval list"
  | PyDict "(string \<times> pyval) list"
  | PyObj string

type_synonym fact = "(string \<times> pyval) list"

text \<open>
  The exceptions of the modelled code. \<open>ReminderTemporalError\<close> is a subclass of
  \<open>ValueError\<close>, and the error class of each domain is a subclass of \<open>RuntimeError\<close>; \<open>is_value_error\<close> and
  \<open>is_runtime_error\<close> say what an \<open>except\<close> clause for the base class catches.
\<close>

datatype pyexn =
    ValueError string
  | TypeError
  | OverflowError
  | KeyError
  | IndexError
  | ZoneInfoNotFoundError
  | HTTPError
  | RuntimeError string
  | ReminderTemporalError string
  | ReminderError string "fact option"
  | ConversationRuntimeError string "fact option"
  | SocialSchedulingError string "fact option"
  | IdentityAccessError string "fact option"
  | ChannelReachabilityError string "fact option"
  | SettingsError string "fact option"
  | CalendarImportError string "fact option"

fun is_value_error :: "pyexn \<Rightarrow> bool" where
  "is_value_error (ValueError _) = True"
| "is_value_error (ReminderTemporalError _) = True"
| "is_value_error _ = False"

fun is_runtime_error :: "pyexn \<Rightarrow> bool" where
  "is_runtime_error (RuntimeError _) = True"
| "is_runtime_error (ReminderError _ _) = True"
| "is_runtime_error (ConversationRuntimeError _ _) = True"
| "is_runtime_error (SocialSchedulingError _ _) = True"
| "is_runtime_error (IdentityAccessError _ _) = True"
| "is_runtime_error (ChannelReachabilityError _ _) = True"
| "is_runtime_error (SettingsError _ _) = True"
| "is_runtime_error (CalendarImportError _ _) = True"
| "is_runtime_error _ = False"

section \<open>Computations with a state and exceptions\<close>

text \<open>
  A method is a function from the state to its outcome (\<open>Inl\<close> an exception, \<open>Inr\<close> the value
  returned) and the state it leaves. A raise does not undo what was written before it.
\<close>

type_synonym ('s, 'a) py = "'s \<Rightarrow> (pyexn + 'a) \<times> 's"

definition ret :: "'a \<Rightarrow> ('s, 'a) py" where
  "ret x = (\<lambda>s. (Inr x, s))"

definition raise :: "pyexn \<Rightarrow> ('s, 'a) py" where
  "raise e = (\<lambda>s. (Inl e, s))"

definition bind :: "('s, 'a) py \<Rightarrow> ('a \<Rightarrow> ('s, 'b) py) \<Rightarrow> ('s, 'b) py" where
  "bind m f = (\<lambda>s. case m s of (Inl e, t) \<Rightarrow> (Inl e, t) | (Inr x, t) \<Rightarrow> f x t)"

definition gets :: "('s \<Rightarrow> 'a) \<Rightarrow> ('s, 'a) py" where
  "gets f = (\<lambda>s. (Inr (f s), s))"

definition modify :: "('s \<Rightarrow> 's) \<Rightarrow> ('s, unit) py" where
  "modify f = (\<lambda>s. (Inr (), f s))"

text \<open>A pure step that may raise.\<close>

definition lift :: "pyexn + 'a \<Rightarrow> ('s, 'a) py" where
  "lift r = (\<lambda>s. (r, s))"

text \<open>\<open>if found: raise ValueError(code)\<close>, as the repositories check their constraints.\<close>

definition refuse_if :: "('s \<Rightarrow> bool) \<Rightarrow> string \<Rightarrow> ('s, unit) py" where
  "refuse_if found code = bind (gets found) (\<lambda>b. if b then raise (ValueError code) else ret ())"

text \<open>\<open>try: m except: h\<close>, where \<open>h\<close> raises again what its clauses do not name.\<close>

definition catch :: "('s, 'a) py \<Rightarrow> (pyexn \<Rightarrow> ('s, 'a) py) \<Rightarrow> ('s, 'a) py" where
  "catch m h = (\<lambda>s. case m s of (Inl e, t) \<Rightarrow> h e t | (Inr x, t) \<Rightarrow> (Inr x, t))"

primrec for_each :: "'x list \<Rightarrow> ('x \<Rightarrow> ('s, unit) py) \<Rightarrow> ('s, unit) py" where
  "for_each [] f = ret ()"
| "for_each (x # xs) f = bind (f x) (\<lambda>_. for_each xs f)"

primrec map_py :: "('x \<Rightarrow> ('s, 'b) py) \<Rightarrow> 'x list \<Rightarrow> ('s, 'b list) py" where
  "map_py f [] = ret []"
| "map_py f (x # xs) = bind (f x) (\<lambda>y. bind (map_py f xs) (\<lambda>ys. ret (y # ys)))"

text \<open>Errors without a state: the same sequencing on sums.\<close>

definition sbind :: "'e + 'a \<Rightarrow> ('a \<Rightarrow> 'e + 'b) \<Rightarrow> 'e + 'b" where
  "sbind r f = (case r of Inl e \<Rightarrow> Inl e | Inr x \<Rightarrow> f x)"

lemma sbind_simps [simp]: "sbind (Inl e) f = Inl e" "sbind (Inr x) f = f x"
  by (simp_all add: sbind_def)

lemma sbind_Inr_iff: "sbind r f = Inr y \<longleftrightarrow> (\<exists>x. r = Inr x \<and> f x = Inr y)"
  by (cases r) simp_all

lemma sbind_Inl_iff: "sbind r f = Inl e \<longleftrightarrow> r = Inl e \<or> (\<exists>x. r = Inr x \<and> f x = Inl e)"
  by (cases r) simp_all

primrec map_sum_list :: "('x \<Rightarrow> 'e + 'b) \<Rightarrow> 'x list \<Rightarrow> 'e + 'b list" where
  "map_sum_list f [] = Inr []"
| "map_sum_list f (x # xs) = sbind (f x) (\<lambda>y. sbind (map_sum_list f xs) (\<lambda>ys. Inr (y # ys)))"

lemma map_sum_list_Inr_iff:
  "map_sum_list f xs = Inr ys \<longleftrightarrow> list_all2 (\<lambda>x y. f x = Inr y) xs ys"
  by (induction xs arbitrary: ys) (auto simp: sbind_Inr_iff list_all2_Cons1)

subsection \<open>Running a computation\<close>

text \<open>
  The equations are code equations as well: with the state as an argument, evaluating a sequence
  never simplifies a continuation before its turn.
\<close>

named_theorems py_run \<open>equations that run a computation on a state\<close>

lemma ret_run [py_run, code]: "ret x s = (Inr x, s)"
  by (simp add: ret_def)

lemma raise_run [py_run, code]: "raise e s = (Inl e, s)"
  by (simp add: raise_def)

lemma gets_run [py_run, code]: "gets f s = (Inr (f s), s)"
  by (simp add: gets_def)

lemma modify_run [py_run, code]: "modify f s = (Inr (), f s)"
  by (simp add: modify_def)

lemma lift_run [py_run, code]: "lift r s = (r, s)"
  by (simp add: lift_def)

lemma bind_run [py_run, code]:
  "bind m f s = (case m s of (Inl e, t) \<Rightarrow> (Inl e, t) | (Inr x, t) \<Rightarrow> f x t)"
  by (simp add: bind_def)

lemma catch_run [py_run, code]:
  "catch m h s = (case m s of (Inl e, t) \<Rightarrow> h e t | (Inr x, t) \<Rightarrow> (Inr x, t))"
  by (simp add: catch_def)

text \<open>What an evaluation says of a run.\<close>

lemma returned: "map_sum id f (fst p) = Inr y \<Longrightarrow> \<exists>res. p = (Inr res, snd p) \<and> f res = y"
  by (cases p; cases "fst p") auto

lemma bind_ret [simp]: "bind (ret x) f = f x"
  by (simp add: bind_def ret_def)

lemma bind_raise [simp]: "bind (raise e) f = raise e"
  by (simp add: bind_def raise_def)

subsection \<open>Weakest preconditions\<close>

text \<open>
  \<open>wp m Q E s\<close>: run from \<open>s\<close>, \<open>m\<close> either returns with \<open>Q\<close> or raises with \<open>E\<close>. Every method
  of the development terminates (they are HOL functions), so this is total correctness. The
  equations in \<open>wp_simps\<close> compute it, so a goal about a method is left to \<open>simp\<close>.
\<close>

definition wp :: "('s, 'a) py \<Rightarrow> ('a \<Rightarrow> 's \<Rightarrow> bool) \<Rightarrow> (pyexn \<Rightarrow> 's \<Rightarrow> bool) \<Rightarrow> 's \<Rightarrow> bool" where
  "wp m Q E s = (case m s of (Inl e, t) \<Rightarrow> E e t | (Inr x, t) \<Rightarrow> Q x t)"

named_theorems wp_simps \<open>equations for weakest preconditions\<close>

lemma wp_ret [wp_simps]: "wp (ret x) Q E = Q x"
  by (simp add: wp_def ret_def fun_eq_iff)

lemma wp_raise [wp_simps]: "wp (raise e) Q E = E e"
  by (simp add: wp_def raise_def fun_eq_iff)

lemma wp_gets [wp_simps]: "wp (gets f) Q E = (\<lambda>s. Q (f s) s)"
  by (simp add: wp_def gets_def fun_eq_iff)

lemma wp_modify [wp_simps]: "wp (modify f) Q E = (\<lambda>s. Q () (f s))"
  by (simp add: wp_def modify_def fun_eq_iff)

lemma wp_lift [wp_simps]: "wp (lift r) Q E = (case r of Inl e \<Rightarrow> E e | Inr x \<Rightarrow> Q x)"
  by (simp add: wp_def lift_def fun_eq_iff split: sum.splits)

lemma wp_bind [wp_simps]: "wp (bind m f) Q E = wp m (\<lambda>x. wp (f x) Q E) E"
  by (simp add: wp_def bind_def fun_eq_iff split: sum.splits prod.splits)

lemma wp_catch [wp_simps]: "wp (catch m h) Q E = wp m Q (\<lambda>e. wp (h e) Q E)"
  by (simp add: wp_def catch_def fun_eq_iff split: sum.splits prod.splits)

lemma wp_if [wp_simps]: "wp (if b then m else n) Q E = (if b then wp m Q E else wp n Q E)"
  by simp

lemma wp_case_option [wp_simps]:
  "wp (case x of None \<Rightarrow> m | Some y \<Rightarrow> f y) Q E =
     (case x of None \<Rightarrow> wp m Q E | Some y \<Rightarrow> wp (f y) Q E)"
  by (cases x) simp_all

lemma wp_mono:
  assumes "wp m Q E s" "\<And>x t. Q x t \<Longrightarrow> Q' x t" "\<And>e t. E e t \<Longrightarrow> E' e t"
  shows "wp m Q' E' s"
  using assms by (auto simp: wp_def split: sum.splits prod.splits)

lemma wp_conj: "wp m Q E s \<Longrightarrow> wp m Q' E' s \<Longrightarrow> wp m (\<lambda>x t. Q x t \<and> Q' x t) (\<lambda>e t. E e t \<and> E' e t) s"
  by (auto simp: wp_def split: sum.splits prod.splits)

lemma wp_InrD: "wp m Q E s \<Longrightarrow> m s = (Inr x, t) \<Longrightarrow> Q x t"
  by (simp add: wp_def)

lemma wp_InlD: "wp m Q E s \<Longrightarrow> m s = (Inl e, t) \<Longrightarrow> E e t"
  by (simp add: wp_def)

text \<open>The loop rules: an invariant of the body holds after the loop.\<close>

lemma wp_for_each:
  assumes "\<And>x s. x \<in> set xs \<Longrightarrow> I s \<Longrightarrow> wp (f x) (\<lambda>_. I) E s" and "I s"
  shows "wp (for_each xs f) (\<lambda>_. I) E s"
  using assms
proof (induction xs arbitrary: s)
  case Nil
  then show ?case by (simp add: wp_simps)
next
  case (Cons x xs)
  have rest: "wp (for_each xs f) (\<lambda>_. I) E t" if "I t" for t
    using Cons.IH Cons.prems(1) that by simp
  from Cons.prems have "wp (f x) (\<lambda>_. I) E s" by simp
  then have "wp (f x) (\<lambda>_. wp (for_each xs f) (\<lambda>_. I) E) E s"
    by (rule wp_mono) (simp_all add: rest)
  then show ?case by (simp add: wp_simps)
qed

lemma wp_map_py:
  assumes "\<And>x s. x \<in> set xs \<Longrightarrow> I s \<Longrightarrow> wp (f x) (\<lambda>_. I) E s" and "I s"
  shows "wp (map_py f xs) (\<lambda>_. I) E s"
  using assms
proof (induction xs arbitrary: s)
  case Nil
  then show ?case by (simp add: wp_simps)
next
  case (Cons x xs)
  have rest: "wp (map_py f xs) (\<lambda>_. I) E t" if "I t" for t
    using Cons.IH Cons.prems(1) that by simp
  have rest': "wp (bind (map_py f xs) (\<lambda>ys. ret (y # ys))) (\<lambda>_. I) E t" if "I t" for t y
    using rest [OF that] by (simp add: wp_simps)
  from Cons.prems have "wp (f x) (\<lambda>_. I) E s" by simp
  then have "wp (f x) (\<lambda>y. wp (bind (map_py f xs) (\<lambda>ys. ret (y # ys))) (\<lambda>_. I) E) E s"
    by (rule wp_mono) (simp_all add: rest')
  then show ?case by (simp add: wp_bind wp_ret)
qed

subsection \<open>Preservation\<close>

text \<open>
  \<open>preserves I m\<close>: from a state with \<open>I\<close>, the state \<open>m\<close> leaves has \<open>I\<close>, whether it returns or
  raises. The introduction rules follow the structure of a method.
\<close>

definition preserves :: "('s \<Rightarrow> bool) \<Rightarrow> ('s, 'a) py \<Rightarrow> bool" where
  "preserves I m \<longleftrightarrow> (\<forall>s. I s \<longrightarrow> wp m (\<lambda>_. I) (\<lambda>_. I) s)"

named_theorems preserves_intros \<open>rules that derive preservation from a method's structure\<close>

lemma preservesI: "(\<And>s. I s \<Longrightarrow> wp m (\<lambda>_. I) (\<lambda>_. I) s) \<Longrightarrow> preserves I m"
  by (simp add: preserves_def)

lemma preservesD: "preserves I m \<Longrightarrow> I s \<Longrightarrow> I (snd (m s))"
  by (cases "m s"; cases "fst (m s)") (auto simp: preserves_def wp_def dest: spec [of _ s])

lemma preserves_run: "preserves I m \<Longrightarrow> I s \<Longrightarrow> m s = (r, t) \<Longrightarrow> I t"
  using preservesD [of I m s] by simp

lemma preserves_ret [preserves_intros]: "preserves I (ret x)"
  by (simp add: preserves_def wp_simps)

lemma preserves_raise [preserves_intros]: "preserves I (raise e)"
  by (simp add: preserves_def wp_simps)

lemma preserves_gets [preserves_intros]: "preserves I (gets f)"
  by (simp add: preserves_def wp_simps)

lemma preserves_lift [preserves_intros]: "preserves I (lift r)"
  by (simp add: preserves_def wp_simps split: sum.splits)

lemma preserves_bind [preserves_intros]:
  assumes "preserves I m" and "\<And>x. preserves I (f x)"
  shows "preserves I (bind m f)"
proof (rule preservesI)
  fix s
  assume "I s"
  with assms(1) have "wp m (\<lambda>_. I) (\<lambda>_. I) s" by (simp add: preserves_def)
  then show "wp (bind m f) (\<lambda>_. I) (\<lambda>_. I) s"
    unfolding wp_bind by (rule wp_mono) (use assms(2) in \<open>simp_all add: preserves_def\<close>)
qed

lemma preserves_catch [preserves_intros]:
  assumes "preserves I m" and "\<And>e. preserves I (h e)"
  shows "preserves I (catch m h)"
proof (rule preservesI)
  fix s
  assume "I s"
  with assms(1) have "wp m (\<lambda>_. I) (\<lambda>_. I) s" by (simp add: preserves_def)
  then show "wp (catch m h) (\<lambda>_. I) (\<lambda>_. I) s"
    unfolding wp_catch by (rule wp_mono) (use assms(2) in \<open>simp_all add: preserves_def\<close>)
qed

lemma preserves_if [preserves_intros]:
  "(b \<Longrightarrow> preserves I m) \<Longrightarrow> (\<not> b \<Longrightarrow> preserves I n) \<Longrightarrow> preserves I (if b then m else n)"
  by simp

lemma preserves_case_option [preserves_intros]:
  "(x = None \<Longrightarrow> preserves I m) \<Longrightarrow> (\<And>y. x = Some y \<Longrightarrow> preserves I (f y)) \<Longrightarrow>
    preserves I (case x of None \<Rightarrow> m | Some y \<Rightarrow> f y)"
  by (cases x) simp_all

lemma preserves_case_sum [preserves_intros]:
  "(\<And>a. x = Inl a \<Longrightarrow> preserves I (f a)) \<Longrightarrow> (\<And>b. x = Inr b \<Longrightarrow> preserves I (g b)) \<Longrightarrow>
    preserves I (case x of Inl a \<Rightarrow> f a | Inr b \<Rightarrow> g b)"
  by (cases x) simp_all

lemma preserves_case_prod [preserves_intros]:
  "(\<And>a b. x = (a, b) \<Longrightarrow> preserves I (f a b)) \<Longrightarrow> preserves I (case x of (a, b) \<Rightarrow> f a b)"
  by (cases x) simp

lemma preserves_Let [preserves_intros]:
  "preserves I (f x) \<Longrightarrow> preserves I (let y = x in f y)"
  by simp

lemma preserves_for_each [preserves_intros]:
  "(\<And>x. x \<in> set xs \<Longrightarrow> preserves I (f x)) \<Longrightarrow> preserves I (for_each xs f)"
  by (rule preservesI, rule wp_for_each) (simp_all add: preserves_def)

lemma preserves_map_py [preserves_intros]:
  "(\<And>x. x \<in> set xs \<Longrightarrow> preserves I (f x)) \<Longrightarrow> preserves I (map_py f xs)"
  by (rule preservesI, rule wp_map_py) (simp_all add: preserves_def)

lemma preserves_modify: "(\<And>s. I s \<Longrightarrow> I (f s)) \<Longrightarrow> preserves I (modify f)"
  by (simp add: preserves_def wp_simps)

lemma preserves_conj: "preserves I m \<Longrightarrow> preserves J m \<Longrightarrow> preserves (\<lambda>s. I s \<and> J s) m"
  by (simp add: preserves_def wp_conj)

section \<open>Dictionaries\<close>

text \<open>
  A Python \<open>dict\<close> keeps insertion order, and assigning to a key it holds keeps the key's place:
  that is an association list under \<open>AList.update\<close>.
\<close>

type_synonym ('k, 'v) dict = "('k \<times> 'v) list"

abbreviation dget :: "('k, 'v) dict \<Rightarrow> 'k \<Rightarrow> 'v option" where
  "dget \<equiv> map_of"

abbreviation dput :: "'k \<Rightarrow> 'v \<Rightarrow> ('k, 'v) dict \<Rightarrow> ('k, 'v) dict" where
  "dput \<equiv> AList.update"

abbreviation dpop :: "'k \<Rightarrow> ('k, 'v) dict \<Rightarrow> ('k, 'v) dict" where
  "dpop \<equiv> AList.delete"

abbreviation dvalues :: "('k, 'v) dict \<Rightarrow> 'v list" where
  "dvalues d \<equiv> map snd d"

lemma dget_dput [simp]: "dget (dput k v d) k' = (if k' = k then Some v else dget d k')"
  by (simp add: update_conv')

lemma dget_dpop [simp]: "dget (dpop k d) k' = (if k' = k then None else dget d k')"
  by (simp add: delete_conv')

text \<open>
  A dictionary keyed by a field of its values: the invariant of every \<open>*_by_id\<close> attribute.
\<close>

definition keyed :: "('v \<Rightarrow> 'k) \<Rightarrow> ('k, 'v) dict \<Rightarrow> bool" where
  "keyed f d \<longleftrightarrow> distinct (map fst d) \<and> (\<forall>k v. dget d k = Some v \<longrightarrow> f v = k)"

lemma keyed_Nil [simp]: "keyed f []"
  by (simp add: keyed_def)

lemma keyed_dput [intro]: "keyed f d \<Longrightarrow> f v = k \<Longrightarrow> keyed f (dput k v d)"
  by (auto simp: keyed_def distinct_update)

lemma keyed_dpop [intro]: "keyed f d \<Longrightarrow> keyed f (dpop k d)"
  by (auto simp: keyed_def distinct_delete)

lemma keyed_get: "keyed f d \<Longrightarrow> dget d k = Some v \<Longrightarrow> f v = k"
  by (simp add: keyed_def)

lemma keyed_values: "keyed f d \<Longrightarrow> v \<in> set (dvalues d) \<longleftrightarrow> dget d (f v) = Some v"
  by (force simp: keyed_def dest: map_of_SomeD)

lemma keyed_values_dput:
  assumes "keyed f d" and "f v = k"
  shows "w \<in> set (dvalues (dput k v d)) \<longleftrightarrow> w = v \<or> (f w \<noteq> k \<and> w \<in> set (dvalues d))"
  using keyed_values [OF assms(1), of w] keyed_values [OF keyed_dput [OF assms], of w] assms(2)
  by auto

text \<open>Searching the values of a dictionary.\<close>

lemma dget_values: "dget d k = Some v \<Longrightarrow> v \<in> set (dvalues d)"
  by (force dest: map_of_SomeD)

lemma find_keyed:
  "keyed pk d \<Longrightarrow> find P (dvalues d) = Some v \<Longrightarrow> dget d (pk v) = Some v \<and> P v"
  by (metis find_Some_iff keyed_values nth_mem)

lemma find_none: "find P (dvalues d) = None \<Longrightarrow> dget d k = Some v \<Longrightarrow> \<not> P v"
  by (metis find_None_iff dget_values)

lemma keyed_distinct: "keyed f d \<Longrightarrow> distinct (map f (dvalues d))"
proof -
  assume k: "keyed f d"
  then have "f v = k'" if "(k', v) \<in> set d" for k' v
    using that by (auto simp: keyed_def)
  then have "map f (dvalues d) = map fst d" by auto
  moreover from k have "distinct (map fst d)" by (simp add: keyed_def)
  ultimately show "distinct (map f (dvalues d))" by (simp only:)
qed

lemma keyed_distinct_values: "keyed f d \<Longrightarrow> distinct (dvalues d)"
  using keyed_distinct [of f d] distinct_map [of f "dvalues d"] by blast

lemma distinct_map_sort_filter:
  "distinct (map f xs) \<Longrightarrow> distinct (map f (sort_key g (filter P xs)))"
  by (auto simp: distinct_map inj_on_def)

lemma dput_values_fresh: "dget d k = None \<Longrightarrow> dvalues (dput k v d) = dvalues d @ [v]"
  by (induction d) (auto split: if_splits)

text \<open>
  A unique secondary index over a keyed dictionary: the \<open>*_by_account\<close>, \<open>*_by_trigger_id\<close> and
  \<open>*_by_idempotency_key\<close> attributes.
\<close>

definition indexed :: "('v \<Rightarrow> 'k) \<Rightarrow> ('v \<Rightarrow> 'j) \<Rightarrow> ('k, 'v) dict \<Rightarrow> ('j, 'v) dict \<Rightarrow> bool" where
  "indexed pk sk d ix \<longleftrightarrow>
     keyed pk d \<and> keyed sk ix \<and>
     (\<forall>v. dget d (pk v) = Some v \<longleftrightarrow> dget ix (sk v) = Some v)"

lemma indexed_Nil [simp]: "indexed pk sk [] []"
  by (simp add: indexed_def)

lemma indexed_keyed: "indexed pk sk d ix \<Longrightarrow> keyed pk d"
  "indexed pk sk d ix \<Longrightarrow> keyed sk ix"
  by (simp_all add: indexed_def)

lemma indexed_lookup:
  assumes "indexed pk sk d ix"
  shows "dget ix j = Some v \<longleftrightarrow> sk v = j \<and> dget d (pk v) = Some v"
  using assms by (auto simp: indexed_def dest: keyed_get)

lemma indexedI:
  assumes "keyed pk d" "keyed sk ix"
    and "\<And>v. dget d (pk v) = Some v \<Longrightarrow> dget ix (sk v) = Some v"
    and "\<And>v. dget ix (sk v) = Some v \<Longrightarrow> dget d (pk v) = Some v"
  shows "indexed pk sk d ix"
  unfolding indexed_def using assms by blast

lemma indexed_to: "indexed pk sk d ix \<Longrightarrow> dget d (pk v) = Some v \<Longrightarrow> dget ix (sk v) = Some v"
  by (simp add: indexed_def)

lemma indexed_from: "indexed pk sk d ix \<Longrightarrow> dget ix (sk v) = Some v \<Longrightarrow> dget d (pk v) = Some v"
  by (simp add: indexed_def)

lemma indexed_add:
  assumes ix: "indexed pk sk d ix" and new: "dget d (pk v) = None" "dget ix (sk v) = None"
  shows "indexed pk sk (dput (pk v) v d) (dput (sk v) v ix)"
proof (rule indexedI)
  show "dget (dput (sk v) v ix) (sk w) = Some w" if "dget (dput (pk v) v d) (pk w) = Some w" for w
    using that new indexed_to [OF ix] by (metis dget_dput option.distinct(1) option.inject)
  show "dget (dput (pk v) v d) (pk w) = Some w" if "dget (dput (sk v) v ix) (sk w) = Some w" for w
    using that new indexed_from [OF ix] by (metis dget_dput option.distinct(1) option.inject)
qed (simp_all add: keyed_dput keyed_dpop indexed_keyed [OF ix])

text \<open>Saving over an entry whose secondary key does not change.\<close>

lemma indexed_save:
  assumes ix: "indexed pk sk d ix" and old: "dget d (pk v) = Some u" and sk: "sk u = sk v"
  shows "indexed pk sk (dput (pk v) v d) (dput (sk v) v ix)"
proof -
  have pk: "pk u = pk v" by (rule keyed_get [OF indexed_keyed(1) [OF ix] old])
  have u: "dget ix (sk v) = Some u" using indexed_to [OF ix, of u] old sk pk by simp
  show ?thesis
  proof (rule indexedI)
    show "dget (dput (sk v) v ix) (sk w) = Some w" if "dget (dput (pk v) v d) (pk w) = Some w" for w
      using that old u pk sk indexed_to [OF ix] by (metis dget_dput option.inject)
    show "dget (dput (pk v) v d) (pk w) = Some w" if "dget (dput (sk v) v ix) (sk w) = Some w" for w
      using that old u pk sk indexed_from [OF ix] by (metis dget_dput option.inject)
  qed (simp_all add: keyed_dput keyed_dpop indexed_keyed [OF ix])
qed

text \<open>Saving over an entry whose secondary key moves to a free one.\<close>

lemma indexed_move:
  assumes ix: "indexed pk sk d ix" and old: "dget d (pk v) = Some u"
    and sk: "sk u \<noteq> sk v" and free: "dget ix (sk v) = None"
  shows "indexed pk sk (dput (pk v) v d) (dput (sk v) v (dpop (sk u) ix))"
proof -
  have pk: "pk u = pk v" by (rule keyed_get [OF indexed_keyed(1) [OF ix] old])
  have u: "dget ix (sk u) = Some u" using indexed_to [OF ix, of u] old pk by simp
  show ?thesis
  proof (rule indexedI)
    show "dget (dput (sk v) v (dpop (sk u) ix)) (sk w) = Some w"
      if "dget (dput (pk v) v d) (pk w) = Some w" for w
      using that old u pk sk free indexed_to [OF ix]
      by (metis dget_dput dget_dpop option.distinct(1) option.inject)
    show "dget (dput (pk v) v d) (pk w) = Some w"
      if "dget (dput (sk v) v (dpop (sk u) ix)) (sk w) = Some w" for w
      using that old u pk sk free indexed_from [OF ix]
      by (metis dget_dput dget_dpop option.distinct(1) option.inject)
  qed (simp_all add: keyed_dput keyed_dpop indexed_keyed [OF ix])
qed

text \<open>Removing the entry from the index first and inserting it again, whether its key moves or not.\<close>

lemma indexed_replace:
  assumes ix: "indexed pk sk d ix" and old: "dget d (pk v) = Some u"
    and free: "sk u \<noteq> sk v \<Longrightarrow> dget ix (sk v) = None"
  shows "indexed pk sk (dput (pk v) v d) (dput (sk v) v (dpop (sk u) ix))"
proof (cases "sk u = sk v")
  case True
  from indexed_save [OF ix old True] show ?thesis
    by (simp add: indexed_def True keyed_dput keyed_dpop indexed_keyed [OF ix])
qed (rule indexed_move [OF ix old _ free])

section \<open>Strings\<close>

text \<open>
  The code's strings, restricted to ASCII, where these definitions agree with Python's
  \<open>str.strip\<close>, \<open>str.lower\<close>, \<open>str.casefold\<close>, \<open>str.isdigit\<close>, \<open>int(str)\<close> and \<open>in\<close>.
\<close>

definition py_space :: "char \<Rightarrow> bool" where
  "py_space c \<longleftrightarrow> (let n = (of_char c :: nat) in 9 \<le> n \<and> n \<le> 13 \<or> 28 \<le> n \<and> n \<le> 32)"

definition py_strip :: "string \<Rightarrow> string" where
  "py_strip s = rev (dropWhile py_space (rev (dropWhile py_space s)))"

definition py_lower_char :: "char \<Rightarrow> char" where
  "py_lower_char c = (let n = (of_char c :: nat) in if 65 \<le> n \<and> n \<le> 90 then char_of (n + 32) else c)"

text \<open>Lower-casing sets a bit, which evaluates without arithmetic.\<close>

lemma py_lower_char_bits [code]:
  "py_lower_char (Char b0 b1 b2 b3 b4 b5 b6 b7) =
     Char b0 b1 b2 b3 b4
       (b5 \<or> \<not> b7 \<and> b6 \<and> (b0 \<or> b1 \<or> b2 \<or> b3 \<or> b4) \<and> \<not> (b4 \<and> b3 \<and> (b2 \<or> b1 \<and> b0))) b6 b7"
  by (cases b0; cases b1; cases b2; cases b3; cases b4; cases b5; cases b6; cases b7)
    (simp_all add: py_lower_char_def char_of_def bit_Suc bit_0)

definition py_lower :: "string \<Rightarrow> string" where
  "py_lower s = map py_lower_char s"

definition py_casefold :: "string \<Rightarrow> string" where
  "py_casefold s = map py_lower_char s"

definition digit_val :: "char \<Rightarrow> int option" where
  "digit_val c = (let n = (of_char c :: int) in if 48 \<le> n \<and> n \<le> 57 then Some (n - 48) else None)"

definition py_isdigit :: "string \<Rightarrow> bool" where
  "py_isdigit s \<longleftrightarrow> s \<noteq> [] \<and> list_all (\<lambda>c. digit_val c \<noteq> None) s"

text \<open>Digits with single underscores between them, as \<open>int\<close> accepts them.\<close>

fun digits_val :: "int \<Rightarrow> string \<Rightarrow> int option" where
  "digits_val acc [] = None"
| "digits_val acc [c] = map_option (\<lambda>d. 10 * acc + d) (digit_val c)"
| "digits_val acc (c # c' # cs) =
     (case digit_val c of
        None \<Rightarrow> None
      | Some d \<Rightarrow>
          if c' = CHR ''_'' then digits_val (10 * acc + d) cs
          else digits_val (10 * acc + d) (c' # cs))"

definition py_int :: "string \<Rightarrow> int option" where
  "py_int s =
     (case py_strip s of
        [] \<Rightarrow> None
      | c # cs \<Rightarrow>
          if c = CHR ''-'' then map_option uminus (digits_val 0 cs)
          else if c = CHR ''+'' then digits_val 0 cs
          else digits_val 0 (c # cs))"

text \<open>\<open>needle in haystack\<close>.\<close>

fun starts_with :: "string \<Rightarrow> string \<Rightarrow> bool" where
  "starts_with [] ys = True"
| "starts_with (x # xs) [] = False"
| "starts_with (x # xs) (y # ys) = (x = y \<and> starts_with xs ys)"

fun contains :: "string \<Rightarrow> string \<Rightarrow> bool" where
  "contains x [] = (x = [])"
| "contains x (y # ys) = (starts_with x (y # ys) \<or> contains x ys)"

lemma starts_with_iff: "starts_with x y \<longleftrightarrow> (\<exists>z. y = x @ z)"
  by (induction x y rule: starts_with.induct) auto

lemma contains_iff: "contains x y \<longleftrightarrow> (\<exists>u v. y = u @ x @ v)"
proof (induction x y rule: contains.induct)
  case (1 x)
  then show ?case by auto
next
  case (2 x y ys)
  have "(\<exists>u v. y # ys = u @ x @ v) \<longleftrightarrow> (\<exists>v. y # ys = x @ v) \<or> (\<exists>u v. ys = u @ x @ v)"
    by (metis append_Cons append_Nil append_eq_Cons_conv)
  with 2 show ?case by (simp add: starts_with_iff)
qed

text \<open>Decimal output: \<open>str(n)\<close> and zero padding as in \<open>f"{n:02d}"\<close>.\<close>

definition digit_char :: "nat \<Rightarrow> char" where
  "digit_char d = ''0123456789'' ! d"

fun show_nat :: "nat \<Rightarrow> string" where
  "show_nat n = (if n < 10 then [digit_char n] else show_nat (n div 10) @ [digit_char (n mod 10)])"

declare show_nat.simps [simp del]

definition show_int :: "int \<Rightarrow> string" where
  "show_int i = (if i < 0 then CHR ''-'' # show_nat (nat (- i)) else show_nat (nat i))"

definition pad :: "nat \<Rightarrow> int \<Rightarrow> string" where
  "pad w i = (let s = show_nat (nat i) in replicate (w - length s) (CHR ''0'') @ s)"

end
