(* ===== verification/PyCalendar.thy ===== *)
theory PyCalendar
  imports CokePrelude
begin

text \<open>
  The proleptic Gregorian calendar of Python's \<open>datetime.date\<close>: day ordinals from year, month and
  day and back, with the two conversions proved inverse. Recurrence rules by month and year, and
  \<open>isoformat\<close>, rest on it.
\<close>

section \<open>The calendar\<close>

definition is_leap :: "int \<Rightarrow> bool" where
  "is_leap y \<longleftrightarrow> y mod 4 = 0 \<and> (y mod 100 \<noteq> 0 \<or> y mod 400 = 0)"

definition days_before_year :: "int \<Rightarrow> int" where
  "days_before_year y = (y - 1) * 365 + (y - 1) div 4 - (y - 1) div 100 + (y - 1) div 400"

definition days_in_month :: "int \<Rightarrow> int \<Rightarrow> int" where
  "days_in_month y m =
     (if m = 2 then (if is_leap y then 29 else 28)
      else if m = 4 \<or> m = 6 \<or> m = 9 \<or> m = 11 then 30 else 31)"

definition days_before_month :: "int \<Rightarrow> int \<Rightarrow> int" where
  "days_before_month y m =
     [0, 31, 59, 90, 120, 151, 181, 212, 243, 273, 304, 334] ! nat (m - 1)
     + (if 2 < m \<and> is_leap y then 1 else 0)"

definition ymd2ord :: "int \<Rightarrow> int \<Rightarrow> int \<Rightarrow> int" where
  "ymd2ord y m d = days_before_year y + days_before_month y m + d"

text \<open>The month that holds the day of the year \<open>n\<close>, counted from 0.\<close>

definition month_of :: "int \<Rightarrow> int \<Rightarrow> int" where
  "month_of y n =
     (let l = (if is_leap y then 1 else 0) in
      if n < 31 then 1 else if n < 59 + l then 2 else if n < 90 + l then 3
      else if n < 120 + l then 4 else if n < 151 + l then 5 else if n < 181 + l then 6
      else if n < 212 + l then 7 else if n < 243 + l then 8 else if n < 273 + l then 9
      else if n < 304 + l then 10 else if n < 334 + l then 11 else 12)"

text \<open>The ordinal of a date back to year, month and day: 400, 100, 4 and 1 year cycles.\<close>

definition year_cycles :: "int \<Rightarrow> int \<times> int \<times> int \<times> int \<times> int" where
  "year_cycles n =
     (let n400 = n div 146097; r400 = n mod 146097;
          n100 = r400 div 36524; r100 = r400 mod 36524;
          n4 = r100 div 1461; r4 = r100 mod 1461
      in (n400, n100, n4, r4 div 365, r4 mod 365))"

definition ord2ymd :: "int \<Rightarrow> int \<times> int \<times> int" where
  "ord2ymd n =
     (case year_cycles (n - 1) of (n400, n100, n4, n1, r) \<Rightarrow>
        let y = 400 * n400 + 100 * n100 + 4 * n4 + n1 + 1 in
        if n1 = 4 \<or> n100 = 4 then (y - 1, 12, 31)
        else let m = month_of y r in (y, m, r - days_before_month y m + 1))"

definition valid_date :: "int \<Rightarrow> int \<Rightarrow> int \<Rightarrow> bool" where
  "valid_date y m d \<longleftrightarrow> 1 \<le> m \<and> m \<le> 12 \<and> 1 \<le> d \<and> d \<le> days_in_month y m"

lemma month_cases:
  assumes "1 \<le> m" "m \<le> (12::int)"
  obtains "m = 1" | "m = 2" | "m = 3" | "m = 4" | "m = 5" | "m = 6" | "m = 7" | "m = 8"
    | "m = 9" | "m = 10" | "m = 11" | "m = 12"
proof -
  from assms have "m = 1 \<or> m = 2 \<or> m = 3 \<or> m = 4 \<or> m = 5 \<or> m = 6 \<or> m = 7 \<or> m = 8
    \<or> m = 9 \<or> m = 10 \<or> m = 11 \<or> m = 12" by arith
  with that show ?thesis by blast
qed

lemma days_before_month_table [simp]:
  "days_before_month y 1 = 0" "days_before_month y 2 = 31"
  "days_before_month y 3 = 59 + (if is_leap y then 1 else 0)"
  "days_before_month y 4 = 90 + (if is_leap y then 1 else 0)"
  "days_before_month y 5 = 120 + (if is_leap y then 1 else 0)"
  "days_before_month y 6 = 151 + (if is_leap y then 1 else 0)"
  "days_before_month y 7 = 181 + (if is_leap y then 1 else 0)"
  "days_before_month y 8 = 212 + (if is_leap y then 1 else 0)"
  "days_before_month y 9 = 243 + (if is_leap y then 1 else 0)"
  "days_before_month y 10 = 273 + (if is_leap y then 1 else 0)"
  "days_before_month y 11 = 304 + (if is_leap y then 1 else 0)"
  "days_before_month y 12 = 334 + (if is_leap y then 1 else 0)"
  by (simp_all add: days_before_month_def)

lemma days_in_month_table [simp]:
  "days_in_month y 1 = 31" "days_in_month y 2 = (if is_leap y then 29 else 28)"
  "days_in_month y 3 = 31" "days_in_month y 4 = 30" "days_in_month y 5 = 31"
  "days_in_month y 6 = 30" "days_in_month y 7 = 31" "days_in_month y 8 = 31"
  "days_in_month y 9 = 30" "days_in_month y 10 = 31" "days_in_month y 11 = 30"
  "days_in_month y 12 = 31"
  by (simp_all add: days_in_month_def)

lemma month_of_range: "1 \<le> month_of y n \<and> month_of y n \<le> 12"
  by (simp add: month_of_def Let_def)

lemma month_of_lower:
  assumes "0 \<le> n"
  shows "days_before_month y (month_of y n) \<le> n"
  using assms unfolding month_of_def Let_def by (cases "is_leap y") simp_all

lemma month_of_upper:
  assumes "n < (if is_leap y then 366 else 365)"
  shows "n < days_before_month y (month_of y n) + days_in_month y (month_of y n)"
  using assms unfolding month_of_def Let_def by (cases "is_leap y") simp_all

lemma month_of_unique:
  assumes "1 \<le> m" "m \<le> 12" and "0 \<le> k" "k < days_in_month y m"
  shows "month_of y (days_before_month y m + k) = m"
  using assms(1,2)
  by (rule month_cases)
    (use assms(3,4) in \<open>cases "is_leap y"; simp add: month_of_def\<close>)+

lemma days_before_month_bound:
  assumes "valid_date y m d"
  shows "1 \<le> days_before_month y m + d \<and>
         days_before_month y m + d \<le> (if is_leap y then 366 else 365)"
proof -
  from assms have m: "1 \<le> m" "m \<le> 12" and d: "1 \<le> d" "d \<le> days_in_month y m"
    by (simp_all add: valid_date_def)
  from m show ?thesis
    by (rule month_cases) (use d in \<open>cases "is_leap y"; simp\<close>)+
qed

subsection \<open>Year cycles\<close>

lemma cycles_div:
  fixes a b c d :: int
  assumes "0 \<le> b" "b \<le> 3" "0 \<le> c" "c \<le> 24" "0 \<le> d" "d \<le> 3"
  shows "(400 * a + 100 * b + 4 * c + d) div 4 = 100 * a + 25 * b + c"
    and "(400 * a + 100 * b + 4 * c + d) div 100 = 4 * a + b"
    and "(400 * a + 100 * b + 4 * c + d) div 400 = a"
  using assms by (simp_all add: div_pos_pos_trivial)

lemma days_before_year_cycles:
  fixes a b c d :: int
  assumes "0 \<le> b" "b \<le> 3" "0 \<le> c" "c \<le> 24" "0 \<le> d" "d \<le> 3"
  shows "days_before_year (400 * a + 100 * b + 4 * c + d + 1) =
         146097 * a + 36524 * b + 1461 * c + 365 * d"
  using cycles_div [OF assms, of a] by (simp add: days_before_year_def)

lemma div_pred:
  fixes y k :: int
  assumes "0 < k"
  shows "(y - 1) div k = y div k - (if y mod k = 0 then 1 else 0)"
proof (cases "y mod k = 0")
  case True
  then have "y = k * (y div k)" by (metis add.right_neutral mult_div_mod_eq)
  then have "y - 1 = k * (y div k - 1) + (k - 1)" by (simp add: right_diff_distrib)
  then have "(y - 1) div k = y div k - 1"
    by (rule int_div_pos_eq) (use assms in simp_all)
  with True show ?thesis by simp
next
  case False
  have "y - 1 = k * (y div k) + (y mod k - 1)" by simp
  moreover from assms False have "0 \<le> y mod k - 1" "y mod k - 1 < k"
    using pos_mod_bound [of k y] pos_mod_sign [of k y] by linarith+
  ultimately have "(y - 1) div k = y div k" by (rule int_div_pos_eq)
  with False show ?thesis by simp
qed

lemma days_before_year_Suc:
  "days_before_year (y + 1) = days_before_year y + (if is_leap y then 366 else 365)"
proof -
  have "y mod 400 mod 100 = y mod 100" and "y mod 100 mod 4 = y mod 4"
    by (rule mod_mod_cancel; simp)+
  then have "y mod 400 = 0 \<Longrightarrow> y mod 100 = 0" and "y mod 100 = 0 \<Longrightarrow> y mod 4 = 0"
    by auto
  then show ?thesis
    by (simp add: days_before_year_def is_leap_def div_pred)
qed

lemma days_before_year_mono: "y \<le> y' \<Longrightarrow> days_before_year y \<le> days_before_year y'"
proof (induction rule: int_ge_induct)
  case base
  then show ?case by simp
next
  case (step i)
  then show ?case by (simp add: days_before_year_Suc)
qed

lemma year_cycles_bounds:
  assumes "year_cycles n = (n400, n100, n4, n1, r)"
  shows "n = 146097 * n400 + 36524 * n100 + 1461 * n4 + 365 * n1 + r"
    and "0 \<le> n100" "0 \<le> n4" "n4 \<le> 24" "0 \<le> n1" "0 \<le> r" "r < 365"
    and "n100 \<le> 3 \<and> n1 \<le> 3 \<or> n100 \<le> 3 \<and> n1 = 4 \<and> n4 < 24 \<and> r = 0 \<or>
         n100 = 4 \<and> n4 = 0 \<and> n1 = 0 \<and> r = 0"
proof -
  define a b c where "a = n mod 146097" and "b = a mod 36524" and "c = b mod 1461"
  have "(n400, n100, n4, n1, r) = (n div 146097, a div 36524, b div 1461, c div 365, c mod 365)"
    using assms by (simp only: year_cycles_def Let_def a_def b_def c_def)
  then have eqs: "n400 = n div 146097" "n100 = a div 36524" "n4 = b div 1461" "n1 = c div 365"
    "r = c mod 365" by (simp_all only: prod.inject)
  have a: "0 \<le> a" "a < 146097" and b: "0 \<le> b" "b < 36524" and c: "0 \<le> c" "c < 1461"
    by (simp_all add: a_def b_def c_def)
  have n: "n = 146097 * n400 + a" "a = 36524 * n100 + b" "b = 1461 * n4 + c" "c = 365 * n1 + r"
    by (simp_all only: eqs a_def b_def c_def mult_div_mod_eq)
  show r: "0 \<le> r" "r < 365" by (simp_all add: eqs(5))
  show "0 \<le> n100" "0 \<le> n4" "0 \<le> n1"
    using a b c by (simp_all only: eqs div_int_pos_iff) simp_all
  show "n = 146097 * n400 + 36524 * n100 + 1461 * n4 + 365 * n1 + r" using n by simp
  show "n4 \<le> 24" using n b c by linarith
  show "n100 \<le> 3 \<and> n1 \<le> 3 \<or> n100 \<le> 3 \<and> n1 = 4 \<and> n4 < 24 \<and> r = 0 \<or>
         n100 = 4 \<and> n4 = 0 \<and> n1 = 0 \<and> r = 0"
  proof (cases "n100 \<le> 3")
    case True
    have "n1 \<le> 4" using n c r by linarith
    moreover have "n4 < 24 \<and> r = 0" if "n1 = 4"
    proof -
      from that n c r have "c = 1460" "r = 0" by linarith+
      with n b show ?thesis by linarith
    qed
    ultimately show ?thesis using True by linarith
  next
    case False
    then have "n100 = 4" using n a b by linarith
    then have "b = 0" using n a b by linarith
    then have "n4 = 0" "c = 0" using n c \<open>0 \<le> n4\<close> by linarith+
    then have "n1 = 0" "r = 0" using n r \<open>0 \<le> n1\<close> by linarith+
    with \<open>n100 = 4\<close> \<open>n4 = 0\<close> show ?thesis by simp
  qed
qed

lemma ord2ymd_correct:
  assumes "ord2ymd n = (y, m, d)"
  shows "ymd2ord y m d = n" and "valid_date y m d"
proof -
  obtain a b c e r where cyc: "year_cycles (n - 1) = (a, b, c, e, r)"
    by (metis prod_cases5)
  note B = year_cycles_bounds [OF cyc]
  let ?y = "400 * a + 100 * b + 4 * c + e + 1"
  consider (plain) "b \<le> 3" "e \<le> 3" | (fourth) "b \<le> 3" "e = 4" "c < 24" "r = 0"
    | (century) "b = 4" "c = 0" "e = 0" "r = 0"
    using B(8) by blast
  then have "ymd2ord y m d = n \<and> valid_date y m d"
  proof cases
    case plain
    then have ymd: "y = ?y" "m = month_of y r" "d = r - days_before_month y m + 1"
      using assms cyc by (auto simp: ord2ymd_def Let_def)
    have "days_before_year y = 146097 * a + 36524 * b + 1461 * c + 365 * e"
      unfolding ymd(1) by (rule days_before_year_cycles) (use B plain in simp_all)
    moreover have "days_before_month y m \<le> r" "r < days_before_month y m + days_in_month y m"
      using month_of_lower [of r y] month_of_upper [of r y] B by (simp_all add: ymd(2))
    moreover have "1 \<le> m" "m \<le> 12" using month_of_range [of y r] by (simp_all add: ymd(2))
    ultimately show ?thesis
      using B(1) ymd(3) by (simp add: ymd2ord_def valid_date_def)
  next
    case fourth
    let ?z = "400 * a + 100 * b + 4 * c + 3 + 1"
    have ymd: "y = ?z" "m = 12" "d = 31"
      using assms cyc fourth by (auto simp: ord2ymd_def)
    have "days_before_year ?z = 146097 * a + 36524 * b + 1461 * c + 365 * 3"
      by (rule days_before_year_cycles) (use B fourth in simp_all)
    moreover have "is_leap ?z"
    proof -
      have "?z = (4 * c + 4) + 100 * (4 * a + b)" by simp
      then have "?z mod 100 = (4 * c + 4) mod 100" by (simp only: mod_mult_self2)
      also have "\<dots> = 4 * c + 4" using B fourth by (simp add: mod_pos_pos_trivial)
      finally have "?z mod 100 \<noteq> 0" using B fourth by linarith
      moreover have "?z = 0 + 4 * (100 * a + 25 * b + c + 1)" by simp
      then have "?z mod 4 = 0" by (simp only: mod_mult_self2 mod_0)
      ultimately show ?thesis by (simp only: is_leap_def simp_thms)
    qed
    ultimately show ?thesis
      using B(1) fourth by (simp add: ymd2ord_def valid_date_def ymd)
  next
    case century
    let ?z = "400 * a + 100 * 3 + 4 * 24 + 3 + 1"
    have ymd: "y = ?z" "m = 12" "d = 31"
      using assms cyc century by (auto simp: ord2ymd_def)
    have "days_before_year ?z = 146097 * a + 36524 * 3 + 1461 * 24 + 365 * 3"
      by (rule days_before_year_cycles) simp_all
    moreover have "is_leap ?z"
    proof -
      have "?z = 0 + 400 * (a + 1)" "?z = 0 + 4 * (100 * a + 100)" by simp_all
      then have "?z mod 400 = 0" and "?z mod 4 = 0" by (metis mod_mult_self2 mod_0)+
      then show ?thesis by (simp only: is_leap_def simp_thms)
    qed
    ultimately show ?thesis
      using B(1) century by (simp add: ymd2ord_def valid_date_def ymd)
  qed
  then show "ymd2ord y m d = n" "valid_date y m d" by simp_all
qed

lemma ymd2ord_bounds:
  assumes "valid_date y m d"
  shows "days_before_year y < ymd2ord y m d" and "ymd2ord y m d \<le> days_before_year (y + 1)"
  using days_before_month_bound [OF assms] by (auto simp: ymd2ord_def days_before_year_Suc)

lemma ymd2ord_inj:
  assumes v: "valid_date y m d" "valid_date y' m' d'" and eq: "ymd2ord y m d = ymd2ord y' m' d'"
  shows "y = y' \<and> m = m' \<and> d = d'"
proof -
  have "y = y'"
  proof (rule ccontr)
    assume "y \<noteq> y'"
    then have "y + 1 \<le> y' \<or> y' + 1 \<le> y" by arith
    then show False
      using days_before_year_mono [of "y + 1" y'] days_before_year_mono [of "y' + 1" y]
        ymd2ord_bounds [OF v(1)] ymd2ord_bounds [OF v(2)] eq by linarith
  qed
  then have doy: "days_before_month y m + (d - 1) = days_before_month y m' + (d' - 1)"
    using eq by (simp add: ymd2ord_def)
  have "month_of y (days_before_month y m + (d - 1)) = m"
    by (rule month_of_unique) (use v(1) in \<open>simp_all add: valid_date_def\<close>)
  moreover have "month_of y (days_before_month y m' + (d' - 1)) = m'"
    by (rule month_of_unique) (use v(2) \<open>y = y'\<close> in \<open>simp_all add: valid_date_def\<close>)
  ultimately have "m = m'" by (simp only: doy)
  then show ?thesis using doy \<open>y = y'\<close> by simp
qed

theorem ord2ymd_ymd2ord:
  assumes "valid_date y m d"
  shows "ord2ymd (ymd2ord y m d) = (y, m, d)"
proof -
  obtain y' m' d' where o: "ord2ymd (ymd2ord y m d) = (y', m', d')" by (metis prod_cases3)
  with ymd2ord_inj [OF assms ord2ymd_correct(2) [OF o]] ord2ymd_correct(1) [OF o]
  show ?thesis by simp
qed

end
