(* ===== verification/PyDateTime.thy ===== *)
theory PyDateTime
  imports PyCalendar
begin

text \<open>
  What the code uses of Python's \<open>datetime\<close> and \<open>zoneinfo\<close>: naive and aware datetimes with their
  comparisons, arithmetic and \<open>isoformat\<close>, time zones as parameters with the law PEP 495 gives
  them, and the clock, identifier supply and digest that every service is constructed with.
\<close>

section \<open>Instants and wall clocks\<close>

text \<open>
  Both are counted in microseconds from 0001-01-01T00:00, the least value Python represents; the
  greatest is the last microsecond of 9999-12-31, whose ordinal is 3652059.
\<close>

definition sec_us :: int where "sec_us = 1000000"
definition minute_us :: int where "minute_us = 60000000"
definition hour_us :: int where "hour_us = 3600000000"
definition day_us :: int where "day_us = 86400000000"
definition wall_end :: int where "wall_end = 3652059 * day_us"

lemmas us_defs = sec_us_def minute_us_def hour_us_def day_us_def

definition wall_ok :: "int \<Rightarrow> bool" where
  "wall_ok w \<longleftrightarrow> 0 \<le> w \<and> w < wall_end"

text \<open>
  \<open>Naive w\<close> has no \<open>tzinfo\<close> and shows the wall clock \<open>w\<close>. \<open>Aware u off\<close> is the instant \<open>u\<close> (in
  UTC) shown with the UTC offset \<open>off\<close>, so its wall clock is \<open>u + off\<close>. Aware datetimes compare
  by their instants and a naive one is never equal to an aware one; ordering a naive one against
  an aware one raises \<open>TypeError\<close>.
\<close>

datatype datetime = Naive int | Aware int int

fun is_aware :: "datetime \<Rightarrow> bool" where
  "is_aware (Naive _) = False"
| "is_aware (Aware _ _) = True"

fun dt_eq :: "datetime \<Rightarrow> datetime \<Rightarrow> bool" where
  "dt_eq (Naive a) (Naive b) = (a = b)"
| "dt_eq (Aware a _) (Aware b _) = (a = b)"
| "dt_eq _ _ = False"

fun dt_lt :: "datetime \<Rightarrow> datetime \<Rightarrow> pyexn + bool" where
  "dt_lt (Naive a) (Naive b) = Inr (a < b)"
| "dt_lt (Aware a _) (Aware b _) = Inr (a < b)"
| "dt_lt _ _ = Inl TypeError"

fun dt_le :: "datetime \<Rightarrow> datetime \<Rightarrow> pyexn + bool" where
  "dt_le (Naive a) (Naive b) = Inr (a \<le> b)"
| "dt_le (Aware a _) (Aware b _) = Inr (a \<le> b)"
| "dt_le _ _ = Inl TypeError"

text \<open>
  The sort key of a datetime. Python sorts by \<open>dt_lt\<close>, which this key agrees with on datetimes of
  one kind; \<open>same_kind\<close> says when a sort over several of them raises nothing.
\<close>

fun dt_key :: "datetime \<Rightarrow> int" where
  "dt_key (Naive w) = w"
| "dt_key (Aware u _) = u"

definition same_kind :: "datetime list \<Rightarrow> bool" where
  "same_kind ds \<longleftrightarrow> list_all is_aware ds \<or> list_all (\<lambda>d. \<not> is_aware d) ds"

lemma dt_lt_key: "is_aware a = is_aware b \<Longrightarrow> dt_lt a b = Inr (dt_key a < dt_key b)"
  by (cases a; cases b) simp_all

lemma dt_le_key: "is_aware a = is_aware b \<Longrightarrow> dt_le a b = Inr (dt_key a \<le> dt_key b)"
  by (cases a; cases b) simp_all

lemma dt_eq_key: "dt_eq a b \<longleftrightarrow> is_aware a = is_aware b \<and> dt_key a = dt_key b"
  by (cases a; cases b) simp_all

lemma dt_eq_refl [simp]: "dt_eq a a"
  by (simp add: dt_eq_key)

lemma dt_eq_sym: "dt_eq a b \<longleftrightarrow> dt_eq b a"
  by (auto simp: dt_eq_key)

lemma dt_eq_trans: "dt_eq a b \<Longrightarrow> dt_eq b c \<Longrightarrow> dt_eq a c"
  by (simp add: dt_eq_key)

text \<open>\<open>d + timedelta(microseconds=n)\<close>: \<open>OverflowError\<close> outside the years 1 to 9999.\<close>

fun dt_add :: "datetime \<Rightarrow> int \<Rightarrow> pyexn + datetime" where
  "dt_add (Naive w) n = (if wall_ok (w + n) then Inr (Naive (w + n)) else Inl OverflowError)"
| "dt_add (Aware u off) n =
     (if wall_ok (u + off + n) then Inr (Aware (u + n) off) else Inl OverflowError)"

lemma dt_add_key: "dt_add d n = Inr e \<Longrightarrow> dt_key e = dt_key d + n \<and> is_aware e = is_aware d"
  by (cases d) (auto split: if_splits)

section \<open>Time zones\<close>

text \<open>
  A \<open>ZoneInfo\<close>, whose data the IANA database supplies: the UTC offset and the fold of an instant,
  and the UTC offset of a wall clock reading with its fold. \<open>zone_ok\<close> is what PEP 495 states of
  every zone: reading an instant on the wall clock and converting back gives the instant.
\<close>

record zone =
  off_at :: "int \<Rightarrow> int"
  fold_at :: "int \<Rightarrow> bool"
  off_wall :: "int \<Rightarrow> bool \<Rightarrow> int"

definition zone_ok :: "zone \<Rightarrow> bool" where
  "zone_ok z \<longleftrightarrow> (\<forall>u. off_wall z (u + off_at z u) (fold_at z u) = off_at z u)"

definition fixed_zone :: "int \<Rightarrow> zone" where
  "fixed_zone k = \<lparr>off_at = (\<lambda>_. k), fold_at = (\<lambda>_. False), off_wall = (\<lambda>_ _. k)\<rparr>"

lemma zone_ok_fixed [simp]: "zone_ok (fixed_zone k)"
  by (simp add: zone_ok_def fixed_zone_def)

text \<open>
  A datetime attached to a zone, as \<open>astimezone(zone)\<close> returns it: its wall clock and its fold.
\<close>

type_synonym local_dt = "int \<times> bool"

definition local_of :: "zone \<Rightarrow> int \<Rightarrow> pyexn + local_dt" where
  "local_of z u =
     (if wall_ok (u + off_at z u) then Inr (u + off_at z u, fold_at z u) else Inl OverflowError)"

definition utc_of :: "zone \<Rightarrow> local_dt \<Rightarrow> pyexn + datetime" where
  "utc_of z l =
     (case l of (w, f) \<Rightarrow>
        let u = w - off_wall z w f in if wall_ok u then Inr (Aware u 0) else Inl OverflowError)"

lemma utc_of_local_of:
  assumes "zone_ok z" and "wall_ok u" and "local_of z u = Inr l"
  shows "utc_of z l = Inr (Aware u 0)"
  using assms by (auto simp: local_of_def utc_of_def zone_ok_def split: if_splits)

section \<open>Dates and times of a wall clock\<close>

definition date_of :: "int \<Rightarrow> int \<times> int \<times> int" where
  "date_of w = ord2ymd (w div day_us + 1)"

definition time_of :: "int \<Rightarrow> int" where
  "time_of w = w mod day_us"

text \<open>\<open>date(y, m, d)\<close> combined with a time of day: \<open>ValueError\<close> unless the date exists.\<close>

definition make_wall :: "int \<Rightarrow> int \<Rightarrow> int \<Rightarrow> int \<Rightarrow> pyexn + int" where
  "make_wall y m d t =
     (if \<not> (1 \<le> y \<and> y \<le> 9999) then Inl (ValueError ''year is out of range'')
      else if \<not> (1 \<le> m \<and> m \<le> 12) then Inl (ValueError ''month must be in 1..12'')
      else if \<not> (1 \<le> d \<and> d \<le> days_in_month y m)
      then Inl (ValueError ''day is out of range for month'')
      else Inr ((ymd2ord y m d - 1) * day_us + t))"

lemma make_wall_date:
  assumes "make_wall y m d t = Inr w" and "0 \<le> t" "t < day_us"
  shows "date_of w = (y, m, d)" and "time_of w = t"
proof -
  from assms have v: "valid_date y m d" and w: "w = (ymd2ord y m d - 1) * day_us + t"
    by (auto simp: make_wall_def valid_date_def split: if_splits)
  have "w div day_us = ymd2ord y m d - 1"
    by (rule int_div_pos_eq [where r = t]) (use assms w in simp_all)
  then show "date_of w = (y, m, d)"
    using ord2ymd_ymd2ord [OF v] by (simp add: date_of_def)
  have "w mod day_us = t mod day_us" by (simp add: w)
  also have "\<dots> = t" using assms by (rule_tac mod_pos_pos_trivial)
  finally show "time_of w = t" by (simp add: time_of_def)
qed

lemma time_of_bounds: "0 \<le> time_of w" "time_of w < day_us"
  by (simp_all add: time_of_def day_us_def)

section \<open>isoformat\<close>

definition iso_time :: "int \<Rightarrow> string" where
  "iso_time t =
     pad 2 (t div hour_us) @ '':'' @ pad 2 (t div minute_us mod 60) @ '':'' @
     pad 2 (t div sec_us mod 60) @
     (if t mod sec_us = 0 then [] else ''.'' @ pad 6 (t mod sec_us))"

definition iso_wall :: "int \<Rightarrow> string" where
  "iso_wall w =
     (case date_of w of (y, m, d) \<Rightarrow>
        pad 4 y @ ''-'' @ pad 2 m @ ''-'' @ pad 2 d @ ''T'' @ iso_time (time_of w))"

definition iso_offset :: "int \<Rightarrow> string" where
  "iso_offset off =
     (let a = \<bar>off\<bar> in
      (if off < 0 then ''-'' else ''+'') @ pad 2 (a div hour_us) @ '':'' @
      pad 2 (a div minute_us mod 60) @
      (if a mod minute_us = 0 then []
       else '':'' @ pad 2 (a div sec_us mod 60) @
            (if a mod sec_us = 0 then [] else ''.'' @ pad 6 (a mod sec_us))))"

fun isoformat :: "datetime \<Rightarrow> string" where
  "isoformat (Naive w) = iso_wall w"
| "isoformat (Aware u off) = iso_wall (u + off) @ iso_offset off"

definition iso_or_none :: "datetime option \<Rightarrow> pyval" where
  "iso_or_none d = (case d of None \<Rightarrow> PyNone | Some t \<Rightarrow> PyStr (isoformat t))"

section \<open>What a service is constructed with\<close>

text \<open>
  The arguments of the services' constructors and the parts of the platform they use: the
  \<open>n\<close>-th reading of the clock \<open>now\<close>, the \<open>n\<close>-th identifier made by \<open>id_factory\<close> (it is given the
  prefix), the zone database behind \<open>ZoneInfo(key)\<close> (which raises \<open>ZoneInfoNotFoundError\<close> for an
  unknown key and \<open>ValueError\<close> for a malformed one), the zone of the machine (what
  \<open>astimezone\<close> assumes of a naive datetime), the SHA-256 hex digest and the generated
  \<open>traceparent\<close>s.
\<close>

record env =
  env_now :: "nat \<Rightarrow> datetime"
  env_id :: "string \<Rightarrow> nat \<Rightarrow> string"
  env_zone :: "string \<Rightarrow> pyexn + zone"
  env_local :: zone
  env_sha :: "string \<Rightarrow> string"
  env_trace :: "nat \<Rightarrow> string"

text \<open>The part of every service's state that counts the readings and the identifiers made.\<close>

record svc =
  clock :: nat
  issued :: nat
  traced :: nat

definition py_now :: "env \<Rightarrow> ('a svc_scheme, datetime) py" where
  "py_now E = (\<lambda>s. (Inr (env_now E (clock s)), s\<lparr>clock := Suc (clock s)\<rparr>))"

definition new_id :: "env \<Rightarrow> string \<Rightarrow> ('a svc_scheme, string) py" where
  "new_id E p = (\<lambda>s. (Inr (env_id E p (issued s)), s\<lparr>issued := Suc (issued s)\<rparr>))"

definition new_traceparent :: "env \<Rightarrow> ('a svc_scheme, string) py" where
  "new_traceparent E = (\<lambda>s. (Inr (env_trace E (traced s)), s\<lparr>traced := Suc (traced s)\<rparr>))"

lemma py_now_run [py_run, code]: "py_now E s = (Inr (env_now E (clock s)), s\<lparr>clock := Suc (clock s)\<rparr>)"
  by (simp add: py_now_def)

lemma new_id_run [py_run, code]: "new_id E p s = (Inr (env_id E p (issued s)), s\<lparr>issued := Suc (issued s)\<rparr>)"
  by (simp add: new_id_def)

lemma new_traceparent_run [py_run, code]:
  "new_traceparent E s = (Inr (env_trace E (traced s)), s\<lparr>traced := Suc (traced s)\<rparr>)"
  by (simp add: new_traceparent_def)

lemma wp_py_now [wp_simps]:
  "wp (py_now E) Q X = (\<lambda>s. Q (env_now E (clock s)) (s\<lparr>clock := Suc (clock s)\<rparr>))"
  by (simp add: wp_def py_now_def fun_eq_iff)

lemma wp_new_id [wp_simps]:
  "wp (new_id E p) Q X = (\<lambda>s. Q (env_id E p (issued s)) (s\<lparr>issued := Suc (issued s)\<rparr>))"
  by (simp add: wp_def new_id_def fun_eq_iff)

lemma wp_new_traceparent [wp_simps]:
  "wp (new_traceparent E) Q X = (\<lambda>s. Q (env_trace E (traced s)) (s\<lparr>traced := Suc (traced s)\<rparr>))"
  by (simp add: wp_def new_traceparent_def fun_eq_iff)

text \<open>
  \<open>d.astimezone(UTC)\<close>: a naive datetime is read in the zone of the machine.
\<close>

definition to_utc :: "env \<Rightarrow> datetime \<Rightarrow> pyexn + datetime" where
  "to_utc E d =
     (case d of
        Naive w \<Rightarrow> utc_of (env_local E) (w, False)
      | Aware u off \<Rightarrow> if wall_ok u then Inr (Aware u 0) else Inl OverflowError)"

text \<open>\<open>d.astimezone(zone)\<close>, as a displayed datetime.\<close>

definition to_zone :: "env \<Rightarrow> zone \<Rightarrow> datetime \<Rightarrow> pyexn + datetime" where
  "to_zone E z d =
     sbind (to_utc E d) (\<lambda>t. sbind (local_of z (dt_key t)) (\<lambda>l. Inr (Aware (dt_key t) (off_at z (dt_key t)))))"

lemma to_utc_aware: "is_aware d \<Longrightarrow> to_utc E d = Inr t \<Longrightarrow> is_aware t \<and> dt_key t = dt_key d"
  by (cases d) (auto simp: to_utc_def split: if_splits)

text \<open>A concrete environment, for the closed examples: a clock that ticks once a second from a
  given instant, numbered identifiers, UTC as the only zone and the identity as the digest.\<close>

definition demo_env :: "int \<Rightarrow> env" where
  "demo_env t0 =
     \<lparr>env_now = (\<lambda>n. Aware (t0 + int n * sec_us) 0),
      env_id = (\<lambda>p n. show_nat n),
      env_zone = (\<lambda>k. if k = ''UTC'' then Inr (fixed_zone 0) else Inl ZoneInfoNotFoundError),
      env_local = fixed_zone 0,
      env_sha = (\<lambda>s. s),
      env_trace = (\<lambda>n. show_nat n)\<rparr>"

end
