(* ===== verification/ConvRepository.thy ===== *)
theory ConvRepository
  imports PyDateTime "HOL-Library.Product_Lexorder"
begin

text \<open>
  The conversation runtime's data (\<open>coke/domains/conversation_runtime/models.py\<close>) and its
  repository (\<open>InMemoryConversationRuntimeRepository\<close> of \<open>repository.py\<close>): conversations,
  messages, inbound media, turns, output dispositions and the outbox, with the checks each
  operation makes, and the consistency of its indexes, which every operation keeps.
\<close>

section \<open>Data\<close>

datatype direction = Inbound | Outbound

datatype disposition_state =
  Replied | NoReply | PendingAsyncReply | Failed | Recovered | Superseded

definition terminal_dispositions :: "disposition_state list" where
  "terminal_dispositions = [Replied, NoReply, Failed, Recovered, Superseded]"

record conversation =
  conv_id :: string
  conv_account_id :: string
  latest_inbound_seq :: int
  last_closed_inbound_seq :: int
  conv_created_at :: datetime
  conv_updated_at :: datetime

record message =
  msg_id :: string
  msg_conversation_id :: string
  msg_turn_id :: "string option"
  msg_direction :: direction
  segment_index :: "int option"
  msg_seq :: "int option"
  channel_identity_id :: "string option"
  causal_inbound_event_id :: "string option"
  msg_text :: "string option"
  msg_payload :: fact
  facts_hash :: "string option"
  msg_created_at :: datetime
  msg_updated_at :: datetime

record inbound_media =
  media_id :: string
  media_message_id :: string
  media_type :: string
  storage_uri :: string
  processing_status :: string
  agent_reference :: fact
  media_created_at :: datetime
  media_updated_at :: datetime

record turn =
  turn_id :: string
  turn_conversation_id :: string
  trigger_id :: string
  trigger_type :: string
  mode :: string
  input_from_seq :: "int option"
  input_to_seq :: "int option"
  superseded_by_inbound_seq :: "int option"
  started_at :: datetime
  completed_at :: "datetime option"
  turn_created_at :: datetime
  turn_updated_at :: datetime

record current_input_message =
  cim_message_id :: string
  cim_seq :: int
  cim_text :: "string option"
  cim_payload :: fact
  cim_causal_inbound_event_id :: "string option"

record waiting_reply_candidate =
  wrc_turn_id :: string
  wrc_trigger_id :: string
  wrc_conversation_id :: string
  wrc_account_id :: string
  wrc_input_to_seq :: "int option"

record context_token_observation =
  cto_token :: "string option"
  cto_source :: string
  cto_observed_at :: "datetime option"
  cto_traceparent :: "string option"
  cto_age_seconds :: "int option"

record output_disposition =
  disp_id :: string
  disp_turn_id :: string
  disposition :: disposition_state
  reason_code :: "string option"
  disp_created_at :: datetime
  disp_updated_at :: datetime

record outbox_record =
  ob_id :: string
  ob_topic :: string
  ob_idempotency_key :: string
  ob_payload :: fact
  ob_traceparent :: string
  ob_status :: string
  ob_created_at :: datetime
  ob_published_at :: "datetime option"
  ob_processed_at :: "datetime option"
  ob_acked_at :: "datetime option"
  ob_retry_count :: int
  ob_last_error :: "string option"

record inbound_media_input =
  imi_media_type :: string
  imi_storage_uri :: string
  imi_agent_label :: string
  imi_mime :: "string option"

record inbound_media_status_update =
  imsu_media_id :: string
  imsu_processing_status :: string

record conv_state = svc +
  conversations_by_id :: "(string, conversation) dict"
  conversations_by_account :: "(string, conversation) dict"
  messages_by_id :: "(string, message) dict"
  inbound_media_by_id :: "(string, inbound_media) dict"
  turns_by_id :: "(string, turn) dict"
  turns_by_trigger_id :: "(string, turn) dict"
  dispositions_by_turn_id :: "(string, output_disposition) dict"
  outbox_by_id :: "(string, outbox_record) dict"
  outbox_by_idempotency_key :: "(string, outbox_record) dict"

definition empty_conv_state :: conv_state where
  "empty_conv_state =
     \<lparr>clock = 0, issued = 0, traced = 0, conversations_by_id = [], conversations_by_account = [],
      messages_by_id = [], inbound_media_by_id = [], turns_by_id = [], turns_by_trigger_id = [],
      dispositions_by_turn_id = [], outbox_by_id = [], outbox_by_idempotency_key = []\<rparr>"

type_synonym 'a conv = "(conv_state, 'a) py"

abbreviation conv_error :: "string \<Rightarrow> 'a conv" where
  "conv_error code \<equiv> raise (ConversationRuntimeError code None)"

section \<open>Reads\<close>

definition get_conversation :: "conv_state \<Rightarrow> string \<Rightarrow> conversation option" where
  "get_conversation s cid = dget (conversations_by_id s) cid"

definition lock_conversation :: "conv_state \<Rightarrow> string \<Rightarrow> conversation option" where
  "lock_conversation s cid = get_conversation s cid"

definition get_conversation_by_account :: "conv_state \<Rightarrow> string \<Rightarrow> conversation option" where
  "get_conversation_by_account s account = dget (conversations_by_account s) account"

definition get_message :: "conv_state \<Rightarrow> string \<Rightarrow> message option" where
  "get_message s mid = dget (messages_by_id s) mid"

definition inbound_media_for_message :: "conv_state \<Rightarrow> string \<Rightarrow> inbound_media list" where
  "inbound_media_for_message s mid =
     sort_key (\<lambda>m. (dt_key (media_created_at m), media_id m))
       (filter (\<lambda>m. media_message_id m = mid) (dvalues (inbound_media_by_id s)))"

definition list_open_inbound_conversations :: "conv_state \<Rightarrow> conversation list" where
  "list_open_inbound_conversations s =
     sort_key conv_id
       (filter (\<lambda>c. latest_inbound_seq c > last_closed_inbound_seq c)
         (dvalues (conversations_by_id s)))"

definition inbound_in_window :: "string \<Rightarrow> int \<Rightarrow> int \<Rightarrow> message \<Rightarrow> bool" where
  "inbound_in_window cid from to m \<longleftrightarrow>
     msg_conversation_id m = cid \<and> msg_direction m = Inbound \<and>
     (case msg_seq m of None \<Rightarrow> False | Some n \<Rightarrow> from \<le> n \<and> n \<le> to)"

definition msg_seq_or_zero :: "message \<Rightarrow> int" where
  "msg_seq_or_zero m = (case msg_seq m of None \<Rightarrow> 0 | Some n \<Rightarrow> n)"

definition inbound_messages_for_window :: "conv_state \<Rightarrow> string \<Rightarrow> int \<Rightarrow> int \<Rightarrow> message list" where
  "inbound_messages_for_window s cid from to =
     sort_key (\<lambda>m. (msg_seq_or_zero m, msg_id m))
       (filter (inbound_in_window cid from to) (dvalues (messages_by_id s)))"

definition get_turn :: "conv_state \<Rightarrow> string \<Rightarrow> turn option" where
  "get_turn s tid = dget (turns_by_id s) tid"

definition get_turn_by_trigger_id :: "conv_state \<Rightarrow> string \<Rightarrow> turn option" where
  "get_turn_by_trigger_id s trig = dget (turns_by_trigger_id s) trig"

definition turn_order :: "turn \<Rightarrow> int \<times> int \<times> string" where
  "turn_order t = (dt_key (started_at t), dt_key (turn_created_at t), turn_id t)"

definition latest_turn_ids :: "conv_state \<Rightarrow> string \<Rightarrow> nat \<Rightarrow> string list" where
  "latest_turn_ids s cid limit =
     map turn_id (take limit (rev (sort_key turn_order
       (rev (filter (\<lambda>t. turn_conversation_id t = cid) (dvalues (turns_by_id s)))))))"

definition get_disposition :: "conv_state \<Rightarrow> string \<Rightarrow> output_disposition option" where
  "get_disposition s tid = dget (dispositions_by_turn_id s) tid"

definition is_active_interactive :: "conv_state \<Rightarrow> string \<Rightarrow> turn \<Rightarrow> bool" where
  "is_active_interactive s cid t \<longleftrightarrow>
     turn_conversation_id t = cid \<and> mode t = ''interactive'' \<and> completed_at t = None \<and>
     (case get_disposition s (turn_id t) of
        None \<Rightarrow> True | Some d \<Rightarrow> disposition d = PendingAsyncReply)"

definition active_interactive_turns :: "conv_state \<Rightarrow> string \<Rightarrow> turn list" where
  "active_interactive_turns s cid =
     sort_key turn_order (filter (is_active_interactive s cid) (dvalues (turns_by_id s)))"

text \<open>
  \<open>waiting_reply_candidates\<close> stops as soon as \<open>limit\<close> candidates are collected: the loop over the
  sorted turns, with the number still wanted as its argument.
\<close>

fun waiting_candidates_from ::
  "conv_state \<Rightarrow> datetime \<Rightarrow> nat \<Rightarrow> turn list \<Rightarrow> waiting_reply_candidate list" where
  "waiting_candidates_from s cutoff wanted [] = []"
| "waiting_candidates_from s cutoff wanted (t # ts) =
     (if wanted = 0 then []
      else if mode t \<noteq> ''interactive'' \<or> trigger_type t \<noteq> ''InboundTurn''
      then waiting_candidates_from s cutoff wanted ts
      else if completed_at t \<noteq> None \<or> dt_key (started_at t) > dt_key cutoff
      then waiting_candidates_from s cutoff wanted ts
      else if get_disposition s (turn_id t) \<noteq> None
      then waiting_candidates_from s cutoff wanted ts
      else
        (case get_conversation s (turn_conversation_id t) of
           None \<Rightarrow> waiting_candidates_from s cutoff wanted ts
         | Some c \<Rightarrow>
             if Some (latest_inbound_seq c) \<noteq> input_to_seq t
             then waiting_candidates_from s cutoff wanted ts
             else
               \<lparr>wrc_turn_id = turn_id t, wrc_trigger_id = trigger_id t,
                wrc_conversation_id = turn_conversation_id t, wrc_account_id = conv_account_id c,
                wrc_input_to_seq = input_to_seq t\<rparr>
               # waiting_candidates_from s cutoff (wanted - 1) ts))"

definition waiting_reply_candidates ::
  "conv_state \<Rightarrow> datetime \<Rightarrow> nat \<Rightarrow> waiting_reply_candidate list" where
  "waiting_reply_candidates s cutoff limit =
     waiting_candidates_from s cutoff limit (sort_key turn_order (dvalues (turns_by_id s)))"

definition outbound_messages_for_turn :: "conv_state \<Rightarrow> string \<Rightarrow> message list" where
  "outbound_messages_for_turn s tid =
     filter (\<lambda>m. msg_direction m = Outbound \<and> msg_turn_id m = Some tid)
       (dvalues (messages_by_id s))"

definition context_token :: "fact \<Rightarrow> string option" where
  "context_token payload =
     (case dget payload ''context_token'' of
        Some (PyStr token) \<Rightarrow> if py_strip token \<noteq> [] then Some (py_strip token) else None
      | _ \<Rightarrow> None)"

definition traceparent_for_inbound_message :: "outbox_record list \<Rightarrow> string \<Rightarrow> string option" where
  "traceparent_for_inbound_message records mid =
     map_option ob_traceparent
       (find (\<lambda>r. ob_topic r = ''turn.inbound'' \<and>
                 dget (ob_payload r) ''message_id'' = Some (PyStr mid)) records)"

definition latest_inbound_context_observation ::
  "conv_state \<Rightarrow> string \<Rightarrow> context_token_observation" where
  "latest_inbound_context_observation s cid =
     (let messages = rev (sort_key (\<lambda>m. (msg_seq_or_zero m, msg_id m)) (rev
            (filter (\<lambda>m. msg_conversation_id m = cid \<and> msg_direction m = Inbound \<and>
                         msg_seq m \<noteq> None) (dvalues (messages_by_id s)))))
      in case find (\<lambda>m. context_token (msg_payload m) \<noteq> None) messages of
           Some m \<Rightarrow>
             \<lparr>cto_token = context_token (msg_payload m), cto_source = ''latest_inbound_message'',
              cto_observed_at = Some (msg_created_at m),
              cto_traceparent =
                traceparent_for_inbound_message (dvalues (outbox_by_id s)) (msg_id m),
              cto_age_seconds = None\<rparr>
         | None \<Rightarrow>
             \<lparr>cto_token = None, cto_source = ''none'', cto_observed_at = None,
              cto_traceparent = None, cto_age_seconds = None\<rparr>)"

definition latest_inbound_context_token :: "conv_state \<Rightarrow> string \<Rightarrow> string option" where
  "latest_inbound_context_token s cid = cto_token (latest_inbound_context_observation s cid)"

definition list_unprocessed_outbox :: "conv_state \<Rightarrow> nat \<Rightarrow> outbox_record list" where
  "list_unprocessed_outbox s limit =
     take limit (filter (\<lambda>r. ob_processed_at r = None \<and> ob_acked_at r = None)
       (dvalues (outbox_by_id s)))"

section \<open>Writes\<close>

definition put_conversation :: "conversation \<Rightarrow> conv_state \<Rightarrow> conv_state" where
  "put_conversation c s =
     s\<lparr>conversations_by_id := dput (conv_id c) c (conversations_by_id s),
       conversations_by_account := dput (conv_account_id c) c (conversations_by_account s)\<rparr>"

definition add_conversation :: "conversation \<Rightarrow> unit conv" where
  "add_conversation c =
     bind (gets (\<lambda>s. get_conversation s (conv_id c))) (\<lambda>by_id.
     if by_id \<noteq> None then conv_error ''duplicate_conversation_id''
     else bind (gets (\<lambda>s. get_conversation_by_account s (conv_account_id c))) (\<lambda>by_account.
     if by_account \<noteq> None then conv_error ''duplicate_conversation_account''
     else modify (put_conversation c)))"

definition save_conversation :: "conversation \<Rightarrow> unit conv" where
  "save_conversation c =
     bind (gets (\<lambda>s. get_conversation s (conv_id c))) (\<lambda>existing.
     case existing of
       None \<Rightarrow> conv_error ''conversation_not_found''
     | Some old \<Rightarrow>
         bind (gets (\<lambda>s. get_conversation_by_account s (conv_account_id c))) (\<lambda>owner.
         if (case owner of None \<Rightarrow> False | Some ow \<Rightarrow> conv_id ow \<noteq> conv_id c)
         then conv_error ''duplicate_conversation_account''
         else
           bind (if conv_account_id old \<noteq> conv_account_id c
                 then modify (\<lambda>s. s\<lparr>conversations_by_account :=
                        dpop (conv_account_id old) (conversations_by_account s)\<rparr>)
                 else ret ()) (\<lambda>_.
           modify (put_conversation c))))"

definition require_message_id_available :: "string \<Rightarrow> unit conv" where
  "require_message_id_available mid =
     bind (gets (\<lambda>s. get_message s mid)) (\<lambda>m.
     if m \<noteq> None then conv_error ''duplicate_message_id'' else ret ())"

definition put_message :: "message \<Rightarrow> conv_state \<Rightarrow> conv_state" where
  "put_message m s = s\<lparr>messages_by_id := dput (msg_id m) m (messages_by_id s)\<rparr>"

definition put_media :: "inbound_media \<Rightarrow> conv_state \<Rightarrow> conv_state" where
  "put_media m s = s\<lparr>inbound_media_by_id := dput (media_id m) m (inbound_media_by_id s)\<rparr>"

definition save_outbox :: "outbox_record \<Rightarrow> conv_state \<Rightarrow> conv_state" where
  "save_outbox r s =
     s\<lparr>outbox_by_id := dput (ob_id r) r (outbox_by_id s),
       outbox_by_idempotency_key := dput (ob_idempotency_key r) r (outbox_by_idempotency_key s)\<rparr>"

definition same_inbound_seq :: "message \<Rightarrow> message \<Rightarrow> bool" where
  "same_inbound_seq m x \<longleftrightarrow>
     msg_conversation_id x = msg_conversation_id m \<and> msg_direction x = Inbound \<and>
     msg_seq x = msg_seq m"

definition check_outbox_free :: "outbox_record \<Rightarrow> unit conv" where
  "check_outbox_free r =
     bind (gets outbox_by_id) (\<lambda>d.
     if dget d (ob_id r) \<noteq> None then conv_error ''duplicate_outbox_id''
     else bind (gets outbox_by_idempotency_key) (\<lambda>ix.
     if dget ix (ob_idempotency_key r) \<noteq> None then conv_error ''duplicate_outbox_idempotency_key''
     else ret ()))"

definition check_media :: "message \<Rightarrow> inbound_media \<Rightarrow> unit conv" where
  "check_media m item =
     bind (gets inbound_media_by_id) (\<lambda>d.
     if dget d (media_id item) \<noteq> None then conv_error ''duplicate_inbound_media_id''
     else if media_message_id item \<noteq> msg_id m then conv_error ''media_message_mismatch''
     else ret ())"

definition add_inbound_message_with_media_and_outbox ::
  "conversation \<Rightarrow> message \<Rightarrow> inbound_media list \<Rightarrow> outbox_record \<Rightarrow> unit conv" where
  "add_inbound_message_with_media_and_outbox c m media r =
     (if msg_direction m \<noteq> Inbound then conv_error ''message_not_inbound''
      else if msg_seq m = None then conv_error ''inbound_seq_required''
      else
        bind (require_message_id_available (msg_id m)) (\<lambda>_.
        bind (gets (\<lambda>s. dvalues (messages_by_id s))) (\<lambda>existing_messages.
        if list_ex (same_inbound_seq m) existing_messages
        then conv_error ''duplicate_inbound_seq''
        else
          bind (check_outbox_free r) (\<lambda>_.
          bind (for_each media (check_media m)) (\<lambda>_.
          bind (gets (\<lambda>s. get_conversation s (conv_id c))) (\<lambda>existing.
          case existing of
            None \<Rightarrow> conv_error ''conversation_not_found''
          | Some old \<Rightarrow>
              bind (save_conversation
                (c\<lparr>latest_inbound_seq := max (latest_inbound_seq old) (latest_inbound_seq c),
                   last_closed_inbound_seq :=
                     max (last_closed_inbound_seq old) (last_closed_inbound_seq c)\<rparr>)) (\<lambda>_.
              bind (modify (put_message m)) (\<lambda>_.
              bind (for_each media (\<lambda>item. modify (put_media item))) (\<lambda>_.
              modify (save_outbox r))))))))))"

definition check_media_update ::
  "string \<Rightarrow> string \<times> inbound_media_status_update \<Rightarrow> unit conv" where
  "check_media_update mid p =
     bind (gets inbound_media_by_id) (\<lambda>d.
     case dget d (fst p) of
       None \<Rightarrow> conv_error ''inbound_media_not_found''
     | Some media \<Rightarrow>
         if media_message_id media \<noteq> mid then conv_error ''media_message_mismatch''
         else if imsu_processing_status (snd p) \<notin> {''preserved'', ''resolved'', ''failed''}
         then conv_error ''invalid_media_processing_status''
         else ret ())"

definition apply_media_update ::
  "datetime \<Rightarrow> string \<times> inbound_media_status_update \<Rightarrow> unit conv" where
  "apply_media_update resolved_at p =
     bind (gets inbound_media_by_id) (\<lambda>d.
     case dget d (fst p) of
       None \<Rightarrow> raise KeyError
     | Some media \<Rightarrow>
         modify (\<lambda>s. s\<lparr>inbound_media_by_id := dput (fst p)
           (media\<lparr>processing_status := imsu_processing_status (snd p),
                  media_updated_at := resolved_at\<rparr>) (inbound_media_by_id s)\<rparr>))"

definition update_by_id ::
  "inbound_media_status_update list \<Rightarrow> (string, inbound_media_status_update) dict" where
  "update_by_id us = fold (\<lambda>u d. dput (imsu_media_id u) u d) us []"

definition repo_resolve_inbound_media ::
  "string \<Rightarrow> string option \<Rightarrow> inbound_media_status_update list \<Rightarrow> datetime \<Rightarrow> message conv" where
  "repo_resolve_inbound_media mid resolved_text updates resolved_at =
     bind (gets (\<lambda>s. get_message s mid)) (\<lambda>found.
     case found of
       None \<Rightarrow> conv_error ''message_not_found''
     | Some m \<Rightarrow>
         bind (for_each (update_by_id updates) (check_media_update mid)) (\<lambda>_.
         let updated = m\<lparr>msg_text := resolved_text, msg_updated_at := resolved_at\<rparr> in
         bind (modify (\<lambda>s. s\<lparr>messages_by_id := dput mid updated (messages_by_id s)\<rparr>)) (\<lambda>_.
         bind (for_each (update_by_id updates) (apply_media_update resolved_at)) (\<lambda>_.
         ret updated))))"

definition put_turn :: "turn \<Rightarrow> conv_state \<Rightarrow> conv_state" where
  "put_turn t s =
     s\<lparr>turns_by_id := dput (turn_id t) t (turns_by_id s),
       turns_by_trigger_id := dput (trigger_id t) t (turns_by_trigger_id s)\<rparr>"

definition add_turn :: "turn \<Rightarrow> unit conv" where
  "add_turn t =
     bind (gets (\<lambda>s. get_turn s (turn_id t))) (\<lambda>by_id.
     if by_id \<noteq> None then conv_error ''duplicate_turn_id''
     else bind (gets (\<lambda>s. get_turn_by_trigger_id s (trigger_id t))) (\<lambda>by_trigger.
     if by_trigger \<noteq> None then conv_error ''duplicate_turn_trigger_id''
     else bind (gets (\<lambda>s. get_conversation s (turn_conversation_id t))) (\<lambda>c.
     if c = None then conv_error ''conversation_not_found''
     else modify (put_turn t))))"

definition save_turn :: "turn \<Rightarrow> unit conv" where
  "save_turn t =
     bind (gets (\<lambda>s. get_turn s (turn_id t))) (\<lambda>existing.
     case existing of
       None \<Rightarrow> conv_error ''turn_not_found''
     | Some old \<Rightarrow>
         bind (gets (\<lambda>s. get_turn_by_trigger_id s (trigger_id t))) (\<lambda>owner.
         if (case owner of None \<Rightarrow> False | Some ow \<Rightarrow> turn_id ow \<noteq> turn_id t)
         then conv_error ''duplicate_turn_trigger_id''
         else
           bind (if trigger_id old \<noteq> trigger_id t
                 then modify (\<lambda>s. s\<lparr>turns_by_trigger_id :=
                        dpop (trigger_id old) (turns_by_trigger_id s)\<rparr>)
                 else ret ()) (\<lambda>_.
           modify (put_turn t))))"

definition save_conversation_and_turn :: "conversation \<Rightarrow> turn \<Rightarrow> unit conv" where
  "save_conversation_and_turn c t = bind (save_conversation c) (\<lambda>_. save_turn t)"

definition same_outbound_segment :: "message \<Rightarrow> message \<Rightarrow> bool" where
  "same_outbound_segment m x \<longleftrightarrow>
     msg_direction x = Outbound \<and> msg_turn_id x = msg_turn_id m \<and>
     segment_index x = segment_index m"

definition add_outbound_message :: "message \<Rightarrow> unit conv" where
  "add_outbound_message m =
     (if msg_direction m \<noteq> Outbound then conv_error ''message_not_outbound''
      else if msg_turn_id m = None \<or> segment_index m = None
      then conv_error ''outbound_turn_segment_required''
      else
        bind (require_message_id_available (msg_id m)) (\<lambda>_.
        bind (gets (\<lambda>s. dvalues (messages_by_id s))) (\<lambda>existing.
        if list_ex (same_outbound_segment m) existing
        then conv_error ''duplicate_outbound_segment''
        else modify (put_message m))))"

definition save_disposition :: "output_disposition \<Rightarrow> unit conv" where
  "save_disposition d =
     modify (\<lambda>s. s\<lparr>dispositions_by_turn_id := dput (disp_turn_id d) d (dispositions_by_turn_id s)\<rparr>)"

definition add_outbox :: "outbox_record \<Rightarrow> unit conv" where
  "add_outbox r = bind (check_outbox_free r) (\<lambda>_. modify (save_outbox r))"

definition require_outbox :: "string \<Rightarrow> outbox_record conv" where
  "require_outbox event_id =
     bind (gets (\<lambda>s. dget (outbox_by_id s) event_id)) (\<lambda>r.
     case r of None \<Rightarrow> conv_error ''outbox_not_found'' | Some x \<Rightarrow> ret x)"

definition mark_outbox_published :: "string \<Rightarrow> datetime \<Rightarrow> outbox_record conv" where
  "mark_outbox_published event_id published_at =
     bind (require_outbox event_id) (\<lambda>r.
     let updated = r\<lparr>ob_status := ''published'', ob_published_at := Some published_at\<rparr> in
     bind (modify (save_outbox updated)) (\<lambda>_. ret updated))"

definition mark_outbox_processed :: "string \<Rightarrow> datetime \<Rightarrow> outbox_record conv" where
  "mark_outbox_processed event_id processed_at =
     bind (require_outbox event_id) (\<lambda>r.
     let updated = r\<lparr>ob_status := ''processed'', ob_processed_at := Some processed_at,
                     ob_acked_at := Some processed_at\<rparr> in
     bind (modify (save_outbox updated)) (\<lambda>_. ret updated))"

end
