(* ===== verification/ConvService.thy ===== *)
theory ConvService
  imports ConvRepository
begin

text \<open>
  \<open>ConversationRuntimeService\<close> (\<open>coke/domains/conversation_runtime/service.py\<close>): recording inbound
  messages, starting turns over input windows, and the close boundary, where a turn gets its one
  output disposition and the conversation's window is closed.
\<close>

section \<open>Requirements and transitions\<close>

definition require_conversation :: "string \<Rightarrow> conversation conv" where
  "require_conversation cid =
     bind (gets (\<lambda>s. get_conversation s cid)) (\<lambda>c.
     case c of None \<Rightarrow> conv_error ''conversation_not_found'' | Some x \<Rightarrow> ret x)"

definition require_locked_conversation :: "string \<Rightarrow> conversation conv" where
  "require_locked_conversation cid =
     bind (gets (\<lambda>s. lock_conversation s cid)) (\<lambda>c.
     case c of None \<Rightarrow> conv_error ''conversation_not_found'' | Some x \<Rightarrow> ret x)"

definition require_turn :: "string \<Rightarrow> turn conv" where
  "require_turn tid =
     bind (gets (\<lambda>s. get_turn s tid)) (\<lambda>t.
     case t of None \<Rightarrow> conv_error ''turn_not_found'' | Some x \<Rightarrow> ret x)"

definition ensure_turn_can_transition ::
  "output_disposition option \<Rightarrow> disposition_state \<Rightarrow> unit conv" where
  "ensure_turn_can_transition existing target =
     (case existing of
        None \<Rightarrow> ret ()
      | Some d \<Rightarrow>
          if disposition d = Superseded
          then raise (ConversationRuntimeError ''turn_superseded''
                 (Some [(''turn_id'', PyStr (disp_turn_id d))]))
          else if disposition d = PendingAsyncReply \<and> target \<in> {Replied, Failed, Recovered}
          then ret ()
          else if disposition d \<in> set terminal_dispositions
          then conv_error ''turn_already_terminal''
          else conv_error ''invalid_disposition_transition'')"

definition new_disposition ::
  "env \<Rightarrow> string \<Rightarrow> disposition_state \<Rightarrow> string option \<Rightarrow> output_disposition conv" where
  "new_disposition E tid d reason =
     bind (py_now E) (\<lambda>now.
     bind (new_id E ''output_disposition'') (\<lambda>did.
     ret \<lparr>disp_id = did, disp_turn_id = tid, disposition = d, reason_code = reason,
          disp_created_at = now, disp_updated_at = now\<rparr>))"

definition disposition_for_transition ::
  "env \<Rightarrow> output_disposition option \<Rightarrow> string \<Rightarrow> disposition_state \<Rightarrow> string option \<Rightarrow>
    output_disposition conv" where
  "disposition_for_transition E existing tid d reason =
     (case existing of
        None \<Rightarrow> new_disposition E tid d reason
      | Some old \<Rightarrow>
          bind (py_now E) (\<lambda>now.
          ret (old\<lparr>disposition := d, reason_code := reason, disp_updated_at := now\<rparr>)))"

definition write_superseded ::
  "env \<Rightarrow> turn \<Rightarrow> output_disposition option \<Rightarrow> string \<Rightarrow> output_disposition conv" where
  "write_superseded E t existing reason =
     bind (py_now E) (\<lambda>now.
     bind (require_conversation (turn_conversation_id t)) (\<lambda>c.
     bind (disposition_for_transition E existing (turn_id t) Superseded (Some reason)) (\<lambda>d.
     bind (save_disposition d) (\<lambda>_.
     bind (save_turn (t\<lparr>superseded_by_inbound_seq := Some (latest_inbound_seq c),
                        completed_at := Some now, turn_updated_at := now\<rparr>)) (\<lambda>_.
     ret d)))))"

definition record_superseded :: "env \<Rightarrow> turn \<Rightarrow> string \<Rightarrow> output_disposition conv" where
  "record_superseded E t reason =
     bind (gets (\<lambda>s. get_disposition s (turn_id t))) (\<lambda>existing.
     case existing of
       Some d \<Rightarrow> if disposition d \<noteq> PendingAsyncReply then ret d
                 else write_superseded E t existing reason
     | None \<Rightarrow> write_superseded E t existing reason)"

definition turn_superseded_error :: "fact \<Rightarrow> pyexn" where
  "turn_superseded_error f = ConversationRuntimeError ''turn_superseded'' (Some f)"

text \<open>
  The close guard: a superseded turn never closes; a turn without an input window may; a turn with
  a window closes only while its window is the open one (or, for a pending turn, was closed up to
  its own end) and no newer message has arrived. Otherwise the turn is recorded as superseded.
\<close>

definition ensure_turn_can_close :: "env \<Rightarrow> turn \<Rightarrow> conversation conv" where
  "ensure_turn_can_close E t =
     bind (gets (\<lambda>s. get_disposition s (turn_id t))) (\<lambda>existing.
     if map_option disposition existing = Some Superseded
     then raise (turn_superseded_error [(''turn_id'', PyStr (turn_id t))])
     else
       let existing_pending = (map_option disposition existing = Some PendingAsyncReply) in
       bind (require_locked_conversation (turn_conversation_id t)) (\<lambda>c.
       case (input_from_seq t, input_to_seq t) of
         (Some from, Some to) \<Rightarrow>
           let window_open = (last_closed_inbound_seq c = from - 1);
               own_pending_window_already_marked =
                 (existing_pending \<and> last_closed_inbound_seq c = to)
           in if \<not> window_open \<and> \<not> own_pending_window_already_marked
              then bind (record_superseded E t ''window_already_closed'') (\<lambda>_.
                   raise (turn_superseded_error
                     [(''turn_id'', PyStr (turn_id t)), (''input_from_seq'', PyInt from),
                      (''last_closed_inbound_seq'', PyInt (last_closed_inbound_seq c))]))
              else if latest_inbound_seq c \<noteq> to
              then bind (record_superseded E t ''newer_inbound_seq'') (\<lambda>_.
                   raise (turn_superseded_error
                     [(''turn_id'', PyStr (turn_id t)), (''input_to_seq'', PyInt to),
                      (''latest_inbound_seq'', PyInt (latest_inbound_seq c))]))
              else ret c
       | _ \<Rightarrow> ret c))"

definition save_close_state :: "conversation \<Rightarrow> turn \<Rightarrow> datetime \<Rightarrow> unit conv" where
  "save_close_state c t now =
     (case input_to_seq t of
        None \<Rightarrow> save_turn t
      | Some to \<Rightarrow>
          save_conversation_and_turn
            (c\<lparr>last_closed_inbound_seq := to, conv_updated_at := now\<rparr>) t)"

fun interrupt_turns :: "env \<Rightarrow> turn list \<Rightarrow> string \<Rightarrow> turn list conv" where
  "interrupt_turns E [] reason = ret []"
| "interrupt_turns E (t # ts) reason =
     bind (gets (\<lambda>s. get_disposition s (turn_id t))) (\<lambda>existing.
     if existing \<noteq> None \<and> map_option disposition existing \<noteq> Some PendingAsyncReply
     then interrupt_turns E ts reason
     else bind (record_superseded E t reason) (\<lambda>_.
          bind (interrupt_turns E ts reason) (\<lambda>rest. ret (t # rest))))"

section \<open>Input windows\<close>

definition current_input :: "message \<Rightarrow> int \<Rightarrow> current_input_message" where
  "current_input m n =
     \<lparr>cim_message_id = msg_id m, cim_seq = n, cim_text = msg_text m, cim_payload = msg_payload m,
      cim_causal_inbound_event_id = causal_inbound_event_id m\<rparr>"

definition input_messages_for_window ::
  "conv_state \<Rightarrow> string \<Rightarrow> int \<Rightarrow> int \<Rightarrow> current_input_message list" where
  "input_messages_for_window s cid from to =
     List.map_filter (\<lambda>m. map_option (current_input m) (msg_seq m))
       (inbound_messages_for_window s cid from to)"

definition input_messages_for_turn :: "conv_state \<Rightarrow> turn \<Rightarrow> current_input_message list" where
  "input_messages_for_turn s t =
     (case (input_from_seq t, input_to_seq t) of
        (Some from, Some to) \<Rightarrow> input_messages_for_window s (turn_conversation_id t) from to
      | _ \<Rightarrow> [])"

section \<open>Recording an inbound message\<close>

record inbound_record_result =
  irr_conversation :: conversation
  irr_message :: message
  irr_media :: "inbound_media list"
  irr_outbox :: outbox_record
  irr_interrupted_turns :: "turn list"

definition find_or_add_conversation ::
  "env \<Rightarrow> string \<Rightarrow> datetime \<Rightarrow> conversation option \<Rightarrow> conversation conv" where
  "find_or_add_conversation E account_id now found =
     (case found of
        Some c \<Rightarrow> ret c
      | None \<Rightarrow>
          bind (new_id E ''conversation'') (\<lambda>cid.
          let c = \<lparr>conv_id = cid, conv_account_id = account_id, latest_inbound_seq = 0,
                   last_closed_inbound_seq = 0, conv_created_at = now, conv_updated_at = now\<rparr>
          in catch (bind (add_conversation c) (\<lambda>_. ret c)) (\<lambda>e.
             if (case e of ConversationRuntimeError code _ \<Rightarrow> code = ''duplicate_conversation_account''
                 | _ \<Rightarrow> False)
             then bind (gets (\<lambda>s. get_conversation_by_account s account_id)) (\<lambda>again.
                  case again of None \<Rightarrow> raise e | Some c' \<Rightarrow> ret c')
             else raise e)))"

definition preserve_media ::
  "env \<Rightarrow> string \<Rightarrow> datetime \<Rightarrow> inbound_media_input \<Rightarrow> inbound_media conv" where
  "preserve_media E mid now item =
     bind (new_id E ''inbound_media'') (\<lambda>iid.
     ret \<lparr>media_id = iid, media_message_id = mid, media_type = imi_media_type item,
          storage_uri = imi_storage_uri item, processing_status = ''preserved'',
          agent_reference =
            [(''type'', PyStr (imi_media_type item)), (''label'', PyStr (imi_agent_label item))] @
            (case imi_mime item of
               Some m \<Rightarrow> if m \<noteq> [] then [(''mime'', PyStr m)] else []
             | None \<Rightarrow> []),
          media_created_at = now, media_updated_at = now\<rparr>)"

definition inbound_message ::
  "string \<Rightarrow> conversation \<Rightarrow> datetime \<Rightarrow> string \<Rightarrow> string \<Rightarrow> string option \<Rightarrow> fact \<Rightarrow> message" where
  "inbound_message mid c now channel_id causal_id text payload =
     \<lparr>msg_id = mid, msg_conversation_id = conv_id c, msg_turn_id = None,
      msg_direction = Inbound, segment_index = None, msg_seq = Some (latest_inbound_seq c + 1),
      channel_identity_id = Some channel_id, causal_inbound_event_id = Some causal_id,
      msg_text = text, msg_payload = payload, facts_hash = None,
      msg_created_at = now, msg_updated_at = now\<rparr>"

definition inbound_outbox ::
  "string \<Rightarrow> conversation \<Rightarrow> datetime \<Rightarrow> string \<Rightarrow> string \<Rightarrow> string \<Rightarrow> turn list \<Rightarrow> outbox_record" where
  "inbound_outbox oid c now mid causal_id traceparent active_turns =
     \<lparr>ob_id = oid, ob_topic = ''turn.inbound'', ob_idempotency_key = ''inbound:'' @ causal_id,
      ob_payload =
        [(''conversation_id'', PyStr (conv_id c)),
         (''message_id'', PyStr mid), (''trigger_id'', PyStr (''inbound:'' @ causal_id)),
         (''latest_inbound_seq'', PyInt (latest_inbound_seq c + 1)),
         (''interrupted_turn_trigger_ids'',
          PyList (map (\<lambda>t. PyStr (trigger_id t)) active_turns))],
      ob_traceparent = traceparent, ob_status = ''pending'', ob_created_at = now,
      ob_published_at = None, ob_processed_at = None, ob_acked_at = None,
      ob_retry_count = 0, ob_last_error = None\<rparr>"

text \<open>
  The write of the message with its media and outbox record, and the interruptions it causes; then
  the method, on the conversation \<open>c\<close> found or just created, and as a whole.
\<close>

definition write_inbound ::
  "env \<Rightarrow> conversation \<Rightarrow> datetime \<Rightarrow> turn list \<Rightarrow> message \<Rightarrow> inbound_media list \<Rightarrow> outbox_record \<Rightarrow>
    inbound_record_result conv" where
  "write_inbound E c now active_turns m preserved_media r =
     (let updated_conversation =
        c\<lparr>latest_inbound_seq := latest_inbound_seq c + 1, conv_updated_at := now\<rparr>
      in
      bind (add_inbound_message_with_media_and_outbox updated_conversation m preserved_media r) (\<lambda>_.
      bind (interrupt_turns E active_turns ''interrupted_by_newer_inbound'') (\<lambda>interrupted.
      ret \<lparr>irr_conversation = updated_conversation, irr_message = m, irr_media = preserved_media,
           irr_outbox = r, irr_interrupted_turns = interrupted\<rparr>)))"

definition record_inbound_in ::
  "env \<Rightarrow> conversation \<Rightarrow> datetime \<Rightarrow> string \<Rightarrow> string \<Rightarrow> string option \<Rightarrow> fact \<Rightarrow> string \<Rightarrow>
    inbound_media_input list \<Rightarrow> inbound_record_result conv" where
  "record_inbound_in E c now channel_id causal_id text payload traceparent media =
     bind (gets (\<lambda>s. active_interactive_turns s (conv_id c))) (\<lambda>active_turns.
     bind (new_id E ''message'') (\<lambda>mid.
     bind (map_py (preserve_media E mid now) media) (\<lambda>preserved_media.
     bind (new_id E ''outbox'') (\<lambda>oid.
     write_inbound E c now active_turns
       (inbound_message mid c now channel_id causal_id text payload) preserved_media
       (inbound_outbox oid c now mid causal_id traceparent active_turns)))))"

definition record_inbound ::
  "env \<Rightarrow> string \<Rightarrow> string \<Rightarrow> string \<Rightarrow> string option \<Rightarrow> fact \<Rightarrow> string \<Rightarrow>
    inbound_media_input list \<Rightarrow> inbound_record_result conv" where
  "record_inbound E account_id channel_id causal_id text payload traceparent media =
     bind (gets (\<lambda>s. get_conversation_by_account s account_id)) (\<lambda>found.
     bind (py_now E) (\<lambda>now.
     bind (find_or_add_conversation E account_id now found) (\<lambda>c.
     record_inbound_in E c now channel_id causal_id text payload traceparent media)))"

section \<open>Starting a turn\<close>

record turn_start_result =
  tsr_turn :: turn
  tsr_replayed :: bool
  tsr_input_messages :: "current_input_message list"

definition open_window ::
  "conversation \<Rightarrow> string \<Rightarrow> (int option \<times> int option \<times> current_input_message list) conv" where
  "open_window c turn_mode =
     (if turn_mode = ''interactive'' then
        let from = last_closed_inbound_seq c + 1; to = latest_inbound_seq c in
        if to < from then conv_error ''no_open_inbound_window''
        else bind (gets (\<lambda>s. input_messages_for_window s (conv_id c) from to)) (\<lambda>msgs.
             ret (Some from, Some to, msgs))
      else ret (None, None, []))"

definition start_turn ::
  "env \<Rightarrow> string \<Rightarrow> string \<Rightarrow> string \<Rightarrow> string \<Rightarrow> turn_start_result conv" where
  "start_turn E cid trig ttype turn_mode =
     bind (gets (\<lambda>s. get_turn_by_trigger_id s trig)) (\<lambda>existing.
     case existing of
       Some t \<Rightarrow>
         if turn_conversation_id t \<noteq> cid then conv_error ''turn_trigger_conversation_mismatch''
         else bind (gets (\<lambda>s. input_messages_for_turn s t)) (\<lambda>msgs.
              ret \<lparr>tsr_turn = t, tsr_replayed = True, tsr_input_messages = msgs\<rparr>)
     | None \<Rightarrow>
         bind (require_conversation cid) (\<lambda>c.
         bind (py_now E) (\<lambda>now.
         bind (open_window c turn_mode) (\<lambda>(from, to, msgs).
         bind (new_id E ''turn'') (\<lambda>tid.
         let t = \<lparr>turn_id = tid, turn_conversation_id = cid, trigger_id = trig,
                  trigger_type = ttype, mode = turn_mode, input_from_seq = from,
                  input_to_seq = to, superseded_by_inbound_seq = None, started_at = now,
                  completed_at = None, turn_created_at = now, turn_updated_at = now\<rparr>
         in
         bind (add_turn t) (\<lambda>_.
         ret \<lparr>tsr_turn = t, tsr_replayed = False, tsr_input_messages = msgs\<rparr>))))))"

section \<open>Closing a turn\<close>

definition outbound_segment ::
  "turn \<Rightarrow> datetime \<Rightarrow> fact \<Rightarrow> string \<Rightarrow> nat \<Rightarrow> string \<Rightarrow> message" where
  "outbound_segment t now extra mid index text =
     \<lparr>msg_id = mid, msg_conversation_id = turn_conversation_id t, msg_turn_id = Some (turn_id t),
      msg_direction = Outbound, segment_index = Some (int index), msg_seq = None,
      channel_identity_id = None, causal_inbound_event_id = None, msg_text = Some text,
      msg_payload = (''segment_index'', PyInt (int index)) # extra, facts_hash = None,
      msg_created_at = now, msg_updated_at = now\<rparr>"

text \<open>\<open>for index, text in enumerate(segments, start=1)\<close>: each segment its own message.\<close>

definition add_segments :: "env \<Rightarrow> turn \<Rightarrow> datetime \<Rightarrow> fact \<Rightarrow> string list \<Rightarrow> unit conv" where
  "add_segments E t now extra segments =
     for_each (enumerate 1 segments) (\<lambda>(index, text).
       bind (new_id E ''message'') (\<lambda>mid.
       add_outbound_message (outbound_segment t now extra mid index text)))"

text \<open>\<open>if existing is not None and existing.disposition == d: return existing\<close>.\<close>

definition unless_already ::
  "output_disposition option \<Rightarrow> disposition_state \<Rightarrow> output_disposition conv \<Rightarrow>
    output_disposition conv" where
  "unless_already existing d rest =
     (case existing of Some x \<Rightarrow> if disposition x = d then ret x else rest | None \<Rightarrow> rest)"

definition commit_reply :: "env \<Rightarrow> string \<Rightarrow> string list \<Rightarrow> string \<Rightarrow> output_disposition conv" where
  "commit_reply E tid segments reason =
     (if \<not> (1 \<le> length segments \<and> length segments \<le> 3) then conv_error ''invalid_segment_count''
      else
        bind (require_turn tid) (\<lambda>t.
        bind (gets (\<lambda>s. get_disposition s tid)) (\<lambda>existing.
        unless_already existing Replied (
        bind (ensure_turn_can_transition existing Replied) (\<lambda>_.
        bind (ensure_turn_can_close E t) (\<lambda>c.
        bind (py_now E) (\<lambda>now.
        bind (add_segments E t now [] segments) (\<lambda>_.
        bind (disposition_for_transition E existing (turn_id t) Replied (Some reason)) (\<lambda>d.
        bind (save_disposition d) (\<lambda>_.
        bind (save_close_state c (t\<lparr>completed_at := Some now, turn_updated_at := now\<rparr>) now) (\<lambda>_.
        ret d)))))))))))"

definition commit_no_reply :: "env \<Rightarrow> string \<Rightarrow> string \<Rightarrow> output_disposition conv" where
  "commit_no_reply E tid reason =
     (if reason \<notin> {''intentional_no_reply'', ''media_resolution_failed''}
      then conv_error ''invalid_no_reply_reason''
      else
        bind (require_turn tid) (\<lambda>t.
        bind (gets (\<lambda>s. get_disposition s tid)) (\<lambda>existing.
        unless_already existing NoReply (
        bind (ensure_turn_can_transition existing NoReply) (\<lambda>_.
        bind (ensure_turn_can_close E t) (\<lambda>c.
        bind (py_now E) (\<lambda>now.
        bind (new_disposition E (turn_id t) NoReply (Some reason)) (\<lambda>d.
        bind (save_disposition d) (\<lambda>_.
        bind (save_close_state c (t\<lparr>completed_at := Some now, turn_updated_at := now\<rparr>) now) (\<lambda>_.
        ret d))))))))))"

definition commit_recovery_reply ::
  "env \<Rightarrow> string \<Rightarrow> string list \<Rightarrow> string \<Rightarrow> output_disposition conv" where
  "commit_recovery_reply E tid segments reason =
     (if \<not> (1 \<le> length segments \<and> length segments \<le> 3) then conv_error ''invalid_segment_count''
      else
        bind (require_turn tid) (\<lambda>t.
        bind (gets (\<lambda>s. get_disposition s tid)) (\<lambda>existing.
        unless_already existing Recovered (
        bind (ensure_turn_can_transition existing Recovered) (\<lambda>_.
        bind (ensure_turn_can_close E t) (\<lambda>c.
        bind (py_now E) (\<lambda>now.
        bind (add_segments E t now [(''message_type'', PyStr ''recovery'')] segments) (\<lambda>_.
        bind (disposition_for_transition E existing (turn_id t) Recovered (Some reason)) (\<lambda>d.
        bind (save_disposition d) (\<lambda>_.
        bind (save_close_state c (t\<lparr>completed_at := Some now, turn_updated_at := now\<rparr>) now) (\<lambda>_.
        ret d)))))))))))"

definition mark_pending_async_reply :: "env \<Rightarrow> string \<Rightarrow> string \<Rightarrow> output_disposition conv" where
  "mark_pending_async_reply E tid reason =
     bind (require_turn tid) (\<lambda>t.
     bind (gets (\<lambda>s. get_disposition s tid)) (\<lambda>existing.
     unless_already existing PendingAsyncReply (
     bind (ensure_turn_can_transition existing PendingAsyncReply) (\<lambda>_.
     bind (ensure_turn_can_close E t) (\<lambda>_.
     bind (py_now E) (\<lambda>now.
     bind (new_disposition E (turn_id t) PendingAsyncReply (Some reason)) (\<lambda>d.
     bind (save_disposition d) (\<lambda>_.
     bind (save_turn (t\<lparr>turn_updated_at := now\<rparr>)) (\<lambda>_.
     ret d)))))))))"

definition mark_failed :: "env \<Rightarrow> string \<Rightarrow> string \<Rightarrow> output_disposition conv" where
  "mark_failed E tid reason =
     bind (require_turn tid) (\<lambda>t.
     bind (gets (\<lambda>s. get_disposition s tid)) (\<lambda>existing.
     unless_already existing Failed (
     bind (ensure_turn_can_transition existing Failed) (\<lambda>_.
     bind (py_now E) (\<lambda>now.
     bind (disposition_for_transition E existing (turn_id t) Failed (Some reason)) (\<lambda>d.
     bind (save_disposition d) (\<lambda>_.
     bind (save_turn (t\<lparr>completed_at := Some now, turn_updated_at := now\<rparr>)) (\<lambda>_.
     ret d))))))))"

definition mark_superseded :: "env \<Rightarrow> string \<Rightarrow> string \<Rightarrow> output_disposition conv" where
  "mark_superseded E tid reason =
     bind (require_turn tid) (\<lambda>t.
     bind (gets (\<lambda>s. get_disposition s tid)) (\<lambda>existing.
     case existing of
       Some d \<Rightarrow> ret d
     | None \<Rightarrow> record_superseded E t reason))"

definition interrupt_active_interactive_turns :: "env \<Rightarrow> string \<Rightarrow> string \<Rightarrow> turn list conv" where
  "interrupt_active_interactive_turns E cid reason =
     bind (require_conversation cid) (\<lambda>_.
     bind (gets (\<lambda>s. active_interactive_turns s cid)) (\<lambda>ts.
     interrupt_turns E ts reason))"

definition guard_state_change :: "env \<Rightarrow> string \<Rightarrow> unit conv" where
  "guard_state_change E tid =
     bind (require_turn tid) (\<lambda>t.
     bind (ensure_turn_can_close E t) (\<lambda>_.
     ret ()))"

section \<open>Reads and the other writes of the service\<close>

definition service_get_disposition :: "string \<Rightarrow> output_disposition conv" where
  "service_get_disposition tid =
     bind (gets (\<lambda>s. get_disposition s tid)) (\<lambda>d.
     case d of None \<Rightarrow> conv_error ''disposition_not_found'' | Some x \<Rightarrow> ret x)"

definition service_get_message :: "string \<Rightarrow> message conv" where
  "service_get_message mid =
     bind (gets (\<lambda>s. get_message s mid)) (\<lambda>m.
     case m of None \<Rightarrow> conv_error ''message_not_found'' | Some x \<Rightarrow> ret x)"

definition service_inbound_media_for_message :: "string \<Rightarrow> inbound_media list conv" where
  "service_inbound_media_for_message mid =
     bind (service_get_message mid) (\<lambda>_. gets (\<lambda>s. inbound_media_for_message s mid))"

definition resolve_inbound_media ::
  "env \<Rightarrow> string \<Rightarrow> string option \<Rightarrow> inbound_media_status_update list \<Rightarrow> message conv" where
  "resolve_inbound_media E mid resolved_text updates =
     bind (service_get_message mid) (\<lambda>_.
     bind (py_now E) (\<lambda>now.
     repo_resolve_inbound_media mid resolved_text updates now))"

definition service_outbound_messages_for_turn :: "string \<Rightarrow> message list conv" where
  "service_outbound_messages_for_turn tid =
     bind (require_turn tid) (\<lambda>_. gets (\<lambda>s. outbound_messages_for_turn s tid))"

definition recent_turns_with_messages ::
  "string \<Rightarrow> nat \<Rightarrow> (turn \<times> current_input_message list \<times> message list) list conv" where
  "recent_turns_with_messages cid limit =
     bind (require_conversation cid) (\<lambda>_.
     bind (gets (\<lambda>s. latest_turn_ids s cid limit)) (\<lambda>tids.
     map_py (\<lambda>tid.
       bind (require_turn tid) (\<lambda>t.
       gets (\<lambda>s. (t, input_messages_for_turn s t, outbound_messages_for_turn s tid)))) tids))"

definition record_outbound_message ::
  "env \<Rightarrow> string \<Rightarrow> string \<Rightarrow> int \<Rightarrow> fact option \<Rightarrow> message conv" where
  "record_outbound_message E tid text index payload =
     bind (require_turn tid) (\<lambda>t.
     bind (py_now E) (\<lambda>now.
     bind (new_id E ''message'') (\<lambda>mid.
     let m = \<lparr>msg_id = mid, msg_conversation_id = turn_conversation_id t,
              msg_turn_id = Some (turn_id t), msg_direction = Outbound,
              segment_index = Some index, msg_seq = None, channel_identity_id = None,
              causal_inbound_event_id = None, msg_text = Some text,
              msg_payload = (case payload of None \<Rightarrow> [] | Some p \<Rightarrow> p), facts_hash = None,
              msg_created_at = now, msg_updated_at = now\<rparr>
     in bind (add_outbound_message m) (\<lambda>_. ret m))))"

text \<open>\<open>replace(tzinfo=UTC)\<close> on a naive datetime; an aware one is kept.\<close>

definition assume_utc :: "datetime \<Rightarrow> datetime" where
  "assume_utc d = (case d of Naive w \<Rightarrow> Aware w 0 | Aware u off \<Rightarrow> Aware u off)"

definition latest_context_token_observation :: "env \<Rightarrow> string \<Rightarrow> context_token_observation conv" where
  "latest_context_token_observation E cid =
     bind (require_conversation cid) (\<lambda>_.
     bind (gets (\<lambda>s. latest_inbound_context_observation s cid)) (\<lambda>obs.
     case cto_observed_at obs of
       None \<Rightarrow> ret obs
     | Some observed \<Rightarrow>
         bind (py_now E) (\<lambda>now.
         let observed_at = assume_utc observed;
             age = dt_key (assume_utc now) - dt_key observed_at
         in ret (obs\<lparr>cto_observed_at := Some observed_at,
                     cto_age_seconds := Some (max 0 (age div sec_us))\<rparr>))))"

definition latest_context_token :: "env \<Rightarrow> string \<Rightarrow> string option conv" where
  "latest_context_token E cid =
     bind (latest_context_token_observation E cid) (\<lambda>obs. ret (cto_token obs))"

definition enqueue_render_turn ::
  "env \<Rightarrow> string \<Rightarrow> string \<Rightarrow> fact \<Rightarrow> string \<Rightarrow> outbox_record conv" where
  "enqueue_render_turn E topic key payload traceparent =
     bind (py_now E) (\<lambda>now.
     bind (new_id E ''outbox'') (\<lambda>oid.
     let r = \<lparr>ob_id = oid, ob_topic = topic, ob_idempotency_key = key, ob_payload = payload,
              ob_traceparent = traceparent, ob_status = ''pending'', ob_created_at = now,
              ob_published_at = None, ob_processed_at = None, ob_acked_at = None,
              ob_retry_count = 0, ob_last_error = None\<rparr>
     in bind (add_outbox r) (\<lambda>_. ret r)))"

end
