(* ===== verification/ConvInvariant.thy ===== *)
theory ConvInvariant
  imports ConvService
begin

text \<open>
  The invariant of the conversation runtime: its indexes agree with its dictionaries, every
  conversation's inbound sequence numbers run from 1 to the latest without gap or duplicate, every
  turn's input window lies inside them, and a turn is completed exactly when its disposition is
  terminal. Every method of the service keeps it, also when it raises.
\<close>

section \<open>The invariant\<close>

definition index_ok :: "conv_state \<Rightarrow> bool" where
  "index_ok s \<longleftrightarrow>
     indexed conv_id conv_account_id (conversations_by_id s) (conversations_by_account s) \<and>
     indexed turn_id trigger_id (turns_by_id s) (turns_by_trigger_id s) \<and>
     indexed ob_id ob_idempotency_key (outbox_by_id s) (outbox_by_idempotency_key s) \<and>
     keyed msg_id (messages_by_id s) \<and> keyed media_id (inbound_media_by_id s) \<and>
     keyed disp_turn_id (dispositions_by_turn_id s)"

definition inbound_at :: "conv_state \<Rightarrow> string \<Rightarrow> int \<Rightarrow> message \<Rightarrow> bool" where
  "inbound_at s cid n m \<longleftrightarrow>
     get_message s (msg_id m) = Some m \<and> msg_conversation_id m = cid \<and>
     msg_direction m = Inbound \<and> msg_seq m = Some n"

definition seq_ok :: "conv_state \<Rightarrow> bool" where
  "seq_ok s \<longleftrightarrow>
     (\<forall>cid c. get_conversation s cid = Some c \<longrightarrow>
        0 \<le> last_closed_inbound_seq c \<and> last_closed_inbound_seq c \<le> latest_inbound_seq c \<and>
        (\<forall>n. 1 \<le> n \<and> n \<le> latest_inbound_seq c \<longrightarrow> (\<exists>m. inbound_at s cid n m))) \<and>
     (\<forall>m. get_message s (msg_id m) = Some m \<and> msg_direction m = Inbound \<longrightarrow>
        (\<exists>c n. get_conversation s (msg_conversation_id m) = Some c \<and> msg_seq m = Some n \<and>
               1 \<le> n \<and> n \<le> latest_inbound_seq c)) \<and>
     (\<forall>cid n m m'. inbound_at s cid n m \<and> inbound_at s cid n m' \<longrightarrow> msg_id m = msg_id m')"

definition window_ok :: "turn \<Rightarrow> int \<Rightarrow> bool" where
  "window_ok t latest \<longleftrightarrow>
     (case (input_from_seq t, input_to_seq t) of
        (Some a, Some b) \<Rightarrow> 1 \<le> a \<and> a \<le> b \<and> b \<le> latest
      | (None, None) \<Rightarrow> True
      | _ \<Rightarrow> False)"

definition turns_ok :: "conv_state \<Rightarrow> bool" where
  "turns_ok s \<longleftrightarrow>
     (\<forall>tid t. get_turn s tid = Some t \<longrightarrow>
        (\<exists>c. get_conversation s (turn_conversation_id t) = Some c \<and>
             window_ok t (latest_inbound_seq c)))"

definition settled :: "conv_state \<Rightarrow> string \<Rightarrow> bool" where
  "settled s tid \<longleftrightarrow>
     (\<exists>d. get_disposition s tid = Some d \<and> disposition d \<in> set terminal_dispositions)"

definition settle_ok :: "conv_state \<Rightarrow> bool" where
  "settle_ok s \<longleftrightarrow>
     (\<forall>tid. get_disposition s tid \<noteq> None \<longrightarrow> get_turn s tid \<noteq> None) \<and>
     (\<forall>tid t. get_turn s tid = Some t \<longrightarrow> (completed_at t \<noteq> None \<longleftrightarrow> settled s tid))"

definition conv_ok :: "conv_state \<Rightarrow> bool" where
  "conv_ok s \<longleftrightarrow> index_ok s \<and> seq_ok s \<and> turns_ok s \<and> settle_ok s"

lemmas conv_gets = get_conversation_def get_conversation_by_account_def get_message_def
  get_turn_def get_turn_by_trigger_id_def get_disposition_def lock_conversation_def

lemmas conv_ok_parts = conv_ok_def index_ok_def seq_ok_def turns_ok_def settle_ok_def settled_def
  inbound_at_def

lemma conv_okD:
  assumes "conv_ok s"
  shows "index_ok s" "seq_ok s" "turns_ok s" "settle_ok s"
  using assms by (simp_all add: conv_ok_def)

lemma conv_ok_empty: "conv_ok empty_conv_state"
  by (simp add: conv_ok_parts conv_gets empty_conv_state_def)

text \<open>The clock and the supplies are no part of it.\<close>

lemma conv_ok_counters [simp]:
  "conv_ok (s\<lparr>clock := n\<rparr>) = conv_ok s"
  "conv_ok (s\<lparr>issued := n\<rparr>) = conv_ok s"
  by (simp_all add: conv_ok_parts conv_gets)

lemma conv_gets_counters [simp]:
  "get_conversation (s\<lparr>clock := n\<rparr>) = get_conversation s"
  "get_conversation (s\<lparr>issued := n\<rparr>) = get_conversation s"
  "get_conversation_by_account (s\<lparr>clock := n\<rparr>) = get_conversation_by_account s"
  "get_conversation_by_account (s\<lparr>issued := n\<rparr>) = get_conversation_by_account s"
  "get_message (s\<lparr>clock := n\<rparr>) = get_message s"
  "get_message (s\<lparr>issued := n\<rparr>) = get_message s"
  "get_turn (s\<lparr>clock := n\<rparr>) = get_turn s"
  "get_turn (s\<lparr>issued := n\<rparr>) = get_turn s"
  "get_turn_by_trigger_id (s\<lparr>clock := n\<rparr>) = get_turn_by_trigger_id s"
  "get_turn_by_trigger_id (s\<lparr>issued := n\<rparr>) = get_turn_by_trigger_id s"
  "get_disposition (s\<lparr>clock := n\<rparr>) = get_disposition s"
  "get_disposition (s\<lparr>issued := n\<rparr>) = get_disposition s"
  by (simp_all add: conv_gets fun_eq_iff)

lemma get_turn_id: "conv_ok s \<Longrightarrow> get_turn s tid = Some t \<Longrightarrow> turn_id t = tid"
  by (auto simp: conv_ok_def index_ok_def get_turn_def indexed_def dest: keyed_get)

lemma get_conversation_id: "conv_ok s \<Longrightarrow> get_conversation s cid = Some c \<Longrightarrow> conv_id c = cid"
  by (auto simp: conv_ok_def index_ok_def get_conversation_def indexed_def dest: keyed_get)

lemma get_disposition_turn: "conv_ok s \<Longrightarrow> get_disposition s tid = Some d \<Longrightarrow> disp_turn_id d = tid"
  by (auto simp: conv_ok_def index_ok_def get_disposition_def dest: keyed_get)

lemma get_message_id: "conv_ok s \<Longrightarrow> get_message s mid = Some m \<Longrightarrow> msg_id m = mid"
  by (auto simp: conv_ok_def index_ok_def get_message_def dest: keyed_get)

lemma get_by_account:
  assumes "conv_ok s"
  shows "get_conversation_by_account s a = Some c \<longleftrightarrow>
         conv_account_id c = a \<and> get_conversation s (conv_id c) = Some c"
proof -
  have "indexed conv_id conv_account_id (conversations_by_id s) (conversations_by_account s)"
    using assms by (simp add: conv_ok_def index_ok_def)
  from indexed_lookup [OF this] show ?thesis
    by (simp add: get_conversation_def get_conversation_by_account_def)
qed

lemma get_by_trigger:
  assumes "conv_ok s"
  shows "get_turn_by_trigger_id s g = Some t \<longleftrightarrow> trigger_id t = g \<and> get_turn s (turn_id t) = Some t"
proof -
  have "indexed turn_id trigger_id (turns_by_id s) (turns_by_trigger_id s)"
    using assms by (simp add: conv_ok_def index_ok_def)
  from indexed_lookup [OF this] show ?thesis
    by (simp add: get_turn_def get_turn_by_trigger_id_def)
qed

lemma turn_conversation:
  assumes "conv_ok s" "get_turn s tid = Some t"
  obtains c where "get_conversation s (turn_conversation_id t) = Some c"
    and "window_ok t (latest_inbound_seq c)"
  using assms unfolding conv_ok_def turns_ok_def by blast

section \<open>How the writes act on the reads\<close>

lemma gets_put_conversation [simp]:
  "get_conversation (put_conversation c s) cid = (if cid = conv_id c then Some c else get_conversation s cid)"
  "get_message (put_conversation c s) = get_message s"
  "get_turn (put_conversation c s) = get_turn s"
  "get_turn_by_trigger_id (put_conversation c s) = get_turn_by_trigger_id s"
  "get_disposition (put_conversation c s) = get_disposition s"
  by (simp_all add: put_conversation_def conv_gets fun_eq_iff)

lemma gets_put_turn [simp]:
  "get_turn (put_turn t s) tid = (if tid = turn_id t then Some t else get_turn s tid)"
  "get_conversation (put_turn t s) = get_conversation s"
  "get_conversation_by_account (put_turn t s) = get_conversation_by_account s"
  "get_message (put_turn t s) = get_message s"
  "get_disposition (put_turn t s) = get_disposition s"
  by (simp_all add: put_turn_def conv_gets fun_eq_iff)

lemma gets_put_message [simp]:
  "get_message (put_message m s) mid = (if mid = msg_id m then Some m else get_message s mid)"
  "get_conversation (put_message m s) = get_conversation s"
  "get_conversation_by_account (put_message m s) = get_conversation_by_account s"
  "get_turn (put_message m s) = get_turn s"
  "get_turn_by_trigger_id (put_message m s) = get_turn_by_trigger_id s"
  "get_disposition (put_message m s) = get_disposition s"
  by (simp_all add: put_message_def conv_gets fun_eq_iff)

lemma gets_put_media [simp]:
  "get_conversation (put_media m s) = get_conversation s"
  "get_message (put_media m s) = get_message s"
  "get_turn (put_media m s) = get_turn s"
  "get_disposition (put_media m s) = get_disposition s"
  by (simp_all add: put_media_def conv_gets fun_eq_iff)

lemma gets_save_outbox [simp]:
  "get_conversation (save_outbox r s) = get_conversation s"
  "get_message (save_outbox r s) = get_message s"
  "get_turn (save_outbox r s) = get_turn s"
  "get_disposition (save_outbox r s) = get_disposition s"
  by (simp_all add: save_outbox_def conv_gets fun_eq_iff)

text \<open>A disposition saved together with the turn it settles.\<close>

definition put_disposition :: "output_disposition \<Rightarrow> conv_state \<Rightarrow> conv_state" where
  "put_disposition d s =
     s\<lparr>dispositions_by_turn_id := dput (disp_turn_id d) d (dispositions_by_turn_id s)\<rparr>"

lemma gets_put_disposition [simp]:
  "get_disposition (put_disposition d s) tid =
     (if tid = disp_turn_id d then Some d else get_disposition s tid)"
  "get_conversation (put_disposition d s) = get_conversation s"
  "get_conversation_by_account (put_disposition d s) = get_conversation_by_account s"
  "get_message (put_disposition d s) = get_message s"
  "get_turn (put_disposition d s) = get_turn s"
  "get_turn_by_trigger_id (put_disposition d s) = get_turn_by_trigger_id s"
  by (simp_all add: put_disposition_def conv_gets fun_eq_iff)

lemma wp_save_disposition [wp_simps]:
  "wp (save_disposition d) Q X = (\<lambda>s. Q () (put_disposition d s))"
  by (simp add: save_disposition_def put_disposition_def wp_modify)

lemma wp_require_turn [wp_simps]:
  "wp (require_turn tid) Q X = (\<lambda>s. case get_turn s tid of
      None \<Rightarrow> X (ConversationRuntimeError ''turn_not_found'' None) s | Some t \<Rightarrow> Q t s)"
  by (simp add: require_turn_def wp_simps fun_eq_iff split: option.split)

lemma wp_require_conversation [wp_simps]:
  "wp (require_conversation cid) Q X = (\<lambda>s. case get_conversation s cid of
      None \<Rightarrow> X (ConversationRuntimeError ''conversation_not_found'' None) s | Some c \<Rightarrow> Q c s)"
  by (simp add: require_conversation_def wp_simps fun_eq_iff split: option.split)

lemma wp_require_locked_conversation [wp_simps]:
  "wp (require_locked_conversation cid) Q X = (\<lambda>s. case get_conversation s cid of
      None \<Rightarrow> X (ConversationRuntimeError ''conversation_not_found'' None) s | Some c \<Rightarrow> Q c s)"
  by (simp add: require_locked_conversation_def lock_conversation_def wp_simps fun_eq_iff
      split: option.split)

text \<open>Saving a turn or a conversation whose key fields do not change never raises.\<close>

lemma save_turn_run:
  assumes ix: "index_ok s" and old: "get_turn s (turn_id t) = Some u"
    and key: "trigger_id u = trigger_id t"
  shows "save_turn t s = (Inr (), put_turn t s)"
proof -
  have T: "indexed turn_id trigger_id (turns_by_id s) (turns_by_trigger_id s)"
    using ix by (simp add: index_ok_def)
  have "turn_id u = turn_id t"
    using keyed_get [OF indexed_keyed(1) [OF T]] old by (simp add: get_turn_def)
  with old have "dget (turns_by_id s) (turn_id u) = Some u" by (simp add: get_turn_def)
  then have "dget (turns_by_trigger_id s) (trigger_id u) = Some u" by (rule indexed_to [OF T])
  with old key \<open>turn_id u = turn_id t\<close> show ?thesis
    by (simp add: save_turn_def py_run get_turn_by_trigger_id_def)
qed

lemma save_conversation_run:
  assumes ix: "index_ok s" and old: "get_conversation s (conv_id c) = Some u"
    and key: "conv_account_id u = conv_account_id c"
  shows "save_conversation c s = (Inr (), put_conversation c s)"
proof -
  have C: "indexed conv_id conv_account_id (conversations_by_id s) (conversations_by_account s)"
    using ix by (simp add: index_ok_def)
  have "conv_id u = conv_id c"
    using keyed_get [OF indexed_keyed(1) [OF C]] old by (simp add: get_conversation_def)
  with old have "dget (conversations_by_id s) (conv_id u) = Some u" by (simp add: get_conversation_def)
  then have "dget (conversations_by_account s) (conv_account_id u) = Some u" by (rule indexed_to [OF C])
  with old key \<open>conv_id u = conv_id c\<close> show ?thesis
    by (simp add: save_conversation_def py_run get_conversation_by_account_def)
qed

section \<open>How the writes act on the invariant\<close>

text \<open>The sequence part as rules.\<close>

lemma seq_okI:
  assumes "\<And>cid c. get_conversation s cid = Some c \<Longrightarrow>
      0 \<le> last_closed_inbound_seq c \<and> last_closed_inbound_seq c \<le> latest_inbound_seq c"
    and "\<And>cid c n. get_conversation s cid = Some c \<Longrightarrow> 1 \<le> n \<Longrightarrow> n \<le> latest_inbound_seq c \<Longrightarrow>
      \<exists>m. inbound_at s cid n m"
    and "\<And>m. get_message s (msg_id m) = Some m \<Longrightarrow> msg_direction m = Inbound \<Longrightarrow>
      \<exists>c n. get_conversation s (msg_conversation_id m) = Some c \<and> msg_seq m = Some n \<and>
            1 \<le> n \<and> n \<le> latest_inbound_seq c"
    and "\<And>cid n m m'. inbound_at s cid n m \<Longrightarrow> inbound_at s cid n m' \<Longrightarrow> msg_id m = msg_id m'"
  shows "seq_ok s"
  unfolding seq_ok_def using assms by blast

lemma seq_ok_bounds:
  "seq_ok s \<Longrightarrow> get_conversation s cid = Some c \<Longrightarrow>
     0 \<le> last_closed_inbound_seq c \<and> last_closed_inbound_seq c \<le> latest_inbound_seq c"
  unfolding seq_ok_def by blast

lemma seq_ok_full:
  "seq_ok s \<Longrightarrow> get_conversation s cid = Some c \<Longrightarrow> 1 \<le> n \<Longrightarrow> n \<le> latest_inbound_seq c \<Longrightarrow>
     \<exists>m. inbound_at s cid n m"
  unfolding seq_ok_def by blast

lemma seq_ok_in:
  assumes "seq_ok s" "get_message s (msg_id m) = Some m" "msg_direction m = Inbound"
  obtains c n where "get_conversation s (msg_conversation_id m) = Some c" "msg_seq m = Some n"
    "1 \<le> n" "n \<le> latest_inbound_seq c"
  using assms unfolding seq_ok_def by blast

lemma seq_ok_unique: "seq_ok s \<Longrightarrow> inbound_at s cid n m \<Longrightarrow> inbound_at s cid n m' \<Longrightarrow> msg_id m = msg_id m'"
  unfolding seq_ok_def by blast

text \<open>What each part of the invariant reads.\<close>

lemma seq_ok_cong:
  "get_conversation s' = get_conversation s \<Longrightarrow> get_message s' = get_message s \<Longrightarrow> seq_ok s' = seq_ok s"
  by (simp add: seq_ok_def inbound_at_def)

lemma turns_ok_cong:
  "get_conversation s' = get_conversation s \<Longrightarrow> get_turn s' = get_turn s \<Longrightarrow> turns_ok s' = turns_ok s"
  by (simp add: turns_ok_def)

lemma settle_ok_cong:
  "get_disposition s' = get_disposition s \<Longrightarrow> get_turn s' = get_turn s \<Longrightarrow> settle_ok s' = settle_ok s"
  by (simp add: settle_ok_def settled_def)

lemma index_ok_put_disposition: "index_ok s \<Longrightarrow> index_ok (put_disposition d s)"
  by (auto simp: index_ok_def put_disposition_def)

lemma index_ok_put_message: "index_ok s \<Longrightarrow> index_ok (put_message m s)"
  by (auto simp: index_ok_def put_message_def)

lemma index_ok_put_media: "index_ok s \<Longrightarrow> index_ok (put_media m s)"
  by (auto simp: index_ok_def put_media_def)

lemma index_ok_put_turn:
  "index_ok s \<Longrightarrow> get_turn s (turn_id t) = Some u \<Longrightarrow> trigger_id u = trigger_id t \<Longrightarrow>
    index_ok (put_turn t s)"
  by (simp add: index_ok_def put_turn_def get_turn_def indexed_save)

lemma index_ok_new_turn:
  "index_ok s \<Longrightarrow> get_turn s (turn_id t) = None \<Longrightarrow> get_turn_by_trigger_id s (trigger_id t) = None \<Longrightarrow>
    index_ok (put_turn t s)"
  by (simp add: index_ok_def put_turn_def get_turn_def get_turn_by_trigger_id_def indexed_add)

lemma index_ok_put_conversation:
  "index_ok s \<Longrightarrow> get_conversation s (conv_id c) = Some u \<Longrightarrow> conv_account_id u = conv_account_id c \<Longrightarrow>
    index_ok (put_conversation c s)"
  by (simp add: index_ok_def put_conversation_def get_conversation_def indexed_save)

lemma index_ok_new_conversation:
  "index_ok s \<Longrightarrow> get_conversation s (conv_id c) = None \<Longrightarrow>
    get_conversation_by_account s (conv_account_id c) = None \<Longrightarrow> index_ok (put_conversation c s)"
  by (simp add: index_ok_def put_conversation_def get_conversation_def
      get_conversation_by_account_def indexed_add)

lemma index_ok_save_outbox:
  "index_ok s \<Longrightarrow> dget (outbox_by_id s) (ob_id r) = Some u \<Longrightarrow>
    ob_idempotency_key u = ob_idempotency_key r \<Longrightarrow> index_ok (save_outbox r s)"
  by (simp add: index_ok_def save_outbox_def indexed_save)

lemma index_ok_new_outbox:
  "index_ok s \<Longrightarrow> dget (outbox_by_id s) (ob_id r) = None \<Longrightarrow>
    dget (outbox_by_idempotency_key s) (ob_idempotency_key r) = None \<Longrightarrow> index_ok (save_outbox r s)"
  by (simp add: index_ok_def save_outbox_def indexed_add)

text \<open>The turn's fields that never change once it is started.\<close>

definition turn_key where
  "turn_key t = (turn_id t, turn_conversation_id t, trigger_id t, trigger_type t, mode t,
                 input_from_seq t, input_to_seq t)"

lemma turn_key_fields:
  assumes "turn_key t = turn_key u"
  shows "turn_id t = turn_id u" "turn_conversation_id t = turn_conversation_id u"
    "trigger_id t = trigger_id u" "input_from_seq t = input_from_seq u"
    "input_to_seq t = input_to_seq u" "mode t = mode u" "trigger_type t = trigger_type u"
  using assms by (simp_all add: turn_key_def)

lemma turn_key_update [simp]:
  "turn_key (t\<lparr>completed_at := a\<rparr>) = turn_key t" "turn_key (t\<lparr>turn_updated_at := b\<rparr>) = turn_key t"
  "turn_key (t\<lparr>superseded_by_inbound_seq := c\<rparr>) = turn_key t"
  by (simp_all add: turn_key_def)

lemma window_ok_key: "turn_key t = turn_key u \<Longrightarrow> window_ok t n = window_ok u n"
  by (simp add: window_ok_def turn_key_def)

lemma window_ok_mono: "window_ok t n \<Longrightarrow> n \<le> k \<Longrightarrow> window_ok t k"
  by (auto simp: window_ok_def split: option.splits)

lemma turns_ok_put_turn:
  assumes ok: "turns_ok s" and old: "get_turn s (turn_id t) = Some u" and key: "turn_key t = turn_key u"
  shows "turns_ok (put_turn t s)"
proof -
  from ok old obtain c where c: "get_conversation s (turn_conversation_id u) = Some c"
    "window_ok u (latest_inbound_seq c)"
    by (auto simp: turns_ok_def)
  then have "get_conversation s (turn_conversation_id t) = Some c" "window_ok t (latest_inbound_seq c)"
    using turn_key_fields [OF key] window_ok_key [OF key] by simp_all
  then show ?thesis using ok by (simp add: turns_ok_def)
qed

text \<open>A turn and its disposition written together.\<close>

lemma conv_ok_settle:
  assumes ok: "conv_ok s" and old: "get_turn s (turn_id t) = Some u" and key: "turn_key t = turn_key u"
    and d: "disp_turn_id d = turn_id t"
    and fin: "completed_at t \<noteq> None \<longleftrightarrow> disposition d \<in> set terminal_dispositions"
  shows "conv_ok (put_turn t (put_disposition d s))"
proof -
  let ?s = "put_turn t (put_disposition d s)"
  have "index_ok ?s"
    by (rule index_ok_put_turn [where u = u])
      (use ok old turn_key_fields [OF key] in \<open>simp_all add: conv_ok_def index_ok_put_disposition\<close>)
  moreover have "seq_ok ?s"
    using ok seq_ok_cong [of ?s s] by (simp add: conv_ok_def fun_eq_iff)
  moreover have "turns_ok ?s"
    by (rule turns_ok_put_turn [where u = u])
      (use ok old key turns_ok_cong [of "put_disposition d s" s] in \<open>simp_all add: conv_ok_def fun_eq_iff\<close>)
  moreover have "settle_ok ?s"
    using ok d fin by (auto simp: conv_ok_def settle_ok_def settled_def)
  ultimately show ?thesis by (simp add: conv_ok_def)
qed

text \<open>A turn written without touching its disposition.\<close>

lemma conv_ok_touch_turn:
  assumes ok: "conv_ok s" and old: "get_turn s (turn_id t) = Some u" and key: "turn_key t = turn_key u"
    and fin: "completed_at t = completed_at u"
  shows "conv_ok (put_turn t s)"
proof -
  let ?s = "put_turn t s"
  have "index_ok ?s"
    by (rule index_ok_put_turn [where u = u])
      (use ok old turn_key_fields [OF key] in \<open>simp_all add: conv_ok_def\<close>)
  moreover have "seq_ok ?s"
    using ok seq_ok_cong [of ?s s] by (simp add: conv_ok_def fun_eq_iff)
  moreover have "turns_ok ?s"
    by (rule turns_ok_put_turn [where u = u]) (use ok old key in \<open>simp_all add: conv_ok_def\<close>)
  moreover have "settle_ok ?s"
    using ok old fin by (auto simp: conv_ok_def settle_ok_def settled_def)
  ultimately show ?thesis by (simp add: conv_ok_def)
qed

lemma conv_ok_new_turn:
  assumes ok: "conv_ok s" and new: "get_turn s (turn_id t) = None"
    "get_turn_by_trigger_id s (trigger_id t) = None"
    and c: "get_conversation s (turn_conversation_id t) = Some c" "window_ok t (latest_inbound_seq c)"
    and fin: "completed_at t = None"
  shows "conv_ok (put_turn t s)"
proof -
  let ?s = "put_turn t s"
  have none: "get_disposition s (turn_id t) = None"
    using ok new(1) by (auto simp: conv_ok_def settle_ok_def)
  have "index_ok ?s" using ok new by (simp add: conv_ok_def index_ok_new_turn)
  moreover have "seq_ok ?s"
    using ok seq_ok_cong [of ?s s] by (simp add: conv_ok_def fun_eq_iff)
  moreover have "turns_ok ?s" using ok c by (simp add: conv_ok_def turns_ok_def)
  moreover have "settle_ok ?s"
    using ok fin none by (auto simp: conv_ok_def settle_ok_def settled_def)
  ultimately show ?thesis by (simp add: conv_ok_def)
qed

lemma conv_ok_frame:
  assumes "conv_ok s" and "index_ok s'" and "get_conversation s' = get_conversation s"
    and "get_message s' = get_message s" and "get_turn s' = get_turn s"
    and "get_disposition s' = get_disposition s"
  shows "conv_ok s'"
  using conv_okD [OF assms(1)] assms(2-) seq_ok_cong [of s' s] turns_ok_cong [of s' s]
    settle_ok_cong [of s' s]
  by (simp add: conv_ok_def)

lemma conv_ok_save_outbox:
  assumes "conv_ok s" and "dget (outbox_by_id s) (ob_id r) = Some u"
    and "ob_idempotency_key u = ob_idempotency_key r"
  shows "conv_ok (save_outbox r s)"
  by (rule conv_ok_frame [OF assms(1) index_ok_save_outbox [OF conv_okD(1) [OF assms(1)] assms(2,3)]])
    simp_all

lemma conv_ok_new_outbox:
  assumes "conv_ok s" and "dget (outbox_by_id s) (ob_id r) = None"
    and "dget (outbox_by_idempotency_key s) (ob_idempotency_key r) = None"
  shows "conv_ok (save_outbox r s)"
  by (rule conv_ok_frame [OF assms(1) index_ok_new_outbox [OF conv_okD(1) [OF assms(1)] assms(2,3)]])
    simp_all

lemma conv_ok_put_media: "conv_ok s \<Longrightarrow> conv_ok (put_media m s)"
  by (rule conv_ok_frame, assumption) (simp_all add: conv_ok_def index_ok_put_media)

text \<open>Outbound messages, and rewriting a message without its place in the conversation.\<close>

lemma seq_ok_outbound:
  assumes ok: "seq_ok s" and new: "get_message s (msg_id m) = None" and dir: "msg_direction m = Outbound"
  shows "seq_ok (put_message m s)"
proof (rule seq_okI)
  have at: "inbound_at (put_message m s) = inbound_at s"
    using new dir by (auto simp: inbound_at_def fun_eq_iff)
  show "\<exists>x. inbound_at (put_message m s) cid n x"
    if "get_conversation (put_message m s) cid = Some c" "1 \<le> n" "n \<le> latest_inbound_seq c" for cid c n
    unfolding at by (rule seq_ok_full [OF ok _ that(2,3)]) (use that(1) in simp)
  show "msg_id x = msg_id y"
    if "inbound_at (put_message m s) cid n x" "inbound_at (put_message m s) cid n y" for cid n x y
    using that unfolding at by (rule seq_ok_unique [OF ok])
  show "\<exists>c n. get_conversation (put_message m s) (msg_conversation_id x) = Some c \<and>
          msg_seq x = Some n \<and> 1 \<le> n \<and> n \<le> latest_inbound_seq c"
    if "get_message (put_message m s) (msg_id x) = Some x" "msg_direction x = Inbound" for x
  proof -
    from that dir have "get_message s (msg_id x) = Some x" by (auto split: if_splits)
    then show ?thesis by (rule seq_ok_in [OF ok]) (use that in auto)
  qed
qed (use seq_ok_bounds [OF ok] in simp)

lemma conv_ok_outbound:
  assumes ok: "conv_ok s" and new: "get_message s (msg_id m) = None" and dir: "msg_direction m = Outbound"
  shows "conv_ok (put_message m s)"
  using conv_okD [OF ok] seq_ok_outbound [OF _ new dir] turns_ok_cong [of "put_message m s" s]
    settle_ok_cong [of "put_message m s" s]
  by (simp add: conv_ok_def index_ok_put_message)

definition msg_key where
  "msg_key m = (msg_id m, msg_conversation_id m, msg_direction m, msg_seq m, msg_turn_id m,
                segment_index m)"

lemma inbound_at_rewrite:
  assumes old: "get_message s (msg_id m) = Some u" and key: "msg_key m = msg_key u"
  shows "inbound_at (put_message m s) cid n x \<longleftrightarrow>
      (if msg_id x = msg_id m then x = m \<and> inbound_at s cid n u else inbound_at s cid n x)"
  using old key by (auto simp: inbound_at_def msg_key_def)

lemma seq_ok_rewrite:
  assumes ok: "seq_ok s" and old: "get_message s (msg_id m) = Some u" and key: "msg_key m = msg_key u"
  shows "seq_ok (put_message m s)"
proof (rule seq_okI)
  have k: "msg_id m = msg_id u" "msg_conversation_id m = msg_conversation_id u"
    "msg_direction m = msg_direction u" "msg_seq m = msg_seq u"
    using key by (simp_all add: msg_key_def)
  note at = inbound_at_rewrite [OF old key]
  have orig: "inbound_at s cid n (if msg_id x = msg_id m then u else x)"
    if "inbound_at (put_message m s) cid n x" for cid n x
    using that by (simp add: at split: if_splits)
  show "\<exists>x. inbound_at (put_message m s) cid n x"
    if "get_conversation (put_message m s) cid = Some c" "1 \<le> n" "n \<le> latest_inbound_seq c" for cid c n
  proof -
    from that obtain y where y: "inbound_at s cid n y" using seq_ok_full [OF ok] by fastforce
    have "y = u" if "msg_id y = msg_id m" using y old that by (simp add: inbound_at_def)
    with y have "inbound_at (put_message m s) cid n (if msg_id y = msg_id m then m else y)"
      by (auto simp: at)
    then show ?thesis ..
  qed
  show "msg_id x = msg_id y"
    if "inbound_at (put_message m s) cid n x" "inbound_at (put_message m s) cid n y" for cid n x y
    using seq_ok_unique [OF ok orig [OF that(1)] orig [OF that(2)]] k by (auto split: if_splits)
  show "\<exists>c n. get_conversation (put_message m s) (msg_conversation_id x) = Some c \<and>
          msg_seq x = Some n \<and> 1 \<le> n \<and> n \<le> latest_inbound_seq c"
    if x: "get_message (put_message m s) (msg_id x) = Some x" "msg_direction x = Inbound" for x
  proof (cases "msg_id x = msg_id m")
    case True
    with x have m: "x = m" by simp
    have "get_message s (msg_id u) = Some u" using old k by simp
    then show ?thesis by (rule seq_ok_in [OF ok]) (use x m k in auto)
  next
    case False
    with x have "get_message s (msg_id x) = Some x" by simp
    then show ?thesis by (rule seq_ok_in [OF ok]) (use x in auto)
  qed
qed (use seq_ok_bounds [OF ok] in simp)

lemma conv_ok_rewrite_message:
  assumes ok: "conv_ok s" and old: "get_message s (msg_id m) = Some u" and key: "msg_key m = msg_key u"
  shows "conv_ok (put_message m s)"
  using conv_okD [OF ok] seq_ok_rewrite [OF _ old key] turns_ok_cong [of "put_message m s" s]
    settle_ok_cong [of "put_message m s" s]
  by (simp add: conv_ok_def index_ok_put_message)

text \<open>Conversations: a new one, a closed window, and one more inbound message.\<close>

lemma inbound_at_put_conversation [simp]: "inbound_at (put_conversation c s) = inbound_at s"
  by (simp add: inbound_at_def fun_eq_iff)

lemma settle_ok_put_conversation [simp]: "settle_ok (put_conversation c s) = settle_ok s"
  by (rule settle_ok_cong) simp_all

lemma turns_ok_put_conversation:
  assumes ok: "turns_ok s"
    and grow: "\<And>u. get_conversation s (conv_id c) = Some u \<Longrightarrow> latest_inbound_seq u \<le> latest_inbound_seq c"
  shows "turns_ok (put_conversation c s)"
  unfolding turns_ok_def
proof (intro allI impI)
  fix tid t
  assume "get_turn (put_conversation c s) tid = Some t"
  with ok obtain x where x: "get_conversation s (turn_conversation_id t) = Some x"
    "window_ok t (latest_inbound_seq x)"
    by (auto simp: turns_ok_def)
  then show "\<exists>y. get_conversation (put_conversation c s) (turn_conversation_id t) = Some y \<and>
      window_ok t (latest_inbound_seq y)"
    using grow [of x] by (auto elim: window_ok_mono)
qed

lemma seq_ok_put_conversation:
  assumes ok: "seq_ok s"
    and c: "0 \<le> last_closed_inbound_seq c" "last_closed_inbound_seq c \<le> latest_inbound_seq c"
    and same: "latest_inbound_seq c =
      (case get_conversation s (conv_id c) of None \<Rightarrow> 0 | Some u \<Rightarrow> latest_inbound_seq u)"
  shows "seq_ok (put_conversation c s)"
proof (rule seq_okI)
  fix cid b
  assume b: "get_conversation (put_conversation c s) cid = Some b"
  then show "0 \<le> last_closed_inbound_seq b \<and> last_closed_inbound_seq b \<le> latest_inbound_seq b"
    using seq_ok_bounds [OF ok] c by (auto split: if_splits)
  fix n :: int
  assume n: "1 \<le> n" "n \<le> latest_inbound_seq b"
  have "\<exists>a. get_conversation s cid = Some a \<and> n \<le> latest_inbound_seq a"
    using b n same by (auto split: if_splits option.splits)
  then show "\<exists>m. inbound_at (put_conversation c s) cid n m"
    using seq_ok_full [OF ok] n(1) by auto
next
  fix x
  assume x: "get_message (put_conversation c s) (msg_id x) = Some x" "msg_direction x = Inbound"
  then have "get_message s (msg_id x) = Some x" by simp
  then show "\<exists>b n. get_conversation (put_conversation c s) (msg_conversation_id x) = Some b \<and>
      msg_seq x = Some n \<and> 1 \<le> n \<and> n \<le> latest_inbound_seq b"
    by (rule seq_ok_in [OF ok]) (use x same in \<open>auto split: if_splits\<close>)
next
  show "msg_id x = msg_id y"
    if "inbound_at (put_conversation c s) cid n x" "inbound_at (put_conversation c s) cid n y" for cid n x y
    by (rule seq_ok_unique [OF ok]) (use that in simp_all)
qed

lemma conv_ok_new_conversation:
  assumes ok: "conv_ok s" and new: "get_conversation s (conv_id c) = None"
    "get_conversation_by_account s (conv_account_id c) = None"
    and zero: "latest_inbound_seq c = 0" "last_closed_inbound_seq c = 0"
  shows "conv_ok (put_conversation c s)"
  using conv_okD [OF ok] new zero seq_ok_put_conversation [of s c] turns_ok_put_conversation [of s c]
  by (simp add: conv_ok_def index_ok_new_conversation)

lemma conv_ok_close:
  assumes ok: "conv_ok s" and c: "get_conversation s (conv_id c) = Some c"
    and n: "0 \<le> n" "n \<le> latest_inbound_seq c"
  shows "conv_ok (put_conversation (c\<lparr>last_closed_inbound_seq := n, conv_updated_at := u\<rparr>) s)"
    (is "conv_ok (put_conversation ?c s)")
  using conv_okD [OF ok] c n seq_ok_put_conversation [of s ?c] turns_ok_put_conversation [of s ?c]
  by (simp add: conv_ok_def index_ok_put_conversation)

lemma conv_ok_inbound:
  assumes ok: "conv_ok s" and c: "get_conversation s (conv_id c) = Some c"
    and new: "get_message s (msg_id m) = None"
    and m: "msg_direction m = Inbound" "msg_conversation_id m = conv_id c"
      "msg_seq m = Some (latest_inbound_seq c + 1)"
  shows "conv_ok (put_message m (put_conversation
           (c\<lparr>latest_inbound_seq := latest_inbound_seq c + 1, conv_updated_at := u\<rparr>) s))"
    (is "conv_ok (put_message m (put_conversation ?c s))")
proof -
  let ?s = "put_message m (put_conversation ?c s)"
  have seq: "seq_ok s" using ok by (simp add: conv_ok_def)
  have at: "inbound_at ?s cid n x \<longleftrightarrow> inbound_at s cid n x \<or>
      (x = m \<and> cid = conv_id c \<and> n = latest_inbound_seq c + 1)" for cid n x
    using new m by (auto simp: inbound_at_def)
  have low: "n \<le> latest_inbound_seq c" if "inbound_at s (conv_id c) n x" for n x
    using c that by (auto simp: inbound_at_def elim!: seq_ok_in [OF seq, of x])
  have "seq_ok ?s"
  proof (rule seq_okI)
    show "0 \<le> last_closed_inbound_seq b \<and> last_closed_inbound_seq b \<le> latest_inbound_seq b"
      if "get_conversation ?s cid = Some b" for cid b
      using that seq_ok_bounds [OF seq c] seq_ok_bounds [OF seq, of cid b] by (auto split: if_splits)
    show "\<exists>x. inbound_at ?s cid n x"
      if b: "get_conversation ?s cid = Some b" "1 \<le> n" "n \<le> latest_inbound_seq b" for cid b n
    proof (cases "cid = conv_id c \<and> n = latest_inbound_seq c + 1")
      case True
      then show ?thesis by (auto simp: at)
    next
      case False
      then have "\<exists>a. get_conversation s cid = Some a \<and> n \<le> latest_inbound_seq a"
        using that c by (auto split: if_splits)
      then obtain x where "inbound_at s cid n x" using seq_ok_full [OF seq] b(2) by blast
      then have "inbound_at ?s cid n x" by (simp add: at)
      then show ?thesis ..
    qed
    show "msg_id x = msg_id y" if "inbound_at ?s cid n x" "inbound_at ?s cid n y" for cid n x y
      using that seq_ok_unique [OF seq, of cid n x y] low [of n] by (force simp: at)
    show "\<exists>b n. get_conversation ?s (msg_conversation_id x) = Some b \<and>
          msg_seq x = Some n \<and> 1 \<le> n \<and> n \<le> latest_inbound_seq b"
      if "get_message ?s (msg_id x) = Some x" "msg_direction x = Inbound" for x
    proof (cases "msg_id x = msg_id m")
      case True
      then show ?thesis using that m seq_ok_bounds [OF seq c] by simp
    next
      case False
      with that have "get_message s (msg_id x) = Some x" by simp
      then show ?thesis by (rule seq_ok_in [OF seq]) (use that(2) c in auto)
    qed
  qed
  then show ?thesis
    using ok c turns_ok_put_conversation [of s ?c] turns_ok_cong [of ?s "put_conversation ?c s"]
      settle_ok_cong [of ?s "put_conversation ?c s"]
    by (simp add: conv_ok_def index_ok_put_conversation index_ok_put_message)
qed

end
