(* ===== verification/ConvEvolution.thy ===== *)
theory ConvEvolution
  imports ConvInvariant
begin

text \<open>
  How the conversation runtime's state may change: the disposition of a turn and the inbound
  ledger of a conversation as step relations, and the methods of the service as sequences of those
  steps. The two locales state what the steps promise in general, a final state that is never left
  and a rank that never falls, and are interpreted on the relations.
\<close>

section \<open>Machines that settle\<close>

locale settling =
  fixes step :: "'a \<Rightarrow> 'a \<Rightarrow> bool" and final :: "'a \<Rightarrow> bool"
  assumes final_stuck: "final x \<Longrightarrow> \<not> step x y"
begin

lemma final_stays: "step\<^sup>*\<^sup>* x y \<Longrightarrow> final x \<Longrightarrow> y = x"
  by (induction rule: converse_rtranclp_induct) (auto dest: final_stuck)

lemma final_reached_once:
  assumes "step\<^sup>*\<^sup>* x y" and "final y" and "step\<^sup>*\<^sup>* y z" and "final z"
  shows "y = z"
  using final_stays [OF assms(3) assms(2)] by simp

end

locale graded =
  fixes step :: "'a \<Rightarrow> 'a \<Rightarrow> bool" and rank :: "'a \<Rightarrow> int"
  assumes rank_step: "step x y \<Longrightarrow> rank x \<le> rank y"
begin

lemma rank_mono: "step\<^sup>*\<^sup>* x y \<Longrightarrow> rank x \<le> rank y"
  by (induction rule: rtranclp_induct) (auto dest: rank_step)

end

section \<open>The disposition of a turn and the ledger of a conversation\<close>

inductive disp_step :: "disposition_state option \<Rightarrow> disposition_state option \<Rightarrow> bool" where
  first: "disp_step None (Some d)"
| resolve: "d \<in> {Replied, Failed, Recovered, Superseded} \<Longrightarrow>
    disp_step (Some PendingAsyncReply) (Some d)"

inductive_cases disp_stepE: "disp_step (Some x) y"
inductive_simps disp_step_None [simp]: "disp_step x None"
inductive_simps disp_step_Some: "disp_step (Some x) (Some y)"

definition terminal_disp :: "disposition_state option \<Rightarrow> bool" where
  "terminal_disp x \<longleftrightarrow> (\<exists>d \<in> set terminal_dispositions. x = Some d)"

interpretation disp: settling disp_step terminal_disp
  by unfold_locales (auto simp: terminal_disp_def terminal_dispositions_def elim: disp_stepE)

text \<open>
  A conversation's ledger: its latest inbound sequence number and the last one a turn has closed.
  A message moves the first by one, a close moves the second up to the first.
\<close>

inductive ledger_step :: "(int \<times> int) option \<Rightarrow> (int \<times> int) option \<Rightarrow> bool" where
  create: "ledger_step None (Some (0, 0))"
| receive: "ledger_step (Some (n, k)) (Some (n + 1, k))"
| close: "k \<le> n \<Longrightarrow> ledger_step (Some (n, k)) (Some (n, n))"

inductive_cases ledger_stepE: "ledger_step x y"

definition ledger_latest :: "(int \<times> int) option \<Rightarrow> int" where
  "ledger_latest x = (case x of None \<Rightarrow> 0 | Some (n, k) \<Rightarrow> n)"

definition ledger_closed :: "(int \<times> int) option \<Rightarrow> int" where
  "ledger_closed x = (case x of None \<Rightarrow> 0 | Some (n, k) \<Rightarrow> k)"

interpretation latest: graded ledger_step ledger_latest
  by unfold_locales (auto simp: ledger_latest_def elim!: ledger_stepE)

interpretation closed: graded ledger_step ledger_closed
  by unfold_locales (auto simp: ledger_closed_def elim!: ledger_stepE)

section \<open>Evolution of the state\<close>

definition dispo :: "conv_state \<Rightarrow> string \<Rightarrow> disposition_state option" where
  "dispo s tid = map_option disposition (get_disposition s tid)"

definition ledger :: "conv_state \<Rightarrow> string \<Rightarrow> (int \<times> int) option" where
  "ledger s cid =
     map_option (\<lambda>c. (latest_inbound_seq c, last_closed_inbound_seq c)) (get_conversation s cid)"

lemma dispo_ledger_counters [simp]:
  "dispo (s\<lparr>clock := n\<rparr>) = dispo s" "dispo (s\<lparr>issued := n\<rparr>) = dispo s"
  "ledger (s\<lparr>clock := n\<rparr>) = ledger s" "ledger (s\<lparr>issued := n\<rparr>) = ledger s"
  by (simp_all add: dispo_def ledger_def fun_eq_iff)

lemma completed_iff:
  assumes "conv_ok s" and "get_turn s tid = Some t"
  shows "completed_at t \<noteq> None \<longleftrightarrow> terminal_disp (dispo s tid)"
proof -
  have "completed_at t \<noteq> None \<longleftrightarrow> settled s tid"
    using conv_okD(4) [OF assms(1)] assms(2) unfolding settle_ok_def by blast
  then show ?thesis by (auto simp: settled_def terminal_disp_def dispo_def)
qed

definition evolves :: "conv_state \<Rightarrow> conv_state \<Rightarrow> bool" where
  "evolves s s' \<longleftrightarrow>
     (\<forall>tid. disp_step\<^sup>*\<^sup>* (dispo s tid) (dispo s' tid)) \<and>
     (\<forall>cid. ledger_step\<^sup>*\<^sup>* (ledger s cid) (ledger s' cid)) \<and>
     (\<forall>tid t. get_turn s tid = Some t \<longrightarrow>
        (\<exists>u. get_turn s' tid = Some u \<and> turn_key u = turn_key t)) \<and>
     (\<forall>mid m. get_message s mid = Some m \<longrightarrow>
        (\<exists>u. get_message s' mid = Some u \<and> msg_key u = msg_key m))"

lemma evolvesD:
  assumes "evolves s s'"
  shows "disp_step\<^sup>*\<^sup>* (dispo s tid) (dispo s' tid)" "ledger_step\<^sup>*\<^sup>* (ledger s cid) (ledger s' cid)"
    "get_turn s tid = Some t \<Longrightarrow> \<exists>u. get_turn s' tid = Some u \<and> turn_key u = turn_key t"
    "get_message s mid = Some m \<Longrightarrow> \<exists>u. get_message s' mid = Some u \<and> msg_key u = msg_key m"
  using assms unfolding evolves_def by blast+

lemma evolves_refl: "evolves s s"
  by (simp add: evolves_def)

lemma evolves_trans:
  assumes ab: "evolves a b" and bc: "evolves b c"
  shows "evolves a c"
  unfolding evolves_def
proof (intro conjI allI impI)
  show "disp_step\<^sup>*\<^sup>* (dispo a tid) (dispo c tid)" for tid
    by (rule rtranclp_trans [OF evolvesD(1) [OF ab] evolvesD(1) [OF bc]])
  show "ledger_step\<^sup>*\<^sup>* (ledger a cid) (ledger c cid)" for cid
    by (rule rtranclp_trans [OF evolvesD(2) [OF ab] evolvesD(2) [OF bc]])
  show "\<exists>u. get_turn c tid = Some u \<and> turn_key u = turn_key t" if "get_turn a tid = Some t" for tid t
    using evolvesD(3) [OF ab that] evolvesD(3) [OF bc] by metis
  show "\<exists>u. get_message c mid = Some u \<and> msg_key u = msg_key m" if "get_message a mid = Some m" for mid m
    using evolvesD(4) [OF ab that] evolvesD(4) [OF bc] by metis
qed

text \<open>One write: each component stays or takes one step.\<close>

lemma evolvesI:
  assumes "\<And>tid. dispo s' tid = dispo s tid \<or> disp_step (dispo s tid) (dispo s' tid)"
    and "\<And>cid. ledger s' cid = ledger s cid \<or> ledger_step (ledger s cid) (ledger s' cid)"
    and "\<And>tid t. get_turn s tid = Some t \<Longrightarrow> \<exists>u. get_turn s' tid = Some u \<and> turn_key u = turn_key t"
    and "\<And>mid m. get_message s mid = Some m \<Longrightarrow> \<exists>u. get_message s' mid = Some u \<and> msg_key u = msg_key m"
  shows "evolves s s'"
proof -
  have "disp_step\<^sup>*\<^sup>* (dispo s tid) (dispo s' tid)" for tid using assms(1) [of tid] by auto
  moreover have "ledger_step\<^sup>*\<^sup>* (ledger s cid) (ledger s' cid)" for cid using assms(2) [of cid] by auto
  ultimately show ?thesis unfolding evolves_def using assms(3,4) by blast
qed

text \<open>
  \<open>tracked s0 s\<close>: \<open>s\<close> is consistent and has evolved from \<open>s0\<close>. Every method keeps it, for every \<open>s0\<close>.
\<close>

definition tracked :: "conv_state \<Rightarrow> conv_state \<Rightarrow> bool" where
  "tracked s0 s \<longleftrightarrow> conv_ok s \<and> evolves s0 s"

lemma tracked_ok: "tracked s0 s \<Longrightarrow> conv_ok s"
  by (simp add: tracked_def)

lemma tracked_refl: "conv_ok s \<Longrightarrow> tracked s s"
  by (simp add: tracked_def evolves_refl)

lemma tracked_step: "tracked s0 s \<Longrightarrow> conv_ok s' \<Longrightarrow> evolves s s' \<Longrightarrow> tracked s0 s'"
  unfolding tracked_def by (blast intro: evolves_trans)

lemma tracked_counters [simp]:
  "tracked s0 (s\<lparr>clock := n\<rparr>) = tracked s0 s" "tracked s0 (s\<lparr>issued := n\<rparr>) = tracked s0 s"
  by (simp_all add: tracked_def evolves_def dispo_def ledger_def)

lemma tracked_frame:
  assumes "tracked s0 s" and "index_ok s'" and "get_conversation s' = get_conversation s"
    and "get_message s' = get_message s" and "get_turn s' = get_turn s"
    and "get_disposition s' = get_disposition s"
  shows "tracked s0 s'"
proof (rule tracked_step [OF assms(1)])
  show "conv_ok s'" by (rule conv_ok_frame [OF tracked_ok [OF assms(1)] assms(2-)])
  show "evolves s s'" by (rule evolvesI) (simp_all add: dispo_def ledger_def assms)
qed

lemma tracked_settle:
  assumes T: "tracked s0 s" and old: "get_turn s (turn_id t) = Some u" and key: "turn_key t = turn_key u"
    and d: "disp_turn_id d = turn_id t"
    and fin: "completed_at t \<noteq> None \<longleftrightarrow> disposition d \<in> set terminal_dispositions"
    and move: "disp_step (dispo s (turn_id t)) (Some (disposition d))"
  shows "tracked s0 (put_turn t (put_disposition d s))"
proof (rule tracked_step [OF T])
  show "conv_ok (put_turn t (put_disposition d s))"
    by (rule conv_ok_settle [OF tracked_ok [OF T] old key d fin])
  show "evolves s (put_turn t (put_disposition d s))"
    by (rule evolvesI) (use old key d move in \<open>auto simp: dispo_def ledger_def\<close>)
qed

lemma tracked_touch_turn:
  assumes T: "tracked s0 s" and old: "get_turn s (turn_id t) = Some u" and key: "turn_key t = turn_key u"
    and fin: "completed_at t = completed_at u"
  shows "tracked s0 (put_turn t s)"
proof (rule tracked_step [OF T])
  show "conv_ok (put_turn t s)" by (rule conv_ok_touch_turn [OF tracked_ok [OF T] old key fin])
  show "evolves s (put_turn t s)"
    by (rule evolvesI) (use old key in \<open>auto simp: dispo_def ledger_def\<close>)
qed

lemma tracked_new_turn:
  assumes T: "tracked s0 s" and new: "get_turn s (turn_id t) = None"
    "get_turn_by_trigger_id s (trigger_id t) = None"
    and c: "get_conversation s (turn_conversation_id t) = Some c" "window_ok t (latest_inbound_seq c)"
    and fin: "completed_at t = None"
  shows "tracked s0 (put_turn t s)"
proof (rule tracked_step [OF T])
  show "conv_ok (put_turn t s)" by (rule conv_ok_new_turn [OF tracked_ok [OF T] new c fin])
  show "evolves s (put_turn t s)"
    by (rule evolvesI) (use new in \<open>auto simp: dispo_def ledger_def\<close>)
qed

lemma tracked_outbound:
  assumes T: "tracked s0 s" and new: "get_message s (msg_id m) = None" and dir: "msg_direction m = Outbound"
  shows "tracked s0 (put_message m s)"
proof (rule tracked_step [OF T])
  show "conv_ok (put_message m s)" by (rule conv_ok_outbound [OF tracked_ok [OF T] new dir])
  show "evolves s (put_message m s)"
    by (rule evolvesI) (use new in \<open>auto simp: dispo_def ledger_def\<close>)
qed

lemma tracked_rewrite_message:
  assumes T: "tracked s0 s" and old: "get_message s (msg_id m) = Some u" and key: "msg_key m = msg_key u"
  shows "tracked s0 (put_message m s)"
proof (rule tracked_step [OF T])
  show "conv_ok (put_message m s)" by (rule conv_ok_rewrite_message [OF tracked_ok [OF T] old key])
  show "evolves s (put_message m s)"
    by (rule evolvesI) (use old key in \<open>auto simp: dispo_def ledger_def\<close>)
qed

lemma tracked_new_conversation:
  assumes T: "tracked s0 s" and new: "get_conversation s (conv_id c) = None"
    "get_conversation_by_account s (conv_account_id c) = None"
    and zero: "latest_inbound_seq c = 0" "last_closed_inbound_seq c = 0"
  shows "tracked s0 (put_conversation c s)"
proof (rule tracked_step [OF T])
  show "conv_ok (put_conversation c s)" by (rule conv_ok_new_conversation [OF tracked_ok [OF T] new zero])
  show "evolves s (put_conversation c s)"
    by (rule evolvesI) (use new zero in \<open>auto simp: dispo_def ledger_def intro: ledger_step.intros\<close>)
qed

lemma tracked_close:
  assumes T: "tracked s0 s" and c: "get_conversation s (conv_id c) = Some c"
    and n: "n = latest_inbound_seq c"
  shows "tracked s0 (put_conversation (c\<lparr>last_closed_inbound_seq := n, conv_updated_at := u\<rparr>) s)"
    (is "tracked s0 (put_conversation ?c s)")
proof (rule tracked_step [OF T])
  have le: "0 \<le> last_closed_inbound_seq c" "last_closed_inbound_seq c \<le> latest_inbound_seq c"
    using seq_ok_bounds [OF conv_okD(2) [OF tracked_ok [OF T]] c] by simp_all
  then show "conv_ok (put_conversation ?c s)"
    using conv_ok_close [OF tracked_ok [OF T] c] n by simp
  show "evolves s (put_conversation ?c s)"
    by (rule evolvesI) (use c n le in \<open>auto simp: dispo_def ledger_def intro: ledger_step.intros\<close>)
qed

lemma tracked_inbound:
  assumes T: "tracked s0 s" and c: "get_conversation s (conv_id c) = Some c"
    and new: "get_message s (msg_id m) = None"
    and m: "msg_direction m = Inbound" "msg_conversation_id m = conv_id c"
      "msg_seq m = Some (latest_inbound_seq c + 1)"
  shows "tracked s0 (put_message m (put_conversation
           (c\<lparr>latest_inbound_seq := latest_inbound_seq c + 1, conv_updated_at := u\<rparr>) s))"
proof (rule tracked_step [OF T])
  show "conv_ok (put_message m (put_conversation
           (c\<lparr>latest_inbound_seq := latest_inbound_seq c + 1, conv_updated_at := u\<rparr>) s))"
    by (rule conv_ok_inbound [OF tracked_ok [OF T] c new m])
  show "evolves s (put_message m (put_conversation
           (c\<lparr>latest_inbound_seq := latest_inbound_seq c + 1, conv_updated_at := u\<rparr>) s))"
    by (rule evolvesI) (use c new in \<open>auto simp: dispo_def ledger_def intro: ledger_step.intros\<close>)
qed

section \<open>Superseding\<close>

text \<open>\<open>settles t x s s'\<close>: all that happened is that turn \<open>t\<close> got the disposition \<open>x\<close> and was completed.\<close>

definition settles :: "turn \<Rightarrow> disposition_state \<Rightarrow> conv_state \<Rightarrow> conv_state \<Rightarrow> bool" where
  "settles t x s s' \<longleftrightarrow>
     (\<exists>u d n i. s' = put_turn u (put_disposition d (s\<lparr>clock := n, issued := i\<rparr>)) \<and>
        turn_key u = turn_key t \<and> completed_at u \<noteq> None \<and> disp_turn_id d = turn_id t \<and>
        disposition d = x)"

lemma settles_gets:
  assumes "settles t x s s'"
  shows "get_conversation s' = get_conversation s" "get_message s' = get_message s"
    "get_conversation_by_account s' = get_conversation_by_account s"
    "messages_by_id s' = messages_by_id s"
    "outbox_by_id s' = outbox_by_id s"
    "dispo s' tid = (if tid = turn_id t then Some x else dispo s tid)"
    "tid \<noteq> turn_id t \<Longrightarrow> get_turn s' tid = get_turn s tid"
proof -
  from assms obtain u d n i where s': "s' = put_turn u (put_disposition d (s\<lparr>clock := n, issued := i\<rparr>))"
    and u: "turn_id u = turn_id t" and d: "disp_turn_id d = turn_id t" "disposition d = x"
    unfolding settles_def by (metis turn_key_fields(1))
  show "get_conversation s' = get_conversation s" "get_message s' = get_message s"
    "get_conversation_by_account s' = get_conversation_by_account s"
    "dispo s' tid = (if tid = turn_id t then Some x else dispo s tid)"
    "tid \<noteq> turn_id t \<Longrightarrow> get_turn s' tid = get_turn s tid"
    using u d by (simp_all add: s' dispo_def)
  show "messages_by_id s' = messages_by_id s" "outbox_by_id s' = outbox_by_id s"
    by (simp_all add: s' put_turn_def put_disposition_def)
qed

lemma tracked_settles:
  assumes T: "tracked s0 s" and S: "settles t x s s'" and t: "get_turn s (turn_id t) = Some v"
    "turn_key v = turn_key t"
    and x: "x \<in> set terminal_dispositions" and move: "disp_step (dispo s (turn_id t)) (Some x)"
  shows "tracked s0 s'"
proof -
  from S obtain u d n i where s': "s' = put_turn u (put_disposition d (s\<lparr>clock := n, issued := i\<rparr>))"
    and u: "turn_key u = turn_key t" "completed_at u \<noteq> None"
    and d: "disp_turn_id d = turn_id t" "disposition d = x"
    by (auto simp: settles_def)
  have id: "turn_id u = turn_id t" by (rule turn_key_fields(1) [OF u(1)])
  show ?thesis
    unfolding s' by (rule tracked_settle [where u = v])
      (use T t u d id x move in \<open>simp_all add: dispo_def\<close>)
qed

lemma wp_disposition_for_transition [wp_simps]:
  "wp (disposition_for_transition E existing tid x reason) Q X = (\<lambda>s.
     case existing of
       None \<Rightarrow> Q \<lparr>disp_id = env_id E ''output_disposition'' (issued s), disp_turn_id = tid,
                 disposition = x, reason_code = reason, disp_created_at = env_now E (clock s),
                 disp_updated_at = env_now E (clock s)\<rparr>
               (s\<lparr>clock := Suc (clock s), issued := Suc (issued s)\<rparr>)
     | Some old \<Rightarrow> Q (old\<lparr>disposition := x, reason_code := reason, disp_updated_at := env_now E (clock s)\<rparr>)
               (s\<lparr>clock := Suc (clock s)\<rparr>))"
  by (simp add: disposition_for_transition_def new_disposition_def wp_simps fun_eq_iff
      split: option.split)

lemma wp_save_turn:
  assumes "index_ok s" and "get_turn s (turn_id t) = Some u" and "turn_key t = turn_key u"
    and "Q () (put_turn t s)"
  shows "wp (save_turn t) Q X s"
  using save_turn_run [OF assms(1,2)] turn_key_fields [OF assms(3)] assms(4) by (simp add: wp_def)

lemma index_ok_counters [simp]:
  "index_ok (s\<lparr>clock := n\<rparr>) = index_ok s" "index_ok (s\<lparr>issued := n\<rparr>) = index_ok s"
  by (simp_all add: index_ok_def)

lemma settlesI:
  assumes "s' = put_turn u (put_disposition d (s\<lparr>clock := n, issued := i\<rparr>))" "turn_key u = turn_key t"
    "completed_at u \<noteq> None" "disp_turn_id d = turn_id t" "disposition d = x"
  shows "settles t x s s'"
  using assms unfolding settles_def by blast

lemma settlesI_clock:
  assumes "s' = put_turn u (put_disposition d (s\<lparr>clock := n\<rparr>))" "turn_key u = turn_key t"
    "completed_at u \<noteq> None" "disp_turn_id d = turn_id t" "disposition d = x"
  shows "settles t x s s'"
  by (rule settlesI [where u = u and d = d and n = n and i = "issued s"]) (use assms in simp_all)

lemma wp_write_superseded:
  assumes ok: "conv_ok s" and t: "get_turn s (turn_id t) = Some v" "turn_key v = turn_key t"
    and existing: "existing = get_disposition s (turn_id t)"
  shows "wp (write_superseded E t existing reason)
    (\<lambda>d s'. settles t Superseded s s' \<and> get_disposition s' (turn_id t) = Some d) (\<lambda>_ _. False) s"
proof -
  obtain c where c: "get_conversation s (turn_conversation_id t) = Some c"
    using turn_conversation [OF ok t(1)] turn_key_fields(2) [OF t(2)] by metis
  have ix: "index_ok s" by (rule conv_okD(1) [OF ok])
  show ?thesis
  proof (cases existing)
    case None
    show ?thesis
      by (simp add: write_superseded_def wp_simps c None)
        (rule wp_save_turn [where u = v],
          use ix t in \<open>auto simp: index_ok_put_disposition intro!: settlesI\<close>)
  next
    case (Some d)
    then have d: "disp_turn_id d = turn_id t" using get_disposition_turn [OF ok] existing by simp
    show ?thesis
      by (simp add: write_superseded_def wp_simps c Some)
        (rule wp_save_turn [where u = v],
          use ix t d in \<open>auto simp: index_ok_put_disposition intro!: settlesI_clock\<close>)
  qed
qed

lemma wp_record_superseded:
  assumes ok: "conv_ok s" and t: "get_turn s (turn_id t) = Some v" "turn_key v = turn_key t"
    and act: "dispo s (turn_id t) \<in> {None, Some PendingAsyncReply}"
  shows "wp (record_superseded E t reason)
    (\<lambda>d s'. settles t Superseded s s' \<and> get_disposition s' (turn_id t) = Some d) (\<lambda>_ _. False) s"
  using wp_write_superseded [OF ok t refl, of E reason] act
  by (auto simp: record_superseded_def wp_simps dispo_def split: option.splits)

lemma tracked_superseded:
  assumes T: "tracked s0 s" and S: "settles t Superseded s s'" and t: "get_turn s (turn_id t) = Some t"
    and act: "dispo s (turn_id t) \<in> {None, Some PendingAsyncReply}"
  shows "tracked s0 s'"
  by (rule tracked_settles [OF T S t refl])
    (use act in \<open>auto simp: terminal_dispositions_def intro: disp_step.intros\<close>)

section \<open>The close guard\<close>

text \<open>When a turn may close, as a condition on the state.\<close>

definition closable :: "conv_state \<Rightarrow> turn \<Rightarrow> conversation \<Rightarrow> bool" where
  "closable s t c \<longleftrightarrow>
     dispo s (turn_id t) \<noteq> Some Superseded \<and>
     get_conversation s (turn_conversation_id t) = Some c \<and>
     (case (input_from_seq t, input_to_seq t) of
        (Some a, Some b) \<Rightarrow>
          (last_closed_inbound_seq c = a - 1 \<or>
           dispo s (turn_id t) = Some PendingAsyncReply \<and> last_closed_inbound_seq c = b) \<and>
          latest_inbound_seq c = b
      | _ \<Rightarrow> True)"

lemma wp_ensure_turn_can_close:
  assumes ok: "conv_ok s" and t: "get_turn s (turn_id t) = Some t"
  shows "wp (ensure_turn_can_close E t)
    (\<lambda>c s'. s' = s \<and> closable s t c)
    (\<lambda>e s'. (\<forall>c. \<not> closable s t c) \<and> (\<exists>f. e = turn_superseded_error f) \<and>
            (if dispo s (turn_id t) \<in> {None, Some PendingAsyncReply}
             then settles t Superseded s s' else s' = s)) s"
proof -
  obtain c where c: "get_conversation s (turn_conversation_id t) = Some c"
    by (rule turn_conversation [OF ok t])
  define after where "after s' \<longleftrightarrow>
      (if dispo s (turn_id t) \<in> {None, Some PendingAsyncReply} then settles t Superseded s s' else s' = s)"
    for s'
  have sup: "wp (record_superseded E t reason) Q X s" if Q: "\<And>d s'. after s' \<Longrightarrow> Q d s'" for reason Q X
  proof (cases "dispo s (turn_id t) \<in> {None, Some PendingAsyncReply}")
    case True
    show ?thesis
      by (rule wp_mono [OF wp_record_superseded [OF ok t refl True]])
        (use Q True in \<open>auto simp: after_def\<close>)
  next
    case False
    then have "after s" by (auto simp: after_def)
    with False Q [of s] show ?thesis
      by (auto simp: record_superseded_def wp_simps dispo_def split: option.splits)
  qed
  have "wp (ensure_turn_can_close E t) (\<lambda>c s'. s' = s \<and> closable s t c)
    (\<lambda>e s'. (\<forall>c. \<not> closable s t c) \<and> (\<exists>f. e = turn_superseded_error f) \<and> after s') s"
  proof (cases "dispo s (turn_id t) = Some Superseded")
    case True
    then show ?thesis
      by (auto simp: ensure_turn_can_close_def wp_simps closable_def dispo_def after_def)
  next
    case False
    then have F: "map_option disposition (get_disposition s (turn_id t)) \<noteq> Some Superseded"
      by (simp add: dispo_def)
    show ?thesis
    proof (cases "input_from_seq t = None \<or> input_to_seq t = None")
      case True
      then show ?thesis using c F
        by (auto simp: ensure_turn_can_close_def wp_simps closable_def lock_conversation_def Let_def
            dispo_def split: option.splits)
    next
      case win: False
      then obtain a b where ab: "input_from_seq t = Some a" "input_to_seq t = Some b" by auto
      let ?cl = "(last_closed_inbound_seq c = a - 1 \<or>
           dispo s (turn_id t) = Some PendingAsyncReply \<and> last_closed_inbound_seq c = b) \<and>
          latest_inbound_seq c = b"
      have cl: "closable s t x \<longleftrightarrow> x = c \<and> ?cl" for x
        using c False ab by (auto simp: closable_def)
      show ?thesis
        unfolding ensure_turn_can_close_def wp_bind wp_gets Let_def
        by (simp add: F c ab lock_conversation_def wp_simps cl dispo_def [symmetric])
          (use False in \<open>auto intro!: sup\<close>)
    qed
  qed
  then show ?thesis by (simp add: after_def)
qed

section \<open>Outbound segments\<close>

text \<open>\<open>only_messages s s'\<close>: nothing but messages (and identifiers) were added.\<close>

definition only_messages :: "conv_state \<Rightarrow> conv_state \<Rightarrow> bool" where
  "only_messages s s' \<longleftrightarrow> (\<exists>i ms. s' = s\<lparr>issued := i, messages_by_id := ms\<rparr>)"

lemma only_messages_gets:
  assumes "only_messages s s'"
  shows "get_conversation s' = get_conversation s" "get_turn s' = get_turn s"
    "get_disposition s' = get_disposition s" "dispo s' tid = dispo s tid"
    "turns_by_id s' = turns_by_id s" "outbox_by_id s' = outbox_by_id s" "clock s' = clock s"
    "inbound_media_by_id s' = inbound_media_by_id s" "outbox_by_idempotency_key s' = outbox_by_idempotency_key s"
  using assms by (auto simp: only_messages_def conv_gets fun_eq_iff dispo_def)

lemma only_messagesI: "s' = s\<lparr>issued := i, messages_by_id := ms\<rparr> \<Longrightarrow> only_messages s s'"
  unfolding only_messages_def by blast

lemma only_messages_refl: "only_messages s s"
  by (rule only_messagesI [where i = "issued s" and ms = "messages_by_id s"]) simp

lemma only_messages_issued: "only_messages s (s\<lparr>issued := i\<rparr>)"
  by (rule only_messagesI [where i = i and ms = "messages_by_id s"]) simp

lemma only_messages_trans:
  assumes "only_messages a b" "only_messages b c"
  shows "only_messages a c"
proof -
  from assms obtain i ms j ns where "b = a\<lparr>issued := i, messages_by_id := ms\<rparr>"
    "c = b\<lparr>issued := j, messages_by_id := ns\<rparr>"
    by (auto simp: only_messages_def)
  then show ?thesis by (intro only_messagesI [where i = j and ms = ns]) simp
qed

lemma only_messages_put: "only_messages s (put_message m (s\<lparr>issued := i\<rparr>))"
  by (rule only_messagesI [where i = i and ms = "dput (msg_id m) m (messages_by_id s)"]) (simp add: put_message_def)

text \<open>One outbound message, by the repository's checks.\<close>

lemma wp_add_outbound:
  assumes "msg_direction m = Outbound" "msg_turn_id m \<noteq> None" "segment_index m \<noteq> None"
    and "get_message s (msg_id m) = None \<Longrightarrow> \<not> list_ex (same_outbound_segment m) (dvalues (messages_by_id s)) \<Longrightarrow>
      Q () (put_message m s)"
    and "\<And>code. X (ConversationRuntimeError code None) s"
  shows "wp (add_outbound_message m) Q X s"
  using assms by (auto simp: add_outbound_message_def require_message_id_available_def wp_simps)

lemma outbound_segment_simps [simp]:
  "msg_id (outbound_segment t now extra mid k text) = mid"
  "msg_direction (outbound_segment t now extra mid k text) = Outbound"
  "msg_turn_id (outbound_segment t now extra mid k text) = Some (turn_id t)"
  "segment_index (outbound_segment t now extra mid k text) = Some (int k)"
  "msg_text (outbound_segment t now extra mid k text) = Some text"
  "msg_conversation_id (outbound_segment t now extra mid k text) = turn_conversation_id t"
  "msg_seq (outbound_segment t now extra mid k text) = None"
  by (simp_all add: outbound_segment_def)

text \<open>The messages a reply writes: one per segment, numbered from 1, in the order given.\<close>

definition reply_messages ::
  "env \<Rightarrow> turn \<Rightarrow> datetime \<Rightarrow> fact \<Rightarrow> nat \<Rightarrow> (nat \<times> string) list \<Rightarrow> message list" where
  "reply_messages E t now extra n segs =
     map (\<lambda>(i, k, text). outbound_segment t now extra (env_id E ''message'' i) k text)
       (enumerate n segs)"

lemma reply_messages_simps [simp]:
  "reply_messages E t now extra n [] = []"
  "reply_messages E t now extra n ((k, x) # segs) =
     outbound_segment t now extra (env_id E ''message'' n) k x # reply_messages E t now extra (Suc n) segs"
  by (simp_all add: reply_messages_def)

lemma wp_segments:
  assumes T: "tracked s0 s"
  shows "wp (for_each segs (\<lambda>(index, text). bind (new_id E ''message'') (\<lambda>mid.
           add_outbound_message (outbound_segment t now extra mid index text))))
    (\<lambda>_ s'. tracked s0 s' \<and> only_messages s s' \<and>
       dvalues (messages_by_id s') = dvalues (messages_by_id s) @ reply_messages E t now extra (issued s) segs)
    (\<lambda>e s'. tracked s0 s' \<and> only_messages s s' \<and> (\<exists>code. e = ConversationRuntimeError code None)) s"
    (is "wp (for_each segs ?f) _ _ s")
  using T
proof (induction segs arbitrary: s)
  case Nil
  then show ?case by (simp add: wp_simps only_messages_refl)
next
  case (Cons p segs)
  obtain k x where p: "p = (k, x)" by (cases p)
  let ?m = "outbound_segment t now extra (env_id E ''message'' (issued s)) k x"
  let ?s = "put_message ?m (s\<lparr>issued := Suc (issued s)\<rparr>)"
  have step: "wp (for_each segs ?f)
    (\<lambda>_ s'. tracked s0 s' \<and> only_messages s s' \<and> dvalues (messages_by_id s') =
        dvalues (messages_by_id s) @ reply_messages E t now extra (issued s) (p # segs))
    (\<lambda>e s'. tracked s0 s' \<and> only_messages s s' \<and> (\<exists>code. e = ConversationRuntimeError code None)) ?s"
    if new: "get_message s (env_id E ''message'' (issued s)) = None"
  proof (rule wp_mono [OF Cons.IH])
    show "tracked s0 ?s" by (rule tracked_outbound) (use Cons.prems new in simp_all)
    have om: "only_messages s ?s" by (rule only_messages_put)
    have dv: "dvalues (messages_by_id ?s) = dvalues (messages_by_id s) @ [?m]"
      using new by (simp add: put_message_def get_message_def dput_values_fresh)
    have iss: "issued ?s = Suc (issued s)" by (simp add: put_message_def)
    show "tracked s0 s' \<and> only_messages s s' \<and> dvalues (messages_by_id s') =
        dvalues (messages_by_id s) @ reply_messages E t now extra (issued s) (p # segs)"
      if "tracked s0 s' \<and> only_messages ?s s' \<and> dvalues (messages_by_id s') =
        dvalues (messages_by_id ?s) @ reply_messages E t now extra (issued ?s) segs" for s'
      using that only_messages_trans [OF om] by (simp add: dv iss p)
    show "tracked s0 s' \<and> only_messages s s' \<and> (\<exists>code. e = ConversationRuntimeError code None)"
      if "tracked s0 s' \<and> only_messages ?s s' \<and> (\<exists>code. e = ConversationRuntimeError code None)" for e s'
      using that only_messages_trans [OF om] by simp
  qed
  show ?case
    by (simp add: p wp_simps, rule wp_add_outbound)
      (use step Cons.prems only_messages_issued in \<open>simp_all add: p\<close>)
qed

section \<open>The close boundary\<close>

text \<open>
  What a close does: the turn gets the disposition \<open>x\<close> and is completed, the messages \<open>ms\<close> are
  appended, the conversation's window, if the turn has one, is closed up to the latest message, and
  nothing else changes.
\<close>

definition closed_ledger :: "turn \<Rightarrow> (int \<times> int) option \<Rightarrow> (int \<times> int) option" where
  "closed_ledger t l =
     (if input_to_seq t = None then l else map_option (\<lambda>(n, k). (n, n)) l)"

definition closes :: "turn \<Rightarrow> disposition_state \<Rightarrow> message list \<Rightarrow> conv_state \<Rightarrow> conv_state \<Rightarrow> bool" where
  "closes t x ms s s' \<longleftrightarrow>
     (\<forall>tid. dispo s' tid = (if tid = turn_id t then Some x else dispo s tid)) \<and>
     (\<forall>tid. tid \<noteq> turn_id t \<longrightarrow> get_turn s' tid = get_turn s tid) \<and>
     (\<exists>u. get_turn s' (turn_id t) = Some u \<and> turn_key u = turn_key t \<and> completed_at u \<noteq> None) \<and>
     (\<forall>cid. ledger s' cid =
        (if cid = turn_conversation_id t then closed_ledger t (ledger s cid) else ledger s cid)) \<and>
     dvalues (messages_by_id s') = dvalues (messages_by_id s) @ ms \<and>
     (\<forall>tid. tid \<noteq> turn_id t \<longrightarrow> get_disposition s' tid = get_disposition s tid) \<and>
     (\<forall>cid. cid \<noteq> turn_conversation_id t \<longrightarrow> get_conversation s' cid = get_conversation s cid) \<and>
     inbound_media_by_id s' = inbound_media_by_id s \<and>
     outbox_by_id s' = outbox_by_id s \<and> outbox_by_idempotency_key s' = outbox_by_idempotency_key s"

lemma closes_counters [simp]:
  "closes t x ms (s\<lparr>clock := n\<rparr>) s' = closes t x ms s s'"
  "closes t x ms (s\<lparr>issued := n\<rparr>) s' = closes t x ms s s'"
  by (simp_all add: closes_def dispo_def ledger_def)

lemma closes_after_messages:
  assumes "only_messages s s1" and "dvalues (messages_by_id s1) = dvalues (messages_by_id s) @ ms"
    and "closes t x [] s1 s'"
  shows "closes t x ms s s'"
  using assms only_messages_gets [OF assms(1)] by (simp add: closes_def ledger_def)

definition close_ledger :: "conversation \<Rightarrow> turn \<Rightarrow> datetime \<Rightarrow> conv_state \<Rightarrow> conv_state" where
  "close_ledger c t now s =
     (case input_to_seq t of
        None \<Rightarrow> s
      | Some to \<Rightarrow> put_conversation (c\<lparr>last_closed_inbound_seq := to, conv_updated_at := now\<rparr>) s)"

lemma raw_fields [simp]:
  "messages_by_id (put_conversation c s) = messages_by_id s" "messages_by_id (put_turn t s) = messages_by_id s"
  "messages_by_id (put_disposition d s) = messages_by_id s"
  "outbox_by_id (put_conversation c s) = outbox_by_id s" "outbox_by_id (put_turn t s) = outbox_by_id s"
  "outbox_by_id (put_disposition d s) = outbox_by_id s"
  "inbound_media_by_id (put_conversation c s) = inbound_media_by_id s"
  "inbound_media_by_id (put_turn t s) = inbound_media_by_id s"
  "inbound_media_by_id (put_disposition d s) = inbound_media_by_id s"
  "outbox_by_idempotency_key (put_conversation c s) = outbox_by_idempotency_key s"
  "outbox_by_idempotency_key (put_turn t s) = outbox_by_idempotency_key s"
  "outbox_by_idempotency_key (put_disposition d s) = outbox_by_idempotency_key s"
  by (simp_all add: put_conversation_def put_turn_def put_disposition_def)

lemma gets_close_ledger [simp]:
  "get_turn (close_ledger c t now s) = get_turn s"
  "get_message (close_ledger c t now s) = get_message s"
  "get_disposition (close_ledger c t now s) = get_disposition s"
  "dispo (close_ledger c t now s) = dispo s"
  "messages_by_id (close_ledger c t now s) = messages_by_id s"
  "outbox_by_id (close_ledger c t now s) = outbox_by_id s"
  "inbound_media_by_id (close_ledger c t now s) = inbound_media_by_id s"
  "outbox_by_idempotency_key (close_ledger c t now s) = outbox_by_idempotency_key s"
  "cid \<noteq> conv_id c \<Longrightarrow> get_conversation (close_ledger c t now s) cid = get_conversation s cid"
  by (cases "input_to_seq t"; simp add: close_ledger_def dispo_def fun_eq_iff)+

lemma put_turn_close_ledger:
  "put_turn u (close_ledger c t now s) = close_ledger c t now (put_turn u s)"
  by (simp add: close_ledger_def put_turn_def put_conversation_def split: option.split)

lemma wp_save_close_state:
  assumes ix: "index_ok s" and t: "get_turn s (turn_id t) = Some u" "turn_key t = turn_key u"
    and c: "get_conversation s (conv_id c) = Some c"
    and Q: "Q () (put_turn t (close_ledger c t now s))"
  shows "wp (save_close_state c t now) Q X s"
proof (cases "input_to_seq t")
  case None
  then show ?thesis
    using wp_save_turn [OF ix t, of Q X] Q by (simp add: save_close_state_def close_ledger_def)
next
  case (Some to)
  let ?c = "c\<lparr>last_closed_inbound_seq := to, conv_updated_at := now\<rparr>"
  have sc: "save_conversation ?c s = (Inr (), put_conversation ?c s)"
    by (rule save_conversation_run [where u = c]) (use ix c in simp_all)
  have "index_ok (put_conversation ?c s)"
    by (rule index_ok_put_conversation [where u = c]) (use ix c in simp_all)
  then have "wp (save_turn t) Q X (put_conversation ?c s)"
    by (rule wp_save_turn [where u = u]) (use t Q Some in \<open>simp_all add: close_ledger_def\<close>)
  then show ?thesis
    by (simp add: save_close_state_def save_conversation_and_turn_def Some wp_bind)
      (simp add: wp_def sc)
qed

lemma closable_latest:
  assumes ok: "conv_ok s" and t: "get_turn s (turn_id t) = Some t" and cl: "closable s t c"
    and to: "input_to_seq t = Some b"
  shows "latest_inbound_seq c = b"
proof -
  obtain c' where "get_conversation s (turn_conversation_id t) = Some c'"
    and "window_ok t (latest_inbound_seq c')"
    by (rule turn_conversation [OF ok t])
  with to obtain a where "input_from_seq t = Some a"
    by (cases "input_from_seq t") (simp_all add: window_ok_def)
  with to cl show ?thesis by (simp add: closable_def)
qed

lemma tracked_close_ledger:
  assumes T: "tracked s0 s" and c: "get_conversation s (conv_id c) = Some c"
    and to: "\<And>b. input_to_seq t = Some b \<Longrightarrow> latest_inbound_seq c = b"
  shows "tracked s0 (close_ledger c t now s)"
proof (cases "input_to_seq t")
  case (Some b)
  then show ?thesis using tracked_close [OF T c] to [OF Some] by (simp add: close_ledger_def)
qed (simp add: close_ledger_def T)

lemma ledger_close_ledger:
  assumes c: "get_conversation s (conv_id c) = Some c"
    and to: "\<And>b. input_to_seq t = Some b \<Longrightarrow> latest_inbound_seq c = b"
  shows "ledger (close_ledger c t now s) cid =
    (if cid = conv_id c then closed_ledger t (ledger s cid) else ledger s cid)"
  using c to by (auto simp: close_ledger_def ledger_def closed_ledger_def split: option.splits)

text \<open>The tail every closing method shares: the disposition is saved, then the close state.\<close>

lemma wp_closing_tail:
  assumes T: "tracked s0 s" and t: "get_turn s (turn_id t) = Some t" and cl: "closable s t c"
    and existing: "existing = get_disposition s (turn_id t)"
    and move: "disp_step (dispo s (turn_id t)) (Some x)" and x: "x \<in> set terminal_dispositions"
  shows "wp (bind (disposition_for_transition E existing (turn_id t) x (Some reason)) (\<lambda>d.
        bind (save_disposition d) (\<lambda>_.
        bind (save_close_state c (t\<lparr>completed_at := Some now, turn_updated_at := now\<rparr>) now) (\<lambda>_.
        ret d))))
    (\<lambda>d s'. tracked s0 s' \<and> closes t x [] s s' \<and> get_disposition s' (turn_id t) = Some d \<and>
            reason_code d = Some reason)
    (\<lambda>_ _. False) s"
proof -
  let ?t = "t\<lparr>completed_at := Some now, turn_updated_at := now\<rparr>"
  have ok: "conv_ok s" by (rule tracked_ok [OF T])
  have c: "get_conversation s (turn_conversation_id t) = Some c" using cl by (simp add: closable_def)
  then have cid: "conv_id c = turn_conversation_id t" by (rule get_conversation_id [OF ok])
  note to = closable_latest [OF ok t cl]
  have main: "wp (bind (save_disposition d) (\<lambda>_. bind (save_close_state c ?t now) (\<lambda>_. ret d)))
    (\<lambda>d s'. tracked s0 s' \<and> closes t x [] s s' \<and> get_disposition s' (turn_id t) = Some d \<and>
            reason_code d = Some reason) (\<lambda>_ _. False) s1"
    if d: "disp_turn_id d = turn_id t" "disposition d = x" "reason_code d = Some reason"
      and s1: "s1 = s\<lparr>clock := n, issued := i\<rparr>" for d s1 n i
  proof -
    let ?s = "put_turn ?t (put_disposition d s1)"
    have Ts: "tracked s0 ?s"
      by (rule tracked_settle [where u = t]) (use T t d move x s1 in \<open>simp_all add: dispo_def\<close>)
    have cs: "get_conversation ?s (conv_id c) = Some c" using c cid s1 by simp
    have tr: "tracked s0 (close_ledger c ?t now ?s)"
      by (rule tracked_close_ledger [OF Ts cs]) (use to in simp)
    have le: "ledger (close_ledger c ?t now ?s) cid' =
        (if cid' = turn_conversation_id t then closed_ledger t (ledger s cid') else ledger s cid')" for cid'
      using ledger_close_ledger [OF cs, of ?t now cid'] to cid
      by (simp add: closed_ledger_def ledger_def s1)
    have "closes t x [] s (close_ledger c ?t now ?s)"
      unfolding closes_def le using d s1 cid by (simp add: dispo_def)
    with tr d have "wp (save_close_state c ?t now) (\<lambda>_ s'. tracked s0 s' \<and> closes t x [] s s' \<and>
        get_disposition s' (turn_id t) = Some d \<and> reason_code d = Some reason) (\<lambda>_ _. False)
      (put_disposition d s1)"
      by (intro wp_save_close_state [where u = t])
        (use conv_okD(1) [OF ok] t c cid s1 in
          \<open>simp_all add: index_ok_put_disposition put_turn_close_ledger\<close>)
    then show ?thesis by (simp add: wp_simps)
  qed
  show ?thesis
  proof (cases existing)
    case None
    then show ?thesis
      by (simp add: wp_bind wp_disposition_for_transition) (rule main [unfolded wp_bind], simp_all)
  next
    case (Some d)
    have "disp_turn_id d = turn_id t" using get_disposition_turn [OF ok] Some existing by simp
    then show ?thesis using Some
      by (simp add: wp_bind wp_disposition_for_transition)
        (rule main [unfolded wp_bind, where n = "Suc (clock s)" and i = "issued s"], simp_all)
  qed
qed

end
