(* ===== verification/ConvClosing.thy ===== *)
theory ConvClosing
  imports ConvEvolution
begin

text \<open>
  What the closing methods of the conversation runtime do: replying, deciding not to reply,
  recovering, deferring, failing and superseding a turn, each with its outcome on every branch.
\<close>

section \<open>Transitions of the disposition\<close>

lemma wp_ensure_turn_can_transition:
  "wp (ensure_turn_can_transition existing x) Q X s =
     (case map_option disposition existing of
        None \<Rightarrow> Q () s
      | Some Superseded \<Rightarrow> X (turn_superseded_error [(''turn_id'', PyStr (disp_turn_id (the existing)))]) s
      | Some PendingAsyncReply \<Rightarrow>
          if x \<in> {Replied, Failed, Recovered} then Q () s
          else X (ConversationRuntimeError ''invalid_disposition_transition'' None) s
      | Some _ \<Rightarrow> X (ConversationRuntimeError ''turn_already_terminal'' None) s)"
  by (cases existing)
    (auto simp: ensure_turn_can_transition_def wp_simps terminal_dispositions_def
      turn_superseded_error_def split: disposition_state.splits)

definition may_become :: "disposition_state option \<Rightarrow> disposition_state \<Rightarrow> bool" where
  "may_become now x \<longleftrightarrow> now = None \<or> now = Some PendingAsyncReply \<and> x \<in> {Replied, Failed, Recovered}"

lemma may_become_step: "may_become y x \<Longrightarrow> disp_step y (Some x)"
  by (auto simp: may_become_def intro: disp_step.intros)

lemma may_become_open: "may_become y x \<Longrightarrow> y \<in> {None, Some PendingAsyncReply}"
  by (auto simp: may_become_def)

lemma wp_transition_cases:
  assumes "may_become (map_option disposition existing) x \<Longrightarrow> Q () s"
    and "\<And>e. \<not> may_become (map_option disposition existing) x \<Longrightarrow> is_runtime_error e \<Longrightarrow> X e s"
  shows "wp (ensure_turn_can_transition existing x) Q X s"
  unfolding wp_ensure_turn_can_transition using assms
  by (auto simp: may_become_def turn_superseded_error_def split: option.splits disposition_state.splits)

section \<open>The body every commit runs\<close>

definition reply_of ::
  "env \<Rightarrow> conv_state \<Rightarrow> turn \<Rightarrow> fact \<Rightarrow> string list \<Rightarrow> message list" where
  "reply_of E s t extra segs =
     reply_messages E t (env_now E (clock s)) extra (issued s) (enumerate 1 segs)"

text \<open>
  How a commit on a turn that may still be closed ends: closed, or refused as superseded (then the
  turn is settled as superseded), or stopped by a message that is already there.
\<close>

definition commit_refused :: "turn \<Rightarrow> conv_state \<Rightarrow> pyexn \<Rightarrow> conv_state \<Rightarrow> bool" where
  "commit_refused t s e s' \<longleftrightarrow>
     (\<forall>c. \<not> closable s t c) \<and> (\<exists>f. e = turn_superseded_error f) \<and> settles t Superseded s s'"

definition commit_stopped :: "turn \<Rightarrow> conv_state \<Rightarrow> pyexn \<Rightarrow> conv_state \<Rightarrow> bool" where
  "commit_stopped t s e s' \<longleftrightarrow>
     (\<exists>c. closable s t c) \<and> (\<exists>n. only_messages (s\<lparr>clock := n\<rparr>) s') \<and> (\<exists>code. e = ConversationRuntimeError code None)"

definition commit_done ::
  "env \<Rightarrow> turn \<Rightarrow> disposition_state \<Rightarrow> fact \<Rightarrow> string list \<Rightarrow> string \<Rightarrow> conv_state \<Rightarrow>
    output_disposition \<Rightarrow> conv_state \<Rightarrow> bool" where
  "commit_done E t x extra segs reason s d s' \<longleftrightarrow>
     (\<exists>c. closable s t c) \<and> closes t x (reply_of E s t extra segs) s s' \<and>
     get_disposition s' (turn_id t) = Some d \<and> disposition d = x \<and> reason_code d = Some reason"

lemma closes_dispo: "closes t x ms s s' \<Longrightarrow> dispo s' (turn_id t) = Some x"
  by (simp add: closes_def)

lemma closes_disposition:
  "closes t x ms s s' \<Longrightarrow> get_disposition s' (turn_id t) = Some d \<Longrightarrow> disposition d = x"
  by (drule closes_dispo) (simp add: dispo_def)

lemma wp_commit_body:
  assumes T: "tracked s0 s" and t: "get_turn s (turn_id t) = Some t"
    and existing: "existing = get_disposition s (turn_id t)"
    and move: "may_become (dispo s (turn_id t)) x" and x: "x \<in> set terminal_dispositions"
  shows "wp (bind (ensure_turn_can_close E t) (\<lambda>c.
        bind (py_now E) (\<lambda>now.
        bind (add_segments E t now extra segs) (\<lambda>_.
        bind (disposition_for_transition E existing (turn_id t) x (Some reason)) (\<lambda>d.
        bind (save_disposition d) (\<lambda>_.
        bind (save_close_state c (t\<lparr>completed_at := Some now, turn_updated_at := now\<rparr>) now) (\<lambda>_.
        ret d)))))))
    (\<lambda>d s'. tracked s0 s' \<and> commit_done E t x extra segs reason s d s')
    (\<lambda>e s'. tracked s0 s' \<and> (commit_refused t s e s' \<or> commit_stopped t s e s')) s"
    (is "wp (bind _ ?rest) ?Q ?X s")
proof -
  have ok: "conv_ok s" by (rule tracked_ok [OF T])
  have opn: "dispo s (turn_id t) \<in> {None, Some PendingAsyncReply}" by (rule may_become_open [OF move])
  let ?now = "env_now E (clock s)" and ?s1 = "s\<lparr>clock := Suc (clock s)\<rparr>"
  have tail: "wp (?rest c) ?Q ?X s" if cl: "closable s t c" for c
  proof -
    have "wp (add_segments E t ?now extra segs)
        (\<lambda>_. wp (bind (disposition_for_transition E existing (turn_id t) x (Some reason)) (\<lambda>d.
        bind (save_disposition d) (\<lambda>_.
        bind (save_close_state c (t\<lparr>completed_at := Some ?now, turn_updated_at := ?now\<rparr>) ?now) (\<lambda>_.
        ret d)))) ?Q ?X) ?X ?s1"
      unfolding add_segments_def
    proof (rule wp_mono [OF wp_segments])
      show "tracked s0 ?s1" using T by simp
    next
      fix u :: unit and s2
      assume "tracked s0 s2 \<and> only_messages ?s1 s2 \<and> dvalues (messages_by_id s2) =
        dvalues (messages_by_id ?s1) @ reply_messages E t ?now extra (issued ?s1) (enumerate 1 segs)"
      then have T2: "tracked s0 s2" and om: "only_messages ?s1 s2"
        and ms: "dvalues (messages_by_id s2) = dvalues (messages_by_id ?s1) @ reply_of E s t extra segs"
        by (simp_all add: reply_of_def)
      note g = only_messages_gets [OF om]
      have g2: "get_turn s2 (turn_id t) = Some t" "get_disposition s2 = get_disposition s"
        "dispo s2 (turn_id t) = dispo s (turn_id t)" "get_conversation s2 = get_conversation s"
        using g t by (simp_all add: dispo_def)
      show "wp (bind (disposition_for_transition E existing (turn_id t) x (Some reason)) (\<lambda>d.
        bind (save_disposition d) (\<lambda>_.
        bind (save_close_state c (t\<lparr>completed_at := Some ?now, turn_updated_at := ?now\<rparr>) ?now) (\<lambda>_.
        ret d)))) ?Q ?X s2"
      proof (rule wp_mono [OF wp_closing_tail [OF T2 g2(1) _ _ _ x]])
        show "closable s2 t c" using cl unfolding closable_def g2(3) g2(4) .
        show "existing = get_disposition s2 (turn_id t)" using existing g2 by simp
        show "disp_step (dispo s2 (turn_id t)) (Some x)" using may_become_step [OF move] g2 by simp
        show "tracked s0 s' \<and> commit_done E t x extra segs reason s d s'"
          if "tracked s0 s' \<and> closes t x [] s2 s' \<and> get_disposition s' (turn_id t) = Some d \<and>
              reason_code d = Some reason" for d s'
          using that cl closes_after_messages [OF om ms, of t x s'] closes_disposition [of t x "[]" s2 s' d]
          by (auto simp: commit_done_def)
      qed simp
    next
      fix e s'
      assume "tracked s0 s' \<and> only_messages ?s1 s' \<and> (\<exists>code. e = ConversationRuntimeError code None)"
      then show "?X e s'" using cl by (auto simp: commit_stopped_def)
    qed
    then show ?thesis by (simp add: wp_bind wp_py_now)
  qed
  show ?thesis
    unfolding wp_bind [of "ensure_turn_can_close E t"]
  proof (rule wp_mono [OF wp_ensure_turn_can_close [OF ok t]])
    show "wp (?rest c) ?Q ?X s'" if "s' = s \<and> closable s t c" for c s'
      using that tail by simp
    show "?X e s'" if h: "(\<forall>c. \<not> closable s t c) \<and> (\<exists>f. e = turn_superseded_error f) \<and>
            (if dispo s (turn_id t) \<in> {None, Some PendingAsyncReply}
             then settles t Superseded s s' else s' = s)" for e s'
    proof -
      from h opn have st: "settles t Superseded s s'" by (simp split: if_splits)
      have "tracked s0 s'" by (rule tracked_superseded [OF T st t opn])
      then show ?thesis using h st by (simp add: commit_refused_def)
    qed
  qed
qed

section \<open>Every commit on every branch\<close>

text \<open>
  The four ways a commit on a known turn ends: already done, not allowed from the disposition the
  turn has, refused or stopped at the close boundary, or done. A commit whose arguments are
  rejected, or on an unknown turn, changes nothing.
\<close>

definition commit_spec ::
  "env \<Rightarrow> string \<Rightarrow> disposition_state \<Rightarrow> fact \<Rightarrow> string list \<Rightarrow> string \<Rightarrow> conv_state \<Rightarrow>
    pyexn + output_disposition \<Rightarrow> conv_state \<Rightarrow> bool" where
  "commit_spec E tid x extra segs reason s r s' \<longleftrightarrow>
     (case get_turn s tid of
        None \<Rightarrow> r = Inl (ConversationRuntimeError ''turn_not_found'' None) \<and> s' = s
      | Some t \<Rightarrow>
          if dispo s tid = Some x then s' = s \<and> (\<exists>d. get_disposition s tid = Some d \<and> r = Inr d)
          else if \<not> may_become (dispo s tid) x then s' = s \<and> (\<exists>e. r = Inl e \<and> is_runtime_error e)
          else
            (case r of
               Inl e \<Rightarrow> commit_refused t s e s' \<or> commit_stopped t s e s'
             | Inr d \<Rightarrow> commit_done E t x extra segs reason s d s'))"

lemma wp_commit:
  assumes T: "tracked s0 s" and x: "x \<in> set terminal_dispositions"
    and body: "\<And>t existing. may_become (map_option disposition existing) x \<Longrightarrow> body t existing =
        bind (ensure_turn_can_close E t) (\<lambda>c.
        bind (py_now E) (\<lambda>now.
        bind (add_segments E t now extra segs) (\<lambda>_.
        bind (disposition_for_transition E existing (turn_id t) x (Some reason)) (\<lambda>d.
        bind (save_disposition d) (\<lambda>_.
        bind (save_close_state c (t\<lparr>completed_at := Some now, turn_updated_at := now\<rparr>) now) (\<lambda>_.
        ret d))))))"
  shows "wp (bind (require_turn tid) (\<lambda>t.
        bind (gets (\<lambda>s. get_disposition s tid)) (\<lambda>existing.
        unless_already existing x (bind (ensure_turn_can_transition existing x) (\<lambda>_. body t existing)))))
    (\<lambda>d s'. tracked s0 s' \<and> commit_spec E tid x extra segs reason s (Inr d) s')
    (\<lambda>e s'. tracked s0 s' \<and> commit_spec E tid x extra segs reason s (Inl e) s') s"
    (is "wp _ ?Q ?X s")
proof (cases "get_turn s tid")
  case None
  then show ?thesis using T by (simp add: wp_simps commit_spec_def)
next
  case (Some t)
  have tid: "turn_id t = tid" by (rule get_turn_id [OF tracked_ok [OF T] Some])
  let ?e = "get_disposition s tid"
  have open_body: "wp (body t ?e) ?Q ?X s" if m: "may_become (dispo s tid) x" "dispo s tid \<noteq> Some x"
    unfolding body [OF m(1) [unfolded dispo_def]]
  proof (rule wp_mono [OF wp_commit_body [OF T _ _ _ x]])
    show "get_turn s (turn_id t) = Some t" using Some tid by simp
    show "?e = get_disposition s (turn_id t)" using tid by simp
    show "may_become (dispo s (turn_id t)) x" using m tid by simp
  qed (use Some m in \<open>simp_all add: commit_spec_def\<close>)
  have "wp (unless_already ?e x (bind (ensure_turn_can_transition ?e x) (\<lambda>_. body t ?e))) ?Q ?X s"
  proof (cases "dispo s tid = Some x")
    case True
    then obtain d where "?e = Some d" "disposition d = x" by (auto simp: dispo_def)
    then show ?thesis using T True Some by (simp add: unless_already_def wp_simps commit_spec_def)
  next
    case False
    have "wp (ensure_turn_can_transition ?e x) (\<lambda>_. wp (body t ?e) ?Q ?X) ?X s"
      by (rule wp_transition_cases)
        (use False T Some open_body in \<open>simp_all add: dispo_def [symmetric] commit_spec_def\<close>)
    moreover have "unless_already ?e x m = m" for m
      using False by (simp add: unless_already_def dispo_def split: option.split)
    ultimately show ?thesis by (simp add: wp_bind)
  qed
  then show ?thesis using Some by (simp add: wp_simps)
qed

lemma wp_commit_reply:
  assumes T: "tracked s0 s" and n: "1 \<le> length segs \<and> length segs \<le> 3"
  shows "wp (commit_reply E tid segs reason)
    (\<lambda>d s'. tracked s0 s' \<and> commit_spec E tid Replied [] segs reason s (Inr d) s')
    (\<lambda>e s'. tracked s0 s' \<and> commit_spec E tid Replied [] segs reason s (Inl e) s') s"
  unfolding commit_reply_def using n
  by (simp del: One_nat_def) (rule wp_commit [OF T], simp_all add: terminal_dispositions_def)

lemma wp_commit_recovery_reply:
  assumes T: "tracked s0 s" and n: "1 \<le> length segs \<and> length segs \<le> 3"
  shows "wp (commit_recovery_reply E tid segs reason)
    (\<lambda>d s'. tracked s0 s' \<and>
       commit_spec E tid Recovered [(''message_type'', PyStr ''recovery'')] segs reason s (Inr d) s')
    (\<lambda>e s'. tracked s0 s' \<and>
       commit_spec E tid Recovered [(''message_type'', PyStr ''recovery'')] segs reason s (Inl e) s') s"
  unfolding commit_recovery_reply_def using n
  by (simp del: One_nat_def) (rule wp_commit [OF T], simp_all add: terminal_dispositions_def)

lemma wp_commit_no_reply:
  assumes T: "tracked s0 s" and r: "reason \<in> {''intentional_no_reply'', ''media_resolution_failed''}"
  shows "wp (commit_no_reply E tid reason)
    (\<lambda>d s'. tracked s0 s' \<and> commit_spec E tid NoReply [] [] reason s (Inr d) s')
    (\<lambda>e s'. tracked s0 s' \<and> commit_spec E tid NoReply [] [] reason s (Inl e) s') s"
proof -
  have "commit_no_reply E tid reason =
      bind (require_turn tid) (\<lambda>t.
        bind (gets (\<lambda>s. get_disposition s tid)) (\<lambda>existing.
        unless_already existing NoReply (bind (ensure_turn_can_transition existing NoReply) (\<lambda>_.
        bind (ensure_turn_can_close E t) (\<lambda>c.
        bind (py_now E) (\<lambda>now.
        bind (new_disposition E (turn_id t) NoReply (Some reason)) (\<lambda>d.
        bind (save_disposition d) (\<lambda>_.
        bind (save_close_state c (t\<lparr>completed_at := Some now, turn_updated_at := now\<rparr>) now) (\<lambda>_.
        ret d)))))))))"
    using r by (auto simp: commit_no_reply_def)
  then show ?thesis
    by (simp only:) (rule wp_commit [OF T],
      auto simp: terminal_dispositions_def may_become_def add_segments_def disposition_for_transition_def)
qed

section \<open>Deferring, failing, superseding\<close>

text \<open>\<open>defers t s s'\<close>: all that happened is that the open turn \<open>t\<close> now awaits an asynchronous reply.\<close>

definition defers :: "turn \<Rightarrow> conv_state \<Rightarrow> conv_state \<Rightarrow> bool" where
  "defers t s s' \<longleftrightarrow>
     (\<forall>tid. dispo s' tid = (if tid = turn_id t then Some PendingAsyncReply else dispo s tid)) \<and>
     get_conversation s' = get_conversation s \<and> get_message s' = get_message s \<and>
     (\<forall>tid. tid \<noteq> turn_id t \<longrightarrow> get_turn s' tid = get_turn s tid)"

lemma wp_mark_pending:
  assumes T: "tracked s0 s"
  shows "wp (mark_pending_async_reply E tid reason)
    (\<lambda>d s'. tracked s0 s' \<and> disposition d = PendingAsyncReply \<and>
       (\<exists>t. get_turn s tid = Some t \<and>
         (if dispo s tid = Some PendingAsyncReply then s' = s
          else dispo s tid = None \<and> (\<exists>c. closable s t c) \<and> defers t s s')))
    (\<lambda>e s'. tracked s0 s' \<and> (s' = s \<or> (\<exists>t. get_turn s tid = Some t \<and> commit_refused t s e s'))) s"
    (is "wp _ ?Q ?X s")
proof (cases "get_turn s tid")
  case None
  then show ?thesis using T by (simp add: mark_pending_async_reply_def wp_simps)
next
  case (Some t)
  have ok: "conv_ok s" by (rule tracked_ok [OF T])
  have tid: "turn_id t = tid" by (rule get_turn_id [OF ok Some])
  have t: "get_turn s (turn_id t) = Some t" using Some tid by simp
  let ?rest = "\<lambda>_ :: conversation. bind (py_now E) (\<lambda>now.
     bind (new_disposition E (turn_id t) PendingAsyncReply (Some reason)) (\<lambda>d.
     bind (save_disposition d) (\<lambda>_.
     bind (save_turn (t\<lparr>turn_updated_at := now\<rparr>)) (\<lambda>_. ret d))))"
  have cl: "wp (bind (ensure_turn_can_close E t) ?rest) ?Q ?X s" if none: "dispo s tid = None"
  proof -
    have "completed_at t = None"
      using completed_iff [OF ok Some] none by (simp add: terminal_disp_def)
    then have rest: "wp (?rest c) ?Q ?X s" if "closable s t c" for c
      unfolding new_disposition_def
      by (simp add: wp_simps, intro wp_save_turn [where u = t])
        (use T ok t tid none that conv_okD(1) [OF ok] in
          \<open>auto simp: index_ok_put_disposition defers_def dispo_def disp_step.simps terminal_dispositions_def
             fun_eq_iff intro!: tracked_settle [where u = t]\<close>)
    show ?thesis
      unfolding wp_bind [of "ensure_turn_can_close E t"]
    proof (rule wp_mono [OF wp_ensure_turn_can_close [OF ok t]])
      show "wp (?rest c) ?Q ?X s'" if "s' = s \<and> closable s t c" for c s'
        using rest [of c] conjunct2 [OF that] unfolding conjunct1 [OF that] .
      show "?X e s'" if h: "(\<forall>c. \<not> closable s t c) \<and> (\<exists>f. e = turn_superseded_error f) \<and>
            (if dispo s (turn_id t) \<in> {None, Some PendingAsyncReply}
             then settles t Superseded s s' else s' = s)" for e s'
      proof -
        from h none tid have st: "settles t Superseded s s'" by simp
        have "tracked s0 s'" by (rule tracked_superseded [OF T st t]) (simp add: none tid)
        then show ?thesis using h st Some by (simp add: commit_refused_def)
      qed
    qed
  qed
  have "wp (unless_already (get_disposition s tid) PendingAsyncReply
      (bind (ensure_turn_can_transition (get_disposition s tid) PendingAsyncReply) (\<lambda>_.
        bind (ensure_turn_can_close E t) ?rest))) ?Q ?X s"
  proof (cases "dispo s tid")
    case None
    then show ?thesis
      using cl by (simp add: unless_already_def wp_bind [of "ensure_turn_can_transition _ _"]
          wp_ensure_turn_can_transition dispo_def)
  next
    case d: (Some x)
    then obtain d where "get_disposition s tid = Some d" "disposition d = x" by (auto simp: dispo_def)
    then show ?thesis using T Some d
      by (auto simp: unless_already_def wp_simps wp_ensure_turn_can_transition wp_bind
          split: disposition_state.splits)
  qed
  then show ?thesis using Some by (simp add: mark_pending_async_reply_def wp_simps)
qed

lemma wp_mark_failed:
  assumes T: "tracked s0 s"
  shows "wp (mark_failed E tid reason)
    (\<lambda>d s'. tracked s0 s' \<and> disposition d = Failed \<and> get_disposition s' tid = Some d \<and>
       (\<exists>t. get_turn s tid = Some t \<and>
         (if dispo s tid = Some Failed then s' = s
          else dispo s tid \<in> {None, Some PendingAsyncReply} \<and> settles t Failed s s')))
    (\<lambda>e s'. s' = s \<and> (get_turn s tid = None \<or> \<not> may_become (dispo s tid) Failed)) s"
    (is "wp _ ?Q ?X s")
proof (cases "get_turn s tid")
  case None
  then show ?thesis using T by (simp add: mark_failed_def wp_simps)
next
  case (Some t)
  have ok: "conv_ok s" by (rule tracked_ok [OF T])
  have tid: "turn_id t = tid" by (rule get_turn_id [OF ok Some])
  have t: "get_turn s (turn_id t) = Some t" using Some tid by simp
  let ?e = "get_disposition s tid"
  let ?rest = "bind (py_now E) (\<lambda>now.
     bind (disposition_for_transition E ?e (turn_id t) Failed (Some reason)) (\<lambda>d.
     bind (save_disposition d) (\<lambda>_.
     bind (save_turn (t\<lparr>completed_at := Some now, turn_updated_at := now\<rparr>)) (\<lambda>_. ret d))))"
  have rest: "wp ?rest ?Q ?X s" if m: "may_become (dispo s tid) Failed" "dispo s tid \<noteq> Some Failed"
  proof -
    have st: "tracked s0 s'" if "settles t Failed s s'" for s'
      by (rule tracked_settles [OF T that t refl])
        (use may_become_step [OF m(1)] tid in \<open>simp_all add: terminal_dispositions_def\<close>)
    have fin: "wp (bind (save_disposition d) (\<lambda>_.
       bind (save_turn (t\<lparr>completed_at := Some now, turn_updated_at := now\<rparr>)) (\<lambda>_. ret d))) ?Q ?X s1"
      if s1: "s1 = s\<lparr>clock := n, issued := i\<rparr>" and d: "disp_turn_id d = turn_id t" "disposition d = Failed"
      for d s1 n i now
    proof -
      let ?t = "t\<lparr>completed_at := Some now, turn_updated_at := now\<rparr>"
      have S: "settles t Failed s (put_turn ?t (put_disposition d s1))"
        by (rule settlesI [where u = ?t and d = d]) (use s1 d in simp_all)
      have "wp (save_turn ?t) (\<lambda>_. ?Q d) ?X (put_disposition d s1)"
        by (rule wp_save_turn [where u = t])
          (use conv_okD(1) [OF ok] t s1 st [OF S] S Some m may_become_open [OF m(1)] d tid in
            \<open>simp_all add: index_ok_put_disposition\<close>)
      then show ?thesis by (simp only: wp_bind wp_save_disposition wp_ret)
    qed
    show ?thesis
    proof (cases ?e)
      case None
      show ?thesis
        unfolding wp_bind [of "py_now E"] wp_bind [of "disposition_for_transition _ _ _ _ _"]
          wp_py_now wp_disposition_for_transition None option.case
        by (rule fin [where n = "Suc (Suc (clock s))" and i = "Suc (issued s)"]) simp_all
    next
      case (Some d)
      then have "disp_turn_id d = turn_id t" using get_disposition_turn [OF ok] tid by simp
      then show ?thesis
        unfolding wp_bind [of "py_now E"] wp_bind [of "disposition_for_transition _ _ _ _ _"]
          wp_py_now wp_disposition_for_transition Some option.case
        by (intro fin [where n = "Suc (Suc (clock s))" and i = "issued s"]) simp_all
    qed
  qed
  have "wp (unless_already ?e Failed (bind (ensure_turn_can_transition ?e Failed) (\<lambda>_. ?rest))) ?Q ?X s"
  proof (cases "dispo s tid = Some Failed")
    case True
    then obtain d where "?e = Some d" "disposition d = Failed" by (auto simp: dispo_def)
    then show ?thesis using T True Some by (simp add: unless_already_def wp_simps)
  next
    case False
    have "wp (ensure_turn_can_transition ?e Failed) (\<lambda>_. wp ?rest ?Q ?X) ?X s"
      by (rule wp_transition_cases) (use False rest in \<open>simp_all add: dispo_def [symmetric]\<close>)
    moreover have "unless_already ?e Failed m = m" for m
      using False by (simp add: unless_already_def dispo_def split: option.split)
    ultimately show ?thesis by (simp add: wp_bind)
  qed
  then show ?thesis using Some by (simp add: mark_failed_def wp_simps)
qed

lemma wp_mark_superseded:
  assumes T: "tracked s0 s"
  shows "wp (mark_superseded E tid reason)
    (\<lambda>d s'. tracked s0 s' \<and> get_disposition s' tid = Some d \<and>
       (\<exists>t. get_turn s tid = Some t \<and>
         (if dispo s tid = None then settles t Superseded s s' else s' = s)))
    (\<lambda>e s'. s' = s \<and> get_turn s tid = None) s"
proof (cases "get_turn s tid")
  case None
  then show ?thesis by (simp add: mark_superseded_def wp_simps)
next
  case (Some t)
  have ok: "conv_ok s" by (rule tracked_ok [OF T])
  have tid: "turn_id t = tid" by (rule get_turn_id [OF ok Some])
  have t: "get_turn s (turn_id t) = Some t" using Some tid by simp
  show ?thesis
  proof (cases "get_disposition s tid")
    case None
    then have none: "dispo s tid = None" by (simp add: dispo_def)
    have "tracked s0 s'" if "settles t Superseded s s'" for s'
      by (rule tracked_superseded [OF T that t]) (simp add: none tid)
    then have "wp (record_superseded E t reason)
      (\<lambda>d s'. tracked s0 s' \<and> get_disposition s' tid = Some d \<and> settles t Superseded s s') (\<lambda>_ _. False) s"
      by (rule_tac wp_mono [OF wp_record_superseded [OF ok t refl]]) (simp_all add: none tid)
    then show ?thesis
      using Some None tid
      by (simp add: mark_superseded_def wp_simps dispo_def)
  next
    case (Some d)
    then show ?thesis
      using \<open>get_turn s tid = Some t\<close> T by (simp add: mark_superseded_def wp_simps dispo_def)
  qed
qed

lemma wp_guard_state_change:
  assumes T: "tracked s0 s"
  shows "wp (guard_state_change E tid)
    (\<lambda>_ s'. s' = s \<and> (\<exists>t c. get_turn s tid = Some t \<and> closable s t c))
    (\<lambda>e s'. tracked s0 s' \<and>
       (get_turn s tid = None \<and> s' = s \<or>
        (\<exists>t. get_turn s tid = Some t \<and> (\<forall>c. \<not> closable s t c) \<and> (\<exists>f. e = turn_superseded_error f) \<and>
          (if dispo s tid \<in> {None, Some PendingAsyncReply} then settles t Superseded s s' else s' = s)))) s"
proof (cases "get_turn s tid")
  case None
  then show ?thesis using T by (simp add: guard_state_change_def wp_simps)
next
  case (Some t)
  have ok: "conv_ok s" by (rule tracked_ok [OF T])
  have tid: "turn_id t = tid" by (rule get_turn_id [OF ok Some])
  have t: "get_turn s (turn_id t) = Some t" using Some tid by simp
  have tr: "tracked s0 s'" if "if dispo s tid \<in> {None, Some PendingAsyncReply}
      then settles t Superseded s s' else s' = s" for s'
  proof (cases "dispo s tid \<in> {None, Some PendingAsyncReply}")
    case True
    with that have "settles t Superseded s s'" by simp
    then show ?thesis by (rule tracked_superseded [OF T _ t]) (use True tid in simp)
  qed (use that T in simp)
  have "wp (ensure_turn_can_close E t) (\<lambda>_ s'. s' = s \<and> (\<exists>c. closable s t c))
    (\<lambda>e s'. tracked s0 s' \<and> (\<forall>c. \<not> closable s t c) \<and> (\<exists>f. e = turn_superseded_error f) \<and>
       (if dispo s tid \<in> {None, Some PendingAsyncReply} then settles t Superseded s s' else s' = s)) s"
    by (rule wp_mono [OF wp_ensure_turn_can_close [OF ok t]]) (use tid tr in auto)
  then show ?thesis
    by (simp add: guard_state_change_def wp_simps Some)
qed

section \<open>Interrupting the active turns\<close>

definition supersedes :: "string set \<Rightarrow> conv_state \<Rightarrow> conv_state \<Rightarrow> bool" where
  "supersedes ids s s' \<longleftrightarrow>
     (\<forall>tid. dispo s' tid = (if tid \<in> ids then Some Superseded else dispo s tid)) \<and>
     (\<forall>tid. tid \<notin> ids \<longrightarrow> get_turn s' tid = get_turn s tid) \<and>
     get_conversation s' = get_conversation s \<and> messages_by_id s' = messages_by_id s \<and>
     outbox_by_id s' = outbox_by_id s"

lemma supersedes_refl: "supersedes {} s s"
  by (simp add: supersedes_def)

lemma supersedes_settles:
  assumes "settles t Superseded s s1" and "supersedes ids s1 s'"
  shows "supersedes (insert (turn_id t) ids) s s'"
  using assms(2) settles_gets [OF assms(1)] by (auto simp: supersedes_def)

lemma wp_interrupt_turns:
  assumes T: "tracked s0 s" and dist: "distinct (map turn_id ts)"
    and cur: "\<forall>t \<in> set ts. get_turn s (turn_id t) = Some t \<and> dispo s (turn_id t) \<in> {None, Some PendingAsyncReply}"
  shows "wp (interrupt_turns E ts reason)
    (\<lambda>r s'. tracked s0 s' \<and> r = ts \<and> supersedes (set (map turn_id ts)) s s') (\<lambda>_ _. False) s"
  using assms
proof (induction ts arbitrary: s)
  case Nil
  then show ?case by (simp add: wp_simps supersedes_refl)
next
  case (Cons t ts)
  have ok: "conv_ok s" by (rule tracked_ok [OF Cons.prems(1)])
  have t: "get_turn s (turn_id t) = Some t" and opn: "dispo s (turn_id t) \<in> {None, Some PendingAsyncReply}"
    using Cons.prems(3) by simp_all
  have step: "wp (interrupt_turns E ts reason)
      (\<lambda>r s'. tracked s0 s' \<and> r = ts \<and> supersedes (set (map turn_id (t # ts))) s s') (\<lambda>_ _. False) s1"
    if S: "settles t Superseded s s1" for s1
  proof (rule wp_mono [OF Cons.IH])
    show "tracked s0 s1" by (rule tracked_superseded [OF Cons.prems(1) S t opn])
    show "distinct (map turn_id ts)" using Cons.prems(2) by simp
    show "\<forall>u\<in>set ts. get_turn s1 (turn_id u) = Some u \<and> dispo s1 (turn_id u) \<in> {None, Some PendingAsyncReply}"
    proof
      fix u
      assume u: "u \<in> set ts"
      then have "turn_id u \<noteq> turn_id t" using Cons.prems(2) by (metis distinct.simps(2) imageI list.set_map list.simps(9))
      then show "get_turn s1 (turn_id u) = Some u \<and> dispo s1 (turn_id u) \<in> {None, Some PendingAsyncReply}"
        using Cons.prems(3) u by (simp add: settles_gets(6,7) [OF S])
    qed
    show "tracked s0 s' \<and> r = ts \<and> supersedes (set (map turn_id (t # ts))) s s'"
      if "tracked s0 s' \<and> r = ts \<and> supersedes (set (map turn_id ts)) s1 s'" for r s'
      using that supersedes_settles [OF S] by simp
  qed simp
  have "wp (record_superseded E t reason) (\<lambda>_. wp (bind (interrupt_turns E ts reason) (\<lambda>rest. ret (t # rest)))
      (\<lambda>r s'. tracked s0 s' \<and> r = t # ts \<and> supersedes (set (map turn_id (t # ts))) s s') (\<lambda>_ _. False))
      (\<lambda>_ _. False) s"
  proof (rule wp_mono [OF wp_record_superseded [OF ok t refl opn]])
    show "wp (bind (interrupt_turns E ts reason) (\<lambda>rest. ret (t # rest)))
      (\<lambda>r s'. tracked s0 s' \<and> r = t # ts \<and> supersedes (set (map turn_id (t # ts))) s s') (\<lambda>_ _. False) s1"
      if "settles t Superseded s s1 \<and> get_disposition s1 (turn_id t) = Some d" for d s1
      unfolding wp_bind by (rule wp_mono [OF step]) (use that in \<open>auto simp: wp_simps\<close>)
  qed simp
  then show ?case
    using opn by (auto simp: wp_simps dispo_def)
qed

end
