(* ===== verification/ConvInbound.thy ===== *)
theory ConvInbound
  imports ConvClosing
begin

text \<open>
  What the other writing methods of the conversation runtime do: recording an inbound message with
  its media, outbox record and interruptions, starting a turn over the open window, and the writes
  that touch only messages, media or the outbox.
\<close>

section \<open>The active interactive turns\<close>

lemma active_turns_iff:
  assumes ok: "conv_ok s"
  shows "t \<in> set (active_interactive_turns s cid) \<longleftrightarrow>
    get_turn s (turn_id t) = Some t \<and> is_active_interactive s cid t"
proof -
  have "keyed turn_id (turns_by_id s)"
    using conv_okD(1) [OF ok] by (auto simp: index_ok_def dest: indexed_keyed)
  from keyed_values [OF this] show ?thesis
    by (auto simp: active_interactive_turns_def get_turn_def)
qed

lemma active_turns_distinct:
  assumes ok: "conv_ok s"
  shows "distinct (map turn_id (active_interactive_turns s cid))"
proof -
  have k: "keyed turn_id (turns_by_id s)"
    using conv_okD(1) [OF ok] by (auto simp: index_ok_def dest: indexed_keyed)
  then show ?thesis
    unfolding active_interactive_turns_def by (intro distinct_map_sort_filter keyed_distinct)
qed

lemma active_dispo:
  "is_active_interactive s cid t \<Longrightarrow> dispo s (turn_id t) \<in> {None, Some PendingAsyncReply}"
  by (auto simp: is_active_interactive_def dispo_def split: option.splits)

lemma active_none_after:
  assumes ok: "conv_ok s'" and sup: "supersedes (set (map turn_id (active_interactive_turns s cid))) s s'"
    and old: "conv_ok s"
  shows "active_interactive_turns s' cid = []"
proof (rule ccontr)
  assume "active_interactive_turns s' cid \<noteq> []"
  then obtain t where "t \<in> set (active_interactive_turns s' cid)" by (meson list.set_sel(1))
  then have t: "get_turn s' (turn_id t) = Some t" "is_active_interactive s' cid t"
    using active_turns_iff [OF ok] by auto
  let ?ids = "set (map turn_id (active_interactive_turns s cid))"
  have out: "turn_id t \<notin> ?ids"
  proof
    assume "turn_id t \<in> ?ids"
    then have "dispo s' (turn_id t) = Some Superseded" using sup by (simp add: supersedes_def)
    then show False using active_dispo [OF t(2)] by simp
  qed
  then have "get_turn s (turn_id t) = Some t" "dispo s' (turn_id t) = dispo s (turn_id t)"
    using sup t(1) by (simp_all add: supersedes_def)
  then have "t \<in> set (active_interactive_turns s cid)"
    using t(2) unfolding active_turns_iff [OF old]
    by (auto simp: is_active_interactive_def dispo_def split: option.splits)
  with out show False by simp
qed

section \<open>Recording an inbound message\<close>

lemma wp_find_or_add_conversation:
  assumes T: "tracked s0 s" and found: "found = get_conversation_by_account s account"
  shows "wp (find_or_add_conversation E account now found)
    (\<lambda>c s'. tracked s0 s' \<and> get_conversation s' (conv_id c) = Some c \<and> conv_account_id c = account \<and>
       (case found of
          Some c' \<Rightarrow> c = c' \<and> s' = s
        | None \<Rightarrow> latest_inbound_seq c = 0 \<and> last_closed_inbound_seq c = 0 \<and>
                 get_conversation s (conv_id c) = None \<and>
                 s' = put_conversation c (s\<lparr>issued := Suc (issued s)\<rparr>)))
    (\<lambda>e s'. tracked s0 s' \<and> found = None \<and> s' = s\<lparr>issued := Suc (issued s)\<rparr>) s"
proof (cases found)
  case (Some c)
  then show ?thesis
    using T found get_by_account [OF tracked_ok [OF T], of account c]
    by (simp add: find_or_add_conversation_def wp_simps)
next
  case None
  then show ?thesis
    using T found
    by (auto simp: find_or_add_conversation_def add_conversation_def wp_simps Let_def
        intro!: tracked_new_conversation)
qed

text \<open>The media records: one per item, all of the message, with fresh identifiers.\<close>

lemma wp_preserve_media:
  assumes "\<And>m. media_message_id m = mid \<Longrightarrow> processing_status m = ''preserved'' \<Longrightarrow>
      Q m (s\<lparr>issued := Suc (issued s)\<rparr>)"
  shows "wp (preserve_media E mid now item) Q X s"
  using assms by (simp add: preserve_media_def wp_simps)

lemma wp_preserve_media_list:
  "wp (map_py (preserve_media E mid now) items)
     (\<lambda>ms s'. s' = s\<lparr>issued := issued s + length items\<rparr> \<and> length ms = length items \<and>
        (\<forall>m \<in> set ms. media_message_id m = mid \<and> processing_status m = ''preserved''))
     (\<lambda>_ _. False) s"
proof (induction items arbitrary: s)
  case Nil
  then show ?case by (simp add: wp_simps)
next
  case (Cons i items)
  show ?case
    by (simp add: wp_simps) (rule wp_preserve_media, rule wp_mono [OF Cons.IH], auto)
qed

lemma wp_check_media:
  "wp (for_each ms (check_media m)) (\<lambda>_ s'. s' = s) (\<lambda>e s'. s' = s \<and> is_runtime_error e) s"
  by (rule wp_for_each) (auto simp: check_media_def wp_simps)

lemma wp_put_media_list [wp_simps]:
  "wp (for_each ms (\<lambda>item. modify (put_media item))) Q X = (\<lambda>s. Q () (fold put_media ms s))"
  by (induction ms) (simp_all add: wp_simps)

lemma fold_put_media [simp]:
  "get_conversation (fold put_media ms s) = get_conversation s"
  "get_conversation_by_account (fold put_media ms s) = get_conversation_by_account s"
  "get_message (fold put_media ms s) = get_message s"
  "get_turn (fold put_media ms s) = get_turn s"
  "get_disposition (fold put_media ms s) = get_disposition s"
  "messages_by_id (fold put_media ms s) = messages_by_id s"
  "outbox_by_id (fold put_media ms s) = outbox_by_id s"
  "outbox_by_idempotency_key (fold put_media ms s) = outbox_by_idempotency_key s"
  by (induction ms arbitrary: s) (simp_all add: put_media_def conv_gets fun_eq_iff)

lemma index_ok_fold_media: "index_ok s \<Longrightarrow> index_ok (fold put_media ms s)"
  by (induction ms arbitrary: s) (simp_all add: index_ok_put_media)

text \<open>The repository's write of one message: the conversation moved on, the message, its media and
  its outbox record added, nothing else changed.\<close>

definition inbound_written ::
  "conversation \<Rightarrow> datetime \<Rightarrow> message \<Rightarrow> inbound_media list \<Rightarrow> outbox_record \<Rightarrow> conv_state \<Rightarrow> conv_state" where
  "inbound_written c now m ms r s =
     save_outbox r (fold put_media ms (put_message m (put_conversation
       (c\<lparr>latest_inbound_seq := latest_inbound_seq c + 1, conv_updated_at := now\<rparr>) s)))"

lemma wp_add_inbound:
  assumes T: "tracked s0 s" and c: "get_conversation s (conv_id c) = Some c"
    and m: "msg_direction m = Inbound" "msg_conversation_id m = conv_id c"
      "msg_seq m = Some (latest_inbound_seq c + 1)"
    and Q: "tracked s0 (inbound_written c now m ms r s) \<Longrightarrow> get_message s (msg_id m) = None \<Longrightarrow>
      dget (outbox_by_id s) (ob_id r) = None \<Longrightarrow> Q () (inbound_written c now m ms r s)"
    and X: "\<And>e. is_runtime_error e \<Longrightarrow> X e s"
  shows "wp (add_inbound_message_with_media_and_outbox
        (c\<lparr>latest_inbound_seq := latest_inbound_seq c + 1, conv_updated_at := now\<rparr>) m ms r) Q X s"
proof -
  let ?c = "c\<lparr>latest_inbound_seq := latest_inbound_seq c + 1, conv_updated_at := now\<rparr>"
  have sc: "save_conversation ?c s = (Inr (), put_conversation ?c s)"
    by (rule save_conversation_run [where u = c])
      (use c conv_okD(1) [OF tracked_ok [OF T]] in simp_all)
  have main: "Q () (inbound_written c now m ms r s)"
    if new: "get_message s (msg_id m) = None" "dget (outbox_by_id s) (ob_id r) = None"
      "dget (outbox_by_idempotency_key s) (ob_idempotency_key r) = None"
  proof -
    let ?s1 = "put_message m (put_conversation ?c s)"
    have T1: "tracked s0 ?s1" by (rule tracked_inbound [OF T c new(1) m])
    have ix: "index_ok (fold put_media ms ?s1)"
      by (rule index_ok_fold_media [OF conv_okD(1) [OF tracked_ok [OF T1]]])
    have "tracked s0 (save_outbox r (fold put_media ms ?s1))"
    proof (rule tracked_frame [OF T1])
      show "index_ok (save_outbox r (fold put_media ms ?s1))"
        by (rule index_ok_new_outbox [OF ix])
          (use new in \<open>simp_all add: put_message_def put_conversation_def\<close>)
    qed simp_all
    then show ?thesis using Q new by (simp add: inbound_written_def)
  qed
  have tail: "wp (bind (save_conversation ?c) (\<lambda>_. bind (modify (put_message m)) (\<lambda>_.
      bind (for_each ms (\<lambda>item. modify (put_media item))) (\<lambda>_. modify (save_outbox r))))) Q X s"
    if "get_message s (msg_id m) = None" "dget (outbox_by_id s) (ob_id r) = None"
      "dget (outbox_by_idempotency_key s) (ob_idempotency_key r) = None"
    using main [OF that] by (simp add: wp_simps) (simp add: wp_def sc inbound_written_def)
  have comm: "c\<lparr>conv_updated_at := now, latest_inbound_seq := n\<rparr> =
      c\<lparr>latest_inbound_seq := n, conv_updated_at := now\<rparr>" for n
    by simp
  have media: "wp (bind (for_each ms (check_media m)) (\<lambda>_.
          bind (gets (\<lambda>s. get_conversation s (conv_id ?c))) (\<lambda>existing.
          case existing of
            None \<Rightarrow> conv_error ''conversation_not_found''
          | Some old \<Rightarrow>
              bind (save_conversation
                (?c\<lparr>latest_inbound_seq := max (latest_inbound_seq old) (latest_inbound_seq ?c),
                   last_closed_inbound_seq :=
                     max (last_closed_inbound_seq old) (last_closed_inbound_seq ?c)\<rparr>)) (\<lambda>_.
              bind (modify (put_message m)) (\<lambda>_.
              bind (for_each ms (\<lambda>item. modify (put_media item))) (\<lambda>_.
              modify (save_outbox r))))))) Q X s"
    if new: "get_message s (msg_id m) = None" "dget (outbox_by_id s) (ob_id r) = None"
      "dget (outbox_by_idempotency_key s) (ob_idempotency_key r) = None"
    unfolding wp_bind [of "for_each _ _"]
    by (rule wp_mono [OF wp_check_media [of ms m s]])
      (use tail [OF new] c X in \<open>simp_all add: comm wp_bind wp_gets\<close>)
  show ?thesis
    using m media c X
    by (auto simp: add_inbound_message_with_media_and_outbox_def require_message_id_available_def
        check_outbox_free_def wp_simps)
qed

lemma active_turns_cong:
  "turns_by_id s' = turns_by_id s \<Longrightarrow> get_disposition s' = get_disposition s \<Longrightarrow>
    active_interactive_turns s' cid = active_interactive_turns s cid"
proof -
  assume *: "turns_by_id s' = turns_by_id s" "get_disposition s' = get_disposition s"
  then have "is_active_interactive s' cid = is_active_interactive s cid"
    by (simp add: is_active_interactive_def fun_eq_iff)
  with * show ?thesis by (simp add: active_interactive_turns_def)
qed

lemma raw_turns:
  "turns_by_id (put_conversation c s) = turns_by_id s" "turns_by_id (put_message m s) = turns_by_id s"
  "turns_by_id (save_outbox r s) = turns_by_id s"
  by (simp_all add: put_conversation_def put_message_def save_outbox_def)

lemma turns_fold_put_media [simp]: "turns_by_id (fold put_media ms s) = turns_by_id s"
  by (induction ms arbitrary: s) (simp_all add: put_media_def)

text \<open>
  What recording an inbound message does: the conversation of the account (created on its first
  message) moves to the next sequence number, which the message gets; the message and its outbox
  record are appended; every active interactive turn of the conversation is superseded and
  returned, so that none is left; nothing else changes.
\<close>

definition seq_before :: "conv_state \<Rightarrow> string \<Rightarrow> int \<times> int" where
  "seq_before s cid = (case ledger s cid of None \<Rightarrow> (0, 0) | Some l \<Rightarrow> l)"

definition inbound_recorded :: "string \<Rightarrow> conv_state \<Rightarrow> inbound_record_result \<Rightarrow> conv_state \<Rightarrow> bool" where
  "inbound_recorded account s r s' \<longleftrightarrow>
     (let m = irr_message r; c = irr_conversation r; cid = conv_id c; l = seq_before s cid in
       conv_account_id c = account \<and>
       msg_seq m = Some (fst l + 1) \<and> msg_conversation_id m = cid \<and> msg_direction m = Inbound \<and>
       (\<forall>x. ledger s' x = (if x = cid then Some (fst l + 1, snd l) else ledger s x)) \<and>
       dvalues (messages_by_id s') = dvalues (messages_by_id s) @ [m] \<and>
       dvalues (outbox_by_id s') = dvalues (outbox_by_id s) @ [irr_outbox r] \<and>
       irr_interrupted_turns r = active_interactive_turns s cid \<and>
       (\<forall>tid. dispo s' tid =
          (if tid \<in> set (map turn_id (irr_interrupted_turns r)) then Some Superseded else dispo s tid)) \<and>
       active_interactive_turns s' cid = [])"

lemma inbound_written_facts:
  assumes "get_message s (msg_id m) = None" "dget (outbox_by_id s) (ob_id r) = None"
  shows "dvalues (messages_by_id (inbound_written c now m ms r s)) = dvalues (messages_by_id s) @ [m]"
    "dvalues (outbox_by_id (inbound_written c now m ms r s)) = dvalues (outbox_by_id s) @ [r]"
    "ledger (inbound_written c now m ms r s) x =
       (if x = conv_id c then Some (latest_inbound_seq c + 1, last_closed_inbound_seq c) else ledger s x)"
    "dispo (inbound_written c now m ms r s) = dispo s"
    "get_turn (inbound_written c now m ms r s) = get_turn s"
    "active_interactive_turns (inbound_written c now m ms r s) cid = active_interactive_turns s cid"
proof -
  let ?s1 = "put_message m (put_conversation
       (c\<lparr>latest_inbound_seq := latest_inbound_seq c + 1, conv_updated_at := now\<rparr>) s)"
  have s: "inbound_written c now m ms r s = save_outbox r (fold put_media ms ?s1)"
    by (simp add: inbound_written_def)
  show "dvalues (messages_by_id (inbound_written c now m ms r s)) = dvalues (messages_by_id s) @ [m]"
    using assms(1) dput_values_fresh [of "messages_by_id s" "msg_id m" m]
    unfolding s save_outbox_def by (simp add: put_message_def put_conversation_def get_message_def)
  show "dvalues (outbox_by_id (inbound_written c now m ms r s)) = dvalues (outbox_by_id s) @ [r]"
    using assms(2) dput_values_fresh [of "outbox_by_id s" "ob_id r" r]
    unfolding s save_outbox_def by (simp add: put_message_def put_conversation_def)
  show "ledger (inbound_written c now m ms r s) x =
       (if x = conv_id c then Some (latest_inbound_seq c + 1, last_closed_inbound_seq c) else ledger s x)"
    "dispo (inbound_written c now m ms r s) = dispo s"
    "get_turn (inbound_written c now m ms r s) = get_turn s"
    unfolding s by (simp_all add: ledger_def dispo_def fun_eq_iff)
  show "active_interactive_turns (inbound_written c now m ms r s) cid = active_interactive_turns s cid"
    unfolding s by (rule active_turns_cong)
      (simp_all add: raw_turns fun_eq_iff)
qed

text \<open>\<open>ready account c s t\<close>: \<open>t\<close> is \<open>s\<close> with at most the conversation \<open>c\<close> of the account created.\<close>

definition ready :: "string \<Rightarrow> conversation \<Rightarrow> conv_state \<Rightarrow> conv_state \<Rightarrow> bool" where
  "ready account c s t \<longleftrightarrow>
     get_conversation t (conv_id c) = Some c \<and> conv_account_id c = account \<and>
     messages_by_id t = messages_by_id s \<and> outbox_by_id t = outbox_by_id s \<and> dispo t = dispo s \<and>
     get_turn t = get_turn s \<and> active_interactive_turns t = active_interactive_turns s \<and>
     (\<forall>x. x \<noteq> conv_id c \<longrightarrow> ledger t x = ledger s x) \<and>
     seq_before s (conv_id c) = (latest_inbound_seq c, last_closed_inbound_seq c)"

lemma ready_issued [simp]: "ready account c s (t\<lparr>issued := i\<rparr>) = ready account c s t"
proof -
  have "active_interactive_turns (t\<lparr>issued := i\<rparr>) = active_interactive_turns t"
    by (rule ext, rule active_turns_cong) simp_all
  then show ?thesis by (simp add: ready_def)
qed

lemma wp_write_inbound:
  assumes T: "tracked s0 t" and R: "ready account c s t"
    and m: "msg_direction m = Inbound" "msg_conversation_id m = conv_id c"
      "msg_seq m = Some (latest_inbound_seq c + 1)"
  shows "wp (write_inbound E c now (active_interactive_turns s (conv_id c)) m ms r)
    (\<lambda>r s'. tracked s0 s' \<and> inbound_recorded account s r s') (\<lambda>e s'. tracked s0 s') t"
proof -
  let ?c = "c\<lparr>latest_inbound_seq := latest_inbound_seq c + 1, conv_updated_at := now\<rparr>"
  let ?ts = "active_interactive_turns s (conv_id c)" and ?w = "inbound_written c now m ms r t"
  let ?res = "\<lambda>ts. \<lparr>irr_conversation = ?c, irr_message = m, irr_media = ms, irr_outbox = r,
    irr_interrupted_turns = ts\<rparr>"
  have c: "get_conversation t (conv_id c) = Some c" using R by (simp add: ready_def)
  have rest: "wp (interrupt_turns E ?ts reason)
      (\<lambda>ts s'. tracked s0 s' \<and> inbound_recorded account s (?res ts) s') (\<lambda>_ s'. tracked s0 s') ?w"
    if Tw: "tracked s0 ?w" and new: "get_message t (msg_id m) = None" "dget (outbox_by_id t) (ob_id r) = None"
    for reason
  proof -
    note w = inbound_written_facts [OF new, of c now ms]
    have aw: "active_interactive_turns ?w (conv_id c) = ?ts" using w(6) R by (simp add: ready_def)
    note act = active_turns_iff [OF tracked_ok [OF Tw], of _ "conv_id c", unfolded aw]
    have rec: "inbound_recorded account s (?res ?ts) s'"
      if sup: "supersedes (set (map turn_id ?ts)) ?w s'" and Ts: "tracked s0 s'" for s'
    proof -
      have "active_interactive_turns s' (conv_id c) = []"
        using active_none_after [OF tracked_ok [OF Ts] _ tracked_ok [OF Tw], of "conv_id c"] sup aw by simp
      moreover have "ledger s' x = ledger ?w x" for x using sup by (simp add: supersedes_def ledger_def)
      ultimately show ?thesis
        using sup w R m by (simp add: inbound_recorded_def ready_def supersedes_def)
    qed
    show ?thesis
      by (rule wp_mono [OF wp_interrupt_turns [OF Tw]])
        (use active_turns_distinct [OF tracked_ok [OF Tw], of "conv_id c"] aw act active_dispo [of ?w] rec
          in auto)
  qed
  show ?thesis
    unfolding write_inbound_def Let_def wp_bind wp_ret
    by (rule wp_add_inbound [OF T c m]) (use rest T in simp_all)
qed

lemma inbound_message_simps [simp]:
  "msg_direction (inbound_message mid c now ch ev text payload) = Inbound"
  "msg_conversation_id (inbound_message mid c now ch ev text payload) = conv_id c"
  "msg_seq (inbound_message mid c now ch ev text payload) = Some (latest_inbound_seq c + 1)"
  "msg_id (inbound_message mid c now ch ev text payload) = mid"
  by (simp_all add: inbound_message_def)

lemma wp_record_inbound_in:
  assumes T: "tracked s0 t" and R: "ready account c s t"
  shows "wp (record_inbound_in E c now channel causal text payload trace media)
    (\<lambda>r s'. tracked s0 s' \<and> inbound_recorded account s r s') (\<lambda>e s'. tracked s0 s') t"
proof -
  have act: "active_interactive_turns t (conv_id c) = active_interactive_turns s (conv_id c)"
    using R by (simp add: ready_def)
  have "wp (map_py (preserve_media E mid now) media) (\<lambda>ms. wp (bind (new_id E ''outbox'') (\<lambda>oid.
      write_inbound E c now (active_interactive_turns s (conv_id c))
        (inbound_message mid c now channel causal text payload) ms (r oid)))
     (\<lambda>r s'. tracked s0 s' \<and> inbound_recorded account s r s') (\<lambda>e s'. tracked s0 s'))
     (\<lambda>e s'. tracked s0 s') (t\<lparr>issued := i\<rparr>)" for mid i r
    unfolding wp_bind wp_new_id
    by (rule wp_mono [OF wp_preserve_media_list])
      (auto intro!: wp_write_inbound simp: T R)
  then show ?thesis by (simp add: record_inbound_in_def wp_simps act)
qed

lemma wp_record_inbound:
  assumes T: "tracked s0 s"
  shows "wp (record_inbound E account channel causal text payload trace media)
    (\<lambda>r s'. tracked s0 s' \<and> inbound_recorded account s r s') (\<lambda>e s'. tracked s0 s') s"
proof -
  let ?s = "s\<lparr>clock := Suc (clock s)\<rparr>"
  let ?found = "get_conversation_by_account s account"
  have Ts: "tracked s0 ?s" and f: "?found = get_conversation_by_account ?s account" using T by simp_all
  have act: "active_interactive_turns t = active_interactive_turns s"
    if "turns_by_id t = turns_by_id s" "get_disposition t = get_disposition s" for t
    by (rule ext, rule active_turns_cong) (use that in simp_all)
  have "ready account c s t"
    if h: "get_conversation t (conv_id c) = Some c \<and> conv_account_id c = account \<and>
       (case ?found of
          Some c' \<Rightarrow> c = c' \<and> t = ?s
        | None \<Rightarrow> latest_inbound_seq c = 0 \<and> last_closed_inbound_seq c = 0 \<and>
                 get_conversation ?s (conv_id c) = None \<and>
                 t = put_conversation c (?s\<lparr>issued := Suc (issued ?s)\<rparr>))" for c t
  proof (cases ?found)
    case None
    with h have "turns_by_id t = turns_by_id s" "get_disposition t = get_disposition s"
      by (simp_all add: raw_turns fun_eq_iff)
    with None h act [of t] show ?thesis
      by (simp add: ready_def seq_before_def ledger_def dispo_def fun_eq_iff)
  next
    case (Some c')
    with h act [of t] show ?thesis by (auto simp: ready_def seq_before_def ledger_def)
  qed
  then have "wp (find_or_add_conversation E account now ?found)
     (\<lambda>c. wp (record_inbound_in E c now channel causal text payload trace media)
       (\<lambda>r s'. tracked s0 s' \<and> inbound_recorded account s r s') (\<lambda>e s'. tracked s0 s'))
     (\<lambda>e s'. tracked s0 s') ?s" for now
    by (rule_tac wp_mono [OF wp_find_or_add_conversation [OF Ts f]])
      (auto intro!: wp_record_inbound_in)
  then show ?thesis by (simp add: record_inbound_def wp_simps)
qed

section \<open>Starting a turn\<close>

text \<open>
  What starting a turn does: a known trigger replays the turn it started, with the input of its
  window; a new one adds a turn over the conversation's open window (or over none, when it is not
  interactive), without a disposition and not completed.
\<close>

definition turn_started ::
  "conv_state \<Rightarrow> string \<Rightarrow> string \<Rightarrow> string \<Rightarrow> string \<Rightarrow> turn_start_result \<Rightarrow> conv_state \<Rightarrow> bool" where
  "turn_started s cid trig ttype turn_mode r s' \<longleftrightarrow>
     (let t = tsr_turn r in
      turn_conversation_id t = cid \<and> trigger_id t = trig \<and> get_turn s' (turn_id t) = Some t \<and>
      tsr_input_messages r = input_messages_for_turn s t \<and>
      (if tsr_replayed r then s' = s
       else get_turn_by_trigger_id s trig = None \<and> get_turn s (turn_id t) = None \<and>
         dispo s' = dispo s \<and> dispo s (turn_id t) = None \<and> completed_at t = None \<and>
         trigger_type t = ttype \<and> mode t = turn_mode \<and>
         get_conversation s' = get_conversation s \<and> messages_by_id s' = messages_by_id s \<and>
         (\<exists>c. get_conversation s cid = Some c \<and>
            (if turn_mode = ''interactive''
             then last_closed_inbound_seq c < latest_inbound_seq c \<and>
                  input_from_seq t = Some (last_closed_inbound_seq c + 1) \<and>
                  input_to_seq t = Some (latest_inbound_seq c)
             else input_from_seq t = None \<and> input_to_seq t = None))))"

lemma dispo_put_turn [simp]: "dispo (put_turn t s) = dispo s"
  by (simp add: dispo_def fun_eq_iff)

lemma wp_add_turn:
  assumes T: "tracked s0 s"
    and c: "get_conversation s (turn_conversation_id t) = Some c" "window_ok t (latest_inbound_seq c)"
    and fin: "completed_at t = None"
    and Q: "get_turn s (turn_id t) = None \<Longrightarrow> tracked s0 (put_turn t s) \<Longrightarrow> Q () (put_turn t s)"
    and X: "\<And>e. X e s"
  shows "wp (add_turn t) Q X s"
  using Q X c(1) tracked_new_turn [OF T _ _ c fin] by (auto simp: add_turn_def wp_simps)

lemma input_messages_for_window_counters [simp]:
  "input_messages_for_window (s\<lparr>clock := n\<rparr>) = input_messages_for_window s"
  "input_messages_for_window (s\<lparr>issued := n\<rparr>) = input_messages_for_window s"
  by (simp_all add: input_messages_for_window_def inbound_messages_for_window_def fun_eq_iff)

lemma wp_start_turn:
  assumes T: "tracked s0 s"
  shows "wp (start_turn E cid trig ttype turn_mode)
    (\<lambda>r s'. tracked s0 s' \<and> turn_started s cid trig ttype turn_mode r s')
    (\<lambda>e s'. tracked s0 s' \<and> get_turn s' = get_turn s) s"
    (is "wp _ ?Q ?X s")
proof (cases "get_turn_by_trigger_id s trig")
  case (Some t)
  then show ?thesis
    using T get_by_trigger [OF tracked_ok [OF T], of trig t]
    by (auto simp: start_turn_def wp_simps turn_started_def)
next
  case None
  have ok: "conv_ok s" by (rule tracked_ok [OF T])
  show ?thesis
  proof (cases "get_conversation s cid")
    case None
    then show ?thesis
      using T \<open>get_turn_by_trigger_id s trig = None\<close> by (simp add: start_turn_def wp_simps)
  next
    case (Some c)
    have cid: "conv_id c = cid" by (rule get_conversation_id [OF ok Some])
    have le: "0 \<le> last_closed_inbound_seq c" using seq_ok_bounds [OF conv_okD(2) [OF ok] Some] by simp
    have new: "dispo s tid = None" if "get_turn s tid = None" for tid
      using conv_okD(4) [OF ok] that unfolding settle_ok_def dispo_def by auto
    show ?thesis
      using T None Some cid le
      by (auto simp: start_turn_def open_window_def wp_simps Let_def turn_started_def window_ok_def
          input_messages_for_turn_def new fun_eq_iff)
        (rule wp_add_turn, (auto simp: window_ok_def new)[6])+
  qed
qed

section \<open>Messages, media and the outbox\<close>

lemma wp_check_media_update:
  "wp (for_each us (check_media_update mid)) (\<lambda>_ s'. s' = s) (\<lambda>e s'. s' = s) s"
  by (rule wp_for_each) (auto simp: check_media_update_def wp_simps split: option.split)

lemma wp_apply_media_update:
  assumes "tracked s0 s"
  shows "wp (apply_media_update at p) (\<lambda>_. tracked s0) (\<lambda>_. tracked s0) s"
proof (cases "dget (inbound_media_by_id s) (fst p)")
  case None
  then show ?thesis using assms by (simp add: apply_media_update_def wp_simps)
next
  case (Some m)
  have k: "keyed media_id (inbound_media_by_id s)"
    using conv_okD(1) [OF tracked_ok [OF assms]] by (simp add: index_ok_def)
  let ?m = "m\<lparr>processing_status := imsu_processing_status (snd p), media_updated_at := at\<rparr>"
  have "tracked s0 (put_media ?m s)"
    by (rule tracked_frame [OF assms])
      (use conv_okD(1) [OF tracked_ok [OF assms]] in \<open>simp_all add: index_ok_put_media fun_eq_iff\<close>)
  moreover have "media_id m = fst p" by (rule keyed_get [OF k Some])
  ultimately show ?thesis
    using Some by (simp add: apply_media_update_def wp_simps put_media_def)
qed

lemma wp_resolve_inbound_media:
  assumes T: "tracked s0 s"
  shows "wp (resolve_inbound_media E mid text updates) (\<lambda>_. tracked s0) (\<lambda>_. tracked s0) s"
proof (cases "get_message s mid")
  case None
  then show ?thesis using T by (simp add: resolve_inbound_media_def service_get_message_def wp_simps)
next
  case (Some m)
  let ?s = "s\<lparr>clock := Suc (clock s)\<rparr>" and ?now = "env_now E (clock s)"
  let ?m = "m\<lparr>msg_text := text, msg_updated_at := ?now\<rparr>"
  have id: "msg_id m = mid" by (rule get_message_id [OF tracked_ok [OF T] Some])
  have Tm: "tracked s0 (put_message ?m ?s)"
    by (rule tracked_rewrite_message [where u = m]) (use T Some id in \<open>simp_all add: msg_key_def\<close>)
  have loop: "wp (for_each us (apply_media_update ?now)) (\<lambda>_. tracked s0) (\<lambda>_. tracked s0)
      (put_message ?m ?s)" for us
    by (rule wp_for_each [OF wp_apply_media_update Tm])
  have "wp (for_each (update_by_id updates) (check_media_update mid))
      (\<lambda>_. wp (bind (modify (\<lambda>s. s\<lparr>messages_by_id := dput mid ?m (messages_by_id s)\<rparr>)) (\<lambda>_.
         bind (for_each (update_by_id updates) (apply_media_update ?now)) (\<lambda>_. ret ?m)))
        (\<lambda>_. tracked s0) (\<lambda>_. tracked s0)) (\<lambda>_. tracked s0) ?s"
    by (rule wp_mono [OF wp_check_media_update [of _ _ ?s]])
      (use loop [of "update_by_id updates"] T id in \<open>simp_all add: wp_simps put_message_def\<close>)
  then show ?thesis
    using Some
    by (simp add: resolve_inbound_media_def service_get_message_def repo_resolve_inbound_media_def
        wp_simps Let_def)
qed

lemma wp_record_outbound_message:
  assumes T: "tracked s0 s"
  shows "wp (record_outbound_message E tid text index payload) (\<lambda>_. tracked s0) (\<lambda>_. tracked s0) s"
  using T
  by (auto simp: record_outbound_message_def wp_simps Let_def split: option.split
      intro!: wp_add_outbound tracked_outbound)

lemma tracked_new_outbox:
  assumes "tracked s0 s" "dget (outbox_by_id s) (ob_id r) = None"
    "dget (outbox_by_idempotency_key s) (ob_idempotency_key r) = None"
  shows "tracked s0 (save_outbox r s)"
  by (rule tracked_frame [OF assms(1)])
    (use assms conv_okD(1) [OF tracked_ok] in \<open>simp_all add: index_ok_new_outbox fun_eq_iff\<close>)

lemma tracked_save_outbox:
  assumes "tracked s0 s" "dget (outbox_by_id s) (ob_id r) = Some u"
    "ob_idempotency_key u = ob_idempotency_key r"
  shows "tracked s0 (save_outbox r s)"
  by (rule tracked_frame [OF assms(1) index_ok_save_outbox [OF conv_okD(1) [OF tracked_ok [OF assms(1)]] assms(2,3)]])
    simp_all

lemma wp_enqueue_render_turn:
  assumes T: "tracked s0 s"
  shows "wp (enqueue_render_turn E topic key payload trace) (\<lambda>_. tracked s0) (\<lambda>_. tracked s0) s"
  using T
  by (auto simp: enqueue_render_turn_def add_outbox_def check_outbox_free_def wp_simps Let_def
      intro!: tracked_new_outbox)

lemma outbox_id:
  assumes "conv_ok s" "dget (outbox_by_id s) eid = Some r"
  shows "ob_id r = eid"
proof -
  have "keyed ob_id (outbox_by_id s)"
    using conv_okD(1) [OF assms(1)] by (auto simp: index_ok_def dest: indexed_keyed)
  then show ?thesis using assms(2) by (rule keyed_get)
qed

lemma wp_mark_outbox:
  assumes T: "tracked s0 s"
  shows "wp (mark_outbox_published eid at) (\<lambda>_. tracked s0) (\<lambda>_. tracked s0) s"
    "wp (mark_outbox_processed eid at) (\<lambda>_. tracked s0) (\<lambda>_. tracked s0) s"
  using T outbox_id [OF tracked_ok [OF T], of eid]
  by (auto simp: mark_outbox_published_def mark_outbox_processed_def require_outbox_def wp_simps Let_def
      split: option.split intro!: tracked_save_outbox)

end
