(* ===== verification/ConvRuntime.thy ===== *)
theory ConvRuntime
  imports ConvInbound
begin

text \<open>
  The conversation runtime as a machine: one step is one call of a method of
  \<open>ConversationRuntimeService\<close> (or of the outbox relay on its repository), with whatever arguments,
  whether it returns or raises; and the properties of every state such calls can reach.
\<close>

section \<open>Calls\<close>

datatype conv_call =
    RecordInbound string string string "string option" fact string "inbound_media_input list"
  | StartTurn string string string string
  | CommitReply string "string list" string
  | CommitNoReply string string
  | CommitRecoveryReply string "string list" string
  | MarkPendingAsyncReply string string
  | MarkFailed string string
  | MarkSuperseded string string
  | InterruptActive string string
  | GuardStateChange string
  | ResolveInboundMedia string "string option" "inbound_media_status_update list"
  | RecordOutboundMessage string string int "fact option"
  | EnqueueRenderTurn string string fact string
  | LatestContextToken string
  | MarkOutboxPublished string datetime
  | MarkOutboxProcessed string datetime

fun run_call :: "env \<Rightarrow> conv_call \<Rightarrow> conv_state \<Rightarrow> conv_state" where
  "run_call E (RecordInbound a ch ev text payload trace media) s =
     snd (record_inbound E a ch ev text payload trace media s)"
| "run_call E (StartTurn cid trig ttype md) s = snd (start_turn E cid trig ttype md s)"
| "run_call E (CommitReply tid segs reason) s = snd (commit_reply E tid segs reason s)"
| "run_call E (CommitNoReply tid reason) s = snd (commit_no_reply E tid reason s)"
| "run_call E (CommitRecoveryReply tid segs reason) s = snd (commit_recovery_reply E tid segs reason s)"
| "run_call E (MarkPendingAsyncReply tid reason) s = snd (mark_pending_async_reply E tid reason s)"
| "run_call E (MarkFailed tid reason) s = snd (mark_failed E tid reason s)"
| "run_call E (MarkSuperseded tid reason) s = snd (mark_superseded E tid reason s)"
| "run_call E (InterruptActive cid reason) s = snd (interrupt_active_interactive_turns E cid reason s)"
| "run_call E (GuardStateChange tid) s = snd (guard_state_change E tid s)"
| "run_call E (ResolveInboundMedia mid text us) s = snd (resolve_inbound_media E mid text us s)"
| "run_call E (RecordOutboundMessage tid text k payload) s =
     snd (record_outbound_message E tid text k payload s)"
| "run_call E (EnqueueRenderTurn topic key payload trace) s =
     snd (enqueue_render_turn E topic key payload trace s)"
| "run_call E (LatestContextToken cid) s = snd (latest_context_token E cid s)"
| "run_call E (MarkOutboxPublished eid at) s = snd (mark_outbox_published eid at s)"
| "run_call E (MarkOutboxProcessed eid at) s = snd (mark_outbox_processed eid at s)"

inductive conv_step :: "env \<Rightarrow> conv_state \<Rightarrow> conv_state \<Rightarrow> bool" for E where
  call: "conv_step E s (run_call E c s)"

inductive_cases conv_stepE: "conv_step E s s'"

definition reachable :: "env \<Rightarrow> conv_state \<Rightarrow> bool" where
  "reachable E s \<longleftrightarrow> (conv_step E)\<^sup>*\<^sup>* empty_conv_state s"

primrec run_calls :: "env \<Rightarrow> conv_call list \<Rightarrow> conv_state \<Rightarrow> conv_state" where
  "run_calls E [] s = s"
| "run_calls E (c # cs) s = run_calls E cs (run_call E c s)"

lemma run_calls_steps: "(conv_step E)\<^sup>*\<^sup>* s (run_calls E cs s)"
  by (induction cs arbitrary: s) (auto intro: converse_rtranclp_into_rtranclp conv_step.call)

lemma run_calls_reachable: "reachable E (run_calls E cs empty_conv_state)"
  by (simp add: reachable_def run_calls_steps)

section \<open>Every call keeps the state consistent and moves it along its machines\<close>

lemma wp_snd: "wp m (\<lambda>_. P) (\<lambda>_. P) s \<Longrightarrow> P (snd (m s))"
  by (auto simp: wp_def split: sum.splits prod.splits)

lemma wp_weaken:
  assumes "wp m Q X s" "\<And>x t. Q x t \<Longrightarrow> P t" "\<And>e t. X e t \<Longrightarrow> P t"
  shows "P (snd (m s))"
  by (rule wp_snd [OF wp_mono [OF assms]])

lemma tracked_commit_reply:
  assumes T: "tracked s0 s"
  shows "tracked s0 (snd (commit_reply E tid segs reason s))"
proof (cases "1 \<le> length segs \<and> length segs \<le> 3")
  case True
  show ?thesis by (rule wp_weaken [OF wp_commit_reply [OF T True]]) simp_all
next
  case False
  then show ?thesis using T by (auto simp: commit_reply_def raise_run)
qed

lemma tracked_commit_recovery_reply:
  assumes T: "tracked s0 s"
  shows "tracked s0 (snd (commit_recovery_reply E tid segs reason s))"
proof (cases "1 \<le> length segs \<and> length segs \<le> 3")
  case True
  show ?thesis by (rule wp_weaken [OF wp_commit_recovery_reply [OF T True]]) simp_all
next
  case False
  then show ?thesis using T by (auto simp: commit_recovery_reply_def raise_run)
qed

lemma tracked_commit_no_reply:
  assumes T: "tracked s0 s"
  shows "tracked s0 (snd (commit_no_reply E tid reason s))"
proof (cases "reason \<in> {''intentional_no_reply'', ''media_resolution_failed''}")
  case True
  show ?thesis by (rule wp_weaken [OF wp_commit_no_reply [OF T True]]) simp_all
next
  case False
  then show ?thesis using T by (simp add: commit_no_reply_def raise_run)
qed

lemma wp_interrupt_active:
  assumes T: "tracked s0 s"
  shows "wp (interrupt_active_interactive_turns E cid reason)
    (\<lambda>ts s'. tracked s0 s' \<and> ts = active_interactive_turns s cid \<and>
       supersedes (set (map turn_id ts)) s s' \<and> active_interactive_turns s' cid = [])
    (\<lambda>e s'. s' = s \<and> get_conversation s cid = None) s"
proof (cases "get_conversation s cid")
  case None
  then show ?thesis by (simp add: interrupt_active_interactive_turns_def wp_simps)
next
  case (Some c)
  have ok: "conv_ok s" by (rule tracked_ok [OF T])
  let ?ts = "active_interactive_turns s cid"
  have cur: "\<forall>t\<in>set ?ts. get_turn s (turn_id t) = Some t \<and> dispo s (turn_id t) \<in> {None, Some PendingAsyncReply}"
    using active_turns_iff [OF ok] active_dispo by blast
  have "wp (interrupt_turns E ?ts reason)
    (\<lambda>ts s'. tracked s0 s' \<and> ts = ?ts \<and>
       supersedes (set (map turn_id ts)) s s' \<and> active_interactive_turns s' cid = [])
    (\<lambda>e s'. s' = s \<and> get_conversation s cid = None) s"
    by (rule wp_mono [OF wp_interrupt_turns [OF T active_turns_distinct [OF ok] cur]])
      (use active_none_after [OF tracked_ok _ ok] in auto)
  then show ?thesis using Some by (simp add: interrupt_active_interactive_turns_def wp_simps)
qed

lemma tracked_latest_context_token:
  "tracked s0 s \<Longrightarrow> tracked s0 (snd (latest_context_token E cid s))"
  by (auto simp: latest_context_token_def latest_context_token_observation_def require_conversation_def
      py_run Let_def split: option.splits)

theorem tracked_run_call:
  assumes T: "tracked s0 s"
  shows "tracked s0 (run_call E c s)"
proof (cases c)
  case (RecordInbound a ch ev body payload trace media)
  then show ?thesis by simp (rule wp_weaken [OF wp_record_inbound [OF T]], simp_all)
next
  case (StartTurn cid trig ttype md)
  then show ?thesis by simp (rule wp_weaken [OF wp_start_turn [OF T]], simp_all)
next
  case (MarkPendingAsyncReply tid reason)
  then show ?thesis by simp (rule wp_weaken [OF wp_mark_pending [OF T]], simp_all)
next
  case (MarkFailed tid reason)
  then show ?thesis by simp (rule wp_weaken [OF wp_mark_failed [OF T]], simp_all add: T)
next
  case (MarkSuperseded tid reason)
  then show ?thesis by simp (rule wp_weaken [OF wp_mark_superseded [OF T]], simp_all add: T)
next
  case (InterruptActive cid reason)
  then show ?thesis by simp (rule wp_weaken [OF wp_interrupt_active [OF T]], simp_all add: T)
next
  case (GuardStateChange tid)
  then show ?thesis by simp (rule wp_weaken [OF wp_guard_state_change [OF T]], simp_all add: T)
next
  case (ResolveInboundMedia mid body us)
  then show ?thesis by simp (rule wp_snd [OF wp_resolve_inbound_media [OF T]])
next
  case (RecordOutboundMessage tid body k payload)
  then show ?thesis by simp (rule wp_snd [OF wp_record_outbound_message [OF T]])
next
  case (EnqueueRenderTurn topic key payload trace)
  then show ?thesis by simp (rule wp_snd [OF wp_enqueue_render_turn [OF T]])
next
  case (MarkOutboxPublished eid at)
  then show ?thesis by simp (rule wp_snd [OF wp_mark_outbox(1) [OF T]])
next
  case (MarkOutboxProcessed eid at)
  then show ?thesis by simp (rule wp_snd [OF wp_mark_outbox(2) [OF T]])
qed (use T in \<open>simp_all add: tracked_commit_reply tracked_commit_recovery_reply tracked_commit_no_reply
      tracked_latest_context_token\<close>)

lemma tracked_steps:
  assumes "(conv_step E)\<^sup>*\<^sup>* s s'" and "tracked s0 s"
  shows "tracked s0 s'"
  using assms by (induction rule: rtranclp_induct) (auto elim!: conv_stepE intro: tracked_run_call)

lemma reachable_ok: "reachable E s \<Longrightarrow> conv_ok s"
  unfolding reachable_def
  using tracked_steps tracked_ok tracked_refl [OF conv_ok_empty] by blast

lemma steps_evolve: "(conv_step E)\<^sup>*\<^sup>* s s' \<Longrightarrow> conv_ok s \<Longrightarrow> evolves s s'"
  using tracked_steps [of E s s' s] tracked_refl by (auto simp: tracked_def)

end
