(* ===== verification/ConvProperties.thy ===== *)
theory ConvProperties
  imports ConvRuntime
begin

text \<open>
  The properties of the conversation runtime, each with a concrete run of the code on which its
  hypotheses hold.
\<close>

section \<open>Auxiliary facts\<close>

lemma sort_key_fst:
  fixes f :: "'a \<Rightarrow> int" and g :: "'a \<Rightarrow> string"
  shows "sorted (map f (sort_key (\<lambda>x. (f x, g x)) xs))"
proof -
  have "sorted (map fst ps)" if "sorted (ps :: (int \<times> string) list)" for ps
    using that by (induction ps) (auto simp: less_eq_prod_def)
  from this [OF sorted_sort_key [of "\<lambda>x. (f x, g x)" xs]] show ?thesis by (simp add: comp_def)
qed

lemma message_values:
  assumes "conv_ok s"
  shows "m \<in> set (dvalues (messages_by_id s)) \<longleftrightarrow> get_message s (msg_id m) = Some m"
    and "distinct (map msg_id (dvalues (messages_by_id s)))"
proof -
  have k: "keyed msg_id (messages_by_id s)"
    using conv_okD(1) [OF assms] by (simp add: index_ok_def)
  show "m \<in> set (dvalues (messages_by_id s)) \<longleftrightarrow> get_message s (msg_id m) = Some m"
    using keyed_values [OF k] by (simp add: get_message_def)
  show "distinct (map msg_id (dvalues (messages_by_id s)))" by (rule keyed_distinct [OF k])
qed

text \<open>A list with distinct keys that take each value between two bounds once, sorted by them.\<close>

lemma upto_of_sorted:
  assumes "sorted xs" "distinct xs" "set xs = {from..to}"
  shows "xs = [from..to :: int]"
  by (rule sorted_distinct_set_unique) (use assms in simp_all)

lemma window_seqs:
  assumes ok: "conv_ok s" and c: "get_conversation s cid = Some c"
    and w: "1 \<le> from" "to \<le> latest_inbound_seq c"
  shows "map msg_seq (inbound_messages_for_window s cid from to) = map Some [from..to]"
proof -
  let ?L = "inbound_messages_for_window s cid from to"
  let ?F = "filter (inbound_in_window cid from to) (dvalues (messages_by_id s))"
  have seq: "seq_ok s" by (rule conv_okD(2) [OF ok])
  have L: "m \<in> set ?L \<longleftrightarrow> (\<exists>n. inbound_at s cid n m \<and> from \<le> n \<and> n \<le> to)" for m
    using message_values(1) [OF ok, of m]
    by (auto simp: inbound_messages_for_window_def inbound_in_window_def inbound_at_def split: option.splits)
  have some: "msg_seq m = Some (msg_seq_or_zero m)" if "m \<in> set ?L" for m
    using that by (auto simp: L inbound_at_def msg_seq_or_zero_def)
  have sset: "set (map msg_seq_or_zero ?L) = {from..to}"
  proof (intro set_eqI iffI)
    fix n
    assume n: "n \<in> {from..to}"
    then obtain m where "inbound_at s cid n m" using seq_ok_full [OF seq c, of n] w by auto
    with n show "n \<in> set (map msg_seq_or_zero ?L)"
      using L [of m] by (force simp: inbound_at_def msg_seq_or_zero_def)
  qed (auto simp: L inbound_at_def msg_seq_or_zero_def)
  have "distinct (map msg_id ?L)"
    unfolding inbound_messages_for_window_def
    by (rule distinct_map_sort_filter [OF message_values(2) [OF ok]])
  then have d: "distinct ?L" by (simp add: distinct_map)
  have "inj_on msg_seq_or_zero (set ?L)"
  proof (rule inj_onI)
    fix m m'
    assume m: "m \<in> set ?L" "m' \<in> set ?L" and eq: "msg_seq_or_zero m = msg_seq_or_zero m'"
    then have "inbound_at s cid (msg_seq_or_zero m) m" "inbound_at s cid (msg_seq_or_zero m) m'"
      by (auto simp: L inbound_at_def msg_seq_or_zero_def)
    then have "msg_id m = msg_id m'" by (rule seq_ok_unique [OF seq])
    then show "m = m'" using \<open>distinct (map msg_id ?L)\<close> m by (simp add: distinct_map inj_on_def)
  qed
  with d have "distinct (map msg_seq_or_zero ?L)" by (simp add: distinct_map)
  moreover have "sorted (map msg_seq_or_zero ?L)"
    unfolding inbound_messages_for_window_def by (rule sort_key_fst)
  ultimately have u: "map msg_seq_or_zero ?L = [from..to]" using upto_of_sorted sset by blast
  have "map msg_seq ?L = map (\<lambda>m. Some (msg_seq_or_zero m)) ?L" by (simp add: some)
  also have "\<dots> = map Some (map msg_seq_or_zero ?L)" by simp
  finally show ?thesis by (simp only: u)
qed

lemma input_messages_seqs:
  assumes "map msg_seq (inbound_messages_for_window s cid from to) = map Some ns"
  shows "map cim_seq (input_messages_for_window s cid from to) = ns"
proof -
  have "map cim_seq (List.map_filter (\<lambda>m. map_option (current_input m) (msg_seq m)) ms) = ns"
    if "map msg_seq ms = map Some ns" for ms ns
    using that by (induction ms arbitrary: ns)
      (auto simp: List.map_filter_simps current_input_def split: option.splits)
  then show ?thesis using assms by (simp add: input_messages_for_window_def)
qed

lemma reply_of_texts: "map msg_text (reply_of E s t extra segs) = map Some segs"
  unfolding reply_of_def
proof -
  have "map msg_text (reply_messages E t now extra n (enumerate k segs)) = map Some segs" for now n k
    by (induction segs arbitrary: n k) simp_all
  then show "map msg_text (reply_messages E t (env_now E (clock s)) extra (issued s) (enumerate 1 segs)) =
      map Some segs" .
qed

lemma stale_not_closable:
  assumes ok: "conv_ok s" and t: "get_turn s tid = Some t" and d: "dispo s tid = None"
    and b: "input_to_seq t = Some b"
    and stale: "b \<le> ledger_closed (ledger s (turn_conversation_id t)) \<or>
      b < ledger_latest (ledger s (turn_conversation_id t))"
  shows "\<not> closable s t c"
proof
  assume cl: "closable s t c"
  have tid: "turn_id t = tid" by (rule get_turn_id [OF ok t])
  obtain x where x: "get_conversation s (turn_conversation_id t) = Some x" "window_ok t (latest_inbound_seq x)"
    by (rule turn_conversation [OF ok t])
  then obtain a where a: "input_from_seq t = Some a" "a \<le> b"
    using b by (auto simp: window_ok_def split: option.splits)
  from cl a b d tid have c: "get_conversation s (turn_conversation_id t) = Some c"
    "last_closed_inbound_seq c = a - 1" "latest_inbound_seq c = b"
    by (auto simp: closable_def)
  with stale a show False by (simp add: ledger_def ledger_closed_def ledger_latest_def)
qed

section \<open>A concrete run\<close>

text \<open>Two messages arrive, a turn over both is started and answered in two segments.\<close>

definition demo_prefix :: "conv_call list" where
  "demo_prefix =
     [RecordInbound ''acct'' ''chan'' ''ev1'' (Some ''hi'') [] ''tp'' [],
      RecordInbound ''acct'' ''chan'' ''ev2'' (Some ''there'') [] ''tp'' [],
      StartTurn ''0'' ''inbound:ev2'' ''InboundTurn'' ''interactive'']"

definition demo_open :: conv_state where
  "demo_open = run_calls (demo_env 0) demo_prefix empty_conv_state"

definition demo_turn :: string where
  "demo_turn = ''5''"

definition demo_closed :: conv_state where
  "demo_closed = run_call (demo_env 0) (CommitReply demo_turn [''hello'', ''world''] ''ok'') demo_open"

lemma demo_reachable: "reachable (demo_env 0) demo_open"
  unfolding demo_open_def by (rule run_calls_reachable)

lemma demo_steps: "(conv_step (demo_env 0))\<^sup>*\<^sup>* demo_open demo_closed"
  unfolding demo_closed_def by (rule r_into_rtranclp, rule conv_step.call)

lemma demo_closed_reachable: "reachable (demo_env 0) demo_closed"
  using demo_reachable demo_steps unfolding reachable_def by (rule rtranclp_trans)

lemma demo_turn_exists: "get_turn demo_open demo_turn \<noteq> None"
  by code_simp

lemma demo_dispo: "dispo demo_open demo_turn = None"
  by code_simp

text \<open>
  Other points of the run: before the turn is started; after a second turn over the same window has
  closed it, which leaves the first one stale; after the stale one was refused; and after a third
  message.
\<close>

definition demo_before_start :: conv_state where
  "demo_before_start = run_calls (demo_env 0)
     [RecordInbound ''acct'' ''chan'' ''ev1'' (Some ''hi'') [] ''tp'' [],
      RecordInbound ''acct'' ''chan'' ''ev2'' (Some ''there'') [] ''tp'' []] empty_conv_state"

definition demo_stale :: conv_state where
  "demo_stale = run_calls (demo_env 0)
     [StartTurn ''0'' ''other'' ''InboundTurn'' ''interactive'',
      CommitReply ''6'' [''hello''] ''ok''] demo_open"

definition demo_refused :: conv_state where
  "demo_refused = run_call (demo_env 0) (CommitReply demo_turn [''hello''] ''ok'') demo_stale"

definition demo_next :: conv_state where
  "demo_next = run_call (demo_env 0) (RecordInbound ''acct'' ''chan'' ''ev3'' None [] ''tp'' []) demo_closed"

lemma reachable_run_calls: "reachable E s \<Longrightarrow> reachable E (run_calls E cs s)"
  using run_calls_steps unfolding reachable_def by (rule rtranclp_trans [rotated])

lemma reachable_run_call: "reachable E s \<Longrightarrow> reachable E (run_call E c s)"
  using reachable_run_calls [of E s "[c]"] by simp

lemma demo_stale_reachable: "reachable (demo_env 0) demo_stale"
  unfolding demo_stale_def by (rule reachable_run_calls [OF demo_reachable])

lemma demo_next_reachable: "reachable (demo_env 0) demo_next"
  unfolding demo_next_def by (rule reachable_run_call [OF demo_closed_reachable])

lemma demo_before_start_reachable: "reachable (demo_env 0) demo_before_start"
  unfolding demo_before_start_def by (rule run_calls_reachable)

lemma option_obtain: "map_option f x = Some y \<Longrightarrow> \<exists>z. x = Some z \<and> f z = y"
  by (cases x) auto

lemma returns_run: "\<not> isl (fst p) \<Longrightarrow> \<exists>r. p = (Inr r, snd p)"
  by (cases p; cases "fst p") auto

lemma demo_commit:
  "\<exists>d. commit_reply (demo_env 0) demo_turn [''hello'', ''world''] ''ok'' demo_open = (Inr d, demo_closed)"
proof -
  have "\<not> isl (fst (commit_reply (demo_env 0) demo_turn [''hello'', ''world''] ''ok'' demo_open))"
    by code_simp
  from returns_run [OF this] show ?thesis by (simp add: demo_closed_def)
qed

lemma demo_start:
  "\<exists>r. start_turn (demo_env 0) ''0'' ''inbound:ev2'' ''InboundTurn'' ''interactive'' demo_before_start =
     (Inr r, demo_open)"
proof -
  have "\<not> isl (fst (start_turn (demo_env 0) ''0'' ''inbound:ev2'' ''InboundTurn'' ''interactive'' demo_before_start))"
    by code_simp
  from returns_run [OF this] show ?thesis
    by (simp add: demo_open_def demo_prefix_def demo_before_start_def)
qed

section \<open>Properties\<close>

text \<open>
  C1. In every state the service can reach, by any sequence of calls that return or raise, the
  indexes agree with the dictionaries, inbound sequence numbers are dense and unique, windows lie
  inside them, and a turn is completed exactly when its disposition is terminal.
\<close>

theorem conversation_invariant: "reachable E s \<Longrightarrow> conv_ok s"
  by (rule reachable_ok)

theorem conversation_invariant_witness: "conv_ok demo_open"
  by (rule conversation_invariant [OF demo_reachable])

text \<open>
  C2. Between any two states of a run, every turn's disposition has moved along \<open>disp_step\<close> and every
  conversation's ledger along \<open>ledger_step\<close>: messages count up by one, a close moves the closed
  mark to the latest message, and nothing else happens to either. The detailed service refines the
  two abstract machines.
\<close>

theorem runs_refine_machines:
  assumes "reachable E s" and "(conv_step E)\<^sup>*\<^sup>* s s'"
  shows "disp_step\<^sup>*\<^sup>* (dispo s tid) (dispo s' tid) \<and> ledger_step\<^sup>*\<^sup>* (ledger s cid) (ledger s' cid)"
  using evolvesD [OF steps_evolve [OF assms(2) reachable_ok [OF assms(1)]]] by blast

theorem runs_refine_machines_witness:
  "disp_step\<^sup>*\<^sup>* (dispo demo_open demo_turn) (dispo demo_closed demo_turn) \<and>
   ledger_step\<^sup>*\<^sup>* (ledger demo_open ''0'') (ledger demo_closed ''0'')"
  by (rule runs_refine_machines [OF demo_reachable demo_steps])

text \<open>
  C3. A terminal disposition is final: no later call, of any method, changes it.
\<close>

theorem terminal_disposition_is_final:
  assumes "reachable E s" and "terminal_disp (dispo s tid)" and "(conv_step E)\<^sup>*\<^sup>* s s'"
  shows "dispo s' tid = dispo s tid"
  by (rule disp.final_stays [OF evolvesD(1) [OF steps_evolve [OF assms(3) reachable_ok [OF assms(1)]]] assms(2)])

theorem terminal_disposition_is_final_witness:
  "dispo (run_call (demo_env 0) (MarkFailed demo_turn ''late'') demo_closed) demo_turn = dispo demo_closed demo_turn"
proof (rule terminal_disposition_is_final [OF demo_closed_reachable])
  show "terminal_disp (dispo demo_closed demo_turn)" by code_simp
  show "(conv_step (demo_env 0))\<^sup>*\<^sup>* demo_closed (run_call (demo_env 0) (MarkFailed demo_turn ''late'') demo_closed)"
    by (rule r_into_rtranclp, rule conv_step.call)
qed

text \<open>
  C4. A reply that returns on a turn already replied to leaves everything as it is and returns the
  recorded disposition. On any other turn it closes exactly that turn: it was closable (its window
  was open, or it is a deferred turn whose window was already closed up to its end, and no newer
  message had arrived), the turn gets the one disposition \<open>Replied\<close> with the reason given and is
  completed, its conversation, if the turn has an input window, is closed up to its latest message,
  the one to three segments are appended as outbound messages in order, and every other turn,
  disposition and conversation, every message before, the inbound media and the outbox are as they
  were.
\<close>

theorem commit_reply_closes:
  assumes "reachable E s" and "get_turn s tid = Some t"
    and "commit_reply E tid segs reason s = (Inr d, s')"
  shows "1 \<le> length segs \<and> length segs \<le> 3 \<and> get_disposition s' tid = Some d \<and>
    (if dispo s tid = Some Replied then s' = s
     else (\<exists>c. closable s t c) \<and> closes t Replied (reply_of E s t [] segs) s s' \<and>
       reason_code d = Some reason \<and> map msg_text (reply_of E s t [] segs) = map Some segs)"
proof -
  have ok: "conv_ok s" by (rule reachable_ok [OF assms(1)])
  have n: "1 \<le> length segs \<and> length segs \<le> 3"
    using assms(3) by (auto simp: commit_reply_def py_run split: if_splits)
  have "commit_spec E tid Replied [] segs reason s (Inr d) s'"
    using wp_InrD [OF wp_commit_reply [OF tracked_refl [OF ok] n] assms(3)] by simp
  then show ?thesis
    using n assms(2) get_turn_id [OF ok assms(2)]
    by (auto simp: commit_spec_def commit_done_def reply_of_texts split: if_splits)
qed

theorem commit_reply_closes_witness:
  "\<exists>t d. commit_reply (demo_env 0) demo_turn [''hello'', ''world''] ''ok'' demo_open = (Inr d, demo_closed) \<and>
     closes t Replied (reply_of (demo_env 0) demo_open t [] [''hello'', ''world'']) demo_open demo_closed"
proof -
  obtain t where t: "get_turn demo_open demo_turn = Some t"
    using demo_turn_exists by auto
  obtain d where d: "commit_reply (demo_env 0) demo_turn [''hello'', ''world''] ''ok'' demo_open = (Inr d, demo_closed)"
    using demo_commit by blast
  show ?thesis
    using commit_reply_closes [OF demo_reachable t d] d demo_dispo by auto
qed

text \<open>
  C5. A stale turn never replies: a turn that was never deferred and whose window ends before the
  latest message, or inside the part already closed, is refused with \<open>turn_superseded\<close>, is recorded
  as superseded, and writes no message.
\<close>

theorem stale_reply_refused:
  assumes "reachable E s" and "get_turn s tid = Some t" and "dispo s tid = None"
    and "input_to_seq t = Some b"
    and "b \<le> ledger_closed (ledger s (turn_conversation_id t)) \<or> b < ledger_latest (ledger s (turn_conversation_id t))"
    and "1 \<le> length segs \<and> length segs \<le> 3"
  shows "\<exists>f s'. commit_reply E tid segs reason s = (Inl (turn_superseded_error f), s') \<and>
    dispo s' tid = Some Superseded \<and> messages_by_id s' = messages_by_id s \<and> ledger s' = ledger s"
proof -
  have ok: "conv_ok s" by (rule reachable_ok [OF assms(1)])
  have tid: "turn_id t = tid" by (rule get_turn_id [OF ok assms(2)])
  have no: "\<not> closable s t c" for c by (rule stale_not_closable [OF ok assms(2-5)])
  obtain r s' where run: "commit_reply E tid segs reason s = (r, s')" by (cases "commit_reply E tid segs reason s")
  have "commit_spec E tid Replied [] segs reason s r s'"
    using wp_commit_reply [OF tracked_refl [OF ok] assms(6), of E tid reason] run
    by (cases r) (auto simp: wp_def)
  then obtain f where "r = Inl (turn_superseded_error f)" "settles t Superseded s s'"
    using assms(2,3) no
    by (auto simp: commit_spec_def may_become_def commit_done_def commit_stopped_def commit_refused_def
        split: sum.splits)
  then show ?thesis using run settles_gets [of t Superseded s s'] tid by (auto simp: ledger_def fun_eq_iff)
qed

theorem stale_reply_refused_witness:
  "\<exists>f s'. commit_reply (demo_env 0) demo_turn [''hello''] ''ok'' demo_stale = (Inl (turn_superseded_error f), s') \<and>
     dispo s' demo_turn = Some Superseded \<and> messages_by_id s' = messages_by_id demo_stale \<and>
     ledger s' = ledger demo_stale"
proof -
  have "map_option (\<lambda>t. (input_to_seq t, turn_conversation_id t)) (get_turn demo_stale demo_turn) =
      Some (Some 2, ''0'')"
    by code_simp
  then obtain t where t: "get_turn demo_stale demo_turn = Some t" "input_to_seq t = Some 2"
      "turn_conversation_id t = ''0''"
    by (auto dest: option_obtain)
  have "ledger_closed (ledger demo_stale ''0'') = 2" and "dispo demo_stale demo_turn = None"
    by code_simp+
  then show ?thesis
    using stale_reply_refused [OF demo_stale_reachable t(1) _ t(2)] t(3) by simp
qed

text \<open>
  A superseded turn is closed to every commit: replying, not replying, recovering, deferring and
  failing all raise, and leave the state as it is.
\<close>

theorem superseded_turn_is_inert:
  assumes "get_turn s tid = Some t" and "get_disposition s tid = Some d" and "disposition d = Superseded"
    and "1 \<le> length segs \<and> length segs \<le> 3" and "reason \<in> {''intentional_no_reply'', ''media_resolution_failed''}"
  shows "\<forall>m \<in> {commit_reply E tid segs reason, commit_no_reply E tid reason, commit_recovery_reply E tid segs reason,
      mark_pending_async_reply E tid reason, mark_failed E tid reason}.
    m s = (Inl (turn_superseded_error [(''turn_id'', PyStr (disp_turn_id d))]), s)"
  using assms
  by (auto simp: commit_reply_def commit_no_reply_def commit_recovery_reply_def mark_pending_async_reply_def
      mark_failed_def require_turn_def unless_already_def ensure_turn_can_transition_def
      turn_superseded_error_def py_run split: if_splits)

theorem superseded_turn_is_inert_witness:
  "\<exists>f. commit_reply (demo_env 0) demo_turn [''hello''] ''intentional_no_reply'' demo_refused =
     (Inl (turn_superseded_error f), demo_refused)"
proof -
  have "get_turn demo_refused demo_turn \<noteq> None"
    and "map_option disposition (get_disposition demo_refused demo_turn) = Some Superseded"
    by code_simp+
  then obtain t d where "get_turn demo_refused demo_turn = Some t" "get_disposition demo_refused demo_turn = Some d"
      "disposition d = Superseded"
    by (auto dest: option_obtain)
  then show ?thesis
    using superseded_turn_is_inert [of demo_refused demo_turn t d "[''hello'']" "''intentional_no_reply''" "demo_env 0"]
    by auto
qed

text \<open>
  C6. Recording an inbound message that succeeds gives it the next sequence number of the account's
  conversation (created on its first message), appends exactly it and its outbox record, supersedes
  and returns exactly the active interactive turns of that conversation, leaving none, and changes
  no other ledger or disposition.
\<close>

theorem record_inbound_correct:
  assumes "reachable E s"
    and "record_inbound E account channel causal body payload trace media s = (Inr r, s')"
  shows "inbound_recorded account s r s'"
  using wp_InrD [OF wp_record_inbound [OF tracked_refl [OF reachable_ok [OF assms(1)]]] assms(2)] by simp

theorem record_inbound_correct_witness:
  "\<exists>r s'. record_inbound (demo_env 0) ''acct'' ''chan'' ''ev3'' None [] ''tp'' [] demo_open = (Inr r, s') \<and>
     inbound_recorded ''acct'' demo_open r s'"
proof -
  have "\<not> isl (fst (record_inbound (demo_env 0) ''acct'' ''chan'' ''ev3'' None [] ''tp'' [] demo_open))"
    by code_simp
  from returns_run [OF this] obtain r s'
    where run: "record_inbound (demo_env 0) ''acct'' ''chan'' ''ev3'' None [] ''tp'' [] demo_open = (Inr r, s')"
    by blast
  show ?thesis using run record_inbound_correct [OF demo_reachable run] by blast
qed

text \<open>
  Starting a turn: a known trigger replays its turn without changing anything, a new one adds an
  open turn; an interactive turn takes the conversation's whole open window, and the messages
  returned are exactly those of the turn's window, by sequence number, in order and without gap.
\<close>

theorem start_turn_correct:
  assumes "reachable E s" and "start_turn E cid trig ttype turn_mode s = (Inr r, s')"
  shows "turn_started s cid trig ttype turn_mode r s' \<and>
    map cim_seq (tsr_input_messages r) =
      (case (input_from_seq (tsr_turn r), input_to_seq (tsr_turn r)) of
         (Some a, Some b) \<Rightarrow> [a..b] | _ \<Rightarrow> [])"
proof -
  have ok: "conv_ok s" by (rule reachable_ok [OF assms(1)])
  have W: "tracked s s' \<and> turn_started s cid trig ttype turn_mode r s'"
    using wp_InrD [OF wp_start_turn [OF tracked_refl [OF ok]] assms(2)] .
  then have st: "turn_started s cid trig ttype turn_mode r s'" by simp
  obtain c' where "get_conversation s' (turn_conversation_id (tsr_turn r)) = Some c'"
      "window_ok (tsr_turn r) (latest_inbound_seq c')"
    using st W turn_conversation [OF tracked_ok [of s s']] by (auto simp: turn_started_def Let_def)
  moreover have "get_conversation s' = get_conversation s"
    using st by (auto simp: turn_started_def Let_def split: if_splits)
  moreover have "turn_conversation_id (tsr_turn r) = cid" "tsr_input_messages r = input_messages_for_turn s (tsr_turn r)"
    using st by (simp_all add: turn_started_def Let_def)
  ultimately have "map cim_seq (tsr_input_messages r) =
      (case (input_from_seq (tsr_turn r), input_to_seq (tsr_turn r)) of
         (Some a, Some b) \<Rightarrow> [a..b] | _ \<Rightarrow> [])"
    using input_messages_seqs [OF window_seqs [OF ok]]
    by (auto simp: input_messages_for_turn_def window_ok_def split: option.splits)
  with st show ?thesis by simp
qed

theorem start_turn_correct_witness:
  "\<exists>r s'. start_turn (demo_env 0) ''0'' ''next'' ''InboundTurn'' ''interactive'' demo_next = (Inr r, s') \<and>
     map cim_seq (tsr_input_messages r) = [3]"
proof -
  let ?m = "start_turn (demo_env 0) ''0'' ''next'' ''InboundTurn'' ''interactive''"
  have "\<not> isl (fst (?m demo_next))" by code_simp
  from returns_run [OF this] obtain r s' where run: "?m demo_next = (Inr r, s')" by blast
  have "(case fst (?m demo_next) of Inl _ \<Rightarrow> None
      | Inr r \<Rightarrow> Some (input_from_seq (tsr_turn r), input_to_seq (tsr_turn r))) = Some (Some 3, Some 3)"
    by code_simp
  then have "input_from_seq (tsr_turn r) = Some 3" "input_to_seq (tsr_turn r) = Some 3" using run by simp_all
  then show ?thesis using run start_turn_correct [OF demo_next_reachable run] by simp
qed

text \<open>
  Starting a turn is idempotent by trigger: after a start has returned, however the conversation
  has gone on, starting again with the same trigger returns the same turn over the same window and
  changes nothing.
\<close>

theorem start_turn_replays:
  assumes "reachable E s" and "start_turn E cid trig ttype turn_mode s = (Inr r, s1)"
    and "(conv_step E)\<^sup>*\<^sup>* s1 s2"
  shows "\<exists>r2. start_turn E cid trig ttype2 turn_mode2 s2 = (Inr r2, s2) \<and> tsr_replayed r2 \<and>
    turn_key (tsr_turn r2) = turn_key (tsr_turn r)"
proof -
  have ok: "conv_ok s" by (rule reachable_ok [OF assms(1)])
  have W: "tracked s s1 \<and> turn_started s cid trig ttype turn_mode r s1"
    using wp_InrD [OF wp_start_turn [OF tracked_refl [OF ok]] assms(2)] .
  then have t: "get_turn s1 (turn_id (tsr_turn r)) = Some (tsr_turn r)" "trigger_id (tsr_turn r) = trig"
      "turn_conversation_id (tsr_turn r) = cid"
    by (auto simp: turn_started_def Let_def)
  have T2: "tracked s1 s2" using tracked_steps [OF assms(3) tracked_refl] W tracked_ok by blast
  then obtain u where u: "get_turn s2 (turn_id (tsr_turn r)) = Some u" "turn_key u = turn_key (tsr_turn r)"
    using evolvesD(3) t(1) by (fastforce simp: tracked_def)
  then have "get_turn_by_trigger_id s2 trig = Some u"
    using get_by_trigger [OF tracked_ok [OF T2], of trig u] turn_key_fields [OF u(2)] t by simp
  then show ?thesis
    using turn_key_fields [OF u(2)] t u by (simp add: start_turn_def py_run)
qed

theorem start_turn_replays_witness:
  "\<exists>r2. start_turn (demo_env 0) ''0'' ''inbound:ev2'' ''x'' ''y'' demo_closed = (Inr r2, demo_closed) \<and>
     tsr_replayed r2"
proof -
  obtain r where r: "start_turn (demo_env 0) ''0'' ''inbound:ev2'' ''InboundTurn'' ''interactive'' demo_before_start =
     (Inr r, demo_open)"
    using demo_start by blast
  show ?thesis using start_turn_replays [OF demo_before_start_reachable r demo_steps] by blast
qed

definition waiting_candidate :: "conv_state \<Rightarrow> datetime \<Rightarrow> turn \<Rightarrow> waiting_reply_candidate option" where
  "waiting_candidate s cutoff t =
     (case get_conversation s (turn_conversation_id t) of
        Some c \<Rightarrow>
          if mode t = ''interactive'' \<and> trigger_type t = ''InboundTurn'' \<and> completed_at t = None \<and>
             dt_key (started_at t) \<le> dt_key cutoff \<and> dispo s (turn_id t) = None \<and>
             input_to_seq t = Some (latest_inbound_seq c)
          then Some \<lparr>wrc_turn_id = turn_id t, wrc_trigger_id = trigger_id t,
                wrc_conversation_id = turn_conversation_id t, wrc_account_id = conv_account_id c,
                wrc_input_to_seq = input_to_seq t\<rparr>
          else None
      | None \<Rightarrow> None)"

text \<open>
  The candidates for a waiting reply, collected in one pass that stops at the limit, are the
  first \<open>limit\<close> of the interactive inbound turns, oldest first, that started before the cutoff, are
  not completed, have no disposition, and whose window ends at the conversation's latest message.
\<close>

theorem waiting_reply_candidates_correct:
  "waiting_reply_candidates s cutoff limit =
     take limit (List.map_filter (waiting_candidate s cutoff) (sort_key turn_order (dvalues (turns_by_id s))))"
proof -
  have "waiting_candidates_from s cutoff n ts = take n (List.map_filter (waiting_candidate s cutoff) ts)" for n ts
    by (induction ts arbitrary: n)
      (auto simp: List.map_filter_simps waiting_candidate_def dispo_def take_Cons' split: option.splits)
  then show ?thesis by (simp add: waiting_reply_candidates_def)
qed

definition double_reply_calls :: "conv_call list" where
  "double_reply_calls =
     [RecordInbound ''acct'' ''chan'' ''ev1'' (Some ''hi'') [] ''tp'' [],
      StartTurn ''0'' ''first'' ''InboundTurn'' ''interactive'',
      MarkPendingAsyncReply ''3'' ''sync_timeout'',
      StartTurn ''0'' ''second'' ''InboundTurn'' ''interactive'',
      CommitReply ''5'' [''from second''] ''ok'',
      CommitReply ''3'' [''from first''] ''ok'']"

definition double_reply_facts where
  "double_reply_facts s =
     (dispo s ''3'', dispo s ''5'', map_option input_to_seq (get_turn s ''3''),
      map_option input_to_seq (get_turn s ''5''),
      map msg_text (outbound_messages_for_turn s ''3''),
      map msg_text (outbound_messages_for_turn s ''5''))"

text \<open>
  The close boundary does not make the reply to a window unique: a turn deferred with
  \<open>pending_async_reply\<close> and a second turn started over the same open window can both reply. The run
  below leaves two turns with the same window of one message, both \<open>Replied\<close>, and two outbound
  messages: the guard takes a window closed by the other turn for the deferred turn's own.
\<close>

theorem double_reply_reachable:
  "let s = run_calls (demo_env 0) double_reply_calls empty_conv_state in
     reachable (demo_env 0) s \<and>
     dispo s ''3'' = Some Replied \<and> dispo s ''5'' = Some Replied \<and>
     map_option input_to_seq (get_turn s ''3'') = Some (Some 1) \<and>
     map_option input_to_seq (get_turn s ''5'') = Some (Some 1) \<and>
     map msg_text (outbound_messages_for_turn s ''3'') = [Some ''from first''] \<and>
     map msg_text (outbound_messages_for_turn s ''5'') = [Some ''from second'']"
proof -
  have "double_reply_facts (run_calls (demo_env 0) double_reply_calls empty_conv_state) =
      (Some Replied, Some Replied, Some (Some 1), Some (Some 1), [Some ''from first''], [Some ''from second''])"
    by code_simp
  then show ?thesis unfolding Let_def using run_calls_reachable by (simp add: double_reply_facts_def)
qed

end
