(* ===== verification/RemTemporal.thy ===== *)
theory RemTemporal
  imports PyDateTime
begin

text \<open>
  What the reminder domain accepts as times: the normalisation of recurrence rules, durations,
  window times and creation requests (\<open>coke/domains/reminder/temporal.py\<close>), and the arithmetic of
  recurrence (\<open>recurrence.py\<close>). Every rejection is an error value.
\<close>

section \<open>Kinds\<close>

datatype reminder_kind = Timed | NoTriggerTime | Recurring | Proactive | SharedProjection

fun kind_name :: "reminder_kind \<Rightarrow> string" where
  "kind_name Timed = ''timed''"
| "kind_name NoTriggerTime = ''no_trigger_time''"
| "kind_name Recurring = ''recurring''"
| "kind_name Proactive = ''proactive''"
| "kind_name SharedProjection = ''shared_projection''"

definition supported_reminder_kinds :: "reminder_kind list" where
  "supported_reminder_kinds = [Timed, NoTriggerTime, Recurring, Proactive, SharedProjection]"

definition kind_of :: "string \<Rightarrow> reminder_kind option" where
  "kind_of s = find (\<lambda>k. kind_name k = s) supported_reminder_kinds"

lemma kind_of_name [simp]: "kind_of (kind_name k) = Some k"
  by (cases k) (simp_all add: kind_of_def supported_reminder_kinds_def)

section \<open>Numbers, windows and rules\<close>

abbreviation temporal_error :: "string \<Rightarrow> pyexn + 'a" where
  "temporal_error code \<equiv> Inl (ReminderTemporalError code)"

definition supported_frequencies :: "string list" where
  "supported_frequencies = [''hourly'', ''daily'', ''weekly'', ''monthly'', ''yearly'']"

definition recurrence_keys :: "string list" where
  "recurrence_keys = [''frequency'', ''interval'', ''window_start'', ''window_end'']"

definition internal_storage_duration_minutes :: int where
  "internal_storage_duration_minutes = 15"

definition positive_int :: "pyval \<Rightarrow> string \<Rightarrow> pyexn + int" where
  "positive_int v code =
     sbind (case v of
        PyInt n \<Rightarrow> Inr n
      | PyStr s \<Rightarrow>
          if py_isdigit (py_strip s)
          then (case py_int (py_strip s) of Some n \<Rightarrow> Inr n | None \<Rightarrow> Inl (ValueError ''invalid literal''))
          else temporal_error code
      | _ \<Rightarrow> temporal_error code) (\<lambda>n.
     if n < 1 then temporal_error code else Inr n)"

definition positive_duration_minutes :: "pyval \<Rightarrow> pyexn + int" where
  "positive_duration_minutes v = positive_int v ''invalid_duration_minutes''"

text \<open>\<open>value.split(":", 1)\<close> unpacked into two names: none without a colon.\<close>

definition split_colon :: "string \<Rightarrow> (string \<times> string) option" where
  "split_colon s =
     (case dropWhile (\<lambda>c. c \<noteq> CHR '':'') s of
        [] \<Rightarrow> None
      | _ # rest \<Rightarrow> Some (takeWhile (\<lambda>c. c \<noteq> CHR '':'') s, rest))"

definition hhmm :: "int \<Rightarrow> int \<Rightarrow> string" where
  "hhmm h m = pad 2 h @ '':'' @ pad 2 m"

definition canonical_window_time :: "pyval \<Rightarrow> pyexn + string" where
  "canonical_window_time v =
     (case v of
        PyTime t \<Rightarrow> Inr (hhmm (time_of t div hour_us) (time_of t div minute_us mod 60))
      | PyStr s \<Rightarrow>
          (case split_colon s of
             None \<Rightarrow> temporal_error ''invalid_recurrence_rule''
           | Some (hour, minute) \<Rightarrow>
               (case (py_int hour, py_int minute) of
                  (Some h, Some m) \<Rightarrow>
                    if 0 \<le> h \<and> h \<le> 23 \<and> 0 \<le> m \<and> m \<le> 59 then Inr (hhmm h m)
                    else temporal_error ''invalid_recurrence_rule''
                | _ \<Rightarrow> temporal_error ''invalid_recurrence_rule''))
      | _ \<Rightarrow> temporal_error ''invalid_recurrence_rule'')"

definition canonical_window :: "fact \<Rightarrow> string \<Rightarrow> pyexn + fact" where
  "canonical_window d key =
     (case dget d key of
        None \<Rightarrow> Inr []
      | Some v \<Rightarrow> sbind (canonical_window_time v) (\<lambda>w. Inr [(key, PyStr w)]))"

definition canonical_recurrence_rule :: "pyval \<Rightarrow> pyexn + fact" where
  "canonical_recurrence_rule v =
     (case v of
        PyDict d \<Rightarrow>
          if d = [] then Inr []
          else if \<not> list_all (\<lambda>p. fst p \<in> set recurrence_keys) d
          then temporal_error ''invalid_recurrence_rule''
          else
            (case dget d ''frequency'' of
               Some (PyStr f) \<Rightarrow>
                 let frequency = py_lower (py_strip f) in
                 if frequency \<notin> set supported_frequencies
                 then temporal_error ''invalid_recurrence_rule''
                 else
                   sbind (positive_int
                     (case dget d ''interval'' of None \<Rightarrow> PyInt 1 | Some i \<Rightarrow> i)
                     ''invalid_recurrence_rule'') (\<lambda>interval.
                   sbind (canonical_window d ''window_start'') (\<lambda>ws.
                   sbind (canonical_window d ''window_end'') (\<lambda>we.
                   Inr ([(''frequency'', PyStr frequency), (''interval'', PyInt interval)] @ ws @ we))))
             | _ \<Rightarrow> temporal_error ''invalid_recurrence_rule'')
      | _ \<Rightarrow> temporal_error ''invalid_recurrence_rule'')"

section \<open>Creation requests\<close>

record temporal_fields =
  tf_kind :: reminder_kind
  tf_trigger_time :: "datetime option"
  tf_recurrence_rule :: fact
  tf_duration_minutes :: int

definition resolve_create_kind ::
  "string option \<Rightarrow> datetime option \<Rightarrow> fact \<Rightarrow> pyexn + reminder_kind" where
  "resolve_create_kind kind trigger rule =
     (case kind of
        Some k \<Rightarrow>
          (case kind_of k of
             None \<Rightarrow> temporal_error ''invalid_reminder_kind''
           | Some r \<Rightarrow> Inr r)
      | None \<Rightarrow>
          if rule \<noteq> [] then Inr Recurring
          else if trigger = None then Inr NoTriggerTime
          else Inr Timed)"

definition calendar_visible_create :: "reminder_kind \<Rightarrow> datetime option \<Rightarrow> bool" where
  "calendar_visible_create kind trigger \<longleftrightarrow> kind \<notin> {NoTriggerTime, Proactive} \<and> trigger \<noteq> None"

definition check_create_kind :: "reminder_kind \<Rightarrow> datetime option \<Rightarrow> fact \<Rightarrow> pyexn + unit" where
  "check_create_kind kind trigger rule =
     (if kind = Recurring \<and> rule = [] then temporal_error ''missing_recurrence_rule''
      else if kind = Recurring \<and> trigger = None then temporal_error ''missing_recurring_trigger_time''
      else if kind \<noteq> Recurring \<and> rule \<noteq> [] then temporal_error ''invalid_recurrence_rule''
      else if kind = Timed \<and> trigger = None then temporal_error ''missing_trigger_time''
      else if kind = NoTriggerTime \<and> trigger \<noteq> None then temporal_error ''invalid_trigger_time''
      else Inr ())"

definition storage_duration :: "bool \<Rightarrow> int option \<Rightarrow> pyexn + int" where
  "storage_duration visible parsed =
     (case parsed of
        Some d \<Rightarrow> Inr d
      | None \<Rightarrow>
          if visible then temporal_error ''missing_duration_minutes''
          else Inr internal_storage_duration_minutes)"

definition normalize_create_temporal ::
  "datetime option \<Rightarrow> pyval \<Rightarrow> pyval option \<Rightarrow> string option \<Rightarrow> pyexn + temporal_fields" where
  "normalize_create_temporal trigger rule duration kind =
     sbind (canonical_recurrence_rule rule) (\<lambda>canonical_rule.
     sbind (resolve_create_kind kind trigger canonical_rule) (\<lambda>resolved.
     sbind (check_create_kind resolved trigger canonical_rule) (\<lambda>_.
     sbind (case duration of
              None \<Rightarrow> Inr None
            | Some v \<Rightarrow> sbind (positive_duration_minutes v) (\<lambda>n. Inr (Some n))) (\<lambda>parsed.
     sbind (storage_duration (calendar_visible_create resolved trigger) parsed) (\<lambda>minutes.
     Inr \<lparr>tf_kind = resolved, tf_trigger_time = trigger, tf_recurrence_rule = canonical_rule,
          tf_duration_minutes = minutes\<rparr>)))))"

text \<open>\<open>except ZoneInfoNotFoundError\<close> around \<open>ZoneInfo(key)\<close>; other errors of it pass.\<close>

definition zone_or :: "env \<Rightarrow> string \<Rightarrow> (pyexn + 'a) \<Rightarrow> (zone \<Rightarrow> pyexn + 'a) \<Rightarrow> pyexn + 'a" where
  "zone_or E key missing f =
     (case env_zone E key of
        Inr z \<Rightarrow> f z
      | Inl e \<Rightarrow> if e = ZoneInfoNotFoundError then missing else Inl e)"

definition trigger_time_to_utc :: "env \<Rightarrow> datetime option \<Rightarrow> string \<Rightarrow> pyexn + datetime option" where
  "trigger_time_to_utc E trigger captured =
     (case trigger of
        None \<Rightarrow> Inr None
      | Some d \<Rightarrow>
          zone_or E captured (temporal_error ''invalid_captured_timezone'') (\<lambda>z.
            sbind (case d of Naive w \<Rightarrow> utc_of z (w, False) | Aware u off \<Rightarrow> to_utc E d) (\<lambda>t.
            Inr (Some t))))"

section \<open>Recurrence\<close>

text \<open>
  \<open>date.replace\<close> with a year or month out of range: \<open>OverflowError\<close> when the year does not fit a C
  int, \<open>ValueError\<close> when the date does not exist.
\<close>

definition replace_date :: "int \<Rightarrow> int \<Rightarrow> int \<Rightarrow> int \<Rightarrow> pyexn + int" where
  "replace_date y m d t = (if 2 ^ 31 \<le> y then Inl OverflowError else make_wall y m d t)"

definition add_wall :: "int \<Rightarrow> int \<Rightarrow> pyexn + local_dt" where
  "add_wall w n = (if wall_ok (w + n) then Inr (w + n, False) else Inl OverflowError)"

definition add_interval :: "local_dt \<Rightarrow> string \<Rightarrow> int \<Rightarrow> pyexn + local_dt" where
  "add_interval l frequency interval =
     (case l of (w, f) \<Rightarrow>
        if frequency = ''hourly'' then add_wall w (interval * hour_us)
        else if frequency = ''daily'' then add_wall w (interval * day_us)
        else if frequency = ''weekly'' then add_wall w (interval * (7 * day_us))
        else
          (case date_of w of (y, m, d) \<Rightarrow>
             if frequency = ''monthly'' then
               let month_index = m - 1 + interval in
               sbind (replace_date (y + month_index div 12) (month_index mod 12 + 1) d (time_of w)) (\<lambda>v.
               Inr (v, f))
             else if frequency = ''yearly'' then
               sbind (replace_date (y + interval) m d (time_of w)) (\<lambda>v. Inr (v, f))
             else Inl (ValueError ''unsupported_recurrence_frequency'')))"

definition rule_time :: "pyval option \<Rightarrow> int \<Rightarrow> pyexn + int" where
  "rule_time v fallback =
     (case v of
        None \<Rightarrow> Inr fallback
      | Some PyNone \<Rightarrow> Inr fallback
      | Some (PyTime t) \<Rightarrow> Inr (time_of t)
      | Some (PyStr s) \<Rightarrow>
          (case split_colon s of
             None \<Rightarrow> Inl (ValueError ''not enough values to unpack'')
           | Some (hour, minute) \<Rightarrow>
               (case (py_int hour, py_int minute) of
                  (Some h, Some m) \<Rightarrow>
                    if 0 \<le> h \<and> h \<le> 23 \<and> 0 \<le> m \<and> m \<le> 59 then Inr (h * hour_us + m * minute_us)
                    else Inl (ValueError ''hour must be in 0..23'')
                | _ \<Rightarrow> Inl (ValueError ''invalid literal for int()'')))
      | Some _ \<Rightarrow> Inl (ValueError ''invalid_window_time''))"

text \<open>
  An hourly occurrence outside the daily window moves to the window's start on the next day.
\<close>

definition fit_hourly_window :: "local_dt \<Rightarrow> fact \<Rightarrow> pyexn + local_dt" where
  "fit_hourly_window l rule =
     sbind (rule_time (dget rule ''window_start'') (8 * hour_us)) (\<lambda>start.
     sbind (rule_time (dget rule ''window_end'') (23 * hour_us)) (\<lambda>end.
     case l of (w, f) \<Rightarrow>
       if start \<le> time_of w \<and> time_of w \<le> end then Inr l
       else
         let next_day = w - time_of w + day_us in
         if wall_ok next_day then Inr (next_day + start, False) else Inl OverflowError))"

definition next_occurrence_after :: "env \<Rightarrow> fact \<Rightarrow> datetime \<Rightarrow> string \<Rightarrow> pyexn + datetime" where
  "next_occurrence_after E rule previous captured =
     sbind (canonical_recurrence_rule (PyDict rule)) (\<lambda>canonical.
     if canonical = [] then Inl (ValueError ''recurrence_rule_required'')
     else
       (case (dget canonical ''frequency'', dget canonical ''interval'') of
          (Some (PyStr frequency), Some (PyInt interval)) \<Rightarrow>
            sbind (env_zone E captured) (\<lambda>z.
            sbind (to_utc E previous) (\<lambda>t.
            sbind (local_of z (dt_key t)) (\<lambda>local_previous.
            sbind (add_interval local_previous frequency interval) (\<lambda>local_next.
            sbind (if frequency = ''hourly'' then fit_hourly_window local_next canonical
                   else Inr local_next) (\<lambda>fitted.
            utc_of z fitted)))))
        | _ \<Rightarrow> Inl KeyError))"

text \<open>
  The two loops of \<open>occurrences_between\<close>. The first, which skips to the start of the range, has no
  bound: \<open>None\<close> is the run that never ends. The second stops at the limit.
\<close>

partial_function (option) skip_before ::
  "(datetime \<Rightarrow> pyexn + datetime) \<Rightarrow> datetime \<Rightarrow> datetime \<Rightarrow> (pyexn + datetime) option" where
  "skip_before step start current =
     (case dt_lt current start of
        Inl e \<Rightarrow> Some (Inl e)
      | Inr before \<Rightarrow>
          if \<not> before then Some (Inr current)
          else (case step current of
                  Inl e \<Rightarrow> Some (Inl e)
                | Inr later \<Rightarrow> skip_before step start later))"

declare skip_before.simps [code]

fun collect_between ::
  "(datetime \<Rightarrow> pyexn + datetime) \<Rightarrow> datetime \<Rightarrow> datetime \<Rightarrow> nat \<Rightarrow> datetime \<Rightarrow> pyexn + datetime list" where
  "collect_between step start end_at 0 current =
     sbind (dt_le start current) (\<lambda>after.
     if \<not> after then Inr []
     else sbind (dt_le current end_at) (\<lambda>_. Inr []))"
| "collect_between step start end_at (Suc n) current =
     sbind (dt_le start current) (\<lambda>after.
     if \<not> after then Inr []
     else sbind (dt_le current end_at) (\<lambda>before.
       if \<not> before then Inr []
       else sbind (step current) (\<lambda>later.
            sbind (collect_between step start end_at n later) (\<lambda>rest. Inr (current # rest)))))"

definition occurrences_between ::
  "env \<Rightarrow> fact \<Rightarrow> datetime \<Rightarrow> string \<Rightarrow> datetime \<Rightarrow> datetime \<Rightarrow> nat \<Rightarrow>
    (pyexn + datetime list) option" where
  "occurrences_between E rule first captured start end_at limit =
     (let step = (\<lambda>d. next_occurrence_after E rule d captured) in
      case (if limit = 0 then Some (sbind (dt_lt first start) (\<lambda>_. Inr first))
            else skip_before step start first) of
        None \<Rightarrow> None
      | Some (Inl e) \<Rightarrow> Some (Inl e)
      | Some (Inr current) \<Rightarrow> Some (collect_between step start end_at limit current))"

end
