(* ===== verification/RemRepository.thy ===== *)
theory RemRepository
  imports RemTemporal "HOL-Library.Product_Lexorder"
begin

text \<open>
  The reminder domain's data (\<open>coke/domains/reminder/models.py\<close>) and its repository
  (\<open>InMemoryReminderRepository\<close> of \<open>repository.py\<close>): reminders, the fires of their occurrences and
  the outbox, with the duplicate checks and the atomic write of a reminder with its outbox event.
\<close>

section \<open>Data\<close>

datatype lifecycle_state = Active | Completed | Deleted
datatype fire_state = FirePending | FireClaimed | FireCompleted | FireDiscarded
datatype delivery_result = Delivered | Undelivered
datatype item_state = Succeeded | NeedsFollowUp | ItemFailed
datatype time_state = ValidFuture | NeedsPastTimeConfirmation | NeedsIncompleteDateClarification | InvalidTime

fun lifecycle_name :: "lifecycle_state \<Rightarrow> string" where
  "lifecycle_name Active = ''active''"
| "lifecycle_name Completed = ''completed''"
| "lifecycle_name Deleted = ''deleted''"

fun time_state_name :: "time_state \<Rightarrow> string" where
  "time_state_name ValidFuture = ''valid_future''"
| "time_state_name NeedsPastTimeConfirmation = ''needs_past_time_confirmation''"
| "time_state_name NeedsIncompleteDateClarification = ''needs_incomplete_date_clarification''"
| "time_state_name InvalidTime = ''invalid''"

record reminder =
  rem_id :: string
  owner_account_id :: string
  content :: string
  content_hash :: string
  rem_kind :: reminder_kind
  next_fire_at :: "datetime option"
  recurrence_rule :: fact
  captured_timezone :: string
  duration_minutes :: int
  lifecycle :: lifecycle_state
  hidden_from_calendar :: bool
  shared_reminder_id :: "string option"
  rem_created_at :: datetime
  rem_updated_at :: datetime

record reminder_fire =
  fire_id :: string
  fire_reminder_id :: string
  occurrence_key :: string
  due_at :: datetime
  fire_state :: fire_state
  fire_delivery :: "delivery_result option"
  handled_at :: "datetime option"
  fire_completed_at :: "datetime option"
  missed_catch_up :: bool
  fire_created_at :: datetime
  fire_updated_at :: datetime

record fire_render_fact =
  frf_fire_id :: string
  frf_reminder_id :: string
  frf_title :: string
  frf_owner_account_id :: string
  frf_viewer_account_id :: string
  frf_due_at :: string
  frf_local_due_at :: string
  frf_timezone :: string
  frf_duration_minutes :: int
  frf_kind :: reminder_kind
  frf_shared_reminder_id :: "string option"
  frf_participant_names :: "string list"

record batch_item =
  bi_operation :: string
  bi_content :: "string option"
  bi_raw_text :: "string option"
  bi_reminder_id :: "string option"
  bi_trigger_time :: "datetime option"
  bi_captured_timezone :: string
  bi_recurrence_rule :: pyval
  bi_duration_minutes :: "pyval option"
  bi_kind :: "string option"
  bi_entry_point :: "string option"
  bi_time_state :: "time_state option"
  bi_incomplete_date :: bool
  bi_shared_reminder_id :: "string option"
  bi_turn_id :: "string option"
  bi_item_index :: "int option"

record reminder_outbox =
  ro_id :: string
  ro_topic :: string
  ro_idempotency_key :: string
  ro_payload :: fact
  ro_traceparent :: string
  ro_status :: string
  ro_created_at :: datetime
  ro_published_at :: "datetime option"
  ro_processed_at :: "datetime option"
  ro_acked_at :: "datetime option"
  ro_retry_count :: int
  ro_last_error :: "string option"

record item_result =
  ir_state :: item_state
  ir_reminder_id :: "string option"
  ir_reason :: "string option"
  ir_time_state :: "time_state option"
  ir_fact :: fact

record batch_result =
  br_owner_account_id :: string
  br_items :: "item_result list"

record detected_fields =
  df_content :: "string option"
  df_trigger_time :: "datetime option"
  df_recurrence_rule :: fact
  df_duration_minutes :: "pyval option"
  df_kind :: "string option"

record fire_group =
  fg_owner_account_id :: string
  fg_due_at :: datetime
  fg_fire_ids :: "string list"
  fg_trigger_id :: string

record undelivered_resend =
  ur_owner_account_id :: string
  ur_fire_ids :: "string list"
  ur_trigger_id :: string

record nightly_summary =
  ns_owner_account_id :: string
  ns_local_scheduled_at :: datetime
  ns_reminder_ids :: "string list"
  ns_trigger_id :: string

record calendar_entry =
  ce_entry_type :: string
  ce_reminder_id :: "string option"
  ce_fire_id :: "string option"
  ce_display_start :: "datetime option"
  ce_display_end :: "datetime option"
  ce_content :: string
  ce_action_handles :: "string list"
  ce_friend_identifiers :: "string list"
  ce_member_reminder_ids :: "string list"
  ce_fact :: fact

record rem_state = svc +
  reminders_by_id :: "(string, reminder) dict"
  fires_by_id :: "(string, reminder_fire) dict"
  fires_by_occurrence :: "(string \<times> string, reminder_fire) dict"
  rem_outbox_by_id :: "(string, reminder_outbox) dict"
  rem_outbox_by_key :: "(string, reminder_outbox) dict"

definition empty_rem_state :: rem_state where
  "empty_rem_state =
     \<lparr>clock = 0, issued = 0, traced = 0, reminders_by_id = [], fires_by_id = [],
      fires_by_occurrence = [], rem_outbox_by_id = [], rem_outbox_by_key = []\<rparr>"

type_synonym 'a rem = "(rem_state, 'a) py"

abbreviation value_error :: "string \<Rightarrow> 'a rem" where
  "value_error code \<equiv> raise (ValueError code)"

section \<open>Reads\<close>

definition get_reminder :: "rem_state \<Rightarrow> string \<Rightarrow> reminder option" where
  "get_reminder s rid = dget (reminders_by_id s) rid"

definition get_fire :: "rem_state \<Rightarrow> string \<Rightarrow> reminder_fire option" where
  "get_fire s fid = dget (fires_by_id s) fid"

definition get_fire_by_occurrence :: "rem_state \<Rightarrow> string \<Rightarrow> string \<Rightarrow> reminder_fire option" where
  "get_fire_by_occurrence s rid key = dget (fires_by_occurrence s) (rid, key)"

definition get_outbox_by_idempotency_key :: "rem_state \<Rightarrow> string \<Rightarrow> reminder_outbox option" where
  "get_outbox_by_idempotency_key s key = dget (rem_outbox_by_key s) key"

text \<open>
  \<open>sorted(..., key=...)\<close> with a datetime in the key: comparing a naive with an aware datetime raises
  \<open>TypeError\<close>, and a sort of both kinds always compares some such pair.
\<close>

definition py_sorted :: "('a \<Rightarrow> datetime) \<Rightarrow> ('a \<Rightarrow> 'k :: linorder) \<Rightarrow> 'a list \<Rightarrow> pyexn + 'a list" where
  "py_sorted time key xs = (if same_kind (map time xs) then Inr (sort_key key xs) else Inl TypeError)"

definition list_reminders :: "rem_state \<Rightarrow> string \<Rightarrow> pyexn + reminder list" where
  "list_reminders s owner =
     py_sorted rem_created_at (\<lambda>r. (dt_key (rem_created_at r), rem_id r))
       (filter (\<lambda>r. owner_account_id r = owner) (dvalues (reminders_by_id s)))"

definition list_active_reminders :: "rem_state \<Rightarrow> string \<Rightarrow> reminder list" where
  "list_active_reminders s owner =
     filter (\<lambda>r. owner_account_id r = owner \<and> lifecycle r = Active) (dvalues (reminders_by_id s))"

text \<open>Filtering by a comparison that may raise.\<close>

fun filter_sum :: "('a \<Rightarrow> pyexn + bool) \<Rightarrow> 'a list \<Rightarrow> pyexn + 'a list" where
  "filter_sum p [] = Inr []"
| "filter_sum p (x # xs) =
     sbind (p x) (\<lambda>b. sbind (filter_sum p xs) (\<lambda>ys. Inr (if b then x # ys else ys)))"

definition reminder_due :: "datetime \<Rightarrow> reminder \<Rightarrow> pyexn + bool" where
  "reminder_due at r =
     (if lifecycle r \<noteq> Active then Inr False
      else case next_fire_at r of None \<Rightarrow> Inr False | Some t \<Rightarrow> dt_le t at)"

definition fire_time_key :: "reminder \<Rightarrow> int" where
  "fire_time_key r = (case next_fire_at r of None \<Rightarrow> 0 | Some t \<Rightarrow> dt_key t)"

definition list_due_reminders :: "rem_state \<Rightarrow> datetime \<Rightarrow> pyexn + reminder list" where
  "list_due_reminders s at =
     sbind (filter_sum (reminder_due at) (dvalues (reminders_by_id s))) (\<lambda>due.
     Inr (sort_key (\<lambda>r. (owner_account_id r, fire_time_key r, rem_id r)) due))"

definition list_fires_for_owner :: "rem_state \<Rightarrow> string \<Rightarrow> pyexn + reminder_fire list" where
  "list_fires_for_owner s owner =
     (let reminder_ids =
        map rem_id (filter (\<lambda>r. owner_account_id r = owner) (dvalues (reminders_by_id s)))
      in py_sorted due_at (\<lambda>f. (dt_key (due_at f), fire_id f))
           (filter (\<lambda>f. fire_reminder_id f \<in> set reminder_ids) (dvalues (fires_by_id s))))"

definition list_lifecycle_events_for_turn_ids ::
  "rem_state \<Rightarrow> string list \<Rightarrow> nat \<Rightarrow> pyexn + reminder_outbox list" where
  "list_lifecycle_events_for_turn_ids s turn_ids limit =
     (let wanted = filter (\<lambda>t. t \<noteq> []) turn_ids in
      if wanted = [] then Inr []
      else
        let events = filter (\<lambda>e. ro_topic e = ''reminder.lifecycle'' \<and>
              (case dget (ro_payload e) ''turn_id'' of
                 Some (PyStr t) \<Rightarrow> t \<in> set wanted | _ \<Rightarrow> False)) (dvalues (rem_outbox_by_id s))
        in sbind (py_sorted ro_created_at (\<lambda>e. (dt_key (ro_created_at e), ro_id e)) (rev events)) (\<lambda>es.
           Inr (take limit (rev es))))"

section \<open>Writes\<close>

text \<open>
  The duplicate an active reminder must not meet: another active reminder of the owner with the
  same content hash and the same next fire time, or both without one.
\<close>

definition duplicate_of :: "reminder \<Rightarrow> reminder \<Rightarrow> bool" where
  "duplicate_of candidate r \<longleftrightarrow>
     rem_id r \<noteq> rem_id candidate \<and> lifecycle r = Active \<and>
     owner_account_id r = owner_account_id candidate \<and> content_hash r = content_hash candidate \<and>
     (case (next_fire_at candidate, next_fire_at r) of
        (None, None) \<Rightarrow> True
      | (Some a, Some b) \<Rightarrow> dt_eq b a
      | _ \<Rightarrow> False)"

definition assert_no_duplicate :: "reminder \<Rightarrow> unit rem" where
  "assert_no_duplicate candidate =
     (if lifecycle candidate \<noteq> Active then ret ()
      else bind (gets (\<lambda>s. dvalues (reminders_by_id s))) (\<lambda>rs.
           if list_ex (duplicate_of candidate) rs then value_error ''duplicate_reminder'' else ret ()))"

definition put_reminder :: "reminder \<Rightarrow> rem_state \<Rightarrow> rem_state" where
  "put_reminder r s = s\<lparr>reminders_by_id := dput (rem_id r) r (reminders_by_id s)\<rparr>"

definition add_reminder :: "reminder \<Rightarrow> unit rem" where
  "add_reminder r =
     bind (gets (\<lambda>s. get_reminder s (rem_id r))) (\<lambda>existing.
     if existing \<noteq> None then value_error ''duplicate_reminder_id''
     else bind (assert_no_duplicate r) (\<lambda>_. modify (put_reminder r)))"

definition save_reminder :: "reminder \<Rightarrow> unit rem" where
  "save_reminder r =
     bind (gets (\<lambda>s. get_reminder s (rem_id r))) (\<lambda>existing.
     if existing = None then value_error ''reminder_not_found''
     else bind (assert_no_duplicate r) (\<lambda>_. modify (put_reminder r)))"

definition put_rem_outbox :: "reminder_outbox \<Rightarrow> rem_state \<Rightarrow> rem_state" where
  "put_rem_outbox e s =
     s\<lparr>rem_outbox_by_id := dput (ro_id e) e (rem_outbox_by_id s),
       rem_outbox_by_key := dput (ro_idempotency_key e) e (rem_outbox_by_key s)\<rparr>"

definition add_rem_outbox :: "reminder_outbox \<Rightarrow> unit rem" where
  "add_rem_outbox e =
     bind (gets (\<lambda>s. dget (rem_outbox_by_id s) (ro_id e))) (\<lambda>by_id.
     if by_id \<noteq> None then value_error ''duplicate_reminder_outbox_id''
     else bind (gets (\<lambda>s. dget (rem_outbox_by_key s) (ro_idempotency_key e))) (\<lambda>by_key.
     if by_key \<noteq> None then value_error ''duplicate_reminder_outbox_idempotency_key''
     else modify (put_rem_outbox e)))"

text \<open>
  \<open>_atomic_write\<close>: when the operation raises, the reminders and the outbox are put back as they were.
\<close>

definition restore_write ::
  "(string, reminder) dict \<Rightarrow> (string, reminder_outbox) dict \<Rightarrow> (string, reminder_outbox) dict \<Rightarrow>
    rem_state \<Rightarrow> rem_state" where
  "restore_write rs out by_key s =
     s\<lparr>reminders_by_id := rs, rem_outbox_by_id := out, rem_outbox_by_key := by_key\<rparr>"

definition atomic_write :: "unit rem \<Rightarrow> unit rem" where
  "atomic_write operation =
     bind (gets reminders_by_id) (\<lambda>rs.
     bind (gets rem_outbox_by_id) (\<lambda>out.
     bind (gets rem_outbox_by_key) (\<lambda>by_key.
     catch operation (\<lambda>e. bind (modify (restore_write rs out by_key)) (\<lambda>_. raise e)))))"

text \<open>A commit guard: what \<open>before_write\<close> raises, if anything, on the state it is called in.\<close>

type_synonym commit_guard = "rem_state \<Rightarrow> pyexn option"

definition run_guard :: "commit_guard \<Rightarrow> unit rem" where
  "run_guard g = bind (gets g) (\<lambda>e. case e of None \<Rightarrow> ret () | Some x \<Rightarrow> raise x)"

definition no_guard :: commit_guard where
  "no_guard = (\<lambda>_. None)"

definition add_reminder_with_outbox :: "reminder \<Rightarrow> reminder_outbox \<Rightarrow> commit_guard \<Rightarrow> unit rem" where
  "add_reminder_with_outbox r e g =
     atomic_write (bind (run_guard g) (\<lambda>_. bind (add_reminder r) (\<lambda>_. add_rem_outbox e)))"

definition save_reminder_with_outbox :: "reminder \<Rightarrow> reminder_outbox \<Rightarrow> commit_guard \<Rightarrow> unit rem" where
  "save_reminder_with_outbox r e g =
     atomic_write (bind (run_guard g) (\<lambda>_. bind (save_reminder r) (\<lambda>_. add_rem_outbox e)))"

definition fire_key :: "reminder_fire \<Rightarrow> string \<times> string" where
  "fire_key f = (fire_reminder_id f, occurrence_key f)"

definition put_fire :: "reminder_fire \<Rightarrow> rem_state \<Rightarrow> rem_state" where
  "put_fire f s =
     s\<lparr>fires_by_id := dput (fire_id f) f (fires_by_id s),
       fires_by_occurrence := dput (fire_key f) f (fires_by_occurrence s)\<rparr>"

definition add_fire :: "reminder_fire \<Rightarrow> unit rem" where
  "add_fire f =
     bind (gets (\<lambda>s. get_fire s (fire_id f))) (\<lambda>by_id.
     if by_id \<noteq> None then value_error ''duplicate_fire_id''
     else bind (gets (\<lambda>s. dget (fires_by_occurrence s) (fire_key f))) (\<lambda>by_key.
     if by_key \<noteq> None then value_error ''duplicate_fire_occurrence''
     else modify (put_fire f)))"

definition save_fire :: "reminder_fire \<Rightarrow> unit rem" where
  "save_fire f =
     bind (gets (\<lambda>s. get_fire s (fire_id f))) (\<lambda>existing.
     case existing of
       None \<Rightarrow> value_error ''fire_not_found''
     | Some old \<Rightarrow>
         bind (gets (\<lambda>s. dget (fires_by_occurrence s) (fire_key f))) (\<lambda>taken.
         if fire_key old \<noteq> fire_key f \<and> taken \<noteq> None then value_error ''duplicate_fire_occurrence''
         else
           bind (modify (\<lambda>s. s\<lparr>fires_by_occurrence := dpop (fire_key old) (fires_by_occurrence s)\<rparr>)) (\<lambda>_.
           modify (put_fire f))))"

definition discard_future_proactive :: "string \<Rightarrow> datetime \<Rightarrow> unit rem" where
  "discard_future_proactive owner discarded_at =
     bind (gets (\<lambda>s. dvalues (reminders_by_id s))) (\<lambda>rs.
     for_each rs (\<lambda>r.
       if owner_account_id r = owner \<and> rem_kind r = Proactive \<and> lifecycle r = Active
       then
         (case next_fire_at r of
            None \<Rightarrow> ret ()
          | Some t \<Rightarrow>
              bind (lift (dt_lt discarded_at t)) (\<lambda>later.
              if later
              then modify (put_reminder (r\<lparr>lifecycle := Deleted, rem_updated_at := discarded_at\<rparr>))
              else ret ()))
       else ret ()))"

end
