(* ===== verification/RemService.thy ===== *)
theory RemService
  imports RemRepository
begin

text \<open>
  \<open>ReminderService\<close> (\<open>coke/domains/reminder/service.py\<close>): creating reminders one by one and in
  batches, scheduling, updating, clearing, completing and deleting them, by id, by keyword and by
  filter; time conflicts; and the fires of their occurrences: claiming, delivering, completing and
  discarding.
\<close>

section \<open>What the service is constructed with\<close>

datatype detector =
    ExtractMany "string \<Rightarrow> string \<Rightarrow> datetime \<Rightarrow> pyexn + detected_fields list"
  | ExtractOne "string \<Rightarrow> string \<Rightarrow> datetime \<Rightarrow> pyexn + detected_fields"

record rem_ports =
  rp_detector :: "detector option"
  rp_delivery :: "(string \<Rightarrow> string list \<Rightarrow> string \<Rightarrow> pyexn + string) option"
  rp_friend_identifiers :: "(string \<Rightarrow> string \<Rightarrow> string list) option"

abbreviation rem_error :: "string \<Rightarrow> 'a rem" where
  "rem_error code \<equiv> raise (ReminderError code None)"

section \<open>Helpers\<close>

definition content_hash_of :: "env \<Rightarrow> string \<Rightarrow> string" where
  "content_hash_of E text = env_sha E (py_lower (py_strip text))"

definition normalized_keyword :: "string option \<Rightarrow> string" where
  "normalized_keyword keyword = (case keyword of None \<Rightarrow> [] | Some k \<Rightarrow> py_casefold (py_strip k))"

definition keyword_matches_content :: "string \<Rightarrow> string \<Rightarrow> bool" where
  "keyword_matches_content keyword text \<longleftrightarrow>
     contains keyword (py_casefold text) \<or> contains (py_casefold text) keyword"

definition user_mutable_reminder :: "reminder \<Rightarrow> bool" where
  "user_mutable_reminder r \<longleftrightarrow> rem_kind r \<notin> {Proactive, SharedProjection}"

definition aware_utc_datetime :: "env \<Rightarrow> datetime \<Rightarrow> pyexn + datetime" where
  "aware_utc_datetime E d = (case d of Naive w \<Rightarrow> Inr (Aware w 0) | Aware u off \<Rightarrow> to_utc E d)"

definition aware_utc_option :: "env \<Rightarrow> datetime option \<Rightarrow> pyexn + datetime option" where
  "aware_utc_option E d =
     (case d of None \<Rightarrow> Inr None | Some t \<Rightarrow> sbind (aware_utc_datetime E t) (\<lambda>u. Inr (Some u)))"

text \<open>The loop over \<open>range(4096)\<close>.\<close>

fun first_at_or_after ::
  "(datetime \<Rightarrow> pyexn + datetime) \<Rightarrow> datetime \<Rightarrow> nat \<Rightarrow> datetime \<Rightarrow> pyexn + datetime option" where
  "first_at_or_after step start 0 occurrence = Inr None"
| "first_at_or_after step start (Suc n) occurrence =
     sbind (dt_le start occurrence) (\<lambda>reached.
     if reached then Inr (Some occurrence)
     else sbind (step occurrence) (first_at_or_after step start n))"

definition first_recurring_occurrence_at_or_after ::
  "env \<Rightarrow> reminder \<Rightarrow> datetime \<Rightarrow> datetime option \<Rightarrow> pyexn + datetime option" where
  "first_recurring_occurrence_at_or_after E r next_fire start =
     (case start of
        None \<Rightarrow> Inr (Some next_fire)
      | Some st \<Rightarrow>
          first_at_or_after (\<lambda>d. next_occurrence_after E (recurrence_rule r) d (captured_timezone r))
            st 4096 next_fire)"

definition within :: "datetime \<Rightarrow> datetime option \<Rightarrow> datetime option \<Rightarrow> pyexn + bool" where
  "within occurrence start end_at =
     sbind (case start of None \<Rightarrow> Inr False | Some a \<Rightarrow> dt_lt occurrence a) (\<lambda>early.
     if early then Inr False
     else sbind (case end_at of None \<Rightarrow> Inr False | Some b \<Rightarrow> dt_le b occurrence) (\<lambda>late.
          Inr (\<not> late)))"

definition reminder_in_trigger_range ::
  "env \<Rightarrow> reminder \<Rightarrow> datetime option \<Rightarrow> datetime option \<Rightarrow> pyexn + reminder option" where
  "reminder_in_trigger_range E r after before_at =
     (if after = None \<and> before_at = None then Inr (Some r)
      else
        sbind (aware_utc_option E (next_fire_at r)) (\<lambda>nfa.
        case nfa of
          None \<Rightarrow> Inr None
        | Some next_fire \<Rightarrow>
            sbind (aware_utc_option E after) (\<lambda>start.
            sbind (aware_utc_option E before_at) (\<lambda>end_at.
            sbind (if rem_kind r = Recurring \<and> recurrence_rule r \<noteq> []
                   then first_recurring_occurrence_at_or_after E r next_fire start
                   else Inr (Some next_fire)) (\<lambda>found.
            case found of
              None \<Rightarrow> Inr None
            | Some occurrence \<Rightarrow>
                sbind (within occurrence start end_at) (\<lambda>inside.
                if \<not> inside then Inr None
                else if (case next_fire_at r of None \<Rightarrow> True | Some t \<Rightarrow> \<not> dt_eq occurrence t)
                then Inr (Some (r\<lparr>next_fire_at := Some occurrence\<rparr>))
                else Inr (Some r)))))))"

definition max_utc_key :: int where
  "max_utc_key = wall_end - 1"

definition trigger_range_sort_key :: "reminder \<Rightarrow> int \<times> string \<times> string" where
  "trigger_range_sort_key r =
     (case next_fire_at r of None \<Rightarrow> max_utc_key | Some t \<Rightarrow> dt_key t, content r, rem_id r)"

definition zoneinfo_or_utc :: "env \<Rightarrow> string \<Rightarrow> pyexn + string \<times> zone" where
  "zoneinfo_or_utc E name =
     zone_or E name (sbind (env_zone E ''UTC'') (\<lambda>z. Inr (''UTC'', z))) (\<lambda>z. Inr (name, z))"

definition reminder_candidate_fact :: "reminder \<Rightarrow> fact" where
  "reminder_candidate_fact r =
     [(''reminder_id'', PyStr (rem_id r)), (''content'', PyStr (content r)),
      (''kind'', PyStr (kind_name (rem_kind r))), (''next_fire_at'', iso_or_none (next_fire_at r))]"

fun error_text :: "pyexn \<Rightarrow> string" where
  "error_text (ValueError msg) = msg"
| "error_text (ReminderTemporalError code) = code"
| "error_text _ = []"

definition safe_write_error_reason :: "pyexn \<Rightarrow> string" where
  "safe_write_error_reason e =
     (if error_text e \<in> {''duplicate_reminder_outbox_id'', ''duplicate_reminder_outbox_idempotency''}
      then error_text e else ''reminder_write_failed'')"

definition calendar_visible_busy_reminder :: "reminder \<Rightarrow> bool" where
  "calendar_visible_busy_reminder r \<longleftrightarrow>
     lifecycle r = Active \<and> \<not> hidden_from_calendar r \<and> rem_kind r \<noteq> NoTriggerTime \<and>
     next_fire_at r \<noteq> None"

definition candidate_calendar_visible :: "reminder_kind \<Rightarrow> datetime option \<Rightarrow> bool" where
  "candidate_calendar_visible kind trigger \<longleftrightarrow> kind \<notin> {NoTriggerTime, Proactive} \<and> trigger \<noteq> None"

definition intervals_overlap :: "int \<Rightarrow> int \<Rightarrow> int \<Rightarrow> int \<Rightarrow> bool" where
  "intervals_overlap left_start left_end right_start right_end \<longleftrightarrow>
     left_start < right_end \<and> right_start < left_end"

definition duration_or_error :: "pyval \<Rightarrow> pyexn + int" where
  "duration_or_error v =
     (case positive_duration_minutes v of
        Inl (ReminderTemporalError code) \<Rightarrow> Inl (ReminderError code None)
      | r \<Rightarrow> r)"

definition temporal_error_state :: "string \<Rightarrow> item_state" where
  "temporal_error_state code =
     (if code \<in> {''missing_recurring_trigger_time'', ''missing_trigger_time''} then NeedsFollowUp
      else ItemFailed)"

definition item_result_of ::
  "item_state \<Rightarrow> string option \<Rightarrow> string option \<Rightarrow> time_state option \<Rightarrow> fact \<Rightarrow> item_result" where
  "item_result_of st rid reason ts f =
     \<lparr>ir_state = st, ir_reminder_id = rid, ir_reason = reason, ir_time_state = ts, ir_fact = f\<rparr>"

definition refused_time :: "string option \<Rightarrow> time_state \<Rightarrow> item_result" where
  "refused_time rid ts =
     item_result_of (if ts \<noteq> InvalidTime then NeedsFollowUp else ItemFailed) rid
       (Some (time_state_name ts)) (Some ts) []"

section \<open>Requirements and the outbox event\<close>

definition require_reminder :: "string \<Rightarrow> reminder rem" where
  "require_reminder rid =
     bind (gets (\<lambda>s. get_reminder s rid)) (\<lambda>r.
     case r of None \<Rightarrow> rem_error ''reminder_not_found'' | Some x \<Rightarrow> ret x)"

definition require_owned_reminder :: "string \<Rightarrow> string \<Rightarrow> reminder rem" where
  "require_owned_reminder owner rid =
     bind (require_reminder rid) (\<lambda>r.
     if owner_account_id r \<noteq> owner \<or> lifecycle r \<noteq> Active then rem_error ''reminder_not_found''
     else ret r)"

definition require_fire :: "string \<Rightarrow> reminder_fire rem" where
  "require_fire fid =
     bind (gets (\<lambda>s. get_fire s fid)) (\<lambda>f.
     case f of None \<Rightarrow> rem_error ''reminder_fire_not_found'' | Some x \<Rightarrow> ret x)"

definition str_or_none :: "string option \<Rightarrow> pyval" where
  "str_or_none s = (case s of None \<Rightarrow> PyNone | Some x \<Rightarrow> PyStr x)"

definition outbox_key :: "string \<Rightarrow> reminder \<Rightarrow> batch_item option \<Rightarrow> string \<Rightarrow> string" where
  "outbox_key operation r item oid =
     (case item of
        Some it \<Rightarrow>
          (case (bi_turn_id it, bi_item_index it) of
             (Some tid, Some k) \<Rightarrow>
               if tid \<noteq> [] then ''reminder:'' @ operation @ '':'' @ tid @ '':'' @ show_int k
               else if operation = ''create'' then ''reminder:create:'' @ rem_id r
               else ''reminder:'' @ operation @ '':'' @ rem_id r @ '':'' @ oid
           | _ \<Rightarrow>
               if operation = ''create'' then ''reminder:create:'' @ rem_id r
               else ''reminder:'' @ operation @ '':'' @ rem_id r @ '':'' @ oid)
      | None \<Rightarrow>
          if operation = ''create'' then ''reminder:create:'' @ rem_id r
          else ''reminder:'' @ operation @ '':'' @ rem_id r @ '':'' @ oid)"

definition outbox_event ::
  "env \<Rightarrow> string \<Rightarrow> reminder \<Rightarrow> batch_item option \<Rightarrow> reminder_outbox rem" where
  "outbox_event E operation r item =
     bind (py_now E) (\<lambda>now.
     bind (new_id E ''outbox'') (\<lambda>oid.
     bind (new_traceparent E) (\<lambda>trace.
     ret \<lparr>ro_id = oid, ro_topic = ''reminder.lifecycle'',
          ro_idempotency_key = outbox_key operation r item oid,
          ro_payload =
            [(''type'', PyStr ''reminder_lifecycle''), (''operation'', PyStr operation),
             (''reminder_id'', PyStr (rem_id r)),
             (''owner_account_id'', PyStr (owner_account_id r)),
             (''turn_id'', case item of None \<Rightarrow> PyNone | Some it \<Rightarrow> str_or_none (bi_turn_id it)),
             (''item_index'', case item of None \<Rightarrow> PyNone
                | Some it \<Rightarrow> (case bi_item_index it of None \<Rightarrow> PyNone | Some k \<Rightarrow> PyInt k)),
             (''kind'', PyStr (kind_name (rem_kind r))),
             (''lifecycle'', PyStr (lifecycle_name (lifecycle r))),
             (''next_fire_at'', iso_or_none (next_fire_at r)),
             (''duration_minutes'', PyInt (duration_minutes r)),
             (''shared_reminder_id'', str_or_none (shared_reminder_id r))],
          ro_traceparent = trace, ro_status = ''pending'', ro_created_at = now,
          ro_published_at = None, ro_processed_at = None, ro_acked_at = None,
          ro_retry_count = 0, ro_last_error = None\<rparr>)))"

definition save_with_event :: "env \<Rightarrow> reminder \<Rightarrow> string \<Rightarrow> commit_guard \<Rightarrow> unit rem" where
  "save_with_event E r operation g =
     bind (outbox_event E operation r None) (\<lambda>e. save_reminder_with_outbox r e g)"

section \<open>Times and conflicts\<close>

definition validate_trigger_time :: "env \<Rightarrow> datetime option \<Rightarrow> string \<Rightarrow> bool \<Rightarrow> time_state rem" where
  "validate_trigger_time E trigger captured incomplete =
     (case env_zone E captured of
        Inl e \<Rightarrow> if e = ZoneInfoNotFoundError then ret InvalidTime else raise e
      | Inr z \<Rightarrow>
          (case trigger of
             None \<Rightarrow> ret ValidFuture
           | Some t \<Rightarrow>
               if \<not> is_aware t then ret InvalidTime
               else
                 bind (py_now E) (\<lambda>now.
                 bind (lift (dt_lt t now)) (\<lambda>past.
                 ret (if \<not> past then ValidFuture
                      else if incomplete then NeedsIncompleteDateClarification
                      else NeedsPastTimeConfirmation)))))"

definition conflict_fact ::
  "datetime \<Rightarrow> datetime \<Rightarrow> string \<Rightarrow> int \<Rightarrow> reminder \<Rightarrow> datetime \<Rightarrow> datetime \<Rightarrow> fact" where
  "conflict_fact start end_at captured minutes r rs re =
     [(''type'', PyStr ''time_conflict''),
      (''requested_interval'', PyDict
        [(''start'', PyStr (isoformat start)), (''end'', PyStr (isoformat end_at)),
         (''captured_timezone'', PyStr captured), (''duration_minutes'', PyInt minutes)]),
      (''conflict'', PyDict
        [(''reminder_id'', PyStr (rem_id r)), (''content'', PyStr (content r)),
         (''start'', PyStr (isoformat rs)), (''end'', PyStr (isoformat re)),
         (''captured_timezone'', PyStr (captured_timezone r)),
         (''shared_reminder_id'', str_or_none (shared_reminder_id r))])]"

definition minutes_us :: "int \<Rightarrow> int" where
  "minutes_us n = n * minute_us"

text \<open>The loop over the owner's active reminders, which returns at the first overlap.\<close>

fun find_conflict ::
  "env \<Rightarrow> datetime \<Rightarrow> datetime \<Rightarrow> string \<Rightarrow> int \<Rightarrow> string option \<Rightarrow> string option \<Rightarrow> reminder list \<Rightarrow>
    pyexn + item_result option" where
  "find_conflict E start end_at captured minutes exclude ch [] = Inr None"
| "find_conflict E start end_at captured minutes exclude ch (r # rs) =
     (case next_fire_at r of
        None \<Rightarrow> find_conflict E start end_at captured minutes exclude ch rs
      | Some t \<Rightarrow>
          if exclude = Some (rem_id r) \<or> \<not> calendar_visible_busy_reminder r
          then find_conflict E start end_at captured minutes exclude ch rs
          else
            sbind (to_utc E t) (\<lambda>existing_start.
            if (case ch of None \<Rightarrow> False | Some h \<Rightarrow> content_hash r = h) \<and> dt_eq existing_start start
            then find_conflict E start end_at captured minutes exclude ch rs
            else
              sbind (dt_add existing_start (minutes_us (duration_minutes r))) (\<lambda>existing_end.
              if intervals_overlap (dt_key start) (dt_key end_at) (dt_key existing_start) (dt_key existing_end)
              then Inr (Some (item_result_of NeedsFollowUp exclude (Some ''time_conflict'') (Some ValidFuture)
                     (conflict_fact start end_at captured minutes r existing_start existing_end)))
              else find_conflict E start end_at captured minutes exclude ch rs)))"

definition check_time_conflict ::
  "env \<Rightarrow> rem_state \<Rightarrow> string \<Rightarrow> datetime option \<Rightarrow> string \<Rightarrow> pyval \<Rightarrow> string option \<Rightarrow> string option \<Rightarrow>
    pyexn + item_result option" where
  "check_time_conflict E s owner trigger captured minutes exclude ch =
     (case trigger of
        None \<Rightarrow> Inr None
      | Some t \<Rightarrow>
          if \<not> is_aware t then Inr None
          else
            (case duration_or_error minutes of
               Inl e \<Rightarrow> (case e of ReminderError _ _ \<Rightarrow> Inr None | _ \<Rightarrow> Inl e)
             | Inr n \<Rightarrow>
                 sbind (to_utc E t) (\<lambda>start.
                 sbind (dt_add start (minutes_us n)) (\<lambda>end_at.
                 find_conflict E start end_at captured n exclude ch (list_active_reminders s owner)))))"

definition conflict_now ::
  "env \<Rightarrow> string \<Rightarrow> datetime option \<Rightarrow> string \<Rightarrow> pyval \<Rightarrow> string option \<Rightarrow> string option \<Rightarrow>
    item_result option rem" where
  "conflict_now E owner trigger captured minutes exclude ch =
     bind (gets (\<lambda>s. check_time_conflict E s owner trigger captured minutes exclude ch)) lift"

section \<open>Creation\<close>

definition missing_text :: "string option \<Rightarrow> bool" where
  "missing_text t \<longleftrightarrow> t = None \<or> t = Some []"

definition detected_trigger_time ::
  "env \<Rightarrow> datetime option \<Rightarrow> string \<Rightarrow> pyexn + datetime option" where
  "detected_trigger_time E trigger captured =
     (case trigger_time_to_utc E trigger captured of
        Inl (ReminderTemporalError _) \<Rightarrow> Inl (ReminderError ''invalid_detector_output'' None)
      | r \<Rightarrow> r)"

definition detected_item ::
  "env \<Rightarrow> batch_item \<Rightarrow> nat \<Rightarrow> detected_fields \<Rightarrow> pyexn + batch_item" where
  "detected_item E item offset d =
     (if missing_text (df_content d) then Inl (ReminderError ''invalid_detector_output'' None)
      else
        sbind (detected_trigger_time E (df_trigger_time d) (bi_captured_timezone item)) (\<lambda>t.
        Inr \<lparr>bi_operation = ''create'', bi_content = df_content d, bi_raw_text = None,
             bi_reminder_id = None, bi_trigger_time = t,
             bi_captured_timezone = bi_captured_timezone item,
             bi_recurrence_rule = PyDict (df_recurrence_rule d),
             bi_duration_minutes = df_duration_minutes d, bi_kind = df_kind d,
             bi_entry_point = bi_entry_point item, bi_time_state = bi_time_state item,
             bi_incomplete_date = False, bi_shared_reminder_id = None,
             bi_turn_id = bi_turn_id item,
             bi_item_index = map_option (\<lambda>k. k + int offset) (bi_item_index item)\<rparr>))"

definition run_detector ::
  "detector \<Rightarrow> string \<Rightarrow> string \<Rightarrow> datetime \<Rightarrow> pyexn + detected_fields list" where
  "run_detector d text captured now =
     (case d of
        ExtractMany f \<Rightarrow> f text captured now
      | ExtractOne f \<Rightarrow> sbind (f text captured now) (\<lambda>x. Inr [x]))"

definition detect_items :: "env \<Rightarrow> rem_ports \<Rightarrow> batch_item \<Rightarrow> batch_item list rem" where
  "detect_items E P item =
     (case (rp_detector P, bi_raw_text item) of
        (Some d, Some text) \<Rightarrow>
          bind (py_now E) (\<lambda>now.
          bind (lift
            (case sbind (env_zone E (bi_captured_timezone item)) (\<lambda>z.
                  sbind (to_zone E z now) (\<lambda>local_now.
                  run_detector d text (bi_captured_timezone item) local_now)) of
               Inl e \<Rightarrow>
                 if is_runtime_error e \<or> e = ZoneInfoNotFoundError
                 then Inl (ReminderError ''invalid_detector_output'' None) else Inl e
             | Inr found \<Rightarrow> Inr found)) (\<lambda>found.
          if found = [] then rem_error ''invalid_detector_output''
          else lift (map_sum_list (\<lambda>(k, d). detected_item E item k d) (enumerate 0 found))))
      | _ \<Rightarrow> rem_error ''detector_unavailable'')"

definition new_reminder ::
  "env \<Rightarrow> string \<Rightarrow> batch_item \<Rightarrow> string \<Rightarrow> temporal_fields \<Rightarrow> datetime \<Rightarrow> string \<Rightarrow> reminder" where
  "new_reminder E owner item text temporal now rid =
     \<lparr>rem_id = rid, owner_account_id = owner, content = text, content_hash = content_hash_of E text,
      rem_kind = tf_kind temporal, next_fire_at = tf_trigger_time temporal,
      recurrence_rule = tf_recurrence_rule temporal,
      captured_timezone = bi_captured_timezone item,
      duration_minutes = tf_duration_minutes temporal, lifecycle = Active,
      hidden_from_calendar = (tf_kind temporal = Proactive),
      shared_reminder_id = bi_shared_reminder_id item, rem_created_at = now, rem_updated_at = now\<rparr>"

definition created_fact :: "reminder \<Rightarrow> fact" where
  "created_fact r =
     [(''kind'', PyStr (kind_name (rem_kind r))), (''content'', PyStr (content r)),
      (''trigger_time'', iso_or_none (next_fire_at r)),
      (''duration_minutes'', PyInt (duration_minutes r))]"

text \<open>The end of \<open>_create\<close>: a replayed item answers from its event, a new one is written.\<close>

definition replayed_result :: "time_state \<Rightarrow> reminder_outbox \<Rightarrow> item_result" where
  "replayed_result ts e =
     item_result_of Succeeded
       (case dget (ro_payload e) ''reminder_id'' of Some (PyStr rid) \<Rightarrow> Some rid | _ \<Rightarrow> None)
       None (Some ts) (ro_payload e)"

definition write_new_reminder ::
  "reminder \<Rightarrow> reminder_outbox \<Rightarrow> time_state \<Rightarrow> commit_guard \<Rightarrow> item_result rem" where
  "write_new_reminder r e ts g =
     catch
       (bind (add_reminder_with_outbox r e g) (\<lambda>_.
        ret (item_result_of Succeeded (Some (rem_id r)) None (Some ts) (created_fact r))))
       (\<lambda>x. if is_value_error x \<and> error_text x = ''duplicate_reminder''
            then ret (item_result_of ItemFailed None (Some ''duplicate_reminder'') (Some ts) [])
            else raise x)"

definition create_in ::
  "env \<Rightarrow> string \<Rightarrow> batch_item \<Rightarrow> string \<Rightarrow> temporal_fields \<Rightarrow> time_state \<Rightarrow> commit_guard \<Rightarrow>
    item_result rem" where
  "create_in E owner item text temporal ts g =
     bind (py_now E) (\<lambda>now.
     bind (new_id E ''reminder'') (\<lambda>rid.
     let r = new_reminder E owner item text temporal now rid in
     bind (outbox_event E ''create'' r (Some item)) (\<lambda>e.
     bind (gets (\<lambda>s. get_outbox_by_idempotency_key s (ro_idempotency_key e))) (\<lambda>existing.
     case existing of
       Some old \<Rightarrow> ret (replayed_result ts old)
     | None \<Rightarrow> write_new_reminder r e ts g))))"

definition create_reminder ::
  "env \<Rightarrow> string \<Rightarrow> batch_item \<Rightarrow> commit_guard \<Rightarrow> item_result rem" where
  "create_reminder E owner item g =
     (if missing_text (bi_content item)
      then ret (item_result_of NeedsFollowUp None (Some ''needs_content'') None [])
      else
        let text = the (bi_content item) in
        bind (case bi_time_state item of
                Some ts \<Rightarrow> ret ts
              | None \<Rightarrow> validate_trigger_time E (bi_trigger_time item) (bi_captured_timezone item)
                          (bi_incomplete_date item)) (\<lambda>ts.
        if ts \<noteq> ValidFuture then ret (refused_time None ts)
        else
          (case normalize_create_temporal (bi_trigger_time item) (bi_recurrence_rule item)
                  (bi_duration_minutes item) (bi_kind item) of
             Inl (ReminderTemporalError code) \<Rightarrow>
               ret (item_result_of (temporal_error_state code) None (Some code) (Some ts) [])
           | Inl e \<Rightarrow> raise e
           | Inr temporal \<Rightarrow>
               bind (if candidate_calendar_visible (tf_kind temporal) (tf_trigger_time temporal)
                     then conflict_now E owner (tf_trigger_time temporal) (bi_captured_timezone item)
                            (PyInt (tf_duration_minutes temporal)) None
                            (Some (content_hash_of E text))
                     else ret None) (\<lambda>conflict.
               case conflict of
                 Some c \<Rightarrow> ret c
               | None \<Rightarrow> create_in E owner item text temporal ts g))))"

definition execute_item :: "env \<Rightarrow> string \<Rightarrow> batch_item \<Rightarrow> commit_guard \<Rightarrow> item_result rem" where
  "execute_item E owner item g =
     (if bi_operation item \<noteq> ''create'' then rem_error ''unsupported_reminder_operation''
      else create_reminder E owner item g)"

definition execute_items ::
  "env \<Rightarrow> rem_ports \<Rightarrow> string \<Rightarrow> batch_item \<Rightarrow> commit_guard \<Rightarrow> item_result list rem" where
  "execute_items E P owner item g =
     (if bi_operation item = ''detect_and_create''
      then bind (detect_items E P item) (map_py (\<lambda>it. execute_item E owner it g))
      else bind (execute_item E owner item g) (\<lambda>r. ret [r]))"

definition failed_result :: "string option \<Rightarrow> string \<Rightarrow> fact option \<Rightarrow> item_result" where
  "failed_result rid code f =
     item_result_of ItemFailed rid (Some code) None (case f of None \<Rightarrow> [] | Some x \<Rightarrow> x)"

definition batch_outcome ::
  "env \<Rightarrow> rem_ports \<Rightarrow> string \<Rightarrow> commit_guard \<Rightarrow> batch_item \<Rightarrow> item_result list rem" where
  "batch_outcome E P owner g item =
     catch (execute_items E P owner item g)
       (\<lambda>x. case x of
          ReminderError code f \<Rightarrow> ret [failed_result None code f]
        | _ \<Rightarrow>
            if is_value_error x
            then
              let reason = safe_write_error_reason x in
              ret [failed_result None reason (Some [(''type'', PyStr reason)])]
            else raise x)"

definition execute_batch ::
  "env \<Rightarrow> rem_ports \<Rightarrow> string \<Rightarrow> batch_item list \<Rightarrow> commit_guard \<Rightarrow> batch_result rem" where
  "execute_batch E P owner items g =
     bind (map_py (batch_outcome E P owner g) items) (\<lambda>results.
     ret \<lparr>br_owner_account_id = owner, br_items = concat results\<rparr>)"

section \<open>Changing one reminder\<close>

definition validated ::
  "env \<Rightarrow> string \<Rightarrow> reminder \<Rightarrow> datetime \<Rightarrow> string \<Rightarrow> item_result rem \<Rightarrow> item_result rem" where
  "validated E owner r trigger captured continue =
     bind (validate_trigger_time E (Some trigger) captured False) (\<lambda>ts.
     if ts \<noteq> ValidFuture then ret (refused_time (Some (rem_id r)) ts)
     else
       bind (conflict_now E owner (Some trigger) captured (PyInt (duration_minutes r))
              (Some (rem_id r)) None) (\<lambda>conflict.
       case conflict of Some c \<Rightarrow> ret c | None \<Rightarrow> continue))"

definition transition_result :: "reminder \<Rightarrow> time_state option \<Rightarrow> string \<Rightarrow> item_result" where
  "transition_result r ts name =
     item_result_of Succeeded (Some (rem_id r)) None ts [(''transition'', PyStr name)]"

definition schedule_unscheduled ::
  "env \<Rightarrow> string \<Rightarrow> string \<Rightarrow> datetime \<Rightarrow> string \<Rightarrow> commit_guard \<Rightarrow> item_result rem" where
  "schedule_unscheduled E owner rid trigger captured g =
     bind (require_owned_reminder owner rid) (\<lambda>r.
     if rem_kind r \<noteq> NoTriggerTime \<or> next_fire_at r \<noteq> None then rem_error ''reminder_not_unscheduled''
     else
       validated E owner r trigger captured
         (bind (py_now E) (\<lambda>now.
          let updated = r\<lparr>rem_kind := Timed, next_fire_at := Some trigger,
                          captured_timezone := captured, rem_updated_at := now\<rparr> in
          bind (save_with_event E updated ''schedule_unscheduled'' g) (\<lambda>_.
          ret (transition_result updated (Some ValidFuture) ''schedule_unscheduled'')))))"

definition reschedule_reminder ::
  "env \<Rightarrow> string \<Rightarrow> string \<Rightarrow> datetime \<Rightarrow> string \<Rightarrow> commit_guard \<Rightarrow> item_result rem" where
  "reschedule_reminder E owner rid trigger captured g =
     bind (require_owned_reminder owner rid) (\<lambda>r.
     if rem_kind r = NoTriggerTime \<or> next_fire_at r = None
     then schedule_unscheduled E owner rid trigger captured g
     else if rem_kind r = Proactive then rem_error ''proactive_user_immutable''
     else
       validated E owner r trigger captured
         (bind (py_now E) (\<lambda>now.
          let updated = r\<lparr>next_fire_at := Some trigger, captured_timezone := captured,
                          rem_updated_at := now\<rparr> in
          bind (save_with_event E updated ''reschedule'' g) (\<lambda>_.
          ret (transition_result updated (Some ValidFuture) ''reschedule_reminder'')))))"

text \<open>
  \<open>update_reminder\<close> collects its changes field by field; a field whose new value is refused ends it.
\<close>

definition update_content :: "env \<Rightarrow> string option \<Rightarrow> reminder \<Rightarrow> reminder option" where
  "update_content E text r =
     (case text of
        None \<Rightarrow> Some r
      | Some t \<Rightarrow>
          let t' = py_strip t in
          if t' = [] then None
          else Some (r\<lparr>content := t', content_hash := content_hash_of E t'\<rparr>))"

definition update_trigger :: "datetime \<Rightarrow> string \<Rightarrow> reminder \<Rightarrow> reminder" where
  "update_trigger trigger zone_name r =
     r\<lparr>rem_kind := (if rem_kind r = NoTriggerTime then Timed else rem_kind r),
       next_fire_at := Some trigger, captured_timezone := zone_name\<rparr>"

definition updated_zone :: "string option \<Rightarrow> reminder \<Rightarrow> string" where
  "updated_zone captured r = (if missing_text captured then captured_timezone r else the captured)"

definition finish_update ::
  "env \<Rightarrow> string \<Rightarrow> reminder \<Rightarrow> time_state option \<Rightarrow> commit_guard \<Rightarrow> item_result rem" where
  "finish_update E owner updated ts g =
     bind (conflict_now E owner (next_fire_at updated) (captured_timezone updated)
            (PyInt (duration_minutes updated)) (Some (rem_id updated)) None) (\<lambda>conflict.
     case conflict of
       Some c \<Rightarrow> ret (c\<lparr>ir_reminder_id := Some (rem_id updated)\<rparr>)
     | None \<Rightarrow>
         bind (save_with_event E updated ''update'' g) (\<lambda>_.
         ret (item_result_of Succeeded (Some (rem_id updated)) None ts
               ((''transition'', PyStr ''update_reminder'') # created_fact updated))))"

definition update_reminder ::
  "env \<Rightarrow> string \<Rightarrow> string \<Rightarrow> string option \<Rightarrow> datetime option \<Rightarrow> string option \<Rightarrow> pyval option \<Rightarrow>
    commit_guard \<Rightarrow> item_result rem" where
  "update_reminder E owner rid text trigger captured minutes g =
     bind (require_owned_reminder owner rid) (\<lambda>r.
     if rem_kind r = Proactive then rem_error ''proactive_user_immutable''
     else
       bind (py_now E) (\<lambda>now.
       case update_content E text (r\<lparr>rem_updated_at := now\<rparr>) of
         None \<Rightarrow> ret (item_result_of NeedsFollowUp (Some (rem_id r)) (Some ''needs_content'') None [])
       | Some r1 \<Rightarrow>
           bind (case trigger of
                   None \<Rightarrow> ret None
                 | Some t \<Rightarrow> bind (validate_trigger_time E (Some t) (updated_zone captured r) False)
                              (\<lambda>ts. ret (Some ts))) (\<lambda>ts.
           if ts \<noteq> None \<and> ts \<noteq> Some ValidFuture then ret (refused_time (Some (rem_id r)) (the ts))
           else
             let r2 = (case trigger of None \<Rightarrow> r1
                       | Some t \<Rightarrow> update_trigger t (updated_zone captured r) r1) in
             bind (case minutes of
                     None \<Rightarrow> ret (duration_minutes r2)
                   | Some v \<Rightarrow> lift (duration_or_error v)) (\<lambda>d.
             if text = None \<and> trigger = None \<and> minutes = None
             then ret (item_result_of NeedsFollowUp (Some (rem_id r)) (Some ''no_update_fields'') None [])
             else finish_update E owner (r2\<lparr>duration_minutes := d\<rparr>) ts g))))"

definition clear_trigger_time ::
  "env \<Rightarrow> string \<Rightarrow> string \<Rightarrow> commit_guard \<Rightarrow> item_result rem" where
  "clear_trigger_time E owner rid g =
     bind (require_owned_reminder owner rid) (\<lambda>r.
     if rem_kind r = Recurring
     then ret (item_result_of NeedsFollowUp (Some (rem_id r)) None None
            [(''transition'', PyStr ''clear_recurring_trigger_time_requires_choice''),
             (''choices'', PyList [PyStr ''convert_to_unscheduled'', PyStr ''delete_recurring_series''])])
     else
       bind (py_now E) (\<lambda>now.
       let updated = r\<lparr>rem_kind := NoTriggerTime, next_fire_at := None, recurrence_rule := [],
                       rem_updated_at := now\<rparr> in
       bind (save_with_event E updated ''clear_trigger_time'' g) (\<lambda>_.
       ret (transition_result updated None ''clear_trigger_time''))))"

definition complete_reminder ::
  "env \<Rightarrow> string \<Rightarrow> string \<Rightarrow> commit_guard \<Rightarrow> item_result rem" where
  "complete_reminder E owner rid g =
     bind (require_owned_reminder owner rid) (\<lambda>r.
     if rem_kind r = Proactive then rem_error ''proactive_user_immutable''
     else if rem_kind r = Recurring then rem_error ''recurring_completion_requires_occurrence''
     else
       bind (py_now E) (\<lambda>now.
       bind (save_with_event E (r\<lparr>lifecycle := Completed, rem_updated_at := now\<rparr>) ''complete'' g) (\<lambda>_.
       ret (item_result_of Succeeded (Some (rem_id r)) None None []))))"

definition delete_reminder ::
  "env \<Rightarrow> string \<Rightarrow> string \<Rightarrow> bool \<Rightarrow> commit_guard \<Rightarrow> item_result rem" where
  "delete_reminder E owner rid user_initiated g =
     bind (require_owned_reminder owner rid) (\<lambda>r.
     if user_initiated \<and> rem_kind r = Proactive then rem_error ''proactive_user_immutable''
     else
       bind (py_now E) (\<lambda>now.
       bind (save_with_event E (r\<lparr>lifecycle := Deleted, rem_updated_at := now\<rparr>) ''delete'' g) (\<lambda>_.
       ret (item_result_of Succeeded (Some (rem_id r)) None None []))))"

section \<open>Finding and changing by keyword or filter\<close>

fun select_sum :: "('a \<Rightarrow> pyexn + 'b option) \<Rightarrow> 'a list \<Rightarrow> pyexn + 'b list" where
  "select_sum f [] = Inr []"
| "select_sum f (x # xs) =
     sbind (f x) (\<lambda>y. sbind (select_sum f xs) (\<lambda>ys.
     Inr (case y of None \<Rightarrow> ys | Some v \<Rightarrow> v # ys)))"

definition filter_matches ::
  "env \<Rightarrow> string \<Rightarrow> lifecycle_state option \<Rightarrow> reminder_kind option \<Rightarrow> datetime option \<Rightarrow>
    datetime option \<Rightarrow> reminder \<Rightarrow> pyexn + reminder option" where
  "filter_matches E keyword lc kind after before_at r =
     (if (lc \<noteq> None \<and> lc \<noteq> Some (lifecycle r)) \<or> (kind \<noteq> None \<and> kind \<noteq> Some (rem_kind r)) \<or>
         (keyword \<noteq> [] \<and> \<not> keyword_matches_content keyword (content r))
      then Inr None
      else reminder_in_trigger_range E r after before_at)"

definition filter_reminders ::
  "env \<Rightarrow> rem_state \<Rightarrow> string \<Rightarrow> string option \<Rightarrow> lifecycle_state option \<Rightarrow> reminder_kind option \<Rightarrow>
    datetime option \<Rightarrow> datetime option \<Rightarrow> pyexn + reminder list" where
  "filter_reminders E s owner keyword lc kind after before_at =
     sbind (list_reminders s owner) (\<lambda>rs.
     sbind (select_sum (filter_matches E (normalized_keyword keyword) lc kind after before_at) rs) (\<lambda>ms.
     Inr (if after \<noteq> None \<or> before_at \<noteq> None then sort_key trigger_range_sort_key ms else ms)))"

definition single_user_mutable_keyword_match ::
  "env \<Rightarrow> rem_state \<Rightarrow> string \<Rightarrow> string \<Rightarrow> pyexn + item_result" where
  "single_user_mutable_keyword_match E s owner keyword =
     (if normalized_keyword (Some keyword) = []
      then Inr (item_result_of NeedsFollowUp None (Some ''keyword_required'') None [])
      else
        sbind (filter_reminders E s owner (Some keyword) (Some Active) None None None) (\<lambda>found.
        Inr (case filter user_mutable_reminder found of
               [r] \<Rightarrow> item_result_of Succeeded (Some (rem_id r)) None None
                        [(''match_count'', PyInt 1), (''matched'', PyDict (reminder_candidate_fact r))]
             | [] \<Rightarrow> item_result_of NeedsFollowUp None (Some ''no_matching_reminder'') None
                        [(''match_count'', PyInt 0)]
             | rs \<Rightarrow> item_result_of NeedsFollowUp None (Some ''ambiguous_reminder_reference'') None
                        [(''match_count'', PyInt (int (length rs))),
                         (''candidates'', PyList (map (\<lambda>r. PyDict (reminder_candidate_fact r)) rs))])))"

definition resolve_user_mutable_keyword :: "env \<Rightarrow> string \<Rightarrow> string \<Rightarrow> item_result rem" where
  "resolve_user_mutable_keyword E owner keyword =
     bind (gets (\<lambda>s. single_user_mutable_keyword_match E s owner keyword)) lift"

definition by_keyword ::
  "env \<Rightarrow> string \<Rightarrow> string \<Rightarrow> (string \<Rightarrow> item_result rem) \<Rightarrow> item_result rem" where
  "by_keyword E owner keyword act =
     bind (resolve_user_mutable_keyword E owner keyword) (\<lambda>matched.
     case ir_reminder_id matched of
       Some rid \<Rightarrow> if ir_state matched = Succeeded then act rid else ret matched
     | None \<Rightarrow> ret matched)"

definition complete_reminder_by_keyword :: "env \<Rightarrow> string \<Rightarrow> string \<Rightarrow> commit_guard \<Rightarrow> item_result rem" where
  "complete_reminder_by_keyword E owner keyword g =
     by_keyword E owner keyword (\<lambda>rid. complete_reminder E owner rid g)"

definition delete_reminder_by_keyword :: "env \<Rightarrow> string \<Rightarrow> string \<Rightarrow> commit_guard \<Rightarrow> item_result rem" where
  "delete_reminder_by_keyword E owner keyword g =
     by_keyword E owner keyword (\<lambda>rid. delete_reminder E owner rid True g)"

definition update_reminder_by_keyword ::
  "env \<Rightarrow> string \<Rightarrow> string \<Rightarrow> string option \<Rightarrow> datetime option \<Rightarrow> string option \<Rightarrow> pyval option \<Rightarrow>
    commit_guard \<Rightarrow> item_result rem" where
  "update_reminder_by_keyword E owner keyword text trigger captured minutes g =
     by_keyword E owner keyword (\<lambda>rid. update_reminder E owner rid text trigger captured minutes g)"

definition mutate_one :: "env \<Rightarrow> string \<Rightarrow> string \<Rightarrow> commit_guard \<Rightarrow> reminder \<Rightarrow> item_result rem" where
  "mutate_one E operation owner g r =
     catch
       (if operation = ''delete'' then delete_reminder E owner (rem_id r) True g
        else if operation = ''complete'' then complete_reminder E owner (rem_id r) g
        else rem_error ''unsupported_reminder_operation'')
       (\<lambda>x. case x of
          ReminderError code f \<Rightarrow> ret (failed_result (Some (rem_id r)) code f)
        | _ \<Rightarrow> raise x)"

definition mutate_reminders_by_filter ::
  "env \<Rightarrow> string \<Rightarrow> string \<Rightarrow> string option \<Rightarrow> datetime option \<Rightarrow> datetime option \<Rightarrow> commit_guard \<Rightarrow>
    batch_result rem" where
  "mutate_reminders_by_filter E operation owner keyword after before_at g =
     bind (gets (\<lambda>s. filter_reminders E s owner keyword (Some Active) None after before_at)) (\<lambda>found.
     bind (lift found) (\<lambda>rs.
     bind (map_py (mutate_one E operation owner g) (filter user_mutable_reminder rs)) (\<lambda>results.
     ret \<lparr>br_owner_account_id = owner, br_items = results\<rparr>)))"

definition delete_reminders_by_filter ::
  "env \<Rightarrow> string \<Rightarrow> string option \<Rightarrow> datetime option \<Rightarrow> datetime option \<Rightarrow> commit_guard \<Rightarrow>
    batch_result rem" where
  "delete_reminders_by_filter E owner keyword after before_at g =
     mutate_reminders_by_filter E ''delete'' owner keyword after before_at g"

definition complete_reminders_by_filter ::
  "env \<Rightarrow> string \<Rightarrow> string option \<Rightarrow> datetime option \<Rightarrow> datetime option \<Rightarrow> commit_guard \<Rightarrow>
    batch_result rem" where
  "complete_reminders_by_filter E owner keyword after before_at g =
     mutate_reminders_by_filter E ''complete'' owner keyword after before_at g"

end
