(* ===== verification/RemFires.thy ===== *)
theory RemFires
  imports RemService
begin

text \<open>
  The fires of the reminders' occurrences: the second half of \<open>ReminderService\<close> (claiming,
  delivering, completing, discarding), the scheduler that claims and groups them
  (\<open>coke/domains/reminder/scheduler.py\<close>) and the calendar's read model
  (\<open>calendar_read_model.py\<close>).
\<close>

section \<open>Claiming and completing\<close>

definition claimed_fire :: "string \<Rightarrow> reminder \<Rightarrow> datetime \<Rightarrow> bool \<Rightarrow> datetime \<Rightarrow> reminder_fire" where
  "claimed_fire fid r due missed now =
     \<lparr>fire_id = fid, fire_reminder_id = rem_id r, occurrence_key = isoformat due, due_at = due,
      fire_state = FireClaimed, fire_delivery = None, handled_at = None, fire_completed_at = None,
      missed_catch_up = missed, fire_created_at = now, fire_updated_at = now\<rparr>"

definition claim_due_fire :: "env \<Rightarrow> string \<Rightarrow> datetime \<Rightarrow> bool \<Rightarrow> reminder_fire rem" where
  "claim_due_fire E rid due missed =
     bind (require_reminder rid) (\<lambda>r.
     bind (gets (\<lambda>s. get_fire_by_occurrence s rid (isoformat due))) (\<lambda>existing.
     case existing of
       Some f \<Rightarrow> ret f
     | None \<Rightarrow>
         bind (py_now E) (\<lambda>now.
         bind (new_id E ''reminder_fire'') (\<lambda>fid.
         let f = claimed_fire fid r due missed now in
         bind (add_fire f) (\<lambda>_. ret f)))))"

text \<open>\<open>replace(fire, ..., updated_at=self._now())\<close> followed by \<open>save_fire\<close>.\<close>

definition save_changed_fire ::
  "env \<Rightarrow> (reminder_fire \<Rightarrow> reminder_fire) \<Rightarrow> reminder_fire \<Rightarrow> reminder_fire rem" where
  "save_changed_fire E change f =
     bind (py_now E) (\<lambda>now.
     let updated = (change f)\<lparr>fire_updated_at := now\<rparr> in
     bind (save_fire updated) (\<lambda>_. ret updated))"

definition advance_or_complete_after_occurrence :: "env \<Rightarrow> reminder \<Rightarrow> datetime \<Rightarrow> unit rem" where
  "advance_or_complete_after_occurrence E r due =
     (if rem_kind r = Recurring then
        bind (lift (next_occurrence_after E (recurrence_rule r) due (captured_timezone r))) (\<lambda>next.
        bind (py_now E) (\<lambda>now.
        save_with_event E (r\<lparr>next_fire_at := Some next, rem_updated_at := now\<rparr>)
          ''advance_occurrence'' no_guard))
      else if rem_kind r \<noteq> Proactive then
        bind (py_now E) (\<lambda>now.
        save_with_event E (r\<lparr>lifecycle := Completed, rem_updated_at := now\<rparr>)
          ''complete_after_fire'' no_guard)
      else ret ())"

definition completed_fire :: "datetime \<Rightarrow> reminder_fire \<Rightarrow> reminder_fire" where
  "completed_fire at f =
     f\<lparr>fire_state := FireCompleted,
       handled_at := Some (case handled_at f of Some h \<Rightarrow> h | None \<Rightarrow> at),
       fire_completed_at := Some at\<rparr>"

definition complete_fire :: "env \<Rightarrow> string \<Rightarrow> datetime \<Rightarrow> reminder_fire rem" where
  "complete_fire E fid at =
     bind (require_fire fid) (\<lambda>f.
     if fire_state f = FireCompleted then ret f
     else
       bind (require_reminder (fire_reminder_id f)) (\<lambda>r.
       bind (save_changed_fire E (completed_fire at) f) (\<lambda>updated.
       bind (advance_or_complete_after_occurrence E r (due_at f)) (\<lambda>_.
       ret updated))))"

definition mark_fire_handled :: "env \<Rightarrow> string \<Rightarrow> datetime \<Rightarrow> reminder_fire rem" where
  "mark_fire_handled E fid at =
     bind (require_fire fid) (save_changed_fire E (\<lambda>f. f\<lparr>handled_at := Some at\<rparr>))"

definition discard_proactive_fire :: "env \<Rightarrow> string \<Rightarrow> bool \<Rightarrow> reminder_fire rem" where
  "discard_proactive_fire E fid missed =
     bind (require_fire fid)
       (save_changed_fire E (\<lambda>f. f\<lparr>fire_state := FireDiscarded,
          missed_catch_up := (missed \<or> missed_catch_up f)\<rparr>))"

section \<open>Delivery\<close>

definition mark_fire_undelivered :: "env \<Rightarrow> string \<Rightarrow> reminder_fire rem" where
  "mark_fire_undelivered E fid =
     bind (require_fire fid) (save_changed_fire E (\<lambda>f. f\<lparr>fire_delivery := Some Undelivered\<rparr>))"

definition record_proactive_delivery :: "env \<Rightarrow> string \<Rightarrow> bool \<Rightarrow> reminder_fire rem" where
  "record_proactive_delivery E fid delivered =
     bind (require_fire fid) (\<lambda>f.
     if delivered then save_changed_fire E (\<lambda>f. f\<lparr>fire_delivery := Some Delivered\<rparr>) f
     else discard_proactive_fire E fid False)"

definition delivery_of :: "bool \<Rightarrow> delivery_result" where
  "delivery_of delivered = (if delivered then Delivered else Undelivered)"

definition record_one_delivery :: "env \<Rightarrow> bool \<Rightarrow> string \<Rightarrow> reminder_fire rem" where
  "record_one_delivery E delivered fid =
     bind (require_fire fid) (\<lambda>f.
     bind (require_reminder (fire_reminder_id f)) (\<lambda>r.
     if rem_kind r = Proactive then record_proactive_delivery E fid delivered
     else if fire_state f = FireCompleted then
       if delivered \<and> fire_delivery f \<noteq> Some Delivered
       then save_changed_fire E (\<lambda>f. f\<lparr>fire_delivery := Some Delivered\<rparr>) f
       else ret f
     else
       bind (save_changed_fire E (\<lambda>f. f\<lparr>fire_delivery := Some (delivery_of delivered)\<rparr>) f) (\<lambda>updated.
       if delivered then bind (py_now E) (\<lambda>now. complete_fire E fid now)
       else ret updated)))"

definition record_fire_delivery :: "env \<Rightarrow> string list \<Rightarrow> bool \<Rightarrow> reminder_fire list rem" where
  "record_fire_delivery E fids delivered = map_py (record_one_delivery E delivered) fids"

definition fire_trigger_id :: "string \<Rightarrow> datetime \<Rightarrow> string" where
  "fire_trigger_id owner due = ''reminder_fire:'' @ owner @ '':'' @ isoformat due"

definition deliver_one_fire :: "env \<Rightarrow> delivery_result \<Rightarrow> string \<Rightarrow> unit rem" where
  "deliver_one_fire E outcome fid =
     bind (require_fire fid) (\<lambda>f.
     bind (require_reminder (fire_reminder_id f)) (\<lambda>r.
     bind (save_changed_fire E
       (if rem_kind r = Proactive \<and> outcome \<noteq> Delivered
        then (\<lambda>f. f\<lparr>fire_state := FireDiscarded\<rparr>)
        else (\<lambda>f. f\<lparr>fire_delivery := Some outcome\<rparr>)) f) (\<lambda>_.
     ret ())))"

definition delivery_outcome :: "rem_ports \<Rightarrow> string \<Rightarrow> string list \<Rightarrow> string \<Rightarrow> pyexn + delivery_result" where
  "delivery_outcome P owner fids trigger =
     (case rp_delivery P of
        None \<Rightarrow> Inr Undelivered
      | Some send \<Rightarrow>
          sbind (send owner fids trigger) (\<lambda>raw. Inr (delivery_of (raw = ''delivered''))))"

definition deliver_fire_group ::
  "env \<Rightarrow> rem_ports \<Rightarrow> string \<Rightarrow> datetime \<Rightarrow> string list \<Rightarrow> fire_group rem" where
  "deliver_fire_group E P owner due fids =
     bind (lift (delivery_outcome P owner fids (fire_trigger_id owner due))) (\<lambda>outcome.
     bind (for_each fids (deliver_one_fire E outcome)) (\<lambda>_.
     ret \<lparr>fg_owner_account_id = owner, fg_due_at = due, fg_fire_ids = fids,
          fg_trigger_id = fire_trigger_id owner due\<rparr>))"

definition needs_resend :: "reminder \<Rightarrow> reminder_fire \<Rightarrow> bool" where
  "needs_resend r f \<longleftrightarrow>
     lifecycle r = Active \<and> rem_kind r \<noteq> Proactive \<and> fire_delivery f = Some Undelivered \<and>
     handled_at f = None \<and> fire_completed_at f = None"

definition undelivered_resend_turn :: "string \<Rightarrow> undelivered_resend rem" where
  "undelivered_resend_turn owner =
     bind (gets (\<lambda>s. list_fires_for_owner s owner)) (\<lambda>found.
     bind (lift found) (\<lambda>fires.
     bind (map_py (\<lambda>f. bind (require_reminder (fire_reminder_id f)) (\<lambda>r.
                        ret (if needs_resend r f then [fire_id f] else []))) fires) (\<lambda>ids.
     ret \<lparr>ur_owner_account_id = owner, ur_fire_ids = concat ids,
          ur_trigger_id = ''reminder_undelivered:'' @ owner\<rparr>)))"

section \<open>Render facts\<close>

definition render_fact ::
  "env \<Rightarrow> rem_ports \<Rightarrow> string \<Rightarrow> reminder_fire \<Rightarrow> reminder \<Rightarrow> pyexn + fire_render_fact" where
  "render_fact E P viewer f r =
     sbind (zoneinfo_or_utc E (captured_timezone r)) (\<lambda>(name, z).
     let due = (case due_at f of Naive w \<Rightarrow> Aware w 0 | d \<Rightarrow> d) in
     let names = (case (shared_reminder_id r, rp_friend_identifiers P) of
                    (Some sid, Some friends) \<Rightarrow> if sid \<noteq> [] then friends sid viewer else []
                  | _ \<Rightarrow> []) in
     sbind (to_zone E z due) (\<lambda>local_due.
     Inr \<lparr>frf_fire_id = fire_id f, frf_reminder_id = rem_id r, frf_title = content r,
          frf_owner_account_id = owner_account_id r, frf_viewer_account_id = viewer,
          frf_due_at = isoformat due, frf_local_due_at = isoformat local_due, frf_timezone = name,
          frf_duration_minutes = duration_minutes r, frf_kind = rem_kind r,
          frf_shared_reminder_id = shared_reminder_id r, frf_participant_names = names\<rparr>))"

definition reminder_fire_render_facts ::
  "env \<Rightarrow> rem_ports \<Rightarrow> string \<Rightarrow> string list \<Rightarrow> string option \<Rightarrow> fire_render_fact list rem" where
  "reminder_fire_render_facts E P owner fids viewer =
     (if fids = [] then rem_error ''reminder_fire_ids_required''
      else
        let viewer_id = (if missing_text viewer then owner else the viewer) in
        map_py (\<lambda>fid.
          bind (require_fire fid) (\<lambda>f.
          bind (require_reminder (fire_reminder_id f)) (\<lambda>r.
          if owner_account_id r \<noteq> owner then rem_error ''reminder_fire_not_found''
          else lift (render_fact E P viewer_id f r)))) fids)"

section \<open>The scheduler\<close>

text \<open>
  \<open>grouped[key].append(x)\<close> on a \<open>defaultdict(list)\<close> with datetimes in its keys: equal instants are
  one key, and the key kept is the first.
\<close>

fun add_group :: "('k \<Rightarrow> 'k \<Rightarrow> bool) \<Rightarrow> 'k \<Rightarrow> 'v \<Rightarrow> ('k \<times> 'v list) list \<Rightarrow> ('k \<times> 'v list) list" where
  "add_group same k v [] = [(k, [v])]"
| "add_group same k v ((k', vs) # gs) =
     (if same k' k then (k', vs @ [v]) # gs else (k', vs) # add_group same k v gs)"

definition same_owner_time :: "string \<times> datetime \<Rightarrow> string \<times> datetime \<Rightarrow> bool" where
  "same_owner_time a b \<longleftrightarrow> fst a = fst b \<and> dt_eq (snd a) (snd b)"

definition group_order :: "(string \<times> datetime) \<times> string list \<Rightarrow> string \<times> int" where
  "group_order g = (fst (fst g), dt_key (snd (fst g)))"

definition group_turns :: "((string \<times> datetime) \<times> string) list \<Rightarrow> fire_group list" where
  "group_turns claims =
     map (\<lambda>((owner, due), fids).
            \<lparr>fg_owner_account_id = owner, fg_due_at = due, fg_fire_ids = fids,
             fg_trigger_id = fire_trigger_id owner due\<rparr>)
       (sort_key group_order (fold (\<lambda>(k, v). add_group same_owner_time k v) claims []))"

definition claim_for :: "env \<Rightarrow> bool \<Rightarrow> reminder \<Rightarrow> ((string \<times> datetime) \<times> string) list rem" where
  "claim_for E missed r =
     (case next_fire_at r of
        None \<Rightarrow> ret []
      | Some due \<Rightarrow>
          bind (claim_due_fire E (rem_id r) due missed) (\<lambda>f.
          if missed \<and> rem_kind r = Proactive
          then bind (discard_proactive_fire E (fire_id f) True) (\<lambda>_. ret [])
          else ret [((owner_account_id r, due), fire_id f)]))"

definition collect_turns :: "env \<Rightarrow> bool \<Rightarrow> datetime \<Rightarrow> fire_group list rem" where
  "collect_turns E missed at =
     bind (gets (\<lambda>s. list_due_reminders s at)) (\<lambda>found.
     bind (lift found) (\<lambda>due.
     bind (map_py (claim_for E missed) due) (\<lambda>claims.
     ret (group_turns (concat claims)))))"

definition collect_due_fire_turns :: "env \<Rightarrow> datetime \<Rightarrow> fire_group list rem" where
  "collect_due_fire_turns E due = collect_turns E False due"

definition catch_up_missed :: "env \<Rightarrow> datetime \<Rightarrow> fire_group list rem" where
  "catch_up_missed E now = collect_turns E True now"

text \<open>\<open>datetime.combine(local_date, time(20, 0), tzinfo=zone)\<close> for a date that exists.\<close>

definition evening_of :: "zone \<Rightarrow> int \<times> int \<times> int \<Rightarrow> datetime" where
  "evening_of z date =
     (case date of (y, m, d) \<Rightarrow>
        let w = (ymd2ord y m d - 1) * day_us + 20 * hour_us; off = off_wall z w False
        in Aware (w - off) off)"

definition nightly_summary_turn ::
  "env \<Rightarrow> (string \<Rightarrow> string) \<Rightarrow> rem_state \<Rightarrow> string \<Rightarrow> int \<times> int \<times> int \<Rightarrow> pyexn + nightly_summary" where
  "nightly_summary_turn E account_timezone s owner local_date =
     sbind (env_zone E (account_timezone owner)) (\<lambda>z.
     let at = evening_of z local_date in
     Inr \<lparr>ns_owner_account_id = owner, ns_local_scheduled_at = at,
          ns_reminder_ids =
            map rem_id (filter (\<lambda>r. rem_kind r = NoTriggerTime) (list_active_reminders s owner)),
          ns_trigger_id = ''nightly_summary:'' @ owner @ '':'' @ isoformat at\<rparr>)"

end
