(* ===== verification/RemCalendar.thy ===== *)
theory RemCalendar
  imports RemFires
begin

text \<open>
  The calendar's read model (\<open>coke/domains/reminder/calendar_read_model.py\<close>): what an owner sees
  between two times. It only reads. Expanding a recurring reminder may not end
  (\<open>occurrences_between\<close>), so a query is an option: \<open>None\<close> is the query that does not return.
\<close>

section \<open>Sequencing reads that may not end\<close>

definition obind :: "(pyexn + 'a) option \<Rightarrow> ('a \<Rightarrow> (pyexn + 'b) option) \<Rightarrow> (pyexn + 'b) option" where
  "obind r f =
     (case r of None \<Rightarrow> None | Some (Inl e) \<Rightarrow> Some (Inl e) | Some (Inr x) \<Rightarrow> f x)"

fun collect_each :: "('x \<Rightarrow> (pyexn + 'b list) option) \<Rightarrow> 'x list \<Rightarrow> (pyexn + 'b list) option" where
  "collect_each f [] = Some (Inr [])"
| "collect_each f (x # xs) =
     obind (f x) (\<lambda>ys. obind (collect_each f xs) (\<lambda>zs. Some (Inr (ys @ zs))))"

section \<open>Entries\<close>

definition entry_at ::
  "env \<Rightarrow> zone \<Rightarrow> string \<Rightarrow> string option \<Rightarrow> string option \<Rightarrow> datetime \<Rightarrow> int \<Rightarrow> string \<Rightarrow>
    string list \<Rightarrow> string list \<Rightarrow> string list \<Rightarrow> fact \<Rightarrow> pyexn + calendar_entry" where
  "entry_at E z kind rid fid start minutes text handles friends members f =
     sbind (to_zone E z start) (\<lambda>display_start.
     sbind (dt_add start (minutes_us minutes)) (\<lambda>end_at.
     sbind (to_zone E z end_at) (\<lambda>display_end.
     Inr \<lparr>ce_entry_type = kind, ce_reminder_id = rid, ce_fire_id = fid,
          ce_display_start = Some display_start, ce_display_end = Some display_end,
          ce_content = text, ce_action_handles = handles, ce_friend_identifiers = friends,
          ce_member_reminder_ids = members, ce_fact = f\<rparr>)))"

text \<open>An entry without a duration, whose end is its start.\<close>

definition entry_point ::
  "env \<Rightarrow> zone \<Rightarrow> string \<Rightarrow> string option \<Rightarrow> string option \<Rightarrow> datetime \<Rightarrow> string \<Rightarrow>
    string list \<Rightarrow> string list \<Rightarrow> fact \<Rightarrow> pyexn + calendar_entry" where
  "entry_point E z kind rid fid at text handles members f =
     sbind (to_zone E z at) (\<lambda>display.
     Inr \<lparr>ce_entry_type = kind, ce_reminder_id = rid, ce_fire_id = fid,
          ce_display_start = Some display, ce_display_end = Some display,
          ce_content = text, ce_action_handles = handles, ce_friend_identifiers = [],
          ce_member_reminder_ids = members, ce_fact = f\<rparr>)"

definition unscheduled_entry :: "reminder \<Rightarrow> calendar_entry" where
  "unscheduled_entry r =
     \<lparr>ce_entry_type = ''unscheduled'', ce_reminder_id = Some (rem_id r), ce_fire_id = None,
      ce_display_start = None, ce_display_end = None, ce_content = content r,
      ce_action_handles = [''edit'', ''complete'', ''delete''], ce_friend_identifiers = [],
      ce_member_reminder_ids = [], ce_fact = [(''kind'', PyStr (kind_name (rem_kind r)))]\<rparr>"

definition occurrence_entry :: "env \<Rightarrow> zone \<Rightarrow> reminder \<Rightarrow> datetime \<Rightarrow> pyexn + calendar_entry" where
  "occurrence_entry E z r occurrence =
     entry_at E z ''recurring_occurrence'' (Some (rem_id r)) None occurrence (duration_minutes r)
       (content r) [''complete_occurrence'', ''edit_series'', ''delete_series''] [] []
       [(''kind'', PyStr (kind_name (rem_kind r))), (''occurrence_key'', PyStr (isoformat occurrence))]"

definition one_time_entry ::
  "env \<Rightarrow> rem_ports \<Rightarrow> zone \<Rightarrow> string \<Rightarrow> reminder \<Rightarrow> datetime \<Rightarrow> pyexn + calendar_entry" where
  "one_time_entry E P z owner r t =
     (if rem_kind r = SharedProjection then
        let shared_id = (case shared_reminder_id r of None \<Rightarrow> [] | Some sid \<Rightarrow> sid) in
        entry_at E z ''shared_projection'' (Some (rem_id r)) None t (duration_minutes r) (content r)
          [''complete_own_projection'', ''cancel_whole_shared_reminder'']
          (case rp_friend_identifiers P of None \<Rightarrow> [] | Some friends \<Rightarrow> friends shared_id owner) []
          [(''kind'', PyStr (kind_name (rem_kind r))), (''shared_reminder_id'', PyStr shared_id)]
      else
        entry_at E z ''one_time'' (Some (rem_id r)) None t (duration_minutes r) (content r)
          [''edit'', ''complete'', ''delete''] [] [] [(''kind'', PyStr (kind_name (rem_kind r)))])"

definition in_view :: "datetime \<Rightarrow> datetime \<Rightarrow> datetime \<Rightarrow> pyexn + bool" where
  "in_view start end_at t =
     sbind (dt_le start t) (\<lambda>after. if \<not> after then Inr False else dt_le t end_at)"

definition reminder_entries ::
  "env \<Rightarrow> rem_ports \<Rightarrow> zone \<Rightarrow> string \<Rightarrow> datetime \<Rightarrow> datetime \<Rightarrow> reminder \<Rightarrow>
    (pyexn + calendar_entry list) option" where
  "reminder_entries E P z owner start end_at r =
     (if rem_kind r = NoTriggerTime then Some (Inr [unscheduled_entry r])
      else
        case next_fire_at r of
          None \<Rightarrow> Some (Inr [])
        | Some t \<Rightarrow>
            if rem_kind r = Recurring then
              obind (occurrences_between E (recurrence_rule r) t (captured_timezone r) start end_at 256)
                (\<lambda>os. Some (map_sum_list (occurrence_entry E z r) os))
            else
              Some (sbind (in_view start end_at t) (\<lambda>visible.
                    if \<not> visible then Inr []
                    else sbind (one_time_entry E P z owner r t) (\<lambda>e. Inr [e]))))"

section \<open>Merged groups and undelivered fires\<close>

definition merged_groups ::
  "env \<Rightarrow> rem_state \<Rightarrow> zone \<Rightarrow> string \<Rightarrow> datetime \<Rightarrow> datetime \<Rightarrow> pyexn + calendar_entry list" where
  "merged_groups E s z owner start end_at =
     sbind (filter_sum
       (\<lambda>r. if hidden_from_calendar r then Inr False
            else case next_fire_at r of None \<Rightarrow> Inr False | Some t \<Rightarrow> in_view start end_at t)
       (list_active_reminders s owner)) (\<lambda>visible.
     let grouped = fold (\<lambda>r. add_group dt_eq (the (next_fire_at r)) (rem_id r)) visible [] in
     map_sum_list
       (\<lambda>(due, members).
          entry_point E z ''merged_group'' None None due [] [''expand''] members
            [(''due_at'', PyStr (isoformat due))])
       (filter (\<lambda>(_, members). 1 < length members) (sort_key (\<lambda>(due, _). dt_key due) grouped)))"

definition shown_undelivered :: "rem_state \<Rightarrow> reminder_fire \<Rightarrow> (reminder_fire \<times> reminder) option" where
  "shown_undelivered s f =
     (if fire_delivery f \<noteq> Some Undelivered \<or> handled_at f \<noteq> None then None
      else
        case get_reminder s (fire_reminder_id f) of
          None \<Rightarrow> None
        | Some r \<Rightarrow> if lifecycle r \<noteq> Active then None else Some (f, r))"

definition undelivered_entries ::
  "env \<Rightarrow> rem_state \<Rightarrow> zone \<Rightarrow> string \<Rightarrow> pyexn + calendar_entry list" where
  "undelivered_entries E s z owner =
     sbind (list_fires_for_owner s owner) (\<lambda>fires.
     map_sum_list
       (\<lambda>(f, r).
          entry_point E z ''undelivered'' (Some (rem_id r)) (Some (fire_id f)) (due_at f) (content r)
            [''complete'', ''delete''] [] [(''delivery_result'', PyStr ''undelivered'')])
       (List.map_filter (shown_undelivered s) fires))"

definition calendar_entries ::
  "env \<Rightarrow> rem_ports \<Rightarrow> rem_state \<Rightarrow> string \<Rightarrow> datetime \<Rightarrow> datetime \<Rightarrow> string \<Rightarrow>
    (pyexn + calendar_entry list) option" where
  "calendar_entries E P s owner start end_at display_timezone =
     obind (Some (env_zone E display_timezone)) (\<lambda>z.
     obind (collect_each (reminder_entries E P z owner start end_at)
             (filter (\<lambda>r. \<not> hidden_from_calendar r) (list_active_reminders s owner))) (\<lambda>es.
     obind (Some (merged_groups E s z owner start end_at)) (\<lambda>groups.
     obind (Some (undelivered_entries E s z owner)) (\<lambda>undelivered.
     Some (Inr (es @ groups @ undelivered))))))"

end
