(* ===== verification/RemRecurrence.thy ===== *)
theory RemRecurrence
  imports RemTemporal
begin

text \<open>
  What the temporal definitions guarantee: a canonical rule is a fixed point of the normalisation,
  a normalised creation request is consistent, and the next occurrence of a rule is strictly later,
  so that the loops over occurrences end.
\<close>

section \<open>Window times and rules\<close>

lemma two_digits:
  "list_all (\<lambda>n. py_int (pad 2 n) = Some n \<and> list_all (\<lambda>c. c \<noteq> CHR '':'') (pad 2 n)) [0..59]"
  by code_simp

lemma pad_two:
  assumes "0 \<le> n" "n \<le> 59"
  shows "py_int (pad 2 n) = Some n" and "CHR '':'' \<notin> set (pad 2 n)"
proof -
  have "n \<in> set [0..59]" using assms by (simp only: set_upto atLeastAtMost_iff)
  with two_digits have "py_int (pad 2 n) = Some n \<and> list_all (\<lambda>c. c \<noteq> CHR '':'') (pad 2 n)"
    unfolding list_all_iff [of _ "[0..59]"] by (rule bspec)
  then show "py_int (pad 2 n) = Some n" and "CHR '':'' \<notin> set (pad 2 n)"
    by (auto simp: list_all_iff)
qed

lemma split_colon_hhmm:
  assumes "0 \<le> h" "h \<le> 59"
  shows "split_colon (hhmm h m) = Some (pad 2 h, pad 2 m)"
proof -
  have "\<forall>c\<in>set (pad 2 h). c \<noteq> CHR '':''" using pad_two(2) [OF assms] by auto
  then show ?thesis by (simp add: split_colon_def hhmm_def)
qed

text \<open>The window times that a canonical rule holds.\<close>

definition window_text :: "string \<Rightarrow> bool" where
  "window_text s \<longleftrightarrow> (\<exists>h m. 0 \<le> h \<and> h \<le> 23 \<and> 0 \<le> m \<and> m \<le> 59 \<and> s = hhmm h m)"

lemma window_textI: "0 \<le> h \<Longrightarrow> h \<le> 23 \<Longrightarrow> 0 \<le> m \<Longrightarrow> m \<le> 59 \<Longrightarrow> window_text (hhmm h m)"
  by (auto simp: window_text_def)

lemma canonical_window_time_text: "canonical_window_time v = Inr s \<Longrightarrow> window_text s"
proof -
  assume c: "canonical_window_time v = Inr s"
  have t: "0 \<le> time_of t div hour_us \<and> time_of t div hour_us \<le> 23 \<and>
           0 \<le> time_of t div minute_us mod 60 \<and> time_of t div minute_us mod 60 \<le> 59" for t
    using time_of_bounds [of t] by (auto simp: us_defs)
  show "window_text s"
  proof (cases v)
    case (PyTime t)
    with c have "s = hhmm (time_of t div hour_us) (time_of t div minute_us mod 60)"
      by (simp add: canonical_window_time_def)
    with t show ?thesis by (simp add: window_textI)
  next
    case (PyStr w)
    with c show ?thesis
      by (auto simp: canonical_window_time_def intro: window_textI split: option.splits if_splits)
  qed (use c in \<open>simp_all add: canonical_window_time_def\<close>)
qed

lemma canonical_window_time_fix: "window_text s \<Longrightarrow> canonical_window_time (PyStr s) = Inr s"
  by (auto simp: window_text_def canonical_window_time_def split_colon_hhmm pad_two)

lemma rule_time_text:
  assumes "window_text s"
  shows "\<exists>t. rule_time (Some (PyStr s)) d = Inr t \<and> 0 \<le> t \<and> t < day_us"
proof -
  from assms obtain h m where hm: "0 \<le> h" "h \<le> 23" "0 \<le> m" "m \<le> 59" and s: "s = hhmm h m"
    by (auto simp: window_text_def)
  then have "rule_time (Some (PyStr s)) d = Inr (h * hour_us + m * minute_us)"
    by (simp add: rule_time_def split_colon_hhmm pad_two)
  with hm show ?thesis by (simp add: us_defs)
qed

text \<open>The shape of a canonical rule.\<close>

definition rule_ok :: "fact \<Rightarrow> bool" where
  "rule_ok rule \<longleftrightarrow>
     rule = [] \<or>
     (\<exists>f n ws we. f \<in> set supported_frequencies \<and> 1 \<le> n \<and>
        (ws = [] \<or> (\<exists>s. window_text s \<and> ws = [(''window_start'', PyStr s)])) \<and>
        (we = [] \<or> (\<exists>s. window_text s \<and> we = [(''window_end'', PyStr s)])) \<and>
        rule = [(''frequency'', PyStr f), (''interval'', PyInt n)] @ ws @ we)"

lemma frequency_fix: "f \<in> set supported_frequencies \<Longrightarrow> py_lower (py_strip f) = f"
proof -
  have "list_all (\<lambda>f. py_lower (py_strip f) = f) supported_frequencies" by code_simp
  then show "f \<in> set supported_frequencies \<Longrightarrow> py_lower (py_strip f) = f"
    by (simp add: list_all_iff)
qed

lemma canonical_window_shape:
  "canonical_window d key = Inr ws \<Longrightarrow> ws = [] \<or> (\<exists>s. window_text s \<and> ws = [(key, PyStr s)])"
  by (auto simp: canonical_window_def sbind_Inr_iff canonical_window_time_text split: option.splits)

lemma positive_int_ge: "positive_int v code = Inr n \<Longrightarrow> 1 \<le> n"
  by (auto simp: positive_int_def sbind_Inr_iff split: if_splits)

lemma canonical_rule_ok: "canonical_recurrence_rule v = Inr rule \<Longrightarrow> rule_ok rule"
proof -
  assume c: "canonical_recurrence_rule v = Inr rule"
  show "rule_ok rule"
  proof (cases "rule = []")
    case False
    from c obtain d where v: "v = PyDict d"
      by (cases v) (simp_all add: canonical_recurrence_rule_def)
    from c False obtain f n ws we where
      f: "py_lower (py_strip f) \<in> set supported_frequencies" and
      n: "positive_int (case dget d ''interval'' of None \<Rightarrow> PyInt 1 | Some i \<Rightarrow> i)
            ''invalid_recurrence_rule'' = Inr n" and
      ws: "canonical_window d ''window_start'' = Inr ws" and
      we: "canonical_window d ''window_end'' = Inr we" and
      r: "rule = [(''frequency'', PyStr (py_lower (py_strip f))), (''interval'', PyInt n)] @ ws @ we"
      unfolding v canonical_recurrence_rule_def
      by (auto simp: sbind_Inr_iff Let_def split: if_splits option.splits pyval.splits)
    show ?thesis
      unfolding rule_ok_def r
      using f positive_int_ge [OF n] canonical_window_shape [OF ws] canonical_window_shape [OF we]
      by blast
  qed (simp add: rule_ok_def)
qed

lemma rule_ok_fix: "rule_ok rule \<Longrightarrow> canonical_recurrence_rule (PyDict rule) = Inr rule"
  by (auto simp: rule_ok_def canonical_recurrence_rule_def canonical_window_def frequency_fix
      positive_int_def canonical_window_time_fix recurrence_keys_def)

section \<open>Creation requests\<close>

lemma normalize_create_temporal_ok:
  assumes "normalize_create_temporal trigger rule minutes kind = Inr t"
  shows "rule_ok (tf_recurrence_rule t)"
    and "tf_kind t = Recurring \<longleftrightarrow> tf_recurrence_rule t \<noteq> []"
    and "tf_kind t \<in> {Timed, Recurring} \<Longrightarrow> tf_trigger_time t \<noteq> None"
    and "tf_kind t = NoTriggerTime \<Longrightarrow> tf_trigger_time t = None"
    and "1 \<le> tf_duration_minutes t"
    and "tf_trigger_time t = trigger"
proof -
  from assms obtain cr k parsed d where
    cr: "canonical_recurrence_rule rule = Inr cr" and
    k: "check_create_kind k trigger cr = Inr ()" and
    parsed: "(case minutes of None \<Rightarrow> Inr None
        | Some v \<Rightarrow> sbind (positive_duration_minutes v) (\<lambda>n. Inr (Some n))) = Inr parsed" and
    d: "storage_duration (calendar_visible_create k trigger) parsed = Inr d" and
    t: "t = \<lparr>tf_kind = k, tf_trigger_time = trigger, tf_recurrence_rule = cr, tf_duration_minutes = d\<rparr>"
    by (auto simp: normalize_create_temporal_def sbind_Inr_iff)
  have "\<forall>n. parsed = Some n \<longrightarrow> 1 \<le> n"
    using parsed positive_int_ge
    by (auto simp: positive_duration_minutes_def sbind_Inr_iff split: option.splits)
  with d have "1 \<le> d"
    by (auto simp: storage_duration_def internal_storage_duration_minutes_def
        split: option.splits if_splits)
  then show "1 \<le> tf_duration_minutes t" by (simp add: t)
  show "rule_ok (tf_recurrence_rule t)" using canonical_rule_ok [OF cr] by (simp add: t)
  show "tf_kind t = Recurring \<longleftrightarrow> tf_recurrence_rule t \<noteq> []"
    and "tf_kind t \<in> {Timed, Recurring} \<Longrightarrow> tf_trigger_time t \<noteq> None"
    and "tf_kind t = NoTriggerTime \<Longrightarrow> tf_trigger_time t = None"
    using k by (auto simp: t check_create_kind_def split: if_splits)
  show "tf_trigger_time t = trigger" by (simp add: t)
qed

section \<open>The next occurrence is later\<close>

lemma days_before_month_Suc:
  "1 \<le> m \<Longrightarrow> m < 12 \<Longrightarrow> days_before_month y (m + 1) = days_before_month y m + days_in_month y m"
  by (rule month_cases [of m]) simp_all

lemma days_before_month_less:
  assumes "m < m'" "1 \<le> m" "m' \<le> 12"
  shows "days_before_month y m + days_in_month y m \<le> days_before_month y m'"
proof -
  have "m + 1 \<le> m'" using assms by simp
  then show ?thesis using assms(2,3)
  proof (induction m' rule: int_ge_induct)
    case base
    then show ?case using days_before_month_Suc [of m y] by simp
  next
    case (step i)
    have "0 < days_in_month y i" by (simp add: days_in_month_def)
    with step days_before_month_Suc [of i y] show ?case by simp
  qed
qed

lemma ymd2ord_less:
  assumes "valid_date y m d" "valid_date y' m' d'" and "y < y' \<or> y = y' \<and> m < m'"
  shows "ymd2ord y m d < ymd2ord y' m' d'"
proof (cases "y < y'")
  case True
  then have "days_before_year (y + 1) \<le> days_before_year y'" by (intro days_before_year_mono) simp
  with ymd2ord_bounds [OF assms(1)] ymd2ord_bounds [OF assms(2)] show ?thesis by simp
next
  case False
  with assms days_before_month_less [of m m' y] show ?thesis
    by (auto simp: ymd2ord_def valid_date_def)
qed

lemma wall_split: "w = (w div day_us) * day_us + time_of w"
  by (simp add: time_of_def)

lemma replace_date_later:
  assumes "date_of w = (y, m, d)" and "replace_date y' m' d (time_of w) = Inr w'"
    and "y < y' \<or> y = y' \<and> m < m'"
  shows "w + day_us \<le> w'"
proof -
  have ymd: "ymd2ord y m d = w div day_us + 1" and v: "valid_date y m d"
    using ord2ymd_correct [of "w div day_us + 1" y m d] assms(1) by (simp_all add: date_of_def)
  have v': "valid_date y' m' d" and w': "w' = (ymd2ord y' m' d - 1) * day_us + time_of w"
    using assms(2) by (auto simp: replace_date_def make_wall_def valid_date_def split: if_splits)
  from ymd2ord_less [OF v v' assms(3)] ymd have "w div day_us + 1 \<le> ymd2ord y' m' d - 1" by simp
  then have "(w div day_us + 1) * day_us \<le> (ymd2ord y' m' d - 1) * day_us"
    by (rule mult_right_mono) (simp add: day_us_def)
  with w' wall_split [of w] show ?thesis by (simp add: algebra_simps)
qed

lemma month_index_later:
  assumes "1 \<le> m" "m \<le> 12" "1 \<le> (n::int)"
  shows "y < y + (m - 1 + n) div 12 \<or> y = y + (m - 1 + n) div 12 \<and> m < (m - 1 + n) mod 12 + 1"
proof -
  have "(m - 1 + n) = 12 * ((m - 1 + n) div 12) + (m - 1 + n) mod 12" by simp
  moreover have "0 \<le> (m - 1 + n) mod 12" "(m - 1 + n) mod 12 < 12" by simp_all
  moreover have "0 \<le> (m - 1 + n) div 12" using assms by (simp add: pos_imp_zdiv_nonneg_iff)
  ultimately show ?thesis using assms by linarith
qed

lemma us_pos: "0 < hour_us" "0 < day_us" "hour_us \<le> day_us"
  by (simp_all add: us_defs)

lemma add_interval_later:
  assumes "add_interval (w, f) frequency n = Inr (w', f')" and n: "1 \<le> n"
  shows "w + (if frequency = ''hourly'' then hour_us else day_us) \<le> w'"
proof -
  have hour: "hour_us \<le> n * hour_us" and day: "day_us \<le> n * day_us" "day_us \<le> n * (7 * day_us)"
    using n by (simp_all add: us_defs)
  obtain y m d where ymd: "date_of w = (y, m, d)" by (cases "date_of w") auto
  then have v: "valid_date y m d" using ord2ymd_correct(2) by (auto simp: date_of_def)
  from assms(1) consider
      "frequency = ''hourly''" "w' = w + n * hour_us"
    | "frequency = ''daily''" "w' = w + n * day_us"
    | "frequency = ''weekly''" "w' = w + n * (7 * day_us)"
    | "frequency = ''monthly''"
      "replace_date (y + (m - 1 + n) div 12) ((m - 1 + n) mod 12 + 1) d (time_of w) = Inr w'"
    | "frequency = ''yearly''" "replace_date (y + n) m d (time_of w) = Inr w'"
    by (auto simp: add_interval_def add_wall_def ymd sbind_Inr_iff Let_def split: if_splits)
  then show ?thesis
  proof cases
    case 4
    have "w + day_us \<le> w'"
      by (rule replace_date_later [OF ymd 4(2)]) (use v n in \<open>auto simp: valid_date_def intro!: month_index_later\<close>)
    with 4 show ?thesis by simp
  next
    case 5
    have "w + day_us \<le> w'" by (rule replace_date_later [OF ymd 5(2)]) (use n in simp)
    with 5 show ?thesis by simp
  qed (use hour day in simp_all)
qed

lemma fit_hourly_window_later:
  assumes "rule_ok rule" and "fit_hourly_window (w, f) rule = Inr (w', f')"
  shows "w \<le> w'"
proof -
  from assms(1) consider "dget rule ''window_start'' = None"
    | s where "window_text s" "dget rule ''window_start'' = Some (PyStr s)"
    by (auto simp: rule_ok_def)
  then obtain start where start: "rule_time (dget rule ''window_start'') (8 * hour_us) = Inr start"
      and "0 \<le> start"
  proof cases
    case 1
    with that [of "8 * hour_us"] show ?thesis by (simp add: rule_time_def us_defs)
  next
    case (2 s)
    with rule_time_text [of s "8 * hour_us"] that show ?thesis by auto
  qed
  with assms(2) time_of_bounds [of w] show ?thesis
    by (auto simp: fit_hourly_window_def sbind_Inr_iff Let_def split: if_splits)
qed

text \<open>
  What the loops over occurrences rely on in a zone: a wall clock reading that is later than the
  reading of an instant, by an hour when it is read with fold 0 and by a day when it is read with
  either fold, denotes a later instant. By PEP 495 this holds in every zone that never sets its
  clocks back by more than an hour, nor forward by a day.
\<close>

definition zone_forward :: "zone \<Rightarrow> bool \<Rightarrow> int \<Rightarrow> bool" where
  "zone_forward z f n \<longleftrightarrow> (\<forall>u w. u + off_at z u + n \<le> w \<longrightarrow> u < w - off_wall z w f)"

definition zone_regular :: "zone \<Rightarrow> bool" where
  "zone_regular z \<longleftrightarrow>
     zone_ok z \<and> zone_forward z False hour_us \<and> zone_forward z False day_us \<and>
     zone_forward z True day_us"

lemma zone_regular_fixed [simp]: "zone_regular (fixed_zone k)"
  by (auto simp: zone_regular_def zone_forward_def) (simp_all add: fixed_zone_def us_defs)

lemma add_interval_hourly_fold:
  "add_interval (w, f) ''hourly'' n = Inr (w', f') \<Longrightarrow> f' = False"
  by (auto simp: add_interval_def add_wall_def split: if_splits)

lemma fit_hourly_window_fold:
  "fit_hourly_window (w, False) rule = Inr (w', f') \<Longrightarrow> f' = False"
  by (auto simp: fit_hourly_window_def sbind_Inr_iff Let_def split: if_splits)

text \<open>The steps of a successful \<open>next_occurrence_after\<close>.\<close>

lemma next_occurrence_steps:
  assumes "next_occurrence_after E rule previous captured = Inr following" and "env_zone E captured = Inr z"
  obtains cr f n t w fo w1 f1 w2 f2 where
    "canonical_recurrence_rule (PyDict rule) = Inr cr" "rule_ok cr"
    "dget cr ''frequency'' = Some (PyStr f)" "dget cr ''interval'' = Some (PyInt n)" "1 \<le> n"
    "to_utc E previous = Inr t" "local_of z (dt_key t) = Inr (w, fo)"
    "add_interval (w, fo) f n = Inr (w1, f1)"
    "(if f = ''hourly'' then fit_hourly_window (w1, f1) cr else Inr (w1, f1)) = Inr (w2, f2)"
    "utc_of z (w2, f2) = Inr following"
proof -
  from assms obtain cr where cr: "canonical_recurrence_rule (PyDict rule) = Inr cr" "cr \<noteq> []"
    by (auto simp: next_occurrence_after_def sbind_Inr_iff split: if_splits)
  then have ok: "rule_ok cr" using canonical_rule_ok by blast
  then obtain f n where f: "dget cr ''frequency'' = Some (PyStr f)"
      and n: "dget cr ''interval'' = Some (PyInt n)" "1 \<le> n"
    using cr(2) by (auto simp: rule_ok_def)
  show thesis
    using assms cr ok f n
    by (auto simp: next_occurrence_after_def sbind_Inr_iff intro!: that)
qed

lemma utc_of_aware: "utc_of z l = Inr d \<Longrightarrow> d = Aware (fst l - off_wall z (fst l) (snd l)) 0"
  by (auto simp: utc_of_def Let_def split: prod.splits if_splits)

lemma next_occurrence_later:
  assumes later: "next_occurrence_after E rule previous captured = Inr following"
    and z: "env_zone E captured = Inr z" "zone_regular z" and aware: "is_aware previous"
  shows "is_aware following" and "dt_key previous < dt_key following"
proof -
  from later z(1) obtain cr f n t w fo w1 f1 w2 f2 where
    st: "canonical_recurrence_rule (PyDict rule) = Inr cr" "rule_ok cr"
    "dget cr ''frequency'' = Some (PyStr f)" "dget cr ''interval'' = Some (PyInt n)" "1 \<le> n"
    "to_utc E previous = Inr t" "local_of z (dt_key t) = Inr (w, fo)"
    "add_interval (w, fo) f n = Inr (w1, f1)"
    "(if f = ''hourly'' then fit_hourly_window (w1, f1) cr else Inr (w1, f1)) = Inr (w2, f2)"
    "utc_of z (w2, f2) = Inr following"
    by (rule next_occurrence_steps)
  have t: "dt_key t = dt_key previous" using to_utc_aware [OF aware st(6)] by simp
  have w: "w = dt_key previous + off_at z (dt_key previous)"
    using st(7) t by (auto simp: local_of_def split: if_splits)
  have nx: "following = Aware (w2 - off_wall z w2 f2) 0" using utc_of_aware [OF st(10)] by simp
  have "w1 \<le> w2"
    using st(2,9) fit_hourly_window_later [of cr w1 f1 w2 f2] by (auto split: if_splits)
  moreover have "w + (if f = ''hourly'' then hour_us else day_us) \<le> w1"
    by (rule add_interval_later [OF st(8,5)])
  moreover have "f2 = False" if "f = ''hourly''"
  proof -
    have "f1 = False" using st(8) that add_interval_hourly_fold by simp
    with st(9) that show ?thesis using fit_hourly_window_fold by simp
  qed
  ultimately have "dt_key previous < w2 - off_wall z w2 f2"
    using z(2) w by (cases f2) (auto simp: zone_regular_def zone_forward_def split: if_splits)
  then show "dt_key previous < dt_key following" using nx by simp
  show "is_aware following" using nx by simp
qed

text \<open>Days and weeks keep the wall clock: the next occurrence shows the same time of day.\<close>

lemma next_occurrence_same_time:
  assumes later: "next_occurrence_after E rule previous captured = Inr following"
    and z: "env_zone E captured = Inr z" "zone_ok z" and aware: "is_aware previous"
    and rule: "canonical_recurrence_rule (PyDict rule) = Inr cr"
      "dget cr ''frequency'' = Some (PyStr f)" "f \<in> {''daily'', ''weekly''}"
      "dget cr ''interval'' = Some (PyInt n)"
    and exists: "u + off_at z u = dt_key previous + off_at z (dt_key previous) +
        n * (if f = ''daily'' then day_us else 7 * day_us)" "\<not> fold_at z u"
  shows "dt_key following = u" and "local_of z u = Inr (u + off_at z u, False)"
    and "time_of (u + off_at z u) = time_of (dt_key previous + off_at z (dt_key previous))"
proof -
  from later z(1) obtain cr' f' n' t w fo w1 f1 w2 f2 where
    st: "canonical_recurrence_rule (PyDict rule) = Inr cr'" "rule_ok cr'"
    "dget cr' ''frequency'' = Some (PyStr f')" "dget cr' ''interval'' = Some (PyInt n')" "1 \<le> n'"
    "to_utc E previous = Inr t" "local_of z (dt_key t) = Inr (w, fo)"
    "add_interval (w, fo) f' n' = Inr (w1, f1)"
    "(if f' = ''hourly'' then fit_hourly_window (w1, f1) cr' else Inr (w1, f1)) = Inr (w2, f2)"
    "utc_of z (w2, f2) = Inr following"
    by (rule next_occurrence_steps)
  have same: "cr' = cr" "f' = f" "n' = n" using st(1,3,4) rule by auto
  have t: "dt_key t = dt_key previous" using to_utc_aware [OF aware st(6)] by simp
  have w: "w = dt_key previous + off_at z (dt_key previous)"
    using st(7) t by (auto simp: local_of_def split: if_splits)
  have w2: "w2 = u + off_at z u" "f2 = False" "wall_ok (u + off_at z u)"
    using st(8,9) rule(3) exists(1) w
    by (auto simp: same add_interval_def add_wall_def split: if_splits)
  have "off_wall z (u + off_at z u) (fold_at z u) = off_at z u"
    using z(2) by (simp add: zone_ok_def)
  then show "dt_key following = u"
    using utc_of_aware [OF st(10)] w2 exists(2) by simp
  show "local_of z u = Inr (u + off_at z u, False)"
    using w2(3) exists(2) by (simp add: local_of_def)
  show "time_of (u + off_at z u) = time_of (dt_key previous + off_at z (dt_key previous))"
    using exists(1) by (simp add: time_of_def mult.assoc [symmetric])
qed

section \<open>The loops over occurrences\<close>

text \<open>
  A step function that always moves later: the loop before the range ends, and the loop within
  it collects increasing times of the range.
\<close>

definition advances :: "(datetime \<Rightarrow> pyexn + datetime) \<Rightarrow> bool" where
  "advances step \<longleftrightarrow>
     (\<forall>d e. is_aware d \<longrightarrow> step d = Inr e \<longrightarrow> is_aware e \<and> dt_key d < dt_key e)"

lemma skip_before_ends:
  assumes "advances step" "is_aware start"
  shows "is_aware current \<Longrightarrow> \<exists>r. skip_before step start current = Some r \<and>
    (\<forall>d. r = Inr d \<longrightarrow> is_aware d \<and> dt_key start \<le> dt_key d \<and> dt_key current \<le> dt_key d)"
proof (induction "nat (dt_key start - dt_key current)" arbitrary: current rule: less_induct)
  case less
  show ?case
  proof (cases "dt_key current < dt_key start")
    case False
    with less.prems assms(2) show ?thesis
      by (subst skip_before.simps) (simp add: dt_lt_key)
  next
    case True
    show ?thesis
    proof (cases "step current")
      case (Inl e)
      with True less.prems assms(2) show ?thesis
        by (subst skip_before.simps) (simp add: dt_lt_key)
    next
      case (Inr later)
      with assms(1) less.prems have later: "is_aware later" "dt_key current < dt_key later"
        by (auto simp: advances_def)
      then have "nat (dt_key start - dt_key later) < nat (dt_key start - dt_key current)"
        using True by simp
      from less.hyps [OF this later(1)] later obtain r where
        "skip_before step start later = Some r"
        "\<forall>d. r = Inr d \<longrightarrow> is_aware d \<and> dt_key start \<le> dt_key d \<and> dt_key current \<le> dt_key d"
        by force
      with True Inr less.prems assms(2) show ?thesis
        by (subst skip_before.simps) (simp add: dt_lt_key)
    qed
  qed
qed

lemma collect_between_range:
  assumes "advances step" "is_aware start" "is_aware end_at"
  shows "is_aware current \<Longrightarrow> collect_between step start end_at n current = Inr ds \<Longrightarrow>
    length ds \<le> n \<and> sorted_wrt (\<lambda>a b. dt_key a < dt_key b) ds \<and>
    (\<forall>d\<in>set ds. is_aware d \<and> dt_key start \<le> dt_key d \<and> dt_key d \<le> dt_key end_at \<and>
                dt_key current \<le> dt_key d)"
proof (induction n arbitrary: current ds)
  case 0
  then show ?case using assms by (auto simp: dt_le_key split: if_splits)
next
  case (Suc n)
  show ?case
  proof (cases "ds = []")
    case False
    with Suc.prems assms obtain later rest where
      range: "dt_key start \<le> dt_key current" "dt_key current \<le> dt_key end_at" and
      step: "step current = Inr later" and
      rest: "collect_between step start end_at n later = Inr rest" and ds: "ds = current # rest"
      by (auto simp: dt_le_key sbind_Inr_iff split: if_splits)
    have later: "is_aware later" "dt_key current < dt_key later"
      using assms(1) step Suc.prems(1) by (auto simp: advances_def)
    from Suc.IH [OF later(1) rest] later(2) range Suc.prems(1) ds show ?thesis by force
  qed simp
qed

lemma next_occurrence_advances:
  assumes "env_zone E captured = Inr z" "zone_regular z"
  shows "advances (\<lambda>d. next_occurrence_after E rule d captured)"
  unfolding advances_def using next_occurrence_later [OF _ assms] by blast

lemma occurrences_between_ends:
  assumes "env_zone E captured = Inr z" "zone_regular z"
    and aware: "is_aware first" "is_aware start" "is_aware end_at"
  obtains r where "occurrences_between E rule first captured start end_at limit = Some r"
    and "\<And>ds. r = Inr ds \<Longrightarrow>
      length ds \<le> limit \<and> sorted_wrt (\<lambda>a b. dt_key a < dt_key b) ds \<and>
      (\<forall>d\<in>set ds. is_aware d \<and> dt_key start \<le> dt_key d \<and> dt_key d \<le> dt_key end_at \<and>
                  dt_key first \<le> dt_key d)"
proof -
  let ?step = "\<lambda>d. next_occurrence_after E rule d captured"
  note adv = next_occurrence_advances [OF assms(1,2)]
  show thesis
  proof (cases "limit = 0")
    case True
    with aware show ?thesis
      by (intro that [of "collect_between ?step start end_at 0 first"])
        (auto simp: occurrences_between_def dt_lt_key dt_le_key Let_def split: if_splits)
  next
    case False
    from skip_before_ends [OF adv aware(2) aware(1)] obtain r where
      r: "skip_before ?step start first = Some r" and
      post: "\<forall>d. r = Inr d \<longrightarrow> is_aware d \<and> dt_key start \<le> dt_key d \<and> dt_key first \<le> dt_key d"
      by blast
    show ?thesis
    proof (cases r)
      case (Inl e)
      with False r show ?thesis
        by (intro that [of "Inl e"]) (simp_all add: occurrences_between_def)
    next
      case (Inr d)
      with post have d: "is_aware d" "dt_key first \<le> dt_key d" by auto
      show ?thesis
      proof (rule that [of "collect_between ?step start end_at limit d"])
        show "occurrences_between E rule first captured start end_at limit =
            Some (collect_between ?step start end_at limit d)"
          using False r Inr by (simp add: occurrences_between_def)
        fix ds
        assume "collect_between ?step start end_at limit d = Inr ds"
        from collect_between_range [OF adv aware(2,3) d(1) this] d(2)
        show "length ds \<le> limit \<and> sorted_wrt (\<lambda>a b. dt_key a < dt_key b) ds \<and>
          (\<forall>x\<in>set ds. is_aware x \<and> dt_key start \<le> dt_key x \<and> dt_key x \<le> dt_key end_at \<and>
                      dt_key first \<le> dt_key x)"
          by fastforce
      qed
    qed
  qed
qed

end
