(* ===== verification/RemContract.thy ===== *)
theory RemContract
  imports RemCalendar RemRecurrence
begin

text \<open>
  How the service uses its repository. The contract of the repository's atomic writes is a locale,
  interpreted on both of them. A second locale, \<open>store_contract\<close>, states what a property of the
  store must satisfy to be kept by the service: it survives the primitive writes of edited reminders
  and fires. Every operation of the service is shown to keep such a property, once, in the locale.
\<close>

section \<open>Well-formed data\<close>

definition reminder_wf :: "reminder \<Rightarrow> bool" where
  "reminder_wf r \<longleftrightarrow>
     rule_ok (recurrence_rule r) \<and> (rem_kind r = Recurring \<longleftrightarrow> recurrence_rule r \<noteq> []) \<and>
     (rem_kind r \<in> {Timed, Recurring} \<longrightarrow> next_fire_at r \<noteq> None) \<and>
     (rem_kind r = NoTriggerTime \<longrightarrow> next_fire_at r = None) \<and> 1 \<le> duration_minutes r"

definition fire_wf :: "reminder_fire \<Rightarrow> bool" where
  "fire_wf f \<longleftrightarrow>
     occurrence_key f = isoformat (due_at f) \<and>
     (fire_state f = FireCompleted \<longrightarrow> handled_at f \<noteq> None \<and> fire_completed_at f \<noteq> None)"

section \<open>The invariant\<close>

definition no_active_duplicates :: "rem_state \<Rightarrow> bool" where
  "no_active_duplicates s \<longleftrightarrow>
     (\<forall>a b i j. get_reminder s i = Some a \<longrightarrow> get_reminder s j = Some b \<longrightarrow> lifecycle a = Active \<longrightarrow>
        \<not> duplicate_of a b)"

definition rem_ok :: "rem_state \<Rightarrow> bool" where
  "rem_ok s \<longleftrightarrow>
     keyed rem_id (reminders_by_id s) \<and>
     (\<forall>i r. get_reminder s i = Some r \<longrightarrow> reminder_wf r) \<and>
     no_active_duplicates s \<and>
     indexed fire_id fire_key (fires_by_id s) (fires_by_occurrence s) \<and>
     (\<forall>i f. get_fire s i = Some f \<longrightarrow> fire_wf f \<and> get_reminder s (fire_reminder_id f) \<noteq> None) \<and>
     indexed ro_id ro_idempotency_key (rem_outbox_by_id s) (rem_outbox_by_key s)"

text \<open>The invariant together with a set of reminders known to exist: reminders are never removed.\<close>

definition rem_inv :: "string set \<Rightarrow> rem_state \<Rightarrow> bool" where
  "rem_inv K s \<longleftrightarrow> rem_ok s \<and> (\<forall>k\<in>K. get_reminder s k \<noteq> None)"

lemma rem_inv_empty: "rem_inv {} s = rem_ok s"
  by (simp add: rem_inv_def)

lemma rem_ok_empty [simp]: "rem_ok empty_rem_state"
  by (simp add: rem_ok_def empty_rem_state_def no_active_duplicates_def get_reminder_def get_fire_def)

text \<open>The parts of the state that the invariant reads.\<close>

lemma rem_inv_cong:
  assumes "reminders_by_id t = reminders_by_id s" "fires_by_id t = fires_by_id s"
    "fires_by_occurrence t = fires_by_occurrence s" "rem_outbox_by_id t = rem_outbox_by_id s"
    "rem_outbox_by_key t = rem_outbox_by_key s"
  shows "rem_inv K t = rem_inv K s"
  using assms
  by (simp add: rem_inv_def rem_ok_def no_active_duplicates_def get_reminder_def get_fire_def)

lemma rem_inv_clock [simp]: "rem_inv K (s\<lparr>clock := n\<rparr>) = rem_inv K s"
  "rem_inv K (s\<lparr>issued := n\<rparr>) = rem_inv K s" "rem_inv K (s\<lparr>traced := n\<rparr>) = rem_inv K s"
  by (rule rem_inv_cong; simp)+

section \<open>Primitive writes\<close>

lemma duplicate_sym:
  "lifecycle a = Active \<Longrightarrow> duplicate_of a b \<Longrightarrow> duplicate_of b a"
  by (auto simp: duplicate_of_def dt_eq_sym split: option.splits)

lemma duplicate_irrefl [simp]: "\<not> duplicate_of r r"
  by (simp add: duplicate_of_def)

lemma outbox_put_reminder [simp]:
  "rem_outbox_by_id (put_reminder r s) = rem_outbox_by_id s"
  "rem_outbox_by_key (put_reminder r s) = rem_outbox_by_key s"
  by (simp_all add: put_reminder_def)

lemma rem_inv_put_reminder:
  assumes inv: "rem_inv K s" and wf: "reminder_wf r"
    and new: "lifecycle r = Active \<Longrightarrow> \<not> list_ex (duplicate_of r) (dvalues (reminders_by_id s))"
  shows "rem_inv K (put_reminder r s)"
proof -
  have ok: "rem_ok s" and K: "\<forall>k\<in>K. get_reminder s k \<noteq> None" using inv by (simp_all add: rem_inv_def)
  have get: "get_reminder (put_reminder r s) i = (if i = rem_id r then Some r else get_reminder s i)" for i
    by (simp add: get_reminder_def put_reminder_def)
  have fires: "get_fire (put_reminder r s) i = get_fire s i" for i
    by (simp add: get_fire_def put_reminder_def)
  have in_values: "b \<in> set (dvalues (reminders_by_id s))" if "get_reminder s j = Some b" for j b
    using map_of_SomeD [OF that [unfolded get_reminder_def]] by (force simp: image_iff)
  have r: "\<not> duplicate_of r b" if "get_reminder s j = Some b" "lifecycle r = Active" for j b
    using new [OF that(2)] in_values [OF that(1)] by (auto simp: list_ex_iff)
  have r': "\<not> duplicate_of b r" if "get_reminder s j = Some b" "lifecycle b = Active" for j b
    using r [OF that(1)] duplicate_sym [OF that(2)] by (auto simp: duplicate_of_def)
  have no_dup: "no_active_duplicates (put_reminder r s)"
  proof -
    have old: "\<not> duplicate_of a b"
      if "get_reminder s i = Some a" "get_reminder s j = Some b" "lifecycle a = Active" for a b i j
      using ok that unfolding rem_ok_def no_active_duplicates_def by blast
    show ?thesis
      unfolding no_active_duplicates_def get
      using old r r' by (auto split: if_split_asm)
  qed
  have "keyed rem_id (reminders_by_id (put_reminder r s))"
    using ok by (simp add: rem_ok_def put_reminder_def keyed_dput)
  then show ?thesis
  proof -
    have "fires_by_id (put_reminder r s) = fires_by_id s"
      "fires_by_occurrence (put_reminder r s) = fires_by_occurrence s"
      by (simp_all add: put_reminder_def)
    with ok wf K no_dup show ?thesis
      using \<open>keyed rem_id (reminders_by_id (put_reminder r s))\<close>
      by (auto simp: rem_inv_def rem_ok_def get fires)
  qed
qed

lemma rem_inv_put_outbox:
  assumes "rem_inv K s" and "dget (rem_outbox_by_id s) (ro_id e) = None"
    and "dget (rem_outbox_by_key s) (ro_idempotency_key e) = None"
  shows "rem_inv K (put_rem_outbox e s)"
  using assms
  by (auto simp: rem_inv_def rem_ok_def no_active_duplicates_def get_reminder_def get_fire_def
      put_rem_outbox_def intro: indexed_add)

section \<open>Atomic writes\<close>

text \<open>
  What the service relies on: a write raises and changes nothing, or it stores the reminder and the
  event, neither of which clashes with what is stored.
\<close>

definition event_free :: "reminder_outbox \<Rightarrow> rem_state \<Rightarrow> bool" where
  "event_free e s \<longleftrightarrow>
     dget (rem_outbox_by_id s) (ro_id e) = None \<and>
     dget (rem_outbox_by_key s) (ro_idempotency_key e) = None"

definition not_duplicated :: "reminder \<Rightarrow> rem_state \<Rightarrow> bool" where
  "not_duplicated r s \<longleftrightarrow>
     (lifecycle r = Active \<longrightarrow> \<not> list_ex (duplicate_of r) (dvalues (reminders_by_id s)))"

locale atomic_store =
  fixes store :: "reminder \<Rightarrow> reminder_outbox \<Rightarrow> commit_guard \<Rightarrow> unit rem"
    and admits :: "reminder \<Rightarrow> rem_state \<Rightarrow> bool"
  assumes refused: "store r e g s = (Inl x, t) \<Longrightarrow> t = s"
    and stored: "store r e g s = (Inr u, t) \<Longrightarrow>
      g s = None \<and> admits r s \<and> not_duplicated r s \<and> event_free e s \<and>
      t = put_rem_outbox e (put_reminder r s)"
begin

lemma store_wp:
  assumes "\<And>x. X x s"
    and "g s = None \<Longrightarrow> admits r s \<Longrightarrow> not_duplicated r s \<Longrightarrow> event_free e s \<Longrightarrow>
         Q () (put_rem_outbox e (put_reminder r s))"
  shows "wp (store r e g) Q X s"
proof (cases "store r e g s")
  case (Pair res t)
  show ?thesis
  proof (cases res)
    case (Inl x)
    with Pair have "t = s" by (simp add: refused)
    with Inl Pair assms(1) show ?thesis by (simp add: wp_def)
  next
    case (Inr u)
    with Pair stored [of r e g s u t] assms(2) show ?thesis by (simp add: wp_def)
  qed
qed

lemma reminder_with_its_event:
  assumes "store r e g s = (Inr u, t)"
  shows "get_reminder t (rem_id r) = Some r"
    and "get_outbox_by_idempotency_key t (ro_idempotency_key e) = Some e"
  using stored [OF assms]
  by (simp_all add: get_reminder_def put_reminder_def put_rem_outbox_def
      get_outbox_by_idempotency_key_def)

lemma other_reminders_kept:
  "store r e g s = (res, t) \<Longrightarrow> i \<noteq> rem_id r \<Longrightarrow> get_reminder t i = get_reminder s i"
  by (cases res) (auto dest!: refused stored simp: get_reminder_def put_reminder_def put_rem_outbox_def)

end

lemma assert_no_duplicate_run:
  "assert_no_duplicate r s =
     (if not_duplicated r s then Inr () else Inl (ValueError ''duplicate_reminder''), s)"
  by (simp add: assert_no_duplicate_def not_duplicated_def py_run)

lemma add_rem_outbox_run:
  "add_rem_outbox e s =
     (if dget (rem_outbox_by_id s) (ro_id e) \<noteq> None
      then (Inl (ValueError ''duplicate_reminder_outbox_id''), s)
      else if dget (rem_outbox_by_key s) (ro_idempotency_key e) \<noteq> None
      then (Inl (ValueError ''duplicate_reminder_outbox_idempotency_key''), s)
      else (Inr (), put_rem_outbox e s))"
  by (simp add: add_rem_outbox_def py_run)

lemma atomic_write_run:
  "atomic_write operation s =
     (case operation s of
        (Inl x, t) \<Rightarrow>
          (Inl x, restore_write (reminders_by_id s) (rem_outbox_by_id s) (rem_outbox_by_key s) t)
      | (Inr u, t) \<Rightarrow> (Inr u, t))"
  by (simp add: atomic_write_def py_run split: sum.splits prod.splits)

lemma run_guard_run: "run_guard g s = (case g s of None \<Rightarrow> Inr () | Some x \<Rightarrow> Inl x, s)"
  by (simp add: run_guard_def py_run split: option.splits)

lemma restore_write_put [simp]:
  "restore_write (reminders_by_id s) (rem_outbox_by_id s) (rem_outbox_by_key s) (put_reminder r s) = s"
  "restore_write (reminders_by_id s) (rem_outbox_by_id s) (rem_outbox_by_key s) s = s"
  by (simp_all add: restore_write_def put_reminder_def)

lemmas write_runs = atomic_write_run run_guard_run assert_no_duplicate_run add_rem_outbox_run py_run

interpretation adding: atomic_store add_reminder_with_outbox
  "\<lambda>r s. get_reminder s (rem_id r) = None"
proof
  show "t = s" if "add_reminder_with_outbox r e g s = (Inl x, t)" for r e g s x t
    using that
    by (auto simp: add_reminder_with_outbox_def add_reminder_def write_runs
        split: option.splits if_splits)
  show "g s = None \<and> get_reminder s (rem_id r) = None \<and> not_duplicated r s \<and> event_free e s \<and>
      t = put_rem_outbox e (put_reminder r s)"
    if "add_reminder_with_outbox r e g s = (Inr u, t)" for r e g s u t
    using that
    by (auto simp: add_reminder_with_outbox_def add_reminder_def write_runs event_free_def
        split: option.splits if_splits)
qed

interpretation saving: atomic_store save_reminder_with_outbox
  "\<lambda>r s. get_reminder s (rem_id r) \<noteq> None"
proof
  show "t = s" if "save_reminder_with_outbox r e g s = (Inl x, t)" for r e g s x t
    using that
    by (auto simp: save_reminder_with_outbox_def save_reminder_def write_runs
        split: option.splits if_splits)
  show "g s = None \<and> get_reminder s (rem_id r) \<noteq> None \<and> not_duplicated r s \<and> event_free e s \<and>
      t = put_rem_outbox e (put_reminder r s)"
    if "save_reminder_with_outbox r e g s = (Inr u, t)" for r e g s u t
    using that
    by (auto simp: save_reminder_with_outbox_def save_reminder_def write_runs event_free_def
        split: option.splits if_splits)
qed

section \<open>What the service does to what it stores\<close>

text \<open>
  The edits of a reminder and of a fire: what identifies them stays, a reminder that is not active
  is not made active, a fire that is completed or discarded stays one of the two, and well-formed data stays well-formed.
\<close>

definition reminder_edited :: "reminder \<Rightarrow> reminder \<Rightarrow> bool" where
  "reminder_edited r r' \<longleftrightarrow>
     rem_id r' = rem_id r \<and> owner_account_id r' = owner_account_id r \<and>
     shared_reminder_id r' = shared_reminder_id r \<and> rem_created_at r' = rem_created_at r \<and>
     hidden_from_calendar r' = hidden_from_calendar r \<and>
     (lifecycle r' = Active \<longrightarrow> lifecycle r = Active) \<and> (reminder_wf r \<longrightarrow> reminder_wf r')"

definition fire_edited :: "reminder_fire \<Rightarrow> reminder_fire \<Rightarrow> bool" where
  "fire_edited f f' \<longleftrightarrow>
     fire_id f' = fire_id f \<and> fire_reminder_id f' = fire_reminder_id f \<and>
     occurrence_key f' = occurrence_key f \<and> due_at f' = due_at f \<and>
     fire_created_at f' = fire_created_at f \<and>
     (fire_completed_at f \<noteq> None \<longrightarrow> fire_completed_at f' \<noteq> None) \<and>
     (fire_state f \<in> {FireCompleted, FireDiscarded} \<longrightarrow> fire_state f' \<in> {FireCompleted, FireDiscarded}) \<and>
     (fire_wf f \<longrightarrow> fire_wf f')"

lemmas edited_defs = reminder_edited_def reminder_wf_def

lemma rule_ok_Nil [simp]: "rule_ok []"
  by (simp add: rule_ok_def)

lemma edited_touched: "reminder_edited r (r\<lparr>rem_updated_at := t\<rparr>)"
  by (simp add: edited_defs)

lemma edited_update_content: "update_content E text r = Some r' \<Longrightarrow> reminder_edited r r'"
  by (auto simp: update_content_def edited_defs Let_def split: option.splits if_splits)

lemma edited_update_trigger: "reminder_edited r (update_trigger t z r)"
  by (auto simp: update_trigger_def edited_defs)

lemma duration_or_error_ge: "duration_or_error v = Inr n \<Longrightarrow> 1 \<le> n"
  by (auto simp: duration_or_error_def positive_duration_minutes_def
      split: sum.splits pyexn.splits dest: positive_int_ge)

lemma wf_new_reminder:
  "normalize_create_temporal t rule d kind = Inr temporal \<Longrightarrow>
    reminder_wf (new_reminder E owner item text temporal now rid)"
  using normalize_create_temporal_ok [of t rule d kind temporal]
  by (auto simp: reminder_wf_def new_reminder_def)

lemma preserves_bind_lift:
  "(\<And>x. r = Inr x \<Longrightarrow> preserves I (f x)) \<Longrightarrow> preserves I (bind (lift r) f)"
  by (cases r) (simp_all add: preserves_def wp_simps)

definition inv_with :: "(rem_state \<Rightarrow> bool) \<Rightarrow> string set \<Rightarrow> rem_state \<Rightarrow> bool" where
  "inv_with J K s \<longleftrightarrow> rem_inv K s \<and> J s"

definition good :: "(reminder \<Rightarrow> bool) \<Rightarrow> reminder \<Rightarrow> bool" where
  "good kept r \<longleftrightarrow> reminder_wf r \<and> kept r"

definition good_fire :: "(reminder_fire \<Rightarrow> bool) \<Rightarrow> reminder_fire \<Rightarrow> bool" where
  "good_fire fire_kept f \<longleftrightarrow> fire_wf f \<and> fire_kept f"

named_theorems rem_keeps \<open>what the operations of the reminder service preserve\<close>

text \<open>
  \<open>J\<close> is a property of the store on top of the invariant. The first contract is about what a user
  asks for: the reminders the user's account owns are looked up, edited and written back, and
  \<open>kept\<close> is what \<open>J\<close> says of those.
\<close>

locale owner_contract =
  fixes J :: "rem_state \<Rightarrow> bool" and kept :: "reminder \<Rightarrow> bool" and owner :: string
  assumes J_frame: "J (s\<lparr>clock := n\<rparr>) = J s" "J (s\<lparr>issued := n\<rparr>) = J s" "J (s\<lparr>traced := n\<rparr>) = J s"
    and fetched_owned: "rem_ok s \<Longrightarrow> J s \<Longrightarrow> get_reminder s k = Some r \<Longrightarrow>
      owner_account_id r = owner \<Longrightarrow> lifecycle r = Active \<Longrightarrow> kept r"
    and kept_edited: "kept r \<Longrightarrow> reminder_edited r r' \<Longrightarrow> kept r'"
    and J_put: "J s \<Longrightarrow> kept r \<Longrightarrow> J (put_reminder r s)"
    and J_put_new: "J s \<Longrightarrow> get_reminder s (rem_id r) = None \<Longrightarrow> J (put_reminder r s)"
    and J_put_outbox: "J s \<Longrightarrow> event_free e s \<Longrightarrow> J (put_rem_outbox e s)"
begin

lemma services [preserves_intros]:
  "preserves (inv_with J K) (py_now E)" "preserves (inv_with J K) (new_id E p)"
  "preserves (inv_with J K) (new_traceparent E)"
  by (simp_all add: preserves_def wp_simps inv_with_def J_frame)

lemma good_edited: "good kept r \<Longrightarrow> reminder_edited r r' \<Longrightarrow> good kept r'"
  using kept_edited by (auto simp: good_def reminder_edited_def)

lemma inv_put:
  "inv_with J K s \<Longrightarrow> good kept r \<Longrightarrow> not_duplicated r s \<Longrightarrow> inv_with J K (put_reminder r s)"
  by (auto simp: inv_with_def good_def not_duplicated_def intro: rem_inv_put_reminder J_put)

lemma inv_put_new:
  "inv_with J K s \<Longrightarrow> reminder_wf r \<Longrightarrow> get_reminder s (rem_id r) = None \<Longrightarrow> not_duplicated r s \<Longrightarrow>
    inv_with J K (put_reminder r s)"
  by (auto simp: inv_with_def not_duplicated_def intro: rem_inv_put_reminder J_put_new)

lemma inv_put_outbox: "inv_with J K s \<Longrightarrow> event_free e s \<Longrightarrow> inv_with J K (put_rem_outbox e s)"
  by (simp add: inv_with_def event_free_def rem_inv_put_outbox J_put_outbox)

lemma event_free_put_reminder: "event_free e (put_reminder r s) = event_free e s"
  by (simp add: event_free_def)

lemma store_saves: "good kept r \<Longrightarrow> preserves (inv_with J K) (save_reminder_with_outbox r e g)"
  by (rule preservesI, rule saving.store_wp)
    (simp_all add: inv_put_outbox inv_put event_free_put_reminder)

lemma store_adds: "reminder_wf r \<Longrightarrow> preserves (inv_with J K) (add_reminder_with_outbox r e g)"
  by (rule preservesI, rule adding.store_wp)
    (simp_all add: inv_put_outbox inv_put_new event_free_put_reminder)

lemma inv_insert:
  "inv_with J K s \<Longrightarrow> get_reminder s k \<noteq> None \<Longrightarrow> inv_with J (insert k K) s"
  by (auto simp: inv_with_def rem_inv_def)

lemma preserves_weaken: "preserves (inv_with J (insert k K)) m \<Longrightarrow> inv_with J (insert k K) s \<Longrightarrow>
    wp m (\<lambda>_. inv_with J K) (\<lambda>_. inv_with J K) s"
  unfolding preserves_def by (erule allE [where x = s], drule mp, assumption, erule wp_mono)
    (auto simp: inv_with_def rem_inv_def)

text \<open>What a lookup that succeeds provides to the rest of the method.\<close>

lemma keeps_require_owned:
  assumes "\<And>r. good kept r \<Longrightarrow> rem_id r = rid \<Longrightarrow> owner_account_id r = owner \<Longrightarrow>
    lifecycle r = Active \<Longrightarrow> preserves (inv_with J (insert rid K)) (m r)"
  shows "preserves (inv_with J K) (bind (require_owned_reminder owner rid) m)"
proof (rule preservesI)
  fix s
  assume inv: "inv_with J K s"
  have refused: "wp (bind (require_owned_reminder owner rid) m) (\<lambda>_. inv_with J K) (\<lambda>_. inv_with J K) s"
    if "\<forall>r. get_reminder s rid = Some r \<longrightarrow> owner_account_id r \<noteq> owner \<or> lifecycle r \<noteq> Active"
    using that inv
    by (auto simp: require_owned_reminder_def require_reminder_def wp_simps split: option.splits)
  show "wp (bind (require_owned_reminder owner rid) m) (\<lambda>_. inv_with J K) (\<lambda>_. inv_with J K) s"
  proof (cases "\<exists>r. get_reminder s rid = Some r \<and> owner_account_id r = owner \<and> lifecycle r = Active")
    case True
    then obtain r where r: "get_reminder s rid = Some r" "owner_account_id r = owner" "lifecycle r = Active"
      by blast
    with inv have "good kept r" "rem_id r = rid"
      using fetched_owned [of s rid r]
      by (auto simp: inv_with_def rem_inv_def rem_ok_def good_def get_reminder_def dest: keyed_get)
    with r inv have "wp (m r) (\<lambda>_. inv_with J K) (\<lambda>_. inv_with J K) s"
      by (intro preserves_weaken [OF assms] inv_insert) auto
    with r show ?thesis by (simp add: require_owned_reminder_def require_reminder_def wp_simps)
  qed (use refused in blast)
qed

lemma keeps_outbox_event [rem_keeps]: "preserves (inv_with J K) (outbox_event E operation r item)"
  unfolding outbox_event_def by (intro preserves_intros)

lemma keeps_save_with_event [rem_keeps]:
  "good kept r \<Longrightarrow> preserves (inv_with J K) (save_with_event E r operation g)"
  unfolding save_with_event_def
  by (intro preserves_intros rem_keeps store_saves)

lemma keeps_validate [rem_keeps]: "preserves (inv_with J K) (validate_trigger_time E t captured i)"
  unfolding validate_trigger_time_def by (intro preserves_intros)

lemma keeps_conflict [rem_keeps]: "preserves (inv_with J K) (conflict_now E owner t captured d x h)"
  unfolding conflict_now_def by (intro preserves_intros)

lemma keeps_validated [rem_keeps]:
  "preserves (inv_with J K) m \<Longrightarrow> preserves (inv_with J K) (validated E owner r t captured m)"
  unfolding validated_def by (intro preserves_intros rem_keeps)

lemma keeps_schedule_unscheduled [rem_keeps]:
  "preserves (inv_with J K) (schedule_unscheduled E owner rid t captured g)"
  unfolding schedule_unscheduled_def Let_def
  by (intro keeps_require_owned preserves_intros rem_keeps)
    (erule good_edited, auto simp: edited_defs)

lemma keeps_reschedule [rem_keeps]:
  "preserves (inv_with J K) (reschedule_reminder E owner rid t captured g)"
  unfolding reschedule_reminder_def Let_def
  by (intro keeps_require_owned preserves_intros rem_keeps)
    (erule good_edited, auto simp: edited_defs)

lemma keeps_finish_update [rem_keeps]:
  "good kept r \<Longrightarrow> preserves (inv_with J K) (finish_update E owner r ts g)"
  unfolding finish_update_def by (intro preserves_intros rem_keeps)

lemma keeps_update_reminder [rem_keeps]:
  "preserves (inv_with J K) (update_reminder E owner rid text t captured d g)"
proof -
  have set_duration: "preserves (inv_with J K) (bind
      (case d of None \<Rightarrow> ret (duration_minutes r) | Some v \<Rightarrow> lift (duration_or_error v))
      (\<lambda>n. if b then ret x else finish_update E owner (r\<lparr>duration_minutes := n\<rparr>) ts g))"
    if "good kept r" for K r b x ts
  proof (cases d)
    case None
    with that show ?thesis by (simp add: preserves_intros rem_keeps)
  next
    case (Some v)
    have "good kept (r\<lparr>duration_minutes := n\<rparr>)" if "duration_or_error v = Inr n" for n
      by (rule good_edited [OF \<open>good kept r\<close>])
        (use duration_or_error_ge [OF that] in \<open>simp add: edited_defs\<close>)
    with Some show ?thesis
      by (auto intro!: preserves_bind_lift preserves_intros rem_keeps)
  qed
  have updated: "good kept (case t of None \<Rightarrow> r1 | Some t' \<Rightarrow> update_trigger t' z r1)"
    if "good kept r" "update_content E text (r\<lparr>rem_updated_at := now\<rparr>) = Some r1" for r r1 now z
  proof -
    have "good kept r1"
      by (rule good_edited [OF good_edited [OF that(1) edited_touched] edited_update_content [OF that(2)]])
    then show ?thesis by (auto intro: good_edited [OF _ edited_update_trigger] split: option.splits)
  qed
  show ?thesis
    unfolding update_reminder_def Let_def
    by (intro set_duration keeps_require_owned preserves_intros rem_keeps updated)
qed

lemma keeps_clear_trigger_time [rem_keeps]:
  "preserves (inv_with J K) (clear_trigger_time E owner rid g)"
  unfolding clear_trigger_time_def Let_def
  by (intro keeps_require_owned preserves_intros rem_keeps)
    (erule good_edited, simp add: edited_defs rule_ok_def)

lemma keeps_complete_reminder [rem_keeps]:
  "preserves (inv_with J K) (complete_reminder E owner rid g)"
  unfolding complete_reminder_def
  by (intro keeps_require_owned preserves_intros rem_keeps) (erule good_edited, simp add: edited_defs)

lemma keeps_delete_reminder [rem_keeps]:
  "preserves (inv_with J K) (delete_reminder E owner rid u g)"
  unfolding delete_reminder_def
  by (intro keeps_require_owned preserves_intros rem_keeps) (erule good_edited, simp add: edited_defs)

subsection \<open>Creation and batches\<close>

lemma keeps_write_new [rem_keeps]:
  "reminder_wf r \<Longrightarrow> preserves (inv_with J K) (write_new_reminder r e ts g)"
  unfolding write_new_reminder_def
  by (intro preserves_intros store_adds)

lemma keeps_create [rem_keeps]: "preserves (inv_with J K) (create_reminder E owner item g)"
proof -
  have written: "preserves (inv_with J K) (create_in E owner item words temporal ts g)"
    if "normalize_create_temporal t ru d kind = Inr temporal" for words temporal ts t ru d kind
    unfolding create_in_def Let_def
    by (intro preserves_intros rem_keeps wf_new_reminder [OF that])
  show ?thesis
    unfolding create_reminder_def Let_def
    by (auto intro!: preserves_intros rem_keeps written split: sum.splits pyexn.splits)
qed

lemma keeps_detect [rem_keeps]: "preserves (inv_with J K) (detect_items E P item)"
  unfolding detect_items_def
  by (cases "rp_detector P"; cases "bi_raw_text item") (auto intro!: preserves_intros)

lemma keeps_execute_items [rem_keeps]: "preserves (inv_with J K) (execute_items E P owner item g)"
  unfolding execute_items_def execute_item_def by (intro preserves_intros rem_keeps)

lemma keeps_batch_outcome [rem_keeps]: "preserves (inv_with J K) (batch_outcome E P owner g item)"
  unfolding batch_outcome_def
  by (intro preserves_catch rem_keeps) (auto intro!: preserves_intros split: pyexn.splits)

lemma keeps_execute_batch [rem_keeps]: "preserves (inv_with J K) (execute_batch E P owner items g)"
  unfolding execute_batch_def by (intro preserves_intros rem_keeps)

lemma keeps_by_keyword:
  "(\<And>rid. preserves (inv_with J K) (act rid)) \<Longrightarrow> preserves (inv_with J K) (by_keyword E owner k act)"
  unfolding by_keyword_def resolve_user_mutable_keyword_def by (intro preserves_intros)

lemma keeps_mutate_by_filter [rem_keeps]:
  "preserves (inv_with J K) (mutate_reminders_by_filter E operation owner k a b g)"
proof -
  have "preserves (inv_with J K) (mutate_one E operation owner g r)" for r
    unfolding mutate_one_def
    by (intro preserves_catch preserves_intros rem_keeps)
      (auto intro!: preserves_intros split: pyexn.splits)
  then show ?thesis
    unfolding mutate_reminders_by_filter_def by (intro preserves_intros)
qed

end

text \<open>
  The second contract adds what the service does on its own: it looks up any reminder and any fire,
  and \<open>fire_kept\<close> is what \<open>J\<close> says of the fires.
\<close>

locale store_contract =
  fixes J :: "rem_state \<Rightarrow> bool" and kept :: "reminder \<Rightarrow> bool" and fire_kept :: "reminder_fire \<Rightarrow> bool"
  assumes J_frame: "J (s\<lparr>clock := n\<rparr>) = J s" "J (s\<lparr>issued := n\<rparr>) = J s" "J (s\<lparr>traced := n\<rparr>) = J s"
    and J_frame_index: "J (s\<lparr>fires_by_occurrence := ix\<rparr>) = J s"
    and fetched: "rem_ok s \<Longrightarrow> J s \<Longrightarrow> get_reminder s k = Some r \<Longrightarrow> kept r"
    and fire_fetched: "rem_ok s \<Longrightarrow> J s \<Longrightarrow> get_fire s k = Some f \<Longrightarrow> fire_kept f"
    and kept_edited: "kept r \<Longrightarrow> reminder_edited r r' \<Longrightarrow> kept r'"
    and fire_kept_edited: "fire_kept f \<Longrightarrow> fire_edited f f' \<Longrightarrow> fire_kept f'"
    and J_put: "J s \<Longrightarrow> kept r \<Longrightarrow> J (put_reminder r s)"
    and J_put_new: "J s \<Longrightarrow> get_reminder s (rem_id r) = None \<Longrightarrow> J (put_reminder r s)"
    and J_put_outbox: "J s \<Longrightarrow> event_free e s \<Longrightarrow> J (put_rem_outbox e s)"
    and J_put_fire: "J s \<Longrightarrow> fire_kept f \<Longrightarrow> J (put_fire f s)"
    and J_put_new_fire: "J s \<Longrightarrow> get_fire s (fire_id f) = None \<Longrightarrow> J (put_fire f s)"

sublocale store_contract \<subseteq> users: owner_contract J kept owner for owner
  by unfold_locales
    (auto simp: J_frame intro: fetched kept_edited J_put J_put_new J_put_outbox)

context store_contract
begin

lemmas services = users.services
lemmas good_edited = users.good_edited
lemmas inv_put = users.inv_put
lemmas inv_insert = users.inv_insert
lemmas preserves_weaken = users.preserves_weaken

lemma good_fire_edited: "good_fire fire_kept f \<Longrightarrow> fire_edited f f' \<Longrightarrow> good_fire fire_kept f'"
  using fire_kept_edited by (auto simp: good_fire_def fire_edited_def)

lemma keeps_require_reminder:
  assumes "\<And>r. good kept r \<Longrightarrow> rem_id r = rid \<Longrightarrow> preserves (inv_with J (insert rid K)) (m r)"
  shows "preserves (inv_with J K) (bind (require_reminder rid) m)"
proof (rule preservesI)
  fix s
  assume inv: "inv_with J K s"
  show "wp (bind (require_reminder rid) m) (\<lambda>_. inv_with J K) (\<lambda>_. inv_with J K) s"
  proof (cases "get_reminder s rid")
    case None
    with inv show ?thesis by (simp add: require_reminder_def wp_simps)
  next
    case (Some r)
    with inv have "reminder_wf r" "rem_id r = rid"
      by (auto simp: inv_with_def rem_inv_def rem_ok_def get_reminder_def dest: keyed_get)
    with inv Some have "good kept r" "rem_id r = rid"
      using fetched by (auto simp: inv_with_def rem_inv_def good_def)
    with Some inv have "wp (m r) (\<lambda>_. inv_with J K) (\<lambda>_. inv_with J K) s"
      by (intro preserves_weaken [OF assms] inv_insert) auto
    with Some show ?thesis by (simp add: require_reminder_def wp_simps)
  qed
qed

lemma keeps_require_fire:
  assumes "\<And>f. good_fire fire_kept f \<Longrightarrow> fire_id f = fid \<Longrightarrow>
    preserves (inv_with J (insert (fire_reminder_id f) K)) (m f)"
  shows "preserves (inv_with J K) (bind (require_fire fid) m)"
proof (rule preservesI)
  fix s
  assume inv: "inv_with J K s"
  show "wp (bind (require_fire fid) m) (\<lambda>_. inv_with J K) (\<lambda>_. inv_with J K) s"
  proof (cases "get_fire s fid")
    case None
    with inv show ?thesis by (simp add: require_fire_def wp_simps)
  next
    case (Some f)
    with inv have f: "good_fire fire_kept f" "get_reminder s (fire_reminder_id f) \<noteq> None"
      using fire_fetched by (auto simp: inv_with_def rem_inv_def rem_ok_def good_fire_def)
    from inv have "keyed fire_id (fires_by_id s)"
      by (auto simp: inv_with_def rem_inv_def rem_ok_def dest: indexed_keyed)
    with Some have "fire_id f = fid" by (auto simp: get_fire_def dest: keyed_get)
    with f inv have "wp (m f) (\<lambda>_. inv_with J K) (\<lambda>_. inv_with J K) s"
      by (intro preserves_weaken [OF assms] inv_insert) auto
    with Some show ?thesis by (simp add: require_fire_def wp_simps)
  qed
qed

subsection \<open>Fires\<close>

lemma keeps_add_fire:
  assumes "fire_wf f" "fire_reminder_id f \<in> K"
  shows "preserves (inv_with J K) (add_fire f)"
proof (rule preservesI)
  fix s
  assume inv: "inv_with J K s"
  then have ix: "indexed fire_id fire_key (fires_by_id s) (fires_by_occurrence s)"
    by (simp add: inv_with_def rem_inv_def rem_ok_def)
  have "inv_with J K (put_fire f s)"
    if "get_fire s (fire_id f) = None" "dget (fires_by_occurrence s) (fire_key f) = None"
  proof -
    have "J (put_fire f s)" using inv that by (simp add: inv_with_def J_put_new_fire)
    then show ?thesis
      using inv assms that indexed_add [OF ix, of f]
      by (auto simp: inv_with_def rem_inv_def rem_ok_def put_fire_def get_fire_def get_reminder_def
          no_active_duplicates_def)
  qed
  with inv show "wp (add_fire f) (\<lambda>_. inv_with J K) (\<lambda>_. inv_with J K) s"
    by (simp add: add_fire_def wp_simps)
qed

lemma keeps_save_fire:
  assumes "good_fire fire_kept f" "fire_reminder_id f \<in> K"
  shows "preserves (inv_with J K) (save_fire f)"
proof (rule preservesI)
  fix s
  assume inv: "inv_with J K s"
  then have ix: "indexed fire_id fire_key (fires_by_id s) (fires_by_occurrence s)"
    by (simp add: inv_with_def rem_inv_def rem_ok_def)
  have "inv_with J K (put_fire f (s\<lparr>fires_by_occurrence := dpop (fire_key old) (fires_by_occurrence s)\<rparr>))"
    if "get_fire s (fire_id f) = Some old"
      "fire_key old = fire_key f \<or> dget (fires_by_occurrence s) (fire_key f) = None" for old
  proof -
    have "J (put_fire f (s\<lparr>fires_by_occurrence := dpop (fire_key old) (fires_by_occurrence s)\<rparr>))"
      using inv assms by (intro J_put_fire) (simp_all add: inv_with_def J_frame_index good_fire_def)
    then show ?thesis
      using inv assms that indexed_replace [OF ix, of f old]
      by (auto simp: inv_with_def rem_inv_def rem_ok_def put_fire_def get_fire_def get_reminder_def
          no_active_duplicates_def good_fire_def)
  qed
  with inv show "wp (save_fire f) (\<lambda>_. inv_with J K) (\<lambda>_. inv_with J K) s"
    by (auto simp: save_fire_def wp_simps split: option.splits)
qed

lemma keeps_save_changed:
  assumes "good_fire fire_kept f" "fire_edited f (change f)" "fire_reminder_id f \<in> K"
  shows "preserves (inv_with J K) (save_changed_fire E change f)"
proof -
  have "fire_edited f ((change f)\<lparr>fire_updated_at := t\<rparr>)" for t
    using assms(2) by (simp add: fire_edited_def fire_wf_def)
  from good_fire_edited [OF assms(1) this] show ?thesis
    unfolding save_changed_fire_def Let_def
    using assms(2,3) by (intro preserves_intros keeps_save_fire) (simp_all add: fire_edited_def)
qed

lemma keeps_claim [rem_keeps]: "preserves (inv_with J K) (claim_due_fire E rid due missed)"
  unfolding claim_due_fire_def Let_def
  by (intro keeps_require_reminder preserves_intros keeps_add_fire)
    (simp_all add: claimed_fire_def fire_wf_def)

lemma keeps_advance [rem_keeps]:
  "good kept r \<Longrightarrow> preserves (inv_with J K) (advance_or_complete_after_occurrence E r due)"
  unfolding advance_or_complete_after_occurrence_def
  by (intro preserves_intros rem_keeps) (erule good_edited, simp add: edited_defs)+

lemma keeps_complete_fire [rem_keeps]: "preserves (inv_with J K) (complete_fire E fid at)"
  unfolding complete_fire_def
  by (intro keeps_require_fire keeps_require_reminder preserves_intros rem_keeps keeps_save_changed)
    (simp_all add: fire_edited_def fire_wf_def completed_fire_def)

lemma keeps_mark_handled [rem_keeps]: "preserves (inv_with J K) (mark_fire_handled E fid at)"
  unfolding mark_fire_handled_def
  by (intro keeps_require_fire keeps_save_changed) (simp_all add: fire_edited_def fire_wf_def)

lemma keeps_discard [rem_keeps]: "preserves (inv_with J K) (discard_proactive_fire E fid missed)"
  unfolding discard_proactive_fire_def
  by (intro keeps_require_fire keeps_save_changed) (simp_all add: fire_edited_def fire_wf_def)

lemma keeps_mark_undelivered [rem_keeps]: "preserves (inv_with J K) (mark_fire_undelivered E fid)"
  unfolding mark_fire_undelivered_def
  by (intro keeps_require_fire keeps_save_changed) (simp_all add: fire_edited_def fire_wf_def)

lemma keeps_record_proactive [rem_keeps]:
  "preserves (inv_with J K) (record_proactive_delivery E fid delivered)"
  unfolding record_proactive_delivery_def
  by (intro keeps_require_fire preserves_intros rem_keeps keeps_save_changed)
    (simp_all add: fire_edited_def fire_wf_def)

lemma keeps_record_delivery [rem_keeps]:
  "preserves (inv_with J K) (record_fire_delivery E fids delivered)"
  unfolding record_fire_delivery_def record_one_delivery_def
  by (intro preserves_map_py keeps_require_fire keeps_require_reminder preserves_if preserves_bind
      services preserves_ret rem_keeps keeps_save_changed)
    (simp_all add: fire_edited_def fire_wf_def)

lemma keeps_deliver_group [rem_keeps]:
  "preserves (inv_with J K) (deliver_fire_group E P owner due fids)"
proof -
  have "preserves (inv_with J K) (deliver_one_fire E outcome fid)" for outcome fid
    unfolding deliver_one_fire_def
    by (intro keeps_require_fire keeps_require_reminder preserves_bind preserves_ret keeps_save_changed)
      (simp_all add: fire_edited_def fire_wf_def)
  then show ?thesis
    unfolding deliver_fire_group_def by (intro preserves_intros)
qed

lemma keeps_collect_turns [rem_keeps]: "preserves (inv_with J K) (collect_turns E missed at)"
proof -
  have "preserves (inv_with J K) (claim_for E missed r)" for r
    unfolding claim_for_def by (intro preserves_intros rem_keeps)
  then show ?thesis
    unfolding collect_turns_def by (intro preserves_intros)
qed

lemma keeps_discard_future [rem_keeps]:
  "preserves (inv_with J K) (discard_future_proactive owner at)"
proof -
  have "inv_with J K (put_reminder (r\<lparr>lifecycle := Deleted, rem_updated_at := at\<rparr>) s)"
    if "inv_with J K s" "good kept r" for r s
    using that by (intro inv_put) (auto simp: not_duplicated_def edited_defs elim!: good_edited)
  then have body: "preserves (inv_with J K)
      (modify (put_reminder (r\<lparr>lifecycle := Deleted, rem_updated_at := at\<rparr>)))" if "good kept r" for r
    using that by (intro preserves_modify)
  show ?thesis
  proof (rule preservesI)
    fix s
    assume inv: "inv_with J K s"
    have wf: "good kept r" if "r \<in> set (dvalues (reminders_by_id s))" for r
      using inv that keyed_values [of rem_id "reminders_by_id s" r]
        fetched [of s "rem_id r" r]
      by (auto simp: inv_with_def rem_inv_def rem_ok_def good_def get_reminder_def)
    have "preserves (inv_with J K) (for_each (dvalues (reminders_by_id s)) (\<lambda>r.
       if owner_account_id r = owner \<and> rem_kind r = Proactive \<and> lifecycle r = Active
       then (case next_fire_at r of
            None \<Rightarrow> ret ()
          | Some t \<Rightarrow>
              bind (lift (dt_lt at t)) (\<lambda>later.
              if later
              then modify (put_reminder (r\<lparr>lifecycle := Deleted, rem_updated_at := at\<rparr>))
              else ret ()))
       else ret ()))"
      by (intro preserves_intros body wf)
    with inv show "wp (discard_future_proactive owner at) (\<lambda>_. inv_with J K) (\<lambda>_. inv_with J K) s"
      by (simp add: discard_future_proactive_def wp_simps preserves_def)
  qed
qed

end

end
