(* ===== verification/RemInvariant.thy ===== *)
theory RemInvariant
  imports RemContract
begin

text \<open>
  The reminder service as a transition system: every operation of \<open>ReminderService\<close> and of
  \<open>ReminderScheduler\<close> that writes, the states they reach, and the properties that the contract of
  the store carries to all of them: the invariant, and that reminders, fires and events last.
\<close>

section \<open>What lasts\<close>

definition reminder_lasts :: "reminder \<Rightarrow> rem_state \<Rightarrow> bool" where
  "reminder_lasts r0 s \<longleftrightarrow>
     (\<exists>r. get_reminder s (rem_id r0) = Some r \<and> reminder_edited r0 r)"

definition fire_lasts :: "reminder_fire \<Rightarrow> rem_state \<Rightarrow> bool" where
  "fire_lasts f0 s \<longleftrightarrow> (\<exists>f. get_fire s (fire_id f0) = Some f \<and> fire_edited f0 f)"

definition event_lasts :: "reminder_outbox \<Rightarrow> rem_state \<Rightarrow> bool" where
  "event_lasts e s \<longleftrightarrow>
     dget (rem_outbox_by_id s) (ro_id e) = Some e \<and>
     dget (rem_outbox_by_key s) (ro_idempotency_key e) = Some e"

lemma reminder_edited_refl [simp]: "reminder_edited r r"
  by (simp add: reminder_edited_def)

lemma fire_edited_refl [simp]: "fire_edited f f"
  by (simp add: fire_edited_def)

lemma reminder_edited_trans: "reminder_edited a b \<Longrightarrow> reminder_edited b c \<Longrightarrow> reminder_edited a c"
  by (simp add: reminder_edited_def)

lemma fire_edited_trans: "fire_edited a b \<Longrightarrow> fire_edited b c \<Longrightarrow> fire_edited a c"
  by (auto simp: fire_edited_def)

lemmas lasts_defs = get_reminder_def get_fire_def put_reminder_def put_rem_outbox_def put_fire_def

interpretation plain: store_contract "\<lambda>_. True" "\<lambda>_. True" "\<lambda>_. True"
  by unfold_locales simp_all

interpretation reminders: store_contract "reminder_lasts r0"
  "\<lambda>r. rem_id r = rem_id r0 \<longrightarrow> reminder_edited r0 r" "\<lambda>_. True" for r0
proof
  show "rem_id r' = rem_id r0 \<longrightarrow> reminder_edited r0 r'"
    if "rem_id r = rem_id r0 \<longrightarrow> reminder_edited r0 r" "reminder_edited r r'" for r r'
    using that reminder_edited_trans by (auto simp: reminder_edited_def)
  show "rem_id r = rem_id r0 \<longrightarrow> reminder_edited r0 r"
    if "rem_ok s" "reminder_lasts r0 s" "get_reminder s k = Some r" for s k r
    using that by (auto simp: reminder_lasts_def rem_ok_def get_reminder_def dest: keyed_get)
qed (auto simp: reminder_lasts_def lasts_defs event_free_def)

interpretation fires: store_contract "fire_lasts f0" "\<lambda>_. True"
  "\<lambda>f. fire_id f = fire_id f0 \<longrightarrow> fire_edited f0 f" for f0
proof
  show "fire_id f' = fire_id f0 \<longrightarrow> fire_edited f0 f'"
    if "fire_id f = fire_id f0 \<longrightarrow> fire_edited f0 f" "fire_edited f f'" for f f'
    using that fire_edited_trans by (auto simp: fire_edited_def)
  show "fire_id f = fire_id f0 \<longrightarrow> fire_edited f0 f"
    if "rem_ok s" "fire_lasts f0 s" "get_fire s k = Some f" for s k f
  proof -
    have "fire_id f = k"
      using that by (auto simp: rem_ok_def get_fire_def dest: indexed_keyed keyed_get)
    with that show ?thesis by (auto simp: fire_lasts_def)
  qed
qed (auto simp: fire_lasts_def lasts_defs event_free_def)

interpretation events: store_contract "event_lasts e" "\<lambda>_. True" "\<lambda>_. True" for e
  by unfold_locales (auto simp: event_lasts_def lasts_defs event_free_def)

text \<open>What a user asks for leaves the reminders of the other accounts alone.\<close>

definition foreign_reminder :: "string \<Rightarrow> reminder \<Rightarrow> rem_state \<Rightarrow> bool" where
  "foreign_reminder owner r0 s \<longleftrightarrow>
     owner_account_id r0 \<noteq> owner \<and> get_reminder s (rem_id r0) = Some r0"

interpretation foreign: owner_contract "foreign_reminder owner r0" "\<lambda>r. rem_id r \<noteq> rem_id r0" owner
  for owner r0
proof
  show "rem_id r \<noteq> rem_id r0"
    if "rem_ok s" "foreign_reminder owner r0 s" "get_reminder s k = Some r" "owner_account_id r = owner"
      "lifecycle r = Active" for s k r
  proof -
    have "rem_id r = k"
      using that(1,3) keyed_get [of rem_id "reminders_by_id s" k r]
      by (simp add: rem_ok_def get_reminder_def)
    with that(2-4) show ?thesis unfolding foreign_reminder_def by (metis option.inject)
  qed
qed (auto simp: foreign_reminder_def lasts_defs event_free_def reminder_edited_def)

section \<open>The operations as one step relation\<close>

datatype rem_call =
    CExecuteBatch string "batch_item list" commit_guard
  | CSchedule string string datetime string commit_guard
  | CReschedule string string datetime string commit_guard
  | CUpdate string string "string option" "datetime option" "string option" "pyval option" commit_guard
  | CClear string string commit_guard
  | CComplete string string commit_guard
  | CDelete string string bool commit_guard
  | CCompleteByKeyword string string commit_guard
  | CDeleteByKeyword string string commit_guard
  | CUpdateByKeyword string string "string option" "datetime option" "string option" "pyval option"
      commit_guard
  | CDeleteByFilter string "string option" "datetime option" "datetime option" commit_guard
  | CCompleteByFilter string "string option" "datetime option" "datetime option" commit_guard
  | CClaim string datetime bool
  | CDeliverGroup string datetime "string list"
  | CMarkUndelivered string
  | CRecordDelivery "string list" bool
  | CRecordProactive string bool
  | CCompleteFire string datetime
  | CMarkHandled string datetime
  | CDiscardFire string bool
  | CCollectDue datetime
  | CCatchUp datetime
  | CDiscardFuture string datetime

definition void :: "('s, 'a) py \<Rightarrow> ('s, unit) py" where
  "void m = bind m (\<lambda>_. ret ())"

fun do_rem_call :: "env \<Rightarrow> rem_ports \<Rightarrow> rem_call \<Rightarrow> unit rem" where
  "do_rem_call E P (CExecuteBatch owner items g) = void (execute_batch E P owner items g)"
| "do_rem_call E P (CSchedule owner rid t z g) = void (schedule_unscheduled E owner rid t z g)"
| "do_rem_call E P (CReschedule owner rid t z g) = void (reschedule_reminder E owner rid t z g)"
| "do_rem_call E P (CUpdate owner rid words t z d g) = void (update_reminder E owner rid words t z d g)"
| "do_rem_call E P (CClear owner rid g) = void (clear_trigger_time E owner rid g)"
| "do_rem_call E P (CComplete owner rid g) = void (complete_reminder E owner rid g)"
| "do_rem_call E P (CDelete owner rid u g) = void (delete_reminder E owner rid u g)"
| "do_rem_call E P (CCompleteByKeyword owner k g) = void (complete_reminder_by_keyword E owner k g)"
| "do_rem_call E P (CDeleteByKeyword owner k g) = void (delete_reminder_by_keyword E owner k g)"
| "do_rem_call E P (CUpdateByKeyword owner k words t z d g) =
     void (update_reminder_by_keyword E owner k words t z d g)"
| "do_rem_call E P (CDeleteByFilter owner k a b g) = void (delete_reminders_by_filter E owner k a b g)"
| "do_rem_call E P (CCompleteByFilter owner k a b g) = void (complete_reminders_by_filter E owner k a b g)"
| "do_rem_call E P (CClaim rid t m) = void (claim_due_fire E rid t m)"
| "do_rem_call E P (CDeliverGroup owner t fids) = void (deliver_fire_group E P owner t fids)"
| "do_rem_call E P (CMarkUndelivered fid) = void (mark_fire_undelivered E fid)"
| "do_rem_call E P (CRecordDelivery fids d) = void (record_fire_delivery E fids d)"
| "do_rem_call E P (CRecordProactive fid d) = void (record_proactive_delivery E fid d)"
| "do_rem_call E P (CCompleteFire fid t) = void (complete_fire E fid t)"
| "do_rem_call E P (CMarkHandled fid t) = void (mark_fire_handled E fid t)"
| "do_rem_call E P (CDiscardFire fid m) = void (discard_proactive_fire E fid m)"
| "do_rem_call E P (CCollectDue t) = void (collect_due_fire_turns E t)"
| "do_rem_call E P (CCatchUp t) = void (catch_up_missed E t)"
| "do_rem_call E P (CDiscardFuture owner t) = discard_future_proactive owner t"

inductive rem_step :: "env \<Rightarrow> rem_ports \<Rightarrow> rem_state \<Rightarrow> rem_state \<Rightarrow> bool" for E P where
  rem_stepI: "do_rem_call E P c s = (r, t) \<Longrightarrow> rem_step E P s t"

inductive_cases rem_stepE: "rem_step E P s t"

text \<open>The calls a user makes, with the account that makes them.\<close>

fun caller :: "rem_call \<Rightarrow> string option" where
  "caller (CExecuteBatch owner items g) = Some owner"
| "caller (CSchedule owner rid t z g) = Some owner"
| "caller (CReschedule owner rid t z g) = Some owner"
| "caller (CUpdate owner rid words t z d g) = Some owner"
| "caller (CClear owner rid g) = Some owner"
| "caller (CComplete owner rid g) = Some owner"
| "caller (CDelete owner rid u g) = Some owner"
| "caller (CCompleteByKeyword owner k g) = Some owner"
| "caller (CDeleteByKeyword owner k g) = Some owner"
| "caller (CUpdateByKeyword owner k words t z d g) = Some owner"
| "caller (CDeleteByFilter owner k a b g) = Some owner"
| "caller (CCompleteByFilter owner k a b g) = Some owner"
| "caller _ = None"

fun_cases caller_SomeE: "caller c = Some owner"

text \<open>The states the service can reach from an empty store.\<close>

definition rem_reachable :: "env \<Rightarrow> rem_ports \<Rightarrow> rem_state \<Rightarrow> bool" where
  "rem_reachable E P s \<longleftrightarrow> (rem_step E P)\<^sup>*\<^sup>* empty_rem_state s"

context store_contract
begin

lemma keeps_call: "preserves (inv_with J K) (do_rem_call E P c)"
  by (cases c)
    (simp_all add: void_def complete_reminder_by_keyword_def delete_reminder_by_keyword_def
      update_reminder_by_keyword_def delete_reminders_by_filter_def complete_reminders_by_filter_def
      collect_due_fire_turns_def catch_up_missed_def preserves_bind preserves_ret rem_keeps
      users.keeps_by_keyword)

lemma step_keeps: "rem_step E P s t \<Longrightarrow> inv_with J K s \<Longrightarrow> inv_with J K t"
  by (erule rem_stepE) (rule preserves_run [OF keeps_call])

lemma steps_keep: "(rem_step E P)\<^sup>*\<^sup>* s t \<Longrightarrow> inv_with J K s \<Longrightarrow> inv_with J K t"
  by (induction rule: rtranclp_induct) (auto intro: step_keeps)

end

context owner_contract
begin

lemma keeps_user_call: "caller c = Some owner \<Longrightarrow> preserves (inv_with J K) (do_rem_call E P c)"
  by (erule caller_SomeE)
    (simp_all add: void_def complete_reminder_by_keyword_def delete_reminder_by_keyword_def
      update_reminder_by_keyword_def delete_reminders_by_filter_def complete_reminders_by_filter_def
      preserves_bind preserves_ret rem_keeps keeps_by_keyword)

end

lemma foreign_untouched:
  assumes "rem_ok s" "caller c = Some owner" "do_rem_call E P c s = (res, t)"
    and "get_reminder s i = Some r" "owner_account_id r \<noteq> owner"
  shows "get_reminder t i = Some r"
proof -
  have i: "rem_id r = i" using assms(1,4) by (auto simp: rem_ok_def get_reminder_def dest: keyed_get)
  have "inv_with (foreign_reminder owner r) {} s"
    using assms i by (simp add: inv_with_def rem_inv_def foreign_reminder_def)
  from preserves_run [OF foreign.keeps_user_call [OF assms(2)] this assms(3)] i
  show ?thesis by (simp add: inv_with_def foreign_reminder_def)
qed

lemma reachable_rem_ok: "rem_reachable E P s \<Longrightarrow> rem_ok s"
  using plain.steps_keep [of E P empty_rem_state s "{}"]
  by (simp add: rem_reachable_def inv_with_def rem_inv_def)

lemma steps_rem_ok: "(rem_step E P)\<^sup>*\<^sup>* s t \<Longrightarrow> rem_ok s \<Longrightarrow> rem_ok t"
  using plain.steps_keep [of E P s t "{}"] by (simp add: inv_with_def rem_inv_def)

lemma reminders_last:
  assumes "(rem_step E P)\<^sup>*\<^sup>* s t" "rem_ok s" "get_reminder s i = Some r"
  obtains r' where "get_reminder t i = Some r'" "reminder_edited r r'"
proof -
  have i: "rem_id r = i" using assms(2,3) by (auto simp: rem_ok_def get_reminder_def dest: keyed_get)
  have "inv_with (reminder_lasts r) {} s"
    using assms i by (simp add: inv_with_def rem_inv_def reminder_lasts_def)
  from reminders.steps_keep [OF assms(1) this] i that show thesis
    by (auto simp: inv_with_def reminder_lasts_def)
qed

lemma fires_last:
  assumes "(rem_step E P)\<^sup>*\<^sup>* s t" "rem_ok s" "get_fire s i = Some f"
  obtains f' where "get_fire t i = Some f'" "fire_edited f f'"
proof -
  have i: "fire_id f = i"
    using assms(2,3) by (auto simp: rem_ok_def get_fire_def dest: indexed_keyed keyed_get)
  have "inv_with (fire_lasts f) {} s"
    using assms i by (simp add: inv_with_def rem_inv_def fire_lasts_def)
  from fires.steps_keep [OF assms(1) this] i that show thesis
    by (auto simp: inv_with_def fire_lasts_def)
qed

lemma completed_lasts:
  assumes "(rem_step E P)\<^sup>*\<^sup>* s t" "rem_ok s" "get_fire s i = Some f" "fire_state f = FireCompleted"
  obtains f' where "get_fire t i = Some f'" "fire_state f' \<in> {FireCompleted, FireDiscarded}"
proof -
  obtain f' where "get_fire t i = Some f'" "fire_edited f f'" by (rule fires_last [OF assms(1-3)])
  with that assms(4) show thesis by (simp add: fire_edited_def)
qed

lemma events_last:
  assumes "(rem_step E P)\<^sup>*\<^sup>* s t" "rem_ok s"
    and "get_outbox_by_idempotency_key s k = Some e"
  shows "get_outbox_by_idempotency_key t k = Some e"
proof -
  have ix: "indexed ro_id ro_idempotency_key (rem_outbox_by_id s) (rem_outbox_by_key s)"
    using assms(2) by (simp add: rem_ok_def)
  have k: "ro_idempotency_key e = k"
    using keyed_get [OF indexed_keyed(2) [OF ix]] assms(3)
    by (simp add: get_outbox_by_idempotency_key_def)
  then have "event_lasts e s"
    using indexed_from [OF ix, of e] assms(3)
    by (simp add: event_lasts_def get_outbox_by_idempotency_key_def)
  then have "inv_with (event_lasts e) {} s"
    using assms(2) by (simp add: inv_with_def rem_inv_def)
  from events.steps_keep [OF assms(1) this] k show ?thesis
    by (simp add: inv_with_def event_lasts_def get_outbox_by_idempotency_key_def)
qed

end
