(* ===== verification/RemOutcomes.thy ===== *)
theory RemOutcomes
  imports RemInvariant "HOL-Library.Multiset"
begin

text \<open>
  What single operations of the reminder service do: creation and its replay, conflicts, fires, the
  groups of the scheduler and the choice by keyword.
\<close>

section \<open>The stored part of the state\<close>

definition same_store :: "rem_state \<Rightarrow> rem_state \<Rightarrow> bool" where
  "same_store s t \<longleftrightarrow>
     reminders_by_id t = reminders_by_id s \<and> fires_by_id t = fires_by_id s \<and>
     fires_by_occurrence t = fires_by_occurrence s \<and> rem_outbox_by_id t = rem_outbox_by_id s \<and>
     rem_outbox_by_key t = rem_outbox_by_key s"

lemma same_store_refl [simp]: "same_store s s"
  by (simp add: same_store_def)

lemma same_store_clock [simp]:
  "same_store s (t\<lparr>clock := n\<rparr>) = same_store s t" "same_store s (t\<lparr>issued := n\<rparr>) = same_store s t"
  "same_store s (t\<lparr>traced := n\<rparr>) = same_store s t"
  by (simp_all add: same_store_def)

lemma same_store_trans: "same_store s t \<Longrightarrow> same_store t u \<Longrightarrow> same_store s u"
  by (simp add: same_store_def)

lemma same_store_get:
  "same_store s t \<Longrightarrow> get_reminder t i = get_reminder s i"
  "same_store s t \<Longrightarrow> get_fire t j = get_fire s j"
  "same_store s t \<Longrightarrow> get_outbox_by_idempotency_key t k = get_outbox_by_idempotency_key s k"
  by (simp_all add: same_store_def get_reminder_def get_fire_def get_outbox_by_idempotency_key_def)

section \<open>Creation\<close>

lemma find_conflict_state:
  "find_conflict E a b z n x h rs = Inr (Some c) \<Longrightarrow> ir_state c = NeedsFollowUp"
  by (induction rs) (auto simp: sbind_Inr_iff item_result_of_def split: option.splits if_splits)

lemma check_time_conflict_state:
  "check_time_conflict E s owner t z d x h = Inr (Some c) \<Longrightarrow> ir_state c = NeedsFollowUp"
  by (auto simp: check_time_conflict_def sbind_Inr_iff find_conflict_state
      split: option.splits if_splits sum.splits pyexn.splits)

lemma refused_time_state: "ir_state (refused_time rid ts) \<noteq> Succeeded"
  by (simp add: refused_time_def item_result_of_def)

lemma wp_validate:
  assumes "\<And>ts t. same_store s t \<Longrightarrow> issued t = issued s \<Longrightarrow> Q ts t" "\<And>x t. same_store s t \<Longrightarrow> X x t"
  shows "wp (validate_trigger_time E d z i) Q X s"
  using assms
  by (auto simp: validate_trigger_time_def wp_simps split: option.splits sum.splits)

text \<open>
  \<open>create_reminder\<close> refuses without writing, or goes on to \<open>create_in\<close> with everything checked.
\<close>

lemma wp_create_reminder:
  assumes refuse: "\<And>x t. same_store s t \<Longrightarrow> ir_state x \<noteq> Succeeded \<Longrightarrow> Q x t"
    and raised: "\<And>e t. same_store s t \<Longrightarrow> X e t"
    and go: "\<And>t words temporal. same_store s t \<Longrightarrow> issued t = issued s \<Longrightarrow> bi_content item = Some words \<Longrightarrow>
      normalize_create_temporal (bi_trigger_time item) (bi_recurrence_rule item)
        (bi_duration_minutes item) (bi_kind item) = Inr temporal \<Longrightarrow>
      wp (create_in E owner item words temporal ValidFuture g) Q X t"
  shows "wp (create_reminder E owner item g) Q X s"
proof -
  have rest: "wp (if ts \<noteq> ValidFuture then ret (refused_time None ts)
        else
          (case normalize_create_temporal (bi_trigger_time item) (bi_recurrence_rule item)
                  (bi_duration_minutes item) (bi_kind item) of
             Inl (ReminderTemporalError code) \<Rightarrow>
               ret (item_result_of (temporal_error_state code) None (Some code) (Some ts) [])
           | Inl e \<Rightarrow> raise e
           | Inr temporal \<Rightarrow>
               bind (if candidate_calendar_visible (tf_kind temporal) (tf_trigger_time temporal)
                     then conflict_now E owner (tf_trigger_time temporal) (bi_captured_timezone item)
                            (PyInt (tf_duration_minutes temporal)) None
                            (Some (content_hash_of E words))
                     else ret None) (\<lambda>conflict.
               case conflict of
                 Some c \<Rightarrow> ret c
               | None \<Rightarrow> create_in E owner item words temporal ts g))) Q X t"
    if t: "same_store s t" "issued t = issued s" and words: "bi_content item = Some words" for ts t words
    using refuse [OF t(1)] raised [OF t(1)] go [OF t words]
    by (auto simp: wp_simps conflict_now_def refused_time_state item_result_of_def
        temporal_error_state_def dest: check_time_conflict_state
        split: sum.splits pyexn.splits option.splits)
  show ?thesis
  proof (cases "missing_text (bi_content item)")
    case True
    then show ?thesis using refuse by (simp add: create_reminder_def wp_simps item_result_of_def)
  next
    case False
    then obtain words where words: "bi_content item = Some words" by (auto simp: missing_text_def)
    show ?thesis
    proof (cases "bi_time_state item")
      case None
      show ?thesis
        using False words None
        unfolding create_reminder_def Let_def
        by (simp add: wp_bind) (rule wp_validate, rule rest, simp_all add: raised)
    next
      case (Some ts)
      then show ?thesis
        using False rest [of s words ts] words
        unfolding create_reminder_def Let_def words option.sel
        by (simp add: wp_bind wp_ret split del: if_split)
    qed
  qed
qed

definition event_reminder_id :: "reminder_outbox \<Rightarrow> string option" where
  "event_reminder_id e =
     (case dget (ro_payload e) ''reminder_id'' of Some (PyStr rid) \<Rightarrow> Some rid | _ \<Rightarrow> None)"

definition item_key :: "string \<Rightarrow> int \<Rightarrow> string" where
  "item_key turn k = ''reminder:create:'' @ turn @ '':'' @ show_int k"

lemma wp_outbox_event:
  assumes "bi_turn_id item = Some turn" "turn \<noteq> []" "bi_item_index item = Some k"
    and "\<And>e t. same_store s t \<Longrightarrow> ro_idempotency_key e = item_key turn k \<Longrightarrow>
      event_reminder_id e = Some (rem_id r) \<Longrightarrow> Q e t"
  shows "wp (outbox_event E ''create'' r (Some item)) Q X s"
  using assms
  by (auto simp: outbox_event_def wp_simps outbox_key_def item_key_def event_reminder_id_def)

lemma replayed_result_id:
  "ir_reminder_id (replayed_result ts e) = event_reminder_id e"
  by (simp add: replayed_result_def item_result_of_def event_reminder_id_def)

text \<open>A creation that succeeds has left its event under the key of the turn and the item.\<close>

lemma wp_create_in_event:
  assumes item: "bi_turn_id item = Some turn" "turn \<noteq> []" "bi_item_index item = Some k"
  shows "wp (create_in E owner item words temporal ts g)
    (\<lambda>x t. ir_state x = Succeeded \<longrightarrow>
       (\<exists>e. get_outbox_by_idempotency_key t (item_key turn k) = Some e \<and>
            ir_reminder_id x = event_reminder_id e))
    (\<lambda>_ _. True) s"
proof -
  have add: "wp (write_new_reminder r e ts g)
      (\<lambda>x t. ir_state x = Succeeded \<longrightarrow>
         (\<exists>e. get_outbox_by_idempotency_key t (item_key turn k) = Some e \<and>
              ir_reminder_id x = event_reminder_id e)) (\<lambda>_ _. True) t"
    if "ro_idempotency_key e = item_key turn k" "event_reminder_id e = Some (rem_id r)" for r e t
    unfolding write_new_reminder_def wp_catch wp_bind
    by (rule adding.store_wp)
      (use that in \<open>auto simp: wp_simps item_result_of_def get_outbox_by_idempotency_key_def
        put_rem_outbox_def\<close>)
  show ?thesis
    unfolding create_in_def Let_def wp_bind wp_py_now wp_new_id
    by (rule wp_outbox_event [OF item])
      (auto simp: wp_gets wp_ret replayed_result_id new_reminder_def split: option.splits intro!: add)
qed

text \<open>When that event is there, a creation writes nothing and answers from it.\<close>

lemma wp_create_in_replay:
  assumes item: "bi_turn_id item = Some turn" "turn \<noteq> []" "bi_item_index item = Some k"
    and there: "get_outbox_by_idempotency_key s (item_key turn k) = Some e"
  shows "wp (create_in E owner item words temporal ts g)
    (\<lambda>x t. same_store s t \<and> ir_reminder_id x = event_reminder_id e) (\<lambda>_ t. same_store s t) s"
  unfolding create_in_def Let_def wp_bind wp_py_now wp_new_id
  by (rule wp_outbox_event [OF item])
    (use there in \<open>auto simp: wp_gets wp_ret replayed_result_id same_store_def
      get_outbox_by_idempotency_key_def\<close>)

lemma create_leaves_event:
  assumes "bi_turn_id item = Some turn" "turn \<noteq> []" "bi_item_index item = Some k"
    and "create_reminder E owner item g s = (Inr x, t)" "ir_state x = Succeeded"
  obtains e where "get_outbox_by_idempotency_key t (item_key turn k) = Some e"
    and "ir_reminder_id x = event_reminder_id e"
proof -
  have "wp (create_reminder E owner item g)
      (\<lambda>x t. ir_state x = Succeeded \<longrightarrow>
         (\<exists>e. get_outbox_by_idempotency_key t (item_key turn k) = Some e \<and>
              ir_reminder_id x = event_reminder_id e)) (\<lambda>_ _. True) s"
    by (rule wp_create_reminder) (simp_all add: wp_create_in_event [OF assms(1-3)])
  from wp_InrD [OF this assms(4)] assms(5) that show thesis by blast
qed

lemma create_replays:
  assumes "bi_turn_id item = Some turn" "turn \<noteq> []" "bi_item_index item = Some k"
    and there: "get_outbox_by_idempotency_key s (item_key turn k) = Some e"
  shows "wp (create_reminder E owner item g)
    (\<lambda>x t. same_store s t \<and> (ir_state x = Succeeded \<longrightarrow> ir_reminder_id x = event_reminder_id e))
    (\<lambda>_ t. same_store s t) s"
proof (rule wp_create_reminder)
  fix t words temporal
  assume t: "same_store s t"
  then have "get_outbox_by_idempotency_key t (item_key turn k) = Some e"
    using there by (simp add: same_store_get)
  from wp_create_in_replay [OF assms(1-3) this]
  show "wp (create_in E owner item words temporal ValidFuture g)
    (\<lambda>x t. same_store s t \<and> (ir_state x = Succeeded \<longrightarrow> ir_reminder_id x = event_reminder_id e))
    (\<lambda>_ t. same_store s t) t"
    by (rule wp_mono) (use t same_store_trans in blast)+
qed simp_all

section \<open>Conflicts\<close>

text \<open>
  The conflict check, declaratively: another busy reminder of the owner whose interval overlaps the
  proposed one, unless it is the same content at the same start.
\<close>

definition clashes :: "datetime \<Rightarrow> int \<Rightarrow> string option \<Rightarrow> string option \<Rightarrow> reminder \<Rightarrow> bool" where
  "clashes t n exclude ch r \<longleftrightarrow>
     calendar_visible_busy_reminder r \<and> exclude \<noteq> Some (rem_id r) \<and>
     (\<exists>u. next_fire_at r = Some u \<and> \<not> (ch = Some (content_hash r) \<and> dt_key u = dt_key t) \<and>
        dt_key t < dt_key u + minutes_us (duration_minutes r) \<and>
        dt_key u < dt_key t + minutes_us n)"

text \<open>Times whose interval stays within the years 1 to 9999.\<close>

definition spans :: "datetime \<Rightarrow> int \<Rightarrow> bool" where
  "spans t n \<longleftrightarrow> is_aware t \<and> wall_ok (dt_key t) \<and> wall_ok (dt_key t + minutes_us n)"

lemma spans_utc: "spans t n \<Longrightarrow> to_utc E t = Inr (Aware (dt_key t) 0)"
  by (cases t) (auto simp: spans_def to_utc_def)

lemma spans_add: "spans t n \<Longrightarrow> dt_add (Aware (dt_key t) 0) (minutes_us n) = Inr (Aware (dt_key t + minutes_us n) 0)"
  by (simp add: spans_def)

lemma find_conflict_exact:
  assumes "\<forall>r\<in>set rs. \<forall>u. next_fire_at r = Some u \<longrightarrow> spans u (duration_minutes r)"
  shows "(\<exists>c. find_conflict E (Aware (dt_key t) 0) (Aware (dt_key t + minutes_us n) 0) z n x ch rs
              = Inr (Some c)) \<longleftrightarrow> list_ex (clashes t n x ch) rs"
    and "\<exists>o'. find_conflict E (Aware (dt_key t) 0) (Aware (dt_key t + minutes_us n) 0) z n x ch rs = Inr o'"
  using assms
proof (induction rs)
  case (Cons r rs)
  {
    case 1
    with Cons.IH show ?case
      by (cases "next_fire_at r"; cases ch)
        (auto simp: clashes_def spans_utc spans_add intervals_overlap_def
          simp del: dt_add.simps split: if_splits)
  next
    case 2
    with Cons.IH show ?case
      by (cases "next_fire_at r"; cases ch)
        (auto simp: clashes_def spans_utc spans_add intervals_overlap_def
          simp del: dt_add.simps split: if_splits)
  }
qed simp_all

section \<open>Fires\<close>

lemma get_fire_put [simp]:
  "get_fire (put_fire f s) i = (if i = fire_id f then Some f else get_fire s i)"
  "get_reminder (put_fire f s) j = get_reminder s j"
  by (simp_all add: put_fire_def get_fire_def get_reminder_def)

lemma claim_due_fire_found:
  assumes "get_reminder s rid = Some r" "get_fire_by_occurrence s rid (isoformat due) = Some f"
  shows "claim_due_fire E rid due missed s = (Inr f, s)"
  using assms by (simp add: claim_due_fire_def require_reminder_def py_run)

lemma claim_due_fire_stores:
  assumes "claim_due_fire E rid due missed s = (Inr f, t)" and "rem_ok s"
  shows "get_fire t (fire_id f) = Some f" and "fire_reminder_id f = rid"
    and "occurrence_key f = isoformat due" and "get_reminder t rid \<noteq> None"
    and "get_fire_by_occurrence t rid (isoformat due) = Some f"
proof -
  from assms(2) have ix: "indexed fire_id fire_key (fires_by_id s) (fires_by_occurrence s)"
    and keys: "keyed rem_id (reminders_by_id s)"
    by (simp_all add: rem_ok_def)
  from assms(1) obtain r where r: "get_reminder s rid = Some r"
    by (auto simp: claim_due_fire_def require_reminder_def py_run split: option.splits)
  then have rid: "rem_id r = rid" using keys by (auto simp: get_reminder_def dest: keyed_get)
  have "get_fire t (fire_id f) = Some f \<and> fire_reminder_id f = rid \<and>
      occurrence_key f = isoformat due \<and> get_reminder t rid \<noteq> None \<and>
      get_fire_by_occurrence t rid (isoformat due) = Some f"
  proof (cases "get_fire_by_occurrence s rid (isoformat due)")
    case None
    with assms(1) r rid show ?thesis
      by (auto simp: claim_due_fire_def require_reminder_def py_run add_fire_def Let_def
          claimed_fire_def get_fire_by_occurrence_def put_fire_def fire_key_def get_fire_def
          get_reminder_def split: if_splits)
  next
    case (Some f')
    with assms(1) r have f: "f' = f" "t = s" using claim_due_fire_found [OF r Some] by auto
    from Some f have "fire_key f = (rid, isoformat due)"
      using keyed_get [OF indexed_keyed(2) [OF ix]] by (auto simp: get_fire_by_occurrence_def)
    moreover from Some f have "dget (fires_by_id s) (fire_id f) = Some f"
      using indexed_from [OF ix, of f] calculation by (simp add: get_fire_by_occurrence_def)
    ultimately show ?thesis using Some f r by (simp add: fire_key_def get_fire_def)
  qed
  then show "get_fire t (fire_id f) = Some f" "fire_reminder_id f = rid"
    "occurrence_key f = isoformat due" "get_reminder t rid \<noteq> None"
    "get_fire_by_occurrence t rid (isoformat due) = Some f" by blast+
qed

text \<open>A fire of a state that satisfies the invariant is found by its occurrence.\<close>

lemma occurrence_of_fire:
  assumes "rem_ok s" "get_fire s i = Some f"
  shows "get_fire_by_occurrence s (fire_reminder_id f) (occurrence_key f) = Some f"
proof -
  from assms(1) have ix: "indexed fire_id fire_key (fires_by_id s) (fires_by_occurrence s)"
    by (simp add: rem_ok_def)
  have "fire_id f = i" using keyed_get [OF indexed_keyed(1) [OF ix]] assms(2) by (simp add: get_fire_def)
  then show ?thesis
    using indexed_to [OF ix, of f] assms(2)
    by (simp add: get_fire_def get_fire_by_occurrence_def fire_key_def)
qed

text \<open>Saving a changed fire that is stored: the stored one is replaced.\<close>

lemma save_changed_fire_run:
  fixes E :: env
  assumes "get_fire s (fire_id f) = Some f" "fire_id (change f) = fire_id f"
    and "fire_key (change f) = fire_key f"
  defines "u \<equiv> (change f)\<lparr>fire_updated_at := env_now E (clock s)\<rparr>"
  shows "save_changed_fire E change f s =
    (Inr u, put_fire u (s\<lparr>clock := Suc (clock s),
       fires_by_occurrence := dpop (fire_key f) (fires_by_occurrence s)\<rparr>))"
  using assms
  by (simp add: save_changed_fire_def save_fire_def py_run Let_def fire_key_def get_fire_def)

lemma complete_fire_done:
  "get_fire s fid = Some f \<Longrightarrow> fire_state f = FireCompleted \<Longrightarrow> complete_fire E fid at s = (Inr f, s)"
  by (simp add: complete_fire_def require_fire_def py_run)

text \<open>What becomes of the reminder when the fire of one of its occurrences is completed.\<close>

definition advanced :: "env \<Rightarrow> datetime \<Rightarrow> reminder \<Rightarrow> reminder \<Rightarrow> bool" where
  "advanced E due r r' \<longleftrightarrow>
     (case rem_kind r of
        Recurring \<Rightarrow>
          (\<exists>n. next_occurrence_after E (recurrence_rule r) due (captured_timezone r) = Inr n \<and>
               next_fire_at r' = Some n \<and> lifecycle r' = lifecycle r)
      | Proactive \<Rightarrow> r' = r
      | _ \<Rightarrow> lifecycle r' = Completed \<and> next_fire_at r' = next_fire_at r)"

lemma save_with_event_result:
  assumes "save_with_event E r operation g s = (Inr u, t)"
  shows "get_reminder t (rem_id r) = Some r \<and> fires_by_id t = fires_by_id s"
  using assms
  by (auto simp: save_with_event_def outbox_event_def py_run Let_def
      dest!: saving.stored simp: get_reminder_def put_reminder_def put_rem_outbox_def)

lemma advance_result:
  assumes "advance_or_complete_after_occurrence E r due s = (Inr u, t)"
    and "get_reminder s (rem_id r) = Some r"
  shows "(\<exists>r'. get_reminder t (rem_id r) = Some r' \<and> advanced E due r r') \<and>
    fires_by_id t = fires_by_id s"
  using assms
  by (cases "rem_kind r")
    (auto simp: advance_or_complete_after_occurrence_def py_run advanced_def
      dest!: save_with_event_result split: sum.splits)

lemma complete_fire_run:
  fixes E :: env and at :: datetime
  assumes ok: "rem_ok s" and f: "get_fire s fid = Some f" "fire_state f \<noteq> FireCompleted"
    and r: "get_reminder s (fire_reminder_id f) = Some r"
  defines "u \<equiv> (completed_fire at f)\<lparr>fire_updated_at := env_now E (clock s)\<rparr>"
  defines "s1 \<equiv> put_fire u (s\<lparr>clock := Suc (clock s),
       fires_by_occurrence := dpop (fire_key f) (fires_by_occurrence s)\<rparr>)"
  shows "complete_fire E fid at s =
    (case advance_or_complete_after_occurrence E r (due_at f) s1 of
       (Inl e, t) \<Rightarrow> (Inl e, t) | (Inr _, t) \<Rightarrow> (Inr u, t))"
    and "get_fire s1 fid = Some u" "fire_state u = FireCompleted"
    and "get_reminder s1 (fire_reminder_id f) = Some r" "rem_id r = fire_reminder_id f"
proof -
  have id: "fire_id f = fid"
    using ok f(1) by (auto simp: rem_ok_def get_fire_def dest: indexed_keyed keyed_get)
  show "rem_id r = fire_reminder_id f"
    using ok r by (auto simp: rem_ok_def get_reminder_def dest: keyed_get)
  have "save_changed_fire E (completed_fire at) f s = (Inr u, s1)"
    unfolding u_def s1_def
    by (rule save_changed_fire_run) (use f id in \<open>simp_all add: completed_fire_def fire_key_def\<close>)
  then show "complete_fire E fid at s =
    (case advance_or_complete_after_occurrence E r (due_at f) s1 of
       (Inl e, t) \<Rightarrow> (Inl e, t) | (Inr _, t) \<Rightarrow> (Inr u, t))"
    using f r
    by (simp add: complete_fire_def require_fire_def require_reminder_def py_run
        split: sum.splits prod.splits)
  have "fire_id u = fid" by (simp add: u_def completed_fire_def id)
  then show "get_fire s1 fid = Some u" by (simp add: s1_def)
  show "fire_state u = FireCompleted" by (simp add: u_def completed_fire_def)
  show "get_reminder s1 (fire_reminder_id f) = Some r"
    using r by (simp add: s1_def) (simp add: get_reminder_def)
qed

lemma complete_fire_result:
  assumes "rem_ok s" and f: "get_fire s fid = Some f" "fire_state f \<noteq> FireCompleted"
    and r: "get_reminder s (fire_reminder_id f) = Some r"
    and run: "complete_fire E fid at s = (Inr f', t)"
  shows "fire_state f' = FireCompleted \<and> get_fire t fid = Some f' \<and>
    (\<exists>r'. get_reminder t (fire_reminder_id f) = Some r' \<and> advanced E (due_at f) r r')"
proof -
  note run_eq = complete_fire_run(1-4) [OF assms(1) f r, where E = E and at = at]
    complete_fire_run(5) [OF assms(1) f r]
  from run_eq(1) run obtain u t1 s1 where
    adv: "advance_or_complete_after_occurrence E r (due_at f) s1 = (Inr u, t1)" "t1 = t"
    and s1: "get_fire s1 fid = Some f'" "fire_state f' = FireCompleted"
      "get_reminder s1 (fire_reminder_id f) = Some r"
    using run_eq(2-4) by (fastforce split: sum.splits prod.splits)
  have "get_reminder s1 (rem_id r) = Some r" using s1(3) run_eq(5) by simp
  from advance_result [OF adv(1) this] adv(2) s1 run_eq(5) show ?thesis
    by (auto simp: get_fire_def)
qed

section \<open>The groups of the scheduler\<close>

lemma add_group_ids:
  "mset (concat (map snd (add_group same k v gs))) = add_mset v (mset (concat (map snd gs)))"
  by (induction same k v gs rule: add_group.induct) auto

lemma add_group_keys:
  "g \<in> set (add_group same k v gs) \<Longrightarrow> fst g = k \<or> fst g \<in> fst ` set gs"
  by (induction same k v gs rule: add_group.induct) (auto split: if_splits)

lemma add_group_distinct:
  assumes "\<And>a b. same a b \<Longrightarrow> same b a"
  shows "sorted_wrt (\<lambda>a b. \<not> same (fst a) (fst b)) gs \<Longrightarrow>
    sorted_wrt (\<lambda>a b. \<not> same (fst a) (fst b)) (add_group same k v gs)"
proof (induction same k v gs rule: add_group.induct)
  case (2 same k v k' vs gs)
  show ?case
  proof (cases "same k' k")
    case False
    have "\<not> same k' (fst g)" if "g \<in> set (add_group same k v gs)" for g
      using add_group_keys [OF that] 2(2) False by auto
    with 2 False show ?thesis by simp
  qed (use 2 in simp)
qed simp

lemma fold_add_group:
  assumes "\<And>a b. same a b \<Longrightarrow> same b a"
    and "sorted_wrt (\<lambda>a b. \<not> same (fst a) (fst b)) gs"
  shows "mset (concat (map snd (fold (\<lambda>(k, v). add_group same k v) ps gs))) =
      mset (map snd ps) + mset (concat (map snd gs))"
    and "sorted_wrt (\<lambda>a b. \<not> same (fst a) (fst b)) (fold (\<lambda>(k, v). add_group same k v) ps gs)"
  using assms(2)
proof (induction ps arbitrary: gs)
  case (Cons p ps)
  obtain k v where p: "p = (k, v)" by (cases p)
  {
    case 1
    with Cons.IH(1) [of "add_group same k v gs"] add_group_distinct [OF assms(1) 1, of k v]
    show ?case by (simp add: p add_group_ids)
  next
    case 2
    with Cons.IH(2) [of "add_group same k v gs"] add_group_distinct [OF assms(1) 2, of k v]
    show ?case by (simp add: p)
  }
qed simp_all

lemma same_owner_time_sym: "same_owner_time a b \<Longrightarrow> same_owner_time b a"
  by (auto simp: same_owner_time_def dt_eq_sym)

lemma mset_concat_sort_key: "mset (concat (map f (sort_key h xs))) = mset (concat (map f xs))"
  by (simp add: mset_concat flip: sum_mset_sum_list)

lemma sorted_wrt_sort_key:
  "(\<And>a b. P a b \<Longrightarrow> P b a) \<Longrightarrow> sorted_wrt P xs \<Longrightarrow> sorted_wrt P (sort_key h xs)"
proof -
  assume sym: "\<And>a b. P a b \<Longrightarrow> P b a"
  have ins: "sorted_wrt P (insort_key h x ys)" if "sorted_wrt P ys" "\<forall>y\<in>set ys. P x y" for x ys
    using that
  proof (induction ys)
    case (Cons y ys)
    then show ?case using sym by (auto simp: set_insort_key)
  qed simp
  show "sorted_wrt P xs \<Longrightarrow> sorted_wrt P (sort_key h xs)"
    by (induction xs) (simp_all add: ins)
qed

lemma group_turns_spec:
  "mset (concat (map fg_fire_ids (group_turns claims))) = mset (map snd claims)"
  "sorted_wrt (\<lambda>a b. (fg_owner_account_id a, dt_key (fg_due_at a)) \<le>
     (fg_owner_account_id b, dt_key (fg_due_at b))) (group_turns claims)"
  "sorted_wrt (\<lambda>a b. \<not> (fg_owner_account_id a = fg_owner_account_id b \<and> dt_eq (fg_due_at a) (fg_due_at b)))
     (group_turns claims)"
proof -
  let ?gs = "fold (\<lambda>(k, v). add_group same_owner_time k v) claims []"
  let ?turn = "\<lambda>((owner, due), fids). \<lparr>fg_owner_account_id = owner, fg_due_at = due,
    fg_fire_ids = fids, fg_trigger_id = fire_trigger_id owner due\<rparr>"
  note fold = fold_add_group [of same_owner_time "[]" claims, OF same_owner_time_sym]
  have ids: "map fg_fire_ids (map ?turn gs) = map snd gs" for gs by (induction gs) auto
  have "mset (concat (map snd (sort_key group_order ?gs))) = mset (map snd claims)"
    using fold(1) by (simp add: mset_concat_sort_key)
  then show "mset (concat (map fg_fire_ids (group_turns claims))) = mset (map snd claims)"
    unfolding group_turns_def ids .
  have key: "(fg_owner_account_id (?turn g), dt_key (fg_due_at (?turn g))) = group_order g" for g
    by (auto simp: group_order_def split: prod.splits)
  have "sorted_wrt (\<lambda>a b. group_order a \<le> group_order b) (sort_key group_order ?gs)"
    using sorted_sort_key [of group_order ?gs] by (simp add: sorted_wrt_map)
  then show "sorted_wrt (\<lambda>a b. (fg_owner_account_id a, dt_key (fg_due_at a)) \<le>
     (fg_owner_account_id b, dt_key (fg_due_at b))) (group_turns claims)"
    unfolding group_turns_def sorted_wrt_map key .
  have sym: "\<not> same_owner_time (fst b) (fst a)" if "\<not> same_owner_time (fst a) (fst b)"
    for a b :: "(string \<times> datetime) \<times> string list"
    using that same_owner_time_sym by blast
  have "sorted_wrt (\<lambda>a b. \<not> same_owner_time (fst a) (fst b)) (sort_key group_order ?gs)"
    by (rule sorted_wrt_sort_key [OF sym]) (use fold(2) in simp_all)
  moreover have "(fg_owner_account_id (?turn a) = fg_owner_account_id (?turn b) \<and>
      dt_eq (fg_due_at (?turn a)) (fg_due_at (?turn b))) = same_owner_time (fst a) (fst b)" for a b
    by (auto simp: same_owner_time_def split: prod.splits)
  ultimately show "sorted_wrt (\<lambda>a b. \<not> (fg_owner_account_id a = fg_owner_account_id b \<and>
      dt_eq (fg_due_at a) (fg_due_at b))) (group_turns claims)"
    unfolding group_turns_def sorted_wrt_map by simp
qed

end
