(* ===== verification/RemProperties.thy ===== *)
theory RemProperties
  imports RemOutcomes
begin

text \<open>
  The properties of the reminder domain, with the closed examples that apply them: a small run of
  the service in an environment whose only zone is UTC.
\<close>

section \<open>A small run\<close>

definition demo_ports :: rem_ports where
  "demo_ports = \<lparr>rp_detector = None, rp_delivery = None, rp_friend_identifiers = None\<rparr>"

definition demo_due :: datetime where
  "demo_due = Aware (30 * day_us) 0"

definition demo_item :: "fact \<Rightarrow> batch_item" where
  "demo_item rule =
     \<lparr>bi_operation = ''create'', bi_content = Some ''a'', bi_raw_text = None, bi_reminder_id = None,
      bi_trigger_time = Some demo_due, bi_captured_timezone = ''UTC'', bi_recurrence_rule = PyDict rule,
      bi_duration_minutes = Some (PyInt 30), bi_kind = None, bi_entry_point = None,
      bi_time_state = None, bi_incomplete_date = False, bi_shared_reminder_id = None,
      bi_turn_id = Some ''t'', bi_item_index = Some 0\<rparr>"

definition demo_create :: "fact \<Rightarrow> rem_state" where
  "demo_create rule =
     snd (do_rem_call (demo_env 0) demo_ports (CExecuteBatch ''o'' [demo_item rule] no_guard) empty_rem_state)"

definition demo_claim :: "fact \<Rightarrow> rem_state" where
  "demo_claim rule =
     snd (do_rem_call (demo_env 0) demo_ports (CClaim ''0'' demo_due False) (demo_create rule))"

definition monthly :: fact where
  "monthly = [(''frequency'', PyStr ''monthly'')]"

lemma reachable_empty: "rem_reachable E P empty_rem_state"
  by (simp add: rem_reachable_def)

lemma reachable_call: "rem_reachable E P s \<Longrightarrow> rem_reachable E P (snd (do_rem_call E P c s))"
  unfolding rem_reachable_def
  by (erule rtranclp.rtrancl_into_rtrancl) (rule rem_stepI [OF prod.collapse [symmetric]])

lemma demo_rem_reachable:
  "rem_reachable (demo_env 0) demo_ports (demo_create rule)"
  "rem_reachable (demo_env 0) demo_ports (demo_claim rule)"
  unfolding demo_create_def demo_claim_def by (intro reachable_call reachable_empty)+

lemma demo_ok: "rem_ok (demo_create rule)" "rem_ok (demo_claim rule)"
  using demo_rem_reachable reachable_rem_ok by blast+

text \<open>What the examples read of these states, computed once.\<close>

definition demo_reminder :: "fact \<Rightarrow> reminder" where
  "demo_reminder rule =
     \<lparr>rem_id = ''0'', owner_account_id = ''o'', content = ''a'', content_hash = ''a'',
      rem_kind = (if rule = [] then Timed else Recurring), next_fire_at = Some demo_due,
      recurrence_rule = rule, captured_timezone = ''UTC'', duration_minutes = 30, lifecycle = Active,
      hidden_from_calendar = False, shared_reminder_id = None, rem_created_at = Aware sec_us 0,
      rem_updated_at = Aware sec_us 0\<rparr>"

definition demo_fire :: reminder_fire where
  "demo_fire =
     \<lparr>fire_id = ''2'', fire_reminder_id = ''0'', occurrence_key = isoformat demo_due, due_at = demo_due,
      fire_state = FireClaimed, fire_delivery = None, handled_at = None, fire_completed_at = None,
      missed_catch_up = False, fire_created_at = Aware (3 * sec_us) 0,
      fire_updated_at = Aware (3 * sec_us) 0\<rparr>"

lemma demo_run:
  "get_reminder (demo_claim []) ''0'' = Some (demo_reminder []) \<and>
   get_fire (demo_claim []) ''2'' = Some demo_fire \<and>
   dget (rem_outbox_by_id (demo_claim [])) ''3'' = None"
  by code_simp

lemma demo_monthly_run:
  "get_reminder (demo_claim monthly) ''0'' =
     Some (demo_reminder (monthly @ [(''interval'', PyInt 1)])) \<and>
   get_fire (demo_claim monthly) ''2'' = Some demo_fire"
  by code_simp

section \<open>The store\<close>

text \<open>
  C7. Whatever the users, the agent and the scheduler ask for, in whatever order and with whatever
  failures, the reminder store stays sound: every reminder and fire is well-formed (a recurring
  reminder has a canonical rule and a next time, an unscheduled one has no time, a duration is at
  least a minute, a completed fire says when), no two active reminders of an account have the same
  content and time, no occurrence of a reminder has two fires, every fire belongs to a stored
  reminder, and the indexes of fires and of outbox events agree with their tables.
\<close>

theorem reminder_store_invariant:
  assumes "rem_reachable E P s"
  shows "rem_ok s"
  using assms by (rule reachable_rem_ok)

theorem reminder_store_invariant_witness: "rem_ok (demo_claim monthly)"
  by (rule reminder_store_invariant [OF demo_rem_reachable(2)])

text \<open>
  Nothing is lost and nothing is revived: a stored reminder is there in every later state, with
  the same owner and the same link to a shared reminder, and once it is completed or deleted no call
  makes it active again; a stored fire is there with the same reminder and occurrence and once
  completed it has a completion time for good; an outbox event stays under its key.
\<close>

theorem reminders_and_fires_last:
  assumes "rem_ok s" and "(rem_step E P)\<^sup>*\<^sup>* s t"
  shows "(\<forall>i r. get_reminder s i = Some r \<longrightarrow>
      (\<exists>r'. get_reminder t i = Some r' \<and> owner_account_id r' = owner_account_id r \<and>
        shared_reminder_id r' = shared_reminder_id r \<and>
        (lifecycle r \<noteq> Active \<longrightarrow> lifecycle r' \<noteq> Active))) \<and>
    (\<forall>i f. get_fire s i = Some f \<longrightarrow>
      (\<exists>f'. get_fire t i = Some f' \<and> fire_reminder_id f' = fire_reminder_id f \<and>
        occurrence_key f' = occurrence_key f \<and> due_at f' = due_at f \<and>
        (fire_completed_at f \<noteq> None \<longrightarrow> fire_completed_at f' \<noteq> None))) \<and>
    (\<forall>k e. get_outbox_by_idempotency_key s k = Some e \<longrightarrow>
      get_outbox_by_idempotency_key t k = Some e)"
proof (intro conjI allI impI)
  fix i r
  assume "get_reminder s i = Some r"
  from reminders_last [OF assms(2,1) this]
  show "\<exists>r'. get_reminder t i = Some r' \<and> owner_account_id r' = owner_account_id r \<and>
      shared_reminder_id r' = shared_reminder_id r \<and> (lifecycle r \<noteq> Active \<longrightarrow> lifecycle r' \<noteq> Active)"
    unfolding reminder_edited_def by metis
next
  fix i f
  assume "get_fire s i = Some f"
  from fires_last [OF assms(2,1) this]
  show "\<exists>f'. get_fire t i = Some f' \<and> fire_reminder_id f' = fire_reminder_id f \<and>
      occurrence_key f' = occurrence_key f \<and> due_at f' = due_at f \<and>
      (fire_completed_at f \<noteq> None \<longrightarrow> fire_completed_at f' \<noteq> None)"
    unfolding fire_edited_def by metis
qed (rule events_last [OF assms(2,1)])

lemma demo_rem_steps:
  "(rem_step (demo_env 0) demo_ports)\<^sup>*\<^sup>* s (snd (do_rem_call (demo_env 0) demo_ports c s))"
  by (rule r_into_rtranclp) (rule rem_stepI [OF prod.collapse [symmetric]])

theorem reminders_and_fires_last_witness:
  "\<exists>r'. get_reminder (snd (do_rem_call (demo_env 0) demo_ports (CCompleteFire ''2'' demo_due) (demo_claim [])))
      ''0'' = Some r' \<and> owner_account_id r' = ''o''"
proof -
  have "owner_account_id (demo_reminder []) = ''o''" by (simp add: demo_reminder_def)
  with reminders_and_fires_last [OF demo_ok(2) demo_rem_steps, of "[]" "CCompleteFire ''2'' demo_due"]
    demo_run show ?thesis by metis
qed

text \<open>
  C8. Accounts are isolated: a call made for one account leaves every reminder of every other
  account exactly as it was, whether the call succeeds or raises, whatever identifiers, keywords and
  filters it is given.
\<close>

theorem accounts_are_isolated:
  assumes "rem_ok s" and "caller c = Some owner" and "do_rem_call E P c s = (res, t)"
    and "get_reminder s i = Some r" and "owner_account_id r \<noteq> owner"
  shows "get_reminder t i = Some r"
  using assms by (rule foreign_untouched)

theorem accounts_are_isolated_witness:
  "get_reminder (snd (do_rem_call (demo_env 0) demo_ports (CDelete ''p'' ''0'' True no_guard) (demo_claim [])))
     ''0'' = Some (demo_reminder [])"
  by (rule accounts_are_isolated [OF demo_ok(2) _ prod.collapse [symmetric], where owner = "''p''"])
    (simp_all add: demo_run, simp add: demo_reminder_def)

text \<open>
  C9. A reminder and its outbox event are written together or not at all. If the write raises, from
  the commit guard or from any check, the state is untouched; if it returns, both are stored, the
  guard allowed it, the event's identifier and key were free, and no active duplicate existed.
\<close>

theorem writes_are_atomic:
  "(case add_reminder_with_outbox r e g s of
      (Inl _, t) \<Rightarrow> t = s
    | (Inr _, t) \<Rightarrow> t = put_rem_outbox e (put_reminder r s) \<and> g s = None \<and>
        get_reminder s (rem_id r) = None \<and> event_free e s \<and> not_duplicated r s) \<and>
   (case save_reminder_with_outbox r e g s of
      (Inl _, t) \<Rightarrow> t = s
    | (Inr _, t) \<Rightarrow> t = put_rem_outbox e (put_reminder r s) \<and> g s = None \<and>
        get_reminder s (rem_id r) \<noteq> None \<and> event_free e s \<and> not_duplicated r s)"
  by (auto split: sum.splits prod.splits dest: adding.refused saving.refused adding.stored saving.stored)

section \<open>Creation\<close>

text \<open>
  C10. Creating the same item of the same turn again is safe. After a creation succeeds, and after
  any number of other calls, creating an item with that turn and index once more writes nothing,
  whatever else it contains, and if it reports success it reports the reminder created first.
\<close>

theorem creation_replays:
  assumes "rem_ok s" and item: "bi_turn_id item = Some turn" "turn \<noteq> []" "bi_item_index item = Some k"
    and first: "create_reminder E owner item g s = (Inr x, t)" "ir_state x = Succeeded"
    and later: "(rem_step E' P')\<^sup>*\<^sup>* t u"
    and again: "bi_turn_id item' = Some turn" "bi_item_index item' = Some k"
      "create_reminder E' owner' item' g' u = (r, v)"
  shows "same_store u v \<and>
    (\<forall>x'. r = Inr x' \<longrightarrow> ir_state x' = Succeeded \<longrightarrow> ir_reminder_id x' = ir_reminder_id x)"
proof -
  have ok: "rem_ok t"
    using preserves_run [OF plain.users.keeps_create [of "{}"] _ first(1)] assms(1)
    by (simp add: inv_with_def rem_inv_def)
  from create_leaves_event [OF item first] obtain e where
    e: "get_outbox_by_idempotency_key t (item_key turn k) = Some e" "ir_reminder_id x = event_reminder_id e" .
  from create_replays [OF again(1) item(2) again(2) events_last [OF later ok e(1)]] again(3) e(2)
  show ?thesis by (cases r) (auto dest: wp_InrD wp_InlD)
qed

definition demo_created :: item_result where
  "demo_created = item_result_of Succeeded (Some ''0'') None (Some ValidFuture) (created_fact (demo_reminder []))"

lemma demo_create_run:
  "create_reminder (demo_env 0) ''o'' (demo_item []) no_guard empty_rem_state =
     (Inr demo_created, demo_create [])"
  by code_simp

theorem creation_replays_witness:
  "same_store (demo_claim [])
     (snd (create_reminder (demo_env 0) ''o'' (demo_item []) no_guard (demo_claim [])))"
proof -
  have steps: "(rem_step (demo_env 0) demo_ports)\<^sup>*\<^sup>* (demo_create []) (demo_claim [])"
    unfolding demo_claim_def by (rule demo_rem_steps)
  show ?thesis
    using creation_replays [OF rem_ok_empty _ _ _ demo_create_run _ steps _ _ prod.collapse [symmetric],
        of "''t''" 0 "demo_item []" "''o''" no_guard]
    by (simp add: demo_item_def demo_created_def item_result_of_def)
qed

text \<open>
  A creation request that the normalisation accepts is well-typed: exactly the recurring kind
  has a rule, the rule is canonical, a timed or recurring reminder has a trigger time and an
  unscheduled one has none, and the duration is at least a minute.
\<close>

theorem accepted_request_is_consistent:
  assumes "normalize_create_temporal trigger rule minutes kind = Inr t"
  shows "(tf_kind t = Recurring \<longleftrightarrow> tf_recurrence_rule t \<noteq> []) \<and> rule_ok (tf_recurrence_rule t) \<and>
    (tf_kind t \<in> {Timed, Recurring} \<longrightarrow> tf_trigger_time t \<noteq> None) \<and>
    (tf_kind t = NoTriggerTime \<longrightarrow> tf_trigger_time t = None) \<and> 1 \<le> tf_duration_minutes t"
  using normalize_create_temporal_ok [OF assms] by blast

theorem accepted_request_is_consistent_witness:
  "rule_ok (monthly @ [(''interval'', PyInt 1)])"
proof -
  have "normalize_create_temporal (Some demo_due) (PyDict monthly) (Some (PyStr ''30'')) None =
      Inr \<lparr>tf_kind = Recurring, tf_trigger_time = Some demo_due,
           tf_recurrence_rule = monthly @ [(''interval'', PyInt 1)], tf_duration_minutes = 30\<rparr>"
    by code_simp
  from accepted_request_is_consistent [OF this] show ?thesis by simp
qed

text \<open>
  C11. Normalising a recurrence rule is a projection: whatever value it accepts, what it stores is
  accepted again and comes back unchanged, window times and frequencies included.
\<close>

theorem canonical_rule_round_trip:
  assumes "canonical_recurrence_rule v = Inr rule"
  shows "canonical_recurrence_rule (PyDict rule) = Inr rule"
  using assms by (intro rule_ok_fix canonical_rule_ok)

theorem canonical_rule_round_trip_witness:
  "canonical_recurrence_rule (PyDict [(''frequency'', PyStr ''hourly''), (''interval'', PyInt 2),
      (''window_start'', PyStr ''09:05'')]) =
   Inr [(''frequency'', PyStr ''hourly''), (''interval'', PyInt 2), (''window_start'', PyStr ''09:05'')]"
proof -
  have "canonical_recurrence_rule (PyDict [(''window_start'', PyStr '' 9:5 ''), (''interval'', PyStr ''2''),
        (''frequency'', PyStr ''Hourly '')]) =
      Inr [(''frequency'', PyStr ''hourly''), (''interval'', PyInt 2), (''window_start'', PyStr ''09:05'')]"
    by code_simp
  from canonical_rule_round_trip [OF this] show ?thesis .
qed

section \<open>Conflicts\<close>

text \<open>
  C12. The conflict check is exact. For a proposed time with its positive duration, it reports a
  conflict if and only if some other active, visible, timed reminder of the account overlaps it, a
  reminder with the same content at the same start excepted; intervals that only touch do not
  conflict. The times are aware and, with their durations, within the years the library represents.
\<close>

theorem conflict_check_exact:
  assumes "spans t n" and "0 < n"
    and "\<forall>r\<in>set (list_active_reminders s owner). \<forall>u. next_fire_at r = Some u \<longrightarrow> spans u (duration_minutes r)"
  shows "(\<exists>c. check_time_conflict E s owner (Some t) z (PyInt n) exclude ch = Inr (Some c)) \<longleftrightarrow>
    (\<exists>r\<in>set (list_active_reminders s owner). clashes t n exclude ch r)"
proof -
  have "duration_or_error (PyInt n) = Inr n"
    using assms(2) by (simp add: duration_or_error_def positive_duration_minutes_def positive_int_def)
  moreover have "is_aware t" using assms(1) by (simp add: spans_def)
  ultimately show ?thesis
    using find_conflict_exact(1) [OF assms(3), of E t n z exclude ch]
    by (simp add: check_time_conflict_def spans_utc [OF assms(1)] spans_add [OF assms(1)] list_ex_iff
        del: dt_add.simps)
qed

lemma demo_active: "list_active_reminders (demo_claim []) ''o'' = [demo_reminder []]"
  by code_simp

theorem conflict_check_exact_witness:
  "\<exists>c. check_time_conflict (demo_env 0) (demo_claim []) ''o'' (Some (Aware (30 * day_us - minute_us) 0))
     ''UTC'' (PyInt 2) None None = Inr (Some c)"
proof -
  have spans: "spans (Aware (30 * day_us - minute_us) 0) 2" "spans demo_due 30"
    by (simp_all add: spans_def demo_due_def wall_ok_def wall_end_def minutes_us_def us_defs)
  have "clashes (Aware (30 * day_us - minute_us) 0) 2 None None (demo_reminder [])"
    by (simp add: clashes_def calendar_visible_busy_reminder_def demo_reminder_def demo_due_def
        minutes_us_def us_defs)
  moreover have "\<forall>r\<in>set (list_active_reminders (demo_claim []) ''o''). \<forall>u. next_fire_at r = Some u \<longrightarrow>
      spans u (duration_minutes r)"
    using spans(2) by (simp add: demo_active) (simp add: demo_reminder_def)
  ultimately show ?thesis
    using conflict_check_exact [OF spans(1), of "demo_claim []" "''o''"] by (simp add: demo_active)
qed

section \<open>Fires\<close>

text \<open>
  An occurrence is claimed once: after a claim returns a fire, and after any number of other
  calls, claiming the same occurrence again returns the fire with the same identifier and changes
  nothing, so that the scheduler's passes, the catch-up and a restart never fire it twice.
\<close>

theorem occurrence_claimed_once:
  assumes "rem_ok s" and "claim_due_fire E rid due missed s = (Inr f, t)"
    and "(rem_step E' P')\<^sup>*\<^sup>* t u"
  shows "\<exists>f'. fire_id f' = fire_id f \<and> claim_due_fire E'' rid due missed' u = (Inr f', u)"
proof -
  have ok: "rem_ok t"
    using preserves_run [OF plain.keeps_claim [of "{}"] _ assms(2)] assms(1)
    by (simp add: inv_with_def rem_inv_def)
  note f = claim_due_fire_stores [OF assms(2,1)]
  from fires_last [OF assms(3) ok f(1)] obtain f' where
    f': "get_fire u (fire_id f) = Some f'" "fire_edited f f'" .
  from f(4) obtain r where "get_reminder t rid = Some r" by auto
  from reminders_last [OF assms(3) ok this] obtain r' where "get_reminder u rid = Some r'" .
  moreover have "get_fire_by_occurrence u rid (isoformat due) = Some f'"
    using occurrence_of_fire [OF steps_rem_ok [OF assms(3) ok] f'(1)] f'(2) f(2,3)
    by (simp add: fire_edited_def)
  ultimately have "claim_due_fire E'' rid due missed' u = (Inr f', u)" by (rule claim_due_fire_found)
  then show ?thesis using f'(2) by (auto simp: fire_edited_def)
qed

lemma demo_claim_run:
  "claim_due_fire (demo_env 0) ''0'' demo_due False (demo_create []) = (Inr demo_fire, demo_claim [])"
  by code_simp

theorem occurrence_claimed_once_witness:
  "\<exists>f'. fire_id f' = ''2'' \<and>
     claim_due_fire (demo_env 9) ''0'' demo_due True (demo_claim []) = (Inr f', demo_claim [])"
  using occurrence_claimed_once [OF demo_ok(1) demo_claim_run rtranclp.rtrancl_refl, of "demo_env 9" True]
  by (simp add: demo_fire_def)

text \<open>
  C13. Completing a fire finishes its occurrence. When \<open>complete_fire\<close> returns, the fire is stored and
  completed. If it had been open, its reminder moved to the rule's next occurrence if it recurs, was
  completed if it is a timed, untimed or shared one, and is unchanged if it is proactive; a fire
  that had been completed before is returned as it was, and nothing changes. Completing the fire
  once more returns the same fire and changes nothing.
\<close>

theorem completing_a_fire:
  assumes "rem_ok s" and run: "complete_fire E fid at s = (Inr f', t)"
  shows "\<exists>f. get_fire s fid = Some f \<and> fire_state f' = FireCompleted \<and> get_fire t fid = Some f' \<and>
    (if fire_state f = FireCompleted then f' = f \<and> t = s
     else \<exists>r r'. get_reminder s (fire_reminder_id f) = Some r \<and>
       get_reminder t (fire_reminder_id f) = Some r' \<and> advanced E (due_at f) r r') \<and>
    complete_fire E' fid at' t = (Inr f', t)"
proof -
  obtain f where f: "get_fire s fid = Some f"
    using run by (cases "get_fire s fid") (auto simp: complete_fire_def require_fire_def py_run)
  show ?thesis
  proof (cases "fire_state f = FireCompleted")
    case True
    with run complete_fire_done [OF f] have "f' = f \<and> t = s" by simp
    with f True complete_fire_done [OF f] show ?thesis by simp
  next
    case False
    have "get_reminder s (fire_reminder_id f) \<noteq> None"
      using assms(1) f unfolding rem_ok_def by blast
    then obtain r where r: "get_reminder s (fire_reminder_id f) = Some r" by blast
    have "fire_state f' = FireCompleted \<and> get_fire t fid = Some f'"
      and "\<exists>r'. get_reminder t (fire_reminder_id f) = Some r' \<and> advanced E (due_at f) r r'"
      using complete_fire_result [OF assms(1) f False r run] by blast+
    with f False r complete_fire_done show ?thesis by auto
  qed
qed

lemma demo_complete_run:
  "fst (complete_fire (demo_env 0) ''2'' demo_due (demo_claim monthly)) = Inl (ValueError ''day is out of range for month'') \<and>
   fst (complete_fire (demo_env 0) ''2'' demo_due (demo_claim [])) =
     Inr ((completed_fire demo_due demo_fire)\<lparr>fire_updated_at := Aware (4 * sec_us) 0\<rparr>)"
  by code_simp

theorem completing_a_fire_witness:
  "\<exists>r'. get_reminder (snd (complete_fire (demo_env 0) ''2'' demo_due (demo_claim []))) ''0'' = Some r' \<and>
     lifecycle r' = Completed"
proof -
  have run: "complete_fire (demo_env 0) ''2'' demo_due (demo_claim []) =
      (Inr ((completed_fire demo_due demo_fire)\<lparr>fire_updated_at := Aware (4 * sec_us) 0\<rparr>),
       snd (complete_fire (demo_env 0) ''2'' demo_due (demo_claim [])))"
    using demo_complete_run by (metis prod.collapse)
  have "fire_state demo_fire \<noteq> FireCompleted" "fire_reminder_id demo_fire = ''0''"
    by (simp_all add: demo_fire_def)
  with completing_a_fire [OF demo_ok(2) run] demo_run
  show ?thesis by (auto simp: advanced_def demo_reminder_def)
qed

text \<open>
  C14. A recurring reminder whose next occurrence cannot be computed is left behind.
  \<open>complete_fire\<close> saves the fire as completed before it computes the next occurrence, so when that
  raises (a monthly reminder on the 31st, a yearly one on 29 February) the fire is completed and the
  reminder still has the time that has just passed. After any later calls the fire is completed or
  discarded, and as long as it is completed, \<open>complete_fire\<close> returns it at once and changes nothing:
  it does not advance the reminder. (Only the calls meant for proactive fires discard a fire.)
\<close>

theorem failed_advance_sticks:
  assumes "rem_ok s" and f: "get_fire s fid = Some f" "fire_state f \<noteq> FireCompleted"
    and r: "get_reminder s (fire_reminder_id f) = Some r" "rem_kind r = Recurring"
    and none: "next_occurrence_after E (recurrence_rule r) (due_at f) (captured_timezone r) = Inl e"
  shows "\<exists>t f'. complete_fire E fid at s = (Inl e, t) \<and> fire_state f' = FireCompleted \<and>
    get_fire t fid = Some f' \<and> get_reminder t (fire_reminder_id f) = Some r \<and>
    (\<forall>E' P' u. (rem_step E' P')\<^sup>*\<^sup>* t u \<longrightarrow>
      (\<exists>g. get_fire u fid = Some g \<and>
        (if fire_state g = FireCompleted then \<forall>E'' at'. complete_fire E'' fid at' u = (Inr g, u)
         else fire_state g = FireDiscarded)))"
proof -
  note run_eq = complete_fire_run(1-4) [OF assms(1) f r(1), where E = E and at = at]
    complete_fire_run(5) [OF assms(1) f r(1)]
  have "advance_or_complete_after_occurrence E r (due_at f) s1 = (Inl e, s1)" for s1
    using r(2) none by (simp add: advance_or_complete_after_occurrence_def py_run)
  with run_eq(1) obtain t f' where t: "complete_fire E fid at s = (Inl e, t)"
    "fire_state f' = FireCompleted" "get_fire t fid = Some f'"
    "get_reminder t (fire_reminder_id f) = Some r"
    using that [OF _ run_eq(3,2,4)] by (simp only: case_prod_conv sum.case)
  have ok: "rem_ok t"
    using preserves_run [OF plain.keeps_complete_fire [of "{}"] _ t(1)] assms(1)
    by (simp add: inv_with_def rem_inv_def)
  have "\<exists>g. get_fire u fid = Some g \<and>
        (if fire_state g = FireCompleted then \<forall>E'' at'. complete_fire E'' fid at' u = (Inr g, u)
         else fire_state g = FireDiscarded)" if "(rem_step E' P')\<^sup>*\<^sup>* t u" for E' P' u
    by (rule completed_lasts [OF that ok t(3,2)]) (auto simp: complete_fire_done)
  with t show ?thesis by blast
qed

theorem failed_advance_sticks_witness:
  "\<exists>t r'. complete_fire (demo_env 0) ''2'' demo_due (demo_claim monthly) =
       (Inl (ValueError ''day is out of range for month''), t) \<and>
     get_reminder t ''0'' = Some r' \<and> next_fire_at r' = Some demo_due"
proof -
  have none: "next_occurrence_after (demo_env 0) (monthly @ [(''interval'', PyInt 1)]) demo_due ''UTC'' =
      Inl (ValueError ''day is out of range for month'')"
    by code_simp
  let ?r = "demo_reminder (monthly @ [(''interval'', PyInt 1)])"
  have "fire_state demo_fire \<noteq> FireCompleted" "fire_reminder_id demo_fire = ''0''"
    "due_at demo_fire = demo_due" by (simp_all add: demo_fire_def)
  moreover have "rem_kind ?r = Recurring" "recurrence_rule ?r = monthly @ [(''interval'', PyInt 1)]"
    "captured_timezone ?r = ''UTC''" "next_fire_at ?r = Some demo_due"
    by (simp_all add: demo_reminder_def)
  ultimately show ?thesis
    using failed_advance_sticks [OF demo_ok(2), of monthly "''2''" demo_fire ?r "demo_env 0"
        "ValueError ''day is out of range for month''" demo_due] demo_monthly_run none
    by (auto; metis)
qed

text \<open>
  C15. A fire of a reminder that does not recur can always be completed: while it is open and the
  identifiers supplied for the outbox event are new, \<open>complete_fire\<close> returns with the fire completed;
  a proactive reminder is left as it was, any other is completed.
\<close>

theorem one_time_fire_completes:
  assumes "rem_ok s" and f: "get_fire s fid = Some f" "fire_state f \<noteq> FireCompleted"
    and r: "get_reminder s (fire_reminder_id f) = Some r" "rem_kind r \<noteq> Recurring"
    and fresh: "dget (rem_outbox_by_id s) (env_id E ''outbox'' (issued s)) = None"
      "dget (rem_outbox_by_key s)
         (''reminder:complete_after_fire:'' @ rem_id r @ '':'' @ env_id E ''outbox'' (issued s)) = None"
  shows "\<exists>f' t r'. complete_fire E fid at s = (Inr f', t) \<and> fire_state f' = FireCompleted \<and>
    get_fire t fid = Some f' \<and> get_reminder t (fire_reminder_id f) = Some r' \<and>
    (if rem_kind r = Proactive then r' = r else lifecycle r' = Completed)"
proof -
  note run_eq = complete_fire_run(1-4) [OF assms(1) f r(1), where E = E and at = at]
    complete_fire_run(5) [OF assms(1) f r(1)]
  let ?u = "(completed_fire at f)\<lparr>fire_updated_at := env_now E (clock s)\<rparr>"
  let ?s1 = "put_fire ?u (s\<lparr>clock := Suc (clock s),
      fires_by_occurrence := dpop (fire_key f) (fires_by_occurrence s)\<rparr>)"
  have "\<exists>t. advance_or_complete_after_occurrence E r (due_at f) ?s1 = (Inr (), t)"
    using r(2) fresh run_eq(4,5)
    by (auto simp: advance_or_complete_after_occurrence_def save_with_event_def outbox_event_def
        outbox_key_def save_reminder_with_outbox_def save_reminder_def write_runs not_duplicated_def no_guard_def
        put_fire_def put_reminder_def get_reminder_def)
  then obtain t where "advance_or_complete_after_occurrence E r (due_at f) ?s1 = (Inr (), t)" ..
  with run_eq(1) have run: "complete_fire E fid at s = (Inr ?u, t)" by simp
  from complete_fire_result [OF assms(1) f r(1) run] r(2) show ?thesis
    by (cases "rem_kind r") (auto simp: advanced_def run)
qed

theorem one_time_fire_completes_witness:
  "\<exists>f' t. complete_fire (demo_env 0) ''2'' demo_due (demo_claim []) = (Inr f', t) \<and>
     fire_state f' = FireCompleted"
proof -
  have "issued (demo_claim []) = 3 \<and>
      dget (rem_outbox_by_key (demo_claim [])) ''reminder:complete_after_fire:0:3'' = None" by code_simp
  moreover have "env_id (demo_env 0) ''outbox'' 3 = ''3''" by code_simp
  moreover have "fire_state demo_fire \<noteq> FireCompleted" "fire_reminder_id demo_fire = ''0''"
    "rem_kind (demo_reminder []) = Timed" "rem_id (demo_reminder []) = ''0''"
    by (simp_all add: demo_fire_def demo_reminder_def)
  ultimately show ?thesis
    using one_time_fire_completes [OF demo_ok(2), of "[]" "''2''" demo_fire "demo_reminder []" "demo_env 0"
        demo_due] demo_run by auto
qed

section \<open>Recurrence\<close>

text \<open>
  C16. The next occurrence of a rule is strictly later than the one it follows, in every zone that
  moves its clocks back by at most an hour, for every rule the code accepts, hourly rules with their
  window included; so advancing a reminder never leaves it due at the same or an earlier time.
\<close>

theorem next_occurrence_is_later:
  assumes "next_occurrence_after E rule previous captured = Inr following"
    and "env_zone E captured = Inr z" "zone_regular z" and "is_aware previous"
  shows "is_aware following \<and> dt_key previous < dt_key following"
  using next_occurrence_later [OF assms] by simp

theorem next_occurrence_is_later_witness:
  "\<exists>d. next_occurrence_after (demo_env 0) [(''frequency'', PyStr ''hourly''), (''interval'', PyInt 2)]
      (Aware (22 * hour_us) 0) ''UTC'' = Inr d \<and> dt_key (Aware (22 * hour_us) 0) < dt_key d"
proof -
  have z: "env_zone (demo_env 0) ''UTC'' = Inr (fixed_zone 0)" by (simp add: demo_env_def)
  have next_one: "next_occurrence_after (demo_env 0) [(''frequency'', PyStr ''hourly''), (''interval'', PyInt 2)]
      (Aware (22 * hour_us) 0) ''UTC'' = Inr (Aware (56 * hour_us) 0)"
    by code_simp
  from next_occurrence_is_later [OF next_one z zone_regular_fixed] next_one show ?thesis
    by (metis is_aware.simps(2))
qed

text \<open>
  C17. Expanding a rule over a range ends, although the loop that skips to the range has no bound: in
  a known zone that moves its clocks back by at most an hour, and for aware times, it returns,
  and what it returns is at most \<open>limit\<close> times, in increasing order, all within the range and none before the first occurrence; or it raises.
\<close>

theorem occurrences_between_terminates:
  assumes "env_zone E captured = Inr z" "zone_regular z"
    and "is_aware first" "is_aware start" "is_aware end_at"
  shows "\<exists>r. occurrences_between E rule first captured start end_at limit = Some r \<and>
    (\<forall>ds. r = Inr ds \<longrightarrow> length ds \<le> limit \<and> sorted_wrt (\<lambda>a b. dt_key a < dt_key b) ds \<and>
      (\<forall>d\<in>set ds. dt_key start \<le> dt_key d \<and> dt_key d \<le> dt_key end_at \<and> dt_key first \<le> dt_key d))"
proof -
  obtain r where "occurrences_between E rule first captured start end_at limit = Some r"
    and "\<And>ds. r = Inr ds \<Longrightarrow>
      length ds \<le> limit \<and> sorted_wrt (\<lambda>a b. dt_key a < dt_key b) ds \<and>
      (\<forall>d\<in>set ds. is_aware d \<and> dt_key start \<le> dt_key d \<and> dt_key d \<le> dt_key end_at \<and>
                  dt_key first \<le> dt_key d)"
    using occurrences_between_ends [OF assms] by blast
  then show ?thesis by blast
qed

definition demo_occurrences :: "(pyexn + datetime list) option" where
  "demo_occurrences =
     occurrences_between (demo_env 0) [(''frequency'', PyStr ''daily'')] (Aware 5 0) ''UTC''
       (Aware (2 * day_us) 0) (Aware (4 * day_us) 0) 256"

theorem occurrences_between_terminates_witness:
  "demo_occurrences \<noteq> None \<and> demo_occurrences = Some (Inr [Aware (2 * day_us + 5) 0, Aware (3 * day_us + 5) 0])"
proof
  have z: "env_zone (demo_env 0) ''UTC'' = Inr (fixed_zone 0)" by (simp add: demo_env_def)
  show "demo_occurrences \<noteq> None"
    using occurrences_between_terminates [OF z zone_regular_fixed, of "Aware 5 0" "Aware (2 * day_us) 0"
        "Aware (4 * day_us) 0" "[(''frequency'', PyStr ''daily'')]" 256]
    by (auto simp: demo_occurrences_def)
  show "demo_occurrences = Some (Inr [Aware (2 * day_us + 5) 0, Aware (3 * day_us + 5) 0])"
    by code_simp
qed

text \<open>
  Daily and weekly reminders keep their wall clock time across changes of the UTC offset: when
  the reading \<open>n\<close> days or weeks later exists (it is the first reading of the instant \<open>u\<close>), that
  instant is the next occurrence, and it shows the same time of day.
\<close>

theorem daily_keeps_wall_clock:
  assumes "next_occurrence_after E rule previous captured = Inr following"
    and "env_zone E captured = Inr z" "zone_ok z" and "is_aware previous"
    and "canonical_recurrence_rule (PyDict rule) = Inr cr"
    and "dget cr ''frequency'' = Some (PyStr f)" "f \<in> {''daily'', ''weekly''}"
    and "dget cr ''interval'' = Some (PyInt n)"
    and "u + off_at z u = dt_key previous + off_at z (dt_key previous) +
        n * (if f = ''daily'' then day_us else 7 * day_us)" "\<not> fold_at z u"
  shows "dt_key following = u \<and>
    time_of (u + off_at z u) = time_of (dt_key previous + off_at z (dt_key previous))"
  using next_occurrence_same_time [OF assms] by blast

text \<open>A zone that moves from UTC to UTC+1 at the second day, for the example.\<close>

definition spring_zone :: zone where
  "spring_zone =
     \<lparr>off_at = (\<lambda>u. if u < day_us then 0 else hour_us), fold_at = (\<lambda>_. False),
      off_wall = (\<lambda>w f. if w < day_us \<or> (w < day_us + hour_us \<and> \<not> f) then 0 else hour_us)\<rparr>"

definition spring_env :: env where
  "spring_env = (demo_env 0)\<lparr>env_zone := (\<lambda>_. Inr spring_zone)\<rparr>"

lemma spring_zone_ok: "zone_ok spring_zone"
  by (simp add: zone_ok_def spring_zone_def us_defs)

theorem daily_keeps_wall_clock_witness:
  "time_of (day_us + 8 * hour_us + off_at spring_zone (day_us + 8 * hour_us)) = 9 * hour_us"
proof -
  let ?rule = "[(''frequency'', PyStr ''daily'')]"
  have next_one: "next_occurrence_after spring_env ?rule (Aware (9 * hour_us) 0) ''x'' =
      Inr (Aware (day_us + 8 * hour_us) 0)"
    by code_simp
  have canonical: "canonical_recurrence_rule (PyDict ?rule) =
      Inr (?rule @ [(''interval'', PyInt 1)])" by code_simp
  have z: "env_zone spring_env ''x'' = Inr spring_zone" by (simp add: spring_env_def)
  have same: "dt_key (Aware (day_us + 8 * hour_us) 0) = day_us + 8 * hour_us \<and>
      time_of (day_us + 8 * hour_us + off_at spring_zone (day_us + 8 * hour_us)) =
      time_of (dt_key (Aware (9 * hour_us) 0) + off_at spring_zone (dt_key (Aware (9 * hour_us) 0)))"
    by (rule daily_keeps_wall_clock [OF next_one z spring_zone_ok _ canonical, where f = "''daily''" and n = 1])
      (simp_all add: spring_zone_def us_defs)
  show ?thesis using same by (simp add: spring_zone_def us_defs time_of_def)
qed

text \<open>
  A monthly step lands on the same day of the month, \<open>n\<close> months on, with the same time of day,
  exactly when that month has that day; otherwise it raises. It never clips to the month's last day.
\<close>

theorem monthly_step_exact:
  assumes "date_of w = (y, m, d)" and "1 \<le> y" "1 \<le> n" and "y + (m - 1 + n) div 12 \<le> 9999"
  defines "y' \<equiv> y + (m - 1 + n) div 12" and "m' \<equiv> (m - 1 + n) mod 12 + 1"
  shows "(d \<le> days_in_month y' m' \<longrightarrow>
      (\<exists>w'. add_interval (w, f) ''monthly'' n = Inr (w', f) \<and> date_of w' = (y', m', d) \<and>
            time_of w' = time_of w)) \<and>
    (days_in_month y' m' < d \<longrightarrow>
      add_interval (w, f) ''monthly'' n = Inl (ValueError ''day is out of range for month''))"
proof -
  have v: "valid_date y m d"
    using ord2ymd_correct(2) [of "w div day_us + 1" y m d] assms(1) by (simp add: date_of_def)
  have y': "1 \<le> y'" "y' \<le> 9999"
    using assms(2-4) v by (auto simp: y'_def valid_date_def pos_imp_zdiv_nonneg_iff)
  have m': "1 \<le> m'" "m' \<le> 12" by (simp_all add: m'_def)
  have step: "add_interval (w, f) ''monthly'' n = sbind (make_wall y' m' d (time_of w)) (\<lambda>v. Inr (v, f))"
    using assms(1) y'(2) by (simp add: add_interval_def Let_def replace_date_def y'_def m'_def)
  show ?thesis
  proof (cases "d \<le> days_in_month y' m'")
    case True
    then obtain w' where w': "make_wall y' m' d (time_of w) = Inr w'"
      using y' m' v by (auto simp: make_wall_def valid_date_def)
    from make_wall_date [OF w' time_of_bounds] True show ?thesis by (simp add: step w')
  next
    case False
    then show ?thesis using y' m' v by (auto simp: step make_wall_def valid_date_def)
  qed
qed

theorem monthly_step_exact_witness:
  "add_interval (30 * day_us, False) ''monthly'' 1 = Inl (ValueError ''day is out of range for month'')"
proof -
  have "date_of (30 * day_us) = (1, 1, 31)" by code_simp
  moreover have "days_in_month 1 2 = 28" by code_simp
  ultimately show ?thesis using monthly_step_exact [of "30 * day_us" 1 1 31 1 False] by simp
qed

section \<open>The scheduler and keywords\<close>

text \<open>
  The scheduler's groups partition what it claimed. \<open>group_turns\<close> hands every claimed fire to
  exactly one turn, makes one turn per account and instant, and orders the turns by account and
  time, whatever the order of the claims and the offsets their times are shown with.
\<close>

theorem turns_partition_claims:
  "mset (concat (map fg_fire_ids (group_turns claims))) = mset (map snd claims) \<and>
   sorted_wrt (\<lambda>a b. (fg_owner_account_id a, dt_key (fg_due_at a)) \<le>
     (fg_owner_account_id b, dt_key (fg_due_at b))) (group_turns claims) \<and>
   sorted_wrt (\<lambda>a b. \<not> (fg_owner_account_id a = fg_owner_account_id b \<and>
     dt_eq (fg_due_at a) (fg_due_at b))) (group_turns claims)"
  using group_turns_spec by blast

text \<open>
  A keyword changes at most the one reminder it can mean. Completing, deleting or updating by a
  keyword acts on the only active, user-changeable reminder of the account that matches; when none
  or several match, or the keyword is blank, nothing is written and the result asks back.
\<close>

theorem keyword_must_be_unique:
  assumes "filter_reminders E s owner (Some keyword) (Some Active) None None None = Inr found"
    and "\<not> (normalized_keyword (Some keyword) \<noteq> [] \<and> length (filter user_mutable_reminder found) = 1)"
    and "op \<in> {complete_reminder_by_keyword E owner keyword g, delete_reminder_by_keyword E owner keyword g,
      update_reminder_by_keyword E owner keyword words t z d g}"
  shows "\<exists>x. op s = (Inr x, s) \<and> ir_state x = NeedsFollowUp \<and> ir_reminder_id x = None"
proof -
  obtain x where x: "single_user_mutable_keyword_match E s owner keyword = Inr x"
    and "ir_state x = NeedsFollowUp" "ir_reminder_id x = None"
    using assms(1,2)
  proof (cases "normalized_keyword (Some keyword) = []")
    case True
    with that show ?thesis by (simp add: single_user_mutable_keyword_match_def item_result_of_def)
  next
    case False
    with that assms(1,2) show ?thesis
      by (cases "filter user_mutable_reminder found" rule: remdups_adj.cases)
        (simp_all add: single_user_mutable_keyword_match_def item_result_of_def)
  qed
  then have "by_keyword E owner keyword act s = (Inr x, s)" for act
    by (simp add: by_keyword_def resolve_user_mutable_keyword_def py_run)
  with assms(3) \<open>ir_state x = NeedsFollowUp\<close> \<open>ir_reminder_id x = None\<close> show ?thesis
    by (auto simp: complete_reminder_by_keyword_def delete_reminder_by_keyword_def
        update_reminder_by_keyword_def)
qed

theorem keyword_must_be_unique_witness:
  "\<exists>x. delete_reminder_by_keyword (demo_env 0) ''o'' ''zz'' no_guard (demo_claim []) = (Inr x, demo_claim []) \<and>
     ir_state x = NeedsFollowUp"
proof -
  have "filter_reminders (demo_env 0) (demo_claim []) ''o'' (Some ''zz'') (Some Active) None None None = Inr []"
    by code_simp
  from keyword_must_be_unique [OF this, where g = no_guard
      and op = "delete_reminder_by_keyword (demo_env 0) ''o'' ''zz'' no_guard"]
  show ?thesis by auto
qed

text \<open>
  A proactive reminder, which belongs to the agent, cannot be completed, deleted, rescheduled
  or updated by its user: each of these calls raises and changes nothing; but the user can clear its
  time, which turns it into an ordinary unscheduled reminder that stays hidden from the calendar.
\<close>

theorem proactive_reminders_guarded:
  assumes r: "get_reminder s rid = Some r" "owner_account_id r = owner" "lifecycle r = Active"
    "rem_kind r = Proactive" and id: "rem_id r = rid"
  shows "(\<exists>x. complete_reminder E owner rid g s = (Inl x, s)) \<and>
    (\<exists>x. delete_reminder E owner rid True g s = (Inl x, s)) \<and>
    (\<exists>x. reschedule_reminder E owner rid t z g s = (Inl x, s)) \<and>
    (\<exists>x. update_reminder E owner rid words t' z' d g s = (Inl x, s)) \<and>
    (\<forall>x u. clear_trigger_time E owner rid g s = (Inr x, u) \<longrightarrow>
       get_reminder u rid =
         Some (r\<lparr>rem_kind := NoTriggerTime, next_fire_at := None, recurrence_rule := [],
                 rem_updated_at := env_now E (clock s)\<rparr>))"
proof -
  have owned: "require_owned_reminder owner rid s = (Inr r, s)"
    using r by (simp add: require_owned_reminder_def require_reminder_def py_run)
  show ?thesis
    using r id
    by (auto simp: complete_reminder_def delete_reminder_def reschedule_reminder_def update_reminder_def
        schedule_unscheduled_def clear_trigger_time_def Let_def py_run owned
        split: sum.splits prod.splits dest!: save_with_event_result)
qed

definition demo_proactive :: rem_state where
  "demo_proactive =
     snd (do_rem_call (demo_env 0) demo_ports
       (CExecuteBatch ''o'' [(demo_item [])\<lparr>bi_kind := Some ''proactive''\<rparr>] no_guard) empty_rem_state)"

theorem proactive_reminders_guarded_witness:
  "\<exists>x. complete_reminder (demo_env 0) ''o'' ''0'' no_guard demo_proactive = (Inl x, demo_proactive)"
proof -
  have "get_reminder demo_proactive ''0'' =
      Some ((demo_reminder [])\<lparr>rem_kind := Proactive, hidden_from_calendar := True\<rparr>)"
    by code_simp
  from proactive_reminders_guarded [OF this, of "''o''" "demo_env 0" no_guard] show ?thesis
    by (simp add: demo_reminder_def)
qed

text \<open>
  An hourly step that lands before the day's window skips that day: \<open>_fit_hourly_window\<close> sends
  it to the window's start on the following day, although the start of the same day's window is
  still ahead. Every two hours from 22:00 with the window 08:00 to 23:00 goes on at 08:00 two days
  later.
\<close>

theorem hourly_step_skips_day:
  assumes "rule_time (dget rule ''window_start'') (8 * hour_us) = Inr start"
    and "rule_time (dget rule ''window_end'') (23 * hour_us) = Inr until"
    and "time_of w < start" and "wall_ok (w - time_of w + day_us)"
  shows "fit_hourly_window (w, f) rule = Inr (w - time_of w + day_us + start, False) \<and>
    w < w - time_of w + start"
  using assms by (simp add: fit_hourly_window_def Let_def)

theorem hourly_step_skips_day_witness:
  "fit_hourly_window (day_us, False) [] = Inr (2 * day_us + 8 * hour_us, False)"
  using hourly_step_skips_day [of "[]" "8 * hour_us" "23 * hour_us" day_us False]
  by (simp add: rule_time_def time_of_def wall_ok_def wall_end_def us_defs)

end
