(* ===== verification/SocAvailability.thy ===== *)
theory SocAvailability
  imports RemRepository
begin

text \<open>
  Availability (\<open>coke/domains/social_scheduling/availability.py\<close>): the busy intervals of an account
  between two times, merged into windows that are alternately busy and free, and what the windows
  say of the time between.
\<close>

section \<open>Data\<close>

datatype busy_source = PersonalBusy | SharedBusy
datatype window_state = BusyWindow | FreeWindow

record busy_interval =
  bz_account_id :: string
  bz_start :: datetime
  bz_end :: datetime
  bz_source :: busy_source
  bz_detail_id :: "string option"

record availability_window =
  win_start :: datetime
  win_end :: datetime
  win_state :: window_state

record friend_availability =
  fa_friend_account_id :: string
  fa_windows :: "availability_window list"
  fa_friend_display_name :: "string option"

fun window_state_name :: "window_state \<Rightarrow> string" where
  "window_state_name BusyWindow = ''busy''"
| "window_state_name FreeWindow = ''free''"

definition window_public_dict :: "availability_window \<Rightarrow> fact" where
  "window_public_dict w =
     [(''start'', PyStr (isoformat (win_start w))), (''end'', PyStr (isoformat (win_end w))),
      (''state'', PyStr (window_state_name (win_state w)))]"

section \<open>Building the windows\<close>

text \<open>
  \<open>max(a, b)\<close> and \<open>min(a, b)\<close> return the first of two equal arguments. They are applied to
  datetimes that were compared before, so they do not raise.
\<close>

definition dt_max :: "datetime \<Rightarrow> datetime \<Rightarrow> datetime" where
  "dt_max a b = (if dt_key a < dt_key b then b else a)"

definition dt_min :: "datetime \<Rightarrow> datetime \<Rightarrow> datetime" where
  "dt_min a b = (if dt_key b < dt_key a then b else a)"

definition meets :: "datetime \<Rightarrow> datetime \<Rightarrow> busy_interval \<Rightarrow> pyexn + bool" where
  "meets start end_at i =
     sbind (dt_lt (bz_start i) end_at) (\<lambda>earlier.
     if \<not> earlier then Inr False else dt_lt start (bz_end i))"

definition clip :: "datetime \<Rightarrow> datetime \<Rightarrow> busy_interval \<Rightarrow> busy_interval" where
  "clip start end_at i =
     i\<lparr>bz_start := dt_max start (bz_start i), bz_end := dt_min end_at (bz_end i), bz_detail_id := None\<rparr>"

definition interval_key :: "busy_interval \<Rightarrow> int \<times> int" where
  "interval_key i = (dt_key (bz_start i), dt_key (bz_end i))"

text \<open>The merging loop. The list of merged intervals is kept last first.\<close>

fun merge_intervals :: "(datetime \<times> datetime) list \<Rightarrow> busy_interval list \<Rightarrow> (datetime \<times> datetime) list" where
  "merge_intervals merged [] = rev merged"
| "merge_intervals [] (i # rest) = merge_intervals [(bz_start i, bz_end i)] rest"
| "merge_intervals ((a, b) # merged) (i # rest) =
     (if dt_key b < dt_key (bz_start i)
      then merge_intervals ((bz_start i, bz_end i) # (a, b) # merged) rest
      else if dt_key b < dt_key (bz_end i) then merge_intervals ((a, bz_end i) # merged) rest
      else merge_intervals ((a, b) # merged) rest)"

definition window :: "datetime \<Rightarrow> datetime \<Rightarrow> window_state \<Rightarrow> availability_window" where
  "window a b state = \<lparr>win_start = a, win_end = b, win_state = state\<rparr>"

text \<open>The second loop, with its cursor, and the free time after the last interval.\<close>

fun windows_from :: "datetime \<Rightarrow> datetime \<Rightarrow> (datetime \<times> datetime) list \<Rightarrow> availability_window list" where
  "windows_from end_at cursor [] =
     (if dt_key cursor < dt_key end_at then [window cursor end_at FreeWindow] else [])"
| "windows_from end_at cursor ((a, b) # merged) =
     (if dt_key cursor < dt_key a then [window cursor a FreeWindow] else []) @
     window a b BusyWindow # windows_from end_at (dt_max cursor b) merged"

definition build_busy_free_windows ::
  "datetime \<Rightarrow> datetime \<Rightarrow> busy_interval list \<Rightarrow> pyexn + availability_window list" where
  "build_busy_free_windows start end_at busy_intervals =
     sbind (dt_le end_at start) (\<lambda>empty.
     if empty
     then Inl (SocialSchedulingError ''invalid_availability_range''
                 (Some [(''type'', PyStr ''invalid_availability_range'')]))
     else
       sbind (filter_sum (meets start end_at) busy_intervals) (\<lambda>met.
       let clipped = sort_key interval_key (map (clip start end_at) met)
       in Inr (windows_from end_at start (merge_intervals [] clipped))))"

section \<open>What the windows say\<close>

text \<open>
  Consecutive windows from one time to another, of increasing ends; and the intervals that cover
  a time.
\<close>

fun windows_span :: "int \<Rightarrow> availability_window list \<Rightarrow> int \<Rightarrow> bool" where
  "windows_span a [] b = (a = b)"
| "windows_span a (w # ws) b =
     (dt_key (win_start w) = a \<and> a < dt_key (win_end w) \<and> windows_span (dt_key (win_end w)) ws b)"

definition busy_at :: "busy_interval list \<Rightarrow> int \<Rightarrow> bool" where
  "busy_at is x \<longleftrightarrow> list_ex (\<lambda>i. dt_key (bz_start i) \<le> x \<and> x < dt_key (bz_end i)) is"

definition shown_at :: "window_state \<Rightarrow> availability_window list \<Rightarrow> int \<Rightarrow> bool" where
  "shown_at state ws x \<longleftrightarrow>
     list_ex (\<lambda>w. win_state w = state \<and> dt_key (win_start w) \<le> x \<and> x < dt_key (win_end w)) ws"

text \<open>No two windows in a row of the same state.\<close>

definition alternating :: "availability_window list \<Rightarrow> bool" where
  "alternating ws \<longleftrightarrow> successively (\<noteq>) (map win_state ws)"

definition interval_ok :: "bool \<Rightarrow> busy_interval \<Rightarrow> bool" where
  "interval_ok aware i \<longleftrightarrow>
     is_aware (bz_start i) = aware \<and> is_aware (bz_end i) = aware \<and>
     dt_key (bz_start i) < dt_key (bz_end i)"

lemmas shown_defs = busy_at_def shown_at_def window_def

text \<open>Merged intervals: non-empty, apart from one another and in order.\<close>

definition apart :: "(datetime \<times> datetime) list \<Rightarrow> bool" where
  "apart ms \<longleftrightarrow>
     list_all (\<lambda>(a, b). dt_key a < dt_key b) ms \<and>
     sorted_wrt (\<lambda>(a, b) (c, d). dt_key b < dt_key c) ms"

definition in_merged :: "(datetime \<times> datetime) list \<Rightarrow> int \<Rightarrow> bool" where
  "in_merged ms x \<longleftrightarrow> list_ex (\<lambda>(a, b). dt_key a \<le> x \<and> x < dt_key b) ms"

lemma in_merged_Cons [simp]:
  "in_merged ((a, b) # ms) x \<longleftrightarrow> dt_key a \<le> x \<and> x < dt_key b \<or> in_merged ms x"
  by (simp add: in_merged_def)

lemma in_merged_Nil [simp]: "\<not> in_merged [] x"
  by (simp add: in_merged_def)

lemma in_merged_rev [simp]: "in_merged (rev ms) x = in_merged ms x"
  by (simp add: in_merged_def list_ex_iff)

lemma busy_at_Cons [simp]:
  "busy_at (i # is) x \<longleftrightarrow> dt_key (bz_start i) \<le> x \<and> x < dt_key (bz_end i) \<or> busy_at is x"
  by (simp add: busy_at_def)

lemma busy_at_Nil [simp]: "\<not> busy_at [] x"
  by (simp add: busy_at_def)

text \<open>
  The loop invariant: what is merged so far is apart, and the last merged interval starts no later
  than the intervals that are still to come.
\<close>

definition reaches :: "(datetime \<times> datetime) list \<Rightarrow> busy_interval list \<Rightarrow> bool" where
  "reaches merged is \<longleftrightarrow>
     (case merged of [] \<Rightarrow> True
      | (a, b) # _ \<Rightarrow> list_all (\<lambda>i. dt_key a \<le> dt_key (bz_start i)) is)"

lemma apart_Nil [simp]: "apart []"
  by (simp add: apart_def)

lemma apart_Cons [simp]:
  "apart ((a, b) # ms) \<longleftrightarrow>
     dt_key a < dt_key b \<and> list_all (\<lambda>(c, d). dt_key b < dt_key c) ms \<and> apart ms"
  by (auto simp: apart_def list_all_iff)

text \<open>What follows an interval starts after it, so also after anything that starts no later.\<close>

lemma later_than:
  assumes "list_all (\<lambda>(c, d). dt_key b < dt_key c) ms"
  shows "list_all (\<lambda>(c, d). dt_key b \<le> dt_key c) ms"
  using assms by (auto simp: list_all_iff)

lemma apart_snoc_rev:
  "apart (rev ((a, b) # ms)) \<longleftrightarrow>
     apart (rev ms) \<and> dt_key a < dt_key b \<and> list_all (\<lambda>(c, d). dt_key d < dt_key a) ms"
  by (auto simp: apart_def sorted_wrt_append list_all_iff)

lemma merge_intervals_apart:
  assumes "apart (rev merged)" "reaches merged is"
    and "sorted (map (\<lambda>i. dt_key (bz_start i)) is)"
    and "list_all (\<lambda>i. dt_key (bz_start i) < dt_key (bz_end i)) is"
  shows "apart (merge_intervals merged is) \<and>
    (\<forall>x. in_merged (merge_intervals merged is) x \<longleftrightarrow> in_merged merged x \<or> busy_at is x)"
  using assms
proof (induction merged "is" rule: merge_intervals.induct)
  case (1 merged)
  then show ?case by simp
next
  case (2 i rest)
  then show ?case by (auto simp: apart_def reaches_def list_all_iff)
next
  case (3 a b merged i rest)
  have i: "dt_key (bz_start i) < dt_key (bz_end i)" "dt_key a \<le> dt_key (bz_start i)"
    using "3.prems" by (simp_all add: reaches_def)
  have ab: "dt_key a < dt_key b" "apart (rev merged)" "list_all (\<lambda>(c, d). dt_key d < dt_key a) merged"
    using "3.prems"(1) by (simp_all only: apart_snoc_rev)
  have rest: "list_all (\<lambda>j. dt_key (bz_start i) \<le> dt_key (bz_start j)) rest"
    "list_all (\<lambda>j. dt_key a \<le> dt_key (bz_start j)) rest"
    "sorted (map (\<lambda>i. dt_key (bz_start i)) rest)"
    "list_all (\<lambda>i. dt_key (bz_start i) < dt_key (bz_end i)) rest"
    using "3.prems" by (auto simp: reaches_def list_all_iff)
  consider (next_one) "dt_key b < dt_key (bz_start i)"
    | (longer) "\<not> dt_key b < dt_key (bz_start i)" "dt_key b < dt_key (bz_end i)"
    | (inside) "\<not> dt_key b < dt_key (bz_start i)" "\<not> dt_key b < dt_key (bz_end i)"
    by blast
  then show ?case
  proof cases
    case next_one
    have "apart (rev ((bz_start i, bz_end i) # (a, b) # merged))"
      using next_one i ab "3.prems"(1) unfolding apart_snoc_rev by (auto simp: list_all_iff)
    moreover have "reaches ((bz_start i, bz_end i) # (a, b) # merged) rest"
      using rest(1) by (simp add: reaches_def)
    ultimately have "apart (merge_intervals ((a, b) # merged) (i # rest)) \<and>
      (\<forall>x. in_merged (merge_intervals ((a, b) # merged) (i # rest)) x \<longleftrightarrow>
         in_merged ((bz_start i, bz_end i) # (a, b) # merged) x \<or> busy_at rest x)"
      using "3.IH"(1) [OF next_one] rest(3,4) next_one by simp
    then show ?thesis by (simp only: in_merged_Cons busy_at_Cons) blast
  next
    case longer
    have "apart (rev ((a, bz_end i) # merged))"
      using longer ab unfolding apart_snoc_rev by (auto simp: list_all_iff)
    moreover have "reaches ((a, bz_end i) # merged) rest"
      using rest(2) by (simp add: reaches_def)
    ultimately have "apart (merge_intervals ((a, b) # merged) (i # rest)) \<and>
      (\<forall>x. in_merged (merge_intervals ((a, b) # merged) (i # rest)) x \<longleftrightarrow>
         in_merged ((a, bz_end i) # merged) x \<or> busy_at rest x)"
      using "3.IH"(2) [OF longer] rest(3,4) longer by simp
    moreover have "dt_key a \<le> x \<and> x < dt_key (bz_end i) \<longleftrightarrow>
      dt_key a \<le> x \<and> x < dt_key b \<or> dt_key (bz_start i) \<le> x \<and> x < dt_key (bz_end i)" for x
      using longer i by arith
    ultimately show ?thesis by (simp only: in_merged_Cons busy_at_Cons) blast
  next
    case inside
    have "reaches ((a, b) # merged) rest" using rest(2) by (simp add: reaches_def)
    then have "apart (merge_intervals ((a, b) # merged) (i # rest)) \<and>
      (\<forall>x. in_merged (merge_intervals ((a, b) # merged) (i # rest)) x \<longleftrightarrow>
         in_merged ((a, b) # merged) x \<or> busy_at rest x)"
      using "3.IH"(3) [OF inside] "3.prems"(1) rest(3,4) inside by simp
    moreover have "dt_key a \<le> x \<and> x < dt_key b \<longleftrightarrow>
      dt_key a \<le> x \<and> x < dt_key b \<or> dt_key (bz_start i) \<le> x \<and> x < dt_key (bz_end i)" for x
      using inside i by arith
    ultimately show ?thesis by (simp only: in_merged_Cons busy_at_Cons) blast
  qed
qed

lemma windows_from_spans:
  assumes "apart ms" "list_all (\<lambda>(a, b). dt_key cursor \<le> dt_key a) ms"
    "list_all (\<lambda>(a, b). dt_key b \<le> dt_key end_at) ms" and "dt_key cursor \<le> dt_key end_at"
  shows "windows_span (dt_key cursor) (windows_from end_at cursor ms) (dt_key end_at)"
  using assms
proof (induction end_at cursor ms rule: windows_from.induct)
  case (1 end_at cursor)
  then show ?case by (simp add: window_def)
next
  case (2 end_at cursor a b merged)
  have next_cursor: "dt_max cursor b = b" using "2.prems" by (auto simp: dt_max_def)
  have "windows_span (dt_key b) (windows_from end_at b merged) (dt_key end_at)"
    using "2.IH" "2.prems" later_than [of b merged] unfolding next_cursor by simp
  with "2.prems" next_cursor show ?case by (auto simp: window_def)
qed

lemma windows_from_busy:
  "shown_at BusyWindow (windows_from end_at cursor ms) x \<longleftrightarrow> in_merged ms x"
  by (induction end_at cursor ms rule: windows_from.induct) (auto simp: shown_defs)

text \<open>
  The window before an interval is free when there is time left before it, so two busy windows are
  never adjacent.
\<close>

lemma windows_from_alternate:
  assumes "apart ms" "list_all (\<lambda>(a, b). dt_key cursor \<le> dt_key a) ms"
  shows "alternating (windows_from end_at cursor ms)"
  using assms
proof (induction end_at cursor ms rule: windows_from.induct)
  case (1 end_at cursor)
  then show ?case by (simp add: alternating_def)
next
  case (2 end_at cursor a b merged)
  have next_cursor: "dt_max cursor b = b" using "2.prems" by (auto simp: dt_max_def)
  have IH: "alternating (windows_from end_at (dt_max cursor b) merged)"
    using "2.IH" "2.prems" later_than [of b merged] by (simp add: next_cursor)
  have "windows_from end_at b merged = [] \<or>
      win_state (hd (windows_from end_at b merged)) = FreeWindow"
    using "2.prems" by (cases merged) (auto simp: window_def)
  then have "windows_from end_at (dt_max cursor b) merged = [] \<or>
      win_state (hd (windows_from end_at (dt_max cursor b) merged)) = FreeWindow"
    by (simp add: next_cursor)
  with IH have "alternating (window a b BusyWindow # windows_from end_at (dt_max cursor b) merged)"
    by (cases "windows_from end_at (dt_max cursor b) merged") (auto simp: alternating_def window_def)
  then show ?case by (auto simp: alternating_def window_def)
qed

section \<open>The windows of a query\<close>

lemma filter_sum_pure: "(\<And>x. x \<in> set xs \<Longrightarrow> p x = Inr (q x)) \<Longrightarrow> filter_sum p xs = Inr (filter q xs)"
  by (induction xs) simp_all

definition overlaps :: "datetime \<Rightarrow> datetime \<Rightarrow> busy_interval \<Rightarrow> bool" where
  "overlaps start end_at i \<longleftrightarrow> dt_key (bz_start i) < dt_key end_at \<and> dt_key start < dt_key (bz_end i)"

lemma meets_ok:
  assumes "is_aware start = aware" "is_aware end_at = aware" "interval_ok aware i"
  shows "meets start end_at i = Inr (overlaps start end_at i)"
  using assms by (simp add: meets_def overlaps_def interval_ok_def dt_lt_key)

lemma clip_keys [simp]:
  "dt_key (bz_start (clip start end_at i)) = max (dt_key start) (dt_key (bz_start i))"
  "dt_key (bz_end (clip start end_at i)) = min (dt_key end_at) (dt_key (bz_end i))"
  by (simp_all add: clip_def dt_max_def dt_min_def max_def min_def)

lemma busy_at_clipped:
  "busy_at (sort_key interval_key (map (clip start end_at) is)) x \<longleftrightarrow>
     busy_at is x \<and> dt_key start \<le> x \<and> x < dt_key end_at"
  by (auto simp: busy_at_def list_ex_iff)

lemma busy_at_overlapping:
  "dt_key start \<le> x \<Longrightarrow> x < dt_key end_at \<Longrightarrow>
    busy_at (filter (overlaps start end_at) is) x \<longleftrightarrow> busy_at is x"
  by (auto simp: busy_at_def list_ex_iff overlaps_def)

lemma sorted_starts: "sorted (map (\<lambda>i. dt_key (bz_start i)) (sort_key interval_key is))"
proof -
  have "sorted (map interval_key (sort_key interval_key is))" by simp
  then have "sorted_wrt (\<lambda>i j. interval_key i \<le> interval_key j) (sort_key interval_key is)"
    by (simp add: sorted_map)
  then have "sorted_wrt (\<lambda>i j. dt_key (bz_start i) \<le> dt_key (bz_start j)) (sort_key interval_key is)"
    by (rule sorted_wrt_mono_rel [rotated]) (auto simp: interval_key_def less_eq_prod_def)
  then show ?thesis by (simp add: sorted_map)
qed

lemma in_merged_bound:
  assumes "apart ms" "\<And>x. in_merged ms x \<Longrightarrow> lo \<le> x \<and> x < hi"
  shows "list_all (\<lambda>(a, b). lo \<le> dt_key a) ms" "list_all (\<lambda>(a, b). dt_key b \<le> hi) ms"
proof -
  have mem: "in_merged ms x" if "(a, b) \<in> set ms" "dt_key a \<le> x" "x < dt_key b" for a b x
    using that by (auto simp: in_merged_def list_ex_iff)
  have ends: "lo \<le> dt_key a \<and> dt_key b \<le> hi" if "(a, b) \<in> set ms" for a b
  proof -
    have "dt_key a < dt_key b" using assms(1) that by (auto simp: apart_def list_all_iff)
    with assms(2) [OF mem [OF that, of "dt_key a"]] assms(2) [OF mem [OF that, of "dt_key b - 1"]]
    show ?thesis by auto
  qed
  then show "list_all (\<lambda>(a, b). lo \<le> dt_key a) ms" "list_all (\<lambda>(a, b). dt_key b \<le> hi) ms"
    by (auto simp: list_all_iff)
qed

lemma windows_cover:
  "windows_span a ws b \<Longrightarrow> a \<le> x \<Longrightarrow> x < b \<Longrightarrow> shown_at BusyWindow ws x \<or> shown_at FreeWindow ws x"
proof (induction ws arbitrary: a)
  case Nil
  then show ?case by simp
next
  case (Cons w ws)
  then show ?case
    by (cases "x < dt_key (win_end w)"; cases "win_state w") (auto simp: shown_at_def)
qed

lemma windows_span_le: "windows_span a ws b \<Longrightarrow> a \<le> b"
  by (induction ws arbitrary: a) force+

lemma shown_at_ge: "windows_span a ws b \<Longrightarrow> shown_at state ws x \<Longrightarrow> a \<le> x"
  by (induction ws arbitrary: a) (fastforce simp: shown_at_def)+

lemma windows_disjoint:
  "windows_span a ws b \<Longrightarrow> shown_at BusyWindow ws x \<Longrightarrow> \<not> shown_at FreeWindow ws x"
proof (induction ws arbitrary: a)
  case Nil
  then show ?case by (simp add: shown_at_def)
next
  case (Cons w ws)
  have Cons_iff: "shown_at st (w # ws) x \<longleftrightarrow>
    win_state w = st \<and> dt_key (win_start w) \<le> x \<and> x < dt_key (win_end w) \<or> shown_at st ws x" for st
    by (simp add: shown_at_def)
  from Cons.prems have tail: "windows_span (dt_key (win_end w)) ws b" by simp
  show ?case
    using Cons.IH [OF tail] shown_at_ge [OF tail, of BusyWindow x] shown_at_ge [OF tail, of FreeWindow x]
      Cons.prems(2)
    unfolding Cons_iff by auto
qed

lemma build_windows:
  assumes kinds: "is_aware start = aware" "is_aware end_at = aware"
    and ok: "list_all (interval_ok aware) is"
    and range: "dt_key start < dt_key end_at"
  obtains ws where "build_busy_free_windows start end_at is = Inr ws"
    and "windows_span (dt_key start) ws (dt_key end_at)" and "alternating ws"
    and "\<And>x. dt_key start \<le> x \<Longrightarrow> x < dt_key end_at \<Longrightarrow>
          shown_at BusyWindow ws x = busy_at is x \<and> shown_at FreeWindow ws x = (\<not> busy_at is x)"
proof -
  define met where "met = filter (overlaps start end_at) is"
  define clipped where "clipped = sort_key interval_key (map (clip start end_at) met)"
  define ms where "ms = merge_intervals [] clipped"
  have filtered: "filter_sum (meets start end_at) is = Inr met"
    unfolding met_def using ok by (intro filter_sum_pure meets_ok [OF kinds]) (auto simp: list_all_iff)
  have nonempty: "list_all (\<lambda>i. dt_key (bz_start i) < dt_key (bz_end i)) clipped"
    using ok range unfolding clipped_def met_def
    by (auto simp: list_all_iff interval_ok_def overlaps_def)
  have ms: "apart ms" "\<And>x. in_merged ms x \<longleftrightarrow> busy_at clipped x"
    using merge_intervals_apart [of "[]" clipped] sorted_starts nonempty
    unfolding ms_def clipped_def by (simp_all add: reaches_def)
  have busy: "busy_at clipped x \<longleftrightarrow> busy_at is x \<and> dt_key start \<le> x \<and> x < dt_key end_at" for x
    unfolding clipped_def busy_at_clipped met_def
    using busy_at_overlapping [of start x end_at "is"] by blast
  have bounds: "list_all (\<lambda>(a, b). dt_key start \<le> dt_key a) ms"
    "list_all (\<lambda>(a, b). dt_key b \<le> dt_key end_at) ms"
    using in_merged_bound [OF ms(1)] unfolding ms(2) busy by blast+
  define ws where "ws = windows_from end_at start ms"
  have run: "build_busy_free_windows start end_at is = Inr ws"
    using kinds range
    by (simp add: build_busy_free_windows_def dt_le_key filtered ws_def ms_def clipped_def)
  have span: "windows_span (dt_key start) ws (dt_key end_at)"
    unfolding ws_def using windows_from_spans [OF ms(1) bounds] range by simp
  have busy_shown: "shown_at BusyWindow ws x \<longleftrightarrow> busy_at is x \<and> dt_key start \<le> x \<and> x < dt_key end_at" for x
    unfolding ws_def windows_from_busy ms(2) busy ..
  show thesis
  proof (rule that [OF run span])
    show "alternating ws" unfolding ws_def by (rule windows_from_alternate [OF ms(1) bounds(1)])
    show "shown_at BusyWindow ws x = busy_at is x \<and> shown_at FreeWindow ws x = (\<not> busy_at is x)"
      if "dt_key start \<le> x" "x < dt_key end_at" for x
      using that busy_shown [of x] windows_cover [OF span that] windows_disjoint [OF span, of x] by blast
  qed
qed

end
