(* ===== verification/PyText.thy ===== *)
theory PyText
  imports PyDateTime
begin

text \<open>
  Text operations the social domain uses: splitting and joining, \<open>str.isalnum\<close>, \<open>json.dumps\<close> and the
  digest of a JSON text. As in the prelude, strings are ASCII (\<open>json.dumps\<close> is also right on
  Latin-1, which it escapes).
\<close>

section \<open>Splitting and joining\<close>

fun py_join :: "string \<Rightarrow> string list \<Rightarrow> string" where
  "py_join sep [] = []"
| "py_join sep [x] = x"
| "py_join sep (x # xs) = x @ sep @ py_join sep xs"

text \<open>
  The maximal runs of characters with a property: \<open>str.split()\<close> takes the runs of
  non-space characters. \<open>current\<close> is the run being read.
\<close>

fun runs_from :: "(char \<Rightarrow> bool) \<Rightarrow> string \<Rightarrow> string \<Rightarrow> string list" where
  "runs_from p current [] = (if current = [] then [] else [current])"
| "runs_from p current (c # cs) =
     (if p c then runs_from p (current @ [c]) cs
      else (if current = [] then [] else [current]) @ runs_from p [] cs)"

definition py_split :: "string \<Rightarrow> string list" where
  "py_split s = runs_from (\<lambda>c. \<not> py_space c) [] s"

definition py_alnum_char :: "char \<Rightarrow> bool" where
  "py_alnum_char c \<longleftrightarrow>
     (let n = (of_char c :: nat) in 48 \<le> n \<and> n \<le> 57 \<or> 65 \<le> n \<and> n \<le> 90 \<or> 97 \<le> n \<and> n \<le> 122)"

definition remove_dashes :: "string \<Rightarrow> string" where
  "remove_dashes s = filter (\<lambda>c. c \<noteq> CHR ''-'') s"

lemma remove_dashes_idem [simp]: "remove_dashes (remove_dashes s) = remove_dashes s"
  by (simp add: remove_dashes_def)

lemma runs_from_all:
  "list_all p current \<Longrightarrow> r \<in> set (runs_from p current s) \<Longrightarrow> r \<noteq> [] \<and> list_all p r"
proof (induction p current s arbitrary: r rule: runs_from.induct)
  case (1 p current)
  then show ?case by (auto split: if_splits)
next
  case (2 p current c cs)
  have "r \<noteq> [] \<and> list_all p r" if "p c"
    using 2 that by simp
  moreover have "r \<noteq> [] \<and> list_all p r" if "\<not> p c"
    using "2.IH"(2) [OF that, of r] "2.prems" that by (auto split: if_splits)
  ultimately show ?case by blast
qed

lemma concat_runs: "concat (runs_from p current s) = current @ filter p s"
  by (induction p current s rule: runs_from.induct) auto

section \<open>JSON\<close>

definition hex_digit :: "nat \<Rightarrow> char" where
  "hex_digit d = ''0123456789abcdef'' ! (d mod 16)"

definition json_escape :: "char \<Rightarrow> string" where
  "json_escape c =
     (let n = (of_char c :: nat) in
      if n = 34 then [CHR 0x5C, CHR 0x22]
      else if n = 92 then [CHR 0x5C, CHR 0x5C]
      else if n = 10 then [CHR 0x5C, CHR ''n'']
      else if n = 13 then [CHR 0x5C, CHR ''r'']
      else if n = 9 then [CHR 0x5C, CHR ''t'']
      else if n = 12 then [CHR 0x5C, CHR ''f'']
      else if n = 8 then [CHR 0x5C, CHR ''b'']
      else if 32 \<le> n \<and> n \<le> 126 then [c]
      else [CHR 0x5C, CHR ''u'', CHR ''0'', CHR ''0'', hex_digit (n div 16), hex_digit n])"

text \<open>Most characters stand for themselves; which ones is read off their bits.\<close>

definition json_plain_char :: "char \<Rightarrow> bool" where
  "json_plain_char c \<longleftrightarrow> (let n = (of_char c :: nat) in 32 \<le> n \<and> n \<le> 126 \<and> n \<noteq> 34 \<and> n \<noteq> 92)"

lemma json_plain_char_bits [code]:
  "json_plain_char (Char b0 b1 b2 b3 b4 b5 b6 b7) \<longleftrightarrow>
     \<not> b7 \<and> (b5 \<or> b6) \<and> (b6 \<or> \<not> b1 \<or> b0 \<or> b2 \<or> b3 \<or> b4) \<and>
     \<not> (b6 \<and> b4 \<and> b3 \<and> b2 \<and> (b5 \<and> b1 \<and> b0 \<or> \<not> b5 \<and> \<not> b1 \<and> \<not> b0))"
  by (cases b0; cases b1; cases b2; cases b3; cases b4; cases b5; cases b6; cases b7)
    (simp_all add: json_plain_char_def Let_def)

definition json_quoted :: "char \<Rightarrow> string" where
  "json_quoted c = json_escape c"

lemmas json_quoted_code [code] = json_quoted_def [unfolded json_escape_def]

lemma json_escape_code [code]:
  "json_escape c = (if json_plain_char c then [c] else json_quoted c)"
  by (simp add: json_plain_char_def json_quoted_def json_escape_def Let_def)

definition json_string :: "string \<Rightarrow> string" where
  "json_string s = CHR 0x22 # concat (map json_escape s) @ [CHR 0x22]"

text \<open>
  \<open>json.dumps(v, sort_keys=True, separators=(item, key), default=...)\<close>. \<open>other\<close> is what \<open>default\<close>
  makes of an object JSON does not know; without one, \<open>TypeError\<close> is raised. A dictionary's keys
  are distinct, so sorting the members by key after writing them is sorting them before.
\<close>

definition json_other :: "(pyval \<Rightarrow> string option) \<Rightarrow> pyval \<Rightarrow> pyexn + string" where
  "json_other other v =
     (case other v of None \<Rightarrow> Inl TypeError | Some s \<Rightarrow> Inr (json_string s))"

fun json_value :: "string \<Rightarrow> string \<Rightarrow> (pyval \<Rightarrow> string option) \<Rightarrow> pyval \<Rightarrow> pyexn + string"
  and json_elements :: "string \<Rightarrow> string \<Rightarrow> (pyval \<Rightarrow> string option) \<Rightarrow> pyval list \<Rightarrow> pyexn + string list"
  and json_members ::
    "string \<Rightarrow> string \<Rightarrow> (pyval \<Rightarrow> string option) \<Rightarrow> (string \<times> pyval) list \<Rightarrow>
      pyexn + (string \<times> string) list" where
  "json_value item key other PyNone = Inr ''null''"
| "json_value item key other (PyBool b) = Inr (if b then ''true'' else ''false'')"
| "json_value item key other (PyInt n) = Inr (show_int n)"
| "json_value item key other (PyStr s) = Inr (json_string s)"
| "json_value item key other (PyList vs) =
     sbind (json_elements item key other vs) (\<lambda>ts. Inr (''['' @ py_join item ts @ '']''))"
| "json_value item key other (PyDict kvs) =
     sbind (json_members item key other kvs) (\<lambda>ms.
     Inr (''{'' @ py_join item (map (\<lambda>(k, t). json_string k @ key @ t) (sort_key fst ms)) @ ''}''))"
| "json_value item key other (PyTime t) = json_other other (PyTime t)"
| "json_value item key other (PyObj s) = json_other other (PyObj s)"
| "json_elements item key other [] = Inr []"
| "json_elements item key other (v # vs) =
     sbind (json_value item key other v) (\<lambda>t. sbind (json_elements item key other vs) (\<lambda>ts. Inr (t # ts)))"
| "json_members item key other [] = Inr []"
| "json_members item key other ((k, v) # kvs) =
     sbind (json_value item key other v) (\<lambda>t.
     sbind (json_members item key other kvs) (\<lambda>ms. Inr ((k, t) # ms)))"

text \<open>\<open>default=str\<close>: the ISO text of a time; of another object, the text it carries.\<close>

fun str_of_other :: "pyval \<Rightarrow> string option" where
  "str_of_other (PyTime t) = Some (iso_time t)"
| "str_of_other (PyObj s) = Some s"
| "str_of_other _ = None"

definition json_compact :: "pyval \<Rightarrow> pyexn + string" where
  "json_compact v = json_value '','' '':'' str_of_other v"

definition json_plain :: "pyval \<Rightarrow> pyexn + string" where
  "json_plain v = json_value '', '' '': '' (\<lambda>_. None) v"

text \<open>With a \<open>default\<close> for the rest, every value has a JSON text.\<close>

lemma json_total:
  assumes "\<And>t. other (PyTime t) \<noteq> None" "\<And>s. other (PyObj s) \<noteq> None"
  shows "\<exists>t. json_value item key other v = Inr t"
    and "\<exists>ts. json_elements item key other vs = Inr ts"
    and "\<exists>ms. json_members item key other kvs = Inr ms"
  using assms
  by (induction item key other v and item key other vs and item key other kvs
      rule: json_value_json_elements_json_members.induct)
    (fastforce simp: json_other_def sbind_Inr_iff split: option.splits)+

lemma json_compact_total: "\<exists>t. json_compact v = Inr t"
  unfolding json_compact_def by (rule json_total(1)) simp_all

definition json_text :: "pyval \<Rightarrow> string" where
  "json_text v = (case json_compact v of Inr t \<Rightarrow> t | Inl _ \<Rightarrow> [])"

definition canonical_hash :: "env \<Rightarrow> pyval \<Rightarrow> string" where
  "canonical_hash E v = env_sha E (json_text v)"

end
