(* ===== verification/SocRepository.thy ===== *)
theory SocRepository
  imports SocAvailability PyText
begin

text \<open>
  The social scheduling domain's data (\<open>coke/domains/social_scheduling/models.py\<close>) and its
  repository (\<open>InMemorySocialSchedulingRepository\<close> of \<open>repository.py\<close>): friend links, friendships,
  shared reminders with a projection per participant, and notification facts with their recipients.
  The repository's \<open>atomic()\<close> is a null context, so a raise leaves what was written before it.
\<close>

section \<open>Data\<close>

datatype link_lifecycle = LinkActive | LinkDisabled
datatype friendship_lifecycle = FriendshipActive | FriendshipRemoved
datatype shared_status = SharedActive | SharedCancelled
datatype completion_status = CompletionPending | CompletionDone
datatype delivery_state =
  DeliveryPending | DeliveryDelivered | DeliveryUndelivered | DeliveryFailed
datatype resolution_status = Matched | Ambiguous | Unmatched

text \<open>
  The states of a friendship and of a shared reminder only move one way. They are ordered in that
  direction, and so are the states of a projection, which are those of a shared reminder.
\<close>

fun friendship_rank :: "friendship_lifecycle \<Rightarrow> nat" where
  "friendship_rank FriendshipActive = 0"
| "friendship_rank FriendshipRemoved = 1"

fun shared_rank :: "shared_status \<Rightarrow> nat" where
  "shared_rank SharedActive = 0"
| "shared_rank SharedCancelled = 1"

lemma rank_inj: "friendship_rank a = friendship_rank b \<Longrightarrow> a = b"
  "shared_rank c = shared_rank d \<Longrightarrow> c = d"
  by (cases a; cases b; simp) (cases c; cases d; simp)

instantiation friendship_lifecycle :: linorder
begin

definition less_eq_friendship_lifecycle :: "friendship_lifecycle \<Rightarrow> friendship_lifecycle \<Rightarrow> bool" where
  "less_eq_friendship_lifecycle a b \<longleftrightarrow> friendship_rank a \<le> friendship_rank b"

definition less_friendship_lifecycle :: "friendship_lifecycle \<Rightarrow> friendship_lifecycle \<Rightarrow> bool" where
  "less_friendship_lifecycle a b \<longleftrightarrow> friendship_rank a < friendship_rank b"

instance
  by standard (auto simp: less_eq_friendship_lifecycle_def less_friendship_lifecycle_def intro: rank_inj)

end

instantiation shared_status :: linorder
begin

definition less_eq_shared_status :: "shared_status \<Rightarrow> shared_status \<Rightarrow> bool" where
  "less_eq_shared_status a b \<longleftrightarrow> shared_rank a \<le> shared_rank b"

definition less_shared_status :: "shared_status \<Rightarrow> shared_status \<Rightarrow> bool" where
  "less_shared_status a b \<longleftrightarrow> shared_rank a < shared_rank b"

instance
  by standard (auto simp: less_eq_shared_status_def less_shared_status_def intro: rank_inj)

end

lemma one_way [simp]:
  "FriendshipActive \<le> a" "a \<le> FriendshipRemoved" "FriendshipRemoved \<le> a \<longleftrightarrow> a = FriendshipRemoved"
  "SharedActive \<le> b" "b \<le> SharedCancelled" "SharedCancelled \<le> b \<longleftrightarrow> b = SharedCancelled"
  by (cases a; simp add: less_eq_friendship_lifecycle_def)+
    (cases b; simp add: less_eq_shared_status_def)+

record friend_link =
  fl_id :: string
  fl_owner_account_id :: string
  fl_token_hash :: string
  fl_code_hash :: string
  fl_lifecycle :: link_lifecycle
  fl_reset_at :: "datetime option"
  fl_disabled_at :: "datetime option"
  fl_created_at :: datetime
  fl_updated_at :: datetime

record friend_link_view =
  flv_id :: string
  flv_owner_account_id :: string
  flv_lifecycle :: link_lifecycle
  flv_public_token :: "string option"
  flv_link_code :: "string option"
  flv_qr_payload :: "string option"

record public_link_view =
  plv_link_code :: string
  plv_status :: string
  plv_owner_display_name :: string

record friendship =
  fs_id :: string
  fs_low :: string
  fs_high :: string
  fs_lifecycle :: friendship_lifecycle
  fs_established_at :: datetime
  fs_removed_at :: "datetime option"
  fs_created_at :: datetime
  fs_updated_at :: datetime

record friend_entry =
  fe_account_id :: string
  fe_friendship_id :: string
  fe_display_name :: string

record friend_resolution =
  frs_status :: resolution_status
  frs_matched :: "string option"
  frs_candidates :: "string list"

record friendship_result =
  fsr_status :: string
  fsr_friendship :: friendship
  fsr_counterpart_id :: string
  fsr_counterpart_name :: string
  fsr_continuation :: fact

text \<open>A shared reminder's time is a wall clock without a zone, with the fold Python keeps with it.\<close>

record shared_reminder =
  sr_id :: string
  sr_creator :: string
  sr_participants :: "string list"
  sr_participant_hash :: string
  sr_title :: string
  sr_title_hash :: string
  sr_local :: local_dt
  sr_timezone :: string
  sr_duration :: int
  sr_status :: shared_status
  sr_cancelled_at :: "datetime option"
  sr_created_at :: datetime
  sr_updated_at :: datetime

record projection =
  pj_id :: string
  pj_shared_id :: string
  pj_account_id :: string
  pj_reminder_id :: string
  pj_lifecycle :: shared_status
  pj_completion :: completion_status
  pj_created_at :: datetime
  pj_updated_at :: datetime

record notification_fact =
  nf_id :: string
  nf_type :: string
  nf_actor :: "string option"
  nf_object_type :: string
  nf_object_id :: string
  nf_status :: string
  nf_facts :: fact
  nf_facts_hash :: string
  nf_key :: string
  nf_outbox_id :: string
  nf_created_at :: datetime

record notification_recipient =
  nr_id :: string
  nr_fact_id :: string
  nr_account_id :: string
  nr_state :: delivery_state
  nr_error_facts :: fact
  nr_created_at :: datetime
  nr_updated_at :: datetime
  nr_turn_id :: "string option"

record undelivered_turn =
  ut_account_id :: string
  ut_fact_ids :: "string list"
  ut_trigger_id :: string

text \<open>The three results of the shared reminder operations have the fields of this record.\<close>

record shared_result =
  sres_status :: string
  sres_reminder :: "shared_reminder option"
  sres_projections :: "projection list"
  sres_breakdown :: "(string \<times> string list) list"
  sres_follow_up :: fact
  sres_notifications :: "notification_fact list"

record soc_state = svc +
  tokens_made :: nat
  links_by_id :: "(string, friend_link) dict"
  link_by_owner :: "(string, string) dict"
  link_by_token :: "(string, string) dict"
  link_by_code :: "(string, string) dict"
  public_tokens :: "(string, string) dict"
  link_codes :: "(string, string) dict"
  friendships_by_id :: "(string, friendship) dict"
  shared_by_id :: "(string, shared_reminder) dict"
  projections_by_id :: "(string, projection) dict"
  projection_by_key :: "(string \<times> string, string) dict"
  projection_reminders :: "(string, reminder) dict"
  facts_by_id :: "(string, notification_fact) dict"
  fact_by_key :: "(string, string) dict"
  recipients_by_id :: "(string, notification_recipient) dict"
  recipient_by_key :: "(string \<times> string, string) dict"
  generated_ids :: "string list"
  generated_tokens :: "string list"

definition empty_soc_state :: soc_state where
  "empty_soc_state =
     \<lparr>clock = 0, issued = 0, traced = 0, tokens_made = 0, links_by_id = [], link_by_owner = [],
      link_by_token = [], link_by_code = [], public_tokens = [], link_codes = [],
      friendships_by_id = [], shared_by_id = [], projections_by_id = [], projection_by_key = [],
      projection_reminders = [], facts_by_id = [], fact_by_key = [], recipients_by_id = [],
      recipient_by_key = [], generated_ids = [], generated_tokens = []\<rparr>"

type_synonym 'a soc = "(soc_state, 'a) py"

abbreviation repo_error :: "string \<Rightarrow> 'a soc" where
  "repo_error code \<equiv> raise (ValueError code)"

text \<open>\<open>if found: raise ValueError(code)\<close>.\<close>

section \<open>Friend links\<close>

definition get_friend_link :: "soc_state \<Rightarrow> string \<Rightarrow> friend_link option" where
  "get_friend_link s i = dget (links_by_id s) i"

text \<open>The id an index has for a key, looked up.\<close>

definition via_index :: "('k, string) dict \<Rightarrow> (string, 'v) dict \<Rightarrow> 'k \<Rightarrow> 'v option" where
  "via_index ix d k = (case dget ix k of None \<Rightarrow> None | Some i \<Rightarrow> dget d i)"

definition get_friend_link_by_owner :: "soc_state \<Rightarrow> string \<Rightarrow> friend_link option" where
  "get_friend_link_by_owner s owner = via_index (link_by_owner s) (links_by_id s) owner"

definition get_friend_link_by_token_hash :: "soc_state \<Rightarrow> string \<Rightarrow> friend_link option" where
  "get_friend_link_by_token_hash s h = via_index (link_by_token s) (links_by_id s) h"

definition get_friend_link_by_code_hash :: "soc_state \<Rightarrow> string \<Rightarrow> friend_link option" where
  "get_friend_link_by_code_hash s h = via_index (link_by_code s) (links_by_id s) h"

definition get_public_token :: "soc_state \<Rightarrow> string \<Rightarrow> string option" where
  "get_public_token s i = dget (public_tokens s) i"

definition get_link_code :: "soc_state \<Rightarrow> string \<Rightarrow> string option" where
  "get_link_code s i = dget (link_codes s) i"

definition put_link :: "friend_link \<Rightarrow> soc_state \<Rightarrow> soc_state" where
  "put_link l s =
     s\<lparr>links_by_id := dput (fl_id l) l (links_by_id s),
       link_by_owner := dput (fl_owner_account_id l) (fl_id l) (link_by_owner s),
       link_by_token := dput (fl_token_hash l) (fl_id l) (link_by_token s),
       link_by_code := dput (fl_code_hash l) (fl_id l) (link_by_code s)\<rparr>"

definition add_friend_link :: "friend_link \<Rightarrow> string \<Rightarrow> string \<Rightarrow> unit soc" where
  "add_friend_link l token code =
     bind (refuse_if (\<lambda>s. dget (links_by_id s) (fl_id l) \<noteq> None) ''duplicate_friend_link_id'') (\<lambda>_.
     bind (refuse_if (\<lambda>s. dget (link_by_owner s) (fl_owner_account_id l) \<noteq> None)
             ''duplicate_friend_link_owner'') (\<lambda>_.
     bind (refuse_if (\<lambda>s. dget (link_by_token s) (fl_token_hash l) \<noteq> None)
             ''duplicate_friend_link_token_hash'') (\<lambda>_.
     bind (refuse_if (\<lambda>s. dget (link_by_code s) (fl_code_hash l) \<noteq> None)
             ''duplicate_friend_link_code_hash'') (\<lambda>_.
     bind (modify (put_link l)) (\<lambda>_.
     modify (\<lambda>s. s\<lparr>public_tokens := dput (fl_id l) token (public_tokens s),
                   link_codes := dput (fl_id l) code (link_codes s)\<rparr>))))))"

definition put_if :: "'k \<Rightarrow> 'v option \<Rightarrow> ('k, 'v) dict \<Rightarrow> ('k, 'v) dict" where
  "put_if k v d = (case v of None \<Rightarrow> d | Some x \<Rightarrow> dput k x d)"

definition save_friend_link :: "friend_link \<Rightarrow> string option \<Rightarrow> string option \<Rightarrow> unit soc" where
  "save_friend_link l token code =
     bind (gets (\<lambda>s. get_friend_link s (fl_id l))) (\<lambda>existing.
     case existing of
       None \<Rightarrow> repo_error ''friend_link_not_found''
     | Some old \<Rightarrow>
         bind (modify (\<lambda>s. s\<lparr>link_by_token := dpop (fl_token_hash old) (link_by_token s),
                             link_by_code := dpop (fl_code_hash old) (link_by_code s)\<rparr>)) (\<lambda>_.
         bind (refuse_if (\<lambda>s. dget (link_by_token s) (fl_token_hash l) \<noteq> None)
                 ''duplicate_friend_link_token_hash'') (\<lambda>_.
         bind (refuse_if (\<lambda>s. dget (link_by_code s) (fl_code_hash l) \<noteq> None)
                 ''duplicate_friend_link_code_hash'') (\<lambda>_.
         bind (modify (put_link l)) (\<lambda>_.
         modify (\<lambda>s. s\<lparr>public_tokens := put_if (fl_id l) token (public_tokens s),
                       link_codes := put_if (fl_id l) code (link_codes s)\<rparr>))))))"

section \<open>Friendships\<close>

definition unordered_pair :: "string \<Rightarrow> string \<Rightarrow> string \<times> string" where
  "unordered_pair a b = (if a \<le> b then (a, b) else (b, a))"

definition other_account_id :: "friendship \<Rightarrow> string \<Rightarrow> pyexn + string" where
  "other_account_id f account =
     (let target = remove_dashes account in
      if target = remove_dashes (fs_low f) then Inr (fs_high f)
      else if target = remove_dashes (fs_high f) then Inr (fs_low f)
      else Inl (SocialSchedulingError ''friendship_not_found'' None))"

definition get_friendship :: "soc_state \<Rightarrow> string \<Rightarrow> friendship option" where
  "get_friendship s i = dget (friendships_by_id s) i"

definition active_pair :: "string \<times> string \<Rightarrow> friendship \<Rightarrow> bool" where
  "active_pair p f \<longleftrightarrow> fs_low f = fst p \<and> fs_high f = snd p \<and> fs_lifecycle f = FriendshipActive"

definition get_active_friendship :: "soc_state \<Rightarrow> string \<Rightarrow> string \<Rightarrow> friendship option" where
  "get_active_friendship s a b = find (active_pair (unordered_pair a b)) (dvalues (friendships_by_id s))"

definition list_active_friendships :: "soc_state \<Rightarrow> string \<Rightarrow> friendship list" where
  "list_active_friendships s account =
     filter (\<lambda>f. fs_lifecycle f = FriendshipActive \<and> account \<in> {fs_low f, fs_high f})
       (dvalues (friendships_by_id s))"

definition list_active_friends :: "soc_state \<Rightarrow> string \<Rightarrow> pyexn + string list" where
  "list_active_friends s account =
     map_sum_list (\<lambda>f. other_account_id f account) (list_active_friendships s account)"

definition put_friendship :: "friendship \<Rightarrow> soc_state \<Rightarrow> soc_state" where
  "put_friendship f s = s\<lparr>friendships_by_id := dput (fs_id f) f (friendships_by_id s)\<rparr>"

definition add_friendship :: "friendship \<Rightarrow> unit soc" where
  "add_friendship f =
     bind (refuse_if (\<lambda>s. get_friendship s (fs_id f) \<noteq> None) ''duplicate_friendship_id'') (\<lambda>_.
     bind (refuse_if (\<lambda>s. fs_lifecycle f = FriendshipActive \<and>
                          get_active_friendship s (fs_low f) (fs_high f) \<noteq> None)
             ''duplicate_active_friendship'') (\<lambda>_.
     modify (put_friendship f)))"

definition save_friendship :: "friendship \<Rightarrow> unit soc" where
  "save_friendship f =
     bind (refuse_if (\<lambda>s. get_friendship s (fs_id f) = None) ''friendship_not_found'') (\<lambda>_.
     bind (refuse_if (\<lambda>s. fs_lifecycle f = FriendshipActive \<and>
                          (case get_active_friendship s (fs_low f) (fs_high f) of
                             None \<Rightarrow> False | Some active \<Rightarrow> fs_id active \<noteq> fs_id f))
             ''duplicate_active_friendship'') (\<lambda>_.
     modify (put_friendship f)))"

section \<open>Shared reminders\<close>

definition get_shared_reminder :: "soc_state \<Rightarrow> string \<Rightarrow> shared_reminder option" where
  "get_shared_reminder s i = dget (shared_by_id s) i"

text \<open>Naive datetimes compare by their wall clocks: the fold does not count.\<close>

definition duplicates_shared ::
  "string \<Rightarrow> string \<Rightarrow> string \<Rightarrow> local_dt \<Rightarrow> string \<Rightarrow> int \<Rightarrow> shared_reminder \<Rightarrow> bool" where
  "duplicates_shared creator participants title local_at timezone minutes r \<longleftrightarrow>
     sr_status r = SharedActive \<and> sr_creator r = creator \<and> sr_participant_hash r = participants \<and>
     sr_title_hash r = title \<and> fst (sr_local r) = fst local_at \<and> sr_timezone r = timezone \<and>
     sr_duration r = minutes"

definition get_duplicate_active_shared_reminder ::
  "soc_state \<Rightarrow> string \<Rightarrow> string \<Rightarrow> string \<Rightarrow> local_dt \<Rightarrow> string \<Rightarrow> int \<Rightarrow> shared_reminder option" where
  "get_duplicate_active_shared_reminder s creator participants title local_at timezone minutes =
     find (duplicates_shared creator participants title local_at timezone minutes)
       (dvalues (shared_by_id s))"

definition duplicate_of_shared :: "soc_state \<Rightarrow> shared_reminder \<Rightarrow> shared_reminder option" where
  "duplicate_of_shared s r =
     get_duplicate_active_shared_reminder s (sr_creator r) (sr_participant_hash r) (sr_title_hash r)
       (sr_local r) (sr_timezone r) (sr_duration r)"

definition list_shared_reminders_for_participant :: "soc_state \<Rightarrow> string \<Rightarrow> shared_reminder list" where
  "list_shared_reminders_for_participant s account =
     filter (\<lambda>r. sr_status r = SharedActive \<and> account \<in> set (sr_participants r)) (dvalues (shared_by_id s))"

definition put_shared :: "shared_reminder \<Rightarrow> soc_state \<Rightarrow> soc_state" where
  "put_shared r s = s\<lparr>shared_by_id := dput (sr_id r) r (shared_by_id s)\<rparr>"

definition add_shared_reminder :: "shared_reminder \<Rightarrow> unit soc" where
  "add_shared_reminder r =
     bind (refuse_if (\<lambda>s. get_shared_reminder s (sr_id r) \<noteq> None) ''duplicate_shared_reminder_id'') (\<lambda>_.
     bind (refuse_if (\<lambda>s. sr_status r = SharedActive \<and> duplicate_of_shared s r \<noteq> None)
             ''duplicate_active_shared_reminder'') (\<lambda>_.
     modify (put_shared r)))"

definition save_shared_reminder :: "shared_reminder \<Rightarrow> unit soc" where
  "save_shared_reminder r =
     bind (refuse_if (\<lambda>s. get_shared_reminder s (sr_id r) = None) ''shared_reminder_not_found'') (\<lambda>_.
     modify (put_shared r))"

section \<open>Projections\<close>

definition projection_key :: "projection \<Rightarrow> string \<times> string" where
  "projection_key p = (pj_shared_id p, pj_account_id p)"

text \<open>
  The calendar reminder of a participant. \<open>ZoneInfo(key)\<close> may raise, and so may the conversion to
  UTC at the ends of the calendar.
\<close>

definition projection_reminder :: "env \<Rightarrow> projection \<Rightarrow> shared_reminder \<Rightarrow> pyexn + reminder" where
  "projection_reminder E p shared =
     sbind (env_zone E (sr_timezone shared)) (\<lambda>z.
     sbind (utc_of z (sr_local shared)) (\<lambda>at.
     Inr \<lparr>rem_id = pj_reminder_id p, owner_account_id = pj_account_id p, content = sr_title shared,
          content_hash = sr_title_hash shared, rem_kind = SharedProjection, next_fire_at = Some at,
          recurrence_rule = [], captured_timezone = sr_timezone shared,
          duration_minutes = sr_duration shared, lifecycle = Active, hidden_from_calendar = False,
          shared_reminder_id = Some (sr_id shared), rem_created_at = pj_created_at p,
          rem_updated_at = pj_updated_at p\<rparr>))"

definition put_projection :: "projection \<Rightarrow> soc_state \<Rightarrow> soc_state" where
  "put_projection p s =
     s\<lparr>projections_by_id := dput (pj_id p) p (projections_by_id s),
       projection_by_key := dput (projection_key p) (pj_id p) (projection_by_key s)\<rparr>"

definition put_projection_reminder :: "string \<Rightarrow> reminder \<Rightarrow> soc_state \<Rightarrow> soc_state" where
  "put_projection_reminder i r s =
     s\<lparr>projection_reminders := dput i r (projection_reminders s)\<rparr>"

definition add_projection :: "env \<Rightarrow> projection \<Rightarrow> unit soc" where
  "add_projection E p =
     bind (refuse_if (\<lambda>s. dget (projections_by_id s) (pj_id p) \<noteq> None) ''duplicate_projection_id'') (\<lambda>_.
     bind (refuse_if (\<lambda>s. dget (projection_by_key s) (projection_key p) \<noteq> None)
             ''duplicate_projection_participant'') (\<lambda>_.
     bind (refuse_if (\<lambda>s. dget (projection_reminders s) (pj_reminder_id p) \<noteq> None)
             ''duplicate_projection_reminder_id'') (\<lambda>_.
     bind (gets (\<lambda>s. get_shared_reminder s (pj_shared_id p))) (\<lambda>found.
     case found of
       None \<Rightarrow> repo_error ''shared_reminder_not_found''
     | Some shared \<Rightarrow>
         bind (modify (put_projection p)) (\<lambda>_.
         bind (lift (projection_reminder E p shared)) (\<lambda>r.
         modify (put_projection_reminder (pj_reminder_id p) r)))))))"

definition save_projection :: "projection \<Rightarrow> unit soc" where
  "save_projection p =
     bind (refuse_if (\<lambda>s. dget (projections_by_id s) (pj_id p) = None) ''projection_not_found'') (\<lambda>_.
     bind (modify (put_projection p)) (\<lambda>_.
     if pj_lifecycle p \<noteq> SharedCancelled then ret ()
     else
       bind (gets (\<lambda>s. dget (projection_reminders s) (pj_reminder_id p))) (\<lambda>found.
       case found of
         None \<Rightarrow> repo_error ''projection_reminder_missing''
       | Some r \<Rightarrow>
           modify (put_projection_reminder (pj_reminder_id p)
             (r\<lparr>lifecycle := Deleted, rem_updated_at := pj_updated_at p\<rparr>)))))"

definition sync_projection_reminders :: "env \<Rightarrow> shared_reminder \<Rightarrow> projection list \<Rightarrow> unit soc" where
  "sync_projection_reminders E shared ps =
     for_each ps (\<lambda>p.
       if pj_lifecycle p \<noteq> SharedActive then ret ()
       else
         bind (refuse_if (\<lambda>s. dget (projection_reminders s) (pj_reminder_id p) = None)
                 ''projection_reminder_missing'') (\<lambda>_.
         bind (lift (projection_reminder E p shared)) (\<lambda>r.
         modify (put_projection_reminder (pj_reminder_id p) r))))"

definition list_projections :: "soc_state \<Rightarrow> string \<Rightarrow> projection list" where
  "list_projections s shared = filter (\<lambda>p. pj_shared_id p = shared) (dvalues (projections_by_id s))"

definition get_projection :: "soc_state \<Rightarrow> string \<Rightarrow> string \<Rightarrow> projection option" where
  "get_projection s shared account =
     (case dget (projection_by_key s) (shared, account) of
        None \<Rightarrow> None
      | Some i \<Rightarrow> if i = [] then None else dget (projections_by_id s) i)"

text \<open>The intervals in which an account is busy with shared reminders; times are wall clocks.\<close>

definition shared_interval ::
  "soc_state \<Rightarrow> string \<Rightarrow> datetime \<Rightarrow> datetime \<Rightarrow> shared_reminder \<Rightarrow> pyexn + busy_interval list" where
  "shared_interval s account start end_at r =
     (case get_projection s (sr_id r) account of
        None \<Rightarrow> Inr []
      | Some p \<Rightarrow>
          if pj_lifecycle p \<noteq> SharedActive then Inr []
          else
            let interval_start = Naive (fst (sr_local r)) in
            sbind (dt_add interval_start (sr_duration r * minute_us)) (\<lambda>interval_end.
            let i = \<lparr>bz_account_id = account, bz_start = interval_start, bz_end = interval_end,
                     bz_source = SharedBusy, bz_detail_id = Some (sr_id r)\<rparr> in
            sbind (meets start end_at i) (\<lambda>inside. Inr (if inside then [i] else []))))"

definition shared_busy_intervals ::
  "soc_state \<Rightarrow> string \<Rightarrow> datetime \<Rightarrow> datetime \<Rightarrow> pyexn + busy_interval list" where
  "shared_busy_intervals s account start end_at =
     sbind (map_sum_list (shared_interval s account start end_at)
       (list_shared_reminders_for_participant s account)) (\<lambda>is. Inr (concat is))"

section \<open>Notification facts and recipients\<close>

definition put_fact :: "notification_fact \<Rightarrow> soc_state \<Rightarrow> soc_state" where
  "put_fact f s =
     s\<lparr>facts_by_id := dput (nf_id f) f (facts_by_id s),
       fact_by_key := dput (nf_key f) (nf_id f) (fact_by_key s)\<rparr>"

definition add_notification_fact :: "notification_fact \<Rightarrow> unit soc" where
  "add_notification_fact f =
     bind (refuse_if (\<lambda>s. dget (facts_by_id s) (nf_id f) \<noteq> None) ''duplicate_notification_fact_id'') (\<lambda>_.
     bind (refuse_if (\<lambda>s. dget (fact_by_key s) (nf_key f) \<noteq> None)
             ''duplicate_notification_fact_idempotency'') (\<lambda>_.
     modify (put_fact f)))"

definition recipient_key :: "notification_recipient \<Rightarrow> string \<times> string" where
  "recipient_key r = (nr_fact_id r, nr_account_id r)"

definition put_recipient :: "notification_recipient \<Rightarrow> soc_state \<Rightarrow> soc_state" where
  "put_recipient r s = s\<lparr>recipients_by_id := dput (nr_id r) r (recipients_by_id s)\<rparr>"

definition add_notification_recipient :: "notification_recipient \<Rightarrow> unit soc" where
  "add_notification_recipient r =
     bind (refuse_if (\<lambda>s. dget (recipients_by_id s) (nr_id r) \<noteq> None)
             ''duplicate_notification_recipient_id'') (\<lambda>_.
     bind (refuse_if (\<lambda>s. dget (recipient_by_key s) (recipient_key r) \<noteq> None)
             ''duplicate_notification_recipient_fact_account'') (\<lambda>_.
     bind (modify (put_recipient r)) (\<lambda>_.
     modify (\<lambda>s. s\<lparr>recipient_by_key := dput (recipient_key r) (nr_id r) (recipient_by_key s)\<rparr>))))"

definition save_notification_recipient :: "notification_recipient \<Rightarrow> unit soc" where
  "save_notification_recipient r =
     bind (refuse_if (\<lambda>s. dget (recipients_by_id s) (nr_id r) = None)
             ''notification_recipient_not_found'') (\<lambda>_.
     modify (put_recipient r))"

definition get_notification_recipient ::
  "soc_state \<Rightarrow> string \<Rightarrow> string \<Rightarrow> notification_recipient option" where
  "get_notification_recipient s fid account =
     via_index (recipient_by_key s) (recipients_by_id s) (fid, account)"

definition list_notification_facts :: "soc_state \<Rightarrow> notification_fact list" where
  "list_notification_facts s = dvalues (facts_by_id s)"

definition list_notification_recipients :: "soc_state \<Rightarrow> string \<Rightarrow> notification_recipient list" where
  "list_notification_recipients s fid =
     filter (\<lambda>r. nr_fact_id r = fid) (dvalues (recipients_by_id s))"

end
