(* ===== verification/SocService.thy ===== *)
theory SocService
  imports SocRepository
begin

text \<open>
  \<open>SocialSchedulingService\<close> (\<open>coke/domains/social_scheduling/service.py\<close>) and its
  \<open>NotificationFactWriter\<close> (\<open>notifications.py\<close>): notification facts and their delivery, friend
  links, friendships and the lookup of a friend by a name. Shared reminders are in \<open>SocShared\<close>.
\<close>

section \<open>What the service is constructed with\<close>

text \<open>
  What the detector's result is read for. A datetime comes with its fold, which a wall clock made
  of it keeps.
\<close>

record soc_fields =
  sf_content :: "string option"
  sf_trigger_time :: "(datetime \<times> bool) option"
  sf_duration :: "pyval option"

text \<open>
  The reachability and availability ports, the detector, the display names, the token factory (the
  \<open>n\<close>-th token made) and the public base URL, as the constructor leaves it.
\<close>

record soc_ports =
  sp_reachable :: "string \<Rightarrow> pyexn + bool"
  sp_busy :: "string \<Rightarrow> local_dt \<Rightarrow> local_dt \<Rightarrow> string \<Rightarrow> pyexn + busy_interval list"
  sp_detector :: "(string \<Rightarrow> string \<Rightarrow> datetime \<Rightarrow> pyexn + soc_fields) option"
  sp_display :: "string \<Rightarrow> pyexn + string"
  sp_token :: "string \<Rightarrow> nat \<Rightarrow> string"
  sp_base_url :: string

definition public_base_url :: "string \<Rightarrow> string" where
  "public_base_url raw =
     (let stripped = rev (dropWhile (\<lambda>c. c = CHR ''/'') (rev raw))
      in if stripped = [] then ''http://localhost:4040'' else stripped)"

abbreviation soc_error :: "string \<Rightarrow> 'a soc" where
  "soc_error code \<equiv> raise (SocialSchedulingError code None)"

type_synonym soc_guard = "soc_state \<Rightarrow> pyexn option"

definition run_commit_guard :: "soc_guard \<Rightarrow> unit soc" where
  "run_commit_guard g = bind (gets g) (\<lambda>e. case e of None \<Rightarrow> ret () | Some x \<Rightarrow> raise x)"

definition canon :: "string \<Rightarrow> string" where
  "canon account = remove_dashes account"

definition hash_token :: "env \<Rightarrow> string \<Rightarrow> string" where
  "hash_token E value = env_sha E value"

definition soc_new_id :: "env \<Rightarrow> string \<Rightarrow> string soc" where
  "soc_new_id E p =
     bind (new_id E p) (\<lambda>i.
     bind (modify (\<lambda>s. s\<lparr>generated_ids := generated_ids s @ [i]\<rparr>)) (\<lambda>_. ret i))"

definition soc_new_token :: "soc_ports \<Rightarrow> string \<Rightarrow> string soc" where
  "soc_new_token P p =
     bind (gets (\<lambda>s. sp_token P p (tokens_made s))) (\<lambda>t.
     bind (modify (\<lambda>s. s\<lparr>tokens_made := Suc (tokens_made s),
                         generated_tokens := generated_tokens s @ [t]\<rparr>)) (\<lambda>_. ret t))"

definition require_usable_channel :: "soc_ports \<Rightarrow> string \<Rightarrow> string \<Rightarrow> unit soc" where
  "require_usable_channel P account code =
     bind (lift (sp_reachable P account)) (\<lambda>usable.
     if usable then ret ()
     else raise (SocialSchedulingError code
            (Some [(''type'', PyStr code), (''account_id'', PyStr account)])))"

section \<open>Notification facts\<close>

definition prose_keys :: "string list" where
  "prose_keys = [''text'', ''payload'', ''payload_text'', ''prose'', ''message'']"

definition assert_structured_facts :: "fact \<Rightarrow> pyexn + unit" where
  "assert_structured_facts facts =
     (let disallowed = filter (\<lambda>k. k \<in> fst ` set facts) prose_keys in
      if disallowed \<noteq> []
      then Inl (SocialSchedulingError ''notification_fact_contains_prose''
                  (Some [(''type'', PyStr ''notification_fact_contains_prose''),
                         (''keys'', PyList (map PyStr (sort disallowed)))]))
      else Inr ())"

definition fact_hash ::
  "env \<Rightarrow> string \<Rightarrow> string option \<Rightarrow> string \<Rightarrow> string \<Rightarrow> string \<Rightarrow> fact \<Rightarrow> string" where
  "fact_hash E ntype actor otype oid status facts =
     canonical_hash E (PyDict
       [(''type'', PyStr ntype),
        (''actor_account_id'', case actor of None \<Rightarrow> PyNone | Some a \<Rightarrow> PyStr a),
        (''object_type'', PyStr otype), (''object_id'', PyStr oid), (''status'', PyStr status),
        (''facts'', PyDict facts)])"

definition new_recipient :: "env \<Rightarrow> string \<Rightarrow> string \<Rightarrow> notification_recipient soc" where
  "new_recipient E fid account =
     bind (soc_new_id E ''notification_recipient'') (\<lambda>rid.
     bind (py_now E) (\<lambda>created.
     bind (py_now E) (\<lambda>updated.
     ret \<lparr>nr_id = rid, nr_fact_id = fid, nr_account_id = account, nr_state = DeliveryPending,
          nr_error_facts = [], nr_created_at = created, nr_updated_at = updated, nr_turn_id = None\<rparr>)))"

text \<open>\<open>sorted(set(xs))\<close>.\<close>

definition sorted_set :: "string list \<Rightarrow> string list" where
  "sorted_set xs = sort (remdups xs)"

definition create_fact ::
  "env \<Rightarrow> string \<Rightarrow> string option \<Rightarrow> string \<Rightarrow> string \<Rightarrow> string \<Rightarrow> fact \<Rightarrow> string list \<Rightarrow> string \<Rightarrow>
    notification_fact soc" where
  "create_fact E ntype actor otype oid status facts0 recipients key =
     (let recipient_list = sorted_set recipients;
          facts = dput ''delivery_recipients'' (PyList (map PyStr recipient_list)) facts0
      in
      bind (lift (assert_structured_facts facts)) (\<lambda>_.
      bind (soc_new_id E ''notification_fact'') (\<lambda>fid.
      bind (soc_new_id E ''outbox'') (\<lambda>outbox.
      bind (py_now E) (\<lambda>now.
      let f = \<lparr>nf_id = fid, nf_type = ntype, nf_actor = actor, nf_object_type = otype,
               nf_object_id = oid, nf_status = status, nf_facts = facts,
               nf_facts_hash = fact_hash E ntype actor otype oid status facts, nf_key = key,
               nf_outbox_id = outbox, nf_created_at = now\<rparr> in
      bind (add_notification_fact f) (\<lambda>_.
      bind (for_each recipient_list (\<lambda>account.
              bind (new_recipient E fid account) add_notification_recipient)) (\<lambda>_.
      ret f)))))))"

definition forbidden_fragments :: "string list" where
  "forbidden_fragments = [''raw'', ''internal'', ''queue'', ''attempt'', ''error_code'']"

definition validate_error_facts :: "fact \<Rightarrow> pyexn + unit" where
  "validate_error_facts error_facts =
     sbind (json_plain (PyDict error_facts)) (\<lambda>text.
     if list_ex (\<lambda>fragment. contains fragment (py_lower text)) forbidden_fragments
     then Inl (SocialSchedulingError ''unsafe_notification_error_facts''
                 (Some [(''type'', PyStr ''unsafe_notification_error_facts'')]))
     else Inr ())"

definition record_delivery ::
  "env \<Rightarrow> string \<Rightarrow> string \<Rightarrow> delivery_state \<Rightarrow> fact \<Rightarrow> string option \<Rightarrow> notification_recipient soc" where
  "record_delivery E fid account state error_facts turn =
     bind (lift (validate_error_facts error_facts)) (\<lambda>_.
     bind (gets (\<lambda>s. get_notification_recipient s fid account)) (\<lambda>found.
     case found of
       None \<Rightarrow>
         raise (SocialSchedulingError ''notification_recipient_not_found''
           (Some [(''type'', PyStr ''notification_recipient_not_found''),
                  (''notification_fact_id'', PyStr fid),
                  (''recipient_account_id'', PyStr account)]))
     | Some r \<Rightarrow>
         bind (py_now E) (\<lambda>now.
         let updated = r\<lparr>nr_state := state, nr_error_facts := error_facts, nr_updated_at := now,
                         nr_turn_id := (if turn \<noteq> None then turn else nr_turn_id r)\<rparr> in
         bind (save_notification_recipient updated) (\<lambda>_. ret updated))))"

definition notification_fact_by_id :: "soc_state \<Rightarrow> string \<Rightarrow> notification_fact option" where
  "notification_fact_by_id s fid = find (\<lambda>f. nf_id f = fid) (list_notification_facts s)"

text \<open>
  \<open>str(facts.get("actor_account_id") or "")\<close>; the facts of a shared reminder hold a string there.
\<close>

definition text_of :: "pyval option \<Rightarrow> string" where
  "text_of v = (case v of Some (PyStr t) \<Rightarrow> t | _ \<Rightarrow> [])"

definition get_or_none :: "fact \<Rightarrow> string \<Rightarrow> pyval" where
  "get_or_none f k = (case dget f k of None \<Rightarrow> PyNone | Some v \<Rightarrow> v)"

definition receipt_key :: "notification_fact \<Rightarrow> notification_recipient \<Rightarrow> string" where
  "receipt_key f r = ''shared_reminder:'' @ nf_object_id f @ '':delivery_confirmed:'' @ nr_account_id r"

definition maybe_create_shared_reminder_delivery_receipt ::
  "env \<Rightarrow> soc_ports \<Rightarrow> notification_recipient \<Rightarrow> unit soc" where
  "maybe_create_shared_reminder_delivery_receipt E P r =
     (if nr_state r \<noteq> DeliveryDelivered then ret ()
      else
        bind (gets (\<lambda>s. notification_fact_by_id s (nr_fact_id r))) (\<lambda>found.
        case found of
          None \<Rightarrow> ret ()
        | Some f \<Rightarrow>
            if nf_type f \<noteq> ''shared_reminder_created'' then ret ()
            else
              let creator = text_of (dget (nf_facts f) ''actor_account_id'') in
              if creator = [] \<or> nr_account_id r = creator then ret ()
              else
                bind (gets (\<lambda>s. list_ex (\<lambda>g. nf_key g = receipt_key f r) (list_notification_facts s)))
                  (\<lambda>already.
                if already then ret ()
                else
                  bind (lift (sp_display P (nr_account_id r))) (\<lambda>name.
                  bind (create_fact E ''shared_reminder_delivery_confirmed'' (Some (nr_account_id r))
                         (nf_object_type f) (nf_object_id f) ''delivered''
                         [(''creator_account_id'', PyStr creator),
                          (''recipient_account_id'', PyStr (nr_account_id r)),
                          (''recipient_display_name'', PyStr name),
                          (''object_type'', PyStr (nf_object_type f)),
                          (''object_id'', PyStr (nf_object_id f)),
                          (''title'', get_or_none (nf_facts f) ''title''),
                          (''time'', get_or_none (nf_facts f) ''time''),
                          (''timezone'', get_or_none (nf_facts f) ''timezone''),
                          (''duration_minutes'', get_or_none (nf_facts f) ''duration_minutes''),
                          (''delivery_state'', PyStr ''delivered''), (''status'', PyStr ''delivered'')]
                         [creator] (receipt_key f r)) (\<lambda>_. ret ())))))"

definition record_notification_delivery ::
  "env \<Rightarrow> soc_ports \<Rightarrow> string \<Rightarrow> string \<Rightarrow> delivery_state \<Rightarrow> fact \<Rightarrow> string option \<Rightarrow>
    notification_recipient soc" where
  "record_notification_delivery E P fid account0 state error_facts turn =
     bind (record_delivery E fid (canon account0) state error_facts turn) (\<lambda>r.
     bind (maybe_create_shared_reminder_delivery_receipt E P r) (\<lambda>_. ret r))"

definition undelivered_notification_resend_turn :: "soc_state \<Rightarrow> string \<Rightarrow> undelivered_turn" where
  "undelivered_notification_resend_turn s account0 =
     (let account = canon account0 in
      \<lparr>ut_account_id = account,
       ut_fact_ids = map nf_id (filter
         (\<lambda>f. case get_notification_recipient s (nf_id f) account of
                None \<Rightarrow> False | Some r \<Rightarrow> nr_state r = DeliveryUndelivered)
         (list_notification_facts s)),
       ut_trigger_id = ''notification_undelivered:'' @ account\<rparr>)"

text \<open>
  Settling the recipients whose turn has ended. The conversation runtime's \<open>get_disposition\<close> is
  the argument \<open>runtime\<close>: the disposition of a turn and its reason.
\<close>

definition terminal_turn_states :: "string list" where
  "terminal_turn_states = [''replied'', ''no_reply'', ''failed'', ''recovered'', ''superseded'']"

type_synonym disposition_lookup = "string \<Rightarrow> pyexn + string \<times> string option"

definition settlement_facts :: "string \<Rightarrow> string option \<Rightarrow> fact" where
  "settlement_facts state reason =
     [(''type'', PyStr ''notification_turn_terminal_without_recipient_settlement''),
      (''turn_disposition'', PyStr state)] @
     (case reason of
        Some r \<Rightarrow> if r \<noteq> [] then [(''reason_code'', PyStr r)] else []
      | None \<Rightarrow> [])"

definition settle_recipient ::
  "env \<Rightarrow> soc_ports \<Rightarrow> disposition_lookup \<Rightarrow> datetime \<Rightarrow> notification_recipient \<Rightarrow> bool soc" where
  "settle_recipient E P runtime cutoff r =
     (if nr_state r \<noteq> DeliveryPending then ret False
      else
        case nr_turn_id r of
          None \<Rightarrow> ret False
        | Some turn \<Rightarrow>
            bind (lift (dt_lt cutoff (nr_updated_at r))) (\<lambda>recent.
            if recent then ret False
            else
              case runtime turn of
                Inl _ \<Rightarrow> ret False
              | Inr (state, reason) \<Rightarrow>
                  if state \<notin> set terminal_turn_states then ret False
                  else
                    bind (record_notification_delivery E P (nr_fact_id r) (nr_account_id r)
                           DeliveryFailed (settlement_facts state reason) (Some turn)) (\<lambda>_.
                    ret True)))"

definition reconcile_terminal_notification_recipients ::
  "env \<Rightarrow> soc_ports \<Rightarrow> disposition_lookup \<Rightarrow> int \<Rightarrow> nat soc" where
  "reconcile_terminal_notification_recipients E P runtime pending_older_than =
     bind (py_now E) (\<lambda>now.
     bind (lift (dt_add now (- pending_older_than))) (\<lambda>cutoff.
     bind (gets list_notification_facts) (\<lambda>facts.
     bind (map_py (\<lambda>f.
             bind (gets (\<lambda>s. list_notification_recipients s (nf_id f))) (\<lambda>rs.
             map_py (settle_recipient E P runtime cutoff) rs)) facts) (\<lambda>settled.
     ret (length (filter id (concat settled)))))))"

section \<open>Friend links\<close>

definition qr_payload :: "soc_ports \<Rightarrow> string option \<Rightarrow> string option" where
  "qr_payload P code =
     (case code of
        Some c \<Rightarrow> if c \<noteq> [] then Some (sp_base_url P @ ''/u/'' @ c) else None
      | None \<Rightarrow> None)"

definition link_view :: "soc_ports \<Rightarrow> soc_state \<Rightarrow> friend_link \<Rightarrow> bool \<Rightarrow> friend_link_view" where
  "link_view P s l include_public =
     (let token = (if include_public then get_public_token s (fl_id l) else None);
          code = (if include_public then get_link_code s (fl_id l) else None)
      in \<lparr>flv_id = fl_id l, flv_owner_account_id = fl_owner_account_id l,
          flv_lifecycle = fl_lifecycle l, flv_public_token = token, flv_link_code = code,
          flv_qr_payload = qr_payload P code\<rparr>)"

definition new_friend_link :: "env \<Rightarrow> soc_ports \<Rightarrow> string \<Rightarrow> soc_guard \<Rightarrow> friend_link_view soc" where
  "new_friend_link E P owner g =
     bind (soc_new_token P ''friend_link'') (\<lambda>token.
     bind (soc_new_token P ''friend_code'') (\<lambda>code.
     bind (py_now E) (\<lambda>now.
     bind (soc_new_id E ''friend_link'') (\<lambda>lid.
     let l = \<lparr>fl_id = lid, fl_owner_account_id = owner, fl_token_hash = hash_token E token,
              fl_code_hash = hash_token E code, fl_lifecycle = LinkActive, fl_reset_at = None,
              fl_disabled_at = None, fl_created_at = now, fl_updated_at = now\<rparr> in
     bind (run_commit_guard g) (\<lambda>_.
     bind (add_friend_link l token code) (\<lambda>_.
     gets (\<lambda>s. link_view P s l True)))))))"

definition get_or_create_friend_link ::
  "env \<Rightarrow> soc_ports \<Rightarrow> string \<Rightarrow> soc_guard \<Rightarrow> friend_link_view soc" where
  "get_or_create_friend_link E P owner0 g =
     (let owner = canon owner0 in
      bind (require_usable_channel P owner ''owner_channel_required'') (\<lambda>_.
      bind (gets (\<lambda>s. get_friend_link_by_owner s owner)) (\<lambda>existing.
      case existing of
        Some l \<Rightarrow> gets (\<lambda>s. link_view P s l (fl_lifecycle l \<noteq> LinkDisabled))
      | None \<Rightarrow> new_friend_link E P owner g)))"

definition reset_friend_link ::
  "env \<Rightarrow> soc_ports \<Rightarrow> string \<Rightarrow> soc_guard \<Rightarrow> friend_link_view soc" where
  "reset_friend_link E P owner0 g =
     (let owner = canon owner0 in
      bind (require_usable_channel P owner ''owner_channel_required'') (\<lambda>_.
      bind (gets (\<lambda>s. get_friend_link_by_owner s owner)) (\<lambda>existing.
      case existing of
        None \<Rightarrow> get_or_create_friend_link E P owner g
      | Some l \<Rightarrow>
          bind (soc_new_token P ''friend_link'') (\<lambda>token.
          bind (soc_new_token P ''friend_code'') (\<lambda>code.
          bind (py_now E) (\<lambda>reset.
          bind (py_now E) (\<lambda>updated_at.
          let updated = l\<lparr>fl_token_hash := hash_token E token, fl_code_hash := hash_token E code,
                          fl_lifecycle := LinkActive, fl_reset_at := Some reset,
                          fl_disabled_at := None, fl_updated_at := updated_at\<rparr> in
          bind (run_commit_guard g) (\<lambda>_.
          bind (save_friend_link updated (Some token) (Some code)) (\<lambda>_.
          gets (\<lambda>s. link_view P s updated True))))))))))"

definition disable_friend_link ::
  "env \<Rightarrow> soc_ports \<Rightarrow> string \<Rightarrow> soc_guard \<Rightarrow> friend_link_view soc" where
  "disable_friend_link E P owner0 g =
     bind (gets (\<lambda>s. get_friend_link_by_owner s (canon owner0))) (\<lambda>existing.
     case existing of
       None \<Rightarrow> soc_error ''friend_link_not_found''
     | Some l \<Rightarrow>
         bind (py_now E) (\<lambda>disabled.
         bind (py_now E) (\<lambda>updated_at.
         let updated = l\<lparr>fl_lifecycle := LinkDisabled, fl_disabled_at := Some disabled,
                         fl_updated_at := updated_at\<rparr> in
         bind (run_commit_guard g) (\<lambda>_.
         bind (save_friend_link updated None None) (\<lambda>_.
         gets (\<lambda>s. link_view P s updated False))))))"

definition resolve_public_friend_link ::
  "env \<Rightarrow> soc_ports \<Rightarrow> soc_state \<Rightarrow> string \<Rightarrow> pyexn + public_link_view option" where
  "resolve_public_friend_link E P s code =
     (case get_friend_link_by_code_hash s (hash_token E code) of
        None \<Rightarrow> Inr None
      | Some l \<Rightarrow>
          if fl_lifecycle l \<noteq> LinkActive then Inr None
          else
            sbind (sp_reachable P (fl_owner_account_id l)) (\<lambda>usable.
            if \<not> usable then Inr None
            else
              case sp_display P (fl_owner_account_id l) of
                Inl _ \<Rightarrow> Inr None
              | Inr name \<Rightarrow>
                  Inr (Some \<lparr>plv_link_code = code, plv_status = ''active'',
                             plv_owner_display_name = name\<rparr>)))"

section \<open>Friendships\<close>

definition result_of_friendship ::
  "soc_ports \<Rightarrow> string \<Rightarrow> friendship \<Rightarrow> string \<Rightarrow> pyexn + friendship_result" where
  "result_of_friendship P status f counterpart =
     sbind (sp_display P counterpart) (\<lambda>name.
     Inr \<lparr>fsr_status = status, fsr_friendship = f, fsr_counterpart_id = counterpart,
          fsr_counterpart_name = name, fsr_continuation = []\<rparr>)"

definition create_friendship_notification ::
  "env \<Rightarrow> soc_ports \<Rightarrow> friendship \<Rightarrow> string \<Rightarrow> notification_fact soc" where
  "create_friendship_notification E P f actor =
     (let participants = sort [fs_low f, fs_high f] in
      bind (lift (sp_display P actor)) (\<lambda>name.
      bind (py_now E) (\<lambda>now.
      create_fact E ''friendship_created'' (Some actor) ''friendship'' (fs_id f) ''created''
        [(''actor_account_id'', PyStr actor), (''actor_display_name'', PyStr name),
         (''object_type'', PyStr ''friendship''), (''object_id'', PyStr (fs_id f)),
         (''participants'', PyList (map PyStr participants)), (''status'', PyStr ''created''),
         (''occurred_at'', PyStr (isoformat now)), (''time'', PyNone), (''timezone'', PyNone),
         (''duration_minutes'', PyNone)]
        participants (''friendship_created:'' @ fs_id f @ '':created''))))"

definition new_friendship ::
  "env \<Rightarrow> soc_ports \<Rightarrow> string \<Rightarrow> string \<Rightarrow> soc_guard \<Rightarrow> friendship soc" where
  "new_friendship E P joiner owner g =
     (case unordered_pair joiner owner of
        (low, high) \<Rightarrow>
          bind (soc_new_id E ''friendship'') (\<lambda>fid.
          bind (py_now E) (\<lambda>established.
          bind (py_now E) (\<lambda>created.
          bind (py_now E) (\<lambda>updated.
          let f = \<lparr>fs_id = fid, fs_low = low, fs_high = high, fs_lifecycle = FriendshipActive,
                   fs_established_at = established, fs_removed_at = None, fs_created_at = created,
                   fs_updated_at = updated\<rparr> in
          bind (run_commit_guard g) (\<lambda>_.
          bind (add_friendship f) (\<lambda>_.
          bind (create_friendship_notification E P f joiner) (\<lambda>_. ret f))))))))"

definition establish_from_link ::
  "env \<Rightarrow> soc_ports \<Rightarrow> string \<Rightarrow> friend_link \<Rightarrow> soc_guard \<Rightarrow> friendship_result soc" where
  "establish_from_link E P joiner l g =
     (if fl_lifecycle l \<noteq> LinkActive then soc_error ''friend_link_disabled''
      else
        bind (require_usable_channel P (fl_owner_account_id l) ''owner_channel_required'') (\<lambda>_.
        if joiner = fl_owner_account_id l then soc_error ''self_friendship_forbidden''
        else
          bind (gets (\<lambda>s. get_active_friendship s joiner (fl_owner_account_id l))) (\<lambda>active.
          case active of
            Some f \<Rightarrow> lift (result_of_friendship P ''already_active'' f (fl_owner_account_id l))
          | None \<Rightarrow>
              bind (new_friendship E P joiner (fl_owner_account_id l) g) (\<lambda>f.
              lift (result_of_friendship P ''created'' f (fl_owner_account_id l))))))"

definition establish_if_found ::
  "env \<Rightarrow> soc_ports \<Rightarrow> string \<Rightarrow> friend_link option \<Rightarrow> soc_guard \<Rightarrow> friendship_result soc" where
  "establish_if_found E P joiner found g =
     (case found of
        None \<Rightarrow> soc_error ''friend_link_not_found''
      | Some l \<Rightarrow> establish_from_link E P joiner l g)"

definition establish_friendship_from_token ::
  "env \<Rightarrow> soc_ports \<Rightarrow> string \<Rightarrow> string \<Rightarrow> soc_guard \<Rightarrow> friendship_result soc" where
  "establish_friendship_from_token E P joiner0 token g =
     bind (gets (\<lambda>s. get_friend_link_by_token_hash s (hash_token E token))) (\<lambda>found.
     establish_if_found E P (canon joiner0) found g)"

definition establish_friendship_from_code ::
  "env \<Rightarrow> soc_ports \<Rightarrow> string \<Rightarrow> string \<Rightarrow> soc_guard \<Rightarrow> friendship_result soc" where
  "establish_friendship_from_code E P joiner0 code g =
     bind (gets (\<lambda>s. get_friend_link_by_code_hash s (hash_token E code))) (\<lambda>found.
     establish_if_found E P (canon joiner0) found g)"

definition complete_deferred_friend_link ::
  "env \<Rightarrow> soc_ports \<Rightarrow> string \<Rightarrow> string \<Rightarrow> soc_guard \<Rightarrow> friendship_result soc" where
  "complete_deferred_friend_link E P joiner0 lid g =
     bind (gets (\<lambda>s. get_friend_link s lid)) (\<lambda>found.
     case found of
       None \<Rightarrow> soc_error ''friend_link_not_found''
     | Some l \<Rightarrow>
         bind (require_usable_channel P (canon joiner0) ''joiner_channel_required'') (\<lambda>_.
         establish_from_link E P (canon joiner0) l g))"

definition remove_friend ::
  "env \<Rightarrow> string \<Rightarrow> string \<Rightarrow> soc_guard \<Rightarrow> friendship soc" where
  "remove_friend E account friend g =
     bind (gets (\<lambda>s. get_active_friendship s (canon account) (canon friend))) (\<lambda>found.
     case found of
       None \<Rightarrow>
         raise (SocialSchedulingError ''friendship_not_found''
           (Some [(''type'', PyStr ''not_active_friend'')]))
     | Some f \<Rightarrow>
         bind (py_now E) (\<lambda>removed.
         bind (py_now E) (\<lambda>updated_at.
         let updated = f\<lparr>fs_lifecycle := FriendshipRemoved, fs_removed_at := Some removed,
                         fs_updated_at := updated_at\<rparr> in
         bind (run_commit_guard g) (\<lambda>_.
         bind (save_friendship updated) (\<lambda>_. ret updated)))))"

section \<open>Friends by name\<close>

definition list_friends :: "soc_ports \<Rightarrow> soc_state \<Rightarrow> string \<Rightarrow> pyexn + friend_entry list" where
  "list_friends P s account0 =
     (let account = canon account0 in
      map_sum_list (\<lambda>f.
        sbind (other_account_id f account) (\<lambda>friend.
        sbind (sp_display P friend) (\<lambda>name.
        Inr \<lparr>fe_account_id = friend, fe_friendship_id = fs_id f, fe_display_name = name\<rparr>)))
        (list_active_friendships s account))"

definition normalize_friend_reference :: "string \<Rightarrow> string" where
  "normalize_friend_reference value = filter py_alnum_char (py_casefold value)"

definition friend_reference_tokens :: "string \<Rightarrow> string list" where
  "friend_reference_tokens value = runs_from py_alnum_char [] (py_casefold value)"

definition partial_friend_display_name_match :: "string \<Rightarrow> string \<Rightarrow> bool" where
  "partial_friend_display_name_match reference display_name =
     (let normalized = normalize_friend_reference display_name;
          tokens = friend_reference_tokens display_name
      in reference \<noteq> [] \<and> normalized \<noteq> [] \<and>
         (reference \<in> set tokens \<or>
          3 \<le> length reference \<and>
          (starts_with reference normalized \<or> list_ex (starts_with reference) tokens)))"

definition exact_friend :: "string \<Rightarrow> friend_entry \<Rightarrow> bool" where
  "exact_friend reference e \<longleftrightarrow>
     reference \<in> {normalize_friend_reference (fe_account_id e),
                   normalize_friend_reference (fe_display_name e)}"

text \<open>\<open>tuple(dict.fromkeys(xs))\<close> and \<open>_dedupe_preserve_order\<close>: the first of equal values stays.\<close>

fun dedupe_from :: "string list \<Rightarrow> string list \<Rightarrow> string list" where
  "dedupe_from seen [] = []"
| "dedupe_from seen (x # xs) =
     (if x \<in> set seen then dedupe_from seen xs else x # dedupe_from (x # seen) xs)"

definition dedupe_preserve_order :: "string list \<Rightarrow> string list" where
  "dedupe_preserve_order xs = dedupe_from [] xs"

definition resolution_of :: "string list \<Rightarrow> friend_resolution" where
  "resolution_of candidates =
     (case candidates of
        [] \<Rightarrow> \<lparr>frs_status = Unmatched, frs_matched = None, frs_candidates = []\<rparr>
      | [c] \<Rightarrow> \<lparr>frs_status = Matched, frs_matched = Some c, frs_candidates = [c]\<rparr>
      | _ \<Rightarrow> \<lparr>frs_status = Ambiguous, frs_matched = None, frs_candidates = candidates\<rparr>)"

definition resolve_active_friend_reference ::
  "soc_ports \<Rightarrow> soc_state \<Rightarrow> string \<Rightarrow> string \<Rightarrow> pyexn + friend_resolution" where
  "resolve_active_friend_reference P s account text =
     (let reference = normalize_friend_reference text in
      if reference = [] then Inr (resolution_of [])
      else
        sbind (list_friends P s (canon account)) (\<lambda>friends.
        let exact = map fe_account_id (filter (exact_friend reference) friends);
            partial = map fe_account_id (filter (\<lambda>e. \<not> exact_friend reference e \<and>
                        partial_friend_display_name_match reference (fe_display_name e)) friends);
            candidates = (if exact \<noteq> [] then exact else partial)
        in Inr (resolution_of (dedupe_preserve_order candidates))))"

definition friend_identifiers_for_shared_reminder ::
  "soc_ports \<Rightarrow> soc_state \<Rightarrow> string \<Rightarrow> string \<Rightarrow> pyexn + string list" where
  "friend_identifiers_for_shared_reminder P s shared viewer0 =
     (let viewer = canon viewer0 in
      case get_shared_reminder s shared of
        None \<Rightarrow> Inr []
      | Some r \<Rightarrow>
          if viewer \<notin> set (sr_participants r) then Inr []
          else map_sum_list (sp_display P) (filter (\<lambda>a. a \<noteq> viewer) (sr_participants r)))"

end
