(* ===== verification/SocShared.thy ===== *)
theory SocShared
  imports SocService
begin

text \<open>
  The shared reminders of \<open>SocialSchedulingService\<close>
  (\<open>coke/domains/social_scheduling/service.py\<close>): creating them, from fields and from text,
  cancelling, rescheduling, completing one's own projection, and the availability of friends.
\<close>

section \<open>Helpers\<close>

definition as_local_wall_clock :: "datetime \<times> bool \<Rightarrow> local_dt" where
  "as_local_wall_clock v =
     (case v of (Naive w, b) \<Rightarrow> (w, b) | (Aware u off, b) \<Rightarrow> (u + off, b))"

text \<open>\<open>local + timedelta(minutes=n)\<close>; the result of datetime arithmetic has fold 0.\<close>

definition local_plus_minutes :: "local_dt \<Rightarrow> int \<Rightarrow> pyexn + local_dt" where
  "local_plus_minutes l n =
     (if wall_ok (fst l + n * minute_us) then Inr (fst l + n * minute_us, False) else Inl OverflowError)"

definition shared_duration_minutes :: "pyval \<Rightarrow> pyexn + int" where
  "shared_duration_minutes v =
     (case v of
        PyBool _ \<Rightarrow> Inl (SocialSchedulingError ''invalid_duration_minutes'' None)
      | PyInt n \<Rightarrow>
          if n \<le> 0 then Inl (SocialSchedulingError ''invalid_duration_minutes'' None) else Inr n
      | PyStr t \<Rightarrow>
          (case py_int t of
             None \<Rightarrow> Inl (ValueError ''invalid literal'')
           | Some n \<Rightarrow>
               if n \<le> 0 then Inl (SocialSchedulingError ''invalid_duration_minutes'' None) else Inr n)
      | _ \<Rightarrow> Inl TypeError)"

definition normalize_title :: "string \<Rightarrow> string" where
  "normalize_title title = py_lower (py_join '' '' (py_split (py_strip title)))"

definition hash_value :: "env \<Rightarrow> string \<Rightarrow> string" where
  "hash_value E value = canonical_hash E (PyStr value)"

definition first_missing_field ::
  "string list \<Rightarrow> string option \<Rightarrow> local_dt option \<Rightarrow> string option" where
  "first_missing_field receivers title local_at =
     (if receivers = [] then Some ''participants''
      else if (case title of None \<Rightarrow> True | Some t \<Rightarrow> py_strip t = []) then Some ''title''
      else if local_at = None then Some ''time''
      else None)"

definition shared_notification_key :: "shared_reminder \<Rightarrow> string \<Rightarrow> string" where
  "shared_notification_key r status =
     (if status = ''rescheduled''
      then ''shared_reminder:'' @ sr_id r @ '':'' @ status @ '':'' @ isoformat (sr_updated_at r)
      else ''shared_reminder:'' @ sr_id r @ '':'' @ status)"

text \<open>
  Comparing two datetimes with the same \<open>ZoneInfo\<close> compares their wall clocks, not the instants.
\<close>

definition validate_shared_trigger_time :: "env \<Rightarrow> local_dt \<Rightarrow> string \<Rightarrow> string soc" where
  "validate_shared_trigger_time E local_at timezone =
     (case env_zone E timezone of
        Inl e \<Rightarrow> if e = ZoneInfoNotFoundError then ret ''invalid'' else raise e
      | Inr z \<Rightarrow>
          bind (py_now E) (\<lambda>now.
          bind (lift (to_utc E now)) (\<lambda>utc.
          bind (lift (local_of z (dt_key utc))) (\<lambda>now_in_zone.
          ret (if fst local_at < fst now_in_zone then ''needs_past_time_confirmation''
               else ''valid_future'')))))"

definition detected_local_trigger_time ::
  "env \<Rightarrow> (datetime \<times> bool) option \<Rightarrow> string \<Rightarrow> pyexn + (datetime \<times> bool) option" where
  "detected_local_trigger_time E trigger timezone =
     (case trigger of
        None \<Rightarrow> Inr None
      | Some (t, b) \<Rightarrow>
          zone_or E timezone (Inl (SocialSchedulingError ''invalid_detector_output'' None)) (\<lambda>z.
          if is_aware t
          then sbind (to_utc E t) (\<lambda>utc.
               sbind (local_of z (dt_key utc)) (\<lambda>(w, f). Inr (Some (Naive w, f))))
          else Inr (Some (t, b))))"

definition busy_intervals_for ::
  "soc_ports \<Rightarrow> soc_state \<Rightarrow> string \<Rightarrow> local_dt \<Rightarrow> local_dt \<Rightarrow> string \<Rightarrow> string list \<Rightarrow>
    pyexn + busy_interval list" where
  "busy_intervals_for P s account start end_at timezone exclude =
     sbind (sp_busy P account start end_at timezone) (\<lambda>personal.
     sbind (shared_busy_intervals s account (Naive (fst start)) (Naive (fst end_at))) (\<lambda>shared.
     Inr (filter (\<lambda>i. exclude = [] \<or> bz_detail_id i \<notin> Some ` set exclude) (personal @ shared))))"

text \<open>Who of some participants is busy, who cannot be reached, and who is left.\<close>

definition conflicting_of ::
  "soc_ports \<Rightarrow> soc_state \<Rightarrow> string list \<Rightarrow> local_dt \<Rightarrow> local_dt \<Rightarrow> string \<Rightarrow> string list \<Rightarrow>
    pyexn + string list" where
  "conflicting_of P s accounts start end_at timezone exclude =
     filter_sum (\<lambda>a. sbind (busy_intervals_for P s a start end_at timezone exclude) (\<lambda>is. Inr (is \<noteq> [])))
       accounts"

definition unreachable_of :: "soc_ports \<Rightarrow> string list \<Rightarrow> pyexn + string list" where
  "unreachable_of P accounts = filter_sum (\<lambda>a. sbind (sp_reachable P a) (\<lambda>b. Inr (\<not> b))) accounts"

definition available_of :: "string list \<Rightarrow> string list \<Rightarrow> string list \<Rightarrow> string list" where
  "available_of accounts conflicting unreachable =
     filter (\<lambda>a. a \<notin> set conflicting \<and> a \<notin> set unreachable) accounts"

definition breakdown_of :: "string list \<Rightarrow> string list \<Rightarrow> string list \<Rightarrow> (string \<times> string list) list" where
  "breakdown_of conflicting unreachable available =
     [(''conflicting_participants'', sort conflicting),
      (''unreachable_participants'', sort unreachable),
      (''available_participants'', sort available)]"

definition shared_result_of ::
  "string \<Rightarrow> shared_reminder option \<Rightarrow> projection list \<Rightarrow> fact \<Rightarrow> shared_result" where
  "shared_result_of status r ps follow_up =
     \<lparr>sres_status = status, sres_reminder = r, sres_projections = ps, sres_breakdown = [],
      sres_follow_up = follow_up, sres_notifications = []\<rparr>"

definition blocked_result :: "string list \<Rightarrow> string list \<Rightarrow> string list \<Rightarrow> shared_result" where
  "blocked_result conflicting unreachable available =
     (shared_result_of ''blocked'' None [] [])
       \<lparr>sres_breakdown := breakdown_of conflicting unreachable available\<rparr>"

definition time_state_facts :: "string \<Rightarrow> local_dt \<Rightarrow> string \<Rightarrow> fact" where
  "time_state_facts state local_at timezone =
     [(''time_state'', PyStr state), (''local_trigger_at'', PyStr (iso_wall (fst local_at))),
      (''captured_timezone'', PyStr timezone)]"

definition create_shared_reminder_notification ::
  "env \<Rightarrow> soc_ports \<Rightarrow> shared_reminder \<Rightarrow> string \<Rightarrow> string option \<Rightarrow> string list \<Rightarrow>
    notification_fact soc" where
  "create_shared_reminder_notification E P r status actor recipients =
     (let actor_id = (case actor of None \<Rightarrow> sr_creator r | Some a \<Rightarrow> if a = [] then sr_creator r else a) in
      bind (lift (sp_display P actor_id)) (\<lambda>name.
      create_fact E (''shared_reminder_'' @ status) (Some actor_id) ''shared_reminder'' (sr_id r) status
        [(''actor_account_id'', PyStr actor_id), (''actor_display_name'', PyStr name),
         (''object_type'', PyStr ''shared_reminder''), (''object_id'', PyStr (sr_id r)),
         (''title'', PyStr (sr_title r)),
         (''participants'', PyList (map PyStr (sr_participants r))),
         (''time'', PyStr (iso_wall (fst (sr_local r)))), (''timezone'', PyStr (sr_timezone r)),
         (''duration_minutes'', PyInt (sr_duration r)), (''status'', PyStr status)]
        recipients (shared_notification_key r status)))"

section \<open>Creation\<close>

definition new_projection :: "env \<Rightarrow> string \<Rightarrow> string \<Rightarrow> projection soc" where
  "new_projection E shared account =
     bind (soc_new_id E ''reminder_projection'') (\<lambda>pid.
     bind (soc_new_id E ''reminder'') (\<lambda>rid.
     bind (py_now E) (\<lambda>created.
     bind (py_now E) (\<lambda>updated.
     ret \<lparr>pj_id = pid, pj_shared_id = shared, pj_account_id = account, pj_reminder_id = rid,
          pj_lifecycle = SharedActive, pj_completion = CompletionPending, pj_created_at = created,
          pj_updated_at = updated\<rparr>))))"

definition store_projection :: "env \<Rightarrow> string \<Rightarrow> string \<Rightarrow> projection soc" where
  "store_projection E shared account =
     bind (new_projection E shared account) (\<lambda>p. bind (add_projection E p) (\<lambda>_. ret p))"

text \<open>The writes of a creation, in the order the code makes them.\<close>

definition store_shared_reminder ::
  "env \<Rightarrow> soc_ports \<Rightarrow> (string \<Rightarrow> datetime \<Rightarrow> shared_reminder) \<Rightarrow> string list \<Rightarrow> string list \<Rightarrow>
    soc_guard \<Rightarrow> shared_result soc" where
  "store_shared_reminder E P build participants recipients g =
     bind (run_commit_guard g) (\<lambda>_.
     bind (py_now E) (\<lambda>now.
     bind (soc_new_id E ''shared_reminder'') (\<lambda>rid.
     let r = build rid now in
     bind (add_shared_reminder r) (\<lambda>_.
     bind (map_py (store_projection E rid) participants) (\<lambda>ps.
     bind (create_shared_reminder_notification E P r ''created'' None recipients) (\<lambda>n.
     ret ((shared_result_of ''created'' (Some r) ps []) \<lparr>sres_notifications := [n]\<rparr>)))))))"

text \<open>The creation of a reminder whose fields are complete and whose time lies ahead.\<close>

definition create_checked ::
  "env \<Rightarrow> soc_ports \<Rightarrow> string \<Rightarrow> string list \<Rightarrow> string \<Rightarrow> local_dt \<Rightarrow> string \<Rightarrow> int \<Rightarrow> soc_guard \<Rightarrow>
    shared_result soc" where
  "create_checked E P creator receivers title local_at timezone minutes g =
     bind (gets id) (\<lambda>s.
     let unique_receivers = dedupe_preserve_order receivers;
         not_friends = filter (\<lambda>a. get_active_friendship s creator a = None) unique_receivers
     in
     if not_friends \<noteq> [] then
       ret (shared_result_of ''needs_participants'' None []
              [(''missing'', PyStr ''participants''), (''reason'', PyStr ''receiver_not_active_friend''),
               (''receiver_account_ids'', PyList (map PyStr not_friends))])
     else
       let participants = sorted_set (creator # unique_receivers);
           title_hash = hash_value E (normalize_title title);
           participant_hash = hash_value E (py_join ''|'' participants)
       in
       case get_duplicate_active_shared_reminder s creator participant_hash title_hash local_at
              timezone minutes of
         Some d \<Rightarrow> ret (shared_result_of ''duplicate'' (Some d) (list_projections s (sr_id d)) [])
       | None \<Rightarrow>
           bind (lift (local_plus_minutes local_at minutes)) (\<lambda>end_at.
           bind (lift (conflicting_of P s unique_receivers local_at end_at timezone [])) (\<lambda>conflicting.
           bind (lift (unreachable_of P participants)) (\<lambda>unreachable.
           if conflicting \<noteq> [] \<or> unreachable \<noteq> []
           then ret (blocked_result conflicting unreachable
                       (available_of unique_receivers conflicting unreachable))
           else
             store_shared_reminder E P
               (\<lambda>rid now.
                  \<lparr>sr_id = rid, sr_creator = creator, sr_participants = participants,
                   sr_participant_hash = participant_hash, sr_title = py_strip title,
                   sr_title_hash = title_hash, sr_local = local_at, sr_timezone = timezone,
                   sr_duration = minutes, sr_status = SharedActive, sr_cancelled_at = None,
                   sr_created_at = now, sr_updated_at = now\<rparr>)
               participants unique_receivers g))))"

definition create_shared_reminder ::
  "env \<Rightarrow> soc_ports \<Rightarrow> string \<Rightarrow> string list \<Rightarrow> string option \<Rightarrow> (datetime \<times> bool) option \<Rightarrow> string \<Rightarrow>
    pyval option \<Rightarrow> soc_guard \<Rightarrow> shared_result soc" where
  "create_shared_reminder E P creator receivers title trigger timezone duration g =
     (let accounts = map canon receivers;
          local = map_option as_local_wall_clock trigger
      in
      case (first_missing_field accounts title local, title, local) of
        (None, Some text, Some local_at) \<Rightarrow>
          bind (validate_shared_trigger_time E local_at timezone) (\<lambda>state.
          if state \<noteq> ''valid_future''
          then ret (shared_result_of state None [] (time_state_facts state local_at timezone))
          else
            case duration of
              None \<Rightarrow>
                ret (shared_result_of ''needs_duration'' None [] [(''missing'', PyStr ''duration'')])
            | Some d \<Rightarrow>
                bind (lift (shared_duration_minutes d)) (\<lambda>minutes.
                create_checked E P (canon creator) accounts text local_at timezone minutes g))
      | (missing, _, _) \<Rightarrow>
          let field = (case missing of Some m \<Rightarrow> m | None \<Rightarrow> []) in
          ret (shared_result_of (''needs_'' @ field) None [] [(''missing'', PyStr field)]))"

definition not_runtime_nor_zone :: "pyexn \<Rightarrow> bool" where
  "not_runtime_nor_zone e \<longleftrightarrow> \<not> is_runtime_error e \<and> e \<noteq> ZoneInfoNotFoundError"

definition run_shared_detector ::
  "env \<Rightarrow> (string \<Rightarrow> string \<Rightarrow> datetime \<Rightarrow> pyexn + soc_fields) \<Rightarrow> string \<Rightarrow> string \<Rightarrow> soc_fields soc" where
  "run_shared_detector E detect text timezone =
     catch
       (bind (lift (env_zone E timezone)) (\<lambda>z.
        bind (py_now E) (\<lambda>now.
        bind (lift (to_zone E z now)) (\<lambda>now_in_zone.
        lift (detect text timezone now_in_zone)))))
       (\<lambda>e. if not_runtime_nor_zone e then raise e else soc_error ''invalid_detector_output'')"

definition detect_and_create_shared_reminder ::
  "env \<Rightarrow> soc_ports \<Rightarrow> string \<Rightarrow> string list \<Rightarrow> string \<Rightarrow> string option \<Rightarrow> string \<Rightarrow> pyval option \<Rightarrow>
    soc_guard \<Rightarrow> shared_result soc" where
  "detect_and_create_shared_reminder E P creator receivers text title timezone duration g =
     (case sp_detector P of
        None \<Rightarrow> soc_error ''detector_unavailable''
      | Some detect \<Rightarrow>
          bind (run_shared_detector E detect text timezone) (\<lambda>fields.
          bind (lift (detected_local_trigger_time E (sf_trigger_time fields) timezone)) (\<lambda>trigger.
          create_shared_reminder E P (canon creator) (map canon receivers)
            (if title = None \<or> title = Some [] then sf_content fields else title)
            trigger timezone (if duration \<noteq> None then duration else sf_duration fields) g)))"

section \<open>Reads\<close>

definition list_shared_reminders :: "soc_state \<Rightarrow> string \<Rightarrow> shared_reminder list" where
  "list_shared_reminders s account =
     filter (\<lambda>r. sr_status r = SharedActive) (list_shared_reminders_for_participant s (canon account))"

definition view_shared_reminder :: "string \<Rightarrow> string \<Rightarrow> shared_reminder soc" where
  "view_shared_reminder account shared =
     bind (gets (\<lambda>s. get_shared_reminder s shared)) (\<lambda>found.
     case found of
       None \<Rightarrow> soc_error ''shared_reminder_not_found''
     | Some r \<Rightarrow>
         if canon account \<notin> set (sr_participants r) then soc_error ''shared_reminder_not_found''
         else ret r)"

section \<open>Cancellation\<close>

definition cancel_projection :: "env \<Rightarrow> projection \<Rightarrow> projection soc" where
  "cancel_projection E p =
     bind (py_now E) (\<lambda>now.
     let updated = p\<lparr>pj_lifecycle := SharedCancelled, pj_updated_at := now\<rparr> in
     bind (save_projection updated) (\<lambda>_. ret updated))"

definition others :: "shared_reminder \<Rightarrow> string \<Rightarrow> string list" where
  "others r account = filter (\<lambda>p. p \<noteq> account) (sr_participants r)"

definition cancel_shared_reminder ::
  "env \<Rightarrow> soc_ports \<Rightarrow> string \<Rightarrow> string \<Rightarrow> soc_guard \<Rightarrow> shared_result soc" where
  "cancel_shared_reminder E P account0 shared g =
     (let account = canon account0 in
      bind (view_shared_reminder account shared) (\<lambda>r.
      bind (gets (\<lambda>s. list_projections s shared)) (\<lambda>ps.
      if sr_status r = SharedCancelled then ret (shared_result_of ''already_cancelled'' (Some r) ps [])
      else
        bind (py_now E) (\<lambda>cancelled.
        bind (py_now E) (\<lambda>updated_at.
        let updated = r\<lparr>sr_status := SharedCancelled, sr_cancelled_at := Some cancelled,
                        sr_updated_at := updated_at\<rparr> in
        bind (run_commit_guard g) (\<lambda>_.
        bind (save_shared_reminder updated) (\<lambda>_.
        bind (map_py (cancel_projection E) ps) (\<lambda>updated_ps.
        bind (create_shared_reminder_notification E P updated ''cancelled'' (Some account)
               (others updated account)) (\<lambda>n.
        ret ((shared_result_of ''cancelled'' (Some updated) updated_ps [])
               \<lparr>sres_notifications := [n]\<rparr>))))))))))"

section \<open>Rescheduling\<close>

text \<open>The writes of a rescheduling.\<close>

definition store_rescheduled ::
  "env \<Rightarrow> soc_ports \<Rightarrow> string \<Rightarrow> shared_reminder \<Rightarrow> projection list \<Rightarrow> local_dt \<Rightarrow> string \<Rightarrow> int \<Rightarrow>
    soc_guard \<Rightarrow> shared_result soc" where
  "store_rescheduled E P account r ps local_at timezone minutes g =
     bind (py_now E) (\<lambda>now.
     let updated = r\<lparr>sr_local := local_at, sr_timezone := timezone, sr_duration := minutes,
                     sr_updated_at := now\<rparr>;
         updated_ps = map (\<lambda>p. if pj_lifecycle p = SharedActive then p\<lparr>pj_updated_at := now\<rparr> else p) ps
     in
     bind (run_commit_guard g) (\<lambda>_.
     bind (save_shared_reminder updated) (\<lambda>_.
     bind (for_each updated_ps save_projection) (\<lambda>_.
     bind (sync_projection_reminders E updated updated_ps) (\<lambda>_.
     bind (create_shared_reminder_notification E P updated ''rescheduled'' (Some account)
            (others updated account)) (\<lambda>n.
     ret ((shared_result_of ''rescheduled'' (Some updated) updated_ps [])
            \<lparr>sres_notifications := [n]\<rparr>)))))))"

definition reschedule_checked ::
  "env \<Rightarrow> soc_ports \<Rightarrow> string \<Rightarrow> shared_reminder \<Rightarrow> projection list \<Rightarrow> local_dt \<Rightarrow> string \<Rightarrow> int \<Rightarrow>
    soc_guard \<Rightarrow> shared_result soc" where
  "reschedule_checked E P account r ps local_at timezone minutes g =
     bind (gets id) (\<lambda>s.
     let duplicate = get_duplicate_active_shared_reminder s (sr_creator r) (sr_participant_hash r)
           (sr_title_hash r) local_at timezone minutes
     in
     case (case duplicate of None \<Rightarrow> None | Some d \<Rightarrow> if sr_id d \<noteq> sr_id r then Some d else None) of
       Some d \<Rightarrow> ret (shared_result_of ''duplicate'' (Some d) (list_projections s (sr_id d)) [])
     | None \<Rightarrow>
         bind (lift (local_plus_minutes local_at minutes)) (\<lambda>end_at.
         let exclude = sr_id r # map pj_reminder_id ps in
         bind (lift (conflicting_of P s (sr_participants r) local_at end_at timezone exclude))
           (\<lambda>conflicting.
         bind (lift (unreachable_of P (sr_participants r))) (\<lambda>unreachable.
         if conflicting \<noteq> [] \<or> unreachable \<noteq> []
         then ret (blocked_result conflicting unreachable
                     (available_of (sr_participants r) conflicting unreachable))
         else store_rescheduled E P account r ps local_at timezone minutes g))))"

definition update_shared_reminder ::
  "env \<Rightarrow> soc_ports \<Rightarrow> string \<Rightarrow> string \<Rightarrow> (datetime \<times> bool) option \<Rightarrow> string option \<Rightarrow> pyval option \<Rightarrow>
    bool \<Rightarrow> soc_guard \<Rightarrow> shared_result soc" where
  "update_shared_reminder E P account0 shared trigger timezone0 duration replay g =
     (let account = canon account0 in
      bind (view_shared_reminder account shared) (\<lambda>r.
      bind (gets (\<lambda>s. list_projections s shared)) (\<lambda>ps.
      if sr_status r = SharedCancelled then ret (shared_result_of ''already_cancelled'' (Some r) ps [])
      else if trigger = None \<and> duration = None then
        ret (shared_result_of ''needs_update_fields'' (Some r) ps
               [(''missing'', PyStr ''time_or_duration'')])
      else
        let local_at = (case trigger of None \<Rightarrow> sr_local r | Some t \<Rightarrow> as_local_wall_clock t);
            timezone = (case timezone0 of None \<Rightarrow> sr_timezone r
                        | Some z \<Rightarrow> if z = [] then sr_timezone r else z)
        in
        bind (case duration of None \<Rightarrow> ret (sr_duration r)
              | Some d \<Rightarrow> lift (shared_duration_minutes d)) (\<lambda>minutes.
        if fst local_at = fst (sr_local r) \<and> timezone = sr_timezone r \<and> minutes = sr_duration r
        then
          ret (if replay then shared_result_of ''rescheduled'' (Some r) ps []
               else shared_result_of ''needs_update_fields'' (Some r) ps
                      [(''missing'', PyStr ''time_or_duration''), (''reason'', PyStr ''no_change'')])
        else
          bind (validate_shared_trigger_time E local_at timezone) (\<lambda>state.
          if state \<noteq> ''valid_future''
          then ret (shared_result_of state (Some r) ps (time_state_facts state local_at timezone))
          else reschedule_checked E P account r ps local_at timezone minutes g)))))"

section \<open>Completion\<close>

definition complete_own_projection ::
  "env \<Rightarrow> string \<Rightarrow> string \<Rightarrow> soc_guard \<Rightarrow> projection soc" where
  "complete_own_projection E account0 shared g =
     (let account = canon account0 in
      bind (view_shared_reminder account shared) (\<lambda>_.
      bind (gets (\<lambda>s. get_projection s shared account)) (\<lambda>found.
      case found of
        None \<Rightarrow> soc_error ''shared_projection_not_found''
      | Some p \<Rightarrow>
          bind (py_now E) (\<lambda>now.
          let updated = p\<lparr>pj_completion := CompletionDone, pj_updated_at := now\<rparr> in
          bind (run_commit_guard g) (\<lambda>_.
          bind (save_projection updated) (\<lambda>_. ret updated))))))"

section \<open>Availability of friends\<close>

datatype availability_answer =
    OneFriend friend_availability
  | ManyFriends "friend_availability list"

definition availability_of_friend ::
  "soc_ports \<Rightarrow> soc_state \<Rightarrow> string \<Rightarrow> local_dt \<Rightarrow> local_dt \<Rightarrow> string \<Rightarrow> string \<Rightarrow>
    pyexn + friend_availability" where
  "availability_of_friend P s requester start end_at timezone friend =
     (if get_active_friendship s requester friend = None
      then Inl (SocialSchedulingError ''friendship_not_found'' None)
      else
        sbind (busy_intervals_for P s friend start end_at timezone []) (\<lambda>is.
        sbind (sp_display P friend) (\<lambda>name.
        sbind (build_busy_free_windows (Naive (fst start)) (Naive (fst end_at)) is) (\<lambda>ws.
        Inr \<lparr>fa_friend_account_id = friend, fa_windows = ws, fa_friend_display_name = Some name\<rparr>))))"

definition query_availability ::
  "soc_ports \<Rightarrow> soc_state \<Rightarrow> string \<Rightarrow> string list \<Rightarrow> datetime \<times> bool \<Rightarrow> datetime \<times> bool \<Rightarrow> string \<Rightarrow>
    pyexn + availability_answer" where
  "query_availability P s requester friends start0 end0 timezone =
     (let accounts = map canon friends;
          start = as_local_wall_clock start0;
          end_at = as_local_wall_clock end0
      in
      if accounts = []
      then Inl (SocialSchedulingError ''availability_requires_one_or_more_friends''
                  (Some [(''type'', PyStr ''availability_requires_one_or_more_friends'')]))
      else
        sbind (map_sum_list (availability_of_friend P s (canon requester) start end_at timezone)
          (dedupe_preserve_order accounts)) (\<lambda>results.
        Inr (case results of [r] \<Rightarrow> OneFriend r | _ \<Rightarrow> ManyFriends results)))"

end
