(* ===== verification/TableEvolution.thy ===== *)
theory TableEvolution
  imports CokePrelude
begin

text \<open>
  How the table of a repository may change: entries are added and edited, never removed. The edits
  of one kind of entry form a preorder; the locale lifts them to tables.
\<close>

section \<open>Tables that evolve\<close>

locale evolving =
  fixes edited :: "'v \<Rightarrow> 'v \<Rightarrow> bool"
  assumes edited_refl [simp]: "edited v v"
    and edited_trans: "edited u v \<Longrightarrow> edited v w \<Longrightarrow> edited u w"
begin

definition table_ext :: "('k, 'v) dict \<Rightarrow> ('k, 'v) dict \<Rightarrow> bool" where
  "table_ext d d' \<longleftrightarrow> (\<forall>k v. dget d k = Some v \<longrightarrow> (\<exists>v'. dget d' k = Some v' \<and> edited v v'))"

lemma table_refl [simp]: "table_ext d d"
  by (auto simp: table_ext_def)

lemma table_trans: "table_ext d d' \<Longrightarrow> table_ext d' d'' \<Longrightarrow> table_ext d d''"
  unfolding table_ext_def using edited_trans by blast

lemma table_get: "table_ext d d' \<Longrightarrow> dget d k = Some v \<Longrightarrow> \<exists>v'. dget d' k = Some v' \<and> edited v v'"
  by (simp add: table_ext_def)

lemma table_new: "table_ext d d' \<Longrightarrow> dget d' k = None \<Longrightarrow> table_ext d (dput k v d')"
  by (fastforce simp: table_ext_def)

lemma table_edit:
  assumes "table_ext d d'" "dget d' k = Some u" "edited u v"
  shows "table_ext d (dput k v d')"
  unfolding table_ext_def
proof (intro allI impI)
  fix j w
  assume w: "dget d j = Some w"
  obtain w' where w': "dget d' j = Some w'" "edited w w'"
    using table_get [OF assms(1) w] by blast
  show "\<exists>v'. dget (dput k v d') j = Some v' \<and> edited w v'"
  proof (cases "j = k")
    case True
    with w' assms(2) have "edited w u" by simp
    then have "edited w v" using assms(3) by (rule edited_trans)
    with True show ?thesis by simp
  qed (use w' in simp)
qed

end

end
