(* ===== verification/SocContract.thy ===== *)
theory SocContract
  imports SocShared RemContract TableEvolution
begin

text \<open>
  What the social scheduling store keeps. The invariant has one part per component (links,
  friendships, shared reminders, projections, notifications); the extension relation says how a
  store may change: entries are never removed, what identifies them stays, and their states only
  move forward. The edits of each kind of entry form a preorder, an instance of the locale \<open>evolving\<close>.
\<close>

section \<open>Indexes\<close>

text \<open>An index from a key of the entries to their ids: exact, or only never wrong.\<close>

definition id_indexed :: "('v \<Rightarrow> string) \<Rightarrow> ('v \<Rightarrow> 'k) \<Rightarrow> (string, 'v) dict \<Rightarrow> ('k, string) dict \<Rightarrow> bool" where
  "id_indexed pk sk d ix \<longleftrightarrow>
     keyed pk d \<and> (\<forall>k i. dget ix k = Some i \<longleftrightarrow> (\<exists>v. dget d i = Some v \<and> sk v = k))"

definition id_sound :: "('v \<Rightarrow> 'k) \<Rightarrow> (string, 'v) dict \<Rightarrow> ('k, string) dict \<Rightarrow> bool" where
  "id_sound sk d ix \<longleftrightarrow> (\<forall>k i. dget ix k = Some i \<longrightarrow> (\<exists>v. dget d i = Some v \<and> sk v = k))"

lemma id_indexed_keyed: "id_indexed pk sk d ix \<Longrightarrow> keyed pk d"
  by (simp add: id_indexed_def)

lemma id_indexed_iff:
  "id_indexed pk sk d ix \<Longrightarrow> dget ix k = Some i \<longleftrightarrow> (\<exists>v. dget d i = Some v \<and> sk v = k)"
  by (simp add: id_indexed_def)

lemma id_indexed_unique:
  "id_indexed pk sk d ix \<Longrightarrow> dget d i = Some v \<Longrightarrow> dget d j = Some w \<Longrightarrow> sk v = sk w \<Longrightarrow> i = j"
  by (metis id_indexed_iff option.inject)

lemma id_indexed_via:
  assumes "id_indexed pk sk d ix"
  shows "via_index ix d k = Some v \<longleftrightarrow> (\<exists>i. dget d i = Some v \<and> sk v = k)"
proof (cases "dget ix k")
  case None
  then have "\<not> (\<exists>i. dget d i = Some v \<and> sk v = k)"
    using id_indexed_iff [OF assms, of k] by fastforce
  with None show ?thesis by (simp add: via_index_def)
next
  case (Some i)
  then obtain u where u: "dget d i = Some u" "sk u = k"
    using id_indexed_iff [OF assms, of k i] by blast
  have "j = i" if "dget d j = Some v" "sk v = k" for j
    using that Some id_indexed_iff [OF assms, of k j] by auto
  with u Some show ?thesis by (auto simp: via_index_def)
qed

lemma id_indexed_add:
  assumes "id_indexed pk sk d ix" "dget d (pk v) = None" "dget ix (sk v) = None"
  shows "id_indexed pk sk (dput (pk v) v d) (dput (sk v) (pk v) ix)"
proof -
  have "dget ix k = Some i \<longleftrightarrow> (\<exists>w. dget d i = Some w \<and> sk w = k)" for k i
    by (rule id_indexed_iff [OF assms(1)])
  with assms show ?thesis
    unfolding id_indexed_def dget_dput
    by (auto intro: keyed_dput split: if_splits) (metis option.distinct(1))+
qed

lemma id_indexed_save:
  assumes "id_indexed pk sk d ix" "dget d (pk v) = Some u" "sk u = sk v"
  shows "id_indexed pk sk (dput (pk v) v d) (dput (sk v) (pk v) ix)"
    and "id_indexed pk sk (dput (pk v) v d) ix"
proof -
  have iff: "dget ix k = Some i \<longleftrightarrow> (\<exists>w. dget d i = Some w \<and> sk w = k)" for k i
    by (rule id_indexed_iff [OF assms(1)])
  have "dget ix (sk v) = Some (pk v)" using assms(2,3) iff by blast
  have "keyed pk (dput (pk v) v d)" using assms(1) by (auto simp: id_indexed_def)
  moreover have new: "dget ix k = Some i \<longleftrightarrow> (\<exists>w. dget (dput (pk v) v d) i = Some w \<and> sk w = k)" for k i
    unfolding iff dget_dput using assms(2,3) by auto
  ultimately show "id_indexed pk sk (dput (pk v) v d) ix" by (simp add: id_indexed_def)
  have "dget (dput (sk v) (pk v) ix) k = dget ix k" for k
    using \<open>dget ix (sk v) = Some (pk v)\<close> by simp
  with new \<open>keyed pk (dput (pk v) v d)\<close> show "id_indexed pk sk (dput (pk v) v d) (dput (sk v) (pk v) ix)"
    unfolding id_indexed_def by simp
qed

lemma id_sound_add:
  "id_sound sk d ix \<Longrightarrow> dget d i = None \<Longrightarrow> id_sound sk (dput i v d) (dput (sk v) i ix)"
  by (fastforce simp: id_sound_def)

lemma id_sound_pop: "id_sound sk d ix \<Longrightarrow> id_sound sk d (dpop k ix)"
  by (auto simp: id_sound_def split: if_splits)

lemma id_sound_replace:
  assumes "id_sound sk d ix" "dget d i = Some u"
  shows "id_sound sk (dput i v d) (dput (sk v) i (dpop (sk u) ix))"
  using assms unfolding id_sound_def dget_dput dget_dpop
  by (metis option.distinct(1) option.inject)

section \<open>Edits\<close>

definition link_edited :: "friend_link \<Rightarrow> friend_link \<Rightarrow> bool" where
  "link_edited l l' \<longleftrightarrow>
     fl_id l' = fl_id l \<and> fl_owner_account_id l' = fl_owner_account_id l \<and>
     fl_created_at l' = fl_created_at l"

definition friendship_edited :: "friendship \<Rightarrow> friendship \<Rightarrow> bool" where
  "friendship_edited f f' \<longleftrightarrow>
     fs_id f' = fs_id f \<and> fs_low f' = fs_low f \<and> fs_high f' = fs_high f \<and>
     fs_established_at f' = fs_established_at f \<and> fs_created_at f' = fs_created_at f \<and>
     fs_lifecycle f \<le> fs_lifecycle f'"

definition shared_edited :: "shared_reminder \<Rightarrow> shared_reminder \<Rightarrow> bool" where
  "shared_edited r r' \<longleftrightarrow>
     sr_id r' = sr_id r \<and> sr_creator r' = sr_creator r \<and> sr_participants r' = sr_participants r \<and>
     sr_participant_hash r' = sr_participant_hash r \<and> sr_title r' = sr_title r \<and>
     sr_title_hash r' = sr_title_hash r \<and> sr_created_at r' = sr_created_at r \<and>
     sr_status r \<le> sr_status r' \<and> (sr_status r = SharedCancelled \<longrightarrow> r' = r)"

definition projection_edited :: "projection \<Rightarrow> projection \<Rightarrow> bool" where
  "projection_edited p p' \<longleftrightarrow>
     pj_id p' = pj_id p \<and> pj_shared_id p' = pj_shared_id p \<and> pj_account_id p' = pj_account_id p \<and>
     pj_reminder_id p' = pj_reminder_id p \<and> pj_created_at p' = pj_created_at p \<and>
     pj_lifecycle p \<le> pj_lifecycle p' \<and>
     (pj_completion p = CompletionDone \<longrightarrow> pj_completion p' = CompletionDone)"

definition recipient_edited :: "notification_recipient \<Rightarrow> notification_recipient \<Rightarrow> bool" where
  "recipient_edited r r' \<longleftrightarrow>
     nr_id r' = nr_id r \<and> nr_fact_id r' = nr_fact_id r \<and> nr_account_id r' = nr_account_id r \<and>
     nr_created_at r' = nr_created_at r \<and> (nr_turn_id r \<noteq> None \<longrightarrow> nr_turn_id r' \<noteq> None)"

interpretation links: evolving link_edited
  by unfold_locales (auto simp: link_edited_def)

interpretation friendships: evolving friendship_edited
  by unfold_locales (auto simp: friendship_edited_def)

interpretation shareds: evolving shared_edited
  by unfold_locales (auto simp: shared_edited_def)

interpretation projections: evolving projection_edited
  by unfold_locales (auto simp: projection_edited_def)

interpretation facts: evolving "(=) :: notification_fact \<Rightarrow> notification_fact \<Rightarrow> bool"
  by unfold_locales auto

interpretation recipients: evolving recipient_edited
  by unfold_locales (auto simp: recipient_edited_def)

section \<open>The invariant\<close>

definition link_wf :: "friend_link \<Rightarrow> bool" where
  "link_wf l \<longleftrightarrow> (fl_lifecycle l = LinkDisabled \<longleftrightarrow> fl_disabled_at l \<noteq> None)"

text \<open>
  The token and the code a link shows are those its hashes were made of. The indexes by hash never
  lead to another link, but they may miss one: \<open>save_friend_link\<close> drops the old hashes before it
  checks the new ones.
\<close>

definition links_ok :: "env \<Rightarrow> soc_state \<Rightarrow> bool" where
  "links_ok E s \<longleftrightarrow>
     id_indexed fl_id fl_owner_account_id (links_by_id s) (link_by_owner s) \<and>
     id_sound fl_token_hash (links_by_id s) (link_by_token s) \<and>
     id_sound fl_code_hash (links_by_id s) (link_by_code s) \<and>
     (\<forall>i l. dget (links_by_id s) i = Some l \<longrightarrow>
        link_wf l \<and>
        (\<exists>t. dget (public_tokens s) i = Some t \<and> hash_token E t = fl_token_hash l) \<and>
        (\<exists>c. dget (link_codes s) i = Some c \<and> hash_token E c = fl_code_hash l))"

definition friendship_wf :: "friendship \<Rightarrow> bool" where
  "friendship_wf f \<longleftrightarrow>
     fs_low f < fs_high f \<and> (fs_lifecycle f = FriendshipRemoved \<longleftrightarrow> fs_removed_at f \<noteq> None)"

definition friendships_ok :: "soc_state \<Rightarrow> bool" where
  "friendships_ok s \<longleftrightarrow>
     keyed fs_id (friendships_by_id s) \<and>
     (\<forall>i f. get_friendship s i = Some f \<longrightarrow> friendship_wf f) \<and>
     (\<forall>i j f g. get_friendship s i = Some f \<longrightarrow> get_friendship s j = Some g \<longrightarrow>
        fs_lifecycle f = FriendshipActive \<longrightarrow> active_pair (fs_low f, fs_high f) g \<longrightarrow> i = j)"

definition shared_wf :: "shared_reminder \<Rightarrow> bool" where
  "shared_wf r \<longleftrightarrow>
     sorted (sr_participants r) \<and> distinct (sr_participants r) \<and>
     sr_creator r \<in> set (sr_participants r) \<and> 2 \<le> length (sr_participants r) \<and>
     1 \<le> sr_duration r \<and> (sr_status r = SharedCancelled \<longleftrightarrow> sr_cancelled_at r \<noteq> None)"

definition same_shared :: "shared_reminder \<Rightarrow> shared_reminder \<Rightarrow> bool" where
  "same_shared a b \<longleftrightarrow>
     duplicates_shared (sr_creator a) (sr_participant_hash a) (sr_title_hash a) (sr_local a)
       (sr_timezone a) (sr_duration a) b"

definition shareds_ok :: "soc_state \<Rightarrow> bool" where
  "shareds_ok s \<longleftrightarrow>
     keyed sr_id (shared_by_id s) \<and>
     (\<forall>i r. get_shared_reminder s i = Some r \<longrightarrow> shared_wf r) \<and>
     (\<forall>i j a b. get_shared_reminder s i = Some a \<longrightarrow> get_shared_reminder s j = Some b \<longrightarrow>
        sr_status a = SharedActive \<longrightarrow> same_shared a b \<longrightarrow> i = j)"

definition projection_of :: "reminder \<Rightarrow> projection \<Rightarrow> bool" where
  "projection_of r p \<longleftrightarrow>
     pj_reminder_id p = rem_id r \<and> pj_account_id p = owner_account_id r \<and>
     Some (pj_shared_id p) = shared_reminder_id r"

definition projections_ok :: "soc_state \<Rightarrow> bool" where
  "projections_ok s \<longleftrightarrow>
     id_indexed pj_id projection_key (projections_by_id s) (projection_by_key s) \<and>
     (\<forall>i p. dget (projections_by_id s) i = Some p \<longrightarrow>
        (\<exists>r. get_shared_reminder s (pj_shared_id p) = Some r \<and> pj_account_id p \<in> set (sr_participants r))) \<and>
     (\<forall>i r. dget (projection_reminders s) i = Some r \<longrightarrow>
        rem_id r = i \<and> rem_kind r = SharedProjection \<and> reminder_wf r \<and>
        (\<exists>j p. dget (projections_by_id s) j = Some p \<and> projection_of r p))"

text \<open>A structured fact lists who it is delivered to, sorted, and holds no prose.\<close>

definition fact_wf :: "notification_fact \<Rightarrow> bool" where
  "fact_wf f \<longleftrightarrow>
     fst ` set (nf_facts f) \<inter> set prose_keys = {} \<and>
     (\<exists>rs. dget (nf_facts f) ''delivery_recipients'' = Some (PyList (map PyStr rs)) \<and>
           sorted rs \<and> distinct rs)"

definition delivered_to :: "notification_fact \<Rightarrow> string \<Rightarrow> bool" where
  "delivered_to f account \<longleftrightarrow>
     (\<exists>vs. dget (nf_facts f) ''delivery_recipients'' = Some (PyList vs) \<and> PyStr account \<in> set vs)"

definition notifications_ok :: "soc_state \<Rightarrow> bool" where
  "notifications_ok s \<longleftrightarrow>
     id_indexed nf_id nf_key (facts_by_id s) (fact_by_key s) \<and>
     (\<forall>i f. dget (facts_by_id s) i = Some f \<longrightarrow> fact_wf f) \<and>
     id_indexed nr_id recipient_key (recipients_by_id s) (recipient_by_key s) \<and>
     (\<forall>i r. dget (recipients_by_id s) i = Some r \<longrightarrow>
        validate_error_facts (nr_error_facts r) = Inr () \<and>
        (\<exists>f. dget (facts_by_id s) (nr_fact_id r) = Some f \<and> delivered_to f (nr_account_id r)))"

definition soc_ok :: "env \<Rightarrow> soc_state \<Rightarrow> bool" where
  "soc_ok E s \<longleftrightarrow>
     links_ok E s \<and> friendships_ok s \<and> shareds_ok s \<and> projections_ok s \<and> notifications_ok s"

definition soc_ext :: "soc_state \<Rightarrow> soc_state \<Rightarrow> bool" where
  "soc_ext s t \<longleftrightarrow>
     links.table_ext (links_by_id s) (links_by_id t) \<and>
     friendships.table_ext (friendships_by_id s) (friendships_by_id t) \<and>
     shareds.table_ext (shared_by_id s) (shared_by_id t) \<and>
     projections.table_ext (projections_by_id s) (projections_by_id t) \<and>
     facts.table_ext (facts_by_id s) (facts_by_id t) \<and>
     recipients.table_ext (recipients_by_id s) (recipients_by_id t)"

definition soc_inv :: "env \<Rightarrow> soc_state \<Rightarrow> soc_state \<Rightarrow> bool" where
  "soc_inv E s t \<longleftrightarrow> soc_ok E t \<and> soc_ext s t"

lemmas soc_ok_defs = soc_ok_def links_ok_def friendships_ok_def shareds_ok_def projections_ok_def
  notifications_ok_def

lemma soc_ext_refl [simp]: "soc_ext s s"
  by (simp add: soc_ext_def)

lemma soc_ext_trans: "soc_ext s t \<Longrightarrow> soc_ext t u \<Longrightarrow> soc_ext s u"
  unfolding soc_ext_def
  by (auto intro: links.table_trans friendships.table_trans shareds.table_trans
      projections.table_trans facts.table_trans recipients.table_trans)

lemma soc_inv_refl: "soc_ok E s \<Longrightarrow> soc_inv E s s"
  by (simp add: soc_inv_def)

lemma soc_inv_trans: "soc_inv E s t \<Longrightarrow> soc_inv E t u \<Longrightarrow> soc_inv E s u"
  by (auto simp: soc_inv_def intro: soc_ext_trans)

lemma soc_inv_ok: "soc_inv E s t \<Longrightarrow> soc_ok E t"
  by (simp add: soc_inv_def)

lemma soc_ok_empty [simp]: "soc_ok E empty_soc_state"
  by (simp add: soc_ok_defs empty_soc_state_def id_indexed_def id_sound_def get_friendship_def
      get_shared_reminder_def)

text \<open>The counters are no part of either relation.\<close>

lemma soc_inv_counters [simp]:
  "soc_inv E s (t\<lparr>clock := n\<rparr>) = soc_inv E s t" "soc_inv E s (t\<lparr>issued := n\<rparr>) = soc_inv E s t"
  "soc_inv E s (t\<lparr>tokens_made := n\<rparr>) = soc_inv E s t"
  "soc_inv E s (t\<lparr>generated_ids := xs\<rparr>) = soc_inv E s t"
  "soc_inv E s (t\<lparr>generated_tokens := xs\<rparr>) = soc_inv E s t"
  by (simp_all add: soc_inv_def soc_ext_def soc_ok_defs get_friendship_def get_shared_reminder_def)

end
