(* ===== verification/SocKeeps.thy ===== *)
theory SocKeeps
  imports SocContract
begin

text \<open>
  Every operation of the social scheduling service keeps the invariant and only extends the store,
  whether it returns or raises. First the primitive writes, then the repository, then the service.
\<close>

section \<open>Primitive writes\<close>

text \<open>Each write changes one part of the store, and the invariant's other parts do not read it.\<close>

lemmas part_defs = links_ok_def friendships_ok_def shareds_ok_def projections_ok_def notifications_ok_def
  get_friendship_def get_shared_reminder_def

lemma frame_friendship [simp]:
  "links_ok E (put_friendship f t) = links_ok E t"
  "shareds_ok (put_friendship f t) = shareds_ok t"
  "projections_ok (put_friendship f t) = projections_ok t"
  "notifications_ok (put_friendship f t) = notifications_ok t"
  by (simp_all add: part_defs put_friendship_def)

lemma frame_shared [simp]:
  "links_ok E (put_shared r t) = links_ok E t"
  "friendships_ok (put_shared r t) = friendships_ok t"
  "notifications_ok (put_shared r t) = notifications_ok t"
  by (simp_all add: part_defs put_shared_def)

lemma frame_projection [simp]:
  "links_ok E (put_projection p t) = links_ok E t"
  "friendships_ok (put_projection p t) = friendships_ok t"
  "shareds_ok (put_projection p t) = shareds_ok t"
  "notifications_ok (put_projection p t) = notifications_ok t"
  by (simp_all add: part_defs put_projection_def)

lemma frame_projection_reminder [simp]:
  "links_ok E (put_projection_reminder i r t) = links_ok E t"
  "friendships_ok (put_projection_reminder i r t) = friendships_ok t"
  "shareds_ok (put_projection_reminder i r t) = shareds_ok t"
  "notifications_ok (put_projection_reminder i r t) = notifications_ok t"
  by (simp_all add: part_defs put_projection_reminder_def)

definition link_recipient :: "notification_recipient \<Rightarrow> soc_state \<Rightarrow> soc_state" where
  "link_recipient r t = t\<lparr>recipient_by_key := dput (recipient_key r) (nr_id r) (recipient_by_key t)\<rparr>"

lemma frame_notifications [simp]:
  "links_ok E (put_fact f t) = links_ok E t" "links_ok E (put_recipient r t) = links_ok E t"
  "friendships_ok (put_fact f t) = friendships_ok t"
  "friendships_ok (put_recipient r t) = friendships_ok t"
  "shareds_ok (put_fact f t) = shareds_ok t" "shareds_ok (put_recipient r t) = shareds_ok t"
  "projections_ok (put_fact f t) = projections_ok t"
  "projections_ok (put_recipient r t) = projections_ok t"
  "links_ok E (link_recipient r t) = links_ok E t"
  "friendships_ok (link_recipient r t) = friendships_ok t"
  "shareds_ok (link_recipient r t) = shareds_ok t"
  "projections_ok (link_recipient r t) = projections_ok t"
  by (simp_all add: part_defs put_fact_def put_recipient_def link_recipient_def)

lemma ext_friendship:
  "soc_ext s (put_friendship f t) \<longleftrightarrow>
     links.table_ext (links_by_id s) (links_by_id t) \<and>
     friendships.table_ext (friendships_by_id s) (dput (fs_id f) f (friendships_by_id t)) \<and>
     shareds.table_ext (shared_by_id s) (shared_by_id t) \<and>
     projections.table_ext (projections_by_id s) (projections_by_id t) \<and>
     facts.table_ext (facts_by_id s) (facts_by_id t) \<and>
     recipients.table_ext (recipients_by_id s) (recipients_by_id t)"
  by (simp add: soc_ext_def put_friendship_def)

lemma ext_shared:
  "soc_ext s (put_shared r t) \<longleftrightarrow>
     links.table_ext (links_by_id s) (links_by_id t) \<and>
     friendships.table_ext (friendships_by_id s) (friendships_by_id t) \<and>
     shareds.table_ext (shared_by_id s) (dput (sr_id r) r (shared_by_id t)) \<and>
     projections.table_ext (projections_by_id s) (projections_by_id t) \<and>
     facts.table_ext (facts_by_id s) (facts_by_id t) \<and>
     recipients.table_ext (recipients_by_id s) (recipients_by_id t)"
  by (simp add: soc_ext_def put_shared_def)

lemma ext_projection:
  "soc_ext s (put_projection p t) \<longleftrightarrow>
     links.table_ext (links_by_id s) (links_by_id t) \<and>
     friendships.table_ext (friendships_by_id s) (friendships_by_id t) \<and>
     shareds.table_ext (shared_by_id s) (shared_by_id t) \<and>
     projections.table_ext (projections_by_id s) (dput (pj_id p) p (projections_by_id t)) \<and>
     facts.table_ext (facts_by_id s) (facts_by_id t) \<and>
     recipients.table_ext (recipients_by_id s) (recipients_by_id t)"
  by (simp add: soc_ext_def put_projection_def)

lemma ext_notifications:
  "soc_ext s (put_fact f t) \<longleftrightarrow>
     links.table_ext (links_by_id s) (links_by_id t) \<and>
     friendships.table_ext (friendships_by_id s) (friendships_by_id t) \<and>
     shareds.table_ext (shared_by_id s) (shared_by_id t) \<and>
     projections.table_ext (projections_by_id s) (projections_by_id t) \<and>
     facts.table_ext (facts_by_id s) (dput (nf_id f) f (facts_by_id t)) \<and>
     recipients.table_ext (recipients_by_id s) (recipients_by_id t)"
  "soc_ext s (put_recipient r t) \<longleftrightarrow>
     links.table_ext (links_by_id s) (links_by_id t) \<and>
     friendships.table_ext (friendships_by_id s) (friendships_by_id t) \<and>
     shareds.table_ext (shared_by_id s) (shared_by_id t) \<and>
     projections.table_ext (projections_by_id s) (projections_by_id t) \<and>
     facts.table_ext (facts_by_id s) (facts_by_id t) \<and>
     recipients.table_ext (recipients_by_id s) (dput (nr_id r) r (recipients_by_id t))"
  "soc_ext s (put_projection_reminder i q t) = soc_ext s t"
  "soc_ext s (link_recipient r t) = soc_ext s t"
  by (simp_all add: soc_ext_def put_fact_def put_recipient_def put_projection_reminder_def
      link_recipient_def)

lemmas parts = soc_inv_def soc_ok_def
lemmas exts = ext_friendship ext_shared ext_projection ext_notifications
lemmas new_entry = links.table_new friendships.table_new shareds.table_new projections.table_new
  facts.table_new recipients.table_new
lemmas edited_entry = links.table_edit friendships.table_edit shareds.table_edit
  projections.table_edit recipients.table_edit

lemma parts_of:
  assumes "soc_inv E s t"
  shows "links_ok E t" "friendships_ok t" "shareds_ok t" "projections_ok t" "notifications_ok t"
    and "links.table_ext (links_by_id s) (links_by_id t)"
    and "friendships.table_ext (friendships_by_id s) (friendships_by_id t)"
    and "shareds.table_ext (shared_by_id s) (shared_by_id t)"
    and "projections.table_ext (projections_by_id s) (projections_by_id t)"
    and "facts.table_ext (facts_by_id s) (facts_by_id t)"
    and "recipients.table_ext (recipients_by_id s) (recipients_by_id t)"
  using assms by (simp_all add: parts soc_ext_def)

lemma friendships_okI:
  assumes "friendships_ok t" "friendship_wf f"
    and "\<And>j g. get_friendship t j = Some g \<Longrightarrow> fs_lifecycle f = FriendshipActive \<Longrightarrow>
      fs_lifecycle g = FriendshipActive \<Longrightarrow> fs_low g = fs_low f \<Longrightarrow> fs_high g = fs_high f \<Longrightarrow> j = fs_id f"
  shows "friendships_ok (put_friendship f t)"
  using assms unfolding friendships_ok_def get_friendship_def put_friendship_def active_pair_def
  by (auto split: if_splits)

lemma inv_put_friendship_new:
  assumes inv: "soc_inv E s t" and wf: "friendship_wf f" and new: "get_friendship t (fs_id f) = None"
    and only: "fs_lifecycle f = FriendshipActive \<Longrightarrow> get_active_friendship t (fs_low f) (fs_high f) = None"
  shows "soc_inv E s (put_friendship f t)"
proof -
  have low: "unordered_pair (fs_low f) (fs_high f) = (fs_low f, fs_high f)"
    using wf less_imp_le [of "fs_low f" "fs_high f"] by (simp add: friendship_wf_def unordered_pair_def)
  have none: "\<not> active_pair (fs_low f, fs_high f) g"
    if "fs_lifecycle f = FriendshipActive" "get_friendship t j = Some g" for j g
    using find_none [OF only [OF that(1), unfolded get_active_friendship_def low]
        that(2) [unfolded get_friendship_def]] .
  have "friendships_ok (put_friendship f t)"
    using parts_of(2) [OF inv] wf by (rule friendships_okI) (use none in \<open>auto simp: active_pair_def\<close>)
  with parts_of [OF inv] new show ?thesis
    by (simp add: parts exts get_friendship_def new_entry)
qed

lemma inv_put_friendship_removed:
  assumes inv: "soc_inv E s t" and old: "get_friendship t (fs_id f) = Some g"
    and edit: "friendship_edited g f" and removed: "fs_lifecycle f = FriendshipRemoved"
    and at: "fs_removed_at f \<noteq> None"
  shows "soc_inv E s (put_friendship f t)"
proof -
  have "friendship_wf f"
    using parts_of(2) [OF inv] old edit removed at
    by (auto simp: friendships_ok_def friendship_wf_def friendship_edited_def)
  with parts_of(2) [OF inv] have "friendships_ok (put_friendship f t)"
    by (rule friendships_okI) (simp add: removed)
  with parts_of [OF inv] friendships.table_edit [OF _ old [unfolded get_friendship_def] edit]
  show ?thesis by (simp add: parts exts)
qed

lemma same_shared_sym:
  "same_shared a b \<Longrightarrow> sr_status a = SharedActive \<Longrightarrow> same_shared b a"
  by (auto simp: same_shared_def duplicates_shared_def)

lemma shareds_okI:
  assumes "shareds_ok t" "shared_wf r"
    and only: "\<And>j b. get_shared_reminder t j = Some b \<Longrightarrow> sr_status r = SharedActive \<Longrightarrow>
      same_shared r b \<Longrightarrow> j = sr_id r"
  shows "shareds_ok (put_shared r t)"
proof -
  have only': "j = sr_id r"
    if "get_shared_reminder t j = Some b" "sr_status b = SharedActive" "same_shared b r" for j b
    using only [OF that(1)] same_shared_sym [OF that(3,2)] that(3)
    by (auto simp: same_shared_def duplicates_shared_def)
  have get: "get_shared_reminder (put_shared r t) i =
      (if i = sr_id r then Some r else get_shared_reminder t i)" for i
    by (simp add: get_shared_reminder_def put_shared_def)
  have "keyed sr_id (shared_by_id (put_shared r t))"
    using assms(1) by (auto simp: shareds_ok_def put_shared_def)
  moreover have "shared_wf q" if "get_shared_reminder (put_shared r t) i = Some q" for i q
    using that assms(1,2) unfolding get by (auto simp: shareds_ok_def split: if_splits)
  moreover have "i = j"
    if "get_shared_reminder (put_shared r t) i = Some a" "get_shared_reminder (put_shared r t) j = Some b"
      "sr_status a = SharedActive" "same_shared a b" for i j a b
  proof (cases "i = sr_id r")
    case True
    with that show ?thesis using only [of j b] unfolding get by (auto split: if_splits)
  next
    case i: False
    show ?thesis
    proof (cases "j = sr_id r")
      case True
      with i that show ?thesis using only' [of i a] unfolding get by (auto split: if_splits)
    next
      case False
      with i that assms(1) show ?thesis unfolding get shareds_ok_def by simp
    qed
  qed
  ultimately show ?thesis unfolding shareds_ok_def by blast
qed

text \<open>Projections only need the participants of the shared reminders, which do not change.\<close>

lemma projections_ok_shared:
  assumes "projections_ok t"
    and "\<And>q. get_shared_reminder t (sr_id r) = Some q \<Longrightarrow> sr_participants r = sr_participants q"
  shows "projections_ok (put_shared r t)"
proof -
  have "\<exists>r'. get_shared_reminder (put_shared r t) (pj_shared_id p) = Some r' \<and>
      pj_account_id p \<in> set (sr_participants r')"
    if "dget (projections_by_id t) i = Some p" for i p
  proof -
    obtain q where "get_shared_reminder t (pj_shared_id p) = Some q" "pj_account_id p \<in> set (sr_participants q)"
      using assms(1) \<open>dget (projections_by_id t) i = Some p\<close> unfolding projections_ok_def by blast
    then show ?thesis
      using assms(2) by (cases "pj_shared_id p = sr_id r") (auto simp: get_shared_reminder_def put_shared_def)
  qed
  then show ?thesis using assms(1) by (simp add: projections_ok_def put_shared_def)
qed

lemma inv_put_shared_new:
  assumes inv: "soc_inv E s t" and wf: "shared_wf r" and new: "get_shared_reminder t (sr_id r) = None"
    and only: "sr_status r = SharedActive \<Longrightarrow> duplicate_of_shared t r = None"
  shows "soc_inv E s (put_shared r t)"
proof -
  have none: "\<not> same_shared r b"
    if "get_shared_reminder t j = Some b" "sr_status r = SharedActive" for j b
    using find_none [OF only [OF that(2), unfolded duplicate_of_shared_def
          get_duplicate_active_shared_reminder_def] that(1) [unfolded get_shared_reminder_def]]
    by (simp add: same_shared_def)
  have "shareds_ok (put_shared r t)"
    using parts_of(3) [OF inv] wf by (rule shareds_okI) (use none in blast)
  moreover have "projections_ok (put_shared r t)"
    using parts_of(4) [OF inv] by (rule projections_ok_shared) (simp add: new)
  ultimately show ?thesis
    using parts_of [OF inv] new by (simp add: parts exts get_shared_reminder_def new_entry)
qed

lemma inv_put_shared_edit:
  assumes inv: "soc_inv E s t" and old: "get_shared_reminder t (sr_id r) = Some q"
    and edit: "shared_edited q r" and wf: "shared_wf r"
    and only: "\<And>j b. get_shared_reminder t j = Some b \<Longrightarrow> sr_status r = SharedActive \<Longrightarrow>
      same_shared r b \<Longrightarrow> j = sr_id r"
  shows "soc_inv E s (put_shared r t)"
proof -
  have "shareds_ok (put_shared r t)"
    using parts_of(3) [OF inv] wf by (rule shareds_okI) (use only in blast)
  moreover have "projections_ok (put_shared r t)"
    using parts_of(4) [OF inv]
    by (rule projections_ok_shared) (use old edit in \<open>simp add: shared_edited_def\<close>)
  ultimately show ?thesis
    using parts_of [OF inv] shareds.table_edit [OF _ old [unfolded get_shared_reminder_def] edit]
    by (simp add: parts exts)
qed

lemma projections_okI:
  assumes ok: "projections_ok t"
    and ix: "id_indexed pj_id projection_key (dput (pj_id p) p (projections_by_id t))
               (dput (projection_key p) (pj_id p) (projection_by_key t))"
    and shared: "get_shared_reminder t (pj_shared_id p) = Some r" "pj_account_id p \<in> set (sr_participants r)"
    and old: "\<And>q r. dget (projections_by_id t) (pj_id p) = Some q \<Longrightarrow> projection_of r q \<Longrightarrow> projection_of r p"
  shows "projections_ok (put_projection p t)"
proof -
  have "\<exists>j p'. dget (dput (pj_id p) p (projections_by_id t)) j = Some p' \<and> projection_of r p'"
    if "dget (projections_by_id t) j = Some p'" "projection_of r p'" for j p' r
    using that old [of p' r] by (cases "j = pj_id p") (auto intro: exI [where x = j])
  then have reminders: "\<exists>j p'. dget (dput (pj_id p) p (projections_by_id t)) j = Some p' \<and> projection_of r p'"
    if "dget (projection_reminders t) i = Some r" for i r
    using ok that unfolding projections_ok_def by blast
  have members: "\<exists>r. get_shared_reminder t (pj_shared_id q) = Some r \<and> pj_account_id q \<in> set (sr_participants r)"
    if "dget (dput (pj_id p) p (projections_by_id t)) i = Some q" for i q
    using that ok shared by (cases "i = pj_id p") (auto simp: projections_ok_def)
  have "put_projection p t =
      t\<lparr>projections_by_id := dput (pj_id p) p (projections_by_id t),
        projection_by_key := dput (projection_key p) (pj_id p) (projection_by_key t)\<rparr>"
    by (rule put_projection_def)
  moreover have "get_shared_reminder (put_projection p t) i = get_shared_reminder t i" for i
    by (simp add: get_shared_reminder_def put_projection_def)
  ultimately show ?thesis
    using ok ix members reminders unfolding projections_ok_def
    by (simp del: dget_dput)
qed

lemma inv_put_projection_new:
  assumes inv: "soc_inv E s t" and new: "dget (projections_by_id t) (pj_id p) = None"
    "dget (projection_by_key t) (projection_key p) = None"
    and shared: "get_shared_reminder t (pj_shared_id p) = Some r" "pj_account_id p \<in> set (sr_participants r)"
  shows "soc_inv E s (put_projection p t)"
proof -
  have ok: "projections_ok t" by (rule parts_of(4) [OF inv])
  then have "id_indexed pj_id projection_key (projections_by_id t) (projection_by_key t)"
    by (simp add: projections_ok_def)
  from projections_okI [OF ok id_indexed_add [OF this new] shared]
  have "projections_ok (put_projection p t)" using new by simp
  with parts_of [OF inv] new show ?thesis by (simp add: parts exts new_entry)
qed

lemma inv_put_projection_edit:
  assumes inv: "soc_inv E s t" and old: "dget (projections_by_id t) (pj_id p) = Some q"
    and edit: "projection_edited q p"
  shows "soc_inv E s (put_projection p t)"
proof -
  have ok: "projections_ok t" by (rule parts_of(4) [OF inv])
  have same: "projection_key q = projection_key p" "projection_of r q \<Longrightarrow> projection_of r p" for r
    using edit by (auto simp: projection_edited_def projection_key_def projection_of_def)
  have ix: "id_indexed pj_id projection_key (projections_by_id t) (projection_by_key t)"
    using ok by (simp add: projections_ok_def)
  obtain r where r: "get_shared_reminder t (pj_shared_id p) = Some r" "pj_account_id p \<in> set (sr_participants r)"
    using ok old edit unfolding projections_ok_def projection_edited_def by metis
  from projections_okI [OF ok id_indexed_save(1) [OF ix old same(1)] r]
  have "projections_ok (put_projection p t)" using old same(2) by simp
  with parts_of [OF inv] projections.table_edit [OF _ old edit] show ?thesis by (simp add: parts exts)
qed

lemma inv_put_projection_reminder:
  assumes inv: "soc_inv E s t" and r: "rem_id r = i" "rem_kind r = SharedProjection" "reminder_wf r"
    and p: "dget (projections_by_id t) j = Some p" "projection_of r p"
  shows "soc_inv E s (put_projection_reminder i r t)"
proof -
  have "projections_ok (put_projection_reminder i r t)"
    using parts_of(4) [OF inv] r p
    by (auto simp: projections_ok_def put_projection_reminder_def get_shared_reminder_def)
  with inv show ?thesis by (simp add: parts exts)
qed

lemma inv_put_fact:
  assumes inv: "soc_inv E s t" and wf: "fact_wf f" and new: "dget (facts_by_id t) (nf_id f) = None"
    "dget (fact_by_key t) (nf_key f) = None"
  shows "soc_inv E s (put_fact f t)"
proof -
  have ok: "notifications_ok t" by (rule parts_of(5) [OF inv])
  have ix: "id_indexed nf_id nf_key (dput (nf_id f) f (facts_by_id t)) (dput (nf_key f) (nf_id f) (fact_by_key t))"
    using ok by (intro id_indexed_add new) (simp add: notifications_ok_def)
  have "\<exists>g. dget (dput (nf_id f) f (facts_by_id t)) i = Some g \<and> delivered_to g a"
    if "dget (facts_by_id t) i = Some g" "delivered_to g a" for i g a
    using that new by auto
  then have recipients: "\<exists>g. dget (dput (nf_id f) f (facts_by_id t)) (nr_fact_id r) = Some g \<and>
      delivered_to g (nr_account_id r)"
    if "dget (recipients_by_id t) i = Some r" for i r
    using ok that unfolding notifications_ok_def by blast
  have wfs: "fact_wf g" if "dget (dput (nf_id f) f (facts_by_id t)) i = Some g" for i g
    using that ok wf by (cases "i = nf_id f") (auto simp: notifications_ok_def)
  have "notifications_ok (put_fact f t)"
    using ok ix wfs recipients unfolding notifications_ok_def put_fact_def
    by (simp del: dget_dput)
  with parts_of [OF inv] new show ?thesis by (simp add: parts exts new_entry)
qed

lemma inv_put_recipient_new:
  assumes inv: "soc_inv E s t" and new: "dget (recipients_by_id t) (nr_id r) = None"
    "dget (recipient_by_key t) (recipient_key r) = None"
    and r: "validate_error_facts (nr_error_facts r) = Inr ()"
    "dget (facts_by_id t) (nr_fact_id r) = Some f" "delivered_to f (nr_account_id r)"
  shows "soc_inv E s (link_recipient r (put_recipient r t))"
proof -
  have ok: "notifications_ok t" by (rule parts_of(5) [OF inv])
  have ix: "id_indexed nr_id recipient_key (dput (nr_id r) r (recipients_by_id t))
      (dput (recipient_key r) (nr_id r) (recipient_by_key t))"
    using ok by (intro id_indexed_add new) (simp add: notifications_ok_def)
  with ok r have "notifications_ok (link_recipient r (put_recipient r t))"
    by (auto simp: notifications_ok_def put_recipient_def link_recipient_def)
  with parts_of [OF inv] new show ?thesis by (simp add: parts exts new_entry)
qed

lemma inv_put_recipient_edit:
  assumes inv: "soc_inv E s t" and old: "dget (recipients_by_id t) (nr_id r) = Some q"
    and edit: "recipient_edited q r" and r: "validate_error_facts (nr_error_facts r) = Inr ()"
  shows "soc_inv E s (put_recipient r t)"
proof -
  have ok: "notifications_ok t" by (rule parts_of(5) [OF inv])
  have same: "recipient_key q = recipient_key r"
    using edit by (simp add: recipient_edited_def recipient_key_def)
  have "id_indexed nr_id recipient_key (recipients_by_id t) (recipient_by_key t)"
    using ok by (simp add: notifications_ok_def)
  from id_indexed_save(2) [OF this old same]
  have ix: "id_indexed nr_id recipient_key (dput (nr_id r) r (recipients_by_id t)) (recipient_by_key t)" .
  have "\<exists>f. dget (facts_by_id t) (nr_fact_id r) = Some f \<and> delivered_to f (nr_account_id r)"
    using ok old edit unfolding notifications_ok_def recipient_edited_def by metis
  with ok r ix have "notifications_ok (put_recipient r t)"
    by (auto simp: notifications_ok_def put_recipient_def)
  with parts_of [OF inv] recipients.table_edit [OF _ old edit] show ?thesis by (simp add: parts exts)
qed

end
