(* ===== verification/SocOps.thy ===== *)
theory SocOps
  imports SocKeeps
begin

text \<open>
  The operations on links, friendships and notifications keep the invariant and only extend the
  store. A goal about an operation starts at a state with the invariant (\<open>keepsI\<close>), and is run to
  its writes by the equations in \<open>soc_wp\<close>.
\<close>

section \<open>Running the operations\<close>

named_theorems soc_keeps \<open>operations that keep the invariant and extend the store\<close>
named_theorems soc_wp \<open>equations that run the operations of the social scheduling service\<close>

lemma keepsI:
  assumes "\<And>t. soc_ok E t \<Longrightarrow> wp m (\<lambda>_. soc_inv E t) (\<lambda>_. soc_inv E t) t"
  shows "preserves (soc_inv E s) m"
proof (rule preservesI)
  fix t
  assume inv: "soc_inv E s t"
  show "wp m (\<lambda>_. soc_inv E s) (\<lambda>_. soc_inv E s) t"
    by (rule wp_mono [OF assms [OF soc_inv_ok [OF inv]]]) (auto intro: soc_inv_trans [OF inv])
qed

lemma wp_refuse_if [soc_wp]:
  "wp (refuse_if p code) Q X = (\<lambda>s. if p s then X (ValueError code) s else Q () s)"
  by (simp add: refuse_if_def wp_simps fun_eq_iff)

lemma wp_run_commit_guard [soc_wp]:
  "wp (run_commit_guard g) Q X = (\<lambda>s. case g s of None \<Rightarrow> Q () s | Some e \<Rightarrow> X e s)"
  by (simp add: run_commit_guard_def wp_simps fun_eq_iff split: option.splits)

lemma wp_require_usable_channel [soc_wp]:
  "wp (require_usable_channel P a code) Q X =
     (\<lambda>s. case sp_reachable P a of
            Inl e \<Rightarrow> X e s
          | Inr usable \<Rightarrow>
              if usable then Q () s
              else X (SocialSchedulingError code
                       (Some [(''type'', PyStr code), (''account_id'', PyStr a)])) s)"
  by (simp add: require_usable_channel_def wp_simps fun_eq_iff split: sum.splits)

lemma wp_soc_new_id [soc_wp]:
  "wp (soc_new_id E p) Q X =
     (\<lambda>s. Q (env_id E p (issued s))
            (s\<lparr>issued := Suc (issued s), generated_ids := generated_ids s @ [env_id E p (issued s)]\<rparr>))"
  by (simp add: soc_new_id_def wp_simps fun_eq_iff)

lemma wp_soc_new_token [soc_wp]:
  "wp (soc_new_token P p) Q X =
     (\<lambda>s. Q (sp_token P p (tokens_made s))
            (s\<lparr>tokens_made := Suc (tokens_made s),
               generated_tokens := generated_tokens s @ [sp_token P p (tokens_made s)]\<rparr>))"
  by (simp add: soc_new_token_def wp_simps fun_eq_iff)

lemma wp_lift_Inr [soc_wp]: "wp (lift r) Q X s = (case r of Inl e \<Rightarrow> X e s | Inr x \<Rightarrow> Q x s)"
  by (simp add: wp_simps split: sum.splits)

lemma keeps_counters [soc_keeps]:
  "preserves (soc_inv E s) (py_now F)" "preserves (soc_inv E s) (soc_new_id F p)"
  "preserves (soc_inv E s) (soc_new_token P p)" "preserves (soc_inv E s) (run_commit_guard g)"
  "preserves (soc_inv E s) (require_usable_channel P a code)" "preserves (soc_inv E s) (refuse_if q code)"
  by (simp_all add: preserves_def soc_wp wp_simps split: option.splits sum.splits)

text \<open>What is read does not depend on the counters.\<close>

lemma reads_clock [simp]:
  "get_friendship (t\<lparr>clock := n\<rparr>) = get_friendship t"
  "get_active_friendship (t\<lparr>clock := n\<rparr>) = get_active_friendship t"
  "get_shared_reminder (t\<lparr>clock := n\<rparr>) = get_shared_reminder t"
  "duplicate_of_shared (t\<lparr>clock := n\<rparr>) = duplicate_of_shared t"
  "get_friend_link (t\<lparr>clock := n\<rparr>) = get_friend_link t"
  by (simp_all add: fun_eq_iff get_friendship_def get_active_friendship_def get_shared_reminder_def
      duplicate_of_shared_def get_duplicate_active_shared_reminder_def get_friend_link_def)

lemma reads_issued [simp]:
  "get_friendship (t\<lparr>issued := n\<rparr>) = get_friendship t"
  "get_active_friendship (t\<lparr>issued := n\<rparr>) = get_active_friendship t"
  "get_shared_reminder (t\<lparr>issued := n\<rparr>) = get_shared_reminder t"
  "duplicate_of_shared (t\<lparr>issued := n\<rparr>) = duplicate_of_shared t"
  "get_friend_link (t\<lparr>issued := n\<rparr>) = get_friend_link t"
  by (simp_all add: fun_eq_iff get_friendship_def get_active_friendship_def get_shared_reminder_def
      duplicate_of_shared_def get_duplicate_active_shared_reminder_def get_friend_link_def)

lemma reads_generated [simp]:
  "get_friendship (t\<lparr>generated_ids := xs\<rparr>) = get_friendship t"
  "get_active_friendship (t\<lparr>generated_ids := xs\<rparr>) = get_active_friendship t"
  "get_shared_reminder (t\<lparr>generated_ids := xs\<rparr>) = get_shared_reminder t"
  "duplicate_of_shared (t\<lparr>generated_ids := xs\<rparr>) = duplicate_of_shared t"
  "get_friend_link (t\<lparr>generated_ids := xs\<rparr>) = get_friend_link t"
  by (simp_all add: fun_eq_iff get_friendship_def get_active_friendship_def get_shared_reminder_def
      duplicate_of_shared_def get_duplicate_active_shared_reminder_def get_friend_link_def)

lemma reads_tokens [simp]:
  "get_friend_link (t\<lparr>tokens_made := n\<rparr>) = get_friend_link t"
  "get_friend_link (t\<lparr>generated_tokens := xs\<rparr>) = get_friend_link t"
  by (simp_all add: fun_eq_iff get_friend_link_def)

section \<open>Friend links\<close>

lemma inv_linksI:
  assumes "soc_inv E s t" "links_ok E u" "links.table_ext (links_by_id s) (links_by_id u)"
    and "friendships_by_id u = friendships_by_id t" "shared_by_id u = shared_by_id t"
    "projections_by_id u = projections_by_id t" "projection_by_key u = projection_by_key t"
    "projection_reminders u = projection_reminders t" "facts_by_id u = facts_by_id t"
    "fact_by_key u = fact_by_key t" "recipients_by_id u = recipients_by_id t"
    "recipient_by_key u = recipient_by_key t"
  shows "soc_inv E s u"
  using assms
  by (simp add: parts soc_ext_def friendships_ok_def shareds_ok_def projections_ok_def
      notifications_ok_def get_friendship_def get_shared_reminder_def)

definition shows_tokens :: "env \<Rightarrow> friend_link \<Rightarrow> string \<Rightarrow> string \<Rightarrow> bool" where
  "shows_tokens E l token code \<longleftrightarrow>
     hash_token E token = fl_token_hash l \<and> hash_token E code = fl_code_hash l"

lemma keeps_add_link:
  assumes wf: "link_wf l" and shown: "shows_tokens E l token code"
  shows "preserves (soc_inv E s) (add_friend_link l token code)"
proof (rule keepsI)
  fix t
  assume ok: "soc_ok E t"
  have inv: "soc_inv E t t" using ok by (rule soc_inv_refl)
  have added: "soc_inv E t (put_link l t
        \<lparr>public_tokens := dput (fl_id l) token (public_tokens (put_link l t)),
         link_codes := dput (fl_id l) code (link_codes (put_link l t))\<rparr>)"
    if "dget (links_by_id t) (fl_id l) = None" "dget (link_by_owner t) (fl_owner_account_id l) = None"
  proof (rule inv_linksI [OF inv])
    have l: "links_ok E t" by (rule parts_of(1) [OF inv])
    then show "links_ok E (put_link l t
        \<lparr>public_tokens := dput (fl_id l) token (public_tokens (put_link l t)),
         link_codes := dput (fl_id l) code (link_codes (put_link l t))\<rparr>)"
      using that wf shown
      by (auto simp: links_ok_def put_link_def shows_tokens_def intro: id_indexed_add id_sound_add)
  qed (use that in \<open>simp_all add: put_link_def links.table_new\<close>)
  show "wp (add_friend_link l token code) (\<lambda>_. soc_inv E t) (\<lambda>_. soc_inv E t) t"
    using added inv by (simp add: add_friend_link_def wp_simps soc_wp)
qed

lemma keeps_save_link:
  assumes ok: "soc_ok E t" and old: "get_friend_link t (fl_id l) = Some q"
    and edit: "link_edited q l" and wf: "link_wf l"
    and shown: "case token of None \<Rightarrow> fl_token_hash l = fl_token_hash q | Some x \<Rightarrow> hash_token E x = fl_token_hash l"
    "case code of None \<Rightarrow> fl_code_hash l = fl_code_hash q | Some x \<Rightarrow> hash_token E x = fl_code_hash l"
  shows "wp (save_friend_link l token code) (\<lambda>_. soc_inv E t) (\<lambda>_. soc_inv E t) t"
proof -
  have inv: "soc_inv E t t" using ok by (rule soc_inv_refl)
  have l: "links_ok E t" by (rule parts_of(1) [OF inv])
  have q: "dget (links_by_id t) (fl_id l) = Some q" using old by (simp add: get_friend_link_def)
  define u where "u = t\<lparr>link_by_token := dpop (fl_token_hash q) (link_by_token t),
                         link_by_code := dpop (fl_code_hash q) (link_by_code t)\<rparr>"
  have popped: "soc_inv E t u"
  proof (rule inv_linksI [OF inv])
    show "links_ok E u"
      unfolding u_def using l by (simp add: links_ok_def id_sound_pop)
  qed (simp_all add: u_def)
  define v where "v = put_link l u\<lparr>public_tokens := put_if (fl_id l) token (public_tokens (put_link l u)),
                         link_codes := put_if (fl_id l) code (link_codes (put_link l u))\<rparr>"
  have indexes: "id_indexed fl_id fl_owner_account_id (dput (fl_id l) l (links_by_id t))
      (dput (fl_owner_account_id l) (fl_id l) (link_by_owner t))"
    using l q edit by (intro id_indexed_save) (auto simp: links_ok_def link_edited_def)
  have sounds: "id_sound fl_token_hash (dput (fl_id l) l (links_by_id t))
      (dput (fl_token_hash l) (fl_id l) (dpop (fl_token_hash q) (link_by_token t)))"
    "id_sound fl_code_hash (dput (fl_id l) l (links_by_id t))
      (dput (fl_code_hash l) (fl_id l) (dpop (fl_code_hash q) (link_by_code t)))"
    using l q by (auto simp: links_ok_def intro: id_sound_replace)
  have tokens: "\<exists>x. dget (put_if (fl_id l) token (public_tokens t)) (fl_id l) = Some x \<and> hash_token E x = fl_token_hash l"
    "\<exists>x. dget (put_if (fl_id l) code (link_codes t)) (fl_id l) = Some x \<and> hash_token E x = fl_code_hash l"
    using l q shown by (auto simp: links_ok_def put_if_def split: option.splits)
  have others: "dget (put_if (fl_id l) x d) i = dget d i" if "i \<noteq> fl_id l" for x i and d :: "(string, string) dict"
    using that by (simp add: put_if_def split: option.splits)
  have saved: "soc_inv E t v"
  proof (rule inv_linksI [OF inv])
    have old_links: "link_wf k \<and>
        (\<exists>x. dget (public_tokens t) i = Some x \<and> hash_token E x = fl_token_hash k) \<and>
        (\<exists>x. dget (link_codes t) i = Some x \<and> hash_token E x = fl_code_hash k)"
      if "dget (links_by_id t) i = Some k" for i k
      using l that unfolding links_ok_def by blast
    have "link_wf k \<and>
        (\<exists>x. dget (put_if (fl_id l) token (public_tokens t)) i = Some x \<and> hash_token E x = fl_token_hash k) \<and>
        (\<exists>x. dget (put_if (fl_id l) code (link_codes t)) i = Some x \<and> hash_token E x = fl_code_hash k)"
      if "dget (dput (fl_id l) l (links_by_id t)) i = Some k" for i k
      using that tokens wf old_links [of i k] by (cases "i = fl_id l") (auto simp: others)
    then show "links_ok E v"
      unfolding v_def u_def links_ok_def put_link_def using indexes sounds
      by (simp del: dget_dput)
    show "links.table_ext (links_by_id t) (links_by_id v)"
      using links.table_edit [OF _ q edit] by (simp add: v_def u_def put_link_def)
  qed (simp_all add: v_def u_def put_link_def)
  show ?thesis
    using popped saved
    unfolding save_friend_link_def by (simp add: wp_simps soc_wp old u_def v_def)
qed

lemma keeps_new_link [soc_keeps]: "preserves (soc_inv E s) (new_friend_link E P owner g)"
  unfolding new_friend_link_def Let_def
  by (intro preserves_intros soc_keeps keeps_add_link) (simp_all add: link_wf_def shows_tokens_def)

lemma keeps_get_or_create_link [soc_keeps]:
  "preserves (soc_inv E s) (get_or_create_friend_link E P owner g)"
  unfolding get_or_create_friend_link_def Let_def by (intro preserves_intros soc_keeps)

text \<open>A link found by its owner is stored under its own id.\<close>

lemma link_by_owner_stored:
  assumes "soc_ok E t" "get_friend_link_by_owner t owner = Some l"
  shows "get_friend_link t (fl_id l) = Some l" "fl_owner_account_id l = owner" "link_wf l"
proof -
  have l: "links_ok E t" using assms(1) by (simp add: soc_ok_def)
  then obtain i where i: "dget (links_by_id t) i = Some l" "fl_owner_account_id l = owner"
    using assms(2) by (auto simp: links_ok_def get_friend_link_by_owner_def id_indexed_via)
  moreover have "fl_id l = i" using l i by (auto simp: links_ok_def dest: id_indexed_keyed keyed_get)
  ultimately show "get_friend_link t (fl_id l) = Some l" "fl_owner_account_id l = owner" "link_wf l"
    using l by (auto simp: get_friend_link_def links_ok_def)
qed

text \<open>The counters can be stripped from the state an operation goes on from.\<close>

lemma wp_from_counters:
  assumes "\<And>t. soc_ok E t \<Longrightarrow> get_friend_link t = get_friend_link s \<Longrightarrow>
      wp m (\<lambda>_. soc_inv E t) (\<lambda>_. soc_inv E t) t"
    and "soc_inv E s u" "get_friend_link u = get_friend_link s"
  shows "wp m (\<lambda>_. soc_inv E s) (\<lambda>_. soc_inv E s) u"
  by (rule wp_mono [OF assms(1) [OF soc_inv_ok [OF assms(2)] assms(3)]])
    (auto intro: soc_inv_trans [OF assms(2)])

lemma keeps_reset_link [soc_keeps]: "preserves (soc_inv E s) (reset_friend_link E P owner g)"
proof (rule keepsI)
  fix t
  assume ok: "soc_ok E t"
  have inv: "soc_inv E t t" using ok by (rule soc_inv_refl)
  have create: "wp (get_or_create_friend_link E P (canon owner) g) (\<lambda>_. soc_inv E t) (\<lambda>_. soc_inv E t) t"
    using keeps_get_or_create_link inv unfolding preserves_def by blast
  have save: "wp (save_friend_link
        (l\<lparr>fl_token_hash := hash_token E x, fl_code_hash := hash_token E y, fl_lifecycle := LinkActive,
           fl_reset_at := Some n, fl_disabled_at := None, fl_updated_at := m\<rparr>) (Some x) (Some y))
      (\<lambda>_. soc_inv E t) (\<lambda>_. soc_inv E t) u"
    if "get_friend_link_by_owner t (canon owner) = Some l" "soc_inv E t u"
      "get_friend_link u = get_friend_link t" for l x y n m u
    using link_by_owner_stored [OF ok that(1)]
    by (intro wp_from_counters [OF keeps_save_link that(2,3)])
      (auto simp: link_edited_def link_wf_def)
  show "wp (reset_friend_link E P owner g) (\<lambda>_. soc_inv E t) (\<lambda>_. soc_inv E t) t"
    unfolding reset_friend_link_def Let_def
    by (simp add: wp_simps soc_wp inv split: sum.splits option.splits)
      (auto simp: create inv intro!: wp_mono [OF save])
qed

lemma keeps_disable_link [soc_keeps]: "preserves (soc_inv E s) (disable_friend_link E P owner g)"
proof (rule keepsI)
  fix t
  assume ok: "soc_ok E t"
  have inv: "soc_inv E t t" using ok by (rule soc_inv_refl)
  have save: "wp (save_friend_link
        (l\<lparr>fl_lifecycle := LinkDisabled, fl_disabled_at := Some n, fl_updated_at := m\<rparr>) None None)
      (\<lambda>_. soc_inv E t) (\<lambda>_. soc_inv E t) u"
    if "get_friend_link_by_owner t (canon owner) = Some l" "soc_inv E t u"
      "get_friend_link u = get_friend_link t" for l n m u
    using link_by_owner_stored [OF ok that(1)]
    by (intro wp_from_counters [OF keeps_save_link that(2,3)])
      (auto simp: link_edited_def link_wf_def)
  show "wp (disable_friend_link E P owner g) (\<lambda>_. soc_inv E t) (\<lambda>_. soc_inv E t) t"
    unfolding disable_friend_link_def Let_def
    by (simp add: wp_simps soc_wp inv split: sum.splits option.splits)
      (auto simp: inv intro!: wp_mono [OF save])
qed

section \<open>Notifications\<close>

lemma no_error_facts: "validate_error_facts [] = Inr ()"
  by code_simp

lemma delivery_list:
  assumes "dget (nf_facts f) ''delivery_recipients'' = Some (PyList (map PyStr accounts))" "a \<in> set accounts"
  shows "delivered_to f a"
  using assms by (auto simp: delivered_to_def)

lemma add_recipient_steps:
  "add_notification_recipient r =
     bind (refuse_if (\<lambda>s. dget (recipients_by_id s) (nr_id r) \<noteq> None)
             ''duplicate_notification_recipient_id'') (\<lambda>_.
     bind (refuse_if (\<lambda>s. dget (recipient_by_key s) (recipient_key r) \<noteq> None)
             ''duplicate_notification_recipient_fact_account'') (\<lambda>_.
     bind (modify (put_recipient r)) (\<lambda>_. modify (link_recipient r))))"
  by (simp add: add_notification_recipient_def link_recipient_def [abs_def])

lemma wp_store_recipient:
  assumes inv: "soc_inv E s u" and f: "dget (facts_by_id u) fid = Some f" "delivered_to f a"
  shows "wp (bind (new_recipient E fid a) add_notification_recipient)
    (\<lambda>_ v. soc_inv E s v \<and> dget (facts_by_id v) fid = Some f)
    (\<lambda>_ v. soc_inv E s v \<and> dget (facts_by_id v) fid = Some f) u"
proof -
  have put: "soc_inv E s (link_recipient r (put_recipient r v)) \<and>
      dget (facts_by_id (link_recipient r (put_recipient r v))) fid = Some f"
    if "soc_inv E s v" "facts_by_id v = facts_by_id u" "dget (recipients_by_id v) (nr_id r) = None"
      "dget (recipient_by_key v) (recipient_key r) = None" "nr_fact_id r = fid" "nr_account_id r = a"
      "nr_error_facts r = []" for r v
    using inv_put_recipient_new [OF that(1,3,4), of f] that f
    by (auto simp: no_error_facts link_recipient_def put_recipient_def)
  show ?thesis
    unfolding new_recipient_def add_recipient_steps
    using inv f put by (simp add: wp_simps soc_wp)
qed

text \<open>A recipient found by its fact and account is stored under its own id.\<close>

lemma recipient_stored:
  assumes "soc_ok E t" "get_notification_recipient t fid a = Some r"
  shows "dget (recipients_by_id t) (nr_id r) = Some r" "nr_fact_id r = fid" "nr_account_id r = a"
proof -
  have n: "id_indexed nr_id recipient_key (recipients_by_id t) (recipient_by_key t)"
    using assms(1) by (simp add: soc_ok_def notifications_ok_def)
  then obtain i where i: "dget (recipients_by_id t) i = Some r" "recipient_key r = (fid, a)"
    using assms(2) by (auto simp: get_notification_recipient_def id_indexed_via)
  moreover have "nr_id r = i" using n i by (auto dest: id_indexed_keyed keyed_get)
  ultimately show "dget (recipients_by_id t) (nr_id r) = Some r" "nr_fact_id r = fid" "nr_account_id r = a"
    by (simp_all add: recipient_key_def)
qed

text \<open>A recipient stays found by its fact and account.\<close>

lemma recipient_persists:
  assumes "soc_ok E t" "soc_inv E t u" "get_notification_recipient t fid a = Some r"
  shows "\<exists>r'. get_notification_recipient u fid a = Some r' \<and> recipient_edited r r'"
proof -
  note r = recipient_stored [OF assms(1,3)]
  obtain r' where r': "dget (recipients_by_id u) (nr_id r) = Some r'" "recipient_edited r r'"
    using recipients.table_get [OF parts_of(11) [OF assms(2)] r(1)] by blast
  have "id_indexed nr_id recipient_key (recipients_by_id u) (recipient_by_key u)"
    using parts_of(5) [OF assms(2)] by (simp add: notifications_ok_def)
  moreover have "recipient_key r' = (fid, a)"
    using r' r(2,3) by (simp add: recipient_edited_def recipient_key_def)
  ultimately have "get_notification_recipient u fid a = Some r'"
    unfolding get_notification_recipient_def using id_indexed_via r'(1) by metis
  with r'(2) show ?thesis by blast
qed

text \<open>What a fact tells whom: the fact is stored, with a recipient for each account.\<close>

definition notified :: "notification_fact \<Rightarrow> string list \<Rightarrow> soc_state \<Rightarrow> bool" where
  "notified f accounts t \<longleftrightarrow>
     dget (facts_by_id t) (nf_id f) = Some f \<and>
     (\<forall>a\<in>set accounts. \<exists>r. get_notification_recipient t (nf_id f) a = Some r)"

lemma wp_store_recipients:
  assumes "soc_inv E s t" "dget (facts_by_id t) (nf_id f) = Some f" "\<And>a. a \<in> set accounts \<Longrightarrow> delivered_to f a"
  shows "wp (for_each accounts (\<lambda>a. bind (new_recipient E (nf_id f) a) add_notification_recipient))
    (\<lambda>_ u. soc_inv E s u \<and> notified f accounts u) (\<lambda>_. soc_inv E s) t"
  using assms
proof (induction accounts arbitrary: s t)
  case Nil
  then show ?case by (simp add: wp_simps notified_def)
next
  case (Cons a accounts)
  have ok: "soc_ok E t" using Cons.prems(1) by (rule soc_inv_ok)
  have one: "wp (bind (new_recipient E (nf_id f) a) add_notification_recipient)
      (\<lambda>_ u. \<exists>r. get_notification_recipient u (nf_id f) a = Some r) (\<lambda>_ _. True) t"
    unfolding new_recipient_def add_recipient_steps
    by (simp add: wp_simps soc_wp get_notification_recipient_def via_index_def recipient_key_def
        put_recipient_def link_recipient_def)
  have "wp (bind (new_recipient E (nf_id f) a) add_notification_recipient)
      (\<lambda>_ u. (soc_inv E t u \<and> dget (facts_by_id u) (nf_id f) = Some f) \<and>
         (\<exists>r. get_notification_recipient u (nf_id f) a = Some r))
      (\<lambda>_ u. (soc_inv E t u \<and> dget (facts_by_id u) (nf_id f) = Some f) \<and> True) t"
    using Cons.prems by (intro wp_conj wp_store_recipient one soc_inv_refl ok) simp_all
  then show ?case
    unfolding for_each.simps wp_bind [of "bind (new_recipient E (nf_id f) a) add_notification_recipient"]
  proof (rule wp_mono)
    fix u
    assume u: "(soc_inv E t u \<and> dget (facts_by_id u) (nf_id f) = Some f) \<and>
      (\<exists>r. get_notification_recipient u (nf_id f) a = Some r)"
    then have "wp (for_each accounts (\<lambda>a. bind (new_recipient E (nf_id f) a) add_notification_recipient))
        (\<lambda>_ v. soc_inv E u v \<and> notified f accounts v) (\<lambda>_. soc_inv E u) u"
      using Cons.prems(3) by (intro Cons.IH) (auto intro: soc_inv_refl soc_inv_ok)
    then show "wp (for_each accounts (\<lambda>a. bind (new_recipient E (nf_id f) a) add_notification_recipient))
        (\<lambda>_ v. soc_inv E s v \<and> notified f (a # accounts) v) (\<lambda>_. soc_inv E s) u"
    proof (rule wp_mono)
      have su: "soc_inv E s u" using u soc_inv_trans [OF Cons.prems(1)] by blast
      show "soc_inv E s v" if "soc_inv E u v" for v
        by (rule soc_inv_trans [OF su that])
      show "soc_inv E s v \<and> notified f (a # accounts) v" if "soc_inv E u v \<and> notified f accounts v" for v
        using that u recipient_persists [OF soc_inv_ok, of E s u v "nf_id f" a] su soc_inv_trans [OF su]
        by (auto simp: notified_def)
    qed
  qed (use soc_inv_trans [OF Cons.prems(1)] in auto)
qed

lemma structured_facts:
  "assert_structured_facts facts = Inr () \<Longrightarrow> fst ` set facts \<inter> set prose_keys = {}"
  by (auto simp: assert_structured_facts_def Let_def filter_empty_conv split: if_splits)

lemma wp_create_fact:
  assumes inv: "soc_inv E s t"
  shows "wp (create_fact E ntype actor otype oid status facts0 recipients key)
    (\<lambda>f u. soc_inv E s u \<and> notified f (sorted_set recipients) u \<and> nf_type f = ntype \<and>
       nf_object_id f = oid \<and> nf_key f = key)
    (\<lambda>_. soc_inv E s) t"
proof -
  define facts where
    "facts = dput ''delivery_recipients'' (PyList (map PyStr (sorted_set recipients))) facts0"
  have loop: "wp (for_each (sorted_set recipients)
        (\<lambda>a. bind (new_recipient E fid a) add_notification_recipient))
      (\<lambda>_ v. soc_inv E s v \<and> notified f (sorted_set recipients) v) (\<lambda>_. soc_inv E s) (put_fact f u)"
    if "soc_inv E s u" "nf_facts f = facts" "assert_structured_facts facts = Inr ()" "nf_id f = fid"
      "dget (facts_by_id u) (nf_id f) = None" "dget (fact_by_key u) (nf_key f) = None" for f fid u
    unfolding that(4) [symmetric]
  proof (rule wp_store_recipients)
    have list: "dget (nf_facts f) ''delivery_recipients'' = Some (PyList (map PyStr (sorted_set recipients)))"
      by (simp add: that(2) facts_def)
    have "fact_wf f"
      unfolding fact_wf_def
    proof
      show "fst ` set (nf_facts f) \<inter> set prose_keys = {}"
        unfolding that(2) by (rule structured_facts [OF that(3)])
      show "\<exists>rs. dget (nf_facts f) ''delivery_recipients'' = Some (PyList (map PyStr rs)) \<and>
          sorted rs \<and> distinct rs"
        using list by (intro exI [where x = "sorted_set recipients"]) (simp add: sorted_set_def)
    qed
    then show "soc_inv E s (put_fact f u)" using that(1,5,6) by (intro inv_put_fact)
    show "dget (facts_by_id (put_fact f u)) (nf_id f) = Some f" by (simp add: put_fact_def)
    show "delivered_to f a" if "a \<in> set (sorted_set recipients)" for a
      using list that by (rule delivery_list)
  qed
  have body: "wp (add_notification_fact f) (\<lambda>_.
          wp (for_each (sorted_set recipients)
            (\<lambda>a. bind (new_recipient E fid a) add_notification_recipient))
          (\<lambda>_ v. soc_inv E s v \<and> notified f (sorted_set recipients) v) (\<lambda>_. soc_inv E s))
      (\<lambda>_. soc_inv E s) u"
    if "soc_inv E s u" "nf_facts f = facts" "assert_structured_facts facts = Inr ()" "nf_id f = fid" for f fid u
    using that loop [of u f] by (simp add: wp_simps soc_wp add_notification_fact_def)
  show ?thesis
    unfolding create_fact_def Let_def facts_def [symmetric]
    using body inv by (simp add: wp_simps(1,5,6) soc_wp wp_py_now split: sum.splits)
qed

lemma keeps_create_fact [soc_keeps]:
  "preserves (soc_inv E s) (create_fact E ntype actor otype oid status facts0 recipients key)"
  by (rule preservesI, rule wp_mono [OF wp_create_fact]) simp_all

lemma keeps_recipient_delivery [soc_keeps]:
  "preserves (soc_inv E s) (record_delivery E fid a state error_facts turn)"
proof (rule keepsI)
  fix t
  assume ok: "soc_ok E t"
  have inv: "soc_inv E t t" using ok by (rule soc_inv_refl)
  have put: "soc_inv E t (put_recipient q u)"
    if "get_notification_recipient t fid a = Some r" "soc_inv E t u"
      "recipients_by_id u = recipients_by_id t" "validate_error_facts (nr_error_facts q) = Inr ()"
      "recipient_edited r q" for r q u
    using recipient_stored [OF ok that(1)] that
    by (intro inv_put_recipient_edit [where q = r]) (auto simp: recipient_edited_def)
  show "wp (record_delivery E fid a state error_facts turn) (\<lambda>_. soc_inv E t) (\<lambda>_. soc_inv E t) t"
    unfolding record_delivery_def Let_def save_notification_recipient_def
    by (simp add: wp_simps soc_wp inv split: sum.splits option.splits)
      (auto simp: inv recipient_edited_def intro!: put)
qed

lemma keeps_receipt [soc_keeps]:
  "preserves (soc_inv E s) (maybe_create_shared_reminder_delivery_receipt E P r)"
  unfolding maybe_create_shared_reminder_delivery_receipt_def Let_def
  by (intro preserves_intros soc_keeps)

lemma keeps_notification_delivery [soc_keeps]:
  "preserves (soc_inv E s) (record_notification_delivery E P fid a state error_facts turn)"
  unfolding record_notification_delivery_def by (intro preserves_intros soc_keeps)

lemma keeps_settle [soc_keeps]: "preserves (soc_inv E s) (settle_recipient E P runtime cutoff r)"
  unfolding settle_recipient_def by (intro preserves_intros soc_keeps)

lemma keeps_reconcile [soc_keeps]:
  "preserves (soc_inv E s) (reconcile_terminal_notification_recipients E P runtime older)"
  unfolding reconcile_terminal_notification_recipients_def by (intro preserves_intros soc_keeps)

section \<open>Friendships\<close>

lemma keeps_add_friendship:
  "friendship_wf f \<Longrightarrow> preserves (soc_inv E s) (add_friendship f)"
  by (rule keepsI)
    (auto simp: add_friendship_def wp_simps soc_wp soc_inv_refl intro!: inv_put_friendship_new)

lemma keeps_friendship_notification [soc_keeps]:
  "preserves (soc_inv E s) (create_friendship_notification E P f actor)"
  unfolding create_friendship_notification_def Let_def by (intro preserves_intros soc_keeps)

lemma keeps_new_friendship [soc_keeps]:
  "joiner \<noteq> owner \<Longrightarrow> preserves (soc_inv E s) (new_friendship E P joiner owner g)"
  unfolding new_friendship_def Let_def unordered_pair_def
  by (intro preserves_intros soc_keeps keeps_add_friendship)
    (auto simp: friendship_wf_def split: if_splits)

lemma keeps_establish [soc_keeps]: "preserves (soc_inv E s) (establish_from_link E P joiner l g)"
  unfolding establish_from_link_def by (intro preserves_intros soc_keeps)

lemma keeps_establish_calls [soc_keeps]:
  "preserves (soc_inv E s) (establish_friendship_from_token E P joiner token g)"
  "preserves (soc_inv E s) (establish_friendship_from_code E P joiner code g)"
  "preserves (soc_inv E s) (complete_deferred_friend_link E P joiner lid g)"
  unfolding establish_friendship_from_token_def establish_friendship_from_code_def
    complete_deferred_friend_link_def establish_if_found_def
  by (intro preserves_intros soc_keeps)+

lemma active_friendship_stored:
  assumes "soc_ok E t" "get_active_friendship t a b = Some f"
  shows "get_friendship t (fs_id f) = Some f" "active_pair (unordered_pair a b) f" "friendship_wf f"
  using assms find_keyed [of fs_id "friendships_by_id t" "active_pair (unordered_pair a b)" f]
  by (auto simp: soc_ok_def friendships_ok_def get_active_friendship_def get_friendship_def)

lemma keeps_remove_friend [soc_keeps]: "preserves (soc_inv E s) (remove_friend E account friend g)"
proof (rule keepsI)
  fix t
  assume ok: "soc_ok E t"
  have inv: "soc_inv E t t" using ok by (rule soc_inv_refl)
  have put: "soc_inv E t (put_friendship (f\<lparr>fs_lifecycle := FriendshipRemoved, fs_removed_at := Some n,
      fs_updated_at := m\<rparr>) u)"
    if "get_active_friendship t (canon account) (canon friend) = Some f" "soc_inv E t u"
      "get_friendship u = get_friendship t" for f n m u
    using active_friendship_stored [OF ok that(1)] that
    by (intro inv_put_friendship_removed [where g = f]) (auto simp: friendship_edited_def)
  show "wp (remove_friend E account friend g) (\<lambda>_. soc_inv E t) (\<lambda>_. soc_inv E t) t"
    unfolding remove_friend_def Let_def save_friendship_def
    by (simp add: wp_simps soc_wp inv split: option.splits) (auto simp: inv intro!: put)
qed

end
