(* ===== verification/SocSharedOps.thy ===== *)
theory SocSharedOps
  imports SocOps
begin

text \<open>
  The operations on shared reminders and their projections keep the invariant and only extend the
  store: a cancelled reminder stays as it is, and two active ones are never the same.
\<close>

section \<open>Projections\<close>

lemma projection_reminder_Inr:
  assumes "projection_reminder E p shared = Inr r"
  shows "rem_id r = pj_reminder_id p" "rem_kind r = SharedProjection" "owner_account_id r = pj_account_id p"
    "shared_reminder_id r = Some (sr_id shared)" "content r = sr_title shared"
    "duration_minutes r = sr_duration shared" "captured_timezone r = sr_timezone shared"
    "lifecycle r = Active" "1 \<le> sr_duration shared \<Longrightarrow> reminder_wf r"
    "\<exists>z at. env_zone E (sr_timezone shared) = Inr z \<and> utc_of z (sr_local shared) = Inr at \<and> next_fire_at r = Some at"
  using assms by (auto simp: projection_reminder_def sbind_Inr_iff reminder_wf_def)

lemma get_shared_frames [simp]:
  "get_shared_reminder (put_projection p t) = get_shared_reminder t"
  "get_shared_reminder (put_projection_reminder i r t) = get_shared_reminder t"
  by (simp_all add: get_shared_reminder_def fun_eq_iff put_projection_def put_projection_reminder_def)

lemma shared_stored:
  "soc_ok E t \<Longrightarrow> get_shared_reminder t i = Some r \<Longrightarrow> sr_id r = i \<and> shared_wf r"
  by (auto simp: soc_ok_def shareds_ok_def get_shared_reminder_def dest: keyed_get)

lemma reminder_of_projection:
  assumes "projections_ok t" "dget (projection_reminders t) i = Some r"
  obtains j p where "dget (projections_by_id t) j = Some p" "projection_of r p" "rem_id r = i"
    "rem_kind r = SharedProjection" "reminder_wf r"
  using assms unfolding projections_ok_def by blast

text \<open>
  What is said of the calendar reminders: the one of a participant shows the shared reminder as it
  is now, or is deleted.
\<close>

definition mirrored :: "env \<Rightarrow> shared_reminder \<Rightarrow> soc_state \<Rightarrow> string \<Rightarrow> bool" where
  "mirrored E shared t i \<longleftrightarrow>
     (\<exists>p r. dget (projection_reminders t) i = Some r \<and> projection_reminder E p shared = Inr r)"

definition deleted :: "soc_state \<Rightarrow> string \<Rightarrow> bool" where
  "deleted t i \<longleftrightarrow> (\<exists>r. dget (projection_reminders t) i = Some r \<and> lifecycle r = Deleted)"

lemma projection_frames [simp]:
  "projections_by_id (put_projection p t) = dput (pj_id p) p (projections_by_id t)"
  "projections_by_id (put_projection_reminder i r t) = projections_by_id t"
  "projection_reminders (put_projection p t) = projection_reminders t"
  "projection_reminders (put_projection_reminder i r t) = dput i r (projection_reminders t)"
  by (simp_all add: put_projection_def put_projection_reminder_def)

subsection \<open>Adding them\<close>

definition added :: "env \<Rightarrow> soc_state \<Rightarrow> shared_reminder \<Rightarrow> projection \<Rightarrow> soc_state \<Rightarrow> soc_state \<Rightarrow> bool" where
  "added E s r p t u \<longleftrightarrow>
     soc_inv E s u \<and> get_shared_reminder u = get_shared_reminder t \<and>
     dget (projections_by_id t) (pj_id p) = None \<and>
     projections_by_id u = dput (pj_id p) p (projections_by_id t) \<and>
     (\<forall>i. mirrored E r t i \<longrightarrow> mirrored E r u i) \<and> mirrored E r u (pj_reminder_id p)"

lemma wp_add_projection:
  assumes inv: "soc_inv E s t" and r: "get_shared_reminder t (pj_shared_id p) = Some r"
    "pj_account_id p \<in> set (sr_participants r)"
  shows "wp (add_projection E p) (\<lambda>_. added E s r p t) (\<lambda>_. soc_inv E s) t"
proof -
  have put: "soc_inv E s (put_projection p t)"
    if "dget (projections_by_id t) (pj_id p) = None" "dget (projection_by_key t) (projection_key p) = None"
    using inv that r by (rule inv_put_projection_new)
  have both: "soc_inv E s (put_projection_reminder (pj_reminder_id p) q (put_projection p t))"
    if "dget (projections_by_id t) (pj_id p) = None" "dget (projection_by_key t) (projection_key p) = None"
      "projection_reminder E p r = Inr q" for q
    using projection_reminder_Inr [OF that(3)] shared_stored [OF soc_inv_ok [OF inv] r(1)]
    by (intro inv_put_projection_reminder [OF put [OF that(1,2)], where j = "pj_id p" and p = p])
      (auto simp: projection_of_def shared_wf_def)
  show ?thesis
    unfolding add_projection_def added_def
    using inv put both r by (auto simp: wp_simps soc_wp mirrored_def split: sum.splits)
qed

text \<open>The projections of some accounts, in their order, each shown in the account's calendar.\<close>

definition projected :: "env \<Rightarrow> shared_reminder \<Rightarrow> string list \<Rightarrow> projection list \<Rightarrow> soc_state \<Rightarrow> bool" where
  "projected E r accounts ps t \<longleftrightarrow>
     map pj_account_id ps = accounts \<and>
     (\<forall>p\<in>set ps. dget (projections_by_id t) (pj_id p) = Some p) \<and>
     (\<forall>p\<in>set ps. pj_shared_id p = sr_id r \<and> pj_lifecycle p = SharedActive \<and>
        mirrored E r t (pj_reminder_id p))"

lemma wp_store_projection:
  assumes inv: "soc_inv E s t" and r: "get_shared_reminder t (sr_id r) = Some r"
    and member: "a \<in> set (sr_participants r)"
  shows "wp (store_projection E (sr_id r) a)
    (\<lambda>p u. added E s r p t u \<and> pj_shared_id p = sr_id r \<and> pj_account_id p = a \<and>
       pj_lifecycle p = SharedActive \<and> pj_completion p = CompletionPending)
    (\<lambda>_. soc_inv E s) t"
proof -
  have add: "wp (add_projection E p) (\<lambda>_ u. added E s r p t u) (\<lambda>_. soc_inv E s) v"
    if "pj_shared_id p = sr_id r" "pj_account_id p = a" "soc_inv E s v"
      "get_shared_reminder v = get_shared_reminder t" "projections_by_id v = projections_by_id t"
      "projection_reminders v = projection_reminders t" for p v
  proof -
    have "mirrored E r v = mirrored E r t" using that(6) by (simp add: mirrored_def fun_eq_iff)
    then have "added E s r p v = added E s r p t" using that(4,5) by (simp add: added_def fun_eq_iff)
    with wp_add_projection [of E s v p r] that r member show ?thesis by simp
  qed
  show ?thesis
    unfolding store_projection_def new_projection_def
    using add inv by (simp add: wp_simps soc_wp)
qed

lemma wp_store_projections:
  assumes "soc_inv E s t" "get_shared_reminder t (sr_id r) = Some r"
    and "set accounts \<subseteq> set (sr_participants r)"
  shows "wp (map_py (store_projection E (sr_id r)) accounts)
    (\<lambda>ps u. soc_inv E s u \<and> get_shared_reminder u = get_shared_reminder t \<and>
       (\<forall>i p. dget (projections_by_id t) i = Some p \<longrightarrow> dget (projections_by_id u) i = Some p) \<and>
       (\<forall>i. mirrored E r t i \<longrightarrow> mirrored E r u i) \<and> projected E r accounts ps u)
    (\<lambda>_. soc_inv E s) t"
  using assms
proof (induction accounts arbitrary: t)
  case Nil
  then show ?case by (simp add: wp_simps projected_def)
next
  case (Cons a accounts)
  have rest: "wp (bind (map_py (store_projection E (sr_id r)) accounts) (\<lambda>ps. ret (p # ps)))
      (\<lambda>ps w. soc_inv E s w \<and> get_shared_reminder w = get_shared_reminder t \<and>
         (\<forall>i q. dget (projections_by_id t) i = Some q \<longrightarrow> dget (projections_by_id w) i = Some q) \<and>
         (\<forall>i. mirrored E r t i \<longrightarrow> mirrored E r w i) \<and> projected E r (a # accounts) ps w)
      (\<lambda>_. soc_inv E s) u"
    if "added E s r p t u" "pj_shared_id p = sr_id r" "pj_account_id p = a"
      "pj_lifecycle p = SharedActive" for p u
  proof -
    from that(1) have u: "soc_inv E s u" "get_shared_reminder u = get_shared_reminder t"
      "dget (projections_by_id u) (pj_id p) = Some p" "mirrored E r u (pj_reminder_id p)"
      "\<And>i. mirrored E r t i \<Longrightarrow> mirrored E r u i"
      "\<And>i q. dget (projections_by_id t) i = Some q \<Longrightarrow> dget (projections_by_id u) i = Some q"
      by (auto simp: added_def)
    have "wp (map_py (store_projection E (sr_id r)) accounts)
      (\<lambda>ps w. soc_inv E s w \<and> get_shared_reminder w = get_shared_reminder u \<and>
         (\<forall>i q. dget (projections_by_id u) i = Some q \<longrightarrow> dget (projections_by_id w) i = Some q) \<and>
         (\<forall>i. mirrored E r u i \<longrightarrow> mirrored E r w i) \<and> projected E r accounts ps w)
      (\<lambda>_. soc_inv E s) u"
      using Cons.IH [OF u(1)] Cons.prems u(2) by simp
    then show ?thesis
      unfolding wp_bind wp_ret
      by (rule wp_mono) (use u that in \<open>auto simp: projected_def\<close>)
  qed
  have "wp (store_projection E (sr_id r) a)
      (\<lambda>p u. added E s r p t u \<and> pj_shared_id p = sr_id r \<and> pj_account_id p = a \<and>
         pj_lifecycle p = SharedActive \<and> pj_completion p = CompletionPending)
      (\<lambda>_. soc_inv E s) t"
    using Cons.prems by (intro wp_store_projection) auto
  then show ?case
    unfolding map_py.simps wp_bind [of "store_projection E (sr_id r) a"]
    by (rule wp_mono) (use rest in auto)
qed

subsection \<open>Saving them\<close>

text \<open>Saving an edited projection; what else is stored of projections and shared reminders stays.\<close>

definition saved :: "env \<Rightarrow> soc_state \<Rightarrow> projection \<Rightarrow> soc_state \<Rightarrow> soc_state \<Rightarrow> bool" where
  "saved E s p t u \<longleftrightarrow>
     soc_inv E s u \<and> projections_by_id u = dput (pj_id p) p (projections_by_id t) \<and>
     get_shared_reminder u = get_shared_reminder t \<and>
     (\<forall>i. deleted t i \<longrightarrow> deleted u i) \<and>
     (pj_lifecycle p = SharedCancelled \<longrightarrow> deleted u (pj_reminder_id p))"

lemma wp_save_projection:
  assumes inv: "soc_inv E s t" and old: "dget (projections_by_id t) (pj_id p) = Some q"
    and edit: "projection_edited q p"
  shows "wp (save_projection p) (\<lambda>_. saved E s p t) (\<lambda>_. soc_inv E s) t"
proof -
  have put: "soc_inv E s (put_projection p t)" using inv old edit by (rule inv_put_projection_edit)
  have delete: "soc_inv E s (put_projection_reminder (pj_reminder_id p)
      (r\<lparr>lifecycle := Deleted, rem_updated_at := pj_updated_at p\<rparr>) (put_projection p t))"
    if r: "dget (projection_reminders t) (pj_reminder_id p) = Some r" for r
  proof -
    have "dget (projection_reminders (put_projection p t)) (pj_reminder_id p) = Some r"
      using r by simp
    from reminder_of_projection [OF parts_of(4) [OF put] this]
    obtain j p' where "dget (projections_by_id (put_projection p t)) j = Some p'" "projection_of r p'"
      "rem_id r = pj_reminder_id p" "rem_kind r = SharedProjection" "reminder_wf r" .
    then show ?thesis
      by (intro inv_put_projection_reminder [OF put]) (auto simp: projection_of_def reminder_wf_def)
  qed
  show ?thesis
    unfolding save_projection_def saved_def
    using put delete by (auto simp: wp_simps soc_wp old deleted_def split: option.splits)
qed

text \<open>Distinct stored projections, saved one after the other.\<close>

definition all_stored :: "projection list \<Rightarrow> soc_state \<Rightarrow> bool" where
  "all_stored ps t \<longleftrightarrow>
     distinct (map pj_id ps) \<and> (\<forall>p\<in>set ps. dget (projections_by_id t) (pj_id p) = Some p)"

lemma all_stored_rest:
  assumes "all_stored (p # ps) t" "projections_by_id u = dput (pj_id p) q (projections_by_id t)"
  shows "all_stored ps u"
proof -
  have "pj_id p' \<noteq> pj_id p" if "p' \<in> set ps" for p'
    using assms(1) that by (auto simp: all_stored_def image_iff)
  then show ?thesis using assms by (simp add: all_stored_def)
qed

lemma all_stored_list:
  assumes "soc_ok E t" shows "all_stored (list_projections t shared) t"
proof -
  have k: "keyed pj_id (projections_by_id t)"
    using assms by (auto simp: soc_ok_def projections_ok_def dest: id_indexed_keyed)
  have "distinct (map pj_id (list_projections t shared))"
    using keyed_distinct [OF k] by (simp add: list_projections_def distinct_map_filter)
  moreover have "dget (projections_by_id t) (pj_id p) = Some p" if "p \<in> set (list_projections t shared)" for p
    using that keyed_values [OF k, of p] by (simp add: list_projections_def)
  ultimately show ?thesis by (simp add: all_stored_def)
qed

definition all_saved :: "env \<Rightarrow> soc_state \<Rightarrow> projection list \<Rightarrow> soc_state \<Rightarrow> soc_state \<Rightarrow> bool" where
  "all_saved E s ps t u \<longleftrightarrow>
     soc_inv E s u \<and> get_shared_reminder u = get_shared_reminder t \<and>
     (\<forall>p\<in>set ps. dget (projections_by_id u) (pj_id p) = Some p) \<and>
     (\<forall>i. i \<notin> pj_id ` set ps \<longrightarrow> dget (projections_by_id u) i = dget (projections_by_id t) i) \<and>
     (\<forall>i. deleted t i \<longrightarrow> deleted u i) \<and>
     (\<forall>p\<in>set ps. pj_lifecycle p = SharedCancelled \<longrightarrow> deleted u (pj_reminder_id p))"

lemma all_saved_Cons:
  assumes "saved E s p t u" "all_saved E s ps u v" "pj_id p \<notin> pj_id ` set ps"
  shows "all_saved E s (p # ps) t v"
  using assms by (auto simp: all_saved_def saved_def)

text \<open>Both loops that save projections: the edited ones, and the edits made on the way.\<close>

lemma wp_save_projections:
  assumes "soc_inv E s t" "all_stored ps t" "\<And>p. p \<in> set ps \<Longrightarrow> projection_edited p (f p)"
  shows "wp (for_each (map f ps) save_projection) (\<lambda>_. all_saved E s (map f ps) t) (\<lambda>_. soc_inv E s) t"
  using assms
proof (induction ps arbitrary: t)
  case Nil
  then show ?case by (simp add: wp_simps all_saved_def)
next
  case (Cons p ps)
  have ids: "pj_id (f q) = pj_id q" if "q \<in> set (p # ps)" for q
    using Cons.prems(3) [OF that] by (simp add: projection_edited_def)
  then have fresh: "pj_id (f p) \<notin> pj_id ` set (map f ps)"
    using Cons.prems(2) by (auto simp: all_stored_def)
  have p: "dget (projections_by_id t) (pj_id (f p)) = Some p"
    using Cons.prems(2) ids [of p] by (simp add: all_stored_def)
  have rest: "wp (for_each (map f ps) save_projection) (\<lambda>_. all_saved E s (map f (p # ps)) t) (\<lambda>_. soc_inv E s) u"
    if u: "saved E s (f p) t u" for u
  proof -
    have "soc_inv E s u" "all_stored ps u"
      using u all_stored_rest [OF Cons.prems(2), of u "f p"] ids [of p] by (simp_all add: saved_def)
    from wp_mono [OF Cons.IH [OF this]] Cons.prems(3) all_saved_Cons [OF u _ fresh]
    show ?thesis by simp
  qed
  have "wp (save_projection (f p)) (\<lambda>_. saved E s (f p) t) (\<lambda>_. soc_inv E s) t"
    by (rule wp_save_projection [OF Cons.prems(1) p]) (simp add: Cons.prems(3))
  then show ?case
    unfolding list.map for_each.simps wp_bind by (rule wp_mono) (use rest in simp_all)
qed

definition cancelled_of :: "projection \<Rightarrow> projection \<Rightarrow> bool" where
  "cancelled_of p p' \<longleftrightarrow> (\<exists>n. p' = p\<lparr>pj_lifecycle := SharedCancelled, pj_updated_at := n\<rparr>)"

lemma cancelled_edited: "cancelled_of p p' \<Longrightarrow> projection_edited p p'"
  by (auto simp: cancelled_of_def projection_edited_def)

lemma wp_cancel_projection:
  assumes "soc_inv E s t" "dget (projections_by_id t) (pj_id p) = Some p"
  shows "wp (cancel_projection E p) (\<lambda>p' u. cancelled_of p p' \<and> saved E s p' t u) (\<lambda>_. soc_inv E s) t"
proof -
  define p' where "p' = p\<lparr>pj_lifecycle := SharedCancelled, pj_updated_at := env_now E (clock t)\<rparr>"
  have c: "cancelled_of p p'" by (auto simp: cancelled_of_def p'_def)
  then have edit: "projection_edited p p'" by (rule cancelled_edited)
  have id: "pj_id p' = pj_id p" by (simp add: p'_def)
  have frame: "saved E s p' (t\<lparr>clock := n\<rparr>) = saved E s p' t" for n
    by (simp add: saved_def deleted_def fun_eq_iff)
  have "wp (save_projection p') (\<lambda>_. saved E s p' (t\<lparr>clock := Suc (clock t)\<rparr>)) (\<lambda>_. soc_inv E s)
      (t\<lparr>clock := Suc (clock t)\<rparr>)"
    using assms id by (intro wp_save_projection [OF _ _ edit]) simp_all
  with c show ?thesis
    unfolding cancel_projection_def frame by (simp add: wp_simps p'_def [symmetric])
qed

lemma wp_cancel_projections:
  assumes "soc_inv E s t" "all_stored ps t"
  shows "wp (map_py (cancel_projection E) ps)
    (\<lambda>ps' u. list_all2 cancelled_of ps ps' \<and> all_saved E s ps' t u) (\<lambda>_. soc_inv E s) t"
  using assms
proof (induction ps arbitrary: t)
  case Nil
  then show ?case by (simp add: wp_simps all_saved_def)
next
  case (Cons p ps)
  have p: "dget (projections_by_id t) (pj_id p) = Some p" "pj_id p \<notin> pj_id ` set ps"
    using Cons.prems(2) by (auto simp: all_stored_def)
  have rest: "wp (bind (map_py (cancel_projection E) ps) (\<lambda>ps'. ret (p' # ps')))
      (\<lambda>ps' v. list_all2 cancelled_of (p # ps) ps' \<and> all_saved E s ps' t v) (\<lambda>_. soc_inv E s) u"
    if c: "cancelled_of p p'" and u: "saved E s p' t u" for p' u
  proof -
    have id: "pj_id p' = pj_id p" using c by (auto simp: cancelled_of_def)
    have "soc_inv E s u" "all_stored ps u"
      using u all_stored_rest [OF Cons.prems(2), of u p'] id by (simp_all add: saved_def)
    note IH = Cons.IH [OF this]
    have ids: "pj_id ` set ps' = pj_id ` set ps" if "list_all2 cancelled_of ps ps'" for ps'
    proof -
      have "map pj_id ps' = map pj_id ps"
        using that by (auto simp: list_all2_conv_all_nth list_eq_iff_nth_eq cancelled_of_def)
      then show ?thesis by (metis list.set_map)
    qed
    show ?thesis
      unfolding wp_bind wp_ret
      by (rule wp_mono [OF IH]) (use c ids p(2) id all_saved_Cons [OF u] in auto)
  qed
  have "wp (cancel_projection E p) (\<lambda>p' u. cancelled_of p p' \<and> saved E s p' t u) (\<lambda>_. soc_inv E s) t"
    by (rule wp_cancel_projection [OF Cons.prems(1) p(1)])
  then show ?case
    unfolding map_py.simps wp_bind [of "cancel_projection E p"] by (rule wp_mono) (use rest in simp_all)
qed

subsection \<open>Their calendar reminders follow the shared reminder\<close>

definition synced :: "env \<Rightarrow> soc_state \<Rightarrow> shared_reminder \<Rightarrow> projection list \<Rightarrow> soc_state \<Rightarrow> soc_state \<Rightarrow> bool" where
  "synced E s r ps t u \<longleftrightarrow>
     soc_inv E s u \<and> get_shared_reminder u = get_shared_reminder t \<and>
     projections_by_id u = projections_by_id t \<and>
     (\<forall>i. mirrored E r t i \<longrightarrow> mirrored E r u i) \<and>
     (\<forall>p\<in>set ps. pj_lifecycle p = SharedActive \<longrightarrow> mirrored E r u (pj_reminder_id p))"

lemma wp_sync:
  assumes "soc_inv E s t" "\<forall>p\<in>set ps. dget (projections_by_id t) (pj_id p) = Some p \<and> pj_shared_id p = sr_id r"
    and duration: "1 \<le> sr_duration r"
  shows "wp (sync_projection_reminders E r ps) (\<lambda>_. synced E s r ps t) (\<lambda>_. soc_inv E s) t"
  using assms
proof (induction ps arbitrary: t)
  case Nil
  then show ?case by (simp add: sync_projection_reminders_def wp_simps synced_def)
next
  case (Cons p ps)
  have rest: "wp (sync_projection_reminders E r ps) (\<lambda>_. synced E s r (p # ps) t) (\<lambda>_. soc_inv E s) u"
    if u: "soc_inv E s u" "get_shared_reminder u = get_shared_reminder t"
      "projections_by_id u = projections_by_id t" "\<And>i. mirrored E r t i \<Longrightarrow> mirrored E r u i"
      "pj_lifecycle p = SharedActive \<Longrightarrow> mirrored E r u (pj_reminder_id p)" for u
  proof -
    have "wp (sync_projection_reminders E r ps) (\<lambda>_. synced E s r ps u) (\<lambda>_. soc_inv E s) u"
      using u Cons.prems(2) duration by (intro Cons.IH) simp_all
    then show ?thesis by (rule wp_mono) (use u in \<open>auto simp: synced_def\<close>)
  qed
  have put: "soc_inv E s (put_projection_reminder (pj_reminder_id p) q t)"
    "mirrored E r t i \<Longrightarrow> mirrored E r (put_projection_reminder (pj_reminder_id p) q t) i"
    "mirrored E r (put_projection_reminder (pj_reminder_id p) q t) (pj_reminder_id p)"
    if "projection_reminder E p r = Inr q" for q i
  proof -
    show "soc_inv E s (put_projection_reminder (pj_reminder_id p) q t)"
      using projection_reminder_Inr [OF that] Cons.prems duration
      by (intro inv_put_projection_reminder [where j = "pj_id p" and p = p]) (auto simp: projection_of_def)
  qed (use that in \<open>auto simp: mirrored_def\<close>)
  have unfold_sync: "sync_projection_reminders E r (p # ps) =
      bind (if pj_lifecycle p \<noteq> SharedActive then ret ()
            else bind (refuse_if (\<lambda>s. dget (projection_reminders s) (pj_reminder_id p) = None)
                   ''projection_reminder_missing'') (\<lambda>_.
                 bind (lift (projection_reminder E p r)) (\<lambda>q.
                 modify (put_projection_reminder (pj_reminder_id p) q))))
        (\<lambda>_. sync_projection_reminders E r ps)"
    by (simp add: sync_projection_reminders_def)
  show ?case
    unfolding unfold_sync
    using rest put Cons.prems(1) by (simp add: wp_simps soc_wp split: sum.splits)
qed

section \<open>Notifying\<close>

text \<open>The store without its counters: two states that differ in those only hold the same.\<close>

definition soc_core :: "soc_state \<Rightarrow> soc_state" where
  "soc_core t = t\<lparr>clock := 0, issued := 0, traced := 0, tokens_made := 0, generated_ids := [],
                  generated_tokens := []\<rparr>"

lemma soc_core_counters [simp]:
  "soc_core (t\<lparr>clock := n\<rparr>) = soc_core t" "soc_core (t\<lparr>issued := n\<rparr>) = soc_core t"
  "soc_core (t\<lparr>generated_ids := xs\<rparr>) = soc_core t"
  "soc_core (t\<lparr>tokens_made := n\<rparr>) = soc_core t"
  "soc_core (t\<lparr>generated_tokens := xs\<rparr>) = soc_core t"
  by (simp_all add: soc_core_def)

definition scheduling ::
  "soc_state \<Rightarrow> (string, friendship) dict \<times> (string, shared_reminder) dict \<times> (string, projection) dict \<times>
     (string, reminder) dict" where
  "scheduling t = (friendships_by_id t, shared_by_id t, projections_by_id t, projection_reminders t)"

text \<open>Writing a notification touches no friendship, shared reminder or projection.\<close>

lemma scheduling_create_fact:
  "preserves (\<lambda>t. scheduling t = c) (create_fact E ntype actor otype oid status facts0 recipients key)"
  unfolding create_fact_def Let_def soc_new_id_def new_recipient_def add_notification_fact_def
    add_notification_recipient_def refuse_if_def py_now_def new_id_def
  by (intro preserves_intros preserves_modify)
    (simp_all add: scheduling_def put_fact_def put_recipient_def preserves_def wp_def)

end
