(* ===== verification/SocOutcomes.thy ===== *)
theory SocOutcomes
  imports SocSharedOps
begin

text \<open>
  What the operations on shared reminders do: each is run from a store with the invariant, and its
  result says what was written. Refusals write nothing; the writes keep the invariant, whether or
  not they all succeed.
\<close>

section \<open>Notifications about a shared reminder\<close>

definition told :: "shared_reminder \<Rightarrow> string \<Rightarrow> string list \<Rightarrow> notification_fact \<Rightarrow> soc_state \<Rightarrow> bool" where
  "told r status accounts n t \<longleftrightarrow>
     notified n (sorted_set accounts) t \<and> nf_type n = ''shared_reminder_'' @ status \<and>
     nf_object_id n = sr_id r \<and> nf_key n = shared_notification_key r status"

lemma wp_shared_notification:
  assumes "soc_inv E s t"
  shows "wp (create_shared_reminder_notification E P r status actor accounts)
    (\<lambda>n u. (soc_inv E s u \<and> told r status accounts n u) \<and> scheduling u = scheduling t)
    (\<lambda>_. soc_inv E s) t"
proof -
  have "wp (create_shared_reminder_notification E P r status actor accounts)
      (\<lambda>n u. soc_inv E s u \<and> told r status accounts n u) (\<lambda>_. soc_inv E s) t"
    unfolding create_shared_reminder_notification_def Let_def told_def wp_bind wp_lift
    by (auto simp: assms split: sum.splits intro!: wp_mono [OF wp_create_fact [OF assms]])
  moreover have "preserves (\<lambda>u. scheduling u = scheduling t)
      (create_shared_reminder_notification E P r status actor accounts)"
    unfolding create_shared_reminder_notification_def Let_def
    by (intro preserves_intros scheduling_create_fact)
  then have "wp (create_shared_reminder_notification E P r status actor accounts)
      (\<lambda>_ u. scheduling u = scheduling t) (\<lambda>_ u. scheduling u = scheduling t) t"
    by (simp add: preserves_def)
  ultimately have "wp (create_shared_reminder_notification E P r status actor accounts)
      (\<lambda>n u. (soc_inv E s u \<and> told r status accounts n u) \<and> scheduling u = scheduling t)
      (\<lambda>_ u. soc_inv E s u \<and> scheduling u = scheduling t) t"
    by (rule wp_conj)
  then show ?thesis by (rule wp_mono) simp_all
qed

lemma scheduling_reads:
  assumes "scheduling u = scheduling t"
  shows "get_shared_reminder u = get_shared_reminder t" "projections_by_id u = projections_by_id t"
    "projection_reminders u = projection_reminders t" "deleted u = deleted t"
    "mirrored E r u = mirrored E r t" "projected E r accounts ps u = projected E r accounts ps t"
  using assms
  by (auto simp: scheduling_def get_shared_reminder_def fun_eq_iff deleted_def mirrored_def projected_def)

section \<open>Creation\<close>

lemma set_dedupe_from: "set (dedupe_from seen xs) = set xs - set seen"
  by (induction seen xs rule: dedupe_from.induct) auto

lemma distinct_dedupe_from: "distinct (dedupe_from seen xs)"
  by (induction seen xs rule: dedupe_from.induct) (auto simp: set_dedupe_from)

lemma dedupe_props [simp]:
  "set (dedupe_preserve_order xs) = set xs" "distinct (dedupe_preserve_order xs)"
  by (simp_all add: dedupe_preserve_order_def set_dedupe_from distinct_dedupe_from)

text \<open>What a created reminder is, and what the store holds of it afterwards.\<close>

definition created_as ::
  "env \<Rightarrow> string \<Rightarrow> string list \<Rightarrow> string \<Rightarrow> local_dt \<Rightarrow> string \<Rightarrow> int \<Rightarrow> shared_result \<Rightarrow> soc_state \<Rightarrow> bool" where
  "created_as E creator receivers title local_at timezone minutes res t \<longleftrightarrow>
     (\<exists>r n. sres_reminder res = Some r \<and> sres_notifications res = [n] \<and>
        get_shared_reminder t (sr_id r) = Some r \<and>
        sr_creator r = creator \<and> sr_participants r = sorted_set (creator # receivers) \<and>
        sr_title r = py_strip title \<and> sr_local r = local_at \<and> sr_timezone r = timezone \<and>
        sr_duration r = minutes \<and> sr_status r = SharedActive \<and>
        projected E r (sr_participants r) (sres_projections res) t \<and> told r ''created'' receivers n t)"

text \<open>When a creation may be stored: friends only, not twice, everyone free and reachable.\<close>

definition may_create ::
  "env \<Rightarrow> soc_ports \<Rightarrow> soc_state \<Rightarrow> string \<Rightarrow> string list \<Rightarrow> string \<Rightarrow> local_dt \<Rightarrow> string \<Rightarrow> int \<Rightarrow> bool" where
  "may_create E P s creator receivers title local_at timezone minutes \<longleftrightarrow>
     (\<forall>a\<in>set receivers. get_active_friendship s creator a \<noteq> None) \<and>
     get_duplicate_active_shared_reminder s creator
       (hash_value E (py_join ''|'' (sorted_set (creator # receivers))))
       (hash_value E (normalize_title title)) local_at timezone minutes = None \<and>
     (\<exists>end_at. local_plus_minutes local_at minutes = Inr end_at \<and>
        (\<forall>a\<in>set receivers. busy_intervals_for P s a local_at end_at timezone [] = Inr [])) \<and>
     (\<forall>a\<in>insert creator (set receivers). sp_reachable P a = Inr True)"

lemma filter_sum_empty: "filter_sum p xs = Inr [] \<longleftrightarrow> (\<forall>x\<in>set xs. p x = Inr False)"
  by (induction xs) (auto simp: sbind_Inr_iff)

lemma no_conflicts:
  "conflicting_of P s accounts start end_at timezone exclude = Inr [] \<longleftrightarrow>
     (\<forall>a\<in>set accounts. busy_intervals_for P s a start end_at timezone exclude = Inr [])"
  by (simp add: conflicting_of_def filter_sum_empty sbind_Inr_iff)

lemma all_reachable: "unreachable_of P accounts = Inr [] \<longleftrightarrow> (\<forall>a\<in>set accounts. sp_reachable P a = Inr True)"
  by (auto simp: unreachable_of_def filter_sum_empty sbind_Inr_iff)

lemma sorted_set_props [simp]:
  "sorted (sorted_set xs)" "distinct (sorted_set xs)" "set (sorted_set xs) = set xs"
  by (simp_all add: sorted_set_def)

lemma two_participants:
  assumes "creator \<notin> set receivers" "receivers \<noteq> []"
  shows "2 \<le> length (sorted_set (creator # receivers))"
proof -
  obtain a where a: "a \<in> set receivers" using assms(2) by (cases receivers) auto
  with assms(1) have "creator \<noteq> a" by blast
  then have "2 = card {creator, a}" by simp
  also have "\<dots> \<le> card (set (creator # receivers))"
    by (rule card_mono) (use a in auto)
  also have "\<dots> = length (sorted_set (creator # receivers))"
    by (metis distinct_card sorted_set_props(2,3))
  finally show ?thesis .
qed

text \<open>Nobody is their own friend.\<close>

lemma not_own_friend: "soc_ok E t \<Longrightarrow> get_active_friendship t a a = None"
proof (rule ccontr)
  assume ok: "soc_ok E t" and "get_active_friendship t a a \<noteq> None"
  then obtain f where "get_active_friendship t a a = Some f" by blast
  from active_friendship_stored [OF ok this] show False
    by (auto simp: active_pair_def unordered_pair_def friendship_wf_def)
qed

definition stored_as ::
  "env \<Rightarrow> (string \<Rightarrow> datetime \<Rightarrow> shared_reminder) \<Rightarrow> string list \<Rightarrow> string list \<Rightarrow> shared_result \<Rightarrow>
    soc_state \<Rightarrow> bool" where
  "stored_as E build participants recipients res t \<longleftrightarrow>
     sres_status res = ''created'' \<and>
     (\<exists>rid now n. sres_reminder res = Some (build rid now) \<and> sres_notifications res = [n] \<and>
        get_shared_reminder t rid = Some (build rid now) \<and>
        projected E (build rid now) participants (sres_projections res) t \<and>
        told (build rid now) ''created'' recipients n t)"

lemma stored_asI:
  assumes "get_shared_reminder t rid = Some (build rid now)" "projected E (build rid now) participants ps t"
    and "told (build rid now) ''created'' recipients n u" "scheduling u = scheduling t"
  shows "stored_as E build participants recipients
    ((shared_result_of ''created'' (Some (build rid now)) ps []) \<lparr>sres_notifications := [n]\<rparr>) u"
  unfolding stored_as_def
  using assms scheduling_reads [OF assms(4)] by (auto simp: shared_result_of_def)

lemma wp_store_shared:
  assumes inv: "soc_inv E s t"
    and build: "\<And>rid now. sr_id (build rid now) = rid \<and> shared_wf (build rid now) \<and>
      sr_status (build rid now) = SharedActive \<and> sr_participants (build rid now) = participants"
    and only: "\<And>rid now. duplicate_of_shared t (build rid now) = None"
  shows "wp (store_shared_reminder E P build participants recipients g)
    (\<lambda>res u. soc_inv E s u \<and> stored_as E build participants recipients res u) (\<lambda>_. soc_inv E s) t"
proof -
  have ids: "sr_id (build rid now) = rid" for rid now using build by blast
  have tell: "wp (bind (create_shared_reminder_notification E P (build rid now) ''created'' None recipients)
        (\<lambda>n. ret ((shared_result_of ''created'' (Some (build rid now)) ps []) \<lparr>sres_notifications := [n]\<rparr>)))
      (\<lambda>res w. soc_inv E s w \<and> stored_as E build participants recipients res w) (\<lambda>_. soc_inv E s) u"
    if "soc_inv E s u" "get_shared_reminder u rid = Some (build rid now)"
      "projected E (build rid now) participants ps u" for rid now ps u
    unfolding wp_bind wp_ret
    by (rule wp_mono [OF wp_shared_notification [OF that(1)]]) (auto intro: stored_asI [where build = build and rid = rid and now = now, OF that(2,3)])
  have project: "wp (bind (map_py (store_projection E rid) participants) (\<lambda>ps.
        bind (create_shared_reminder_notification E P (build rid now) ''created'' None recipients) (\<lambda>n.
        ret ((shared_result_of ''created'' (Some (build rid now)) ps []) \<lparr>sres_notifications := [n]\<rparr>))))
      (\<lambda>res w. soc_inv E s w \<and> stored_as E build participants recipients res w) (\<lambda>_. soc_inv E s) v"
    if v: "soc_inv E s v" "get_shared_reminder v rid = Some (build rid now)" for rid now v
    unfolding wp_bind [of "map_py _ _"]
  proof (rule wp_mono)
    show "wp (map_py (store_projection E rid) participants)
        (\<lambda>ps u. soc_inv E s u \<and> get_shared_reminder u = get_shared_reminder v \<and>
           (\<forall>i p. dget (projections_by_id v) i = Some p \<longrightarrow> dget (projections_by_id u) i = Some p) \<and>
           (\<forall>i. mirrored E (build rid now) v i \<longrightarrow> mirrored E (build rid now) u i) \<and>
           projected E (build rid now) participants ps u)
        (\<lambda>_. soc_inv E s) v"
      using wp_store_projections [of E s v "build rid now" participants] v build [of rid now] by simp
  qed (use v(2) in \<open>auto intro!: tell\<close>)
  have put: "soc_inv E s (put_shared (build rid now) u)"
    "get_shared_reminder (put_shared (build rid now) u) rid = Some (build rid now)"
    if "soc_inv E s u" "get_shared_reminder u rid = None" "duplicate_of_shared u = duplicate_of_shared t" for rid now u
  proof -
    show "soc_inv E s (put_shared (build rid now) u)"
      using that build [of rid now] only [of rid now] by (intro inv_put_shared_new) auto
    show "get_shared_reminder (put_shared (build rid now) u) rid = Some (build rid now)"
      using build [of rid now] by (simp add: put_shared_def get_shared_reminder_def)
  qed
  show ?thesis
    unfolding store_shared_reminder_def Let_def add_shared_reminder_def wp_bind [of "run_commit_guard g"]
      wp_bind [of "py_now E"] wp_bind [of "soc_new_id E ''shared_reminder''"]
    using inv put project only
    by (auto simp: wp_bind [of "bind _ _"] wp_bind [of "refuse_if _ _"] wp_bind [of "modify _"]
        wp_modify wp_py_now soc_wp ids split: option.splits)
qed

lemma duplicate_of_built:
  "duplicate_of_shared t r = get_duplicate_active_shared_reminder t (sr_creator r) (sr_participant_hash r)
     (sr_title_hash r) (sr_local r) (sr_timezone r) (sr_duration r)"
  by (rule duplicate_of_shared_def)

text \<open>A refusal: a status other than \<open>created\<close>, and nothing written.\<close>

definition refused :: "string \<Rightarrow> soc_state \<Rightarrow> shared_result \<Rightarrow> soc_state \<Rightarrow> bool" where
  "refused status t res u \<longleftrightarrow> sres_status res \<noteq> status \<and> soc_core u = soc_core t"

lemma wp_create_checked:
  assumes inv: "soc_inv E s t" and receivers: "receivers \<noteq> []" and minutes: "1 \<le> minutes"
  shows "wp (create_checked E P creator receivers title local_at timezone minutes g)
    (\<lambda>res u. soc_inv E s u \<and>
       (refused ''created'' t res u \<or>
        sres_status res = ''created'' \<and> may_create E P t creator receivers title local_at timezone minutes \<and>
        created_as E creator receivers title local_at timezone minutes res u))
    (\<lambda>_. soc_inv E s) t"
proof -
  define unique where "unique = dedupe_preserve_order receivers"
  define participants where "participants = sorted_set (creator # unique)"
  define build where "build = (\<lambda>rid now.
    \<lparr>sr_id = rid, sr_creator = creator, sr_participants = participants,
     sr_participant_hash = hash_value E (py_join ''|'' participants), sr_title = py_strip title,
     sr_title_hash = hash_value E (normalize_title title), sr_local = local_at, sr_timezone = timezone,
     sr_duration = minutes, sr_status = SharedActive, sr_cancelled_at = None,
     sr_created_at = now, sr_updated_at = now\<rparr>)"
  have same: "participants = sorted_set (creator # receivers)"
    by (simp add: participants_def unique_def sorted_set_def sorted_list_of_set_sort_remdups [symmetric])
  have store: "wp (store_shared_reminder E P build participants unique g)
      (\<lambda>res u. soc_inv E s u \<and>
         (refused ''created'' t res u \<or>
          sres_status res = ''created'' \<and> may_create E P t creator receivers title local_at timezone minutes \<and>
          created_as E creator receivers title local_at timezone minutes res u))
      (\<lambda>_. soc_inv E s) t"
    if may: "may_create E P t creator receivers title local_at timezone minutes"
  proof -
    have "creator \<notin> set receivers"
      using may not_own_friend [OF soc_inv_ok [OF inv]] by (auto simp: may_create_def)
    then have two: "2 \<le> length participants"
      using two_participants [OF _ receivers] by (simp add: same)
    have wf: "sr_id (build rid now) = rid \<and> shared_wf (build rid now) \<and>
        sr_status (build rid now) = SharedActive \<and> sr_participants (build rid now) = participants" for rid now
      using two minutes by (simp add: build_def shared_wf_def participants_def)
    have only: "duplicate_of_shared t (build rid now) = None" for rid now
      using may by (simp add: duplicate_of_shared_def build_def may_create_def same)
    show ?thesis
      by (rule wp_mono [OF wp_store_shared [OF inv wf only]])
        (auto simp: may stored_as_def created_as_def build_def same told_def unique_def sorted_set_def
          sorted_list_of_set_sort_remdups [symmetric])
  qed
  have may: "may_create E P t creator receivers title local_at timezone minutes"
    if "filter (\<lambda>a. get_active_friendship t creator a = None) unique = []"
      "get_duplicate_active_shared_reminder t creator (hash_value E (py_join ''|'' participants))
         (hash_value E (normalize_title title)) local_at timezone minutes = None"
      "local_plus_minutes local_at minutes = Inr end_at"
      "conflicting_of P t unique local_at end_at timezone [] = Inr []"
      "unreachable_of P participants = Inr []" for end_at
    using that
    by (auto simp: may_create_def no_conflicts all_reachable unique_def same filter_empty_conv)
  have refuse: "refused ''created'' t (shared_result_of status r ps follow_up) t"
    if "status \<noteq> ''created''" for status r ps follow_up
    using that by (simp add: refused_def shared_result_of_def)
  have block: "refused ''created'' t (blocked_result c u a) t" for c u a
    by (simp add: refused_def blocked_result_def shared_result_of_def)
  show ?thesis
    unfolding create_checked_def Let_def unique_def [symmetric] participants_def [symmetric]
      build_def [symmetric] wp_bind wp_gets wp_lift wp_if wp_ret
    using store [OF may] inv refuse block
    by (auto simp: wp_bind wp_lift wp_ret wp_if split: option.splits sum.splits)
qed

text \<open>What is decided from the store does not depend on its counters.\<close>

lemma core_fields:
  assumes "soc_core u = soc_core t"
  shows "friendships_by_id u = friendships_by_id t" "shared_by_id u = shared_by_id t"
    "projections_by_id u = projections_by_id t" "projection_by_key u = projection_by_key t"
    "projection_reminders u = projection_reminders t" "facts_by_id u = facts_by_id t"
    "recipients_by_id u = recipients_by_id t" "recipient_by_key u = recipient_by_key t"
  using assms [THEN arg_cong, of friendships_by_id] assms [THEN arg_cong, of shared_by_id]
    assms [THEN arg_cong, of projections_by_id] assms [THEN arg_cong, of projection_by_key]
    assms [THEN arg_cong, of projection_reminders] assms [THEN arg_cong, of facts_by_id]
    assms [THEN arg_cong, of recipients_by_id] assms [THEN arg_cong, of recipient_by_key]
  by (simp_all add: soc_core_def)

lemma core_reads:
  assumes "soc_core u = soc_core t"
  shows "get_active_friendship u = get_active_friendship t"
    "get_duplicate_active_shared_reminder u = get_duplicate_active_shared_reminder t"
    "list_projections u = list_projections t" "get_shared_reminder u = get_shared_reminder t"
    "busy_intervals_for P u = busy_intervals_for P t" "get_projection u = get_projection t"
proof -
  note f = core_fields [OF assms]
  show p: "get_projection u = get_projection t"
    by (simp add: fun_eq_iff get_projection_def f split: option.splits)
  have "shared_interval u = shared_interval t"
    by (simp add: fun_eq_iff shared_interval_def p)
  moreover have "list_shared_reminders_for_participant u = list_shared_reminders_for_participant t"
    by (simp add: fun_eq_iff list_shared_reminders_for_participant_def f)
  ultimately have "shared_busy_intervals u = shared_busy_intervals t"
    by (intro ext) (simp add: shared_busy_intervals_def)
  then show "busy_intervals_for P u = busy_intervals_for P t"
    by (intro ext) (simp add: busy_intervals_for_def)
qed (simp_all add: fun_eq_iff get_active_friendship_def get_duplicate_active_shared_reminder_def
      list_projections_def get_shared_reminder_def core_fields [OF assms])

lemma core_may_create:
  assumes "soc_core u = soc_core t"
  shows "may_create E P u = may_create E P t"
  by (simp add: fun_eq_iff may_create_def core_reads [OF assms])

text \<open>A wall clock that is not before the present one, in its zone.\<close>

definition lies_ahead :: "env \<Rightarrow> datetime \<Rightarrow> local_dt \<Rightarrow> string \<Rightarrow> bool" where
  "lies_ahead E now local_at timezone \<longleftrightarrow>
     (\<exists>z utc w f. env_zone E timezone = Inr z \<and> to_utc E now = Inr utc \<and>
        local_of z (dt_key utc) = Inr (w, f) \<and> w \<le> fst local_at)"

lemma wp_validate_time:
  assumes "soc_inv E s t"
  shows "wp (validate_shared_trigger_time E local_at timezone)
    (\<lambda>state u. soc_inv E s u \<and> soc_core u = soc_core t \<and>
       state \<in> {''invalid'', ''needs_past_time_confirmation'', ''valid_future''} \<and>
       (state = ''valid_future'' \<longrightarrow> lies_ahead E (env_now E (clock t)) local_at timezone))
    (\<lambda>_. soc_inv E s) t"
  using assms
  by (auto simp: validate_shared_trigger_time_def wp_simps lies_ahead_def split: sum.splits)

lemma shared_duration_ge: "shared_duration_minutes d = Inr n \<Longrightarrow> 1 \<le> n"
  by (auto simp: shared_duration_minutes_def split: pyval.splits if_splits option.splits)

lemma wp_create_shared:
  assumes inv: "soc_inv E s t"
  shows "wp (create_shared_reminder E P creator receivers title trigger timezone duration g)
    (\<lambda>res u. soc_inv E s u \<and>
       (refused ''created'' t res u \<or>
        sres_status res = ''created'' \<and>
        (\<exists>words local_at minutes. title = Some words \<and> map_option as_local_wall_clock trigger = Some local_at \<and>
           lies_ahead E (env_now E (clock t)) local_at timezone \<and>
           may_create E P t (canon creator) (map canon receivers) words local_at timezone minutes \<and>
           created_as E (canon creator) (map canon receivers) words local_at timezone minutes res u)))
    (\<lambda>_. soc_inv E s) t"
proof (cases "first_missing_field (map canon receivers) title (map_option as_local_wall_clock trigger)")
  case (Some m)
  then show ?thesis
    using inv by (simp add: create_shared_reminder_def Let_def wp_simps refused_def shared_result_of_def)
next
  case None
  then obtain words given_at where given: "receivers \<noteq> []" "title = Some words"
    "trigger = Some given_at"
    by (auto simp: first_missing_field_def split: if_splits option.splits)
  define local_at where "local_at = as_local_wall_clock given_at"
  have checked: "wp (create_checked E P (canon creator) (map canon receivers) words local_at timezone minutes g)
      (\<lambda>res u. soc_inv E s u \<and>
         (sres_status res \<noteq> ''created'' \<and> soc_core u = soc_core t \<or>
          sres_status res = ''created'' \<and>
          (\<exists>minutes.
             may_create E P t (canon creator) (map canon receivers) words local_at timezone minutes \<and>
             created_as E (canon creator) (map canon receivers) words local_at timezone minutes res u)))
      (\<lambda>_. soc_inv E s) u"
    if "soc_inv E s u" "soc_core u = soc_core t" "shared_duration_minutes d = Inr minutes" for u minutes d
  proof -
    have "map canon receivers \<noteq> []" using given(1) by simp
    from wp_create_checked [OF that(1) this shared_duration_ge [OF that(3)]] show ?thesis
      by (rule wp_mono) (auto simp: core_may_create [OF that(2)] refused_def that(2))
  qed
  show ?thesis
    using None given
    unfolding create_shared_reminder_def Let_def
    by (simp add: wp_bind)
      (rule wp_mono [OF wp_validate_time [OF inv]],
        auto simp: wp_simps refused_def shared_result_of_def split: option.splits sum.splits
          intro!: checked [unfolded local_at_def])
qed

section \<open>Cancellation\<close>

lemma not_cancelled: "state \<noteq> SharedCancelled \<longleftrightarrow> state = SharedActive"
  by (cases state) simp_all

definition cancelled_as ::
  "shared_reminder \<Rightarrow> projection list \<Rightarrow> string \<Rightarrow> shared_result \<Rightarrow> soc_state \<Rightarrow> bool" where
  "cancelled_as r ps account res t \<longleftrightarrow>
     (\<exists>r' n. sres_reminder res = Some r' \<and> sres_notifications res = [n] \<and>
        shared_edited r r' \<and> sr_status r' = SharedCancelled \<and>
        get_shared_reminder t (sr_id r) = Some r' \<and>
        list_all2 cancelled_of ps (sres_projections res) \<and>
        (\<forall>p\<in>set (sres_projections res).
           dget (projections_by_id t) (pj_id p) = Some p \<and> deleted t (pj_reminder_id p)) \<and>
        told r' ''cancelled'' (others r account) n t)"

lemma wp_view:
  "wp (view_shared_reminder account shared) Q X =
     (\<lambda>s. case get_shared_reminder s shared of
            None \<Rightarrow> X (SocialSchedulingError ''shared_reminder_not_found'' None) s
          | Some r \<Rightarrow>
              if canon account \<in> set (sr_participants r) then Q r s
              else X (SocialSchedulingError ''shared_reminder_not_found'' None) s)"
  by (simp add: view_shared_reminder_def wp_simps fun_eq_iff split: option.splits)

lemma canon_idem [simp]: "canon (canon a) = canon a"
  by (simp add: canon_def)

lemma cancelled_saved:
  assumes "list_all2 cancelled_of ps ps'" "all_saved E s ps' t u" "p \<in> set ps'"
  shows "dget (projections_by_id u) (pj_id p) = Some p" "deleted u (pj_reminder_id p)"
proof -
  from assms(1,3) have "pj_lifecycle p = SharedCancelled"
    by (auto simp: list_all2_conv_all_nth in_set_conv_nth cancelled_of_def)
  with assms(2,3) show "dget (projections_by_id u) (pj_id p) = Some p" "deleted u (pj_reminder_id p)"
    by (auto simp: all_saved_def)
qed

lemma put_shared_projections [simp]:
  "projections_by_id (put_shared r t) = projections_by_id t"
  "get_shared_reminder (put_shared r t) (sr_id r) = Some r"
  by (simp_all add: put_shared_def get_shared_reminder_def)

lemma all_stored_cong: "projections_by_id u = projections_by_id t \<Longrightarrow> all_stored ps u = all_stored ps t"
  by (simp add: all_stored_def)

lemma wp_cancel_writes:
  assumes inv: "soc_inv E s u" and stored: "all_stored ps u" "get_shared_reminder u (sr_id r') = Some r'"
    and edit: "shared_edited r r'" "sr_status r' = SharedCancelled"
  shows "wp (bind (map_py (cancel_projection E) ps) (\<lambda>ps'.
        bind (create_shared_reminder_notification E P r' ''cancelled'' (Some account) (others r' account)) (\<lambda>n.
        ret ((shared_result_of ''cancelled'' (Some r') ps' []) \<lparr>sres_notifications := [n]\<rparr>))))
    (\<lambda>res v. soc_inv E s v \<and> sres_status res = ''cancelled'' \<and> cancelled_as r ps account res v)
    (\<lambda>_. soc_inv E s) u"
  unfolding wp_bind [of "map_py _ _"]
proof (rule wp_mono [OF wp_cancel_projections [OF inv stored(1)]])
  fix ps' v
  assume v: "list_all2 cancelled_of ps ps' \<and> all_saved E s ps' u v"
  then have inv': "soc_inv E s v" and r': "get_shared_reminder v (sr_id r') = Some r'"
    using stored(2) by (auto simp: all_saved_def)
  have same: "others r' account = others r account" "sr_id r' = sr_id r"
    using edit(1) by (simp_all add: others_def shared_edited_def)
  show "wp (bind (create_shared_reminder_notification E P r' ''cancelled'' (Some account) (others r' account))
        (\<lambda>n. ret ((shared_result_of ''cancelled'' (Some r') ps' []) \<lparr>sres_notifications := [n]\<rparr>)))
      (\<lambda>res v. soc_inv E s v \<and> sres_status res = ''cancelled'' \<and> cancelled_as r ps account res v)
      (\<lambda>_. soc_inv E s) v"
    unfolding wp_bind wp_ret
  proof (rule wp_mono [OF wp_shared_notification [OF inv']], elim conjE, intro conjI)
    fix n w
    assume w: "told r' ''cancelled'' (others r' account) n w" "scheduling w = scheduling v"
    show "cancelled_as r ps account
        ((shared_result_of ''cancelled'' (Some r') ps' []) \<lparr>sres_notifications := [n]\<rparr>) w"
      unfolding cancelled_as_def
      using w edit r' v cancelled_saved [of ps ps' E s u v] scheduling_reads [OF w(2)] same
      by (auto simp: shared_result_of_def)
  qed (simp_all add: shared_result_of_def)
qed

lemma wp_cancel_shared:
  assumes ok: "soc_ok E t"
  shows "wp (cancel_shared_reminder E P account shared g)
    (\<lambda>res u. soc_inv E t u \<and>
       (\<exists>r. get_shared_reminder t shared = Some r \<and> canon account \<in> set (sr_participants r) \<and>
          (sr_status r = SharedCancelled \<and> u = t \<and>
             res = shared_result_of ''already_cancelled'' (Some r) (list_projections t shared) [] \<or>
           sr_status r = SharedActive \<and> sres_status res = ''cancelled'' \<and>
             cancelled_as r (list_projections t shared) (canon account) res u)))
    (\<lambda>_. soc_inv E t) t"
proof -
  have inv: "soc_inv E t t" using ok by (rule soc_inv_refl)
  have put: "soc_inv E t (put_shared r' u)"
    if "get_shared_reminder t shared = Some r" "sr_status r = SharedActive" "soc_inv E t u"
      "get_shared_reminder u = get_shared_reminder t" "shared_edited r r'"
      "sr_status r' = SharedCancelled" "sr_cancelled_at r' \<noteq> None" "sr_duration r' = sr_duration r" for r r' u
  proof (rule inv_put_shared_edit [OF that(3) _ that(5)])
    show "get_shared_reminder u (sr_id r') = Some r"
      using that shared_stored [OF ok that(1)] by (simp add: shared_edited_def)
    show "shared_wf r'"
      using that shared_stored [OF ok that(1)] by (simp add: shared_edited_def shared_wf_def)
  qed (use that(6) in simp)
  have writes: "wp (bind (map_py (cancel_projection E) (list_projections t shared)) (\<lambda>ps'.
        bind (create_shared_reminder_notification E P r' ''cancelled'' (Some (canon account))
               (others r' (canon account))) (\<lambda>n.
        ret ((shared_result_of ''cancelled'' (Some r') ps' []) \<lparr>sres_notifications := [n]\<rparr>))))
      (\<lambda>res v. soc_inv E t v \<and> sres_status res = ''cancelled'' \<and>
         cancelled_as r (list_projections t shared) (canon account) res v)
      (\<lambda>_. soc_inv E t) (put_shared r' u)"
    if "get_shared_reminder t shared = Some r" "sr_status r = SharedActive" "soc_inv E t u"
      "get_shared_reminder u = get_shared_reminder t" "projections_by_id u = projections_by_id t"
      "shared_edited r r'" "sr_status r' = SharedCancelled" "sr_cancelled_at r' \<noteq> None"
      "sr_duration r' = sr_duration r" for r r' u
    using that all_stored_list [OF ok, of shared] all_stored_cong [of "put_shared r' u" t]
    by (intro wp_cancel_writes put [OF that(1-4,6-9)]) simp_all
  have found: "sr_id r = shared" if "get_shared_reminder t shared = Some r" for r
    using shared_stored [OF ok that] by simp
  show ?thesis
    unfolding cancel_shared_reminder_def Let_def save_shared_reminder_def
      wp_bind [of "view_shared_reminder _ _"] wp_bind [of "gets _"] wp_view wp_gets
    using inv
    by (auto simp: wp_bind [of "bind _ _"] wp_bind [of "refuse_if _ _"] wp_bind [of "modify _"]
        wp_bind [of "py_now E"] wp_bind [of "run_commit_guard g"] wp_modify wp_py_now wp_ret soc_wp
        shared_edited_def found not_cancelled split: option.splits intro!: wp_mono [OF writes])
qed

section \<open>Rescheduling\<close>

definition may_reschedule ::
  "soc_ports \<Rightarrow> soc_state \<Rightarrow> shared_reminder \<Rightarrow> projection list \<Rightarrow> local_dt \<Rightarrow> string \<Rightarrow> int \<Rightarrow> bool" where
  "may_reschedule P s r ps local_at timezone minutes \<longleftrightarrow>
     (\<forall>d. get_duplicate_active_shared_reminder s (sr_creator r) (sr_participant_hash r) (sr_title_hash r)
            local_at timezone minutes = Some d \<longrightarrow> sr_id d = sr_id r) \<and>
     (\<exists>end_at. local_plus_minutes local_at minutes = Inr end_at \<and>
        (\<forall>a\<in>set (sr_participants r).
           busy_intervals_for P s a local_at end_at timezone (sr_id r # map pj_reminder_id ps) = Inr [])) \<and>
     (\<forall>a\<in>set (sr_participants r). sp_reachable P a = Inr True)"

definition moved :: "shared_reminder \<Rightarrow> local_dt \<Rightarrow> string \<Rightarrow> int \<Rightarrow> shared_reminder \<Rightarrow> bool" where
  "moved r local_at timezone minutes r' \<longleftrightarrow>
     (\<exists>now. r' = r\<lparr>sr_local := local_at, sr_timezone := timezone, sr_duration := minutes,
                   sr_updated_at := now\<rparr>)"

text \<open>
  After a rescheduling: the reminder has the new time, zone and length; each of its projections
  \<open>ps\<close> is stored again, the active ones with a new time stamp, and each active one is mirrored
  from the reminder as it is now; the other participants are notified.
\<close>

definition touch :: "datetime \<Rightarrow> projection \<Rightarrow> projection" where
  "touch now p = (if pj_lifecycle p = SharedActive then p\<lparr>pj_updated_at := now\<rparr> else p)"

definition rescheduled_as ::
  "env \<Rightarrow> shared_reminder \<Rightarrow> projection list \<Rightarrow> local_dt \<Rightarrow> string \<Rightarrow> int \<Rightarrow> string \<Rightarrow> shared_result \<Rightarrow>
    soc_state \<Rightarrow> bool" where
  "rescheduled_as E r ps local_at timezone minutes account res t \<longleftrightarrow>
     (\<exists>r' n now. sres_reminder res = Some r' \<and> sres_notifications res = [n] \<and>
        moved r local_at timezone minutes r' \<and> get_shared_reminder t (sr_id r) = Some r' \<and>
        sres_projections res = map (touch now) ps \<and>
        (\<forall>p\<in>set (sres_projections res).
           dget (projections_by_id t) (pj_id p) = Some p \<and>
           (pj_lifecycle p = SharedActive \<longrightarrow> mirrored E r' t (pj_reminder_id p))) \<and>
        told r' ''rescheduled'' (others r account) n t)"

lemma moved_edited:
  "moved r local_at timezone minutes r' \<Longrightarrow> sr_status r = SharedActive \<Longrightarrow> shared_edited r r'"
  by (auto simp: moved_def shared_edited_def)

lemma moved_same:
  "moved r local_at timezone minutes r' \<Longrightarrow> sr_id r' = sr_id r \<and> others r' account = others r account"
  by (auto simp: moved_def others_def)

lemma touch_edited: "projection_edited p (touch now p)"
  by (simp add: touch_def projection_edited_def)

lemma wp_reschedule_writes:
  assumes inv: "soc_inv E s u" and stored: "all_stored ps u" "get_shared_reminder u (sr_id r') = Some r'"
    and own: "\<And>p. p \<in> set ps \<Longrightarrow> pj_shared_id p = sr_id r"
    and minutes: "1 \<le> sr_duration r'"
    and moved: "moved r local_at timezone minutes r'"
  shows "wp (bind (for_each (map (touch now) ps) save_projection) (\<lambda>_.
        bind (sync_projection_reminders E r' (map (touch now) ps)) (\<lambda>_.
        bind (create_shared_reminder_notification E P r' ''rescheduled'' (Some account) (others r' account)) (\<lambda>n.
        ret ((shared_result_of ''rescheduled'' (Some r') (map (touch now) ps) [])
               \<lparr>sres_notifications := [n]\<rparr>)))))
    (\<lambda>res v. soc_inv E s v \<and> sres_status res = ''rescheduled'' \<and>
       rescheduled_as E r ps local_at timezone minutes account res v)
    (\<lambda>_. soc_inv E s) u"
  unfolding wp_bind [of "for_each _ _"]
proof (rule wp_mono [OF wp_save_projections [OF inv stored(1) touch_edited]])
  fix v
  assume "all_saved E s (map (touch now) ps) u v"
  then have v: "soc_inv E s v" "get_shared_reminder v (sr_id r') = Some r'"
    "\<forall>p\<in>set (map (touch now) ps). dget (projections_by_id v) (pj_id p) = Some p \<and> pj_shared_id p = sr_id r'"
    using stored(2) own moved_same [OF moved] by (auto simp: all_saved_def touch_def)
  show "wp (bind (sync_projection_reminders E r' (map (touch now) ps)) (\<lambda>_.
        bind (create_shared_reminder_notification E P r' ''rescheduled'' (Some account) (others r' account)) (\<lambda>n.
        ret ((shared_result_of ''rescheduled'' (Some r') (map (touch now) ps) [])
               \<lparr>sres_notifications := [n]\<rparr>))))
      (\<lambda>res v. soc_inv E s v \<and> sres_status res = ''rescheduled'' \<and>
         rescheduled_as E r ps local_at timezone minutes account res v)
      (\<lambda>_. soc_inv E s) v"
    unfolding wp_bind [of "sync_projection_reminders _ _ _"]
  proof (rule wp_mono [OF wp_sync [OF v(1,3) minutes]])
    fix w
    assume w: "synced E s r' (map (touch now) ps) v w"
    then have w': "soc_inv E s w" by (simp add: synced_def)
    show "wp (bind (create_shared_reminder_notification E P r' ''rescheduled'' (Some account) (others r' account))
          (\<lambda>n. ret ((shared_result_of ''rescheduled'' (Some r') (map (touch now) ps) [])
                 \<lparr>sres_notifications := [n]\<rparr>)))
        (\<lambda>res v. soc_inv E s v \<and> sres_status res = ''rescheduled'' \<and>
           rescheduled_as E r ps local_at timezone minutes account res v)
        (\<lambda>_. soc_inv E s) w"
      unfolding wp_bind wp_ret
    proof (rule wp_mono [OF wp_shared_notification [OF w']], elim conjE, intro conjI)
      fix n x
      assume x: "told r' ''rescheduled'' (others r' account) n x" "scheduling x = scheduling w"
      show "rescheduled_as E r ps local_at timezone minutes account
          ((shared_result_of ''rescheduled'' (Some r') (map (touch now) ps) [])
             \<lparr>sres_notifications := [n]\<rparr>) x"
        unfolding rescheduled_as_def
        using moved v(2,3) w x scheduling_reads [OF x(2)] moved_same [OF moved, of account]
        by (intro exI [where x = r'] exI [where x = n] exI [where x = now])
          (auto simp: shared_result_of_def synced_def)
    qed (simp_all add: shared_result_of_def)
  qed simp
qed

lemma wp_store_rescheduled:
  assumes ok: "soc_ok E t" and inv: "soc_inv E t u" and core: "soc_core u = soc_core t"
    and r: "get_shared_reminder t shared = Some r" "sr_status r = SharedActive"
    and minutes: "1 \<le> minutes"
    and may: "may_reschedule P t r (list_projections t shared) local_at timezone minutes"
  shows "wp (store_rescheduled E P account r (list_projections t shared) local_at timezone minutes g)
    (\<lambda>res v. soc_inv E t v \<and> sres_status res = ''rescheduled'' \<and>
       rescheduled_as E r (list_projections t shared) local_at timezone minutes account res v)
    (\<lambda>_. soc_inv E t) u"
proof -
  have id: "sr_id r = shared" "shared_wf r" using shared_stored [OF ok r(1)] by auto
  have put: "soc_inv E t (put_shared r' v)"
    if v: "soc_inv E t v" "get_shared_reminder v = get_shared_reminder t"
      and r': "moved r local_at timezone minutes r'" for r' v
  proof (rule inv_put_shared_edit [OF v(1) _ moved_edited [OF r' r(2)]])
    show "get_shared_reminder v (sr_id r') = Some r" using v(2) r(1) id moved_same [OF r'] by simp
    show "shared_wf r'" using r' id(2) minutes by (auto simp: moved_def shared_wf_def)
    show "j = sr_id r'" if b: "get_shared_reminder v j = Some b" "same_shared r' b" for j b
    proof -
      have k: "keyed sr_id (shared_by_id t)" using ok by (simp add: soc_ok_def shareds_ok_def)
      define test where "test = duplicates_shared (sr_creator r) (sr_participant_hash r) (sr_title_hash r)
        local_at timezone minutes"
      have tb: "test b" using b(2) r' by (auto simp: test_def same_shared_def moved_def)
      have jb: "get_shared_reminder t j = Some b" using b(1) v(2) by simp
      have "find test (dvalues (shared_by_id t)) \<noteq> None"
        using find_none [of test "shared_by_id t" j b] jb tb by (auto simp: get_shared_reminder_def)
      then obtain d where d: "find test (dvalues (shared_by_id t)) = Some d" by blast
      have "sr_id d = sr_id r"
        using may d by (simp add: may_reschedule_def get_duplicate_active_shared_reminder_def test_def)
      with find_keyed [OF k d] r(1) id have "test r" by (simp add: get_shared_reminder_def)
      with tb have "same_shared r b" by (auto simp: test_def same_shared_def duplicates_shared_def)
      with ok r(1,2) jb have "shared = j" unfolding soc_ok_def shareds_ok_def by blast
      then show ?thesis using id moved_same [OF r'] by simp
    qed
  qed
  have writes: "wp (bind (for_each (map (touch now) (list_projections t shared)) save_projection) (\<lambda>_.
        bind (sync_projection_reminders E r' (map (touch now) (list_projections t shared))) (\<lambda>_.
        bind (create_shared_reminder_notification E P r' ''rescheduled'' (Some account) (others r' account)) (\<lambda>n.
        ret ((shared_result_of ''rescheduled'' (Some r') (map (touch now) (list_projections t shared)) [])
               \<lparr>sres_notifications := [n]\<rparr>)))))
      (\<lambda>res v. soc_inv E t v \<and> sres_status res = ''rescheduled'' \<and>
         rescheduled_as E r (list_projections t shared) local_at timezone minutes account res v)
      (\<lambda>_. soc_inv E t) (put_shared r' v)"
    if "soc_inv E t v" "get_shared_reminder v = get_shared_reminder t" "projections_by_id v = projections_by_id t"
      "moved r local_at timezone minutes r'" for r' v now
    using that all_stored_list [OF ok, of shared] all_stored_cong [of "put_shared r' v" t]
    by (intro wp_reschedule_writes put [OF that(1,2,4)])
      (use minutes in \<open>auto simp: id list_projections_def moved_def\<close>)
  have moving: "moved r local_at timezone minutes
      (r\<lparr>sr_local := local_at, sr_timezone := timezone, sr_duration := minutes, sr_updated_at := now\<rparr>)" for now
    by (auto simp: moved_def)
  show ?thesis
    unfolding store_rescheduled_def Let_def touch_def [symmetric] save_shared_reminder_def
      wp_bind [of "py_now E"] wp_bind [of "run_commit_guard g"]
    using inv core_reads [OF core] core_fields [OF core] moving
    by (auto simp: wp_bind [of "bind _ _"] wp_bind [of "refuse_if _ _"] wp_bind [of "modify _"]
        wp_modify wp_py_now soc_wp id split: option.splits intro!: wp_mono [OF writes])
qed

lemma wp_reschedule_checked:
  assumes ok: "soc_ok E t" and inv: "soc_inv E t u" and core: "soc_core u = soc_core t"
    and r: "get_shared_reminder t shared = Some r" "sr_status r = SharedActive"
    and minutes: "1 \<le> minutes"
  shows "wp (reschedule_checked E P account r (list_projections t shared) local_at timezone minutes g)
    (\<lambda>res v. soc_inv E t v \<and>
       (refused ''rescheduled'' t res v \<or>
        sres_status res = ''rescheduled'' \<and>
        may_reschedule P t r (list_projections t shared) local_at timezone minutes \<and>
        rescheduled_as E r (list_projections t shared) local_at timezone minutes account res v))
    (\<lambda>_. soc_inv E t) u"
proof -
  define ps where "ps = list_projections t shared"
  have store: "wp (store_rescheduled E P account r ps local_at timezone minutes g)
      (\<lambda>res v. soc_inv E t v \<and>
         (refused ''rescheduled'' t res v \<or>
          sres_status res = ''rescheduled'' \<and> may_reschedule P t r ps local_at timezone minutes \<and>
          rescheduled_as E r ps local_at timezone minutes account res v))
      (\<lambda>_. soc_inv E t) u"
    if "may_reschedule P t r ps local_at timezone minutes"
    unfolding ps_def
    by (rule wp_mono [OF wp_store_rescheduled [OF ok inv core r minutes that [unfolded ps_def]]])
      (use that [unfolded ps_def] in blast)+
  have may: "may_reschedule P t r ps local_at timezone minutes"
    if "\<And>d. get_duplicate_active_shared_reminder t (sr_creator r) (sr_participant_hash r) (sr_title_hash r)
            local_at timezone minutes = Some d \<Longrightarrow> sr_id d = sr_id r"
      "local_plus_minutes local_at minutes = Inr end_at"
      "conflicting_of P t (sr_participants r) local_at end_at timezone (sr_id r # map pj_reminder_id ps) = Inr []"
      "unreachable_of P (sr_participants r) = Inr []" for end_at
    using that unfolding may_reschedule_def no_conflicts all_reachable by blast
  have refuse: "refused ''rescheduled'' t (shared_result_of ''duplicate'' x y z) u"
    "refused ''rescheduled'' t (blocked_result c a b) u" for x y z c a b
    by (simp_all add: refused_def shared_result_of_def blocked_result_def core)
  have conflicting: "conflicting_of P u = conflicting_of P t"
    by (simp add: conflicting_of_def fun_eq_iff core_reads [OF core])
  show ?thesis
    unfolding ps_def [symmetric] reschedule_checked_def Let_def wp_bind [of "gets id"] wp_gets
    using inv refuse store [OF may]
    by (auto simp: wp_bind wp_lift wp_ret wp_if core_reads [OF core] conflicting
        split: option.splits sum.splits if_splits)
qed

text \<open>What becomes of a request to reschedule; \<open>no_change\<close> is the replay of one that was made.\<close>

definition rescheduling ::
  "env \<Rightarrow> soc_ports \<Rightarrow> soc_state \<Rightarrow> shared_reminder \<Rightarrow> (datetime \<times> bool) option \<Rightarrow> string option \<Rightarrow>
    pyval option \<Rightarrow> string \<Rightarrow> shared_result \<Rightarrow> soc_state \<Rightarrow> bool" where
  "rescheduling E P s r trigger timezone0 duration account res t \<longleftrightarrow>
     (let local_at = (case trigger of None \<Rightarrow> sr_local r | Some w \<Rightarrow> as_local_wall_clock w);
          timezone = (case timezone0 of None \<Rightarrow> sr_timezone r
                      | Some z \<Rightarrow> if z = [] then sr_timezone r else z)
      in sr_status r = SharedActive \<and> (trigger \<noteq> None \<or> duration \<noteq> None) \<and>
         lies_ahead E (env_now E (clock s)) local_at timezone \<and>
         (\<exists>minutes.
            (case duration of None \<Rightarrow> minutes = sr_duration r
             | Some d \<Rightarrow> shared_duration_minutes d = Inr minutes) \<and>
            may_reschedule P s r (list_projections s (sr_id r)) local_at timezone minutes \<and>
            rescheduled_as E r (list_projections s (sr_id r)) local_at timezone minutes account res t))"

definition no_change :: "shared_reminder \<Rightarrow> shared_result \<Rightarrow> bool" where
  "no_change r res \<longleftrightarrow>
     sres_status res = ''rescheduled'' \<and> sres_reminder res = Some r \<and> sres_notifications res = []"

lemma wp_update_shared:
  assumes ok: "soc_ok E t"
  shows "wp (update_shared_reminder E P account shared trigger timezone0 duration replay g)
    (\<lambda>res u. soc_inv E t u \<and>
       (\<exists>r. get_shared_reminder t shared = Some r \<and> canon account \<in> set (sr_participants r) \<and>
          (refused ''rescheduled'' t res u \<or> replay \<and> no_change r res \<and> soc_core u = soc_core t \<or>
           sres_status res = ''rescheduled'' \<and>
           rescheduling E P t r trigger timezone0 duration (canon account) res u)))
    (\<lambda>_. soc_inv E t) t"
proof -
  have inv: "soc_inv E t t" using ok by (rule soc_inv_refl)
  have checked: "wp (reschedule_checked E P (canon account) r (list_projections t shared) local_at timezone minutes g)
      (\<lambda>res v. soc_inv E t v \<and>
         (\<exists>r. get_shared_reminder t shared = Some r \<and> canon account \<in> set (sr_participants r) \<and>
            (refused ''rescheduled'' t res v \<or> replay \<and> no_change r res \<and> soc_core v = soc_core t \<or>
             sres_status res = ''rescheduled'' \<and>
             rescheduling E P t r trigger timezone0 duration (canon account) res v)))
      (\<lambda>_. soc_inv E t) u"
    if r: "get_shared_reminder t shared = Some r" "canon account \<in> set (sr_participants r)"
      "sr_status r = SharedActive" and u: "soc_inv E t u" "soc_core u = soc_core t"
      and given: "trigger \<noteq> None \<or> duration \<noteq> None"
      "local_at = (case trigger of None \<Rightarrow> sr_local r | Some w \<Rightarrow> as_local_wall_clock w)"
      "timezone = (case timezone0 of None \<Rightarrow> sr_timezone r | Some z \<Rightarrow> if z = [] then sr_timezone r else z)"
      "case duration of None \<Rightarrow> minutes = sr_duration r | Some d \<Rightarrow> shared_duration_minutes d = Inr minutes"
      "lies_ahead E (env_now E (clock t)) local_at timezone"
    for r u local_at timezone minutes
  proof (rule wp_mono [OF wp_reschedule_checked [OF ok u r(1,3)]])
    have id: "sr_id r = shared" "1 \<le> sr_duration r"
      using shared_stored [OF ok r(1)] by (auto simp: shared_wf_def)
    then show "1 \<le> minutes"
      using given(4) by (auto split: option.splits dest: shared_duration_ge)
    show "soc_inv E t v \<and>
        (\<exists>r. get_shared_reminder t shared = Some r \<and> canon account \<in> set (sr_participants r) \<and>
           (refused ''rescheduled'' t res v \<or> replay \<and> no_change r res \<and> soc_core v = soc_core t \<or>
            sres_status res = ''rescheduled'' \<and>
            rescheduling E P t r trigger timezone0 duration (canon account) res v))"
      if "soc_inv E t v \<and>
        (refused ''rescheduled'' t res v \<or>
         sres_status res = ''rescheduled'' \<and>
         may_reschedule P t r (list_projections t shared) local_at timezone minutes \<and>
         rescheduled_as E r (list_projections t shared) local_at timezone minutes (canon account) res v)" for res v
      using that r given id unfolding rescheduling_def Let_def by auto
  qed
  have validate: "wp (bind (validate_shared_trigger_time E local_at timezone) (\<lambda>state.
        if state \<noteq> ''valid_future''
        then ret (shared_result_of state (Some r) ps (time_state_facts state local_at timezone)) else m))
      Q X t"
    if "\<And>state u. soc_inv E t u \<Longrightarrow> soc_core u = soc_core t \<Longrightarrow>
          state \<in> {''invalid'', ''needs_past_time_confirmation''} \<Longrightarrow>
          Q (shared_result_of state (Some r) ps (time_state_facts state local_at timezone)) u"
      "\<And>u. soc_inv E t u \<Longrightarrow> soc_core u = soc_core t \<Longrightarrow>
          lies_ahead E (env_now E (clock t)) local_at timezone \<Longrightarrow> wp m Q X u"
      "\<And>e u. soc_inv E t u \<Longrightarrow> X e u" for local_at timezone r ps m Q X
    unfolding wp_bind
  proof (rule wp_mono [OF wp_validate_time [OF inv]])
    fix state u
    assume u: "soc_inv E t u \<and> soc_core u = soc_core t \<and>
      state \<in> {''invalid'', ''needs_past_time_confirmation'', ''valid_future''} \<and>
      (state = ''valid_future'' \<longrightarrow> lies_ahead E (env_now E (clock t)) local_at timezone)"
    show "wp (if state \<noteq> ''valid_future''
        then ret (shared_result_of state (Some r) ps (time_state_facts state local_at timezone)) else m) Q X u"
    proof (cases "state = ''valid_future''")
      case True
      with u that(2) [of u] show ?thesis by simp
    next
      case False
      with u have "state \<in> {''invalid'', ''needs_past_time_confirmation''}" by blast
      with u False that(1) [of u state] show ?thesis by (simp add: wp_ret)
    qed
  qed (rule that(3))
  define post where "post = (\<lambda>res v. soc_inv E t v \<and>
    (\<exists>r. get_shared_reminder t shared = Some r \<and> canon account \<in> set (sr_participants r) \<and>
       (refused ''rescheduled'' t res v \<or> replay \<and> no_change r res \<and> soc_core v = soc_core t \<or>
        sres_status res = ''rescheduled'' \<and>
        rescheduling E P t r trigger timezone0 duration (canon account) res v)))"
  have settled: "post res u"
    if "get_shared_reminder t shared = Some r" "canon account \<in> set (sr_participants r)" "soc_inv E t u"
      "soc_core u = soc_core t" "sres_status res \<noteq> ''rescheduled'' \<or> replay \<and> no_change r res" for r res u
    using that by (auto simp: post_def refused_def)
  have body: "wp (if fst local_at = fst (sr_local r) \<and> timezone = sr_timezone r \<and> minutes = sr_duration r
        then
          ret (if replay then shared_result_of ''rescheduled'' (Some r) (list_projections t shared) []
               else shared_result_of ''needs_update_fields'' (Some r) (list_projections t shared)
                      [(''missing'', PyStr ''time_or_duration''), (''reason'', PyStr ''no_change'')])
        else
          bind (validate_shared_trigger_time E local_at timezone) (\<lambda>state.
          if state \<noteq> ''valid_future''
          then ret (shared_result_of state (Some r) (list_projections t shared)
                      (time_state_facts state local_at timezone))
          else reschedule_checked E P (canon account) r (list_projections t shared) local_at timezone minutes g))
      post (\<lambda>_. soc_inv E t) t"
    if r: "get_shared_reminder t shared = Some r" "canon account \<in> set (sr_participants r)"
      "sr_status r = SharedActive"
      and given: "trigger \<noteq> None \<or> duration \<noteq> None"
      "local_at = (case trigger of None \<Rightarrow> sr_local r | Some w \<Rightarrow> as_local_wall_clock w)"
      "timezone = (case timezone0 of None \<Rightarrow> sr_timezone r | Some z \<Rightarrow> if z = [] then sr_timezone r else z)"
      "case duration of None \<Rightarrow> minutes = sr_duration r | Some d \<Rightarrow> shared_duration_minutes d = Inr minutes"
    for r local_at timezone minutes
  proof -
    have refuse: "post (shared_result_of status x y z) u"
      if "status \<noteq> ''rescheduled''" "soc_inv E t u" "soc_core u = soc_core t" for status x y z u
      using settled [OF r(1,2) that(2,3)] that(1) by (simp add: shared_result_of_def)
    have replayed: "post (shared_result_of ''rescheduled'' (Some r) y []) t" if replay for y
      using settled [OF r(1,2) inv] that by (simp add: shared_result_of_def no_change_def)
    have "wp (bind (validate_shared_trigger_time E local_at timezone) (\<lambda>state.
          if state \<noteq> ''valid_future''
          then ret (shared_result_of state (Some r) (list_projections t shared)
                      (time_state_facts state local_at timezone))
          else reschedule_checked E P (canon account) r (list_projections t shared) local_at timezone minutes g))
        post (\<lambda>_. soc_inv E t) t"
      by (rule validate) (auto intro: refuse checked [OF r _ _ given, folded post_def])
    with refuse [OF _ inv] replayed show ?thesis by (simp add: wp_ret)
  qed
  have "wp (update_shared_reminder E P account shared trigger timezone0 duration replay g) post (\<lambda>_. soc_inv E t) t"
  proof (cases "\<exists>r. get_shared_reminder t shared = Some r \<and> canon account \<in> set (sr_participants r)")
    case False
    then show ?thesis
      using inv
      by (auto simp: update_shared_reminder_def Let_def wp_bind [of "view_shared_reminder _ _"] wp_view
          split: option.splits)
  next
    case True
    then obtain r where r: "get_shared_reminder t shared = Some r" "canon account \<in> set (sr_participants r)"
      by blast
    have refuse: "post (shared_result_of status x y z) t" if "status \<noteq> ''rescheduled''" for status x y z
      using settled [OF r inv] that by (simp add: shared_result_of_def)
    consider "sr_status r = SharedCancelled \<or> trigger = None \<and> duration = None"
      | (active) "sr_status r = SharedActive" "trigger \<noteq> None \<or> duration \<noteq> None"
      using not_cancelled [of "sr_status r"] by blast
    then show ?thesis
    proof cases
      case 1
      then show ?thesis
        using r refuse
        by (auto simp: update_shared_reminder_def Let_def wp_bind [of "view_shared_reminder _ _"] wp_view
            wp_bind [of "gets _"] wp_gets wp_ret)
    next
      case active
      note body = body [OF r active refl refl]
      show ?thesis
      proof (cases duration)
        case None
        with active(2) have given: "(trigger = None) = False" by blast
        from None body [of "sr_duration r"] r active(1) show ?thesis
          by (simp add: given update_shared_reminder_def Let_def wp_bind [of "view_shared_reminder _ _"] wp_view
              wp_bind [of "gets _"] wp_gets)
      next
        case (Some d)
        show ?thesis
        proof (cases "shared_duration_minutes d")
          case (Inl e)
          with Some r active(1) inv show ?thesis
            by (simp add: update_shared_reminder_def Let_def wp_bind [of "view_shared_reminder _ _"] wp_view
                wp_bind [of "gets _"] wp_gets wp_bind [of "lift _"] wp_lift)
        next
          case (Inr m)
          with Some body [of m] r active(1) show ?thesis
            by (simp add: update_shared_reminder_def Let_def wp_bind [of "view_shared_reminder _ _"] wp_view
                wp_bind [of "gets _"] wp_gets wp_bind [of "lift _"] wp_lift)
        qed
      qed
    qed
  qed
  then show ?thesis by (simp only: post_def)
qed

end
