(* ===== verification/SocRuntime.thy ===== *)
theory SocRuntime
  imports SocOutcomes
begin

text \<open>
  The social scheduling service as a state machine: its calls, the step they make, and the states
  they reach from the empty store. Every reachable store has the invariant, and every later store
  extends an earlier one.
\<close>

section \<open>The remaining operations\<close>

lemma keeps_create_shared [soc_keeps]:
  "preserves (soc_inv E s) (create_shared_reminder E P creator receivers title trigger timezone duration g)"
  by (rule preservesI, rule wp_mono [OF wp_create_shared]) auto

lemma keeps_detect_shared [soc_keeps]:
  "preserves (soc_inv E s)
     (detect_and_create_shared_reminder E P creator receivers words title timezone duration g)"
  unfolding detect_and_create_shared_reminder_def run_shared_detector_def
  by (intro preserves_intros soc_keeps)

lemma keeps_cancel_shared [soc_keeps]:
  "preserves (soc_inv E s) (cancel_shared_reminder E P account shared g)"
  by (rule keepsI, rule wp_mono [OF wp_cancel_shared]) auto

lemma keeps_update_shared [soc_keeps]:
  "preserves (soc_inv E s) (update_shared_reminder E P account shared trigger timezone duration replay g)"
  by (rule keepsI, rule wp_mono [OF wp_update_shared]) auto

lemma projection_stored:
  assumes "soc_ok E t" "get_projection t shared account = Some p"
  shows "dget (projections_by_id t) (pj_id p) = Some p" "pj_shared_id p = shared" "pj_account_id p = account"
proof -
  have ix: "id_indexed pj_id projection_key (projections_by_id t) (projection_by_key t)"
    using assms(1) by (simp add: soc_ok_def projections_ok_def)
  have "via_index (projection_by_key t) (projections_by_id t) (shared, account) = Some p"
    using assms(2) by (auto simp: get_projection_def via_index_def split: option.splits if_splits)
  then obtain i where i: "dget (projections_by_id t) i = Some p" "projection_key p = (shared, account)"
    using id_indexed_via [OF ix] by blast
  moreover have "pj_id p = i" using keyed_get [OF id_indexed_keyed [OF ix] i(1)] .
  ultimately show "dget (projections_by_id t) (pj_id p) = Some p" "pj_shared_id p = shared"
    "pj_account_id p = account"
    by (simp_all add: projection_key_def)
qed

lemma wp_complete_own:
  assumes ok: "soc_ok E t"
  shows "wp (complete_own_projection E account shared g)
    (\<lambda>p' u. soc_inv E t u \<and>
       (\<exists>r p now. get_shared_reminder t shared = Some r \<and> canon account \<in> set (sr_participants r) \<and>
          get_projection t shared (canon account) = Some p \<and>
          p' = p\<lparr>pj_completion := CompletionDone, pj_updated_at := now\<rparr> \<and>
          projections_by_id u = dput (pj_id p) p' (projections_by_id t)))
    (\<lambda>_. soc_inv E t) t"
proof -
  have inv: "soc_inv E t t" using ok by (rule soc_inv_refl)
  have save: "wp (save_projection p') (\<lambda>_. saved E t p' u) (\<lambda>_. soc_inv E t) u"
    if "get_projection t shared (canon account) = Some p" "soc_inv E t u"
      "projections_by_id u = projections_by_id t"
      "p' = p\<lparr>pj_completion := CompletionDone, pj_updated_at := now\<rparr>" for p p' u now
    using projection_stored [OF ok that(1)] that
    by (intro wp_save_projection [where q = p]) (auto simp: projection_edited_def)
  show ?thesis
    unfolding complete_own_projection_def Let_def wp_bind [of "view_shared_reminder _ _"] wp_view
      wp_bind [of "gets _"] wp_gets canon_idem
    using inv
    by (auto simp: wp_simps soc_wp saved_def split: option.splits intro!: wp_mono [OF save])
qed

lemma keeps_complete_own [soc_keeps]: "preserves (soc_inv E s) (complete_own_projection E account shared g)"
  by (rule keepsI, rule wp_mono [OF wp_complete_own]) auto

section \<open>Calls and steps\<close>

datatype soc_call =
    GetOrCreateLink string soc_guard
  | ResetLink string soc_guard
  | DisableLink string soc_guard
  | JoinByToken string string soc_guard
  | JoinByCode string string soc_guard
  | JoinDeferred string string soc_guard
  | RemoveFriend string string soc_guard
  | CreateShared string "string list" "string option" "(datetime \<times> bool) option" string
      "pyval option" soc_guard
  | DetectShared string "string list" string "string option" string "pyval option" soc_guard
  | CancelShared string string soc_guard
  | UpdateShared string string "(datetime \<times> bool) option" "string option" "pyval option" bool soc_guard
  | CompleteOwn string string soc_guard
  | RecordDelivery string string delivery_state fact "string option"
  | Reconcile disposition_lookup int

definition done_with :: "'a soc \<Rightarrow> unit soc" where
  "done_with m = bind m (\<lambda>_. ret ())"

fun do_soc_call :: "env \<Rightarrow> soc_ports \<Rightarrow> soc_call \<Rightarrow> unit soc" where
  "do_soc_call E P (GetOrCreateLink a g) = done_with (get_or_create_friend_link E P a g)"
| "do_soc_call E P (ResetLink a g) = done_with (reset_friend_link E P a g)"
| "do_soc_call E P (DisableLink a g) = done_with (disable_friend_link E P a g)"
| "do_soc_call E P (JoinByToken a t g) = done_with (establish_friendship_from_token E P a t g)"
| "do_soc_call E P (JoinByCode a c g) = done_with (establish_friendship_from_code E P a c g)"
| "do_soc_call E P (JoinDeferred a l g) = done_with (complete_deferred_friend_link E P a l g)"
| "do_soc_call E P (RemoveFriend a f g) = done_with (remove_friend E a f g)"
| "do_soc_call E P (CreateShared a rs title trigger z d g) =
     done_with (create_shared_reminder E P a rs title trigger z d g)"
| "do_soc_call E P (DetectShared a rs words title z d g) =
     done_with (detect_and_create_shared_reminder E P a rs words title z d g)"
| "do_soc_call E P (CancelShared a i g) = done_with (cancel_shared_reminder E P a i g)"
| "do_soc_call E P (UpdateShared a i trigger z d replay g) =
     done_with (update_shared_reminder E P a i trigger z d replay g)"
| "do_soc_call E P (CompleteOwn a i g) = done_with (complete_own_projection E a i g)"
| "do_soc_call E P (RecordDelivery f a state errors turn) =
     done_with (record_notification_delivery E P f a state errors turn)"
| "do_soc_call E P (Reconcile runtime older) =
     done_with (reconcile_terminal_notification_recipients E P runtime older)"

text \<open>The ports answer anew at each call.\<close>

inductive soc_step :: "env \<Rightarrow> soc_state \<Rightarrow> soc_state \<Rightarrow> bool" for E where
  call: "do_soc_call E P c s = (res, t) \<Longrightarrow> soc_step E s t"

inductive_simps soc_step_iff: "soc_step E s t"

inductive soc_reachable :: "env \<Rightarrow> soc_state \<Rightarrow> bool" for E where
  empty: "soc_reachable E empty_soc_state"
| step: "soc_reachable E s \<Longrightarrow> soc_step E s t \<Longrightarrow> soc_reachable E t"

lemma keeps_done: "preserves I m \<Longrightarrow> preserves I (done_with m)"
  unfolding done_with_def by (intro preserves_intros)

lemma keeps_soc_call: "preserves (soc_inv E s) (do_soc_call E P c)"
  by (cases c) (auto intro!: keeps_done soc_keeps)

lemma step_inv: "soc_step E s t \<Longrightarrow> soc_ok E s \<Longrightarrow> soc_inv E s t"
  unfolding soc_step_iff using preserves_run [OF keeps_soc_call] soc_inv_refl by blast

lemma reachable_soc_ok: "soc_reachable E s \<Longrightarrow> soc_ok E s"
  by (induction rule: soc_reachable.induct) (auto dest: step_inv soc_inv_ok)

lemma steps_inv: "(soc_step E)\<^sup>*\<^sup>* s t \<Longrightarrow> soc_ok E s \<Longrightarrow> soc_inv E s t"
proof (induction rule: rtranclp_induct)
  case base
  then show ?case by (rule soc_inv_refl)
next
  case (step t u)
  then have "soc_inv E s t" by blast
  with step_inv [OF step.hyps(2) soc_inv_ok] show ?case by (blast intro: soc_inv_trans)
qed

lemma reachable_steps: "soc_reachable E s \<Longrightarrow> (soc_step E)\<^sup>*\<^sup>* s t \<Longrightarrow> soc_reachable E t"
  by (rotate_tac, induction rule: rtranclp_induct) (auto intro: soc_reachable.intros)

text \<open>A run of calls, for the closed examples.\<close>

fun run_soc_calls :: "env \<Rightarrow> (soc_ports \<times> soc_call) list \<Rightarrow> soc_state \<Rightarrow> soc_state" where
  "run_soc_calls E [] s = s"
| "run_soc_calls E ((P, c) # cs) s = run_soc_calls E cs (snd (do_soc_call E P c s))"

lemma run_soc_calls_steps: "(soc_step E)\<^sup>*\<^sup>* s (run_soc_calls E cs s)"
proof (induction E cs s rule: run_soc_calls.induct)
  case (2 E P c cs s)
  have "soc_step E s (snd (do_soc_call E P c s))"
    by (rule soc_step.call [where res = "fst (do_soc_call E P c s)"]) simp
  from converse_rtranclp_into_rtranclp [OF this 2] show ?case by simp
qed simp

lemma reachable_run_soc_calls: "soc_reachable E s \<Longrightarrow> soc_reachable E (run_soc_calls E cs s)"
  using reachable_steps run_soc_calls_steps by blast

end
