(* ===== verification/SocJoining.thy ===== *)
theory SocJoining
  imports SocRuntime ConvRuntime
begin

text \<open>
  What joining a friend by a link and settling the recipients of ended turns do. Settling reads the
  conversation runtime, whose store is another component's: its disposition lookup is taken from there.
\<close>

section \<open>Joining\<close>

lemma active_friendship_is:
  assumes "soc_ok E t" "get_friendship t i = Some f" "active_pair (unordered_pair a b) f"
  shows "get_active_friendship t a b = Some f"
proof -
  have f: "f \<in> set (dvalues (friendships_by_id t))"
    using assms(2) by (auto simp: get_friendship_def dest: dget_values)
  then obtain g where g: "get_active_friendship t a b = Some g"
    using assms(3) unfolding get_active_friendship_def
    by (metis find_None_iff not_None_eq)
  from active_friendship_stored [OF assms(1) g] assms(2,3) have "i = fs_id g"
    using assms(1) unfolding soc_ok_def friendships_ok_def by (auto simp: active_pair_def)
  with active_friendship_stored(1) [OF assms(1) g] assms(2) g show ?thesis by simp
qed

definition befriended :: "string \<Rightarrow> string \<Rightarrow> friendship \<Rightarrow> soc_state \<Rightarrow> bool" where
  "befriended joiner owner f t \<longleftrightarrow>
     get_active_friendship t joiner owner = Some f \<and>
     (\<exists>n. nf_type n = ''friendship_created'' \<and> nf_object_id n = fs_id f \<and>
        notified n (sorted_set [joiner, owner]) t)"

lemma sorted_pair: "sorted_set (sort [fst (unordered_pair a b), snd (unordered_pair a b)]) = sorted_set [a, b]"
proof -
  have "set (sort [fst (unordered_pair a b), snd (unordered_pair a b)]) = set [a, b]"
    by (auto simp: unordered_pair_def)
  then show ?thesis
    by (metis sorted_list_of_set_sort_remdups sorted_set_def)
qed

lemma wp_friendship_notification:
  assumes "soc_inv E s t"
  shows "wp (create_friendship_notification E P f actor)
    (\<lambda>n u. soc_inv E s u \<and> notified n (sorted_set (sort [fs_low f, fs_high f])) u \<and>
       nf_type n = ''friendship_created'' \<and> nf_object_id n = fs_id f \<and> scheduling u = scheduling t)
    (\<lambda>_. soc_inv E s) t"
proof -
  have "wp (create_friendship_notification E P f actor)
      (\<lambda>n u. soc_inv E s u \<and> notified n (sorted_set (sort [fs_low f, fs_high f])) u \<and>
         nf_type n = ''friendship_created'' \<and> nf_object_id n = fs_id f)
      (\<lambda>_. soc_inv E s) t"
    unfolding create_friendship_notification_def Let_def wp_bind wp_lift wp_py_now
    using assms by (auto split: sum.splits intro!: wp_mono [OF wp_create_fact])
  moreover have "preserves (\<lambda>u. scheduling u = scheduling t) (create_friendship_notification E P f actor)"
    unfolding create_friendship_notification_def Let_def py_now_def
    by (intro preserves_intros scheduling_create_fact) (simp add: preserves_def wp_def scheduling_def)
  then have "wp (create_friendship_notification E P f actor)
      (\<lambda>_ u. scheduling u = scheduling t) (\<lambda>_ u. scheduling u = scheduling t) t"
    by (simp add: preserves_def)
  ultimately have "wp (create_friendship_notification E P f actor)
      (\<lambda>n u. (soc_inv E s u \<and> notified n (sorted_set (sort [fs_low f, fs_high f])) u \<and>
         nf_type n = ''friendship_created'' \<and> nf_object_id n = fs_id f) \<and> scheduling u = scheduling t)
      (\<lambda>_ u. soc_inv E s u \<and> scheduling u = scheduling t) t"
    by (rule wp_conj)
  then show ?thesis by (rule wp_mono) simp_all
qed

lemma wp_new_friendship:
  assumes inv: "soc_inv E s t" and other: "joiner \<noteq> owner"
  shows "wp (new_friendship E P joiner owner g)
    (\<lambda>f u. soc_inv E s u \<and> befriended joiner owner f u) (\<lambda>_. soc_inv E s) t"
proof -
  define low where "low = fst (unordered_pair joiner owner)"
  define high where "high = snd (unordered_pair joiner owner)"
  have pair: "unordered_pair joiner owner = (low, high)" by (simp add: low_def high_def)
  have less: "low < high" using other by (auto simp: low_def high_def unordered_pair_def)
  have tell: "wp (bind (create_friendship_notification E P f joiner) (\<lambda>_. ret f))
      (\<lambda>f u. soc_inv E s u \<and> befriended joiner owner f u) (\<lambda>_. soc_inv E s) (put_friendship f u)"
    if u: "soc_inv E s u" "get_friendship u (fs_id f) = None" "get_active_friendship u (fs_low f) (fs_high f) = None"
      and f: "fs_low f = low" "fs_high f = high" "fs_lifecycle f = FriendshipActive" "fs_removed_at f = None" for f u
  proof -
    have put: "soc_inv E s (put_friendship f u)"
      using less f by (intro inv_put_friendship_new [OF u(1) _ u(2)]) (auto simp: friendship_wf_def u(3) [unfolded f])
    have at: "get_friendship v (fs_id f) = Some f" if "scheduling v = scheduling (put_friendship f u)" for v
      using that by (simp add: scheduling_def put_friendship_def get_friendship_def)
    have active: "active_pair (unordered_pair joiner owner) f" using f pair by (simp add: active_pair_def)
    have names: "sorted_set (sort [fs_low f, fs_high f]) = sorted_set [joiner, owner]"
      unfolding f low_def high_def by (rule sorted_pair)
    show ?thesis
      unfolding wp_bind wp_ret
      by (rule wp_mono [OF wp_friendship_notification [where f = f, OF put, unfolded names]])
        (auto simp: befriended_def intro: active_friendship_is [OF soc_inv_ok at active])
  qed
  have low: "unordered_pair low high = (low, high)" using less less_imp_le [of low high] by (simp add: unordered_pair_def)
  show ?thesis
    unfolding new_friendship_def pair prod.case Let_def add_friendship_def
    using inv tell
    by (auto simp: wp_bind [of "bind _ _"] wp_bind [of "refuse_if _ _"] wp_bind [of "modify _"]
        wp_bind [of "py_now E"] wp_bind [of "soc_new_id _ _"] wp_bind [of "run_commit_guard g"]
        wp_modify wp_py_now soc_wp split: option.splits)
qed

lemma wp_establish:
  assumes ok: "soc_ok E t"
  shows "wp (establish_from_link E P joiner l g)
    (\<lambda>res u. soc_inv E t u \<and> fl_lifecycle l = LinkActive \<and>
       sp_reachable P (fl_owner_account_id l) = Inr True \<and> joiner \<noteq> fl_owner_account_id l \<and>
       fsr_counterpart_id res = fl_owner_account_id l \<and>
       (fsr_status res = ''already_active'' \<and> u = t \<and>
          get_active_friendship t joiner (fl_owner_account_id l) = Some (fsr_friendship res) \<or>
        fsr_status res = ''created'' \<and> get_active_friendship t joiner (fl_owner_account_id l) = None \<and>
          befriended joiner (fl_owner_account_id l) (fsr_friendship res) u))
    (\<lambda>_. soc_inv E t) t"
proof -
  have inv: "soc_inv E t t" using ok by (rule soc_inv_refl)
  have link: "fl_lifecycle l = LinkActive" if "fl_lifecycle l \<noteq> LinkDisabled"
    using that by (cases "fl_lifecycle l") simp_all
  have new: "wp (new_friendship E P joiner (fl_owner_account_id l) g)
      (\<lambda>f u. soc_inv E t u \<and> befriended joiner (fl_owner_account_id l) f u) (\<lambda>_. soc_inv E t) t"
    if "joiner \<noteq> fl_owner_account_id l"
    using inv that by (rule wp_new_friendship)
  show ?thesis
    unfolding establish_from_link_def
    using inv
    by (auto simp: wp_simps soc_wp result_of_friendship_def sbind_Inr_iff split: sum.splits option.splits
        intro!: wp_mono [OF new])
qed

section \<open>What links and availability show\<close>

lemma shown_by_link:
  assumes "soc_ok E s" "get_friend_link_by_token_hash s h = Some l"
  shows "\<exists>t. get_public_token s (fl_id l) = Some t \<and> hash_token E t = h"
proof -
  have "\<exists>i. dget (link_by_token s) h = Some i \<and> dget (links_by_id s) i = Some l"
    using assms(2) by (simp add: get_friend_link_by_token_hash_def via_index_def split: option.splits if_splits)
  then obtain i where i: "dget (link_by_token s) h = Some i" "dget (links_by_id s) i = Some l" by blast
  have links: "links_ok E s" using assms(1) by (simp add: soc_ok_def)
  then have "fl_id l = i" using i(2) by (auto simp: links_ok_def dest!: id_indexed_keyed keyed_get)
  moreover have "id_sound fl_token_hash (links_by_id s) (link_by_token s)"
    using links by (simp add: links_ok_def)
  then have "fl_token_hash l = h" using i unfolding id_sound_def by fastforce
  ultimately show ?thesis using links i(2) by (auto simp: links_ok_def get_public_token_def)
qed

lemma shared_interval_ok:
  assumes "shared_wf r" "shared_interval s a start end_at r = Inr is"
  shows "list_all (interval_ok False) is"
proof -
  have "0 < sr_duration r * minute_us" using assms(1) by (simp add: shared_wf_def us_defs)
  then show ?thesis
    using assms(2)
    by (auto simp: shared_interval_def sbind_Inr_iff interval_ok_def Let_def split: option.splits if_splits)
qed

lemma shared_intervals_ok:
  assumes ok: "soc_ok E s" and "shared_busy_intervals s a start end_at = Inr is"
  shows "list_all (interval_ok False) is"
proof -
  obtain iss where parts: "list_all2 (\<lambda>r i. shared_interval s a start end_at r = Inr i)
      (list_shared_reminders_for_participant s a) iss" and all: "is = concat iss"
    using assms(2) by (auto simp: shared_busy_intervals_def sbind_Inr_iff map_sum_list_Inr_iff)
  have shareds: "shareds_ok s" using ok by (simp add: soc_ok_def)
  have "shared_wf r" if "r \<in> set (list_shared_reminders_for_participant s a)" for r
  proof -
    have "r \<in> set (dvalues (shared_by_id s))"
      using that by (auto simp: list_shared_reminders_for_participant_def)
    moreover have "keyed sr_id (shared_by_id s)" using shareds by (simp add: shareds_ok_def)
    ultimately have "get_shared_reminder s (sr_id r) = Some r"
      unfolding get_shared_reminder_def using keyed_values by metis
    then show ?thesis using shareds unfolding shareds_ok_def by blast
  qed
  then have "list_all2 (\<lambda>_ i. list_all (interval_ok False) i)
      (list_shared_reminders_for_participant s a) iss"
    using parts shared_interval_ok by (blast intro: list.rel_mono_strong)
  then have "\<forall>i\<in>set iss. list_all (interval_ok False) i"
    by (auto simp: list_all2_conv_all_nth in_set_conv_nth)
  then show ?thesis unfolding all by (auto simp: list_all_iff)
qed

section \<open>Settling the recipients of ended turns\<close>

text \<open>The conversation runtime's answer to \<open>get_disposition\<close>, from its store.\<close>

fun turn_state_name :: "disposition_state \<Rightarrow> string" where
  "turn_state_name Replied = ''replied''"
| "turn_state_name NoReply = ''no_reply''"
| "turn_state_name PendingAsyncReply = ''pending_async_reply''"
| "turn_state_name Failed = ''failed''"
| "turn_state_name Recovered = ''recovered''"
| "turn_state_name Superseded = ''superseded''"

definition runtime_of :: "conv_state \<Rightarrow> disposition_lookup" where
  "runtime_of c turn =
     (case fst (service_get_disposition turn c) of
        Inl e \<Rightarrow> Inl e
      | Inr d \<Rightarrow> Inr (turn_state_name (disposition d), reason_code d))"

lemma terminal_names: "turn_state_name d \<in> set terminal_turn_states \<longleftrightarrow> d \<in> set terminal_dispositions"
  by (cases d) (simp_all add: terminal_turn_states_def terminal_dispositions_def)

lemma runtime_of_Inr:
  "runtime_of c turn = Inr (state, reason) \<longleftrightarrow>
     (\<exists>d. get_disposition c turn = Some d \<and> state = turn_state_name (disposition d) \<and> reason = reason_code d)"
  by (auto simp: runtime_of_def service_get_disposition_def py_run split: option.splits)

text \<open>A recipient that is due: still pending, of a turn that has ended, and not touched lately.\<close>

definition recipient_due :: "conv_state \<Rightarrow> datetime \<Rightarrow> notification_recipient \<Rightarrow> bool" where
  "recipient_due c cutoff r \<longleftrightarrow>
     nr_state r = DeliveryPending \<and> dt_lt cutoff (nr_updated_at r) = Inr False \<and>
     (\<exists>turn d. nr_turn_id r = Some turn \<and> get_disposition c turn = Some d \<and>
        disposition d \<in> set terminal_dispositions)"

lemma recipient_due_code [code]:
  "recipient_due c cutoff r \<longleftrightarrow>
     nr_state r = DeliveryPending \<and> dt_lt cutoff (nr_updated_at r) = Inr False \<and>
     (case Option.bind (nr_turn_id r) (get_disposition c) of
        None \<Rightarrow> False | Some d \<Rightarrow> disposition d \<in> set terminal_dispositions)"
  by (cases "nr_turn_id r") (auto simp: recipient_due_def split: option.splits)

definition failed_of :: "notification_recipient \<Rightarrow> notification_recipient \<Rightarrow> bool" where
  "failed_of r r' \<longleftrightarrow>
     (\<exists>facts now. r' = r\<lparr>nr_state := DeliveryFailed, nr_error_facts := facts, nr_updated_at := now\<rparr>)"

definition settled_one ::
  "conv_state \<Rightarrow> datetime \<Rightarrow> notification_recipient \<Rightarrow> soc_state \<Rightarrow> soc_state \<Rightarrow> bool" where
  "settled_one c cutoff r t u \<longleftrightarrow>
     (if recipient_due c cutoff r
      then \<exists>r'. failed_of r r' \<and> recipients_by_id u = dput (nr_id r) r' (recipients_by_id t)
      else recipients_by_id u = recipients_by_id t)"

lemma settled_plain: "\<not> recipient_due c cutoff r \<Longrightarrow> settled_one c cutoff r t t"
  by (simp add: settled_one_def)

lemma wp_fail_recipient:
  assumes ok: "soc_ok E t" and r: "dget (recipients_by_id t) (nr_id r) = Some r"
    and canonical: "canon (nr_account_id r) = nr_account_id r"
    and due: "recipient_due c cutoff r" "nr_turn_id r = Some turn"
  shows "wp (record_notification_delivery E P (nr_fact_id r) (nr_account_id r) DeliveryFailed facts (Some turn))
    (\<lambda>_. settled_one c cutoff r t) (\<lambda>_ _. True) t"
proof -
  have n: "id_indexed nr_id recipient_key (recipients_by_id t) (recipient_by_key t)"
    using ok by (simp add: soc_ok_def notifications_ok_def)
  have found: "get_notification_recipient t (nr_fact_id r) (nr_account_id r) = Some r"
    unfolding get_notification_recipient_def using id_indexed_via [OF n] r by (auto simp: recipient_key_def)
  have "failed_of r (r\<lparr>nr_state := DeliveryFailed, nr_error_facts := facts, nr_updated_at := now,
      nr_turn_id := Some turn\<rparr>)" for now
    using due(2) unfolding failed_of_def by (cases r) simp
  then show ?thesis
    unfolding record_notification_delivery_def record_delivery_def Let_def save_notification_recipient_def
      maybe_create_shared_reminder_delivery_receipt_def canonical
    by (auto simp: wp_simps soc_wp found r settled_one_def due put_recipient_def split: sum.splits)
qed

lemma wp_settle:
  assumes "soc_ok E t" "dget (recipients_by_id t) (nr_id r) = Some r"
    and "canon (nr_account_id r) = nr_account_id r"
  shows "wp (settle_recipient E P (runtime_of c) cutoff r) (\<lambda>_ u. soc_inv E t u \<and> settled_one c cutoff r t u)
    (\<lambda>_ _. True) t"
proof -
  have "wp (settle_recipient E P (runtime_of c) cutoff r) (\<lambda>_. settled_one c cutoff r t) (\<lambda>_ _. True) t"
  proof (cases "nr_state r = DeliveryPending \<and> nr_turn_id r \<noteq> None")
    case False
    then have "\<not> recipient_due c cutoff r" by (auto simp: recipient_due_def)
    with False show ?thesis
      by (auto simp: settle_recipient_def wp_simps settled_plain split: option.splits)
  next
    case True
    then obtain turn where turn: "nr_turn_id r = Some turn" "nr_state r = DeliveryPending" by blast
    have due: "recipient_due c cutoff r"
      if "dt_lt cutoff (nr_updated_at r) = Inr False" "runtime_of c turn = Inr (state, reason)"
        "state \<in> set terminal_turn_states" for state reason
      using that turn terminal_names by (auto simp: recipient_due_def runtime_of_Inr)
    have not_due: "\<not> recipient_due c cutoff r"
      if "dt_lt cutoff (nr_updated_at r) = Inr True \<or> (\<exists>e. runtime_of c turn = Inl e) \<or>
        (\<exists>state reason. runtime_of c turn = Inr (state, reason) \<and> state \<notin> set terminal_turn_states)"
      using that turn terminal_names
      by (auto simp: recipient_due_def runtime_of_Inr) (auto simp: runtime_of_def service_get_disposition_def py_run)
    note fail = wp_fail_recipient [OF assms due turn(1)]
    show ?thesis
      unfolding settle_recipient_def wp_bind [of "lift _"] wp_lift
      using turn fail not_due settled_plain
      by (auto simp: wp_lift wp_ret wp_bind split: sum.splits)
  qed
  moreover have "wp (settle_recipient E P (runtime_of c) cutoff r) (\<lambda>_. soc_inv E t) (\<lambda>_. soc_inv E t) t"
    using keeps_settle [of E t P "runtime_of c" cutoff r] soc_inv_refl [OF assms(1)]
    unfolding preserves_def by blast
  ultimately show ?thesis
    by (rule wp_mono [OF wp_conj [rotated]]) simp_all
qed

text \<open>
  What a pass over the recipients that satisfy \<open>Q\<close> does to the table: the due ones are marked failed,
  every other entry is the one that was there.
\<close>

definition settled_where ::
  "(notification_recipient \<Rightarrow> bool) \<Rightarrow> conv_state \<Rightarrow> datetime \<Rightarrow> soc_state \<Rightarrow> soc_state \<Rightarrow> bool" where
  "settled_where Q c cutoff t u \<longleftrightarrow>
     (\<forall>i. case dget (recipients_by_id t) i of
        None \<Rightarrow> dget (recipients_by_id u) i = None
      | Some r \<Rightarrow>
          if Q r \<and> recipient_due c cutoff r
          then \<exists>r'. failed_of r r' \<and> dget (recipients_by_id u) i = Some r'
          else dget (recipients_by_id u) i = Some r)"

lemma failed_not_due: "failed_of r r' \<Longrightarrow> \<not> recipient_due c cutoff r'"
  by (auto simp: failed_of_def recipient_due_def)

lemma failed_same [simp]:
  "failed_of r r' \<Longrightarrow> nr_id r' = nr_id r" "failed_of r r' \<Longrightarrow> nr_fact_id r' = nr_fact_id r"
  "failed_of r r' \<Longrightarrow> nr_account_id r' = nr_account_id r"
  by (auto simp: failed_of_def)

lemma settled_none: "\<forall>r. \<not> Q r \<Longrightarrow> settled_where Q c cutoff t t"
  by (simp add: settled_where_def split: option.splits)

lemma settled_cong:
  assumes "settled_where Q c cutoff t u" "\<And>i r. dget (recipients_by_id t) i = Some r \<Longrightarrow> Q r = Q' r"
  shows "settled_where Q' c cutoff t u"
  unfolding settled_where_def
proof
  fix i show "case dget (recipients_by_id t) i of
      None \<Rightarrow> dget (recipients_by_id u) i = None
    | Some r \<Rightarrow> if Q' r \<and> recipient_due c cutoff r
        then \<exists>r'. failed_of r r' \<and> dget (recipients_by_id u) i = Some r'
        else dget (recipients_by_id u) i = Some r"
    using assms(1) [unfolded settled_where_def, THEN spec [of _ i]] assms(2) [of i]
    by (cases "dget (recipients_by_id t) i") simp_all
qed

lemma settled_else:
  assumes "settled_where Q c cutoff t u" "dget (recipients_by_id t) i = Some r" "\<not> Q r"
  shows "dget (recipients_by_id u) i = Some r"
  using assms(1) [unfolded settled_where_def, THEN spec [of _ i]] assms(2,3) by simp

lemma settled_then:
  assumes "settled_where Q c cutoff t u" "settled_where Q' c cutoff u v"
  shows "settled_where (\<lambda>r. Q r \<or> Q' r) c cutoff t v"
proof -
  have "case dget (recipients_by_id t) i of
      None \<Rightarrow> dget (recipients_by_id v) i = None
    | Some r \<Rightarrow> if (Q r \<or> Q' r) \<and> recipient_due c cutoff r
        then \<exists>r'. failed_of r r' \<and> dget (recipients_by_id v) i = Some r'
        else dget (recipients_by_id v) i = Some r" for i
    using assms(1) [unfolded settled_where_def, THEN spec [of _ i]]
      assms(2) [unfolded settled_where_def, THEN spec [of _ i]]
    by (auto split: option.splits if_splits dest: failed_not_due)
  then show ?thesis by (simp add: settled_where_def)
qed

lemma settled_one_where:
  assumes "settled_one c cutoff r t u" "dget (recipients_by_id t) (nr_id r) = Some r"
    and "keyed nr_id (recipients_by_id t)"
  shows "settled_where (\<lambda>q. nr_id q = nr_id r) c cutoff t u"
  using assms unfolding settled_where_def settled_one_def
  by (auto simp: update_conv' split: option.splits if_splits dest: keyed_get)

definition canonical_recipients :: "soc_state \<Rightarrow> bool" where
  "canonical_recipients t \<longleftrightarrow>
     (\<forall>i r. dget (recipients_by_id t) i = Some r \<longrightarrow> canon (nr_account_id r) = nr_account_id r)"

lemma settled_back:
  assumes "settled_where Q c cutoff t u" "dget (recipients_by_id u) i = Some r'"
  shows "\<exists>r. dget (recipients_by_id t) i = Some r \<and> (r' = r \<or> failed_of r r')"
  using assms unfolding settled_where_def by (cases "dget (recipients_by_id t) i") (auto dest!: spec [of _ i] split: if_splits)

lemma settled_canonical: "settled_where Q c cutoff t u \<Longrightarrow> canonical_recipients t \<Longrightarrow> canonical_recipients u"
  unfolding canonical_recipients_def by (metis settled_back failed_same(3))

lemma recipients_keyed: "soc_ok E t \<Longrightarrow> keyed nr_id (recipients_by_id t)"
  by (auto simp: soc_ok_def notifications_ok_def dest: id_indexed_keyed)

lemma wp_settle_list:
  assumes "soc_ok E t" "canonical_recipients t" "distinct (map nr_id rs)"
    and "\<And>r. r \<in> set rs \<Longrightarrow> dget (recipients_by_id t) (nr_id r) = Some r"
  shows "wp (map_py (settle_recipient E P (runtime_of c) cutoff) rs)
    (\<lambda>_ u. soc_inv E t u \<and> settled_where (\<lambda>r. nr_id r \<in> nr_id ` set rs) c cutoff t u) (\<lambda>_ _. True) t"
  using assms
proof (induction rs arbitrary: t)
  case Nil
  then show ?case by (simp add: wp_ret settled_none soc_inv_refl)
next
  case (Cons r rs)
  have rest: "wp (bind (map_py (settle_recipient E P (runtime_of c) cutoff) rs) (\<lambda>ys. ret (y # ys)))
      (\<lambda>_ v. soc_inv E t v \<and> settled_where (\<lambda>q. nr_id q \<in> nr_id ` set (r # rs)) c cutoff t v) (\<lambda>_ _. True) u"
    if u: "soc_inv E t u" "settled_where (\<lambda>q. nr_id q = nr_id r) c cutoff t u" for u y
  proof -
    have "dget (recipients_by_id u) (nr_id q) = Some q" if "q \<in> set rs" for q
    proof (rule settled_else [OF u(2)])
      show "dget (recipients_by_id t) (nr_id q) = Some q" using Cons.prems(4) that by simp
      show "nr_id q \<noteq> nr_id r" using Cons.prems(3) that by (metis distinct.simps(2) image_eqI list.simps(9) set_map)
    qed
    moreover have "soc_ok E u" using u(1) by (rule soc_inv_ok)
    moreover have "canonical_recipients u" using u(2) Cons.prems(2) by (rule settled_canonical)
    moreover have "distinct (map nr_id rs)" using Cons.prems(3) by simp
    ultimately have "wp (map_py (settle_recipient E P (runtime_of c) cutoff) rs)
        (\<lambda>_ v. soc_inv E u v \<and> settled_where (\<lambda>q. nr_id q \<in> nr_id ` set rs) c cutoff u v) (\<lambda>_ _. True) u"
      by (intro Cons.IH)
    then show ?thesis
      unfolding wp_bind wp_ret
    proof (rule wp_mono)
      fix ys v assume v: "soc_inv E u v \<and> settled_where (\<lambda>q. nr_id q \<in> nr_id ` set rs) c cutoff u v"
      then have "settled_where (\<lambda>q. nr_id q = nr_id r \<or> nr_id q \<in> nr_id ` set rs) c cutoff t v"
        using settled_then [OF u(2)] by blast
      then have "settled_where (\<lambda>q. nr_id q \<in> nr_id ` set (r # rs)) c cutoff t v"
        by (rule settled_cong) simp
      with v u(1) show "soc_inv E t v \<and> settled_where (\<lambda>q. nr_id q \<in> nr_id ` set (r # rs)) c cutoff t v"
        using soc_inv_trans by blast
    qed
  qed
  have r: "dget (recipients_by_id t) (nr_id r) = Some r" using Cons.prems(4) by simp
  moreover have "canon (nr_account_id r) = nr_account_id r"
    using r Cons.prems(2) by (simp add: canonical_recipients_def)
  ultimately show ?case
    unfolding map_py.simps wp_bind [of "settle_recipient E P (runtime_of c) cutoff r"]
    using rest settled_one_where [OF _ r recipients_keyed [OF Cons.prems(1)]]
    by (intro wp_mono [OF wp_settle [OF Cons.prems(1)]]) simp_all
qed

lemma wp_settle_fact:
  assumes "soc_ok E t" "canonical_recipients t"
  shows "wp (map_py (settle_recipient E P (runtime_of c) cutoff) (list_notification_recipients t fid))
    (\<lambda>_ u. soc_inv E t u \<and> settled_where (\<lambda>r. nr_fact_id r = fid) c cutoff t u) (\<lambda>_ _. True) t"
proof (rule wp_mono [OF wp_settle_list [OF assms]])
  note keyed = recipients_keyed [OF assms(1)]
  show "distinct (map nr_id (list_notification_recipients t fid))"
    unfolding list_notification_recipients_def
    using keyed_distinct [OF keyed] by (rule distinct_map_filter)
  show "dget (recipients_by_id t) (nr_id r) = Some r" if "r \<in> set (list_notification_recipients t fid)" for r
    using that keyed_values [OF keyed, of r] by (simp add: list_notification_recipients_def)
  have member: "nr_id r \<in> nr_id ` set (list_notification_recipients t fid) \<longleftrightarrow> nr_fact_id r = fid"
    if "dget (recipients_by_id t) i = Some r" for i r
  proof
    assume "nr_id r \<in> nr_id ` set (list_notification_recipients t fid)"
    then obtain q where q: "nr_id q = nr_id r" "nr_fact_id q = fid" "q \<in> set (dvalues (recipients_by_id t))"
      unfolding list_notification_recipients_def image_iff by fastforce
    then have "dget (recipients_by_id t) (nr_id r) = Some q" using keyed_values [OF keyed] by metis
    then have "q = r" using that keyed_get [OF keyed that] by simp
    then show "nr_fact_id r = fid" using q(2) by simp
  next
    assume "nr_fact_id r = fid"
    then have "r \<in> set (list_notification_recipients t fid)"
      unfolding list_notification_recipients_def using dget_values [OF that] by simp
    then show "nr_id r \<in> nr_id ` set (list_notification_recipients t fid)" by (rule imageI)
  qed
  fix ys u assume u: "soc_inv E t u \<and>
    settled_where (\<lambda>r. nr_id r \<in> nr_id ` set (list_notification_recipients t fid)) c cutoff t u"
  then have "settled_where (\<lambda>r. nr_fact_id r = fid) c cutoff t u"
    by (intro settled_cong [OF conjunct2 [OF u]]) (rule member)
  with u show "soc_inv E t u \<and> settled_where (\<lambda>r. nr_fact_id r = fid) c cutoff t u" by simp
qed simp

lemma wp_settle_facts:
  assumes "soc_ok E t" "canonical_recipients t"
  shows "wp (map_py (\<lambda>f. bind (gets (\<lambda>s. list_notification_recipients s (nf_id f)))
      (map_py (settle_recipient E P (runtime_of c) cutoff))) fs)
    (\<lambda>_ u. settled_where (\<lambda>r. nr_fact_id r \<in> nf_id ` set fs) c cutoff t u) (\<lambda>_ _. True) t"
  using assms
proof (induction fs arbitrary: t)
  case Nil
  then show ?case by (simp add: wp_ret settled_none)
next
  case (Cons f fs)
  let ?each = "\<lambda>f. bind (gets (\<lambda>s. list_notification_recipients s (nf_id f)))
      (map_py (settle_recipient E P (runtime_of c) cutoff))"
  have rest: "wp (bind (map_py ?each fs) (\<lambda>ys. ret (y # ys)))
      (\<lambda>_. settled_where (\<lambda>r. nr_fact_id r \<in> nf_id ` set (f # fs)) c cutoff t) (\<lambda>_ _. True) u"
    if u: "soc_inv E t u" "settled_where (\<lambda>r. nr_fact_id r = nf_id f) c cutoff t u" for u y
    unfolding wp_bind wp_ret
  proof (rule wp_mono [OF Cons.IH])
    show "soc_ok E u" using u(1) by (rule soc_inv_ok)
    show "canonical_recipients u" using u(2) Cons.prems(2) by (rule settled_canonical)
    fix ys v assume "settled_where (\<lambda>r. nr_fact_id r \<in> nf_id ` set fs) c cutoff u v"
    with settled_then [OF u(2)]
    have "settled_where (\<lambda>r. nr_fact_id r = nf_id f \<or> nr_fact_id r \<in> nf_id ` set fs) c cutoff t v" by blast
    then show "settled_where (\<lambda>r. nr_fact_id r \<in> nf_id ` set (f # fs)) c cutoff t v"
      by (rule settled_cong) simp
  qed simp
  show ?case
    unfolding map_py.simps wp_bind [of "?each f"] wp_bind [of "gets _"] wp_gets
    using rest by (intro wp_mono [OF wp_settle_fact [OF Cons.prems]]) simp_all
qed

lemma wp_reconcile:
  assumes ok: "soc_ok E t" and canonical: "canonical_recipients t"
  shows "wp (reconcile_terminal_notification_recipients E P (runtime_of c) older)
    (\<lambda>_ u. \<exists>cutoff. dt_add (env_now E (clock t)) (- older) = Inr cutoff \<and>
       settled_where (\<lambda>_. True) c cutoff t u) (\<lambda>_ _. True) t"
proof -
  let ?t = "t\<lparr>clock := Suc (clock t)\<rparr>"
  have t: "soc_ok E ?t" using ok by (metis soc_inv_counters(1) soc_inv_ok soc_inv_refl)
  have c: "canonical_recipients ?t" using canonical by (simp add: canonical_recipients_def)
  have "settled_where (\<lambda>_. True) c cutoff t u"
    if "settled_where (\<lambda>r. nr_fact_id r \<in> nf_id ` set (list_notification_facts ?t)) c cutoff ?t u" for cutoff u
  proof -
    have "nr_fact_id r \<in> nf_id ` set (list_notification_facts ?t)"
      if "dget (recipients_by_id ?t) i = Some r" for i r
    proof -
      have n: "notifications_ok ?t" using t by (simp add: soc_ok_def)
      with that obtain f where f: "dget (facts_by_id ?t) (nr_fact_id r) = Some f"
        unfolding notifications_ok_def by blast
      have "keyed nf_id (facts_by_id ?t)" using n by (auto simp: notifications_ok_def dest: id_indexed_keyed)
      from keyed_get [OF this f] dget_values [OF f] show ?thesis
        unfolding list_notification_facts_def by (metis imageI)
    qed
    then have "settled_where (\<lambda>_. True) c cutoff ?t u" by (intro settled_cong [OF that]) simp
    then show ?thesis by (simp add: settled_where_def)
  qed
  then show ?thesis
    unfolding reconcile_terminal_notification_recipients_def wp_bind [of "py_now _"] wp_py_now
      wp_bind [of "lift _"] wp_lift wp_bind [of "gets list_notification_facts"] wp_gets
      wp_bind [of "map_py _ _"] wp_ret
    by (auto split: sum.splits intro!: wp_mono [OF wp_settle_facts [OF t c]])
qed

end
