(* ===== verification/SocCanonical.thy ===== *)
theory SocCanonical
  imports SocJoining
begin

text \<open>
  Account ids in the social store are canonical: every entry point removes the dashes of the ids it
  is given, and what is copied from one record to another (from a link to a friendship, from a shared
  reminder to the facts and recipients that announce it) stays so. In particular the recipients of
  notifications are canonical in every reachable store.
\<close>

section \<open>The invariant\<close>

definition fact_actor :: "notification_fact \<Rightarrow> string" where
  "fact_actor f = text_of (dget (nf_facts f) ''actor_account_id'')"

definition canonical_link :: "friend_link \<Rightarrow> bool" where
  "canonical_link l \<longleftrightarrow> canon (fl_owner_account_id l) = fl_owner_account_id l"

definition canonical_shared :: "shared_reminder \<Rightarrow> bool" where
  "canonical_shared r \<longleftrightarrow> canon (sr_creator r) = sr_creator r \<and> (\<forall>a\<in>set (sr_participants r). canon a = a)"

definition canonical_fact :: "notification_fact \<Rightarrow> bool" where
  "canonical_fact f \<longleftrightarrow> canon (fact_actor f) = fact_actor f"

definition canonical_recipient :: "notification_recipient \<Rightarrow> bool" where
  "canonical_recipient r \<longleftrightarrow> canon (nr_account_id r) = nr_account_id r"

definition canonical_store :: "soc_state \<Rightarrow> bool" where
  "canonical_store s \<longleftrightarrow>
     list_all canonical_link (dvalues (links_by_id s)) \<and>
     list_all canonical_shared (dvalues (shared_by_id s)) \<and>
     list_all canonical_fact (dvalues (facts_by_id s)) \<and>
     list_all canonical_recipient (dvalues (recipients_by_id s))"

lemma canonical_store_empty: "canonical_store empty_soc_state"
  by (simp add: canonical_store_def empty_soc_state_def)

lemma values_dput: "list_all P (dvalues d) \<Longrightarrow> P v \<Longrightarrow> list_all P (dvalues (dput k v d))"
  by (induction d) auto

lemma canon_Nil [simp]: "canon [] = []"
  by (simp add: canon_def remove_dashes_def)

text \<open>What is read from a canonical store is canonical.\<close>

lemma values_get: "list_all P (dvalues d) \<Longrightarrow> dget d k = Some v \<Longrightarrow> P v"
  by (metis dget_values list_all_iff)

lemma values_via: "list_all P (dvalues d) \<Longrightarrow> via_index ix d k = Some v \<Longrightarrow> P v"
  by (auto simp: via_index_def split: option.splits intro: values_get)

lemma values_find: "list_all P (dvalues d) \<Longrightarrow> find Q (dvalues d) = Some v \<Longrightarrow> P v"
  by (metis find_Some_iff list_all_iff nth_mem)

lemma canonical_reads:
  assumes "canonical_store s"
  shows "get_friend_link_by_owner s k = Some l \<Longrightarrow> canonical_link l"
    "get_friend_link_by_token_hash s k = Some l \<Longrightarrow> canonical_link l"
    "get_friend_link_by_code_hash s k = Some l \<Longrightarrow> canonical_link l"
    "get_friend_link s k = Some l \<Longrightarrow> canonical_link l"
    "get_shared_reminder s k = Some r \<Longrightarrow> canonical_shared r"
    "notification_fact_by_id s k = Some f \<Longrightarrow> canonical_fact f"
    "get_notification_recipient s k a = Some q \<Longrightarrow> canonical_recipient q"
  using assms
  unfolding canonical_store_def get_friend_link_by_owner_def get_friend_link_by_token_hash_def
    get_friend_link_by_code_hash_def get_friend_link_def get_shared_reminder_def
    notification_fact_by_id_def list_notification_facts_def get_notification_recipient_def
  by (blast intro: values_get values_via values_find)+

section \<open>Reading and then acting\<close>

text \<open>\<open>gives I Q m\<close>: \<open>m\<close> preserves \<open>I\<close>, and what it returns satisfies \<open>Q\<close>.\<close>

definition gives :: "('s \<Rightarrow> bool) \<Rightarrow> ('a \<Rightarrow> bool) \<Rightarrow> ('s, 'a) py \<Rightarrow> bool" where
  "gives I Q m \<longleftrightarrow> (\<forall>s. I s \<longrightarrow> wp m (\<lambda>x t. I t \<and> Q x) (\<lambda>_. I) s)"

lemma gives_bind:
  assumes "gives I Q m" and "\<And>x. Q x \<Longrightarrow> gives I R (f x)"
  shows "gives I R (bind m f)"
  unfolding gives_def
proof (intro allI impI)
  fix s
  assume "I s"
  with assms(1) have "wp m (\<lambda>x t. I t \<and> Q x) (\<lambda>_. I) s" by (simp add: gives_def)
  then show "wp (bind m f) (\<lambda>x t. I t \<and> R x) (\<lambda>_. I) s"
    unfolding wp_bind by (rule wp_mono) (use assms(2) in \<open>simp_all add: gives_def\<close>)
qed

lemma gives_any: "gives I (\<lambda>_. True) m \<longleftrightarrow> preserves I m"
  by (simp add: gives_def preserves_def)

lemma gives_ret: "Q x \<Longrightarrow> gives I Q (ret x)"
  by (simp add: gives_def wp_simps)

lemma gives_raise: "gives I Q (raise e)"
  by (simp add: gives_def wp_simps)

lemmas preserves_bind_gives = gives_bind [where R = "\<lambda>_. True", unfolded gives_any]

lemmas gives_after = gives_bind [where Q = "\<lambda>_. True", unfolded gives_any]

lemma gives_gets_option:
  assumes "\<And>s x. I s \<Longrightarrow> f s = Some x \<Longrightarrow> Q x"
    and "gives I R (k None)" and "\<And>x. Q x \<Longrightarrow> gives I R (k (Some x))"
  shows "gives I R (bind (gets f) k)"
proof (rule gives_bind [where Q = "\<lambda>v. \<forall>x. v = Some x \<longrightarrow> Q x"])
  show "gives I (\<lambda>v. \<forall>x. v = Some x \<longrightarrow> Q x) (gets f)" using assms(1) by (simp add: gives_def wp_simps)
  show "gives I R (k v)" if "\<forall>x. v = Some x \<longrightarrow> Q x" for v
    using that assms(2,3) by (cases v) auto
qed

lemmas preserves_gets_option = gives_gets_option [where R = "\<lambda>_. True", unfolded gives_any]

named_theorems canon_keeps \<open>methods that keep account ids canonical\<close>

lemma canon_counters [canon_keeps]:
  "preserves canonical_store (py_now E)" "preserves canonical_store (soc_new_id E p)"
  "preserves canonical_store (soc_new_token P p)" "preserves canonical_store (run_commit_guard g)"
  "preserves canonical_store (refuse_if b code)"
  "preserves canonical_store (require_usable_channel P a code)"
  by (auto simp: preserves_def wp_simps canonical_store_def soc_new_id_def soc_new_token_def new_id_def wp_def
      run_commit_guard_def refuse_if_def require_usable_channel_def split: option.splits sum.splits)

lemma canon_puts [canon_keeps]:
  "canonical_link l \<Longrightarrow> preserves canonical_store (modify (put_link l))"
  "canonical_shared r \<Longrightarrow> preserves canonical_store (modify (put_shared r))"
  "canonical_fact f \<Longrightarrow> preserves canonical_store (modify (put_fact f))"
  "canonical_recipient q \<Longrightarrow> preserves canonical_store (modify (put_recipient q))"
  "preserves canonical_store (modify (put_friendship fs))"
  "preserves canonical_store (modify (put_projection p))"
  "preserves canonical_store (modify (put_projection_reminder i rem))"
  "preserves canonical_store (modify (\<lambda>s. s\<lparr>public_tokens := f1 s, link_codes := f2 s\<rparr>))"
  "preserves canonical_store (modify (\<lambda>s. s\<lparr>link_by_token := f1 s, link_by_code := f2 s\<rparr>))"
  "preserves canonical_store (modify (\<lambda>s. s\<lparr>recipient_by_key := f3 s\<rparr>))"
  by (auto simp: preserves_def wp_simps canonical_store_def put_link_def put_shared_def put_fact_def
      put_recipient_def put_friendship_def put_projection_def put_projection_reminder_def intro: values_dput)

lemma canon_repository [canon_keeps]:
  "canonical_link l \<Longrightarrow> preserves canonical_store (add_friend_link l token code)"
  "canonical_link l \<Longrightarrow> preserves canonical_store (save_friend_link l token' code')"
  "preserves canonical_store (add_friendship fs)" "preserves canonical_store (save_friendship fs)"
  "canonical_shared r \<Longrightarrow> preserves canonical_store (add_shared_reminder r)"
  "canonical_shared r \<Longrightarrow> preserves canonical_store (save_shared_reminder r)"
  "preserves canonical_store (add_projection E p)" "preserves canonical_store (save_projection p)"
  "preserves canonical_store (sync_projection_reminders E r ps)"
  "canonical_fact f \<Longrightarrow> preserves canonical_store (add_notification_fact f)"
  "canonical_recipient q \<Longrightarrow> preserves canonical_store (add_notification_recipient q)"
  "canonical_recipient q \<Longrightarrow> preserves canonical_store (save_notification_recipient q)"
  unfolding add_friend_link_def save_friend_link_def add_friendship_def save_friendship_def
    add_shared_reminder_def save_shared_reminder_def add_projection_def save_projection_def
    sync_projection_reminders_def add_notification_fact_def add_notification_recipient_def
    save_notification_recipient_def
  by (intro preserves_intros canon_keeps | assumption)+

section \<open>Notifications\<close>

lemma gives_recipient:
  "canon account = account \<Longrightarrow> gives canonical_store canonical_recipient (new_recipient E fid account)"
  by (simp add: gives_def new_recipient_def wp_simps soc_new_id_def new_id_def wp_def canonical_store_def
      canonical_recipient_def py_now_def bind_def ret_def gets_def modify_def)

lemma canon_create_fact [canon_keeps]:
  assumes "canon (text_of (dget facts ''actor_account_id'')) = text_of (dget facts ''actor_account_id'')"
    and "\<And>a. a \<in> set recipients \<Longrightarrow> canon a = a"
  shows "preserves canonical_store (create_fact E ntype actor otype oid status facts recipients key)"
  unfolding create_fact_def Let_def
  using assms
  by (intro preserves_intros canon_keeps preserves_bind_gives [OF gives_recipient])
    (auto simp: canonical_fact_def fact_actor_def)

lemma gives_delivery:
  "gives canonical_store canonical_recipient (record_delivery E fid account state errors turn)"
  unfolding record_delivery_def Let_def
  by (intro gives_after preserves_lift gives_gets_option [where Q = canonical_recipient] canonical_reads(7))
    (auto simp: canonical_recipient_def intro!: gives_after gives_ret gives_raise preserves_intros canon_keeps)

lemma canon_receipt [canon_keeps]:
  assumes "canonical_recipient r"
  shows "preserves canonical_store (maybe_create_shared_reminder_delivery_receipt E P r)"
  unfolding maybe_create_shared_reminder_delivery_receipt_def Let_def
  by (intro preserves_if preserves_ret preserves_gets_option [where Q = canonical_fact] canonical_reads(6))
    (use assms in \<open>auto simp: canonical_fact_def fact_actor_def text_of_def intro!: preserves_intros canon_keeps\<close>)

lemma canon_notification_delivery [canon_keeps]:
  "preserves canonical_store (record_notification_delivery E P fid account state errors turn)"
  unfolding record_notification_delivery_def
  by (intro preserves_bind_gives [OF gives_delivery] preserves_intros canon_keeps)

lemma canon_reconcile [canon_keeps]:
  "preserves canonical_store (reconcile_terminal_notification_recipients E P runtime older)"
  unfolding reconcile_terminal_notification_recipients_def settle_recipient_def
  by (intro preserves_intros canon_keeps)

lemma canon_friendship_notification [canon_keeps]:
  assumes "canon actor = actor" "canon (fs_low f) = fs_low f" "canon (fs_high f) = fs_high f"
  shows "preserves canonical_store (create_friendship_notification E P f actor)"
  unfolding create_friendship_notification_def Let_def
  by (intro preserves_intros canon_keeps) (use assms in \<open>auto simp: text_of_def split: if_splits\<close>)

lemma canon_shared_notification [canon_keeps]:
  assumes "canonical_shared r" "\<And>a. actor = Some a \<Longrightarrow> canon a = a"
    and "\<And>a. a \<in> set recipients \<Longrightarrow> canon a = a"
  shows "preserves canonical_store (create_shared_reminder_notification E P r status actor recipients)"
  unfolding create_shared_reminder_notification_def Let_def
  by (intro preserves_intros canon_keeps)
    (use assms in \<open>auto simp: text_of_def canonical_shared_def split: option.split\<close>)

section \<open>Links and friendships\<close>

lemma canon_new_link [canon_keeps]:
  "canon owner = owner \<Longrightarrow> preserves canonical_store (new_friend_link E P owner g)"
  unfolding new_friend_link_def Let_def
  by (intro preserves_intros canon_keeps) (simp add: canonical_link_def)

lemma canon_get_or_create_link [canon_keeps]:
  "preserves canonical_store (get_or_create_friend_link E P owner g)"
  unfolding get_or_create_friend_link_def Let_def by (intro preserves_intros canon_keeps) simp

lemma canon_reset_link [canon_keeps]: "preserves canonical_store (reset_friend_link E P owner g)"
  unfolding reset_friend_link_def Let_def
  by (intro preserves_bind canon_keeps preserves_gets_option [where Q = canonical_link] canonical_reads(1))
    (auto simp: canonical_link_def intro!: preserves_intros canon_keeps)

lemma canon_disable_link [canon_keeps]: "preserves canonical_store (disable_friend_link E P owner g)"
  unfolding disable_friend_link_def Let_def
  by (intro preserves_gets_option [where Q = canonical_link] canonical_reads(1))
    (auto simp: canonical_link_def intro!: preserves_intros canon_keeps)

lemma canon_new_friendship [canon_keeps]:
  assumes "canon joiner = joiner" "canon owner = owner"
  shows "preserves canonical_store (new_friendship E P joiner owner g)"
  unfolding new_friendship_def Let_def unordered_pair_def
  by (intro preserves_intros canon_keeps) (use assms in \<open>auto split: if_splits\<close>)

lemma canon_establish [canon_keeps]:
  "canon joiner = joiner \<Longrightarrow> canonical_link l \<Longrightarrow> preserves canonical_store (establish_from_link E P joiner l g)"
  unfolding establish_from_link_def
  by (intro preserves_intros canon_keeps) (simp_all add: canonical_link_def)

lemma canon_joining [canon_keeps]:
  "preserves canonical_store (establish_friendship_from_token E P joiner token g)"
  "preserves canonical_store (establish_friendship_from_code E P joiner code g)"
  "preserves canonical_store (complete_deferred_friend_link E P joiner lid g)"
  unfolding establish_friendship_from_token_def establish_friendship_from_code_def
    complete_deferred_friend_link_def establish_if_found_def
  by (rule preserves_gets_option [where Q = canonical_link], erule canonical_reads, assumption,
      (auto intro!: preserves_intros canon_keeps)[2])+

lemma canon_remove_friend [canon_keeps]: "preserves canonical_store (remove_friend E account friend g)"
  unfolding remove_friend_def Let_def by (intro preserves_intros canon_keeps)

section \<open>Shared reminders\<close>

lemma canon_store_shared [canon_keeps]:
  assumes "\<And>rid now. canonical_shared (build rid now)" "\<And>a. a \<in> set recipients \<Longrightarrow> canon a = a"
  shows "preserves canonical_store (store_shared_reminder E P build participants recipients g)"
  unfolding store_shared_reminder_def Let_def store_projection_def new_projection_def
  by (intro preserves_intros canon_keeps) (use assms in auto)

lemma dedupe_from_set: "set (dedupe_from seen xs) \<subseteq> set xs"
  by (induction seen xs rule: dedupe_from.induct) auto

lemma canon_create_checked [canon_keeps]:
  assumes "canon creator = creator" "\<And>a. a \<in> set receivers \<Longrightarrow> canon a = a"
  shows "preserves canonical_store
    (create_checked E P creator receivers title local_at timezone minutes g)"
  unfolding create_checked_def Let_def
  by (intro preserves_intros canon_keeps)
    (use assms dedupe_from_set [of "[]" receivers] in
      \<open>auto simp: canonical_shared_def dedupe_preserve_order_def\<close>)

lemma canon_create_shared [canon_keeps]:
  "preserves canonical_store (create_shared_reminder E P creator receivers title trigger timezone duration g)"
  unfolding create_shared_reminder_def validate_shared_trigger_time_def Let_def
  by (intro preserves_intros canon_keeps) auto

lemma canon_detect_shared [canon_keeps]:
  "preserves canonical_store
     (detect_and_create_shared_reminder E P creator receivers words title timezone duration g)"
  unfolding detect_and_create_shared_reminder_def run_shared_detector_def
  by (intro preserves_intros canon_keeps)

lemma gives_view: "gives canonical_store canonical_shared (view_shared_reminder account shared)"
  unfolding gives_def wp_view by (auto split: option.splits dest: canonical_reads(5))

lemma canonical_others: "canonical_shared r \<Longrightarrow> a \<in> set (others r account) \<Longrightarrow> canon a = a"
  by (simp add: others_def canonical_shared_def)

lemma canon_cancel_shared [canon_keeps]:
  "preserves canonical_store (cancel_shared_reminder E P account shared g)"
  unfolding cancel_shared_reminder_def Let_def cancel_projection_def
  by (intro preserves_bind_gives [OF gives_view] preserves_intros canon_keeps)
    (auto simp: canonical_shared_def others_def)

lemma canon_store_rescheduled [canon_keeps]:
  assumes "canon account = account" "canonical_shared r"
  shows "preserves canonical_store (store_rescheduled E P account r ps local_at timezone minutes g)"
  unfolding store_rescheduled_def Let_def
  by (intro preserves_intros canon_keeps) (use assms in \<open>auto simp: canonical_shared_def others_def\<close>)

lemma canon_update_shared [canon_keeps]:
  "preserves canonical_store (update_shared_reminder E P account shared trigger timezone duration replay g)"
  unfolding update_shared_reminder_def Let_def validate_shared_trigger_time_def reschedule_checked_def
  by (intro preserves_bind_gives [OF gives_view] preserves_intros canon_keeps) auto

lemma canon_complete_own [canon_keeps]:
  "preserves canonical_store (complete_own_projection E account shared g)"
  unfolding complete_own_projection_def Let_def
  by (intro preserves_bind_gives [OF gives_view] preserves_intros canon_keeps)

section \<open>Every reachable store is canonical\<close>

lemma canon_call: "preserves canonical_store (do_soc_call E P c)"
  by (cases c) (auto intro!: keeps_done canon_keeps)

lemma reachable_canonical: "soc_reachable E s \<Longrightarrow> canonical_store s"
  by (induction rule: soc_reachable.induct)
    (auto simp: canonical_store_empty soc_step_iff intro: preserves_run [OF canon_call])

lemma canonical_store_recipients: "canonical_store s \<Longrightarrow> canonical_recipients s"
  by (auto simp: canonical_store_def canonical_recipients_def canonical_recipient_def list_all_iff
      dest!: dget_values)

end
