(* ===== verification/SocProperties.thy ===== *)
theory SocProperties
  imports SocCanonical
begin

text \<open>
  The properties of the social scheduling domain, with the closed examples that apply them: Ann
  shows a link, Bob joins her by it, and they keep a reminder together.
\<close>

section \<open>Evaluation\<close>

text \<open>
  Code equations that run each method on a state, as those of the sequencing do.
\<close>

lemmas social_run_code [code] =
  refuse_if_def [THEN fun_cong] add_friend_link_def [THEN fun_cong]
  save_friend_link_def [THEN fun_cong] add_friendship_def [THEN fun_cong]
  save_friendship_def [THEN fun_cong] add_shared_reminder_def [THEN fun_cong]
  save_shared_reminder_def [THEN fun_cong] add_projection_def [THEN fun_cong]
  save_projection_def [THEN fun_cong] sync_projection_reminders_def [THEN fun_cong]
  add_notification_fact_def [THEN fun_cong] add_notification_recipient_def [THEN fun_cong]
  save_notification_recipient_def [THEN fun_cong] run_commit_guard_def [THEN fun_cong]
  soc_new_id_def [THEN fun_cong] soc_new_token_def [THEN fun_cong]
  require_usable_channel_def [THEN fun_cong] new_recipient_def [THEN fun_cong]
  create_fact_def [THEN fun_cong] record_delivery_def [THEN fun_cong]
  maybe_create_shared_reminder_delivery_receipt_def [THEN fun_cong]
  record_notification_delivery_def [THEN fun_cong] settle_recipient_def [THEN fun_cong]
  reconcile_terminal_notification_recipients_def [THEN fun_cong]
  new_friend_link_def [THEN fun_cong] get_or_create_friend_link_def [THEN fun_cong]
  reset_friend_link_def [THEN fun_cong] disable_friend_link_def [THEN fun_cong]
  create_friendship_notification_def [THEN fun_cong] new_friendship_def [THEN fun_cong]
  establish_from_link_def [THEN fun_cong] establish_if_found_def [THEN fun_cong]
  establish_friendship_from_token_def [THEN fun_cong]
  establish_friendship_from_code_def [THEN fun_cong]
  complete_deferred_friend_link_def [THEN fun_cong] remove_friend_def [THEN fun_cong]
  validate_shared_trigger_time_def [THEN fun_cong]
  create_shared_reminder_notification_def [THEN fun_cong] new_projection_def [THEN fun_cong]
  store_projection_def [THEN fun_cong] store_shared_reminder_def [THEN fun_cong]
  create_checked_def [THEN fun_cong] create_shared_reminder_def [THEN fun_cong]
  run_shared_detector_def [THEN fun_cong] detect_and_create_shared_reminder_def [THEN fun_cong]
  view_shared_reminder_def [THEN fun_cong] cancel_projection_def [THEN fun_cong]
  cancel_shared_reminder_def [THEN fun_cong] store_rescheduled_def [THEN fun_cong]
  reschedule_checked_def [THEN fun_cong] update_shared_reminder_def [THEN fun_cong]
  complete_own_projection_def [THEN fun_cong]

section \<open>A small run\<close>

definition social_demo_ports :: soc_ports where
  "social_demo_ports =
     \<lparr>sp_reachable = (\<lambda>_. Inr True), sp_busy = (\<lambda>_ _ _ _. Inr []), sp_detector = None,
      sp_display = Inr, sp_token = (\<lambda>p n. p @ show_nat n), sp_base_url = ''u''\<rparr>"

text \<open>The same when nobody's name can be looked up, so that no notification gets written.\<close>

definition nameless_ports :: soc_ports where
  "nameless_ports = social_demo_ports\<lparr>sp_display := (\<lambda>_. Inl (RuntimeError ''names''))\<rparr>"

definition free_guard :: soc_guard where
  "free_guard = (\<lambda>_. None)"

text \<open>An environment with short hashes.\<close>

definition social_env :: env where
  "social_env = (demo_env 0)\<lparr>env_sha := take 12\<rparr>"

definition demo_linked :: soc_state where
  "demo_linked = snd (get_or_create_friend_link social_env social_demo_ports ''ann'' free_guard empty_soc_state)"

definition demo_joining :: "soc_ports \<Rightarrow> (pyexn + friendship_result) \<times> soc_state" where
  "demo_joining P =
     establish_friendship_from_token social_env P ''bob'' ''friend_link0'' free_guard demo_linked"

text \<open>
  The friendship and the shared reminder are there although their notifications failed: the store
  in memory has no rollback. The later examples start from these small states.
\<close>

definition demo_friends :: soc_state where
  "demo_friends = snd (demo_joining nameless_ports)"

definition demo_creating :: "soc_ports \<Rightarrow> (pyexn + shared_result) \<times> soc_state" where
  "demo_creating P =
     create_shared_reminder social_env P ''ann'' [''bob''] (Some ''tea'')
       (Some (Naive day_us, False)) ''UTC'' (Some (PyInt 30)) free_guard demo_friends"

definition demo_shared :: soc_state where
  "demo_shared = snd (demo_creating nameless_ports)"

definition demo_cancelling :: "(pyexn + shared_result) \<times> soc_state" where
  "demo_cancelling = cancel_shared_reminder social_env social_demo_ports ''bob'' ''2'' free_guard demo_shared"


lemma done_run: "snd (done_with m s) = snd (m s)"
  by (auto simp: done_with_def py_run split: prod.splits sum.splits)

lemma reachable_do: "soc_reachable E s \<Longrightarrow> soc_reachable E (snd (do_soc_call E P c s))"
  by (rule soc_reachable.step, assumption, rule soc_step.call [OF prod.collapse [symmetric]])

lemma demo_social_reachable:
  "soc_reachable social_env demo_linked" "soc_reachable social_env demo_friends"
  "soc_reachable social_env demo_shared"
proof -
  show linked: "soc_reachable social_env demo_linked"
    using reachable_do [OF soc_reachable.empty, of social_env social_demo_ports "GetOrCreateLink ''ann'' free_guard"]
    by (simp add: demo_linked_def done_run)
  show friends: "soc_reachable social_env demo_friends"
    using reachable_do [OF linked, of nameless_ports "JoinByToken ''bob'' ''friend_link0'' free_guard"]
    by (simp add: demo_friends_def demo_joining_def done_run)
  show "soc_reachable social_env demo_shared"
    using reachable_do [OF friends, of nameless_ports "CreateShared ''ann'' [''bob''] (Some ''tea'')
      (Some (Naive day_us, False)) ''UTC'' (Some (PyInt 30)) free_guard"]
    by (simp add: demo_shared_def demo_creating_def done_run)
qed

lemma demo_reminder_stored: "\<exists>r. get_shared_reminder demo_shared ''2'' = Some r"
proof -
  have "get_shared_reminder demo_shared ''2'' \<noteq> None" by code_simp
  then show ?thesis by blast
qed

lemma demo_joined: "map_sum id fsr_status (fst (demo_joining social_demo_ports)) = Inr ''created''"
  by code_simp

lemma demo_created: "map_sum id sres_status (fst (demo_creating social_demo_ports)) = Inr ''created''"
  by code_simp

lemma demo_cancelled: "map_sum id sres_status (fst demo_cancelling) = Inr ''cancelled''"
  by code_simp


section \<open>The store\<close>

text \<open>
  C18. Whatever is asked of the service, in whatever order and with whatever failures of its ports,
  the social store stays sound: two accounts are never friends twice and nobody is their own friend;
  no two active shared reminders of a creator have the same participants, title, time and length; a
  shared reminder lists its creator among at least two participants; a projection belongs to a
  stored reminder and to one of its participants, and each mirror reminder to a stored projection;
  a notification goes only to the recipients its fact lists, and keeps no unsafe error facts; a link
  is found only by the token or the code it shows.
\<close>

theorem social_store_invariant:
  assumes "soc_reachable E s"
  shows "(\<forall>i j f g. get_friendship s i = Some f \<longrightarrow> get_friendship s j = Some g \<longrightarrow>
      fs_lifecycle f = FriendshipActive \<longrightarrow> fs_lifecycle g = FriendshipActive \<longrightarrow>
      fs_low f = fs_low g \<longrightarrow> fs_high f = fs_high g \<longrightarrow> i = j) \<and>
    (\<forall>i f. get_friendship s i = Some f \<longrightarrow> fs_low f < fs_high f) \<and>
    (\<forall>i j a b. get_shared_reminder s i = Some a \<longrightarrow> get_shared_reminder s j = Some b \<longrightarrow>
      sr_status a = SharedActive \<longrightarrow> same_shared a b \<longrightarrow> i = j) \<and>
    (\<forall>i r. get_shared_reminder s i = Some r \<longrightarrow> shared_wf r) \<and>
    (\<forall>i p. dget (projections_by_id s) i = Some p \<longrightarrow>
      (\<exists>r. get_shared_reminder s (pj_shared_id p) = Some r \<and> pj_account_id p \<in> set (sr_participants r))) \<and>
    (\<forall>i r. dget (projection_reminders s) i = Some r \<longrightarrow>
      reminder_wf r \<and> (\<exists>j p. dget (projections_by_id s) j = Some p \<and> projection_of r p)) \<and>
    (\<forall>i r. dget (recipients_by_id s) i = Some r \<longrightarrow>
      validate_error_facts (nr_error_facts r) = Inr () \<and>
      (\<exists>f. dget (facts_by_id s) (nr_fact_id r) = Some f \<and> delivered_to f (nr_account_id r))) \<and>
    (\<forall>h l. get_friend_link_by_token_hash s h = Some l \<longrightarrow>
      (\<exists>t. get_public_token s (fl_id l) = Some t \<and> hash_token E t = h))"
proof -
  have ok: "soc_ok E s" using assms by (rule reachable_soc_ok)
  from ok have parts: "friendships_ok s" "shareds_ok s" "projections_ok s" "notifications_ok s"
    by (simp_all add: soc_ok_def)
  show ?thesis
  proof (intro conjI)
    show "\<forall>i j f g. get_friendship s i = Some f \<longrightarrow> get_friendship s j = Some g \<longrightarrow>
        fs_lifecycle f = FriendshipActive \<longrightarrow> fs_lifecycle g = FriendshipActive \<longrightarrow>
        fs_low f = fs_low g \<longrightarrow> fs_high f = fs_high g \<longrightarrow> i = j"
      using parts(1) by (simp add: friendships_ok_def active_pair_def)
    show "\<forall>i f. get_friendship s i = Some f \<longrightarrow> fs_low f < fs_high f"
      using parts(1) by (simp add: friendships_ok_def friendship_wf_def)
    show "\<forall>i r. dget (projection_reminders s) i = Some r \<longrightarrow>
        reminder_wf r \<and> (\<exists>j p. dget (projections_by_id s) j = Some p \<and> projection_of r p)"
      using parts(3) by (simp add: projections_ok_def)
  qed (use parts shown_by_link [OF ok] in \<open>simp_all add: shareds_ok_def projections_ok_def notifications_ok_def\<close>)
qed

theorem social_store_invariant_witness:
  "\<exists>r. get_shared_reminder demo_shared ''2'' = Some r \<and> shared_wf r"
proof -
  obtain r where r: "get_shared_reminder demo_shared ''2'' = Some r" using demo_reminder_stored by blast
  have "\<forall>i r. get_shared_reminder demo_shared i = Some r \<longrightarrow> shared_wf r"
    using social_store_invariant [OF demo_social_reachable(3)] by (elim conjE)
  with r show ?thesis by blast
qed

text \<open>
  Nothing the store holds gets lost, and what it says is final stays so: from any reachable
  state on, a notification fact stays as it is; a shared reminder keeps its people and its title,
  and is never changed again once it is cancelled; a removed friendship stays removed; a projection
  stays with its account and its completion is not taken back; a recipient stays with its fact.
\<close>

theorem social_store_only_grows:
  assumes "soc_reachable E s" and "(soc_step E)\<^sup>*\<^sup>* s t"
  shows "(\<forall>i f. dget (facts_by_id s) i = Some f \<longrightarrow> dget (facts_by_id t) i = Some f) \<and>
    (\<forall>i r. get_shared_reminder s i = Some r \<longrightarrow>
      (\<exists>r'. get_shared_reminder t i = Some r' \<and> sr_participants r' = sr_participants r \<and>
        sr_title r' = sr_title r \<and> (sr_status r = SharedCancelled \<longrightarrow> r' = r))) \<and>
    (\<forall>i f. get_friendship s i = Some f \<longrightarrow>
      (\<exists>f'. get_friendship t i = Some f' \<and> fs_low f' = fs_low f \<and> fs_high f' = fs_high f \<and>
        (fs_lifecycle f = FriendshipRemoved \<longrightarrow> fs_lifecycle f' = FriendshipRemoved))) \<and>
    (\<forall>i p. dget (projections_by_id s) i = Some p \<longrightarrow>
      (\<exists>p'. dget (projections_by_id t) i = Some p' \<and> pj_account_id p' = pj_account_id p \<and>
        (pj_completion p = CompletionDone \<longrightarrow> pj_completion p' = CompletionDone))) \<and>
    (\<forall>i r. dget (recipients_by_id s) i = Some r \<longrightarrow>
      (\<exists>r'. dget (recipients_by_id t) i = Some r' \<and> nr_fact_id r' = nr_fact_id r \<and>
        nr_account_id r' = nr_account_id r))"
proof -
  have ext: "soc_ext s t"
    using steps_inv [OF assms(2) reachable_soc_ok [OF assms(1)]] by (simp add: soc_inv_def)
  have removed: "FriendshipRemoved \<le> l \<Longrightarrow> l = FriendshipRemoved" for l by (cases l) simp_all
  note tables = ext [unfolded soc_ext_def]
  show ?thesis
  proof (intro conjI allI impI)
    show "dget (facts_by_id t) i = Some f" if "dget (facts_by_id s) i = Some f" for i f
      using facts.table_get [OF _ that, of "facts_by_id t"] tables by blast
    show "\<exists>r'. get_shared_reminder t i = Some r' \<and> sr_participants r' = sr_participants r \<and>
        sr_title r' = sr_title r \<and> (sr_status r = SharedCancelled \<longrightarrow> r' = r)"
      if "get_shared_reminder s i = Some r" for i r
      using shareds.table_get [OF _ that [unfolded get_shared_reminder_def], of "shared_by_id t"] tables
      unfolding get_shared_reminder_def shared_edited_def by blast
    show "\<exists>f'. get_friendship t i = Some f' \<and> fs_low f' = fs_low f \<and> fs_high f' = fs_high f \<and>
        (fs_lifecycle f = FriendshipRemoved \<longrightarrow> fs_lifecycle f' = FriendshipRemoved)"
      if "get_friendship s i = Some f" for i f
      using friendships.table_get [OF _ that [unfolded get_friendship_def], of "friendships_by_id t"] tables removed
      unfolding get_friendship_def friendship_edited_def by metis
    show "\<exists>p'. dget (projections_by_id t) i = Some p' \<and> pj_account_id p' = pj_account_id p \<and>
        (pj_completion p = CompletionDone \<longrightarrow> pj_completion p' = CompletionDone)"
      if "dget (projections_by_id s) i = Some p" for i p
      using projections.table_get [OF _ that, of "projections_by_id t"] tables
      unfolding projection_edited_def by blast
    show "\<exists>r'. dget (recipients_by_id t) i = Some r' \<and> nr_fact_id r' = nr_fact_id r \<and>
        nr_account_id r' = nr_account_id r" if "dget (recipients_by_id s) i = Some r" for i r
      using recipients.table_get [OF _ that, of "recipients_by_id t"] tables
      unfolding recipient_edited_def by blast
  qed
qed

theorem social_store_only_grows_witness:
  "\<exists>r r'. get_shared_reminder demo_shared ''2'' = Some r \<and>
     get_shared_reminder (snd demo_cancelling) ''2'' = Some r' \<and> sr_title r' = sr_title r"
proof -
  have "soc_step social_env demo_shared
      (snd (do_soc_call social_env social_demo_ports (CancelShared ''bob'' ''2'' free_guard) demo_shared))"
    by (rule soc_step.call [OF prod.collapse [symmetric]])
  then have "(soc_step social_env)\<^sup>*\<^sup>* demo_shared (snd demo_cancelling)"
    by (simp add: done_run demo_cancelling_def r_into_rtranclp)
  from social_store_only_grows [OF demo_social_reachable(3) this] demo_reminder_stored show ?thesis by blast
qed

section \<open>Shared reminders\<close>

text \<open>
  C19. Creating a shared reminder either refuses, and then the store is as before but for the
  counters, or reports \<open>created\<close>. It does so only when every receiver is an active friend of the
  creator, no active reminder of the creator has the same people, title, time and length, nobody is
  busy at that time, everybody can be reached, and the time is not past in the reminder's zone; and
  then the store holds the active reminder with the sorted participants, one active projection per
  participant mirrored in their reminders at that time, and one notification to the receivers.
\<close>

theorem creating_a_shared_reminder:
  assumes "soc_reachable E s"
    and "create_shared_reminder E P creator receivers title trigger timezone duration g s = (Inr res, t)"
  shows "if sres_status res = ''created''
    then \<exists>words local_at minutes.
      title = Some words \<and> map_option as_local_wall_clock trigger = Some local_at \<and>
      lies_ahead E (env_now E (clock s)) local_at timezone \<and>
      may_create E P s (canon creator) (map canon receivers) words local_at timezone minutes \<and>
      created_as E (canon creator) (map canon receivers) words local_at timezone minutes res t
    else soc_core t = soc_core s"
  using wp_create_shared [OF soc_inv_refl [OF reachable_soc_ok [OF assms(1)]],
      of P creator receivers title trigger timezone duration g]
  unfolding wp_def assms(2) refused_def by (simp split: if_splits) blast

theorem creating_a_shared_reminder_witness:
  "\<exists>res words local_at minutes. fst (demo_creating social_demo_ports) = Inr res \<and>
     created_as social_env ''ann'' [''bob''] words local_at ''UTC'' minutes res
       (snd (demo_creating social_demo_ports))"
proof -
  obtain res where res: "demo_creating social_demo_ports = (Inr res, snd (demo_creating social_demo_ports))"
    "sres_status res = ''created''"
    using returned [OF demo_created] by blast
  have "canon ''ann'' = ''ann''" "map canon [''bob''] = [''bob'']" by code_simp+
  with creating_a_shared_reminder [OF demo_social_reachable(2) res(1) [unfolded demo_creating_def],
      folded demo_creating_def] res
  show ?thesis by (metis fst_conv)
qed

text \<open>
  C20. Cancelling succeeds only for a participant. An active reminder becomes cancelled, together
  with every projection of it, whose mirror reminders are deleted, and the other participants are
  notified; a cancelled one is left as it is and nothing at all is written.
\<close>

theorem cancelling_a_shared_reminder:
  assumes "soc_reachable E s" and "cancel_shared_reminder E P account shared g s = (Inr res, t)"
  shows "\<exists>r. get_shared_reminder s shared = Some r \<and> canon account \<in> set (sr_participants r) \<and>
    (if sr_status r = SharedCancelled
     then t = s \<and> sres_status res = ''already_cancelled''
     else sres_status res = ''cancelled'' \<and>
       cancelled_as r (list_projections s shared) (canon account) res t)"
  using wp_cancel_shared [OF reachable_soc_ok [OF assms(1)], of P account shared g]
  unfolding wp_def assms(2) shared_result_of_def by auto

theorem cancelling_a_shared_reminder_witness:
  "\<exists>r res. fst demo_cancelling = Inr res \<and> get_shared_reminder demo_shared ''2'' = Some r \<and>
     cancelled_as r (list_projections demo_shared ''2'') ''bob'' res (snd demo_cancelling)"
proof -
  obtain res where res: "demo_cancelling = (Inr res, snd demo_cancelling)" "sres_status res = ''cancelled''"
    using returned [OF demo_cancelled] by blast
  have "canon ''bob'' = ''bob''" by code_simp
  moreover have "''cancelled'' \<noteq> ''already_cancelled''" by simp
  ultimately show ?thesis
    using cancelling_a_shared_reminder [OF demo_social_reachable(3) res(1) [unfolded demo_cancelling_def],
      folded demo_cancelling_def] res by (metis fst_conv)
qed



text \<open>
  A shared reminder is the participants' own: for anyone else, viewing, cancelling, updating
  and completing it raise \<open>shared_reminder_not_found\<close>, as if it did not exist, and leave the store as
  it is, counters included.
\<close>

theorem outsiders_are_refused:
  assumes "\<And>r. get_shared_reminder s shared = Some r \<Longrightarrow> canon account \<notin> set (sr_participants r)"
  shows "view_shared_reminder account shared s =
      (Inl (SocialSchedulingError ''shared_reminder_not_found'' None), s) \<and>
    cancel_shared_reminder E P account shared g s =
      (Inl (SocialSchedulingError ''shared_reminder_not_found'' None), s) \<and>
    update_shared_reminder E P account shared trigger timezone duration replay g s =
      (Inl (SocialSchedulingError ''shared_reminder_not_found'' None), s) \<and>
    complete_own_projection E account shared g s =
      (Inl (SocialSchedulingError ''shared_reminder_not_found'' None), s)"
proof -
  have "view_shared_reminder a shared s =
      (Inl (SocialSchedulingError ''shared_reminder_not_found'' None), s)" if "canon a = canon account" for a
    using assms that by (auto simp: view_shared_reminder_def py_run split: option.splits)
  from this [OF refl] this [OF canon_idem] show ?thesis
    by (simp add: cancel_shared_reminder_def update_shared_reminder_def complete_own_projection_def Let_def py_run)
qed

theorem outsiders_are_refused_witness:
  "cancel_shared_reminder social_env social_demo_ports ''eve'' ''2'' free_guard demo_shared =
     (Inl (SocialSchedulingError ''shared_reminder_not_found'' None), demo_shared)"
proof -
  have "case get_shared_reminder demo_shared ''2'' of None \<Rightarrow> True
    | Some r \<Rightarrow> canon ''eve'' \<notin> set (sr_participants r)"
    by code_simp
  then have "canon ''eve'' \<notin> set (sr_participants r)" if "get_shared_reminder demo_shared ''2'' = Some r" for r
    unfolding that by simp
  from outsiders_are_refused [OF this] show ?thesis by blast
qed

section \<open>Joining, availability and settlement\<close>

text \<open>
  C22. Joining by a token succeeds only with the token that an active link of another, reachable
  account shows. If the two are friends already, that friendship is returned and nothing is written;
  otherwise they become friends, and both are notified once.
\<close>

theorem joining_by_token:
  assumes "soc_reachable E s" and "establish_friendship_from_token E P joiner token g s = (Inr res, t)"
  shows "\<exists>l shown. get_friend_link_by_token_hash s (hash_token E token) = Some l \<and>
    get_public_token s (fl_id l) = Some shown \<and> hash_token E shown = hash_token E token \<and>
    fl_lifecycle l = LinkActive \<and> canon joiner \<noteq> fl_owner_account_id l \<and>
    sp_reachable P (fl_owner_account_id l) = Inr True \<and>
    (case get_active_friendship s (canon joiner) (fl_owner_account_id l) of
       Some f \<Rightarrow> t = s \<and> fsr_status res = ''already_active'' \<and> fsr_friendship res = f
     | None \<Rightarrow> fsr_status res = ''created'' \<and>
         befriended (canon joiner) (fl_owner_account_id l) (fsr_friendship res) t)"
proof -
  have ok: "soc_ok E s" using assms(1) by (rule reachable_soc_ok)
  obtain l where l: "get_friend_link_by_token_hash s (hash_token E token) = Some l"
    and run: "establish_from_link E P (canon joiner) l g s = (Inr res, t)"
    using assms(2)
    by (auto simp: establish_friendship_from_token_def establish_if_found_def py_run split: option.splits)
  obtain shown where "get_public_token s (fl_id l) = Some shown" "hash_token E shown = hash_token E token"
    using shown_by_link [OF ok l] by blast
  with l wp_establish [OF ok, of P "canon joiner" l g] show ?thesis
    unfolding wp_def run by (auto split: option.splits)
qed

theorem joining_by_token_witness:
  "\<exists>res. fst (demo_joining social_demo_ports) = Inr res \<and>
     befriended ''bob'' ''ann'' (fsr_friendship res) (snd (demo_joining social_demo_ports))"
proof -
  let ?link = "get_friend_link_by_token_hash demo_linked (hash_token social_env ''friend_link0'')"
  obtain res where res: "demo_joining social_demo_ports = (Inr res, snd (demo_joining social_demo_ports))"
    "fsr_status res = ''created''"
    using returned [OF demo_joined] by blast
  have "canon ''bob'' = ''bob''" by code_simp
  moreover have "map_option fl_owner_account_id ?link = Some ''ann''" by code_simp
  ultimately have "befriended ''bob'' ''ann'' (fsr_friendship res) (snd (demo_joining social_demo_ports))"
    using joining_by_token [OF demo_social_reachable(1) res(1) [unfolded demo_joining_def],
        folded demo_joining_def] res(2)
    by (auto split: option.splits)
  moreover have "fst (demo_joining social_demo_ports) = Inr res" using res(1) by (metis fst_conv)
  ultimately show ?thesis by blast
qed

text \<open>
  C23. The availability of a friend is shown only to a friend, and it is exact: when the reminder
  domain's busy intervals are well-formed, the windows follow each other from the start to the end
  asked for, alternating busy and free, and a moment lies in a busy window exactly when it lies in
  an interval of a reminder or of a shared reminder of the friend.
\<close>

theorem friend_availability_exact:
  assumes "soc_reachable E s"
    and "availability_of_friend P s requester start end_at timezone friend = Inr a"
    and "fst start < fst end_at"
    and "sp_busy P friend start end_at timezone = Inr personal" "list_all (interval_ok False) personal"
  shows "get_active_friendship s requester friend \<noteq> None \<and>
    (\<exists>shared. shared_busy_intervals s friend (Naive (fst start)) (Naive (fst end_at)) = Inr shared \<and>
       windows_span (fst start) (fa_windows a) (fst end_at) \<and> alternating (fa_windows a) \<and>
       (\<forall>x. fst start \<le> x \<and> x < fst end_at \<longrightarrow>
          shown_at BusyWindow (fa_windows a) x = busy_at (personal @ shared) x \<and>
          shown_at FreeWindow (fa_windows a) x = (\<not> busy_at (personal @ shared) x)))"
proof -
  have ok: "soc_ok E s" using assms(1) by (rule reachable_soc_ok)
  obtain shared where shared:
      "shared_busy_intervals s friend (Naive (fst start)) (Naive (fst end_at)) = Inr shared"
    and built: "build_busy_free_windows (Naive (fst start)) (Naive (fst end_at)) (personal @ shared) =
      Inr (fa_windows a)"
    and friends: "get_active_friendship s requester friend \<noteq> None"
    using assms(2,4) by (auto simp: availability_of_friend_def busy_intervals_for_def sbind_Inr_iff split: if_splits)
  have "list_all (interval_ok False) (personal @ shared)"
    using assms(5) shared_intervals_ok [OF ok shared] by simp
  from build_windows [OF _ _ this, of "Naive (fst start)" "Naive (fst end_at)"] assms(3) built friends shared
  show ?thesis by auto
qed

theorem friend_availability_exact_witness:
  "\<exists>a. availability_of_friend social_demo_ports demo_shared ''ann'' (0, False) (2 * day_us, False) ''UTC'' ''bob'' =
       Inr a \<and>
     (\<exists>shared. shared_busy_intervals demo_shared ''bob'' (Naive 0) (Naive (2 * day_us)) = Inr shared \<and>
       windows_span 0 (fa_windows a) (2 * day_us) \<and>
       shown_at BusyWindow (fa_windows a) day_us = busy_at shared day_us)"
proof -
  let ?answer = "availability_of_friend social_demo_ports demo_shared ''ann'' (0, False) (2 * day_us, False)
    ''UTC'' ''bob''"
  have "\<not> isl ?answer" by code_simp
  then obtain a where a: "?answer = Inr a" by (cases ?answer) simp_all
  have "sp_busy social_demo_ports ''bob'' (0, False) (2 * day_us, False) ''UTC'' = Inr []"
    by (simp add: social_demo_ports_def)
  from friend_availability_exact [OF demo_social_reachable(3) a _ this] a show ?thesis
    by (auto simp: us_defs)
qed

text \<open>
  C24. The social domain and the conversation runtime together: a pass that settles notifications
  marks as failed exactly the recipients that are still pending, were last touched no later than the
  cutoff, and whose turn has a terminal disposition in the runtime's store (replied, silent, failed,
  recovered or superseded); every other recipient is as it was.
\<close>

theorem settling_ended_turns:
  assumes "soc_reachable E s"
    and "reconcile_terminal_notification_recipients E P (runtime_of c) older s = (Inr n, t)"
  shows "\<exists>cutoff. dt_add (env_now E (clock s)) (- older) = Inr cutoff \<and>
    (\<forall>i r. dget (recipients_by_id s) i = Some r \<longrightarrow>
       (if recipient_due c cutoff r
        then \<exists>r'. failed_of r r' \<and> dget (recipients_by_id t) i = Some r'
        else dget (recipients_by_id t) i = Some r)) \<and>
    (\<forall>i. dget (recipients_by_id s) i = None \<longrightarrow> dget (recipients_by_id t) i = None)"
proof -
  have canonical: "canonical_recipients s"
    by (rule canonical_store_recipients [OF reachable_canonical [OF assms(1)]])
  from wp_reconcile [OF reachable_soc_ok [OF assms(1)] canonical, of P c older]
  obtain cutoff where cutoff: "dt_add (env_now E (clock s)) (- older) = Inr cutoff"
    and settled: "settled_where (\<lambda>_. True) c cutoff s t"
    unfolding wp_def assms(2) by auto
  have at: "case dget (recipients_by_id s) i of
      None \<Rightarrow> dget (recipients_by_id t) i = None
    | Some r \<Rightarrow> if recipient_due c cutoff r
        then \<exists>r'. failed_of r r' \<and> dget (recipients_by_id t) i = Some r'
        else dget (recipients_by_id t) i = Some r" for i
    using settled [unfolded settled_where_def, THEN spec [of _ i]] by (simp only: simp_thms)
  from cutoff show ?thesis
  proof (intro exI conjI allI impI)
    show "if recipient_due c cutoff r
        then \<exists>r'. failed_of r r' \<and> dget (recipients_by_id t) i = Some r'
        else dget (recipients_by_id t) i = Some r" if "dget (recipients_by_id s) i = Some r" for i r
      using at [of i] that by simp
    show "dget (recipients_by_id t) i = None" if "dget (recipients_by_id s) i = None" for i
      using at [of i] that by simp
  qed
qed

definition demo_pending :: soc_state where
  "demo_pending = snd (record_notification_delivery social_env social_demo_ports ''2'' ''ann''
     DeliveryPending [] (Some ''5'') (snd (demo_joining social_demo_ports)))"

definition demo_conversation :: conv_state where
  "demo_conversation = run_calls (demo_env 0)
     [RecordInbound ''ann'' ''chan'' ''ev1'' (Some ''hi'') [] ''tp'' [],
      RecordInbound ''ann'' ''chan'' ''ev2'' (Some ''there'') [] ''tp'' [],
      StartTurn ''0'' ''inbound:ev2'' ''InboundTurn'' ''interactive'',
      CommitReply ''5'' [''hello''] ''ok''] empty_conv_state"

definition demo_settling :: "(pyexn + nat) \<times> soc_state" where
  "demo_settling = reconcile_terminal_notification_recipients social_env social_demo_ports
     (runtime_of demo_conversation) 0 demo_pending"

lemma demo_pending_reachable: "soc_reachable social_env demo_pending"
proof -
  have "soc_reachable social_env (snd (demo_joining social_demo_ports))"
    using reachable_do [OF demo_social_reachable(1), of social_demo_ports
        "JoinByToken ''bob'' ''friend_link0'' free_guard"]
    by (simp add: demo_joining_def done_run)
  from reachable_do [OF this, of social_demo_ports "RecordDelivery ''2'' ''ann'' DeliveryPending [] (Some ''5'')"]
  show ?thesis by (simp add: demo_pending_def done_run)
qed

theorem settling_ended_turns_witness:
  "\<exists>r r'. dget (recipients_by_id demo_pending) ''4'' = Some r \<and>
     dget (recipients_by_id (snd demo_settling)) ''4'' = Some r' \<and> failed_of r r'"
proof -
  have "map_sum id id (fst demo_settling) = Inr 1" by code_simp
  then have ran: "demo_settling = (Inr 1, snd demo_settling)" using returned by fastforce
  have due: "case dt_add (env_now social_env (clock demo_pending)) (- 0) of
      Inl e \<Rightarrow> False
    | Inr cutoff \<Rightarrow>
        (case dget (recipients_by_id demo_pending) ''4'' of
           None \<Rightarrow> False | Some r \<Rightarrow> recipient_due demo_conversation cutoff r)"
    by code_simp
  from settling_ended_turns [OF demo_pending_reachable ran [unfolded demo_settling_def],
      folded demo_settling_def] due
  show ?thesis by (fastforce split: option.splits)
qed

end
