(* ===== verification/IdRepository.thy ===== *)
theory IdRepository
  imports PyText PyDateTime
begin

text \<open>
  Accounts, how they are reached and how they log in: the data of
  \<open>src/coke/domains/identity_access/models.py\<close> and the repository in memory of
  \<open>repository.py\<close>, whose dictionaries are the fields of the state.
\<close>

section \<open>Data\<close>

datatype account_origin = WebFirst | MessagingFirst
datatype account_lifecycle = AccountActive | AccountDisabled
datatype identity_lifecycle = IdentityActive | IdentityRemoved
datatype artifact_type = LoginUrl | ClaimCode | PairingCode | EmailVerification | PasswordReset
datatype artifact_delivery = ArtifactPending | ArtifactConsumed | ArtifactCompleted

fun artifact_type_name :: "artifact_type \<Rightarrow> string" where
  "artifact_type_name LoginUrl = ''login_url''"
| "artifact_type_name ClaimCode = ''claim_code''"
| "artifact_type_name PairingCode = ''pairing_code''"
| "artifact_type_name EmailVerification = ''email_verification''"
| "artifact_type_name PasswordReset = ''password_reset''"

record account =
  ac_id :: string
  ac_origin :: account_origin
  ac_default_timezone :: string
  ac_lifecycle :: account_lifecycle
  ac_created_at :: datetime
  ac_updated_at :: datetime

record activation =
  av_id :: string
  av_account_id :: string
  av_first_inbound_received_at :: "datetime option"
  av_completed_at :: "datetime option"
  av_first_guidance_sent_at :: "datetime option"
  av_created_at :: datetime
  av_updated_at :: datetime

record account_access =
  aa_id :: string
  aa_account_id :: string
  aa_email_verification_state :: string
  aa_subscription_state :: string
  aa_suspension_state :: string
  aa_allowed :: bool
  aa_denial_reason :: "string option"
  aa_created_at :: datetime
  aa_updated_at :: datetime

record user_profile =
  up_id :: string
  up_account_id :: string
  up_real_name :: "string option"
  up_nickname :: "string option"
  up_description :: "string option"
  up_relationship :: "string option"
  up_created_at :: datetime
  up_updated_at :: datetime

record credential =
  cr_id :: string
  cr_account_id :: string
  cr_email :: string
  cr_password_hash :: string
  cr_email_verified_at :: "datetime option"
  cr_reset_required :: bool
  cr_created_at :: datetime
  cr_updated_at :: datetime

record session =
  se_id :: string
  se_account_id :: string
  se_token :: string
  se_expires_at :: datetime
  se_revoked_at :: "datetime option"
  se_created_at :: datetime
  se_updated_at :: datetime

record channel_identity =
  ci_id :: string
  ci_account_id :: string
  ci_provider_type :: string
  ci_provider_subject :: string
  ci_lifecycle :: identity_lifecycle
  ci_is_anchor :: bool
  ci_created_at :: datetime
  ci_updated_at :: datetime

record artifact =
  ar_id :: string
  ar_type :: artifact_type
  ar_purpose :: string
  ar_delivery :: string
  ar_code :: string
  ar_expires_at :: datetime
  ar_consumed_at :: "datetime option"
  ar_delivery_state :: artifact_delivery
  ar_resend_count :: int
  ar_created_at :: datetime
  ar_updated_at :: datetime
  ar_account_id :: "string option"
  ar_target_account_id :: "string option"
  ar_browser_session :: "string option"
  ar_continuation :: fact

record registration_result =
  rr_account :: account
  rr_profile :: user_profile
  rr_credential :: credential
  rr_session :: session
  rr_verification :: "artifact option"

record verification_result =
  vr_account_id :: string
  vr_email :: string
  vr_session :: session

record login_result =
  lr_account :: account
  lr_session :: session

record identity_resolution =
  ir_account :: account
  ir_identity :: channel_identity
  ir_created_account :: bool

record artifact_issue =
  ai_artifact :: artifact
  ai_code :: string

record artifact_redemption =
  rd_account_id :: string
  rd_session :: session
  rd_continuation :: fact

record claim_redemption =
  cl_account_id :: string
  cl_continuation :: fact

record claim_code_status =
  cs_found :: bool
  cs_consumed :: bool
  cs_target_account_id :: "string option"
  cs_delivery_state :: "artifact_delivery option"

record access_decision =
  ad_allowed :: bool
  ad_denial_reason :: "string option"
  ad_turn_trigger :: "string option"
  ad_fact :: "fact option"

text \<open>The e-mails the service asks to be sent.\<close>

datatype email =
    VerificationEmail string string
  | ResetEmail string string
  | ClaimEmail string string

text \<open>
  The state: the repository's dictionaries, the tokens and password hashes made, and the e-mails
  sent so far.
\<close>

record id_state = svc +
  id_tokens_made :: nat
  hashes_made :: nat
  emails_sent :: "email list"
  accounts :: "(string, account) dict"
  activations :: "(string, activation) dict"
  access_by_account :: "(string, account_access) dict"
  profiles_by_account :: "(string, user_profile) dict"
  credentials_by_account :: "(string, credential) dict"
  credentials_by_email :: "(string, credential) dict"
  sessions_by_token :: "(string, session) dict"
  identities_by_id :: "(string, channel_identity) dict"
  identities_by_provider :: "(string \<times> string, channel_identity) dict"
  artifacts_by_code :: "(string, artifact) dict"
  usable_channels :: "string list"

definition empty_id_state :: id_state where
  "empty_id_state =
     \<lparr>clock = 0, issued = 0, traced = 0, id_tokens_made = 0, hashes_made = 0, emails_sent = [],
      accounts = [], activations = [], access_by_account = [], profiles_by_account = [],
      credentials_by_account = [], credentials_by_email = [], sessions_by_token = [],
      identities_by_id = [], identities_by_provider = [], artifacts_by_code = [],
      usable_channels = []\<rparr>"

type_synonym 'a idm = "(id_state, 'a) py"

section \<open>Accounts and what belongs to them\<close>

definition count_accounts :: "id_state \<Rightarrow> nat" where
  "count_accounts s = length (accounts s)"

definition get_account :: "id_state \<Rightarrow> string \<Rightarrow> account option" where
  "get_account s i = dget (accounts s) i"

definition add_account :: "account \<Rightarrow> unit idm" where
  "add_account a =
     bind (refuse_if (\<lambda>s. get_account s (ac_id a) \<noteq> None) ''duplicate_account_id'') (\<lambda>_.
     modify (\<lambda>s. s\<lparr>accounts := dput (ac_id a) a (accounts s)\<rparr>))"

definition get_activation :: "id_state \<Rightarrow> string \<Rightarrow> activation option" where
  "get_activation s account = dget (activations s) account"

definition put_activation :: "activation \<Rightarrow> id_state \<Rightarrow> id_state" where
  "put_activation a s = s\<lparr>activations := dput (av_account_id a) a (activations s)\<rparr>"

definition add_activation :: "activation \<Rightarrow> unit idm" where
  "add_activation a =
     bind (refuse_if (\<lambda>s. get_activation s (av_account_id a) \<noteq> None) ''duplicate_activation_account'') (\<lambda>_.
     modify (put_activation a))"

definition save_activation :: "activation \<Rightarrow> unit idm" where
  "save_activation a =
     bind (refuse_if (\<lambda>s. get_activation s (av_account_id a) = None) ''activation_not_found'') (\<lambda>_.
     modify (put_activation a))"

definition get_access :: "id_state \<Rightarrow> string \<Rightarrow> account_access option" where
  "get_access s account = dget (access_by_account s) account"

definition put_access :: "account_access \<Rightarrow> id_state \<Rightarrow> id_state" where
  "put_access a s = s\<lparr>access_by_account := dput (aa_account_id a) a (access_by_account s)\<rparr>"

definition add_access :: "account_access \<Rightarrow> unit idm" where
  "add_access a =
     bind (refuse_if (\<lambda>s. get_access s (aa_account_id a) \<noteq> None) ''duplicate_access_account'') (\<lambda>_.
     modify (put_access a))"

definition save_access :: "account_access \<Rightarrow> unit idm" where
  "save_access a =
     bind (refuse_if (\<lambda>s. get_access s (aa_account_id a) = None) ''access_not_found'') (\<lambda>_.
     modify (put_access a))"

definition get_user_profile :: "id_state \<Rightarrow> string \<Rightarrow> user_profile option" where
  "get_user_profile s account = dget (profiles_by_account s) account"

definition get_user_profiles :: "id_state \<Rightarrow> string list \<Rightarrow> (string, user_profile) dict" where
  "get_user_profiles s requested = filter (\<lambda>(i, p). i \<in> set requested) (profiles_by_account s)"

definition add_user_profile :: "user_profile \<Rightarrow> unit idm" where
  "add_user_profile p =
     bind (refuse_if (\<lambda>s. get_user_profile s (up_account_id p) \<noteq> None) ''duplicate_user_profile_account'') (\<lambda>_.
     modify (\<lambda>s. s\<lparr>profiles_by_account := dput (up_account_id p) p (profiles_by_account s)\<rparr>))"

section \<open>Credentials and sessions\<close>

definition get_credential_by_email :: "id_state \<Rightarrow> string \<Rightarrow> credential option" where
  "get_credential_by_email s address = dget (credentials_by_email s) (py_lower address)"

definition get_credential_by_account :: "id_state \<Rightarrow> string \<Rightarrow> credential option" where
  "get_credential_by_account s account = dget (credentials_by_account s) account"

definition put_credential :: "credential \<Rightarrow> id_state \<Rightarrow> id_state" where
  "put_credential c s =
     s\<lparr>credentials_by_account := dput (cr_account_id c) c (credentials_by_account s),
       credentials_by_email := dput (py_lower (cr_email c)) c (credentials_by_email s)\<rparr>"

definition add_credential :: "credential \<Rightarrow> unit idm" where
  "add_credential c =
     bind (refuse_if (\<lambda>s. get_credential_by_account s (cr_account_id c) \<noteq> None)
             ''duplicate_credential_account'') (\<lambda>_.
     bind (refuse_if (\<lambda>s. get_credential_by_email s (cr_email c) \<noteq> None)
             ''duplicate_credential_email'') (\<lambda>_.
     modify (put_credential c)))"

definition save_credential :: "credential \<Rightarrow> unit idm" where
  "save_credential c =
     bind (gets (\<lambda>s. get_credential_by_account s (cr_account_id c))) (\<lambda>found.
     case found of
       None \<Rightarrow> raise (ValueError ''credential_not_found'')
     | Some existing \<Rightarrow>
         bind (refuse_if (\<lambda>s. case get_credential_by_email s (cr_email c) of
                                 None \<Rightarrow> False
                               | Some owner \<Rightarrow> cr_account_id owner \<noteq> cr_account_id c)
                 ''duplicate_credential_email'') (\<lambda>_.
         bind (modify (\<lambda>s.
                 if py_lower (cr_email existing) \<noteq> py_lower (cr_email c)
                 then s\<lparr>credentials_by_email := dpop (py_lower (cr_email existing)) (credentials_by_email s)\<rparr>
                 else s)) (\<lambda>_.
         modify (put_credential c))))"

definition get_session_by_token :: "id_state \<Rightarrow> string \<Rightarrow> session option" where
  "get_session_by_token s token = dget (sessions_by_token s) token"

definition add_session :: "session \<Rightarrow> unit idm" where
  "add_session x =
     bind (refuse_if (\<lambda>s. get_session_by_token s (se_token x) \<noteq> None) ''duplicate_session_token'') (\<lambda>_.
     modify (\<lambda>s. s\<lparr>sessions_by_token := dput (se_token x) x (sessions_by_token s)\<rparr>))"

section \<open>Channel identities\<close>

definition identity_key :: "channel_identity \<Rightarrow> string \<times> string" where
  "identity_key i = (ci_provider_type i, ci_provider_subject i)"

definition get_channel_identity_by_provider :: "id_state \<Rightarrow> string \<Rightarrow> string \<Rightarrow> channel_identity option" where
  "get_channel_identity_by_provider s provider_type provider_subject =
     dget (identities_by_provider s) (provider_type, provider_subject)"

definition get_channel_identity :: "id_state \<Rightarrow> string \<Rightarrow> channel_identity option" where
  "get_channel_identity s i = dget (identities_by_id s) i"

definition list_channel_identities :: "id_state \<Rightarrow> string \<Rightarrow> channel_identity list" where
  "list_channel_identities s account =
     filter (\<lambda>i. ci_account_id i = account \<and> ci_lifecycle i = IdentityActive) (dvalues (identities_by_id s))"

definition put_identity :: "channel_identity \<Rightarrow> id_state \<Rightarrow> id_state" where
  "put_identity i s =
     s\<lparr>identities_by_id := dput (ci_id i) i (identities_by_id s),
       identities_by_provider := dput (identity_key i) i (identities_by_provider s)\<rparr>"

definition refuse_bound_identity :: "channel_identity \<Rightarrow> unit idm" where
  "refuse_bound_identity i =
     bind (refuse_if (\<lambda>s. get_channel_identity s (ci_id i) \<noteq> None) ''duplicate_channel_identity_id'') (\<lambda>_.
     refuse_if (\<lambda>s. dget (identities_by_provider s) (identity_key i) \<noteq> None)
       ''duplicate_channel_identity_provider'')"

definition add_channel_identity :: "channel_identity \<Rightarrow> unit idm" where
  "add_channel_identity i = bind (refuse_bound_identity i) (\<lambda>_. modify (put_identity i))"

section \<open>Artifacts\<close>

definition get_artifact_by_code :: "id_state \<Rightarrow> string \<Rightarrow> artifact option" where
  "get_artifact_by_code s code = dget (artifacts_by_code s) code"

definition put_artifact :: "artifact \<Rightarrow> id_state \<Rightarrow> id_state" where
  "put_artifact a s = s\<lparr>artifacts_by_code := dput (ar_code a) a (artifacts_by_code s)\<rparr>"

definition add_artifact :: "artifact \<Rightarrow> unit idm" where
  "add_artifact a =
     bind (refuse_if (\<lambda>s. get_artifact_by_code s (ar_code a) \<noteq> None) ''duplicate_artifact_code'') (\<lambda>_.
     modify (put_artifact a))"

definition save_artifact :: "artifact \<Rightarrow> unit idm" where
  "save_artifact a =
     bind (refuse_if (\<lambda>s. get_artifact_by_code s (ar_code a) = None) ''artifact_not_found'') (\<lambda>_.
     modify (put_artifact a))"

definition add_channel_identity_and_save_artifact :: "channel_identity \<Rightarrow> artifact \<Rightarrow> unit idm" where
  "add_channel_identity_and_save_artifact i a =
     bind (refuse_bound_identity i) (\<lambda>_.
     bind (refuse_if (\<lambda>s. get_artifact_by_code s (ar_code a) = None) ''artifact_not_found'') (\<lambda>_.
     modify (\<lambda>s. put_artifact a (put_identity i s))))"

text \<open>
  \<open>max(artifacts, key=lambda a: (a.created_at, a.id))\<close>: tuples compare by the first place where they
  differ, and ordering a naive and an aware time raises \<open>TypeError\<close>. Of equal keys the first stays.
\<close>

definition later_artifact :: "artifact \<Rightarrow> artifact \<Rightarrow> pyexn + bool" where
  "later_artifact a b =
     (if dt_eq (ar_created_at a) (ar_created_at b) then Inr (ar_id b < ar_id a)
      else dt_lt (ar_created_at b) (ar_created_at a))"

fun latest_artifact :: "artifact \<Rightarrow> artifact list \<Rightarrow> pyexn + artifact" where
  "latest_artifact best [] = Inr best"
| "latest_artifact best (a # as) =
     sbind (later_artifact a best) (\<lambda>later. latest_artifact (if later then a else best) as)"

definition get_latest_unconsumed_artifact ::
  "id_state \<Rightarrow> string \<Rightarrow> artifact_type \<Rightarrow> string \<Rightarrow> pyexn + artifact option" where
  "get_latest_unconsumed_artifact s account kind purpose =
     (case filter (\<lambda>a. ar_account_id a = Some account \<and> ar_type a = kind \<and> ar_purpose a = purpose \<and>
             ar_consumed_at a = None) (dvalues (artifacts_by_code s)) of
        [] \<Rightarrow> Inr None
      | a # as \<Rightarrow> sbind (latest_artifact a as) (\<lambda>b. Inr (Some b)))"

text \<open>A friend link that a claim carries along: a text that is not blank.\<close>

definition carried_friend_link :: "fact \<Rightarrow> string option" where
  "carried_friend_link continuation =
     (case dget continuation ''friend_link_id'' of
        Some (PyStr l) \<Rightarrow> if py_strip l \<noteq> [] then Some l else None
      | _ \<Rightarrow> None)"

definition list_deferred_friend_link_artifacts :: "id_state \<Rightarrow> string \<Rightarrow> artifact list" where
  "list_deferred_friend_link_artifacts s target =
     filter (\<lambda>a. ar_type a = ClaimCode \<and> ar_target_account_id a = Some target \<and>
         ar_delivery_state a = ArtifactCompleted \<and> carried_friend_link (ar_continuation a) \<noteq> None)
       (dvalues (artifacts_by_code s))"

definition mark_usable_channel :: "string \<Rightarrow> unit idm" where
  "mark_usable_channel account = modify (\<lambda>s. s\<lparr>usable_channels := List.insert account (usable_channels s)\<rparr>)"

definition has_usable_channel :: "id_state \<Rightarrow> string \<Rightarrow> bool" where
  "has_usable_channel s account \<longleftrightarrow> account \<in> set (usable_channels s)"

end
