(* ===== verification/IdService.thy ===== *)
theory IdService
  imports IdRepository
begin

text \<open>
  \<open>IdentityAccessService\<close> of \<open>src/coke/domains/identity_access/service.py\<close>, method by method, and
  \<open>PasswordHasher\<close> of \<open>passwords.py\<close>. Keyword arguments are evaluated in the order the code
  writes them, so identifiers, tokens and times are drawn in that order.
\<close>

section \<open>Ports\<close>

text \<open>
  The constructor's arguments beside the clock and the identifiers: the \<open>n\<close>-th token for a prefix,
  the checkout page, argon2 (whose \<open>n\<close>-th hash has its own salt, and whose \<open>verify\<close> answers or
  raises one of the errors that \<open>PasswordHasher.verify\<close> turns into \<open>False\<close>), the e-mail sender and
  the \<open>email_auth_enabled\<close> switch.
\<close>

record id_ports =
  ip_token :: "string \<Rightarrow> nat \<Rightarrow> string"
  ip_checkout :: "string \<Rightarrow> string"
  ip_argon_hash :: "nat \<Rightarrow> string \<Rightarrow> string"
  ip_argon_verify :: "string \<Rightarrow> string \<Rightarrow> bool"
  ip_send :: "email \<Rightarrow> pyexn + unit"
  ip_email_auth :: bool

abbreviation id_error :: "string \<Rightarrow> 'a idm" where
  "id_error code \<equiv> raise (IdentityAccessError code None)"

definition new_token :: "id_ports \<Rightarrow> string \<Rightarrow> string idm" where
  "new_token P prefix =
     (\<lambda>s. (Inr (ip_token P prefix (id_tokens_made s)), s\<lparr>id_tokens_made := Suc (id_tokens_made s)\<rparr>))"

definition send_email :: "id_ports \<Rightarrow> email \<Rightarrow> unit idm" where
  "send_email P e =
     bind (lift (ip_send P e)) (\<lambda>_. modify (\<lambda>s. s\<lparr>emails_sent := emails_sent s @ [e]\<rparr>))"

definition require :: "(id_state \<Rightarrow> 'a option) \<Rightarrow> string \<Rightarrow> 'a idm" where
  "require lookup code =
     bind (gets lookup) (\<lambda>found. case found of None \<Rightarrow> id_error code | Some x \<Rightarrow> ret x)"

definition require_account :: "string \<Rightarrow> account idm" where
  "require_account i = require (\<lambda>s. get_account s i) ''account_not_found''"

definition require_access :: "string \<Rightarrow> account_access idm" where
  "require_access i = require (\<lambda>s. get_access s i) ''access_not_found''"

definition require_user_profile :: "string \<Rightarrow> user_profile idm" where
  "require_user_profile i = require (\<lambda>s. get_user_profile s i) ''user_profile_not_found''"

definition require_activation :: "string \<Rightarrow> activation idm" where
  "require_activation i = require (\<lambda>s. get_activation s i) ''activation_not_found''"

section \<open>Passwords\<close>

definition password_hash :: "id_ports \<Rightarrow> string \<Rightarrow> string idm" where
  "password_hash P password =
     (if password = [] then raise (ValueError ''password_required'')
      else (\<lambda>s. (Inr (ip_argon_hash P (hashes_made s) password), s\<lparr>hashes_made := Suc (hashes_made s)\<rparr>)))"

definition password_verify :: "id_ports \<Rightarrow> string \<Rightarrow> string \<Rightarrow> pyexn + bool" where
  "password_verify P stored password =
     (if password = [] then Inl (ValueError ''password_required'')
      else Inr (ip_argon_verify P stored password))"

definition hash_password :: "id_ports \<Rightarrow> string \<Rightarrow> string idm" where
  "hash_password P password =
     catch (password_hash P password) (\<lambda>e. if is_value_error e then id_error ''invalid_password'' else raise e)"

definition verify_password :: "id_ports \<Rightarrow> string \<Rightarrow> string \<Rightarrow> bool" where
  "verify_password P stored password =
     (case password_verify P stored password of Inl _ \<Rightarrow> False | Inr b \<Rightarrow> b)"

section \<open>Names\<close>

definition squeeze :: "string \<Rightarrow> string" where
  "squeeze value = py_join '' '' (py_split (py_strip value))"

definition normalize_display_name :: "string option \<Rightarrow> pyexn + string option" where
  "normalize_display_name value =
     (case value of
        None \<Rightarrow> Inr None
      | Some v \<Rightarrow>
          if squeeze v = [] then Inl (IdentityAccessError ''display_name_required'' None)
          else Inr (Some (take 160 (squeeze v))))"

definition normalize_display_name_or_none :: "string option \<Rightarrow> string option" where
  "normalize_display_name_or_none value =
     (case value of None \<Rightarrow> None | Some v \<Rightarrow> if squeeze v = [] then None else Some (take 160 (squeeze v)))"

text \<open>\<open>candidate.rsplit(separator, 1)[-1]\<close>, which is all of it where the separator does not occur.\<close>

definition after_last :: "char \<Rightarrow> string \<Rightarrow> string" where
  "after_last separator s = rev (takeWhile (\<lambda>c. c \<noteq> separator) (rev s))"

definition fallback_display_name :: "string \<Rightarrow> string" where
  "fallback_display_name value =
     (let candidate = fold after_last [CHR ''@'', CHR '':'', CHR ''/''] (py_strip value);
          joined = py_join '' '' (py_split candidate)
      in take 160 (if joined = [] then ''Coke user'' else joined))"

definition display_name_from_email :: "string \<Rightarrow> string" where
  "display_name_from_email address =
     (let local_part = py_strip (takeWhile (\<lambda>c. c \<noteq> CHR ''@'') address)
      in fallback_display_name (if local_part = [] then address else local_part))"

definition display_name_for_provider_subject :: "string \<Rightarrow> string option \<Rightarrow> string" where
  "display_name_for_provider_subject subject sender =
     (case normalize_display_name sender of
        Inr (Some name) \<Rightarrow> name
      | _ \<Rightarrow> fallback_display_name subject)"

definition profile_display_name :: "user_profile option \<Rightarrow> string option" where
  "profile_display_name profile =
     (case profile of
        None \<Rightarrow> None
      | Some p \<Rightarrow>
          (case normalize_display_name_or_none (up_nickname p) of
             Some name \<Rightarrow> Some name
           | None \<Rightarrow> normalize_display_name_or_none (up_real_name p)))"

definition display_name_of :: "string \<Rightarrow> user_profile option \<Rightarrow> string" where
  "display_name_of account profile =
     (case profile_display_name profile of Some name \<Rightarrow> name | None \<Rightarrow> fallback_display_name account)"

section \<open>Account ids\<close>

text \<open>
  \<open>UUID(text).hex\<close>: the library drops \<open>urn:\<close>, \<open>uuid:\<close>, braces at the ends and dashes, wants 32
  characters and reads them with \<open>int(_, 16)\<close>, which allows blanks around, a sign, the prefix \<open>0x\<close>
  and single underscores; the number must fit 128 bits.
\<close>

function remove_all :: "string \<Rightarrow> string \<Rightarrow> string" where
  "remove_all needle s =
     (if s = [] \<or> needle = [] then s
      else if starts_with needle s then remove_all needle (drop (length needle) s)
      else hd s # remove_all needle (tl s))"
  by pat_completeness auto

termination by (relation "measure (\<lambda>(needle, s). length s)") auto

declare remove_all.simps [simp del]

definition hex_val :: "char \<Rightarrow> int option" where
  "hex_val c =
     (let n = (of_char c :: int) in
      if 48 \<le> n \<and> n \<le> 57 then Some (n - 48)
      else if 97 \<le> n \<and> n \<le> 102 then Some (n - 87)
      else if 65 \<le> n \<and> n \<le> 70 then Some (n - 55)
      else None)"

fun hex_digits_val :: "int \<Rightarrow> string \<Rightarrow> int option" where
  "hex_digits_val acc [] = None"
| "hex_digits_val acc [c] = map_option (\<lambda>d. 16 * acc + d) (hex_val c)"
| "hex_digits_val acc (c # c' # cs) =
     (case hex_val c of
        None \<Rightarrow> None
      | Some d \<Rightarrow>
          if c' = CHR ''_'' then hex_digits_val (16 * acc + d) cs
          else hex_digits_val (16 * acc + d) (c' # cs))"

fun hex_body :: "string \<Rightarrow> int option" where
  "hex_body (a # x # cs) =
     (if a = CHR ''0'' \<and> x \<in> {CHR ''x'', CHR ''X''}
      then hex_digits_val 0 (case cs of c # rest \<Rightarrow> if c = CHR ''_'' then rest else cs | [] \<Rightarrow> [])
      else hex_digits_val 0 (a # x # cs))"
| "hex_body cs = hex_digits_val 0 cs"

definition py_int_16 :: "string \<Rightarrow> int option" where
  "py_int_16 s =
     (case py_strip s of
        [] \<Rightarrow> None
      | c # cs \<Rightarrow>
          if c = CHR ''-'' then map_option uminus (hex_body cs)
          else if c = CHR ''+'' then hex_body cs
          else hex_body (c # cs))"

fun hex_text :: "nat \<Rightarrow> nat \<Rightarrow> string" where
  "hex_text 0 n = []"
| "hex_text (Suc k) n = hex_text k (n div 16) @ [hex_digit n]"

definition strip_braces :: "string \<Rightarrow> string" where
  "strip_braces s =
     (let brace = (\<lambda>c. c = CHR ''{'' \<or> c = CHR ''}'')
      in rev (dropWhile brace (rev (dropWhile brace s))))"

definition uuid_hex :: "string \<Rightarrow> string option" where
  "uuid_hex text =
     (let h = remove_dashes (strip_braces (remove_all ''uuid:'' (remove_all ''urn:'' text))) in
      if length h \<noteq> 32 then None
      else
        case py_int_16 h of
          None \<Rightarrow> None
        | Some n \<Rightarrow> if 0 \<le> n \<and> n < 2 ^ 128 then Some (hex_text 32 (nat n)) else None)"

definition account_id_key :: "string \<Rightarrow> string" where
  "account_id_key value = (case uuid_hex value of Some h \<Rightarrow> h | None \<Rightarrow> value)"

definition same_account_id :: "string \<Rightarrow> string \<Rightarrow> bool" where
  "same_account_id left right \<longleftrightarrow> account_id_key left = account_id_key right"

section \<open>Access\<close>

definition derive_denial_reason :: "id_ports \<Rightarrow> string \<Rightarrow> string \<Rightarrow> string \<Rightarrow> string option" where
  "derive_denial_reason P email_state subscription suspension =
     (if suspension = ''suspended'' then Some ''suspended''
      else if ip_email_auth P \<and> email_state \<noteq> ''verified'' then Some ''email_verification_required''
      else if subscription \<noteq> ''active'' then Some ''subscription_inactive''
      else None)"

definition effective_access :: "id_ports \<Rightarrow> account_access \<Rightarrow> account_access" where
  "effective_access P a =
     (let email_state = (if ip_email_auth P then aa_email_verification_state a else ''verified'');
          reason = derive_denial_reason P email_state (aa_subscription_state a) (aa_suspension_state a)
      in if email_state = aa_email_verification_state a \<and> (reason = None) = aa_allowed a \<and>
            reason = aa_denial_reason a
         then a
         else a\<lparr>aa_email_verification_state := email_state, aa_allowed := (reason = None),
                aa_denial_reason := reason\<rparr>)"

definition get_access_status :: "id_ports \<Rightarrow> string \<Rightarrow> account_access idm" where
  "get_access_status P account = bind (require_access account) (\<lambda>a. ret (effective_access P a))"

definition set_access_state ::
  "env \<Rightarrow> id_ports \<Rightarrow> string \<Rightarrow> string \<Rightarrow> string \<Rightarrow> string \<Rightarrow> account_access idm" where
  "set_access_state E P account email_state subscription suspension =
     bind (require_account account) (\<lambda>_.
     let reason = derive_denial_reason P email_state subscription suspension in
     bind (require_access account) (\<lambda>current.
     bind (py_now E) (\<lambda>now.
     let updated = current\<lparr>aa_email_verification_state := email_state, aa_subscription_state := subscription,
                     aa_suspension_state := suspension, aa_allowed := (reason = None),
                     aa_denial_reason := reason, aa_updated_at := now\<rparr> in
     bind (save_access updated) (\<lambda>_. ret updated))))"

definition text_or_none :: "string option \<Rightarrow> pyval" where
  "text_or_none v = (case v of None \<Rightarrow> PyNone | Some x \<Rightarrow> PyStr x)"

definition check_access :: "id_ports \<Rightarrow> string \<Rightarrow> bool \<Rightarrow> access_decision idm" where
  "check_access P i include_checkout =
     bind (require_account i) (\<lambda>account.
     bind (require_access i) (\<lambda>stored.
     let access = effective_access P stored in
     ret (if aa_allowed access
          then \<lparr>ad_allowed = True, ad_denial_reason = None, ad_turn_trigger = None, ad_fact = None\<rparr>
          else
            let checkout = (if include_checkout \<and> aa_denial_reason access = Some ''subscription_inactive'' \<and>
                              ac_origin account = MessagingFirst
                            then Some (ip_checkout P i) else None)
            in \<lparr>ad_allowed = False, ad_denial_reason = aa_denial_reason access,
                ad_turn_trigger = Some ''AccessDeniedTurn'',
                ad_fact = Some [(''type'', PyStr ''account_access_denied''), (''account_id'', PyStr i),
                                (''denial_reason'', text_or_none (aa_denial_reason access)),
                                (''checkout_url'', text_or_none checkout)]\<rparr>)))"

definition check_access_for_inbound :: "id_ports \<Rightarrow> string \<Rightarrow> access_decision idm" where
  "check_access_for_inbound P i = check_access P i True"

definition check_access_for_action :: "id_ports \<Rightarrow> string \<Rightarrow> string \<Rightarrow> access_decision idm" where
  "check_access_for_action P i action =
     (if action \<notin> {''connect_channel'', ''calendar_import''} then id_error ''unsupported_gated_action''
      else check_access P i False)"

definition require_action :: "id_ports \<Rightarrow> string \<Rightarrow> string \<Rightarrow> unit idm" where
  "require_action P i action =
     bind (check_access_for_action P i action) (\<lambda>d.
     if ad_allowed d then ret () else raise (IdentityAccessError ''access_denied'' (ad_fact d)))"

section \<open>Building blocks\<close>

definition create_account :: "env \<Rightarrow> id_ports \<Rightarrow> account_origin \<Rightarrow> string \<Rightarrow> string \<Rightarrow> account idm" where
  "create_account E P origin timezone name =
     (let email_state = (if origin = WebFirst \<and> ip_email_auth P then ''required'' else ''verified'');
          reason = derive_denial_reason P email_state ''active'' ''active''
      in
      bind (new_id E ''account'') (\<lambda>aid.
      bind (py_now E) (\<lambda>created.
      bind (py_now E) (\<lambda>updated.
      let account = \<lparr>ac_id = aid, ac_origin = origin, ac_default_timezone = timezone,
                      ac_lifecycle = AccountActive, ac_created_at = created, ac_updated_at = updated\<rparr> in
      bind (add_account account) (\<lambda>_.
      bind (new_id E ''user_profile'') (\<lambda>pid.
      bind (py_now E) (\<lambda>created.
      bind (py_now E) (\<lambda>updated.
      bind (add_user_profile
             \<lparr>up_id = pid, up_account_id = aid, up_real_name = None, up_nickname = Some name,
              up_description = None, up_relationship = None, up_created_at = created,
              up_updated_at = updated\<rparr>) (\<lambda>_.
      bind (new_id E ''activation'') (\<lambda>vid.
      bind (py_now E) (\<lambda>created.
      bind (py_now E) (\<lambda>updated.
      bind (add_activation
             \<lparr>av_id = vid, av_account_id = aid, av_first_inbound_received_at = None,
              av_completed_at = None, av_first_guidance_sent_at = None, av_created_at = created,
              av_updated_at = updated\<rparr>) (\<lambda>_.
      bind (new_id E ''access'') (\<lambda>xid.
      bind (py_now E) (\<lambda>created.
      bind (py_now E) (\<lambda>updated.
      bind (add_access
             \<lparr>aa_id = xid, aa_account_id = aid, aa_email_verification_state = email_state,
              aa_subscription_state = ''active'', aa_suspension_state = ''active'',
              aa_allowed = (reason = None), aa_denial_reason = reason, aa_created_at = created,
              aa_updated_at = updated\<rparr>) (\<lambda>_.
      ret account)))))))))))))))))"

definition build_channel_identity ::
  "env \<Rightarrow> string \<Rightarrow> string \<Rightarrow> string \<Rightarrow> bool \<Rightarrow> channel_identity idm" where
  "build_channel_identity E account provider_type subject anchor =
     bind (new_id E ''channel_identity'') (\<lambda>iid.
     bind (py_now E) (\<lambda>created.
     bind (py_now E) (\<lambda>updated.
     ret \<lparr>ci_id = iid, ci_account_id = account, ci_provider_type = provider_type,
          ci_provider_subject = subject, ci_lifecycle = IdentityActive, ci_is_anchor = anchor,
          ci_created_at = created, ci_updated_at = updated\<rparr>)))"

definition create_channel_identity ::
  "env \<Rightarrow> string \<Rightarrow> string \<Rightarrow> string \<Rightarrow> bool \<Rightarrow> channel_identity idm" where
  "create_channel_identity E account provider_type subject anchor =
     bind (build_channel_identity E account provider_type subject anchor) (\<lambda>i.
     bind (add_channel_identity i) (\<lambda>_. ret i))"

definition create_session :: "env \<Rightarrow> id_ports \<Rightarrow> string \<Rightarrow> session idm" where
  "create_session E P account =
     bind (new_id E ''session'') (\<lambda>sid.
     bind (new_token P ''session'') (\<lambda>token.
     bind (py_now E) (\<lambda>now.
     bind (lift (dt_add now (30 * day_us))) (\<lambda>expires.
     bind (py_now E) (\<lambda>created.
     bind (py_now E) (\<lambda>updated.
     let x = \<lparr>se_id = sid, se_account_id = account, se_token = token, se_expires_at = expires,
              se_revoked_at = None, se_created_at = created, se_updated_at = updated\<rparr> in
     bind (add_session x) (\<lambda>_. ret x)))))))"

definition issue_artifact ::
  "env \<Rightarrow> id_ports \<Rightarrow> artifact_type \<Rightarrow> string \<Rightarrow> string \<Rightarrow> int \<Rightarrow> string option \<Rightarrow> string option \<Rightarrow> fact \<Rightarrow>
    artifact_issue idm" where
  "issue_artifact E P kind purpose delivery ttl account browser continuation =
     bind (new_id E ''auth_artifact'') (\<lambda>aid.
     bind (new_token P (artifact_type_name kind)) (\<lambda>code.
     bind (py_now E) (\<lambda>now.
     bind (lift (dt_add now ttl)) (\<lambda>expires.
     bind (py_now E) (\<lambda>created.
     bind (py_now E) (\<lambda>updated.
     let a = \<lparr>ar_id = aid, ar_type = kind, ar_purpose = purpose, ar_delivery = delivery, ar_code = code,
              ar_expires_at = expires, ar_consumed_at = None, ar_delivery_state = ArtifactPending,
              ar_resend_count = 0, ar_created_at = created, ar_updated_at = updated,
              ar_account_id = account, ar_target_account_id = None, ar_browser_session = browser,
              ar_continuation = continuation\<rparr> in
     bind (add_artifact a) (\<lambda>_. ret \<lparr>ai_artifact = a, ai_code = code\<rparr>)))))))"

text \<open>\<open>if artifact.expires_at <= self._now(): raise\<close>.\<close>

definition refuse_expired :: "env \<Rightarrow> artifact \<Rightarrow> unit idm" where
  "refuse_expired E a =
     bind (py_now E) (\<lambda>now.
     bind (lift (dt_le (ar_expires_at a) now)) (\<lambda>expired.
     if expired then id_error ''artifact_expired'' else ret ()))"

definition require_unconsumed_artifact :: "env \<Rightarrow> string \<Rightarrow> artifact_type \<Rightarrow> artifact idm" where
  "require_unconsumed_artifact E code kind =
     bind (require (\<lambda>s. get_artifact_by_code s code) ''artifact_not_found'') (\<lambda>a.
     if ar_type a \<noteq> kind then id_error ''artifact_wrong_type''
     else if ar_consumed_at a \<noteq> None then id_error ''artifact_consumed''
     else bind (refuse_expired E a) (\<lambda>_. ret a))"

definition consumed_now :: "env \<Rightarrow> artifact \<Rightarrow> artifact idm" where
  "consumed_now E a =
     bind (py_now E) (\<lambda>consumed.
     bind (py_now E) (\<lambda>updated.
     ret (a\<lparr>ar_consumed_at := Some consumed, ar_delivery_state := ArtifactConsumed,
            ar_updated_at := updated\<rparr>)))"

definition consume_artifact :: "env \<Rightarrow> string \<Rightarrow> artifact_type \<Rightarrow> artifact idm" where
  "consume_artifact E code kind =
     bind (require_unconsumed_artifact E code kind) (\<lambda>a.
     bind (consumed_now E a) (\<lambda>consumed.
     bind (save_artifact consumed) (\<lambda>_. ret consumed)))"

text \<open>The account an artifact was issued for.\<close>

definition artifact_account :: "artifact \<Rightarrow> string idm" where
  "artifact_account a =
     (case ar_account_id a of None \<Rightarrow> id_error ''artifact_missing_account'' | Some i \<Rightarrow> ret i)"

section \<open>Registration and login\<close>

definition refuse_registered :: "string \<Rightarrow> unit idm" where
  "refuse_registered address =
     bind (gets (\<lambda>s. get_credential_by_email s address)) (\<lambda>found.
     if found \<noteq> None then id_error ''email_already_registered'' else ret ())"

definition register_web_account ::
  "env \<Rightarrow> id_ports \<Rightarrow> string \<Rightarrow> string \<Rightarrow> string option \<Rightarrow> string \<Rightarrow> registration_result idm" where
  "register_web_account E P address password display timezone =
     bind (refuse_registered address) (\<lambda>_.
     bind (lift (normalize_display_name display)) (\<lambda>name.
     bind (create_account E P WebFirst timezone
            (case name of None \<Rightarrow> display_name_from_email address | Some n \<Rightarrow> n)) (\<lambda>account.
     bind (new_id E ''credential'') (\<lambda>cid.
     bind (hash_password P password) (\<lambda>hashed.
     bind (if ip_email_auth P then ret None else bind (py_now E) (\<lambda>t. ret (Some t))) (\<lambda>verified.
     bind (py_now E) (\<lambda>created.
     bind (py_now E) (\<lambda>updated.
     let c = \<lparr>cr_id = cid, cr_account_id = ac_id account, cr_email = address, cr_password_hash = hashed,
              cr_email_verified_at = verified, cr_reset_required = False, cr_created_at = created,
              cr_updated_at = updated\<rparr> in
     bind (add_credential c) (\<lambda>_.
     bind (create_session E P (ac_id account)) (\<lambda>x.
     bind (if ip_email_auth P
           then bind (issue_artifact E P EmailVerification ''verify_email'' ''email'' (24 * hour_us)
                       (Some (ac_id account)) None []) (\<lambda>issued.
                bind (send_email P (VerificationEmail address (ai_code issued))) (\<lambda>_.
                ret (Some (ai_artifact issued))))
           else ret None) (\<lambda>verification.
     bind (require_user_profile (ac_id account)) (\<lambda>profile.
     ret \<lparr>rr_account = account, rr_profile = profile, rr_credential = c, rr_session = x,
          rr_verification = verification\<rparr>))))))))))))"

definition login :: "env \<Rightarrow> id_ports \<Rightarrow> string \<Rightarrow> string \<Rightarrow> login_result idm" where
  "login E P address password =
     bind (gets (\<lambda>s. get_credential_by_email s address)) (\<lambda>found.
     case found of
       None \<Rightarrow> id_error ''invalid_credentials''
     | Some c \<Rightarrow>
         if \<not> verify_password P (cr_password_hash c) password then id_error ''invalid_credentials''
         else
           bind (require_account (cr_account_id c)) (\<lambda>account.
           bind (create_session E P (ac_id account)) (\<lambda>x.
           ret \<lparr>lr_account = account, lr_session = x\<rparr>)))"

definition current_user :: "env \<Rightarrow> string \<Rightarrow> account idm" where
  "current_user E token =
     bind (gets (\<lambda>s. get_session_by_token s token)) (\<lambda>found.
     case found of
       None \<Rightarrow> id_error ''invalid_session''
     | Some x \<Rightarrow>
         if se_revoked_at x \<noteq> None then id_error ''invalid_session''
         else
           bind (py_now E) (\<lambda>now.
           bind (lift (dt_le (se_expires_at x) now)) (\<lambda>expired.
           if expired then id_error ''invalid_session'' else require_account (se_account_id x))))"

section \<open>Channel identities\<close>

definition pair_channel_identity ::
  "env \<Rightarrow> id_ports \<Rightarrow> string \<Rightarrow> string \<Rightarrow> string \<Rightarrow> identity_resolution idm" where
  "pair_channel_identity E P provider_type subject code =
     bind (require_unconsumed_artifact E code PairingCode) (\<lambda>a.
     bind (artifact_account a) (\<lambda>i.
     bind (require_account i) (\<lambda>account.
     bind (require_action P (ac_id account) ''connect_channel'') (\<lambda>_.
     bind (gets (\<lambda>s. get_channel_identity_by_provider s provider_type subject)) (\<lambda>existing.
     if existing \<noteq> None then id_error ''channel_identity_already_bound''
     else
       bind (consumed_now E a) (\<lambda>consumed.
       bind (build_channel_identity E (ac_id account) provider_type subject False) (\<lambda>identity.
       bind (catch (add_channel_identity_and_save_artifact identity consumed)
              (\<lambda>e. if is_value_error e
                   then raise (IdentityAccessError ''channel_identity_write_conflict''
                          (Some [(''type'', PyStr ''channel_identity_write_conflict''),
                                 (''provider_type'', PyStr provider_type),
                                 (''reason'', PyStr ''write_conflict'')]))
                   else raise e)) (\<lambda>_.
       ret \<lparr>ir_account = account, ir_identity = identity, ir_created_account = False\<rparr>))))))))"

definition resolve_or_create_channel_identity ::
  "env \<Rightarrow> id_ports \<Rightarrow> string \<Rightarrow> string \<Rightarrow> string option \<Rightarrow> string option \<Rightarrow> identity_resolution idm" where
  "resolve_or_create_channel_identity E P provider_type subject pairing sender =
     (case pairing of
        Some code \<Rightarrow> pair_channel_identity E P provider_type subject code
      | None \<Rightarrow>
          bind (gets (\<lambda>s. get_channel_identity_by_provider s provider_type subject)) (\<lambda>existing.
          case existing of
            Some identity \<Rightarrow>
              bind (require_account (ci_account_id identity)) (\<lambda>account.
              ret \<lparr>ir_account = account, ir_identity = identity, ir_created_account = False\<rparr>)
          | None \<Rightarrow>
              if provider_type \<noteq> ''whatsapp_evolution'' then id_error ''identity_pairing_required''
              else
                bind (create_account E P MessagingFirst ''UTC''
                       (display_name_for_provider_subject subject sender)) (\<lambda>account.
                bind (create_channel_identity E (ac_id account) provider_type subject True) (\<lambda>identity.
                ret \<lparr>ir_account = account, ir_identity = identity, ir_created_account = True\<rparr>))))"

definition bind_channel_identity_to_account ::
  "env \<Rightarrow> id_ports \<Rightarrow> string \<Rightarrow> string \<Rightarrow> string \<Rightarrow> bool \<Rightarrow> identity_resolution idm" where
  "bind_channel_identity_to_account E P i provider_type subject anchor =
     bind (require_account i) (\<lambda>account.
     bind (require_action P i ''connect_channel'') (\<lambda>_.
     bind (gets (\<lambda>s. get_channel_identity_by_provider s provider_type subject)) (\<lambda>existing.
     case existing of
       Some identity \<Rightarrow>
         if \<not> same_account_id (ci_account_id identity) i then id_error ''channel_identity_already_bound''
         else ret \<lparr>ir_account = account, ir_identity = identity, ir_created_account = False\<rparr>
     | None \<Rightarrow>
         bind (create_channel_identity E i provider_type subject anchor) (\<lambda>identity.
         ret \<lparr>ir_account = account, ir_identity = identity, ir_created_account = False\<rparr>))))"

definition can_remove_channel_identity :: "string \<Rightarrow> string \<Rightarrow> bool idm" where
  "can_remove_channel_identity i identity_id =
     bind (require_account i) (\<lambda>account.
     bind (gets (\<lambda>s. get_channel_identity s identity_id)) (\<lambda>found.
     case found of
       None \<Rightarrow> id_error ''channel_identity_not_found''
     | Some identity \<Rightarrow>
         if \<not> same_account_id (ci_account_id identity) i then id_error ''channel_identity_not_found''
         else
           bind (gets (\<lambda>s. list_channel_identities s i)) (\<lambda>active.
           ret (\<not> (ac_origin account = MessagingFirst \<and> ci_is_anchor identity \<and> length active = 1)))))"

definition get_owned_channel_identity :: "string \<Rightarrow> string \<Rightarrow> channel_identity idm" where
  "get_owned_channel_identity i identity_id =
     bind (require_account i) (\<lambda>_.
     bind (gets (\<lambda>s. get_channel_identity s identity_id)) (\<lambda>found.
     case found of
       None \<Rightarrow> id_error ''channel_identity_not_found''
     | Some identity \<Rightarrow>
         if \<not> same_account_id (ci_account_id identity) i \<or> ci_lifecycle identity \<noteq> IdentityActive
         then id_error ''channel_identity_not_found'' else ret identity))"

section \<open>Login links\<close>

definition issue_login_url :: "env \<Rightarrow> id_ports \<Rightarrow> string \<Rightarrow> artifact_issue idm" where
  "issue_login_url E P i =
     bind (require_account i) (\<lambda>_.
     issue_artifact E P LoginUrl ''chat_login'' ''in_conversation'' (15 * minute_us) (Some i) None [])"

definition redeem_login_url :: "env \<Rightarrow> id_ports \<Rightarrow> string \<Rightarrow> artifact_redemption idm" where
  "redeem_login_url E P token =
     bind (consume_artifact E token LoginUrl) (\<lambda>a.
     bind (artifact_account a) (\<lambda>i.
     bind (create_session E P i) (\<lambda>x.
     ret \<lparr>rd_account_id = i, rd_session = x, rd_continuation = ar_continuation a\<rparr>)))"

section \<open>Claims\<close>

definition issue_web_claim_code :: "env \<Rightarrow> id_ports \<Rightarrow> string \<Rightarrow> fact option \<Rightarrow> artifact_issue idm" where
  "issue_web_claim_code E P browser continuation =
     issue_artifact E P ClaimCode ''web_claim'' ''web'' (15 * minute_us) None (Some browser)
       (case continuation of None \<Rightarrow> [] | Some c \<Rightarrow> c)"

definition get_claim_code_status :: "env \<Rightarrow> string \<Rightarrow> string \<Rightarrow> claim_code_status idm" where
  "get_claim_code_status E code browser =
     bind (gets (\<lambda>s. get_artifact_by_code s code)) (\<lambda>found.
     case (case found of None \<Rightarrow> None | Some a \<Rightarrow> if ar_type a \<noteq> ClaimCode then None else Some a) of
       None \<Rightarrow>
         ret \<lparr>cs_found = False, cs_consumed = False, cs_target_account_id = None, cs_delivery_state = None\<rparr>
     | Some a \<Rightarrow>
         bind (refuse_expired E a) (\<lambda>_.
         if ar_browser_session a \<noteq> Some browser then id_error ''browser_session_mismatch''
         else
           ret \<lparr>cs_found = True, cs_consumed = (ar_consumed_at a \<noteq> None),
                cs_target_account_id = ar_target_account_id a,
                cs_delivery_state = Some (ar_delivery_state a)\<rparr>))"

definition redeem_claim_code_from_channel :: "env \<Rightarrow> string \<Rightarrow> string \<Rightarrow> string \<Rightarrow> claim_redemption idm" where
  "redeem_claim_code_from_channel E code provider_type subject =
     bind (require (\<lambda>s. get_channel_identity_by_provider s provider_type subject) ''unknown_channel_identity'')
       (\<lambda>identity.
     bind (require_unconsumed_artifact E code ClaimCode) (\<lambda>a.
     bind (py_now E) (\<lambda>consumed.
     bind (py_now E) (\<lambda>updated.
     bind (save_artifact (a\<lparr>ar_consumed_at := Some consumed, ar_delivery_state := ArtifactConsumed,
                            ar_target_account_id := Some (ci_account_id identity),
                            ar_updated_at := updated\<rparr>)) (\<lambda>_.
     ret \<lparr>cl_account_id = ci_account_id identity, cl_continuation = ar_continuation a\<rparr>)))))"

definition complete_web_claim_from_browser ::
  "env \<Rightarrow> id_ports \<Rightarrow> string \<Rightarrow> string \<Rightarrow> artifact_redemption idm" where
  "complete_web_claim_from_browser E P code browser =
     bind (require (\<lambda>s. get_artifact_by_code s code) ''artifact_not_found'') (\<lambda>a.
     if ar_type a \<noteq> ClaimCode then id_error ''artifact_wrong_type''
     else
       bind (refuse_expired E a) (\<lambda>_.
       if ar_browser_session a \<noteq> Some browser then id_error ''browser_session_mismatch''
       else
         case (ar_consumed_at a, ar_target_account_id a) of
           (Some _, Some target) \<Rightarrow>
             if ar_delivery_state a = ArtifactCompleted then id_error ''artifact_consumed''
             else
               bind (create_session E P target) (\<lambda>x.
               bind (py_now E) (\<lambda>updated.
               bind (save_artifact (a\<lparr>ar_delivery_state := ArtifactCompleted, ar_updated_at := updated\<rparr>)) (\<lambda>_.
               ret \<lparr>rd_account_id = target, rd_session = x, rd_continuation = ar_continuation a\<rparr>)))
         | _ \<Rightarrow> id_error ''claim_not_redeemed''))"

text \<open>One turn of the loop of \<open>consume_deferred_friend_link_continuations\<close>.\<close>

definition release_link :: "env \<Rightarrow> artifact \<Rightarrow> string option idm" where
  "release_link E a =
     (case carried_friend_link (ar_continuation a) of
        None \<Rightarrow> ret None
      | Some link \<Rightarrow>
          bind (py_now E) (\<lambda>updated.
          bind (save_artifact (a\<lparr>ar_continuation := dpop ''friend_link_id'' (ar_continuation a),
                                 ar_updated_at := updated\<rparr>)) (\<lambda>_.
          ret (Some link))))"

definition consume_deferred_friend_link_continuations :: "env \<Rightarrow> string \<Rightarrow> string list idm" where
  "consume_deferred_friend_link_continuations E i =
     bind (require_account i) (\<lambda>_.
     bind (gets (\<lambda>s. list_deferred_friend_link_artifacts s i)) (\<lambda>as.
     bind (map_py (release_link E) as) (\<lambda>links.
     ret (List.map_filter id links))))"

section \<open>Pairing codes\<close>

definition require_pairing_allowed :: "id_ports \<Rightarrow> string \<Rightarrow> account idm" where
  "require_pairing_allowed P i =
     bind (require_account i) (\<lambda>account.
     if ac_origin account \<noteq> WebFirst then id_error ''pairing_requires_web_first_account''
     else bind (require_action P i ''connect_channel'') (\<lambda>_. ret account))"

definition issue_pairing_code :: "env \<Rightarrow> id_ports \<Rightarrow> string \<Rightarrow> artifact_issue idm" where
  "issue_pairing_code E P i =
     bind (require_pairing_allowed P i) (\<lambda>_.
     issue_artifact E P PairingCode ''channel_pairing'' ''web'' (15 * minute_us) (Some i) None [])"

text \<open>\<open>artifact is None or artifact.expires_at <= self._now()\<close>.\<close>

definition missing_or_expired :: "env \<Rightarrow> artifact option \<Rightarrow> bool idm" where
  "missing_or_expired E found =
     (case found of
        None \<Rightarrow> ret True
      | Some a \<Rightarrow> bind (py_now E) (\<lambda>now. lift (dt_le (ar_expires_at a) now)))"

definition get_pending_pairing_code :: "env \<Rightarrow> id_ports \<Rightarrow> string \<Rightarrow> artifact_issue option idm" where
  "get_pending_pairing_code E P i =
     bind (require_pairing_allowed P i) (\<lambda>_.
     bind (gets (\<lambda>s. get_latest_unconsumed_artifact s i PairingCode ''channel_pairing'')) (\<lambda>latest.
     bind (lift latest) (\<lambda>found.
     bind (missing_or_expired E found) (\<lambda>gone.
     ret (if gone then None
          else map_option (\<lambda>a. \<lparr>ai_artifact = a, ai_code = ar_code a\<rparr>) found)))))"

definition ensure_pairing_code :: "env \<Rightarrow> id_ports \<Rightarrow> string \<Rightarrow> artifact_issue idm" where
  "ensure_pairing_code E P i =
     bind (get_pending_pairing_code E P i) (\<lambda>pending.
     case pending of Some x \<Rightarrow> ret x | None \<Rightarrow> issue_pairing_code E P i)"

definition preview_pairing_code_account :: "env \<Rightarrow> string \<Rightarrow> string idm" where
  "preview_pairing_code_account E code =
     bind (require_unconsumed_artifact E code PairingCode) (\<lambda>a.
     bind (artifact_account a) (\<lambda>i.
     bind (require_account i) (\<lambda>_. ret i)))"

section \<open>Passwords and e-mail addresses\<close>

definition require_email_auth :: "id_ports \<Rightarrow> unit idm" where
  "require_email_auth P = (if ip_email_auth P then ret () else id_error ''email_auth_disabled'')"

definition require_credential :: "string \<Rightarrow> credential idm" where
  "require_credential i = require (\<lambda>s. get_credential_by_account s i) ''credential_not_found''"

definition issue_password_reset :: "env \<Rightarrow> id_ports \<Rightarrow> string \<Rightarrow> artifact_issue idm" where
  "issue_password_reset E P address =
     bind (require_email_auth P) (\<lambda>_.
     bind (require (\<lambda>s. get_credential_by_email s address) ''unknown_email'') (\<lambda>c.
     bind (issue_artifact E P PasswordReset ''password_reset'' ''email'' hour_us (Some (cr_account_id c)) None [])
       (\<lambda>issued.
     bind (send_email P (ResetEmail address (ai_code issued))) (\<lambda>_. ret issued))))"

definition reset_password :: "env \<Rightarrow> id_ports \<Rightarrow> string \<Rightarrow> string \<Rightarrow> credential idm" where
  "reset_password E P token password =
     bind (require_email_auth P) (\<lambda>_.
     bind (consume_artifact E token PasswordReset) (\<lambda>a.
     bind (artifact_account a) (\<lambda>i.
     bind (require_credential i) (\<lambda>c.
     bind (hash_password P password) (\<lambda>hashed.
     bind (py_now E) (\<lambda>updated_at.
     let updated = c\<lparr>cr_password_hash := hashed, cr_reset_required := False, cr_updated_at := updated_at\<rparr> in
     bind (save_credential updated) (\<lambda>_. ret updated)))))))"

definition verify_email :: "env \<Rightarrow> id_ports \<Rightarrow> string \<Rightarrow> credential idm" where
  "verify_email E P token =
     bind (require_email_auth P) (\<lambda>_.
     bind (consume_artifact E token EmailVerification) (\<lambda>a.
     bind (artifact_account a) (\<lambda>i.
     bind (require_credential i) (\<lambda>c.
     bind (py_now E) (\<lambda>verified.
     bind (py_now E) (\<lambda>updated_at.
     let updated = c\<lparr>cr_email_verified_at := Some verified, cr_updated_at := updated_at\<rparr> in
     bind (save_credential updated) (\<lambda>_.
     bind (require_access i) (\<lambda>subscription.
     bind (require_access i) (\<lambda>suspension.
     bind (set_access_state E P i ''verified'' (aa_subscription_state subscription)
             (aa_suspension_state suspension)) (\<lambda>_.
     ret updated))))))))))"

definition verify_email_and_create_session ::
  "env \<Rightarrow> id_ports \<Rightarrow> string \<Rightarrow> verification_result idm" where
  "verify_email_and_create_session E P token =
     bind (verify_email E P token) (\<lambda>c.
     bind (create_session E P (cr_account_id c)) (\<lambda>x.
     ret \<lparr>vr_account_id = cr_account_id c, vr_email = cr_email c, vr_session = x\<rparr>))"

definition send_artifact_email :: "id_ports \<Rightarrow> artifact \<Rightarrow> unit idm" where
  "send_artifact_email P a =
     bind (artifact_account a) (\<lambda>i.
     bind (require_credential i) (\<lambda>c.
     case ar_type a of
       EmailVerification \<Rightarrow> send_email P (VerificationEmail (cr_email c) (ar_code a))
     | PasswordReset \<Rightarrow> send_email P (ResetEmail (cr_email c) (ar_code a))
     | _ \<Rightarrow> id_error ''artifact_not_resendable''))"

definition resend_artifact :: "env \<Rightarrow> id_ports \<Rightarrow> string \<Rightarrow> artifact idm" where
  "resend_artifact E P code =
     bind (require (\<lambda>s. get_artifact_by_code s code) ''artifact_not_found'') (\<lambda>a.
     if ar_type a \<notin> {EmailVerification, PasswordReset} then id_error ''artifact_not_resendable''
     else if ar_consumed_at a \<noteq> None then id_error ''artifact_consumed''
     else
       bind (refuse_expired E a) (\<lambda>_.
       bind (py_now E) (\<lambda>updated_at.
       let updated = a\<lparr>ar_delivery_state := ArtifactPending, ar_resend_count := ar_resend_count a + 1,
                       ar_updated_at := updated_at\<rparr> in
       bind (save_artifact updated) (\<lambda>_.
       bind (send_artifact_email P updated) (\<lambda>_. ret updated)))))"

definition resend_email_verification :: "env \<Rightarrow> id_ports \<Rightarrow> string \<Rightarrow> artifact_issue idm" where
  "resend_email_verification E P address =
     bind (require_email_auth P) (\<lambda>_.
     bind (require (\<lambda>s. get_credential_by_email s address) ''unknown_email'') (\<lambda>c.
     bind (gets (\<lambda>s. get_latest_unconsumed_artifact s (cr_account_id c) EmailVerification ''verify_email''))
       (\<lambda>latest.
     bind (lift latest) (\<lambda>found.
     bind (missing_or_expired E found) (\<lambda>gone.
     case (if gone then None else found) of
       Some a \<Rightarrow>
         bind (resend_artifact E P (ar_code a)) (\<lambda>resent.
         ret \<lparr>ai_artifact = resent, ai_code = ar_code resent\<rparr>)
     | None \<Rightarrow>
         bind (issue_artifact E P EmailVerification ''verify_email'' ''email'' (24 * hour_us)
                 (Some (cr_account_id c)) None []) (\<lambda>issued.
         bind (send_email P (VerificationEmail (cr_email c) (ai_code issued))) (\<lambda>_. ret issued)))))))"

definition send_claim_email :: "env \<Rightarrow> id_ports \<Rightarrow> string \<Rightarrow> string \<Rightarrow> artifact_issue idm" where
  "send_claim_email E P token address =
     bind (refuse_registered address) (\<lambda>_.
     bind (require_unconsumed_artifact E token LoginUrl) (\<lambda>a.
     bind (send_email P (ClaimEmail address (ar_code a))) (\<lambda>_.
     ret \<lparr>ai_artifact = a, ai_code = ar_code a\<rparr>)))"

section \<open>Activation\<close>

definition identity_condition :: "id_state \<Rightarrow> account \<Rightarrow> string \<Rightarrow> bool" where
  "identity_condition s account i =
     (case ac_origin account of
        WebFirst \<Rightarrow> get_credential_by_account s i \<noteq> None
      | MessagingFirst \<Rightarrow> list_ex ci_is_anchor (list_channel_identities s i))"

definition recompute_activation :: "env \<Rightarrow> string \<Rightarrow> activation idm" where
  "recompute_activation E i =
     bind (require_account i) (\<lambda>account.
     bind (require_activation i) (\<lambda>a.
     bind (gets (\<lambda>s. identity_condition s account i \<and> has_usable_channel s i \<and>
                     av_first_inbound_received_at a \<noteq> None)) (\<lambda>complete.
     if complete \<and> av_completed_at a = None
     then
       bind (py_now E) (\<lambda>completed.
       bind (py_now E) (\<lambda>updated_at.
       let updated = a\<lparr>av_completed_at := Some completed, av_updated_at := updated_at\<rparr> in
       bind (save_activation updated) (\<lambda>_. ret updated)))
     else ret a)))"

definition observe_usable_channel :: "env \<Rightarrow> string \<Rightarrow> activation idm" where
  "observe_usable_channel E i =
     bind (require_account i) (\<lambda>_.
     bind (mark_usable_channel i) (\<lambda>_. recompute_activation E i))"

definition mark_first_inbound_received :: "env \<Rightarrow> string \<Rightarrow> activation idm" where
  "mark_first_inbound_received E i =
     bind (require_activation i) (\<lambda>a.
     bind (if av_first_inbound_received_at a = None
           then
             bind (py_now E) (\<lambda>received.
             bind (py_now E) (\<lambda>updated.
             save_activation (a\<lparr>av_first_inbound_received_at := Some received, av_updated_at := updated\<rparr>)))
           else ret ()) (\<lambda>_.
     recompute_activation E i))"

definition mark_first_guidance_sent :: "env \<Rightarrow> string \<Rightarrow> activation idm" where
  "mark_first_guidance_sent E i =
     bind (require_activation i) (\<lambda>a.
     if av_first_guidance_sent_at a \<noteq> None then ret a
     else
       bind (py_now E) (\<lambda>sent.
       bind (py_now E) (\<lambda>updated_at.
       let updated = a\<lparr>av_first_guidance_sent_at := Some sent, av_updated_at := updated_at\<rparr> in
       bind (save_activation updated) (\<lambda>_. ret updated))))"

section \<open>Display names\<close>

definition get_display_name :: "string \<Rightarrow> string idm" where
  "get_display_name i = bind (require_user_profile i) (\<lambda>p. ret (display_name_of i (Some p)))"

definition get_display_names :: "id_state \<Rightarrow> string list \<Rightarrow> (string, string) dict" where
  "get_display_names s ids =
     (let profiles = get_user_profiles s ids
      in fold (\<lambda>i d. dput i (display_name_of i (dget profiles i)) d) ids [])"

end
