(* ===== verification/IdContract.thy ===== *)
theory IdContract
  imports IdService TableEvolution
begin

text \<open>
  What the identity store keeps: the invariant, with one part per table, and how a later store
  extends an earlier one. Accounts, profiles, sessions and channel identities are never edited;
  activations, access records, credentials and artifacts change in the ways below.
\<close>

section \<open>Edits\<close>

text \<open>A time that is set stays as it was set.\<close>

definition set_once :: "datetime option \<Rightarrow> datetime option \<Rightarrow> bool" where
  "set_once a b \<longleftrightarrow> a = None \<or> b = a"

definition activation_edited :: "activation \<Rightarrow> activation \<Rightarrow> bool" where
  "activation_edited a b \<longleftrightarrow>
     av_id b = av_id a \<and> av_account_id b = av_account_id a \<and> av_created_at b = av_created_at a \<and>
     set_once (av_first_inbound_received_at a) (av_first_inbound_received_at b) \<and>
     set_once (av_completed_at a) (av_completed_at b) \<and>
     set_once (av_first_guidance_sent_at a) (av_first_guidance_sent_at b)"

definition access_edited :: "account_access \<Rightarrow> account_access \<Rightarrow> bool" where
  "access_edited a b \<longleftrightarrow>
     aa_id b = aa_id a \<and> aa_account_id b = aa_account_id a \<and> aa_created_at b = aa_created_at a"

definition credential_edited :: "credential \<Rightarrow> credential \<Rightarrow> bool" where
  "credential_edited a b \<longleftrightarrow>
     cr_id b = cr_id a \<and> cr_account_id b = cr_account_id a \<and> cr_email b = cr_email a \<and>
     cr_created_at b = cr_created_at a \<and>
     (cr_email_verified_at a \<noteq> None \<longrightarrow> cr_email_verified_at b \<noteq> None)"

definition artifact_edited :: "artifact \<Rightarrow> artifact \<Rightarrow> bool" where
  "artifact_edited a b \<longleftrightarrow>
     ar_id b = ar_id a \<and> ar_type b = ar_type a \<and> ar_purpose b = ar_purpose a \<and> ar_code b = ar_code a \<and>
     ar_expires_at b = ar_expires_at a \<and> ar_created_at b = ar_created_at a \<and>
     ar_account_id b = ar_account_id a \<and> ar_browser_session b = ar_browser_session a \<and>
     set_once (ar_consumed_at a) (ar_consumed_at b) \<and>
     (ar_target_account_id a \<noteq> None \<longrightarrow> ar_target_account_id b = ar_target_account_id a) \<and>
     (ar_delivery_state a = ArtifactCompleted \<longrightarrow> ar_delivery_state b = ArtifactCompleted)"

interpretation accounts: evolving "(=) :: account \<Rightarrow> account \<Rightarrow> bool"
  by unfold_locales simp_all

interpretation profiles: evolving "(=) :: user_profile \<Rightarrow> user_profile \<Rightarrow> bool"
  by unfold_locales simp_all

interpretation sessions: evolving "(=) :: session \<Rightarrow> session \<Rightarrow> bool"
  by unfold_locales simp_all

interpretation identities: evolving "(=) :: channel_identity \<Rightarrow> channel_identity \<Rightarrow> bool"
  by unfold_locales simp_all

interpretation activations: evolving activation_edited
  by unfold_locales (auto simp: activation_edited_def set_once_def)

interpretation accesses: evolving access_edited
  by unfold_locales (auto simp: access_edited_def)

interpretation credentials: evolving credential_edited
  by unfold_locales (auto simp: credential_edited_def)

interpretation artifacts: evolving artifact_edited
  by unfold_locales (auto simp: artifact_edited_def set_once_def)

definition id_ext :: "id_state \<Rightarrow> id_state \<Rightarrow> bool" where
  "id_ext s t \<longleftrightarrow>
     accounts.table_ext (accounts s) (accounts t) \<and>
     profiles.table_ext (profiles_by_account s) (profiles_by_account t) \<and>
     sessions.table_ext (sessions_by_token s) (sessions_by_token t) \<and>
     identities.table_ext (identities_by_id s) (identities_by_id t) \<and>
     activations.table_ext (activations s) (activations t) \<and>
     accesses.table_ext (access_by_account s) (access_by_account t) \<and>
     credentials.table_ext (credentials_by_account s) (credentials_by_account t) \<and>
     artifacts.table_ext (artifacts_by_code s) (artifacts_by_code t) \<and>
     set (usable_channels s) \<subseteq> set (usable_channels t)"

section \<open>The invariant\<close>

definition activation_wf :: "activation \<Rightarrow> bool" where
  "activation_wf a \<longleftrightarrow> (av_completed_at a \<noteq> None \<longrightarrow> av_first_inbound_received_at a \<noteq> None)"

definition access_wf :: "account_access \<Rightarrow> bool" where
  "access_wf a \<longleftrightarrow>
     aa_allowed a = (aa_denial_reason a = None) \<and>
     (aa_suspension_state a = ''suspended'' \<longrightarrow> aa_denial_reason a = Some ''suspended'') \<and>
     (aa_subscription_state a \<noteq> ''active'' \<longrightarrow> \<not> aa_allowed a)"

text \<open>
  A claim code belongs to a browser session and gets its account when it is redeemed; every other
  artifact belongs to an account from the start. An artifact is consumed exactly when it is no longer pending.
\<close>

definition artifact_wf :: "artifact \<Rightarrow> bool" where
  "artifact_wf a \<longleftrightarrow>
     (if ar_type a = ClaimCode then ar_account_id a = None \<and> ar_browser_session a \<noteq> None
      else ar_account_id a \<noteq> None \<and> ar_browser_session a = None) \<and>
     (ar_consumed_at a \<noteq> None) = (ar_delivery_state a \<noteq> ArtifactPending) \<and>
     (ar_target_account_id a \<noteq> None) = (ar_type a = ClaimCode \<and> ar_consumed_at a \<noteq> None) \<and>
     (ar_delivery_state a = ArtifactCompleted \<longrightarrow> ar_type a = ClaimCode)"

definition has_account :: "id_state \<Rightarrow> string \<Rightarrow> bool" where
  "has_account s i \<longleftrightarrow> get_account s i \<noteq> None"

definition profiles_ok :: "id_state \<Rightarrow> bool" where
  "profiles_ok s \<longleftrightarrow> keyed up_account_id (profiles_by_account s) \<and>
     (\<forall>i p. dget (profiles_by_account s) i = Some p \<longrightarrow> has_account s i)"

definition activations_ok :: "id_state \<Rightarrow> bool" where
  "activations_ok s \<longleftrightarrow> keyed av_account_id (activations s) \<and>
     (\<forall>i a. dget (activations s) i = Some a \<longrightarrow> has_account s i \<and> activation_wf a)"

definition accesses_ok :: "id_state \<Rightarrow> bool" where
  "accesses_ok s \<longleftrightarrow> keyed aa_account_id (access_by_account s) \<and>
     (\<forall>i a. dget (access_by_account s) i = Some a \<longrightarrow> has_account s i \<and> access_wf a)"

definition credentials_ok :: "id_state \<Rightarrow> bool" where
  "credentials_ok s \<longleftrightarrow>
     indexed cr_account_id (\<lambda>c. py_lower (cr_email c)) (credentials_by_account s) (credentials_by_email s) \<and>
     (\<forall>i c. dget (credentials_by_account s) i = Some c \<longrightarrow> has_account s i)"

definition sessions_ok :: "id_state \<Rightarrow> bool" where
  "sessions_ok s \<longleftrightarrow> keyed se_token (sessions_by_token s) \<and>
     (\<forall>t x. dget (sessions_by_token s) t = Some x \<longrightarrow> has_account s (se_account_id x))"

definition identities_ok :: "id_state \<Rightarrow> bool" where
  "identities_ok s \<longleftrightarrow>
     indexed ci_id identity_key (identities_by_id s) (identities_by_provider s) \<and>
     (\<forall>i x. dget (identities_by_id s) i = Some x \<longrightarrow> has_account s (ci_account_id x))"

definition artifacts_ok :: "id_state \<Rightarrow> bool" where
  "artifacts_ok s \<longleftrightarrow> keyed ar_code (artifacts_by_code s) \<and>
     (\<forall>c a. dget (artifacts_by_code s) c = Some a \<longrightarrow> artifact_wf a \<and>
        (\<forall>i. ar_account_id a = Some i \<longrightarrow> has_account s i) \<and>
        (\<forall>i. ar_target_account_id a = Some i \<longrightarrow> has_account s i))"

definition id_ok :: "id_state \<Rightarrow> bool" where
  "id_ok s \<longleftrightarrow>
     keyed ac_id (accounts s) \<and> profiles_ok s \<and> activations_ok s \<and> accesses_ok s \<and> credentials_ok s \<and>
     sessions_ok s \<and> identities_ok s \<and> artifacts_ok s \<and> (\<forall>i\<in>set (usable_channels s). has_account s i)"

definition id_inv :: "id_state \<Rightarrow> id_state \<Rightarrow> bool" where
  "id_inv s t \<longleftrightarrow> id_ok t \<and> id_ext s t"

lemmas id_parts = profiles_ok_def activations_ok_def accesses_ok_def credentials_ok_def sessions_ok_def
  identities_ok_def artifacts_ok_def

lemma id_ext_refl [simp]: "id_ext s s"
  by (simp add: id_ext_def)

lemma id_ext_trans: "id_ext s t \<Longrightarrow> id_ext t u \<Longrightarrow> id_ext s u"
  unfolding id_ext_def
  by (blast intro: accounts.table_trans profiles.table_trans sessions.table_trans identities.table_trans
      activations.table_trans accesses.table_trans credentials.table_trans artifacts.table_trans)

lemma id_inv_refl: "id_ok s \<Longrightarrow> id_inv s s"
  by (simp add: id_inv_def)

lemma id_inv_trans: "id_inv s t \<Longrightarrow> id_inv t u \<Longrightarrow> id_inv s u"
  using id_ext_trans by (auto simp: id_inv_def)

lemma id_inv_ok: "id_inv s t \<Longrightarrow> id_ok t"
  by (simp add: id_inv_def)

lemma id_ok_empty [simp]: "id_ok empty_id_state"
  by (simp add: id_ok_def id_parts empty_id_state_def)

text \<open>Counters and the e-mails sent are no part of either relation.\<close>

lemma id_reads_counters [simp]:
  "get_account (t\<lparr>clock := n\<rparr>) = get_account t" "get_account (t\<lparr>issued := n\<rparr>) = get_account t"
  "get_account (t\<lparr>id_tokens_made := n\<rparr>) = get_account t" "get_account (t\<lparr>hashes_made := n\<rparr>) = get_account t"
  "get_account (t\<lparr>emails_sent := es\<rparr>) = get_account t"
  by (auto simp: get_account_def)

lemma id_inv_counters [simp]:
  "id_inv s (t\<lparr>clock := n\<rparr>) = id_inv s t" "id_inv s (t\<lparr>issued := n\<rparr>) = id_inv s t"
  "id_inv s (t\<lparr>id_tokens_made := n\<rparr>) = id_inv s t" "id_inv s (t\<lparr>hashes_made := n\<rparr>) = id_inv s t"
  "id_inv s (t\<lparr>emails_sent := es\<rparr>) = id_inv s t"
  by (simp_all add: id_inv_def id_ok_def id_ext_def id_parts has_account_def)

section \<open>The writes\<close>

text \<open>Which accounts there are depends on the table of accounts only.\<close>

lemma has_account_writes [simp]:
  "has_account (put_activation a t) = has_account t" "has_account (put_access x t) = has_account t"
  "has_account (put_credential c t) = has_account t" "has_account (put_identity d t) = has_account t"
  "has_account (put_artifact r t) = has_account t"
  "has_account (t\<lparr>profiles_by_account := ps\<rparr>) = has_account t"
  "has_account (t\<lparr>sessions_by_token := xs\<rparr>) = has_account t"
  "has_account (t\<lparr>usable_channels := us\<rparr>) = has_account t"
  "has_account (t\<lparr>activations := vs\<rparr>) = has_account t"
  "has_account (t\<lparr>access_by_account := ys\<rparr>) = has_account t"
  "has_account (t\<lparr>credentials_by_account := cs, credentials_by_email := es\<rparr>) = has_account t"
  "has_account (t\<lparr>identities_by_id := ds, identities_by_provider := qs\<rparr>) = has_account t"
  "has_account (t\<lparr>artifacts_by_code := rs\<rparr>) = has_account t"
  by (auto simp: has_account_def get_account_def put_activation_def put_access_def put_credential_def
      put_identity_def put_artifact_def)

lemmas id_unfold = id_inv_def id_ok_def id_ext_def id_parts

lemma id_put_account:
  assumes "id_inv s t" "get_account t (ac_id a) = None"
  shows "id_inv s (t\<lparr>accounts := dput (ac_id a) a (accounts t)\<rparr>)"
proof -
  have "has_account t i \<Longrightarrow> has_account (t\<lparr>accounts := dput (ac_id a) a (accounts t)\<rparr>) i" for i
    by (simp add: has_account_def get_account_def)
  then show ?thesis
    using assms unfolding id_unfold
    by (auto simp: get_account_def intro: accounts.table_new)
qed

lemma id_put_profile:
  assumes "id_inv s t" "get_user_profile t (up_account_id p) = None" "has_account t (up_account_id p)"
  shows "id_inv s (t\<lparr>profiles_by_account := dput (up_account_id p) p (profiles_by_account t)\<rparr>)"
  using assms unfolding id_unfold
  by (auto simp: get_user_profile_def intro: profiles.table_new)

lemma id_put_session:
  assumes "id_inv s t" "get_session_by_token t (se_token x) = None" "has_account t (se_account_id x)"
  shows "id_inv s (t\<lparr>sessions_by_token := dput (se_token x) x (sessions_by_token t)\<rparr>)"
  using assms unfolding id_unfold
  by (auto simp: get_session_by_token_def intro: sessions.table_new)

lemma id_put_identity:
  assumes "id_inv s t" "get_channel_identity t (ci_id d) = None"
    and "dget (identities_by_provider t) (identity_key d) = None" "has_account t (ci_account_id d)"
  shows "id_inv s (put_identity d t)"
  using assms unfolding id_unfold
  by (auto simp: get_channel_identity_def put_identity_def intro: identities.table_new indexed_add)

lemma id_put_activation_new:
  assumes "id_inv s t" "get_activation t (av_account_id a) = None"
    and "has_account t (av_account_id a)" "activation_wf a"
  shows "id_inv s (put_activation a t)"
  using assms unfolding id_unfold
  by (auto simp: get_activation_def put_activation_def intro: activations.table_new)

lemma id_put_activation_edit:
  assumes "id_inv s t" "get_activation t (av_account_id a) = Some b" "activation_edited b a" "activation_wf a"
  shows "id_inv s (put_activation a t)"
  using assms unfolding id_unfold
  by (auto simp: get_activation_def put_activation_def intro: activations.table_edit)

lemma id_put_access_new:
  assumes "id_inv s t" "get_access t (aa_account_id a) = None"
    and "has_account t (aa_account_id a)" "access_wf a"
  shows "id_inv s (put_access a t)"
  using assms unfolding id_unfold
  by (auto simp: get_access_def put_access_def intro: accesses.table_new)

lemma id_put_access_edit:
  assumes "id_inv s t" "get_access t (aa_account_id a) = Some b" "access_edited b a" "access_wf a"
  shows "id_inv s (put_access a t)"
  using assms unfolding id_unfold
  by (auto simp: get_access_def put_access_def intro: accesses.table_edit)

lemma id_put_credential_new:
  assumes "id_inv s t" "get_credential_by_account t (cr_account_id c) = None"
    and "get_credential_by_email t (cr_email c) = None" "has_account t (cr_account_id c)"
  shows "id_inv s (put_credential c t)"
  using assms unfolding id_unfold
  by (auto simp: get_credential_by_account_def get_credential_by_email_def put_credential_def
      intro: credentials.table_new indexed_add)

lemma id_put_credential_edit:
  assumes "id_inv s t" "get_credential_by_account t (cr_account_id c) = Some b" "credential_edited b c"
  shows "id_inv s (put_credential c t)"
proof -
  have ix: "indexed cr_account_id (\<lambda>c. py_lower (cr_email c)) (credentials_by_account t) (credentials_by_email t)"
    using assms(1) by (simp add: id_unfold)
  have "indexed cr_account_id (\<lambda>c. py_lower (cr_email c))
      (dput (cr_account_id c) c (credentials_by_account t)) (dput (py_lower (cr_email c)) c (credentials_by_email t))"
    using indexed_save [OF ix, of c b] assms(2,3)
    by (simp add: get_credential_by_account_def credential_edited_def)
  with assms show ?thesis
    unfolding id_unfold
    by (auto simp: get_credential_by_account_def put_credential_def intro: credentials.table_edit)
qed

lemma id_put_artifact_new:
  assumes "id_inv s t" "get_artifact_by_code t (ar_code a) = None" "artifact_wf a"
    and "ar_target_account_id a = None" "\<And>i. ar_account_id a = Some i \<Longrightarrow> has_account t i"
  shows "id_inv s (put_artifact a t)"
  using assms unfolding id_unfold
  by (auto simp: get_artifact_by_code_def put_artifact_def intro: artifacts.table_new)

lemma id_put_artifact_edit:
  assumes "id_inv s t" "get_artifact_by_code t (ar_code a) = Some b" "artifact_edited b a" "artifact_wf a"
    and "\<And>i. ar_target_account_id a = Some i \<Longrightarrow> has_account t i"
  shows "id_inv s (put_artifact a t)"
proof -
  have "has_account t i" if "ar_account_id b = Some i" for i
    using assms(1,2) that by (simp add: id_unfold get_artifact_by_code_def)
  then have "has_account t i" if "ar_account_id a = Some i" for i
    using assms(3) that by (simp add: artifact_edited_def)
  with assms show ?thesis
    unfolding id_unfold
    by (auto simp: get_artifact_by_code_def put_artifact_def intro: artifacts.table_edit)
qed

end
