(* ===== verification/IdKeeps.thy ===== *)
theory IdKeeps
  imports IdContract
begin

text \<open>
  Every operation of the identity service keeps the invariant and only extends the store, whether it
  returns or raises. What an operation has looked up it may rely on until its end, for nothing is
  ever removed: \<open>keeps_require\<close> and \<open>keeps_gets\<close> carry the looked up fact into the rest of the
  operation.
\<close>

section \<open>Rules\<close>

named_theorems id_keeps \<open>operations that keep the invariant of the identity store and extend it\<close>
named_theorems id_wp \<open>equations that run the operations of the identity service\<close>

lemma id_keepsI:
  assumes "\<And>t. id_ok t \<Longrightarrow> wp m (\<lambda>_. id_inv t) (\<lambda>_. id_inv t) t"
  shows "preserves (id_inv s) m"
proof (rule preservesI)
  fix t
  assume inv: "id_inv s t"
  show "wp m (\<lambda>_. id_inv s) (\<lambda>_. id_inv s) t"
    by (rule wp_mono [OF assms [OF id_inv_ok [OF inv]]]) (auto intro: id_inv_trans [OF inv])
qed

lemma keeps_wp: "preserves (id_inv t) m \<Longrightarrow> id_ok t \<Longrightarrow> wp m (\<lambda>_. id_inv t) (\<lambda>_. id_inv t) t"
  by (simp add: preserves_def id_inv_refl)

lemma keeps_gets:
  assumes "\<And>t. id_ok t \<Longrightarrow> id_inv s t \<Longrightarrow> preserves (id_inv t) (f (g t))"
  shows "preserves (id_inv s) (bind (gets g) f)"
proof (rule preservesI)
  fix t
  assume inv: "id_inv s t"
  have "wp (f (g t)) (\<lambda>_. id_inv t) (\<lambda>_. id_inv t) t"
    by (rule keeps_wp [OF assms [OF id_inv_ok [OF inv] inv] id_inv_ok [OF inv]])
  then show "wp (bind (gets g) f) (\<lambda>_. id_inv s) (\<lambda>_. id_inv s) t"
    unfolding wp_bind wp_gets by (rule wp_mono) (auto intro: id_inv_trans [OF inv])
qed

lemma keeps_require:
  assumes "\<And>t x. id_ok t \<Longrightarrow> id_inv s t \<Longrightarrow> get t = Some x \<Longrightarrow> preserves (id_inv t) (f x)"
  shows "preserves (id_inv s) (bind (require get code) f)"
proof -
  have "bind (require get code) f =
      bind (gets get) (\<lambda>found. case found of None \<Rightarrow> id_error code | Some x \<Rightarrow> f x)"
    by (simp add: require_def bind_def gets_def raise_def ret_def fun_eq_iff split: option.splits)
  moreover have "preserves (id_inv s) \<dots>"
    by (rule keeps_gets) (auto intro!: preserves_intros assms)
  ultimately show ?thesis by simp
qed

text \<open>What follows a step may rely on what the step has established.\<close>

lemma keeps_bind:
  assumes m: "\<And>t. id_ok t \<Longrightarrow> id_inv s t \<Longrightarrow> wp m (\<lambda>x u. id_inv t u \<and> R x u) (\<lambda>_. id_inv t) t"
    and f: "\<And>x u. id_inv s u \<Longrightarrow> R x u \<Longrightarrow> preserves (id_inv u) (f x)"
  shows "preserves (id_inv s) (bind m f)"
proof (rule preservesI)
  fix t
  assume inv: "id_inv s t"
  have rest: "wp (f x) (\<lambda>_. id_inv s) (\<lambda>_. id_inv s) u" if "id_inv t u \<and> R x u" for x u
  proof -
    have su: "id_inv s u" using id_inv_trans [OF inv] that by blast
    have "wp (f x) (\<lambda>_. id_inv u) (\<lambda>_. id_inv u) u"
      using keeps_wp [OF f [OF su] id_inv_ok [OF su]] that by blast
    then show ?thesis by (rule wp_mono) (auto intro: id_inv_trans [OF su])
  qed
  show "wp (bind m f) (\<lambda>_. id_inv s) (\<lambda>_. id_inv s) t"
    unfolding wp_bind
    by (rule wp_mono [OF m [OF id_inv_ok [OF inv] inv]]) (auto intro: rest id_inv_trans [OF inv])
qed

section \<open>Equations\<close>

lemma wp_id_refuse_if [id_wp]:
  "wp (refuse_if p code) Q X = (\<lambda>s. if p s then X (ValueError code) s else Q () s)"
  by (simp add: refuse_if_def wp_simps fun_eq_iff)

lemma wp_require [id_wp]:
  "wp (require get code) Q X =
     (\<lambda>s. case get s of None \<Rightarrow> X (IdentityAccessError code None) s | Some x \<Rightarrow> Q x s)"
  by (simp add: require_def wp_simps fun_eq_iff split: option.splits)

lemma wp_new_token [id_wp]:
  "wp (new_token P prefix) Q X =
     (\<lambda>s. Q (ip_token P prefix (id_tokens_made s)) (s\<lparr>id_tokens_made := Suc (id_tokens_made s)\<rparr>))"
  by (simp add: wp_def new_token_def fun_eq_iff)

lemma wp_send_email [id_wp]:
  "wp (send_email P e) Q X =
     (\<lambda>s. case ip_send P e of Inl x \<Rightarrow> X x s | Inr _ \<Rightarrow> Q () (s\<lparr>emails_sent := emails_sent s @ [e]\<rparr>))"
  by (simp add: send_email_def wp_simps fun_eq_iff split: sum.splits)

lemma wp_hash_password [id_wp]:
  "wp (hash_password P password) Q X =
     (\<lambda>s. if password = [] then X (IdentityAccessError ''invalid_password'' None) s
          else Q (ip_argon_hash P (hashes_made s) password) (s\<lparr>hashes_made := Suc (hashes_made s)\<rparr>))"
  by (simp add: hash_password_def password_hash_def wp_simps fun_eq_iff wp_def)

lemma wp_id_lift [id_wp]: "wp (lift r) Q X s = (case r of Inl e \<Rightarrow> X e s | Inr x \<Rightarrow> Q x s)"
  by (simp add: wp_simps split: sum.splits)

lemmas id_requires = require_account_def require_access_def require_user_profile_def
  require_activation_def require_credential_def

text \<open>The counters and the e-mails sent are read by no lookup.\<close>

lemma id_lookups [simp]:
  "get_activation (t\<lparr>clock := n\<rparr>) = get_activation t" "get_access (t\<lparr>clock := n\<rparr>) = get_access t"
  "get_user_profile (t\<lparr>clock := n\<rparr>) = get_user_profile t"
  "get_user_profile (t\<lparr>issued := n\<rparr>) = get_user_profile t"
  "get_activation (t\<lparr>issued := n\<rparr>) = get_activation t" "get_access (t\<lparr>issued := n\<rparr>) = get_access t"
  "get_credential_by_account (t\<lparr>clock := n\<rparr>) = get_credential_by_account t"
  "get_credential_by_account (t\<lparr>hashes_made := n\<rparr>) = get_credential_by_account t"
  "get_credential_by_email (t\<lparr>clock := n\<rparr>) = get_credential_by_email t"
  "get_credential_by_email (t\<lparr>hashes_made := n\<rparr>) = get_credential_by_email t"
  "get_session_by_token (t\<lparr>clock := n\<rparr>) = get_session_by_token t"
  "get_session_by_token (t\<lparr>issued := n\<rparr>) = get_session_by_token t"
  "get_session_by_token (t\<lparr>id_tokens_made := n\<rparr>) = get_session_by_token t"
  "get_channel_identity (t\<lparr>clock := n\<rparr>) = get_channel_identity t"
  "get_channel_identity (t\<lparr>issued := n\<rparr>) = get_channel_identity t"
  "get_channel_identity_by_provider (t\<lparr>clock := n\<rparr>) = get_channel_identity_by_provider t"
  "get_channel_identity_by_provider (t\<lparr>issued := n\<rparr>) = get_channel_identity_by_provider t"
  "get_artifact_by_code (t\<lparr>clock := n\<rparr>) = get_artifact_by_code t"
  "get_artifact_by_code (t\<lparr>issued := n\<rparr>) = get_artifact_by_code t"
  "get_artifact_by_code (t\<lparr>id_tokens_made := n\<rparr>) = get_artifact_by_code t"
  by (simp_all add: fun_eq_iff get_activation_def get_access_def get_user_profile_def
      get_credential_by_account_def get_credential_by_email_def get_session_by_token_def
      get_channel_identity_def get_channel_identity_by_provider_def get_artifact_by_code_def)

lemma has_account_counters [simp]:
  "has_account (t\<lparr>clock := n\<rparr>) = has_account t" "has_account (t\<lparr>issued := n\<rparr>) = has_account t"
  "has_account (t\<lparr>id_tokens_made := n\<rparr>) = has_account t" "has_account (t\<lparr>hashes_made := n\<rparr>) = has_account t"
  "has_account (t\<lparr>emails_sent := es\<rparr>) = has_account t"
  by (simp_all add: fun_eq_iff has_account_def)

lemma id_inv_from_counters [simp]:
  "id_inv (t\<lparr>clock := n\<rparr>) u = id_inv t u" "id_inv (t\<lparr>issued := n\<rparr>) u = id_inv t u"
  "id_inv (t\<lparr>hashes_made := n\<rparr>) u = id_inv t u" "id_inv (t\<lparr>emails_sent := es\<rparr>) u = id_inv t u"
  by (simp_all add: id_inv_def id_ext_def)

lemma id_ok_counters [simp]:
  "id_ok (t\<lparr>clock := n\<rparr>) = id_ok t" "id_ok (t\<lparr>issued := n\<rparr>) = id_ok t"
  "id_ok (t\<lparr>hashes_made := n\<rparr>) = id_ok t" "id_ok (t\<lparr>emails_sent := es\<rparr>) = id_ok t"
  by (simp_all add: id_ok_def id_parts has_account_def)

lemma get_account_has: "get_account t i = Some a \<Longrightarrow> has_account t i"
  by (simp add: has_account_def)

text \<open>What the invariant says of an entry that was looked up.\<close>

lemma account_id: "id_ok t \<Longrightarrow> get_account t i = Some a \<Longrightarrow> ac_id a = i"
  by (auto simp: id_ok_def get_account_def dest: keyed_get)

lemma activation_key: "id_ok t \<Longrightarrow> get_activation t i = Some a \<Longrightarrow> av_account_id a = i \<and> activation_wf a"
  by (auto simp: id_ok_def activations_ok_def get_activation_def dest: keyed_get)

lemma access_key: "id_ok t \<Longrightarrow> get_access t i = Some a \<Longrightarrow> aa_account_id a = i \<and> access_wf a"
  by (auto simp: id_ok_def accesses_ok_def get_access_def dest: keyed_get)

lemma credential_key:
  "id_ok t \<Longrightarrow> get_credential_by_account t i = Some c \<Longrightarrow> cr_account_id c = i \<and> has_account t i"
  by (auto simp: id_ok_def credentials_ok_def get_credential_by_account_def dest: keyed_get indexed_keyed)

lemma credential_of_email:
  assumes "id_ok t" "get_credential_by_email t e = Some c"
  shows "get_credential_by_account t (cr_account_id c) = Some c" "py_lower (cr_email c) = py_lower e"
    "has_account t (cr_account_id c)"
  using assms
  by (auto simp: id_ok_def credentials_ok_def get_credential_by_account_def get_credential_by_email_def
      indexed_lookup)

lemma identity_of_provider:
  assumes "id_ok t" "get_channel_identity_by_provider t ty su = Some d"
  shows "get_channel_identity t (ci_id d) = Some d" "identity_key d = (ty, su)" "has_account t (ci_account_id d)"
  using assms
  by (auto simp: id_ok_def identities_ok_def get_channel_identity_by_provider_def get_channel_identity_def
      indexed_lookup)

lemma artifact_facts:
  assumes "id_ok t" "get_artifact_by_code t c = Some a"
  shows "ar_code a = c" "artifact_wf a" "ar_account_id a = Some i \<Longrightarrow> has_account t i"
    "ar_target_account_id a = Some i \<Longrightarrow> has_account t i"
  using assms by (auto simp: id_ok_def artifacts_ok_def get_artifact_by_code_def dest: keyed_get)

lemma has_account_mono: "id_inv s t \<Longrightarrow> has_account s i \<Longrightarrow> has_account t i"
  by (auto simp: id_inv_def id_ext_def has_account_def get_account_def dest: accounts.table_get)

section \<open>Reading and drawing\<close>

lemma keeps_id_counters [id_keeps]:
  "preserves (id_inv s) (py_now E)" "preserves (id_inv s) (new_id E p)" "preserves (id_inv s) (new_token P p)"
  "preserves (id_inv s) (send_email P e)" "preserves (id_inv s) (hash_password P w)"
  "preserves (id_inv s) (refuse_if q code)" "preserves (id_inv s) (require get code)"
  by (simp_all add: preserves_def id_wp wp_simps split: sum.splits option.splits)

lemma keeps_id_requires [id_keeps]:
  "preserves (id_inv s) (require_account i)" "preserves (id_inv s) (require_access i)"
  "preserves (id_inv s) (require_user_profile i)" "preserves (id_inv s) (require_activation i)"
  "preserves (id_inv s) (require_credential i)"
  by (simp_all add: id_requires id_keeps)

lemma keeps_id_checks [id_keeps]:
  "preserves (id_inv s) (check_access P i b)" "preserves (id_inv s) (check_access_for_action P i x)"
  "preserves (id_inv s) (require_action P i x)" "preserves (id_inv s) (refuse_expired E a)"
  "preserves (id_inv s) (require_unconsumed_artifact E code kind)"
  "preserves (id_inv s) (artifact_account a)" "preserves (id_inv s) (consumed_now E a)"
  "preserves (id_inv s) (missing_or_expired E found)" "preserves (id_inv s) (refuse_registered e)"
  "preserves (id_inv s) (require_email_auth P)" "preserves (id_inv s) (require_pairing_allowed P i)"
  "preserves (id_inv s) (build_channel_identity E i ty su anchor)"
  by (simp_all add: check_access_def check_access_for_action_def require_action_def refuse_expired_def
      require_unconsumed_artifact_def artifact_account_def consumed_now_def missing_or_expired_def
      refuse_registered_def require_email_auth_def require_pairing_allowed_def build_channel_identity_def
      id_keeps preserves_intros Let_def split: option.splits)

section \<open>Writing\<close>

lemma keeps_add_user_profile:
  "has_account s (up_account_id p) \<Longrightarrow> preserves (id_inv s) (add_user_profile p)"
  by (rule preservesI)
    (auto simp: add_user_profile_def wp_simps id_wp intro!: id_put_profile intro: has_account_mono)

lemma keeps_add_activation:
  "has_account s (av_account_id a) \<Longrightarrow> activation_wf a \<Longrightarrow> preserves (id_inv s) (add_activation a)"
  by (rule preservesI)
    (auto simp: add_activation_def wp_simps id_wp intro!: id_put_activation_new intro: has_account_mono)

lemma keeps_add_access:
  "has_account s (aa_account_id a) \<Longrightarrow> access_wf a \<Longrightarrow> preserves (id_inv s) (add_access a)"
  by (rule preservesI)
    (auto simp: add_access_def wp_simps id_wp intro!: id_put_access_new intro: has_account_mono)

lemma keeps_add_credential:
  "has_account s (cr_account_id c) \<Longrightarrow> preserves (id_inv s) (add_credential c)"
  by (rule preservesI)
    (auto simp: add_credential_def wp_simps id_wp intro!: id_put_credential_new intro: has_account_mono)

lemma keeps_add_session:
  "has_account s (se_account_id x) \<Longrightarrow> preserves (id_inv s) (add_session x)"
  by (rule preservesI)
    (auto simp: add_session_def wp_simps id_wp intro!: id_put_session intro: has_account_mono)

lemma keeps_add_identity:
  "has_account s (ci_account_id d) \<Longrightarrow> preserves (id_inv s) (add_channel_identity d)"
  by (rule preservesI)
    (auto simp: add_channel_identity_def refuse_bound_identity_def wp_simps id_wp
      intro!: id_put_identity intro: has_account_mono)

lemma keeps_add_artifact:
  assumes "artifact_wf a" "ar_target_account_id a = None"
    and "\<And>i. ar_account_id a = Some i \<Longrightarrow> has_account s i"
  shows "preserves (id_inv s) (add_artifact a)"
  by (rule preservesI)
    (use assms in \<open>auto simp: add_artifact_def wp_simps id_wp intro!: id_put_artifact_new
      intro: has_account_mono\<close>)

text \<open>A save needs the entry it replaces.\<close>

lemma wp_save_activation:
  assumes "id_ok t" "get_activation t (av_account_id a) = Some b" "activation_edited b a" "activation_wf a"
  shows "wp (save_activation a) (\<lambda>_. id_inv t) (\<lambda>_. id_inv t) t"
  using assms by (simp add: save_activation_def wp_simps id_wp id_put_activation_edit id_inv_refl)

lemma wp_save_access:
  assumes "id_ok t" "get_access t (aa_account_id a) = Some b" "access_edited b a" "access_wf a"
  shows "wp (save_access a) (\<lambda>_. id_inv t) (\<lambda>_. id_inv t) t"
  using assms by (simp add: save_access_def wp_simps id_wp id_put_access_edit id_inv_refl)

lemma credential_owner:
  assumes "id_ok t" "get_credential_by_account t (cr_account_id c) = Some b" "cr_email b = cr_email c"
  shows "get_credential_by_email t (cr_email c) = Some b"
  using assms credential_key [OF assms(1,2)]
  by (auto simp: id_ok_def credentials_ok_def get_credential_by_account_def get_credential_by_email_def
      indexed_lookup)

lemma wp_save_credential:
  assumes "id_ok t" "get_credential_by_account t (cr_account_id c) = Some b" "credential_edited b c"
  shows "wp (save_credential c) (\<lambda>_. id_inv t) (\<lambda>_. id_inv t) t"
proof -
  have "get_credential_by_email t (cr_email c) = Some b"
    using credential_owner [OF assms(1,2)] assms(3) by (simp add: credential_edited_def)
  with assms id_put_credential_edit [OF id_inv_refl [OF assms(1)] assms(2,3)] show ?thesis
    by (simp add: save_credential_def wp_simps id_wp credential_edited_def)
qed

lemma wp_save_artifact:
  assumes "id_ok t" "get_artifact_by_code t (ar_code a) = Some b" "artifact_edited b a" "artifact_wf a"
    and "\<And>i. ar_target_account_id a = Some i \<Longrightarrow> has_account t i"
  shows "wp (save_artifact a) (\<lambda>_. id_inv t) (\<lambda>_. id_inv t) t"
  using assms id_put_artifact_edit [OF id_inv_refl [OF assms(1)] assms(2-5)]
  by (simp add: save_artifact_def wp_simps id_wp id_inv_refl)

section \<open>Accounts, identities, sessions, artifacts\<close>

lemma wp_add_account:
  assumes "id_ok t"
  shows "wp (add_account a) (\<lambda>_ u. id_inv t u \<and> get_account u (ac_id a) = Some a) (\<lambda>_. id_inv t) t"
  using id_put_account [OF id_inv_refl [OF assms]] assms
  by (simp add: add_account_def wp_simps id_wp id_inv_refl) (simp add: get_account_def)

lemma derived_access_wf:
  "access_wf (a\<lparr>aa_email_verification_state := e, aa_subscription_state := su, aa_suspension_state := sp,
      aa_allowed := (derive_denial_reason P e su sp = None),
      aa_denial_reason := derive_denial_reason P e su sp, aa_updated_at := n\<rparr>)"
  by (simp add: access_wf_def derive_denial_reason_def)

lemma fresh_access_wf:
  "derive_denial_reason P e ''active'' ''active'' = r \<Longrightarrow>
    access_wf \<lparr>aa_id = i, aa_account_id = j, aa_email_verification_state = e,
      aa_subscription_state = ''active'', aa_suspension_state = ''active'', aa_allowed = (r = None),
      aa_denial_reason = r, aa_created_at = c, aa_updated_at = u\<rparr>"
  by (auto simp: access_wf_def)

lemma account_stays: "id_inv s t \<Longrightarrow> get_account s i = Some a \<Longrightarrow> get_account t i = Some a"
  by (auto simp: id_inv_def id_ext_def get_account_def dest: accounts.table_get)

text \<open>The account a computation has made is in the store it leaves.\<close>

definition made :: "id_state \<Rightarrow> account \<Rightarrow> id_state \<Rightarrow> bool" where
  "made t a u \<longleftrightarrow> id_inv t u \<and> get_account u (ac_id a) = Some a"

lemma wp_made_ret:
  "id_inv t u \<Longrightarrow> get_account u (ac_id a) = Some a \<Longrightarrow> wp (ret a) (made t) (\<lambda>_. id_inv t) u"
  by (simp add: wp_simps made_def)

lemma wp_made_bind:
  assumes "id_inv t u" "get_account u (ac_id a) = Some a" "preserves (id_inv u) m"
    and "\<And>x v. id_inv t v \<Longrightarrow> get_account v (ac_id a) = Some a \<Longrightarrow> wp (f x) (made t) (\<lambda>_. id_inv t) v"
  shows "wp (bind m f) (made t) (\<lambda>_. id_inv t) u"
proof -
  have "wp m (\<lambda>_. id_inv u) (\<lambda>_. id_inv u) u"
    by (rule keeps_wp [OF assms(3) id_inv_ok [OF assms(1)]])
  then show ?thesis
    unfolding wp_bind
    by (rule wp_mono) (auto intro: assms(4) id_inv_trans [OF assms(1)] account_stays [OF _ assms(2)])
qed

lemma wp_inv_bind:
  assumes "id_inv t u" "preserves (id_inv u) m" "\<And>x v. id_inv t v \<Longrightarrow> wp (f x) Q (\<lambda>_. id_inv t) v"
  shows "wp (bind m f) Q (\<lambda>_. id_inv t) u"
proof -
  have "wp m (\<lambda>_. id_inv u) (\<lambda>_. id_inv u) u"
    by (rule keeps_wp [OF assms(2) id_inv_ok [OF assms(1)]])
  then show ?thesis
    unfolding wp_bind by (rule wp_mono) (auto intro: assms(3) id_inv_trans [OF assms(1)])
qed

lemma wp_add_account_bind:
  assumes "id_inv t u"
    and "\<And>x v. id_inv t v \<Longrightarrow> get_account v (ac_id a) = Some a \<Longrightarrow> wp (f x) Q (\<lambda>_. id_inv t) v"
  shows "wp (bind (add_account a) f) Q (\<lambda>_. id_inv t) u"
  unfolding wp_bind
  by (rule wp_mono [OF wp_add_account [OF id_inv_ok [OF assms(1)]]])
    (auto intro: assms(2) id_inv_trans [OF assms(1)])

lemma wp_create_account:
  assumes "id_ok t"
  shows "wp (create_account E P origin timezone name) (made t) (\<lambda>_. id_inv t) t"
  unfolding create_account_def Let_def
  apply (rule wp_inv_bind [OF id_inv_refl [OF assms] id_keeps(2)])
  apply (rule wp_inv_bind [OF _ id_keeps(1)], assumption)
  apply (rule wp_inv_bind [OF _ id_keeps(1)], assumption)
  apply (rule wp_add_account_bind, assumption)
  apply (rule wp_made_bind, assumption, assumption,
      (auto intro: id_keeps keeps_add_user_profile keeps_add_activation keeps_add_access
        simp: get_account_has activation_wf_def fresh_access_wf)[1])+
  by (rule wp_made_ret)

lemma keeps_create_account [id_keeps]: "preserves (id_inv s) (create_account E P origin timezone name)"
  by (rule id_keepsI, rule wp_mono [OF wp_create_account]) (auto simp: made_def)

lemma keeps_create_identity:
  assumes "has_account s account"
  shows "preserves (id_inv s) (create_channel_identity E account ty su anchor)"
proof (rule preservesI)
  fix t
  assume inv: "id_inv s t"
  with assms have "has_account t account" by (rule has_account_mono [rotated])
  with inv id_put_identity [OF inv] show
    "wp (create_channel_identity E account ty su anchor) (\<lambda>_. id_inv s) (\<lambda>_. id_inv s) t"
    by (simp add: create_channel_identity_def build_channel_identity_def add_channel_identity_def
        refuse_bound_identity_def wp_simps id_wp id_put_identity)
qed

lemma keeps_create_session:
  assumes "has_account s account"
  shows "preserves (id_inv s) (create_session E P account)"
  unfolding create_session_def Let_def
  by (intro preserves_bind id_keeps preserves_lift preserves_ret keeps_add_session) (simp add: assms)

lemma keeps_issue_artifact:
  assumes "\<And>i. account = Some i \<Longrightarrow> has_account s i"
    and "if kind = ClaimCode then account = None \<and> browser \<noteq> None else account \<noteq> None \<and> browser = None"
  shows "preserves (id_inv s) (issue_artifact E P kind purpose delivery ttl account browser continuation)"
  unfolding issue_artifact_def Let_def
  by (intro preserves_bind id_keeps preserves_lift preserves_ret keeps_add_artifact)
    (use assms in \<open>auto simp: artifact_wf_def split: if_splits\<close>)

end
