(* ===== verification/IdOps.thy ===== *)
theory IdOps
  imports IdKeeps
begin

text \<open>
  The operations of the identity service: each keeps the invariant and extends the store, and those
  that use an artifact say how they leave it.
\<close>

section \<open>Artifacts\<close>

lemma get_put_artifact [simp]:
  "get_artifact_by_code (put_artifact a t) c = (if c = ar_code a then Some a else get_artifact_by_code t c)"
  by (simp add: get_artifact_by_code_def put_artifact_def)

definition ticked :: "id_state \<Rightarrow> id_state \<Rightarrow> bool" where
  "ticked t u \<longleftrightarrow> (\<exists>n. u = t\<lparr>clock := n\<rparr>)"

lemma ticked_refl [simp, intro]: "ticked t t"
  unfolding ticked_def by (rule exI [of _ "clock t"]) simp

lemma ticked_clock [simp]: "ticked t (u\<lparr>clock := n\<rparr>) = ticked t u"
proof
  assume "ticked t (u\<lparr>clock := n\<rparr>)"
  then obtain m where "u\<lparr>clock := n\<rparr> = t\<lparr>clock := m\<rparr>" by (auto simp: ticked_def)
  then have "u\<lparr>clock := n\<rparr>\<lparr>clock := clock u\<rparr> = t\<lparr>clock := m\<rparr>\<lparr>clock := clock u\<rparr>" by simp
  then have "u = t\<lparr>clock := clock u\<rparr>" by simp
  then show "ticked t u" unfolding ticked_def by blast
qed (auto simp: ticked_def)

lemma ticked_inv: "ticked t u \<Longrightarrow> id_inv s u = id_inv s t"
  by (auto simp: ticked_def)

lemma ticked_reads: "ticked t u \<Longrightarrow> get_artifact_by_code u = get_artifact_by_code t"
  "ticked t u \<Longrightarrow> has_account u = has_account t" "ticked t u \<Longrightarrow> get_account u = get_account t"
  by (auto simp: ticked_def)

lemma wp_refuse_expired [id_wp]:
  "wp (refuse_expired E a) Q X =
     (\<lambda>s. let t = s\<lparr>clock := Suc (clock s)\<rparr> in
        case dt_le (ar_expires_at a) (env_now E (clock s)) of
          Inl e \<Rightarrow> X e t
        | Inr expired \<Rightarrow> if expired then X (IdentityAccessError ''artifact_expired'' None) t else Q () t)"
  by (simp add: refuse_expired_def wp_simps fun_eq_iff Let_def split: sum.splits)

text \<open>An artifact of the right kind that has not been used: the only one that can be consumed.\<close>

definition usable :: "id_state \<Rightarrow> string \<Rightarrow> artifact_type \<Rightarrow> artifact \<Rightarrow> bool" where
  "usable t code kind a \<longleftrightarrow>
     get_artifact_by_code t code = Some a \<and> ar_type a = kind \<and> ar_consumed_at a = None"

lemma wp_require_unconsumed:
  "wp (require_unconsumed_artifact E code kind) (\<lambda>a u. usable t code kind a \<and> ticked t u) (\<lambda>_. ticked t) t"
  by (auto simp: require_unconsumed_artifact_def wp_simps id_wp usable_def Let_def
      split: option.splits sum.splits)

definition consumed_from :: "artifact \<Rightarrow> artifact \<Rightarrow> bool" where
  "consumed_from a c \<longleftrightarrow>
     (\<exists>x y. c = a\<lparr>ar_consumed_at := Some x, ar_delivery_state := ArtifactConsumed, ar_updated_at := y\<rparr>)"

lemma consumed_fromI [intro!, simp]:
  "consumed_from a (a\<lparr>ar_consumed_at := Some x, ar_delivery_state := ArtifactConsumed, ar_updated_at := y\<rparr>)"
  by (auto simp: consumed_from_def)

lemma consumed_from_edit:
  assumes "consumed_from a c" "ar_consumed_at a = None" "artifact_wf a" "ar_type a \<noteq> ClaimCode"
  shows "artifact_edited a c" "artifact_wf c" "ar_target_account_id c = None"
    "ar_account_id c = ar_account_id a" "ar_code c = ar_code a" "ar_type c = ar_type a"
  using assms by (auto simp: consumed_from_def artifact_edited_def artifact_wf_def set_once_def)

lemma wp_consumed_now: "wp (consumed_now E a) (\<lambda>c u. consumed_from a c \<and> ticked t u) (\<lambda>_. ticked t) t"
  by (auto simp: consumed_now_def wp_simps consumed_from_def)

text \<open>Consuming an artifact writes the consumed one and nothing else; a refusal writes nothing.\<close>

lemma wp_consume_artifact:
  assumes "id_ok t" "kind \<noteq> ClaimCode"
  shows "wp (consume_artifact E code kind)
    (\<lambda>c u. \<exists>a v. usable t code kind a \<and> consumed_from a c \<and> ticked t v \<and> u = put_artifact c v \<and> id_inv t u)
    (\<lambda>_. ticked t) t"
proof -
  have save: "wp (save_artifact c)
      (\<lambda>_ u. \<exists>a v. usable t code kind a \<and> consumed_from a c \<and> ticked t v \<and> u = put_artifact c v \<and> id_inv t u)
      (\<lambda>_. ticked t) v"
    if a: "usable t code kind a" and c: "consumed_from a c" and v: "ticked t v" for a c v
  proof -
    have stored: "get_artifact_by_code t code = Some a" "ar_type a = kind" "ar_consumed_at a = None"
      using a by (simp_all add: usable_def)
    note wf = artifact_facts [OF assms(1) stored(1)]
    note e = consumed_from_edit [OF c stored(3) wf(2), unfolded stored(2), OF assms(2)]
    have inv: "id_inv t v" using v id_inv_refl [OF assms(1)] by (simp add: ticked_inv)
    have old: "get_artifact_by_code v (ar_code c) = Some a"
      using stored(1) wf(1) e(5) v by (simp add: ticked_reads)
    have "id_inv t (put_artifact c v)"
      by (rule id_put_artifact_edit [OF inv old e(1,2)]) (simp add: e(3))
    then show ?thesis
      using old a c v by (auto simp: save_artifact_def wp_simps id_wp)
  qed
  have mid: "wp (consumed_now E a) (\<lambda>c u. consumed_from a c \<and> ticked t u) (\<lambda>_. ticked t) u"
    if "ticked t u" for a u
    using that by (auto simp: consumed_now_def wp_simps consumed_from_def)
  show ?thesis
    unfolding consume_artifact_def wp_bind wp_ret
    by (rule wp_mono [OF wp_require_unconsumed])
      (auto intro!: wp_mono [OF mid] wp_mono [OF save])
qed

lemma usable_account:
  assumes "id_ok t" "usable t code kind a"
  shows "ar_account_id a = Some i \<Longrightarrow> has_account t i"
  using artifact_facts(3) [OF assms(1), of code a] assms(2) by (simp add: usable_def)

text \<open>Steps of an operation that is run from a later state: its base may move there.\<close>

lemma wp_rebase:
  "id_inv t v \<Longrightarrow> wp m (\<lambda>x w. id_inv v w \<and> R x w) (\<lambda>_. id_inv v) v \<Longrightarrow>
    wp m (\<lambda>x w. id_inv t w \<and> R x w) (\<lambda>_. id_inv t) v"
  by (erule wp_mono) (auto intro: id_inv_trans)

lemma wp_inv_require:
  "id_inv t u \<Longrightarrow> (\<And>x. get u = Some x \<Longrightarrow> wp (f x) Q (\<lambda>_. id_inv t) u) \<Longrightarrow>
    wp (bind (require get code) f) Q (\<lambda>_. id_inv t) u"
  by (simp add: wp_bind wp_require split: option.splits)

text \<open>A used artifact stays used.\<close>

definition used :: "id_state \<Rightarrow> string \<Rightarrow> artifact_type \<Rightarrow> bool" where
  "used t code kind \<longleftrightarrow>
     (\<exists>a. get_artifact_by_code t code = Some a \<and> ar_type a = kind \<and> ar_consumed_at a \<noteq> None)"

lemma later_artifact_of:
  "id_inv s t \<Longrightarrow> get_artifact_by_code s c = Some a \<Longrightarrow> \<exists>b. get_artifact_by_code t c = Some b \<and> artifact_edited a b"
  by (auto simp: id_inv_def id_ext_def get_artifact_by_code_def dest: artifacts.table_get)

lemma used_stays: "id_inv s t \<Longrightarrow> used s code kind \<Longrightarrow> used t code kind"
  unfolding used_def using later_artifact_of by (fastforce simp: artifact_edited_def set_once_def)

lemma wp_consume_used:
  assumes "id_ok t" "kind \<noteq> ClaimCode"
  shows "wp (consume_artifact E code kind)
    (\<lambda>c u. id_inv t u \<and> used u code kind \<and> (\<forall>i. ar_account_id c = Some i \<longrightarrow> has_account u i)) (\<lambda>_. id_inv t) t"
proof (rule wp_mono [OF wp_consume_artifact [OF assms]], elim exE conjE)
  fix c u a v
  assume a: "usable t code kind a" and c: "consumed_from a c" and v: "ticked t v" "u = put_artifact c v"
    and inv: "id_inv t u"
  have "ar_code a = code" using artifact_facts(1) [OF assms(1)] a by (simp add: usable_def)
  moreover obtain x y where "c = a\<lparr>ar_consumed_at := Some x, ar_delivery_state := ArtifactConsumed, ar_updated_at := y\<rparr>"
    using c by (auto simp: consumed_from_def)
  ultimately have "used u code kind"
    using a unfolding v(2) used_def usable_def by simp
  moreover have "ar_account_id c = ar_account_id a" using c by (auto simp: consumed_from_def)
  ultimately show "id_inv t u \<and> used u code kind \<and> (\<forall>i. ar_account_id c = Some i \<longrightarrow> has_account u i)"
    using inv has_account_mono [OF inv usable_account [OF assms(1) a]] by simp
qed (simp add: ticked_inv id_inv_refl [OF assms(1)])

text \<open>What follows the use of an artifact may rely on its account.\<close>

lemma wp_consume_bind:
  assumes ok: "id_ok t" and kind: "kind \<noteq> ClaimCode"
    and tail: "\<And>c u i. ar_account_id c = Some i \<Longrightarrow> has_account u i \<Longrightarrow> preserves (id_inv u) (f i c)"
  shows "wp (bind (consume_artifact E code kind) (\<lambda>c. bind (artifact_account c) (\<lambda>i. f i c)))
    (\<lambda>_ u. id_inv t u \<and> used u code kind) (\<lambda>_. id_inv t) t"
proof -
  have "wp (bind (artifact_account c) (\<lambda>i. f i c)) (\<lambda>_ v. id_inv t v \<and> used v code kind) (\<lambda>_. id_inv t) u"
    if u: "id_inv t u" "used u code kind" "\<forall>i. ar_account_id c = Some i \<longrightarrow> has_account u i" for c u
  proof (cases "ar_account_id c")
    case (Some i)
    then have "wp (f i c) (\<lambda>_. id_inv u) (\<lambda>_. id_inv u) u"
      using u(3) by (intro keeps_wp [OF tail id_inv_ok [OF u(1)]]) simp_all
    with Some show ?thesis
      by (auto simp: artifact_account_def intro: used_stays [OF _ u(2)] id_inv_trans [OF u(1)] elim!: wp_mono)
  qed (simp add: artifact_account_def wp_raise u(1))
  then show ?thesis
    unfolding wp_bind [of "consume_artifact _ _ _"]
    by (auto intro: wp_mono [OF wp_consume_used [OF ok kind]])
qed

lemma keeps_unconsumed_bind:
  assumes "\<And>a t. id_ok t \<Longrightarrow> usable t code kind a \<Longrightarrow> preserves (id_inv t) (f a)"
  shows "preserves (id_inv s) (bind (require_unconsumed_artifact E code kind) f)"
proof (rule keeps_bind)
  fix t
  assume t: "id_ok t"
  show "wp (require_unconsumed_artifact E code kind)
      (\<lambda>a u. id_inv t u \<and> usable u code kind a) (\<lambda>_. id_inv t) t"
    by (rule wp_mono [OF wp_require_unconsumed])
      (auto simp: ticked_inv id_inv_refl [OF t] usable_def ticked_reads)
qed (use assms id_inv_ok in blast)

section \<open>Registration, login and channel identities\<close>

lemma keeps_create_bind:
  assumes "\<And>a u. id_inv s u \<Longrightarrow> get_account u (ac_id a) = Some a \<Longrightarrow> preserves (id_inv u) (f a)"
  shows "preserves (id_inv s) (bind (create_account E P origin timezone name) f)"
  by (rule keeps_bind [where R = "\<lambda>a u. get_account u (ac_id a) = Some a"])
    (auto simp: assms made_def intro!: wp_mono [OF wp_create_account])

lemmas id_writes = keeps_add_credential keeps_create_session keeps_issue_artifact

lemma keeps_register [id_keeps]:
  "preserves (id_inv s) (register_web_account E P address password display timezone)"
  unfolding register_web_account_def Let_def
  by (rule preserves_bind, rule id_keeps, rule preserves_bind, rule preserves_lift, rule keeps_create_bind)
    (intro preserves_intros id_keeps id_writes; auto simp: has_account_def)

lemma keeps_login [id_keeps]: "preserves (id_inv s) (login E P address password)"
  unfolding login_def
proof (rule keeps_gets)
  fix t
  assume "id_ok t"
  then show "preserves (id_inv t)
      (case get_credential_by_email t address of
         None \<Rightarrow> id_error ''invalid_credentials''
       | Some c \<Rightarrow>
           if \<not> verify_password P (cr_password_hash c) password then id_error ''invalid_credentials''
           else
             bind (require_account (cr_account_id c)) (\<lambda>account.
             bind (create_session E P (ac_id account)) (\<lambda>x.
             ret \<lparr>lr_account = account, lr_session = x\<rparr>)))"
    unfolding require_account_def
    by (intro preserves_case_option preserves_raise preserves_if keeps_require preserves_bind
        keeps_create_session preserves_ret) (auto dest: account_id simp: has_account_def)
qed

lemma keeps_current_user [id_keeps]: "preserves (id_inv s) (current_user E token)"
  unfolding current_user_def by (intro preserves_intros id_keeps)

lemma get_put_identity [simp]:
  "get_channel_identity_by_provider (put_identity d t) ty su =
     (if identity_key d = (ty, su) then Some d else get_channel_identity_by_provider t ty su)"
  "get_channel_identity_by_provider (put_artifact c t) ty su = get_channel_identity_by_provider t ty su"
  "get_account (put_identity d t) = get_account t" "get_account (put_artifact c t) = get_account t"
  by (simp_all add: get_channel_identity_by_provider_def get_account_def put_identity_def put_artifact_def
      fun_eq_iff)

lemma keeps_add_identity_and_artifact:
  assumes "id_ok t" "has_account t (ci_account_id d)" "get_artifact_by_code t (ar_code c) = Some a"
    "artifact_edited a c" "artifact_wf c" "ar_target_account_id c = None"
  shows "wp (add_channel_identity_and_save_artifact d c) (\<lambda>_ u. id_inv t u \<and> get_artifact_by_code u (ar_code c) = Some c \<and>
       get_channel_identity_by_provider u (ci_provider_type d) (ci_provider_subject d) = Some d)
    (\<lambda>_. id_inv t) t"
proof -
  have "id_inv t (put_artifact c (put_identity d t))"
    if "get_channel_identity t (ci_id d) = None" "dget (identities_by_provider t) (identity_key d) = None"
    by (rule id_put_artifact_edit [OF id_put_identity [OF id_inv_refl [OF assms(1)] that assms(2)], of c a])
      (use assms in \<open>simp_all add: get_artifact_by_code_def put_identity_def\<close>)
  then show ?thesis
    using assms(3) id_inv_refl [OF assms(1)]
    by (simp add: add_channel_identity_and_save_artifact_def refuse_bound_identity_def wp_simps id_wp
        identity_key_def)
qed

text \<open>The access checks read the store only.\<close>

lemma wp_require_action: "wp (require_action P i x) (\<lambda>_ u. u = t) (\<lambda>_ u. u = t) t"
  by (auto simp: require_action_def check_access_for_action_def check_access_def id_requires Let_def
      wp_simps id_wp split: option.splits)

definition resolved :: "id_state \<Rightarrow> string \<Rightarrow> string \<Rightarrow> identity_resolution \<Rightarrow> bool" where
  "resolved t ty su r \<longleftrightarrow>
     get_channel_identity_by_provider t ty su = Some (ir_identity r) \<and>
     get_account t (ci_account_id (ir_identity r)) = Some (ir_account r)"

lemma wp_pair:
  assumes ok: "id_ok t"
  shows "wp (pair_channel_identity E P ty su code) (\<lambda>r u. id_inv t u \<and> used u code PairingCode \<and> resolved u ty su r) (\<lambda>_. id_inv t) t"
proof -
  have saved: "wp (add_channel_identity_and_save_artifact d c)
      (\<lambda>_ u. id_inv t u \<and> used u code PairingCode \<and>
         resolved u ty su \<lparr>ir_account = account, ir_identity = d, ir_created_account = False\<rparr>)
      (\<lambda>_. id_inv t) v"
    if "usable t code PairingCode a" "get_account t i = Some account" "id_inv t v"
      "get_artifact_by_code v = get_artifact_by_code t"
      "d = \<lparr>ci_id = iid, ci_account_id = ac_id account, ci_provider_type = ty, ci_provider_subject = su,
         ci_lifecycle = IdentityActive, ci_is_anchor = False, ci_created_at = x, ci_updated_at = y\<rparr>"
      "consumed_from a c" for a i account c d iid x y v
  proof -
    have a: "get_artifact_by_code t code = Some a" "ar_type a = PairingCode" "ar_consumed_at a = None"
      using that(1) by (simp_all add: usable_def)
    note wf = artifact_facts [OF ok a(1)]
    note e = consumed_from_edit [OF that(6) a(3) wf(2), unfolded a(2), simplified]
    have acc: "has_account v (ac_id account)"
      using that(2) account_id [OF ok that(2)] by (intro has_account_mono [OF that(3)]) (simp add: has_account_def)
    have "wp (add_channel_identity_and_save_artifact d c)
        (\<lambda>_ u. id_inv v u \<and> get_artifact_by_code u (ar_code c) = Some c \<and>
           get_channel_identity_by_provider u ty su = Some d) (\<lambda>_. id_inv v) v"
      by (rule wp_mono [OF keeps_add_identity_and_artifact [OF id_inv_ok [OF that(3)], where a = a]])
        (use that(4,5) acc a wf(1) e in simp_all)
    moreover have "ar_consumed_at c \<noteq> None" using that(6) by (auto simp: consumed_from_def)
    moreover have "get_account v (ac_id account) = Some account"
      using account_stays [OF that(3,2)] account_id [OF ok that(2)] by simp
    ultimately show ?thesis
      using wf(1) e(5,6) a(2) that(5)
      by (auto simp: used_def resolved_def intro: id_inv_trans [OF that(3)] account_stays elim!: wp_mono)
  qed
  show ?thesis
    unfolding pair_channel_identity_def
    by (simp add: wp_bind, rule wp_mono [OF wp_require_unconsumed])
      (auto simp: artifact_account_def require_account_def build_channel_identity_def consumed_now_def
        wp_simps id_wp ticked_inv id_inv_refl [OF ok] ticked_reads
        split: option.splits intro!: wp_mono [OF wp_require_action] wp_mono [OF saved])
qed

lemma keeps_pair [id_keeps]: "preserves (id_inv s) (pair_channel_identity E P ty su code)"
  by (rule id_keepsI, rule wp_mono [OF wp_pair]) auto

lemma wp_create_identity:
  assumes "id_inv t u" "get_account u (ac_id a) = Some a"
  shows "wp (create_channel_identity E (ac_id a) ty su anchor)
    (\<lambda>d v. id_inv t v \<and> get_channel_identity_by_provider v ty su = Some d \<and>
       get_account v (ci_account_id d) = Some a) (\<lambda>_. id_inv t) u"
  using assms get_account_has [OF assms(2)]
  by (simp add: create_channel_identity_def build_channel_identity_def add_channel_identity_def
      refuse_bound_identity_def wp_simps id_wp id_put_identity identity_key_def)

lemma wp_resolve:
  assumes ok: "id_ok t"
  shows "wp (resolve_or_create_channel_identity E P ty su pairing sender)
    (\<lambda>r u. id_inv t u \<and> resolved u ty su r) (\<lambda>_. id_inv t) t"
proof (cases pairing)
  case None
  have new: "wp (bind (create_account E P MessagingFirst ''UTC'' name) (\<lambda>account.
      bind (create_channel_identity E (ac_id account) ty su True) (\<lambda>identity.
      ret \<lparr>ir_account = account, ir_identity = identity, ir_created_account = True\<rparr>)))
      (\<lambda>r u. id_inv t u \<and> resolved u ty su r) (\<lambda>_. id_inv t) t" for name ty
    unfolding wp_bind wp_ret
    by (rule wp_mono [OF wp_create_account [OF ok]])
      (auto simp: made_def resolved_def intro!: wp_mono [OF wp_create_identity])
  show ?thesis
    using id_inv_refl [OF ok]
    by (auto simp: resolve_or_create_channel_identity_def None require_account_def resolved_def
        wp_bind [of "gets _"] wp_bind [of "require _ _"] wp_gets wp_raise wp_ret wp_require
        split: option.splits intro: new [unfolded resolved_def])
qed (auto simp: resolve_or_create_channel_identity_def intro: wp_mono [OF wp_pair [OF ok]])

lemma keeps_resolve [id_keeps]:
  "preserves (id_inv s) (resolve_or_create_channel_identity E P ty su pairing sender)"
  by (rule id_keepsI, rule wp_mono [OF wp_resolve]) auto

lemma keeps_bind_identity [id_keeps]:
  "preserves (id_inv s) (bind_channel_identity_to_account E P i ty su anchor)"
  unfolding bind_channel_identity_to_account_def require_account_def
  by (rule keeps_require) (intro preserves_bind preserves_case_option preserves_if preserves_raise
      preserves_gets preserves_ret id_keeps keeps_create_identity; simp add: get_account_has)

lemma keeps_identity_reads [id_keeps]:
  "preserves (id_inv s) (can_remove_channel_identity i d)"
  "preserves (id_inv s) (get_owned_channel_identity i d)"
  "preserves (id_inv s) (get_access_status P i)" "preserves (id_inv s) (get_display_name i)"
  unfolding can_remove_channel_identity_def get_owned_channel_identity_def get_access_status_def
    get_display_name_def
  by (intro preserves_intros id_keeps)+

section \<open>Login links, claims and pairing codes\<close>

lemma keeps_issue_login [id_keeps]: "preserves (id_inv s) (issue_login_url E P i)"
  unfolding issue_login_url_def require_account_def
  by (intro keeps_require keeps_issue_artifact) (auto simp: has_account_def)

lemma wp_redeem_login:
  "id_ok t \<Longrightarrow> wp (redeem_login_url E P token) (\<lambda>_ u. id_inv t u \<and> used u token LoginUrl) (\<lambda>_. id_inv t) t"
  unfolding redeem_login_url_def
  by (rule wp_consume_bind) (auto intro!: preserves_bind keeps_create_session preserves_ret)

lemma keeps_redeem_login [id_keeps]: "preserves (id_inv s) (redeem_login_url E P token)"
  by (rule id_keepsI, rule wp_mono [OF wp_redeem_login]) auto

lemma keeps_issue_claim [id_keeps]: "preserves (id_inv s) (issue_web_claim_code E P browser continuation)"
  unfolding issue_web_claim_code_def by (rule keeps_issue_artifact) auto

lemma keeps_claim_status [id_keeps]: "preserves (id_inv s) (get_claim_code_status E code browser)"
  unfolding get_claim_code_status_def by (intro preserves_intros id_keeps)

text \<open>The browser's claim, redeemed from the channel.\<close>

definition redeemed_from :: "artifact \<Rightarrow> string \<Rightarrow> artifact \<Rightarrow> bool" where
  "redeemed_from a i c \<longleftrightarrow>
     (\<exists>x y. c = a\<lparr>ar_consumed_at := Some x, ar_delivery_state := ArtifactConsumed,
                 ar_target_account_id := Some i, ar_updated_at := y\<rparr>)"

lemma wp_redeem_claim:
  assumes ok: "id_ok t"
  shows "wp (redeem_claim_code_from_channel E code ty su)
    (\<lambda>r u. \<exists>d a c v. get_channel_identity_by_provider t ty su = Some d \<and> usable t code ClaimCode a \<and>
       redeemed_from a (ci_account_id d) c \<and> ticked t v \<and> u = put_artifact c v \<and> id_inv t u \<and>
       r = \<lparr>cl_account_id = ci_account_id d, cl_continuation = ar_continuation a\<rparr>)
    (\<lambda>_. ticked t) t"
proof -
  have saved: "wp (save_artifact c)
      (\<lambda>_ u. \<exists>a' c' v'. usable t code ClaimCode a' \<and> redeemed_from a' (ci_account_id d) c' \<and>
         ticked t v' \<and> u = put_artifact c' v' \<and> id_inv t u \<and> ar_continuation a = ar_continuation a')
      (\<lambda>_. ticked t) v"
    if a: "usable t code ClaimCode a" and d: "get_channel_identity_by_provider t ty su = Some d"
      and v: "ticked t v" and c: "redeemed_from a (ci_account_id d) c" for a d c v
  proof -
    have stored: "get_artifact_by_code t code = Some a" "ar_type a = ClaimCode" "ar_consumed_at a = None"
      using a by (simp_all add: usable_def)
    note wf = artifact_facts [OF ok stored(1)]
    have code: "ar_code c = code" using wf(1) c by (auto simp: redeemed_from_def)
    have old: "get_artifact_by_code v (ar_code c) = Some a" using code stored(1) v by (simp add: ticked_reads)
    have "id_inv t (put_artifact c v)"
      by (rule id_put_artifact_edit [OF _ old])
        (use v ok id_inv_refl [OF ok] stored wf(2) c identity_of_provider(3) [OF ok d] in
          \<open>auto simp: ticked_inv ticked_reads redeemed_from_def artifact_edited_def artifact_wf_def set_once_def\<close>)
    with old a v c show ?thesis by (auto simp: save_artifact_def wp_simps id_wp)
  qed
  have redeemed: "redeemed_from a i (a\<lparr>ar_consumed_at := Some x, ar_delivery_state := ArtifactConsumed,
      ar_target_account_id := Some i, ar_updated_at := y\<rparr>)" for a i x y
    by (auto simp: redeemed_from_def)
  show ?thesis
    unfolding redeem_claim_code_from_channel_def
    by (auto simp: wp_simps id_wp split: option.splits
        intro!: wp_mono [OF wp_require_unconsumed] wp_mono [OF saved] redeemed)
qed

lemma keeps_redeem_claim [id_keeps]: "preserves (id_inv s) (redeem_claim_code_from_channel E code ty su)"
  by (rule id_keepsI, rule wp_mono [OF wp_redeem_claim]) (auto simp: ticked_inv id_inv_refl)

text \<open>A new session is stored under its token, and the artifacts stay as they are.\<close>

lemma wp_add_session:
  assumes "id_inv t u" "has_account u (se_account_id x)"
  shows "wp (add_session x)
    (\<lambda>_ v. id_inv t v \<and> get_session_by_token v (se_token x) = Some x \<and>
       get_session_by_token u (se_token x) = None \<and> get_artifact_by_code v = get_artifact_by_code u)
    (\<lambda>_ v. v = u) u"
  using assms
  by (simp add: add_session_def wp_simps id_wp id_put_session)
    (simp add: get_session_by_token_def get_artifact_by_code_def fun_eq_iff)

lemma wp_create_session:
  assumes "id_ok t" "has_account t account"
  shows "wp (create_session E P account)
    (\<lambda>x u. id_inv t u \<and> se_account_id x = account \<and> se_revoked_at x = None \<and>
       get_session_by_token u (se_token x) = Some x \<and> get_session_by_token t (se_token x) = None \<and>
       get_artifact_by_code u = get_artifact_by_code t)
    (\<lambda>_ u. id_inv t u \<and> get_artifact_by_code u = get_artifact_by_code t) t"
  using assms id_inv_refl [OF assms(1)]
  by (auto simp: create_session_def wp_simps wp_new_token Let_def wp_bind [of "add_session _"] split: sum.splits
      intro!: wp_mono [OF wp_add_session])

text \<open>A claim that was redeemed and is not completed yet, asked for by the browser it was made for.\<close>

definition completable :: "id_state \<Rightarrow> string \<Rightarrow> string \<Rightarrow> artifact \<Rightarrow> string \<Rightarrow> bool" where
  "completable t code browser a target \<longleftrightarrow>
     get_artifact_by_code t code = Some a \<and> ar_type a = ClaimCode \<and> ar_browser_session a = Some browser \<and>
     ar_consumed_at a \<noteq> None \<and> ar_target_account_id a = Some target \<and> ar_delivery_state a \<noteq> ArtifactCompleted"

definition completed_from :: "artifact \<Rightarrow> artifact \<Rightarrow> bool" where
  "completed_from a c \<longleftrightarrow> (\<exists>y. c = a\<lparr>ar_delivery_state := ArtifactCompleted, ar_updated_at := y\<rparr>)"

lemma wp_complete_claim:
  assumes ok: "id_ok t"
  shows "wp (complete_web_claim_from_browser E P code browser)
    (\<lambda>r u. id_inv t u \<and> (\<exists>a c. completable t code browser a (rd_account_id r) \<and> completed_from a c \<and>
       get_artifact_by_code u code = Some c \<and> se_account_id (rd_session r) = rd_account_id r \<and>
       rd_continuation r = ar_continuation a))
    (\<lambda>_ u. id_inv t u \<and> get_artifact_by_code u = get_artifact_by_code t) t"
proof -
  have finish: "wp (bind (create_session E P target) (\<lambda>x.
       bind (py_now E) (\<lambda>updated.
       bind (save_artifact (a\<lparr>ar_delivery_state := ArtifactCompleted, ar_updated_at := updated\<rparr>)) (\<lambda>_.
       ret \<lparr>rd_account_id = target, rd_session = x, rd_continuation = ar_continuation a\<rparr>))))
     (\<lambda>r u. id_inv t u \<and> (\<exists>a c. completable t code browser a (rd_account_id r) \<and> completed_from a c \<and>
       get_artifact_by_code u code = Some c \<and> se_account_id (rd_session r) = rd_account_id r \<and>
       rd_continuation r = ar_continuation a))
     (\<lambda>_ u. id_inv t u \<and> get_artifact_by_code u = get_artifact_by_code t) v"
    if c: "completable t code browser a target" and v: "ticked t v" for a target v
  proof -
    have stored: "get_artifact_by_code t code = Some a" using c by (simp add: completable_def)
    note wf = artifact_facts [OF ok stored]
    have inv: "id_inv t v" using v id_inv_refl [OF ok] by (simp add: ticked_inv)
    have acc: "has_account t target" using wf(4) c by (simp add: completable_def)
    have put: "id_inv t (put_artifact (a\<lparr>ar_delivery_state := ArtifactCompleted, ar_updated_at := y\<rparr>) u)"
      if u: "id_inv v u" "get_artifact_by_code u = get_artifact_by_code v" for u y
      by (rule id_put_artifact_edit [OF id_inv_trans [OF inv u(1)], where b = a])
        (use u stored wf(1,2) v c acc has_account_mono [OF id_inv_trans [OF inv u(1)]] in
          \<open>auto simp: ticked_reads completable_def artifact_edited_def artifact_wf_def set_once_def\<close>)
    have completed: "completed_from a (a\<lparr>ar_delivery_state := ArtifactCompleted, ar_updated_at := y\<rparr>)" for y
      by (auto simp: completed_from_def)
    show ?thesis
      unfolding wp_bind [of "create_session _ _ _"]
      apply (rule wp_mono [OF wp_create_session [OF id_inv_ok [OF inv] has_account_mono [OF inv acc]]])
      using put completed c stored v wf(1)
      by (auto simp: wp_simps id_wp save_artifact_def ticked_reads intro: id_inv_trans [OF inv])
  qed
  show ?thesis
    unfolding complete_web_claim_from_browser_def
    using id_inv_refl [OF ok]
    by (auto simp: wp_bind [of "require _ _"] wp_bind [of "refuse_expired _ _"] wp_require
        wp_refuse_expired wp_raise Let_def completable_def
        split: option.splits sum.splits if_splits intro!: wp_mono [OF finish])
qed

lemma keeps_complete_claim [id_keeps]: "preserves (id_inv s) (complete_web_claim_from_browser E P code browser)"
  by (rule id_keepsI, rule wp_mono [OF wp_complete_claim]) auto

text \<open>
  The loop over the deferred friend links saves each artifact as it was listed: that is sound for
  the listed artifacts have different codes, so no turn of the loop overwrites another's.
\<close>

lemma wp_release_link:
  assumes "id_ok t" "get_artifact_by_code t (ar_code a) = Some a"
  shows "wp (release_link E a)
    (\<lambda>_ u. id_inv t u \<and> (\<forall>c. c \<noteq> ar_code a \<longrightarrow> get_artifact_by_code u c = get_artifact_by_code t c))
    (\<lambda>_ _. False) t"
proof -
  note wf = artifact_facts [OF assms]
  have put: "id_inv t (put_artifact (a\<lparr>ar_continuation := k, ar_updated_at := y\<rparr>) (t\<lparr>clock := n\<rparr>))" for k y n
    by (rule id_put_artifact_edit [where b = a])
      (use assms wf in \<open>auto simp: id_inv_refl artifact_edited_def artifact_wf_def set_once_def\<close>)
  show ?thesis
    using assms put
    by (auto simp: release_link_def save_artifact_def wp_simps id_wp id_inv_refl split: option.splits)
qed

lemma wp_release_links:
  assumes "id_ok t" "distinct (map ar_code as)" "\<forall>a\<in>set as. get_artifact_by_code t (ar_code a) = Some a"
  shows "wp (map_py (release_link E) as) (\<lambda>_. id_inv t) (\<lambda>_ _. False) t"
  using assms
proof (induction as arbitrary: t)
  case Nil
  then show ?case by (simp add: wp_simps id_inv_refl)
next
  case (Cons a as)
  have rest: "wp (map_py (release_link E) as) (\<lambda>_. id_inv t) (\<lambda>_ _. False) u"
    if u: "id_inv t u" "\<forall>c. c \<noteq> ar_code a \<longrightarrow> get_artifact_by_code u c = get_artifact_by_code t c" for u
  proof -
    have "get_artifact_by_code u (ar_code b) = Some b" if b: "b \<in> set as" for b
    proof -
      have "ar_code b \<noteq> ar_code a" using Cons.prems(2) b by (auto simp: image_iff)
      then show ?thesis using u(2) Cons.prems(3) b by simp
    qed
    with Cons.IH [OF id_inv_ok [OF u(1)]] Cons.prems(2)
    have "wp (map_py (release_link E) as) (\<lambda>_. id_inv u) (\<lambda>_ _. False) u" by simp
    then show ?thesis by (rule wp_mono) (auto intro: id_inv_trans [OF u(1)])
  qed
  have "get_artifact_by_code t (ar_code a) = Some a" using Cons.prems(3) by simp
  from wp_release_link [OF Cons.prems(1) this]
  have "wp (release_link E a) (\<lambda>_. wp (map_py (release_link E) as) (\<lambda>_. id_inv t) (\<lambda>_ _. False)) (\<lambda>_ _. False) t"
    by (rule wp_mono) (auto intro: rest)
  then show ?case by (simp add: wp_bind wp_ret)
qed

lemma deferred_listed:
  assumes "id_ok t"
  shows "distinct (map ar_code (list_deferred_friend_link_artifacts t i))"
    and "\<forall>a\<in>set (list_deferred_friend_link_artifacts t i). get_artifact_by_code t (ar_code a) = Some a"
proof -
  have k: "keyed ar_code (artifacts_by_code t)" using assms by (simp add: id_ok_def artifacts_ok_def)
  show "distinct (map ar_code (list_deferred_friend_link_artifacts t i))"
    unfolding list_deferred_friend_link_artifacts_def
    by (rule distinct_map_filter [OF keyed_distinct [OF k]])
  show "\<forall>a\<in>set (list_deferred_friend_link_artifacts t i). get_artifact_by_code t (ar_code a) = Some a"
    using keyed_values [OF k]
    by (auto simp: list_deferred_friend_link_artifacts_def get_artifact_by_code_def simp del: set_map)
qed

lemma keeps_consume_deferred [id_keeps]:
  "preserves (id_inv s) (consume_deferred_friend_link_continuations E i)"
proof (rule id_keepsI)
  fix t
  assume ok: "id_ok t"
  have "wp (map_py (release_link E) (list_deferred_friend_link_artifacts t i)) (\<lambda>_. id_inv t) (\<lambda>_. id_inv t) t"
    by (rule wp_mono [OF wp_release_links [OF ok deferred_listed [OF ok]]]) auto
  then show "wp (consume_deferred_friend_link_continuations E i) (\<lambda>_. id_inv t) (\<lambda>_. id_inv t) t"
    unfolding consume_deferred_friend_link_continuations_def
    using id_inv_refl [OF ok]
    by (auto simp: require_account_def wp_bind wp_ret wp_gets wp_require split: option.splits)
qed

lemma keeps_issue_pairing [id_keeps]: "preserves (id_inv s) (issue_pairing_code E P i)"
  unfolding issue_pairing_code_def
proof (rule keeps_bind)
  fix t
  assume "id_ok t"
  then show "wp (require_pairing_allowed P i) (\<lambda>_ u. id_inv t u \<and> has_account u i) (\<lambda>_. id_inv t) t"
    by (auto simp: require_pairing_allowed_def require_account_def wp_simps id_wp id_inv_refl get_account_has
        split: option.splits intro!: wp_mono [OF wp_require_action])
qed (rule keeps_issue_artifact, auto)

lemma keeps_pending_pairing [id_keeps]: "preserves (id_inv s) (get_pending_pairing_code E P i)"
  "preserves (id_inv s) (preview_pairing_code_account E code)"
  unfolding get_pending_pairing_code_def preview_pairing_code_account_def by (intro preserves_intros id_keeps)+

lemma keeps_ensure_pairing [id_keeps]: "preserves (id_inv s) (ensure_pairing_code E P i)"
  unfolding ensure_pairing_code_def by (intro preserves_intros id_keeps)

section \<open>Passwords and e-mail addresses\<close>

lemma keeps_credential_issue:
  assumes "kind \<noteq> ClaimCode"
  shows "preserves (id_inv s) (bind (require (\<lambda>s. get_credential_by_email s address) code) (\<lambda>c.
     bind (issue_artifact E P kind purpose delivery ttl (Some (cr_account_id c)) None k) (\<lambda>issued.
     bind (send_email P (e issued)) (\<lambda>_. ret issued))))"
  by (rule keeps_require, intro preserves_bind id_keeps preserves_ret keeps_issue_artifact)
    (use assms in \<open>auto dest: credential_of_email(3)\<close>)

lemma keeps_issue_reset [id_keeps]: "preserves (id_inv s) (issue_password_reset E P address)"
  unfolding issue_password_reset_def
  by (rule preserves_bind, rule id_keeps, rule keeps_credential_issue) simp

lemma wp_set_password:
  assumes "id_ok t" "get_credential_by_account t i = Some c"
  shows "wp (save_credential (c\<lparr>cr_password_hash := h, cr_reset_required := False, cr_updated_at := n\<rparr>))
    (\<lambda>_. id_inv t) (\<lambda>_. id_inv t) t"
  by (rule wp_save_credential [OF assms(1), where b = c])
    (use credential_key [OF assms] assms(2) in \<open>simp_all add: credential_edited_def\<close>)

lemma wp_reset_password:
  assumes "id_ok t"
  shows "wp (reset_password E P token password) (\<lambda>_ u. id_inv t u \<and> used u token PasswordReset) (\<lambda>_. id_inv t) t"
  unfolding reset_password_def
proof (rule wp_inv_bind [OF id_inv_refl [OF assms]], rule id_keeps, rule wp_rebase, assumption,
    rule wp_consume_bind, erule id_inv_ok)
  fix u i
  show "preserves (id_inv u) (bind (require_credential i) (\<lambda>c. bind (hash_password P password) (\<lambda>hashed.
     bind (py_now E) (\<lambda>updated_at.
     let updated = c\<lparr>cr_password_hash := hashed, cr_reset_required := False, cr_updated_at := updated_at\<rparr> in
     bind (save_credential updated) (\<lambda>_. ret updated)))))"
    by (rule id_keepsI)
      (auto simp: require_credential_def wp_simps id_wp Let_def id_inv_refl split: option.splits
        intro!: wp_mono [OF wp_set_password])
qed simp

lemma keeps_reset_password [id_keeps]: "preserves (id_inv s) (reset_password E P token password)"
  by (rule id_keepsI, rule wp_mono [OF wp_reset_password]) auto

lemma wp_update_access:
  assumes "id_ok t" "get_access t i = Some a"
  shows "wp (save_access (a\<lparr>aa_email_verification_state := e, aa_subscription_state := su,
      aa_suspension_state := sp, aa_allowed := (derive_denial_reason P e su sp = None),
      aa_denial_reason := derive_denial_reason P e su sp, aa_updated_at := n\<rparr>))
    (\<lambda>_. id_inv t) (\<lambda>_. id_inv t) t"
  by (rule wp_save_access [OF assms(1), where b = a])
    (use access_key [OF assms] assms(2) derived_access_wf in \<open>simp_all add: access_edited_def\<close>)

lemma keeps_set_access [id_keeps]: "preserves (id_inv s) (set_access_state E P i e su sp)"
proof (rule id_keepsI)
  fix t
  assume ok: "id_ok t"
  show "wp (set_access_state E P i e su sp) (\<lambda>_. id_inv t) (\<lambda>_. id_inv t) t"
    using ok by (auto simp: set_access_state_def id_requires wp_simps id_wp Let_def id_inv_refl
        split: option.splits intro!: wp_mono [OF wp_update_access])
qed

text \<open>A verified e-mail address: the credential returned is the stored one of the artifact's account.\<close>

lemma wp_set_verified:
  assumes "id_ok t" "get_credential_by_account t i = Some c"
  shows "wp (save_credential (c\<lparr>cr_email_verified_at := Some x, cr_updated_at := n\<rparr>))
    (\<lambda>_. id_inv t) (\<lambda>_. id_inv t) t"
  by (rule wp_save_credential [OF assms(1), where b = c])
    (use credential_key [OF assms] assms(2) in \<open>simp_all add: credential_edited_def\<close>)

lemma keeps_consume [id_keeps]: "kind \<noteq> ClaimCode \<Longrightarrow> preserves (id_inv s) (consume_artifact E code kind)"
  by (rule id_keepsI, rule wp_mono [OF wp_consume_artifact]) (auto simp: ticked_inv id_inv_refl)

lemma wp_verify_email:
  assumes "id_ok t"
  shows "wp (verify_email E P token)
    (\<lambda>c u. id_inv t u \<and> used u token EmailVerification \<and> has_account u (cr_account_id c)) (\<lambda>_. id_inv t) t"
  unfolding verify_email_def require_credential_def Let_def
  apply (rule wp_inv_bind [OF id_inv_refl [OF assms]], rule id_keeps)
  apply (rule wp_rebase, assumption)
  apply (subst wp_bind, rule wp_mono [OF wp_consume_used], erule id_inv_ok, simp)
   apply (elim conjE, rule wp_rebase, assumption)
   apply (rule wp_inv_bind [OF id_inv_refl], erule id_inv_ok, rule id_keeps)
   apply (rule wp_rebase, assumption)
   apply (rule wp_inv_require, rule id_inv_refl, erule id_inv_ok)
   apply (simp only: wp_bind [of "py_now _"] wp_bind [of "save_credential _"] wp_py_now)
   apply (rule wp_mono [OF wp_set_verified])
      apply (simp add: id_inv_ok)
     apply simp
    apply (rule wp_inv_bind, simp, rule id_keeps)+
    apply (auto simp: wp_ret dest: credential_key [OF id_inv_ok]
      intro: has_account_mono used_stays [OF id_inv_trans])
  done

lemma keeps_verify_email [id_keeps]:
  "preserves (id_inv s) (verify_email E P token)"
  "preserves (id_inv s) (verify_email_and_create_session E P token)"
proof -
  show "preserves (id_inv s) (verify_email E P token)" for s
    by (rule id_keepsI, rule wp_mono [OF wp_verify_email]) auto
  show "preserves (id_inv s) (verify_email_and_create_session E P token)"
    unfolding verify_email_and_create_session_def
    by (rule keeps_bind [where R = "\<lambda>c u. has_account u (cr_account_id c)"])
      (auto intro: wp_mono [OF wp_verify_email] preserves_bind keeps_create_session preserves_ret)
qed

lemma keeps_send_artifact_email [id_keeps]: "preserves (id_inv s) (send_artifact_email P a)"
  unfolding send_artifact_email_def
  by (intro preserves_bind id_keeps) (auto split: artifact_type.splits intro: id_keeps preserves_raise)

lemma wp_resent:
  assumes "id_ok t" "get_artifact_by_code t code = Some a" "ar_consumed_at a = None" "ar_type a \<noteq> ClaimCode"
  shows "wp (save_artifact (a\<lparr>ar_delivery_state := ArtifactPending, ar_resend_count := n, ar_updated_at := y\<rparr>))
    (\<lambda>_. id_inv t) (\<lambda>_. id_inv t) t"
  by (rule wp_save_artifact [OF assms(1), where b = a])
    (use artifact_facts [OF assms(1,2)] assms in \<open>auto simp: artifact_edited_def artifact_wf_def set_once_def\<close>)

lemma keeps_resend [id_keeps]: "preserves (id_inv s) (resend_artifact E P code)"
proof (rule id_keepsI)
  fix t
  assume ok: "id_ok t"
  have send: "wp (bind (send_artifact_email P b) (\<lambda>_. ret b)) (\<lambda>_. id_inv t) (\<lambda>_. id_inv t) u"
    if "id_inv t u" for b u
    using that by (intro wp_inv_bind [OF that] id_keeps) (simp add: wp_ret)
  show "wp (resend_artifact E P code) (\<lambda>_. id_inv t) (\<lambda>_. id_inv t) t"
    using ok id_inv_refl [OF ok]
    by (auto simp: resend_artifact_def wp_bind [of "require _ _"] wp_bind [of "refuse_expired _ _"]
        wp_bind [of "py_now _"] wp_bind [of "save_artifact _"] wp_require wp_refuse_expired wp_py_now wp_raise
        Let_def split: option.splits sum.splits intro!: wp_mono [OF wp_resent] send)
qed

lemma keeps_resend_verification [id_keeps]: "preserves (id_inv s) (resend_email_verification E P address)"
proof -
  have issue: "preserves (id_inv t) (bind (issue_artifact E P EmailVerification ''verify_email'' ''email''
      (24 * hour_us) (Some (cr_account_id c)) None []) (\<lambda>issued.
      bind (send_email P (VerificationEmail (cr_email c) (ai_code issued))) (\<lambda>_. ret issued)))"
    if "id_ok t" "get_credential_by_email t address = Some c" for t c
    by (intro preserves_bind id_keeps preserves_ret keeps_issue_artifact)
      (use credential_of_email(3) [OF that] in auto)
  show ?thesis
    unfolding resend_email_verification_def
    by (rule preserves_bind, rule id_keeps, rule keeps_require)
      (intro preserves_bind preserves_gets preserves_lift preserves_case_option preserves_ret id_keeps issue)
qed

lemma keeps_send_claim [id_keeps]: "preserves (id_inv s) (send_claim_email E P token address)"
  unfolding send_claim_email_def by (intro preserves_bind preserves_ret id_keeps)

section \<open>Activation\<close>

lemma wp_save_edited_activation:
  assumes "id_ok t" "get_activation t i = Some a" "av_account_id b = av_account_id a"
    "activation_edited a b" "activation_wf b"
  shows "wp (save_activation b) (\<lambda>_. id_inv t) (\<lambda>_. id_inv t) t"
  by (rule wp_save_activation [OF assms(1) _ assms(4,5)]) (use activation_key [OF assms(1,2)] assms in simp)

lemma keeps_recompute [id_keeps]: "preserves (id_inv s) (recompute_activation E i)"
proof (rule id_keepsI)
  fix t
  assume ok: "id_ok t"
  show "wp (recompute_activation E i) (\<lambda>_. id_inv t) (\<lambda>_. id_inv t) t"
    using ok by (auto simp: recompute_activation_def id_requires wp_simps id_wp Let_def id_inv_refl
        activation_edited_def activation_wf_def set_once_def
        split: option.splits intro!: wp_mono [OF wp_save_edited_activation])
qed

lemma keeps_mark_usable:
  "has_account s i \<Longrightarrow> preserves (id_inv s) (mark_usable_channel i)"
  by (rule preservesI)
    (auto simp: mark_usable_channel_def wp_simps id_inv_def id_ok_def id_ext_def id_parts
      dest: has_account_mono [rotated])

lemma keeps_observe_channel [id_keeps]: "preserves (id_inv s) (observe_usable_channel E i)"
  unfolding observe_usable_channel_def require_account_def
  by (rule keeps_require, intro preserves_bind keeps_mark_usable id_keeps) (rule get_account_has)

lemma keeps_first_inbound [id_keeps]: "preserves (id_inv s) (mark_first_inbound_received E i)"
proof (rule id_keepsI)
  fix t
  assume ok: "id_ok t"
  have rest: "wp (recompute_activation E i) (\<lambda>_. id_inv t) (\<lambda>_. id_inv t) u" if "id_inv t u" for u
    by (rule wp_mono [OF keeps_wp [OF keeps_recompute id_inv_ok [OF that]]]) (auto intro: id_inv_trans [OF that])
  show "wp (mark_first_inbound_received E i) (\<lambda>_. id_inv t) (\<lambda>_. id_inv t) t"
    using ok by (auto simp: mark_first_inbound_received_def id_requires wp_simps id_wp id_inv_refl rest
        activation_edited_def activation_wf_def set_once_def
        split: option.splits intro!: wp_mono [OF wp_save_edited_activation])
qed

lemma keeps_guidance [id_keeps]: "preserves (id_inv s) (mark_first_guidance_sent E i)"
proof (rule id_keepsI)
  fix t
  assume ok: "id_ok t"
  show "wp (mark_first_guidance_sent E i) (\<lambda>_. id_inv t) (\<lambda>_. id_inv t) t"
    using ok by (auto simp: mark_first_guidance_sent_def id_requires wp_simps id_wp Let_def id_inv_refl
        activation_edited_def activation_wf_def set_once_def dest: activation_key
        split: option.splits intro!: wp_mono [OF wp_save_edited_activation])
qed

section \<open>Logging in\<close>

lemma wp_login:
  assumes ok: "id_ok t"
  shows "wp (login E P address password)
    (\<lambda>r u. id_inv t u \<and> get_account t (ac_id (lr_account r)) = Some (lr_account r) \<and>
       (\<exists>c. get_credential_by_email t address = Some c \<and> cr_account_id c = ac_id (lr_account r) \<and>
          verify_password P (cr_password_hash c) password) \<and>
       get_session_by_token u (se_token (lr_session r)) = Some (lr_session r) \<and>
       se_account_id (lr_session r) = ac_id (lr_account r) \<and> se_revoked_at (lr_session r) = None)
    (\<lambda>_. id_inv t) t"
proof -
  have create: "wp (bind (create_session E P i) (\<lambda>x. ret \<lparr>lr_account = a, lr_session = x\<rparr>))
      (\<lambda>r u. lr_account r = a \<and> id_inv t u \<and>
         get_session_by_token u (se_token (lr_session r)) = Some (lr_session r) \<and>
         se_account_id (lr_session r) = i \<and> se_revoked_at (lr_session r) = None)
      (\<lambda>_. id_inv t) t" if "get_account t i = Some a" for a i
    unfolding wp_bind wp_ret
    by (rule wp_mono [OF wp_create_session [OF ok get_account_has [OF that]]]) simp_all
  show ?thesis
    unfolding login_def
    using id_inv_refl [OF ok] account_id [OF ok] credential_of_email(1) [OF ok]
    by (auto simp: wp_bind [of "gets _"] wp_bind [of "require _ _"] wp_gets wp_raise require_account_def
        wp_require split: option.splits intro!: wp_mono [OF create])
qed

end
