(* ===== verification/IdRuntime.thy ===== *)
theory IdRuntime
  imports IdOps
begin

text \<open>
  The identity service as a state machine: its calls, the step they make, and the states they reach
  from the empty store.
\<close>

section \<open>Calls and steps\<close>

datatype id_call =
    Register string string "string option" string
  | Login string string
  | CurrentUser string
  | ResolveIdentity string string "string option" "string option"
  | BindIdentity string string string bool
  | IssueLogin string
  | RedeemLogin string
  | IssueClaim string "fact option"
  | ClaimStatus string string
  | RedeemClaim string string string
  | CompleteClaim string string
  | ConsumeDeferred string
  | IssuePairing string
  | EnsurePairing string
  | PreviewPairing string
  | IssueReset string
  | ResetPassword string string
  | VerifyEmail string
  | VerifyEmailSession string
  | ResendArtifact string
  | ResendVerification string
  | SendClaim string string
  | SetAccess string string string string
  | CheckAction string string
  | ObserveChannel string
  | FirstInbound string
  | GuidanceSent string
  | Recompute string

definition id_done :: "'a idm \<Rightarrow> unit idm" where
  "id_done m = bind m (\<lambda>_. ret ())"

fun do_id_call :: "env \<Rightarrow> id_ports \<Rightarrow> id_call \<Rightarrow> unit idm" where
  "do_id_call E P (Register a w d z) = id_done (register_web_account E P a w d z)"
| "do_id_call E P (Login a w) = id_done (login E P a w)"
| "do_id_call E P (CurrentUser t) = id_done (current_user E t)"
| "do_id_call E P (ResolveIdentity ty su code sender) =
     id_done (resolve_or_create_channel_identity E P ty su code sender)"
| "do_id_call E P (BindIdentity i ty su anchor) = id_done (bind_channel_identity_to_account E P i ty su anchor)"
| "do_id_call E P (IssueLogin i) = id_done (issue_login_url E P i)"
| "do_id_call E P (RedeemLogin t) = id_done (redeem_login_url E P t)"
| "do_id_call E P (IssueClaim b k) = id_done (issue_web_claim_code E P b k)"
| "do_id_call E P (ClaimStatus c b) = id_done (get_claim_code_status E c b)"
| "do_id_call E P (RedeemClaim c ty su) = id_done (redeem_claim_code_from_channel E c ty su)"
| "do_id_call E P (CompleteClaim c b) = id_done (complete_web_claim_from_browser E P c b)"
| "do_id_call E P (ConsumeDeferred i) = id_done (consume_deferred_friend_link_continuations E i)"
| "do_id_call E P (IssuePairing i) = id_done (issue_pairing_code E P i)"
| "do_id_call E P (EnsurePairing i) = id_done (ensure_pairing_code E P i)"
| "do_id_call E P (PreviewPairing c) = id_done (preview_pairing_code_account E c)"
| "do_id_call E P (IssueReset a) = id_done (issue_password_reset E P a)"
| "do_id_call E P (ResetPassword t w) = id_done (reset_password E P t w)"
| "do_id_call E P (VerifyEmail t) = id_done (verify_email E P t)"
| "do_id_call E P (VerifyEmailSession t) = id_done (verify_email_and_create_session E P t)"
| "do_id_call E P (ResendArtifact c) = id_done (resend_artifact E P c)"
| "do_id_call E P (ResendVerification a) = id_done (resend_email_verification E P a)"
| "do_id_call E P (SendClaim t a) = id_done (send_claim_email E P t a)"
| "do_id_call E P (SetAccess i e su sp) = id_done (set_access_state E P i e su sp)"
| "do_id_call E P (CheckAction i x) = id_done (require_action P i x)"
| "do_id_call E P (ObserveChannel i) = id_done (observe_usable_channel E i)"
| "do_id_call E P (FirstInbound i) = id_done (mark_first_inbound_received E i)"
| "do_id_call E P (GuidanceSent i) = id_done (mark_first_guidance_sent E i)"
| "do_id_call E P (Recompute i) = id_done (recompute_activation E i)"

text \<open>Tokens, passwords and the mail server answer anew at each call.\<close>

inductive id_step :: "env \<Rightarrow> id_state \<Rightarrow> id_state \<Rightarrow> bool" for E where
  call: "do_id_call E P c s = (res, t) \<Longrightarrow> id_step E s t"

inductive_simps id_step_iff: "id_step E s t"

inductive id_reachable :: "env \<Rightarrow> id_state \<Rightarrow> bool" for E where
  empty: "id_reachable E empty_id_state"
| step: "id_reachable E s \<Longrightarrow> id_step E s t \<Longrightarrow> id_reachable E t"

lemma keeps_id_done: "preserves I m \<Longrightarrow> preserves I (id_done m)"
  unfolding id_done_def by (intro preserves_intros)

lemma keeps_id_call: "preserves (id_inv s) (do_id_call E P c)"
  by (cases c) (auto intro!: keeps_id_done id_keeps)

lemma id_step_inv: "id_step E s t \<Longrightarrow> id_ok s \<Longrightarrow> id_inv s t"
  unfolding id_step_iff using preserves_run [OF keeps_id_call] id_inv_refl by blast

lemma reachable_id_ok: "id_reachable E s \<Longrightarrow> id_ok s"
  by (induction rule: id_reachable.induct) (auto dest: id_step_inv id_inv_ok)

lemma id_steps_inv: "(id_step E)\<^sup>*\<^sup>* s t \<Longrightarrow> id_ok s \<Longrightarrow> id_inv s t"
proof (induction rule: rtranclp_induct)
  case base
  then show ?case by (rule id_inv_refl)
next
  case (step t u)
  then have "id_inv s t" by blast
  with id_step_inv [OF step.hyps(2) id_inv_ok] show ?case by (blast intro: id_inv_trans)
qed

lemma reachable_id_steps: "id_reachable E s \<Longrightarrow> (id_step E)\<^sup>*\<^sup>* s t \<Longrightarrow> id_reachable E t"
  by (rotate_tac, induction rule: rtranclp_induct) (auto intro: id_reachable.intros)

text \<open>A run of calls, for the closed examples.\<close>

fun run_id_calls :: "env \<Rightarrow> id_ports \<Rightarrow> id_call list \<Rightarrow> id_state \<Rightarrow> id_state" where
  "run_id_calls E P [] s = s"
| "run_id_calls E P (c # cs) s = run_id_calls E P cs (snd (do_id_call E P c s))"

lemma run_id_calls_steps: "(id_step E)\<^sup>*\<^sup>* s (run_id_calls E P cs s)"
proof (induction cs arbitrary: s)
  case (Cons c cs)
  have "id_step E s (snd (do_id_call E P c s))"
    by (rule id_step.call [where res = "fst (do_id_call E P c s)"]) simp
  from converse_rtranclp_into_rtranclp [OF this Cons.IH] show ?case by simp
qed simp

lemma reachable_run_id_calls: "id_reachable E s \<Longrightarrow> id_reachable E (run_id_calls E P cs s)"
  using reachable_id_steps run_id_calls_steps by blast

section \<open>What stays as it was\<close>

lemma session_stays: "id_inv s t \<Longrightarrow> get_session_by_token s k = Some x \<Longrightarrow> get_session_by_token t k = Some x"
  by (auto simp: id_inv_def id_ext_def get_session_by_token_def dest: sessions.table_get)

lemma identity_stays:
  assumes "id_ok s" "id_inv s t" "get_channel_identity_by_provider s ty su = Some d"
  shows "get_channel_identity_by_provider t ty su = Some d"
proof -
  have "dget (identities_by_id t) (ci_id d) = Some d"
    using assms(2) identity_of_provider(1) [OF assms(1,3)]
    by (auto simp: id_inv_def id_ext_def get_channel_identity_def dest: identities.table_get)
  moreover have "indexed ci_id identity_key (identities_by_id t) (identities_by_provider t)"
    using assms(2) by (simp add: id_inv_def id_ok_def identities_ok_def)
  moreover have "identity_key d = (ty, su)" by (rule identity_of_provider(2) [OF assms(1,3)])
  ultimately show ?thesis
    by (simp add: get_channel_identity_by_provider_def indexed_lookup)
qed

lemma later_credential:
  assumes "id_ok s" "id_inv s t" "get_credential_by_email s e = Some c"
  shows "\<exists>d. get_credential_by_email t e = Some d \<and> cr_account_id d = cr_account_id c \<and>
     cr_email d = cr_email c \<and> (cr_email_verified_at c \<noteq> None \<longrightarrow> cr_email_verified_at d \<noteq> None)"
proof -
  note c = credential_of_email [OF assms(1,3)]
  obtain d where d: "get_credential_by_account t (cr_account_id c) = Some d" "credential_edited c d"
    using assms(2) c(1) by (auto simp: id_inv_def id_ext_def get_credential_by_account_def
        dest: credentials.table_get)
  then have "get_credential_by_email t (cr_email d) = Some d"
    using credential_owner [OF id_inv_ok [OF assms(2)], of d d] by (simp add: credential_edited_def)
  with d c(2) show ?thesis by (auto simp: credential_edited_def get_credential_by_email_def)
qed

lemma later_artifact:
  assumes "id_ok s" "id_inv s t" "get_artifact_by_code s k = Some a"
  shows "\<exists>b. get_artifact_by_code t k = Some b \<and> artifact_edited a b \<and>
     (ar_consumed_at a \<noteq> None \<longrightarrow> ar_consumed_at b = ar_consumed_at a \<and>
        ar_target_account_id b = ar_target_account_id a)"
proof -
  obtain b where b: "get_artifact_by_code t k = Some b" "artifact_edited a b"
    using later_artifact_of [OF assms(2,3)] by blast
  with artifact_facts(2) [OF assms(1,3)] artifact_facts(2) [OF id_inv_ok [OF assms(2)] b(1)]
  show ?thesis
    by (cases "ar_target_account_id a") (auto simp: artifact_edited_def artifact_wf_def set_once_def split: if_splits)
qed

text \<open>A used artifact is refused by every later use.\<close>

lemma use_refused:
  assumes "used t code kind"
  shows "require_unconsumed_artifact E code kind t = (Inl (IdentityAccessError ''artifact_consumed'' None), t)"
    and "consume_artifact E code kind t = (Inl (IdentityAccessError ''artifact_consumed'' None), t)"
proof -
  show r: "require_unconsumed_artifact E code kind t = (Inl (IdentityAccessError ''artifact_consumed'' None), t)"
    using assms by (auto simp: used_def require_unconsumed_artifact_def require_def py_run)
  show "consume_artifact E code kind t = (Inl (IdentityAccessError ''artifact_consumed'' None), t)"
    by (simp add: consume_artifact_def bind_run r)
qed

lemma used_everywhere:
  shows "used u code LoginUrl \<Longrightarrow>
      redeem_login_url E P code u = (Inl (IdentityAccessError ''artifact_consumed'' None), u)"
    and "used u code PasswordReset \<Longrightarrow> ip_email_auth P \<Longrightarrow>
      reset_password E P code w u = (Inl (IdentityAccessError ''artifact_consumed'' None), u)"
    and "used u code EmailVerification \<Longrightarrow> ip_email_auth P \<Longrightarrow>
      verify_email E P code u = (Inl (IdentityAccessError ''artifact_consumed'' None), u)"
    and "used u code PairingCode \<Longrightarrow>
      pair_channel_identity E P ty su code u = (Inl (IdentityAccessError ''artifact_consumed'' None), u)"
  by (simp_all add: redeem_login_url_def reset_password_def verify_email_def pair_channel_identity_def
      require_email_auth_def bind_run use_refused ret_run)

lemma email_auth_off:
  assumes "\<not> ip_email_auth P"
  shows "reset_password E P code w u = (Inl (IdentityAccessError ''email_auth_disabled'' None), u)"
    and "verify_email E P code u = (Inl (IdentityAccessError ''email_auth_disabled'' None), u)"
  using assms by (simp_all add: reset_password_def verify_email_def require_email_auth_def py_run)

section \<open>Access\<close>

definition access_denial :: "id_ports \<Rightarrow> account_access \<Rightarrow> string option" where
  "access_denial P x =
     derive_denial_reason P (if ip_email_auth P then aa_email_verification_state x else ''verified'')
       (aa_subscription_state x) (aa_suspension_state x)"

lemma effective_access_fields:
  "aa_denial_reason (effective_access P x) = access_denial P x"
  "aa_allowed (effective_access P x) = (access_denial P x = None)"
  unfolding access_denial_def effective_access_def Let_def by auto

lemma access_denial_cases:
  "access_denial P x =
     (if aa_suspension_state x = ''suspended'' then Some ''suspended''
      else if ip_email_auth P \<and> aa_email_verification_state x \<noteq> ''verified''
      then Some ''email_verification_required''
      else if aa_subscription_state x \<noteq> ''active'' then Some ''subscription_inactive'' else None)"
  unfolding access_denial_def derive_denial_reason_def by (cases "ip_email_auth P") simp_all

lemma check_access_run:
  assumes "get_account s i = Some a" "get_access s i = Some x"
  shows "check_access P i inbound s =
    (Inr (case access_denial P x of
       None \<Rightarrow> \<lparr>ad_allowed = True, ad_denial_reason = None, ad_turn_trigger = None, ad_fact = None\<rparr>
     | Some reason \<Rightarrow>
         \<lparr>ad_allowed = False, ad_denial_reason = Some reason, ad_turn_trigger = Some ''AccessDeniedTurn'',
          ad_fact = Some [(''type'', PyStr ''account_access_denied''), (''account_id'', PyStr i),
            (''denial_reason'', PyStr reason),
            (''checkout_url'', if inbound \<and> reason = ''subscription_inactive'' \<and> ac_origin a = MessagingFirst
              then PyStr (ip_checkout P i) else PyNone)]\<rparr>), s)"
  unfolding check_access_def require_account_def require_access_def require_def Let_def effective_access_fields
  by (cases "access_denial P x") (use assms in \<open>simp_all add: py_run text_or_none_def\<close>)

end
