(* ===== verification/ChanRepository.thy ===== *)
theory ChanRepository
  imports IdRuntime ConvRepository
begin

text \<open>
  Channels, delivery routes and delivery attempts: the data of
  \<open>src/coke/domains/channel_reachability/models.py\<close> and the repository in memory of
  \<open>repository.py\<close>. The service works on the store of the identity service as well, so
  that store is a field of the state.
\<close>

section \<open>Data\<close>

datatype connection_state =
    NotConnected | Connecting | Connected | ConnectionFailed | ReconnectionRequired | ConnectionRemoved
datatype channel_lifecycle = ChannelActive | ChannelRemoved
datatype route_lifecycle = RouteActive | RouteRemoved
datatype attempt_status = AttemptSent | AttemptDelivered | AttemptFailed

record channel =
  ch_id :: string
  ch_account_id :: string
  ch_identity_id :: string
  ch_provider_type :: string
  ch_lifecycle :: channel_lifecycle
  ch_connection :: connection_state
  ch_removable :: bool
  ch_connected_at :: "datetime option"
  ch_removed_at :: "datetime option"
  ch_created_at :: datetime
  ch_updated_at :: datetime

record delivery_route =
  dr_id :: string
  dr_account_id :: string
  dr_channel_id :: string
  dr_provider_type :: string
  dr_address :: string
  dr_key :: string
  dr_lifecycle :: route_lifecycle
  dr_created_at :: datetime
  dr_updated_at :: datetime

record delivery_attempt =
  at_id :: string
  at_route_id :: string
  at_provider_type :: string
  at_key :: string
  at_status :: attempt_status
  at_provider_message_id :: "string option"
  at_error_code :: "string option"
  at_attempted_at :: datetime
  at_delivered_at :: "datetime option"
  at_created_at :: datetime
  at_updated_at :: datetime
  at_turn_id :: "string option"
  at_message_id :: "string option"
  at_source :: "string option"
  at_intent :: "string option"
  at_retry :: "int option"
  at_traceparent :: "string option"
  at_container :: "string option"
  at_token_source :: "string option"
  at_token_age :: "int option"
  at_latency_ms :: "int option"

record attempt_result =
  ars_status :: attempt_status
  ars_provider_message_id :: "string option"
  ars_error_code :: "string option"
  ars_delivered_at :: "datetime option"

record normalized_inbound =
  ni_provider_type :: string
  ni_provider_subject :: string
  ni_text :: string
  ni_raw_event_id :: string
  ni_received_at :: datetime
  ni_pairing_code :: "string option"
  ni_sender_display_name :: "string option"
  ni_account_id :: "string option"
  ni_connector_session_id :: "string option"
  ni_context_token :: "string option"
  ni_payload :: "fact option"
  ni_media :: "inbound_media_input list"

record channel_status =
  st_account_id :: string
  st_channel_id :: "string option"
  st_provider_type :: "string option"
  st_connection :: connection_state
  st_reachable :: bool
  st_pairing_code :: "string option"
  st_instructions :: "string option"
  st_session_id :: "string option"
  st_qrcode_id :: "string option"
  st_qrcode_image :: "string option"
  st_connector_status :: "string option"
  st_masked_identity :: "string option"

record webhook_acceptance =
  wa_accepted :: bool
  wa_provider_type :: string
  wa_provider_subject :: string
  wa_account_id :: string
  wa_channel_identity_id :: string
  wa_channel_id :: string
  wa_created_account :: bool
  wa_raw_event_id :: string

text \<open>
  The state: the repository's dictionaries, the identity service's store, and the texts handed to a
  provider so far, each with its route and idempotency key.
\<close>

record chan_state = svc +
  identity_store :: id_state
  texts_sent :: "(delivery_route \<times> string \<times> string) list"
  channels_by_id :: "(string, channel) dict"
  routes_by_id :: "(string, delivery_route) dict"
  routes_by_key :: "(string, delivery_route) dict"
  attempts_by_id :: "(string, delivery_attempt) dict"
  attempts_by_key :: "(string \<times> string, delivery_attempt) dict"

text \<open>
  The two services keep their counters apart: both states have them, so the record package does not
  separate them by itself.
\<close>

lemma identity_store_counters [simp]:
  "identity_store ((t::chan_state)\<lparr>clock := n\<rparr>) = identity_store t"
  "identity_store ((t::chan_state)\<lparr>issued := n\<rparr>) = identity_store t"
  "clock ((t::chan_state)\<lparr>identity_store := i\<rparr>) = clock t"
  "issued ((t::chan_state)\<lparr>identity_store := i\<rparr>) = issued t"
  by (cases t; simp)+

definition empty_chan_state :: chan_state where
  "empty_chan_state =
     \<lparr>clock = 0, issued = 0, traced = 0, identity_store = empty_id_state, texts_sent = [],
      channels_by_id = [], routes_by_id = [], routes_by_key = [], attempts_by_id = [],
      attempts_by_key = []\<rparr>"

type_synonym 'a chm = "(chan_state, 'a) py"

section \<open>Channels\<close>

definition get_channel :: "chan_state \<Rightarrow> string \<Rightarrow> channel option" where
  "get_channel s i = dget (channels_by_id s) i"

definition is_active_channel :: "string \<Rightarrow> channel \<Rightarrow> bool" where
  "is_active_channel account c \<longleftrightarrow> ch_account_id c = account \<and> ch_lifecycle c = ChannelActive"

definition get_active_channel :: "chan_state \<Rightarrow> string \<Rightarrow> channel option" where
  "get_active_channel s account = find (is_active_channel account) (dvalues (channels_by_id s))"

definition list_channels :: "chan_state \<Rightarrow> string \<Rightarrow> channel list" where
  "list_channels s account = filter (\<lambda>c. ch_account_id c = account) (dvalues (channels_by_id s))"

definition put_channel :: "channel \<Rightarrow> chan_state \<Rightarrow> chan_state" where
  "put_channel c s = s\<lparr>channels_by_id := dput (ch_id c) c (channels_by_id s)\<rparr>"

definition add_channel :: "channel \<Rightarrow> unit chm" where
  "add_channel c =
     bind (refuse_if (\<lambda>s. get_channel s (ch_id c) \<noteq> None) ''duplicate_channel_id'') (\<lambda>_.
     bind (refuse_if (\<lambda>s. ch_lifecycle c = ChannelActive \<and> get_active_channel s (ch_account_id c) \<noteq> None)
             ''duplicate_active_channel'') (\<lambda>_.
     modify (put_channel c)))"

definition save_channel :: "channel \<Rightarrow> unit chm" where
  "save_channel c =
     bind (refuse_if (\<lambda>s. get_channel s (ch_id c) = None) ''channel_not_found'') (\<lambda>_.
     bind (refuse_if (\<lambda>s. ch_lifecycle c = ChannelActive \<and>
              (case get_active_channel s (ch_account_id c) of None \<Rightarrow> False | Some a \<Rightarrow> ch_id a \<noteq> ch_id c))
             ''duplicate_active_channel'') (\<lambda>_.
     modify (put_channel c)))"

section \<open>Routes\<close>

definition get_route :: "chan_state \<Rightarrow> string \<Rightarrow> delivery_route option" where
  "get_route s i = dget (routes_by_id s) i"

definition is_active_route :: "string \<Rightarrow> delivery_route \<Rightarrow> bool" where
  "is_active_route channel r \<longleftrightarrow> dr_channel_id r = channel \<and> dr_lifecycle r = RouteActive"

definition get_active_route_for_channel :: "chan_state \<Rightarrow> string \<Rightarrow> delivery_route option" where
  "get_active_route_for_channel s channel = find (is_active_route channel) (dvalues (routes_by_id s))"

definition put_route :: "delivery_route \<Rightarrow> chan_state \<Rightarrow> chan_state" where
  "put_route r s =
     s\<lparr>routes_by_id := dput (dr_id r) r (routes_by_id s), routes_by_key := dput (dr_key r) r (routes_by_key s)\<rparr>"

text \<open>\<open>_same_identifier\<close>: two ids are compared as UUIDs where both are, else as they are.\<close>

definition same_identifier :: "string \<Rightarrow> string \<Rightarrow> bool" where
  "same_identifier left right \<longleftrightarrow>
     (case (uuid_hex left, uuid_hex right) of (Some l, Some r) \<Rightarrow> l = r | _ \<Rightarrow> left = right)"

definition same_route_identity :: "delivery_route \<Rightarrow> delivery_route \<Rightarrow> bool" where
  "same_route_identity a b \<longleftrightarrow>
     same_identifier (dr_account_id a) (dr_account_id b) \<and> same_identifier (dr_channel_id a) (dr_channel_id b) \<and>
     dr_provider_type a = dr_provider_type b \<and> dr_address a = dr_address b"

definition refreshed_route :: "delivery_route \<Rightarrow> delivery_route \<Rightarrow> delivery_route" where
  "refreshed_route existing new =
     existing\<lparr>dr_key := dr_key new, dr_lifecycle := RouteActive, dr_updated_at := dr_updated_at new\<rparr>"

text \<open>The key is known.\<close>

definition upsert_known_route :: "delivery_route \<Rightarrow> delivery_route \<Rightarrow> delivery_route chm" where
  "upsert_known_route existing route =
     (if dr_lifecycle existing \<noteq> RouteActive then raise (ValueError ''retired_route_key'')
      else
        bind (refuse_if (\<lambda>s. case get_route s (dr_id route) of None \<Rightarrow> False | Some r \<Rightarrow> dr_id r \<noteq> dr_id existing)
               ''duplicate_delivery_route_id'') (\<lambda>_.
        if dr_account_id route \<noteq> dr_account_id existing \<or> dr_channel_id route \<noteq> dr_channel_id existing \<or>
           dr_provider_type route \<noteq> dr_provider_type existing \<or> dr_address route \<noteq> dr_address existing
        then raise (ValueError ''delivery_route_identity_mismatch'')
        else
          bind (modify (put_route (refreshed_route existing route))) (\<lambda>_.
          ret (refreshed_route existing route))))"

definition upsert_route :: "delivery_route \<Rightarrow> delivery_route chm" where
  "upsert_route route =
     bind (gets (\<lambda>s. dget (routes_by_key s) (dr_key route))) (\<lambda>known.
     case known of
       Some existing \<Rightarrow> upsert_known_route existing route
     | None \<Rightarrow>
         bind (refuse_if (\<lambda>s. get_route s (dr_id route) \<noteq> None) ''duplicate_delivery_route_id'') (\<lambda>_.
         bind (gets (\<lambda>s. get_active_route_for_channel s (dr_channel_id route))) (\<lambda>active.
         case active of
           Some r \<Rightarrow>
             if same_route_identity route r
             then
               bind (modify (\<lambda>s. s\<lparr>routes_by_key := dpop (dr_key r) (routes_by_key s)\<rparr>)) (\<lambda>_.
               bind (modify (put_route (refreshed_route r route))) (\<lambda>_. ret (refreshed_route r route)))
             else raise (ValueError ''duplicate_active_route_for_channel'')
         | None \<Rightarrow> bind (modify (put_route route)) (\<lambda>_. ret route))))"

definition retired_route :: "datetime \<Rightarrow> delivery_route \<Rightarrow> delivery_route" where
  "retired_route at r = r\<lparr>dr_lifecycle := RouteRemoved, dr_updated_at := at\<rparr>"

definition retire_routes_for_channel :: "string \<Rightarrow> datetime \<Rightarrow> unit chm" where
  "retire_routes_for_channel channel at =
     bind (gets (\<lambda>s. dvalues (routes_by_id s))) (\<lambda>routes.
     for_each routes (\<lambda>r.
       if is_active_route channel r then modify (put_route (retired_route at r)) else ret ()))"

section \<open>Attempts\<close>

definition attempt_key :: "delivery_attempt \<Rightarrow> string \<times> string" where
  "attempt_key a = (at_provider_type a, at_key a)"

definition save_attempt :: "delivery_attempt \<Rightarrow> unit chm" where
  "save_attempt a =
     bind (refuse_if (\<lambda>s. dget (attempts_by_id s) (at_id a) \<noteq> None) ''duplicate_delivery_attempt_id'') (\<lambda>_.
     bind (refuse_if (\<lambda>s. dget (attempts_by_key s) (attempt_key a) \<noteq> None)
             ''duplicate_provider_idempotency_key'') (\<lambda>_.
     modify (\<lambda>s. s\<lparr>attempts_by_id := dput (at_id a) a (attempts_by_id s),
                  attempts_by_key := dput (attempt_key a) a (attempts_by_key s)\<rparr>)))"

definition get_attempt_by_provider_idempotency :: "chan_state \<Rightarrow> string \<Rightarrow> string \<Rightarrow> delivery_attempt option" where
  "get_attempt_by_provider_idempotency s provider_type key = dget (attempts_by_key s) (provider_type, key)"

definition list_attempts :: "chan_state \<Rightarrow> delivery_attempt list" where
  "list_attempts s = dvalues (attempts_by_id s)"

end
