(* ===== verification/ChanService.thy ===== *)
theory ChanService
  imports ChanRepository
begin

text \<open>
  \<open>ChannelReachabilityService\<close> of \<open>src/coke/domains/channel_reachability/service.py\<close>, method by
  method. It calls the identity service, which runs on its own store inside the state, and the
  adapters of the messaging providers, which are parameters.
\<close>

section \<open>Ports\<close>

text \<open>
  A provider's adapter: \<open>send_text\<close> with the route, the text, the idempotency key and, where it is
  passed, the \<open>context_token\<close>; \<open>start_login\<close> and \<open>poll_login_status\<close> where the adapter has them.
\<close>

record adapter =
  ad_send :: "delivery_route \<Rightarrow> string \<Rightarrow> string \<Rightarrow> string option option \<Rightarrow> pyexn + attempt_result"
  ad_start_login :: "(string \<Rightarrow> pyexn + pyval) option"
  ad_poll_login :: "(string \<Rightarrow> string \<Rightarrow> pyexn + pyval) option"

text \<open>
  The constructor's arguments: the identity service's clock, identifiers and ports, the adapters,
  the completion of deferred friend links, and \<open>int\<close> of the milliseconds that sending takes.
\<close>

record chan_ports =
  cp_identity_env :: env
  cp_identity :: id_ports
  cp_provider :: "string \<Rightarrow> adapter option"
  cp_deferred :: "(string \<Rightarrow> pyexn + unit) option"
  cp_elapsed_ms :: int

abbreviation chan_error :: "string \<Rightarrow> 'a chm" where
  "chan_error code \<equiv> raise (ChannelReachabilityError code None)"

text \<open>\<open>_identity_call\<close>: the identity service's errors become errors of this service.\<close>

fun as_reachability_error :: "pyexn \<Rightarrow> pyexn" where
  "as_reachability_error (IdentityAccessError code extra) = ChannelReachabilityError code extra"
| "as_reachability_error e = e"

definition identity_call :: "'a idm \<Rightarrow> 'a chm" where
  "identity_call m =
     (\<lambda>s. case m (identity_store s) of
        (Inl e, t) \<Rightarrow> (Inl (as_reachability_error e), s\<lparr>identity_store := t\<rparr>)
      | (Inr x, t) \<Rightarrow> (Inr x, s\<lparr>identity_store := t\<rparr>))"

section \<open>Checks\<close>

definition product_channel_types :: "string list" where
  "product_channel_types = [''wechat_personal'', ''whatsapp_evolution'']"

definition require_provider :: "chan_ports \<Rightarrow> string \<Rightarrow> adapter chm" where
  "require_provider P ty =
     (case cp_provider P ty of None \<Rightarrow> chan_error ''unsupported_provider'' | Some a \<Rightarrow> ret a)"

definition require_product_channel :: "string \<Rightarrow> unit chm" where
  "require_product_channel ty =
     (if ty \<in> set product_channel_types then ret ()
      else raise (ChannelReachabilityError ''unsupported_product_channel''
             (Some [(''type'', PyStr ''unsupported_product_channel''), (''provider_type'', PyStr ty),
                    (''supported_provider_types'', PyList (map PyStr product_channel_types))])))"

definition require_channel_access :: "chan_ports \<Rightarrow> string \<Rightarrow> unit chm" where
  "require_channel_access P account =
     bind (identity_call (check_access_for_action (cp_identity P) account ''connect_channel'')) (\<lambda>d.
     if ad_allowed d then ret () else raise (ChannelReachabilityError ''access_denied'' (ad_fact d)))"

definition require_owned_identity :: "string \<Rightarrow> string \<Rightarrow> channel_identity chm" where
  "require_owned_identity account identity_id =
     identity_call (get_owned_channel_identity account identity_id)"

definition require_channel :: "string \<Rightarrow> string \<Rightarrow> channel chm" where
  "require_channel account channel_id =
     bind (gets (\<lambda>s. get_channel s channel_id)) (\<lambda>found.
     case found of
       None \<Rightarrow> chan_error ''channel_not_found''
     | Some c \<Rightarrow>
         if ch_account_id c \<noteq> account \<or> ch_lifecycle c \<noteq> ChannelActive then chan_error ''channel_not_found''
         else ret c)"

section \<open>Responses of a provider\<close>

definition optional_response_str :: "pyval \<Rightarrow> string \<Rightarrow> string option" where
  "optional_response_str response name =
     (case response of
        PyDict d \<Rightarrow>
          (case dget d name of
             Some (PyStr v) \<Rightarrow> if py_strip v \<noteq> [] then Some (py_strip v) else None
           | _ \<Rightarrow> None)
      | _ \<Rightarrow> None)"

definition required_response_str :: "pyval \<Rightarrow> string \<Rightarrow> pyexn + string" where
  "required_response_str response name =
     (case optional_response_str response name of
        None \<Rightarrow>
          Inl (ChannelReachabilityError ''invalid_provider_response''
            (Some [(''type'', PyStr ''invalid_provider_response''), (''field'', PyStr name)]))
      | Some v \<Rightarrow> Inr v)"

definition is_session_expired_error :: "string option \<Rightarrow> bool" where
  "is_session_expired_error code =
     (case code of
        None \<Rightarrow> False
      | Some c \<Rightarrow>
          c \<noteq> [] \<and> (contains ''errcode_-14'' (py_lower c) \<or>
             py_lower c \<in> {''session_expired'', ''ilink_session_expired''}))"

definition mask_identity :: "string \<Rightarrow> string" where
  "mask_identity v = (if length v \<le> 8 then v else take 4 v @ ''***'' @ drop (length v - 4) v)"

section \<open>Status\<close>

definition blank_status :: "string \<Rightarrow> channel_status" where
  "blank_status account =
     \<lparr>st_account_id = account, st_channel_id = None, st_provider_type = None,
      st_connection = NotConnected, st_reachable = False, st_pairing_code = None, st_instructions = None,
      st_session_id = None, st_qrcode_id = None, st_qrcode_image = None, st_connector_status = None,
      st_masked_identity = None\<rparr>"

definition get_status :: "chan_state \<Rightarrow> string \<Rightarrow> channel_status" where
  "get_status s account =
     (case get_active_channel s account of
        None \<Rightarrow> blank_status account
      | Some c \<Rightarrow>
          (blank_status account)\<lparr>st_channel_id := Some (ch_id c), st_provider_type := Some (ch_provider_type c),
             st_connection := ch_connection c, st_reachable := (ch_connection c = Connected)\<rparr>)"

section \<open>Channels\<close>

definition save_state :: "env \<Rightarrow> channel \<Rightarrow> connection_state \<Rightarrow> channel chm" where
  "save_state E c state =
     bind (py_now E) (\<lambda>now.
     let updated = c\<lparr>ch_connection := state, ch_updated_at := now\<rparr> in
     bind (save_channel updated) (\<lambda>_. ret updated))"

definition create_channel :: "env \<Rightarrow> chan_ports \<Rightarrow> string \<Rightarrow> string \<Rightarrow> string \<Rightarrow> bool \<Rightarrow> channel chm" where
  "create_channel E P account ty identity_id removable =
     bind (require_provider P ty) (\<lambda>_.
     bind (require_product_channel ty) (\<lambda>_.
     bind (require_channel_access P account) (\<lambda>_.
     bind (require_owned_identity account identity_id) (\<lambda>identity.
     if ci_provider_type identity \<noteq> ty then chan_error ''provider_identity_mismatch''
     else
       bind (gets (\<lambda>s. get_active_channel s account)) (\<lambda>active.
       if active \<noteq> None then chan_error ''active_channel_exists''
       else
         bind (py_now E) (\<lambda>now.
         bind (new_id E ''channel'') (\<lambda>i.
         let c = \<lparr>ch_id = i, ch_account_id = account, ch_identity_id = identity_id, ch_provider_type = ty,
                  ch_lifecycle = ChannelActive, ch_connection = NotConnected, ch_removable = removable,
                  ch_connected_at = None, ch_removed_at = None, ch_created_at = now, ch_updated_at = now\<rparr> in
         bind (add_channel c) (\<lambda>_. ret c))))))))"

definition connect_channel :: "env \<Rightarrow> chan_ports \<Rightarrow> string \<Rightarrow> string \<Rightarrow> channel chm" where
  "connect_channel E P account channel_id =
     bind (require_channel_access P account) (\<lambda>_.
     bind (require_channel account channel_id) (\<lambda>c. save_state E c Connecting))"

definition poll_channel :: "string \<Rightarrow> string \<Rightarrow> channel chm" where
  "poll_channel account channel_id = require_channel account channel_id"

text \<open>The key of a route is a digest of what identifies it.\<close>

definition delivery_route_key :: "env \<Rightarrow> string \<Rightarrow> string \<Rightarrow> string \<Rightarrow> string" where
  "delivery_route_key E channel_id ty subject =
     ''delivery-route:'' @
     env_sha E (account_id_key channel_id @ [CHR 0x00] @ ty @ [CHR 0x00] @ subject)"

definition resolve_route_for_channel :: "env \<Rightarrow> channel \<Rightarrow> delivery_route chm" where
  "resolve_route_for_channel E c =
     bind (require_owned_identity (ch_account_id c) (ch_identity_id c)) (\<lambda>identity.
     bind (py_now E) (\<lambda>now.
     bind (new_id E ''delivery_route'') (\<lambda>i.
     upsert_route
       \<lparr>dr_id = i, dr_account_id = ch_account_id c, dr_channel_id = ch_id c,
        dr_provider_type = ch_provider_type c, dr_address = ci_provider_subject identity,
        dr_key = delivery_route_key E (ch_id c) (ch_provider_type c) (ci_provider_subject identity),
        dr_lifecycle = RouteActive, dr_created_at = now, dr_updated_at = now\<rparr>)))"

definition complete_deferred_links :: "chan_ports \<Rightarrow> string \<Rightarrow> unit chm" where
  "complete_deferred_links P account =
     (case cp_deferred P of None \<Rightarrow> ret () | Some complete \<Rightarrow> lift (complete account))"

definition mark_connected :: "env \<Rightarrow> chan_ports \<Rightarrow> string \<Rightarrow> string \<Rightarrow> channel chm" where
  "mark_connected E P account channel_id =
     bind (require_channel_access P account) (\<lambda>_.
     bind (require_channel account channel_id) (\<lambda>c.
     bind (identity_call (require_activation account)) (\<lambda>_.
     bind (resolve_route_for_channel E c) (\<lambda>_.
     bind (py_now E) (\<lambda>now.
     let updated = c\<lparr>ch_connection := Connected, ch_connected_at := Some now, ch_updated_at := now\<rparr> in
     bind (save_channel updated) (\<lambda>_.
     bind (identity_call (observe_usable_channel (cp_identity_env P) account)) (\<lambda>_.
     bind (complete_deferred_links P account) (\<lambda>_. ret updated))))))))"

definition mark_connection_failed :: "env \<Rightarrow> string \<Rightarrow> string \<Rightarrow> channel chm" where
  "mark_connection_failed E account channel_id =
     bind (require_channel account channel_id) (\<lambda>c. save_state E c ConnectionFailed)"

definition mark_reconnection_required :: "env \<Rightarrow> string \<Rightarrow> string \<Rightarrow> channel chm" where
  "mark_reconnection_required E account channel_id =
     bind (require_channel account channel_id) (\<lambda>c. save_state E c ReconnectionRequired)"

definition retry_connection :: "env \<Rightarrow> chan_ports \<Rightarrow> string \<Rightarrow> string \<Rightarrow> channel chm" where
  "retry_connection E P account channel_id =
     bind (require_channel_access P account) (\<lambda>_.
     bind (require_channel account channel_id) (\<lambda>c.
     if ch_connection c \<notin> {ConnectionFailed, ReconnectionRequired} then chan_error ''channel_retry_not_allowed''
     else save_state E c Connecting))"

definition remove_channel :: "env \<Rightarrow> string \<Rightarrow> string \<Rightarrow> channel chm" where
  "remove_channel E account channel_id =
     bind (require_channel account channel_id) (\<lambda>c.
     bind (identity_call (can_remove_channel_identity account (ch_identity_id c))) (\<lambda>can.
     if \<not> can then chan_error ''channel_identity_not_removable''
     else if \<not> ch_removable c then chan_error ''channel_not_removable''
     else
       bind (py_now E) (\<lambda>now.
       let updated = c\<lparr>ch_lifecycle := ChannelRemoved, ch_connection := ConnectionRemoved,
                       ch_removed_at := Some now, ch_updated_at := now\<rparr> in
       bind (save_channel updated) (\<lambda>_.
       bind (retire_routes_for_channel (ch_id c) now) (\<lambda>_. ret updated)))))"

definition resolve_route :: "env \<Rightarrow> string \<Rightarrow> delivery_route chm" where
  "resolve_route E account =
     bind (gets (\<lambda>s. get_active_channel s account)) (\<lambda>active.
     case active of
       None \<Rightarrow> chan_error ''no_connected_channel''
     | Some c \<Rightarrow>
         if ch_connection c \<noteq> Connected then chan_error ''no_connected_channel''
         else resolve_route_for_channel E c)"

section \<open>Sending a text\<close>

text \<open>The keyword arguments of \<open>send_text\<close> that it only records.\<close>

record send_details =
  sd_turn_id :: "string option"
  sd_message_id :: "string option"
  sd_context_token :: "string option"
  sd_source :: "string option"
  sd_intent :: "string option"
  sd_retry :: "int option"
  sd_traceparent :: "string option"
  sd_container :: "string option"
  sd_token_source :: "string option"
  sd_token_age :: "int option"

definition nullable :: "string option \<Rightarrow> pyval" where
  "nullable v = (case v of None \<Rightarrow> PyNone | Some x \<Rightarrow> PyStr x)"

text \<open>An attempt with this key was made before: it is the answer, if it was made on the same route.\<close>

definition replayed_attempt :: "string \<Rightarrow> string \<Rightarrow> delivery_route \<Rightarrow> delivery_attempt \<Rightarrow> delivery_attempt chm" where
  "replayed_attempt account key route existing =
     bind (gets (\<lambda>s. get_route s (at_route_id existing))) (\<lambda>existing_route.
     if at_route_id existing \<noteq> dr_id route \<or> map_option dr_account_id existing_route \<noteq> Some account
     then
       raise (ChannelReachabilityError ''provider_idempotency_conflict''
         (Some [(''type'', PyStr ''provider_idempotency_conflict''),
                (''provider_type'', PyStr (dr_provider_type route)),
                (''provider_idempotency_key'', PyStr key),
                (''existing_account_id'', nullable (map_option dr_account_id existing_route)),
                (''current_account_id'', PyStr account),
                (''existing_route_id'', PyStr (at_route_id existing)),
                (''current_route_id'', PyStr (dr_id route))]))
     else ret existing)"

text \<open>Handing the text to the adapter; only the personal WeChat adapter takes a context token.\<close>

definition call_adapter ::
  "adapter \<Rightarrow> delivery_route \<Rightarrow> string \<Rightarrow> string \<Rightarrow> string option \<Rightarrow> attempt_result chm" where
  "call_adapter a route content key token =
     bind (modify (\<lambda>s. s\<lparr>texts_sent := texts_sent s @ [(route, content, key)]\<rparr>)) (\<lambda>_.
     lift (ad_send a route content key
       (if dr_provider_type route = ''wechat_personal'' then Some token else None)))"

definition note_session_expiry :: "delivery_route \<Rightarrow> attempt_result \<Rightarrow> datetime \<Rightarrow> unit chm" where
  "note_session_expiry route result now =
     (if dr_provider_type route = ''wechat_personal'' \<and> ars_status result = AttemptFailed \<and>
         is_session_expired_error (ars_error_code result)
      then
        bind (gets (\<lambda>s. get_channel s (dr_channel_id route))) (\<lambda>found.
        case found of
          None \<Rightarrow> ret ()
        | Some c \<Rightarrow>
            if ch_connection c \<noteq> ReconnectionRequired
            then save_channel (c\<lparr>ch_connection := ReconnectionRequired, ch_updated_at := now\<rparr>)
            else ret ())
      else ret ())"

definition send_new_text ::
  "env \<Rightarrow> chan_ports \<Rightarrow> delivery_route \<Rightarrow> string \<Rightarrow> string \<Rightarrow> send_details \<Rightarrow> delivery_attempt chm" where
  "send_new_text E P route content key d =
     bind (require_provider P (dr_provider_type route)) (\<lambda>a.
     bind (call_adapter a route content key (sd_context_token d)) (\<lambda>result.
     bind (py_now E) (\<lambda>now.
     bind (note_session_expiry route result now) (\<lambda>_.
     bind (new_id E ''delivery_attempt'') (\<lambda>i.
     let attempt =
       \<lparr>at_id = i, at_route_id = dr_id route, at_provider_type = dr_provider_type route, at_key = key,
        at_status = ars_status result, at_provider_message_id = ars_provider_message_id result,
        at_error_code = ars_error_code result, at_attempted_at = now,
        at_delivered_at = (if ars_status result = AttemptDelivered then ars_delivered_at result else None),
        at_created_at = now, at_updated_at = now, at_turn_id = sd_turn_id d, at_message_id = sd_message_id d,
        at_source = sd_source d, at_intent = sd_intent d, at_retry = sd_retry d,
        at_traceparent = sd_traceparent d, at_container = sd_container d,
        at_token_source = sd_token_source d, at_token_age = sd_token_age d,
        at_latency_ms = Some (max 0 (cp_elapsed_ms P))\<rparr> in
     bind (save_attempt attempt) (\<lambda>_. ret attempt))))))"

definition send_text ::
  "env \<Rightarrow> chan_ports \<Rightarrow> string \<Rightarrow> string \<Rightarrow> string \<Rightarrow> send_details \<Rightarrow> delivery_attempt chm" where
  "send_text E P account content key d =
     bind (resolve_route E account) (\<lambda>route.
     bind (gets (\<lambda>s. get_attempt_by_provider_idempotency s (dr_provider_type route) key)) (\<lambda>existing.
     case existing of
       Some a \<Rightarrow> replayed_attempt account key route a
     | None \<Rightarrow> send_new_text E P route content key d))"

section \<open>Inbound messages\<close>

definition bind_identity ::
  "chan_ports \<Rightarrow> string \<Rightarrow> string \<Rightarrow> string \<Rightarrow> identity_resolution chm" where
  "bind_identity P account ty subject =
     identity_call (bind_channel_identity_to_account (cp_identity_env P) (cp_identity P) account ty subject False)"

text \<open>The common end: the channel is connected, the inbound message noted and accepted.\<close>

definition accept_on_channel ::
  "env \<Rightarrow> chan_ports \<Rightarrow> normalized_inbound \<Rightarrow> string \<Rightarrow> channel_identity \<Rightarrow> bool \<Rightarrow> channel \<Rightarrow>
    webhook_acceptance chm" where
  "accept_on_channel E P inbound account identity created c =
     bind (if ch_connection c \<noteq> Connected then mark_connected E P account (ch_id c) else ret c) (\<lambda>c.
     bind (identity_call (mark_first_inbound_received (cp_identity_env P) account)) (\<lambda>_.
     ret \<lparr>wa_accepted = True, wa_provider_type = ni_provider_type inbound,
          wa_provider_subject = ni_provider_subject inbound, wa_account_id = account,
          wa_channel_identity_id = ci_id identity, wa_channel_id = ch_id c, wa_created_account = created,
          wa_raw_event_id = ni_raw_event_id inbound\<rparr>))"

text \<open>A personal WeChat session belongs to the account that scanned its code.\<close>

definition accept_session_inbound ::
  "env \<Rightarrow> chan_ports \<Rightarrow> normalized_inbound \<Rightarrow> string \<Rightarrow> webhook_acceptance chm" where
  "accept_session_inbound E P inbound owner =
     bind (gets (\<lambda>s. get_active_channel s owner)) (\<lambda>active.
     bind (case active of
             None \<Rightarrow> ret ()
           | Some c \<Rightarrow>
               bind (bind_identity P owner (ni_provider_type inbound) (ni_provider_subject inbound)) (\<lambda>r.
               if ch_identity_id c \<noteq> ci_id (ir_identity r) then chan_error ''active_channel_exists''
               else ret ())) (\<lambda>_.
     bind (bind_identity P owner (ni_provider_type inbound) (ni_provider_subject inbound)) (\<lambda>r.
     let account = ac_id (ir_account r) in
     bind (require_channel_access P account) (\<lambda>_.
     bind (gets (\<lambda>s. get_active_channel s account)) (\<lambda>found.
     bind (case found of
             Some c \<Rightarrow> ret c
           | None \<Rightarrow> create_channel E P account (ni_provider_type inbound) (ci_id (ir_identity r)) True) (\<lambda>c.
     accept_on_channel E P inbound account (ir_identity r) False c))))))"

text \<open>A pairing code is refused before it is used when its account has a channel already.\<close>

definition refuse_second_channel :: "chan_ports \<Rightarrow> string option \<Rightarrow> unit chm" where
  "refuse_second_channel P pairing =
     (case pairing of
        None \<Rightarrow> ret ()
      | Some code \<Rightarrow>
          bind (identity_call (preview_pairing_code_account (cp_identity_env P) code)) (\<lambda>target.
          bind (gets (\<lambda>s. get_active_channel s target)) (\<lambda>active.
          if active \<noteq> None
          then raise (ChannelReachabilityError ''active_channel_exists''
                 (Some [(''type'', PyStr ''active_channel_exists''), (''account_id'', PyStr target)]))
          else ret ())))"

definition accept_address_inbound :: "env \<Rightarrow> chan_ports \<Rightarrow> normalized_inbound \<Rightarrow> webhook_acceptance chm" where
  "accept_address_inbound E P inbound =
     bind (refuse_second_channel P (ni_pairing_code inbound)) (\<lambda>_.
     bind (identity_call (resolve_or_create_channel_identity (cp_identity_env P) (cp_identity P)
             (ni_provider_type inbound) (ni_provider_subject inbound) (ni_pairing_code inbound)
             (ni_sender_display_name inbound))) (\<lambda>r.
     let account = ac_id (ir_account r) in
     bind (require_channel_access P account) (\<lambda>_.
     bind (gets (\<lambda>s. get_active_channel s account)) (\<lambda>found.
     bind (case found of
             None \<Rightarrow> create_channel E P account (ni_provider_type inbound) (ci_id (ir_identity r))
                       (\<not> ci_is_anchor (ir_identity r))
           | Some c \<Rightarrow>
               if ch_identity_id c \<noteq> ci_id (ir_identity r) then chan_error ''active_channel_exists''
               else ret c) (\<lambda>c.
     accept_on_channel E P inbound account (ir_identity r) (ir_created_account r) c)))))"

definition accept_provider_inbound :: "env \<Rightarrow> chan_ports \<Rightarrow> normalized_inbound \<Rightarrow> webhook_acceptance chm" where
  "accept_provider_inbound E P inbound =
     bind (require_provider P (ni_provider_type inbound)) (\<lambda>_.
     bind (require_product_channel (ni_provider_type inbound)) (\<lambda>_.
     if ni_provider_type inbound = ''wechat_personal''
     then
       (case ni_account_id inbound of
          Some owner \<Rightarrow> accept_session_inbound E P inbound owner
        | None \<Rightarrow> chan_error ''identity_pairing_required'')
     else accept_address_inbound E P inbound))"

section \<open>Personal WeChat login\<close>

definition scan_instructions :: string where
  "scan_instructions = ''scan this QR code with this user's own WeChat account''"

definition login_status :: "string \<Rightarrow> pyval \<Rightarrow> connection_state \<Rightarrow> string option \<Rightarrow> channel_status" where
  "login_status account response state session_id =
     (blank_status account)
       \<lparr>st_provider_type := Some ''wechat_personal'', st_connection := state,
        st_instructions := Some scan_instructions, st_session_id := session_id,
        st_qrcode_id := optional_response_str response ''qrcode_id'',
        st_qrcode_image :=
          (case optional_response_str response ''qrcode_image_data_url'' of
             Some v \<Rightarrow> Some v
           | None \<Rightarrow> optional_response_str response ''qrcode_image''),
        st_connector_status := optional_response_str response ''status''\<rparr>"

definition start_wechat_personal_connection :: "chan_ports \<Rightarrow> string \<Rightarrow> channel_status chm" where
  "start_wechat_personal_connection P account =
     bind (require_provider P ''wechat_personal'') (\<lambda>a.
     bind (require_product_channel ''wechat_personal'') (\<lambda>_.
     bind (require_channel_access P account) (\<lambda>_.
     bind (gets (\<lambda>s. get_active_channel s account)) (\<lambda>active.
     if active \<noteq> None then gets (\<lambda>s. get_status s account)
     else
       case ad_start_login a of
         None \<Rightarrow> chan_error ''provider_login_not_supported''
       | Some start \<Rightarrow>
           bind (lift (start account)) (\<lambda>login.
           ret (login_status account login Connecting (optional_response_str login ''session_id'')))))))"

definition connected_login :: "env \<Rightarrow> chan_ports \<Rightarrow> string \<Rightarrow> string \<Rightarrow> pyval \<Rightarrow> channel_status chm" where
  "connected_login E P account session_id response =
     bind (lift (required_response_str response ''ilink_user_id'')) (\<lambda>wxid.
     bind (bind_identity P account ''wechat_personal'' wxid) (\<lambda>r.
     bind (gets (\<lambda>s. get_active_channel s account)) (\<lambda>found.
     bind (case found of
             None \<Rightarrow> create_channel E P account ''wechat_personal'' (ci_id (ir_identity r)) True
           | Some c \<Rightarrow>
               if ch_identity_id c \<noteq> ci_id (ir_identity r) then chan_error ''active_channel_exists''
               else ret c) (\<lambda>c.
     bind (if ch_connection c \<noteq> Connected then mark_connected E P account (ch_id c) else ret c) (\<lambda>c.
     ret ((blank_status account)
            \<lparr>st_channel_id := Some (ch_id c), st_provider_type := Some ''wechat_personal'',
             st_connection := Connected, st_reachable := True, st_session_id := Some session_id,
             st_connector_status := optional_response_str response ''status'',
             st_masked_identity := Some (mask_identity wxid)\<rparr>))))))"

definition poll_wechat_personal_login :: "env \<Rightarrow> chan_ports \<Rightarrow> string \<Rightarrow> string \<Rightarrow> channel_status chm" where
  "poll_wechat_personal_login E P account session_id =
     bind (require_provider P ''wechat_personal'') (\<lambda>a.
     bind (require_product_channel ''wechat_personal'') (\<lambda>_.
     bind (require_channel_access P account) (\<lambda>_.
     case ad_poll_login a of
       None \<Rightarrow> chan_error ''provider_login_not_supported''
     | Some poll \<Rightarrow>
         bind (lift (poll account session_id)) (\<lambda>response.
         if optional_response_str response ''status'' = Some ''connected''
         then connected_login E P account session_id response
         else
           ret (login_status account response
                 (if optional_response_str response ''status'' = Some ''expired'' then ConnectionFailed
                  else Connecting) (Some session_id))))))"

end
