(* ===== verification/Providers.thy ===== *)
theory Providers
  imports ChanService
begin

text \<open>
  The adapters of the chat providers, \<open>src/coke/providers\<close>: what they make of the body of a webhook
  and of an answer to a request. The HTTP client is a parameter.
\<close>

section \<open>Bodies\<close>

text \<open>
  What a body holds. Of a float the code reads its \<open>str\<close>, whether it is finite, whether it is zero, and its
  value in microseconds; of a mapping's key whether it is a string (\<open>None\<close> if it is not); of any
  other object, \<open>JOther\<close>, its \<open>str\<close>.
\<close>

record float_value =
  fv_text :: string
  fv_finite :: bool
  fv_zero :: bool
  fv_micros :: int

datatype json =
    JNull
  | JBool bool
  | JInt int
  | JFloat float_value
  | JStr string
  | JList "json list"
  | JTuple "json list"
  | JDict "(string option \<times> json) list"
  | JOther string

type_synonym body = "(string option \<times> json) list"

definition jget :: "body \<Rightarrow> string \<Rightarrow> json option" where
  "jget d field = dget d (Some field)"

definition invalid_provider_payload :: "string \<Rightarrow> string \<Rightarrow> string \<Rightarrow> pyexn" where
  "invalid_provider_payload ty field reason =
     ChannelReachabilityError ''invalid_provider_payload''
       (Some [(''type'', PyStr ''invalid_provider_payload''), (''provider_type'', PyStr ty),
              (''field'', PyStr field), (''reason'', PyStr reason)])"

text \<open>\<open>_string_value\<close>\<close>

definition blank_or_none :: "bool \<Rightarrow> string \<Rightarrow> string option" where
  "blank_or_none allow_blank shown =
     (let stripped = py_strip shown in
      if stripped \<noteq> [] then Some stripped else if allow_blank then Some [] else None)"

fun string_value :: "bool \<Rightarrow> json \<Rightarrow> string option" where
  "string_value b (JInt n) = blank_or_none b (show_int n)"
| "string_value b (JFloat f) = (if fv_finite f then blank_or_none b (fv_text f) else None)"
| "string_value b (JStr s) = blank_or_none b s"
| "string_value b (JOther s) = blank_or_none b s"
| "string_value b _ = None"

section \<open>Fields\<close>

definition optional_string_field :: "string \<Rightarrow> body \<Rightarrow> string \<Rightarrow> bool \<Rightarrow> pyexn + string option" where
  "optional_string_field ty d field allow_blank =
     (case jget d field of
        None \<Rightarrow> Inr None
      | Some v \<Rightarrow>
          if v = JNull then Inr None
          else
            (case string_value allow_blank v of
               None \<Rightarrow> Inl (invalid_provider_payload ty field ''invalid_optional_field'')
             | Some s \<Rightarrow> Inr (Some s)))"

definition required_string_field :: "string \<Rightarrow> body \<Rightarrow> string \<Rightarrow> pyexn + string" where
  "required_string_field ty d field =
     (case jget d field of
        None \<Rightarrow> Inl (invalid_provider_payload ty field ''missing_required_field'')
      | Some v \<Rightarrow>
          (case string_value False v of
             None \<Rightarrow> Inl (invalid_provider_payload ty field ''invalid_required_field'')
           | Some s \<Rightarrow> Inr s))"

definition required_bool_field :: "string \<Rightarrow> body \<Rightarrow> string \<Rightarrow> pyexn + bool" where
  "required_bool_field ty d field =
     (case jget d field of
        None \<Rightarrow> Inl (invalid_provider_payload ty field ''missing_required_field'')
      | Some (JBool b) \<Rightarrow> Inr b
      | Some _ \<Rightarrow> Inl (invalid_provider_payload ty field ''invalid_required_field''))"

text \<open>A number is given by its value in microseconds, all that the code uses of it.\<close>

definition required_number_field :: "string \<Rightarrow> body \<Rightarrow> string \<Rightarrow> pyexn + int" where
  "required_number_field ty d field =
     (case jget d field of
        None \<Rightarrow> Inl (invalid_provider_payload ty field ''missing_required_field'')
      | Some (JInt n) \<Rightarrow> Inr (n * sec_us)
      | Some (JFloat f) \<Rightarrow>
          if fv_finite f then Inr (fv_micros f)
          else Inl (invalid_provider_payload ty field ''invalid_required_field'')
      | Some _ \<Rightarrow> Inl (invalid_provider_payload ty field ''invalid_required_field''))"

definition required_mapping_field :: "string \<Rightarrow> body \<Rightarrow> string \<Rightarrow> pyexn + body" where
  "required_mapping_field ty d field =
     (case jget d field of
        None \<Rightarrow> Inl (invalid_provider_payload ty field ''missing_required_field'')
      | Some (JDict m) \<Rightarrow> Inr m
      | Some _ \<Rightarrow> Inl (invalid_provider_payload ty field ''invalid_required_field''))"

text \<open>
  \<open>datetime.fromtimestamp(value, UTC)\<close>. Out of range, Python raises \<open>ValueError\<close>, \<open>OverflowError\<close> or \<open>OSError\<close>,
  by the platform; none of them is caught.
\<close>

definition epoch_us :: int where
  "epoch_us = 719162 * day_us"

definition epoch_seconds_to_utc :: "int \<Rightarrow> pyexn + datetime" where
  "epoch_seconds_to_utc micros =
     (if wall_ok (epoch_us + micros) then Inr (Aware (epoch_us + micros) 0)
      else Inl (ValueError ''timestamp out of range''))"

section \<open>Freezing a body\<close>

text \<open>
  \<open>freeze_json\<close>: the immutable copy, of strings, integers, booleans, finite floats (as the objects
  they are shown as), lists and dictionaries with string keys.
\<close>

fun freeze_json :: "string \<Rightarrow> string \<Rightarrow> json \<Rightarrow> pyexn + pyval"
  and freeze_items :: "string \<Rightarrow> string \<Rightarrow> nat \<Rightarrow> json list \<Rightarrow> pyexn + pyval list"
  and freeze_fields :: "string \<Rightarrow> string \<Rightarrow> (string option \<times> json) list \<Rightarrow> pyexn + fact" where
  "freeze_json ty path (JDict d) = sbind (freeze_fields ty path d) (\<lambda>m. Inr (PyDict m))"
| "freeze_json ty path (JList xs) = sbind (freeze_items ty path 0 xs) (\<lambda>ys. Inr (PyList ys))"
| "freeze_json ty path (JFloat f) =
     (if fv_finite f then Inr (PyObj (fv_text f))
      else Inl (invalid_provider_payload ty path ''non_json_payload_value''))"
| "freeze_json ty path JNull = Inr PyNone"
| "freeze_json ty path (JStr s) = Inr (PyStr s)"
| "freeze_json ty path (JInt n) = Inr (PyInt n)"
| "freeze_json ty path (JBool b) = Inr (PyBool b)"
| "freeze_json ty path _ = Inl (invalid_provider_payload ty path ''non_json_payload_value'')"
| "freeze_items ty path i [] = Inr []"
| "freeze_items ty path i (x # xs) =
     sbind (freeze_json ty (path @ ''['' @ show_nat i @ '']'') x) (\<lambda>y.
     sbind (freeze_items ty path (Suc i) xs) (\<lambda>ys. Inr (y # ys)))"
| "freeze_fields ty path [] = Inr []"
| "freeze_fields ty path ((k, v) # rest) =
     (case k of
        None \<Rightarrow> Inl (invalid_provider_payload ty path ''non_json_payload_key'')
      | Some key \<Rightarrow>
          sbind (freeze_json ty (path @ ''.'' @ key) v) (\<lambda>y.
          sbind (freeze_fields ty path rest) (\<lambda>ys. Inr ((key, y) # ys))))"

section \<open>Requests\<close>

text \<open>
  An answer: its status code and its body, \<open>None\<close> if \<open>response.json()\<close> raises \<open>ValueError\<close>. A request fails with a
  transport error or another error of the client.
\<close>

record http_response =
  hr_status :: int
  hr_json :: "json option"

datatype http_failure = TransportError | OtherHttpError

record http_client =
  hc_post :: "string \<Rightarrow> (string \<times> string) list \<Rightarrow> (string \<times> string) list \<Rightarrow> http_failure + http_response"
  hc_get :: "string \<Rightarrow> (string \<times> string) list \<Rightarrow> (string \<times> string) list \<Rightarrow> http_failure + http_response"

definition failed_send :: "string \<Rightarrow> attempt_result" where
  "failed_send code =
     \<lparr>ars_status = AttemptFailed, ars_provider_message_id = None, ars_error_code = Some code,
      ars_delivered_at = None\<rparr>"

definition missing_provider_config :: attempt_result where
  "missing_provider_config = failed_send ''provider_not_configured''"

definition error_code :: "string \<Rightarrow> string" where
  "error_code value =
     (let sanitized = map (\<lambda>c. if py_alnum_char c \<or> c = CHR ''_'' \<or> c = CHR ''-'' then c else CHR ''_'') (py_strip value) in
      if take 160 sanitized \<noteq> [] then take 160 sanitized else ''provider_error'')"

fun error_number :: "json \<Rightarrow> string option" where
  "error_number (JInt n) = (if n \<noteq> 0 then Some (show_int n) else None)"
| "error_number (JFloat f) = (if fv_zero f then None else Some (fv_text f))"
| "error_number _ = None"

definition http_code :: "http_response \<Rightarrow> string" where
  "http_code r = ''provider_http_'' @ show_int (hr_status r)"

text \<open>The code of an error, refined by the numbers an iLink answer carries.\<close>

definition refined_code :: "string \<Rightarrow> body \<Rightarrow> string" where
  "refined_code error d =
     (case jget d ''ilink'' of
        Some (JDict ilink) \<Rightarrow>
          (case Option.bind (jget ilink ''ret'') error_number of
             Some n \<Rightarrow> error_code (error @ ''_ret_'' @ n)
           | None \<Rightarrow>
               (case Option.bind (jget ilink ''errcode'') error_number of
                  Some n \<Rightarrow> error_code (error @ ''_errcode_'' @ n)
                | None \<Rightarrow> error_code error))
      | _ \<Rightarrow> error_code error)"

definition extract_provider_error_code :: "http_response \<Rightarrow> string" where
  "extract_provider_error_code r =
     (case hr_json r of
        Some (JDict d) \<Rightarrow>
          (case Option.bind (jget d ''error'') (string_value False) of
             None \<Rightarrow> http_code r
           | Some error \<Rightarrow> refined_code error d)
      | _ \<Rightarrow> http_code r)"

fun value_at :: "json \<Rightarrow> string list \<Rightarrow> json option" where
  "value_at v [] = Some v"
| "value_at (JDict d) (part # parts) = (case jget d part of None \<Rightarrow> None | Some v \<Rightarrow> value_at v parts)"
| "value_at v (part # parts) = None"

fun first_string_at_paths :: "json \<Rightarrow> string list list \<Rightarrow> string option" where
  "first_string_at_paths v [] = None"
| "first_string_at_paths v (path # paths) =
     (case Option.bind (value_at v path) (string_value False) of
        Some s \<Rightarrow> Some s
      | None \<Rightarrow> first_string_at_paths v paths)"

definition message_id_paths :: "string list list" where
  "message_id_paths =
     [[''key'', ''id''], [''message'', ''key'', ''id''], [''data'', ''key'', ''id''], [''id''], [''messageId''],
      [''message_id''], [''msgId''], [''msg_id'']]"

definition extract_provider_message_id :: "http_response \<Rightarrow> string option" where
  "extract_provider_message_id r =
     (case hr_json r of None \<Rightarrow> None | Some v \<Rightarrow> first_string_at_paths v message_id_paths)"

definition post_json_send ::
  "http_client \<Rightarrow> string \<Rightarrow> (string \<times> string) list \<Rightarrow> (string \<times> string) list \<Rightarrow> attempt_result" where
  "post_json_send http url headers items =
     (case hc_post http url headers items of
        Inl _ \<Rightarrow> failed_send ''provider_network_error''
      | Inr r \<Rightarrow>
          if \<not> (200 \<le> hr_status r \<and> hr_status r < 300) then failed_send (extract_provider_error_code r)
          else
            \<lparr>ars_status = AttemptSent, ars_provider_message_id = extract_provider_message_id r,
             ars_error_code = None, ars_delivered_at = None\<rparr>)"

section \<open>Texts with an optional key\<close>

definition given :: "string option \<Rightarrow> bool" where
  "given v \<longleftrightarrow> v \<noteq> None \<and> v \<noteq> Some []"

definition given_text :: "string option \<Rightarrow> string" where
  "given_text v = (case v of None \<Rightarrow> [] | Some s \<Rightarrow> s)"

definition bearer_headers :: "string \<Rightarrow> string option \<Rightarrow> (string \<times> string) list" where
  "bearer_headers token_header key =
     (if given key then [(''Authorization'', ''Bearer '' @ given_text key), (token_header, given_text key)] else [])"

text \<open>The message a provider without media or session reports.\<close>

definition plain_inbound ::
  "string \<Rightarrow> string \<Rightarrow> string \<Rightarrow> string \<Rightarrow> datetime \<Rightarrow> string option \<Rightarrow> fact \<Rightarrow> normalized_inbound" where
  "plain_inbound ty subject content event at pairing payload =
     \<lparr>ni_provider_type = ty, ni_provider_subject = subject, ni_text = content, ni_raw_event_id = event,
      ni_received_at = at, ni_pairing_code = pairing, ni_sender_display_name = None, ni_account_id = None,
      ni_connector_session_id = None, ni_context_token = None, ni_payload = Some payload, ni_media = []\<rparr>"

section \<open>Linq and WeChat eCloud\<close>

text \<open>The two adapters read the same fields under different names.\<close>

definition simple_normalize ::
  "string \<Rightarrow> string \<Rightarrow> string \<Rightarrow> string \<Rightarrow> datetime \<Rightarrow> body \<Rightarrow> pyexn + normalized_inbound" where
  "simple_normalize ty subject_field text_field event_field now d =
     sbind (required_string_field ty d subject_field) (\<lambda>subject.
     sbind (optional_string_field ty d text_field True) (\<lambda>content.
     sbind (required_string_field ty d event_field) (\<lambda>event.
     sbind (optional_string_field ty d ''pairing_code'' False) (\<lambda>pairing.
     sbind (freeze_fields ty ''payload'' d) (\<lambda>payload.
     Inr (plain_inbound ty subject (given_text content) event now pairing payload))))))"

definition linq_normalize :: "datetime \<Rightarrow> body \<Rightarrow> pyexn + normalized_inbound" where
  "linq_normalize = simple_normalize ''linq'' ''from'' ''body'' ''id''"

definition ecloud_normalize :: "datetime \<Rightarrow> body \<Rightarrow> pyexn + normalized_inbound" where
  "ecloud_normalize = simple_normalize ''wechat_ecloud'' ''sender_id'' ''content'' ''msg_id''"

record linq_config =
  lq_endpoint_url :: "string option"
  lq_api_key :: "string option"

definition linq_send :: "http_client \<Rightarrow> linq_config \<Rightarrow> delivery_route \<Rightarrow> string \<Rightarrow> string \<Rightarrow> attempt_result" where
  "linq_send http cfg route content key =
     (if \<not> given (lq_endpoint_url cfg) then missing_provider_config
      else
        post_json_send http (given_text (lq_endpoint_url cfg))
          ((''Idempotency-Key'', key) # bearer_headers ''X-API-Key'' (lq_api_key cfg))
          [(''to'', dr_address route), (''text'', content)])"

record ecloud_config =
  ec_endpoint_url :: "string option"
  ec_token :: "string option"
  ec_app_id :: "string option"

definition ecloud_send :: "http_client \<Rightarrow> ecloud_config \<Rightarrow> delivery_route \<Rightarrow> string \<Rightarrow> string \<Rightarrow> attempt_result" where
  "ecloud_send http cfg route content key =
     (if \<not> given (ec_endpoint_url cfg) \<or> \<not> given (ec_app_id cfg) then missing_provider_config
      else
        post_json_send http (given_text (ec_endpoint_url cfg))
          ((''Idempotency-Key'', key) # bearer_headers ''X-Token'' (ec_token cfg))
          [(''appId'', given_text (ec_app_id cfg)), (''toWxid'', dr_address route), (''content'', content)])"

section \<open>WhatsApp Evolution\<close>

definition ends_with :: "string \<Rightarrow> string \<Rightarrow> bool" where
  "ends_with suffix s \<longleftrightarrow> length suffix \<le> length s \<and> drop (length s - length suffix) s = suffix"

definition without_suffix :: "string \<Rightarrow> string \<Rightarrow> string" where
  "without_suffix suffix s = take (length s - length suffix) s"

definition strip_evolution_jid :: "string \<Rightarrow> string" where
  "strip_evolution_jid jid =
     (if ends_with ''@s.whatsapp.net'' jid then without_suffix ''@s.whatsapp.net'' jid
      else if ends_with ''@g.us'' jid then without_suffix ''@g.us'' jid else jid)"

text \<open>\<open>_required_string_at_path\<close>: the error names the path instead of the field.\<close>

definition required_string_at_path :: "string \<Rightarrow> body \<Rightarrow> string \<Rightarrow> string \<Rightarrow> pyexn + string" where
  "required_string_at_path ty d key path =
     (case required_string_field ty d key of
        Inr s \<Rightarrow> Inr s
      | Inl e \<Rightarrow>
          (case e of
             ChannelReachabilityError code (Some f) \<Rightarrow>
               if code = ''invalid_provider_payload''
               then Inl (invalid_provider_payload ty path
                      (case dget f ''reason'' of Some (PyStr r) \<Rightarrow> r | _ \<Rightarrow> ''invalid_required_field''))
               else Inl e
           | _ \<Rightarrow> Inl e))"

definition evolution_type :: string where
  "evolution_type = ''whatsapp_evolution''"

definition message_text :: "string \<Rightarrow> body \<Rightarrow> pyexn + string" where
  "message_text ty m =
     (if jget m ''conversation'' \<noteq> None
      then
        sbind (optional_string_field ty m ''conversation'' True) (\<lambda>v.
        case v of
          None \<Rightarrow> Inl (invalid_provider_payload ty ''data.message.conversation'' ''invalid_optional_field'')
        | Some s \<Rightarrow> Inr s)
      else
        (case jget m ''extendedTextMessage'' of
           None \<Rightarrow> Inr []
         | Some JNull \<Rightarrow> Inr []
         | Some (JDict extended) \<Rightarrow>
             sbind (optional_string_field ty extended ''text'' True) (\<lambda>v.
             case v of
               None \<Rightarrow>
                 Inl (invalid_provider_payload ty ''data.message.extendedTextMessage.text'' ''invalid_optional_field'')
             | Some s \<Rightarrow> Inr s)
         | Some _ \<Rightarrow>
             Inl (invalid_provider_payload ty ''data.message.extendedTextMessage'' ''invalid_optional_field'')))"

text \<open>The message itself, once the event is known to be one from the other side.\<close>

definition evolution_message :: "body \<Rightarrow> body \<Rightarrow> string \<Rightarrow> string \<Rightarrow> pyexn + normalized_inbound" where
  "evolution_message d m event jid =
     sbind (required_mapping_field evolution_type m ''message'') (\<lambda>message.
     sbind (required_number_field evolution_type m ''messageTimestamp'') (\<lambda>timestamp.
     sbind (message_text evolution_type message) (\<lambda>content.
     sbind (epoch_seconds_to_utc timestamp) (\<lambda>at.
     sbind (optional_string_field evolution_type d ''pairing_code'' False) (\<lambda>pairing.
     sbind (optional_string_field evolution_type m ''pushName'' False) (\<lambda>sender.
     sbind (freeze_fields evolution_type ''payload'' d) (\<lambda>payload.
     Inr ((plain_inbound evolution_type (strip_evolution_jid jid) content event at pairing payload)
            \<lparr>ni_sender_display_name := sender\<rparr>))))))))"

definition evolution_normalize :: "datetime \<Rightarrow> body \<Rightarrow> pyexn + normalized_inbound" where
  "evolution_normalize now d =
     sbind (required_string_field evolution_type d ''event'') (\<lambda>event.
     if event \<noteq> ''messages.upsert''
     then Inl (invalid_provider_payload evolution_type ''event'' ''unsupported_event'')
     else
       sbind (required_mapping_field evolution_type d ''data'') (\<lambda>m.
       sbind (required_mapping_field evolution_type m ''key'') (\<lambda>key.
       sbind (required_string_at_path evolution_type key ''id'' ''data.key.id'') (\<lambda>message_id.
       sbind (required_string_at_path evolution_type key ''remoteJid'' ''data.key.remoteJid'') (\<lambda>jid.
       sbind (required_bool_field evolution_type key ''fromMe'') (\<lambda>from_me.
       if from_me
       then
         Inl (ChannelReachabilityError ''provider_outbound_echo''
           (Some [(''type'', PyStr ''provider_outbound_echo''), (''provider_type'', PyStr evolution_type),
                  (''raw_event_id'', PyStr message_id)]))
       else evolution_message d m message_id jid))))))"

record evolution_config =
  ev_base_url :: "string option"
  ev_api_key :: "string option"
  ev_instance :: "string option"

definition rstrip_slash :: "string \<Rightarrow> string" where
  "rstrip_slash s = rev (dropWhile (\<lambda>c. c = CHR ''/'') (rev s))"

definition evolution_send ::
  "http_client \<Rightarrow> evolution_config \<Rightarrow> delivery_route \<Rightarrow> string \<Rightarrow> string \<Rightarrow> attempt_result" where
  "evolution_send http cfg route content key =
     (let base = map_option rstrip_slash (ev_base_url cfg) in
      if \<not> given base \<or> \<not> given (ev_api_key cfg) \<or> \<not> given (ev_instance cfg) then missing_provider_config
      else
        post_json_send http (given_text base @ ''/message/sendText/'' @ given_text (ev_instance cfg))
          [(''apikey'', given_text (ev_api_key cfg)), (''Idempotency-Key'', key)]
          [(''number'', dr_address route), (''text'', content)])"

section \<open>Personal WeChat\<close>

definition wechat_type :: string where
  "wechat_type = ''wechat_personal''"

text \<open>The first of the names a sender may come under that is not blank.\<close>

fun first_name :: "body \<Rightarrow> string list \<Rightarrow> pyexn + string option" where
  "first_name d [] = Inr None"
| "first_name d (field # others) =
     sbind (optional_string_field wechat_type d field False) (\<lambda>v.
     if given v then Inr v else first_name d others)"

definition sender_display_name :: "body \<Rightarrow> pyexn + string option" where
  "sender_display_name d = first_name d [''sender_name'', ''senderName'', ''nickname'', ''name'']"

definition invalid_media :: pyexn where
  "invalid_media = invalid_provider_payload wechat_type ''media'' ''invalid_media''"

definition required_media_string :: "body \<Rightarrow> string \<Rightarrow> pyexn + string" where
  "required_media_string item field =
     (case jget item field of
        Some (JStr s) \<Rightarrow> if py_strip s = [] then Inl invalid_media else Inr (py_strip s)
      | _ \<Rightarrow> Inl invalid_media)"

definition optional_media_string :: "body \<Rightarrow> string \<Rightarrow> pyexn + string option" where
  "optional_media_string item field =
     (case jget item field of
        None \<Rightarrow> Inr None
      | Some JNull \<Rightarrow> Inr None
      | Some (JStr s) \<Rightarrow> Inr (if py_strip s = [] then None else Some (py_strip s))
      | Some _ \<Rightarrow> Inl invalid_media)"

definition media_input :: "json \<Rightarrow> pyexn + inbound_media_input" where
  "media_input v =
     (case v of
        JDict item \<Rightarrow>
          sbind (required_media_string item ''media_type'') (\<lambda>ty.
          if ty \<notin> {''voice'', ''image''} then Inl invalid_media
          else
            sbind (required_media_string item ''storage_uri'') (\<lambda>uri.
            sbind (optional_media_string item ''mime'') (\<lambda>mime.
            sbind (required_media_string item ''agent_label'') (\<lambda>label.
            Inr \<lparr>imi_media_type = ty, imi_storage_uri = uri, imi_agent_label = label, imi_mime = mime\<rparr>))))
      | _ \<Rightarrow> Inl invalid_media)"

definition media_inputs :: "body \<Rightarrow> pyexn + inbound_media_input list" where
  "media_inputs d =
     (case jget d ''media'' of
        None \<Rightarrow> Inr []
      | Some JNull \<Rightarrow> Inr []
      | Some (JList xs) \<Rightarrow> map_sum_list media_input xs
      | Some (JTuple xs) \<Rightarrow> map_sum_list media_input xs
      | Some _ \<Rightarrow> Inl invalid_media)"

definition wechat_normalize :: "datetime \<Rightarrow> body \<Rightarrow> pyexn + normalized_inbound" where
  "wechat_normalize now d =
     sbind (required_string_field wechat_type d ''wxid'') (\<lambda>subject.
     sbind (optional_string_field wechat_type d ''text'' True) (\<lambda>content.
     sbind (required_string_field wechat_type d ''message_id'') (\<lambda>event.
     sbind (sender_display_name d) (\<lambda>sender.
     sbind (optional_string_field wechat_type d ''account_id'' False) (\<lambda>account.
     sbind (optional_string_field wechat_type d ''session_id'' False) (\<lambda>session_id.
     sbind (optional_string_field wechat_type d ''context_token'' False) (\<lambda>token.
     sbind (freeze_fields wechat_type ''payload'' d) (\<lambda>payload.
     sbind (media_inputs d) (\<lambda>media.
     Inr ((plain_inbound wechat_type subject (given_text content) event now None payload)
            \<lparr>ni_sender_display_name := sender, ni_account_id := account, ni_connector_session_id := session_id,
             ni_context_token := token, ni_media := media\<rparr>))))))))))"

record wechat_config =
  wc_endpoint_url :: "string option"
  wc_api_key :: "string option"

definition connector_base_url :: "wechat_config \<Rightarrow> string" where
  "connector_base_url cfg =
     (let url = rstrip_slash (given_text (wc_endpoint_url cfg)) in
      if ends_with ''/send'' url then without_suffix ''/send'' url else url)"

text \<open>A decoded answer as a Python value; it has no tuples and no keys but strings.\<close>

fun as_pyval :: "json \<Rightarrow> pyval"
  and as_pyvals :: "json list \<Rightarrow> pyval list"
  and as_fact :: "(string option \<times> json) list \<Rightarrow> fact" where
  "as_pyval JNull = PyNone"
| "as_pyval (JBool b) = PyBool b"
| "as_pyval (JInt n) = PyInt n"
| "as_pyval (JFloat f) = PyObj (fv_text f)"
| "as_pyval (JStr s) = PyStr s"
| "as_pyval (JList xs) = PyList (as_pyvals xs)"
| "as_pyval (JTuple xs) = PyList (as_pyvals xs)"
| "as_pyval (JDict d) = PyDict (as_fact d)"
| "as_pyval (JOther s) = PyObj s"
| "as_pyvals [] = []"
| "as_pyvals (x # xs) = as_pyval x # as_pyvals xs"
| "as_fact [] = []"
| "as_fact ((k, v) # rest) = (given_text k, as_pyval v) # as_fact rest"

text \<open>\<open>response.raise_for_status()\<close>, then the body if it is a dictionary.\<close>

definition login_answer :: "http_response \<Rightarrow> pyexn + pyval" where
  "login_answer r =
     (if \<not> (200 \<le> hr_status r \<and> hr_status r < 300) then Inl HTTPError
      else
        (case hr_json r of
           None \<Rightarrow> Inl (ValueError ''invalid json'')
         | Some (JDict d) \<Rightarrow> Inr (PyDict (as_fact d))
         | Some _ \<Rightarrow> Inr (PyDict [])))"

definition not_configured :: pyexn where
  "not_configured = invalid_provider_payload wechat_type ''endpoint_url'' ''provider_not_configured''"

definition wechat_start_login :: "http_client \<Rightarrow> wechat_config \<Rightarrow> string \<Rightarrow> pyexn + pyval" where
  "wechat_start_login http cfg account =
     (if \<not> given (wc_endpoint_url cfg) then Inl not_configured
      else
        (case hc_post http (connector_base_url cfg @ ''/login/start'')
                (bearer_headers ''X-API-Key'' (wc_api_key cfg)) [(''account_id'', account)] of
           Inl _ \<Rightarrow> Inl HTTPError
         | Inr r \<Rightarrow> login_answer r))"

definition wechat_poll_login :: "http_client \<Rightarrow> wechat_config \<Rightarrow> string \<Rightarrow> string \<Rightarrow> pyexn + pyval" where
  "wechat_poll_login http cfg account session_id =
     (if \<not> given (wc_endpoint_url cfg) then Inl not_configured
      else
        (case hc_get http (connector_base_url cfg @ ''/login/status'')
                (bearer_headers ''X-API-Key'' (wc_api_key cfg))
                [(''account_id'', account), (''session_id'', session_id)] of
           Inl TransportError \<Rightarrow>
             Inr (PyDict [(''account_id'', PyStr account), (''session_id'', PyStr session_id),
               (''status'', PyStr ''waiting_for_scan''), (''connector_status'', PyStr ''timeout''),
               (''retryable'', PyBool True)])
         | Inl OtherHttpError \<Rightarrow> Inl HTTPError
         | Inr r \<Rightarrow> login_answer r))"

definition wechat_send ::
  "http_client \<Rightarrow> wechat_config \<Rightarrow> delivery_route \<Rightarrow> string \<Rightarrow> string \<Rightarrow> string option \<Rightarrow> attempt_result" where
  "wechat_send http cfg route content key token =
     (if \<not> given (wc_endpoint_url cfg) then missing_provider_config
      else if \<not> given token then failed_send ''context_token_required''
      else
        post_json_send http (given_text (wc_endpoint_url cfg))
          ((''Idempotency-Key'', key) # bearer_headers ''X-API-Key'' (wc_api_key cfg))
          [(''account_id'', dr_account_id route), (''to'', dr_address route),
           (''context_token'', given_text token), (''text'', content)])"

section \<open>The registry\<close>

text \<open>
  An adapter as the application uses it: its type, what it makes of a webhook's body at the time
  \<open>self._now()\<close> gives, and what the channel service calls.
\<close>

record provider =
  pv_type :: string
  pv_normalize :: "datetime \<Rightarrow> body \<Rightarrow> pyexn + normalized_inbound"
  pv_adapter :: adapter

definition plain_adapter :: "(delivery_route \<Rightarrow> string \<Rightarrow> string \<Rightarrow> attempt_result) \<Rightarrow> adapter" where
  "plain_adapter send =
     \<lparr>ad_send = (\<lambda>route content key _. Inr (send route content key)), ad_start_login = None, ad_poll_login = None\<rparr>"

definition linq_provider :: "http_client \<Rightarrow> linq_config \<Rightarrow> provider" where
  "linq_provider http cfg =
     \<lparr>pv_type = ''linq'', pv_normalize = linq_normalize, pv_adapter = plain_adapter (linq_send http cfg)\<rparr>"

definition ecloud_provider :: "http_client \<Rightarrow> ecloud_config \<Rightarrow> provider" where
  "ecloud_provider http cfg =
     \<lparr>pv_type = ''wechat_ecloud'', pv_normalize = ecloud_normalize,
      pv_adapter = plain_adapter (ecloud_send http cfg)\<rparr>"

definition evolution_provider :: "http_client \<Rightarrow> evolution_config \<Rightarrow> provider" where
  "evolution_provider http cfg =
     \<lparr>pv_type = evolution_type, pv_normalize = evolution_normalize,
      pv_adapter = plain_adapter (evolution_send http cfg)\<rparr>"

definition wechat_provider :: "http_client \<Rightarrow> wechat_config \<Rightarrow> provider" where
  "wechat_provider http cfg =
     \<lparr>pv_type = wechat_type, pv_normalize = wechat_normalize,
      pv_adapter =
        \<lparr>ad_send = (\<lambda>route content key token.
           Inr (wechat_send http cfg route content key (case token of None \<Rightarrow> None | Some t \<Rightarrow> t))),
         ad_start_login = Some (wechat_start_login http cfg),
         ad_poll_login = Some (wechat_poll_login http cfg)\<rparr>\<rparr>"

fun provider_registry_from :: "(string, provider) dict \<Rightarrow> provider list \<Rightarrow> pyexn + (string, provider) dict" where
  "provider_registry_from registry [] = Inr registry"
| "provider_registry_from registry (p # ps) =
     (if dget registry (pv_type p) \<noteq> None then Inl (ValueError (''duplicate_provider_adapter:'' @ pv_type p))
      else provider_registry_from (dput (pv_type p) p registry) ps)"

definition provider_registry :: "provider list \<Rightarrow> pyexn + (string, provider) dict" where
  "provider_registry = provider_registry_from []"

section \<open>What freezing and reading give\<close>

text \<open>The bodies that are JSON: finite numbers, string keys, no other objects.\<close>

fun plain_json :: "json \<Rightarrow> bool"
  and plain_items :: "json list \<Rightarrow> bool"
  and plain_fields :: "(string option \<times> json) list \<Rightarrow> bool" where
  "plain_json (JFloat f) = fv_finite f"
| "plain_json (JList xs) = plain_items xs"
| "plain_json (JTuple xs) = False"
| "plain_json (JDict d) = plain_fields d"
| "plain_json (JOther s) = False"
| "plain_json JNull = True"
| "plain_json (JBool b) = True"
| "plain_json (JInt n) = True"
| "plain_json (JStr s) = True"
| "plain_items [] = True"
| "plain_items (x # xs) = (plain_json x \<and> plain_items xs)"
| "plain_fields [] = True"
| "plain_fields ((k, v) # rest) = (k \<noteq> None \<and> plain_json v \<and> plain_fields rest)"

definition refused_payload :: "string \<Rightarrow> pyexn \<Rightarrow> bool" where
  "refused_payload ty e \<longleftrightarrow> (\<exists>path reason. e = invalid_provider_payload ty path reason)"

lemma refused_payload_made [simp]: "refused_payload ty (invalid_provider_payload ty path reason)"
  by (auto simp: refused_payload_def)

lemma freeze_exact:
  "if plain_json j then freeze_json ty path j = Inr (as_pyval j)
   else \<exists>e. freeze_json ty path j = Inl e \<and> refused_payload ty e"
  "if plain_items xs then freeze_items ty path i xs = Inr (as_pyvals xs)
   else \<exists>e. freeze_items ty path i xs = Inl e \<and> refused_payload ty e"
  "if plain_fields d then freeze_fields ty path d = Inr (as_fact d)
   else \<exists>e. freeze_fields ty path d = Inl e \<and> refused_payload ty e"
  by (induction ty path j and ty path i xs and ty path d rule: freeze_json_freeze_items_freeze_fields.induct)
    (auto simp: sbind_def given_text_def split: if_splits option.splits)

text \<open>A required string is never blank, and a message holds the frozen body.\<close>

lemma required_string_nonblank: "required_string_field ty d field = Inr s \<Longrightarrow> s \<noteq> []"
proof -
  have "string_value False v = Some s \<Longrightarrow> s \<noteq> []" for v
    by (cases v) (auto simp: blank_or_none_def Let_def split: if_splits)
  then show "required_string_field ty d field = Inr s \<Longrightarrow> s \<noteq> []"
    by (auto simp: required_string_field_def split: option.splits)
qed

lemma required_string_at_path_nonblank:
  assumes "required_string_at_path ty d key path = Inr s"
  shows "s \<noteq> []"
proof (cases "required_string_field ty d key")
  case (Inl e)
  with assms show ?thesis
    by (cases e) (auto simp: required_string_at_path_def split: option.splits if_splits)
next
  case (Inr s')
  with assms required_string_nonblank show ?thesis by (auto simp: required_string_at_path_def)
qed

lemma freeze_fields_exact: "freeze_fields ty path d = Inr m \<Longrightarrow> plain_fields d \<and> m = as_fact d"
  using freeze_exact(3) [where ty = ty and path = path and d = d] by (auto split: if_splits)

lemma adapters_read:
  assumes "p \<in> {linq_provider http lq, ecloud_provider http ec, evolution_provider http ev, wechat_provider http wc}"
    and "pv_normalize p now d = Inr n"
  shows "plain_fields d \<and> ni_payload n = Some (as_fact d) \<and> ni_provider_type n = pv_type p \<and> ni_raw_event_id n \<noteq> []"
proof -
  note read = plain_inbound_def sbind_def
  have simple: "plain_fields d \<and> ni_payload n = Some (as_fact d) \<and> ni_provider_type n = ty \<and> ni_raw_event_id n \<noteq> []"
    if "simple_normalize ty a b c now d = Inr n" for ty a b c
    using that
    by (auto simp: simple_normalize_def read split: sum.splits dest: freeze_fields_exact required_string_nonblank)
  have evolution: "plain_fields d \<and> ni_payload n = Some (as_fact d) \<and> ni_provider_type n = evolution_type \<and>
      ni_raw_event_id n \<noteq> []" if "evolution_normalize now d = Inr n"
    using that
    by (auto simp: evolution_normalize_def evolution_message_def read split: sum.splits if_splits
        dest: freeze_fields_exact required_string_at_path_nonblank)
  have wechat: "plain_fields d \<and> ni_payload n = Some (as_fact d) \<and> ni_provider_type n = wechat_type \<and>
      ni_raw_event_id n \<noteq> []" if "wechat_normalize now d = Inr n"
    using that
    by (auto simp: wechat_normalize_def read split: sum.splits dest: freeze_fields_exact required_string_nonblank)
  from assms simple evolution wechat show ?thesis
    by (auto simp: linq_provider_def ecloud_provider_def evolution_provider_def wechat_provider_def
        linq_normalize_def ecloud_normalize_def)
qed

end
