(* ===== verification/ChanContract.thy ===== *)
theory ChanContract
  imports ChanService
begin

text \<open>
  What the store of channels keeps: at most one active channel per account, bound to an identity the
  account owns; at most one active route per channel, and none of a removed channel; attempts on
  stored routes, one per provider and key; and the invariant of the identity service's store.
\<close>

section \<open>Edits\<close>

definition channel_edited :: "channel \<Rightarrow> channel \<Rightarrow> bool" where
  "channel_edited a b \<longleftrightarrow>
     ch_id b = ch_id a \<and> ch_account_id b = ch_account_id a \<and> ch_identity_id b = ch_identity_id a \<and>
     ch_provider_type b = ch_provider_type a \<and> ch_removable b = ch_removable a \<and>
     ch_created_at b = ch_created_at a \<and> (ch_lifecycle a = ChannelRemoved \<longrightarrow> b = a)"

definition route_edited :: "delivery_route \<Rightarrow> delivery_route \<Rightarrow> bool" where
  "route_edited a b \<longleftrightarrow>
     dr_id b = dr_id a \<and> dr_account_id b = dr_account_id a \<and> dr_channel_id b = dr_channel_id a \<and>
     dr_provider_type b = dr_provider_type a \<and> dr_address b = dr_address a \<and>
     dr_created_at b = dr_created_at a \<and> (dr_lifecycle a = RouteRemoved \<longrightarrow> b = a)"

interpretation channels: evolving channel_edited
  by unfold_locales (auto simp: channel_edited_def)

interpretation routes: evolving route_edited
  by unfold_locales (auto simp: route_edited_def)

interpretation attempts: evolving "(=) :: delivery_attempt \<Rightarrow> delivery_attempt \<Rightarrow> bool"
  by unfold_locales simp_all

definition chan_ext :: "chan_state \<Rightarrow> chan_state \<Rightarrow> bool" where
  "chan_ext s t \<longleftrightarrow>
     id_ext (identity_store s) (identity_store t) \<and>
     channels.table_ext (channels_by_id s) (channels_by_id t) \<and>
     routes.table_ext (routes_by_id s) (routes_by_id t) \<and>
     attempts.table_ext (attempts_by_id s) (attempts_by_id t)"

section \<open>The invariant\<close>

definition channel_wf :: "channel \<Rightarrow> bool" where
  "channel_wf c \<longleftrightarrow>
     (ch_lifecycle c = ChannelRemoved) = (ch_connection c = ConnectionRemoved) \<and>
     (ch_lifecycle c = ChannelRemoved) = (ch_removed_at c \<noteq> None) \<and>
     (ch_connection c = Connected \<longrightarrow> ch_connected_at c \<noteq> None)"

text \<open>The identity a channel speaks for.\<close>

definition channel_owned :: "id_state \<Rightarrow> channel \<Rightarrow> bool" where
  "channel_owned s c \<longleftrightarrow>
     (\<exists>d. get_channel_identity s (ch_identity_id c) = Some d \<and> ci_provider_type d = ch_provider_type c \<and>
        same_account_id (ci_account_id d) (ch_account_id c))"

definition channels_ok :: "chan_state \<Rightarrow> bool" where
  "channels_ok t \<longleftrightarrow> keyed ch_id (channels_by_id t) \<and>
     (\<forall>i c. get_channel t i = Some c \<longrightarrow> channel_wf c \<and> channel_owned (identity_store t) c) \<and>
     (\<forall>i j c d. get_channel t i = Some c \<and> get_channel t j = Some d \<and> ch_account_id c = ch_account_id d \<and>
        ch_lifecycle c = ChannelActive \<and> ch_lifecycle d = ChannelActive \<longrightarrow> i = j)"

text \<open>A route belongs to a stored channel; an active one to an active channel.\<close>

definition route_placed :: "chan_state \<Rightarrow> delivery_route \<Rightarrow> bool" where
  "route_placed t r \<longleftrightarrow>
     (\<exists>c. get_channel t (dr_channel_id r) = Some c \<and> ch_account_id c = dr_account_id r \<and>
        ch_provider_type c = dr_provider_type r \<and>
        (dr_lifecycle r = RouteActive \<longrightarrow> ch_lifecycle c = ChannelActive))"

definition routes_ok :: "chan_state \<Rightarrow> bool" where
  "routes_ok t \<longleftrightarrow> indexed dr_id dr_key (routes_by_id t) (routes_by_key t) \<and>
     (\<forall>i r. get_route t i = Some r \<longrightarrow> route_placed t r) \<and>
     (\<forall>i j p r. get_route t i = Some p \<and> get_route t j = Some r \<and> dr_channel_id p = dr_channel_id r \<and>
        dr_lifecycle p = RouteActive \<and> dr_lifecycle r = RouteActive \<longrightarrow> i = j)"

definition attempts_ok :: "chan_state \<Rightarrow> bool" where
  "attempts_ok t \<longleftrightarrow> indexed at_id attempt_key (attempts_by_id t) (attempts_by_key t) \<and>
     (\<forall>i a. dget (attempts_by_id t) i = Some a \<longrightarrow>
        (\<exists>r. get_route t (at_route_id a) = Some r \<and> dr_provider_type r = at_provider_type a))"

definition chan_ok :: "chan_state \<Rightarrow> bool" where
  "chan_ok t \<longleftrightarrow> id_ok (identity_store t) \<and> channels_ok t \<and> routes_ok t \<and> attempts_ok t"

definition chan_inv :: "chan_state \<Rightarrow> chan_state \<Rightarrow> bool" where
  "chan_inv s t \<longleftrightarrow> chan_ok t \<and> chan_ext s t"

lemmas chan_parts = channels_ok_def routes_ok_def attempts_ok_def

lemma chan_ext_refl [simp]: "chan_ext s s"
  by (simp add: chan_ext_def)

lemma chan_ext_trans: "chan_ext s t \<Longrightarrow> chan_ext t u \<Longrightarrow> chan_ext s u"
  unfolding chan_ext_def
  by (blast intro: id_ext_trans channels.table_trans routes.table_trans attempts.table_trans)

lemma chan_inv_refl: "chan_ok s \<Longrightarrow> chan_inv s s"
  by (simp add: chan_inv_def)

lemma chan_inv_trans: "chan_inv s t \<Longrightarrow> chan_inv t u \<Longrightarrow> chan_inv s u"
  using chan_ext_trans by (auto simp: chan_inv_def)

lemma chan_inv_ok: "chan_inv s t \<Longrightarrow> chan_ok t"
  by (simp add: chan_inv_def)

lemma chan_ok_empty [simp]: "chan_ok empty_chan_state"
  by (simp add: chan_ok_def chan_parts empty_chan_state_def get_channel_def get_route_def)

text \<open>Lookups do not read the counters, the texts sent or the identity store.\<close>

lemma chan_reads [simp]:
  "get_channel (t\<lparr>clock := n\<rparr>) = get_channel t" "get_channel (t\<lparr>issued := n\<rparr>) = get_channel t"
  "get_channel (t\<lparr>texts_sent := xs\<rparr>) = get_channel t" "get_channel (t\<lparr>identity_store := i\<rparr>) = get_channel t"
  "get_route (t\<lparr>clock := n\<rparr>) = get_route t" "get_route (t\<lparr>issued := n\<rparr>) = get_route t"
  "get_route (t\<lparr>texts_sent := xs\<rparr>) = get_route t" "get_route (t\<lparr>identity_store := i\<rparr>) = get_route t"
  "get_active_channel (t\<lparr>clock := n\<rparr>) = get_active_channel t"
  "get_active_channel (t\<lparr>issued := n\<rparr>) = get_active_channel t"
  "get_active_channel (t\<lparr>texts_sent := xs\<rparr>) = get_active_channel t"
  "get_active_channel (t\<lparr>identity_store := i\<rparr>) = get_active_channel t"
  "get_active_route_for_channel (t\<lparr>clock := n\<rparr>) = get_active_route_for_channel t"
  "get_active_route_for_channel (t\<lparr>issued := n\<rparr>) = get_active_route_for_channel t"
  "get_active_route_for_channel (t\<lparr>identity_store := i\<rparr>) = get_active_route_for_channel t"
  by (simp_all add: fun_eq_iff get_channel_def get_route_def get_active_channel_def
      get_active_route_for_channel_def)

lemma chan_inv_counters [simp]:
  "chan_inv s (t\<lparr>clock := n\<rparr>) = chan_inv s t" "chan_inv s (t\<lparr>issued := n\<rparr>) = chan_inv s t"
  "chan_inv s (t\<lparr>texts_sent := xs\<rparr>) = chan_inv s t"
  "chan_inv (s\<lparr>clock := n\<rparr>) = chan_inv s" "chan_inv (s\<lparr>issued := n\<rparr>) = chan_inv s"
  "chan_inv (s\<lparr>texts_sent := xs\<rparr>) = chan_inv s"
  by (simp_all add: fun_eq_iff chan_inv_def chan_ok_def chan_ext_def chan_parts route_placed_def)

lemma chan_ok_counters [simp]:
  "chan_ok (t\<lparr>clock := n\<rparr>) = chan_ok t" "chan_ok (t\<lparr>issued := n\<rparr>) = chan_ok t"
  "chan_ok (t\<lparr>texts_sent := xs\<rparr>) = chan_ok t"
  by (simp_all add: chan_ok_def chan_parts route_placed_def)

section \<open>What the invariant says of a lookup\<close>

lemma channel_key: "chan_ok t \<Longrightarrow> get_channel t i = Some c \<Longrightarrow> ch_id c = i \<and> channel_wf c"
  by (auto simp: chan_ok_def channels_ok_def get_channel_def dest: keyed_get)

lemma active_channel_iff:
  assumes "chan_ok t"
  shows "get_active_channel t account = Some c \<longleftrightarrow>
    get_channel t (ch_id c) = Some c \<and> ch_account_id c = account \<and> ch_lifecycle c = ChannelActive"
proof -
  have k: "keyed ch_id (channels_by_id t)" using assms by (simp add: chan_ok_def channels_ok_def)
  show ?thesis
  proof
    assume "get_active_channel t account = Some c"
    then show "get_channel t (ch_id c) = Some c \<and> ch_account_id c = account \<and> ch_lifecycle c = ChannelActive"
      using find_keyed [OF k, of "is_active_channel account" c]
      by (simp add: get_active_channel_def get_channel_def is_active_channel_def)
  next
    assume c: "get_channel t (ch_id c) = Some c \<and> ch_account_id c = account \<and> ch_lifecycle c = ChannelActive"
    obtain d where d: "get_active_channel t account = Some d"
      using find_none [of "is_active_channel account" "channels_by_id t" "ch_id c" c] c
      by (cases "get_active_channel t account")
        (auto simp: get_active_channel_def get_channel_def is_active_channel_def)
    then have "get_channel t (ch_id d) = Some d" "ch_account_id d = account" "ch_lifecycle d = ChannelActive"
      using find_keyed [OF k, of "is_active_channel account" d]
      by (simp_all add: get_active_channel_def get_channel_def is_active_channel_def)
    with c assms have "ch_id c = ch_id d" unfolding chan_ok_def channels_ok_def by metis
    with c d show "get_active_channel t account = Some c"
      using \<open>get_channel t (ch_id d) = Some d\<close> by simp
  qed
qed

lemma no_active_channel:
  "get_active_channel t account = None \<Longrightarrow> get_channel t i = Some c \<Longrightarrow> ch_account_id c = account \<Longrightarrow>
    ch_lifecycle c \<noteq> ChannelActive"
  using find_none [of "is_active_channel account" "channels_by_id t" i c]
  by (auto simp: get_active_channel_def get_channel_def is_active_channel_def)

lemma active_route:
  assumes "chan_ok t" "get_active_route_for_channel t i = Some r"
  shows "get_route t (dr_id r) = Some r" "dr_channel_id r = i" "dr_lifecycle r = RouteActive"
  using find_keyed [of dr_id "routes_by_id t" "is_active_route i" r] assms
  by (auto simp: chan_ok_def routes_ok_def get_active_route_for_channel_def get_route_def is_active_route_def
      dest: indexed_keyed)

lemma no_active_route:
  "get_active_route_for_channel t k = None \<Longrightarrow> get_route t i = Some r \<Longrightarrow> dr_channel_id r = k \<Longrightarrow>
    dr_lifecycle r \<noteq> RouteActive"
  using find_none [of "is_active_route k" "routes_by_id t" i r]
  by (auto simp: get_active_route_for_channel_def get_route_def is_active_route_def)

lemma route_of_key:
  assumes "chan_ok t" "dget (routes_by_key t) k = Some r"
  shows "get_route t (dr_id r) = Some r" "dr_key r = k"
  using assms by (auto simp: chan_ok_def routes_ok_def get_route_def indexed_lookup)

lemma route_key_id: "chan_ok t \<Longrightarrow> get_route t i = Some r \<Longrightarrow> dr_id r = i \<and> route_placed t r"
  by (auto simp: chan_ok_def routes_ok_def get_route_def dest: indexed_keyed keyed_get)

lemma attempt_of_key:
  assumes "chan_ok t" "get_attempt_by_provider_idempotency t ty k = Some a"
  shows "dget (attempts_by_id t) (at_id a) = Some a" "at_provider_type a = ty" "at_key a = k"
  using assms
  by (auto simp: chan_ok_def attempts_ok_def get_attempt_by_provider_idempotency_def indexed_lookup attempt_key_def)

end
