(* ===== verification/ChanKeeps.thy ===== *)
theory ChanKeeps
  imports ChanContract
begin

text \<open>The writes of the store of channels keep its invariant and only extend it.\<close>

section \<open>Parts\<close>

lemma chan_parts_of:
  assumes "chan_inv s t"
  shows "id_ok (identity_store t)" "channels_ok t" "routes_ok t" "attempts_ok t"
    and "id_ext (identity_store s) (identity_store t)"
    and "channels.table_ext (channels_by_id s) (channels_by_id t)"
    and "routes.table_ext (routes_by_id s) (routes_by_id t)"
    and "attempts.table_ext (attempts_by_id s) (attempts_by_id t)"
  using assms by (simp_all add: chan_inv_def chan_ok_def chan_ext_def)

lemma chan_invI:
  assumes "id_ok (identity_store t)" "channels_ok t" "routes_ok t" "attempts_ok t"
    "id_ext (identity_store s) (identity_store t)" "channels.table_ext (channels_by_id s) (channels_by_id t)"
    "routes.table_ext (routes_by_id s) (routes_by_id t)"
    "attempts.table_ext (attempts_by_id s) (attempts_by_id t)"
  shows "chan_inv s t"
  using assms by (simp add: chan_inv_def chan_ok_def chan_ext_def)

lemma put_channel_fields [simp]:
  "identity_store (put_channel c t) = identity_store t" "routes_by_id (put_channel c t) = routes_by_id t"
  "routes_by_key (put_channel c t) = routes_by_key t" "attempts_by_id (put_channel c t) = attempts_by_id t"
  "attempts_by_key (put_channel c t) = attempts_by_key t" "get_route (put_channel c t) = get_route t"
  "channels_by_id (put_channel c t) = dput (ch_id c) c (channels_by_id t)"
  "get_channel (put_channel c t) i = (if i = ch_id c then Some c else get_channel t i)"
  "texts_sent (put_channel c t) = texts_sent t"
  by (simp_all add: put_channel_def get_channel_def get_route_def fun_eq_iff)

lemma put_route_fields [simp]:
  "identity_store (put_route r t) = identity_store t" "channels_by_id (put_route r t) = channels_by_id t"
  "attempts_by_id (put_route r t) = attempts_by_id t" "attempts_by_key (put_route r t) = attempts_by_key t"
  "get_channel (put_route r t) = get_channel t"
  "routes_by_id (put_route r t) = dput (dr_id r) r (routes_by_id t)"
  "get_route (put_route r t) i = (if i = dr_id r then Some r else get_route t i)"
  "texts_sent (put_route r t) = texts_sent t"
  "get_active_channel (put_route r t) = get_active_channel t"
  by (simp_all add: put_route_def get_channel_def get_route_def get_active_channel_def fun_eq_iff)

lemma attempts_ok_routes:
  assumes "attempts_ok t" "attempts_by_id u = attempts_by_id t" "attempts_by_key u = attempts_by_key t"
    and "\<And>i r. get_route t i = Some r \<Longrightarrow> \<exists>q. get_route u i = Some q \<and> dr_provider_type q = dr_provider_type r"
  shows "attempts_ok u"
  using assms unfolding attempts_ok_def by fastforce

section \<open>The identity service's store\<close>

lemma identity_kept: "id_inv s t \<Longrightarrow> get_channel_identity s i = Some d \<Longrightarrow> get_channel_identity t i = Some d"
  by (auto simp: id_inv_def id_ext_def get_channel_identity_def dest: identities.table_get)

lemma channel_owned_kept: "id_inv s t \<Longrightarrow> channel_owned s c \<Longrightarrow> channel_owned t c"
  unfolding channel_owned_def using identity_kept by blast

lemma inv_identity:
  assumes inv: "chan_inv s t" and i: "id_inv (identity_store t) i"
  shows "chan_inv s (t\<lparr>identity_store := i\<rparr>)"
proof (rule chan_invI)
  note p = chan_parts_of [OF inv]
  show "id_ok (identity_store (t\<lparr>identity_store := i\<rparr>))" using i by (simp add: id_inv_def)
  show "channels_ok (t\<lparr>identity_store := i\<rparr>)"
    using p(2) channel_owned_kept [OF i] by (auto simp: channels_ok_def)
  show "routes_ok (t\<lparr>identity_store := i\<rparr>)" using p(3) by (simp add: routes_ok_def route_placed_def)
  show "attempts_ok (t\<lparr>identity_store := i\<rparr>)" using p(4) by (simp add: attempts_ok_def)
  show "id_ext (identity_store s) (identity_store (t\<lparr>identity_store := i\<rparr>))"
    using id_ext_trans [OF p(5)] i by (simp add: id_inv_def)
qed (use chan_parts_of [OF inv] in simp_all)

section \<open>Channels\<close>

lemma inv_new_channel:
  assumes inv: "chan_inv s t" and new: "get_channel t (ch_id c) = None"
    and wf: "channel_wf c" "channel_owned (identity_store t) c"
    and only: "ch_lifecycle c = ChannelActive \<Longrightarrow> get_active_channel t (ch_account_id c) = None"
  shows "chan_inv s (put_channel c t)"
proof (rule chan_invI)
  note p = chan_parts_of [OF inv]
  have other: "ch_lifecycle c \<noteq> ChannelActive \<or> ch_account_id d \<noteq> ch_account_id c \<or> ch_lifecycle d \<noteq> ChannelActive"
    if "get_channel t j = Some d" for j d
    using no_active_channel [OF only that] by blast
  show "channels_ok (put_channel c t)"
    using p(2) wf other by (auto simp: channels_ok_def)
  show "routes_ok (put_channel c t)"
    using p(3) new by (fastforce simp: routes_ok_def route_placed_def)
  show "attempts_ok (put_channel c t)" by (rule attempts_ok_routes [OF p(4)]) auto
  show "channels.table_ext (channels_by_id s) (channels_by_id (put_channel c t))"
    using channels.table_new [OF p(6)] new by (simp add: get_channel_def)
qed (use chan_parts_of [OF inv] in simp_all)

lemma inv_edit_channel:
  assumes inv: "chan_inv s t" and old: "get_channel t (ch_id c) = Some b" and edit: "channel_edited b c"
    and wf: "channel_wf c" and active: "ch_lifecycle b = ChannelActive" "ch_lifecycle c = ChannelActive"
  shows "chan_inv s (put_channel c t)"
proof (rule chan_invI)
  note p = chan_parts_of [OF inv]
  have b: "ch_id b = ch_id c" "ch_account_id b = ch_account_id c" "ch_identity_id b = ch_identity_id c"
    "ch_provider_type b = ch_provider_type c"
    using edit by (simp_all add: channel_edited_def)
  have "channel_owned (identity_store t) b" using p(2) old by (auto simp: channels_ok_def)
  then have owned: "channel_owned (identity_store t) c" using b by (simp add: channel_owned_def)
  have only: "j = ch_id c" if "get_channel t j = Some d" "ch_account_id d = ch_account_id c"
    "ch_lifecycle d = ChannelActive" for j d
    using p(2) old that active(1) b(2) unfolding channels_ok_def by metis
  show "channels_ok (put_channel c t)"
    using p(2) wf owned only unfolding channels_ok_def by (auto split: if_splits)
  show "routes_ok (put_channel c t)"
    using p(3) old b active by (fastforce simp: routes_ok_def route_placed_def)
  show "attempts_ok (put_channel c t)" by (rule attempts_ok_routes [OF p(4)]) auto
  show "channels.table_ext (channels_by_id s) (channels_by_id (put_channel c t))"
    using channels.table_edit [OF p(6) _ edit] old b(1) by (simp add: get_channel_def)
qed (use chan_parts_of [OF inv] in simp_all)

section \<open>Routes\<close>

lemma inv_new_route:
  assumes inv: "chan_inv s t" and new: "get_route t (dr_id r) = None" "dget (routes_by_key t) (dr_key r) = None"
    and placed: "route_placed t r" and only: "get_active_route_for_channel t (dr_channel_id r) = None"
  shows "chan_inv s (put_route r t)"
proof (rule chan_invI)
  note p = chan_parts_of [OF inv]
  have "indexed dr_id dr_key (routes_by_id (put_route r t)) (routes_by_key (put_route r t))"
    using indexed_add [of dr_id dr_key "routes_by_id t" "routes_by_key t" r] p(3) new
    by (simp add: routes_ok_def put_route_def get_route_def)
  moreover have "dr_channel_id q \<noteq> dr_channel_id r \<or> dr_lifecycle q \<noteq> RouteActive" if "get_route t j = Some q" for j q
    using no_active_route [OF only that] by blast
  ultimately show "routes_ok (put_route r t)"
    using p(3) placed by (auto simp: routes_ok_def route_placed_def)
  show "channels_ok (put_route r t)" using p(2) by (simp add: channels_ok_def)
  show "attempts_ok (put_route r t)" by (rule attempts_ok_routes [OF p(4)]) (use new in auto)
  show "routes.table_ext (routes_by_id s) (routes_by_id (put_route r t))"
    using routes.table_new [OF p(7)] new by (simp add: get_route_def)
qed (use chan_parts_of [OF inv] in simp_all)

text \<open>An active route gets another key or time.\<close>

lemma inv_refresh_route:
  assumes inv: "chan_inv s t" and old: "get_route t (dr_id b) = Some b" and active: "dr_lifecycle b = RouteActive"
    and r: "r = b\<lparr>dr_key := k, dr_lifecycle := RouteActive, dr_updated_at := n\<rparr>"
    and free: "k \<noteq> dr_key b \<Longrightarrow> dget (routes_by_key t) k = None"
    and u: "routes_by_id u = dput (dr_id r) r (routes_by_id t)"
      "routes_by_key u = dput (dr_key r) r (dpop (dr_key b) (routes_by_key t)) \<or>
       k = dr_key b \<and> routes_by_key u = dput (dr_key r) r (routes_by_key t)"
    and frame: "identity_store u = identity_store t" "channels_by_id u = channels_by_id t"
      "attempts_by_id u = attempts_by_id t" "attempts_by_key u = attempts_by_key t"
  shows "chan_inv s u"
proof (rule chan_invI)
  note p = chan_parts_of [OF inv]
  have ix: "indexed dr_id dr_key (routes_by_id t) (routes_by_key t)" using p(3) by (simp add: routes_ok_def)
  have old': "dget (routes_by_id t) (dr_id r) = Some b" using old r by (simp add: get_route_def)
  have "indexed dr_id dr_key (routes_by_id u) (routes_by_key u)"
    using u(2)
  proof
    assume "routes_by_key u = dput (dr_key r) r (dpop (dr_key b) (routes_by_key t))"
    with indexed_replace [OF ix old'] free r u(1) show ?thesis by auto
  next
    assume "k = dr_key b \<and> routes_by_key u = dput (dr_key r) r (routes_by_key t)"
    with indexed_save [OF ix old'] r u(1) show ?thesis by auto
  qed
  moreover have get: "get_route u i = (if i = dr_id b then Some r else get_route t i)" for i
    using u(1) r by (simp add: get_route_def)
  moreover have chan: "get_channel u = get_channel t" using frame(2) by (simp add: get_channel_def fun_eq_iff)
  moreover have "route_placed t r"
    using p(3) old active r unfolding routes_ok_def route_placed_def by fastforce
  moreover have "j = dr_id b" if "get_route t j = Some q" "dr_channel_id q = dr_channel_id b"
    "dr_lifecycle q = RouteActive" for j q
    using p(3) old active that unfolding routes_ok_def by blast
  ultimately show "routes_ok u"
    using p(3) r unfolding routes_ok_def route_placed_def by (auto split: if_splits)
  show "channels_ok u" using p(2) frame chan by (simp add: channels_ok_def)
  show "attempts_ok u"
    by (rule attempts_ok_routes [OF p(4) frame(3,4)]) (use get r old in auto)
  have "route_edited b r" using r active by (simp add: route_edited_def)
  from routes.table_edit [OF p(7) old' this]
  show "routes.table_ext (routes_by_id s) (routes_by_id u)" using u(1) by simp
qed (use chan_parts_of [OF inv] frame in simp_all)

lemma inv_new_attempt:
  assumes inv: "chan_inv s t" and new: "dget (attempts_by_id t) (at_id a) = None"
      "dget (attempts_by_key t) (attempt_key a) = None"
    and r: "get_route t (at_route_id a) = Some r" "dr_provider_type r = at_provider_type a"
  shows "chan_inv s (t\<lparr>attempts_by_id := dput (at_id a) a (attempts_by_id t),
    attempts_by_key := dput (attempt_key a) a (attempts_by_key t)\<rparr>)" (is "chan_inv s ?u")
proof (rule chan_invI)
  note p = chan_parts_of [OF inv]
  have get: "get_route ?u = get_route t" "get_channel ?u = get_channel t"
    by (simp_all add: get_route_def get_channel_def fun_eq_iff)
  show "attempts_ok ?u"
    using p(4) indexed_add [of at_id attempt_key "attempts_by_id t" "attempts_by_key t" a] new r
    by (simp add: attempts_ok_def get)
  show "channels_ok ?u" using p(2) by (simp add: channels_ok_def get)
  show "routes_ok ?u" using p(3) by (simp add: routes_ok_def route_placed_def get)
  show "attempts.table_ext (attempts_by_id s) (attempts_by_id ?u)"
    using attempts.table_new [OF p(8)] new by simp
qed (use chan_parts_of [OF inv] in simp_all)

end
