(* ===== verification/ChanOps.thy ===== *)
theory ChanOps
  imports ChanKeeps
begin

text \<open>
  The operations of the channel reachability service: each keeps the invariant and extends the
  store; the important ones say what they return.
\<close>

section \<open>Rules\<close>

named_theorems chan_keeps \<open>operations that keep the invariant of the channel store and extend it\<close>
named_theorems chan_wp \<open>equations that run the operations of the channel reachability service\<close>

lemma chan_keepsI:
  assumes "\<And>t. chan_ok t \<Longrightarrow> wp m (\<lambda>_. chan_inv t) (\<lambda>_. chan_inv t) t"
  shows "preserves (chan_inv s) m"
proof (rule preservesI)
  fix t
  assume inv: "chan_inv s t"
  show "wp m (\<lambda>_. chan_inv s) (\<lambda>_. chan_inv s) t"
    by (rule wp_mono [OF assms [OF chan_inv_ok [OF inv]]]) (auto intro: chan_inv_trans [OF inv])
qed

text \<open>
  Running a step of a longer operation: from a store that extends the first one, the step may be
  taken with the present store as its base.
\<close>

lemma wp_chan_step:
  assumes "chan_inv t u" "wp m (\<lambda>x v. chan_inv u v \<and> R x v) (\<lambda>_. chan_inv u) u"
    and "\<And>x v. chan_inv t v \<Longrightarrow> chan_inv u v \<Longrightarrow> R x v \<Longrightarrow> wp (f x) Q (\<lambda>_. chan_inv t) v"
  shows "wp (bind m f) Q (\<lambda>_. chan_inv t) u"
  unfolding wp_bind
  by (rule wp_mono [OF assms(2)]) (auto intro: assms(3) chan_inv_trans [OF assms(1)])

lemma wp_chan_keeps:
  assumes "chan_inv t u" "preserves (chan_inv u) m"
    and "\<And>x v. chan_inv t v \<Longrightarrow> chan_inv u v \<Longrightarrow> wp (f x) Q (\<lambda>_. chan_inv t) v"
  shows "wp (bind m f) Q (\<lambda>_. chan_inv t) u"
  by (rule wp_chan_step [where R = "\<lambda>_ _. True", OF assms(1)])
    (use assms chan_inv_refl [OF chan_inv_ok [OF assms(1)]] in \<open>auto simp: preserves_def\<close>)

lemma wp_identity_call [chan_wp]:
  "wp (identity_call m) Q X s =
     wp m (\<lambda>x i. Q x (s\<lparr>identity_store := i\<rparr>))
       (\<lambda>e i. X (as_reachability_error e) (s\<lparr>identity_store := i\<rparr>)) (identity_store s)"
  by (simp add: wp_def identity_call_def split: prod.splits sum.splits)

lemma keeps_identity_call [chan_keeps]:
  assumes "\<And>i. preserves (id_inv i) m"
  shows "preserves (chan_inv s) (identity_call m)"
proof (rule chan_keepsI)
  fix t
  assume ok: "chan_ok t"
  then have i: "id_ok (identity_store t)" by (simp add: chan_ok_def)
  show "wp (identity_call m) (\<lambda>_. chan_inv t) (\<lambda>_. chan_inv t) t"
    unfolding wp_identity_call
    by (rule wp_mono [OF keeps_wp [OF assms i]]) (auto intro: inv_identity [OF chan_inv_refl [OF ok]])
qed

text \<open>What a call of the identity service establishes of its own store.\<close>

lemma wp_identity_step:
  assumes "chan_inv t u" and m: "wp m (\<lambda>x i. id_inv (identity_store u) i \<and> R x i) (\<lambda>_. id_inv (identity_store u)) (identity_store u)"
    and "\<And>x v. chan_inv t v \<Longrightarrow> chan_inv u v \<Longrightarrow> R x (identity_store v) \<Longrightarrow>
      channels_by_id v = channels_by_id u \<Longrightarrow> texts_sent v = texts_sent u \<Longrightarrow> wp (f x) Q (\<lambda>_. chan_inv t) v"
  shows "wp (bind (identity_call m) f) Q (\<lambda>_. chan_inv t) u"
proof (rule wp_chan_step [OF assms(1), where R = "\<lambda>x v. R x (identity_store v) \<and>
    channels_by_id v = channels_by_id u \<and> texts_sent v = texts_sent u"])
  have u: "chan_inv u u" by (rule chan_inv_refl [OF chan_inv_ok [OF assms(1)]])
  show "wp (identity_call m) (\<lambda>x v. chan_inv u v \<and> R x (identity_store v) \<and>
      channels_by_id v = channels_by_id u \<and> texts_sent v = texts_sent u) (\<lambda>_. chan_inv u) u"
    unfolding wp_identity_call by (rule wp_mono [OF m]) (auto intro: inv_identity [OF u])
qed (use assms(3) in blast)

section \<open>Checks\<close>

lemma keeps_chan_counters [chan_keeps]:
  "preserves (chan_inv s) (py_now E)" "preserves (chan_inv s) (new_id E p)"
  "preserves (chan_inv s) (refuse_if q code)" "preserves (chan_inv s) (require_provider P ty)"
  "preserves (chan_inv s) (require_product_channel ty)" "preserves (chan_inv s) (require_channel a i)"
  "preserves (chan_inv s) (complete_deferred_links P a)"
  by (simp_all add: preserves_def refuse_if_def require_provider_def require_product_channel_def
      require_channel_def complete_deferred_links_def wp_simps split: option.splits sum.splits)

lemma keeps_access [chan_keeps]: "preserves (chan_inv s) (require_channel_access P a)"
  unfolding require_channel_access_def by (intro preserves_intros chan_keeps id_keeps)

lemma keeps_bind_channel_identity [chan_keeps]: "preserves (chan_inv s) (bind_identity P a ty su)"
  unfolding bind_identity_def by (intro chan_keeps id_keeps)

lemma wp_get_owned:
  "wp (get_owned_channel_identity i d)
     (\<lambda>x u. u = t \<and> get_channel_identity t d = Some x \<and> same_account_id (ci_account_id x) i \<and>
        ci_lifecycle x = IdentityActive) (\<lambda>_ u. u = t) t"
  by (auto simp: get_owned_channel_identity_def require_account_def wp_simps id_wp split: option.splits)

lemma wp_require_owned:
  assumes "chan_ok t"
  shows "wp (require_owned_identity a d)
     (\<lambda>x u. u = t \<and> get_channel_identity (identity_store t) d = Some x \<and> same_account_id (ci_account_id x) a)
     (\<lambda>_ u. u = t) t"
  unfolding require_owned_identity_def wp_identity_call by (rule wp_mono [OF wp_get_owned]) auto

lemma wp_require_channel [chan_wp]:
  "wp (require_channel a i) Q X t =
     (case get_channel t i of
        None \<Rightarrow> X (ChannelReachabilityError ''channel_not_found'' None) t
      | Some c \<Rightarrow>
          if ch_account_id c \<noteq> a \<or> ch_lifecycle c \<noteq> ChannelActive
          then X (ChannelReachabilityError ''channel_not_found'' None) t else Q c t)"
  by (auto simp: require_channel_def wp_simps split: option.splits)

section \<open>Channels\<close>

lemma wp_add_channel:
  assumes "chan_ok t" "channel_wf c" "channel_owned (identity_store t) c" "ch_lifecycle c = ChannelActive"
  shows "wp (add_channel c) (\<lambda>_ u. chan_inv t u \<and> get_active_channel u (ch_account_id c) = Some c)
    (\<lambda>_. chan_inv t) t"
proof -
  have put: "chan_inv t (put_channel c t)"
    if "get_channel t (ch_id c) = None" "get_active_channel t (ch_account_id c) = None"
    by (rule inv_new_channel [OF chan_inv_refl [OF assms(1)] that(1) assms(2,3)]) (simp add: that)
  have "get_active_channel (put_channel c t) (ch_account_id c) = Some c" if "chan_inv t (put_channel c t)"
    using active_channel_iff [OF chan_inv_ok [OF that]] assms(4) by simp
  with put assms chan_inv_refl [OF assms(1)] show ?thesis
    by (simp add: add_channel_def refuse_if_def wp_simps)
qed

text \<open>Saving an active channel that was looked up as it is stored.\<close>

lemma wp_save_channel:
  assumes ok: "chan_ok t" and old: "get_channel t (ch_id c) = Some b" and edit: "channel_edited b c"
    and wf: "channel_wf c" and active: "ch_lifecycle b = ChannelActive" "ch_lifecycle c = ChannelActive"
  shows "wp (save_channel c) (\<lambda>_ u. chan_inv t u \<and> get_active_channel u (ch_account_id c) = Some c \<and>
    get_route u = get_route t \<and> texts_sent u = texts_sent t) (\<lambda>_ _. False) t"
proof -
  have put: "chan_inv t (put_channel c t)"
    by (rule inv_edit_channel [OF chan_inv_refl [OF ok] old edit wf active])
  have "get_active_channel (put_channel c t) (ch_account_id c) = Some c"
    using active_channel_iff [OF chan_inv_ok [OF put]] active(2) by simp
  moreover have "get_active_channel t (ch_account_id c) = Some b"
    using active_channel_iff [OF ok] old edit active(1) by (simp add: channel_edited_def)
  ultimately show ?thesis
    using old edit put chan_inv_refl [OF ok]
    by (simp add: save_channel_def refuse_if_def wp_simps channel_edited_def)
qed

lemma wp_save_state:
  assumes "chan_ok t" "get_channel t (ch_id c) = Some c" "ch_lifecycle c = ChannelActive"
    and "state \<in> {Connecting, ConnectionFailed, ReconnectionRequired}"
  shows "wp (save_state E c state) (\<lambda>_. chan_inv t) (\<lambda>_. chan_inv t) t"
proof -
  have wf: "channel_wf c" using channel_key [OF assms(1,2)] by simp
  have "wp (save_channel (c\<lparr>ch_connection := state, ch_updated_at := n\<rparr>)) (\<lambda>_. chan_inv t) (\<lambda>_. chan_inv t)
      (t\<lparr>clock := k\<rparr>)" for n k
    by (rule wp_mono [OF wp_save_channel [where b = c]])
      (use assms wf in \<open>auto simp: channel_edited_def channel_wf_def\<close>)
  then show ?thesis by (simp add: save_state_def wp_simps Let_def)
qed

lemma keeps_save_state:
  assumes "state \<in> {Connecting, ConnectionFailed, ReconnectionRequired}"
  shows "preserves (chan_inv s) (bind (require_channel a i) (\<lambda>c. save_state E c state))"
proof (rule chan_keepsI)
  fix t
  assume ok: "chan_ok t"
  have "wp (save_state E c state) (\<lambda>_. chan_inv t) (\<lambda>_. chan_inv t) t"
    if "get_channel t i = Some c" "ch_lifecycle c = ChannelActive" for c
    by (rule wp_save_state [OF ok _ that(2) assms]) (use channel_key [OF ok that(1)] that(1) in simp)
  then show "wp (bind (require_channel a i) (\<lambda>c. save_state E c state)) (\<lambda>_. chan_inv t) (\<lambda>_. chan_inv t) t"
    using chan_inv_refl [OF ok] by (simp add: wp_bind chan_wp split: option.splits)
qed

lemma keeps_states [chan_keeps]:
  "preserves (chan_inv s) (connect_channel E P a i)" "preserves (chan_inv s) (mark_connection_failed E a i)"
  "preserves (chan_inv s) (mark_reconnection_required E a i)"
  unfolding connect_channel_def mark_connection_failed_def mark_reconnection_required_def
  by (intro preserves_bind chan_keeps keeps_save_state; simp)+

lemma keeps_retry [chan_keeps]: "preserves (chan_inv s) (retry_connection E P a i)"
  unfolding retry_connection_def
proof (rule preserves_bind, rule chan_keeps, rule chan_keepsI)
  fix t
  assume ok: "chan_ok t"
  have "wp (save_state E c Connecting) (\<lambda>_. chan_inv t) (\<lambda>_. chan_inv t) t"
    if "get_channel t i = Some c" "ch_lifecycle c = ChannelActive" for c
    by (rule wp_save_state [OF ok _ that(2)]) (use channel_key [OF ok that(1)] that(1) in simp_all)
  then show "wp (bind (require_channel a i) (\<lambda>c.
      if ch_connection c \<notin> {ConnectionFailed, ReconnectionRequired} then chan_error ''channel_retry_not_allowed''
      else save_state E c Connecting)) (\<lambda>_. chan_inv t) (\<lambda>_. chan_inv t) t"
    using chan_inv_refl [OF ok] by (simp add: wp_bind chan_wp wp_raise split: option.splits)
qed

lemma wp_create_channel:
  assumes ok: "chan_ok t"
  shows "wp (create_channel E P account ty identity_id removable)
    (\<lambda>c u. chan_inv t u \<and> get_active_channel u account = Some c \<and> ch_account_id c = account \<and>
       ch_identity_id c = identity_id \<and> ch_connection c = NotConnected) (\<lambda>_. chan_inv t) t"
proof -
  let ?Q = "\<lambda>c u. chan_inv t u \<and> get_active_channel u account = Some c \<and> ch_account_id c = account \<and>
       ch_identity_id c = identity_id \<and> ch_connection c = NotConnected"
  have add: "wp (bind (py_now E) (\<lambda>now.
      bind (new_id E ''channel'') (\<lambda>i.
      let c = \<lparr>ch_id = i, ch_account_id = account, ch_identity_id = identity_id, ch_provider_type = ty,
               ch_lifecycle = ChannelActive, ch_connection = NotConnected, ch_removable = removable,
               ch_connected_at = None, ch_removed_at = None, ch_created_at = now, ch_updated_at = now\<rparr> in
      bind (add_channel c) (\<lambda>_. ret c)))) ?Q (\<lambda>_. chan_inv t) u"
    if u: "chan_inv t u" and d: "get_channel_identity (identity_store u) identity_id = Some d"
      "same_account_id (ci_account_id d) account" "ci_provider_type d = ty" for u d ty
  proof -
    let ?c = "\<lambda>i n. \<lparr>ch_id = i, ch_account_id = account, ch_identity_id = identity_id, ch_provider_type = ty,
       ch_lifecycle = ChannelActive, ch_connection = NotConnected, ch_removable = removable,
       ch_connected_at = None, ch_removed_at = None, ch_created_at = n, ch_updated_at = n\<rparr>"
    have "wp (add_channel (?c i n)) (\<lambda>_ v. chan_inv t v \<and> get_active_channel v account = Some (?c i n))
        (\<lambda>_. chan_inv t) (u\<lparr>clock := k, issued := m\<rparr>)" for i n k m
      by (rule wp_mono [OF wp_add_channel])
        (use d chan_inv_ok [OF u] in
          \<open>auto simp: channel_wf_def channel_owned_def intro: chan_inv_trans [OF u]\<close>)
    then show ?thesis by (simp add: wp_simps Let_def)
  qed
  show ?thesis
    unfolding create_channel_def
    apply (rule wp_chan_keeps [OF chan_inv_refl [OF ok]], rule chan_keeps)
    apply (rule wp_chan_keeps, assumption, rule chan_keeps)
    apply (rule wp_chan_keeps, assumption, rule chan_keeps)
    apply (simp only: wp_bind [of "require_owned_identity _ _"])
    apply (rule wp_mono [OF wp_require_owned [OF chan_inv_ok]], assumption)
     apply (auto simp: wp_bind [of "gets _"] wp_gets wp_raise intro!: add)
    done
qed

lemma keeps_create_channel [chan_keeps]: "preserves (chan_inv s) (create_channel E P a ty d b)"
  by (rule chan_keepsI, rule wp_mono [OF wp_create_channel]) auto

section \<open>Routes\<close>

definition routed :: "chan_state \<Rightarrow> delivery_route \<Rightarrow> chan_state \<Rightarrow> delivery_route \<Rightarrow> bool" where
  "routed t r u q \<longleftrightarrow>
     chan_inv t u \<and> get_route u (dr_id q) = Some q \<and> dr_lifecycle q = RouteActive \<and>
     dr_channel_id q = dr_channel_id r \<and> dr_account_id q = dr_account_id r \<and>
     dr_provider_type q = dr_provider_type r \<and> channels_by_id u = channels_by_id t \<and>
     identity_store u = identity_store t \<and> texts_sent u = texts_sent t \<and>
     attempts_by_key u = attempts_by_key t"

lemma placed_account:
  "route_placed t p \<Longrightarrow> route_placed t r \<Longrightarrow> dr_channel_id p = dr_channel_id r \<Longrightarrow> dr_account_id p = dr_account_id r"
  by (auto simp: route_placed_def)

lemma wp_upsert_route:
  assumes ok: "chan_ok t" and placed: "route_placed t r" and active: "dr_lifecycle r = RouteActive"
  shows "wp (upsert_route r) (\<lambda>q u. routed t r u q) (\<lambda>_ u. chan_inv t u \<and> texts_sent u = texts_sent t) t"
proof -
  note refl = chan_inv_refl [OF ok]
  have known: "routed t r (put_route (refreshed_route b r) t) (refreshed_route b r)"
    if b: "dget (routes_by_key t) (dr_key r) = Some b" "dr_lifecycle b = RouteActive"
      "dr_account_id r = dr_account_id b" "dr_channel_id r = dr_channel_id b"
      "dr_provider_type r = dr_provider_type b" for b
  proof -
    note k = route_of_key [OF ok b(1)]
    have "chan_inv t (put_route (refreshed_route b r) t)"
      by (rule inv_refresh_route [OF refl k(1) b(2) refreshed_route_def])
        (use k(2) in \<open>auto simp: put_route_def refreshed_route_def\<close>)
    then show ?thesis using b by (simp add: routed_def refreshed_route_def)
  qed
  have moved: "routed t r (put_route (refreshed_route b r)
      (t\<lparr>routes_by_key := dpop (dr_key b) (routes_by_key t)\<rparr>)) (refreshed_route b r)"
    if b: "get_active_route_for_channel t (dr_channel_id r) = Some b" "dget (routes_by_key t) (dr_key r) = None"
      "dr_provider_type r = dr_provider_type b" for b
  proof -
    note k = active_route [OF ok b(1)]
    have acc: "dr_account_id b = dr_account_id r"
      using placed_account [OF _ placed k(2)] route_key_id [OF ok k(1)] by blast
    have "chan_inv t (put_route (refreshed_route b r)
        (t\<lparr>routes_by_key := dpop (dr_key b) (routes_by_key t)\<rparr>))"
      by (rule inv_refresh_route [OF refl k(1,3) refreshed_route_def])
        (use b(2) in \<open>auto simp: put_route_def refreshed_route_def\<close>)
    then show ?thesis using b k acc by (simp add: routed_def refreshed_route_def)
  qed
  have new: "routed t r (put_route r t) r"
    if "get_route t (dr_id r) = None" "dget (routes_by_key t) (dr_key r) = None"
      "get_active_route_for_channel t (dr_channel_id r) = None"
    using inv_new_route [OF refl that(1,2) placed that(3)] active by (simp add: routed_def)
  show ?thesis
    using known moved new refl
    by (auto simp: upsert_route_def upsert_known_route_def refuse_if_def wp_simps same_route_identity_def
        split: option.splits)
qed

text \<open>The active route of a channel, and what the operation that gives it leaves alone.\<close>

definition routed_on :: "chan_state \<Rightarrow> channel \<Rightarrow> chan_state \<Rightarrow> delivery_route \<Rightarrow> bool" where
  "routed_on t c u q \<longleftrightarrow>
     chan_inv t u \<and> get_route u (dr_id q) = Some q \<and> dr_lifecycle q = RouteActive \<and>
     dr_channel_id q = ch_id c \<and> dr_account_id q = ch_account_id c \<and>
     dr_provider_type q = ch_provider_type c \<and> channels_by_id u = channels_by_id t \<and>
     identity_store u = identity_store t \<and> texts_sent u = texts_sent t \<and>
     attempts_by_key u = attempts_by_key t"

lemma wp_resolve_route_for_channel:
  assumes ok: "chan_ok t" and c: "get_channel t (ch_id c) = Some c" "ch_lifecycle c = ChannelActive"
  shows "wp (resolve_route_for_channel E c) (\<lambda>q u. routed_on t c u q)
    (\<lambda>_ u. chan_inv t u \<and> texts_sent u = texts_sent t) t"
proof -
  have up: "wp (upsert_route r) (\<lambda>q u. routed_on t c u q)
      (\<lambda>_ u. chan_inv t u \<and> texts_sent u = texts_sent t) (t\<lparr>clock := k, issued := m\<rparr>)"
    if r: "dr_channel_id r = ch_id c" "dr_account_id r = ch_account_id c"
      "dr_provider_type r = ch_provider_type c" "dr_lifecycle r = RouteActive" for r k m
  proof -
    have "route_placed (t\<lparr>clock := k, issued := m\<rparr>) r" using c r by (simp add: route_placed_def)
    from wp_upsert_route [OF _ this r(4)] ok
    show ?thesis by (simp, elim wp_mono) (use r in \<open>auto simp: routed_def routed_on_def\<close>)
  qed
  show ?thesis
    unfolding resolve_route_for_channel_def wp_bind wp_py_now wp_new_id
    by (rule wp_mono [OF wp_require_owned [OF ok]]) (auto simp: chan_inv_refl [OF ok] intro!: up)
qed

section \<open>Connecting\<close>

lemma same_channels:
  "channels_by_id u = channels_by_id t \<Longrightarrow> get_active_channel u = get_active_channel t"
  "channels_by_id u = channels_by_id t \<Longrightarrow> get_channel u = get_channel t"
  by (simp_all add: get_active_channel_def get_channel_def fun_eq_iff)

lemma wp_identity_keeps:
  assumes "chan_inv t u" "\<And>i. preserves (id_inv i) m"
    and "\<And>x v. chan_inv t v \<Longrightarrow> chan_inv u v \<Longrightarrow> channels_by_id v = channels_by_id u \<Longrightarrow>
      texts_sent v = texts_sent u \<Longrightarrow> wp (f x) Q (\<lambda>_. chan_inv t) v"
  shows "wp (bind (identity_call m) f) Q (\<lambda>_. chan_inv t) u"
proof (rule wp_identity_step [OF assms(1), where R = "\<lambda>_ _. True"])
  have "id_ok (identity_store u)" using chan_inv_ok [OF assms(1)] by (simp add: chan_ok_def)
  from keeps_wp [OF assms(2) this]
  show "wp m (\<lambda>x i. id_inv (identity_store u) i \<and> True) (\<lambda>_. id_inv (identity_store u)) (identity_store u)"
    by simp
qed (use assms(3) in blast)

lemma wp_channel_step:
  assumes "chan_inv t u"
    and "\<And>c. get_channel u i = Some c \<Longrightarrow> ch_id c = i \<Longrightarrow> ch_account_id c = a \<Longrightarrow>
      ch_lifecycle c = ChannelActive \<Longrightarrow> wp (f c) Q (\<lambda>_. chan_inv t) u"
  shows "wp (bind (require_channel a i) f) Q (\<lambda>_. chan_inv t) u"
  using assms channel_key [OF chan_inv_ok [OF assms(1)]]
  by (simp add: wp_bind wp_require_channel split: option.split)

lemma wp_route_step:
  assumes u: "chan_inv t u" and c: "get_channel u (ch_id c) = Some c" "ch_lifecycle c = ChannelActive"
    and f: "\<And>q v. chan_inv t v \<Longrightarrow> routed_on u c v q \<Longrightarrow> wp (f q) Q (\<lambda>_. chan_inv t) v"
  shows "wp (bind (resolve_route_for_channel E c) f) Q (\<lambda>_. chan_inv t) u"
  unfolding wp_bind
  by (rule wp_mono [OF wp_resolve_route_for_channel [OF chan_inv_ok [OF u] c]])
    (auto intro: f chan_inv_trans [OF u] simp: routed_on_def)

lemma wp_mark_connected:
  assumes ok: "chan_ok t"
  shows "wp (mark_connected E P account i)
    (\<lambda>c u. chan_inv t u \<and> get_active_channel u account = Some c \<and> ch_id c = i \<and> ch_connection c = Connected)
    (\<lambda>_. chan_inv t) t"
proof -
  let ?Q = "\<lambda>c u. chan_inv t u \<and> get_active_channel u account = Some c \<and> ch_id c = i \<and> ch_connection c = Connected"
  let ?new = "\<lambda>c n. c\<lparr>ch_connection := Connected, ch_connected_at := Some n, ch_updated_at := n\<rparr>"
  have after: "wp (bind (identity_call (observe_usable_channel F account)) (\<lambda>_.
      bind (complete_deferred_links P account) (\<lambda>_. ret c))) ?Q (\<lambda>_. chan_inv t) u"
    if "chan_inv t u" "get_active_channel u account = Some c" "ch_id c = i" "ch_connection c = Connected" for F c u
    by (rule wp_identity_keeps [OF that(1)], rule id_keeps)
      (use that in \<open>auto simp: complete_deferred_links_def wp_simps get_active_channel_def
        split: option.splits sum.splits\<close>)
  have finish: "wp (bind (py_now E) (\<lambda>now. let updated = ?new c now in
      bind (save_channel updated) (\<lambda>_.
      bind (identity_call (observe_usable_channel (cp_identity_env P) account)) (\<lambda>_.
      bind (complete_deferred_links P account) (\<lambda>_. ret updated))))) ?Q (\<lambda>_. chan_inv t) u"
    if u: "chan_inv t u" "get_channel u i = Some c" "ch_account_id c = account" "ch_lifecycle c = ChannelActive" for c u
  proof -
    note key = channel_key [OF chan_inv_ok [OF u(1)] u(2)]
    have saved: "wp (save_channel (?new c n)) (\<lambda>_ v. chan_inv t v \<and> get_active_channel v account = Some (?new c n))
        (\<lambda>_. chan_inv t) (u\<lparr>clock := k\<rparr>)" for n k
      by (rule wp_mono [OF wp_save_channel [where b = c]])
        (use u key chan_inv_ok [OF u(1)] in
          \<open>auto simp: channel_edited_def channel_wf_def intro: chan_inv_trans [OF u(1)]\<close>)
    show ?thesis
      unfolding Let_def wp_bind [of "py_now _"] wp_bind [of "save_channel _"] wp_py_now
      by (rule wp_mono [OF saved], elim conjE, rule after) (use key in simp_all)
  qed
  show ?thesis
    unfolding mark_connected_def
    apply (rule wp_chan_keeps [OF chan_inv_refl [OF ok]], rule chan_keeps)
    apply (rule wp_channel_step, assumption)
    subgoal for _ v c
      apply (rule wp_identity_keeps, assumption, rule id_keeps)
      apply (rule wp_route_step, assumption)
        apply (simp add: get_channel_def)
       apply assumption
      apply (rule finish)
         apply (simp_all add: get_channel_def routed_on_def)
      done
    done
qed

section \<open>Removing a channel\<close>

text \<open>What retiring routes leaves alone.\<close>

definition only_routes :: "chan_state \<Rightarrow> chan_state \<Rightarrow> bool" where
  "only_routes u v \<longleftrightarrow>
     identity_store v = identity_store u \<and> channels_by_id v = channels_by_id u \<and>
     attempts_by_id v = attempts_by_id u \<and> attempts_by_key v = attempts_by_key u \<and> texts_sent v = texts_sent u"

lemma wp_retire_loop:
  assumes "indexed dr_id dr_key (routes_by_id u) (routes_by_key u)" "distinct (map dr_id rs)"
    and "\<forall>r\<in>set rs. get_route u (dr_id r) = Some r"
  shows "wp (for_each rs (\<lambda>r. if is_active_route k r then modify (put_route (retired_route at r)) else ret ()))
    (\<lambda>_ v. indexed dr_id dr_key (routes_by_id v) (routes_by_key v) \<and> only_routes u v \<and>
       (\<forall>i. get_route v i =
          (if i \<in> dr_id ` set (filter (is_active_route k) rs) then map_option (retired_route at) (get_route u i)
           else get_route u i)))
    (\<lambda>_ _. False) u"
  using assms
proof (induction rs arbitrary: u)
  case Nil
  then show ?case by (simp add: wp_simps only_routes_def)
next
  case (Cons r rs)
  have r: "get_route u (dr_id r) = Some r" "dr_id r \<notin> dr_id ` set rs" using Cons.prems(2,3) by simp_all
  have rest: "\<forall>q\<in>set rs. get_route u (dr_id q) = Some q" "distinct (map dr_id rs)" using Cons.prems(2,3) by simp_all
  show ?case
  proof (cases "is_active_route k r")
    case False
    with Cons.IH [OF Cons.prems(1) rest(2,1)] show ?thesis by (simp add: wp_simps)
  next
    case True
    let ?u = "put_route (retired_route at r) u"
    have "indexed dr_id dr_key (routes_by_id ?u) (routes_by_key ?u)"
      using indexed_save [of dr_id dr_key "routes_by_id u" "routes_by_key u" "retired_route at r" r] Cons.prems(1) r(1)
      by (simp add: put_route_def retired_route_def get_route_def)
    moreover have "\<forall>q\<in>set rs. get_route ?u (dr_id q) = Some q"
      using rest(1) r(2) by (auto simp: retired_route_def image_iff)
    ultimately have "wp (for_each rs (\<lambda>r. if is_active_route k r then modify (put_route (retired_route at r)) else ret ()))
      (\<lambda>_ v. indexed dr_id dr_key (routes_by_id v) (routes_by_key v) \<and> only_routes ?u v \<and>
       (\<forall>i. get_route v i =
          (if i \<in> dr_id ` set (filter (is_active_route k) rs) then map_option (retired_route at) (get_route ?u i)
           else get_route ?u i))) (\<lambda>_ _. False) ?u"
      using Cons.IH rest(2) by blast
    then have "wp (for_each rs (\<lambda>r. if is_active_route k r then modify (put_route (retired_route at r)) else ret ()))
      (\<lambda>_ v. indexed dr_id dr_key (routes_by_id v) (routes_by_key v) \<and> only_routes u v \<and>
       (\<forall>i. get_route v i =
          (if i \<in> dr_id ` set (filter (is_active_route k) (r # rs)) then map_option (retired_route at) (get_route u i)
           else get_route u i))) (\<lambda>_ _. False) ?u"
      by (rule wp_mono) (use True r in \<open>auto simp: only_routes_def retired_route_def\<close>)
    with True show ?thesis by (simp add: wp_simps)
  qed
qed

lemma wp_retire_routes:
  assumes ix: "indexed dr_id dr_key (routes_by_id u) (routes_by_key u)"
  shows "wp (retire_routes_for_channel k at)
    (\<lambda>_ v. indexed dr_id dr_key (routes_by_id v) (routes_by_key v) \<and> only_routes u v \<and>
       (\<forall>i. get_route v i =
          map_option (\<lambda>r. if is_active_route k r then retired_route at r else r) (get_route u i)))
    (\<lambda>_ _. False) u"
proof -
  have key: "keyed dr_id (routes_by_id u)" by (rule indexed_keyed(1) [OF ix])
  have stored: "\<forall>r\<in>set (dvalues (routes_by_id u)). get_route u (dr_id r) = Some r"
    using keyed_values [OF key] by (simp add: get_route_def del: set_map)
  have chosen: "i \<in> dr_id ` set (filter (is_active_route k) (dvalues (routes_by_id u))) \<longleftrightarrow>
      (\<exists>r\<in>set (dvalues (routes_by_id u)). is_active_route k r \<and> dr_id r = i)" for i
    by (simp only: set_filter) blast
  have all: "(\<exists>q\<in>set (dvalues (routes_by_id u)). is_active_route k q \<and> dr_id q = i) \<longleftrightarrow> is_active_route k r"
    if r: "get_route u i = Some r" for i r
  proof
    assume "\<exists>q\<in>set (dvalues (routes_by_id u)). is_active_route k q \<and> dr_id q = i"
    with stored r show "is_active_route k r" by force
  next
    assume k: "is_active_route k r"
    have i: "dr_id r = i" using keyed_get [OF key] r by (simp add: get_route_def)
    then have "r \<in> set (dvalues (routes_by_id u))"
      using keyed_values [OF key, of r] r by (simp only: get_route_def)
    with k i show "\<exists>q\<in>set (dvalues (routes_by_id u)). is_active_route k q \<and> dr_id q = i" by blast
  qed
  have none: "\<not> (\<exists>q\<in>set (dvalues (routes_by_id u)). is_active_route k q \<and> dr_id q = i)"
    if "get_route u i = None" for i
    using that stored by force
  show ?thesis
    unfolding retire_routes_for_channel_def wp_bind wp_gets
    apply (rule wp_mono [OF wp_retire_loop [OF ix keyed_distinct [OF key] stored]])
     apply (elim conjE, intro conjI allI, assumption, assumption)
    subgoal for _ v i
      using all [of i] none [of i] by (cases "get_route u i") (simp_all only: chosen, simp_all)
    by simp
qed

definition removed_from :: "channel \<Rightarrow> channel \<Rightarrow> bool" where
  "removed_from c d \<longleftrightarrow>
     (\<exists>n. d = c\<lparr>ch_lifecycle := ChannelRemoved, ch_connection := ConnectionRemoved, ch_removed_at := Some n,
                ch_updated_at := n\<rparr>)"

lemma inv_removed_channel:
  assumes ok: "chan_ok t" and c: "get_channel t (ch_id c) = Some c" "ch_lifecycle c = ChannelActive"
    and d: "removed_from c d" "channels_by_id v = dput (ch_id c) d (channels_by_id t)"
    and ix: "indexed dr_id dr_key (routes_by_id v) (routes_by_key v)"
    and routes: "\<And>i. get_route v i =
      map_option (\<lambda>r. if is_active_route (ch_id c) r then retired_route at r else r) (get_route t i)"
    and frame: "identity_store v = identity_store t" "attempts_by_id v = attempts_by_id t"
      "attempts_by_key v = attempts_by_key t"
  shows "chan_inv t v"
proof (rule chan_invI)
  note p = chan_parts_of [OF chan_inv_refl [OF ok]]
  have wf: "channel_wf d" "ch_lifecycle d = ChannelRemoved" and same: "ch_id d = ch_id c"
    "ch_account_id d = ch_account_id c" "ch_identity_id d = ch_identity_id c" "ch_provider_type d = ch_provider_type c"
    and edit: "channel_edited c d"
    using d(1) c(2) by (auto simp: removed_from_def channel_wf_def channel_edited_def)
  have get: "get_channel v i = (if i = ch_id c then Some d else get_channel t i)" for i
    using d(2) by (simp add: get_channel_def)
  have "channel_owned (identity_store t) c" using p(2) c(1) by (auto simp: channels_ok_def)
  then have "channel_owned (identity_store t) d" using same by (simp add: channel_owned_def)
  then show "channels_ok v"
    using p(2) wf same d(2) unfolding channels_ok_def get frame(1) by (auto split: if_splits)
  have placed: "route_placed v (if is_active_route (ch_id c) r then retired_route at r else r)"
    if "get_route t i = Some r" for i r
  proof -
    have "route_placed t r" using p(3) that by (auto simp: routes_ok_def)
    then show ?thesis
      using same c(1) by (fastforce simp: route_placed_def get retired_route_def is_active_route_def split: if_splits)
  qed
  have active: "get_route t i = Some r" if "get_route v i = Some r" "dr_lifecycle r = RouteActive" for i r
    using that routes [of i] by (auto simp: retired_route_def split: if_splits)
  show "routes_ok v"
    unfolding routes_ok_def
  proof (intro conjI allI impI ix)
    fix i r
    assume "get_route v i = Some r"
    then show "route_placed v r" using routes [of i] placed by auto
  next
    fix i j p' r
    assume "get_route v i = Some p' \<and> get_route v j = Some r \<and> dr_channel_id p' = dr_channel_id r \<and>
        dr_lifecycle p' = RouteActive \<and> dr_lifecycle r = RouteActive"
    with active p(3) show "i = j" unfolding routes_ok_def by metis
  qed
  show "attempts_ok v"
    by (rule attempts_ok_routes [OF p(4) frame(2,3)]) (auto simp: routes retired_route_def)
  show "channels.table_ext (channels_by_id t) (channels_by_id v)"
    using channels.table_edit [OF channels.table_refl _ edit] c(1) d(2) by (simp add: get_channel_def)
  show "routes.table_ext (routes_by_id t) (routes_by_id v)"
    unfolding routes.table_ext_def
  proof (intro allI impI)
    fix i r
    assume r: "dget (routes_by_id t) i = Some r"
    have "route_edited r (if is_active_route (ch_id c) r then retired_route at r else r)"
      by (simp add: route_edited_def retired_route_def is_active_route_def)
    then show "\<exists>r'. dget (routes_by_id v) i = Some r' \<and> route_edited r r'"
      using r routes [of i] by (simp add: get_route_def)
  qed
qed (use chan_parts_of [OF chan_inv_refl [OF ok]] frame in simp_all)

lemma retired_all:
  assumes ok: "chan_ok v"
    and routes: "\<forall>j. get_route v j = map_option (\<lambda>r. if is_active_route i r then retired_route n r else r) (f j)"
  shows "get_active_route_for_channel v i = None"
proof (rule ccontr)
  assume "get_active_route_for_channel v i \<noteq> None"
  then obtain r where r: "get_active_route_for_channel v i = Some r" by blast
  note a = active_route [OF ok r]
  have "map_option (\<lambda>r. if is_active_route i r then retired_route n r else r) (f (dr_id r)) = Some r"
    using a(1) by (simp only: routes [rule_format])
  then obtain q where "(if is_active_route i q then retired_route n q else q) = r"
    by (auto simp only: map_option_eq_Some)
  note q = this [symmetric]
  show False
  proof (cases "is_active_route i q")
    case True
    with q have "dr_lifecycle r = RouteRemoved" by (simp add: retired_route_def)
    with a(3) show False by simp
  next
    case False
    with q have "r = q" by simp
    with False a(2,3) show False by (simp add: is_active_route_def)
  qed
qed

lemma wp_remove_channel:
  assumes ok: "chan_ok t"
  shows "wp (remove_channel E account i)
    (\<lambda>d u. chan_inv t u \<and> get_channel u i = Some d \<and> ch_lifecycle d = ChannelRemoved \<and>
       ch_account_id d = account \<and> get_active_route_for_channel u i = None) (\<lambda>_. chan_inv t) t"
proof -
  let ?Q = "\<lambda>d u. chan_inv t u \<and> get_channel u i = Some d \<and> ch_lifecycle d = ChannelRemoved \<and>
       ch_account_id d = account \<and> get_active_route_for_channel u i = None"
  let ?gone = "\<lambda>c n. c\<lparr>ch_lifecycle := ChannelRemoved, ch_connection := ConnectionRemoved,
      ch_removed_at := Some n, ch_updated_at := n\<rparr>"
  have finish: "wp (bind (py_now E) (\<lambda>now. let updated = ?gone c now in
      bind (save_channel updated) (\<lambda>_. bind (retire_routes_for_channel (ch_id c) now) (\<lambda>_. ret updated))))
      ?Q (\<lambda>_. chan_inv t) w"
    if w: "chan_inv t w" and c: "get_channel w i = Some c" "ch_id c = i" "ch_account_id c = account"
      "ch_lifecycle c = ChannelActive" for w c
  proof -
    let ?n = "env_now E (clock w)"
    let ?u = "put_channel (?gone c ?n) (w\<lparr>clock := Suc (clock w)\<rparr>)"
    have ok': "chan_ok w" by (rule chan_inv_ok [OF w])
    then have ix: "indexed dr_id dr_key (routes_by_id ?u) (routes_by_key ?u)"
      by (simp add: chan_ok_def routes_ok_def)
    have retire: "wp (bind (retire_routes_for_channel (ch_id c) ?n) (\<lambda>_. ret (?gone c ?n))) ?Q (\<lambda>_. chan_inv t) ?u"
      unfolding wp_bind wp_ret
    proof (rule wp_mono [OF wp_retire_routes [OF ix]], elim conjE, intro conjI)
      fix v
      assume v: "indexed dr_id dr_key (routes_by_id v) (routes_by_key v)" "only_routes ?u v"
        "\<forall>j. get_route v j = map_option (\<lambda>r. if is_active_route (ch_id c) r then retired_route ?n r else r)
          (get_route ?u j)"
      have inv: "chan_inv w v"
        by (rule inv_removed_channel [OF ok', where c = c and d = "?gone c ?n"])
          (use c v in \<open>auto simp: only_routes_def removed_from_def\<close>)
      then show "chan_inv t v" by (rule chan_inv_trans [OF w])
      show "get_channel v i = Some (?gone c ?n)"
        using v(2) c(2) by (simp add: only_routes_def get_channel_def)
      show "get_active_route_for_channel v i = None"
        by (rule retired_all [OF chan_inv_ok [OF inv] v(3) [unfolded c(2)]])
    qed (use c in simp_all)
    have saved: "wp (save_channel (?gone c ?n)) R X (w\<lparr>clock := Suc (clock w)\<rparr>) = R () ?u" for R X
      using c by (simp add: save_channel_def refuse_if_def wp_simps)
    from retire show ?thesis
      unfolding wp_bind [of "py_now _"] wp_bind [of "save_channel _"] wp_py_now Let_def saved .
  qed
  show ?thesis
    unfolding remove_channel_def
    apply (rule wp_channel_step [OF chan_inv_refl [OF ok]])
    subgoal for c
      apply (rule wp_identity_keeps [OF chan_inv_refl [OF ok]], rule id_keeps)
      subgoal for can v
        using finish [of v c] same_channels(2) [of v t] by (simp add: wp_raise)
      done
    done
qed

end
