(* ===== verification/ChanSending.thy ===== *)
theory ChanSending
  imports ChanOps
begin

text \<open>
  Sending a text and accepting an inbound message: what the two operations say of the channel, the
  route and the attempts, and that the rest of the service keeps the invariant.
\<close>

section \<open>Sending\<close>

lemma wp_resolve_route:
  assumes ok: "chan_ok t"
  shows "wp (resolve_route E account)
    (\<lambda>q u. \<exists>c. get_active_channel t account = Some c \<and> ch_connection c = Connected \<and> routed_on t c u q)
    (\<lambda>_ u. chan_inv t u \<and> texts_sent u = texts_sent t) t"
proof (cases "get_active_channel t account")
  case None
  then show ?thesis by (simp add: resolve_route_def wp_simps chan_inv_refl [OF ok])
next
  case (Some c)
  then have c: "get_channel t (ch_id c) = Some c" "ch_lifecycle c = ChannelActive"
    using active_channel_iff [OF ok] by blast+
  have "wp (resolve_route_for_channel E c) (\<lambda>q u. ch_connection c = Connected \<and> routed_on t c u q)
      (\<lambda>_ u. chan_inv t u \<and> texts_sent u = texts_sent t) t" if "ch_connection c = Connected"
    by (rule wp_mono [OF wp_resolve_route_for_channel [OF ok c]]) (use that in auto)
  with Some show ?thesis
    by (simp add: resolve_route_def wp_simps chan_inv_refl [OF ok])
qed

text \<open>An expired session makes the channel of the route ask for a new login.\<close>

lemma wp_note_expiry:
  assumes ok: "chan_ok t" and c: "get_channel t (dr_channel_id r) = Some c" "ch_lifecycle c = ChannelActive"
  shows "wp (note_session_expiry r res n)
    (\<lambda>_ u. chan_inv t u \<and> get_route u = get_route t \<and> texts_sent u = texts_sent t) (\<lambda>_ _. False) t"
proof -
  note key = channel_key [OF ok c(1)]
  have "wp (save_channel (c\<lparr>ch_connection := ReconnectionRequired, ch_updated_at := n\<rparr>))
      (\<lambda>_ u. chan_inv t u \<and> get_route u = get_route t \<and> texts_sent u = texts_sent t) (\<lambda>_ _. False) t"
    by (rule wp_mono [OF wp_save_channel [OF ok, where b = c]])
      (use c key in \<open>auto simp: channel_edited_def channel_wf_def\<close>)
  with c(1) chan_inv_refl [OF ok] show ?thesis by (simp add: note_session_expiry_def wp_simps)
qed

lemma wp_save_attempt:
  assumes inv: "chan_inv s t" and r: "get_route t (at_route_id a) = Some r" "dr_provider_type r = at_provider_type a"
  shows "wp (save_attempt a)
    (\<lambda>_ u. chan_inv s u \<and> get_attempt_by_provider_idempotency u (at_provider_type a) (at_key a) = Some a \<and>
       texts_sent u = texts_sent t)
    (\<lambda>_ u. chan_inv s u \<and> texts_sent u = texts_sent t) t"
  using inv_new_attempt [OF inv _ _ r] inv
  by (simp add: save_attempt_def refuse_if_def wp_simps get_attempt_by_provider_idempotency_def attempt_key_def)

text \<open>The texts an operation hands to a provider: none, or this one.\<close>

definition one_text :: "chan_state \<Rightarrow> delivery_route \<Rightarrow> string \<Rightarrow> string \<Rightarrow> chan_state \<Rightarrow> bool" where
  "one_text t r content key u \<longleftrightarrow> texts_sent u = texts_sent t @ [(r, content, key)]"

lemma wp_require_provider:
  "wp (require_provider P ty) Q X t =
     (case cp_provider P ty of None \<Rightarrow> X (ChannelReachabilityError ''unsupported_provider'' None) t | Some a \<Rightarrow> Q a t)"
  by (simp add: require_provider_def wp_simps split: option.split)

lemma wp_call_adapter:
  "wp (call_adapter a r content key token) Q X t =
     (case ad_send a r content key (if dr_provider_type r = ''wechat_personal'' then Some token else None) of
        Inl e \<Rightarrow> X e (t\<lparr>texts_sent := texts_sent t @ [(r, content, key)]\<rparr>)
      | Inr x \<Rightarrow> Q x (t\<lparr>texts_sent := texts_sent t @ [(r, content, key)]\<rparr>))"
  by (simp add: call_adapter_def wp_simps split: sum.split)

lemma wp_send_new:
  assumes ok: "chan_ok t" and r: "get_route t (dr_id r) = Some r"
    and c: "get_channel t (dr_channel_id r) = Some c" "ch_lifecycle c = ChannelActive"
  shows "wp (send_new_text E P r content key d)
    (\<lambda>a u. chan_inv t u \<and> one_text t r content key u \<and> at_provider_type a = dr_provider_type r \<and>
       at_route_id a = dr_id r \<and> at_key a = key \<and>
       get_attempt_by_provider_idempotency u (dr_provider_type r) key = Some a)
    (\<lambda>_ u. chan_inv t u \<and> (texts_sent u = texts_sent t \<or> one_text t r content key u)) t"
    (is "wp _ ?Q ?X t")
proof -
  let ?t = "t\<lparr>texts_sent := texts_sent t @ [(r, content, key)]\<rparr>"
  let ?attempt = "\<lambda>res now i.
    \<lparr>at_id = i, at_route_id = dr_id r, at_provider_type = dr_provider_type r, at_key = key,
     at_status = ars_status res, at_provider_message_id = ars_provider_message_id res,
     at_error_code = ars_error_code res, at_attempted_at = now,
     at_delivered_at = (if ars_status res = AttemptDelivered then ars_delivered_at res else None),
     at_created_at = now, at_updated_at = now, at_turn_id = sd_turn_id d, at_message_id = sd_message_id d,
     at_source = sd_source d, at_intent = sd_intent d, at_retry = sd_retry d,
     at_traceparent = sd_traceparent d, at_container = sd_container d,
     at_token_source = sd_token_source d, at_token_age = sd_token_age d,
     at_latency_ms = Some (max 0 (cp_elapsed_ms P))\<rparr>"
  have store: "wp (bind (save_attempt a) (\<lambda>_. ret a)) ?Q ?X (u\<lparr>issued := m\<rparr>)"
    if u: "chan_inv t u" "get_route u = get_route t" "texts_sent u = texts_sent ?t"
      and a: "at_route_id a = dr_id r" "at_provider_type a = dr_provider_type r" "at_key a = key" for a u m
    unfolding wp_bind wp_ret
    by (rule wp_mono [OF wp_save_attempt [where s = t]]) (use u a r in \<open>auto simp: one_text_def\<close>)
  have expiry: "wp (note_session_expiry r res n)
      (\<lambda>_ u. chan_inv t u \<and> get_route u = get_route t \<and> texts_sent u = texts_sent ?t) (\<lambda>_ _. False)
      (?t\<lparr>clock := k\<rparr>)" for res n k
    using wp_note_expiry [of "?t\<lparr>clock := k\<rparr>" r c res n] ok c by simp
  have sent: "wp (bind (py_now E) (\<lambda>now. bind (note_session_expiry r res now) (\<lambda>_. bind (new_id E p) (\<lambda>i. f now i)))) ?Q ?X ?t"
    if f: "\<And>n i. \<exists>a. f n i = bind (save_attempt a) (\<lambda>_. ret a) \<and> at_route_id a = dr_id r \<and>
        at_provider_type a = dr_provider_type r \<and> at_key a = key" for res p f
    unfolding wp_bind wp_py_now wp_new_id
  proof (rule wp_mono [OF expiry], elim conjE)
    fix x u
    assume u: "chan_inv t u" "get_route u = get_route t" "texts_sent u = texts_sent ?t"
    from f obtain a where a: "f (env_now E (clock ?t)) (env_id E p (issued u)) = bind (save_attempt a) (\<lambda>_. ret a)"
      "at_route_id a = dr_id r" "at_provider_type a = dr_provider_type r" "at_key a = key" by blast
    show "wp (f (env_now E (clock ?t)) (env_id E p (issued u))) ?Q ?X (u\<lparr>issued := Suc (issued u)\<rparr>)"
      unfolding a(1) by (rule store [OF u a(2-4)])
  qed simp
  show ?thesis
    unfolding send_new_text_def Let_def wp_bind [of "require_provider _ _"] wp_bind [of "call_adapter _ _ _ _ _"]
      wp_require_provider wp_call_adapter
  proof (split option.split, split sum.split, intro conjI impI allI)
    fix a res
    show "wp (bind (py_now E) (\<lambda>now. bind (note_session_expiry r res now) (\<lambda>_.
        bind (new_id E ''delivery_attempt'') (\<lambda>i. bind (save_attempt (?attempt res now i))
          (\<lambda>_. ret (?attempt res now i)))))) ?Q ?X ?t"
      by (rule sent, intro exI conjI, rule refl) simp_all
  qed (use chan_inv_refl [OF ok] in \<open>simp_all add: one_text_def\<close>)
qed

text \<open>A text that goes out: by the account's connected channel, under a key not used before.\<close>

definition fresh_text :: "chan_state \<Rightarrow> string \<Rightarrow> string \<Rightarrow> string \<Rightarrow> chan_state \<Rightarrow> bool" where
  "fresh_text t account content key u \<longleftrightarrow>
     (\<exists>c r. get_active_channel t account = Some c \<and> ch_connection c = Connected \<and>
        dr_channel_id r = ch_id c \<and> dr_account_id r = account \<and> dr_provider_type r = ch_provider_type c \<and>
        get_attempt_by_provider_idempotency t (ch_provider_type c) key = None \<and> one_text t r content key u)"

definition answered :: "chan_state \<Rightarrow> string \<Rightarrow> string \<Rightarrow> string \<Rightarrow> delivery_attempt \<Rightarrow> chan_state \<Rightarrow> bool" where
  "answered t account content key a u \<longleftrightarrow>
     get_attempt_by_provider_idempotency u (at_provider_type a) key = Some a \<and>
     map_option ch_provider_type (get_active_channel t account) = Some (at_provider_type a) \<and>
     (case get_attempt_by_provider_idempotency t (at_provider_type a) key of
        None \<Rightarrow> fresh_text t account content key u
      | Some b \<Rightarrow> b = a \<and> texts_sent u = texts_sent t)"

lemma answered_again:
  "answered t account content key a u \<Longrightarrow> get_attempt_by_provider_idempotency t (at_provider_type a) key = Some b \<Longrightarrow>
    a = b \<and> texts_sent u = texts_sent t"
  by (simp add: answered_def)

lemma answered_channel:
  "answered t account content key a u \<Longrightarrow> get_active_channel t account = Some c \<Longrightarrow>
    at_provider_type a = ch_provider_type c"
  by (simp add: answered_def)

lemma wp_send_text:
  assumes ok: "chan_ok t"
  shows "wp (send_text E P account content key d)
    (\<lambda>a u. chan_inv t u \<and> answered t account content key a u)
    (\<lambda>_ u. chan_inv t u \<and> (texts_sent u = texts_sent t \<or> fresh_text t account content key u)) t"
    (is "wp _ ?Q ?X t")
proof -
  have go: "wp (case existing of Some a \<Rightarrow> replayed_attempt account key r a
        | None \<Rightarrow> send_new_text E P r content key d) ?Q ?X u"
    if c: "get_active_channel t account = Some c" "ch_connection c = Connected" and r: "routed_on t c u r"
      and existing: "existing = get_attempt_by_provider_idempotency u (dr_provider_type r) key" for c r u existing
  proof -
    have u: "chan_inv t u" "get_route u (dr_id r) = Some r" "dr_channel_id r = ch_id c"
      "dr_account_id r = ch_account_id c" "dr_provider_type r = ch_provider_type c"
      and same: "texts_sent u = texts_sent t" "get_channel u = get_channel t"
      "get_attempt_by_provider_idempotency u = get_attempt_by_provider_idempotency t"
      using r same_channels(2) [of u t]
      by (simp_all add: routed_on_def get_attempt_by_provider_idempotency_def fun_eq_iff)
    have c': "get_channel t (ch_id c) = Some c" "ch_account_id c = account" "ch_lifecycle c = ChannelActive"
      using c(1) active_channel_iff [OF ok] by blast+
    show ?thesis
    proof (cases existing)
      case None
      have "get_channel u (dr_channel_id r) = Some c" using c'(1) same(2) u(3) by simp
      note new = wp_send_new [OF chan_inv_ok [OF u(1)] u(2) this c'(3), of E P content key d]
      have goes: "fresh_text t account content key v" if "one_text u r content key v" for v
        unfolding fresh_text_def using that c u c' None existing same
        by (intro exI [of _ c] exI [of _ r]) (simp add: one_text_def)
      have "wp (send_new_text E P r content key d) ?Q ?X u"
        by (rule wp_mono [OF new])
          (use u same c None existing goes in \<open>auto simp: answered_def intro: chan_inv_trans\<close>)
      with None show ?thesis by simp
    next
      case (Some a)
      have "get_attempt_by_provider_idempotency u (dr_provider_type r) key = Some a"
        using Some existing by simp
      note k = this attempt_of_key [OF chan_inv_ok [OF u(1)] this]
      have "?Q a u" using k u same c Some existing by (simp add: answered_def)
      then show ?thesis
        using u(1) same(1) Some by (simp add: replayed_attempt_def wp_simps)
    qed
  qed
  show ?thesis
    unfolding send_text_def wp_bind wp_gets
    by (rule wp_mono [OF wp_resolve_route [OF ok]]) (auto intro: go)
qed

lemma keeps_send_text [chan_keeps]: "preserves (chan_inv s) (send_text E P account content key d)"
  by (rule chan_keepsI, rule wp_mono [OF wp_send_text]) auto

lemma keeps_resolve_route [chan_keeps]: "preserves (chan_inv s) (resolve_route E account)"
  by (rule chan_keepsI, rule wp_mono [OF wp_resolve_route]) (auto simp: routed_on_def)

lemma keeps_mark_connected [chan_keeps]: "preserves (chan_inv s) (mark_connected E P account i)"
  by (rule chan_keepsI, rule wp_mono [OF wp_mark_connected]) auto

lemma keeps_remove_channel [chan_keeps]: "preserves (chan_inv s) (remove_channel E account i)"
  by (rule chan_keepsI, rule wp_mono [OF wp_remove_channel]) auto

end
