(* ===== verification/ChanAccept.thy ===== *)
theory ChanAccept
  imports ChanSending
begin

text \<open>
  Accepting an inbound message and logging in to personal WeChat: the channel that is left connected
  is the one of the identity the message came from.
\<close>

section \<open>The identity of an address\<close>

definition speaks :: "id_state \<Rightarrow> string \<Rightarrow> string \<Rightarrow> string \<Rightarrow> channel_identity \<Rightarrow> bool" where
  "speaks s ty su account d \<longleftrightarrow>
     get_channel_identity_by_provider s ty su = Some d \<and> same_account_id (ci_account_id d) account"

lemma identity_store_inv: "chan_inv t u \<Longrightarrow> id_ok (identity_store t) \<Longrightarrow> id_inv (identity_store t) (identity_store u)"
  by (simp add: chan_inv_def chan_ok_def chan_ext_def id_inv_def)

lemma speaks_stays:
  assumes "chan_inv t u" "chan_ok t" "speaks (identity_store t) ty su account d"
  shows "speaks (identity_store u) ty su account d"
  using assms identity_stays [OF _ identity_store_inv [OF assms(1)], of ty su d]
  by (simp add: speaks_def chan_ok_def)

lemma channel_stays:
  assumes "chan_inv t u" "get_channel t i = Some c"
  shows "\<exists>d. get_channel u i = Some d \<and> channel_edited c d"
  using assms by (auto simp: chan_inv_def chan_ext_def get_channel_def dest: channels.table_get)

lemma wp_bind_account:
  assumes ok: "id_ok t"
  shows "wp (bind_channel_identity_to_account E P i ty su anchor)
    (\<lambda>r u. id_inv t u \<and> ac_id (ir_account r) = i \<and> speaks u ty su i (ir_identity r)) (\<lambda>_. id_inv t) t"
proof (cases "get_account t i")
  case None
  then show ?thesis
    by (simp add: bind_channel_identity_to_account_def require_account_def wp_simps id_wp id_inv_refl [OF ok])
next
  case (Some a)
  have i: "ac_id a = i" by (rule account_id [OF ok Some])
  have made: "wp (create_channel_identity E i ty su anchor)
      (\<lambda>d u. id_inv t u \<and> speaks u ty su i d) (\<lambda>_. id_inv t) t"
  proof (rule wp_mono [OF wp_create_identity [of t t a E ty su anchor, unfolded i]])
    fix d u
    assume u: "id_inv t u \<and> get_channel_identity_by_provider u ty su = Some d \<and>
      get_account u (ci_account_id d) = Some a"
    then have "ac_id a = ci_account_id d" using account_id id_inv_ok by blast
    with u i show "id_inv t u \<and> speaks u ty su i d" by (simp add: speaks_def same_account_id_def)
  qed (use Some id_inv_refl [OF ok] in simp_all)
  show ?thesis
    unfolding bind_channel_identity_to_account_def require_account_def wp_bind wp_require wp_gets Some option.case
    by (rule wp_mono [OF wp_require_action])
      (auto simp: id_inv_refl [OF ok] wp_raise wp_ret wp_bind i speaks_def split: option.split
        intro!: wp_mono [OF made])
qed

lemma wp_bind_step:
  assumes "chan_inv t u"
    and "\<And>r v. chan_inv t v \<Longrightarrow> chan_inv u v \<Longrightarrow> ac_id (ir_account r) = account \<Longrightarrow>
      speaks (identity_store v) ty su account (ir_identity r) \<Longrightarrow> get_active_channel v = get_active_channel u \<Longrightarrow>
      wp (f r) Q (\<lambda>_. chan_inv t) v"
  shows "wp (bind (bind_identity P account ty su) f) Q (\<lambda>_. chan_inv t) u"
  unfolding bind_identity_def
proof (rule wp_identity_step [OF assms(1), where R = "\<lambda>r i. ac_id (ir_account r) = account \<and>
    speaks i ty su account (ir_identity r)"])
  have "id_ok (identity_store u)" using chan_inv_ok [OF assms(1)] by (simp add: chan_ok_def)
  from wp_bind_account [OF this]
  show "wp (bind_channel_identity_to_account (cp_identity_env P) (cp_identity P) account ty su False)
    (\<lambda>r i. id_inv (identity_store u) i \<and> ac_id (ir_account r) = account \<and> speaks i ty su account (ir_identity r))
    (\<lambda>_. id_inv (identity_store u)) (identity_store u)" by simp
qed (use assms(2) same_channels(1) in blast)

section \<open>The common end\<close>

text \<open>What an accepted message leaves behind.\<close>

definition accepted :: "chan_state \<Rightarrow> normalized_inbound \<Rightarrow> webhook_acceptance \<Rightarrow> bool" where
  "accepted u inbound w \<longleftrightarrow>
     wa_raw_event_id w = ni_raw_event_id inbound \<and>
     (\<exists>c d. get_active_channel u (wa_account_id w) = Some c \<and> ch_id c = wa_channel_id w \<and>
        ch_connection c = Connected \<and> ch_identity_id c = wa_channel_identity_id w \<and>
        speaks (identity_store u) (ni_provider_type inbound) (ni_provider_subject inbound) (wa_account_id w) d \<and>
        ci_id d = wa_channel_identity_id w)"

lemma wp_connect_step:
  assumes inv: "chan_inv t u" and c: "get_active_channel u account = Some c"
    and f: "\<And>d v. chan_inv t v \<Longrightarrow> chan_inv u v \<Longrightarrow> get_active_channel v account = Some d \<Longrightarrow>
      ch_connection d = Connected \<Longrightarrow> ch_id d = ch_id c \<Longrightarrow> ch_identity_id d = ch_identity_id c \<Longrightarrow>
      wp (f d) Q (\<lambda>_. chan_inv t) v"
  shows "wp (bind (if ch_connection c \<noteq> Connected then mark_connected E P account (ch_id c) else ret c) f) Q
    (\<lambda>_. chan_inv t) u"
proof (cases "ch_connection c = Connected")
  case True
  have "wp (f c) Q (\<lambda>_. chan_inv t) u"
    by (rule f [OF inv chan_inv_refl [OF chan_inv_ok [OF inv]] c True refl refl])
  with True show ?thesis by (simp add: wp_bind wp_ret)
next
  case False
  have u: "get_channel u (ch_id c) = Some c" using active_channel_iff [OF chan_inv_ok [OF inv]] c by blast
  have "wp (bind (mark_connected E P account (ch_id c)) f) Q (\<lambda>_. chan_inv t) u"
  proof (rule wp_chan_step [OF inv wp_mark_connected [OF chan_inv_ok [OF inv]]], elim conjE)
    fix d v
    assume v: "chan_inv t v" "chan_inv u v" "get_active_channel v account = Some d" "ch_id d = ch_id c"
      "ch_connection d = Connected"
    have "get_channel v (ch_id c) = Some d" using v(3,4) active_channel_iff [OF chan_inv_ok [OF v(1)]] by metis
    then have "ch_identity_id d = ch_identity_id c"
      using channel_stays [OF v(2) u] by (auto simp: channel_edited_def)
    then show "wp (f d) Q (\<lambda>_. chan_inv t) v" by (intro f v)
  qed
  with False show ?thesis by simp
qed

lemma wp_accept_on_channel:
  assumes inv: "chan_inv t u" and c: "get_active_channel u account = Some c" "ch_identity_id c = ci_id d"
    and d: "speaks (identity_store u) (ni_provider_type inbound) (ni_provider_subject inbound) account d"
  shows "wp (accept_on_channel E P inbound account d created c)
    (\<lambda>w v. chan_inv t v \<and> accepted v inbound w) (\<lambda>_. chan_inv t) u"
  unfolding accept_on_channel_def
proof (rule wp_connect_step [OF inv c(1)], rule wp_identity_keeps, assumption, rule id_keeps)
  fix e v x w
  assume e: "get_active_channel v account = Some e" "ch_connection e = Connected" "ch_id e = ch_id c"
    "ch_identity_id e = ch_identity_id c" and v: "chan_inv u v"
    and w: "chan_inv t w" "chan_inv v w" "channels_by_id w = channels_by_id v"
  have "speaks (identity_store w) (ni_provider_type inbound) (ni_provider_subject inbound) account d"
    by (rule speaks_stays [OF chan_inv_trans [OF v w(2)] chan_inv_ok [OF inv] d])
  with w(1) e c(2) same_channels(1) [OF w(3)]
  show "wp (ret \<lparr>wa_accepted = True, wa_provider_type = ni_provider_type inbound,
          wa_provider_subject = ni_provider_subject inbound, wa_account_id = account,
          wa_channel_identity_id = ci_id d, wa_channel_id = ch_id e, wa_created_account = created,
          wa_raw_event_id = ni_raw_event_id inbound\<rparr>)
        (\<lambda>w v. chan_inv t v \<and> accepted v inbound w) (\<lambda>_. chan_inv t) w"
    by (auto simp: wp_ret accepted_def)
qed

section \<open>Inbound messages\<close>

lemma same_speaker:
  "speaks s ty su account d \<Longrightarrow> speaks s ty su account' d' \<Longrightarrow> d' = d"
  by (simp add: speaks_def)

lemma wp_access_step:
  assumes "chan_inv t u" "wp (f ()) Q (\<lambda>_. chan_inv t) u"
  shows "wp (bind (require_channel_access P account) f) Q (\<lambda>_. chan_inv t) u"
proof -
  have reads: "wp (check_access_for_action (cp_identity P) account x) (\<lambda>_ i. i = s) (\<lambda>_ i. i = s) s" for x s
    by (auto simp: check_access_for_action_def check_access_def id_requires Let_def wp_simps id_wp
        split: option.splits)
  have "wp (require_channel_access P account) (\<lambda>_ v. v = u) (\<lambda>_ v. v = u) u"
    unfolding require_channel_access_def wp_bind wp_identity_call
    by (rule wp_mono [OF reads]) (simp_all add: wp_simps)
  then show ?thesis
    unfolding wp_bind by (rule wp_mono) (use assms in auto)
qed

lemma wp_create_step:
  assumes "chan_inv t u"
    and "\<And>c v. chan_inv t v \<Longrightarrow> chan_inv u v \<Longrightarrow> get_active_channel v account = Some c \<Longrightarrow>
      ch_identity_id c = i \<Longrightarrow> wp (f c) Q (\<lambda>_. chan_inv t) v"
  shows "wp (bind (create_channel E P account ty i b) f) Q (\<lambda>_. chan_inv t) u"
  by (rule wp_chan_step [OF assms(1) wp_create_channel [OF chan_inv_ok [OF assms(1)]]]) (auto intro: assms(2))

text \<open>The channel of the identity \<open>d\<close>, made where the account has none.\<close>

lemma wp_accept_found:
  assumes u: "chan_inv t u" and d: "speaks (identity_store u) (ni_provider_type inbound) (ni_provider_subject inbound) account d"
    and own: "\<And>c. get_active_channel u account = Some c \<Longrightarrow> ch_identity_id c = ci_id d"
  shows "wp (bind (case get_active_channel u account of
        Some c \<Rightarrow> ret c | None \<Rightarrow> create_channel E P account ty (ci_id d) b) (\<lambda>c.
      accept_on_channel E P inbound account d created c))
    (\<lambda>w v. chan_inv t v \<and> accepted v inbound w) (\<lambda>_. chan_inv t) u"
proof (cases "get_active_channel u account")
  case (Some c)
  with wp_accept_on_channel [OF u Some own [OF Some] d] show ?thesis by (simp add: wp_bind wp_ret)
next
  case None
  then show ?thesis
    by (simp only: option.case)
      (rule wp_create_step [OF u], rule wp_accept_on_channel, assumption+,
        rule speaks_stays [OF _ chan_inv_ok [OF u] d], assumption)
qed

lemma wp_accept_session:
  assumes ok: "chan_ok t"
  shows "wp (accept_session_inbound E P inbound owner) (\<lambda>w v. chan_inv t v \<and> accepted v inbound w)
    (\<lambda>_. chan_inv t) t"
proof -
  let ?ty = "ni_provider_type inbound" and ?su = "ni_provider_subject inbound"
  let ?mine = "\<lambda>u. \<forall>c. get_active_channel u owner = Some c \<longrightarrow>
    (\<exists>d. speaks (identity_store u) ?ty ?su owner d \<and> ch_identity_id c = ci_id d)"
  note refl = chan_inv_refl [OF ok]
  have checked: "wp (case get_active_channel t owner of
        None \<Rightarrow> ret ()
      | Some c \<Rightarrow> bind (bind_identity P owner ?ty ?su) (\<lambda>r.
          if ch_identity_id c \<noteq> ci_id (ir_identity r) then chan_error ''active_channel_exists'' else ret ()))
      (\<lambda>_ u. chan_inv t u \<and> ?mine u) (\<lambda>_. chan_inv t) t"
  proof (cases "get_active_channel t owner")
    case None
    then show ?thesis using refl by (simp add: wp_ret)
  next
    case (Some c)
    have "wp (bind (bind_identity P owner ?ty ?su) (\<lambda>r.
          if ch_identity_id c \<noteq> ci_id (ir_identity r) then chan_error ''active_channel_exists'' else ret ()))
      (\<lambda>_ u. chan_inv t u \<and> ?mine u) (\<lambda>_. chan_inv t) t"
      by (rule wp_bind_step [OF refl]) (use Some in \<open>auto simp: wp_ret wp_raise\<close>)
    with Some show ?thesis by simp
  qed
  show ?thesis
    unfolding accept_session_inbound_def wp_bind [of "gets _"] wp_gets Let_def
  proof (rule wp_chan_step [OF refl checked], rule wp_bind_step, assumption)
    fix x u r v
    assume mine: "?mine u" and v: "chan_inv t v" "chan_inv u v" "ac_id (ir_account r) = owner"
      "speaks (identity_store v) ?ty ?su owner (ir_identity r)" "get_active_channel v = get_active_channel u"
      and u: "chan_inv t u"
    have own: "ch_identity_id c = ci_id (ir_identity r)" if c: "get_active_channel v owner = Some c" for c
    proof -
      from mine c v(5) obtain d where d: "speaks (identity_store u) ?ty ?su owner d" "ch_identity_id c = ci_id d" by auto
      have "ir_identity r = d" by (rule same_speaker [OF speaks_stays [OF v(2) chan_inv_ok [OF u] d(1)] v(4)])
      with d(2) show ?thesis by simp
    qed
    show "wp (bind (require_channel_access P (ac_id (ir_account r))) (\<lambda>_.
        bind (gets (\<lambda>s. get_active_channel s (ac_id (ir_account r)))) (\<lambda>found.
        bind (case found of
             Some c \<Rightarrow> ret c
           | None \<Rightarrow> create_channel E P (ac_id (ir_account r)) ?ty (ci_id (ir_identity r)) True) (\<lambda>c.
        accept_on_channel E P inbound (ac_id (ir_account r)) (ir_identity r) False c))))
      (\<lambda>w v. chan_inv t v \<and> accepted v inbound w) (\<lambda>_. chan_inv t) v"
      unfolding v(3)
    proof (rule wp_access_step [OF v(1)])
      show "wp (bind (gets (\<lambda>s. get_active_channel s owner)) (\<lambda>found.
        bind (case found of
             Some c \<Rightarrow> ret c
           | None \<Rightarrow> create_channel E P owner ?ty (ci_id (ir_identity r)) True) (\<lambda>c.
        accept_on_channel E P inbound owner (ir_identity r) False c)))
      (\<lambda>w v. chan_inv t v \<and> accepted v inbound w) (\<lambda>_. chan_inv t) v"
        unfolding wp_bind [of "gets _"] wp_gets by (rule wp_accept_found [OF v(1,4) own])
    qed
  qed
qed

lemma keeps_refuse_second [chan_keeps]: "preserves (chan_inv s) (refuse_second_channel P pairing)"
  unfolding refuse_second_channel_def by (intro preserves_intros chan_keeps id_keeps)

text \<open>As \<open>wp_accept_found\<close>, where a channel of another identity is refused.\<close>

lemma wp_accept_or_refuse:
  assumes u: "chan_inv t u" and d: "speaks (identity_store u) ty su account d"
    and f: "\<And>c v. chan_inv t v \<Longrightarrow> get_active_channel v account = Some c \<Longrightarrow> ch_identity_id c = ci_id d \<Longrightarrow>
      speaks (identity_store v) ty su account d \<Longrightarrow> wp (f c) Q (\<lambda>_. chan_inv t) v"
  shows "wp (bind (case get_active_channel u account of
        None \<Rightarrow> create_channel E P account ty' (ci_id d) b
      | Some c \<Rightarrow> if ch_identity_id c \<noteq> ci_id d then chan_error ''active_channel_exists'' else ret c) f)
    Q (\<lambda>_. chan_inv t) u"
proof (cases "get_active_channel u account")
  case (Some c)
  with u f [OF u Some _ d] show ?thesis by (simp add: wp_bind wp_ret wp_raise)
next
  case None
  then show ?thesis
    by (simp only: option.case)
      (rule wp_create_step [OF u], rule f, assumption+, rule speaks_stays [OF _ chan_inv_ok [OF u] d], assumption)
qed

lemma wp_accept_address:
  assumes ok: "chan_ok t"
  shows "wp (accept_address_inbound E P inbound) (\<lambda>w v. chan_inv t v \<and> accepted v inbound w)
    (\<lambda>_. chan_inv t) t"
  unfolding accept_address_inbound_def Let_def
proof (rule wp_chan_keeps [OF chan_inv_refl [OF ok] keeps_refuse_second],
    rule wp_identity_step [where R = "\<lambda>r i. resolved i (ni_provider_type inbound) (ni_provider_subject inbound) r"],
    assumption)
  fix u
  assume "chan_inv t u"
  then have i: "id_ok (identity_store u)" using chan_inv_ok by (auto simp: chan_ok_def)
  show "wp (resolve_or_create_channel_identity (cp_identity_env P) (cp_identity P) (ni_provider_type inbound)
      (ni_provider_subject inbound) (ni_pairing_code inbound) (ni_sender_display_name inbound))
    (\<lambda>r i. id_inv (identity_store u) i \<and> resolved i (ni_provider_type inbound) (ni_provider_subject inbound) r)
    (\<lambda>_. id_inv (identity_store u)) (identity_store u)"
    by (rule wp_resolve [OF i])
next
  fix r v
  assume v: "chan_inv t v" "resolved (identity_store v) (ni_provider_type inbound) (ni_provider_subject inbound) r"
  have "id_ok (identity_store v)" using chan_inv_ok [OF v(1)] by (simp add: chan_ok_def)
  then have d: "speaks (identity_store v) (ni_provider_type inbound) (ni_provider_subject inbound)
      (ac_id (ir_account r)) (ir_identity r)"
    using v(2) account_id by (auto simp: resolved_def speaks_def same_account_id_def)
  show "wp (bind (require_channel_access P (ac_id (ir_account r))) (\<lambda>_.
      bind (gets (\<lambda>s. get_active_channel s (ac_id (ir_account r)))) (\<lambda>found.
      bind (case found of
             None \<Rightarrow> create_channel E P (ac_id (ir_account r)) (ni_provider_type inbound) (ci_id (ir_identity r))
                       (\<not> ci_is_anchor (ir_identity r))
           | Some c \<Rightarrow>
               if ch_identity_id c \<noteq> ci_id (ir_identity r) then chan_error ''active_channel_exists''
               else ret c) (\<lambda>c.
      accept_on_channel E P inbound (ac_id (ir_account r)) (ir_identity r) (ir_created_account r) c))))
    (\<lambda>w v. chan_inv t v \<and> accepted v inbound w) (\<lambda>_. chan_inv t) v"
    by (rule wp_access_step [OF v(1)], unfold wp_bind [of "gets _"] wp_gets,
        rule wp_accept_or_refuse [OF v(1) d], rule wp_accept_on_channel)
qed

lemma wp_accept:
  assumes ok: "chan_ok t"
  shows "wp (accept_provider_inbound E P inbound) (\<lambda>w v. chan_inv t v \<and> accepted v inbound w)
    (\<lambda>_. chan_inv t) t"
  unfolding accept_provider_inbound_def
proof (rule wp_chan_keeps [OF chan_inv_refl [OF ok]], rule chan_keeps,
    rule wp_chan_keeps, assumption, rule chan_keeps)
  fix u
  assume u: "chan_inv t u"
  note ok' = chan_inv_ok [OF u]
  show "wp (if ni_provider_type inbound = ''wechat_personal''
      then (case ni_account_id inbound of
          Some owner \<Rightarrow> accept_session_inbound E P inbound owner
        | None \<Rightarrow> chan_error ''identity_pairing_required'')
      else accept_address_inbound E P inbound)
    (\<lambda>w v. chan_inv t v \<and> accepted v inbound w) (\<lambda>_. chan_inv t) u"
    using u by (auto simp: wp_raise split: option.split
        intro!: wp_mono [OF wp_accept_session [OF ok']] wp_mono [OF wp_accept_address [OF ok']]
        intro: chan_inv_trans)
qed

lemma keeps_accept [chan_keeps]: "preserves (chan_inv s) (accept_provider_inbound E P inbound)"
  by (rule chan_keepsI, rule wp_mono [OF wp_accept]) auto

section \<open>Logging in to personal WeChat\<close>

lemma keeps_start_login [chan_keeps]: "preserves (chan_inv s) (start_wechat_personal_connection P account)"
  unfolding start_wechat_personal_connection_def by (intro preserves_intros chan_keeps)

lemma keeps_connected_login [chan_keeps]: "preserves (chan_inv s) (connected_login E P account session_id response)"
  unfolding connected_login_def by (intro preserves_intros chan_keeps)

lemma keeps_poll_login [chan_keeps]: "preserves (chan_inv s) (poll_wechat_personal_login E P account session_id)"
  unfolding poll_wechat_personal_login_def by (intro preserves_intros chan_keeps)

end
