(* ===== verification/ChanRuntime.thy ===== *)
theory ChanRuntime
  imports ChanAccept
begin

text \<open>
  The channel reachability service as a state machine, together with the identity service whose store
  it works on: the calls, the step they make, and the states they reach from the empty store.
\<close>

section \<open>Calls and steps\<close>

datatype chan_call =
    OfIdentity id_call
  | CreateChannel string string string bool
  | ConnectChannel string string
  | MarkConnected string string
  | MarkFailed string string
  | MarkReconnection string string
  | RetryConnection string string
  | RemoveChannel string string
  | ResolveRoute string
  | SendText string string string send_details
  | AcceptInbound normalized_inbound
  | StartLogin string
  | PollLogin string string

definition chan_done :: "'a chm \<Rightarrow> unit chm" where
  "chan_done m = bind m (\<lambda>_. ret ())"

fun do_chan_call :: "env \<Rightarrow> chan_ports \<Rightarrow> chan_call \<Rightarrow> unit chm" where
  "do_chan_call E P (OfIdentity c) = identity_call (do_id_call (cp_identity_env P) (cp_identity P) c)"
| "do_chan_call E P (CreateChannel a ty d b) = chan_done (create_channel E P a ty d b)"
| "do_chan_call E P (ConnectChannel a i) = chan_done (connect_channel E P a i)"
| "do_chan_call E P (MarkConnected a i) = chan_done (mark_connected E P a i)"
| "do_chan_call E P (MarkFailed a i) = chan_done (mark_connection_failed E a i)"
| "do_chan_call E P (MarkReconnection a i) = chan_done (mark_reconnection_required E a i)"
| "do_chan_call E P (RetryConnection a i) = chan_done (retry_connection E P a i)"
| "do_chan_call E P (RemoveChannel a i) = chan_done (remove_channel E a i)"
| "do_chan_call E P (ResolveRoute a) = chan_done (resolve_route E a)"
| "do_chan_call E P (SendText a content key d) = chan_done (send_text E P a content key d)"
| "do_chan_call E P (AcceptInbound n) = chan_done (accept_provider_inbound E P n)"
| "do_chan_call E P (StartLogin a) = chan_done (start_wechat_personal_connection P a)"
| "do_chan_call E P (PollLogin a k) = chan_done (poll_wechat_personal_login E P a k)"

text \<open>Providers, the identity service's clock and the time that sending takes answer anew at each call.\<close>

inductive chan_step :: "env \<Rightarrow> chan_state \<Rightarrow> chan_state \<Rightarrow> bool" for E where
  call: "do_chan_call E P c s = (res, t) \<Longrightarrow> chan_step E s t"

inductive_simps chan_step_iff: "chan_step E s t"

inductive chan_reachable :: "env \<Rightarrow> chan_state \<Rightarrow> bool" for E where
  empty: "chan_reachable E empty_chan_state"
| step: "chan_reachable E s \<Longrightarrow> chan_step E s t \<Longrightarrow> chan_reachable E t"

lemma keeps_chan_done: "preserves I m \<Longrightarrow> preserves I (chan_done m)"
  unfolding chan_done_def by (intro preserves_intros)

lemma keeps_chan_call: "preserves (chan_inv s) (do_chan_call E P c)"
  by (cases c) (auto intro!: keeps_chan_done chan_keeps keeps_id_call)

lemma chan_step_inv: "chan_step E s t \<Longrightarrow> chan_ok s \<Longrightarrow> chan_inv s t"
  unfolding chan_step_iff using preserves_run [OF keeps_chan_call] chan_inv_refl by blast

lemma reachable_chan_ok: "chan_reachable E s \<Longrightarrow> chan_ok s"
  by (induction rule: chan_reachable.induct) (auto dest: chan_step_inv chan_inv_ok)

lemma chan_steps_inv: "(chan_step E)\<^sup>*\<^sup>* s t \<Longrightarrow> chan_ok s \<Longrightarrow> chan_inv s t"
proof (induction rule: rtranclp_induct)
  case base
  then show ?case by (rule chan_inv_refl)
next
  case (step t u)
  then have "chan_inv s t" by blast
  with chan_step_inv [OF step.hyps(2) chan_inv_ok] show ?case by (blast intro: chan_inv_trans)
qed

lemma reachable_chan_steps: "chan_reachable E s \<Longrightarrow> (chan_step E)\<^sup>*\<^sup>* s t \<Longrightarrow> chan_reachable E t"
  by (rotate_tac, induction rule: rtranclp_induct) (auto intro: chan_reachable.intros)

text \<open>A run of calls, for the closed examples.\<close>

fun run_chan_calls :: "env \<Rightarrow> chan_ports \<Rightarrow> chan_call list \<Rightarrow> chan_state \<Rightarrow> chan_state" where
  "run_chan_calls E P [] s = s"
| "run_chan_calls E P (c # cs) s = run_chan_calls E P cs (snd (do_chan_call E P c s))"

lemma run_chan_calls_steps: "(chan_step E)\<^sup>*\<^sup>* s (run_chan_calls E P cs s)"
proof (induction cs arbitrary: s)
  case (Cons c cs)
  have "chan_step E s (snd (do_chan_call E P c s))"
    by (rule chan_step.call [where res = "fst (do_chan_call E P c s)"]) simp
  from converse_rtranclp_into_rtranclp [OF this Cons.IH] show ?case by simp
qed simp

lemma reachable_run_chan_calls: "chan_reachable E s \<Longrightarrow> chan_reachable E (run_chan_calls E P cs s)"
  using reachable_chan_steps run_chan_calls_steps by blast

section \<open>What stays as it was\<close>

lemma attempt_stays:
  assumes "chan_ok s" "chan_inv s t" "get_attempt_by_provider_idempotency s ty k = Some a"
  shows "get_attempt_by_provider_idempotency t ty k = Some a"
proof -
  note a = attempt_of_key [OF assms(1,3)]
  have "dget (attempts_by_id t) (at_id a) = Some a"
    using assms(2) a(1) by (auto simp: chan_inv_def chan_ext_def dest: attempts.table_get)
  moreover have "indexed at_id attempt_key (attempts_by_id t) (attempts_by_key t)"
    using assms(2) by (simp add: chan_inv_def chan_ok_def attempts_ok_def)
  ultimately show ?thesis
    using a(2,3) by (simp add: get_attempt_by_provider_idempotency_def indexed_lookup attempt_key_def)
qed

lemma removed_stays:
  assumes "chan_inv s t" "get_channel s i = Some c" "ch_lifecycle c = ChannelRemoved"
  shows "get_channel t i = Some c"
  using channel_stays [OF assms(1,2)] assms(3) by (auto simp: channel_edited_def)

lemma removed_unrouted:
  assumes ok: "chan_ok t" and c: "get_channel t i = Some c" "ch_lifecycle c = ChannelRemoved"
  shows "get_active_route_for_channel t i = None"
proof (rule ccontr)
  assume "get_active_route_for_channel t i \<noteq> None"
  then obtain r where "get_active_route_for_channel t i = Some r" by blast
  note r = active_route [OF ok this]
  from route_key_id [OF ok r(1)] r(2,3) c show False by (auto simp: route_placed_def)
qed

lemma same_attempt:
  assumes "chan_ok t" "dget (attempts_by_id t) i = Some a" "dget (attempts_by_id t) j = Some b"
    and "at_provider_type a = at_provider_type b" "at_key a = at_key b"
  shows "i = j"
proof -
  have ix: "indexed at_id attempt_key (attempts_by_id t) (attempts_by_key t)"
    using assms(1) by (simp add: chan_ok_def attempts_ok_def)
  have "at_id a = i" "at_id b = j" using assms(2,3) indexed_keyed(1) [OF ix] by (auto dest: keyed_get)
  with assms(2-5) indexed_lookup [OF ix, of "attempt_key a" a] indexed_lookup [OF ix, of "attempt_key b" b]
  show ?thesis by (auto simp: attempt_key_def)
qed

end
