(* ===== verification/ConvReplay.thy ===== *)
theory ConvReplay
  imports ConvRuntime
begin

text \<open>
  Idempotency keys of the outbox: a key that is taken stays taken, and an inbound event whose key is
  taken is refused before anything but a new conversation is written.
\<close>

section \<open>A key that is taken stays taken\<close>

definition key_taken :: "string \<Rightarrow> conv_state \<Rightarrow> bool" where
  "key_taken k s \<longleftrightarrow> dget (outbox_by_idempotency_key s) k \<noteq> None"

named_theorems key_keeps \<open>methods that keep the keys of the outbox\<close>

lemma key_keeps_counters [key_keeps]:
  "preserves (key_taken k) (py_now E)" "preserves (key_taken k) (new_id E p)"
  by (simp_all add: preserves_def wp_simps key_taken_def)

lemma keeps_writes [key_keeps]:
  "preserves (key_taken k) (modify (put_conversation c))" "preserves (key_taken k) (modify (put_message m))"
  "preserves (key_taken k) (modify (put_media i))" "preserves (key_taken k) (modify (put_turn t))"
  "preserves (key_taken k) (modify (save_outbox r))" "preserves (key_taken k) (save_disposition d)"
  "preserves (key_taken k) (modify (\<lambda>s. s\<lparr>conversations_by_account := f s\<rparr>))"
  "preserves (key_taken k) (modify (\<lambda>s. s\<lparr>turns_by_trigger_id := g s\<rparr>))"
  "preserves (key_taken k) (modify (\<lambda>s. s\<lparr>messages_by_id := h s\<rparr>))"
  "preserves (key_taken k) (modify (\<lambda>s. s\<lparr>inbound_media_by_id := j s\<rparr>))"
  by (simp_all add: preserves_def wp_simps key_taken_def put_conversation_def put_message_def put_media_def
      put_turn_def save_outbox_def save_disposition_def)

lemma keeps_repository [key_keeps]:
  "preserves (key_taken k) (add_conversation c)" "preserves (key_taken k) (save_conversation c)"
  "preserves (key_taken k) (require_message_id_available mid)" "preserves (key_taken k) (check_outbox_free r)"
  "preserves (key_taken k) (check_media m i)" "preserves (key_taken k) (check_media_update mid p)"
  "preserves (key_taken k) (apply_media_update at p)" "preserves (key_taken k) (add_turn t)"
  "preserves (key_taken k) (save_turn t)" "preserves (key_taken k) (add_outbound_message m)"
  "preserves (key_taken k) (require_outbox e)"
  unfolding add_conversation_def save_conversation_def require_message_id_available_def check_outbox_free_def
    check_media_def check_media_update_def apply_media_update_def add_turn_def save_turn_def
    add_outbound_message_def require_outbox_def
  by (intro preserves_intros key_keeps)+

lemma keeps_store [key_keeps]:
  "preserves (key_taken k) (save_conversation_and_turn c t)" "preserves (key_taken k) (add_outbox r)"
  "preserves (key_taken k) (add_inbound_message_with_media_and_outbox c m ms r)"
  "preserves (key_taken k) (repo_resolve_inbound_media mid resolved us at)"
  "preserves (key_taken k) (mark_outbox_published e at)" "preserves (key_taken k) (mark_outbox_processed e at)"
  unfolding save_conversation_and_turn_def add_outbox_def add_inbound_message_with_media_and_outbox_def
    repo_resolve_inbound_media_def mark_outbox_published_def mark_outbox_processed_def
  by (intro preserves_intros key_keeps)+

lemma keeps_turns [key_keeps]:
  "preserves (key_taken k) (require_conversation c)" "preserves (key_taken k) (require_locked_conversation c)"
  "preserves (key_taken k) (require_turn t)" "preserves (key_taken k) (ensure_turn_can_transition x d)"
  "preserves (key_taken k) (new_disposition E t d why)"
  unfolding require_conversation_def require_locked_conversation_def require_turn_def
    ensure_turn_can_transition_def new_disposition_def
  by (intro preserves_intros key_keeps)+

lemma keeps_transition [key_keeps]: "preserves (key_taken k) (disposition_for_transition E x t d why)"
  unfolding disposition_for_transition_def by (intro preserves_intros key_keeps)

lemma keeps_superseded [key_keeps]: "preserves (key_taken k) (record_superseded E t why)"
  unfolding record_superseded_def write_superseded_def by (intro preserves_intros key_keeps)

lemma keeps_interrupts [key_keeps]: "preserves (key_taken k) (interrupt_turns E ts why)"
  by (induction ts) (simp_all, (intro preserves_intros key_keeps | assumption)+)

lemma keeps_closing [key_keeps]:
  "preserves (key_taken k) (ensure_turn_can_close E t)" "preserves (key_taken k) (save_close_state c t now)"
  "preserves (key_taken k) (add_segments E t now extra segs)"
  unfolding ensure_turn_can_close_def save_close_state_def add_segments_def
  by (intro preserves_intros key_keeps)+

lemma keeps_unless [key_keeps]:
  "preserves (key_taken k) m \<Longrightarrow> preserves (key_taken k) (unless_already x d m)"
  unfolding unless_already_def by (intro preserves_intros)

lemma keeps_recording [key_keeps]: "preserves (key_taken k) (record_inbound E a c e text p trace media)"
  unfolding record_inbound_def record_inbound_in_def find_or_add_conversation_def preserve_media_def
    write_inbound_def
  by (intro preserves_intros key_keeps)

lemma keeps_starting [key_keeps]: "preserves (key_taken k) (start_turn E c trig ty md)"
  unfolding start_turn_def open_window_def by (intro preserves_intros key_keeps)

lemma keeps_commits [key_keeps]:
  "preserves (key_taken k) (commit_reply E t segs why)" "preserves (key_taken k) (commit_no_reply E t why)"
  "preserves (key_taken k) (commit_recovery_reply E t segs why)"
  "preserves (key_taken k) (mark_pending_async_reply E t why)" "preserves (key_taken k) (mark_failed E t why)"
  "preserves (key_taken k) (mark_superseded E t why)"
  "preserves (key_taken k) (interrupt_active_interactive_turns E c why)"
  "preserves (key_taken k) (guard_state_change E t)"
  unfolding commit_reply_def commit_no_reply_def commit_recovery_reply_def mark_pending_async_reply_def
    mark_failed_def mark_superseded_def interrupt_active_interactive_turns_def guard_state_change_def
  by (intro preserves_intros key_keeps)+

lemma keeps_others [key_keeps]:
  "preserves (key_taken k) (resolve_inbound_media E mid t us)"
  "preserves (key_taken k) (record_outbound_message E tid segment i p)"
  "preserves (key_taken k) (enqueue_render_turn E topic key body trace)"
  "preserves (key_taken k) (latest_context_token E c)"
  unfolding resolve_inbound_media_def service_get_message_def record_outbound_message_def enqueue_render_turn_def
    latest_context_token_def latest_context_token_observation_def
  by (intro preserves_intros key_keeps)+

lemma key_stays_call: "key_taken k s \<Longrightarrow> key_taken k (run_call E c s)"
  by (cases c) (auto intro: preservesD [of "key_taken k"] key_keeps)

lemma key_stays: "(conv_step E)\<^sup>*\<^sup>* s t \<Longrightarrow> key_taken k s \<Longrightarrow> key_taken k t"
  by (induction rule: rtranclp_induct) (auto elim!: conv_stepE intro: key_stays_call)

section \<open>Recording under a key that is taken\<close>

text \<open>What is recorded of conversations: all but the conversations themselves and the counters.\<close>

definition same_records :: "conv_state \<Rightarrow> conv_state \<Rightarrow> bool" where
  "same_records s t \<longleftrightarrow>
     messages_by_id t = messages_by_id s \<and> inbound_media_by_id t = inbound_media_by_id s \<and>
     turns_by_id t = turns_by_id s \<and> dispositions_by_turn_id t = dispositions_by_turn_id s \<and>
     outbox_by_id t = outbox_by_id s \<and> outbox_by_idempotency_key t = outbox_by_idempotency_key s"

lemma same_records_refl [simp]: "same_records s s"
  by (simp add: same_records_def)

lemma same_records_trans: "same_records s t \<Longrightarrow> same_records t u \<Longrightarrow> same_records s u"
  by (simp add: same_records_def)

lemma same_records_counters [simp]:
  "same_records s (t\<lparr>clock := n\<rparr>) = same_records s t" "same_records s (t\<lparr>issued := n\<rparr>) = same_records s t"
  "same_records s (put_conversation c t) = same_records s t"
  by (simp_all add: same_records_def put_conversation_def)

lemma recording_refused:
  assumes "key_taken (''inbound:'' @ event) s"
  shows "wp (record_inbound E a c event text p trace media) (\<lambda>_ _. False) (\<lambda>_. same_records s) s"
proof -
  have stop: "wp (add_inbound_message_with_media_and_outbox d m ms (inbound_outbox oid c' now mid event trace ts))
      Q (\<lambda>_. same_records s) t" if "same_records s t" for d m ms oid c' now mid ts t Q
    using that assms
    by (auto simp: add_inbound_message_with_media_and_outbox_def require_message_id_available_def
        check_outbox_free_def inbound_outbox_def same_records_def key_taken_def wp_simps)
  have media: "wp (map_py (preserve_media E mid now) ms) (\<lambda>_. same_records s) (\<lambda>_. same_records s) t"
    if "same_records s t" for mid now ms t
    by (rule wp_map_py) (use that in \<open>simp_all add: preserve_media_def wp_simps\<close>)
  have inner: "wp (record_inbound_in E c' now c event text p trace media) (\<lambda>_ _. False) (\<lambda>_. same_records s) t"
    if "same_records s t" for c' now t
    unfolding record_inbound_in_def wp_bind wp_gets wp_new_id write_inbound_def Let_def
    by (rule wp_mono [OF media]) (use that in \<open>auto intro!: stop\<close>)
  have conversation: "wp (find_or_add_conversation E a now found) (\<lambda>_. same_records s) (\<lambda>_. same_records s) t"
    if "same_records s t" for now found t
    using that
    by (auto simp: find_or_add_conversation_def add_conversation_def wp_simps Let_def split: option.splits)
  show ?thesis
    unfolding record_inbound_def wp_bind wp_gets wp_py_now
    by (rule wp_mono [OF conversation]) (auto intro: inner)
qed

text \<open>A recording that returns has taken its key, and holds the message it was given.\<close>

lemma wp_any_bind:
  assumes "\<And>x t. wp (f x) Q (\<lambda>_ _. True) t"
  shows "wp (bind m f) Q (\<lambda>_ _. True) s"
proof -
  have "wp m (\<lambda>_ _. True) (\<lambda>_ _. True) s" by (auto simp: wp_def split: sum.splits prod.splits)
  then show ?thesis unfolding wp_bind by (rule wp_mono) (simp_all add: assms)
qed

lemma recording_fields:
  "wp (record_inbound E a c event text p trace media)
    (\<lambda>r _. ob_idempotency_key (irr_outbox r) = ''inbound:'' @ event \<and> msg_text (irr_message r) = text \<and>
       causal_inbound_event_id (irr_message r) = Some event \<and> msg_payload (irr_message r) = p)
    (\<lambda>_ _. True) s"
  unfolding record_inbound_def record_inbound_in_def write_inbound_def Let_def
  by (intro wp_any_bind) (simp add: wp_ret inbound_outbox_def inbound_message_def)

lemma recording_takes_key:
  assumes ok: "conv_ok s" and run: "record_inbound E a c event text p trace media s = (Inr r, t)"
  shows "key_taken (''inbound:'' @ event) t" "inbound_recorded a s r t" "msg_text (irr_message r) = text"
    "causal_inbound_event_id (irr_message r) = Some event" "msg_payload (irr_message r) = p"
proof -
  note f = wp_InrD [OF recording_fields run]
  have t: "tracked s t" "inbound_recorded a s r t"
    using wp_InrD [OF wp_record_inbound [OF tracked_refl [OF ok]] run] by blast+
  have ix: "indexed ob_id ob_idempotency_key (outbox_by_id t) (outbox_by_idempotency_key t)"
    using tracked_ok [OF t(1)] by (simp add: conv_ok_def index_ok_def)
  have "irr_outbox r \<in> set (dvalues (outbox_by_id t))" using t(2) by (simp add: inbound_recorded_def Let_def)
  then have "dget (outbox_by_id t) (ob_id (irr_outbox r)) = Some (irr_outbox r)"
    using keyed_values [OF indexed_keyed(1) [OF ix]] by blast
  then show "key_taken (''inbound:'' @ event) t"
    using f indexed_lookup [OF ix, of "''inbound:'' @ event" "irr_outbox r"] by (simp add: key_taken_def)
qed (use wp_InrD [OF recording_fields run] wp_InrD [OF wp_record_inbound [OF tracked_refl [OF ok]] run] in simp_all)

section \<open>Only a key that was taken is refused\<close>

definition key_refusal :: "pyexn \<Rightarrow> bool" where
  "key_refusal e =
     (case e of ConversationRuntimeError code _ \<Rightarrow> code = ''duplicate_outbox_idempotency_key'' | _ \<Rightarrow> False)"

lemma key_refusal_code [simp]:
  "key_refusal (ConversationRuntimeError code f) = (code = ''duplicate_outbox_idempotency_key'')"
  by (simp add: key_refusal_def)

definition never_refuses :: "'a conv \<Rightarrow> bool" where
  "never_refuses m \<longleftrightarrow> (\<forall>s. wp m (\<lambda>_ _. True) (\<lambda>e _. \<not> key_refusal e) s)"

named_theorems never_refuses_rules \<open>computations that do not refuse a key\<close>

lemma never_refuses_basic [never_refuses_rules]:
  "never_refuses (ret x)" "never_refuses (gets f)" "never_refuses (modify g)" "never_refuses (py_now E)"
  "never_refuses (new_id E p)" "never_refuses (save_disposition d)"
  by (simp_all add: never_refuses_def wp_simps save_disposition_def)

lemma never_refuses_raise [never_refuses_rules]: "\<not> key_refusal e \<Longrightarrow> never_refuses (raise e)"
  by (simp add: never_refuses_def wp_simps)

lemma never_refuses_bind [never_refuses_rules]:
  assumes "never_refuses m" "\<And>x. never_refuses (f x)"
  shows "never_refuses (bind m f)"
  unfolding never_refuses_def wp_bind
  by (intro allI, rule wp_mono [OF assms(1) [unfolded never_refuses_def, rule_format]])
    (use assms(2) in \<open>auto simp: never_refuses_def\<close>)

lemma never_refuses_branches [never_refuses_rules]:
  "(b \<Longrightarrow> never_refuses m) \<Longrightarrow> (\<not> b \<Longrightarrow> never_refuses n) \<Longrightarrow> never_refuses (if b then m else n)"
  "never_refuses a \<Longrightarrow> (\<And>y. never_refuses (f y)) \<Longrightarrow>
     never_refuses (case x of None \<Rightarrow> a | Some y \<Rightarrow> f y)"
  "never_refuses (h x) \<Longrightarrow> never_refuses (let y = x in h y)"
  by (simp_all split: option.split)

lemma never_refuses_for_each [never_refuses_rules]:
  "(\<And>x. never_refuses (f x)) \<Longrightarrow> never_refuses (for_each xs f)"
  by (induction xs) (simp_all add: never_refuses_rules)

lemma never_refuses_error [never_refuses_rules]:
  "code \<noteq> ''duplicate_outbox_idempotency_key'' \<Longrightarrow> never_refuses (conv_error code)"
  by (rule never_refuses_raise) (simp add: key_refusal_def)

lemma never_refuses_store [never_refuses_rules]:
  "never_refuses (save_conversation c)" "never_refuses (require_message_id_available mid)"
  "never_refuses (check_media m i)" "never_refuses (save_turn t)" "never_refuses (require_conversation cid)"
  unfolding save_conversation_def require_message_id_available_def check_media_def save_turn_def
    require_conversation_def
  by (intro never_refuses_rules; simp)+

lemma never_refuses_superseded [never_refuses_rules]: "never_refuses (record_superseded E t why)"
  unfolding record_superseded_def write_superseded_def disposition_for_transition_def new_disposition_def
  by (intro never_refuses_rules)

lemma never_refuses_interrupts [never_refuses_rules]: "never_refuses (interrupt_turns E ts why)"
  by (induction ts) (simp_all, (intro never_refuses_rules | assumption)+)

lemma refusal_means_taken:
  "wp (record_inbound E a c event text p trace media) (\<lambda>_ _. True)
    (\<lambda>e _. key_refusal e \<longrightarrow> key_taken (''inbound:'' @ event) s) s"
proof -
  define k where "k = ''inbound:'' @ event"
  have key: "ob_idempotency_key (inbound_outbox oid c' now mid event trace ts) = k" for oid c' now mid ts
    by (simp add: k_def inbound_outbox_def)
  let ?X = "\<lambda>e _. key_refusal e \<longrightarrow> key_taken k s"
  have silent: "wp m (\<lambda>_ _. True) ?X t" if "never_refuses m" for m :: "'x conv" and t
    by (rule wp_mono [OF that [unfolded never_refuses_def, rule_format]]) simp_all
  have silent2: "wp m (\<lambda>x. wp (f x) (\<lambda>_ _. True) ?X) ?X t"
    if "never_refuses m" "\<And>x. never_refuses (f x)" for m :: "'x conv" and f :: "'x \<Rightarrow> 'y conv" and t
    using silent [OF never_refuses_bind [OF that]] by (simp only: wp_bind)
  have stop: "wp (add_inbound_message_with_media_and_outbox d m ms (inbound_outbox oid c' now mid event trace ts))
      (\<lambda>x. wp (f x) (\<lambda>_ _. True) ?X) ?X t" if t: "same_records s t" and f: "\<And>x. never_refuses (f x)"
    for d m ms oid c' now mid ts t and f :: "unit \<Rightarrow> 'x conv"
  proof -
    have tail: "wp (bind (for_each ms (check_media m)) (\<lambda>_.
          bind (gets (\<lambda>s. get_conversation s (conv_id d))) (g :: conversation option \<Rightarrow> unit conv)))
        (\<lambda>_. wp (f ()) (\<lambda>_ _. True) ?X) ?X t" if "\<And>x. never_refuses (g x)" for g
      by (rule silent2) (intro never_refuses_rules that f)+
    have taken: "key_taken k s" if "dget (outbox_by_idempotency_key t) k \<noteq> None"
      using t that by (simp add: same_records_def key_taken_def)
    show ?thesis
      unfolding add_inbound_message_with_media_and_outbox_def check_outbox_free_def require_message_id_available_def
        wp_if wp_bind [of "gets _"] wp_bind [of "if _ then _ else _"] wp_bind [of "bind _ _"] wp_gets wp_raise wp_ret
      using taken
      by (auto simp: key intro!: tail never_refuses_rules)
  qed
  have media: "wp (map_py (preserve_media E mid now) ms) (\<lambda>_. same_records s) (\<lambda>_ _. False) t"
    if "same_records s t" for mid now ms t
    by (rule wp_map_py) (use that in \<open>simp_all add: preserve_media_def wp_simps\<close>)
  have inner: "wp (record_inbound_in E c' now c event text p trace media) (\<lambda>_ _. True) ?X t"
    if "same_records s t" for c' now t
    unfolding record_inbound_in_def wp_bind [of "gets _"] wp_bind [of "new_id _ _"] wp_bind [of "map_py _ _"]
      wp_gets wp_new_id write_inbound_def Let_def wp_bind [of "add_inbound_message_with_media_and_outbox _ _ _ _"]
    by (rule wp_mono [OF media]) (use that in \<open>auto intro!: stop never_refuses_rules\<close>)
  have conversation: "wp (find_or_add_conversation E a now found) (\<lambda>_. same_records s) (\<lambda>e _. \<not> key_refusal e) t"
    if "same_records s t" for now found t
    using that
    by (auto simp: find_or_add_conversation_def add_conversation_def wp_simps Let_def
        split: option.splits)
  show ?thesis
    unfolding record_inbound_def wp_bind wp_gets wp_py_now k_def [symmetric]
    by (rule wp_mono [OF conversation]) (auto intro: inner)
qed

end
