(* ===== verification/Tracing.thy ===== *)
theory Tracing
  imports CokePrelude
begin

text \<open>
  W3C trace contexts, as \<open>src/coke/infra/tracing.py\<close> checks and makes them. The random producers are
  parameters: their values in the order in which they are asked.
\<close>

definition lower_hex :: "nat \<Rightarrow> string \<Rightarrow> bool" where
  "lower_hex n s \<longleftrightarrow> length s = n \<and> list_all (\<lambda>c. c \<in> set ''0123456789abcdef'') s"

text \<open>\<open>_TRACEPARENT_RE\<close>: version, trace id, span id and flags, separated by dashes.\<close>

definition traceparent_parts :: "string \<Rightarrow> (string \<times> string \<times> string \<times> string) option" where
  "traceparent_parts v =
     (let version = take 2 v; trace_id = take 32 (drop 3 v); span_id = take 16 (drop 36 v); flags = drop 53 v in
      if v = version @ ''-'' @ trace_id @ ''-'' @ span_id @ ''-'' @ flags \<and>
         lower_hex 2 version \<and> lower_hex 32 trace_id \<and> lower_hex 16 span_id \<and> lower_hex 2 flags
      then Some (version, trace_id, span_id, flags) else None)"

definition zeros :: "nat \<Rightarrow> string" where
  "zeros n = replicate n CHR ''0''"

definition is_valid_traceparent :: "string option \<Rightarrow> bool" where
  "is_valid_traceparent value =
     (case value of
        None \<Rightarrow> False
      | Some v \<Rightarrow>
          (case traceparent_parts v of
             None \<Rightarrow> False
           | Some (version, trace_id, span_id, _) \<Rightarrow>
               version \<noteq> ''ff'' \<and> trace_id \<noteq> zeros 32 \<and> span_id \<noteq> zeros 16))"

definition extract_trace_id :: "string \<Rightarrow> pyexn + string" where
  "extract_trace_id v =
     (case traceparent_parts v of
        Some (_, trace_id, _, _) \<Rightarrow>
          if is_valid_traceparent (Some v) then Inr trace_id else Inl (ValueError ''Invalid W3C traceparent'')
      | None \<Rightarrow> Inl (ValueError ''Invalid W3C traceparent''))"

definition max_generation_attempts :: nat where
  "max_generation_attempts = 16"

text \<open>The loop over the attempts: \<open>n\<close> are left, and the producer is asked for its \<open>i\<close>-th value.\<close>

fun nonzero_hex :: "nat \<Rightarrow> nat \<Rightarrow> (nat \<Rightarrow> string) \<Rightarrow> string \<Rightarrow> string \<Rightarrow> pyexn + string" where
  "nonzero_hex 0 i producer zero_value label =
     Inl (RuntimeError (''Unable to generate non-zero '' @ label))"
| "nonzero_hex (Suc n) i producer zero_value label =
     (if \<not> lower_hex (length zero_value) (producer i)
      then Inl (RuntimeError (label @ '' producer emitted invalid hex''))
      else if producer i \<noteq> zero_value then Inr (producer i)
      else nonzero_hex n (Suc i) producer zero_value label)"

definition new_trace_id :: "(nat \<Rightarrow> string) \<Rightarrow> pyexn + string" where
  "new_trace_id producer = nonzero_hex max_generation_attempts 0 producer (zeros 32) ''trace ID''"

definition new_span_id :: "(nat \<Rightarrow> string) \<Rightarrow> pyexn + string" where
  "new_span_id producer = nonzero_hex max_generation_attempts 0 producer (zeros 16) ''span ID''"

definition generate_traceparent :: "(nat \<Rightarrow> string) \<Rightarrow> (nat \<Rightarrow> string) \<Rightarrow> bool \<Rightarrow> pyexn + string" where
  "generate_traceparent uuids tokens sampled =
     sbind (new_trace_id uuids) (\<lambda>trace_id.
     sbind (new_span_id tokens) (\<lambda>span_id.
     Inr (''00-'' @ trace_id @ ''-'' @ span_id @ ''-'' @ (if sampled then ''01'' else ''00''))))"

definition ensure_traceparent :: "(nat \<Rightarrow> string) \<Rightarrow> (nat \<Rightarrow> string) \<Rightarrow> string option \<Rightarrow> pyexn + string" where
  "ensure_traceparent uuids tokens traceparent =
     (case traceparent of
        None \<Rightarrow> generate_traceparent uuids tokens True
      | Some v \<Rightarrow>
          if is_valid_traceparent (Some v) then Inr v else Inl (ValueError ''Invalid W3C traceparent''))"

section \<open>What is made is valid\<close>

lemma nonzero_hex_result:
  "nonzero_hex n i producer zero_value label = Inr v \<Longrightarrow> lower_hex (length zero_value) v \<and> v \<noteq> zero_value"
  by (induction n i producer zero_value label rule: nonzero_hex.induct) (auto split: if_splits)

lemma traceparent_of_parts:
  assumes "lower_hex 2 a" "lower_hex 32 b" "lower_hex 16 c" "lower_hex 2 d"
  shows "traceparent_parts (a @ ''-'' @ b @ ''-'' @ c @ ''-'' @ d) = Some (a, b, c, d)"
  using assms by (simp add: traceparent_parts_def lower_hex_def Let_def)

lemma generated:
  assumes "generate_traceparent uuids tokens sampled = Inr v"
  shows "\<exists>b c d. v = ''00-'' @ b @ ''-'' @ c @ ''-'' @ d \<and> traceparent_parts v = Some (''00'', b, c, d) \<and>
    new_trace_id uuids = Inr b \<and> b \<noteq> zeros 32 \<and> c \<noteq> zeros 16"
proof -
  obtain b c where b: "new_trace_id uuids = Inr b" and c: "new_span_id tokens = Inr c"
    and v: "v = ''00-'' @ b @ ''-'' @ c @ ''-'' @ (if sampled then ''01'' else ''00'')"
    using assms by (auto simp: generate_traceparent_def sbind_def split: sum.splits)
  have "lower_hex 32 b \<and> b \<noteq> zeros 32" "lower_hex 16 c \<and> c \<noteq> zeros 16"
    using b c nonzero_hex_result by (fastforce simp: new_trace_id_def new_span_id_def zeros_def)+
  moreover have "lower_hex 2 ''00''" "lower_hex 2 (if sampled then ''01'' else ''00'')"
    by (simp_all add: lower_hex_def)
  ultimately have "traceparent_parts (''00'' @ ''-'' @ b @ ''-'' @ c @ ''-'' @ (if sampled then ''01'' else ''00'')) =
      Some (''00'', b, c, if sampled then ''01'' else ''00'')" "b \<noteq> zeros 32" "c \<noteq> zeros 16"
    using traceparent_of_parts by blast+
  with v b show ?thesis by auto
qed

lemma ensured_valid:
  assumes "ensure_traceparent uuids tokens given = Inr v"
  shows "is_valid_traceparent (Some v) \<and> (\<exists>b. extract_trace_id v = Inr b) \<and> (given \<noteq> None \<longrightarrow> given = Some v) \<and>
    (given = None \<longrightarrow> extract_trace_id v = new_trace_id uuids)"
proof (cases given)
  case None
  from generated [of uuids tokens True v] assms None show ?thesis
    by (auto simp: ensure_traceparent_def is_valid_traceparent_def extract_trace_id_def)
next
  case (Some w)
  with assms show ?thesis
    by (auto simp: ensure_traceparent_def is_valid_traceparent_def extract_trace_id_def split: if_splits option.splits)
qed

end
