(* ===== verification/Webhook.thy ===== *)
theory Webhook
  imports Providers ChanRuntime ConvReplay Tracing
begin

text \<open>
  The webhooks of \<open>src/coke/api/provider_webhooks.py\<close>: where a provider's adapter, the channel service
  and the conversation runtime meet. Their stores are the two fields of the state.
\<close>

section \<open>The handler\<close>

record web_state =
  web_channels :: chan_state
  web_conversations :: conv_state

type_synonym 'a web = "(web_state, 'a) py"

definition in_channels :: "'a chm \<Rightarrow> 'a web" where
  "in_channels m = (\<lambda>s. case m (web_channels s) of (r, t) \<Rightarrow> (r, s\<lparr>web_channels := t\<rparr>))"

definition in_conversations :: "'a conv \<Rightarrow> 'a web" where
  "in_conversations m = (\<lambda>s. case m (web_conversations s) of (r, t) \<Rightarrow> (r, s\<lparr>web_conversations := t\<rparr>))"

text \<open>
  The blueprint's arguments: the secret, the attribute of the application's settings that replaces it,
  the registry, whether the conversation runtime is there, and what the commit callback does.
\<close>

record web_config =
  wk_secret :: "string option"
  wk_settings_secret :: pyval
  wk_providers :: "(string, provider) dict"
  wk_records :: bool
  wk_commit :: "(pyexn + unit) option"

text \<open>
  A request: its headers by name, its body if it is JSON, the adapter's clock, and the random values
  that a new trace context is made of.
\<close>

record web_request =
  rq_header :: "string \<Rightarrow> string option"
  rq_json :: "json option"
  rq_now :: datetime
  rq_uuids :: "nat \<Rightarrow> string"
  rq_tokens :: "nat \<Rightarrow> string"

record web_response =
  wr_status :: int
  wr_body :: fact

definition nonblank :: "string \<Rightarrow> string option" where
  "nonblank s = (if py_strip s \<noteq> [] then Some (py_strip s) else None)"

definition configured_webhook_secret :: "web_config \<Rightarrow> string option" where
  "configured_webhook_secret cfg =
     (case wk_secret cfg of
        Some s \<Rightarrow> nonblank s
      | None \<Rightarrow> (case wk_settings_secret cfg of PyStr s \<Rightarrow> nonblank s | _ \<Rightarrow> None))"

definition secret_headers :: "string list" where
  "secret_headers =
     [''X-Coke-Webhook-Secret'', ''X-Webhook-Secret'', ''X-Webhook-Token'', ''X-Evolution-Webhook-Secret'']"

definition presented_webhook_secrets :: "web_request \<Rightarrow> string list" where
  "presented_webhook_secrets rq =
     (let values = map py_strip (filter (\<lambda>v. v \<noteq> []) (List.map_filter (rq_header rq) secret_headers));
          authorization = given_text (rq_header rq ''Authorization'');
          bearer = (if starts_with ''Bearer '' authorization then [py_strip (drop 7 authorization)] else [])
      in filter (\<lambda>v. v \<noteq> []) (values @ bearer))"

definition require_webhook_secret :: "web_config \<Rightarrow> web_request \<Rightarrow> pyexn + unit" where
  "require_webhook_secret cfg rq =
     (case configured_webhook_secret cfg of
        None \<Rightarrow> Inr ()
      | Some expected \<Rightarrow>
          if list_ex (\<lambda>presented. presented = expected) (presented_webhook_secrets rq) then Inr ()
          else Inl (ChannelReachabilityError ''webhook_unauthorized'' None))"

definition invalid_request :: "string \<Rightarrow> string \<Rightarrow> pyexn" where
  "invalid_request location reason =
     ChannelReachabilityError ''invalid_request''
       (Some [(''type'', PyStr ''invalid_request''), (''location'', PyStr location), (''reason'', PyStr reason)])"

definition request_traceparent :: "web_request \<Rightarrow> pyexn + string" where
  "request_traceparent rq =
     (case ensure_traceparent (rq_uuids rq) (rq_tokens rq) (rq_header rq ''traceparent'') of
        Inr v \<Rightarrow> Inr v
      | Inl e \<Rightarrow> if is_value_error e then Inl (invalid_request ''traceparent'' ''invalid_traceparent'') else Inl e)"

definition json_payload :: "web_request \<Rightarrow> pyexn + body" where
  "json_payload rq =
     (case rq_json rq of
        Some (JDict d) \<Rightarrow> Inr d
      | _ \<Rightarrow> Inl (invalid_request ''body'' ''json_body_required''))"

text \<open>The first half of \<open>_handle_inbound\<close>, which only reads: the event that the request brings.\<close>

definition webhook_event :: "web_config \<Rightarrow> string \<Rightarrow> web_request \<Rightarrow> pyexn + normalized_inbound" where
  "webhook_event cfg ty rq =
     sbind (require_webhook_secret cfg rq) (\<lambda>_.
     case dget (wk_providers cfg) ty of
       None \<Rightarrow> Inl (ChannelReachabilityError ''unsupported_provider'' None)
     | Some p \<Rightarrow>
         if ty \<notin> set product_channel_types
         then
           Inl (ChannelReachabilityError ''unsupported_product_channel''
             (Some [(''type'', PyStr ''unsupported_product_channel''), (''provider_type'', PyStr ty),
                    (''supported_provider_types'', PyList (map PyStr product_channel_types))]))
         else sbind (json_payload rq) (pv_normalize p (rq_now rq)))"

definition idempotent_inbound_replay_codes :: "string list" where
  "idempotent_inbound_replay_codes = [''duplicate_outbox_idempotency_key'']"

definition replay_code :: "pyexn \<Rightarrow> bool" where
  "replay_code e =
     (case e of ConversationRuntimeError code _ \<Rightarrow> code \<in> set idempotent_inbound_replay_codes | _ \<Rightarrow> False)"

text \<open>The second half: the event is accepted, recorded and acknowledged; a replay is acknowledged as well.\<close>

definition record_event ::
  "env \<Rightarrow> web_request \<Rightarrow> normalized_inbound \<Rightarrow> webhook_acceptance \<Rightarrow> unit web" where
  "record_event E rq inbound w =
     catch
       (bind (lift (request_traceparent rq)) (\<lambda>traceparent.
        bind (in_conversations (record_inbound E (wa_account_id w) (wa_channel_identity_id w) (wa_raw_event_id w)
                (Some (ni_text inbound)) (case ni_payload inbound of None \<Rightarrow> [] | Some p \<Rightarrow> p) traceparent
                (ni_media inbound))) (\<lambda>_. ret ())))
       (\<lambda>e. if replay_code e then ret () else raise e)"

definition acceptance_body :: "webhook_acceptance \<Rightarrow> fact" where
  "acceptance_body w =
     [(''accepted'', PyBool (wa_accepted w)), (''provider_type'', PyStr (wa_provider_type w)),
      (''provider_subject'', PyStr (wa_provider_subject w)), (''account_id'', PyStr (wa_account_id w)),
      (''channel_identity_id'', PyStr (wa_channel_identity_id w)), (''channel_id'', PyStr (wa_channel_id w)),
      (''created_account'', PyBool (wa_created_account w)), (''raw_event_id'', PyStr (wa_raw_event_id w))]"

definition accept_event ::
  "env \<Rightarrow> chan_ports \<Rightarrow> web_config \<Rightarrow> web_request \<Rightarrow> normalized_inbound \<Rightarrow> web_response web" where
  "accept_event E P cfg rq inbound =
     bind (in_channels (accept_provider_inbound E P inbound)) (\<lambda>w.
     bind (if wk_records cfg
           then
             bind (record_event E rq inbound w) (\<lambda>_.
             case wk_commit cfg of None \<Rightarrow> ret () | Some r \<Rightarrow> lift r)
           else ret ()) (\<lambda>_.
     ret \<lparr>wr_status = 202, wr_body = acceptance_body w\<rparr>))"

definition handle_inbound ::
  "env \<Rightarrow> chan_ports \<Rightarrow> web_config \<Rightarrow> string \<Rightarrow> web_request \<Rightarrow> web_response web" where
  "handle_inbound E P cfg ty rq = bind (lift (webhook_event cfg ty rq)) (accept_event E P cfg rq)"

definition status_code :: "string \<Rightarrow> int" where
  "status_code code = (if code \<in> {''unauthorized'', ''webhook_unauthorized''} then 401 else 400)"

definition error_body :: "string \<Rightarrow> fact option \<Rightarrow> fact" where
  "error_body code f =
     [(''error'', PyDict ((''code'', PyStr code) # (case f of None \<Rightarrow> [] | Some x \<Rightarrow> [(''fact'', PyDict x)])))]"

text \<open>A route of the blueprint, with its error handler; any other exception is the server's 500.\<close>

definition provider_webhook ::
  "env \<Rightarrow> chan_ports \<Rightarrow> web_config \<Rightarrow> string \<Rightarrow> web_request \<Rightarrow> web_response web" where
  "provider_webhook E P cfg ty rq =
     catch (handle_inbound E P cfg ty rq) (\<lambda>e.
       case e of
         ChannelReachabilityError code f \<Rightarrow> ret \<lparr>wr_status = status_code code, wr_body = error_body code f\<rparr>
       | _ \<Rightarrow> raise e)"

definition webhook_routes :: "(string, string) dict" where
  "webhook_routes =
     [(''/webhooks/whatsapp/evolution'', ''whatsapp_evolution''), (''/webhooks/wechat/personal'', ''wechat_personal''),
      (''/webhooks/wechat/ecloud'', ''wechat_ecloud''), (''/webhooks/linq'', ''linq'')]"

section \<open>The system\<close>

text \<open>
  The two services and the webhooks in any order: a step is a call of the channel or identity service, a
  call of the conversation runtime, or a request to a webhook.
\<close>

inductive web_step :: "env \<Rightarrow> web_state \<Rightarrow> web_state \<Rightarrow> bool" for E where
  channel: "chan_step E (web_channels s) c \<Longrightarrow> web_step E s (s\<lparr>web_channels := c\<rparr>)"
| conversation: "conv_step E (web_conversations s) c \<Longrightarrow> web_step E s (s\<lparr>web_conversations := c\<rparr>)"
| webhook: "provider_webhook E P cfg ty rq s = (res, t) \<Longrightarrow> web_step E s t"

inductive_cases web_stepE: "web_step E s t"

definition empty_web_state :: web_state where
  "empty_web_state = \<lparr>web_channels = empty_chan_state, web_conversations = empty_conv_state\<rparr>"

definition web_reachable :: "env \<Rightarrow> web_state \<Rightarrow> bool" where
  "web_reachable E s \<longleftrightarrow> (web_step E)\<^sup>*\<^sup>* empty_web_state s"

section \<open>Running a request\<close>

lemma wp_in_channels:
  "wp (in_channels m) Q X s =
     wp m (\<lambda>x t. Q x (s\<lparr>web_channels := t\<rparr>)) (\<lambda>e t. X e (s\<lparr>web_channels := t\<rparr>)) (web_channels s)"
  by (simp add: wp_def in_channels_def split: prod.splits sum.splits)

lemma wp_in_conversations:
  "wp (in_conversations m) Q X s =
     wp m (\<lambda>x t. Q x (s\<lparr>web_conversations := t\<rparr>)) (\<lambda>e t. X e (s\<lparr>web_conversations := t\<rparr>)) (web_conversations s)"
  by (simp add: wp_def in_conversations_def split: prod.splits sum.splits)

lemma wp_final: "wp m (\<lambda>_ t. t = snd (m s)) (\<lambda>_ t. t = snd (m s)) s"
  by (simp add: wp_def split: prod.splits sum.splits)

lemma replay_code_key: "replay_code e = key_refusal e"
  by (cases e) (simp_all add: replay_code_def key_refusal_def idempotent_inbound_replay_codes_def)

lemma traceparent_no_replay: "request_traceparent rq = Inl e \<Longrightarrow> \<not> key_refusal e"
proof -
  have "\<not> key_refusal e'" if "nonzero_hex n i producer z label = Inl e'" for e' n i producer z label
    using that by (induction n i producer z label rule: nonzero_hex.induct) (auto simp: key_refusal_def split: if_splits)
  then show "request_traceparent rq = Inl e \<Longrightarrow> \<not> key_refusal e"
    by (auto simp: request_traceparent_def ensure_traceparent_def generate_traceparent_def new_trace_id_def
        new_span_id_def sbind_def invalid_request_def key_refusal_def split: sum.splits option.splits if_splits)
qed

text \<open>
  Recording an event: if it returns, its key is taken; it was taken before, and then nothing was
  recorded, or the message has been recorded now.
\<close>

definition recorded_once :: "string \<Rightarrow> string \<Rightarrow> normalized_inbound \<Rightarrow> conv_state \<Rightarrow> conv_state \<Rightarrow> bool" where
  "recorded_once account event inbound s t \<longleftrightarrow>
     key_taken (''inbound:'' @ event) t \<and>
     (if key_taken (''inbound:'' @ event) s then same_records s t
      else
        \<exists>r. inbound_recorded account s r t \<and> msg_text (irr_message r) = Some (ni_text inbound) \<and>
          causal_inbound_event_id (irr_message r) = Some event)"

lemma wp_record_event:
  assumes ok: "conv_ok (web_conversations s)"
  shows "wp (record_event E rq inbound w)
    (\<lambda>_ t. web_channels t = web_channels s \<and>
       recorded_once (wa_account_id w) (wa_raw_event_id w) inbound (web_conversations s) (web_conversations t))
    (\<lambda>_ t. web_channels t = web_channels s \<and>
       (key_taken (''inbound:'' @ wa_raw_event_id w) (web_conversations s) \<longrightarrow>
          same_records (web_conversations s) (web_conversations t))) s" (is "wp _ ?Q ?X s")
proof -
  let ?e = "wa_raw_event_id w" and ?c = "web_conversations s"
  let ?m = "\<lambda>trace. record_inbound E (wa_account_id w) (wa_channel_identity_id w) ?e (Some (ni_text inbound))
      (case ni_payload inbound of None \<Rightarrow> [] | Some p \<Rightarrow> p) trace (ni_media inbound)"
  have run: "wp (?m trace) (\<lambda>_ t. recorded_once (wa_account_id w) ?e inbound ?c t)
      (\<lambda>e t. (key_refusal e \<longrightarrow> key_taken (''inbound:'' @ ?e) ?c) \<and>
         (key_taken (''inbound:'' @ ?e) ?c \<longrightarrow> same_records ?c t)) ?c" for trace
  proof (cases "?m trace ?c")
    case (Pair res t)
    show ?thesis
    proof (cases res)
      case (Inl e)
      have "key_refusal e \<longrightarrow> key_taken (''inbound:'' @ ?e) ?c"
        by (rule wp_InlD [OF refusal_means_taken Pair [unfolded Inl]])
      moreover have "same_records ?c t" if "key_taken (''inbound:'' @ ?e) ?c"
        by (rule wp_InlD [OF recording_refused [OF that] Pair [unfolded Inl]])
      ultimately show ?thesis using Pair Inl by (simp add: wp_def)
    next
      case (Inr r)
      note f = recording_takes_key [OF ok Pair [unfolded Inr]]
      have "\<not> key_taken (''inbound:'' @ ?e) ?c"
        using wp_InrD [OF recording_refused Pair [unfolded Inr]] by blast
      with f have "recorded_once (wa_account_id w) ?e inbound ?c t" by (auto simp: recorded_once_def)
      then show ?thesis using Pair Inr by (simp add: wp_def)
    qed
  qed
  have caught: "wp (bind (in_conversations (?m trace)) (\<lambda>_. ret ())) ?Q
      (\<lambda>e. wp (if replay_code e then ret () else raise e) ?Q ?X) s" for trace
    unfolding wp_bind wp_ret wp_in_conversations
    by (rule wp_mono [OF run]) (auto simp: replay_code_key wp_ret wp_raise recorded_once_def same_records_def key_taken_def)
  show ?thesis
    unfolding record_event_def wp_catch wp_bind [of "lift _"] wp_lift
    using caught traceparent_no_replay [of rq]
    by (auto simp: replay_code_key wp_raise split: sum.split)
qed

text \<open>Handling an event: as recording it, on the channel that accepting it leaves.\<close>

lemma wp_accept_event:
  assumes channels: "chan_ok (web_channels s)" and conversations: "conv_ok (web_conversations s)" and rec: "wk_records cfg"
  shows "wp (accept_event E P cfg rq inbound)
    (\<lambda>r t. wr_status r = 202 \<and> (\<exists>w. wr_body r = acceptance_body w \<and> accepted (web_channels t) inbound w \<and>
       recorded_once (wa_account_id w) (ni_raw_event_id inbound) inbound (web_conversations s) (web_conversations t)))
    (\<lambda>_ t. key_taken (''inbound:'' @ ni_raw_event_id inbound) (web_conversations s) \<longrightarrow>
       same_records (web_conversations s) (web_conversations t)) s" (is "wp _ ?Q ?X s")
proof -
  have commit: "wp (case wk_commit cfg of None \<Rightarrow> ret () | Some r \<Rightarrow> lift r)
      (\<lambda>_. wp (ret \<lparr>wr_status = 202, wr_body = acceptance_body w\<rparr>) ?Q ?X) ?X t"
    if "accepted (web_channels t) inbound w"
      "recorded_once (wa_account_id w) (ni_raw_event_id inbound) inbound (web_conversations s) (web_conversations t)" for w t
    using that by (auto simp: wp_simps recorded_once_def split: option.split sum.split)
  have recorded: "wp (bind (record_event E rq inbound w) (\<lambda>_. case wk_commit cfg of None \<Rightarrow> ret () | Some r \<Rightarrow> lift r))
      (\<lambda>_. wp (ret \<lparr>wr_status = 202, wr_body = acceptance_body w\<rparr>) ?Q ?X) ?X (s\<lparr>web_channels := u\<rparr>)"
    if w: "accepted u inbound w" for w u
    unfolding wp_bind [of "record_event _ _ _ _"]
  proof (rule wp_mono [OF wp_record_event], goal_cases)
    case 1
    show ?case using conversations by simp
  next
    case (2 x t)
    with w show ?case by (intro commit) (simp_all add: accepted_def)
  next
    case (3 e t)
    with w show ?case by (simp add: accepted_def)
  qed
  show ?thesis
    unfolding accept_event_def wp_bind [of "in_channels _"] wp_bind [of "if _ then _ else _"] wp_in_channels
    by (rule wp_mono [OF wp_accept [OF channels]]) (use rec recorded in simp_all)
qed

lemma wp_webhook:
  assumes "chan_ok (web_channels s)" "conv_ok (web_conversations s)" "wk_records cfg"
    and event: "webhook_event cfg ty rq = Inr inbound"
  shows "wp (provider_webhook E P cfg ty rq)
    (\<lambda>r t. (key_taken (''inbound:'' @ ni_raw_event_id inbound) (web_conversations s) \<longrightarrow>
         same_records (web_conversations s) (web_conversations t)) \<and>
       (wr_status r = 202 \<longrightarrow> (\<exists>w. wr_body r = acceptance_body w \<and> accepted (web_channels t) inbound w \<and>
          recorded_once (wa_account_id w) (ni_raw_event_id inbound) inbound (web_conversations s) (web_conversations t))))
    (\<lambda>_ t. key_taken (''inbound:'' @ ni_raw_event_id inbound) (web_conversations s) \<longrightarrow>
       same_records (web_conversations s) (web_conversations t)) s"
  unfolding provider_webhook_def handle_inbound_def wp_catch wp_bind wp_lift event sum.case
  by (rule wp_mono [OF wp_accept_event [OF assms(1-3)]])
    (auto simp: recorded_once_def wp_ret wp_raise status_code_def split: pyexn.split)

section \<open>Every step of the system is one of its parts' steps\<close>

definition part_steps :: "env \<Rightarrow> web_state \<Rightarrow> web_state \<Rightarrow> bool" where
  "part_steps E s t \<longleftrightarrow>
     (chan_step E)\<^sup>*\<^sup>* (web_channels s) (web_channels t) \<and>
     (conv_step E)\<^sup>*\<^sup>* (web_conversations s) (web_conversations t)"

lemma part_steps_refl [simp]: "part_steps E s s"
  by (simp add: part_steps_def)

lemma part_steps_trans: "part_steps E s t \<Longrightarrow> part_steps E t u \<Longrightarrow> part_steps E s u"
  by (auto simp: part_steps_def)

lemma accept_is_step: "chan_step E c (snd (accept_provider_inbound E P inbound c))"
proof (rule chan_step.call [where P = P and c = "AcceptInbound inbound" and
    res = "fst (do_chan_call E P (AcceptInbound inbound) c)"])
  show "do_chan_call E P (AcceptInbound inbound) c =
      (fst (do_chan_call E P (AcceptInbound inbound) c), snd (accept_provider_inbound E P inbound c))"
    by (simp add: chan_done_def bind_def ret_def split: prod.splits sum.splits)
qed

lemma record_is_step: "conv_step E c (snd (record_inbound E a ch e text p trace media c))"
  using conv_step.call [of E c "RecordInbound a ch e text p trace media"] by simp

lemma keeps_part_steps:
  "preserves (part_steps E s) (in_channels (accept_provider_inbound E P inbound))"
  "preserves (part_steps E s) (in_conversations (record_inbound E a ch e text p trace media))"
proof -
  show "preserves (part_steps E s) (in_channels (accept_provider_inbound E P inbound))"
  proof (rule preservesI)
    fix t
    assume t: "part_steps E s t"
    show "wp (in_channels (accept_provider_inbound E P inbound)) (\<lambda>_. part_steps E s) (\<lambda>_. part_steps E s) t"
      unfolding wp_in_channels
      by (rule wp_mono [OF wp_final])
        (use t accept_is_step in \<open>auto simp: part_steps_def intro: rtranclp.rtrancl_into_rtrancl\<close>)
  qed
  show "preserves (part_steps E s) (in_conversations (record_inbound E a ch e text p trace media))"
  proof (rule preservesI)
    fix t
    assume t: "part_steps E s t"
    show "wp (in_conversations (record_inbound E a ch e text p trace media)) (\<lambda>_. part_steps E s)
        (\<lambda>_. part_steps E s) t"
      unfolding wp_in_conversations
      by (rule wp_mono [OF wp_final])
        (use t record_is_step in \<open>auto simp: part_steps_def intro: rtranclp.rtrancl_into_rtrancl\<close>)
  qed
qed

lemma keeps_webhook: "preserves (part_steps E s) (provider_webhook E P cfg ty rq)"
proof -
  have "preserves (part_steps E s) (case e of
      ChannelReachabilityError code f \<Rightarrow> ret \<lparr>wr_status = status_code code, wr_body = error_body code f\<rparr>
    | _ \<Rightarrow> raise e)" for e
    by (cases e) (simp_all add: preserves_intros)
  then show ?thesis
    unfolding provider_webhook_def handle_inbound_def accept_event_def record_event_def
    by (intro preserves_intros keeps_part_steps)
qed

lemma web_step_parts: "web_step E s t \<Longrightarrow> part_steps E s t"
proof (erule web_stepE)
  fix P cfg ty rq res
  assume "provider_webhook E P cfg ty rq s = (res, t)"
  then show "part_steps E s t" by (rule preserves_run [OF keeps_webhook part_steps_refl])
qed (auto simp: part_steps_def)

lemma web_steps_parts: "(web_step E)\<^sup>*\<^sup>* s t \<Longrightarrow> part_steps E s t"
  by (induction rule: rtranclp_induct) (auto intro: part_steps_trans web_step_parts)

lemma web_reachable_parts:
  assumes "web_reachable E s"
  shows "chan_reachable E (web_channels s)" "reachable E (web_conversations s)"
  using web_steps_parts [OF assms [unfolded web_reachable_def]] reachable_chan_steps [OF chan_reachable.empty]
  by (auto simp: part_steps_def empty_web_state_def reachable_def)

lemma web_reachable_ok:
  assumes "web_reachable E s"
  shows "chan_ok (web_channels s)" "conv_ok (web_conversations s)"
  using web_reachable_parts [OF assms] reachable_chan_ok reachable_ok by blast+

lemma web_key_stays:
  "(web_step E)\<^sup>*\<^sup>* s t \<Longrightarrow> key_taken k (web_conversations s) \<Longrightarrow> key_taken k (web_conversations t)"
  using web_steps_parts [unfolded part_steps_def] by (blast intro: key_stays)

end
