(* ===== verification/IdProperties.thy ===== *)
theory IdProperties
  imports IdRuntime
begin

text \<open>
  The properties of the identity domain, with the closed examples that apply them: Ann registers
  with an e-mail address and a password, and Bob writes from WhatsApp and claims his account in a browser.
\<close>

section \<open>Evaluation\<close>

text \<open>Code equations that run each method on a state, as those of the sequencing do.\<close>

lemmas identity_run_code [code] =
  refuse_if_def [THEN fun_cong] add_account_def [THEN fun_cong] add_activation_def [THEN fun_cong]
  save_activation_def [THEN fun_cong] add_access_def [THEN fun_cong] save_access_def [THEN fun_cong]
  add_user_profile_def [THEN fun_cong] add_credential_def [THEN fun_cong]
  save_credential_def [THEN fun_cong] add_session_def [THEN fun_cong]
  refuse_bound_identity_def [THEN fun_cong] add_channel_identity_def [THEN fun_cong]
  add_artifact_def [THEN fun_cong] save_artifact_def [THEN fun_cong]
  add_channel_identity_and_save_artifact_def [THEN fun_cong] mark_usable_channel_def [THEN fun_cong]
  new_token_def [THEN fun_cong] send_email_def [THEN fun_cong] require_def [THEN fun_cong]
  require_account_def [THEN fun_cong] require_access_def [THEN fun_cong]
  require_user_profile_def [THEN fun_cong] require_activation_def [THEN fun_cong]
  password_hash_def [THEN fun_cong] hash_password_def [THEN fun_cong]
  get_access_status_def [THEN fun_cong] set_access_state_def [THEN fun_cong]
  check_access_def [THEN fun_cong] check_access_for_inbound_def [THEN fun_cong]
  check_access_for_action_def [THEN fun_cong] require_action_def [THEN fun_cong]
  create_account_def [THEN fun_cong] build_channel_identity_def [THEN fun_cong]
  create_channel_identity_def [THEN fun_cong] create_session_def [THEN fun_cong]
  issue_artifact_def [THEN fun_cong] refuse_expired_def [THEN fun_cong]
  require_unconsumed_artifact_def [THEN fun_cong] consumed_now_def [THEN fun_cong]
  consume_artifact_def [THEN fun_cong] artifact_account_def [THEN fun_cong]
  refuse_registered_def [THEN fun_cong] register_web_account_def [THEN fun_cong]
  login_def [THEN fun_cong] current_user_def [THEN fun_cong]
  pair_channel_identity_def [THEN fun_cong] resolve_or_create_channel_identity_def [THEN fun_cong]
  bind_channel_identity_to_account_def [THEN fun_cong]
  can_remove_channel_identity_def [THEN fun_cong] get_owned_channel_identity_def [THEN fun_cong]
  issue_login_url_def [THEN fun_cong] redeem_login_url_def [THEN fun_cong]
  issue_web_claim_code_def [THEN fun_cong] get_claim_code_status_def [THEN fun_cong]
  redeem_claim_code_from_channel_def [THEN fun_cong]
  complete_web_claim_from_browser_def [THEN fun_cong] release_link_def [THEN fun_cong]
  consume_deferred_friend_link_continuations_def [THEN fun_cong]
  require_pairing_allowed_def [THEN fun_cong] issue_pairing_code_def [THEN fun_cong]
  missing_or_expired_def [THEN fun_cong] get_pending_pairing_code_def [THEN fun_cong]
  ensure_pairing_code_def [THEN fun_cong] preview_pairing_code_account_def [THEN fun_cong]
  require_email_auth_def [THEN fun_cong] require_credential_def [THEN fun_cong]
  issue_password_reset_def [THEN fun_cong] reset_password_def [THEN fun_cong]
  verify_email_def [THEN fun_cong] verify_email_and_create_session_def [THEN fun_cong]
  send_artifact_email_def [THEN fun_cong] resend_artifact_def [THEN fun_cong]
  resend_email_verification_def [THEN fun_cong] send_claim_email_def [THEN fun_cong]
  recompute_activation_def [THEN fun_cong] observe_usable_channel_def [THEN fun_cong]
  mark_first_inbound_received_def [THEN fun_cong] mark_first_guidance_sent_def [THEN fun_cong]
  get_display_name_def [THEN fun_cong]

section \<open>A small run\<close>

text \<open>Tokens are their numbers, a password is its own hash, and e-mails arrive.\<close>

definition id_demo_ports :: id_ports where
  "id_demo_ports =
     \<lparr>ip_token = (\<lambda>p n. show_nat n), ip_checkout = (\<lambda>i. i), ip_argon_hash = (\<lambda>n w. w),
      ip_argon_verify = (\<lambda>h w. h = w), ip_send = (\<lambda>_. Inr ()), ip_email_auth = True\<rparr>"

definition id_demo :: "id_call list \<Rightarrow> id_state" where
  "id_demo cs = run_id_calls (demo_env 0) id_demo_ports cs empty_id_state"

lemma id_demo_reachable: "id_reachable (demo_env 0) (id_demo cs)"
  unfolding id_demo_def by (intro reachable_run_id_calls id_reachable.empty)

definition ann_registers :: id_call where
  "ann_registers = Register ''a'' ''p'' None ''UTC''"

definition bob_writes :: id_call where
  "bob_writes = ResolveIdentity ''whatsapp_evolution'' ''b'' None None"

section \<open>The store\<close>

text \<open>
  C25. Whatever calls are made, every credential, session and channel identity belongs to a stored
  account, each e-mail address (in lower case) to one credential, each channel address to one
  identity; an account is allowed exactly if no reason denies it, never when it is suspended or its
  subscription is not active; an artifact is consumed exactly if it is no longer pending, and only a
  claim code has a target account, from its redemption on.
\<close>

theorem identity_store_invariant:
  assumes "id_reachable E s"
  shows "(\<forall>e c. get_credential_by_email s e = Some c \<longrightarrow>
            get_credential_by_account s (cr_account_id c) = Some c \<and> py_lower (cr_email c) = py_lower e \<and>
            get_account s (cr_account_id c) \<noteq> None) \<and>
         (\<forall>token x. get_session_by_token s token = Some x \<longrightarrow>
            se_token x = token \<and> get_account s (se_account_id x) \<noteq> None) \<and>
         (\<forall>ty su d. get_channel_identity_by_provider s ty su = Some d \<longrightarrow>
            get_channel_identity s (ci_id d) = Some d \<and> identity_key d = (ty, su) \<and>
            get_account s (ci_account_id d) \<noteq> None) \<and>
         (\<forall>i a. get_access s i = Some a \<longrightarrow>
            get_account s i \<noteq> None \<and> aa_allowed a = (aa_denial_reason a = None) \<and>
            (aa_allowed a \<longrightarrow> aa_suspension_state a \<noteq> ''suspended'' \<and> aa_subscription_state a = ''active'')) \<and>
         (\<forall>code a. get_artifact_by_code s code = Some a \<longrightarrow>
            ar_code a = code \<and> (ar_consumed_at a \<noteq> None) = (ar_delivery_state a \<noteq> ArtifactPending) \<and>
            (ar_target_account_id a \<noteq> None) = (ar_type a = ClaimCode \<and> ar_consumed_at a \<noteq> None) \<and>
            (\<forall>i. ar_account_id a = Some i \<or> ar_target_account_id a = Some i \<longrightarrow> get_account s i \<noteq> None))"
proof -
  have ok: "id_ok s" by (rule reachable_id_ok [OF assms])
  have se: "se_token x = token \<and> get_account s (se_account_id x) \<noteq> None"
    if "get_session_by_token s token = Some x" for token x
    using ok that by (auto simp: id_ok_def sessions_ok_def get_session_by_token_def has_account_def dest: keyed_get)
  have aa: "get_account s i \<noteq> None \<and> aa_allowed a = (aa_denial_reason a = None) \<and>
      (aa_allowed a \<longrightarrow> aa_suspension_state a \<noteq> ''suspended'' \<and> aa_subscription_state a = ''active'')"
    if "get_access s i = Some a" for i a
    using ok that access_key [OF ok that]
    by (auto simp: id_ok_def accesses_ok_def get_access_def has_account_def access_wf_def)
  show ?thesis
    using credential_of_email [OF ok] identity_of_provider [OF ok] artifact_facts [OF ok] se aa
    by (auto simp: has_account_def artifact_wf_def split: if_splits)
qed

theorem identity_store_invariant_witness:
  "\<exists>c. get_credential_by_email (id_demo [ann_registers]) ''A'' = Some c \<and>
     get_account (id_demo [ann_registers]) (cr_account_id c) \<noteq> None"
proof -
  have "get_credential_by_email (id_demo [ann_registers]) ''A'' \<noteq> None" by code_simp
  then show ?thesis
    using identity_store_invariant [OF id_demo_reachable, of "[ann_registers]"] by blast
qed

text \<open>
  Nothing the service stores is lost or reassigned: an account, a session and a channel
  identity stay as they are, a credential keeps its account, its address and its verification, and
  an artifact its code, kind, owner, expiry, the time it was consumed and the account it was redeemed for.
\<close>

theorem identity_store_only_grows:
  assumes "id_reachable E s" "(id_step E)\<^sup>*\<^sup>* s t"
  shows "(\<forall>i a. get_account s i = Some a \<longrightarrow> get_account t i = Some a) \<and>
         (\<forall>k x. get_session_by_token s k = Some x \<longrightarrow> get_session_by_token t k = Some x) \<and>
         (\<forall>ty su d. get_channel_identity_by_provider s ty su = Some d \<longrightarrow>
            get_channel_identity_by_provider t ty su = Some d) \<and>
         (\<forall>e c. get_credential_by_email s e = Some c \<longrightarrow>
            (\<exists>d. get_credential_by_email t e = Some d \<and> cr_account_id d = cr_account_id c \<and>
               cr_email d = cr_email c \<and> (cr_email_verified_at c \<noteq> None \<longrightarrow> cr_email_verified_at d \<noteq> None))) \<and>
         (\<forall>k a. get_artifact_by_code s k = Some a \<longrightarrow>
            (\<exists>b. get_artifact_by_code t k = Some b \<and> ar_type b = ar_type a \<and> ar_expires_at b = ar_expires_at a \<and>
               ar_account_id b = ar_account_id a \<and> ar_browser_session b = ar_browser_session a \<and>
               (ar_consumed_at a \<noteq> None \<longrightarrow> ar_consumed_at b = ar_consumed_at a \<and>
                  ar_target_account_id b = ar_target_account_id a)))"
proof -
  have ok: "id_ok s" by (rule reachable_id_ok [OF assms(1)])
  have inv: "id_inv s t" by (rule id_steps_inv [OF assms(2) ok])
  have cr: "\<exists>d. get_credential_by_email t e = Some d \<and> cr_account_id d = cr_account_id c \<and>
      cr_email d = cr_email c \<and> (cr_email_verified_at c \<noteq> None \<longrightarrow> cr_email_verified_at d \<noteq> None)"
    if "get_credential_by_email s e = Some c" for e c
    by (rule later_credential [OF ok inv that])
  have ar: "\<exists>b. get_artifact_by_code t k = Some b \<and> ar_type b = ar_type a \<and> ar_expires_at b = ar_expires_at a \<and>
      ar_account_id b = ar_account_id a \<and> ar_browser_session b = ar_browser_session a \<and>
      (ar_consumed_at a \<noteq> None \<longrightarrow> ar_consumed_at b = ar_consumed_at a \<and>
         ar_target_account_id b = ar_target_account_id a)"
    if "get_artifact_by_code s k = Some a" for k a
    using later_artifact [OF ok inv that] by (auto simp: artifact_edited_def)
  show ?thesis
    using account_stays [OF inv] session_stays [OF inv] identity_stays [OF ok inv] cr ar by blast
qed

theorem identity_store_only_grows_witness:
  "\<exists>c d. get_credential_by_email (id_demo [ann_registers]) ''a'' = Some c \<and>
     get_credential_by_email
       (run_id_calls (demo_env 0) id_demo_ports [VerifyEmail ''1''] (id_demo [ann_registers])) ''a'' = Some d \<and>
     cr_account_id d = cr_account_id c"
proof -
  have "get_credential_by_email (id_demo [ann_registers]) ''a'' \<noteq> None" by code_simp
  then show ?thesis
    using identity_store_only_grows [OF id_demo_reachable run_id_calls_steps,
        of "[ann_registers]" id_demo_ports "[VerifyEmail ''1'']"] by blast
qed

section \<open>Artifacts\<close>

text \<open>
  C26. A login link, a password reset, an e-mail verification and a pairing code work once. After a
  use that returned and any later calls, using the code again raises and leaves the store alone: a
  login link and a pairing code raise \<open>artifact_consumed\<close> in every configuration, a reset and a
  verification raise it while e-mail authentication is on, and \<open>email_auth_disabled\<close> while it is off.
\<close>

theorem artifact_used_once:
  assumes "id_reachable E s" "(id_step E)\<^sup>*\<^sup>* t u"
  shows "(\<forall>r. redeem_login_url E P code s = (Inr r, t) \<longrightarrow>
            redeem_login_url E Q code u = (Inl (IdentityAccessError ''artifact_consumed'' None), u)) \<and>
         (\<forall>r. pair_channel_identity E P ty su code s = (Inr r, t) \<longrightarrow>
            pair_channel_identity E Q ty' su' code u = (Inl (IdentityAccessError ''artifact_consumed'' None), u)) \<and>
         (\<forall>r. reset_password E P code w s = (Inr r, t) \<longrightarrow>
            reset_password E Q code w' u = (Inl (IdentityAccessError
              (if ip_email_auth Q then ''artifact_consumed'' else ''email_auth_disabled'') None), u)) \<and>
         (\<forall>r. verify_email E P code s = (Inr r, t) \<longrightarrow>
            verify_email E Q code u = (Inl (IdentityAccessError
              (if ip_email_auth Q then ''artifact_consumed'' else ''email_auth_disabled'') None), u))"
proof -
  have ok: "id_ok s" by (rule reachable_id_ok [OF assms(1)])
  have later: "used u code kind" if "id_inv s t \<and> used t code kind" for kind
    using that id_steps_inv [OF assms(2) id_inv_ok] used_stays by blast
  have "used u code LoginUrl" if "redeem_login_url E P code s = (Inr r, t)" for r
    by (rule later [OF wp_InrD [OF wp_redeem_login [OF ok] that]])
  moreover have "used u code PasswordReset" if "reset_password E P code w s = (Inr r, t)" for r
    by (rule later [OF wp_InrD [OF wp_reset_password [OF ok] that]])
  moreover have "used u code EmailVerification" if "verify_email E P code s = (Inr r, t)" for r
    using wp_InrD [OF wp_verify_email [OF ok] that] by (intro later) simp
  moreover have "used u code PairingCode" if "pair_channel_identity E P ty su code s = (Inr r, t)" for r
    using wp_InrD [OF wp_pair [OF ok] that] by (intro later) simp
  ultimately show ?thesis
    by (cases "ip_email_auth Q") (auto simp: used_everywhere email_auth_off)
qed

definition ann_has_link :: id_state where
  "ann_has_link = id_demo [ann_registers, VerifyEmail ''1'', IssueLogin ''0'']"

theorem artifact_used_once_witness:
  "\<exists>r t. redeem_login_url (demo_env 0) id_demo_ports ''2'' ann_has_link = (Inr r, t) \<and>
     redeem_login_url (demo_env 0) id_demo_ports ''2'' t = (Inl (IdentityAccessError ''artifact_consumed'' None), t)"
proof -
  have "map_sum id rd_account_id (fst (redeem_login_url (demo_env 0) id_demo_ports ''2'' ann_has_link)) = Inr ''0''"
    by code_simp
  from returned [OF this] obtain r where r: "redeem_login_url (demo_env 0) id_demo_ports ''2'' ann_has_link =
      (Inr r, snd (redeem_login_url (demo_env 0) id_demo_ports ''2'' ann_has_link))" by blast
  with artifact_used_once [OF id_demo_reachable rtranclp.rtrancl_refl] show ?thesis
    unfolding ann_has_link_def by blast
qed

text \<open>
  C27. A browser gets a session only for the account whose own channel redeemed its claim code,
  only from the browser session the code was made for, and only once.
\<close>

theorem claim_signs_in_once:
  assumes "id_reachable E s"
    and "redeem_claim_code_from_channel E code ty su s = (Inr r, t)" "(id_step E)\<^sup>*\<^sup>* t u"
    and "complete_web_claim_from_browser E P code browser u = (Inr r', v)" "(id_step E)\<^sup>*\<^sup>* v w"
  shows "(\<exists>d. get_channel_identity_by_provider s ty su = Some d \<and> ci_account_id d = cl_account_id r) \<and>
         rd_account_id r' = cl_account_id r \<and> se_account_id (rd_session r') = cl_account_id r \<and>
         (\<exists>a. get_artifact_by_code s code = Some a \<and> ar_browser_session a = Some browser) \<and>
         (\<forall>r'' x. complete_web_claim_from_browser E P' code browser' w \<noteq> (Inr r'', x))"
proof -
  have ok: "id_ok s" by (rule reachable_id_ok [OF assms(1)])
  obtain d a c v0 where d: "get_channel_identity_by_provider s ty su = Some d" and a: "usable s code ClaimCode a"
    and c: "redeemed_from a (ci_account_id d) c" "t = put_artifact c v0" "id_inv s t"
    and r: "r = \<lparr>cl_account_id = ci_account_id d, cl_continuation = ar_continuation a\<rparr>"
    using wp_InrD [OF wp_redeem_claim [OF ok] assms(2)] by blast
  have a': "get_artifact_by_code s code = Some a" using a by (simp add: usable_def)
  have "ar_code c = code" using artifact_facts(1) [OF ok a'] c(1) by (auto simp: redeemed_from_def)
  with c(2) have c': "get_artifact_by_code t code = Some c" by simp
  have u: "id_inv t u" by (rule id_steps_inv [OF assms(3) id_inv_ok [OF c(3)]])
  obtain b where b: "get_artifact_by_code u code = Some b" "artifact_edited c b"
    "ar_target_account_id b = Some (ci_account_id d)"
    using later_artifact [OF id_inv_ok [OF c(3)] u c'] c(1) by (auto simp: redeemed_from_def)
  obtain x y where v: "id_inv u v" "completable u code browser x (rd_account_id r')" "completed_from x y"
    "get_artifact_by_code v code = Some y" "se_account_id (rd_session r') = rd_account_id r'"
    using wp_InrD [OF wp_complete_claim [OF id_inv_ok [OF u]] assms(4)] by blast
  have x: "x = b" using v(2) b(1) by (simp add: completable_def)
  have w: "id_inv v w" by (rule id_steps_inv [OF assms(5) id_inv_ok [OF v(1)]])
  have "complete_web_claim_from_browser E P' code browser' w \<noteq> (Inr r'', z)" for r'' z
  proof
    assume "complete_web_claim_from_browser E P' code browser' w = (Inr r'', z)"
    from wp_InrD [OF wp_complete_claim [OF id_inv_ok [OF w]] this]
    obtain q where "completable w code browser' q (rd_account_id r'')" by blast
    moreover obtain q' where "get_artifact_by_code w code = Some q'" "artifact_edited y q'"
      using later_artifact [OF id_inv_ok [OF v(1)] w v(4)] by blast
    moreover have "ar_delivery_state y = ArtifactCompleted" using v(3) by (auto simp: completed_from_def)
    ultimately show False by (auto simp: completable_def artifact_edited_def)
  qed
  moreover have "ar_browser_session a = Some browser"
    using v(2) b(2) c(1) by (auto simp: x completable_def artifact_edited_def redeemed_from_def)
  moreover have "rd_account_id r' = ci_account_id d" using v(2) b(3) by (simp add: x completable_def)
  ultimately show ?thesis using d a' r v(5) by auto
qed

definition bob_has_code :: id_state where
  "bob_has_code = id_demo [bob_writes, IssueClaim ''w'' None]"

definition bob_redeemed :: "(pyexn + claim_redemption) \<times> id_state" where
  "bob_redeemed = redeem_claim_code_from_channel (demo_env 0) ''0'' ''whatsapp_evolution'' ''b'' bob_has_code"

definition bob_completed :: "(pyexn + artifact_redemption) \<times> id_state" where
  "bob_completed = complete_web_claim_from_browser (demo_env 0) id_demo_ports ''0'' ''w'' (snd bob_redeemed)"

theorem claim_signs_in_once_witness:
  "\<exists>r r' t v. bob_redeemed = (Inr r, t) \<and> bob_completed = (Inr r', v) \<and>
     rd_account_id r' = cl_account_id r \<and>
     (\<forall>r'' x. complete_web_claim_from_browser (demo_env 0) id_demo_ports ''0'' ''w'' v \<noteq> (Inr r'', x))"
proof -
  have "map_sum id cl_account_id (fst bob_redeemed) = Inr ''0''" by code_simp
  from returned [OF this] obtain r where r: "bob_redeemed = (Inr r, snd bob_redeemed)" by blast
  have "map_sum id rd_account_id (fst bob_completed) = Inr ''0''" by code_simp
  from returned [OF this] obtain r' where r': "bob_completed = (Inr r', snd bob_completed)" by blast
  have "id_reachable (demo_env 0) bob_has_code" unfolding bob_has_code_def by (rule id_demo_reachable)
  from claim_signs_in_once [OF this r [unfolded bob_redeemed_def] rtranclp.rtrancl_refl _ rtranclp.rtrancl_refl]
    r r' show ?thesis
    unfolding bob_completed_def bob_redeemed_def by blast
qed

section \<open>Access\<close>

text \<open>
  The access check reads the store only. It allows exactly the accounts that are not suspended,
  have a verified address where e-mail addresses are checked, and an active subscription; the reason
  it gives is the first of these that fails, and a checkout page is offered to those who came by a
  channel, when they write and only the subscription is missing.
\<close>

theorem access_decision_exact:
  assumes "get_account s i = Some a" "get_access s i = Some x"
  shows "\<exists>d. check_access P i inbound s = (Inr d, s) \<and>
     ad_allowed d = (aa_suspension_state x \<noteq> ''suspended'' \<and>
       \<not> (ip_email_auth P \<and> aa_email_verification_state x \<noteq> ''verified'') \<and> aa_subscription_state x = ''active'') \<and>
     ad_denial_reason d =
       (if aa_suspension_state x = ''suspended'' then Some ''suspended''
        else if ip_email_auth P \<and> aa_email_verification_state x \<noteq> ''verified''
        then Some ''email_verification_required''
        else if aa_subscription_state x \<noteq> ''active'' then Some ''subscription_inactive'' else None) \<and>
     ad_turn_trigger d = (if ad_allowed d then None else Some ''AccessDeniedTurn'') \<and>
     (\<forall>f. ad_fact d = Some f \<longrightarrow> dget f ''checkout_url'' =
        Some (if inbound \<and> ad_denial_reason d = Some ''subscription_inactive'' \<and> ac_origin a = MessagingFirst
              then PyStr (ip_checkout P i) else PyNone))"
proof -
  have allowed: "(access_denial P x = None) = (aa_suspension_state x \<noteq> ''suspended'' \<and>
      \<not> (ip_email_auth P \<and> aa_email_verification_state x \<noteq> ''verified'') \<and> aa_subscription_state x = ''active'')"
    unfolding access_denial_cases by simp
  show ?thesis
    unfolding check_access_run [OF assms] access_denial_cases [symmetric] allowed [symmetric]
    by (cases "access_denial P x") simp_all
qed

theorem access_decision_exact_witness:
  "\<exists>d. check_access id_demo_ports ''0'' True (id_demo [ann_registers]) = (Inr d, id_demo [ann_registers]) \<and>
     \<not> ad_allowed d"
proof -
  let ?s = "id_demo [ann_registers]"
  have "get_account ?s ''0'' \<noteq> None" by code_simp
  moreover have "map_option (\<lambda>x. ip_email_auth id_demo_ports \<and> aa_email_verification_state x \<noteq> ''verified'')
      (get_access ?s ''0'') = Some True" by code_simp
  ultimately obtain a x where "get_account ?s ''0'' = Some a" "get_access ?s ''0'' = Some x"
    "ip_email_auth id_demo_ports \<and> aa_email_verification_state x \<noteq> ''verified''" by auto
  with access_decision_exact [of ?s "''0''" a x id_demo_ports True] show ?thesis by blast
qed

section \<open>Identities and sessions\<close>

text \<open>
  Resolving the address of a channel gives it an account for good: at any later time, and
  whatever the sender's name, it resolves to the same account and the same identity, and nothing is written.
\<close>

theorem channel_identity_is_permanent:
  assumes "id_reachable E s"
    and "resolve_or_create_channel_identity E P ty su pairing sender s = (Inr r, t)" "(id_step E)\<^sup>*\<^sup>* t u"
  shows "resolve_or_create_channel_identity E Q ty su None sender' u =
     (Inr \<lparr>ir_account = ir_account r, ir_identity = ir_identity r, ir_created_account = False\<rparr>, u)"
proof -
  have ok: "id_ok s" by (rule reachable_id_ok [OF assms(1)])
  have t: "id_inv s t" "resolved t ty su r" using wp_InrD [OF wp_resolve [OF ok] assms(2)] by simp_all
  have u: "id_inv t u" by (rule id_steps_inv [OF assms(3) id_inv_ok [OF t(1)]])
  have "resolved u ty su r"
    using t(2) identity_stays [OF id_inv_ok [OF t(1)] u] account_stays [OF u] by (simp add: resolved_def)
  then show ?thesis
    by (simp add: resolved_def resolve_or_create_channel_identity_def require_account_def require_def py_run)
qed

definition bob_resolves :: "(pyexn + identity_resolution) \<times> id_state" where
  "bob_resolves = resolve_or_create_channel_identity (demo_env 0) id_demo_ports ''whatsapp_evolution'' ''b''
     None None empty_id_state"

theorem channel_identity_is_permanent_witness:
  "\<exists>r t. bob_resolves = (Inr r, t) \<and>
     resolve_or_create_channel_identity (demo_env 0) id_demo_ports ''whatsapp_evolution'' ''b'' None (Some ''Bo'') t =
       (Inr \<lparr>ir_account = ir_account r, ir_identity = ir_identity r, ir_created_account = False\<rparr>, t)"
proof -
  have "map_sum id (\<lambda>r. ac_id (ir_account r)) (fst bob_resolves) = Inr ''0''" by code_simp
  from returned [OF this] obtain r where r: "bob_resolves = (Inr r, snd bob_resolves)" by blast
  from channel_identity_is_permanent [OF id_reachable.empty this [unfolded bob_resolves_def] rtranclp.rtrancl_refl]
  show ?thesis
    using r unfolding bob_resolves_def by blast
qed

text \<open>
  C28. A login returns only if the password is the one of the address's credential, and then its
  session token gives back the account of that credential until the session expires.
\<close>

theorem session_authenticates:
  assumes "id_reachable E s" "login E P address password s = (Inr r, t)" "(id_step E)\<^sup>*\<^sup>* t u"
    and "dt_le (se_expires_at (lr_session r)) (env_now E (clock u)) = Inr False"
  shows "(\<exists>c. get_credential_by_email s address = Some c \<and> cr_account_id c = ac_id (lr_account r) \<and>
            verify_password P (cr_password_hash c) password) \<and>
         current_user E (se_token (lr_session r)) u = (Inr (lr_account r), u\<lparr>clock := Suc (clock u)\<rparr>)"
proof -
  have ok: "id_ok s" by (rule reachable_id_ok [OF assms(1)])
  obtain c where t: "id_inv s t" "get_account s (ac_id (lr_account r)) = Some (lr_account r)"
    and c: "get_credential_by_email s address = Some c" "cr_account_id c = ac_id (lr_account r)"
      "verify_password P (cr_password_hash c) password"
    and x: "get_session_by_token t (se_token (lr_session r)) = Some (lr_session r)"
      "se_account_id (lr_session r) = ac_id (lr_account r)" "se_revoked_at (lr_session r) = None"
    using wp_InrD [OF wp_login [OF ok] assms(2)] by (elim conjE exE) (rule that)
  have u: "id_inv t u" by (rule id_steps_inv [OF assms(3) id_inv_ok [OF t(1)]])
  have "get_session_by_token u (se_token (lr_session r)) = Some (lr_session r)"
    by (rule session_stays [OF u x(1)])
  moreover have "get_account u (ac_id (lr_account r)) = Some (lr_account r)"
    by (rule account_stays [OF id_inv_trans [OF t(1) u] t(2)])
  ultimately have "current_user E (se_token (lr_session r)) u =
      (Inr (lr_account r), u\<lparr>clock := Suc (clock u)\<rparr>)"
    using x assms(4) by (simp add: current_user_def require_account_def require_def py_run)
  with c show ?thesis by blast
qed

definition ann_logs_in :: "(pyexn + login_result) \<times> id_state" where
  "ann_logs_in = login (demo_env 0) id_demo_ports ''A'' ''p'' (id_demo [ann_registers])"

theorem session_authenticates_witness:
  "\<exists>r t. ann_logs_in = (Inr r, t) \<and>
     current_user (demo_env 0) (se_token (lr_session r)) t = (Inr (lr_account r), t\<lparr>clock := Suc (clock t)\<rparr>)"
proof -
  have "map_sum id (\<lambda>r. dt_le (se_expires_at (lr_session r)) (env_now (demo_env 0) (clock (snd ann_logs_in))))
      (fst ann_logs_in) = Inr (Inr False)" by code_simp
  from returned [OF this] obtain r where r: "ann_logs_in = (Inr r, snd ann_logs_in)"
    "dt_le (se_expires_at (lr_session r)) (env_now (demo_env 0) (clock (snd ann_logs_in))) = Inr False" by blast
  from session_authenticates [OF id_demo_reachable r(1) [unfolded ann_logs_in_def] rtranclp.rtrancl_refl] r
  show ?thesis
    unfolding ann_logs_in_def by blast
qed

end
