(* ===== verification/ChanProperties.thy ===== *)
theory ChanProperties
  imports ChanRuntime IdProperties
begin

text \<open>
  The properties of channel reachability, with the closed examples that apply them: Bob writes from
  WhatsApp, gets an account and a channel, and texts go out to him.
\<close>

section \<open>Evaluation\<close>

lemmas channel_run_code [code] =
  identity_call_def [THEN fun_cong] require_provider_def [THEN fun_cong]
  require_product_channel_def [THEN fun_cong] require_channel_access_def [THEN fun_cong]
  require_owned_identity_def [THEN fun_cong] require_channel_def [THEN fun_cong]
  add_channel_def [THEN fun_cong] save_channel_def [THEN fun_cong] save_state_def [THEN fun_cong]
  create_channel_def [THEN fun_cong] connect_channel_def [THEN fun_cong]
  upsert_known_route_def [THEN fun_cong] upsert_route_def [THEN fun_cong]
  resolve_route_for_channel_def [THEN fun_cong] complete_deferred_links_def [THEN fun_cong]
  mark_connected_def [THEN fun_cong] mark_connection_failed_def [THEN fun_cong]
  mark_reconnection_required_def [THEN fun_cong] retry_connection_def [THEN fun_cong]
  retire_routes_for_channel_def [THEN fun_cong] remove_channel_def [THEN fun_cong]
  resolve_route_def [THEN fun_cong] replayed_attempt_def [THEN fun_cong] call_adapter_def [THEN fun_cong]
  note_session_expiry_def [THEN fun_cong] save_attempt_def [THEN fun_cong]
  send_new_text_def [THEN fun_cong] send_text_def [THEN fun_cong] bind_identity_def [THEN fun_cong]
  accept_on_channel_def [THEN fun_cong] accept_session_inbound_def [THEN fun_cong]
  refuse_second_channel_def [THEN fun_cong] accept_address_inbound_def [THEN fun_cong]
  accept_provider_inbound_def [THEN fun_cong] start_wechat_personal_connection_def [THEN fun_cong]
  connected_login_def [THEN fun_cong] poll_wechat_personal_login_def [THEN fun_cong]

section \<open>A small run\<close>

definition demo_adapter :: adapter where
  "demo_adapter =
     \<lparr>ad_send = (\<lambda>r content key token. Inr \<lparr>ars_status = AttemptDelivered, ars_provider_message_id = Some ''m'',
        ars_error_code = None, ars_delivered_at = None\<rparr>),
      ad_start_login = None, ad_poll_login = None\<rparr>"

definition chan_demo_ports :: chan_ports where
  "chan_demo_ports =
     \<lparr>cp_identity_env = demo_env 0, cp_identity = id_demo_ports,
      cp_provider = (\<lambda>ty. if ty = ''whatsapp_evolution'' then Some demo_adapter else None),
      cp_deferred = None, cp_elapsed_ms = 1\<rparr>"

definition bob_says :: normalized_inbound where
  "bob_says =
     \<lparr>ni_provider_type = ''whatsapp_evolution'', ni_provider_subject = ''b'', ni_text = ''hi'',
      ni_raw_event_id = ''e'', ni_received_at = env_now (demo_env 0) 0, ni_pairing_code = None,
      ni_sender_display_name = None, ni_account_id = None, ni_connector_session_id = None,
      ni_context_token = None, ni_payload = None, ni_media = []\<rparr>"

definition no_details :: send_details where
  "no_details =
     \<lparr>sd_turn_id = None, sd_message_id = None, sd_context_token = None, sd_source = None, sd_intent = None,
      sd_retry = None, sd_traceparent = None, sd_container = None, sd_token_source = None, sd_token_age = None\<rparr>"

definition chan_demo :: "chan_call list \<Rightarrow> chan_state" where
  "chan_demo cs = run_chan_calls (demo_env 0) chan_demo_ports cs empty_chan_state"

lemma chan_demo_reachable: "chan_reachable (demo_env 0) (chan_demo cs)"
  unfolding chan_demo_def by (intro reachable_run_chan_calls chan_reachable.empty)

definition bob_connected :: chan_state where
  "bob_connected = chan_demo [AcceptInbound bob_says]"

section \<open>The store\<close>

text \<open>
  C29. Whatever calls are made, of this service or the identity service, an account has at most one
  active channel, and each channel speaks for a stored identity of the same provider and account; a
  channel has at most one active route, which is its account's, and a removed one none; and no two
  attempts have the same provider and idempotency key.
\<close>

theorem channel_store_invariant:
  assumes "chan_reachable E s"
  shows "(\<forall>i j c d. get_channel s i = Some c \<and> get_channel s j = Some d \<and> ch_account_id c = ch_account_id d \<and>
            ch_lifecycle c = ChannelActive \<and> ch_lifecycle d = ChannelActive \<longrightarrow> i = j) \<and>
         (\<forall>i c. get_channel s i = Some c \<longrightarrow>
            (\<exists>d. get_channel_identity (identity_store s) (ch_identity_id c) = Some d \<and>
               ci_provider_type d = ch_provider_type c \<and> same_account_id (ci_account_id d) (ch_account_id c)) \<and>
            (ch_lifecycle c = ChannelRemoved \<longrightarrow> get_active_route_for_channel s i = None)) \<and>
         (\<forall>i j p r. get_route s i = Some p \<and> get_route s j = Some r \<and> dr_channel_id p = dr_channel_id r \<and>
            dr_lifecycle p = RouteActive \<and> dr_lifecycle r = RouteActive \<longrightarrow> i = j) \<and>
         (\<forall>i r. get_route s i = Some r \<longrightarrow>
            map_option ch_account_id (get_channel s (dr_channel_id r)) = Some (dr_account_id r)) \<and>
         (\<forall>i j a b. dget (attempts_by_id s) i = Some a \<and> dget (attempts_by_id s) j = Some b \<and>
            at_provider_type a = at_provider_type b \<and> at_key a = at_key b \<longrightarrow> i = j)"
proof -
  have ok: "chan_ok s" by (rule reachable_chan_ok [OF assms])
  then have c: "channels_ok s" and r: "routes_ok s" by (simp_all add: chan_ok_def)
  have "map_option ch_account_id (get_channel s (dr_channel_id r)) = Some (dr_account_id r)"
    if "get_route s i = Some r" for i r
    using route_key_id [OF ok that] by (auto simp: route_placed_def)
  moreover have "(\<exists>d. get_channel_identity (identity_store s) (ch_identity_id c) = Some d \<and>
      ci_provider_type d = ch_provider_type c \<and> same_account_id (ci_account_id d) (ch_account_id c)) \<and>
      (ch_lifecycle c = ChannelRemoved \<longrightarrow> get_active_route_for_channel s i = None)"
    if "get_channel s i = Some c" for i c
    using c that removed_unrouted [OF ok that] by (simp add: channels_ok_def channel_owned_def)
  ultimately show ?thesis
    using same_attempt [OF ok] c [unfolded channels_ok_def] r [unfolded routes_ok_def]
    by (intro conjI) (elim conjE, assumption | blast)+
qed

theorem channel_store_invariant_witness:
  "\<exists>c. get_active_channel bob_connected ''0'' = Some c \<and>
     get_channel_identity (identity_store bob_connected) (ch_identity_id c) \<noteq> None"
proof -
  have "get_active_channel bob_connected ''0'' \<noteq> None" by code_simp
  then obtain c where c: "get_active_channel bob_connected ''0'' = Some c" by blast
  have reach: "chan_reachable (demo_env 0) bob_connected" unfolding bob_connected_def by (rule chan_demo_reachable)
  have "get_channel bob_connected (ch_id c) = Some c" using c active_channel_iff [OF reachable_chan_ok [OF reach]] by blast
  with channel_store_invariant [OF reach] c show ?thesis by blast
qed

section \<open>Texts\<close>

text \<open>
  A text goes out only by the connected channel of its account, on a route of that channel and
  under a key not used before with that provider; a send that returns has its attempt on record.
\<close>

theorem text_needs_connected_channel:
  assumes "chan_reachable E s" "send_text E P account content key d s = (res, t)"
  shows "(texts_sent t = texts_sent s \<or>
           (\<exists>c r. get_active_channel s account = Some c \<and> ch_connection c = Connected \<and>
              dr_channel_id r = ch_id c \<and> dr_account_id r = account \<and> dr_provider_type r = ch_provider_type c \<and>
              get_attempt_by_provider_idempotency s (ch_provider_type c) key = None \<and>
              texts_sent t = texts_sent s @ [(r, content, key)])) \<and>
         (\<forall>a. res = Inr a \<longrightarrow> get_attempt_by_provider_idempotency t (at_provider_type a) key = Some a)"
proof -
  note run = wp_send_text [OF reachable_chan_ok [OF assms(1)], of E P account content key d]
  show ?thesis
  proof (cases res)
    case (Inl e)
    with assms(2) wp_InlD [OF run] show ?thesis by (auto simp: fresh_text_def one_text_def)
  next
    case (Inr a)
    with assms(2) wp_InrD [OF run] have "answered s account content key a t" by blast
    with Inr show ?thesis by (auto simp: answered_def fresh_text_def one_text_def split: option.splits)
  qed
qed

definition bob_is_sent :: "(pyexn + delivery_attempt) \<times> chan_state" where
  "bob_is_sent = send_text (demo_env 0) chan_demo_ports ''0'' ''x'' ''k'' no_details bob_connected"

lemma bob_reachable: "chan_reachable (demo_env 0) bob_connected"
  unfolding bob_connected_def by (rule chan_demo_reachable)

lemma bob_is_sent_returns: "\<exists>a. bob_is_sent = (Inr a, snd bob_is_sent) \<and> at_provider_type a = ''whatsapp_evolution''"
proof -
  have "map_sum id at_provider_type (fst bob_is_sent) = Inr ''whatsapp_evolution''" by code_simp
  from returned [OF this] show ?thesis by blast
qed

theorem text_needs_connected_channel_witness:
  "\<exists>a. get_attempt_by_provider_idempotency (snd bob_is_sent) (at_provider_type a) ''k'' = Some a"
proof -
  obtain a where a: "bob_is_sent = (Inr a, snd bob_is_sent)" using bob_is_sent_returns by blast
  from text_needs_connected_channel [OF bob_reachable a [unfolded bob_is_sent_def]]
  show ?thesis unfolding bob_is_sent_def by blast
qed

text \<open>
  C30. A text is sent at most once per provider and idempotency key: a send hands over at most one
  text, and once it has returned an attempt, a later send under the same key on a channel of the
  same provider, whatever its account and its text, hands over nothing, and returns that attempt if it
  returns.
\<close>

theorem text_sent_once:
  assumes "chan_reachable E s" "send_text E P account content key d s = (Inr a, t)" "(chan_step E)\<^sup>*\<^sup>* t u"
    and "get_active_channel u account' = Some c" "ch_provider_type c = at_provider_type a"
    and "send_text E Q account' content' key d' u = (res, v)"
  shows "length (texts_sent t) \<le> Suc (length (texts_sent s)) \<and> texts_sent v = texts_sent u \<and>
         (\<forall>b. res = Inr b \<longrightarrow> b = a)"
proof -
  have ok: "chan_ok s" by (rule reachable_chan_ok [OF assms(1)])
  have t: "chan_inv s t" "answered s account content key a t"
    using wp_InrD [OF wp_send_text [OF ok] assms(2)] by blast+
  have u: "chan_inv t u" by (rule chan_steps_inv [OF assms(3) chan_inv_ok [OF t(1)]])
  have a: "get_attempt_by_provider_idempotency u (at_provider_type a) key = Some a"
    using t(2) by (intro attempt_stays [OF chan_inv_ok [OF t(1)] u]) (simp add: answered_def)
  note run = wp_send_text [OF chan_inv_ok [OF u], of E Q account' content' key d']
  have "length (texts_sent t) \<le> Suc (length (texts_sent s))"
    using t(2) by (auto simp: answered_def fresh_text_def one_text_def split: option.splits)
  moreover have "texts_sent v = texts_sent u \<and> (\<forall>b. res = Inr b \<longrightarrow> b = a)"
  proof (cases res)
    case (Inl e)
    with assms(6) wp_InlD [OF run] have "texts_sent v = texts_sent u \<or> fresh_text u account' content' key v" by blast
    with Inl a assms(4,5) show ?thesis by (auto simp: fresh_text_def)
  next
    case (Inr b)
    with assms(6) wp_InrD [OF run] have b: "answered u account' content' key b v" by blast
    have "at_provider_type b = at_provider_type a" by (simp only: answered_channel [OF b assms(4)] assms(5))
    then have "get_attempt_by_provider_idempotency u (at_provider_type b) key = Some a" by (simp only: a)
    from answered_again [OF b this] Inr show ?thesis by simp
  qed
  ultimately show ?thesis by blast
qed

theorem text_sent_once_witness:
  "\<exists>a. bob_is_sent = (Inr a, snd bob_is_sent) \<and>
     texts_sent (snd (send_text (demo_env 0) chan_demo_ports ''0'' ''y'' ''k'' no_details (snd bob_is_sent))) =
       texts_sent (snd bob_is_sent)"
proof -
  obtain a where a: "bob_is_sent = (Inr a, snd bob_is_sent)" "at_provider_type a = ''whatsapp_evolution''"
    using bob_is_sent_returns by blast
  have "map_option ch_provider_type (get_active_channel (snd bob_is_sent) ''0'') = Some ''whatsapp_evolution''"
    by code_simp
  then obtain c where c: "get_active_channel (snd bob_is_sent) ''0'' = Some c" "ch_provider_type c = at_provider_type a"
    using a(2) by auto
  from text_sent_once [OF bob_reachable a(1) [unfolded bob_is_sent_def] rtranclp.rtrancl_refl
      c [unfolded bob_is_sent_def] surjective_pairing] a(1)
  show ?thesis unfolding bob_is_sent_def by blast
qed

section \<open>Channels\<close>

text \<open>
  A channel that is removed stays removed: at any later time it is stored as it was, it has no
  active route, no account has it as its channel, and it can be neither removed again nor connected.
\<close>

theorem removal_is_permanent:
  assumes "chan_reachable E s" "remove_channel E account i s = (Inr c, t)" "(chan_step E)\<^sup>*\<^sup>* t u"
  shows "get_channel u i = Some c \<and> ch_lifecycle c = ChannelRemoved \<and>
         get_active_route_for_channel u i = None \<and> get_active_channel u account' \<noteq> Some c \<and>
         remove_channel E account' i u = (Inl (ChannelReachabilityError ''channel_not_found'' None), u) \<and>
         mark_connected E P account' i u \<noteq> (Inr d, v)"
proof -
  have ok: "chan_ok s" by (rule reachable_chan_ok [OF assms(1)])
  have t: "chan_inv s t" "get_channel t i = Some c" "ch_lifecycle c = ChannelRemoved"
    using wp_InrD [OF wp_remove_channel [OF ok] assms(2)] by blast+
  have u: "chan_inv t u" by (rule chan_steps_inv [OF assms(3) chan_inv_ok [OF t(1)]])
  note ok' = chan_inv_ok [OF u]
  have c: "get_channel u i = Some c" by (rule removed_stays [OF u t(2,3)])
  have "get_active_channel u account' \<noteq> Some c"
    using active_channel_iff [OF ok', of account' c] t(3) by simp
  moreover have "mark_connected E P account' i u \<noteq> (Inr d, v)"
  proof
    assume "mark_connected E P account' i u = (Inr d, v)"
    from wp_InrD [OF wp_mark_connected [OF ok'] this]
    have v: "chan_inv u v" "get_active_channel v account' = Some d" "ch_id d = i" by blast+
    then have "get_channel v i = Some d" "ch_lifecycle d = ChannelActive"
      using active_channel_iff [OF chan_inv_ok [OF v(1)]] by auto
    with removed_stays [OF v(1) c t(3)] t(3) show False by simp
  qed
  moreover have "remove_channel E account' i u = (Inl (ChannelReachabilityError ''channel_not_found'' None), u)"
    using c t(3) by (simp add: remove_channel_def require_channel_def bind_run gets_run raise_run)
  ultimately show ?thesis
    using c t(3) removed_unrouted [OF ok' c t(3)] by blast
qed

definition ann_connected :: chan_state where
  "ann_connected = chan_demo [OfIdentity ann_registers, OfIdentity (VerifyEmail ''1''),
     OfIdentity (BindIdentity ''0'' ''whatsapp_evolution'' ''a'' False),
     AcceptInbound (bob_says\<lparr>ni_provider_subject := ''a''\<rparr>)]"

definition ann_removes :: "(pyexn + channel) \<times> chan_state" where
  "ann_removes = remove_channel (demo_env 0) ''0'' ''0'' ann_connected"

theorem removal_is_permanent_witness:
  "\<exists>c. ann_removes = (Inr c, snd ann_removes) \<and> get_channel (snd ann_removes) ''0'' = Some c \<and>
     remove_channel (demo_env 0) ''0'' ''0'' (snd ann_removes) =
       (Inl (ChannelReachabilityError ''channel_not_found'' None), snd ann_removes)"
proof -
  have "map_sum id ch_id (fst ann_removes) = Inr ''0''" by code_simp
  from returned [OF this] obtain c where c: "ann_removes = (Inr c, snd ann_removes)" by blast
  have "chan_reachable (demo_env 0) ann_connected" unfolding ann_connected_def by (rule chan_demo_reachable)
  from removal_is_permanent [OF this c [unfolded ann_removes_def] rtranclp.rtrancl_refl] c
  show ?thesis unfolding ann_removes_def by blast
qed

text \<open>
  An accepted inbound message leaves its account with a connected channel, the one that is
  returned, and it speaks for the identity with the message's provider and address, which
  belongs to that account.
\<close>

theorem inbound_leaves_connected_channel:
  assumes "chan_reachable E s" "accept_provider_inbound E P inbound s = (Inr w, t)"
  shows "\<exists>c d. get_active_channel t (wa_account_id w) = Some c \<and> ch_id c = wa_channel_id w \<and>
     ch_connection c = Connected \<and> ch_identity_id c = wa_channel_identity_id w \<and>
     get_channel_identity_by_provider (identity_store t) (ni_provider_type inbound) (ni_provider_subject inbound) =
       Some d \<and>
     ci_id d = wa_channel_identity_id w \<and> same_account_id (ci_account_id d) (wa_account_id w)"
  using wp_InrD [OF wp_accept [OF reachable_chan_ok [OF assms(1)]] assms(2)]
  by (simp add: accepted_def speaks_def) blast

definition bob_accepted :: "(pyexn + webhook_acceptance) \<times> chan_state" where
  "bob_accepted = accept_provider_inbound (demo_env 0) chan_demo_ports bob_says empty_chan_state"

theorem inbound_leaves_connected_channel_witness:
  "\<exists>w c. bob_accepted = (Inr w, snd bob_accepted) \<and>
     get_active_channel (snd bob_accepted) (wa_account_id w) = Some c \<and> ch_connection c = Connected"
proof -
  have "map_sum id wa_account_id (fst bob_accepted) = Inr ''0''" by code_simp
  from returned [OF this] obtain w where w: "bob_accepted = (Inr w, snd bob_accepted)" by blast
  from inbound_leaves_connected_channel [OF chan_reachable.empty w [unfolded bob_accepted_def]] w
  show ?thesis unfolding bob_accepted_def by blast
qed

end
