(* ===== verification/WebProperties.thy ===== *)
theory WebProperties
  imports Webhook ChanProperties
begin

text \<open>
  The properties of the webhooks and the adapters behind them, with the closed examples that apply
  them: WhatsApp delivers a message of Bob's, and delivers it again.
\<close>

section \<open>Evaluation\<close>

lemmas webhook_run_code [code] =
  in_channels_def [THEN fun_cong] in_conversations_def [THEN fun_cong] record_event_def [THEN fun_cong]
  accept_event_def [THEN fun_cong] handle_inbound_def [THEN fun_cong] provider_webhook_def [THEN fun_cong]

definition demo_http :: http_client where
  "demo_http =
     \<lparr>hc_post = (\<lambda>_ _ _. Inr \<lparr>hr_status = 200, hr_json = None\<rparr>),
      hc_get = (\<lambda>_ _ _. Inr \<lparr>hr_status = 200, hr_json = None\<rparr>)\<rparr>"

definition demo_web_config :: web_config where
  "demo_web_config =
     \<lparr>wk_secret = Some ''s'', wk_settings_secret = PyNone,
      wk_providers = [(evolution_type, evolution_provider demo_http
        \<lparr>ev_base_url = Some ''u'', ev_api_key = Some ''k'', ev_instance = Some ''i''\<rparr>)],
      wk_records = True, wk_commit = None\<rparr>"

text \<open>A message \<open>e\<close> from the number \<open>who\<close>.\<close>

definition evolution_body :: "string \<Rightarrow> string \<Rightarrow> json" where
  "evolution_body e who =
     JDict [(Some ''event'', JStr ''messages.upsert''),
       (Some ''data'', JDict
         [(Some ''key'', JDict [(Some ''id'', JStr e), (Some ''remoteJid'', JStr (who @ ''@s.whatsapp.net'')),
             (Some ''fromMe'', JBool False)]),
          (Some ''message'', JDict [(Some ''conversation'', JStr ''hi'')]),
          (Some ''messageTimestamp'', JInt 0)])]"

definition demo_request :: "string \<Rightarrow> string \<Rightarrow> web_request" where
  "demo_request e who =
     \<lparr>rq_header = (\<lambda>h. if h = ''X-Webhook-Secret'' then Some ''s'' else None),
      rq_json = Some (evolution_body e who), rq_now = env_now (demo_env 0) 0,
      rq_uuids = (\<lambda>_. replicate 32 CHR ''1''), rq_tokens = (\<lambda>_. replicate 16 CHR ''1'')\<rparr>"

definition demo_delivery :: "string \<Rightarrow> string \<Rightarrow> web_state \<Rightarrow> (pyexn + web_response) \<times> web_state" where
  "demo_delivery e who = provider_webhook (demo_env 0) chan_demo_ports demo_web_config evolution_type (demo_request e who)"

definition delivered_once :: web_state where
  "delivered_once = snd (demo_delivery ''e'' ''b'' empty_web_state)"

lemma delivered_returns:
  "\<exists>r. demo_delivery ''e'' ''b'' empty_web_state = (Inr r, delivered_once) \<and> wr_status r = 202"
proof -
  have "map_sum id wr_status (fst (demo_delivery ''e'' ''b'' empty_web_state)) = Inr 202" by code_simp
  from returned [OF this] show ?thesis unfolding delivered_once_def by blast
qed

lemma demo_event: "\<exists>n. webhook_event demo_web_config evolution_type (demo_request ''e'' ''b'') = Inr n \<and> ni_raw_event_id n = ''e''"
proof -
  have "map_sum id ni_raw_event_id (webhook_event demo_web_config evolution_type (demo_request ''e'' ''b'')) = Inr ''e''"
    by code_simp
  then show ?thesis by (cases "webhook_event demo_web_config evolution_type (demo_request ''e'' ''b'')") simp_all
qed

lemma demo_records: "wk_records demo_web_config"
  by (simp add: demo_web_config_def)

lemma empty_web_reachable: "web_reachable E empty_web_state"
  by (simp add: web_reachable_def)

section \<open>Deliveries\<close>

text \<open>
  C31. A webhook that answers 202 has accepted its event for the sender: the store has a channel
  identity with the event's provider type and subject, it belongs to the account the answer names,
  and the connected active channel of that account, which the answer names too, is of that identity.
  The event's idempotency key is taken; if it was free, the event's message, with its text, is the
  newest of that account's conversation and has a record in the outbox; if it was taken, nothing has
  been recorded.
\<close>

theorem acknowledged_is_recorded:
  assumes "web_reachable E s" "wk_records cfg" "webhook_event cfg ty rq = Inr n"
    and "provider_webhook E P cfg ty rq s = (Inr r, t)" "wr_status r = 202"
  shows "\<exists>w c d. wr_body r = acceptance_body w \<and> wa_raw_event_id w = ni_raw_event_id n \<and>
     get_channel_identity_by_provider (identity_store (web_channels t)) (ni_provider_type n)
       (ni_provider_subject n) = Some d \<and>
     same_account_id (ci_account_id d) (wa_account_id w) \<and> ci_id d = wa_channel_identity_id w \<and>
     get_active_channel (web_channels t) (wa_account_id w) = Some c \<and>
     ch_id c = wa_channel_id w \<and> ch_connection c = Connected \<and> ch_identity_id c = wa_channel_identity_id w \<and>
     key_taken (''inbound:'' @ ni_raw_event_id n) (web_conversations t) \<and>
     (if key_taken (''inbound:'' @ ni_raw_event_id n) (web_conversations s)
      then same_records (web_conversations s) (web_conversations t)
      else
        \<exists>m. inbound_recorded (wa_account_id w) (web_conversations s) m (web_conversations t) \<and>
          msg_text (irr_message m) = Some (ni_text n) \<and>
          causal_inbound_event_id (irr_message m) = Some (ni_raw_event_id n))"
proof -
  note ok = web_reachable_ok [OF assms(1)]
  obtain w where w: "wr_body r = acceptance_body w" "accepted (web_channels t) n w"
    "recorded_once (wa_account_id w) (ni_raw_event_id n) n (web_conversations s) (web_conversations t)"
    using wp_InrD [OF wp_webhook [OF ok assms(2,3)] assms(4)] assms(5) by blast
  obtain c d where c: "get_channel_identity_by_provider (identity_store (web_channels t)) (ni_provider_type n)
      (ni_provider_subject n) = Some d"
    "same_account_id (ci_account_id d) (wa_account_id w)" "ci_id d = wa_channel_identity_id w"
    "get_active_channel (web_channels t) (wa_account_id w) = Some c" "ch_id c = wa_channel_id w"
    "ch_connection c = Connected" "ch_identity_id c = wa_channel_identity_id w"
    using w(2) unfolding accepted_def speaks_def by blast
  have "wa_raw_event_id w = ni_raw_event_id n" using w(2) by (simp add: accepted_def)
  then show ?thesis
    by (intro exI [of _ w] exI [of _ c] exI [of _ d] conjI w(1) c)
      (use w(3) in \<open>simp_all add: recorded_once_def\<close>)
qed

theorem acknowledged_is_recorded_witness:
  "\<exists>(w::webhook_acceptance) c. get_active_channel (web_channels delivered_once) (wa_account_id w) = Some c \<and>
     ch_connection c = Connected \<and> key_taken (''inbound:'' @ ''e'') (web_conversations delivered_once)"
proof -
  obtain r where r: "demo_delivery ''e'' ''b'' empty_web_state = (Inr r, delivered_once)" "wr_status r = 202"
    using delivered_returns by blast
  obtain n where n: "webhook_event demo_web_config evolution_type (demo_request ''e'' ''b'') = Inr n"
    "ni_raw_event_id n = ''e''" using demo_event by blast
  from acknowledged_is_recorded [OF empty_web_reachable demo_records n(1) r(1) [unfolded demo_delivery_def] r(2)]
  show ?thesis unfolding n(2) by blast
qed

text \<open>
  C32. Delivering an event again records nothing: once a webhook has answered 202 to an event, then
  whatever has happened since, a request that brings an event with the same identifier leaves the
  messages, media, turns, dispositions and the outbox as they are, whether it is answered or raises.
\<close>

theorem redelivery_records_nothing:
  assumes "web_reachable E s" "wk_records cfg" "webhook_event cfg ty rq = Inr n"
    and "provider_webhook E P cfg ty rq s = (Inr r, t)" "wr_status r = 202" "(web_step E)\<^sup>*\<^sup>* t u"
    and "wk_records cfg'" "webhook_event cfg' ty' rq' = Inr n'" "ni_raw_event_id n' = ni_raw_event_id n"
    and "provider_webhook E P' cfg' ty' rq' u = (res, v)"
  shows "same_records (web_conversations u) (web_conversations v)"
proof -
  note ok = web_reachable_ok [OF assms(1)]
  have "key_taken (''inbound:'' @ ni_raw_event_id n) (web_conversations t)"
    using wp_InrD [OF wp_webhook [OF ok assms(2,3)] assms(4)] assms(5) by (auto simp: recorded_once_def)
  then have key: "key_taken (''inbound:'' @ ni_raw_event_id n') (web_conversations u)"
    unfolding assms(9) by (rule web_key_stays [OF assms(6)])
  have "web_step E s t" using web_step.webhook [OF assms(4)] .
  then have "web_reachable E u"
    using assms(1,6) unfolding web_reachable_def by (meson rtranclp.rtrancl_into_rtrancl rtranclp_trans)
  note run = wp_webhook [OF web_reachable_ok [OF this] assms(7,8)]
  show ?thesis
  proof (cases res)
    case (Inl e)
    show ?thesis using wp_InlD [OF run assms(10) [unfolded Inl]] key by blast
  next
    case (Inr x)
    show ?thesis using wp_InrD [OF run assms(10) [unfolded Inr]] key by blast
  qed
qed

theorem redelivery_records_nothing_witness:
  "same_records (web_conversations delivered_once) (web_conversations (snd (demo_delivery ''e'' ''b'' delivered_once)))"
proof -
  obtain r where r: "demo_delivery ''e'' ''b'' empty_web_state = (Inr r, delivered_once)" "wr_status r = 202"
    using delivered_returns by blast
  obtain n where n: "webhook_event demo_web_config evolution_type (demo_request ''e'' ''b'') = Inr n"
    using demo_event by blast
  show ?thesis
    unfolding demo_delivery_def
    by (rule redelivery_records_nothing [OF empty_web_reachable demo_records n r(1) [unfolded demo_delivery_def] r(2)
        rtranclp.rtrancl_refl demo_records n refl surjective_pairing])
qed

text \<open>
  The key does not name the provider or the account: an event of another sender that happens to have
  the same identifier is answered 202 and its message is dropped.
\<close>

lemma other_senders_event_is_dropped:
  "map_sum id wr_status (fst (demo_delivery ''e'' ''c'' delivered_once)) = Inr 202"
  unfolding delivered_once_def by code_simp

text \<open>
  Without the configured secret a request is answered 401, whatever it brings, and changes nothing.
\<close>

theorem unauthorized_webhook_refused:
  assumes "configured_webhook_secret cfg = Some secret" "secret \<notin> set (presented_webhook_secrets rq)"
  shows "provider_webhook E P cfg ty rq s =
    (Inr \<lparr>wr_status = 401, wr_body = error_body ''webhook_unauthorized'' None\<rparr>, s)"
proof -
  have "require_webhook_secret cfg rq = Inl (ChannelReachabilityError ''webhook_unauthorized'' None)"
    using assms by (auto simp: require_webhook_secret_def list_ex_iff)
  then show ?thesis
    by (simp add: provider_webhook_def handle_inbound_def webhook_event_def sbind_def status_code_def
        catch_def bind_def lift_def ret_def)
qed

section \<open>Bodies\<close>

text \<open>
  Freezing a body gives exactly its JSON value: it succeeds for the bodies made of strings, integers,
  booleans, finite numbers, lists and dictionaries with string keys, and is their value then; every
  other one is refused with \<open>invalid_provider_payload\<close>, which names the provider. What an adapter accepts
  is such a body, of its own provider, with an event identifier that is not blank.
\<close>

theorem payload_frozen_exactly:
  "(freeze_json ty path j = Inr v) = (plain_json j \<and> v = as_pyval j) \<and>
   (\<not> plain_json j \<longrightarrow> (\<exists>at reason. freeze_json ty path j = Inl (invalid_provider_payload ty at reason))) \<and>
   (\<forall>p d now n. p \<in> {linq_provider http lq, ecloud_provider http ec, evolution_provider http ev, wechat_provider http wc} \<longrightarrow>
      pv_normalize p now d = Inr n \<longrightarrow>
      plain_fields d \<and> ni_payload n = Some (as_fact d) \<and> ni_provider_type n = pv_type p \<and> ni_raw_event_id n \<noteq> [])"
proof (intro conjI allI impI)
  show "(freeze_json ty path j = Inr v) = (plain_json j \<and> v = as_pyval j)"
    using freeze_exact(1) [of j ty path] by (auto split: if_splits)
  show "\<exists>at reason. freeze_json ty path j = Inl (invalid_provider_payload ty at reason)" if "\<not> plain_json j"
    using freeze_exact(1) [of j ty path] that by (auto simp: refused_payload_def)
next
  fix p d now n
  assume p: "p \<in> {linq_provider http lq, ecloud_provider http ec, evolution_provider http ev, wechat_provider http wc}"
    and n: "pv_normalize p now d = Inr n"
  from adapters_read [OF p n]
  show "plain_fields d" "ni_payload n = Some (as_fact d)" "ni_provider_type n = pv_type p" "ni_raw_event_id n \<noteq> []"
    by simp_all
qed

theorem payload_frozen_exactly_witness:
  "freeze_json evolution_type ''payload'' (evolution_body ''e'' ''b'') = Inr (as_pyval (evolution_body ''e'' ''b''))"
  using payload_frozen_exactly [of evolution_type "''payload''" "evolution_body ''e'' ''b''" "as_pyval (evolution_body ''e'' ''b'')"]
  by (simp add: evolution_body_def)

end
