(* ===== verification/Settings.thy ===== *)
theory Settings
  imports RemInvariant IdRepository
begin

text \<open>
  Account settings: the data and the repository in memory of \<open>src/coke/domains/settings\<close>
  (\<open>models.py\<close>, \<open>repository.py\<close>) and every method of \<open>SettingsService\<close> (\<open>service.py\<close>), followed by the
  invariant of the store. Switching off proactive messages discards the proactive reminders of
  the reminder repository, whose store is a field of the state.
\<close>

section \<open>Data\<close>

record agent_settings =
  ag_id :: string
  ag_account_id :: string
  ag_assistant_name :: string
  ag_user_address_name :: "string option"
  ag_persona :: "string option"
  ag_background :: "string option"
  ag_speaking_style :: "string option"
  ag_extra_rules :: "string option"
  ag_proactive_enabled :: bool
  ag_memory_enabled :: bool
  ag_created_at :: datetime
  ag_updated_at :: datetime

record settings_profile =
  spf_id :: string
  spf_account_id :: string
  spf_real_name :: "string option"
  spf_nickname :: "string option"
  spf_description :: "string option"
  spf_relationship :: "string option"
  spf_created_at :: datetime
  spf_updated_at :: datetime

record settings_view =
  sv_account_id :: string
  sv_default_timezone :: string
  sv_agent_settings :: agent_settings
  sv_user_profile :: settings_profile

text \<open>What a request gives for each setting: \<open>None\<close> is the default \<open>_MISSING\<close>, else any value.\<close>

record settings_request =
  sq_default_timezone :: "pyval option"
  sq_assistant_name :: "pyval option"
  sq_user_address_name :: "pyval option"
  sq_persona :: "pyval option"
  sq_background :: "pyval option"
  sq_speaking_style :: "pyval option"
  sq_extra_rules :: "pyval option"
  sq_proactive_enabled :: "pyval option"
  sq_memory_enabled :: "pyval option"

record profile_request =
  pq_real_name :: "pyval option"
  pq_nickname :: "pyval option"
  pq_description :: "pyval option"
  pq_relationship :: "pyval option"

record settings_state = svc +
  settings_accounts :: "(string, account) dict"
  agent_settings_by_account :: "(string, agent_settings) dict"
  user_profiles_by_account :: "(string, settings_profile) dict"
  settings_reminders :: rem_state

type_synonym 'a sem = "(settings_state, 'a) py"

text \<open>The reminder store has counters of its own.\<close>

lemma settings_reminders_counters [simp]:
  "settings_reminders ((t::settings_state)\<lparr>clock := n\<rparr>) = settings_reminders t"
  "settings_reminders ((t::settings_state)\<lparr>issued := n\<rparr>) = settings_reminders t"
  "clock ((t::settings_state)\<lparr>settings_reminders := r\<rparr>) = clock t"
  "issued ((t::settings_state)\<lparr>settings_reminders := r\<rparr>) = issued t"
  by (cases t; simp)+

section \<open>The repository\<close>

definition settings_add_account :: "account \<Rightarrow> unit sem" where
  "settings_add_account a =
     bind (refuse_if (\<lambda>s. dget (settings_accounts s) (ac_id a) \<noteq> None) ''duplicate_account_id'') (\<lambda>_.
     modify (\<lambda>s. s\<lparr>settings_accounts := dput (ac_id a) a (settings_accounts s)\<rparr>))"

definition settings_get_account :: "settings_state \<Rightarrow> string \<Rightarrow> account option" where
  "settings_get_account s i = dget (settings_accounts s) i"

definition save_account :: "account \<Rightarrow> unit sem" where
  "save_account a =
     bind (refuse_if (\<lambda>s. settings_get_account s (ac_id a) = None) ''account_not_found'') (\<lambda>_.
     modify (\<lambda>s. s\<lparr>settings_accounts := dput (ac_id a) a (settings_accounts s)\<rparr>))"

definition get_agent_settings :: "settings_state \<Rightarrow> string \<Rightarrow> agent_settings option" where
  "get_agent_settings s i = dget (agent_settings_by_account s) i"

definition save_agent_settings :: "agent_settings \<Rightarrow> unit sem" where
  "save_agent_settings a =
     bind (refuse_if (\<lambda>s. settings_get_account s (ag_account_id a) = None) ''account_not_found'') (\<lambda>_.
     bind (refuse_if (\<lambda>s. case get_agent_settings s (ag_account_id a) of
              None \<Rightarrow> False | Some old \<Rightarrow> ag_id old \<noteq> ag_id a) ''duplicate_agent_settings_account'') (\<lambda>_.
     modify (\<lambda>s. s\<lparr>agent_settings_by_account := dput (ag_account_id a) a (agent_settings_by_account s)\<rparr>)))"

definition settings_get_profile :: "settings_state \<Rightarrow> string \<Rightarrow> settings_profile option" where
  "settings_get_profile s i = dget (user_profiles_by_account s) i"

definition save_user_profile :: "settings_profile \<Rightarrow> unit sem" where
  "save_user_profile p =
     bind (refuse_if (\<lambda>s. settings_get_account s (spf_account_id p) = None) ''account_not_found'') (\<lambda>_.
     bind (refuse_if (\<lambda>s. case settings_get_profile s (spf_account_id p) of
              None \<Rightarrow> False | Some old \<Rightarrow> spf_id old \<noteq> spf_id p) ''duplicate_user_profile_account'') (\<lambda>_.
     modify (\<lambda>s. s\<lparr>user_profiles_by_account := dput (spf_account_id p) p (user_profiles_by_account s)\<rparr>)))"

section \<open>Checks of given values\<close>

definition invalid_setting :: "string \<Rightarrow> string \<Rightarrow> pyexn + 'a" where
  "invalid_setting name reason =
     Inl (SettingsError ''invalid_request''
       (Some [(''type'', PyStr ''invalid_request''), (''field'', PyStr name), (''reason'', PyStr reason)]))"

definition valid_timezone :: "env \<Rightarrow> pyval \<Rightarrow> pyexn + string" where
  "valid_timezone E v =
     (case v of
        PyStr t \<Rightarrow>
          if py_strip t = [] \<or> t \<noteq> py_strip t
          then Inl (SettingsError ''invalid_timezone''
                 (Some [(''type'', PyStr ''invalid_timezone''), (''reason'', PyStr ''timezone_string_required'')]))
          else
            (case env_zone E t of
               Inr z \<Rightarrow> Inr t
             | Inl e \<Rightarrow>
                 if e = ZoneInfoNotFoundError
                 then Inl (SettingsError ''invalid_timezone''
                        (Some [(''type'', PyStr ''invalid_timezone''), (''timezone'', PyStr t)]))
                 else Inl e)
      | _ \<Rightarrow> Inl (SettingsError ''invalid_timezone''
                 (Some [(''type'', PyStr ''invalid_timezone''), (''reason'', PyStr ''timezone_string_required'')])))"

definition required_text :: "pyval \<Rightarrow> string \<Rightarrow> nat \<Rightarrow> pyexn + string" where
  "required_text v name max_length =
     (case v of
        PyStr t \<Rightarrow>
          if py_strip t = [] \<or> t \<noteq> py_strip t then invalid_setting name ''non_empty_string_required''
          else if max_length < length t then invalid_setting name ''too_long''
          else Inr t
      | _ \<Rightarrow> invalid_setting name ''non_empty_string_required'')"

definition optional_text :: "pyval \<Rightarrow> string \<Rightarrow> nat \<Rightarrow> pyexn + string option" where
  "optional_text v name max_length =
     (case v of
        PyNone \<Rightarrow> Inr None
      | PyStr t \<Rightarrow>
          if t = [] then Inr None
          else if t \<noteq> py_strip t then invalid_setting name ''untrimmed''
          else if max_length < length t then invalid_setting name ''too_long''
          else Inr (Some t)
      | _ \<Rightarrow> invalid_setting name ''string_or_null_required'')"

definition required_bool :: "pyval \<Rightarrow> string \<Rightarrow> pyexn + bool" where
  "required_bool v name =
     (case v of PyBool b \<Rightarrow> Inr b | _ \<Rightarrow> invalid_setting name ''boolean_required'')"

text \<open>
  One entry of \<open>updates\<close>: a value that is not given leaves the field as it is, a given one is checked and put in
  its place.
\<close>

definition given_or :: "pyval option \<Rightarrow> (pyval \<Rightarrow> pyexn + 'a) \<Rightarrow> 'a \<Rightarrow> pyexn + 'a" where
  "given_or v check old = (case v of None \<Rightarrow> Inr old | Some x \<Rightarrow> check x)"

definition updated_settings :: "settings_request \<Rightarrow> agent_settings \<Rightarrow> pyexn + agent_settings" where
  "updated_settings q a =
     sbind (given_or (sq_assistant_name q) (\<lambda>v. required_text v ''assistant_name'' 128) (ag_assistant_name a)) (\<lambda>name.
     sbind (given_or (sq_user_address_name q) (\<lambda>v. optional_text v ''user_address_name'' 128) (ag_user_address_name a)) (\<lambda>address.
     sbind (given_or (sq_persona q) (\<lambda>v. optional_text v ''persona'' 4000) (ag_persona a)) (\<lambda>persona.
     sbind (given_or (sq_background q) (\<lambda>v. optional_text v ''background'' 4000) (ag_background a)) (\<lambda>background.
     sbind (given_or (sq_speaking_style q) (\<lambda>v. optional_text v ''speaking_style'' 4000) (ag_speaking_style a)) (\<lambda>style.
     sbind (given_or (sq_extra_rules q) (\<lambda>v. optional_text v ''extra_rules'' 4000) (ag_extra_rules a)) (\<lambda>rules.
     sbind (given_or (sq_proactive_enabled q) (\<lambda>v. required_bool v ''proactive_enabled'') (ag_proactive_enabled a)) (\<lambda>proactive.
     sbind (given_or (sq_memory_enabled q) (\<lambda>v. required_bool v ''memory_enabled'') (ag_memory_enabled a)) (\<lambda>memory.
     Inr (a\<lparr>ag_assistant_name := name, ag_user_address_name := address, ag_persona := persona,
            ag_background := background, ag_speaking_style := style, ag_extra_rules := rules,
            ag_proactive_enabled := proactive, ag_memory_enabled := memory\<rparr>)))))))))"

definition gives_settings :: "settings_request \<Rightarrow> bool" where
  "gives_settings q \<longleftrightarrow>
     sq_assistant_name q \<noteq> None \<or> sq_user_address_name q \<noteq> None \<or> sq_persona q \<noteq> None \<or>
     sq_background q \<noteq> None \<or> sq_speaking_style q \<noteq> None \<or> sq_extra_rules q \<noteq> None \<or>
     sq_proactive_enabled q \<noteq> None \<or> sq_memory_enabled q \<noteq> None"

definition updated_profile :: "profile_request \<Rightarrow> settings_profile \<Rightarrow> pyexn + settings_profile" where
  "updated_profile q p =
     sbind (given_or (pq_real_name q) (\<lambda>v. optional_text v ''real_name'' 160) (spf_real_name p)) (\<lambda>name.
     sbind (given_or (pq_nickname q) (\<lambda>v. optional_text v ''nickname'' 160) (spf_nickname p)) (\<lambda>nickname.
     sbind (given_or (pq_description q) (\<lambda>v. optional_text v ''description'' 4000) (spf_description p)) (\<lambda>description.
     sbind (given_or (pq_relationship q) (\<lambda>v. optional_text v ''relationship_description'' 4000) (spf_relationship p)) (\<lambda>relationship.
     Inr (p\<lparr>spf_real_name := name, spf_nickname := nickname, spf_description := description,
            spf_relationship := relationship\<rparr>)))))"

definition gives_profile :: "profile_request \<Rightarrow> bool" where
  "gives_profile q \<longleftrightarrow>
     pq_real_name q \<noteq> None \<or> pq_nickname q \<noteq> None \<or> pq_description q \<noteq> None \<or> pq_relationship q \<noteq> None"

section \<open>The service\<close>

definition settings_require_account :: "string \<Rightarrow> account sem" where
  "settings_require_account i =
     bind (gets (\<lambda>s. settings_get_account s i)) (\<lambda>found.
     case found of
       None \<Rightarrow> raise (SettingsError ''account_not_found''
                (Some [(''type'', PyStr ''account_not_found''), (''account_id'', PyStr i)]))
     | Some a \<Rightarrow> ret a)"

definition default_agent_settings :: "string \<Rightarrow> string \<Rightarrow> datetime \<Rightarrow> datetime \<Rightarrow> agent_settings" where
  "default_agent_settings account sid created updated =
     \<lparr>ag_id = sid, ag_account_id = account, ag_assistant_name = ''Coke'', ag_user_address_name = None,
      ag_persona = None, ag_background = None, ag_speaking_style = None, ag_extra_rules = None,
      ag_proactive_enabled = True, ag_memory_enabled = True, ag_created_at = created, ag_updated_at = updated\<rparr>"

definition ensure_agent_settings :: "env \<Rightarrow> string \<Rightarrow> agent_settings sem" where
  "ensure_agent_settings E i =
     bind (gets (\<lambda>s. get_agent_settings s i)) (\<lambda>found.
     case found of
       Some a \<Rightarrow> ret a
     | None \<Rightarrow>
         bind (py_now E) (\<lambda>now.
         bind (new_id E ''agent_settings'') (\<lambda>sid.
         let a = default_agent_settings i sid now now in
         bind (save_agent_settings a) (\<lambda>_. ret a))))"

definition ensure_user_profile :: "env \<Rightarrow> string \<Rightarrow> settings_profile sem" where
  "ensure_user_profile E i =
     bind (gets (\<lambda>s. settings_get_profile s i)) (\<lambda>found.
     case found of
       Some p \<Rightarrow> ret p
     | None \<Rightarrow>
         bind (py_now E) (\<lambda>now.
         bind (new_id E ''user_profile'') (\<lambda>pid.
         let p = \<lparr>spf_id = pid, spf_account_id = i, spf_real_name = None, spf_nickname = None,
                  spf_description = None, spf_relationship = None, spf_created_at = now,
                  spf_updated_at = now\<rparr> in
         bind (save_user_profile p) (\<lambda>_. ret p))))"

definition view_settings :: "env \<Rightarrow> string \<Rightarrow> settings_view sem" where
  "view_settings E i =
     bind (settings_require_account i) (\<lambda>account.
     bind (ensure_agent_settings E (ac_id account)) (\<lambda>a.
     bind (ensure_user_profile E (ac_id account)) (\<lambda>p.
     ret \<lparr>sv_account_id = ac_id account, sv_default_timezone = ac_default_timezone account,
          sv_agent_settings = a, sv_user_profile = p\<rparr>)))"

text \<open>The call of \<open>proactive_reminder_port\<close>, the reminder repository, on its own store.\<close>

definition reminder_port :: "unit rem \<Rightarrow> unit sem" where
  "reminder_port m =
     (\<lambda>s. case m (settings_reminders s) of (r, t) \<Rightarrow> (r, s\<lparr>settings_reminders := t\<rparr>))"

definition save_timezone :: "env \<Rightarrow> account \<Rightarrow> datetime \<Rightarrow> pyval option \<Rightarrow> unit sem" where
  "save_timezone E account now given =
     (case given of
        None \<Rightarrow> ret ()
      | Some v \<Rightarrow>
          bind (lift (valid_timezone E v)) (\<lambda>timezone.
          if timezone \<noteq> ac_default_timezone account
          then save_account (account\<lparr>ac_default_timezone := timezone, ac_updated_at := now\<rparr>)
          else ret ()))"

definition save_updates ::
  "bool \<Rightarrow> settings_request \<Rightarrow> account \<Rightarrow> agent_settings \<Rightarrow> datetime \<Rightarrow> agent_settings \<Rightarrow> unit sem" where
  "save_updates port q account current now changed =
     (if gives_settings q
      then
        (let updated = changed\<lparr>ag_updated_at := now\<rparr> in
         bind (save_agent_settings updated) (\<lambda>_.
         if ag_proactive_enabled current \<and> \<not> ag_proactive_enabled updated \<and> port
         then reminder_port (discard_future_proactive (ac_id account) now)
         else ret ()))
      else ret ())"

definition update_settings :: "env \<Rightarrow> bool \<Rightarrow> string \<Rightarrow> settings_request \<Rightarrow> settings_view sem" where
  "update_settings E port i q =
     bind (settings_require_account i) (\<lambda>account.
     bind (ensure_agent_settings E (ac_id account)) (\<lambda>current.
     bind (py_now E) (\<lambda>now.
     bind (save_timezone E account now (sq_default_timezone q)) (\<lambda>_.
     bind (lift (updated_settings q current)) (\<lambda>changed.
     bind (save_updates port q account current now changed) (\<lambda>_.
     view_settings E (ac_id account)))))))"

definition no_settings :: settings_request where
  "no_settings =
     \<lparr>sq_default_timezone = None, sq_assistant_name = None, sq_user_address_name = None,
      sq_persona = None, sq_background = None, sq_speaking_style = None, sq_extra_rules = None,
      sq_proactive_enabled = None, sq_memory_enabled = None\<rparr>"

definition set_timezone :: "env \<Rightarrow> bool \<Rightarrow> string \<Rightarrow> string \<Rightarrow> settings_view sem" where
  "set_timezone E port i t = update_settings E port i (no_settings\<lparr>sq_default_timezone := Some (PyStr t)\<rparr>)"

definition update_profile :: "env \<Rightarrow> string \<Rightarrow> profile_request \<Rightarrow> settings_view sem" where
  "update_profile E i q =
     bind (settings_require_account i) (\<lambda>_.
     bind (ensure_user_profile E i) (\<lambda>current.
     bind (lift (updated_profile q current)) (\<lambda>changed.
     bind (if gives_profile q
           then bind (py_now E) (\<lambda>now. save_user_profile (changed\<lparr>spf_updated_at := now\<rparr>))
           else ret ()) (\<lambda>_.
     view_settings E i))))"

definition reset_agent_settings :: "env \<Rightarrow> string \<Rightarrow> settings_view sem" where
  "reset_agent_settings E i =
     bind (settings_require_account i) (\<lambda>_.
     bind (ensure_agent_settings E i) (\<lambda>current.
     bind (py_now E) (\<lambda>now.
     bind (save_agent_settings (default_agent_settings i (ag_id current) (ag_created_at current) now)) (\<lambda>_.
     view_settings E i))))"

end
