(* ===== verification/SettingsRuntime.thy ===== *)
theory SettingsRuntime
  imports Settings
begin

text \<open>
  The invariant of the settings store, kept by every method of the service whether it returns or raises,
  the service as a step relation, and what the single methods do.
\<close>

section \<open>The invariant\<close>

text \<open>Stored text is trimmed, not empty, and within the bound of its field.\<close>

definition tidy_text :: "nat \<Rightarrow> string \<Rightarrow> bool" where
  "tidy_text n t \<longleftrightarrow> t \<noteq> [] \<and> py_strip t = t \<and> length t \<le> n"

definition tidy_option :: "nat \<Rightarrow> string option \<Rightarrow> bool" where
  "tidy_option n v \<longleftrightarrow> pred_option (tidy_text n) v"

definition agent_settings_wf :: "agent_settings \<Rightarrow> bool" where
  "agent_settings_wf a \<longleftrightarrow>
     tidy_text 128 (ag_assistant_name a) \<and> tidy_option 128 (ag_user_address_name a) \<and>
     tidy_option 4000 (ag_persona a) \<and> tidy_option 4000 (ag_background a) \<and>
     tidy_option 4000 (ag_speaking_style a) \<and> tidy_option 4000 (ag_extra_rules a)"

definition settings_profile_wf :: "settings_profile \<Rightarrow> bool" where
  "settings_profile_wf p \<longleftrightarrow>
     tidy_option 160 (spf_real_name p) \<and> tidy_option 160 (spf_nickname p) \<and>
     tidy_option 4000 (spf_description p) \<and> tidy_option 4000 (spf_relationship p)"

definition known_zone :: "env \<Rightarrow> string \<Rightarrow> bool" where
  "known_zone E t \<longleftrightarrow> (\<exists>z. env_zone E t = Inr z)"

definition accounts_ok :: "env \<Rightarrow> settings_state \<Rightarrow> bool" where
  "accounts_ok E s \<longleftrightarrow> keyed ac_id (settings_accounts s) \<and>
     (\<forall>i a. settings_get_account s i = Some a \<longrightarrow> known_zone E (ac_default_timezone a))"

definition settings_ok :: "env \<Rightarrow> settings_state \<Rightarrow> bool" where
  "settings_ok E s \<longleftrightarrow>
     accounts_ok E s \<and> keyed ag_account_id (agent_settings_by_account s) \<and>
     (\<forall>i a. get_agent_settings s i = Some a \<longrightarrow> settings_get_account s i \<noteq> None \<and> agent_settings_wf a) \<and>
     keyed spf_account_id (user_profiles_by_account s) \<and>
     (\<forall>i p. settings_get_profile s i = Some p \<longrightarrow> settings_get_account s i \<noteq> None \<and> settings_profile_wf p) \<and>
     rem_ok (settings_reminders s)"

lemmas settings_reads = settings_get_account_def get_agent_settings_def settings_get_profile_def
lemmas settings_ok_defs = settings_ok_def accounts_ok_def settings_reads

lemma settings_ok_counters [simp]:
  "settings_ok E (s\<lparr>clock := n\<rparr>) = settings_ok E s" "settings_ok E (s\<lparr>issued := n\<rparr>) = settings_ok E s"
  by (simp_all add: settings_ok_defs)

lemma reads_counters [simp]:
  "settings_get_account (s\<lparr>clock := n\<rparr>) i = settings_get_account s i"
  "settings_get_account (s\<lparr>issued := n\<rparr>) i = settings_get_account s i"
  "get_agent_settings (s\<lparr>clock := n\<rparr>) i = get_agent_settings s i"
  "get_agent_settings (s\<lparr>issued := n\<rparr>) i = get_agent_settings s i"
  "settings_get_profile (s\<lparr>clock := n\<rparr>) i = settings_get_profile s i"
  "settings_get_profile (s\<lparr>issued := n\<rparr>) i = settings_get_profile s i"
  by (simp_all add: settings_reads)

section \<open>What the checks accept\<close>

lemma valid_timezone_known: "valid_timezone E v = Inr t \<Longrightarrow> v = PyStr t \<and> known_zone E t"
  by (auto simp: valid_timezone_def known_zone_def split: pyval.splits sum.splits if_splits)

lemma required_text_tidy: "required_text v name n = Inr t \<Longrightarrow> v = PyStr t \<and> tidy_text n t"
  by (auto simp: required_text_def tidy_text_def invalid_setting_def split: pyval.splits if_splits)

text \<open>The value an optional field takes: \<open>null\<close> and the empty string clear it.\<close>

fun cleared_or_text :: "pyval \<Rightarrow> string option" where
  "cleared_or_text (PyStr t) = (if t = [] then None else Some t)"
| "cleared_or_text _ = None"

lemma optional_text_tidy: "optional_text v name n = Inr t \<Longrightarrow> t = cleared_or_text v \<and> tidy_option n t"
  by (auto simp: optional_text_def tidy_option_def tidy_text_def invalid_setting_def
      split: pyval.splits if_splits)

lemma required_bool_given: "required_bool v name = Inr b \<Longrightarrow> v = PyBool b"
  by (auto simp: required_bool_def invalid_setting_def split: pyval.splits)

lemma given_or_cases:
  "given_or v check old = Inr new \<Longrightarrow> v = None \<and> new = old \<or> (\<exists>x. v = Some x \<and> check x = Inr new)"
  by (auto simp: given_or_def split: option.splits)

lemma given_text: "given_or v (\<lambda>x. optional_text x name n) old = Inr new \<Longrightarrow> tidy_option n old \<Longrightarrow>
    tidy_option n new \<and> (case v of None \<Rightarrow> old | Some x \<Rightarrow> cleared_or_text x) = new"
  by (auto dest!: given_or_cases optional_text_tidy)

lemma given_required: "given_or v (\<lambda>x. required_text x name n) old = Inr new \<Longrightarrow> tidy_text n old \<Longrightarrow>
    tidy_text n new \<and> (v = None \<and> new = old \<or> v = Some (PyStr new))"
  by (auto dest!: given_or_cases required_text_tidy)

lemma given_bool: "given_or v (\<lambda>x. required_bool x name) old = Inr new \<Longrightarrow>
    v = None \<and> new = old \<or> v = Some (PyBool new)"
  by (auto dest!: given_or_cases required_bool_given)

lemma updated_settings_key:
  "updated_settings q a = Inr b \<Longrightarrow> ag_id b = ag_id a \<and> ag_account_id b = ag_account_id a \<and>
     ag_created_at b = ag_created_at a \<and> ag_updated_at b = ag_updated_at a"
  by (auto simp: updated_settings_def sbind_Inr_iff)

lemma updated_profile_key:
  "updated_profile q p = Inr b \<Longrightarrow> spf_id b = spf_id p \<and> spf_account_id b = spf_account_id p \<and>
     spf_created_at b = spf_created_at p"
  by (auto simp: updated_profile_def sbind_Inr_iff)

text \<open>The settings a request asks for.\<close>

definition asked_settings :: "settings_request \<Rightarrow> agent_settings \<Rightarrow> agent_settings \<Rightarrow> bool" where
  "asked_settings q a b \<longleftrightarrow>
     (sq_assistant_name q = None \<and> ag_assistant_name b = ag_assistant_name a \<or>
      sq_assistant_name q = Some (PyStr (ag_assistant_name b))) \<and>
     ag_user_address_name b = (case sq_user_address_name q of None \<Rightarrow> ag_user_address_name a | Some v \<Rightarrow> cleared_or_text v) \<and>
     ag_persona b = (case sq_persona q of None \<Rightarrow> ag_persona a | Some v \<Rightarrow> cleared_or_text v) \<and>
     ag_background b = (case sq_background q of None \<Rightarrow> ag_background a | Some v \<Rightarrow> cleared_or_text v) \<and>
     ag_speaking_style b = (case sq_speaking_style q of None \<Rightarrow> ag_speaking_style a | Some v \<Rightarrow> cleared_or_text v) \<and>
     ag_extra_rules b = (case sq_extra_rules q of None \<Rightarrow> ag_extra_rules a | Some v \<Rightarrow> cleared_or_text v) \<and>
     (sq_proactive_enabled q = None \<and> ag_proactive_enabled b = ag_proactive_enabled a \<or>
      sq_proactive_enabled q = Some (PyBool (ag_proactive_enabled b))) \<and>
     (sq_memory_enabled q = None \<and> ag_memory_enabled b = ag_memory_enabled a \<or>
      sq_memory_enabled q = Some (PyBool (ag_memory_enabled b)))"

lemma updated_settings_asked:
  assumes "updated_settings q a = Inr b" and wf: "agent_settings_wf a"
  shows "agent_settings_wf b \<and> asked_settings q a b"
proof -
  obtain name address persona background style rules proactive memory where
    parts: "given_or (sq_assistant_name q) (\<lambda>v. required_text v ''assistant_name'' 128) (ag_assistant_name a) = Inr name"
      "given_or (sq_user_address_name q) (\<lambda>v. optional_text v ''user_address_name'' 128) (ag_user_address_name a) = Inr address"
      "given_or (sq_persona q) (\<lambda>v. optional_text v ''persona'' 4000) (ag_persona a) = Inr persona"
      "given_or (sq_background q) (\<lambda>v. optional_text v ''background'' 4000) (ag_background a) = Inr background"
      "given_or (sq_speaking_style q) (\<lambda>v. optional_text v ''speaking_style'' 4000) (ag_speaking_style a) = Inr style"
      "given_or (sq_extra_rules q) (\<lambda>v. optional_text v ''extra_rules'' 4000) (ag_extra_rules a) = Inr rules"
      "given_or (sq_proactive_enabled q) (\<lambda>v. required_bool v ''proactive_enabled'') (ag_proactive_enabled a) = Inr proactive"
      "given_or (sq_memory_enabled q) (\<lambda>v. required_bool v ''memory_enabled'') (ag_memory_enabled a) = Inr memory"
    and b: "b = a\<lparr>ag_assistant_name := name, ag_user_address_name := address, ag_persona := persona,
            ag_background := background, ag_speaking_style := style, ag_extra_rules := rules,
            ag_proactive_enabled := proactive, ag_memory_enabled := memory\<rparr>"
    using assms(1) unfolding updated_settings_def sbind_Inr_iff by blast
  from wf have old: "tidy_text 128 (ag_assistant_name a)" "tidy_option 128 (ag_user_address_name a)"
    "tidy_option 4000 (ag_persona a)" "tidy_option 4000 (ag_background a)"
    "tidy_option 4000 (ag_speaking_style a)" "tidy_option 4000 (ag_extra_rules a)"
    by (simp_all add: agent_settings_wf_def)
  note given_required [OF parts(1) old(1)] given_text [OF parts(2) old(2)] given_text [OF parts(3) old(3)]
    given_text [OF parts(4) old(4)] given_text [OF parts(5) old(5)] given_text [OF parts(6) old(6)]
    given_bool [OF parts(7)] given_bool [OF parts(8)]
  then show ?thesis by (simp add: b agent_settings_wf_def asked_settings_def)
qed

definition asked_profile :: "profile_request \<Rightarrow> settings_profile \<Rightarrow> settings_profile \<Rightarrow> bool" where
  "asked_profile q a b \<longleftrightarrow>
     spf_real_name b = (case pq_real_name q of None \<Rightarrow> spf_real_name a | Some v \<Rightarrow> cleared_or_text v) \<and>
     spf_nickname b = (case pq_nickname q of None \<Rightarrow> spf_nickname a | Some v \<Rightarrow> cleared_or_text v) \<and>
     spf_description b = (case pq_description q of None \<Rightarrow> spf_description a | Some v \<Rightarrow> cleared_or_text v) \<and>
     spf_relationship b = (case pq_relationship q of None \<Rightarrow> spf_relationship a | Some v \<Rightarrow> cleared_or_text v)"

lemma updated_profile_asked:
  assumes "updated_profile q a = Inr b" and wf: "settings_profile_wf a"
  shows "settings_profile_wf b \<and> asked_profile q a b"
  using assms unfolding updated_profile_def sbind_Inr_iff settings_profile_wf_def asked_profile_def
  by (auto dest!: given_text)

lemma default_settings_wf [simp]: "agent_settings_wf (default_agent_settings i sid c u)"
  by (simp add: agent_settings_wf_def default_agent_settings_def tidy_text_def tidy_option_def py_strip_def
      py_space_def Let_def)

section \<open>Primitive writes\<close>

definition put_agent :: "agent_settings \<Rightarrow> settings_state \<Rightarrow> settings_state" where
  "put_agent a s = s\<lparr>agent_settings_by_account := dput (ag_account_id a) a (agent_settings_by_account s)\<rparr>"

definition put_settings_profile :: "settings_profile \<Rightarrow> settings_state \<Rightarrow> settings_state" where
  "put_settings_profile p s =
     s\<lparr>user_profiles_by_account := dput (spf_account_id p) p (user_profiles_by_account s)\<rparr>"

definition put_settings_account :: "account \<Rightarrow> settings_state \<Rightarrow> settings_state" where
  "put_settings_account a s = s\<lparr>settings_accounts := dput (ac_id a) a (settings_accounts s)\<rparr>"

lemmas put_defs = put_agent_def put_settings_profile_def put_settings_account_def

lemma reads_put [simp]:
  "settings_get_account (put_agent a s) i = settings_get_account s i"
  "settings_get_account (put_settings_profile p s) i = settings_get_account s i"
  "settings_get_account (put_settings_account c s) i = (if i = ac_id c then Some c else settings_get_account s i)"
  "get_agent_settings (put_agent a s) i = (if i = ag_account_id a then Some a else get_agent_settings s i)"
  "get_agent_settings (put_settings_profile p s) i = get_agent_settings s i"
  "get_agent_settings (put_settings_account c s) i = get_agent_settings s i"
  "settings_get_profile (put_agent a s) i = settings_get_profile s i"
  "settings_get_profile (put_settings_profile p s) i =
     (if i = spf_account_id p then Some p else settings_get_profile s i)"
  "settings_get_profile (put_settings_account c s) i = settings_get_profile s i"
  "settings_reminders (put_agent a s) = settings_reminders s"
  "settings_reminders (put_settings_profile p s) = settings_reminders s"
  "settings_reminders (put_settings_account c s) = settings_reminders s"
  "clock (put_settings_account c s) = clock s"
  by (simp_all add: put_defs settings_reads)

lemma settings_ok_put:
  assumes "settings_ok E s"
  shows "settings_get_account s (ag_account_id a) \<noteq> None \<Longrightarrow> agent_settings_wf a \<Longrightarrow> settings_ok E (put_agent a s)"
    "settings_get_account s (spf_account_id p) \<noteq> None \<Longrightarrow> settings_profile_wf p \<Longrightarrow>
      settings_ok E (put_settings_profile p s)"
    "known_zone E (ac_default_timezone c) \<Longrightarrow> settings_ok E (put_settings_account c s)"
  using assms by (auto simp: settings_ok_defs put_defs intro!: keyed_dput)

lemma settings_ok_reads:
  assumes "settings_ok E s"
  shows "settings_get_account s i = Some a \<Longrightarrow> ac_id a = i \<and> known_zone E (ac_default_timezone a)"
    "get_agent_settings s i = Some g \<Longrightarrow> ag_account_id g = i \<and> agent_settings_wf g"
    "settings_get_profile s i = Some p \<Longrightarrow> spf_account_id p = i \<and> settings_profile_wf p"
  using assms by (auto simp: settings_ok_defs dest: keyed_get)

lemma wp_save_agent:
  "wp (save_agent_settings a)
     (\<lambda>_ t. t = put_agent a s \<and> settings_get_account s (ag_account_id a) \<noteq> None)
     (\<lambda>e t. t = s \<and> is_value_error e \<and> (settings_get_account s (ag_account_id a) = None \<or>
        (\<exists>old. get_agent_settings s (ag_account_id a) = Some old \<and> ag_id old \<noteq> ag_id a))) s"
  by (auto simp: save_agent_settings_def refuse_if_def wp_simps put_agent_def split: option.splits)

lemma wp_save_profile:
  "wp (save_user_profile p)
     (\<lambda>_ t. t = put_settings_profile p s \<and> settings_get_account s (spf_account_id p) \<noteq> None)
     (\<lambda>e t. t = s \<and> is_value_error e \<and> (settings_get_account s (spf_account_id p) = None \<or>
        (\<exists>old. settings_get_profile s (spf_account_id p) = Some old \<and> spf_id old \<noteq> spf_id p))) s"
  by (auto simp: save_user_profile_def refuse_if_def wp_simps put_settings_profile_def split: option.splits)

lemma wp_save_account:
  "wp (save_account c)
     (\<lambda>_ t. t = put_settings_account c s \<and> settings_get_account s (ac_id c) \<noteq> None) (\<lambda>e t. t = s) s"
  by (auto simp: save_account_def refuse_if_def wp_simps put_settings_account_def)

section \<open>What a call may touch\<close>

text \<open>
  Calls for one account leave everything of the others as it is; \<open>only_defaults\<close> says that, besides,
  nothing has changed for the account itself but default settings made where it had none.
\<close>

definition others_untouched :: "string \<Rightarrow> settings_state \<Rightarrow> settings_state \<Rightarrow> bool" where
  "others_untouched i s t \<longleftrightarrow>
     (\<forall>j. j \<noteq> i \<longrightarrow> settings_get_account t j = settings_get_account s j \<and>
        get_agent_settings t j = get_agent_settings s j \<and> settings_get_profile t j = settings_get_profile s j) \<and>
     (\<forall>k r. get_reminder (settings_reminders s) k = Some r \<longrightarrow> owner_account_id r \<noteq> i \<longrightarrow>
        get_reminder (settings_reminders t) k = Some r)"

definition fresh_settings :: "string \<Rightarrow> agent_settings option \<Rightarrow> bool" where
  "fresh_settings i x \<longleftrightarrow> x = None \<or> (\<exists>sid c. x = Some (default_agent_settings i sid c c))"

lemma fresh_settings_None [simp]: "fresh_settings i None"
  by (simp add: fresh_settings_def)

lemma fresh_settings_default [simp]: "fresh_settings i (Some (default_agent_settings i sid c c))"
  unfolding fresh_settings_def by blast

definition only_defaults :: "string \<Rightarrow> settings_state \<Rightarrow> settings_state \<Rightarrow> bool" where
  "only_defaults i s t \<longleftrightarrow>
     others_untouched i s t \<and> settings_get_account t i = settings_get_account s i \<and>
     settings_reminders t = settings_reminders s \<and>
     (\<forall>g. get_agent_settings s i = Some g \<longrightarrow> get_agent_settings t i = Some g) \<and>
     (get_agent_settings s i = None \<longrightarrow> fresh_settings i (get_agent_settings t i)) \<and>
     (\<forall>p. settings_get_profile s i = Some p \<longrightarrow> settings_get_profile t i = Some p)"

lemma untouched_refl [simp]: "others_untouched i s s"
  by (simp add: others_untouched_def)

lemma untouched_trans: "others_untouched i s t \<Longrightarrow> others_untouched i t u \<Longrightarrow> others_untouched i s u"
  by (simp add: others_untouched_def)

lemma defaults_refl [simp]: "only_defaults i s s"
  by (simp add: only_defaults_def)

lemma defaults_trans: "only_defaults i s t \<Longrightarrow> only_defaults i t u \<Longrightarrow> only_defaults i s u"
  by (cases "get_agent_settings t i") (auto simp: only_defaults_def intro: untouched_trans)

lemma untouched_counters [simp]:
  "others_untouched i s (t\<lparr>clock := n\<rparr>) = others_untouched i s t"
  "only_defaults i s (t\<lparr>clock := n\<rparr>) = only_defaults i s t"
  by (simp_all add: others_untouched_def only_defaults_def)

lemma wp_ensure_agent:
  assumes ok: "settings_ok E s" and "settings_get_account s i \<noteq> None"
  shows "wp (ensure_agent_settings E i)
    (\<lambda>a t. settings_ok E t \<and> get_agent_settings t i = Some a \<and> only_defaults i s t \<and>
       settings_get_profile t i = settings_get_profile s i) (\<lambda>_ _. False) s"
proof (cases "get_agent_settings s i")
  case None
  define a where "a = default_agent_settings i (env_id E ''agent_settings'' (issued s)) (env_now E (clock s)) (env_now E (clock s))"
  have a: "ag_account_id a = i" "agent_settings_wf a" by (simp add: a_def default_agent_settings_def) (simp add: a_def)
  have fresh: "fresh_settings i (Some a)" unfolding a_def by (rule fresh_settings_default)
  let ?s = "s\<lparr>clock := Suc (clock s), issued := Suc (issued s)\<rparr>"
  have "settings_ok E (put_agent a ?s)"
    using assms a by (intro settings_ok_put(1)) (simp_all add: settings_reads settings_ok_defs)
  moreover have "only_defaults i s (put_agent a ?s)"
    using None a fresh by (auto simp: only_defaults_def others_untouched_def)
  ultimately have stored: "wp (bind (save_agent_settings a) (\<lambda>_. ret a))
    (\<lambda>a t. settings_ok E t \<and> get_agent_settings t i = Some a \<and> only_defaults i s t \<and>
       settings_get_profile t i = settings_get_profile s i) (\<lambda>_ _. False) ?s"
    unfolding wp_simps
    by (rule_tac wp_mono [OF wp_save_agent]) (use None assms a in auto)
  show ?thesis
    using stored by (simp add: ensure_agent_settings_def wp_simps None Let_def a_def)
next
  case (Some g)
  then show ?thesis using ok by (simp add: ensure_agent_settings_def wp_simps)
qed

lemma wp_ensure_profile:
  assumes ok: "settings_ok E s" and "settings_get_account s i \<noteq> None"
  shows "wp (ensure_user_profile E i)
    (\<lambda>p t. settings_ok E t \<and> settings_get_profile t i = Some p \<and> only_defaults i s t) (\<lambda>_ _. False) s"
proof (cases "settings_get_profile s i")
  case None
  define p where "p = \<lparr>spf_id = env_id E ''user_profile'' (issued s), spf_account_id = i, spf_real_name = None,
    spf_nickname = None, spf_description = None, spf_relationship = None,
    spf_created_at = env_now E (clock s), spf_updated_at = env_now E (clock s)\<rparr>"
  have p: "spf_account_id p = i" "settings_profile_wf p"
    by (simp_all add: p_def settings_profile_wf_def tidy_option_def)
  let ?s = "s\<lparr>clock := Suc (clock s), issued := Suc (issued s)\<rparr>"
  have "settings_ok E (put_settings_profile p ?s)"
    using assms p by (intro settings_ok_put(2)) (simp_all add: settings_reads settings_ok_defs)
  moreover have "only_defaults i s (put_settings_profile p ?s)"
    using None p by (auto simp: only_defaults_def others_untouched_def)
  ultimately have stored: "wp (bind (save_user_profile p) (\<lambda>_. ret p))
    (\<lambda>p t. settings_ok E t \<and> settings_get_profile t i = Some p \<and> only_defaults i s t) (\<lambda>_ _. False) ?s"
    unfolding wp_simps
    by (rule_tac wp_mono [OF wp_save_profile]) (use None assms p in auto)
  show ?thesis
    using stored by (simp add: ensure_user_profile_def wp_simps None Let_def p_def)
next
  case (Some g)
  then show ?thesis using ok by (simp add: ensure_user_profile_def wp_simps)
qed

section \<open>The methods\<close>

definition shows_settings :: "string \<Rightarrow> settings_state \<Rightarrow> settings_view \<Rightarrow> bool" where
  "shows_settings i t v \<longleftrightarrow>
     sv_account_id v = i \<and>
     map_option ac_default_timezone (settings_get_account t i) = Some (sv_default_timezone v) \<and>
     get_agent_settings t i = Some (sv_agent_settings v) \<and>
     settings_get_profile t i = Some (sv_user_profile v)"

definition account_missing :: "string \<Rightarrow> pyexn" where
  "account_missing i = SettingsError ''account_not_found''
     (Some [(''type'', PyStr ''account_not_found''), (''account_id'', PyStr i)])"

lemma wp_settings_account:
  assumes "settings_get_account s i = None \<Longrightarrow> X (account_missing i) s"
    and "\<And>a. settings_get_account s i = Some a \<Longrightarrow> wp (m a) Q X s"
  shows "wp (bind (settings_require_account i) m) Q X s"
  using assms by (auto simp: settings_require_account_def wp_simps account_missing_def split: option.splits)

lemma wp_view_settings:
  assumes ok: "settings_ok E s"
  shows "wp (view_settings E i)
    (\<lambda>v t. settings_ok E t \<and> shows_settings i t v \<and> only_defaults i s t)
    (\<lambda>e t. t = s \<and> e = account_missing i \<and> settings_get_account s i = None) s"
  unfolding view_settings_def
proof (rule wp_settings_account)
  fix a
  assume a: "settings_get_account s i = Some a"
  then have i: "ac_id a = i" using settings_ok_reads(1) [OF ok] by blast
  show "wp (bind (ensure_agent_settings E (ac_id a)) (\<lambda>g. bind (ensure_user_profile E (ac_id a)) (\<lambda>p.
      ret \<lparr>sv_account_id = ac_id a, sv_default_timezone = ac_default_timezone a,
        sv_agent_settings = g, sv_user_profile = p\<rparr>)))
    (\<lambda>v t. settings_ok E t \<and> shows_settings i t v \<and> only_defaults i s t)
    (\<lambda>e t. t = s \<and> e = account_missing i \<and> settings_get_account s i = None) s"
    unfolding wp_simps i
  proof (rule wp_mono [OF wp_ensure_agent [OF ok]])
    show "settings_get_account s i \<noteq> None" by (simp add: a)
  next
    fix g t
    assume g: "settings_ok E t \<and> get_agent_settings t i = Some g \<and> only_defaults i s t \<and>
      settings_get_profile t i = settings_get_profile s i"
    then have a': "settings_get_account t i = Some a" by (simp add: only_defaults_def a)
    have a'': "settings_get_account u i = Some a" if "only_defaults i t u" for u
      using that by (simp add: only_defaults_def a')
    have g': "get_agent_settings u i = Some g" if "only_defaults i t u" for u
      using that g by (simp add: only_defaults_def)
    show "wp (ensure_user_profile E i) (\<lambda>p u. settings_ok E u \<and>
        shows_settings i u \<lparr>sv_account_id = i, sv_default_timezone = ac_default_timezone a,
          sv_agent_settings = g, sv_user_profile = p\<rparr> \<and> only_defaults i s u)
        (\<lambda>e u. u = s \<and> e = account_missing i \<and> settings_get_account s i = None) t"
      by (rule wp_mono [OF wp_ensure_profile]) (use g a' in \<open>auto simp: shows_settings_def a'' g' intro: defaults_trans\<close>)
  qed simp
qed simp

text \<open>Discarding the proactive reminders that are still to come.\<close>

definition discarded :: "string \<Rightarrow> datetime \<Rightarrow> reminder \<Rightarrow> reminder" where
  "discarded owner at r =
     (if owner_account_id r = owner \<and> rem_kind r = Proactive \<and> lifecycle r = Active \<and>
         (\<exists>t. next_fire_at r = Some t \<and> dt_lt at t = Inr True)
      then r\<lparr>lifecycle := Deleted, rem_updated_at := at\<rparr> else r)"

lemma discarded_id [simp]: "rem_id (discarded owner at r) = rem_id r"
  by (simp add: discarded_def)

abbreviation discard_one :: "string \<Rightarrow> datetime \<Rightarrow> reminder \<Rightarrow> unit rem" where
  "discard_one owner at r \<equiv>
     (if owner_account_id r = owner \<and> rem_kind r = Proactive \<and> lifecycle r = Active
      then (case next_fire_at r of None \<Rightarrow> ret ()
         | Some t \<Rightarrow> bind (lift (dt_lt at t)) (\<lambda>later.
             if later then modify (put_reminder (r\<lparr>lifecycle := Deleted, rem_updated_at := at\<rparr>)) else ret ()))
      else ret ())"

definition put_discarded :: "string \<Rightarrow> datetime \<Rightarrow> reminder \<Rightarrow> rem_state \<Rightarrow> rem_state" where
  "put_discarded owner at r s =
     (if discarded owner at r = r then s else put_reminder (discarded owner at r) s)"

lemma get_put_discarded:
  assumes "get_reminder s (rem_id r) = Some r"
  shows "get_reminder (put_discarded owner at r s) k =
    (if k = rem_id r then Some (discarded owner at r) else get_reminder s k)"
  using assms by (auto simp: put_discarded_def get_reminder_def put_reminder_def)

lemma changed_lifecycle: "lifecycle r = Active \<Longrightarrow> r\<lparr>lifecycle := Deleted, rem_updated_at := at\<rparr> \<noteq> r"
  by (cases r) simp

lemma wp_discard_one:
  "wp (discard_one owner at r) (\<lambda>_ t. t = put_discarded owner at r s) (\<lambda>e t. t = s \<and> e = TypeError) s"
proof (cases "owner_account_id r = owner \<and> rem_kind r = Proactive \<and> lifecycle r = Active")
  case False
  then have "discarded owner at r = r" by (auto simp: discarded_def)
  with False show ?thesis by (auto simp: wp_simps put_discarded_def)
next
  case mine: True
  show ?thesis
  proof (cases "next_fire_at r")
    case None
    then have "discarded owner at r = r" by (simp add: discarded_def)
    with mine None show ?thesis by (simp add: wp_simps put_discarded_def)
  next
    case (Some t)
    show ?thesis
    proof (cases "dt_lt at t = Inr True")
      case True
      then have "discarded owner at r = r\<lparr>lifecycle := Deleted, rem_updated_at := at\<rparr>"
        using mine Some by (simp add: discarded_def)
      with True mine Some changed_lifecycle [of r at] show ?thesis by (simp add: wp_simps put_discarded_def)
    next
      case False
      then have "discarded owner at r = r" using Some by (simp add: discarded_def)
      moreover have "dt_lt at t = Inr False \<or> dt_lt at t = Inl TypeError"
        using False by (cases at; cases t) auto
      ultimately show ?thesis using mine Some by (auto simp: wp_simps put_discarded_def)
    qed
  qed
qed

definition foreign_reminders_kept :: "string \<Rightarrow> rem_state \<Rightarrow> rem_state \<Rightarrow> bool" where
  "foreign_reminders_kept owner s t \<longleftrightarrow>
     (\<forall>k r. get_reminder s k = Some r \<longrightarrow> owner_account_id r \<noteq> owner \<longrightarrow> get_reminder t k = Some r)"

lemma kept_put_discarded:
  assumes "get_reminder s (rem_id r) = Some r"
    and "foreign_reminders_kept owner (put_discarded owner at r s) t"
  shows "foreign_reminders_kept owner s t"
  unfolding foreign_reminders_kept_def
proof (intro allI impI)
  fix k x
  assume x: "get_reminder s k = Some x" "owner_account_id x \<noteq> owner"
  then have "discarded owner at x = x" by (simp add: discarded_def)
  then have "get_reminder (put_discarded owner at r s) k = Some x"
    using x assms(1) by (auto simp: get_put_discarded)
  with assms(2) x(2) show "get_reminder t k = Some x" by (simp add: foreign_reminders_kept_def)
qed

lemma wp_discard_loop:
  assumes "distinct (map rem_id rs)"
    and "\<And>r. r \<in> set rs \<Longrightarrow> get_reminder s (rem_id r) = Some r"
  shows "wp (for_each rs (discard_one owner at))
     (\<lambda>_ t. \<forall>k. get_reminder t k = (if k \<in> rem_id ` set rs
        then map_option (discarded owner at) (get_reminder s k) else get_reminder s k))
     (\<lambda>e t. e = TypeError \<and> foreign_reminders_kept owner s t) s"
  using assms
proof (induction rs arbitrary: s)
  case Nil
  then show ?case by (simp add: wp_simps)
next
  case (Cons r rs)
  have r: "get_reminder s (rem_id r) = Some r" by (rule Cons.prems) simp
  let ?s = "put_discarded owner at r s"
  have other: "rem_id x \<noteq> rem_id r" if "x \<in> set rs" for x
    using that Cons.prems(1) by (auto simp: image_iff)
  have rest: "wp (for_each rs (discard_one owner at))
     (\<lambda>_ t. \<forall>k. get_reminder t k = (if k \<in> rem_id ` set rs
        then map_option (discarded owner at) (get_reminder ?s k) else get_reminder ?s k))
     (\<lambda>e t. e = TypeError \<and> foreign_reminders_kept owner ?s t) ?s"
    by (rule Cons.IH) (use Cons.prems other in \<open>simp_all add: get_put_discarded [OF r]\<close>)
  have "wp (for_each rs (discard_one owner at))
     (\<lambda>_ t. \<forall>k. get_reminder t k = (if k \<in> rem_id ` set (r # rs)
        then map_option (discarded owner at) (get_reminder s k) else get_reminder s k))
     (\<lambda>e t. e = TypeError \<and> foreign_reminders_kept owner s t) ?s"
    by (rule wp_mono [OF rest])
      (use Cons.prems(1) r kept_put_discarded [OF r] in \<open>auto simp: get_put_discarded [OF r]\<close>)
  then show ?case
    unfolding for_each.simps wp_bind
    by (intro wp_mono [OF wp_discard_one]) (auto simp: foreign_reminders_kept_def)
qed

lemma plain_rem_ok: "inv_with (\<lambda>_. True) {} = rem_ok"
  by (simp add: fun_eq_iff inv_with_def rem_inv_empty)

lemma wp_discard_future:
  assumes "rem_ok s"
  shows "wp (discard_future_proactive owner at)
     (\<lambda>_ t. rem_ok t \<and> (\<forall>k. get_reminder t k = map_option (discarded owner at) (get_reminder s k)))
     (\<lambda>e t. rem_ok t \<and> e = TypeError \<and> foreign_reminders_kept owner s t) s"
proof -
  let ?rs = "dvalues (reminders_by_id s)"
  have k: "keyed rem_id (reminders_by_id s)" using assms by (simp add: rem_ok_def)
  have stored: "get_reminder s (rem_id r) = Some r" if "r \<in> set ?rs" for r
    using that keyed_values [OF k] by (simp add: get_reminder_def)
  have all: "k \<in> rem_id ` set ?rs" if "get_reminder s k = Some r" for k r
    using that keyed_get [OF k] dget_values by (force simp: get_reminder_def)
  have loop: "wp (discard_future_proactive owner at)
     (\<lambda>_ t. \<forall>k. get_reminder t k = (if k \<in> rem_id ` set ?rs
        then map_option (discarded owner at) (get_reminder s k) else get_reminder s k))
     (\<lambda>e t. e = TypeError \<and> foreign_reminders_kept owner s t) s"
    unfolding discard_future_proactive_def wp_simps
    using wp_discard_loop [OF keyed_distinct [OF k] stored] by simp
  have "wp (discard_future_proactive owner at) (\<lambda>_. rem_ok) (\<lambda>_. rem_ok) s"
    using plain.keeps_discard_future [of "{}" owner at] assms
    by (simp add: preserves_def plain_rem_ok)
  from wp_conj [OF loop this] show ?thesis
  proof (rule wp_mono)
    fix x t
    assume t: "(\<forall>k. get_reminder t k = (if k \<in> rem_id ` set ?rs
        then map_option (discarded owner at) (get_reminder s k) else get_reminder s k)) \<and> rem_ok t"
    have "get_reminder t k = map_option (discarded owner at) (get_reminder s k)" for k
      using t all [of k] by (cases "get_reminder s k") auto
    with t show "rem_ok t \<and> (\<forall>k. get_reminder t k = map_option (discarded owner at) (get_reminder s k))"
      by blast
  qed simp
qed

subsection \<open>Updates\<close>

lemma defaults_untouched: "only_defaults i s t \<Longrightarrow> others_untouched i s t"
  by (simp add: only_defaults_def)

lemma untouched_put:
  "settings_get_account s i \<noteq> None \<Longrightarrow> ac_id c = i \<Longrightarrow> others_untouched i s (put_settings_account c s)"
  "ag_account_id a = i \<Longrightarrow> others_untouched i s (put_agent a s)"
  "spf_account_id p = i \<Longrightarrow> others_untouched i s (put_settings_profile p s)"
  by (simp_all add: others_untouched_def)

text \<open>The time zone an account has once the request is taken.\<close>

definition asked_timezone :: "pyval option \<Rightarrow> string \<Rightarrow> string \<Rightarrow> bool" where
  "asked_timezone given old new \<longleftrightarrow> given = None \<and> new = old \<or> given = Some (PyStr new)"

text \<open>Only the time zone of the account has changed, by a valid request.\<close>

definition only_timezone :: "env \<Rightarrow> string \<Rightarrow> pyval option \<Rightarrow> settings_state \<Rightarrow> settings_state \<Rightarrow> bool" where
  "only_timezone E i given s t \<longleftrightarrow>
     (\<exists>a b. settings_get_account s i = Some a \<and> settings_get_account t i = Some b \<and>
        asked_timezone given (ac_default_timezone a) (ac_default_timezone b)) \<and>
     others_untouched i s t \<and> settings_reminders t = settings_reminders s \<and> clock t = clock s \<and>
     get_agent_settings t i = get_agent_settings s i \<and> settings_get_profile t i = settings_get_profile s i"

lemma wp_save_timezone:
  assumes ok: "settings_ok E s" and a: "settings_get_account s i = Some a"
  shows "wp (save_timezone E a now given)
     (\<lambda>_ t. settings_ok E t \<and> only_timezone E i given s t) (\<lambda>e t. t = s) s"
proof -
  have i: "ac_id a = i" using settings_ok_reads(1) [OF ok a] by blast
  show ?thesis
  proof (cases given)
    case None
    with ok a show ?thesis by (simp add: save_timezone_def wp_simps only_timezone_def asked_timezone_def)
  next
    case (Some v)
    show ?thesis
    proof (cases "valid_timezone E v")
      case (Inl e)
      with Some show ?thesis by (simp add: save_timezone_def wp_simps)
    next
      case (Inr tz)
      note tz = valid_timezone_known [OF Inr]
      let ?c = "a\<lparr>ac_default_timezone := tz, ac_updated_at := now\<rparr>"
      have "settings_ok E (put_settings_account ?c s)"
        using tz by (intro settings_ok_put(3) [OF ok]) simp
      then have new: "settings_ok E (put_settings_account ?c s) \<and> only_timezone E i given s (put_settings_account ?c s)"
        using Some a i tz untouched_put(1) [of s i ?c] by (simp add: only_timezone_def asked_timezone_def)
      have "wp (save_account ?c) (\<lambda>_ t. settings_ok E t \<and> only_timezone E i given s t) (\<lambda>e t. t = s) s"
        by (rule wp_mono [OF wp_save_account]) (use new in auto)
      moreover have "only_timezone E i given s s" if "tz = ac_default_timezone a"
        using that Some a tz by (simp add: only_timezone_def asked_timezone_def)
      ultimately show ?thesis using Some Inr ok by (simp add: save_timezone_def wp_simps)
    qed
  qed
qed

definition proactive_discarded ::
  "bool \<Rightarrow> string \<Rightarrow> agent_settings \<Rightarrow> agent_settings \<Rightarrow> rem_state \<Rightarrow> rem_state \<Rightarrow> bool" where
  "proactive_discarded port i a b s t \<longleftrightarrow>
     (if port \<and> ag_proactive_enabled a \<and> \<not> ag_proactive_enabled b
      then \<forall>k. get_reminder t k = map_option (discarded i (ag_updated_at b)) (get_reminder s k)
      else t = s)"

lemma wp_reminder_port:
  assumes "wp m Q X (settings_reminders s)"
  shows "wp (reminder_port m) (\<lambda>x t. \<exists>r. t = s\<lparr>settings_reminders := r\<rparr> \<and> Q x r)
     (\<lambda>e t. \<exists>r. t = s\<lparr>settings_reminders := r\<rparr> \<and> X e r) s"
  using assms by (auto simp: wp_def reminder_port_def split: prod.splits sum.splits)

lemma settings_ok_reminders:
  "settings_ok E s \<Longrightarrow> rem_ok r \<Longrightarrow> settings_ok E (s\<lparr>settings_reminders := r\<rparr>)"
  by (simp add: settings_ok_defs)

lemma reads_reminders [simp]:
  "settings_get_account (s\<lparr>settings_reminders := r\<rparr>) i = settings_get_account s i"
  "get_agent_settings (s\<lparr>settings_reminders := r\<rparr>) i = get_agent_settings s i"
  "settings_get_profile (s\<lparr>settings_reminders := r\<rparr>) i = settings_get_profile s i"
  by (simp_all add: settings_reads)

lemma foreign_discarded:
  "(\<forall>k. get_reminder t k = map_option (discarded i at) (get_reminder s k)) \<Longrightarrow> foreign_reminders_kept i s t"
  by (simp add: foreign_reminders_kept_def discarded_def)

text \<open>Saving what a request changes, and discarding reminders where it says so.\<close>

definition updates_saved ::
  "env \<Rightarrow> bool \<Rightarrow> settings_request \<Rightarrow> string \<Rightarrow> settings_state \<Rightarrow> account \<Rightarrow> agent_settings \<Rightarrow> settings_state \<Rightarrow> bool" where
  "updates_saved E port q i s a g t \<longleftrightarrow>
     settings_ok E t \<and> others_untouched i s t \<and> settings_get_account t i = Some a \<and>
     settings_get_profile t i = settings_get_profile s i \<and>
     (\<exists>b. get_agent_settings t i = Some b \<and> asked_settings q g b \<and>
        proactive_discarded port i g b (settings_reminders s) (settings_reminders t))"

lemma wp_discard_saved:
  assumes ok: "settings_ok E (put_agent b s)" and a: "settings_get_account s i = Some a"
    and i: "ag_account_id b = i" and asked: "asked_settings q g b"
    and off: "port" "ag_proactive_enabled g" "\<not> ag_proactive_enabled b"
  shows "wp (reminder_port (discard_future_proactive i (ag_updated_at b)))
     (\<lambda>_. updates_saved E port q i s a g) (\<lambda>e t. settings_ok E t \<and> others_untouched i s t \<and> e = TypeError)
     (put_agent b s)"
proof (rule wp_mono [OF wp_reminder_port [OF wp_discard_future]])
  show "rem_ok (settings_reminders (put_agent b s))" using ok by (simp add: settings_ok_def)
next
  fix x t
  assume "\<exists>r. t = put_agent b s\<lparr>settings_reminders := r\<rparr> \<and> rem_ok r \<and>
    (\<forall>k. get_reminder r k = map_option (discarded i (ag_updated_at b)) (get_reminder (settings_reminders (put_agent b s)) k))"
  then obtain r where t: "t = put_agent b s\<lparr>settings_reminders := r\<rparr>" "rem_ok r"
    "\<forall>k. get_reminder r k = map_option (discarded i (ag_updated_at b)) (get_reminder (settings_reminders s) k)"
    by auto
  then have "foreign_reminders_kept i (settings_reminders s) r"
    by (intro foreign_discarded [where at = "ag_updated_at b"]) simp
  with t off ok a i asked untouched_put(2) [OF i, of s] show "updates_saved E port q i s a g t"
    by (auto simp: updates_saved_def settings_ok_reminders others_untouched_def foreign_reminders_kept_def
        proactive_discarded_def)
next
  fix e t
  assume "\<exists>r. t = put_agent b s\<lparr>settings_reminders := r\<rparr> \<and> rem_ok r \<and> e = TypeError \<and>
    foreign_reminders_kept i (settings_reminders (put_agent b s)) r"
  then show "settings_ok E t \<and> others_untouched i s t \<and> e = TypeError"
    using ok untouched_put(2) [OF i, of s]
    by (auto simp: settings_ok_reminders others_untouched_def foreign_reminders_kept_def)
qed

lemma wp_save_updates:
  assumes ok: "settings_ok E s" and a: "settings_get_account s i = Some a"
    and g: "get_agent_settings s i = Some g" and changed: "updated_settings q g = Inr b"
    and i: "ac_id c = i"
  shows "wp (save_updates port q c g now b) (\<lambda>_. updates_saved E port q i s a g)
     (\<lambda>e t. settings_ok E t \<and> others_untouched i s t \<and> e = TypeError) s"
proof (cases "gives_settings q")
  case False
  then have "asked_settings q g g" by (simp add: gives_settings_def asked_settings_def)
  with False ok a g show ?thesis
    by (simp add: save_updates_def wp_simps proactive_discarded_def updates_saved_def)
next
  case True
  have wf: "ag_account_id g = i" "agent_settings_wf g" using settings_ok_reads(2) [OF ok g] by auto
  note b = updated_settings_asked [OF changed wf(2)] updated_settings_key [OF changed]
  let ?b = "b\<lparr>ag_updated_at := now\<rparr>"
  have asked: "asked_settings q g ?b" using b(1) by (simp add: asked_settings_def)
  have bi: "ag_account_id ?b = i" using b wf by simp
  have ok': "settings_ok E (put_agent ?b s)"
    using a b wf by (intro settings_ok_put(1) [OF ok]) (simp_all add: agent_settings_wf_def)
  let ?X = "\<lambda>e t. settings_ok E t \<and> others_untouched i s t \<and> e = TypeError"
  have "updates_saved E port q i s a g (put_agent ?b s)"
    if "\<not> (port \<and> ag_proactive_enabled g \<and> \<not> ag_proactive_enabled b)"
    using that ok' asked a bi untouched_put(2) [OF bi, of s]
    by (auto simp: updates_saved_def proactive_discarded_def)
  then have next_step: "wp (if ag_proactive_enabled g \<and> \<not> ag_proactive_enabled ?b \<and> port
       then reminder_port (discard_future_proactive i now) else ret ()) (\<lambda>_. updates_saved E port q i s a g) ?X
       (put_agent ?b s)"
    using wp_discard_saved [OF ok' a bi asked, of port] by (auto simp: wp_simps)
  have "wp (bind (save_agent_settings ?b) (\<lambda>_. if ag_proactive_enabled g \<and> \<not> ag_proactive_enabled ?b \<and> port
       then reminder_port (discard_future_proactive i now) else ret ())) (\<lambda>_. updates_saved E port q i s a g) ?X s"
    unfolding wp_bind by (rule wp_mono [OF wp_save_agent]) (use next_step a g b wf in auto)
  then show ?thesis unfolding save_updates_def Let_def i if_P [OF True] .
qed

subsection \<open>What an update does\<close>

text \<open>
  An accepted request: the view shows the store, the account's settings are as they were but for what the request asks,
  its profile and everything of other accounts are as they were, and so are the reminders unless proactive
  messages are switched off. A refused one changes at most the time zone.
\<close>

definition update_taken ::
  "env \<Rightarrow> bool \<Rightarrow> string \<Rightarrow> settings_request \<Rightarrow> settings_state \<Rightarrow> settings_view \<Rightarrow> settings_state \<Rightarrow> bool" where
  "update_taken E port i q s v t \<longleftrightarrow>
     settings_ok E t \<and> shows_settings i t v \<and> others_untouched i s t \<and>
     (\<exists>a. settings_get_account s i = Some a \<and>
        asked_timezone (sq_default_timezone q) (ac_default_timezone a) (sv_default_timezone v)) \<and>
     (\<forall>g. get_agent_settings s i = Some g \<longrightarrow> asked_settings q g (sv_agent_settings v) \<and>
        proactive_discarded port i g (sv_agent_settings v) (settings_reminders s) (settings_reminders t)) \<and>
     (\<forall>p. settings_get_profile s i = Some p \<longrightarrow> sv_user_profile v = p)"

definition update_refused :: "env \<Rightarrow> string \<Rightarrow> settings_request \<Rightarrow> settings_state \<Rightarrow> pyexn \<Rightarrow> settings_state \<Rightarrow> bool" where
  "update_refused E i q s e t \<longleftrightarrow>
     settings_ok E t \<and> others_untouched i s t \<and>
     (e \<noteq> TypeError \<longrightarrow>
        settings_reminders t = settings_reminders s \<and>
        settings_get_profile t i = settings_get_profile s i \<and>
        (\<forall>g. get_agent_settings s i = Some g \<longrightarrow> get_agent_settings t i = Some g) \<and>
        (get_agent_settings s i = None \<longrightarrow> fresh_settings i (get_agent_settings t i)) \<and>
        (settings_get_account t i = settings_get_account s i \<or>
         (\<exists>a b. settings_get_account s i = Some a \<and> settings_get_account t i = Some b \<and>
            asked_timezone (sq_default_timezone q) (ac_default_timezone a) (ac_default_timezone b))))"

text \<open>The state before the view, reached through the defaults, the time zone and the other settings.\<close>

lemma update_taken_view:
  assumes d: "only_defaults i s t" and g: "get_agent_settings t i = Some g"
    and tz: "only_timezone E i (sq_default_timezone q) (t\<lparr>clock := n\<rparr>) t'"
    and a: "settings_get_account t' i = Some a" and saved: "updates_saved E port q i t' a g t''"
    and view: "settings_ok E u \<and> shows_settings i u v \<and> only_defaults i t'' u"
  shows "update_taken E port i q s v u"
proof -
  obtain x where x: "settings_get_account s i = Some x"
    "asked_timezone (sq_default_timezone q) (ac_default_timezone x) (ac_default_timezone a)"
    using tz d a by (auto simp: only_timezone_def only_defaults_def)
  have un: "others_untouched i s u"
    using d tz saved view unfolding only_defaults_def only_timezone_def updates_saved_def
    by (auto simp: others_untouched_def)
  have r: "settings_reminders t' = settings_reminders s" "settings_reminders u = settings_reminders t''"
    using tz d view by (simp_all add: only_timezone_def only_defaults_def)
  have kept: "g' = g" if "get_agent_settings s i = Some g'" for g'
    using d g that by (simp add: only_defaults_def)
  have profile: "settings_get_profile u i = Some p" if "settings_get_profile s i = Some p" for p
    using d tz saved view that by (simp add: only_defaults_def only_timezone_def updates_saved_def)
  obtain b where b: "get_agent_settings t'' i = Some b" "asked_settings q g b"
    "proactive_discarded port i g b (settings_reminders t') (settings_reminders t'')"
    using saved by (auto simp: updates_saved_def)
  have v: "sv_agent_settings v = b" "sv_default_timezone v = ac_default_timezone a"
    using view saved b by (auto simp: shows_settings_def only_defaults_def updates_saved_def)
  show ?thesis
    unfolding update_taken_def
    using view un x b v r kept profile by (auto simp: shows_settings_def)
qed

lemma update_refused_mid:
  assumes ok: "settings_ok E t'" and d: "only_defaults i s t"
    and p: "settings_get_profile t i = settings_get_profile s i"
    and tz: "only_timezone E i (sq_default_timezone q) (t\<lparr>clock := n\<rparr>) t'"
  shows "update_refused E i q s e t'"
  using assms unfolding update_refused_def only_defaults_def only_timezone_def
  by (auto simp: others_untouched_def)

lemma wp_update_settings:
  assumes ok: "settings_ok E s"
  shows "wp (update_settings E port i q) (update_taken E port i q s) (update_refused E i q s) s"
  unfolding update_settings_def
proof (rule wp_settings_account)
  assume "settings_get_account s i = None"
  with ok show "update_refused E i q s (account_missing i) s" by (simp add: update_refused_def)
next
  fix c
  assume c: "settings_get_account s i = Some c"
  then have i: "ac_id c = i" using settings_ok_reads(1) [OF ok] by blast
  let ?Q = "update_taken E port i q s" and ?X = "update_refused E i q s"
  have finish: "wp (view_settings E i) ?Q ?X t''"
    if "only_defaults i s t" "get_agent_settings t i = Some g"
      "only_timezone E i (sq_default_timezone q) (t\<lparr>clock := n\<rparr>) t'"
      "settings_get_account t' i = Some a" "updates_saved E port q i t' a g t''" for t g n t' a t''
  proof (rule wp_mono [OF wp_view_settings])
    show "settings_ok E t''" using that(5) by (simp add: updates_saved_def)
  qed (use that update_taken_view [OF that] in \<open>auto simp: updates_saved_def\<close>)
  have save: "wp (bind (lift (updated_settings q g)) (\<lambda>b. bind (save_updates port q c g n b)
      (\<lambda>_. view_settings E (ac_id c)))) ?Q ?X t'"
    if t: "only_defaults i s t" "get_agent_settings t i = Some g"
      "only_timezone E i (sq_default_timezone q) (t\<lparr>clock := m\<rparr>) t'" "settings_ok E t'"
      "settings_get_profile t i = settings_get_profile s i" for t g n m t'
  proof -
    obtain a where a: "settings_get_account t' i = Some a" using t(3) by (auto simp: only_timezone_def)
    have g: "get_agent_settings t' i = Some g" using t(2,3) by (simp add: only_timezone_def)
    have un: "others_untouched i s t'" using t(1,3) by (auto simp: only_timezone_def only_defaults_def others_untouched_def)
    have saved: "wp (save_updates port q c g n b) (\<lambda>_. wp (view_settings E i) ?Q ?X) ?X t'"
      if "updated_settings q g = Inr b" for b
      by (rule wp_mono [OF wp_save_updates [OF t(4) a g that i]])
        (use finish [OF t(1,2,3) a] un in \<open>auto simp: update_refused_def intro: untouched_trans\<close>)
    show ?thesis
      unfolding wp_simps i
      using saved update_refused_mid [OF t(4,1,5,3)] by (auto split: sum.splits)
  qed
  show "wp (bind (ensure_agent_settings E (ac_id c)) (\<lambda>current. bind (py_now E) (\<lambda>now.
     bind (save_timezone E c now (sq_default_timezone q)) (\<lambda>_. bind (lift (updated_settings q current)) (\<lambda>b.
     bind (save_updates port q c current now b) (\<lambda>_. view_settings E (ac_id c))))))) ?Q ?X s"
    unfolding i
  proof (subst wp_bind, rule wp_mono [OF wp_ensure_agent [OF ok]])
    fix g t
    assume t: "settings_ok E t \<and> get_agent_settings t i = Some g \<and> only_defaults i s t \<and>
      settings_get_profile t i = settings_get_profile s i"
    have c': "settings_get_account (t\<lparr>clock := n\<rparr>) i = Some c" for n using t c by (simp add: only_defaults_def)
    have refused: "?X e (t\<lparr>clock := n\<rparr>)" for e n
      using t by (auto simp: update_refused_def only_defaults_def)
    show "wp (bind (py_now E) (\<lambda>now. bind (save_timezone E c now (sq_default_timezone q))
       (\<lambda>_. bind (lift (updated_settings q g)) (\<lambda>b. bind (save_updates port q c g now b)
       (\<lambda>_. view_settings E i))))) ?Q ?X t"
      by (subst wp_bind, subst wp_py_now, subst wp_bind, rule wp_mono [OF wp_save_timezone [OF _ c']])
        (use t save [of t g] refused i in \<open>auto simp: wp_simps\<close>)
  qed (use c in simp_all)
qed

subsection \<open>The other methods\<close>

text \<open>What every method keeps, however it ends.\<close>

definition settings_kept :: "env \<Rightarrow> string \<Rightarrow> settings_state \<Rightarrow> settings_state \<Rightarrow> bool" where
  "settings_kept E i s t \<longleftrightarrow> settings_ok E t \<and> others_untouched i s t"

lemma kept_defaults: "settings_ok E t \<Longrightarrow> only_defaults i s t \<Longrightarrow> settings_kept E i s t"
  by (simp add: settings_kept_def only_defaults_def)

lemma kept_trans: "settings_kept E i s t \<Longrightarrow> settings_kept E i t u \<Longrightarrow> settings_kept E i s u"
  by (auto simp: settings_kept_def intro: untouched_trans)

lemma keeps_view:
  assumes "settings_ok E s"
  shows "wp (view_settings E i) (\<lambda>_. settings_kept E i s) (\<lambda>_. settings_kept E i s) s"
  by (rule wp_mono [OF wp_view_settings [OF assms]]) (use assms in \<open>auto simp: settings_kept_def only_defaults_def\<close>)

lemma keeps_update_settings:
  assumes "settings_ok E s"
  shows "wp (update_settings E port i q) (\<lambda>_. settings_kept E i s) (\<lambda>_. settings_kept E i s) s"
  by (rule wp_mono [OF wp_update_settings [OF assms]])
    (simp_all add: settings_kept_def update_taken_def update_refused_def)

lemma keeps_view_after:
  assumes "settings_kept E i s t"
  shows "wp (view_settings E i) (\<lambda>_. settings_kept E i s) (\<lambda>_. settings_kept E i s) t"
  by (rule wp_mono [OF keeps_view]) (use assms in \<open>auto simp: settings_kept_def intro: untouched_trans\<close>)

lemma keeps_update_profile:
  assumes ok: "settings_ok E s"
  shows "wp (update_profile E i q) (\<lambda>_. settings_kept E i s) (\<lambda>_. settings_kept E i s) s"
  unfolding update_profile_def
proof (rule wp_settings_account)
  fix a
  assume a: "settings_get_account s i = Some a"
  let ?K = "\<lambda>_. settings_kept E i s"
  have save: "wp (if gives_profile q then bind (py_now E) (\<lambda>now. save_user_profile (p\<lparr>spf_updated_at := now\<rparr>))
      else ret ()) ?K ?K t"
    if t: "settings_kept E i s t" "settings_get_profile t i = Some p'" "updated_profile q p' = Inr p" for p p' t
  proof -
    have t': "settings_ok E (t\<lparr>clock := n\<rparr>)" "settings_kept E i s (t\<lparr>clock := n\<rparr>)" for n
      using t(1) by (simp_all add: settings_kept_def)
    have p': "spf_account_id p' = i" "settings_profile_wf p'"
      using settings_ok_reads(3) [OF _ t(2)] t(1) by (auto simp: settings_kept_def)
    have p: "spf_account_id p = i" "settings_profile_wf p"
      using updated_profile_asked [OF t(3) p'(2)] updated_profile_key [OF t(3)] p' by auto
    have put: "settings_kept E i s (put_settings_profile (p\<lparr>spf_updated_at := now\<rparr>) (t\<lparr>clock := n\<rparr>))" for now n
    proof -
      have "settings_get_account (t\<lparr>clock := n\<rparr>) i \<noteq> None"
        using t(2) t'(1) [of n] by (auto simp: settings_ok_defs)
      then have "settings_ok E (put_settings_profile (p\<lparr>spf_updated_at := now\<rparr>) (t\<lparr>clock := n\<rparr>))"
        using p by (intro settings_ok_put(2) [OF t'(1)]) (simp_all add: settings_profile_wf_def)
      with t(1) p show ?thesis
        by (auto simp: settings_kept_def intro!: untouched_trans [of i s t] untouched_put(3)
            simp: others_untouched_def)
    qed
    show ?thesis
      using t(1) by (auto simp: wp_simps intro!: wp_mono [OF wp_save_profile] put t'(2))
  qed
  show "wp (bind (ensure_user_profile E i) (\<lambda>current. bind (lift (updated_profile q current)) (\<lambda>changed.
     bind (if gives_profile q then bind (py_now E) (\<lambda>now. save_user_profile (changed\<lparr>spf_updated_at := now\<rparr>))
       else ret ()) (\<lambda>_. view_settings E i)))) ?K ?K s"
  proof (subst wp_bind, rule wp_mono [OF wp_ensure_profile [OF ok]])
    fix p t
    assume t: "settings_ok E t \<and> settings_get_profile t i = Some p \<and> only_defaults i s t"
    then have k: "settings_kept E i s t" by (simp add: kept_defaults)
    have "wp (bind (if gives_profile q then bind (py_now E) (\<lambda>now. save_user_profile (b\<lparr>spf_updated_at := now\<rparr>))
       else ret ()) (\<lambda>_. view_settings E i)) ?K ?K t" if "updated_profile q p = Inr b" for b
      by (subst wp_bind, rule wp_mono [OF save [OF k _ that]]) (use t keeps_view_after in auto)
    with k show "wp (bind (lift (updated_profile q p)) (\<lambda>changed.
       bind (if gives_profile q then bind (py_now E) (\<lambda>now. save_user_profile (changed\<lparr>spf_updated_at := now\<rparr>))
       else ret ()) (\<lambda>_. view_settings E i))) ?K ?K t"
      unfolding wp_bind [of "lift x" for x] wp_lift by (auto split: sum.splits)
  qed (use a in simp_all)
qed (use ok in \<open>simp add: settings_kept_def\<close>)

lemma keeps_reset:
  assumes ok: "settings_ok E s"
  shows "wp (reset_agent_settings E i) (\<lambda>_. settings_kept E i s) (\<lambda>_. settings_kept E i s) s"
  unfolding reset_agent_settings_def
proof (rule wp_settings_account)
  fix a
  assume a: "settings_get_account s i = Some a"
  let ?K = "\<lambda>_. settings_kept E i s"
  show "wp (bind (ensure_agent_settings E i) (\<lambda>current. bind (py_now E) (\<lambda>now.
     bind (save_agent_settings (default_agent_settings i (ag_id current) (ag_created_at current) now))
       (\<lambda>_. view_settings E i)))) ?K ?K s"
  proof (subst wp_bind, rule wp_mono [OF wp_ensure_agent [OF ok]])
    fix g t
    assume t: "settings_ok E t \<and> get_agent_settings t i = Some g \<and> only_defaults i s t \<and>
      settings_get_profile t i = settings_get_profile s i"
    then have t': "settings_ok E (t\<lparr>clock := n\<rparr>)" "settings_kept E i s (t\<lparr>clock := n\<rparr>)"
      "settings_get_account (t\<lparr>clock := n\<rparr>) i = Some a" for n
      using a by (simp_all add: settings_kept_def only_defaults_def)
    let ?d = "\<lambda>now. default_agent_settings i (ag_id g) (ag_created_at g) now"
    have i: "ag_account_id (?d now) = i" for now by (simp add: default_agent_settings_def)
    have "settings_ok E (put_agent (?d now) (t\<lparr>clock := n\<rparr>))" for now n
      by (intro settings_ok_put(1) [OF t'(1)]) (use t'(3) i in simp_all)
    then have put: "settings_kept E i s (put_agent (?d now) (t\<lparr>clock := n\<rparr>))" for now n
      using t i by (auto simp: settings_kept_def only_defaults_def others_untouched_def)
    show "wp (bind (py_now E) (\<lambda>now. bind (save_agent_settings (?d now)) (\<lambda>_. view_settings E i))) ?K ?K t"
      by (subst wp_bind, subst wp_py_now, subst wp_bind, rule wp_mono [OF wp_save_agent])
        (use t' put keeps_view_after in auto)
  qed (use a in simp_all)
qed (use ok in \<open>simp add: settings_kept_def\<close>)

section \<open>Calls and steps\<close>

datatype settings_call =
    ViewSettings string
  | UpdateSettings string settings_request
  | SetTimezone string string
  | UpdateProfile string profile_request
  | ResetSettings string

fun settings_caller :: "settings_call \<Rightarrow> string" where
  "settings_caller (ViewSettings i) = i"
| "settings_caller (UpdateSettings i q) = i"
| "settings_caller (SetTimezone i t) = i"
| "settings_caller (UpdateProfile i q) = i"
| "settings_caller (ResetSettings i) = i"

fun do_settings_call :: "env \<Rightarrow> bool \<Rightarrow> settings_call \<Rightarrow> settings_view sem" where
  "do_settings_call E port (ViewSettings i) = view_settings E i"
| "do_settings_call E port (UpdateSettings i q) = update_settings E port i q"
| "do_settings_call E port (SetTimezone i t) = set_timezone E port i t"
| "do_settings_call E port (UpdateProfile i q) = update_profile E i q"
| "do_settings_call E port (ResetSettings i) = reset_agent_settings E i"

text \<open>
  The service starts on accounts that other services have made and on a reminder store, and has made no settings.
\<close>

definition settings_start :: "env \<Rightarrow> settings_state \<Rightarrow> bool" where
  "settings_start E s \<longleftrightarrow>
     accounts_ok E s \<and> rem_ok (settings_reminders s) \<and>
     agent_settings_by_account s = [] \<and> user_profiles_by_account s = []"

inductive settings_reachable :: "env \<Rightarrow> bool \<Rightarrow> settings_state \<Rightarrow> bool" for E port where
  start: "settings_start E s \<Longrightarrow> settings_reachable E port s"
| call: "settings_reachable E port s \<Longrightarrow> do_settings_call E port c s = (r, t) \<Longrightarrow> settings_reachable E port t"

lemma keeps_settings_call:
  assumes "settings_ok E s"
  shows "wp (do_settings_call E port c) (\<lambda>_. settings_kept E (settings_caller c) s)
    (\<lambda>_. settings_kept E (settings_caller c) s) s"
  using keeps_view [OF assms] keeps_update_settings [OF assms] keeps_update_profile [OF assms] keeps_reset [OF assms]
  by (cases c) (simp_all add: set_timezone_def)

lemma settings_call_kept:
  assumes "settings_ok E s" "do_settings_call E port c s = (r, t)"
  shows "settings_kept E (settings_caller c) s t"
  using keeps_settings_call [OF assms(1), of port c] assms(2) by (cases r) (simp_all add: wp_def)

lemma settings_reachable_ok: "settings_reachable E port s \<Longrightarrow> settings_ok E s"
proof (induction rule: settings_reachable.induct)
  case (start s)
  then show ?case by (simp add: settings_start_def settings_ok_def settings_reads)
next
  case (call s c r t)
  then show ?case using settings_call_kept by (simp add: settings_kept_def)
qed

end
