(* ===== verification/SettingsProperties.thy ===== *)
theory SettingsProperties
  imports SettingsRuntime
begin

text \<open>
  What the settings service guarantees: stored settings are well formed, an accepted update does what it says
  and nothing else, and a refused one changes nothing but, possibly, the time zone.
\<close>

section \<open>A closed example\<close>

definition alice :: account where
  "alice = \<lparr>ac_id = ''alice'', ac_origin = WebFirst, ac_default_timezone = ''UTC'', ac_lifecycle = AccountActive,
     ac_created_at = Aware 0 0, ac_updated_at = Aware 0 0\<rparr>"

definition two_zones :: env where
  "two_zones = (demo_env 0)\<lparr>env_zone := (\<lambda>k.
     if k = ''UTC'' then Inr (fixed_zone 0)
     else if k = ''Asia/Tokyo'' then Inr (fixed_zone (9 * hour_us)) else Inl ZoneInfoNotFoundError)\<rparr>"

definition nudge :: reminder where
  "nudge = \<lparr>rem_id = ''n'', owner_account_id = ''alice'', content = ''drink water'', content_hash = ''h'',
     rem_kind = Proactive, next_fire_at = Some (Aware day_us 0), recurrence_rule = [],
     captured_timezone = ''UTC'', duration_minutes = 15, lifecycle = Active, hidden_from_calendar = True,
     shared_reminder_id = None, rem_created_at = Aware 0 0, rem_updated_at = Aware 0 0\<rparr>"

definition alice_start :: settings_state where
  "alice_start = \<lparr>clock = 0, issued = 0, traced = 0, settings_accounts = [(''alice'', alice)],
     agent_settings_by_account = [], user_profiles_by_account = [],
     settings_reminders = empty_rem_state\<lparr>reminders_by_id := [(''n'', nudge)]\<rparr>\<rparr>"

definition alice_viewed :: settings_state where
  "alice_viewed = snd (view_settings two_zones ''alice'' alice_start)"

definition quiet_request :: settings_request where
  "quiet_request = no_settings\<lparr>sq_default_timezone := Some (PyStr ''Asia/Tokyo''),
     sq_persona := Some (PyStr ''calm''), sq_proactive_enabled := Some (PyBool False)\<rparr>"

definition nameless_request :: settings_request where
  "nameless_request = no_settings\<lparr>sq_default_timezone := Some (PyStr ''Asia/Tokyo''),
     sq_assistant_name := Some (PyStr '' '')\<rparr>"

lemma alice_reachable: "settings_reachable two_zones True alice_start"
  by (rule settings_reachable.start)
    (simp add: settings_start_def accounts_ok_def alice_start_def alice_def settings_get_account_def
      known_zone_def two_zones_def rem_ok_def no_active_duplicates_def get_reminder_def get_fire_def
      empty_rem_state_def nudge_def keyed_def reminder_wf_def rule_ok_def)

lemma alice_viewed_reachable: "settings_reachable two_zones True alice_viewed"
  unfolding alice_viewed_def
  by (rule settings_reachable.call [OF alice_reachable, where c = "ViewSettings ''alice''" and
      r = "fst (view_settings two_zones ''alice'' alice_start)"]) simp

section \<open>Properties\<close>

text \<open>C33. Whatever calls are made, every stored text of the settings and profiles is trimmed, not
  empty and within its bound, every settings record and profile belongs to an account, every account keeps a time
  zone that exists, and the reminder store stays well formed.\<close>

theorem settings_store_invariant:
  assumes "settings_reachable E port s"
  shows "settings_ok E s"
  by (rule settings_reachable_ok [OF assms])

theorem settings_store_invariant_witness: "settings_ok two_zones alice_viewed"
  by (rule settings_store_invariant [OF alice_viewed_reachable])

text \<open>A call for one account leaves the account, settings, profile and reminders of every other as they are.\<close>

theorem settings_calls_isolated:
  assumes "settings_reachable E port s" "do_settings_call E port c s = (r, t)"
  shows "others_untouched (settings_caller c) s t"
  using settings_call_kept [OF settings_reachable_ok [OF assms(1)] assms(2)] by (simp add: settings_kept_def)

text \<open>C34. An accepted update of the settings: what it shows is what is stored; each setting it gives
  has the value given (\<open>null\<close> and the empty string clear a text), every other is as it was, as are the profile and
  everything of other accounts; switching proactive messages off deletes exactly the
  account's active proactive reminders that are still to come, and otherwise no reminder changes.\<close>

theorem update_settings_takes:
  assumes "settings_reachable E port s" "update_settings E port i q s = (Inr v, t)"
    and "get_agent_settings s i = Some g" "settings_get_profile s i = Some p"
  shows "shows_settings i t v \<and> others_untouched i s t \<and> sv_user_profile v = p \<and>
    asked_settings q g (sv_agent_settings v) \<and>
    (\<exists>a. settings_get_account s i = Some a \<and>
       asked_timezone (sq_default_timezone q) (ac_default_timezone a) (sv_default_timezone v)) \<and>
    proactive_discarded port i g (sv_agent_settings v) (settings_reminders s) (settings_reminders t)"
  using wp_InrD [OF wp_update_settings [OF settings_reachable_ok [OF assms(1)]] assms(2)] assms(3,4)
  by (auto simp: update_taken_def)

text \<open>C35. A refused update (one that raises a \<open>SettingsError\<close>) leaves the settings, the profile,
  the reminders and the other accounts as they were, but for two things it does first: an account
  that had no settings yet may have been given the default ones, and the account's time zone may
  have been changed to the one given, for it is stored before the other values are checked.\<close>

theorem refused_update_keeps_settings:
  assumes "settings_reachable E port s" "update_settings E port i q s = (Inl (SettingsError code extra), t)"
  shows "(get_agent_settings t i = get_agent_settings s i \<or>
      get_agent_settings s i = None \<and>
        (\<exists>sid c. get_agent_settings t i = Some (default_agent_settings i sid c c))) \<and>
    settings_get_profile t i = settings_get_profile s i \<and>
    settings_reminders t = settings_reminders s \<and> others_untouched i s t \<and>
    (settings_get_account t i = settings_get_account s i \<or>
     (\<exists>a b. settings_get_account s i = Some a \<and> settings_get_account t i = Some b \<and>
        asked_timezone (sq_default_timezone q) (ac_default_timezone a) (ac_default_timezone b)))"
proof -
  have "update_refused E i q s (SettingsError code extra) t"
    using wp_InlD [OF wp_update_settings [OF settings_reachable_ok [OF assms(1)]] assms(2)] .
  then show ?thesis
    by (cases "get_agent_settings s i") (auto simp: update_refused_def fresh_settings_def)
qed

lemma alice_updated:
  "map_sum id (\<lambda>v. (ag_persona (sv_agent_settings v), sv_default_timezone v))
     (fst (update_settings two_zones True ''alice'' quiet_request alice_viewed)) =
   Inr (Some ''calm'', ''Asia/Tokyo'')"
  by code_simp

theorem update_settings_takes_witness:
  "\<exists>v t. update_settings two_zones True ''alice'' quiet_request alice_viewed = (Inr v, t) \<and>
     ag_persona (sv_agent_settings v) = Some ''calm'' \<and> ag_extra_rules (sv_agent_settings v) = None \<and>
     map_option lifecycle (get_reminder (settings_reminders t) ''n'') = Some Deleted"
proof -
  obtain v t where run: "update_settings two_zones True ''alice'' quiet_request alice_viewed = (Inr v, t)"
    using returned [OF alice_updated] by blast
  have g: "map_option ag_extra_rules (get_agent_settings alice_viewed ''alice'') = Some None \<and>
    map_option ag_proactive_enabled (get_agent_settings alice_viewed ''alice'') = Some True \<and>
    map_option (\<lambda>_. ()) (settings_get_profile alice_viewed ''alice'') = Some () \<and>
    get_reminder (settings_reminders alice_viewed) ''n'' = Some nudge"
    by code_simp
  then obtain g p where gp: "get_agent_settings alice_viewed ''alice'' = Some g" "ag_extra_rules g = None"
    "ag_proactive_enabled g" "settings_get_profile alice_viewed ''alice'' = Some p" by auto
  have at: "map_sum id (\<lambda>v. dt_lt (ag_updated_at (sv_agent_settings v)) (Aware day_us 0))
      (fst (update_settings two_zones True ''alice'' quiet_request alice_viewed)) = Inr (Inr True)"
    by code_simp
  note taken = update_settings_takes [OF alice_viewed_reachable run gp(1,4)]
  have "ag_persona (sv_agent_settings v) = Some ''calm''" "ag_extra_rules (sv_agent_settings v) = None"
    "\<not> ag_proactive_enabled (sv_agent_settings v)"
    using taken gp by (auto simp: asked_settings_def quiet_request_def no_settings_def)
  moreover from this taken gp g have "get_reminder (settings_reminders t) ''n'' =
      Some (discarded ''alice'' (ag_updated_at (sv_agent_settings v)) nudge)"
    by (simp add: proactive_discarded_def)
  ultimately show ?thesis
    using run at by (auto simp: discarded_def nudge_def)
qed

lemma alice_refused:
  "(case update_settings two_zones True ''alice'' nameless_request alice_viewed of
     (Inl (SettingsError code extra), t) \<Rightarrow> code = ''invalid_request'' \<and>
        map_option ac_default_timezone (settings_get_account t ''alice'') = Some ''Asia/Tokyo''
   | _ \<Rightarrow> False)"
  by code_simp

theorem refused_update_keeps_settings_witness:
  "\<exists>extra t. update_settings two_zones True ''alice'' nameless_request alice_viewed =
       (Inl (SettingsError ''invalid_request'' extra), t) \<and>
     get_agent_settings t ''alice'' = get_agent_settings alice_viewed ''alice'' \<and>
     settings_reminders t = settings_reminders alice_viewed \<and>
     map_option ac_default_timezone (settings_get_account t ''alice'') = Some ''Asia/Tokyo''"
proof -
  obtain extra t where run: "update_settings two_zones True ''alice'' nameless_request alice_viewed =
      (Inl (SettingsError ''invalid_request'' extra), t)"
    and tz: "map_option ac_default_timezone (settings_get_account t ''alice'') = Some ''Asia/Tokyo''"
    using alice_refused by (auto split: prod.splits sum.splits pyexn.splits)
  have "map_option (\<lambda>_. ()) (get_agent_settings alice_viewed ''alice'') = Some ()"
    by code_simp
  then have "get_agent_settings alice_viewed ''alice'' \<noteq> None" by auto
  with refused_update_keeps_settings [OF alice_viewed_reachable run] run tz show ?thesis by auto
qed

end
