(* ===== verification/CalImport.thy ===== *)
theory CalImport
  imports RemOutcomes IdRuntime
begin

text \<open>
  The import of a Google calendar: the data (\<open>src/coke/domains/calendar_import/models.py\<close>), the repository in
  memory and \<open>CalendarImportService\<close> (\<open>service.py\<close>). The service asks the identity service whether the account may import and
  has the reminder service create the reminders; their stores are fields of the state. The Google client is a
  parameter; what it makes of an event's recurrence rule and times is in \<open>GoogleCalendar\<close>.
\<close>

section \<open>Data\<close>

datatype run_status = RunInProgress | RunCompleted | RunFailed
datatype item_status = Imported | SkippedDuplicate | Downgraded | ImportFailed | HistoricalSkipped
datatype authorization_status = AuthorizationActive | AuthorizationStopped | AuthorizationRevoked | AuthorizationExpired

fun authorization_name :: "authorization_status \<Rightarrow> string" where
  "authorization_name AuthorizationActive = ''active''"
| "authorization_name AuthorizationStopped = ''stopped''"
| "authorization_name AuthorizationRevoked = ''revoked''"
| "authorization_name AuthorizationExpired = ''expired''"

text \<open>
  \<open>datetime | date\<close>: a date, as its proleptic ordinal, or a datetime, with the key of its \<open>ZoneInfo\<close> where
  its \<open>tzinfo\<close> is one. Subtracting two datetimes of one \<open>ZoneInfo\<close> subtracts their wall clocks.
\<close>

datatype cal_time = OnDate int | AtTime datetime "string option"

record occurrence =
  oc_key :: string
  oc_start :: cal_time
  oc_end :: "cal_time option"
  oc_all_day :: bool
  oc_metadata :: fact

record source_event =
  ev_calendar_id :: string
  ev_event_id :: string
  ev_title :: string
  ev_description :: string
  ev_start :: cal_time
  ev_end :: "cal_time option"
  ev_all_day :: bool
  ev_rule :: fact
  ev_expressible :: bool
  ev_occurrences :: "occurrence list"
  ev_metadata :: fact

record import_run =
  run_id :: string
  run_account_id :: string
  run_provider_type :: string
  run_provider_account_id :: "string option"
  run_auth_artifact_id :: "string option"
  run_status :: run_status
  run_imported :: nat
  run_skipped :: nat
  run_downgraded :: nat
  run_failed :: nat
  run_started_at :: "datetime option"
  run_completed_at :: "datetime option"
  run_created_at :: datetime
  run_updated_at :: datetime

record import_item =
  im_id :: string
  im_run_id :: string
  im_calendar_id :: string
  im_event_id :: string
  im_key :: string
  im_status :: item_status
  im_reason :: "string option"
  im_metadata :: fact
  im_reminder_id :: "string option"
  im_created_at :: datetime

record import_summary =
  su_run_id :: string
  su_imported :: nat
  su_skipped :: nat
  su_downgraded :: nat
  su_failed :: nat
  su_items :: "import_item list"
  su_downgraded_items :: "import_item list"
  su_failed_items :: "import_item list"

record authorization =
  az_account_id :: string
  az_handle :: string
  az_state :: authorization_status
  az_updated_at :: datetime

record cal_state = svc +
  cal_reminders :: rem_state
  cal_identity :: id_state
  runs_by_id :: "(string, import_run) dict"
  items_by_id :: "(string, import_item) dict"
  items_by_source :: "(string \<times> string \<times> string, import_item) dict"
  authorizations :: "(string \<times> string, authorization) dict"

type_synonym 'a calm = "(cal_state, 'a) py"

lemma cal_counters [simp]:
  "cal_reminders ((t::cal_state)\<lparr>clock := n\<rparr>) = cal_reminders t"
  "cal_reminders ((t::cal_state)\<lparr>issued := n\<rparr>) = cal_reminders t"
  "cal_identity ((t::cal_state)\<lparr>clock := n\<rparr>) = cal_identity t"
  "cal_identity ((t::cal_state)\<lparr>issued := n\<rparr>) = cal_identity t"
  by (cases t; simp)+

definition empty_cal_state :: cal_state where
  "empty_cal_state =
     \<lparr>clock = 0, issued = 0, traced = 0, cal_reminders = empty_rem_state, cal_identity = empty_id_state,
      runs_by_id = [], items_by_id = [], items_by_source = [], authorizations = []\<rparr>"

section \<open>The repository\<close>

definition get_run :: "cal_state \<Rightarrow> string \<Rightarrow> import_run option" where
  "get_run s i = dget (runs_by_id s) i"

definition put_run :: "import_run \<Rightarrow> cal_state \<Rightarrow> cal_state" where
  "put_run r s = s\<lparr>runs_by_id := dput (run_id r) r (runs_by_id s)\<rparr>"

definition add_run :: "import_run \<Rightarrow> unit calm" where
  "add_run r =
     bind (refuse_if (\<lambda>s. get_run s (run_id r) \<noteq> None) ''duplicate_calendar_import_run_id'') (\<lambda>_.
     modify (put_run r))"

definition save_run :: "import_run \<Rightarrow> unit calm" where
  "save_run r =
     bind (refuse_if (\<lambda>s. get_run s (run_id r) = None) ''calendar_import_run_not_found'') (\<lambda>_.
     modify (put_run r))"

definition source_occurrence_key :: "string \<Rightarrow> string \<Rightarrow> string \<Rightarrow> string \<times> string \<times> string" where
  "source_occurrence_key calendar event key = (calendar, event, key)"

definition item_source :: "import_item \<Rightarrow> string \<times> string \<times> string" where
  "item_source it = source_occurrence_key (im_calendar_id it) (im_event_id it) (im_key it)"

definition put_item :: "import_item \<Rightarrow> cal_state \<Rightarrow> cal_state" where
  "put_item it s =
     s\<lparr>items_by_id := dput (im_id it) it (items_by_id s),
       items_by_source := dput (item_source it) it (items_by_source s)\<rparr>"

definition add_item :: "import_item \<Rightarrow> unit calm" where
  "add_item it =
     bind (refuse_if (\<lambda>s. dget (items_by_id s) (im_id it) \<noteq> None) ''duplicate_calendar_import_item_id'') (\<lambda>_.
     bind (refuse_if (\<lambda>s. dget (items_by_source s) (item_source it) \<noteq> None)
             ''duplicate_calendar_import_source_occurrence'') (\<lambda>_.
     modify (put_item it)))"

definition get_item_by_source_occurrence :: "cal_state \<Rightarrow> string \<Rightarrow> string \<Rightarrow> string \<Rightarrow> import_item option" where
  "get_item_by_source_occurrence s calendar event key =
     dget (items_by_source s) (source_occurrence_key calendar event key)"

definition list_items_for_run :: "cal_state \<Rightarrow> string \<Rightarrow> import_item list" where
  "list_items_for_run s i = filter (\<lambda>it. im_run_id it = i) (dvalues (items_by_id s))"

definition put_authorization :: "authorization \<Rightarrow> unit calm" where
  "put_authorization a =
     modify (\<lambda>s. s\<lparr>authorizations := dput (az_account_id a, az_handle a) a (authorizations s)\<rparr>)"

definition get_authorization_state :: "cal_state \<Rightarrow> string \<Rightarrow> string \<Rightarrow> authorization option" where
  "get_authorization_state s account handle = dget (authorizations s) (account, handle)"

section \<open>Ports\<close>

text \<open>
  The constructor's arguments: the reminder service with its clock, identifiers and ports, the access gate, which is the
  identity service, if one is given, and the Google client's \<open>list_events\<close> and \<open>revoke_authorization\<close>.
\<close>

record cal_ports =
  cl_reminder_env :: env
  cl_reminder_ports :: rem_ports
  cl_identity_env :: env
  cl_identity :: id_ports
  cl_gate :: bool
  cl_list_events :: "string \<Rightarrow> datetime \<Rightarrow> datetime \<Rightarrow> pyexn + source_event list"
  cl_revoke :: "string \<Rightarrow> pyexn + unit"

abbreviation cal_error :: "string \<Rightarrow> fact option \<Rightarrow> 'a calm" where
  "cal_error code extra \<equiv> raise (CalendarImportError code extra)"

definition reminder_call :: "'a rem \<Rightarrow> 'a calm" where
  "reminder_call m = (\<lambda>s. case m (cal_reminders s) of (r, t) \<Rightarrow> (r, s\<lparr>cal_reminders := t\<rparr>))"

definition gate_call :: "'a idm \<Rightarrow> 'a calm" where
  "gate_call m = (\<lambda>s. case m (cal_identity s) of (r, t) \<Rightarrow> (r, s\<lparr>cal_identity := t\<rparr>))"

section \<open>Times of an occurrence\<close>

definition dt_wall :: "datetime \<Rightarrow> int" where
  "dt_wall d = (case d of Naive w \<Rightarrow> w | Aware u off \<Rightarrow> u + off)"

text \<open>The midnight that starts the date of a value, on the wall clock.\<close>

definition day_start :: "cal_time \<Rightarrow> int" where
  "day_start v = (case v of OnDate n \<Rightarrow> (n - 1) * day_us | AtTime d z \<Rightarrow> dt_wall d div day_us * day_us)"

text \<open>\<open>datetime.combine(date, time(0, 0), tzinfo=zone)\<close>.\<close>

definition midnight_in :: "zone \<Rightarrow> string \<Rightarrow> cal_time \<Rightarrow> datetime \<times> string option" where
  "midnight_in z name v =
     (let w = day_start v; off = off_wall z w False in (Aware (w - off) off, Some name))"

definition trigger_time :: "env \<Rightarrow> occurrence \<Rightarrow> string \<Rightarrow> pyexn + datetime \<times> string option" where
  "trigger_time E oc captured =
     sbind (env_zone E captured) (\<lambda>z.
     if oc_all_day oc then Inr (midnight_in z captured (oc_start oc))
     else
       (case oc_start oc of
          OnDate n \<Rightarrow> Inr (midnight_in z captured (oc_start oc))
        | AtTime d key \<Rightarrow>
            if is_aware d then Inr (d, key)
            else Inl (CalendarImportError ''invalid_calendar_event''
                   (Some [(''type'', PyStr ''invalid_calendar_event''), (''field'', PyStr ''start'')]))))"

text \<open>\<open>a - b\<close> of aware datetimes, in microseconds.\<close>

definition dt_minus :: "datetime \<times> string option \<Rightarrow> datetime \<times> string option \<Rightarrow> int" where
  "dt_minus a b =
     (if snd a \<noteq> None \<and> snd a = snd b then dt_wall (fst a) - dt_wall (fst b)
      else dt_key (fst a) - dt_key (fst b))"

text \<open>
  \<open>int(duration.total_seconds() // 60)\<close>, with the quotient exact: the float that \<open>total_seconds\<close> gives
  has all the microseconds of a duration of less than a century.
\<close>

definition whole_minutes :: "int \<Rightarrow> int" where
  "whole_minutes us = (let minutes = us div minute_us in if 0 < minutes then minutes else 15)"

definition occurrence_minutes :: "env \<Rightarrow> occurrence \<Rightarrow> string \<Rightarrow> pyexn + int" where
  "occurrence_minutes E oc captured =
     (case oc_end oc of
        None \<Rightarrow> Inr 15
      | Some e \<Rightarrow>
          sbind (trigger_time E oc captured) (\<lambda>start.
          sbind (env_zone E captured) (\<lambda>z.
          case e of
            AtTime d key \<Rightarrow> if is_aware d then Inr (whole_minutes (dt_minus (d, key) start)) else Inr 15
          | OnDate n \<Rightarrow> Inr (whole_minutes (dt_minus (midnight_in z captured e) start)))))"

definition iso_date :: "int \<Rightarrow> string" where
  "iso_date n = (case ord2ymd n of (y, m, d) \<Rightarrow> pad 4 y @ ''-'' @ pad 2 m @ ''-'' @ pad 2 d)"

definition metadata_time :: "cal_time option \<Rightarrow> string" where
  "metadata_time v =
     (case v of None \<Rightarrow> [] | Some (OnDate n) \<Rightarrow> iso_date n | Some (AtTime d key) \<Rightarrow> isoformat d)"

section \<open>The service\<close>

definition considered_occurrences :: "source_event \<Rightarrow> occurrence list" where
  "considered_occurrences ev =
     (if ev_occurrences ev \<noteq> [] then ev_occurrences ev
      else [\<lparr>oc_key = metadata_time (Some (ev_start ev)), oc_start = ev_start ev, oc_end = ev_end ev,
             oc_all_day = ev_all_day ev, oc_metadata = []\<rparr>])"

definition event_content :: "source_event \<Rightarrow> string" where
  "event_content ev =
     (let title = (if py_strip (ev_title ev) = [] then ''Untitled calendar event'' else py_strip (ev_title ev));
          description = py_strip (ev_description ev)
      in if description = [] then title else title @ [CHR 0x0A, CHR 0x0A] @ description)"

text \<open>\<open>{**a, **b}\<close>.\<close>

definition merged_fact :: "fact \<Rightarrow> fact \<Rightarrow> fact" where
  "merged_fact a b = fold (\<lambda>(k, v). dput k v) b a"

definition item_metadata :: "source_event \<Rightarrow> occurrence \<Rightarrow> fact" where
  "item_metadata ev oc =
     merged_fact (merged_fact (ev_metadata ev) (oc_metadata oc))
       [(''title'', PyStr (ev_title ev)), (''description'', PyStr (ev_description ev)),
        (''start'', PyStr (metadata_time (Some (oc_start oc)))), (''end'', PyStr (metadata_time (oc_end oc))),
        (''all_day'', PyBool (oc_all_day oc)), (''recurrence_rule'', PyDict (ev_rule ev))]"

definition build_item ::
  "env \<Rightarrow> string \<Rightarrow> source_event \<Rightarrow> occurrence \<Rightarrow> item_status \<Rightarrow> string option \<Rightarrow> string option \<Rightarrow> import_item calm" where
  "build_item E run ev oc status reason rid =
     bind (new_id E ''calendar_import_item'') (\<lambda>iid.
     bind (py_now E) (\<lambda>now.
     ret \<lparr>im_id = iid, im_run_id = run, im_calendar_id = ev_calendar_id ev, im_event_id = ev_event_id ev,
          im_key = oc_key oc, im_status = status, im_reason = reason, im_metadata = item_metadata ev oc,
          im_reminder_id = rid, im_created_at = now\<rparr>))"

definition persist_item ::
  "env \<Rightarrow> string \<Rightarrow> source_event \<Rightarrow> occurrence \<Rightarrow> item_status \<Rightarrow> string option \<Rightarrow> string option \<Rightarrow> import_item calm" where
  "persist_item E run ev oc status reason rid =
     bind (build_item E run ev oc status reason rid) (\<lambda>it.
     bind (add_item it) (\<lambda>_. ret it))"

definition import_request :: "source_event \<Rightarrow> datetime \<Rightarrow> string \<Rightarrow> int \<Rightarrow> batch_item" where
  "import_request ev trigger captured minutes =
     (let expressible = (ev_rule ev \<noteq> [] \<and> ev_expressible ev) in
      \<lparr>bi_operation = ''create'', bi_content = Some (event_content ev), bi_raw_text = None,
       bi_reminder_id = None, bi_trigger_time = Some trigger, bi_captured_timezone = captured,
       bi_recurrence_rule = PyDict (if expressible then ev_rule ev else []),
       bi_duration_minutes = Some (PyInt minutes),
       bi_kind = Some (if expressible then ''recurring'' else ''timed''),
       bi_entry_point = Some ''calendar_import'', bi_time_state = Some ValidFuture,
       bi_incomplete_date = False, bi_shared_reminder_id = None, bi_turn_id = None, bi_item_index = None\<rparr>)"

definition import_status :: "source_event \<Rightarrow> item_status \<times> string option" where
  "import_status ev =
     (if ev_rule ev \<noteq> [] \<and> \<not> ev_expressible ev
      then (Downgraded, Some ''recurrence_rule_not_expressible'') else (Imported, None))"

text \<open>\<open>execute_batch(...).items[0]\<close>.\<close>

definition first_result :: "batch_result \<Rightarrow> pyexn + item_result" where
  "first_result b = (case br_items b of [] \<Rightarrow> Inl IndexError | r # _ \<Rightarrow> Inr r)"

text \<open>The item that records what came of creating the reminder.\<close>

definition record_result ::
  "env \<Rightarrow> string \<Rightarrow> source_event \<Rightarrow> occurrence \<Rightarrow> item_result \<Rightarrow> import_item calm" where
  "record_result E run ev oc result =
     (if ir_state result \<noteq> Succeeded \<or> ir_reminder_id result = None
      then persist_item E run ev oc ImportFailed
             (Some (case ir_reason result of
                None \<Rightarrow> ''reminder_create_failed''
              | Some r \<Rightarrow> if r = [] then ''reminder_create_failed'' else r)) None
      else persist_item E run ev oc (fst (import_status ev)) (snd (import_status ev)) (ir_reminder_id result))"

definition create_imported ::
  "env \<Rightarrow> cal_ports \<Rightarrow> string \<Rightarrow> string \<Rightarrow> source_event \<Rightarrow> occurrence \<Rightarrow> string \<Rightarrow> datetime \<Rightarrow> import_item calm" where
  "create_imported E P run account ev oc captured trigger =
     bind (lift (occurrence_minutes E oc captured)) (\<lambda>minutes.
     bind (reminder_call (execute_batch (cl_reminder_env P) (cl_reminder_ports P) account
            [import_request ev trigger captured minutes] no_guard)) (\<lambda>batch.
     bind (lift (first_result batch)) (\<lambda>result.
     record_result E run ev oc result)))"

definition import_occurrence ::
  "env \<Rightarrow> cal_ports \<Rightarrow> string \<Rightarrow> string \<Rightarrow> string \<Rightarrow> source_event \<Rightarrow> occurrence \<Rightarrow> import_item calm" where
  "import_occurrence E P run account captured ev oc =
     bind (gets (\<lambda>s. get_item_by_source_occurrence s (ev_calendar_id ev) (ev_event_id ev) (oc_key oc))) (\<lambda>existing.
     case existing of
       Some it \<Rightarrow> build_item E run ev oc SkippedDuplicate (Some ''already_imported'') (im_reminder_id it)
     | None \<Rightarrow>
         bind (lift (trigger_time E oc captured)) (\<lambda>trigger.
         bind (py_now E) (\<lambda>now.
         bind (lift (dt_lt (fst trigger) now)) (\<lambda>past.
         if past then persist_item E run ev oc HistoricalSkipped (Some ''historical_event'') None
         else create_imported E P run account ev oc captured (fst trigger)))))"

definition count_status :: "item_status set \<Rightarrow> import_item list \<Rightarrow> nat" where
  "count_status S items = length (filter (\<lambda>it. im_status it \<in> S) items)"

definition summary_of :: "string \<Rightarrow> import_item list \<Rightarrow> import_summary" where
  "summary_of run items =
     \<lparr>su_run_id = run, su_imported = count_status {Imported} items,
      su_skipped = count_status {SkippedDuplicate, HistoricalSkipped} items,
      su_downgraded = length (filter (\<lambda>it. im_status it = Downgraded) items),
      su_failed = length (filter (\<lambda>it. im_status it = ImportFailed) items), su_items = items,
      su_downgraded_items = filter (\<lambda>it. im_status it = Downgraded) items,
      su_failed_items = filter (\<lambda>it. im_status it = ImportFailed) items\<rparr>"

definition completed_run :: "import_run \<Rightarrow> import_item list \<Rightarrow> datetime \<Rightarrow> datetime \<Rightarrow> import_run" where
  "completed_run run items done_at updated =
     (let su = summary_of (run_id run) items in
      run\<lparr>run_status := RunCompleted, run_imported := su_imported su, run_skipped := su_skipped su,
          run_downgraded := su_downgraded su, run_failed := su_failed su, run_completed_at := Some done_at,
          run_updated_at := updated\<rparr>)"

definition complete_run :: "env \<Rightarrow> import_run \<Rightarrow> import_item list \<Rightarrow> import_run calm" where
  "complete_run E run items =
     bind (py_now E) (\<lambda>done_at.
     bind (py_now E) (\<lambda>updated.
     let completed = completed_run run items done_at updated in
     bind (save_run completed) (\<lambda>_. ret completed)))"

definition require_aware_datetime :: "datetime \<Rightarrow> string \<Rightarrow> unit calm" where
  "require_aware_datetime d name =
     (if is_aware d then ret ()
      else cal_error ''invalid_request'' (Some [(''type'', PyStr ''invalid_request''), (''field'', PyStr name)]))"

definition cal_require_timezone :: "env \<Rightarrow> string \<Rightarrow> unit calm" where
  "cal_require_timezone E name =
     (case env_zone E name of
        Inr z \<Rightarrow> ret ()
      | Inl e \<Rightarrow> if e = ZoneInfoNotFoundError then cal_error ''invalid_timezone'' None else raise e)"

definition require_access_allowed :: "cal_ports \<Rightarrow> string \<Rightarrow> unit calm" where
  "require_access_allowed P account =
     (if \<not> cl_gate P
      then cal_error ''access_gate_unavailable'' (Some [(''type'', PyStr ''access_gate_unavailable'')])
      else
        bind (gate_call (check_access_for_action (cl_identity P) account ''calendar_import'')) (\<lambda>d.
        if ad_allowed d then ret ()
        else cal_error ''access_denied''
          (Some (case ad_fact d of
             None \<Rightarrow> [(''type'', PyStr ''account_access_denied''), (''account_id'', PyStr account)]
           | Some x \<Rightarrow> if x = []
               then [(''type'', PyStr ''account_access_denied''), (''account_id'', PyStr account)] else x))))"

definition require_active_authorization :: "string \<Rightarrow> string \<Rightarrow> unit calm" where
  "require_active_authorization account handle =
     bind (gets (\<lambda>s. get_authorization_state s account handle)) (\<lambda>found.
     case found of
       None \<Rightarrow> ret ()
     | Some a \<Rightarrow>
         if az_state a \<in> {AuthorizationStopped, AuthorizationRevoked, AuthorizationExpired}
         then cal_error ''calendar_authorization_inactive''
                (Some [(''type'', PyStr ''calendar_authorization_inactive''),
                       (''state'', PyStr (authorization_name (az_state a)))])
         else ret ())"

record import_input =
  ii_account_id :: string
  ii_handle :: string
  ii_provider_account_id :: "string option"
  ii_visible_start :: datetime
  ii_visible_end :: datetime
  ii_timezone :: string
  ii_artifact_id :: "string option"

definition check_import :: "env \<Rightarrow> cal_ports \<Rightarrow> import_input \<Rightarrow> unit calm" where
  "check_import E P q =
     bind (require_aware_datetime (ii_visible_start q) ''visible_start'') (\<lambda>_.
     bind (require_aware_datetime (ii_visible_end q) ''visible_end'') (\<lambda>_.
     bind (cal_require_timezone E (ii_timezone q)) (\<lambda>_.
     bind (require_access_allowed P (ii_account_id q)) (\<lambda>_.
     bind (require_active_authorization (ii_account_id q) (ii_handle q)) (\<lambda>_.
     bind (lift (dt_lt (ii_visible_end q) (ii_visible_start q))) (\<lambda>backwards.
     if backwards then cal_error ''invalid_visible_window'' None else ret ()))))))"

definition new_run :: "import_input \<Rightarrow> string \<Rightarrow> datetime \<Rightarrow> import_run" where
  "new_run q rid now =
     \<lparr>run_id = rid, run_account_id = ii_account_id q, run_provider_type = ''google_calendar'',
      run_provider_account_id = ii_provider_account_id q, run_auth_artifact_id = ii_artifact_id q,
      run_status = RunInProgress, run_imported = 0, run_skipped = 0, run_downgraded = 0, run_failed = 0,
      run_started_at = Some now, run_completed_at = None, run_created_at = now, run_updated_at = now\<rparr>"

text \<open>The two nested loops, over the events and over the occurrences of each.\<close>

definition all_occurrences :: "source_event list \<Rightarrow> (source_event \<times> occurrence) list" where
  "all_occurrences events = concat (map (\<lambda>ev. map (Pair ev) (considered_occurrences ev)) events)"

definition import_google_calendar :: "env \<Rightarrow> cal_ports \<Rightarrow> import_input \<Rightarrow> import_summary calm" where
  "import_google_calendar E P q =
     bind (check_import E P q) (\<lambda>_.
     bind (py_now E) (\<lambda>now.
     bind (new_id E ''calendar_import_run'') (\<lambda>rid.
     let run = new_run q rid now in
     bind (add_run run) (\<lambda>_.
     bind (lift (cl_list_events P (ii_handle q) (ii_visible_start q) (ii_visible_end q))) (\<lambda>events.
     bind (map_py (\<lambda>(ev, oc). import_occurrence E P rid (ii_account_id q) (ii_timezone q) ev oc)
             (all_occurrences events)) (\<lambda>items.
     bind (complete_run E run items) (\<lambda>completed.
     ret (summary_of (run_id completed) items))))))))"

definition save_authorization_state ::
  "env \<Rightarrow> string \<Rightarrow> string \<Rightarrow> authorization_status \<Rightarrow> authorization calm" where
  "save_authorization_state E account handle status =
     bind (py_now E) (\<lambda>now.
     let a = \<lparr>az_account_id = account, az_handle = handle, az_state = status, az_updated_at = now\<rparr> in
     bind (put_authorization a) (\<lambda>_. ret a))"

definition stop_authorization :: "env \<Rightarrow> string \<Rightarrow> string \<Rightarrow> authorization calm" where
  "stop_authorization E account handle = save_authorization_state E account handle AuthorizationStopped"

definition revoke_authorization :: "env \<Rightarrow> cal_ports \<Rightarrow> string \<Rightarrow> string \<Rightarrow> authorization calm" where
  "revoke_authorization E P account handle =
     bind (lift (cl_revoke P handle)) (\<lambda>_.
     save_authorization_state E account handle AuthorizationRevoked)"

end
