(* ===== verification/CalRuntime.thy ===== *)
theory CalRuntime
  imports CalImport
begin

text \<open>
  The calendar import as a state machine: the invariant of its store and of the stores it works on, what importing
  one occurrence does, and the calls with the steps they make.
\<close>

section \<open>The invariant\<close>

definition item_wf :: "import_item \<Rightarrow> bool" where
  "item_wf it \<longleftrightarrow>
     im_status it \<noteq> SkippedDuplicate \<and>
     (im_reminder_id it \<noteq> None) = (im_status it \<in> {Imported, Downgraded}) \<and>
     (im_reason it = None) = (im_status it = Imported)"

text \<open>A completed run counts its items, besides the duplicates it has skipped.\<close>

definition run_counts :: "import_run \<Rightarrow> import_item list \<Rightarrow> bool" where
  "run_counts r items \<longleftrightarrow>
     run_imported r = count_status {Imported} items \<and> run_downgraded r = count_status {Downgraded} items \<and>
     run_failed r = count_status {ImportFailed} items \<and> count_status {HistoricalSkipped} items \<le> run_skipped r"

definition run_wf :: "import_run \<Rightarrow> import_item list \<Rightarrow> bool" where
  "run_wf r items \<longleftrightarrow>
     (run_status r = RunCompleted \<and> run_counts r items \<and> run_completed_at r \<noteq> None \<or>
      run_status r = RunInProgress \<and> run_completed_at r = None \<and>
        run_imported r = 0 \<and> run_skipped r = 0 \<and> run_downgraded r = 0 \<and> run_failed r = 0)"

lemma run_wf_in_progress: "run_wf r xs \<Longrightarrow> run_status r = RunInProgress \<Longrightarrow> run_wf r ys"
  by (simp add: run_wf_def)

definition runs_ok :: "cal_state \<Rightarrow> bool" where
  "runs_ok s \<longleftrightarrow> keyed run_id (runs_by_id s) \<and>
     (\<forall>i r. get_run s i = Some r \<longrightarrow> run_wf r (list_items_for_run s i))"

definition items_ok :: "cal_state \<Rightarrow> bool" where
  "items_ok s \<longleftrightarrow> indexed im_id item_source (items_by_id s) (items_by_source s) \<and>
     (\<forall>i it. dget (items_by_id s) i = Some it \<longrightarrow> get_run s (im_run_id it) \<noteq> None \<and> item_wf it)"

definition cal_ok :: "cal_state \<Rightarrow> bool" where
  "cal_ok s \<longleftrightarrow> rem_ok (cal_reminders s) \<and> id_ok (cal_identity s) \<and> runs_ok s \<and> items_ok s"

lemma cal_ok_empty [simp]: "cal_ok empty_cal_state"
  by (simp add: cal_ok_def runs_ok_def items_ok_def empty_cal_state_def get_run_def)

text \<open>Items are never changed or removed, and a run changes only by being completed.\<close>

definition run_edited :: "import_run \<Rightarrow> import_run \<Rightarrow> bool" where
  "run_edited a b \<longleftrightarrow>
     b = a \<or> run_status a = RunInProgress \<and> run_id b = run_id a \<and> run_account_id b = run_account_id a"

interpretation runs: evolving run_edited
  by unfold_locales (auto simp: run_edited_def)

interpretation items: evolving "(=) :: import_item \<Rightarrow> import_item \<Rightarrow> bool"
  by unfold_locales simp_all

definition cal_ext :: "cal_state \<Rightarrow> cal_state \<Rightarrow> bool" where
  "cal_ext s t \<longleftrightarrow>
     runs.table_ext (runs_by_id s) (runs_by_id t) \<and> items.table_ext (items_by_source s) (items_by_source t)"

definition cal_inv :: "cal_state \<Rightarrow> cal_state \<Rightarrow> bool" where
  "cal_inv s t \<longleftrightarrow> cal_ok t \<and> cal_ext s t"

lemma cal_ext_refl [simp]: "cal_ext s s"
  by (simp add: cal_ext_def)

lemma cal_ext_trans: "cal_ext s t \<Longrightarrow> cal_ext t u \<Longrightarrow> cal_ext s u"
  unfolding cal_ext_def using runs.table_trans items.table_trans by blast

lemma cal_inv_trans: "cal_inv s t \<Longrightarrow> cal_inv t u \<Longrightarrow> cal_inv s u"
  by (auto simp: cal_inv_def intro: cal_ext_trans)

text \<open>What the invariant reads of the state.\<close>

lemma cal_reads [simp]:
  "cal_ok (s\<lparr>clock := n\<rparr>) = cal_ok s" "cal_ok (s\<lparr>issued := n\<rparr>) = cal_ok s"
  "cal_ext s (t\<lparr>clock := n\<rparr>) = cal_ext s t" "cal_ext s (t\<lparr>issued := n\<rparr>) = cal_ext s t"
  "get_run (t\<lparr>clock := n\<rparr>) i = get_run t i" "get_run (t\<lparr>issued := n\<rparr>) i = get_run t i"
  "list_items_for_run (t\<lparr>clock := n\<rparr>) i = list_items_for_run t i"
  "list_items_for_run (t\<lparr>issued := n\<rparr>) i = list_items_for_run t i"
  by (simp_all add: cal_ok_def runs_ok_def items_ok_def cal_ext_def get_run_def list_items_for_run_def)

lemma cal_ok_parts:
  "cal_ok s \<Longrightarrow> rem_ok r \<Longrightarrow> cal_ok (s\<lparr>cal_reminders := r\<rparr>)"
  "cal_ok s \<Longrightarrow> id_ok j \<Longrightarrow> cal_ok (s\<lparr>cal_identity := j\<rparr>)"
  "cal_ok s \<Longrightarrow> cal_ok (s\<lparr>authorizations := a\<rparr>)"
  by (simp_all add: cal_ok_def runs_ok_def items_ok_def get_run_def list_items_for_run_def)

section \<open>Writes\<close>

text \<open>The items and runs, which only the writes of the repository change.\<close>

definition same_records_cal :: "cal_state \<Rightarrow> cal_state \<Rightarrow> bool" where
  "same_records_cal s t \<longleftrightarrow>
     runs_by_id t = runs_by_id s \<and> items_by_id t = items_by_id s \<and> items_by_source t = items_by_source s"

lemma same_cal_ext: "same_records_cal s t \<Longrightarrow> cal_ext s t"
  by (simp add: same_records_cal_def cal_ext_def)

lemma same_cal_reads:
  "same_records_cal s t \<Longrightarrow> get_run t i = get_run s i"
  "same_records_cal s t \<Longrightarrow> list_items_for_run t i = list_items_for_run s i"
  "same_records_cal s t \<Longrightarrow> get_item_by_source_occurrence t a b c = get_item_by_source_occurrence s a b c"
  by (simp_all add: same_records_cal_def get_run_def list_items_for_run_def get_item_by_source_occurrence_def)

lemma same_cal_refl [simp]: "same_records_cal s s"
  by (simp add: same_records_cal_def)

lemma same_cal_trans: "same_records_cal s t \<Longrightarrow> same_records_cal t u \<Longrightarrow> same_records_cal s u"
  by (simp add: same_records_cal_def)

lemma same_cal_counters [simp]:
  "same_records_cal s (t\<lparr>clock := n\<rparr>) = same_records_cal s t" "same_records_cal s (t\<lparr>issued := n\<rparr>) = same_records_cal s t"
  "same_records_cal s (t\<lparr>cal_reminders := r\<rparr>) = same_records_cal s t"
  "same_records_cal s (t\<lparr>cal_identity := j\<rparr>) = same_records_cal s t"
  "same_records_cal s (t\<lparr>authorizations := a\<rparr>) = same_records_cal s t"
  by (simp_all add: same_records_cal_def)

text \<open>An item written for a run in progress.\<close>

definition item_free :: "import_item \<Rightarrow> cal_state \<Rightarrow> bool" where
  "item_free it s \<longleftrightarrow> dget (items_by_id s) (im_id it) = None \<and> dget (items_by_source s) (item_source it) = None"

lemma listed_put_item:
  "item_free it s \<Longrightarrow> list_items_for_run (put_item it s) i =
     list_items_for_run s i @ (if im_run_id it = i then [it] else [])"
  by (simp add: list_items_for_run_def put_item_def item_free_def dput_values_fresh)

lemma put_item_reads [simp]:
  "get_run (put_item it s) i = get_run s i" "cal_reminders (put_item it s) = cal_reminders s"
  "cal_identity (put_item it s) = cal_identity s" "runs_by_id (put_item it s) = runs_by_id s"
  by (simp_all add: put_item_def get_run_def)

lemma cal_ok_put_item:
  assumes ok: "cal_ok s" and free: "item_free it s" and "item_wf it"
    and run: "get_run s (im_run_id it) = Some r" "run_status r = RunInProgress"
  shows "cal_ok (put_item it s)" and "cal_ext s (put_item it s)"
proof -
  have "run_wf r' (list_items_for_run (put_item it s) i)" if "get_run s i = Some r'" for i r'
    using ok run that run_wf_in_progress [of r "list_items_for_run s i"]
    by (auto simp: cal_ok_def runs_ok_def listed_put_item [OF free])
  then have "runs_ok (put_item it s)"
    using ok by (simp add: cal_ok_def runs_ok_def)
  moreover have "items_ok (put_item it s)"
    using ok free run assms(3)
    by (auto simp: cal_ok_def items_ok_def item_free_def put_item_def get_run_def intro!: indexed_add)
  ultimately show "cal_ok (put_item it s)" using ok by (simp add: cal_ok_def)
  show "cal_ext s (put_item it s)"
    using free by (simp add: cal_ext_def put_item_def item_free_def items.table_new)
qed

lemma wp_add_item:
  "wp (add_item it) (\<lambda>_ t. t = put_item it s \<and> item_free it s) (\<lambda>e t. t = s \<and> is_value_error e) s"
  by (auto simp: add_item_def refuse_if_def wp_simps item_free_def)

section \<open>Importing one occurrence\<close>

text \<open>
  What one call of \<open>import_occurrence\<close> leaves: an item that is reported; it is stored unless the occurrence was
  known, and only then may the reminders have changed.
\<close>

definition occurrence_known :: "cal_state \<Rightarrow> source_event \<Rightarrow> occurrence \<Rightarrow> bool" where
  "occurrence_known s ev oc \<longleftrightarrow>
     get_item_by_source_occurrence s (ev_calendar_id ev) (ev_event_id ev) (oc_key oc) \<noteq> None"

definition occurrence_imported ::
  "string \<Rightarrow> source_event \<Rightarrow> occurrence \<Rightarrow> cal_state \<Rightarrow> import_item \<Rightarrow> cal_state \<Rightarrow> bool" where
  "occurrence_imported rid ev oc s it t \<longleftrightarrow>
     im_run_id it = rid \<and> item_source it = (ev_calendar_id ev, ev_event_id ev, oc_key oc) \<and>
     (if im_status it = SkippedDuplicate
      then occurrence_known s ev oc \<and> same_records_cal s t \<and> cal_reminders t = cal_reminders s \<and> cal_ok t
      else \<not> occurrence_known s ev oc \<and> item_wf it \<and>
        (\<exists>u. same_records_cal s u \<and> cal_ok u \<and> item_free it u \<and> t = put_item it u))"

lemma known_iff: "occurrence_known s ev oc \<longleftrightarrow>
    dget (items_by_source s) (ev_calendar_id ev, ev_event_id ev, oc_key oc) \<noteq> None"
  by (simp add: occurrence_known_def get_item_by_source_occurrence_def source_occurrence_key_def)

lemma wp_build_item:
  assumes "\<And>it n m. im_run_id it = run \<Longrightarrow> item_source it = (ev_calendar_id ev, ev_event_id ev, oc_key oc) \<Longrightarrow>
      im_status it = status \<Longrightarrow> im_reason it = reason \<Longrightarrow> im_reminder_id it = rid \<Longrightarrow>
      Q it (s\<lparr>issued := m, clock := n\<rparr>)"
  shows "wp (build_item E run ev oc status reason rid) Q X s"
  unfolding build_item_def wp_simps by (rule assms) (simp_all add: item_source_def source_occurrence_key_def)

lemma imported_put:
  assumes "item_free it u" "same_records_cal s u" "cal_ok u" "\<not> occurrence_known s ev oc" "item_wf it"
    "im_run_id it = rid" "item_source it = (ev_calendar_id ev, ev_event_id ev, oc_key oc)"
  shows "occurrence_imported rid ev oc s it (put_item it u)"
  using assms by (auto simp: occurrence_imported_def item_wf_def)

lemma wp_persist_item:
  assumes same: "same_records_cal s0 s" and ok: "cal_ok s" and new: "\<not> occurrence_known s0 ev oc"
    and "status \<noteq> SkippedDuplicate" "(rid \<noteq> None) = (status \<in> {Imported, Downgraded})"
      "(reason = None) = (status = Imported)"
  shows "wp (persist_item E run ev oc status reason rid) (occurrence_imported run ev oc s0)
    (\<lambda>_ t. cal_ok t \<and> same_records_cal s0 t) s"
  unfolding persist_item_def wp_bind
  by (rule wp_build_item, rule wp_mono [OF wp_add_item])
    (use assms in \<open>auto simp: wp_ret item_wf_def intro!: imported_put\<close>)

lemma rem_ok_batch: "rem_ok s \<Longrightarrow> rem_ok (snd (execute_batch E P owner items g s))"
  using preservesD [OF plain.keeps_call [where c = "CExecuteBatch owner items g" and K = "{}"], of s E P]
  by (auto simp: inv_with_def rem_inv_empty void_def py_run split: prod.splits sum.splits)

lemma wp_reminder_batch:
  assumes "cal_ok s"
  shows "wp (reminder_call (execute_batch E P owner items g))
    (\<lambda>_ t. cal_ok t \<and> same_records_cal s t) (\<lambda>_ t. cal_ok t \<and> same_records_cal s t) s"
  using rem_ok_batch [of "cal_reminders s" E P owner items g] assms
  by (auto simp: wp_def reminder_call_def cal_ok_parts(1) cal_ok_def [of s] split: prod.splits sum.splits)

lemma wp_record_result:
  assumes "same_records_cal s0 s" "cal_ok s" "\<not> occurrence_known s0 ev oc"
  shows "wp (record_result E run ev oc result) (occurrence_imported run ev oc s0)
    (\<lambda>_ t. cal_ok t \<and> same_records_cal s0 t) s"
  using assms by (auto simp: record_result_def import_status_def intro!: wp_persist_item)

lemma wp_create_imported:
  assumes same: "same_records_cal s0 s" and ok: "cal_ok s" and new: "\<not> occurrence_known s0 ev oc"
  shows "wp (create_imported E P run account ev oc captured trigger) (occurrence_imported run ev oc s0)
    (\<lambda>_ t. cal_ok t \<and> same_records_cal s0 t) s"
proof -
  have "wp (bind (reminder_call (execute_batch (cl_reminder_env P) (cl_reminder_ports P) account
            [import_request ev trigger captured minutes] no_guard))
       (\<lambda>batch. bind (lift (first_result batch)) (\<lambda>result. record_result E run ev oc result)))
     (occurrence_imported run ev oc s0) (\<lambda>_ t. cal_ok t \<and> same_records_cal s0 t) s" for minutes
    by (subst wp_bind, rule wp_mono [OF wp_reminder_batch [OF ok]])
      (auto simp: wp_bind wp_lift intro!: wp_record_result same_cal_trans [OF same] new split: sum.splits)
  then show ?thesis
    unfolding create_imported_def wp_bind [of "lift x" for x] wp_lift
    using ok same by (auto split: sum.splits)
qed

lemma wp_import_occurrence:
  assumes ok: "cal_ok s"
  shows "wp (import_occurrence E P run account captured ev oc) (occurrence_imported run ev oc s)
    (\<lambda>_ t. cal_ok t \<and> same_records_cal s t) s"
proof (cases "get_item_by_source_occurrence s (ev_calendar_id ev) (ev_event_id ev) (oc_key oc)")
  case (Some it)
  then have "occurrence_known s ev oc" by (simp add: occurrence_known_def)
  then have "wp (build_item E run ev oc SkippedDuplicate (Some ''already_imported'') (im_reminder_id it))
    (occurrence_imported run ev oc s) (\<lambda>_ t. cal_ok t \<and> same_records_cal s t) s"
    using ok by (intro wp_build_item) (simp add: occurrence_imported_def)
  with Some show ?thesis by (simp add: import_occurrence_def wp_simps)
next
  case None
  then have new: "\<not> occurrence_known s ev oc" by (simp add: occurrence_known_def)
  note steps = wp_create_imported [OF _ _ new] wp_persist_item [OF _ _ new]
  show ?thesis
    using ok None
    by (auto simp: import_occurrence_def wp_bind wp_gets wp_lift wp_py_now intro!: steps split: sum.splits)
qed

section \<open>The loop over the occurrences\<close>

definition in_progress :: "string \<Rightarrow> cal_state \<Rightarrow> bool" where
  "in_progress rid s \<longleftrightarrow> (\<exists>r. get_run s rid = Some r \<and> run_status r = RunInProgress)"

definition imports_done ::
  "string \<Rightarrow> cal_state \<Rightarrow> (source_event \<times> occurrence) list \<Rightarrow> import_item list \<Rightarrow> cal_state \<Rightarrow> bool" where
  "imports_done rid s occs found t \<longleftrightarrow>
     cal_inv s t \<and> runs_by_id t = runs_by_id s \<and>
     list_items_for_run t rid =
       list_items_for_run s rid @ filter (\<lambda>it. im_status it \<noteq> SkippedDuplicate) found \<and>
     map item_source found = map (\<lambda>(ev, oc). (ev_calendar_id ev, ev_event_id ev, oc_key oc)) occs \<and>
     (\<forall>(ev, oc)\<in>set occs. occurrence_known t ev oc) \<and>
     ((\<forall>(ev, oc)\<in>set occs. occurrence_known s ev oc) \<longrightarrow>
        cal_reminders t = cal_reminders s \<and> same_records_cal s t \<and>
        (\<forall>it\<in>set found. im_status it = SkippedDuplicate))"

lemma known_stays: "cal_ext s t \<Longrightarrow> occurrence_known s ev oc \<Longrightarrow> occurrence_known t ev oc"
  unfolding known_iff cal_ext_def by (auto dest!: items.table_get)

lemma known_same: "same_records_cal s t \<Longrightarrow> occurrence_known t ev oc = occurrence_known s ev oc"
  by (simp add: occurrence_known_def same_cal_reads)

lemma imports_one:
  assumes ok: "cal_ok s" and run: "in_progress rid s" and one: "occurrence_imported rid ev oc s it t"
  shows "imports_done rid s [(ev, oc)] [it] t"
proof (cases "im_status it = SkippedDuplicate")
  case True
  with one have t: "occurrence_known s ev oc" "same_records_cal s t" "cal_reminders t = cal_reminders s" "cal_ok t"
    "item_source it = (ev_calendar_id ev, ev_event_id ev, oc_key oc)"
    by (auto simp: occurrence_imported_def)
  moreover from t(2) have "runs_by_id t = runs_by_id s" by (simp add: same_records_cal_def)
  ultimately show ?thesis
    using True by (simp add: imports_done_def cal_inv_def same_cal_ext same_cal_reads(2) known_same)
next
  case False
  with one obtain u where u: "same_records_cal s u" "cal_ok u" "item_free it u" "t = put_item it u"
    and it: "im_run_id it = rid" "item_wf it" "\<not> occurrence_known s ev oc"
      "item_source it = (ev_calendar_id ev, ev_event_id ev, oc_key oc)"
    by (auto simp: occurrence_imported_def)
  obtain r where "get_run u (im_run_id it) = Some r" "run_status r = RunInProgress"
    using run u(1) it(1) by (auto simp: in_progress_def same_cal_reads)
  note put = cal_ok_put_item [OF u(2,3) it(2) this]
  have "cal_ext s t" using put(2) same_cal_ext [OF u(1)] cal_ext_trans u(4) by blast
  moreover have "occurrence_known t ev oc" using u(4) it(4) by (simp add: known_iff put_item_def)
  moreover have "runs_by_id t = runs_by_id s" using u(1,4) by (simp add: same_records_cal_def)
  moreover have "list_items_for_run t rid = list_items_for_run s rid @ [it]"
    using listed_put_item [OF u(3), of rid] same_cal_reads(2) [OF u(1)] u(4) it(1) by simp
  ultimately show ?thesis
    using put(1) u(4) it(3,4) False by (simp add: imports_done_def cal_inv_def)
qed

lemma imports_none: "cal_ok s \<Longrightarrow> imports_done rid s [] [] s"
  by (simp add: imports_done_def cal_inv_def)

lemma imports_append:
  assumes a: "imports_done rid s xs us t" and b: "imports_done rid t ys vs u"
  shows "imports_done rid s (xs @ ys) (us @ vs) u"
proof -
  have ext: "cal_ext s t" "cal_ext t u" and inv: "cal_inv s u"
    using a b cal_inv_trans by (auto simp: imports_done_def cal_inv_def intro: cal_ext_trans)
  have known: "\<forall>(ev, oc)\<in>set (xs @ ys). occurrence_known u ev oc"
    using a b known_stays [OF ext(2)] by (fastforce simp: imports_done_def)
  have quiet: "cal_reminders u = cal_reminders s \<and> same_records_cal s u \<and>
      (\<forall>it\<in>set (us @ vs). im_status it = SkippedDuplicate)"
    if all: "\<forall>(ev, oc)\<in>set (xs @ ys). occurrence_known s ev oc"
  proof -
    have 1: "cal_reminders t = cal_reminders s \<and> same_records_cal s t \<and> (\<forall>it\<in>set us. im_status it = SkippedDuplicate)"
      using a all by (simp add: imports_done_def)
    then have "\<forall>(ev, oc)\<in>set ys. occurrence_known t ev oc"
      using all known_same [of s t] by auto
    then have "cal_reminders u = cal_reminders t \<and> same_records_cal t u \<and> (\<forall>it\<in>set vs. im_status it = SkippedDuplicate)"
      using b by (simp add: imports_done_def)
    with 1 show ?thesis using same_cal_trans by auto
  qed
  show ?thesis
    using a b inv known quiet by (simp add: imports_done_def)
qed

lemma in_progress_same: "runs_by_id t = runs_by_id s \<Longrightarrow> in_progress rid t = in_progress rid s"
  by (simp add: in_progress_def get_run_def)

lemma wp_import_loop:
  assumes "cal_ok s" and "in_progress rid s"
  shows "wp (map_py (\<lambda>(ev, oc). import_occurrence E P rid account captured ev oc) occs)
    (imports_done rid s occs) (\<lambda>_ t. cal_inv s t \<and> runs_by_id t = runs_by_id s) s"
  using assms
proof (induction occs arbitrary: s)
  case Nil
  then show ?case by (simp add: wp_simps imports_none)
next
  case (Cons x occs)
  obtain ev oc where x: "x = (ev, oc)" by (cases x)
  show ?case
    unfolding map_py.simps x prod.case wp_bind [of "import_occurrence E P rid account captured ev oc"]
  proof (rule wp_mono [OF wp_import_occurrence [OF Cons.prems(1)]])
    fix it t
    assume "occurrence_imported rid ev oc s it t"
    note one = imports_one [OF Cons.prems this]
    then have t: "cal_ok t" "in_progress rid t" "runs_by_id t = runs_by_id s" "cal_inv s t"
      using Cons.prems(2) by (simp_all add: imports_done_def cal_inv_def in_progress_same [of t s])
    have more_done: "imports_done rid s ((ev, oc) # occs) (it # its) u" if "imports_done rid t occs its u" for its u
      using imports_append [OF one that] by simp
    show "wp (bind (map_py (\<lambda>(ev, oc). import_occurrence E P rid account captured ev oc) occs)
        (\<lambda>its. ret (it # its))) (imports_done rid s ((ev, oc) # occs))
        (\<lambda>_ t. cal_inv s t \<and> runs_by_id t = runs_by_id s) t"
      unfolding wp_bind wp_ret
      by (rule wp_mono [OF Cons.IH [OF t(1,2)]])
        (use more_done t(3) cal_inv_trans [OF t(4)] in simp_all)
  next
    fix e t
    assume "cal_ok t \<and> same_records_cal s t"
    then show "cal_inv s t \<and> runs_by_id t = runs_by_id s"
      by (simp add: cal_inv_def same_cal_ext) (simp add: same_records_cal_def)
  qed
qed

section \<open>A whole import\<close>

definition quiet :: "cal_state \<Rightarrow> cal_state \<Rightarrow> bool" where
  "quiet s t \<longleftrightarrow> cal_ok t \<and> same_records_cal s t \<and> cal_reminders t = cal_reminders s"

lemma quiet_inv: "quiet s t \<Longrightarrow> cal_inv s t"
  by (simp add: quiet_def cal_inv_def same_cal_ext)

lemma wp_gate_call:
  "wp (gate_call m) Q X s = wp m (\<lambda>x i. Q x (s\<lparr>cal_identity := i\<rparr>)) (\<lambda>e i. X e (s\<lparr>cal_identity := i\<rparr>)) (cal_identity s)"
  by (simp add: wp_def gate_call_def split: prod.splits sum.splits)

lemma gate_quiet:
  assumes "quiet s t"
  shows "wp (gate_call (check_access_for_action P i action)) (\<lambda>_. quiet s) (\<lambda>_. quiet s) t"
proof -
  have i: "id_ok (cal_identity t)" using assms by (simp add: quiet_def cal_ok_def)
  have k: "preserves (id_inv (cal_identity t)) (check_access_for_action P i action)" for i action by (intro id_keeps)
  show ?thesis
    unfolding wp_gate_call
    by (rule wp_mono [OF keeps_wp [OF k i]])
      (use assms in \<open>auto simp: quiet_def cal_ok_parts(2) dest: id_inv_ok\<close>)
qed

lemma quiet_gate: "preserves (quiet s) (gate_call (check_access_for_action P i action))"
  by (rule preservesI) (rule gate_quiet)

lemma quiet_check: "preserves (quiet s) (check_import E P q)"
  unfolding check_import_def require_aware_datetime_def cal_require_timezone_def require_access_allowed_def
    require_active_authorization_def
  by (intro preserves_intros quiet_gate)

lemma in_progress_put: "in_progress rid (put_run (new_run q rid now) s)"
  by (simp add: in_progress_def get_run_def put_run_def new_run_def)

lemma run_id_new [simp]: "run_id (new_run q rid now) = rid" "run_account_id (new_run q rid now) = ii_account_id q"
  by (simp_all add: new_run_def)

text \<open>A new run has no items yet.\<close>

lemma new_run_items:
  assumes "cal_ok s" "get_run s rid = None"
  shows "list_items_for_run s rid = []"
proof -
  have k: "keyed im_id (items_by_id s)" using assms(1) by (auto simp: cal_ok_def items_ok_def dest: indexed_keyed)
  have "im_run_id it \<noteq> rid" if "it \<in> set (dvalues (items_by_id s))" for it
  proof -
    have "dget (items_by_id s) (im_id it) = Some it" using that keyed_values [OF k] by blast
    then have "get_run s (im_run_id it) \<noteq> None" using assms(1) unfolding cal_ok_def items_ok_def by blast
    with assms(2) show ?thesis by auto
  qed
  then show ?thesis by (auto simp: list_items_for_run_def filter_empty_conv)
qed

lemma put_run_reads [simp]:
  "items_by_id (put_run r s) = items_by_id s" "items_by_source (put_run r s) = items_by_source s"
  "cal_reminders (put_run r s) = cal_reminders s" "cal_identity (put_run r s) = cal_identity s"
  "list_items_for_run (put_run r s) i = list_items_for_run s i"
  "get_run (put_run r s) i = (if i = run_id r then Some r else get_run s i)"
  "occurrence_known (put_run r s) ev oc = occurrence_known s ev oc"
  by (simp_all add: put_run_def list_items_for_run_def get_run_def known_iff)

lemma cal_ok_put_run:
  assumes "cal_ok s" "run_wf r (list_items_for_run s (run_id r))"
  shows "cal_ok (put_run r s)"
  using assms by (auto simp: cal_ok_def runs_ok_def items_ok_def put_run_def intro!: keyed_dput)
    (auto simp: get_run_def list_items_for_run_def split: if_splits)

lemma cal_inv_new_run:
  assumes ok: "cal_ok s" and "get_run s rid = None"
  shows "cal_inv s (put_run (new_run q rid now) s)"
proof -
  have "cal_ok (put_run (new_run q rid now) s)"
    by (rule cal_ok_put_run [OF ok]) (simp add: run_wf_def new_run_def)
  moreover have "cal_ext s (put_run (new_run q rid now) s)"
    using assms(2) by (simp add: cal_ext_def put_run_def get_run_def runs.table_new)
  ultimately show ?thesis by (simp add: cal_inv_def)
qed

lemma count_stored:
  "SkippedDuplicate \<notin> S \<Longrightarrow> count_status S (filter (\<lambda>it. im_status it \<noteq> SkippedDuplicate) found) = count_status S found"
  by (simp add: count_status_def filter_filter) (metis (mono_tags, lifting))

lemma count_mono: "S \<subseteq> T \<Longrightarrow> count_status S xs \<le> count_status T xs"
  unfolding count_status_def by (induction xs) auto

lemma completed_run_wf:
  "run_wf (completed_run run found d u) (filter (\<lambda>it. im_status it \<noteq> SkippedDuplicate) found)"
proof -
  have "count_status {HistoricalSkipped} found \<le> count_status {SkippedDuplicate, HistoricalSkipped} found"
    by (rule count_mono) simp
  then show ?thesis
    by (simp add: run_wf_def run_counts_def completed_run_def summary_of_def Let_def count_stored)
      (simp add: count_status_def)
qed

text \<open>A run that reports what an import returned: each count is that of the outcomes \<open>found\<close>.\<close>

definition run_reports :: "import_run \<Rightarrow> import_item list \<Rightarrow> bool" where
  "run_reports r found \<longleftrightarrow>
     run_imported r = count_status {Imported} found \<and> run_downgraded r = count_status {Downgraded} found \<and>
     run_failed r = count_status {ImportFailed} found \<and>
     run_skipped r = count_status {SkippedDuplicate, HistoricalSkipped} found"

lemma completed_run_reports: "run_reports (completed_run run found d u) found"
  by (simp add: run_reports_def completed_run_def summary_of_def Let_def) (simp add: count_status_def)

lemma wp_complete_run:
  assumes ok: "cal_ok s" and run: "get_run s rid = Some (new_run q rid now)"
    and listed: "list_items_for_run s rid = filter (\<lambda>it. im_status it \<noteq> SkippedDuplicate) found"
  shows "wp (complete_run E (new_run q rid now) found)
    (\<lambda>r t. cal_inv s t \<and> run_id r = rid \<and> items_by_id t = items_by_id s \<and>
       items_by_source t = items_by_source s \<and> cal_reminders t = cal_reminders s \<and>
       get_run t rid = Some r \<and> run_status r = RunCompleted \<and> run_account_id r = ii_account_id q \<and>
       run_reports r found)
    (\<lambda>_ _. False) s"
proof -
  let ?s = "s\<lparr>clock := n\<rparr>" and ?r = "\<lambda>d u. completed_run (new_run q rid now) found d u"
  have id: "run_id (?r d u) = rid" "run_account_id (?r d u) = ii_account_id q" "run_status (?r d u) = RunCompleted" for d u
    by (simp_all add: completed_run_def Let_def)
  have "cal_inv s (put_run (?r d u) (s\<lparr>clock := n\<rparr>))" for d u n
  proof -
    have "cal_ok (put_run (?r d u) (s\<lparr>clock := n\<rparr>))"
      by (rule cal_ok_put_run) (use ok listed completed_run_wf id in simp_all)
    moreover have "cal_ext s (put_run (?r d u) (s\<lparr>clock := n\<rparr>))"
      using run id by (auto simp: cal_ext_def put_run_def get_run_def run_edited_def new_run_def intro!: runs.table_edit)
    ultimately show ?thesis by (simp add: cal_inv_def)
  qed
  then show ?thesis
    using run id
    by (simp add: complete_run_def wp_simps save_run_def refuse_if_def Let_def completed_run_reports)
qed

definition import_returned ::
  "cal_ports \<Rightarrow> import_input \<Rightarrow> cal_state \<Rightarrow> import_summary \<Rightarrow> cal_state \<Rightarrow> bool" where
  "import_returned P q s su t \<longleftrightarrow>
     cal_inv s t \<and>
     (\<exists>events run.
        cl_list_events P (ii_handle q) (ii_visible_start q) (ii_visible_end q) = Inr events \<and>
        su = summary_of (su_run_id su) (su_items su) \<and>
        get_run t (su_run_id su) = Some run \<and> run_status run = RunCompleted \<and> run_account_id run = ii_account_id q \<and>
        run_reports run (su_items su) \<and>
        map item_source (su_items su) =
          map (\<lambda>(ev, oc). (ev_calendar_id ev, ev_event_id ev, oc_key oc)) (all_occurrences events) \<and>
        list_items_for_run t (su_run_id su) = filter (\<lambda>it. im_status it \<noteq> SkippedDuplicate) (su_items su) \<and>
        (\<forall>(ev, oc)\<in>set (all_occurrences events). occurrence_known t ev oc) \<and>
        ((\<forall>(ev, oc)\<in>set (all_occurrences events). occurrence_known s ev oc) \<longrightarrow>
           cal_reminders t = cal_reminders s \<and> items_by_id t = items_by_id s \<and>
           (\<forall>it\<in>set (su_items su). im_status it = SkippedDuplicate)))"

lemma summary_parts [simp]: "su_run_id (summary_of rid found) = rid" "su_items (summary_of rid found) = found"
  by (simp_all add: summary_of_def)

lemma wp_add_run:
  "wp (add_run r) (\<lambda>_ t. t = put_run r s \<and> get_run s (run_id r) = None) (\<lambda>e t. t = s) s"
  by (auto simp: add_run_def refuse_if_def wp_simps put_run_def)

text \<open>After the run is stored: the loop and the completion.\<close>

lemma wp_import_events:
  assumes ok: "cal_ok s" and new: "get_run s rid = None" and start: "quiet s0 s"
    and events: "cl_list_events P (ii_handle q) (ii_visible_start q) (ii_visible_end q) = Inr events"
  shows "wp (bind (map_py (\<lambda>(ev, oc). import_occurrence E P rid (ii_account_id q) (ii_timezone q) ev oc)
             (all_occurrences events)) (\<lambda>found.
         bind (complete_run E (new_run q rid now) found) (\<lambda>completed.
         ret (summary_of (run_id completed) found))))
     (import_returned P q s0) (\<lambda>_. cal_inv s0) (put_run (new_run q rid now) s)"
proof -
  let ?s = "put_run (new_run q rid now) s"
  have inv: "cal_inv s ?s" by (rule cal_inv_new_run [OF ok new])
  then have ok': "cal_ok ?s" by (simp add: cal_inv_def)
  have inv0: "cal_inv s0 ?s" using quiet_inv [OF start] inv by (rule cal_inv_trans)
  have same: "items_by_id s = items_by_id s0" "cal_reminders s = cal_reminders s0"
    "occurrence_known s ev oc = occurrence_known s0 ev oc" for ev oc
    using start by (auto simp: quiet_def known_same) (simp add: same_records_cal_def)
  show ?thesis
  proof (subst wp_bind, rule wp_mono [OF wp_import_loop [OF ok' in_progress_put]])
    fix found t
    assume loop: "imports_done rid ?s (all_occurrences events) found t"
    then have t: "cal_ok t" "cal_inv ?s t" "get_run t rid = Some (new_run q rid now)"
      by (auto simp: imports_done_def cal_inv_def get_run_def put_run_def)
    have listed: "list_items_for_run t rid = filter (\<lambda>it. im_status it \<noteq> SkippedDuplicate) found"
      using loop by (simp add: imports_done_def new_run_items [OF ok new])
    show "wp (bind (complete_run E (new_run q rid now) found) (\<lambda>completed.
        ret (summary_of (run_id completed) found))) (import_returned P q s0) (\<lambda>_. cal_inv s0) t"
      unfolding wp_bind wp_ret
    proof (rule wp_mono [OF wp_complete_run [OF t(1,3) listed]])
      fix r u
      assume u: "cal_inv t u \<and> run_id r = rid \<and> items_by_id u = items_by_id t \<and>
        items_by_source u = items_by_source t \<and> cal_reminders u = cal_reminders t \<and>
        get_run u rid = Some r \<and> run_status r = RunCompleted \<and> run_account_id r = ii_account_id q \<and>
        run_reports r found"
      have "cal_inv s0 u" using cal_inv_trans [OF inv0 cal_inv_trans [OF t(2)]] u by blast
      moreover have "list_items_for_run u rid = list_items_for_run t rid"
        "occurrence_known u ev oc = occurrence_known t ev oc" for ev oc
        using u by (simp_all add: list_items_for_run_def known_iff)
      ultimately show "import_returned P q s0 (summary_of (run_id r) found) u"
        using u loop events listed same by (simp add: import_returned_def imports_done_def same_records_cal_def)
    qed simp
  next
    fix e t
    assume "cal_inv ?s t \<and> runs_by_id t = runs_by_id ?s"
    with inv0 show "cal_inv s0 t" using cal_inv_trans by blast
  qed
qed

lemma wp_import:
  assumes ok: "cal_ok s"
  shows "wp (import_google_calendar E P q) (import_returned P q s) (\<lambda>_. cal_inv s) s"
proof -
  have start: "quiet s s" using ok by (simp add: quiet_def)
  have tail: "wp (bind (add_run (new_run q rid now)) (\<lambda>_.
     bind (lift (cl_list_events P (ii_handle q) (ii_visible_start q) (ii_visible_end q))) (\<lambda>events.
     bind (map_py (\<lambda>(ev, oc). import_occurrence E P rid (ii_account_id q) (ii_timezone q) ev oc)
             (all_occurrences events)) (\<lambda>found.
     bind (complete_run E (new_run q rid now) found) (\<lambda>completed.
     ret (summary_of (run_id completed) found)))))) (import_returned P q s) (\<lambda>_. cal_inv s) t"
    if t: "quiet s t" for t rid now
  proof (subst wp_bind, rule wp_mono [OF wp_add_run])
    fix x u
    assume u: "u = put_run (new_run q rid now) t \<and> get_run t (run_id (new_run q rid now)) = None"
    then have new: "get_run t rid = None" by simp
    have ok: "cal_ok t" using t by (simp add: quiet_def)
    have "cal_inv s u" using cal_inv_trans [OF quiet_inv [OF t] cal_inv_new_run [OF ok new]] u by blast
    with wp_import_events [OF ok new t] u
    show "wp (bind (lift (cl_list_events P (ii_handle q) (ii_visible_start q) (ii_visible_end q))) (\<lambda>events.
       bind (map_py (\<lambda>(ev, oc). import_occurrence E P rid (ii_account_id q) (ii_timezone q) ev oc)
               (all_occurrences events)) (\<lambda>found.
       bind (complete_run E (new_run q rid now) found) (\<lambda>completed.
       ret (summary_of (run_id completed) found))))) (import_returned P q s) (\<lambda>_. cal_inv s) u"
      unfolding wp_bind [of "lift x" for x] wp_lift by (auto split: sum.splits)
  qed (use t quiet_inv in blast)
  have counters: "quiet s (t\<lparr>clock := n\<rparr>)" "quiet s (t\<lparr>clock := n, issued := m\<rparr>)" if "quiet s t" for t n m
    using that by (simp_all add: quiet_def)
  have "wp (check_import E P q) (\<lambda>_. quiet s) (\<lambda>_. quiet s) s"
    using quiet_check [of s E P q] start by (simp add: preserves_def)
  then show ?thesis
    unfolding import_google_calendar_def Let_def
    by (subst wp_bind, elim wp_mono, subst wp_bind, subst wp_py_now, subst wp_bind, subst wp_new_id)
      (use tail counters quiet_inv in auto)
qed

section \<open>Calls and steps\<close>

datatype cal_call =
    ImportCalendar import_input
  | StopAuthorization string string
  | RevokeAuthorization string string
  | CalReminders rem_call
  | CalIdentity id_call

definition cal_done :: "'a calm \<Rightarrow> unit calm" where
  "cal_done m = bind m (\<lambda>_. ret ())"

fun do_cal_call :: "env \<Rightarrow> cal_ports \<Rightarrow> cal_call \<Rightarrow> unit calm" where
  "do_cal_call E P (ImportCalendar q) = cal_done (import_google_calendar E P q)"
| "do_cal_call E P (StopAuthorization i h) = cal_done (stop_authorization E i h)"
| "do_cal_call E P (RevokeAuthorization i h) = cal_done (revoke_authorization E P i h)"
| "do_cal_call E P (CalReminders c) = reminder_call (do_rem_call (cl_reminder_env P) (cl_reminder_ports P) c)"
| "do_cal_call E P (CalIdentity c) = gate_call (do_id_call (cl_identity_env P) (cl_identity P) c)"

text \<open>Google and the other services' clocks and identifiers answer anew at each call.\<close>

inductive cal_step :: "env \<Rightarrow> cal_state \<Rightarrow> cal_state \<Rightarrow> bool" for E where
  call: "do_cal_call E P c s = (res, t) \<Longrightarrow> cal_step E s t"

inductive_simps cal_step_iff: "cal_step E s t"

inductive cal_reachable :: "env \<Rightarrow> cal_state \<Rightarrow> bool" for E where
  empty: "cal_reachable E empty_cal_state"
| step: "cal_reachable E s \<Longrightarrow> cal_step E s t \<Longrightarrow> cal_reachable E t"

lemma wp_cal_done: "wp (cal_done m) (\<lambda>_. R) (\<lambda>_. R) s = wp m (\<lambda>_. R) (\<lambda>_. R) s"
  by (simp add: cal_done_def wp_simps)

lemma inv_authorization: "cal_ok s \<Longrightarrow> cal_inv s (s\<lparr>clock := n, authorizations := a\<rparr>)"
  by (simp add: cal_inv_def cal_ok_parts(3)) (simp add: cal_ext_def)

lemma cal_inv_parts:
  "cal_ok s \<Longrightarrow> rem_ok r \<Longrightarrow> cal_inv s (s\<lparr>cal_reminders := r\<rparr>)"
  "cal_ok s \<Longrightarrow> id_ok i \<Longrightarrow> cal_inv s (s\<lparr>cal_identity := i\<rparr>)"
  by (simp_all add: cal_inv_def cal_ok_parts) (simp_all add: cal_ext_def)

lemma keeps_cal_call:
  assumes ok: "cal_ok s"
  shows "wp (do_cal_call E P c) (\<lambda>_. cal_inv s) (\<lambda>_. cal_inv s) s"
proof (cases c)
  case (ImportCalendar q)
  have "wp (import_google_calendar E P q) (\<lambda>_. cal_inv s) (\<lambda>_. cal_inv s) s"
    by (rule wp_mono [OF wp_import [OF ok]]) (simp_all add: import_returned_def)
  with ImportCalendar show ?thesis by (simp add: wp_cal_done)
next
  case (StopAuthorization i h)
  then show ?thesis
    using inv_authorization [OF ok]
    by (simp add: wp_cal_done stop_authorization_def save_authorization_state_def put_authorization_def wp_simps Let_def)
next
  case (RevokeAuthorization i h)
  have "cal_inv s s" using ok by (simp add: cal_inv_def)
  with RevokeAuthorization show ?thesis
    using inv_authorization [OF ok]
    by (auto simp: wp_cal_done revoke_authorization_def save_authorization_state_def put_authorization_def wp_simps
        Let_def split: sum.splits)
next
  case (CalReminders d)
  have "rem_ok (snd (do_rem_call E' P' d (cal_reminders s)))" for E' P'
    using preservesD [OF plain.keeps_call [where K = "{}"], of "cal_reminders s" E' P' d] ok
    by (simp add: inv_with_def rem_inv_empty cal_ok_def)
  from cal_inv_parts(1) [OF ok this] show ?thesis
    using CalReminders by (auto simp: wp_def reminder_call_def split: prod.splits sum.splits) (metis snd_conv)+
next
  case (CalIdentity d)
  have i: "id_ok (cal_identity s)" using ok by (simp add: cal_ok_def)
  show ?thesis
    unfolding CalIdentity do_cal_call.simps wp_gate_call
    by (rule wp_mono [OF keeps_wp [OF keeps_id_call i]]) (auto dest: id_inv_ok intro: cal_inv_parts(2) [OF ok])
qed

lemma cal_step_inv: "cal_step E s t \<Longrightarrow> cal_ok s \<Longrightarrow> cal_inv s t"
  unfolding cal_step_iff using keeps_cal_call by (fastforce simp: wp_def split: sum.splits prod.splits)

lemma cal_reachable_ok: "cal_reachable E s \<Longrightarrow> cal_ok s"
  by (induction rule: cal_reachable.induct) (auto dest: cal_step_inv simp: cal_inv_def)

lemma cal_steps_inv: "(cal_step E)\<^sup>*\<^sup>* s t \<Longrightarrow> cal_ok s \<Longrightarrow> cal_inv s t"
proof (induction rule: rtranclp_induct)
  case base
  then show ?case by (simp add: cal_inv_def)
next
  case (step t u)
  then have "cal_inv s t" by blast
  then have "cal_ok t" by (simp add: cal_inv_def)
  from cal_inv_trans [OF \<open>cal_inv s t\<close> cal_step_inv [OF step.hyps(2) this]] show ?case .
qed

section \<open>The sources of occurrences\<close>

definition occurrence_id :: "source_event \<times> occurrence \<Rightarrow> string \<times> string \<times> string" where
  "occurrence_id x = (case x of (ev, oc) \<Rightarrow> (ev_calendar_id ev, ev_event_id ev, oc_key oc))"

definition known_id :: "cal_state \<Rightarrow> string \<times> string \<times> string \<Rightarrow> bool" where
  "known_id s k \<longleftrightarrow> dget (items_by_source s) k \<noteq> None"

lemma known_id_iff: "known_id s (occurrence_id (ev, oc)) = occurrence_known s ev oc"
  by (simp add: known_id_def occurrence_id_def known_iff)

lemma known_id_stays: "cal_ext s t \<Longrightarrow> known_id s k \<Longrightarrow> known_id t k"
  unfolding known_id_def cal_ext_def by (auto dest!: items.table_get)

lemma duplicates_only:
  assumes "su = summary_of rid found" "\<forall>it\<in>set found. im_status it = SkippedDuplicate"
  shows "su_imported su = 0 \<and> su_downgraded su = 0 \<and> su_failed su = 0 \<and> su_skipped su = length found"
  using assms by (auto simp: summary_of_def count_status_def filter_empty_conv)

end
