(* ===== verification/CalOutcomes.thy ===== *)
theory CalOutcomes
  imports CalRuntime
begin

text \<open>
  The reminder that importing an occurrence creates: what the reminder service does with a request of the import, and what
  the import makes of its answer.
\<close>

section \<open>Creating a reminder without a turn\<close>

text \<open>
  Without a turn, the creation event's key is made of the new reminder's identifier; the next
  identifier to be handed out is new to the outbox.
\<close>

definition fresh_reminder_id :: "env \<Rightarrow> rem_state \<Rightarrow> bool" where
  "fresh_reminder_id E s \<longleftrightarrow>
     get_outbox_by_idempotency_key s (''reminder:create:'' @ env_id E ''reminder'' (issued s)) = None"

definition same_reminders :: "rem_state \<Rightarrow> rem_state \<Rightarrow> bool" where
  "same_reminders s t \<longleftrightarrow> (\<forall>k. get_reminder t k = get_reminder s k)"

definition reminder_created :: "(reminder \<Rightarrow> bool) \<Rightarrow> rem_state \<Rightarrow> item_result \<Rightarrow> rem_state \<Rightarrow> bool" where
  "reminder_created R s x t \<longleftrightarrow>
     (if ir_state x = Succeeded
      then \<exists>r. R r \<and> ir_reminder_id x = Some (rem_id r) \<and> get_reminder s (rem_id r) = None \<and>
        get_reminder t (rem_id r) = Some r \<and>
        (\<forall>k. k \<noteq> rem_id r \<longrightarrow> get_reminder t k = get_reminder s k)
      else same_reminders s t)"

lemma same_reminders_store: "same_store s t \<Longrightarrow> same_reminders s t"
  by (simp add: same_reminders_def same_store_get)

lemma wp_fresh_event:
  assumes "bi_turn_id item = None" "get_outbox_by_idempotency_key s (''reminder:create:'' @ rem_id r) = None"
    and "\<And>e t. same_store s t \<Longrightarrow> get_outbox_by_idempotency_key t (ro_idempotency_key e) = None \<Longrightarrow> Q e t"
  shows "wp (outbox_event E' ''create'' r (Some item)) Q X s"
  using assms
  by (auto simp: outbox_event_def wp_simps outbox_key_def get_outbox_by_idempotency_key_def
      split: option.splits)

lemma wp_write_new:
  assumes "R r"
  shows "wp (write_new_reminder r e ts g) (reminder_created R s) (\<lambda>_. same_reminders s) s"
  unfolding write_new_reminder_def wp_catch wp_bind
  by (rule adding.store_wp)
    (use assms in \<open>auto simp: wp_simps item_result_of_def reminder_created_def same_reminders_def
      put_rem_outbox_def put_reminder_def get_reminder_def\<close>)

lemma new_reminder_id: "rem_id (new_reminder E owner item words temporal now rid) = rid"
  by (simp add: new_reminder_def)

lemma wp_create_in_fresh:
  assumes item: "bi_turn_id item = None" and fresh: "fresh_reminder_id E s"
    and R: "\<And>now rid. R (new_reminder E owner item words temporal now rid)"
  shows "wp (create_in E owner item words temporal ts g) (reminder_created R s) (\<lambda>_. same_reminders s) s"
proof -
  have step: "wp (bind (gets (\<lambda>s. get_outbox_by_idempotency_key s (ro_idempotency_key e))) (\<lambda>existing.
     case existing of Some old \<Rightarrow> ret (replayed_result ts old) | None \<Rightarrow> write_new_reminder r e ts g))
     (reminder_created R s) (\<lambda>_. same_reminders s) t"
    if "same_store s t" "get_outbox_by_idempotency_key t (ro_idempotency_key e) = None" "R r" for r e t
  proof -
    have "wp (write_new_reminder r e ts g) (reminder_created R s) (\<lambda>_. same_reminders s) t"
      by (rule wp_mono [OF wp_write_new [of R r, OF that(3)]])
        (use that(1) in \<open>auto simp: reminder_created_def same_reminders_def same_store_get\<close>)
    with that(2) show ?thesis by (simp add: wp_simps)
  qed
  show ?thesis
    unfolding create_in_def Let_def wp_bind [of "py_now E"] wp_py_now wp_bind [of "new_id E p" for p] wp_new_id
      wp_bind [of "outbox_event E a b c" for a b c]
    by (rule wp_fresh_event [OF item],
        use fresh in \<open>simp add: fresh_reminder_id_def get_outbox_by_idempotency_key_def new_reminder_id\<close>)
      (auto simp: same_store_def intro!: step R)
qed

lemma wp_create_fresh:
  assumes item: "bi_turn_id item = None" and fresh: "fresh_reminder_id E s"
    and R: "\<And>words temporal now rid. bi_content item = Some words \<Longrightarrow>
      normalize_create_temporal (bi_trigger_time item) (bi_recurrence_rule item)
        (bi_duration_minutes item) (bi_kind item) = Inr temporal \<Longrightarrow>
      R (new_reminder E owner item words temporal now rid)"
  shows "wp (create_reminder E owner item g) (reminder_created R s) (\<lambda>_. same_reminders s) s"
proof (rule wp_create_reminder)
  fix t words temporal
  assume t: "same_store s t" "issued t = issued s" and "bi_content item = Some words"
    "normalize_create_temporal (bi_trigger_time item) (bi_recurrence_rule item)
        (bi_duration_minutes item) (bi_kind item) = Inr temporal"
  then have "\<And>now rid. R (new_reminder E owner item words temporal now rid)" by (intro R)
  moreover have "fresh_reminder_id E t" using fresh t by (simp add: fresh_reminder_id_def same_store_get)
  ultimately show "wp (create_in E owner item words temporal ValidFuture g) (reminder_created R s)
      (\<lambda>_. same_reminders s) t"
    by (intro wp_mono [OF wp_create_in_fresh [OF item, where R = R]])
      (use t in \<open>auto simp: reminder_created_def same_reminders_def same_store_get\<close>)
qed (simp_all add: reminder_created_def same_reminders_store)

lemma wp_batch_fresh:
  assumes create: "bi_operation item = ''create''"
    and m: "wp (create_reminder E owner item g) (reminder_created R s) (\<lambda>_. same_reminders s) s"
  shows "wp (execute_batch E P owner [item] g)
    (\<lambda>b t. \<exists>x. br_items b = [x] \<and> reminder_created R s x t) (\<lambda>_. same_reminders s) s"
  unfolding execute_batch_def batch_outcome_def execute_items_def execute_item_def map_py.simps wp_bind wp_catch wp_ret
    create
  by (simp add: wp_bind wp_ret, rule wp_mono [OF m])
    (auto simp: wp_simps failed_result_def item_result_of_def reminder_created_def Let_def split: pyexn.splits)

section \<open>The reminder of an occurrence\<close>

text \<open>The reminder an occurrence asks for.\<close>

definition asked_by ::
  "env \<Rightarrow> string \<Rightarrow> string \<Rightarrow> source_event \<Rightarrow> occurrence \<Rightarrow> reminder \<Rightarrow> bool" where
  "asked_by E account captured ev oc r \<longleftrightarrow>
     owner_account_id r = account \<and> content r = event_content ev \<and> lifecycle r = Active \<and>
     captured_timezone r = captured \<and> shared_reminder_id r = None \<and>
     (\<exists>trigger key. trigger_time E oc captured = Inr (trigger, key) \<and> next_fire_at r = Some trigger) \<and>
     occurrence_minutes E oc captured = Inr (duration_minutes r) \<and>
     rem_kind r = (if ev_rule ev \<noteq> [] \<and> ev_expressible ev then Recurring else Timed)"

lemma whole_minutes_pos: "1 \<le> whole_minutes us"
  by (simp add: whole_minutes_def Let_def)

lemma normalized_request:
  assumes "normalize_create_temporal (bi_trigger_time i) (bi_recurrence_rule i) (bi_duration_minutes i) (bi_kind i)
      = Inr temporal" and i: "i = import_request ev trigger captured minutes"
  shows "tf_trigger_time temporal = Some trigger \<and> tf_duration_minutes temporal = minutes \<and>
    tf_kind temporal = (if ev_rule ev \<noteq> [] \<and> ev_expressible ev then Recurring else Timed)"
proof -
  have k: "kind_of ''recurring'' = Some Recurring" "kind_of ''timed'' = Some Timed"
    using kind_of_name [of Recurring] kind_of_name [of Timed] by simp_all
  show ?thesis
    using assms(1) unfolding i normalize_create_temporal_def import_request_def Let_def
    by (auto simp: sbind_Inr_iff resolve_create_kind_def k storage_duration_def positive_duration_minutes_def
        positive_int_def split: if_splits)
qed

definition occurrence_effect ::
  "env \<Rightarrow> string \<Rightarrow> string \<Rightarrow> source_event \<Rightarrow> occurrence \<Rightarrow> rem_state \<Rightarrow> import_item \<Rightarrow> rem_state \<Rightarrow> bool" where
  "occurrence_effect E account captured ev oc s it t \<longleftrightarrow>
     (if im_status it \<in> {Imported, Downgraded}
      then (im_status it = Downgraded \<longleftrightarrow> ev_rule ev \<noteq> [] \<and> \<not> ev_expressible ev) \<and>
        (\<exists>r. asked_by E account captured ev oc r \<and> im_reminder_id it = Some (rem_id r) \<and>
           get_reminder s (rem_id r) = None \<and> get_reminder t (rem_id r) = Some r \<and>
           (\<forall>k. k \<noteq> rem_id r \<longrightarrow> get_reminder t k = get_reminder s k))
      else same_reminders s t)"

lemma wp_add_item_reminders:
  "wp (add_item it) (\<lambda>_ t. cal_reminders t = cal_reminders s) (\<lambda>_ t. cal_reminders t = cal_reminders s) s"
  by (rule wp_mono [OF wp_add_item]) auto

lemma wp_persist_reminders:
  "wp (persist_item E run ev oc status reason rid)
     (\<lambda>it t. im_status it = status \<and> im_reminder_id it = rid \<and> cal_reminders t = cal_reminders s)
     (\<lambda>_ t. cal_reminders t = cal_reminders s) s"
  unfolding persist_item_def wp_bind
  by (rule wp_build_item, rule wp_mono [OF wp_add_item]) (auto simp: wp_ret)

lemma wp_record_effect:
  assumes "reminder_created (asked_by E account captured ev oc) s0 x (cal_reminders s)"
  shows "wp (record_result E' run ev oc x)
    (\<lambda>it t. occurrence_effect E account captured ev oc s0 it (cal_reminders t)) (\<lambda>_ _. True) s"
proof -
  have go: "wp (persist_item E' run ev oc status reason rid)
      (\<lambda>it t. occurrence_effect E account captured ev oc s0 it (cal_reminders t)) (\<lambda>_ _. True) s"
    if "\<And>it. im_status it = status \<Longrightarrow> im_reminder_id it = rid \<Longrightarrow>
      occurrence_effect E account captured ev oc s0 it (cal_reminders s)" for status reason rid
    by (rule wp_mono [OF wp_persist_reminders]) (use that in auto)
  show ?thesis
  proof (cases "ir_state x = Succeeded")
    case True
    then obtain r where r: "asked_by E account captured ev oc r" "ir_reminder_id x = Some (rem_id r)"
      "get_reminder s0 (rem_id r) = None" "get_reminder (cal_reminders s) (rem_id r) = Some r"
      "\<forall>k. k \<noteq> rem_id r \<longrightarrow> get_reminder (cal_reminders s) k = get_reminder s0 k"
      using assms by (auto simp: reminder_created_def)
    have "wp (persist_item E' run ev oc (fst (import_status ev)) (snd (import_status ev)) (Some (rem_id r)))
      (\<lambda>it t. occurrence_effect E account captured ev oc s0 it (cal_reminders t)) (\<lambda>_ _. True) s"
      by (rule go) (use r in \<open>auto simp: occurrence_effect_def import_status_def split: if_splits\<close>)
    with True r(2) show ?thesis by (simp add: record_result_def)
  next
    case False
    then have "same_reminders s0 (cal_reminders s)" using assms by (simp add: reminder_created_def)
    then have "wp (persist_item E' run ev oc ImportFailed reason None)
      (\<lambda>it t. occurrence_effect E account captured ev oc s0 it (cal_reminders t)) (\<lambda>_ _. True) s" for reason
      by (intro go) (simp add: occurrence_effect_def)
    with False show ?thesis by (simp add: record_result_def)
  qed
qed

text \<open>Importing an occurrence that is not yet known.\<close>

lemma wp_import_effect:
  assumes new: "\<not> occurrence_known s ev oc" and fresh: "fresh_reminder_id (cl_reminder_env P) (cal_reminders s)"
  shows "wp (import_occurrence E P run account captured ev oc)
    (\<lambda>it t. occurrence_effect E account captured ev oc (cal_reminders s) it (cal_reminders t)) (\<lambda>_ _. True) s"
proof -
  let ?Q = "\<lambda>it t. occurrence_effect E account captured ev oc (cal_reminders s) it (cal_reminders t)"
  have create: "wp (create_imported E P run account ev oc captured trigger) ?Q (\<lambda>_ _. True) t"
    if t: "cal_reminders t = cal_reminders s" and trigger: "trigger_time E oc captured = Inr (trigger, key)" for trigger key t
  proof -
    have batch: "wp (reminder_call (execute_batch (cl_reminder_env P) (cl_reminder_ports P) account
            [import_request ev trigger captured minutes] no_guard))
       (\<lambda>b u. \<exists>x. br_items b = [x] \<and>
          reminder_created (asked_by E account captured ev oc) (cal_reminders s) x (cal_reminders u)) (\<lambda>_ _. True) t"
      if m: "occurrence_minutes E oc captured = Inr minutes" for minutes
    proof -
      have "wp (create_reminder (cl_reminder_env P) account (import_request ev trigger captured minutes) no_guard)
        (reminder_created (asked_by E account captured ev oc) (cal_reminders s)) (\<lambda>_. same_reminders (cal_reminders s))
        (cal_reminders s)"
      proof (rule wp_create_fresh [OF _ fresh])
        fix words temporal now rid
        let ?i = "import_request ev trigger captured minutes"
        assume "bi_content ?i = Some words"
          "normalize_create_temporal (bi_trigger_time ?i) (bi_recurrence_rule ?i) (bi_duration_minutes ?i) (bi_kind ?i)
             = Inr temporal"
        with normalized_request [OF this(2) refl] trigger m
        show "asked_by E account captured ev oc (new_reminder (cl_reminder_env P) account ?i words temporal now rid)"
          by (auto simp: asked_by_def new_reminder_def import_request_def Let_def)
      qed (simp add: import_request_def Let_def)
      from wp_batch_fresh [OF _ this, of "cl_reminder_ports P"]
      have "wp (execute_batch (cl_reminder_env P) (cl_reminder_ports P) account
            [import_request ev trigger captured minutes] no_guard)
         (\<lambda>b u. \<exists>x. br_items b = [x] \<and> reminder_created (asked_by E account captured ev oc) (cal_reminders s) x u)
         (\<lambda>_. same_reminders (cal_reminders s)) (cal_reminders s)"
        by (simp add: import_request_def Let_def)
      then show ?thesis
        using t by (auto simp: wp_def reminder_call_def split: prod.splits sum.splits)
    qed
    have "wp (bind (reminder_call (execute_batch (cl_reminder_env P) (cl_reminder_ports P) account
            [import_request ev trigger captured minutes] no_guard))
        (\<lambda>b. bind (lift (first_result b)) (\<lambda>x. record_result E run ev oc x))) ?Q (\<lambda>_ _. True) t"
      if "occurrence_minutes E oc captured = Inr minutes" for minutes
      by (subst wp_bind, rule wp_mono [OF batch [OF that]])
        (auto simp: wp_bind wp_lift first_result_def intro: wp_record_effect)
    then show ?thesis
      unfolding create_imported_def wp_bind [of "lift x" for x] wp_lift by (auto split: sum.splits)
  qed
  have history: "wp (persist_item E run ev oc HistoricalSkipped reason None) ?Q (\<lambda>_ _. True) t"
    if "cal_reminders t = cal_reminders s" for reason t
    by (rule wp_mono [OF wp_persist_reminders]) (use that in \<open>auto simp: occurrence_effect_def same_reminders_def\<close>)
  have "get_item_by_source_occurrence s (ev_calendar_id ev) (ev_event_id ev) (oc_key oc) = None"
    using new by (simp add: occurrence_known_def)
  then show ?thesis
    by (auto simp: import_occurrence_def wp_bind wp_gets wp_lift wp_py_now intro!: history create split: sum.splits)
qed

end
