(* ===== verification/CalProperties.thy ===== *)
theory CalProperties
  imports CalOutcomes IdProperties
begin

text \<open>
  The properties of the calendar import, with the closed examples that apply them: Bob and Carol import a calendar
  that has one event in common.
\<close>

section \<open>Evaluation\<close>

lemmas calendar_run_code [code] =
  reminder_call_def [THEN fun_cong] gate_call_def [THEN fun_cong] add_run_def [THEN fun_cong]
  save_run_def [THEN fun_cong] add_item_def [THEN fun_cong] build_item_def [THEN fun_cong]
  persist_item_def [THEN fun_cong] record_result_def [THEN fun_cong] create_imported_def [THEN fun_cong]
  import_occurrence_def [THEN fun_cong] complete_run_def [THEN fun_cong] require_aware_datetime_def [THEN fun_cong]
  cal_require_timezone_def [THEN fun_cong] require_access_allowed_def [THEN fun_cong]
  require_active_authorization_def [THEN fun_cong] check_import_def [THEN fun_cong]
  import_google_calendar_def [THEN fun_cong] execute_batch_def [THEN fun_cong] batch_outcome_def [THEN fun_cong]
  execute_items_def [THEN fun_cong] execute_item_def [THEN fun_cong] create_reminder_def [THEN fun_cong]
  create_in_def [THEN fun_cong] write_new_reminder_def [THEN fun_cong] outbox_event_def [THEN fun_cong]

section \<open>A small run\<close>

definition tea :: source_event where
  "tea = \<lparr>ev_calendar_id = ''primary'', ev_event_id = ''tea'', ev_title = ''Tea'', ev_description = '''',
     ev_start = AtTime (Aware day_us 0) None, ev_end = Some (AtTime (Aware (day_us + 30 * minute_us) 0) None),
     ev_all_day = False, ev_rule = [], ev_expressible = False, ev_occurrences = [], ev_metadata = []\<rparr>"

definition tea_occurrence :: occurrence where
  "tea_occurrence = hd (considered_occurrences tea)"

definition demo_rem_ports :: rem_ports where
  "demo_rem_ports = \<lparr>rp_detector = None, rp_delivery = None, rp_friend_identifiers = None\<rparr>"

definition cal_demo_ports :: cal_ports where
  "cal_demo_ports =
     \<lparr>cl_reminder_env = demo_env 0, cl_reminder_ports = demo_rem_ports, cl_identity_env = demo_env 0,
      cl_identity = id_demo_ports, cl_gate = True, cl_list_events = (\<lambda>_ _ _. Inr [tea]), cl_revoke = (\<lambda>_. Inr ())\<rparr>"

definition import_for :: "string \<Rightarrow> import_input" where
  "import_for i = \<lparr>ii_account_id = i, ii_handle = ''h'', ii_provider_account_id = None,
     ii_visible_start = Aware 0 0, ii_visible_end = Aware (2 * day_us) 0, ii_timezone = ''UTC'', ii_artifact_id = None\<rparr>"

definition bob_and_carol :: cal_state where
  "bob_and_carol = snd (do_cal_call (demo_env 0) cal_demo_ports (CalIdentity (ResolveIdentity ''whatsapp_evolution'' ''c'' None None))
     (snd (do_cal_call (demo_env 0) cal_demo_ports (CalIdentity (ResolveIdentity ''whatsapp_evolution'' ''b'' None None)) empty_cal_state)))"

lemma reachable_do_cal: "cal_reachable E s \<Longrightarrow> cal_reachable E (snd (do_cal_call E P c s))"
  by (rule cal_reachable.step, assumption, rule cal_step.call [where res = "fst (do_cal_call E P c s)"]) simp

lemma bob_and_carol_reachable: "cal_reachable (demo_env 0) bob_and_carol"
  unfolding bob_and_carol_def by (intro reachable_do_cal cal_reachable.empty)

abbreviation demo_import :: "string \<Rightarrow> cal_state \<Rightarrow> (pyexn + import_summary) \<times> cal_state" where
  "demo_import i \<equiv> import_google_calendar (demo_env 0) cal_demo_ports (import_for i)"

definition bob_imported :: cal_state where
  "bob_imported = snd (demo_import ''0'' bob_and_carol)"

section \<open>The store\<close>

text \<open>
  C36. Whatever calls are made, of this service, the reminder service and the identity service: an occurrence of an
  event has at most one stored item, found by its source; an item belongs to a stored run, names a reminder
  exactly if it was imported or downgraded, and a reason unless it was imported; a completed run's imported,
  downgraded and failed counts are those of its stored items, and its skipped count covers the historical ones,
  while a run still in progress has counted nothing. When an import returns, its run is completed with exactly the
  counts of the outcomes it returns, duplicates among the skipped ones, and the outcomes but the duplicates are the
  run's stored items.
\<close>

theorem calendar_store_invariant:
  assumes "cal_reachable E s"
  shows "(\<forall>c e k it. get_item_by_source_occurrence s c e k = Some it \<longrightarrow>
            item_source it = (c, e, k) \<and> get_run s (im_run_id it) \<noteq> None \<and> im_status it \<noteq> SkippedDuplicate \<and>
            (im_reminder_id it \<noteq> None) = (im_status it \<in> {Imported, Downgraded}) \<and>
            (im_reason it = None) = (im_status it = Imported)) \<and>
         (\<forall>i it. it \<in> set (list_items_for_run s i) \<longrightarrow>
            get_item_by_source_occurrence s (im_calendar_id it) (im_event_id it) (im_key it) = Some it) \<and>
         (\<forall>i r. get_run s i = Some r \<longrightarrow> run_id r = i \<and> run_wf r (list_items_for_run s i)) \<and>
         (\<forall>E' P q su t. import_google_calendar E' P q s = (Inr su, t) \<longrightarrow>
            (\<exists>r. get_run t (su_run_id su) = Some r \<and> run_status r = RunCompleted \<and>
               run_imported r = count_status {Imported} (su_items su) \<and>
               run_downgraded r = count_status {Downgraded} (su_items su) \<and>
               run_failed r = count_status {ImportFailed} (su_items su) \<and>
               run_skipped r = count_status {SkippedDuplicate, HistoricalSkipped} (su_items su)) \<and>
            list_items_for_run t (su_run_id su) =
              filter (\<lambda>it. im_status it \<noteq> SkippedDuplicate) (su_items su))"
proof -
  have ok: "cal_ok s" by (rule cal_reachable_ok [OF assms])
  then have ix: "indexed im_id item_source (items_by_id s) (items_by_source s)" by (simp add: cal_ok_def items_ok_def)
  have stored: "item_source it = (c, e, k) \<and> get_run s (im_run_id it) \<noteq> None \<and> item_wf it"
    if "get_item_by_source_occurrence s c e k = Some it" for c e k it
  proof -
    have "item_source it = (c, e, k)" "dget (items_by_id s) (im_id it) = Some it"
      using that indexed_lookup [OF ix]
      by (auto simp: get_item_by_source_occurrence_def source_occurrence_key_def)
    with ok show ?thesis unfolding cal_ok_def items_ok_def by blast
  qed
  have listed: "get_item_by_source_occurrence s (im_calendar_id it) (im_event_id it) (im_key it) = Some it"
    if "it \<in> set (list_items_for_run s i)" for i it
    using that keyed_values [OF indexed_keyed(1) [OF ix]] indexed_to [OF ix]
    by (auto simp: list_items_for_run_def get_item_by_source_occurrence_def item_source_def)
  have runs: "run_id r = i \<and> run_wf r (list_items_for_run s i)" if "get_run s i = Some r" for i r
    using ok that by (auto simp: cal_ok_def runs_ok_def get_run_def dest: keyed_get)
  have counts: "(\<exists>r. get_run t (su_run_id su) = Some r \<and> run_status r = RunCompleted \<and>
        run_imported r = count_status {Imported} (su_items su) \<and>
        run_downgraded r = count_status {Downgraded} (su_items su) \<and>
        run_failed r = count_status {ImportFailed} (su_items su) \<and>
        run_skipped r = count_status {SkippedDuplicate, HistoricalSkipped} (su_items su)) \<and>
      list_items_for_run t (su_run_id su) = filter (\<lambda>it. im_status it \<noteq> SkippedDuplicate) (su_items su)"
    if "import_google_calendar E' P q s = (Inr su, t)" for E' P q su t
    using wp_InrD [OF wp_import [OF ok] that] unfolding import_returned_def run_reports_def by blast
  show ?thesis
    by (intro conjI allI impI; (elim stored [THEN conjunct1] listed)?)
      (use stored listed runs counts in \<open>auto simp: item_wf_def\<close>)
qed

lemma bob_imports_tea:
  "map_sum id (\<lambda>su. (su_imported su, su_skipped su)) (fst (demo_import ''0'' bob_and_carol)) = Inr (1, 0)"
  by code_simp

lemma bob_reachable_imported: "cal_reachable (demo_env 0) bob_imported"
proof -
  have "snd (do_cal_call (demo_env 0) cal_demo_ports (ImportCalendar (import_for ''0'')) bob_and_carol) = bob_imported"
    by (simp add: bob_imported_def cal_done_def bind_run ret_run split: sum.splits prod.splits)
  with reachable_do_cal [OF bob_and_carol_reachable, of cal_demo_ports "ImportCalendar (import_for ''0'')"]
  show ?thesis by simp
qed

lemma tea_item_imported:
  "map_option im_status (get_item_by_source_occurrence bob_imported ''primary'' ''tea''
     (oc_key tea_occurrence)) = Some Imported"
  by code_simp

theorem calendar_store_invariant_witness:
  "\<exists>it. get_item_by_source_occurrence bob_imported ''primary'' ''tea'' (oc_key tea_occurrence) = Some it \<and>
     im_reminder_id it \<noteq> None \<and> get_run bob_imported (im_run_id it) \<noteq> None"
  using calendar_store_invariant [OF bob_reachable_imported] tea_item_imported by fastforce

section \<open>Importing an occurrence\<close>

text \<open>
  C37. Importing an occurrence that is not yet stored, when the outbox has no event yet under the
  key of creating a reminder with the next identifier to be issued. The occurrence is reported as
  imported, or downgraded if it has a recurrence rule that cannot be expressed, only if one reminder
  has been created: under an identifier no reminder had, active, of the account, with the event's
  title and description, the occurrence's time and its length in minutes, recurring exactly if the
  event has an expressible rule; and no other reminder has changed. Reported in any other way, the
  reminders are as they were.
\<close>

theorem occurrence_becomes_reminder:
  assumes "\<not> occurrence_known s ev oc" "fresh_reminder_id (cl_reminder_env P) (cal_reminders s)"
    and "import_occurrence E P run account captured ev oc s = (Inr it, t)"
  shows "if im_status it \<in> {Imported, Downgraded}
    then (im_status it = Downgraded \<longleftrightarrow> ev_rule ev \<noteq> [] \<and> \<not> ev_expressible ev) \<and>
      (\<exists>r. asked_by E account captured ev oc r \<and> im_reminder_id it = Some (rem_id r) \<and>
         get_reminder (cal_reminders s) (rem_id r) = None \<and>
         get_reminder (cal_reminders t) (rem_id r) = Some r \<and>
         (\<forall>k. k \<noteq> rem_id r \<longrightarrow> get_reminder (cal_reminders t) k = get_reminder (cal_reminders s) k))
    else \<forall>k. get_reminder (cal_reminders t) k = get_reminder (cal_reminders s) k"
  using wp_InrD [OF wp_import_effect [OF assms(1,2)] assms(3)]
  unfolding occurrence_effect_def same_reminders_def .

lemma bob_gets_tea:
  "map_sum id im_status (fst (import_occurrence (demo_env 0) cal_demo_ports ''r'' ''0'' ''UTC'' tea tea_occurrence bob_and_carol))
     = Inr Imported"
  by code_simp

lemma bob_and_carol_start:
  "rem_outbox_by_key (cal_reminders bob_and_carol) = [] \<and> items_by_source bob_and_carol = []"
  by code_simp

theorem occurrence_becomes_reminder_witness:
  "\<exists>it t r. import_occurrence (demo_env 0) cal_demo_ports ''r'' ''0'' ''UTC'' tea tea_occurrence bob_and_carol = (Inr it, t) \<and>
     im_reminder_id it = Some (rem_id r) \<and> get_reminder (cal_reminders t) (rem_id r) = Some r \<and>
     owner_account_id r = ''0'' \<and> content r = ''Tea'' \<and> rem_kind r = Timed"
proof -
  obtain it t where run: "import_occurrence (demo_env 0) cal_demo_ports ''r'' ''0'' ''UTC'' tea tea_occurrence bob_and_carol = (Inr it, t)"
    and it: "im_status it = Imported"
    using returned [OF bob_gets_tea] by blast
  have "fresh_reminder_id (cl_reminder_env cal_demo_ports) (cal_reminders bob_and_carol)"
    "\<not> occurrence_known bob_and_carol tea tea_occurrence"
    using bob_and_carol_start by (simp_all add: fresh_reminder_id_def get_outbox_by_idempotency_key_def known_iff)
  from occurrence_becomes_reminder [OF this(2,1) run] it obtain r where
    "asked_by (demo_env 0) ''0'' ''UTC'' tea tea_occurrence r" "im_reminder_id it = Some (rem_id r)"
    "get_reminder (cal_reminders t) (rem_id r) = Some r" by auto
  moreover have "event_content tea = ''Tea''" by code_simp
  ultimately show ?thesis using run by (auto simp: asked_by_def tea_def)
qed

section \<open>Importing again\<close>

text \<open>
  C38. Once an import has returned, any later one, after whatever calls, of events whose occurrences were all
  among the first one's creates no reminder and stores no item: it reports each occurrence as skipped.
\<close>

theorem reimport_creates_nothing:
  assumes "cal_reachable E s" "import_google_calendar E P q s = (Inr first, t)"
    and "(cal_step E)\<^sup>*\<^sup>* t u" "import_google_calendar E P' q' u = (Inr again, v)"
    and "cl_list_events P (ii_handle q) (ii_visible_start q) (ii_visible_end q) = Inr events"
    and "cl_list_events P' (ii_handle q') (ii_visible_start q') (ii_visible_end q') = Inr events'"
    and "set (map occurrence_id (all_occurrences events')) \<subseteq> set (map occurrence_id (all_occurrences events))"
  shows "cal_reminders v = cal_reminders u \<and> items_by_id v = items_by_id u \<and>
    su_imported again = 0 \<and> su_downgraded again = 0 \<and> su_failed again = 0 \<and>
    su_skipped again = length (all_occurrences events')"
proof -
  have first: "import_returned P q s first t"
    using wp_InrD [OF wp_import [OF cal_reachable_ok [OF assms(1)]] assms(2)] .
  then have t: "cal_ok t" by (simp add: import_returned_def cal_inv_def)
  then have u: "cal_inv t u" by (rule cal_steps_inv [OF assms(3)])
  have "known_id t k" if "k \<in> set (map occurrence_id (all_occurrences events))" for k
    using first assms(5) that by (auto simp: import_returned_def known_id_iff)
  moreover have "cal_ext t u" using u by (simp add: cal_inv_def)
  ultimately have "known_id u k" if "k \<in> set (map occurrence_id (all_occurrences events'))" for k
    using that assms(7) known_id_stays [of t u k] by blast
  then have "known_id u (occurrence_id x)" if "x \<in> set (all_occurrences events')" for x using that by simp
  then have known: "\<forall>(ev, oc)\<in>set (all_occurrences events'). occurrence_known u ev oc"
    by (auto simp flip: known_id_iff)
  have "import_returned P' q' u again v"
    using wp_InrD [OF wp_import assms(4)] u by (simp add: cal_inv_def)
  then have v: "cal_reminders v = cal_reminders u" "items_by_id v = items_by_id u"
    and dups: "\<forall>it\<in>set (su_items again). im_status it = SkippedDuplicate"
    and su: "again = summary_of (su_run_id again) (su_items again)"
    and len: "length (su_items again) = length (all_occurrences events')"
    using known assms(6) by (auto simp: import_returned_def dest: map_eq_imp_length_eq)
  show ?thesis
    using v len duplicates_only [OF su dups] by simp
qed

theorem reimport_creates_nothing_witness:
  "\<exists>again v. demo_import ''5'' bob_imported = (Inr again, v) \<and>
     cal_reminders v = cal_reminders bob_imported \<and> su_skipped again = 1"
proof -
  have second: "map_sum id su_skipped (fst (demo_import ''5'' bob_imported)) = Inr 1" by code_simp
  obtain first where one: "demo_import ''0'' bob_and_carol = (Inr first, bob_imported)"
    using returned [OF bob_imports_tea] by (auto simp: bob_imported_def)
  obtain again v where two: "demo_import ''5'' bob_imported = (Inr again, v)"
    using returned [OF second] by blast
  have "cl_list_events cal_demo_ports h a b = Inr [tea]" for h a b by (simp add: cal_demo_ports_def)
  with reimport_creates_nothing [OF bob_and_carol_reachable one rtranclp.rtrancl_refl two]
  have "cal_reminders v = cal_reminders bob_imported \<and> su_skipped again = length (all_occurrences [tea])" by simp
  moreover have "length (all_occurrences [tea]) = 1" by code_simp
  ultimately show ?thesis using two by simp
qed

text \<open>
  The source of an occurrence does not name the account, and every calendar is called \<open>primary\<close>: once Bob has imported an
  event, Carol's import of the event they share skips it and hands her the identifier of Bob's reminder.
\<close>

theorem shared_event_imported_once:
  "(case demo_import ''5'' bob_imported of
      (Inr su, t) \<Rightarrow>
        map (\<lambda>it. (im_status it, im_reminder_id it)) (su_items su) = [(SkippedDuplicate, Some ''0'')] \<and>
        map owner_account_id (dvalues (reminders_by_id (cal_reminders t))) = [''0'']
    | _ \<Rightarrow> False)"
  by code_simp

end
