(* ===== verification/GoogleCalendar.thy ===== *)
theory GoogleCalendar
  imports CalImport PyText
begin

text \<open>
  What the Google client of \<open>src/coke/domains/calendar_import/google.py\<close> makes of an event's recurrence: rules with a
  frequency and an interval only are expressed as rules of the reminder service, any other is expanded
  into its occurrences in the visible range by \<open>dateutil\<close>, which is a parameter. The HTTP requests, the credentials and the
  parsing of ISO times are left out.
\<close>

section \<open>Recurrence rules\<close>

definition py_upper_char :: "char \<Rightarrow> char" where
  "py_upper_char c = (let n = (of_char c :: nat) in if 97 \<le> n \<and> n \<le> 122 then char_of (n - 32) else c)"

definition py_upper :: "string \<Rightarrow> string" where
  "py_upper s = map py_upper_char s"

definition supported_google_frequencies :: "(string, string) dict" where
  "supported_google_frequencies =
     [(''HOURLY'', ''hourly''), (''DAILY'', ''daily''), (''WEEKLY'', ''weekly''), (''MONTHLY'', ''monthly''),
      (''YEARLY'', ''yearly'')]"

definition remove_prefix :: "string \<Rightarrow> string \<Rightarrow> string" where
  "remove_prefix p s = (if starts_with p s then drop (length p) s else s)"

text \<open>\<open>chunk.partition("=")\<close> where there is a separator.\<close>

definition partition_equals :: "string \<Rightarrow> (string \<times> string) option" where
  "partition_equals chunk =
     (case dropWhile (\<lambda>c. c \<noteq> CHR ''='') chunk of
        [] \<Rightarrow> None
      | _ # value \<Rightarrow> Some (takeWhile (\<lambda>c. c \<noteq> CHR ''='') chunk, value))"

definition add_rrule_part :: "string \<Rightarrow> (string, string) dict \<Rightarrow> (string, string) dict" where
  "add_rrule_part chunk parts =
     (if chunk = [] then parts
      else case partition_equals chunk of
        None \<Rightarrow> parts
      | Some (key, v) \<Rightarrow> dput (py_upper key) (py_upper v) parts)"

fun split_semicolons :: "string \<Rightarrow> string list" where
  "split_semicolons [] = [[]]"
| "split_semicolons (c # cs) =
     (if c = CHR '';'' then [] # split_semicolons cs
      else case split_semicolons cs of [] \<Rightarrow> [[c]] | w # ws \<Rightarrow> (c # w) # ws)"

definition rrule_parts :: "string \<Rightarrow> (string, string) dict" where
  "rrule_parts raw = fold add_rrule_part (split_semicolons (remove_prefix ''RRULE:'' raw)) []"

definition google_recurrence_rule :: "string list \<Rightarrow> pyexn + fact \<times> bool" where
  "google_recurrence_rule recurrence =
     (case recurrence of
        [] \<Rightarrow> Inr ([], False)
      | [raw] \<Rightarrow>
          (let parts = rrule_parts raw;
               interval = (case dget parts ''INTERVAL'' of None \<Rightarrow> ''1'' | Some v \<Rightarrow> v)
           in case py_int interval of
                None \<Rightarrow> Inl (ValueError ''invalid literal'')
              | Some n \<Rightarrow>
                  (case Option.bind (dget parts ''FREQ'') (dget supported_google_frequencies) of
                     Some frequency \<Rightarrow>
                       if 1 \<le> n \<and> list_all (\<lambda>p. fst p \<in> {''FREQ'', ''INTERVAL''}) parts
                       then Inr ([(''frequency'', PyStr frequency), (''interval'', PyInt n)], True)
                       else Inr ([(''raw'', PyStr raw)], False)
                   | None \<Rightarrow> Inr ([(''raw'', PyStr raw)], False)))
      | _ \<Rightarrow> Inr ([(''raw'', PyList (map PyStr recurrence))], False))"

section \<open>Occurrences of other rules\<close>

definition as_datetime :: "cal_time \<Rightarrow> datetime \<times> string option" where
  "as_datetime v = (case v of AtTime d key \<Rightarrow> (d, key) | OnDate n \<Rightarrow> (Aware ((n - 1) * day_us) 0, None))"

definition event_duration :: "cal_time \<Rightarrow> cal_time option \<Rightarrow> int option" where
  "event_duration start finish =
     (case finish of None \<Rightarrow> None | Some e \<Rightarrow> Some (dt_minus (as_datetime e) (as_datetime start)))"

text \<open>The date of a datetime, as its ordinal.\<close>

definition date_ordinal :: "datetime \<Rightarrow> int" where
  "date_ordinal d = dt_wall d div day_us + 1"

text \<open>\<open>d + timedelta\<close> moves the wall clock: in a \<open>ZoneInfo\<close> the offset is the one of the new wall clock.\<close>

definition add_in_zone :: "env \<Rightarrow> string option \<Rightarrow> datetime \<Rightarrow> int \<Rightarrow> pyexn + datetime" where
  "add_in_zone E key d n =
     (case key of
        None \<Rightarrow> dt_add d n
      | Some k \<Rightarrow>
          sbind (env_zone E k) (\<lambda>z.
          let w = dt_wall d + n; off = off_wall z w False in
          if wall_ok w then Inr (Aware (w - off) off) else Inl OverflowError))"

text \<open>
  An occurrence that \<open>dateutil\<close> yields, an aware datetime in the zone of the start, and the length of the event.
\<close>

definition expanded_occurrence :: "env \<Rightarrow> string option \<Rightarrow> bool \<Rightarrow> int option \<Rightarrow> datetime \<Rightarrow> pyexn + occurrence" where
  "expanded_occurrence E key all_day duration start =
     sbind (case duration of None \<Rightarrow> Inr None | Some n \<Rightarrow> sbind (add_in_zone E key start n) (\<lambda>e. Inr (Some e))) (\<lambda>finish.
     let shown = (\<lambda>d. if all_day then OnDate (date_ordinal d) else AtTime d key) in
     Inr \<lparr>oc_key = isoformat start, oc_start = shown start, oc_end = map_option shown finish,
          oc_all_day = all_day, oc_metadata = [(''recurrence_instance_key'', PyStr (isoformat start))]\<rparr>)"

definition expanded_occurrences ::
  "env \<Rightarrow> (string \<Rightarrow> datetime \<times> string option \<Rightarrow> datetime \<Rightarrow> datetime \<Rightarrow> pyexn + datetime list) \<Rightarrow> string list \<Rightarrow>
    cal_time \<Rightarrow> cal_time option \<Rightarrow> bool \<Rightarrow> datetime \<Rightarrow> datetime \<Rightarrow> pyexn + occurrence list" where
  "expanded_occurrences E between recurrence start finish all_day visible_start visible_end =
     (case recurrence of
        [] \<Rightarrow> Inr []
      | raw # _ \<Rightarrow>
          sbind (between raw (as_datetime start) visible_start visible_end)
            (map_sum_list (expanded_occurrence E (snd (as_datetime start)) all_day (event_duration start finish))))"

section \<open>Rules that are expressed\<close>

text \<open>
  A rule that the client marks as expressible is one the reminder service accepts, as it is.
\<close>

lemma supported_frequency:
  "dget supported_google_frequencies k = Some f \<Longrightarrow>
    f \<in> set supported_frequencies \<and> py_lower (py_strip f) = f"
  by (auto simp: supported_google_frequencies_def supported_frequencies_def split: if_splits)
    (simp_all add: py_strip_def py_space_def py_lower_def py_lower_char_def Let_def)

theorem expressible_rule_accepted:
  assumes "google_recurrence_rule recurrence = Inr (rule, True)"
  shows "canonical_recurrence_rule (PyDict rule) = Inr rule"
proof -
  obtain k f n where "dget supported_google_frequencies k = Some f" "1 \<le> n"
    "rule = [(''frequency'', PyStr f), (''interval'', PyInt n)]"
    using assms by (auto simp: google_recurrence_rule_def Let_def bind_eq_Some_conv
        split: list.splits option.splits if_splits)
  then show ?thesis
    using supported_frequency [of k f]
    by (simp add: canonical_recurrence_rule_def recurrence_keys_def positive_int_def canonical_window_def)
qed

end
