(* ===== verification/TurnPlan.thy ===== *)
theory TurnPlan
  imports PyText
begin

text \<open>
  Plans of inbound turns: \<open>contracts.py\<close>, \<open>param_schema.py\<close>, \<open>plan_compile.py\<close> and \<open>execute.py\<close> of
  \<open>src/coke/turn/inbound\<close>, and the trusted context of \<open>pipeline.py\<close>. A planner (a language model) proposes actions;
  they are compiled, which blocks what the schema of parameters does not allow, and carried out one by one by the
  handlers of their domains. The locale \<open>trusted_handlers\<close> is what handlers owe the executor.
\<close>

section \<open>Contracts\<close>

datatype category = CatDone | CatNeedsChoice | CatNeedsInput | CatNeedsConfirmation | CatNotPossible | CatNothing

datatype reply_necessity = ReplyNeeded | IntentionalNoReply

record proposed_action =
  pa_domain :: string
  pa_operation :: string
  pa_params :: fact

record turn_plan =
  tp_actions :: "proposed_action list"
  tp_reply_necessity :: reply_necessity

record compiled_action =
  ca_action :: "proposed_action option"
  ca_category :: "category option"
  ca_status :: "string option"
  ca_data :: fact

record compiled_plan =
  cpl_actions :: "compiled_action list"
  cpl_reply_necessity :: reply_necessity

record action_outcome =
  ao_category :: category
  ao_status :: string
  ao_data :: fact

text \<open>A \<open>SettledOutcome\<close> is the tuple of its outcomes.\<close>

type_synonym settled_outcome = "action_outcome list"

section \<open>The schema of parameters\<close>

record param_key_spec =
  ks_required :: "string list"
  ks_optional :: "string list"

type_synonym param_schema = "(string, (string, param_key_spec) dict) dict"

definition param_spec :: "string list \<Rightarrow> string list \<Rightarrow> param_key_spec" where
  "param_spec required optional = \<lparr>ks_required = required, ks_optional = optional\<rparr>"

definition param_key_schema :: param_schema where
  "param_key_schema =
     [(''calendar_import'',
       [(''import'', param_spec [''source'']
          [''account_id'', ''owner_account_id'', ''auth_handle'', ''provider_account_id'',
           ''visible_start'', ''visible_end'', ''captured_timezone'', ''auth_artifact_id''])]),
      (''friendship'',
       [(''add_via_code'', param_spec [''code'']
          [''account_id'', ''owner_account_id'', ''joiner_account_id'']),
        (''get_friend_link'', param_spec []
          [''account_id'', ''owner_account_id'']),
        (''list_friends'', param_spec []
          [''account_id'', ''owner_account_id'']),
        (''remove_friend'', param_spec [''friend'']
          [''account_id'', ''owner_account_id'', ''friend_account_id''])]),
      (''reminder'',
       [(''batch_create'', param_spec [''items'']
          [''owner_account_id'', ''account_id'', ''captured_timezone'', ''display_timezone'']),
        (''complete'', param_spec [''match'']
          [''owner_account_id'', ''account_id'', ''date_phrase'', ''captured_timezone'',
           ''display_timezone'']),
        (''create'', param_spec [''content'', ''time_phrase'']
          [''owner_account_id'', ''account_id'', ''captured_timezone'', ''display_timezone'',
           ''duration_minutes'', ''kind'', ''raw_text'', ''text'']),
        (''delete'', param_spec [''match'']
          [''owner_account_id'', ''account_id'', ''date_phrase'', ''captured_timezone'',
           ''display_timezone'']),
        (''list'', param_spec []
          [''owner_account_id'', ''account_id'', ''keyword'', ''lifecycle'', ''status'', ''kind'',
           ''reminder_type'', ''date_phrase'', ''trigger_after'', ''trigger_before'',
           ''captured_timezone'', ''display_timezone'']),
        (''update'', param_spec [''match'']
          [''owner_account_id'', ''account_id'', ''content'', ''time_phrase'',
           ''captured_timezone'', ''display_timezone'', ''duration_minutes'', ''raw_text'',
           ''text''])]),
      (''settings'',
       [(''set_timezone'', param_spec [''timezone_text'']
          [''account_id'', ''owner_account_id'']),
        (''toggle_memory'', param_spec [''enabled'']
          [''account_id'', ''owner_account_id'']),
        (''toggle_proactive'', param_spec [''enabled'']
          [''account_id'', ''owner_account_id'']),
        (''update_settings'', param_spec [''preference'']
          [''account_id'', ''owner_account_id'', ''fields'', ''default_timezone'',
           ''assistant_name'', ''user_address_name'', ''persona'', ''background'',
           ''speaking_style'', ''extra_rules'', ''proactive_enabled'', ''memory_enabled''])]),
      (''social_scheduling'',
       [(''availability_query'', param_spec [''participant'']
          [''account_id'', ''owner_account_id'', ''creator_account_id'', ''requester_account_id'',
           ''date_phrase'', ''local_start'', ''local_end'', ''captured_timezone'',
           ''requester_timezone'']),
        (''cancel_shared_reminder'', param_spec [''participant'']
          [''match'', ''account_id'', ''owner_account_id'', ''creator_account_id'']),
        (''create_shared_reminder'', param_spec [''participant'', ''content'', ''time_phrase'']
          [''creator_account_id'', ''account_id'', ''owner_account_id'', ''captured_timezone'',
           ''requester_timezone'', ''duration_minutes'', ''raw_text'', ''text'',
           ''local_trigger_at'', ''trigger_time'', ''title'']),
        (''update_shared_reminder'', param_spec []
          [''account_id'', ''owner_account_id'', ''creator_account_id'', ''participant'', ''match'',
           ''shared_reminder_id'', ''captured_timezone'', ''requester_timezone'',
           ''duration_minutes'', ''local_trigger_at'', ''trigger_time'', ''time_phrase'',
           ''raw_text'', ''text'']),
        (''list_shared'', param_spec []
          [''account_id'', ''owner_account_id'', ''creator_account_id'', ''participant''])])]"
definition allowed_actions_from_schema :: "param_schema \<Rightarrow> (string, string list) dict" where
  "allowed_actions_from_schema schema = map (map_prod id (map fst)) schema"

definition required_params_by_operation ::
  "param_schema \<Rightarrow> (string, (string, string list) dict) dict" where
  "required_params_by_operation schema = map (map_prod id (map (map_prod id ks_required))) schema"

definition param_key_schema_payload :: "param_schema \<Rightarrow> fact" where
  "param_key_schema_payload schema =
     map (map_prod id (\<lambda>operations. PyDict (map (map_prod id (\<lambda>spec. PyDict
       [(''required'', PyList (map PyStr (ks_required spec))),
        (''optional'', PyList (map PyStr (ks_optional spec)))])) operations))) schema"

section \<open>Compiling a plan\<close>

text \<open>\<open>params.get(key)\<close>: a missing key reads as \<open>None\<close>.\<close>

definition param :: "fact \<Rightarrow> string \<Rightarrow> pyval" where
  "param params k = (case dget params k of None \<Rightarrow> PyNone | Some v \<Rightarrow> v)"

definition has_date_phrase :: "fact \<Rightarrow> bool" where
  "has_date_phrase params = (case param params ''date_phrase'' of PyStr v \<Rightarrow> py_strip v \<noteq> [] | _ \<Rightarrow> False)"

definition required_params_for_action :: "proposed_action \<Rightarrow> string list \<Rightarrow> string list" where
  "required_params_for_action a required =
     (if pa_domain a = ''reminder'' \<and> pa_operation a \<in> {''delete'', ''complete''} \<and> has_date_phrase (pa_params a)
      then filter (\<lambda>p. p \<noteq> ''match'') required
      else required)"

definition required_params :: "(string, (string, string list) dict) dict" where
  "required_params = required_params_by_operation param_key_schema"

definition blocked_action :: "proposed_action \<Rightarrow> category \<Rightarrow> string \<Rightarrow> fact \<Rightarrow> compiled_action" where
  "blocked_action a cat status d =
     \<lparr>ca_action = Some a, ca_category = Some cat, ca_status = Some status, ca_data = d\<rparr>"

definition compile_action :: "proposed_action \<Rightarrow> compiled_action" where
  "compile_action a =
     (case dget required_params (pa_domain a) of
        None \<Rightarrow> blocked_action a CatNotPossible ''unsupported_domain'' [(''domain'', PyStr (pa_domain a))]
      | Some operations \<Rightarrow>
          (case dget operations (pa_operation a) of
             None \<Rightarrow> blocked_action a CatNotPossible ''unsupported_operation''
                       [(''domain'', PyStr (pa_domain a)), (''operation'', PyStr (pa_operation a))]
           | Some required \<Rightarrow>
               (let missing = filter (\<lambda>p. param (pa_params a) p = PyNone) (required_params_for_action a required) in
                if missing \<noteq> []
                then blocked_action a CatNeedsInput ''missing_required_param''
                       [(''missing_params'', PyList (map PyStr missing))]
                else \<lparr>ca_action = Some a, ca_category = None, ca_status = None, ca_data = []\<rparr>)))"

definition compile_plan :: "turn_plan \<Rightarrow> compiled_plan" where
  "compile_plan p =
     \<lparr>cpl_actions = map compile_action (tp_actions p), cpl_reply_necessity = tp_reply_necessity p\<rparr>"

section \<open>Carrying it out\<close>

text \<open>
  A handler is an argument of the executor: it gets the compiled action, the guard that it may ask whether
  the turn is still current, the position of the action in the plan and the turn.
\<close>

type_synonym 's handler = "compiled_action \<Rightarrow> ('s, unit) py \<Rightarrow> nat \<Rightarrow> string \<Rightarrow> ('s, action_outcome) py"

definition outcome_of :: "category \<Rightarrow> string \<Rightarrow> fact \<Rightarrow> action_outcome" where
  "outcome_of cat status d = \<lparr>ao_category = cat, ao_status = status, ao_data = d\<rparr>"

text \<open>\<open>{**params, **context}\<close>: what the context says replaces what the plan says.\<close>

definition with_context :: "fact \<Rightarrow> fact \<Rightarrow> fact" where
  "with_context params ctx = fold (\<lambda>(k, v). dput k v) ctx params"

definition enriched :: "fact \<Rightarrow> compiled_action \<Rightarrow> proposed_action \<Rightarrow> compiled_action" where
  "enriched ctx ca a =
     (if ctx = [] then ca
      else ca\<lparr>ca_action := Some (a\<lparr>pa_params := with_context (pa_params a) ctx\<rparr>)\<rparr>)"

definition execute_one ::
  "(string, 's handler) dict \<Rightarrow> fact \<Rightarrow> string \<Rightarrow> ('s, unit) py \<Rightarrow> nat \<Rightarrow> compiled_action \<Rightarrow>
    ('s, action_outcome) py" where
  "execute_one H ctx tid guard k ca =
     (case ca_category ca of
        Some cat \<Rightarrow>
          ret (outcome_of cat
            (case ca_status ca of None \<Rightarrow> ''compiled_action_blocked''
             | Some st \<Rightarrow> if st = [] then ''compiled_action_blocked'' else st) (ca_data ca))
      | None \<Rightarrow>
          (case ca_action ca of
             None \<Rightarrow> ret (outcome_of CatNotPossible ''invalid_compiled_action'' [])
           | Some a \<Rightarrow>
               (case dget H (pa_domain a) of
                  None \<Rightarrow> ret (outcome_of CatNotPossible ''unsupported_domain_handler''
                            [(''domain'', PyStr (pa_domain a)), (''operation'', PyStr (pa_operation a))])
                | Some handler \<Rightarrow> handler (enriched ctx ca a) guard k tid)))"

text \<open>The loop over \<open>enumerate(compiled_plan.actions)\<close>, from position \<open>k\<close>.\<close>

fun execute_from ::
  "(string, 's handler) dict \<Rightarrow> fact \<Rightarrow> string \<Rightarrow> ('s, unit) py \<Rightarrow> nat \<Rightarrow> compiled_action list \<Rightarrow>
    ('s, settled_outcome) py" where
  "execute_from H ctx tid guard k [] = ret []"
| "execute_from H ctx tid guard k (ca # cas) =
     bind (execute_one H ctx tid guard k ca) (\<lambda>outcome.
     bind (execute_from H ctx tid guard (Suc k) cas) (\<lambda>outcomes.
     ret (outcome # outcomes)))"

definition execute_plan ::
  "(string, 's handler) dict \<Rightarrow> fact \<Rightarrow> string \<Rightarrow> ('s, unit) py \<Rightarrow> compiled_plan \<Rightarrow>
    ('s, settled_outcome) py" where
  "execute_plan H ctx tid guard p = execute_from H ctx tid guard 0 (cpl_actions p)"

section \<open>The trusted context\<close>

text \<open>
  What the pipeline adds to the parameters of every action: the account and conversation of the turn, its
  time zone (\<open>tz\<close>, the text of the trusted fact or UTC), and the text of the messages, if there is any.
\<close>

definition text_value :: "pyval \<Rightarrow> string option" where
  "text_value v = (case v of PyStr t \<Rightarrow> if py_strip t \<noteq> [] then Some t else None | _ \<Rightarrow> None)"

definition current_input_text :: "fact list \<Rightarrow> fact \<Rightarrow> string option" where
  "current_input_text messages payload =
     (let texts = List.map_filter (\<lambda>m. text_value (param m ''content'')) messages;
          found = (if texts = [] then (case text_value (param payload ''text'') of None \<Rightarrow> [] | Some t \<Rightarrow> [t]) else texts)
      in if found = [] then None else Some (py_join [CHR 0x0A] (map py_strip found)))"

definition action_context :: "string \<Rightarrow> string \<Rightarrow> string \<Rightarrow> string option \<Rightarrow> fact" where
  "action_context account conversation tz text =
     [(''account_id'', PyStr account), (''owner_account_id'', PyStr account),
      (''creator_account_id'', PyStr account), (''requester_account_id'', PyStr account),
      (''conversation_id'', PyStr conversation), (''captured_timezone'', PyStr tz),
      (''requester_timezone'', PyStr tz), (''display_timezone'', PyStr tz)] @
     (case text of None \<Rightarrow> [] | Some t \<Rightarrow> [(''_current_input_text'', PyStr t)])"

lemma action_context_distinct [simp]: "distinct (map fst (action_context a c z t))"
  by (simp add: action_context_def split: option.split)

lemma action_context_nonempty [simp]: "action_context a c z t \<noteq> []"
  by (simp add: action_context_def)

lemma action_context_text: "dget (action_context a c z t) k = Some v \<Longrightarrow> v \<noteq> PyNone"
  by (auto simp: action_context_def split: if_splits option.splits)

section \<open>What the handlers get\<close>

lemma with_context_get:
  "distinct (map fst ctx) \<Longrightarrow>
    dget (with_context ps ctx) k = (case dget ctx k of Some v \<Rightarrow> Some v | None \<Rightarrow> dget ps k)"
proof (induction ctx arbitrary: ps)
  case Nil
  then show ?case by (simp add: with_context_def)
next
  case (Cons b ctx)
  then have "dget (with_context ps (b # ctx)) k =
      (case dget ctx k of Some v \<Rightarrow> Some v | None \<Rightarrow> dget (dput (fst b) (snd b) ps) k)"
    by (simp add: with_context_def split_beta)
  moreover have "dget ctx (fst b) = None" using Cons.prems by (simp add: map_of_eq_None_iff)
  ultimately show ?case by (cases b) (auto split: option.splits)
qed

text \<open>An action says of every key of the context what the context says.\<close>

definition trusts :: "fact \<Rightarrow> compiled_action \<Rightarrow> bool" where
  "trusts ctx ca \<longleftrightarrow>
     (\<forall>a k v. ca_action ca = Some a \<longrightarrow> dget ctx k = Some v \<longrightarrow> dget (pa_params a) k = Some v)"

lemma enriched_trusts: "distinct (map fst ctx) \<Longrightarrow> trusts ctx (enriched ctx ca a)"
  by (auto simp: trusts_def enriched_def with_context_get)

lemma compiled_is: "ca_action (compile_action a) = Some a"
  by (auto simp: compile_action_def blocked_action_def Let_def split: option.split)

text \<open>Only the handlers of the domains a plan names matter to its execution.\<close>

lemma execute_from_alike:
  "(\<And>ca a. ca \<in> set cas \<Longrightarrow> ca_action ca = Some a \<Longrightarrow> dget H (pa_domain a) = dget H' (pa_domain a)) \<Longrightarrow>
    execute_from H ctx tid guard k cas = execute_from H' ctx tid guard k cas"
proof (induction cas arbitrary: k)
  case (Cons ca cas)
  have "execute_one H ctx tid guard k ca = execute_one H' ctx tid guard k ca"
    using Cons.prems [of ca] by (auto simp: execute_one_def split: option.split)
  moreover have "execute_from H ctx tid guard (Suc k) cas = execute_from H' ctx tid guard (Suc k) cas"
    by (rule Cons.IH) (use Cons.prems in auto)
  ultimately show ?case by simp
qed simp

lemma execute_plan_alike:
  assumes "\<And>a. a \<in> set (tp_actions p) \<Longrightarrow> dget H (pa_domain a) = dget H' (pa_domain a)"
  shows "execute_plan H ctx tid guard (compile_plan p) = execute_plan H' ctx tid guard (compile_plan p)"
  unfolding execute_plan_def
  by (rule execute_from_alike) (use assms in \<open>auto simp: compile_plan_def compiled_is\<close>)

text \<open>
  The contract of handlers: given an action that trusts the context, each of them keeps the invariant and
  stays within what the turn may change, also when it raises.
\<close>

locale trusted_handlers =
  fixes H :: "(string, 's handler) dict" and ctx :: fact and guard :: "('s, unit) py"
    and I :: "'s \<Rightarrow> bool" and R :: "'s \<Rightarrow> 's \<Rightarrow> bool"
  assumes stays: "R s s" and continues: "R s t \<Longrightarrow> R t u \<Longrightarrow> R s u"
    and one_context: "distinct (map fst ctx)"
    and handled: "dget H d = Some h \<Longrightarrow> trusts ctx ca \<Longrightarrow> I s \<Longrightarrow>
      wp (h ca guard k tid) (\<lambda>_ t. I t \<and> R s t) (\<lambda>_ t. I t \<and> R s t) s"
begin

lemma one_kept:
  assumes "I s"
  shows "wp (execute_one H ctx tid guard k ca) (\<lambda>_ t. I t \<and> R s t) (\<lambda>_ t. I t \<and> R s t) s"
  using assms handled [OF _ enriched_trusts [OF one_context] assms]
  by (auto simp: execute_one_def wp_simps stays split: option.splits)

lemma actions_kept:
  "I s \<Longrightarrow> wp (execute_from H ctx tid guard k cas)
     (\<lambda>out t. I t \<and> R s t \<and> length out = length cas) (\<lambda>_ t. I t \<and> R s t) s"
proof (induction cas arbitrary: k s)
  case Nil
  then show ?case by (simp add: wp_simps stays)
next
  case (Cons ca cas)
  show ?case unfolding execute_from.simps wp_bind
  proof (rule wp_mono [OF one_kept [OF Cons.prems]])
    fix outcome t
    assume t: "I t \<and> R s t"
    show "wp (execute_from H ctx tid guard (Suc k) cas)
        (\<lambda>outcomes. wp (ret (outcome # outcomes)) (\<lambda>out t. I t \<and> R s t \<and> length out = length (ca # cas))
          (\<lambda>_ t. I t \<and> R s t)) (\<lambda>_ t. I t \<and> R s t) t"
      by (rule wp_mono [OF Cons.IH]) (use t in \<open>auto simp: wp_simps intro: continues\<close>)
  qed simp
qed

lemma plan_kept:
  "I s \<Longrightarrow> wp (execute_plan H ctx tid guard p)
     (\<lambda>out t. I t \<and> R s t \<and> length out = length (cpl_actions p)) (\<lambda>_ t. I t \<and> R s t) s"
  unfolding execute_plan_def by (rule actions_kept)

end

end
