(* ===== verification/TurnSettings.thy ===== *)
theory TurnSettings
  imports TurnPlan SettingsRuntime
begin

text \<open>
  The handler of settings actions, \<open>SettingsActionHandler\<close> of \<open>src/coke/turn/inbound/handlers/settings.py\<close>, over
  the settings service, and that it meets the contract of handlers. It takes the account from the parameters and
  never asks the guard.
\<close>

section \<open>Parameters and outcomes\<close>

definition optional_str :: "pyval \<Rightarrow> string option" where
  "optional_str v = (case v of PyStr t \<Rightarrow> if py_strip t = [] then None else Some (py_strip t) | _ \<Rightarrow> None)"

definition settings_account_id :: "fact \<Rightarrow> string option" where
  "settings_account_id params =
     (case optional_str (param params ''account_id'') of
        Some i \<Rightarrow> Some i
      | None \<Rightarrow> optional_str (param params ''owner_account_id''))"

definition timezone_value :: "fact \<Rightarrow> string option" where
  "timezone_value params = optional_str (param params ''timezone_text'')"

definition missing_input :: "string \<Rightarrow> action_outcome" where
  "missing_input name = outcome_of CatNeedsInput (''missing_'' @ name) [(''field'', PyStr name)]"

text \<open>The keyword arguments for \<open>update_settings\<close>: \<open>fields\<close> before the parameters, the preference last.\<close>

definition settings_update_fields :: "fact \<Rightarrow> settings_request" where
  "settings_update_fields params =
     (let raw = (case param params ''fields'' of PyDict d \<Rightarrow> d | _ \<Rightarrow> []);
          given = (\<lambda>f. case dget raw f of Some v \<Rightarrow> Some v | None \<Rightarrow> dget params f)
      in \<lparr>sq_default_timezone = given ''default_timezone'', sq_assistant_name = given ''assistant_name'',
          sq_user_address_name = given ''user_address_name'', sq_persona = given ''persona'',
          sq_background = given ''background'', sq_speaking_style = given ''speaking_style'',
          sq_extra_rules = (case given ''extra_rules'' of
             Some v \<Rightarrow> Some v
           | None \<Rightarrow> map_option PyStr (optional_str (param params ''preference''))),
          sq_proactive_enabled = given ''proactive_enabled'', sq_memory_enabled = given ''memory_enabled''\<rparr>)"

definition settings_view_facts :: "settings_view \<Rightarrow> fact" where
  "settings_view_facts v =
     (let a = sv_agent_settings v;
          p = sv_user_profile v;
          agent = [(''assistant_name'', PyStr (ag_assistant_name a)),
                   (''user_address_name'', str_or_none (ag_user_address_name a)),
                   (''persona'', str_or_none (ag_persona a)), (''background'', str_or_none (ag_background a)),
                   (''speaking_style'', str_or_none (ag_speaking_style a)),
                   (''extra_rules'', str_or_none (ag_extra_rules a)),
                   (''proactive_enabled'', PyBool (ag_proactive_enabled a)),
                   (''memory_enabled'', PyBool (ag_memory_enabled a))];
          profile = [(''real_name'', str_or_none (spf_real_name p)), (''nickname'', str_or_none (spf_nickname p)),
                     (''description'', str_or_none (spf_description p)),
                     (''relationship_description'', str_or_none (spf_relationship p))]
      in [(''account_id'', PyStr (sv_account_id v)), (''default_timezone'', PyStr (sv_default_timezone v))] @
         agent @ [(''agent_settings'', PyDict agent), (''user_profile'', PyDict profile)])"

definition settings_error_outcome :: "pyexn \<Rightarrow> action_outcome" where
  "settings_error_outcome e =
     (case e of
        SettingsError code f \<Rightarrow>
          outcome_of CatNotPossible code
            (case f of None \<Rightarrow> [(''reason'', PyStr code)]
             | Some d \<Rightarrow> if d = [] then [(''reason'', PyStr code)] else d)
      | _ \<Rightarrow> outcome_of CatNotPossible (if error_text e = [] then ''settings_error'' else error_text e) [])"

definition is_settings_error :: "pyexn \<Rightarrow> bool" where
  "is_settings_error e = (case e of SettingsError _ _ \<Rightarrow> True | _ \<Rightarrow> is_value_error e)"

section \<open>The handler\<close>

text \<open>A call of the service, with \<open>except (SettingsError, ValueError)\<close>.\<close>

definition settings_outcome :: "string \<Rightarrow> settings_view sem \<Rightarrow> action_outcome sem" where
  "settings_outcome status call =
     catch (bind call (\<lambda>v. ret (outcome_of CatDone status (settings_view_facts v))))
       (\<lambda>e. if is_settings_error e then ret (settings_error_outcome e) else raise e)"

definition handle_set_timezone :: "env \<Rightarrow> bool \<Rightarrow> fact \<Rightarrow> action_outcome sem" where
  "handle_set_timezone E port params =
     (case settings_account_id params of
        None \<Rightarrow> ret (missing_input ''account_id'')
      | Some i \<Rightarrow>
          (case timezone_value params of
             None \<Rightarrow> ret (missing_input ''timezone'')
           | Some t \<Rightarrow> settings_outcome ''timezone_set'' (set_timezone E port i t)))"

definition handle_update_settings :: "env \<Rightarrow> bool \<Rightarrow> fact \<Rightarrow> action_outcome sem" where
  "handle_update_settings E port params =
     (case settings_account_id params of
        None \<Rightarrow> ret (missing_input ''account_id'')
      | Some i \<Rightarrow>
          if settings_update_fields params = no_settings then ret (missing_input ''preference'')
          else settings_outcome ''updated'' (update_settings E port i (settings_update_fields params)))"

definition handle_toggle_setting ::
  "env \<Rightarrow> bool \<Rightarrow> fact \<Rightarrow> (pyval \<Rightarrow> settings_request) \<Rightarrow> string \<Rightarrow> action_outcome sem" where
  "handle_toggle_setting E port params request status =
     (case settings_account_id params of
        None \<Rightarrow> ret (missing_input ''account_id'')
      | Some i \<Rightarrow>
          (case param params ''enabled'' of
             PyBool b \<Rightarrow> settings_outcome status (update_settings E port i (request (PyBool b)))
           | _ \<Rightarrow> ret (missing_input ''enabled'')))"

definition settings_handler :: "env \<Rightarrow> bool \<Rightarrow> settings_state handler" where
  "settings_handler E port ca guard k tid =
     (case ca_action ca of
        None \<Rightarrow> ret (outcome_of CatNotPossible ''invalid_compiled_action'' [])
      | Some a \<Rightarrow>
          if pa_operation a = ''set_timezone'' then handle_set_timezone E port (pa_params a)
          else if pa_operation a = ''update_settings'' then handle_update_settings E port (pa_params a)
          else if pa_operation a = ''toggle_memory''
          then handle_toggle_setting E port (pa_params a)
                 (\<lambda>v. no_settings\<lparr>sq_memory_enabled := Some v\<rparr>) ''memory_toggled''
          else if pa_operation a = ''toggle_proactive''
          then handle_toggle_setting E port (pa_params a)
                 (\<lambda>v. no_settings\<lparr>sq_proactive_enabled := Some v\<rparr>) ''proactive_toggled''
          else ret (outcome_of CatNotPossible ''unsupported_operation''
                 [(''domain'', PyStr ''settings''), (''operation'', PyStr (pa_operation a))]))"

text \<open>The handlers of a turn that has settings only.\<close>

definition settings_handlers :: "env \<Rightarrow> bool \<Rightarrow> (string, settings_state handler) dict" where
  "settings_handlers E port = [(''settings'', settings_handler E port)]"

section \<open>The contract\<close>

lemma kept_refl: "settings_ok E s \<Longrightarrow> settings_kept E i s s"
  by (simp add: settings_kept_def)

lemma wp_update_kept:
  assumes "settings_ok E s"
  shows "wp (update_settings E port i q) (\<lambda>_. settings_kept E i s) (\<lambda>_. settings_kept E i s) s"
  using keeps_settings_call [OF assms, of port "UpdateSettings i q"] by simp

lemma wp_settings_outcome:
  assumes "wp call (\<lambda>_. P) (\<lambda>_. P) s"
  shows "wp (settings_outcome status call) (\<lambda>_. P) (\<lambda>_. P) s"
  unfolding settings_outcome_def wp_catch wp_bind
  by (rule wp_mono [OF assms]) (simp_all add: wp_simps)

lemma trusted_account:
  assumes "dget params ''account_id'' = Some (PyStr i)" "dget params ''owner_account_id'' = Some (PyStr i)"
    and "py_strip i = i"
  shows "settings_account_id params = (if i = [] then None else Some i)"
  using assms by (auto simp: settings_account_id_def optional_str_def param_def)

lemma handler_kept:
  assumes "trusts (action_context i c z text) ca" and i: "py_strip i = i" and ok: "settings_ok E s"
  shows "wp (settings_handler E port ca guard k tid)
    (\<lambda>_. settings_kept E i s) (\<lambda>_. settings_kept E i s) s"
proof (cases "ca_action ca")
  case None
  with ok show ?thesis by (simp add: settings_handler_def wp_simps kept_refl)
next
  case (Some a)
  with assms(1) have "settings_account_id (pa_params a) = (if i = [] then None else Some i)"
    by (intro trusted_account [OF _ _ i]) (simp_all add: trusts_def action_context_def)
  with Some ok show ?thesis
    by (auto simp: settings_handler_def handle_set_timezone_def handle_update_settings_def
        handle_toggle_setting_def set_timezone_def wp_simps kept_refl intro!: wp_settings_outcome wp_update_kept
        split: option.splits pyval.splits)
qed

interpretation settings_turn: trusted_handlers "settings_handlers E port" "action_context i c z text" guard
  "\<lambda>s. settings_ok E s \<and> py_strip i = i" "others_untouched i"
  for E port i c z text guard
proof unfold_locales
  fix d h ca k tid s
  assume h: "dget (settings_handlers E port) d = Some h" and trusted: "trusts (action_context i c z text) ca"
    and s: "settings_ok E s \<and> py_strip i = i"
  have "h = settings_handler E port" using h by (simp add: settings_handlers_def split: if_splits)
  with handler_kept [OF trusted, of E s port guard k tid] s
  show "wp (h ca guard k tid) (\<lambda>_ t. (settings_ok E t \<and> py_strip i = i) \<and> others_untouched i s t)
      (\<lambda>_ t. (settings_ok E t \<and> py_strip i = i) \<and> others_untouched i s t) s"
    by (simp add: settings_kept_def [abs_def])
qed (auto intro: untouched_trans)

end
