(* ===== verification/TurnProperties.thy ===== *)
theory TurnProperties
  imports TurnSettings SettingsProperties
begin

text \<open>
  What the execution of a plan guarantees, whatever the planner proposes: handlers get exactly the actions that the
  schema allows and that are complete, with the turn's own account; and settings actions change nothing of
  other accounts.
\<close>

section \<open>Compiled plans\<close>

text \<open>The specification of each operation, and the parameters it has to have.\<close>

definition action_spec :: "proposed_action \<Rightarrow> param_key_spec option" where
  "action_spec a = Option.bind (dget param_key_schema (pa_domain a)) (\<lambda>ops. dget ops (pa_operation a))"

text \<open>Reminders are deleted and completed by a topic or by a date.\<close>

definition dated_mutation :: "proposed_action \<Rightarrow> bool" where
  "dated_mutation a \<longleftrightarrow> pa_domain a = ''reminder'' \<and> pa_operation a \<in> {''delete'', ''complete''} \<and>
     text_value (param (pa_params a) ''date_phrase'') \<noteq> None"

definition lacks :: "proposed_action \<Rightarrow> param_key_spec \<Rightarrow> string \<Rightarrow> bool" where
  "lacks a spec p \<longleftrightarrow> p \<in> set (ks_required spec) \<and> param (pa_params a) p = PyNone \<and>
     \<not> (p = ''match'' \<and> dated_mutation a)"

lemma date_phrase_text: "has_date_phrase ps \<longleftrightarrow> text_value (param ps ''date_phrase'') \<noteq> None"
  by (simp add: has_date_phrase_def text_value_def split: pyval.split)

lemma missing_iff:
  "filter (\<lambda>p. param (pa_params a) p = PyNone) (required_params_for_action a (ks_required spec)) =
     filter (lacks a spec) (ks_required spec)"
  by (auto simp: required_params_for_action_def lacks_def dated_mutation_def date_phrase_text intro!: filter_cong)

lemma dget_map: "dget (map (map_prod id f) d) k = map_option f (dget d k)"
  by (induction d) auto

lemma compile_known:
  assumes "action_spec a = Some spec"
  shows "compile_action a =
    (let missing = filter (lacks a spec) (ks_required spec) in
     if missing \<noteq> [] then blocked_action a CatNeedsInput ''missing_required_param''
       [(''missing_params'', PyList (map PyStr missing))]
     else \<lparr>ca_action = Some a, ca_category = None, ca_status = None, ca_data = []\<rparr>)"
  using assms
  by (auto simp: compile_action_def action_spec_def required_params_def required_params_by_operation_def dget_map
      missing_iff bind_eq_Some_conv)

lemma compile_unknown:
  assumes "action_spec a = None"
  shows "\<exists>status d. compile_action a = blocked_action a CatNotPossible status d \<and>
    status \<in> {''unsupported_domain'', ''unsupported_operation''}"
  using assms
  by (auto simp: compile_action_def action_spec_def required_params_def required_params_by_operation_def dget_map
      bind_eq_None_conv split: option.splits)

lemma blocked_runs:
  "status \<noteq> [] \<Longrightarrow> execute_one H ctx tid guard k (blocked_action a cat status d) = ret (outcome_of cat status d)"
  by (simp add: execute_one_def blocked_action_def)

text \<open>
  C39. An action outside the schema is refused as not possible, one that lacks required parameters asks for
  exactly these, and neither touches the state. Any other reaches its handler, and the handler sees the turn's
  account, conversation and time zone whatever the plan says of them, and every other parameter as planned.
\<close>

theorem handlers_get_checked_actions:
  assumes "dget H (pa_domain a) = Some h"
  shows "case action_spec a of
      None \<Rightarrow> \<exists>status d. status \<in> {''unsupported_domain'', ''unsupported_operation''} \<and>
        execute_one H (action_context i c z said) tid guard k (compile_action a) = ret (outcome_of CatNotPossible status d)
    | Some spec \<Rightarrow>
        (let missing = filter (lacks a spec) (ks_required spec) in
         if missing \<noteq> []
         then execute_one H (action_context i c z said) tid guard k (compile_action a) =
           ret (outcome_of CatNeedsInput ''missing_required_param'' [(''missing_params'', PyList (map PyStr missing))])
         else \<exists>ca b.
           execute_one H (action_context i c z said) tid guard k (compile_action a) = h ca guard k tid \<and>
           ca_action ca = Some b \<and> pa_domain b = pa_domain a \<and> pa_operation b = pa_operation a \<and>
           dget (pa_params b) =
             (\<lambda>p. case dget (action_context i c z said) p of Some v \<Rightarrow> Some v | None \<Rightarrow> dget (pa_params a) p))"
proof (cases "action_spec a")
  case None
  then show ?thesis using compile_unknown [OF None] blocked_runs by fastforce
next
  case (Some spec)
  let ?ctx = "action_context i c z said"
  let ?missing = "filter (lacks a spec) (ks_required spec)"
  show ?thesis
  proof (cases "?missing = []")
    case False
    then have "compile_action a = blocked_action a CatNeedsInput ''missing_required_param''
        [(''missing_params'', PyList (map PyStr ?missing))]"
      by (simp only: compile_known [OF Some] Let_def if_True not_False_eq_True)
    with False Some show ?thesis by (simp add: Let_def blocked_runs del: filter_empty_conv)
  next
    case True
    define ca where "ca = \<lparr>ca_action = Some a, ca_category = None, ca_status = None, ca_data = []\<rparr>"
    have "compile_action a = ca"
      using True by (simp only: compile_known [OF Some] Let_def ca_def simp_thms if_False)
    then have "execute_one H ?ctx tid guard k (compile_action a) = h (enriched ?ctx ca a) guard k tid"
      using assms by (simp add: execute_one_def ca_def)
    moreover have "ca_action (enriched ?ctx ca a) = Some (a\<lparr>pa_params := with_context (pa_params a) ?ctx\<rparr>)"
      by (simp add: enriched_def)
    ultimately show ?thesis using Some True by (force simp: Let_def fun_eq_iff with_context_get)
  qed
qed

definition own_zone :: proposed_action where
  "own_zone = \<lparr>pa_domain = ''settings'', pa_operation = ''set_timezone'',
     pa_params = [(''timezone_text'', PyStr ''Asia/Tokyo''), (''account_id'', PyStr ''bob'')]\<rparr>"

theorem handlers_get_checked_actions_witness:
  "\<exists>ca b. execute_one (settings_handlers two_zones True) (action_context ''alice'' ''c'' ''UTC'' None) ''t'' (ret ()) 0
       (compile_action own_zone) = settings_handler two_zones True ca (ret ()) 0 ''t'' \<and>
     ca_action ca = Some b \<and> dget (pa_params b) ''account_id'' = Some (PyStr ''alice'')"
proof -
  have h: "dget (settings_handlers two_zones True) (pa_domain own_zone) = Some (settings_handler two_zones True)"
    by (simp add: settings_handlers_def own_zone_def)
  have spec: "action_spec own_zone = Some (param_spec [''timezone_text''] [''account_id'', ''owner_account_id''])"
    by code_simp
  have "filter (lacks own_zone (param_spec [''timezone_text''] [''account_id'', ''owner_account_id'']))
      (ks_required (param_spec [''timezone_text''] [''account_id'', ''owner_account_id''])) = []"
    by (simp add: lacks_def param_spec_def param_def own_zone_def)
  with handlers_get_checked_actions [OF h, of "''alice''" "''c''" "''UTC''" None "''t''" "ret ()" 0] spec
  obtain ca b where "execute_one (settings_handlers two_zones True) (action_context ''alice'' ''c'' ''UTC'' None)
      ''t'' (ret ()) 0 (compile_action own_zone) = settings_handler two_zones True ca (ret ()) 0 ''t''"
    "ca_action ca = Some b" "dget (pa_params b) = (\<lambda>p. case dget (action_context ''alice'' ''c'' ''UTC'' None) p of
      Some v \<Rightarrow> Some v | None \<Rightarrow> dget (pa_params own_zone) p)"
    by (auto simp: Let_def)
  then show ?thesis by (auto simp: action_context_def)
qed

section \<open>Settings actions\<close>

text \<open>
  C40. Carrying out a plan of settings actions for an account (an id without surrounding blanks), even one
  that names other accounts, leaves the accounts, settings, profiles and reminders of all others as they are, whether
  it returns or raises, and keeps the store well formed; when it returns there is one outcome for each action of the
  plan. The executor may have handlers of other domains; the plan may have actions of domains it has no handler for.
\<close>

theorem turn_acts_for_its_account:
  assumes "settings_reachable E port s" and "py_strip account = account"
    and "dget H ''settings'' = Some (settings_handler E port)"
    and "\<forall>a\<in>set (tp_actions p). pa_domain a = ''settings'' \<or> dget H (pa_domain a) = None"
    and "execute_plan H (action_context account c z said) tid guard (compile_plan p) s = (r, t)"
  shows "settings_ok E t \<and> others_untouched account s t \<and>
    (case r of Inl _ \<Rightarrow> True | Inr outcomes \<Rightarrow> length outcomes = length (tp_actions p))"
proof -
  have "dget H (pa_domain a) = dget (settings_handlers E port) (pa_domain a)" if "a \<in> set (tp_actions p)" for a
    using assms(3,4) that by (auto simp: settings_handlers_def)
  then have "execute_plan (settings_handlers E port) (action_context account c z said) tid guard (compile_plan p) s
      = (r, t)"
    using execute_plan_alike [of p H "settings_handlers E port"] assms(5) by simp
  then show ?thesis
    using settings_turn.plan_kept [of E s account port c z said tid guard "compile_plan p"]
      settings_reachable_ok [OF assms(1)] assms(2)
    by (cases r) (auto simp: wp_def compile_plan_def)
qed

definition two_step_plan :: turn_plan where
  "two_step_plan = \<lparr>tp_actions = [own_zone, own_zone\<lparr>pa_domain := ''weather''\<rparr>], tp_reply_necessity = ReplyNeeded\<rparr>"

definition planned_run :: "(pyexn + settled_outcome) \<times> settings_state" where
  "planned_run = execute_plan (settings_handlers two_zones True) (action_context ''alice'' ''c'' ''UTC'' None) ''t''
     (ret ()) (compile_plan two_step_plan) alice_viewed"

lemma planned_outcomes:
  "map_sum id (map ao_category) (fst planned_run) = Inr [CatDone, CatNotPossible] \<and>
   map_option ac_default_timezone (settings_get_account (snd planned_run) ''alice'') = Some ''Asia/Tokyo''"
  by code_simp

theorem turn_acts_for_its_account_witness:
  "others_untouched ''alice'' alice_viewed (snd planned_run) \<and>
   map_option ac_default_timezone (settings_get_account (snd planned_run) ''alice'') = Some ''Asia/Tokyo''"
proof -
  have alice: "py_strip ''alice'' = ''alice''" by code_simp
  have h: "dget (settings_handlers two_zones True) ''settings'' = Some (settings_handler two_zones True)"
    by (simp add: settings_handlers_def)
  have "\<forall>a\<in>set (tp_actions two_step_plan).
      pa_domain a = ''settings'' \<or> dget (settings_handlers two_zones True) (pa_domain a) = None"
    by (simp add: two_step_plan_def own_zone_def settings_handlers_def)
  from turn_acts_for_its_account [OF alice_viewed_reachable alice h this]
  have "others_untouched ''alice'' alice_viewed t"
    if "execute_plan (settings_handlers two_zones True) (action_context ''alice'' ''c'' ''UTC'' None) ''t'' (ret ())
      (compile_plan two_step_plan) alice_viewed = (r, t)" for r t
    using that by blast
  then show ?thesis using planned_outcomes by (metis planned_run_def prod.collapse)
qed

end
