(* ===== verification/Spec2Isabelle.thy ===== *)
theory Spec2Isabelle
  imports ConvProperties RemProperties SocProperties WebProperties SettingsProperties CalProperties GoogleCalendar TurnProperties
begin

text \<open>
  A verification library of the coke assistant: the domain services of \<open>src/coke/domains\<close>.

  \<^bold>\<open>The program.\<close> Coke is an assistant that people write to from a chat application. A message comes in
  through a provider's webhook; \<open>ChannelReachabilityService\<close> finds or makes the account and the
  channel it belongs to, with the help of \<open>IdentityAccessService\<close>; \<open>ConversationRuntimeService\<close>
  records it in the conversation's inbound ledger and runs turns over the open messages; a turn calls a
  language model and acts through the domains, \<open>ReminderService\<close> (reminders and their
  fires) and \<open>SocialSchedulingService\<close> (friends and the reminders they share); \<open>ReminderScheduler\<close> starts
  turns of its own when reminders are due; replies go back out through \<open>send_text\<close> of the channel
  service. \<open>SettingsService\<close> keeps what an account has told of itself and its assistant, and
  \<open>CalendarImportService\<close> makes reminders of the events of a Google calendar. Each domain has a \<open>Protocol\<close> for its repository, implemented once in memory and once over
  PostgreSQL; the services below run on the in-memory one.

  \<^bold>\<open>Conventions.\<close> A method is a computation of type \<open>('s, 'a) py\<close> (\<open>CokePrelude\<close>): it takes the state
  and gives \<open>Inl\<close> of the exception or \<open>Inr\<close> of the result, and the state reached, which a raise keeps,
  as in Python. A component's state is a record that extends \<open>svc\<close>, the counters of the clock and
  of the identifiers handed out; its dictionaries are association lists in insertion order. What
  the constructors take as arguments is a parameter: the clock, the identifiers, SHA-256, the
  time zone database and the local zone are the record \<open>env\<close>, read by the position in the run
  (\<open>env_now E n\<close> is the n-th reading of the clock); tokens, Argon2, mail, detectors, display names and
  the adapters of the providers are further port records. No law is assumed of any of them except where a theorem
  names it (for zones, that a fold moves the clock back by at most an hour).
  Text is ASCII text: \<open>str.lower\<close>, \<open>strip\<close>, \<open>isalnum\<close> and the ordering of strings are those of ASCII.
  Datetimes are naive or aware, counted in microseconds between Python's least and greatest
  (\<open>PyCalendar\<close>, \<open>PyDateTime\<close>); comparing a naive with an aware one raises.

  \<^bold>\<open>Rules of proof.\<close> \<open>wp m Q X s\<close> says that \<open>m\<close> run from \<open>s\<close> returns with \<open>Q\<close> or raises with \<open>X\<close>,
  \<open>preserves I m\<close> that \<open>m\<close> keeps \<open>I\<close> either way; \<open>wp_simps\<close> and \<open>preserves_intros\<close> walk a computation.
  Every domain has an invariant of its store (\<open>conv_ok\<close>, \<open>rem_ok\<close>, \<open>soc_ok\<close>, \<open>id_ok\<close>, \<open>chan_ok\<close>, \<open>settings_ok\<close>, \<open>cal_ok\<close>) and a
  relation saying how a later store extends an earlier one; every method keeps both whether it
  returns or raises; the calls of the service are a step relation, and the invariant holds in
  every state they reach from the empty store. The locale \<open>evolving\<close> (\<open>TableEvolution\<close>) lifts the edits
  allowed of one entry to tables and is interpreted for every table; \<open>settling\<close> and \<open>graded\<close>
  (\<open>ConvEvolution\<close>) are the abstract machines of dispositions and ledgers; \<open>atomic_store\<close>,
  \<open>owner_contract\<close> and \<open>store_contract\<close> (\<open>RemContract\<close>) are what the reminder service relies on and promises.
\<close>

section \<open>Conversation runtime\<close>

text \<open>
  \<open>domains/conversation_runtime\<close>. \<open>ConvRepository\<close>: \<open>models.py\<close> and \<open>InMemoryConversationRuntimeRepository\<close>
  (\<open>conv_state\<close> holds its dictionaries); \<open>ConvService\<close>: every method of \<open>service.py\<close>, the turn's close guard
  (\<open>ensure_turn_can_close\<close>) with all its refusals.

  \<open>ConvInvariant\<close>: indexes agree with dictionaries, inbound sequence numbers are dense and unique, a
  turn is completed exactly if its disposition is terminal. \<open>ConvEvolution\<close>: dispositions and ledgers move
  only along their abstract machines. \<open>ConvClosing\<close>, \<open>ConvInbound\<close>: what each method does on each branch.
  \<open>ConvRuntime\<close>: the step relation. \<open>ConvProperties\<close>: a reply closes exactly its window, a stale
  or superseded turn is refused and writes nothing, terminal dispositions are final, the early-stopping scan
  for waiting replies equals filtering and ordering; also the two replies that a deferred turn can give.
\<close>

section \<open>Reminders\<close>

text \<open>
  \<open>domains/reminder\<close>. \<open>RemTemporal\<close>: \<open>temporal.py\<close> and \<open>recurrence.py\<close>; \<open>RemRepository\<close>: \<open>models.py\<close> and the in-memory
  repository with its atomic write; \<open>RemService\<close>: \<open>service.py\<close> without the fires, \<open>RemFires\<close>: the fires and
  \<open>scheduler.py\<close>; \<open>RemCalendar\<close>: \<open>calendar_read_model.py\<close>.

  Loops: \<open>first_at_or_after\<close> is the loop over \<open>range(4096)\<close>, so its fuel is the code's own bound, and running out of
  it is the code's \<open>None\<close>. \<open>occurrences_between\<close> first skips occurrences before the range in a \<open>while\<close> that the
  code does not bound; it is a \<open>partial_function (option)\<close>, and \<open>occurrences_between_terminates\<close> shows that it
  ends for every accepted rule, in every zone of the database that moves its clocks back by at most an hour, for each
  step is then later by at least the rule's least interval; collecting stops at the code's limit of 256.

  \<open>RemRecurrence\<close>: canonical rules are fixed points and the next occurrence is later. \<open>RemContract\<close>, \<open>RemInvariant\<close>:
  what every operation keeps and for whom. \<open>RemOutcomes\<close>: creation and its replay, conflicts, fires.
  \<open>RemProperties\<close>: no duplicate active reminders, one fire per occurrence, isolation of accounts, atomic writes,
  idempotent creation, exact conflict check, what completing a fire does, and what goes wrong when the next occurrence
  cannot be computed.
\<close>

section \<open>Social scheduling\<close>

text \<open>
  \<open>domains/social_scheduling\<close>. \<open>SocAvailability\<close>: \<open>availability.py\<close>; \<open>PyText\<close>: splitting, \<open>json.dumps\<close>, UUIDs;
  \<open>SocRepository\<close>: \<open>models.py\<close> and the in-memory repository; \<open>SocService\<close>: \<open>notifications.py\<close> and friends, links and
  deliveries of \<open>service.py\<close>; \<open>SocShared\<close>: its shared reminders. Mirror reminders are entries of the state, and the
  turn dispositions that settling reads come from the conversation runtime's store (\<open>SocJoining\<close>).

  \<open>SocContract\<close>, \<open>SocKeeps\<close>, \<open>SocOps\<close>, \<open>SocSharedOps\<close>: the invariant and that every operation keeps it.
  \<open>SocOutcomes\<close>, \<open>SocJoining\<close>: what single operations do. \<open>SocRuntime\<close>: the step relation. \<open>SocCanonical\<close>: account
  ids are stored without dashes in every reachable store. \<open>SocProperties\<close>: conditions
  and effects of creating, cancelling and rescheduling, joining by a token, exactness of the
  windows shown to a friend, settling of recipients whose turn has ended.

  The in-memory repository's \<open>atomic()\<close> rolls nothing back, so neither does the model: a call that
  raises halfway leaves what it has written, and the invariant is shown to hold of that, too.
\<close>

section \<open>Identity and access\<close>

text \<open>
  \<open>domains/identity_access\<close>. \<open>IdRepository\<close>: \<open>models.py\<close>, the mails of \<open>email.py\<close> and the in-memory repository;
  \<open>IdService\<close>: \<open>service.py\<close> and \<open>passwords.py\<close>. \<open>IdContract\<close>, \<open>IdKeeps\<close>, \<open>IdOps\<close>: invariant, extension and operations;
  \<open>IdRuntime\<close>: the step relation and what stays as it was. \<open>IdProperties\<close>: unique addresses, one-time artifacts,
  claim codes that sign in only the browser they were made for, the exact access decision, permanent
  channel identities, and sessions that give back the account that logged in.
\<close>

section \<open>Channel reachability\<close>

text \<open>
  \<open>domains/channel_reachability\<close>. \<open>ChanRepository\<close>: \<open>models.py\<close> and the in-memory repository; \<open>ChanService\<close>:
  \<open>service.py\<close>. Its state \<open>chan_state\<close> has the identity service's store as a field, and \<open>identity_call\<close> runs that
  service's methods on it, so the two are composed as in the code. The texts handed to a provider are recorded in
  \<open>texts_sent\<close>; the adapters (\<open>chan_ports\<close>), the completion of deferred friend links and the time a
  send takes are parameters.

  \<open>ChanContract\<close>, \<open>ChanKeeps\<close>, \<open>ChanOps\<close>, \<open>ChanSending\<close>, \<open>ChanAccept\<close>: the invariant, of both stores, and the
  operations. \<open>ChanRuntime\<close>: the step relation, with the identity service's calls as steps of their own.
  \<open>ChanProperties\<close>: one active channel per account and one route per channel, a text is handed over at most
  once per provider and key and only by a connected channel, a removed channel never
  comes back, and an accepted message leaves its account with the channel of its address connected.
\<close>

section \<open>Providers and webhooks\<close>

text \<open>
  \<open>providers\<close>, \<open>api/provider_webhooks.py\<close>, \<open>infra/tracing.py\<close>. \<open>Tracing\<close>: trace contexts; \<open>Providers\<close>: the adapters of the
  four chat providers and the helpers of \<open>base.py\<close> over the JSON values that requests carry (\<open>json\<close>); \<open>Webhook\<close>:
  the route itself, on a state \<open>web_state\<close> that holds the stores of the channel, identity and conversation services,
  each service's methods run on its own part. Floats, the HTTP client, the shared
  secrets and the producers of random identifiers are parameters.

  \<open>ConvReplay\<close>: the outbox keys of recorded messages stay taken. \<open>WebProperties\<close>: an acknowledged event is
  in the ledger, its redelivery records nothing, and adapters freeze a payload exactly.
\<close>

section \<open>Account settings\<close>

text \<open>
  \<open>domains/settings\<close>. \<open>Settings\<close>: \<open>models.py\<close>, the in-memory repository and \<open>service.py\<close>, over a state that holds the
  store of the reminder service, whose proactive reminders are discarded when they are switched off. Arguments that a
  caller leaves out are \<open>None\<close>, and those given are the dynamic values \<open>pyval\<close> that the code checks.

  \<open>SettingsRuntime\<close>: the invariant, what each method does and the step relation. \<open>SettingsProperties\<close>: stored texts
  stay within their bounds, an accepted update has exactly the effect asked for, a refused one has none but, possibly,
  default settings where there were none and the time zone.
\<close>

section \<open>Calendar import\<close>

text \<open>
  \<open>domains/calendar_import\<close>. \<open>CalImport\<close>: \<open>models.py\<close>, the in-memory repository and the service of \<open>service.py\<close>; its
  state holds the store of the reminder service, whose \<open>execute_batch\<close> it calls (\<open>reminder_call\<close>). The events listed
  by Google and the answer of the access gate are ports. \<open>GoogleCalendar\<close>: of \<open>google.py\<close> the reading of recurrence rules
  and the expansion into occurrences; the times of a rule come from dateutil, which is a parameter.

  \<open>CalRuntime\<close>: the invariant, imports and the step relation, in which calls of the reminder service are steps, too.
  \<open>CalOutcomes\<close>: the reminder that an imported occurrence becomes. \<open>CalProperties\<close>: items, runs and counts agree,
  an imported occurrence is one new reminder, importing again creates nothing; also the event shared by two accounts
  that is imported for one of them only.
\<close>

section \<open>Turns\<close>

text \<open>
  \<open>turn/inbound\<close>. \<open>TurnPlan\<close>: \<open>contracts.py\<close>, \<open>param_schema.py\<close>, \<open>plan_compile.py\<close>, \<open>execute.py\<close> and the context that
  \<open>pipeline.py\<close> adds to every action; \<open>TurnSettings\<close>: \<open>handlers/settings.py\<close>. A plan comes from a language model and is
  any value of its type. The locale \<open>trusted_handlers\<close> is what a handler owes the executor when its action trusts
  the context, and is interpreted on the settings handler over the settings service.

  \<open>TurnProperties\<close>: handlers get only complete actions of the schema, with the turn's own account; carrying out
  any plan of settings actions changes nothing of other accounts.
\<close>

section \<open>Not modelled\<close>

text \<open>
  The PostgreSQL repositories, the schema and the migrations are SQL; the in-memory repositories implement the same
  protocols. The OAuth flow and the HTTP client of \<open>calendar_import/google.py\<close> are calls of external services.
  Of \<open>turn\<close> the handlers of the domains other than settings, the stages around the language model (planning,
  expressing, closing, pending clarifications, the display of times) and \<open>runner.py\<close>, and \<open>llm\<close>, which assembles its
  prompts and parses what it answers, are left out; the calls they make land in the services above, and the
  step relations allow them in any order and with any arguments. \<open>worker\<close> and \<open>scheduler\<close> are process
  loops over Redis streams and timers; the other routes of \<open>api\<close>, \<open>app.py\<close> and \<open>composition.py\<close> are HTTP and wiring;
  the rest of \<open>infra\<close> and \<open>observability\<close> are clients and logging; \<open>provider_edges\<close> are the processes that hold the
  connections to the chat networks. Tests, scripts and the web pages are left aside.
\<close>

end
